(* ===== verification/Prelude.thy ===== *)
theory Prelude
  imports Complex_Main "HOL-Library.List_Lexorder" "HOL-Library.Char_ord" "HOL-Library.Multiset"
begin

text \<open>
  Shared vocabulary of the development: the Python values the control plane passes around
  (strings, dictionaries, JSON documents, floats), the parts of the standard library the
  sources use on them, results that carry Python exceptions, and the process facilities
  (hashing, float printing and parsing) a run supplies.

  Conventions.  A \<open>str\<close> is a list of characters with code points below 256.  A float is
  an exact rational or one of the three special values: literals are read as their decimal
  value and arithmetic is not rounded.  A dictionary is an association list in insertion
  order, as in CPython.
\<close>

named_theorems dict_simps \<open>reading and writing dictionaries\<close>
named_theorems py_defs \<open>definitions unfolded together\<close>

section \<open>Errors\<close>

datatype py_error =
    ValueError string
  | TypeError string
  | KeyError string
  | OverflowError string
  | IndexError string
  | RuntimeError string
  | FileExistsError string
  | OSError string
  | AttributeError string
  | SqliteError string

type_synonym 'a result = "py_error + 'a"

definition rbind :: "'a result \<Rightarrow> ('a \<Rightarrow> 'b result) \<Rightarrow> 'b result" where
  "rbind r f = (case r of Inl e \<Rightarrow> Inl e | Inr x \<Rightarrow> f x)"

lemma rbind_simps [simp]:
  "rbind (Inl e) f = Inl e"
  "rbind (Inr x) f = f x"
  by (simp_all add: rbind_def)

lemma rbind_Inr_iff: "rbind r f = Inr y \<longleftrightarrow> (\<exists>x. r = Inr x \<and> f x = Inr y)"
  by (cases r) auto

lemma rbind_Inl_iff: "rbind r f = Inl e \<longleftrightarrow> r = Inl e \<or> (\<exists>x. r = Inr x \<and> f x = Inl e)"
  by (cases r) auto

lemma rbind_InrE:
  assumes "rbind r f = Inr y"
  obtains x where "r = Inr x" "f x = Inr y"
  using assms by (auto simp: rbind_Inr_iff)

text \<open>\<open>guard_that c e k\<close>: raise \<open>e\<close> unless \<open>c\<close> holds, then go on.\<close>

definition guard_that :: "bool \<Rightarrow> py_error \<Rightarrow> 'b result \<Rightarrow> 'b result" where
  "guard_that c e k = (if c then k else Inl e)"

lemma guard_that_simps [simp]:
  "guard_that True e k = k"
  "guard_that False e k = Inl e"
  by (simp_all add: guard_that_def)

lemma guard_that_Inr_iff: "guard_that c e k = Inr y \<longleftrightarrow> c \<and> k = Inr y"
  by (simp add: guard_that_def)

lemma guard_that_Inl_iff:
  "guard_that c e k = Inl d \<longleftrightarrow> (\<not> c \<and> d = e) \<or> (c \<and> k = Inl d)"
  by (auto simp: guard_that_def)

text \<open>A comprehension whose body may raise: the first exception wins.\<close>

fun rmap :: "('a \<Rightarrow> 'b result) \<Rightarrow> 'a list \<Rightarrow> 'b list result" where
  "rmap f [] = Inr []"
| "rmap f (x # xs) = rbind (f x) (\<lambda>y. rbind (rmap f xs) (\<lambda>ys. Inr (y # ys)))"

lemma rmap_Inr_length: "rmap f xs = Inr ys \<Longrightarrow> length ys = length xs"
  by (induction xs arbitrary: ys) (auto simp: rbind_Inr_iff)

lemma rmap_Inr_set: "rmap f xs = Inr ys \<Longrightarrow> y \<in> set ys \<Longrightarrow> \<exists>x \<in> set xs. f x = Inr y"
  by (induction xs arbitrary: ys) (auto simp: rbind_Inr_iff)

lemma rmap_Inr_mem: "rmap f xs = Inr ys \<Longrightarrow> x \<in> set xs \<Longrightarrow> \<exists>y \<in> set ys. f x = Inr y"
  by (induction xs arbitrary: ys) (auto simp: rbind_Inr_iff)

lemma rmap_total: "\<forall>x \<in> set xs. \<exists>y. f x = Inr y \<Longrightarrow> \<exists>ys. rmap f xs = Inr ys"
  by (induction xs) (auto simp: rbind_Inr_iff)

section \<open>Strings\<close>

definition code :: "char \<Rightarrow> nat" where
  "code c = of_char c"

definition is_space :: "char \<Rightarrow> bool" where
  "is_space c = (let n = code c in (9 \<le> n \<and> n \<le> 13) \<or> (28 \<le> n \<and> n \<le> 32) \<or> n = 133 \<or> n = 160)"

definition is_upper :: "char \<Rightarrow> bool" where
  "is_upper c = (let n = code c in (65 \<le> n \<and> n \<le> 90) \<or> (192 \<le> n \<and> n \<le> 222 \<and> n \<noteq> 215))"

definition is_digit :: "char \<Rightarrow> bool" where
  "is_digit c = (48 \<le> code c \<and> code c \<le> 57)"

definition is_lower :: "char \<Rightarrow> bool" where
  "is_lower c = (let n = code c in (97 \<le> n \<and> n \<le> 122) \<or> (223 \<le> n \<and> n \<noteq> 247)
     \<or> n = 170 \<or> n = 181 \<or> n = 186)"

definition is_alnum :: "char \<Rightarrow> bool" where
  "is_alnum c = (is_upper c \<or> is_lower c \<or> is_digit c
     \<or> code c \<in> {178, 179, 185, 188, 189, 190})"

definition lower_char :: "char \<Rightarrow> char" where
  "lower_char c = (if is_upper c then char_of (code c + 32) else c)"

definition lower :: "string \<Rightarrow> string" where
  "lower s = map lower_char s"

definition lstrip :: "string \<Rightarrow> string" where
  "lstrip s = dropWhile is_space s"

definition rstrip :: "string \<Rightarrow> string" where
  "rstrip s = rev (dropWhile is_space (rev s))"

definition strip :: "string \<Rightarrow> string" where
  "strip s = rstrip (lstrip s)"

text \<open>\<open>str.split()\<close> on runs of white space.\<close>

fun split_ws_aux :: "string \<Rightarrow> string \<Rightarrow> string list" where
  "split_ws_aux acc [] = (if acc = [] then [] else [rev acc])"
| "split_ws_aux acc (c # cs) =
     (if is_space c then (if acc = [] then split_ws_aux [] cs else rev acc # split_ws_aux [] cs)
      else split_ws_aux (c # acc) cs)"

definition split_ws :: "string \<Rightarrow> string list" where
  "split_ws s = split_ws_aux [] s"

fun join :: "string \<Rightarrow> string list \<Rightarrow> string" where
  "join sep [] = []"
| "join sep [x] = x"
| "join sep (x # y # xs) = x @ sep @ join sep (y # xs)"

definition starts_with :: "string \<Rightarrow> string \<Rightarrow> bool" where
  "starts_with s p = (take (length p) s = p)"

definition ends_with :: "string \<Rightarrow> string \<Rightarrow> bool" where
  "ends_with s p = starts_with (rev s) (rev p)"

fun contains_str :: "string \<Rightarrow> string \<Rightarrow> bool" where
  "contains_str [] p = (p = [])"
| "contains_str (c # cs) p = (starts_with (c # cs) p \<or> contains_str cs p)"

text \<open>Replacing one character by another, as \<open>str.replace\<close> does for one-character strings.\<close>

definition replace_char :: "char \<Rightarrow> char \<Rightarrow> string \<Rightarrow> string" where
  "replace_char a b s = map (\<lambda>c. if c = a then b else c) s"

fun split_on :: "char \<Rightarrow> string \<Rightarrow> string list" where
  "split_on d [] = [[]]"
| "split_on d (c # cs) =
     (if c = d then [] # split_on d cs
      else (case split_on d cs of [] \<Rightarrow> [[c]] | w # ws \<Rightarrow> (c # w) # ws))"

definition is_ascii :: "string \<Rightarrow> bool" where
  "is_ascii s = list_all (\<lambda>c. code c < 128) s"

lemma dropWhile_idem: "dropWhile P (dropWhile P xs) = dropWhile P xs"
  by (induction xs) auto

lemma lstrip_idem [simp]: "lstrip (lstrip s) = lstrip s"
  by (simp add: lstrip_def dropWhile_idem)

lemma rstrip_idem [simp]: "rstrip (rstrip s) = rstrip s"
  by (simp add: rstrip_def dropWhile_idem)

lemma rstrip_Nil_iff: "rstrip s = [] \<longleftrightarrow> list_all is_space s"
  by (auto simp: rstrip_def dropWhile_eq_Nil_conv list_all_iff)

lemma rstrip_Cons: "\<not> is_space c \<Longrightarrow> rstrip (c # s) = c # rstrip s"
  by (auto simp: rstrip_def dropWhile_append dropWhile_eq_Nil_conv)

lemma strip_Nil [simp]: "lstrip [] = []" "rstrip [] = []" "strip [] = []"
  by (simp_all add: lstrip_def rstrip_def strip_def)

lemma lstrip_cases: "lstrip s = [] \<or> (\<exists>c t. lstrip s = c # t \<and> \<not> is_space c)"
  by (cases "lstrip s") (auto simp: lstrip_def dropWhile_eq_Cons_conv)

lemma strip_idem [simp]: "strip (strip s) = strip s"
proof -
  consider "lstrip s = []" | c t where "lstrip s = c # t" "\<not> is_space c"
    using lstrip_cases by blast
  then show ?thesis
  proof cases
    case 1
    then show ?thesis by (simp add: strip_def)
  next
    case 2
    then have "lstrip (rstrip (lstrip s)) = rstrip (lstrip s)"
      by (simp add: rstrip_Cons lstrip_def)
    then show ?thesis by (simp add: strip_def)
  qed
qed

lemma rstrip_append: "rstrip (xs @ ys) = (if rstrip ys = [] then rstrip xs else xs @ rstrip ys)"
  by (auto simp: rstrip_def dropWhile_append dropWhile_eq_Nil_conv)

lemma strip_prefixed:
  assumes "\<not> is_space c" "strip t \<noteq> []"
  shows "strip (c # p @ strip t) = c # p @ strip t"
proof -
  have r: "rstrip (strip t) = strip t" by (simp add: strip_def)
  have "rstrip ((c # p) @ strip t) = (c # p) @ strip t"
    using assms(2) by (simp only: rstrip_append r if_False)
  then show ?thesis using assms(1) by (simp add: strip_def lstrip_def)
qed

lemma split_ws_nonblank:
  assumes "list_all (\<lambda>c. \<not> is_space c) acc" and "w \<in> set (split_ws_aux acc s)"
  shows "w \<noteq> [] \<and> list_all (\<lambda>c. \<not> is_space c) w"
  using assms
proof (induction acc s rule: split_ws_aux.induct)
  case (1 acc)
  then show ?case by (auto simp: list_all_iff split: if_splits)
next
  case (2 acc c cs)
  then show ?case by (cases "is_space c"; cases "acc = []") (auto simp: list_all_iff)
qed

lemma starts_with_append [simp]: "starts_with (p @ s) p"
  by (simp add: starts_with_def)

lemma starts_with_iff: "starts_with s p \<longleftrightarrow> (\<exists>t. s = p @ t)"
  unfolding starts_with_def by (metis append_eq_conv_conj)

section \<open>Sequences\<close>

text \<open>\<open>list(dict.fromkeys(xs))\<close>: the first occurrence of every element, in order.\<close>

fun uniq_aux :: "'a set \<Rightarrow> 'a list \<Rightarrow> 'a list" where
  "uniq_aux seen [] = []"
| "uniq_aux seen (x # xs) =
     (if x \<in> seen then uniq_aux seen xs else x # uniq_aux (insert x seen) xs)"

definition uniq :: "'a list \<Rightarrow> 'a list" where
  "uniq xs = uniq_aux {} xs"

lemma set_uniq_aux: "set (uniq_aux seen xs) = set xs - seen"
  by (induction seen xs rule: uniq_aux.induct) auto

lemma distinct_uniq_aux: "distinct (uniq_aux seen xs)"
  by (induction seen xs rule: uniq_aux.induct) (auto simp: set_uniq_aux)

lemma set_uniq [simp]: "set (uniq xs) = set xs"
  by (simp add: uniq_def set_uniq_aux)

lemma distinct_uniq [simp]: "distinct (uniq xs)"
  by (simp add: uniq_def distinct_uniq_aux)

lemma uniq_aux_id: "distinct xs \<Longrightarrow> set xs \<inter> seen = {} \<Longrightarrow> uniq_aux seen xs = xs"
  by (induction seen xs rule: uniq_aux.induct) auto

lemma uniq_id [simp]: "distinct xs \<Longrightarrow> uniq xs = xs"
  by (simp add: uniq_def uniq_aux_id)

lemma uniq_Nil_iff [simp]: "uniq xs = [] \<longleftrightarrow> xs = []"
proof
  assume "uniq xs = []"
  then have "set xs = {}" using set_uniq [of xs] by simp
  then show "xs = []" by simp
qed (simp add: uniq_def)

text \<open>Python slices \<open>xs[-n:]\<close> for a positive \<open>n\<close>.\<close>

definition last_n :: "nat \<Rightarrow> 'a list \<Rightarrow> 'a list" where
  "last_n n xs = drop (length xs - n) xs"

lemma length_last_n: "length (last_n n xs) = min n (length xs)"
  by (simp add: last_n_def)

lemma set_last_n_subset: "set (last_n n xs) \<subseteq> set xs"
  by (simp add: last_n_def set_drop_subset)

end
