(* ===== verification/PyJson.thy ===== *)
theory PyJson
  imports Prelude
begin

text \<open>
  Python dictionaries, floats and JSON documents.  \<open>dget\<close>, \<open>dset\<close> and \<open>dpop\<close> are the
  dictionary operations the sources use; the locale \<open>dictionary\<close> states the laws their clients
  rely on and is interpreted on them.  The second half holds \<open>json.dumps\<close> (compact
  separators), \<open>str\<close>, \<open>float\<close> and \<open>int\<close> as applied to JSON values.
\<close>

section \<open>Dictionaries\<close>

type_synonym 'a dict = "(string \<times> 'a) list"

definition dget :: "'a dict \<Rightarrow> string \<Rightarrow> 'a option" where
  "dget d k = map_of d k"

text \<open>\<open>d[k] = v\<close>: an existing key keeps its position, a new one goes last.\<close>

fun dset :: "'a dict \<Rightarrow> string \<Rightarrow> 'a \<Rightarrow> 'a dict" where
  "dset [] k v = [(k, v)]"
| "dset ((k', v') # d) k v = (if k' = k then (k, v) # d else (k', v') # dset d k v)"

definition dpop :: "'a dict \<Rightarrow> string \<Rightarrow> 'a dict" where
  "dpop d k = filter (\<lambda>(k', _). k' \<noteq> k) d"

definition dkeys :: "'a dict \<Rightarrow> string list" where
  "dkeys d = map fst d"

definition dict_wf :: "'a dict \<Rightarrow> bool" where
  "dict_wf d = distinct (dkeys d)"

text \<open>\<open>dict(sorted(d.items()))\<close>: keys are distinct, so only keys decide the order.\<close>

definition dsort :: "'a dict \<Rightarrow> 'a dict" where
  "dsort d = sort_key fst d"

locale dictionary =
  fixes get :: "'d \<Rightarrow> 'k \<Rightarrow> 'v option"
    and put :: "'d \<Rightarrow> 'k \<Rightarrow> 'v \<Rightarrow> 'd"
    and pop :: "'d \<Rightarrow> 'k \<Rightarrow> 'd"
    and wf :: "'d \<Rightarrow> bool"
  assumes get_put: "get (put d k v) k' = (if k' = k then Some v else get d k')"
    and get_pop: "get (pop d k) k' = (if k' = k then None else get d k')"
    and wf_put: "wf d \<Longrightarrow> wf (put d k v)"
    and wf_pop: "wf d \<Longrightarrow> wf (pop d k)"
    and pop_put_same: "pop (put d k v) k = pop d k"
begin

lemma get_put_same: "get (put d k v) k = Some v"
  by (simp add: get_put)

lemma get_put_other: "k' \<noteq> k \<Longrightarrow> get (put d k v) k' = get d k'"
  by (simp add: get_put)

lemma get_pop_put: "get (pop (put d k v) k) k' = get (pop d k) k'"
  by (simp add: pop_put_same)

fun puts :: "'d \<Rightarrow> ('k \<times> 'v) list \<Rightarrow> 'd" where
  "puts d [] = d"
| "puts d ((k, v) # kvs) = puts (put d k v) kvs"

lemma get_puts_frame: "k \<notin> fst ` set kvs \<Longrightarrow> get (puts d kvs) k = get d k"
  by (induction d kvs rule: puts.induct) (auto simp: get_put)

lemma wf_puts: "wf d \<Longrightarrow> wf (puts d kvs)"
  by (induction d kvs rule: puts.induct) (auto simp: wf_put)

end

lemma dget_dset [simp]: "dget (dset d k v) k' = (if k' = k then Some v else dget d k')"
  by (induction d k v rule: dset.induct) (auto simp: dget_def)

lemma map_of_filter_key:
  "map_of (filter (\<lambda>(k', _). k' \<noteq> k) d) k' = (if k' = k then None else map_of d k')"
  by (induction d) auto

lemma dget_dpop [simp]: "dget (dpop d k) k' = (if k' = k then None else dget d k')"
  by (simp add: dget_def dpop_def map_of_filter_key)

lemma set_dset: "set (dset d k v) \<subseteq> insert (k, v) (set d)"
  by (induction d k v rule: dset.induct) auto

lemma dkeys_dset: "dkeys (dset d k v) = (if k \<in> set (dkeys d) then dkeys d else dkeys d @ [k])"
  by (induction d k v rule: dset.induct) (auto simp: dkeys_def)

lemma set_dkeys_iff: "k \<in> set (dkeys d) \<longleftrightarrow> dget d k \<noteq> None"
  by (induction d) (auto simp: dkeys_def dget_def)

lemma dict_wf_dset [simp]: "dict_wf d \<Longrightarrow> dict_wf (dset d k v)"
  by (simp add: dict_wf_def dkeys_dset)

lemma dict_wf_dpop [simp]: "dict_wf d \<Longrightarrow> dict_wf (dpop d k)"
  by (simp add: dict_wf_def dkeys_def dpop_def distinct_map_filter)

lemma dpop_dset_same [simp]: "dpop (dset d k v) k = dpop d k"
  by (induction d k v rule: dset.induct) (auto simp: dpop_def)

lemma dpop_fresh: "dget d k = None \<Longrightarrow> dpop d k = d"
  by (induction d) (auto simp: dget_def dpop_def split: if_splits)

lemma dpop_idem [simp]: "dpop (dpop d k) k = dpop d k"
  by (simp add: dpop_def)

interpretation py_dict: dictionary dget dset dpop dict_wf
  by unfold_locales auto

lemmas [dict_simps] = py_dict.get_put_same py_dict.get_put_other py_dict.get_pop_put

lemma dget_Cons [dict_simps]:
  "dget ((k', v) # d) k = (if k' = k then Some v else dget d k)"
  by (simp add: dget_def)

lemma dget_Nil [simp]: "dget [] k = None"
  by (simp add: dget_def)

lemma map_of_sort_key:
  assumes "distinct (map fst d)"
  shows "map_of (sort_key fst d) k = map_of d k"
proof -
  have "mset (map fst (sort_key fst d)) = mset (map fst d)" by simp
  then have "distinct (map fst (sort_key fst d))"
    using assms mset_eq_imp_distinct_iff by blast
  then show ?thesis
    using assms by (metis map_of_eqI not_None_eq map_of_eq_Some_iff set_sort list.set_map)
qed

lemma dget_dsort: "dict_wf d \<Longrightarrow> dget (dsort d) k = dget d k"
  by (simp add: dget_def dsort_def dict_wf_def dkeys_def map_of_sort_key)

section \<open>Floats\<close>

datatype pyfloat = Fin rat | PosInf | NegInf | NaN

definition fl_finite :: "pyfloat \<Rightarrow> bool" where
  "fl_finite x = (case x of Fin _ \<Rightarrow> True | _ \<Rightarrow> False)"

fun fl_lt :: "pyfloat \<Rightarrow> pyfloat \<Rightarrow> bool" where
  "fl_lt NaN _ = False"
| "fl_lt _ NaN = False"
| "fl_lt (Fin a) (Fin b) = (a < b)"
| "fl_lt NegInf y = (y \<noteq> NegInf)"
| "fl_lt PosInf _ = False"
| "fl_lt (Fin _) PosInf = True"
| "fl_lt (Fin _) NegInf = False"

definition fl_le :: "pyfloat \<Rightarrow> pyfloat \<Rightarrow> bool" where
  "fl_le x y = (fl_lt x y \<or> (x = y \<and> x \<noteq> NaN))"

fun fl_add :: "pyfloat \<Rightarrow> pyfloat \<Rightarrow> pyfloat" where
  "fl_add NaN _ = NaN"
| "fl_add _ NaN = NaN"
| "fl_add (Fin a) (Fin b) = Fin (a + b)"
| "fl_add (Fin _) y = y"
| "fl_add x (Fin _) = x"
| "fl_add PosInf PosInf = PosInf"
| "fl_add NegInf NegInf = NegInf"
| "fl_add PosInf NegInf = NaN"
| "fl_add NegInf PosInf = NaN"

definition fl_signed_inf :: "bool \<Rightarrow> pyfloat" where
  "fl_signed_inf pos = (if pos then PosInf else NegInf)"

fun fl_mul :: "pyfloat \<Rightarrow> pyfloat \<Rightarrow> pyfloat" where
  "fl_mul NaN _ = NaN"
| "fl_mul _ NaN = NaN"
| "fl_mul (Fin a) (Fin b) = Fin (a * b)"
| "fl_mul (Fin a) y = (if a = 0 then NaN else fl_signed_inf ((0 < a) = (y = PosInf)))"
| "fl_mul x (Fin b) = (if b = 0 then NaN else fl_signed_inf ((0 < b) = (x = PosInf)))"
| "fl_mul x y = fl_signed_inf (x = y)"

fun fl_neg :: "pyfloat \<Rightarrow> pyfloat" where
  "fl_neg (Fin a) = Fin (- a)"
| "fl_neg PosInf = NegInf"
| "fl_neg NegInf = PosInf"
| "fl_neg NaN = NaN"

definition fl_sub :: "pyfloat \<Rightarrow> pyfloat \<Rightarrow> pyfloat" where
  "fl_sub x y = fl_add x (fl_neg y)"

fun fl_abs :: "pyfloat \<Rightarrow> pyfloat" where
  "fl_abs (Fin a) = Fin \<bar>a\<bar>"
| "fl_abs NaN = NaN"
| "fl_abs _ = PosInf"

text \<open>\<open>round(x, n)\<close> on a finite float, and \<open>max\<close>/\<open>min\<close> with Python's first-argument rule
  for incomparable values.\<close>

definition round_half_even :: "rat \<Rightarrow> int" where
  "round_half_even r = (let f = \<lfloor>r\<rfloor>; d = r - of_int f in
     if d < 1/2 then f else if d > 1/2 then f + 1 else if even f then f else f + 1)"

definition round_to :: "nat \<Rightarrow> rat \<Rightarrow> rat" where
  "round_to n r = of_int (round_half_even (r * 10 ^ n)) / 10 ^ n"

definition fl_max :: "pyfloat \<Rightarrow> pyfloat \<Rightarrow> pyfloat" where
  "fl_max x y = (if fl_lt x y then y else x)"

definition fl_min :: "pyfloat \<Rightarrow> pyfloat \<Rightarrow> pyfloat" where
  "fl_min x y = (if fl_lt y x then y else x)"

lemma round_half_even_bound: "\<bar>of_int (round_half_even r) - r\<bar> \<le> 1/2"
proof -
  have "of_int \<lfloor>r\<rfloor> \<le> r" by (rule of_int_floor_le)
  moreover have "r < of_int \<lfloor>r\<rfloor> + 1" by linarith
  ultimately show ?thesis by (simp add: round_half_even_def Let_def abs_if) linarith
qed

lemma round_half_even_mono: "a \<le> b \<Longrightarrow> round_half_even a \<le> round_half_even b"
proof (rule ccontr)
  assume ab: "a \<le> b" and n: "\<not> round_half_even a \<le> round_half_even b"
  have a: "\<bar>of_int (round_half_even a) - a\<bar> \<le> 1/2" and b: "\<bar>of_int (round_half_even b) - b\<bar> \<le> 1/2"
    by (rule round_half_even_bound)+
  from n have ge: "rat_of_int (round_half_even b) + 1 \<le> of_int (round_half_even a)" by linarith
  with a b ab have eq: "a = b" by (simp add: abs_le_iff)
  then show False using n by simp
qed

lemma round_to_mono: "a \<le> b \<Longrightarrow> round_to n a \<le> round_to n b"
  by (simp add: round_to_def divide_right_mono mult_right_mono round_half_even_mono)

lemma round_half_even_int [simp]: "round_half_even (of_int k) = k"
  by (simp add: round_half_even_def Let_def)

lemma round_to_0_1 [simp]: "round_to n 0 = 0" "round_to n 1 = 1"
proof -
  show "round_to n 0 = 0" using round_half_even_int [of 0] by (simp add: round_to_def)
  have "round_half_even (1 * 10 ^ n) = 10 ^ n" using round_half_even_int [of "10 ^ n"] by simp
  then show "round_to n 1 = 1" by (simp add: round_to_def)
qed

lemma round_to_unit: "0 \<le> r \<Longrightarrow> r \<le> 1 \<Longrightarrow> 0 \<le> round_to n r \<and> round_to n r \<le> 1"
  using round_to_mono [of 0 r n] round_to_mono [of r 1 n] by simp

lemma round_to_of_nat [simp]: "round_to n (of_nat k) = of_nat k"
proof -
  have "round_half_even (of_nat k * 10 ^ n) = int k * 10 ^ n"
    using round_half_even_int [of "int k * 10 ^ n"] by simp
  then show ?thesis by (simp add: round_to_def)
qed

section \<open>JSON values\<close>

datatype json =
    JNull
  | JBool bool
  | JInt int
  | JFloat pyfloat
  | JStr string
  | JList "json list"
  | JDict "(string \<times> json) list"

fun truthy :: "json \<Rightarrow> bool" where
  "truthy JNull = False"
| "truthy (JBool b) = b"
| "truthy (JInt i) = (i \<noteq> 0)"
| "truthy (JFloat x) = (x \<noteq> Fin 0)"
| "truthy (JStr s) = (s \<noteq> [])"
| "truthy (JList xs) = (xs \<noteq> [])"
| "truthy (JDict d) = (d \<noteq> [])"

text \<open>\<open>v or {}\<close>, of which an entry is then read.\<close>

definition or_empty :: "json \<Rightarrow> (string \<times> json) list result" where
  "or_empty v = (if truthy v then (case v of JDict d \<Rightarrow> Inr d
     | _ \<Rightarrow> Inl (AttributeError ''object has no attribute get'')) else Inr [])"

text \<open>\<open>d.get(k)\<close> and \<open>d.get(k, default)\<close>.\<close>

definition jget :: "json dict \<Rightarrow> string \<Rightarrow> json" where
  "jget d k = (case dget d k of None \<Rightarrow> JNull | Some v \<Rightarrow> v)"

definition jget_or :: "json dict \<Rightarrow> string \<Rightarrow> json \<Rightarrow> json" where
  "jget_or d k v = (case dget d k of None \<Rightarrow> v | Some w \<Rightarrow> w)"

text \<open>Value equality: booleans, integers and floats compare by number, dictionaries regardless
  of order; a NaN equals nothing.\<close>

primrec numeric_form :: "json \<Rightarrow> json" where
  "numeric_form JNull = JNull"
| "numeric_form (JBool b) = JInt (if b then 1 else 0)"
| "numeric_form (JInt i) = JInt i"
| "numeric_form (JFloat x) = (case x of
     Fin r \<Rightarrow> (if of_int \<lfloor>r\<rfloor> = r then JInt \<lfloor>r\<rfloor> else JFloat x) | _ \<Rightarrow> JFloat x)"
| "numeric_form (JStr s) = JStr s"
| "numeric_form (JList xs) = JList (map numeric_form xs)"
| "numeric_form (JDict d) = JDict (sort_key fst (map (map_prod id numeric_form) d))"

primrec has_nan :: "json \<Rightarrow> bool" where
  "has_nan JNull = False"
| "has_nan (JBool b) = False"
| "has_nan (JInt i) = False"
| "has_nan (JFloat x) = (x = NaN)"
| "has_nan (JStr s) = False"
| "has_nan (JList xs) = list_ex id (map has_nan xs)"
| "has_nan (JDict d) = list_ex snd (map (map_prod id has_nan) d)"

definition py_eq :: "json \<Rightarrow> json \<Rightarrow> bool" where
  "py_eq a b = (numeric_form a = numeric_form b \<and> \<not> has_nan a)"

definition as_dict :: "json \<Rightarrow> json dict option" where
  "as_dict v = (case v of JDict d \<Rightarrow> Some d | _ \<Rightarrow> None)"

definition is_dict :: "json \<Rightarrow> bool" where
  "is_dict v = (case v of JDict _ \<Rightarrow> True | _ \<Rightarrow> False)"

definition is_list :: "json \<Rightarrow> bool" where
  "is_list v = (case v of JList _ \<Rightarrow> True | _ \<Rightarrow> False)"

lemma jget_dset [simp]: "jget (dset d k v) k' = (if k' = k then v else jget d k')"
  by (simp add: jget_def)

lemma jget_dpop [simp]: "jget (dpop d k) k' = (if k' = k then JNull else jget d k')"
  by (simp add: jget_def)

lemma jget_or_dset [simp]: "jget_or (dset d k v) k' e = (if k' = k then v else jget_or d k' e)"
  by (simp add: jget_or_def)

lemma jget_or_dpop [simp]: "jget_or (dpop d k) k' e = (if k' = k then e else jget_or d k' e)"
  by (simp add: jget_or_def)

lemma jget_Cons [dict_simps]: "jget ((k', v) # d) k = (if k' = k then v else jget d k)"
  by (simp add: jget_def dget_def)

lemma jget_or_Cons [dict_simps]:
  "jget_or ((k', v) # d) k e = (if k' = k then v else jget_or d k e)"
  by (simp add: jget_or_def dget_def)

lemma jget_Nil [simp]: "jget [] k = JNull" "jget_or [] k v = v"
  by (simp_all add: jget_def jget_or_def)

lemma jget_or_eq_jget: "jget d k \<noteq> JNull \<Longrightarrow> jget_or d k v = jget d k"
  by (simp add: jget_def jget_or_def split: option.splits)

lemma py_eq_JStr [simp]: "py_eq (JStr s) v \<longleftrightarrow> v = JStr s"
  by (cases v) (auto simp: py_eq_def split: pyfloat.splits)

lemma numeric_form_JStr [simp]: "numeric_form v = JStr s \<longleftrightarrow> v = JStr s"
  by (cases v) (auto split: pyfloat.splits)

lemma py_eq_JStr2 [simp]: "py_eq v (JStr s) \<longleftrightarrow> v = JStr s"
  by (cases v) (auto simp: py_eq_def split: pyfloat.splits)

lemma py_eq_JNull2 [simp]: "py_eq v JNull \<longleftrightarrow> v = JNull"
  by (cases v) (auto simp: py_eq_def split: pyfloat.splits)

lemma py_eq_JInt [simp]: "py_eq (JInt i) (JInt j) \<longleftrightarrow> i = j"
  by (simp add: py_eq_def)

lemma py_eq_refl: "\<not> has_nan v \<Longrightarrow> py_eq v v"
  by (simp add: py_eq_def)

end
