(* ===== verification/PyText.thy ===== *)
theory PyText
  imports PyJson
begin

text \<open>
  Text forms of JSON values as the sources produce them: \<open>json.dumps\<close> with compact
  separators and sorted keys, UTF-8 encoding, \<open>str\<close>/\<open>repr\<close>, and the numeric conversions
  \<open>int\<close> and \<open>float\<close>.  What the process itself supplies (the SHA-256 and HMAC-SHA-256 digest
  bytes, the shortest decimal form of a float and the reading of one) are the fields of the
  record \<open>runtime\<close>, so every theorem holds for any such functions.
\<close>

record runtime =
  rt_sha256 :: "string \<Rightarrow> string"
  rt_hmac :: "string \<Rightarrow> string \<Rightarrow> string"
  rt_float_repr :: "rat \<Rightarrow> string"
  rt_parse_float :: "string \<Rightarrow> pyfloat option"

section \<open>Printing\<close>

fun nat_dec :: "nat \<Rightarrow> string" where
  "nat_dec n = (if n < 10 then [char_of (48 + n)] else nat_dec (n div 10) @ [char_of (48 + n mod 10)])"

declare nat_dec.simps [simp del]

definition int_dec :: "int \<Rightarrow> string" where
  "int_dec i = (if i < 0 then CHR ''-'' # nat_dec (nat (- i)) else nat_dec (nat i))"

text \<open>\<open>f"{n:06d}"\<close>\<close>

definition pad_dec :: "nat \<Rightarrow> int \<Rightarrow> string" where
  "pad_dec w i = (let s = nat_dec (nat \<bar>i\<bar>); sg = (if i < 0 then ''-'' else []) in
     sg @ replicate (w - length sg - length s) (CHR ''0'') @ s)"

definition hex_digit :: "nat \<Rightarrow> char" where
  "hex_digit n = ''0123456789abcdef'' ! (n mod 16)"

definition json_char :: "bool \<Rightarrow> char \<Rightarrow> string" where
  "json_char ascii c = (let n = code c in
     if n = 34 then [char_of (92::nat), char_of (34::nat)]
     else if n = 92 then [char_of (92::nat), char_of (92::nat)]
     else if n = 10 then char_of (92::nat) # ''n''
     else if n = 13 then char_of (92::nat) # ''r''
     else if n = 9 then char_of (92::nat) # ''t''
     else if n = 8 then char_of (92::nat) # ''b''
     else if n = 12 then char_of (92::nat) # ''f''
     else if n < 32 \<or> (ascii \<and> 126 < n)
       then char_of (92::nat) # ''u00'' @ [hex_digit (n div 16), hex_digit n]
     else [c])"

definition json_string :: "bool \<Rightarrow> string \<Rightarrow> string" where
  "json_string ascii s = [char_of (34::nat)] @ concat (map (json_char ascii) s) @ [char_of (34::nat)]"

text \<open>\<open>json.dumps(v, separators=(",", ":"), ensure_ascii=ascii)\<close>\<close>

primrec dumps :: "bool \<Rightarrow> (rat \<Rightarrow> string) \<Rightarrow> json \<Rightarrow> string" where
  "dumps a fr JNull = ''null''"
| "dumps a fr (JBool b) = (if b then ''true'' else ''false'')"
| "dumps a fr (JInt i) = int_dec i"
| "dumps a fr (JFloat x) = (case x of Fin r \<Rightarrow> fr r | PosInf \<Rightarrow> ''Infinity''
     | NegInf \<Rightarrow> ''-Infinity'' | NaN \<Rightarrow> ''NaN'')"
| "dumps a fr (JStr s) = json_string a s"
| "dumps a fr (JList xs) = ''['' @ join '','' (map (dumps a fr) xs) @ '']''"
| "dumps a fr (JDict d) = ''{'' @ join '',''
     (map (\<lambda>(k, t). json_string a k @ '':'' @ t) (map (map_prod id (dumps a fr)) d)) @ ''}''"

text \<open>\<open>sort_keys=True\<close>: dictionaries at every depth in key order.\<close>

primrec sort_keys :: "json \<Rightarrow> json" where
  "sort_keys JNull = JNull"
| "sort_keys (JBool b) = JBool b"
| "sort_keys (JInt i) = JInt i"
| "sort_keys (JFloat x) = JFloat x"
| "sort_keys (JStr s) = JStr s"
| "sort_keys (JList xs) = JList (map sort_keys xs)"
| "sort_keys (JDict d) = JDict (sort_key fst (map (map_prod id sort_keys) d))"

text \<open>\<open>allow_nan=False\<close> raises when some float is not finite.\<close>

primrec all_finite :: "json \<Rightarrow> bool" where
  "all_finite JNull = True"
| "all_finite (JBool b) = True"
| "all_finite (JInt i) = True"
| "all_finite (JFloat x) = fl_finite x"
| "all_finite (JStr s) = True"
| "all_finite (JList xs) = list_all id (map all_finite xs)"
| "all_finite (JDict d) = list_all snd (map (map_prod id all_finite) d)"

text \<open>\<open>str.encode()\<close>: UTF-8 bytes.\<close>

definition utf8_char :: "char \<Rightarrow> string" where
  "utf8_char c = (let n = code c in
     if n < 128 then [c] else [char_of (192 + n div 64), char_of (128 + n mod 64)])"

definition utf8 :: "string \<Rightarrow> string" where
  "utf8 s = concat (map utf8_char s)"

text \<open>\<open>hexdigest()\<close> of the digest bytes.\<close>

definition hexdigest :: "string \<Rightarrow> string" where
  "hexdigest bs = concat (map (\<lambda>c. [hex_digit (code c div 16), hex_digit (code c)]) bs)"

definition canonical :: "runtime \<Rightarrow> json \<Rightarrow> string" where
  "canonical rt v = utf8 (dumps False (rt_float_repr rt) (sort_keys v))"

definition sha256_json :: "runtime \<Rightarrow> json \<Rightarrow> string" where
  "sha256_json rt v = hexdigest (rt_sha256 rt (canonical rt v))"

section \<open>\<open>str\<close>\<close>

definition printable :: "char \<Rightarrow> bool" where
  "printable c = (let n = code c in (32 \<le> n \<and> n \<le> 126) \<or> (161 \<le> n \<and> n \<noteq> 173))"

definition repr_char :: "nat \<Rightarrow> char \<Rightarrow> string" where
  "repr_char q c = (let n = code c in
     if n = q \<or> n = 92 then [char_of (92::nat), c]
     else if n = 10 then char_of (92::nat) # ''n''
     else if n = 13 then char_of (92::nat) # ''r''
     else if n = 9 then char_of (92::nat) # ''t''
     else if \<not> printable c then char_of (92::nat) # ''x'' @ [hex_digit (n div 16), hex_digit n]
     else [c])"

definition repr_string :: "string \<Rightarrow> string" where
  "repr_string s = (let q = (if char_of (39::nat) \<in> set s \<and> char_of (34::nat) \<notin> set s then 34 else 39::nat) in
     char_of q # concat (map (repr_char q) s) @ [char_of q])"

primrec py_repr :: "(rat \<Rightarrow> string) \<Rightarrow> json \<Rightarrow> string" where
  "py_repr fr JNull = ''None''"
| "py_repr fr (JBool b) = (if b then ''True'' else ''False'')"
| "py_repr fr (JInt i) = int_dec i"
| "py_repr fr (JFloat x) = (case x of Fin r \<Rightarrow> fr r | PosInf \<Rightarrow> ''inf'' | NegInf \<Rightarrow> ''-inf'' | NaN \<Rightarrow> ''nan'')"
| "py_repr fr (JStr s) = repr_string s"
| "py_repr fr (JList xs) = ''['' @ join '', '' (map (py_repr fr) xs) @ '']''"
| "py_repr fr (JDict d) = ''{'' @ join '', ''
     (map (\<lambda>(k, t). repr_string k @ '': '' @ t) (map (map_prod id (py_repr fr)) d)) @ ''}''"

definition py_str :: "runtime \<Rightarrow> json \<Rightarrow> string" where
  "py_str rt v = (case v of JStr s \<Rightarrow> s | _ \<Rightarrow> py_repr (rt_float_repr rt) v)"

lemma py_str_JStr [simp]: "py_str rt (JStr s) = s"
  by (simp add: py_str_def)

lemma py_str_const [simp]:
  "py_str rt JNull = ''None''"
  "py_str rt (JBool b) = (if b then ''True'' else ''False'')"
  "py_str rt (JInt i) = int_dec i"
  by (simp_all add: py_str_def)

text \<open>\<open>x or default\<close> and \<open>str(v or "")\<close>\<close>

definition py_or :: "json \<Rightarrow> json \<Rightarrow> json" where
  "py_or x y = (if truthy x then x else y)"

definition text_or_empty :: "runtime \<Rightarrow> json \<Rightarrow> string" where
  "text_or_empty rt v = (if truthy v then py_str rt v else [])"

text \<open>\<open>casefold\<close>: below code point 256 it differs from lower case in the sharp s only (and in the
  micro sign, whose fold lies outside the modelled range and which occurs in no key).\<close>

definition casefold :: "string \<Rightarrow> string" where
  "casefold s = concat (map (\<lambda>c. if code c = 223 then ''ss'' else [lower_char c]) s)"

text \<open>An optional text as a JSON value.\<close>

definition opt_str :: "string option \<Rightarrow> json" where
  "opt_str s = (case s of None \<Rightarrow> JNull | Some t \<Rightarrow> JStr t)"

section \<open>Numbers\<close>

text \<open>\<open>isinstance(v, (int, float)) and not isinstance(v, bool)\<close>\<close>

definition is_number :: "json \<Rightarrow> bool" where
  "is_number v = (case v of JInt _ \<Rightarrow> True | JFloat _ \<Rightarrow> True | _ \<Rightarrow> False)"

text \<open>\<open>isinstance(v, int) and not isinstance(v, bool)\<close>\<close>

definition is_int :: "json \<Rightarrow> bool" where
  "is_int v = (case v of JInt _ \<Rightarrow> True | _ \<Rightarrow> False)"

text \<open>An integer at or beyond \<open>2^1024 - 2^970\<close> has no double: \<open>float\<close> raises.\<close>

definition float_of_int :: "int \<Rightarrow> pyfloat result" where
  "float_of_int i = (if \<bar>i\<bar> < 2 ^ 1024 - 2 ^ 970 then Inr (Fin (of_int i))
     else Inl (OverflowError ''int too large to convert to float''))"

definition to_float :: "runtime \<Rightarrow> json \<Rightarrow> pyfloat result" where
  "to_float rt v = (case v of
     JBool b \<Rightarrow> Inr (Fin (if b then 1 else 0))
   | JInt i \<Rightarrow> float_of_int i
   | JFloat x \<Rightarrow> Inr x
   | JStr s \<Rightarrow> (case rt_parse_float rt s of
       Some x \<Rightarrow> Inr x | None \<Rightarrow> Inl (ValueError ''could not convert string to float''))
   | _ \<Rightarrow> Inl (TypeError ''float() argument must be a string or a real number''))"

definition digit_val :: "char \<Rightarrow> int" where
  "digit_val c = int (code c) - 48"

text \<open>Decimal digits with single underscores between them.\<close>

fun parse_digits :: "int \<Rightarrow> string \<Rightarrow> int option" where
  "parse_digits acc [] = Some acc"
| "parse_digits acc (c # cs) =
     (if is_digit c then parse_digits (acc * 10 + digit_val c) cs
      else if c = CHR ''_'' then
        (case cs of d # ds \<Rightarrow> if is_digit d then parse_digits (acc * 10 + digit_val d) ds else None
         | [] \<Rightarrow> None)
      else None)"

definition parse_nat :: "string \<Rightarrow> int option" where
  "parse_nat s = (case s of c # cs \<Rightarrow> if is_digit c then parse_digits (digit_val c) cs else None
     | [] \<Rightarrow> None)"

definition parse_int :: "string \<Rightarrow> int option" where
  "parse_int s = (case strip s of
     c # cs \<Rightarrow> if c = CHR ''-'' then map_option uminus (parse_nat cs)
       else if c = CHR ''+'' then parse_nat cs else parse_nat (c # cs)
   | [] \<Rightarrow> None)"

definition trunc_rat :: "rat \<Rightarrow> int" where
  "trunc_rat r = (if r < 0 then - \<lfloor>- r\<rfloor> else \<lfloor>r\<rfloor>)"

definition to_int :: "json \<Rightarrow> int result" where
  "to_int v = (case v of
     JBool b \<Rightarrow> Inr (if b then 1 else 0)
   | JInt i \<Rightarrow> Inr i
   | JFloat x \<Rightarrow> (case x of Fin r \<Rightarrow> Inr (trunc_rat r)
       | NaN \<Rightarrow> Inl (ValueError ''cannot convert float NaN to integer'')
       | _ \<Rightarrow> Inl (OverflowError ''cannot convert float infinity to integer''))
   | JStr s \<Rightarrow> (case parse_int s of Some i \<Rightarrow> Inr i
       | None \<Rightarrow> Inl (ValueError ''invalid literal for int() with base 10''))
   | _ \<Rightarrow> Inl (TypeError ''int() argument must be a string or a real number''))"

lemma to_int_JInt [simp]: "to_int (JInt i) = Inr i"
  by (simp add: to_int_def)

lemma to_float_JFloat [simp]: "to_float rt (JFloat x) = Inr x"
  by (simp add: to_float_def)

text \<open>\<open>list(v)\<close> and \<open>dict(v)\<close> of a JSON value.\<close>

definition to_list :: "json \<Rightarrow> json list result" where
  "to_list v = (case v of
     JList xs \<Rightarrow> Inr xs
   | JStr s \<Rightarrow> Inr (map (\<lambda>c. JStr [c]) s)
   | JDict d \<Rightarrow> Inr (map (\<lambda>(k, _). JStr k) d)
   | _ \<Rightarrow> Inl (TypeError ''object is not iterable''))"

text \<open>\<open>hmac.compare_digest\<close> takes ASCII text only.\<close>

definition compare_digest :: "string \<Rightarrow> string \<Rightarrow> bool result" where
  "compare_digest a b =
     (if is_ascii a \<and> is_ascii b then Inr (a = b)
      else Inl (TypeError ''comparing strings with non-ASCII characters is not supported''))"

lemma compare_digest_refl: "is_ascii a \<Longrightarrow> compare_digest a a = Inr True"
  by (simp add: compare_digest_def)

lemma hex_digit_in: "hex_digit n \<in> set ''0123456789abcdef''"
  unfolding hex_digit_def by (rule nth_mem) simp

lemma code_hex_digit: "code (hex_digit n) < 128"
proof -
  have "\<forall>c \<in> set ''0123456789abcdef''. code c < 128" by (simp add: code_def)
  then show ?thesis using hex_digit_in by blast
qed

lemma is_ascii_hexdigest [simp]: "is_ascii (hexdigest bs)"
  by (induction bs) (auto simp: hexdigest_def is_ascii_def code_hex_digit)

lemma length_hexdigest: "length (hexdigest bs) = 2 * length bs"
  by (induction bs) (auto simp: hexdigest_def)

section \<open>Facts about canonical forms\<close>

lemma jget_sort_keys:
  assumes "dict_wf d"
  shows "jget (sort_key fst (map (map_prod id sort_keys) d)) k = sort_keys (jget d k)"
proof -
  have "distinct (map fst (map (map_prod id sort_keys) d))"
    using assms by (simp add: dict_wf_def dkeys_def comp_def)
  then have "dget (sort_key fst (map (map_prod id sort_keys) d)) k
      = dget (map (map_prod id sort_keys) d) k"
    by (simp add: dget_def map_of_sort_key)
  also have "\<dots> = map_option sort_keys (dget d k)"
    by (induction d) (auto simp: dget_def)
  finally show ?thesis by (simp add: jget_def split: option.splits)
qed

lemma sort_key_idem: "sort_key f (sort_key f xs) = sort_key f xs"
  by (rule sort_key_id_if_sorted) simp

lemma insort_key_fst_map:
  assumes "\<And>x. fst (g x) = fst x"
  shows "insort_key fst (g x) (map g xs) = map g (insort_key fst x xs)"
  by (induction xs) (simp_all add: assms)

lemma sort_key_fst_map:
  assumes "\<And>x. fst (g x) = fst x"
  shows "sort_key fst (map g d) = map g (sort_key fst d)"
  by (induction d) (simp_all add: insort_key_fst_map [of g, OF assms])

lemma sort_key_map_prod:
  "sort_key fst (map (map_prod id f) d) = map (map_prod id f) (sort_key fst d)"
  by (rule sort_key_fst_map) simp

lemma sort_keys_idem [simp]: "sort_keys (sort_keys v) = sort_keys v"
proof (induction v)
  case (JDict d)
  let ?g = "map_prod id sort_keys"
  have "\<And>x. x \<in> set d \<Longrightarrow> ?g (?g x) = ?g x"
    using JDict by (force simp: prod_set_defs)
  then have "map ?g (map ?g (sort_key fst d)) = map ?g (sort_key fst d)" by simp
  then show ?case by (simp only: sort_keys.simps sort_key_map_prod sort_key_idem)
qed auto

lemma canonical_sort_keys [simp]: "canonical rt (sort_keys v) = canonical rt v"
  by (simp add: canonical_def)

end
