(* ===== verification/Domain.thy ===== *)
theory Domain
  imports PyText
begin

text \<open>
  The types every component shares: routing lanes and risks with their escalation order
  (\<open>models.py\<close>, the weights of \<open>orchestration.py\<close>), routing decisions, retrieved context items
  with their evidence envelopes (\<open>models.py\<close>, \<open>evidence.py\<close>), the retrieval arms of
  \<open>retrieval_learning.py\<close>, token estimation and budgets.
\<close>

section \<open>Lanes, risks, decisions\<close>

datatype lane = Answer | Small | Full
datatype risk = Low | Medium | High

definition lane_value :: "lane \<Rightarrow> string" where
  "lane_value l = (case l of Answer \<Rightarrow> ''answer'' | Small \<Rightarrow> ''small'' | Full \<Rightarrow> ''full'')"

definition risk_value :: "risk \<Rightarrow> string" where
  "risk_value r = (case r of Low \<Rightarrow> ''low'' | Medium \<Rightarrow> ''medium'' | High \<Rightarrow> ''high'')"

definition lane_weight :: "lane \<Rightarrow> int" where
  "lane_weight l = (case l of Answer \<Rightarrow> 0 | Small \<Rightarrow> 1 | Full \<Rightarrow> 2)"

definition risk_weight :: "risk \<Rightarrow> int" where
  "risk_weight r = (case r of Low \<Rightarrow> 0 | Medium \<Rightarrow> 1 | High \<Rightarrow> 2)"

text \<open>Lanes and risks are ordered by escalation, which the weights measure.\<close>

lemma lane_weight_inject [simp]: "lane_weight a = lane_weight b \<longleftrightarrow> a = b"
  by (cases a; cases b) (simp_all add: lane_weight_def)

lemma risk_weight_inject [simp]: "risk_weight a = risk_weight b \<longleftrightarrow> a = b"
  by (cases a; cases b) (simp_all add: risk_weight_def)

instantiation lane :: linorder
begin

definition less_eq_lane :: "lane \<Rightarrow> lane \<Rightarrow> bool" where
  "less_eq_lane a b = (lane_weight a \<le> lane_weight b)"

definition less_lane :: "lane \<Rightarrow> lane \<Rightarrow> bool" where
  "less_lane a b = (lane_weight a < lane_weight b)"

instance
  by standard (auto simp: less_eq_lane_def less_lane_def dest: order_antisym)

end

instantiation risk :: linorder
begin

definition less_eq_risk :: "risk \<Rightarrow> risk \<Rightarrow> bool" where
  "less_eq_risk a b = (risk_weight a \<le> risk_weight b)"

definition less_risk :: "risk \<Rightarrow> risk \<Rightarrow> bool" where
  "less_risk a b = (risk_weight a < risk_weight b)"

instance
  by standard (auto simp: less_eq_risk_def less_risk_def dest: order_antisym)

end

lemma lane_le_Full [simp]: "l \<le> Full"
  by (cases l) (simp_all add: less_eq_lane_def lane_weight_def)

lemma risk_le_High [simp]: "r \<le> High"
  by (cases r) (simp_all add: less_eq_risk_def risk_weight_def)

lemma risk_value_low [simp]: "risk_value r = ''low'' \<longleftrightarrow> r = Low"
  by (cases r) (simp_all add: risk_value_def)

record route_decision =
  rd_lane :: lane
  rd_risk :: risk
  rd_reasons :: "string list"
  rd_structural :: bool
  rd_confidence :: rat

section \<open>Evidence and context items\<close>

datatype evidence_kind = Index | Repository | Structural | Semantic | Test | Memory
  | Generated | External | Context

datatype trust_class = UntrustedRepositoryContent | UntrustedExternalProvider
  | UntrustedDurableMemory | UntrustedGeneratedContext | UntrustedContextData

record evidence_authority =
  auth_instructions :: bool
  auth_tools :: bool
  auth_policy :: bool
  auth_repository_activation :: bool
  auth_network_access :: bool
  auth_secret_access :: bool
  auth_memory_write :: bool
  auth_verification_bypass :: bool

text \<open>\<open>EvidenceAuthority()\<close>: every capability defaults to \<open>False\<close>.\<close>

definition no_authority :: evidence_authority where
  "no_authority = \<lparr>auth_instructions = False, auth_tools = False, auth_policy = False,
     auth_repository_activation = False, auth_network_access = False,
     auth_secret_access = False, auth_memory_write = False, auth_verification_bypass = False\<rparr>"

record evidence_envelope =
  ev_id :: string
  ev_repository_id :: string
  ev_kind :: evidence_kind
  ev_content_sha256 :: string
  ev_trust_class :: trust_class
  ev_authority :: evidence_authority
  ev_provenance :: "json dict"
  ev_confidence :: string

record context_item =
  ci_source :: string
  ci_text :: string
  ci_score :: rat
  ci_stale :: bool
  ci_metadata :: "json dict"
  ci_provenance :: "json dict"
  ci_evidence :: "evidence_envelope option"

text \<open>\<open>ContextItem.dedupe_key\<close>: a digest of the white-space normalised text; \<open>blake\<close> is the
  20-byte BLAKE2b of the standard library.\<close>

definition dedupe_key :: "(string \<Rightarrow> string) \<Rightarrow> context_item \<Rightarrow> string" where
  "dedupe_key blake i = hexdigest (blake (utf8 (join '' '' (split_ws (ci_text i)))))"

section \<open>Retrieval arms\<close>

definition BASELINE_ARM :: string where
  "BASELINE_ARM = ''adaptive_math''"

definition SAFE_EXPLORATION_ARMS :: "string list" where
  "SAFE_EXPLORATION_ARMS = [BASELINE_ARM, ''source_rank'', ''bm25_rank'', ''rrf_only'',
     ''rrf_mmr_050'', ''rrf_mmr_075'', ''rrf_mmr_090'']"

lemma baseline_is_safe [simp]: "BASELINE_ARM \<in> set SAFE_EXPLORATION_ARMS"
  by (simp add: SAFE_EXPLORATION_ARMS_def)

section \<open>Token estimates and budgets\<close>

text \<open>\<open>CharacterTokenEstimator.estimate\<close>: a ceiling division by at least one.\<close>

definition estimate_tokens :: "int \<Rightarrow> string \<Rightarrow> int" where
  "estimate_tokens chars_per_token text =
     (if text = [] then 0
      else let divisor = max 1 chars_per_token
           in max 1 ((int (length text) + divisor - 1) div divisor))"

lemma estimate_tokens_pos: "text \<noteq> [] \<Longrightarrow> 1 \<le> estimate_tokens c text"
  by (simp add: estimate_tokens_def Let_def)

text \<open>The estimate is the least number of tokens of \<open>divisor\<close> characters that hold the text.\<close>

lemma estimate_tokens_ceiling:
  assumes "text \<noteq> []"
  shows "estimate_tokens c text * max 1 c \<ge> int (length text)"
    and "(estimate_tokens c text - 1) * max 1 c < int (length text)"
proof -
  define d where "d = max 1 c"
  define n where "n = int (length text)"
  have d: "1 \<le> d" and n: "1 \<le> n" using assms by (auto simp: d_def n_def Suc_le_eq)
  have e: "estimate_tokens c text = (n + d - 1) div d"
  proof -
    have "1 \<le> (n + d - 1) div d" using n d by (simp add: pos_imp_zdiv_pos_iff int_one_le_iff_zero_less)
    then show ?thesis using assms by (simp add: estimate_tokens_def Let_def d_def n_def)
  qed
  define q r where "q = (n + d - 1) div d" and "r = (n + d - 1) mod d"
  have qr: "q * d + r = n + d - 1" by (simp only: q_def r_def div_mult_mod_eq)
  have "0 \<le> r" "r < d" using d by (auto simp: r_def)
  with qr have "q * d \<ge> n" "(q - 1) * d < n"
    by (simp_all add: left_diff_distrib)
  then show "estimate_tokens c text * max 1 c \<ge> int (length text)"
    "(estimate_tokens c text - 1) * max 1 c < int (length text)"
    by (simp_all add: e q_def d_def n_def)
qed

end
