(* ===== verification/ContextFeatures.thy ===== *)
theory ContextFeatures
  imports Domain
begin

text \<open>
  \<open>contextual_features.py\<close>: the bounded categorical features a retrieval decision is keyed by,
  their validation, and the context key a deployed policy is indexed with.
\<close>

definition FEATURE_SCHEMA_VERSION :: string where
  "FEATURE_SCHEMA_VERSION = ''retrieval-context-v1''"

definition FEATURE_FIELDS :: "string list" where
  "FEATURE_FIELDS = [''lane'', ''risk'', ''intent'', ''query_length_bucket'',
     ''changed_files_bucket'', ''workspace_roots_bucket'']"

definition DEFAULT_POLICY_FIELDS :: "string list" where
  "DEFAULT_POLICY_FIELDS = [''intent'', ''lane'', ''changed_files_bucket'']"

definition query_length_bucket :: "string \<Rightarrow> string" where
  "query_length_bucket q = (let cnt = length (split_ws q) in
     if cnt \<le> 4 then ''1-4'' else if cnt \<le> 8 then ''5-8''
     else if cnt \<le> 16 then ''9-16'' else ''17+'')"

definition count_bucket :: "int \<Rightarrow> string" where
  "count_bucket cnt = (let value = max 0 cnt in
     if value = 0 then ''0'' else if value = 1 then ''1''
     else if value \<le> 3 then ''2-3'' else ''4+'')"

definition workspace_bucket :: "int \<Rightarrow> string" where
  "workspace_bucket cnt = (let value = max 1 cnt in
     if value = 1 then ''1'' else if value = 2 then ''2'' else ''3+'')"

text \<open>\<open>RetrievalContextFeatures(...).to_dict()\<close>\<close>

definition build_context_features ::
  "string \<Rightarrow> route_decision \<Rightarrow> string \<Rightarrow> int \<Rightarrow> int \<Rightarrow> json dict" where
  "build_context_features query decision intent changed_files_count workspace_roots_count =
     [(''lane'', JStr (lane_value (rd_lane decision))),
      (''risk'', JStr (risk_value (rd_risk decision))),
      (''intent'', JStr intent),
      (''query_length_bucket'', JStr (query_length_bucket query)),
      (''changed_files_bucket'', JStr (count_bucket changed_files_count)),
      (''workspace_roots_bucket'', JStr (workspace_bucket workspace_roots_count))]"

text \<open>\<open>normalize_context_features\<close>: \<open>None\<close> when a field is missing, null or blank.\<close>

fun normalize_fields :: "runtime \<Rightarrow> json dict \<Rightarrow> string list \<Rightarrow> string dict \<Rightarrow> string dict option" where
  "normalize_fields rt value [] out = Some out"
| "normalize_fields rt value (f # fs) out =
     (let raw = jget value f in
      if raw = JNull then None
      else let text = strip (py_str rt raw) in
        if text = [] then None else normalize_fields rt value fs (dset out f text))"

definition normalize_context_features :: "runtime \<Rightarrow> json \<Rightarrow> string dict option" where
  "normalize_context_features rt v =
     (case v of JDict d \<Rightarrow> normalize_fields rt d FEATURE_FIELDS [] | _ \<Rightarrow> None)"

text \<open>\<open>validate_context_fields\<close>: stripped, first occurrences, all known, not empty.\<close>

definition validate_context_fields :: "runtime \<Rightarrow> json list \<Rightarrow> string list result" where
  "validate_context_fields rt fs =
     (let normalized = uniq (map (\<lambda>f. strip (py_str rt f)) fs) in
      if normalized = [] then Inl (ValueError ''at least one context field is required'')
      else if list_ex (\<lambda>f. f \<notin> set FEATURE_FIELDS) normalized
        then Inl (ValueError ''unsupported context fields'')
      else Inr normalized)"

text \<open>\<open>context_key\<close>: the selected features as compact sorted JSON (ASCII).\<close>

definition context_key :: "runtime \<Rightarrow> json \<Rightarrow> json list \<Rightarrow> string result" where
  "context_key rt features fs =
     rbind (validate_context_fields rt fs) (\<lambda>selected.
       case normalize_context_features rt features of
         None \<Rightarrow> Inl (ValueError ''context features do not match the current schema'')
       | Some normalized \<Rightarrow>
           Inr (dumps True (rt_float_repr rt) (sort_keys
             (JDict (map (\<lambda>f. (f, case dget normalized f of Some t \<Rightarrow> JStr t | None \<Rightarrow> JNull)) selected)))))"

section \<open>Properties\<close>

lemma validate_context_fields_ok:
  assumes "validate_context_fields rt fs = Inr sel"
  shows "sel \<noteq> [] \<and> distinct sel \<and> set sel \<subseteq> set FEATURE_FIELDS"
  using assms
  by (auto simp: validate_context_fields_def Let_def list_ex_iff split: if_splits)

lemma FEATURE_FIELDS_stripped: "f \<in> set FEATURE_FIELDS \<Longrightarrow> strip f = f"
  unfolding FEATURE_FIELDS_def
  by (auto simp: strip_def rstrip_def lstrip_def is_space_def code_def Let_def)

lemma validate_context_fields_idem:
  assumes "validate_context_fields rt fs = Inr sel"
  shows "validate_context_fields rt (map JStr sel) = Inr sel"
proof -
  have ok: "sel \<noteq> []" "distinct sel" "set sel \<subseteq> set FEATURE_FIELDS"
    using validate_context_fields_ok [OF assms] by auto
  then have "map (\<lambda>f. strip (py_str rt f)) (map JStr sel) = sel"
    by (auto intro!: map_idI FEATURE_FIELDS_stripped)
  with ok show ?thesis
    by (auto simp: validate_context_fields_def Let_def list_ex_iff)
qed

lemma normalize_fields_total:
  assumes "\<forall>f \<in> set fs. jget d f \<noteq> JNull \<and> strip (py_str rt (jget d f)) \<noteq> []"
  shows "\<exists>out'. normalize_fields rt d fs out = Some out'"
  using assms by (induction rt d fs out rule: normalize_fields.induct) (auto simp: Let_def)

text \<open>The features the runtime builds always match the schema, so keying them fails only on
  the field list.\<close>

lemma count_bucket_cases: "count_bucket n \<in> {''0'', ''1'', ''2-3'', ''4+''}"
  by (simp add: count_bucket_def Let_def)

lemma workspace_bucket_cases: "workspace_bucket n \<in> {''1'', ''2'', ''3+''}"
  by (simp add: workspace_bucket_def Let_def)

lemma query_length_bucket_cases: "query_length_bucket q \<in> {''1-4'', ''5-8'', ''9-16'', ''17+''}"
  by (simp add: query_length_bucket_def Let_def)

lemma strip_literals:
  "strip ''0'' \<noteq> []" "strip ''1'' \<noteq> []" "strip ''2-3'' \<noteq> []" "strip ''4+'' \<noteq> []"
  "strip ''2'' \<noteq> []" "strip ''3+'' \<noteq> []" "strip ''1-4'' \<noteq> []" "strip ''5-8'' \<noteq> []"
  "strip ''9-16'' \<noteq> []" "strip ''17+'' \<noteq> []" "strip ''answer'' \<noteq> []" "strip ''small'' \<noteq> []"
  "strip ''full'' \<noteq> []" "strip ''low'' \<noteq> []" "strip ''medium'' \<noteq> []" "strip ''high'' \<noteq> []"
  by (simp_all add: strip_def rstrip_def lstrip_def is_space_def code_def Let_def)

lemma bucket_strip:
  "strip (count_bucket n) \<noteq> []" "strip (workspace_bucket n) \<noteq> []"
  "strip (query_length_bucket q) \<noteq> []" "strip (lane_value l) \<noteq> []" "strip (risk_value r) \<noteq> []"
  using count_bucket_cases [of n] workspace_bucket_cases [of n] query_length_bucket_cases [of q]
  by (auto simp: strip_literals lane_value_def risk_value_def split: lane.splits risk.splits)

lemma build_context_features_normalize:
  assumes "strip intent \<noteq> []"
  shows "\<exists>n. normalize_context_features rt (JDict (build_context_features q d intent c w)) = Some n"
proof -
  have "\<forall>f \<in> set FEATURE_FIELDS. jget (build_context_features q d intent c w) f \<noteq> JNull
      \<and> strip (py_str rt (jget (build_context_features q d intent c w) f)) \<noteq> []"
    using assms by (simp add: FEATURE_FIELDS_def build_context_features_def dict_simps bucket_strip)
  then show ?thesis
    by (simp add: normalize_context_features_def normalize_fields_total)
qed

end
