(* ===== verification/Signing.thy ===== *)
theory Signing
  imports Domain
begin

text \<open>
  Signed JSON documents.  \<open>deployment_state.py\<close> (\<open>_sign_payload\<close>, \<open>_verify_signature\<close>) and
  \<open>deployment_incident.py\<close> (\<open>_sign\<close>, the signature part of \<open>verify_incident_bundle\<close>) each sign the
  canonical text of a document without its \<open>signature\<close> entry.  The locale \<open>sealed_document\<close> is
  the contract their callers rely on.
\<close>

definition key_id :: "runtime \<Rightarrow> string \<Rightarrow> string" where
  "key_id rt key = take 16 (hexdigest (rt_sha256 rt key))"

definition signature_value :: "runtime \<Rightarrow> json dict \<Rightarrow> string \<Rightarrow> string" where
  "signature_value rt body key = hexdigest (rt_hmac rt key (canonical rt (JDict body)))"

definition signature_entry :: "runtime \<Rightarrow> json dict \<Rightarrow> string \<Rightarrow> json" where
  "signature_entry rt body key = JDict
     [(''algorithm'', JStr ''hmac-sha256''),
      (''key_id'', JStr (key_id rt key)),
      (''value'', JStr (signature_value rt body key))]"

section \<open>Deployment states\<close>

definition sign_payload :: "runtime \<Rightarrow> json dict \<Rightarrow> string \<Rightarrow> json dict result" where
  "sign_payload rt payload signing_key =
     (if signing_key = [] then Inl (ValueError ''signing key must not be empty'')
      else let unsigned = dpop payload ''signature''
           in Inr (dset unsigned ''signature'' (signature_entry rt unsigned signing_key)))"

definition verify_signature :: "runtime \<Rightarrow> json dict \<Rightarrow> string \<Rightarrow> string list result" where
  "verify_signature rt payload signing_key =
     (if signing_key = [] then Inr [''signing_key_missing'']
      else case jget payload ''signature'' of
        JDict sg \<Rightarrow>
          (let e1 = (if py_eq (jget sg ''algorithm'') (JStr ''hmac-sha256'') then []
                     else [''signature_algorithm_mismatch'']);
               e2 = (if py_eq (jget sg ''key_id'') (JStr (key_id rt signing_key)) then []
                     else [''key_id_mismatch'']);
               expected = signature_value rt (dpop payload ''signature'') signing_key;
               supplied = py_str rt (jget_or sg ''value'' (JStr []))
           in rbind (compare_digest expected supplied) (\<lambda>same.
                Inr (e1 @ e2 @ (if same then [] else [''signature_mismatch'']))))
      | _ \<Rightarrow> Inr [''signature_missing''])"

section \<open>Incident bundles\<close>

definition sign_incident :: "runtime \<Rightarrow> json dict \<Rightarrow> string \<Rightarrow> json dict result" where
  "sign_incident rt payload signing_key =
     (if signing_key = [] then Inl (ValueError ''incident signing key must not be empty'')
      else let unsigned = dpop payload ''signature''
           in Inr (dset unsigned ''signature'' (signature_entry rt unsigned signing_key)))"

definition incident_signature_errors :: "runtime \<Rightarrow> json dict \<Rightarrow> string \<Rightarrow> string list result" where
  "incident_signature_errors rt payload signing_key =
     (case jget payload ''signature'' of
        JDict sg \<Rightarrow>
          (if signing_key = [] then Inr [''signing_key_missing'']
           else
             let expected = signature_value rt (dpop payload ''signature'') signing_key;
                 e1 = (if py_eq (jget sg ''algorithm'') (JStr ''hmac-sha256'') then []
                       else [''signature_algorithm_mismatch'']);
                 e2 = (if py_eq (jget sg ''key_id'') (JStr (key_id rt signing_key)) then []
                       else [''key_id_mismatch'']);
                 supplied = py_str rt (jget_or sg ''value'' (JStr []))
             in rbind (compare_digest expected supplied) (\<lambda>same.
                  Inr (e1 @ e2 @ (if same then [] else [''signature_mismatch'']))))
      | _ \<Rightarrow> Inr [''signature_missing''])"

section \<open>The contract\<close>

text \<open>What a verifier reads of a signature.\<close>

definition signature_view :: "runtime \<Rightarrow> json dict \<Rightarrow> (json \<times> json \<times> string) option" where
  "signature_view rt d = (case jget d ''signature'' of
     JDict sg \<Rightarrow> Some (jget sg ''algorithm'', jget sg ''key_id'', py_str rt (jget_or sg ''value'' (JStr [])))
   | _ \<Rightarrow> None)"

locale sealed_document =
  fixes fit :: "json dict \<Rightarrow> bool"
    and seal :: "json dict \<Rightarrow> string \<Rightarrow> json dict result"
    and check :: "json dict \<Rightarrow> string \<Rightarrow> string list result"
    and view :: "json dict \<Rightarrow> 'v"
  assumes seal_needs_key: "seal d [] \<noteq> Inr s"
    and seal_total: "key \<noteq> [] \<Longrightarrow> \<exists>s. seal d key = Inr s"
    and seal_body: "seal d key = Inr s \<Longrightarrow> fit d \<Longrightarrow> dpop s ''signature'' = dpop d ''signature''"
    and check_seal: "seal d key = Inr s \<Longrightarrow> fit d \<Longrightarrow> check s key = Inr []"
    and check_sound: "check d key = Inr [] \<Longrightarrow>
      \<exists>s. seal (dpop d ''signature'') key = Inr s \<and> view d = view s"
    and fit_body: "fit (dpop d ''signature'')"
begin

lemma sealed_field:
  assumes "seal d key = Inr s" "fit d" "k \<noteq> ''signature''"
  shows "dget s k = dget d k"
proof -
  have "dget (dpop s ''signature'') k = dget (dpop d ''signature'') k"
    using seal_body [OF assms(1,2)] by simp
  with assms(3) show ?thesis by simp
qed

lemma sealed_jget:
  assumes "seal d key = Inr s" "fit d" "k \<noteq> ''signature''"
  shows "jget s k = jget d k"
  using sealed_field [OF assms] by (simp add: jget_def)

lemma sealed_jget_or:
  assumes "seal d key = Inr s" "fit d" "k \<noteq> ''signature''"
  shows "jget_or s k v = jget_or d k v"
  using sealed_field [OF assms] by (simp add: jget_or_def)

text \<open>The signature of an accepted document is determined by its body.\<close>

lemma accepted_view_unique:
  assumes "check d key = Inr []" "check e key = Inr []"
    and "dpop d ''signature'' = dpop e ''signature''"
  shows "view d = view e"
  using check_sound [OF assms(1)] check_sound [OF assms(2)] assms(3) by auto

text \<open>An accepted document can be sealed again; the copy is accepted and has the same body.\<close>

lemma reseal:
  assumes "check d key = Inr []"
  obtains s where "seal (dpop d ''signature'') key = Inr s" "check s key = Inr []"
    "view s = view d" "dpop s ''signature'' = dpop d ''signature''"
proof -
  obtain s where s: "seal (dpop d ''signature'') key = Inr s" "view d = view s"
    using check_sound [OF assms] by blast
  have "check s key = Inr []" by (rule check_seal [OF s(1) fit_body])
  moreover have "dpop s ''signature'' = dpop d ''signature''"
    using seal_body [OF s(1) fit_body] by simp
  ultimately show ?thesis using that s by metis
qed

end

lemma is_ascii_signature_value [simp]: "is_ascii (signature_value rt b key)"
  by (simp add: signature_value_def)

lemma compare_signature_Nil_iff:
  assumes "is_ascii a"
  shows "rbind (compare_digest a b) (\<lambda>same. Inr (xs @ ys @ (if same then [] else [z]))) = Inr []
    \<longleftrightarrow> xs = [] \<and> ys = [] \<and> b = a"
  using assms by (auto simp: compare_digest_def)

lemma verify_signature_Nil_iff:
  "verify_signature rt d key = Inr [] \<longleftrightarrow> key \<noteq> []
     \<and> signature_view rt d = Some (JStr ''hmac-sha256'', JStr (key_id rt key),
         signature_value rt (dpop d ''signature'') key)"
  by (auto simp: verify_signature_def signature_view_def compare_signature_Nil_iff
      Let_def split: json.splits if_splits)

lemma incident_signature_Nil_iff:
  "incident_signature_errors rt d key = Inr [] \<longleftrightarrow> key \<noteq> []
     \<and> signature_view rt d = Some (JStr ''hmac-sha256'', JStr (key_id rt key),
         signature_value rt (dpop d ''signature'') key)"
  by (auto simp: incident_signature_errors_def signature_view_def compare_signature_Nil_iff
      Let_def split: json.splits if_splits)

lemma signature_view_entry:
  "signature_view rt (dset d ''signature'' (signature_entry rt b key))
     = Some (JStr ''hmac-sha256'', JStr (key_id rt key), signature_value rt b key)"
  by (simp add: signature_view_def signature_entry_def dict_simps)

interpretation deployment_seal: sealed_document "\<lambda>_. True" "sign_payload rt" "verify_signature rt"
    "signature_view rt"
  for rt
  by unfold_locales
    (auto simp: sign_payload_def Let_def verify_signature_Nil_iff signature_view_entry
      split: if_splits)

interpretation incident_seal: sealed_document "\<lambda>_. True" "sign_incident rt"
    "incident_signature_errors rt" "signature_view rt"
  for rt
  by unfold_locales
    (auto simp: sign_incident_def Let_def incident_signature_Nil_iff signature_view_entry
      split: if_splits)

lemma sign_payload_signature:
  "sign_payload rt d key = Inr s \<Longrightarrow> dget s ''signature'' =
     Some (signature_entry rt (dpop d ''signature'') key)"
  by (auto simp: sign_payload_def Let_def split: if_splits)

end
