(* ===== verification/PolicyManifest.thy ===== *)
theory PolicyManifest
  imports ContextFeatures Signing
begin

text \<open>
  \<open>policy_manifest.py\<close>: the signed manifest of a contextual retrieval policy.  Its identity is
  the digest of what the policy decides (fields, policy table, evidence), its signature covers
  the whole document, and \<open>verify_policy_manifest\<close> reports every mismatch.
\<close>

definition MANIFEST_SCHEMA_VERSION :: string where
  "MANIFEST_SCHEMA_VERSION = ''retrieval-policy-manifest-v1''"

section \<open>Identity\<close>

definition identity_payload ::
  "string \<Rightarrow> string list \<Rightarrow> string dict \<Rightarrow> string \<Rightarrow> string \<Rightarrow> json" where
  "identity_payload feature_schema_version context_fields policy evidence_cutoff source_report_sha256 = JDict
     [(''feature_schema_version'', JStr feature_schema_version),
      (''context_fields'', JList (map JStr context_fields)),
      (''policy'', JDict (map (map_prod id JStr) policy)),
      (''evidence_cutoff'', JStr evidence_cutoff),
      (''source_report_sha256'', JStr source_report_sha256),
      (''fallback_arm'', JStr BASELINE_ARM)]"

definition policy_id_of :: "runtime \<Rightarrow> json \<Rightarrow> string" where
  "policy_id_of rt identity = take 32 (sha256_json rt identity)"

section \<open>The policy table\<close>

text \<open>\<open>_validate_policy\<close>: a non-empty table from non-blank contexts to safe arms.\<close>

fun validate_policy_items :: "runtime \<Rightarrow> json dict \<Rightarrow> string dict \<Rightarrow> string dict result" where
  "validate_policy_items rt [] out = Inr out"
| "validate_policy_items rt ((key, value) # rest) out =
     (let ctx = strip key; arm = strip (py_str rt value) in
      if ctx = [] then Inl (ValueError ''contextual policy contains a blank context key'')
      else if arm \<notin> set SAFE_EXPLORATION_ARMS
        then Inl (ValueError (''contextual policy contains unsafe arm: '' @ arm))
      else validate_policy_items rt rest (dset out ctx arm))"

definition validate_policy :: "runtime \<Rightarrow> json \<Rightarrow> string dict result" where
  "validate_policy rt policy =
     (case policy of
        JDict d \<Rightarrow> (if d = [] then Inl (ValueError ''contextual policy must be a non-empty object'')
          else rbind (validate_policy_items rt d []) (\<lambda>out. Inr (dsort out)))
      | _ \<Rightarrow> Inl (ValueError ''contextual policy must be a non-empty object''))"

section \<open>Creation\<close>

definition manifest_body ::
  "runtime \<Rightarrow> string \<Rightarrow> json dict \<Rightarrow> string list \<Rightarrow> string dict \<Rightarrow> string \<Rightarrow> json dict" where
  "manifest_body rt now report fs policy cutoff =
     (let report_sha = sha256_json rt (JDict report);
          identity = identity_payload FEATURE_SCHEMA_VERSION fs policy cutoff report_sha
      in [(''schema_version'', JStr MANIFEST_SCHEMA_VERSION),
          (''policy_id'', JStr (policy_id_of rt identity)),
          (''created_at'', JStr now),
          (''status'', JStr ''shadow_only''),
          (''automatic_runtime_activation'', JBool False),
          (''feature_schema_version'', JStr FEATURE_SCHEMA_VERSION),
          (''context_fields'', JList (map JStr fs)),
          (''policy'', JDict (map (map_prod id JStr) policy)),
          (''fallback_arm'', JStr BASELINE_ARM),
          (''locked_risks'', JList [JStr ''medium'', JStr ''high'']),
          (''evidence_cutoff'', JStr cutoff),
          (''source_report_sha256'', JStr report_sha),
          (''source_decision_sha256'', jget report ''source_decision_sha256''),
          (''reward_model'', jget report ''reward_model''),
          (''cost_model'', jget report ''cost_model''),
          (''holdout_evidence'', jget report ''holdout_doubly_robust_evaluation''),
          (''rollback'', JDict [(''target_arm'', JStr BASELINE_ARM),
             (''reason'', JStr ''deterministic production baseline remains the rollback target'')]),
          (''provenance'', JDict [(''development_events'', jget report ''development_events''),
             (''holdout_events'', jget report ''holdout_events''),
             (''feature_schema_version'', JStr FEATURE_SCHEMA_VERSION)])])"

definition sign_manifest :: "runtime \<Rightarrow> json dict \<Rightarrow> string \<Rightarrow> json dict result" where
  "sign_manifest rt manifest signing_key =
     (if signing_key = [] then Inl (ValueError ''signing key must not be empty'')
      else Inr (dset manifest ''signature'' (signature_entry rt manifest signing_key)))"

definition create_policy_manifest ::
  "runtime \<Rightarrow> string \<Rightarrow> json dict \<Rightarrow> string \<Rightarrow> json dict result" where
  "create_policy_manifest rt now report signing_key =
     guard_that (signing_key \<noteq> []) (ValueError ''signing key must not be empty'')
     (guard_that (py_eq (jget report ''scope'') (JStr ''contextual-retrieval-policy-development''))
       (ValueError ''input is not a Stage 6 contextual policy report'')
     (guard_that (case jget report ''promotion'' of
          JDict p \<Rightarrow> truthy (jget p ''eligible_for_shadow'') | _ \<Rightarrow> False)
       (ValueError ''contextual policy is not eligible for shadow evaluation'')
     (guard_that (py_eq (jget report ''feature_schema_version'') (JStr FEATURE_SCHEMA_VERSION))
       (ValueError ''contextual policy feature schema is incompatible'')
     (case jget report ''context_fields'' of
        JList fields_raw \<Rightarrow>
          rbind (validate_context_fields rt fields_raw) (\<lambda>fs.
          rbind (validate_policy rt (jget report ''development_policy'')) (\<lambda>policy.
          let cutoff = strip (py_str rt (jget_or report ''evidence_cutoff'' (JStr [])))
          in guard_that (cutoff \<noteq> []) (ValueError ''contextual policy is missing an evidence cutoff'')
             (sign_manifest rt (manifest_body rt now report fs policy cutoff) signing_key)))
      | _ \<Rightarrow> Inl (ValueError ''contextual policy is missing context fields'')))))"

section \<open>Verification\<close>

definition manifest_signature_errors :: "runtime \<Rightarrow> json dict \<Rightarrow> string \<Rightarrow> string list result" where
  "manifest_signature_errors rt manifest signing_key =
     (case jget manifest ''signature'' of
        JDict sg \<Rightarrow>
          (if \<not> py_eq (jget sg ''algorithm'') (JStr ''hmac-sha256'')
             then Inr [''signature_algorithm_mismatch'']
           else if signing_key = [] then Inr []
           else
             let expected = signature_value rt (dpop manifest ''signature'') signing_key;
                 supplied = py_str rt (jget_or sg ''value'' (JStr []))
             in rbind (compare_digest expected supplied) (\<lambda>same.
                  Inr ((if same then [] else [''signature_mismatch'']) @
                    (if py_eq (jget sg ''key_id'') (JStr (key_id rt signing_key)) then []
                     else [''key_id_mismatch'']))))
      | _ \<Rightarrow> Inr [''signature_missing''])"

definition manifest_fields :: "runtime \<Rightarrow> json dict \<Rightarrow> string list \<times> string list" where
  "manifest_fields rt manifest =
     (case jget manifest ''context_fields'' of
        JList xs \<Rightarrow> (case validate_context_fields rt xs of
            Inr fs \<Rightarrow> (fs, []) | Inl _ \<Rightarrow> ([], [''invalid_context_fields'']))
      | _ \<Rightarrow> ([], []))"

definition manifest_policy :: "runtime \<Rightarrow> json dict \<Rightarrow> string dict \<times> string list" where
  "manifest_policy rt manifest =
     (case validate_policy rt (jget manifest ''policy'') of
        Inr p \<Rightarrow> (p, []) | Inl _ \<Rightarrow> ([], [''invalid_policy'']))"

definition err_if :: "bool \<Rightarrow> string \<Rightarrow> string list" where
  "err_if b e = (if b then [e] else [])"

lemma err_if_Nil [simp]: "err_if b e = [] \<longleftrightarrow> \<not> b"
  by (simp add: err_if_def)

definition manifest_identity_errors :: "runtime \<Rightarrow> json dict \<Rightarrow> string list" where
  "manifest_identity_errors rt manifest =
     (let (fs, e_fields) = manifest_fields rt manifest;
          (policy, e_policy) = manifest_policy rt manifest;
          cutoff = strip (py_str rt (jget_or manifest ''evidence_cutoff'' (JStr [])));
          sha = strip (py_str rt (jget_or manifest ''source_report_sha256'' (JStr [])))
      in e_fields @ e_policy
         @ err_if (cutoff = []) ''missing_evidence_cutoff''
         @ err_if (sha = []) ''missing_source_report_sha256''
         @ err_if (fs \<noteq> [] \<and> policy \<noteq> [] \<and> cutoff \<noteq> [] \<and> sha \<noteq> []
             \<and> \<not> py_eq (jget manifest ''policy_id'')
                 (JStr (policy_id_of rt (identity_payload FEATURE_SCHEMA_VERSION fs policy cutoff sha))))
           ''policy_id_mismatch'')"

definition manifest_static_errors :: "json dict \<Rightarrow> string list" where
  "manifest_static_errors manifest =
     err_if (\<not> py_eq (jget manifest ''status'') (JStr ''shadow_only'')) ''status_mismatch''
     @ err_if (\<not> py_eq (jget manifest ''fallback_arm'') (JStr BASELINE_ARM)) ''fallback_arm_mismatch''
     @ err_if (case jget manifest ''rollback'' of
          JDict r \<Rightarrow> \<not> py_eq (jget r ''target_arm'') (JStr BASELINE_ARM) | _ \<Rightarrow> True)
        ''rollback_target_mismatch''
     @ err_if (\<not> py_eq (jget manifest ''locked_risks'') (JList [JStr ''medium'', JStr ''high'']))
        ''locked_risks_mismatch''
     @ err_if (truthy (jget manifest ''automatic_runtime_activation'')) ''automatic_activation_forbidden''"

definition manifest_errors :: "runtime \<Rightarrow> json dict \<Rightarrow> string \<Rightarrow> string list result" where
  "manifest_errors rt manifest signing_key =
     rbind (manifest_signature_errors rt manifest signing_key) (\<lambda>sig_errors.
       Inr (err_if (signing_key = []) ''signing_key_missing''
         @ err_if (\<not> py_eq (jget manifest ''schema_version'') (JStr MANIFEST_SCHEMA_VERSION))
             ''schema_version_mismatch''
         @ err_if (\<not> py_eq (jget manifest ''feature_schema_version'') (JStr FEATURE_SCHEMA_VERSION))
             ''feature_schema_mismatch''
         @ manifest_identity_errors rt manifest
         @ sig_errors
         @ manifest_static_errors manifest))"

definition verify_policy_manifest :: "runtime \<Rightarrow> json dict \<Rightarrow> string \<Rightarrow> json dict result" where
  "verify_policy_manifest rt manifest signing_key =
     rbind (manifest_errors rt manifest signing_key) (\<lambda>errors. Inr
       [(''valid'', JBool (errors = [])),
        (''errors'', JList (map JStr errors)),
        (''policy_id'', jget manifest ''policy_id''),
        (''status'', jget manifest ''status''),
        (''automatic_runtime_activation'', JBool False),
        (''rollback_target'', JStr BASELINE_ARM)])"

lemma verify_policy_manifest_valid:
  "verify_policy_manifest rt m key = Inr v \<Longrightarrow>
     truthy (jget v ''valid'') \<longleftrightarrow> manifest_errors rt m key = Inr []"
  by (auto simp: verify_policy_manifest_def rbind_Inr_iff dict_simps)

section \<open>What verification establishes\<close>

lemma signature_value_ascii: "signature_value rt b key = s \<Longrightarrow> is_ascii s"
  by (metis is_ascii_signature_value)

lemma manifest_signature_Nil_iff:
  "manifest_signature_errors rt m key = Inr [] \<and> key \<noteq> [] \<longleftrightarrow> key \<noteq> []
     \<and> signature_view rt m = Some (JStr ''hmac-sha256'', JStr (key_id rt key),
         signature_value rt (dpop m ''signature'') key)"
  by (auto simp: manifest_signature_errors_def signature_view_def Let_def compare_digest_def
      dest: signature_value_ascii split: json.splits if_splits)

text \<open>The signature check a manifest's verifier performs, with its missing-key error.\<close>

definition manifest_check :: "runtime \<Rightarrow> json dict \<Rightarrow> string \<Rightarrow> string list result" where
  "manifest_check rt m key = rbind (manifest_signature_errors rt m key)
     (\<lambda>es. Inr (err_if (key = []) ''signing_key_missing'' @ es))"

lemma manifest_check_Nil_iff:
  "manifest_check rt m key = Inr [] \<longleftrightarrow> key \<noteq> []
     \<and> signature_view rt m = Some (JStr ''hmac-sha256'', JStr (key_id rt key),
         signature_value rt (dpop m ''signature'') key)"
  by (auto simp: manifest_check_def rbind_Inr_iff manifest_signature_Nil_iff [symmetric])

interpretation manifest_seal: sealed_document "\<lambda>d. dget d ''signature'' = None" "sign_manifest rt"
    "manifest_check rt" "signature_view rt"
  for rt
  by unfold_locales
    (auto simp: sign_manifest_def manifest_check_Nil_iff signature_view_entry dpop_fresh
      split: if_splits)

lemma manifest_errors_Nil_iff:
  "manifest_errors rt m key = Inr [] \<longleftrightarrow>
     manifest_check rt m key = Inr []
     \<and> jget m ''schema_version'' = JStr MANIFEST_SCHEMA_VERSION
     \<and> jget m ''feature_schema_version'' = JStr FEATURE_SCHEMA_VERSION
     \<and> manifest_identity_errors rt m = [] \<and> manifest_static_errors m = []"
  by (auto simp: manifest_errors_def manifest_check_def rbind_Inr_iff)

lemma safe_arm_strip: "a \<in> set SAFE_EXPLORATION_ARMS \<Longrightarrow> strip a = a"
  unfolding SAFE_EXPLORATION_ARMS_def BASELINE_ARM_def
  by (auto simp: strip_def rstrip_def lstrip_def is_space_def code_def Let_def)

definition policy_table_ok :: "string dict \<Rightarrow> bool" where
  "policy_table_ok t = (dict_wf t
     \<and> (\<forall>(c, a) \<in> set t. c \<noteq> [] \<and> strip c = c \<and> a \<in> set SAFE_EXPLORATION_ARMS))"

lemma set_dset_subset: "set (dset d k v) \<subseteq> insert (k, v) (set d)"
  by (induction d k v rule: dset.induct) auto

lemma policy_table_ok_dset:
  "policy_table_ok t \<Longrightarrow> c \<noteq> [] \<Longrightarrow> strip c = c \<Longrightarrow> a \<in> set SAFE_EXPLORATION_ARMS \<Longrightarrow>
     policy_table_ok (dset t c a)"
  using set_dset_subset [of t c a] by (auto simp: policy_table_ok_def)

lemma validate_policy_items_ok:
  "validate_policy_items rt d out = Inr t \<Longrightarrow> policy_table_ok out \<Longrightarrow> policy_table_ok t"
  by (induction rt d out rule: validate_policy_items.induct)
    (auto simp: Let_def policy_table_ok_dset split: if_splits)

lemma dset_not_Nil [simp]: "dset d k v \<noteq> []"
  by (induction d k v rule: dset.induct) auto

lemma validate_policy_items_not_Nil:
  "validate_policy_items rt d out = Inr t \<Longrightarrow> d \<noteq> [] \<or> out \<noteq> [] \<Longrightarrow> t \<noteq> []"
  by (induction rt d out rule: validate_policy_items.induct) (auto simp: Let_def split: if_splits)

lemma set_dsort [simp]: "set (dsort d) = set d"
  by (simp add: dsort_def)

lemma dict_wf_dsort [simp]: "dict_wf (dsort d) = dict_wf d"
proof -
  have "mset (map fst (sort_key fst d)) = mset (map fst d)" by simp
  then show ?thesis
    unfolding dict_wf_def dkeys_def dsort_def using mset_eq_imp_distinct_iff by blast
qed

lemma dsort_idem [simp]: "dsort (dsort d) = dsort d"
  by (simp add: dsort_def sort_key_idem)

lemma dsort_Nil_iff [simp]: "dsort d = [] \<longleftrightarrow> d = []"
  by (metis set_dsort set_empty)

lemma validate_policy_ok:
  assumes "validate_policy rt v = Inr t"
  shows "t \<noteq> [] \<and> policy_table_ok t \<and> dsort t = t"
proof -
  obtain d t0 where d: "v = JDict d" "d \<noteq> []" "validate_policy_items rt d [] = Inr t0" "t = dsort t0"
    using assms by (auto simp: validate_policy_def rbind_Inr_iff split: json.splits if_splits)
  have "policy_table_ok t0"
    by (rule validate_policy_items_ok [OF d(3)]) (simp add: policy_table_ok_def dict_wf_def dkeys_def)
  moreover have "t0 \<noteq> []" using validate_policy_items_not_Nil [OF d(3)] d(2) by simp
  ultimately show ?thesis by (auto simp: d(4) policy_table_ok_def)
qed

lemma dset_fresh: "k \<notin> set (dkeys d) \<Longrightarrow> dset d k v = d @ [(k, v)]"
  by (induction d k v rule: dset.induct) (auto simp: dkeys_def)

lemma validate_policy_items_fixed:
  assumes "policy_table_ok (out @ t)"
  shows "validate_policy_items rt (map (map_prod id JStr) t) out = Inr (out @ t)"
  using assms
proof (induction t arbitrary: out)
  case (Cons x t)
  obtain c a where x: "x = (c, a)" by (cases x)
  have "c \<notin> set (dkeys out)" "strip c = c" "c \<noteq> []" "a \<in> set SAFE_EXPLORATION_ARMS"
    using Cons.prems by (auto simp: x policy_table_ok_def dict_wf_def dkeys_def)
  then show ?case
    using Cons.IH [of "out @ [(c, a)]"] Cons.prems
    by (simp add: x Let_def dset_fresh safe_arm_strip)
qed simp

lemma validate_policy_fixed:
  assumes "validate_policy rt v = Inr t"
  shows "validate_policy rt (JDict (map (map_prod id JStr) t)) = Inr t"
  using validate_policy_ok [OF assms] validate_policy_items_fixed [of "[]" t rt]
  by (simp add: validate_policy_def)

lemma hex_digit_not_space: "\<not> is_space (hex_digit n)"
proof -
  have "\<forall>c \<in> set ''0123456789abcdef''. \<not> is_space c" by (simp add: is_space_def code_def Let_def)
  then show ?thesis using hex_digit_in by blast
qed

lemma strip_no_space: "list_all (\<lambda>c. \<not> is_space c) s \<Longrightarrow> strip s = s"
proof -
  assume a: "list_all (\<lambda>c. \<not> is_space c) s"
  have dw: "list_all (\<lambda>c. \<not> is_space c) t \<Longrightarrow> dropWhile is_space t = t" for t
    by (cases t) auto
  have "list_all (\<lambda>c. \<not> is_space c) (rev s)" using a by (simp add: list_all_iff)
  then show ?thesis using a by (simp add: strip_def lstrip_def rstrip_def dw)
qed

lemma strip_hexdigest [simp]: "strip (hexdigest bs) = hexdigest bs"
  by (rule strip_no_space) (induction bs, auto simp: hexdigest_def hex_digit_not_space)

lemma py_eq_two_strings [simp]:
  "py_eq (JList [JStr a, JStr b]) (JList [JStr a, JStr b])"
  by (simp add: py_eq_def)

text \<open>Documented behaviour of SHA-256: a digest has 32 bytes.\<close>

definition sha256_sized :: "runtime \<Rightarrow> bool" where
  "sha256_sized rt = (\<forall>m. length (rt_sha256 rt m) = 32)"

lemma sha256_json_nonempty: "sha256_sized rt \<Longrightarrow> sha256_json rt v \<noteq> []"
  using length_hexdigest [of "rt_sha256 rt (canonical rt v)"]
  by (auto simp: sha256_sized_def sha256_json_def)

lemma manifest_body_checks:
  assumes "validate_context_fields rt raw = Inr fs" "validate_policy rt v = Inr t"
    and "strip cutoff = cutoff" "cutoff \<noteq> []" "sha256_sized rt"
    and "s = dset (manifest_body rt now report fs t cutoff) ''signature'' sg"
  shows "manifest_identity_errors rt s = [] \<and> manifest_static_errors s = []
    \<and> jget s ''schema_version'' = JStr MANIFEST_SCHEMA_VERSION
    \<and> jget s ''feature_schema_version'' = JStr FEATURE_SCHEMA_VERSION"
  using validate_context_fields_idem [OF assms(1)] validate_policy_fixed [OF assms(2)]
    sha256_json_nonempty [OF assms(5), of "JDict report"] assms(3,4)
  by (simp add: assms(6) manifest_identity_errors_def manifest_static_errors_def manifest_fields_def
      manifest_policy_def manifest_body_def Let_def dict_simps)
     (simp add: sha256_json_def)

lemma create_policy_manifest_InrE:
  assumes "create_policy_manifest rt now report key = Inr m"
  obtains raw fs t cutoff where "jget report ''context_fields'' = JList raw"
    "validate_context_fields rt raw = Inr fs"
    "validate_policy rt (jget report ''development_policy'') = Inr t"
    "strip cutoff = cutoff" "cutoff \<noteq> []" "key \<noteq> []"
    "m = dset (manifest_body rt now report fs t cutoff) ''signature''
       (signature_entry rt (manifest_body rt now report fs t cutoff) key)"
proof (cases "jget report ''context_fields''")
  case (JList raw)
  obtain fs t where a: "validate_context_fields rt raw = Inr fs"
      "validate_policy rt (jget report ''development_policy'') = Inr t" "key \<noteq> []"
      "strip (py_str rt (jget_or report ''evidence_cutoff'' (JStr []))) \<noteq> []"
      "m = (let b = manifest_body rt now report fs t
              (strip (py_str rt (jget_or report ''evidence_cutoff'' (JStr []))))
            in dset b ''signature'' (signature_entry rt b key))"
    using assms JList
    by (auto simp: create_policy_manifest_def guard_that_Inr_iff rbind_Inr_iff sign_manifest_def Let_def)
  show ?thesis
    by (rule that [OF JList a(1,2) strip_idem a(4,3)]) (simp add: a(5) Let_def)
qed (use assms in \<open>auto simp: create_policy_manifest_def guard_that_def split: if_splits\<close>)

lemma manifest_body_no_signature: "dget (manifest_body rt now report fs t cutoff) ''signature'' = None"
  by (simp add: manifest_body_def Let_def dict_simps)

text \<open>A manifest the control plane creates passes its own verification.\<close>

lemma created_manifest_errors:
  assumes "create_policy_manifest rt now report key = Inr m" "sha256_sized rt"
  shows "manifest_errors rt m key = Inr []"
proof (rule create_policy_manifest_InrE [OF assms(1)])
  fix raw fs t cutoff
  let ?b = "manifest_body rt now report fs t cutoff"
  assume a: "validate_context_fields rt raw = Inr fs"
    "validate_policy rt (jget report ''development_policy'') = Inr t"
    "strip cutoff = cutoff" "cutoff \<noteq> []" "key \<noteq> []"
    "m = dset ?b ''signature'' (signature_entry rt ?b key)"
  have "sign_manifest rt ?b key = Inr m" using a(5,6) by (simp add: sign_manifest_def)
  then have "manifest_check rt m key = Inr []"
    by (rule manifest_seal.check_seal) (rule manifest_body_no_signature)
  then show ?thesis
    using manifest_body_checks [OF a(1,2,3,4) assms(2) a(6)] by (simp add: manifest_errors_Nil_iff)
qed

end
