(* ===== verification/DeploymentState.thy ===== *)
theory DeploymentState
  imports PolicyManifest
begin

text \<open>
  \<open>deployment_state.py\<close>, the document part: the staged roll-out of a policy.  A state is a signed
  JSON document; \<open>create_deployment_state\<close> approves a policy, \<open>transition_deployment_state\<close> moves
  it along approved, canary 1%, canary 5%, canary 10%, bounded, or rolls it back, and
  \<open>verify_deployment_state\<close> re-checks a document read from disk.
\<close>

section \<open>Stages\<close>

definition DEPLOYMENT_SCHEMA_VERSION :: string where
  "DEPLOYMENT_SCHEMA_VERSION = ''retrieval-deployment-state-v1''"

definition DEPLOYMENT_STAGES :: "string list" where
  "DEPLOYMENT_STAGES = [''approved'', ''canary_1'', ''canary_5'', ''canary_10'', ''bounded'', ''rolled_back'']"

definition LIVE_STAGES :: "string list" where
  "LIVE_STAGES = [''canary_1'', ''canary_5'', ''canary_10'', ''bounded'']"

definition STAGE_TRAFFIC :: "rat dict" where
  "STAGE_TRAFFIC = [(''approved'', 0), (''canary_1'', 1/100), (''canary_5'', 5/100),
     (''canary_10'', 1/10), (''rolled_back'', 0)]"

definition NEXT_STAGE :: "string dict" where
  "NEXT_STAGE = [(''approved'', ''canary_1''), (''canary_1'', ''canary_5''),
     (''canary_5'', ''canary_10''), (''canary_10'', ''bounded'')]"

definition DEFAULT_STAGE_EXPOSURE_BUDGETS :: "int dict" where
  "DEFAULT_STAGE_EXPOSURE_BUDGETS = [(''canary_1'', 100), (''canary_5'', 500), (''canary_10'', 1000), (''bounded'', 5000)]"

definition DEFAULT_STAGE_FAILURE_BUDGETS :: "int dict" where
  "DEFAULT_STAGE_FAILURE_BUDGETS = [(''canary_1'', 5), (''canary_5'', 20), (''canary_10'', 40), (''bounded'', 100)]"

definition traffic_for_stage :: "runtime \<Rightarrow> json dict \<Rightarrow> string \<Rightarrow> pyfloat result" where
  "traffic_for_stage rt state stage =
     (if stage = ''bounded''
      then to_float rt (jget_or state ''bounded_traffic_fraction'' (JFloat (Fin (1/4))))
      else Inr (Fin (case dget STAGE_TRAFFIC stage of Some r \<Rightarrow> r | None \<Rightarrow> 0)))"

definition stage_budgets :: "json \<Rightarrow> json" where
  "stage_budgets max_cost = JDict (map (\<lambda>stage. (stage, JDict
     [(''max_candidate_exposures'', JInt (the (dget DEFAULT_STAGE_EXPOSURE_BUDGETS stage))),
      (''max_candidate_failures'', JInt (the (dget DEFAULT_STAGE_FAILURE_BUDGETS stage))),
      (''max_cumulative_realized_cost'', max_cost)])) LIVE_STAGES)"

section \<open>The approved context distribution\<close>

text \<open>\<open>counts[key] = counts.get(key, 0) + 1\<close>\<close>

definition bump :: "int dict \<Rightarrow> string \<Rightarrow> int dict" where
  "bump counts k = dset counts k ((case dget counts k of None \<Rightarrow> 0 | Some n \<Rightarrow> n) + 1)"

definition low_risk_row_key :: "runtime \<Rightarrow> json list \<Rightarrow> json dict \<Rightarrow> string option" where
  "low_risk_row_key rt fs row =
     (if lower (py_str rt (jget_or row ''risk'' (JStr []))) \<noteq> ''low'' then None
      else if \<not> py_eq (jget row ''feature_schema_version'') (JStr FEATURE_SCHEMA_VERSION) then None
      else case jget row ''context_features'' of
        JDict features \<Rightarrow> (case context_key rt (JDict features) fs of Inr k \<Rightarrow> Some k | Inl _ \<Rightarrow> None)
      | _ \<Rightarrow> None)"

fun count_keys :: "string option list \<Rightarrow> int dict \<Rightarrow> int \<Rightarrow> int dict \<times> int" where
  "count_keys [] counts accepted = (counts, accepted)"
| "count_keys (None # ks) counts accepted = count_keys ks counts accepted"
| "count_keys (Some k # ks) counts accepted = count_keys ks (bump counts k) (accepted + 1)"

definition low_risk_context_distribution ::
  "runtime \<Rightarrow> json dict list \<Rightarrow> json dict \<Rightarrow> int \<Rightarrow> json dict result" where
  "low_risk_context_distribution rt records manifest limit =
     (case jget manifest ''context_fields'' of
        JList fields_raw \<Rightarrow>
          (let fs = map (\<lambda>f. JStr (py_str rt f)) fields_raw;
               rows = last_n (nat (max 1 limit)) records;
               (counts, accepted) = count_keys (map (low_risk_row_key rt fs) rows) [] 0
           in Inr [(''sample_size'', JInt accepted),
               (''counts'', JDict (map (map_prod id JInt) (dsort counts))),
               (''distribution'', JDict (map (\<lambda>(k, n). (k, JFloat (Fin (round_to 12 (of_int n / of_int accepted)))))
                  (dsort counts)))])
      | _ \<Rightarrow> Inl (ValueError ''manifest is missing context fields''))"

section \<open>Approval\<close>

record guardrail_params =
  gp_bounded_traffic_fraction :: pyfloat
  gp_reward_min :: pyfloat
  gp_reward_max :: pyfloat
  gp_max_importance_weight :: pyfloat
  gp_minimum_monitor_outcomes :: int
  gp_promotion_margin :: pyfloat
  gp_max_reward_regression :: pyfloat
  gp_max_failure_rate :: pyfloat
  gp_max_context_tv_distance :: pyfloat
  gp_max_unknown_context_rate :: pyfloat
  gp_minimum_drift_samples :: int
  gp_drift_window :: int
  gp_minimum_monitor_clusters :: int
  gp_cluster_bootstrap_resamples :: int
  gp_cluster_bootstrap_seed :: int
  gp_max_cumulative_realized_cost :: "pyfloat option"

definition default_params :: guardrail_params where
  "default_params = \<lparr>gp_bounded_traffic_fraction = Fin (1/4), gp_reward_min = Fin 0,
     gp_reward_max = Fin 1, gp_max_importance_weight = Fin 100, gp_minimum_monitor_outcomes = 20,
     gp_promotion_margin = Fin 0, gp_max_reward_regression = Fin (5/100),
     gp_max_failure_rate = Fin (1/10), gp_max_context_tv_distance = Fin (3/10),
     gp_max_unknown_context_rate = Fin (2/10), gp_minimum_drift_samples = 50, gp_drift_window = 200,
     gp_minimum_monitor_clusters = 5, gp_cluster_bootstrap_resamples = 2000,
     gp_cluster_bootstrap_seed = 20260911, gp_max_cumulative_realized_cost = None\<rparr>"

definition unit_interval :: "pyfloat \<Rightarrow> bool" where
  "unit_interval x = (fl_le (Fin 0) x \<and> fl_le x (Fin 1))"

definition bounded_fraction_ok :: "pyfloat \<Rightarrow> bool" where
  "bounded_fraction_ok x = (fl_lt (Fin (1/10)) x \<and> fl_le x (Fin (1/4)))"

definition check_params :: "guardrail_params \<Rightarrow> 'a result \<Rightarrow> 'a result" where
  "check_params p k =
     guard_that (fl_finite (gp_bounded_traffic_fraction p) \<and> bounded_fraction_ok (gp_bounded_traffic_fraction p))
       (ValueError ''bounded_traffic_fraction must be greater than 0.10 and at most 0.25'')
     (guard_that (fl_finite (gp_reward_min p) \<and> fl_finite (gp_reward_max p))
       (ValueError ''reward bounds must be finite'')
     (guard_that (\<not> fl_le (gp_reward_max p) (gp_reward_min p))
       (ValueError ''reward_max must be greater than reward_min'')
     (guard_that (\<not> fl_lt (gp_max_importance_weight p) (Fin 100))
       (ValueError ''max_importance_weight must be at least 100 for the 1% canary'')
     (guard_that (unit_interval (gp_max_failure_rate p))
       (ValueError ''max_failure_rate must be between 0 and 1'')
     (guard_that (unit_interval (gp_max_context_tv_distance p))
       (ValueError ''max_context_tv_distance must be between 0 and 1'')
     (guard_that (unit_interval (gp_max_unknown_context_rate p))
       (ValueError ''max_unknown_context_rate must be between 0 and 1'')
     (guard_that (2 \<le> gp_minimum_monitor_clusters p)
       (ValueError ''minimum_monitor_clusters must be at least 2'')
     (guard_that (100 \<le> gp_cluster_bootstrap_resamples p)
       (ValueError ''cluster_bootstrap_resamples must be at least 100'')
     (guard_that (case gp_max_cumulative_realized_cost p of
          None \<Rightarrow> True | Some c \<Rightarrow> fl_finite c \<and> \<not> fl_lt c (Fin 0))
       (ValueError ''max_cumulative_realized_cost must be finite/non-negative'') k)))))))))"

definition guardrails_json :: "guardrail_params \<Rightarrow> json" where
  "guardrails_json p = JDict
     [(''reward_min'', JFloat (gp_reward_min p)),
      (''reward_max'', JFloat (gp_reward_max p)),
      (''max_importance_weight'', JFloat (gp_max_importance_weight p)),
      (''minimum_monitor_outcomes'', JInt (max 1 (gp_minimum_monitor_outcomes p))),
      (''promotion_margin'', JFloat (gp_promotion_margin p)),
      (''max_reward_regression'', JFloat (fl_max (Fin 0) (gp_max_reward_regression p))),
      (''max_failure_rate'', JFloat (gp_max_failure_rate p)),
      (''max_context_tv_distance'', JFloat (gp_max_context_tv_distance p)),
      (''max_unknown_context_rate'', JFloat (gp_max_unknown_context_rate p)),
      (''minimum_drift_samples'', JInt (max 1 (gp_minimum_drift_samples p))),
      (''drift_window'', JInt (max 1 (gp_drift_window p))),
      (''minimum_monitor_clusters'', JInt (gp_minimum_monitor_clusters p)),
      (''cluster_bootstrap_resamples'', JInt (gp_cluster_bootstrap_resamples p)),
      (''cluster_bootstrap_seed'', JInt (gp_cluster_bootstrap_seed p)),
      (''stage_budgets'', stage_budgets (case gp_max_cumulative_realized_cost p of
          None \<Rightarrow> JNull | Some c \<Rightarrow> JFloat c))]"

text \<open>The shadow report must be about this manifest, eligible, verified and without live traffic.\<close>

definition shadow_report_ok :: "json dict \<Rightarrow> json dict \<Rightarrow> bool" where
  "shadow_report_ok manifest shadow =
     (py_eq (jget shadow ''policy_id'') (jget manifest ''policy_id'')
      \<and> py_eq (jget shadow ''evidence_cutoff'') (jget manifest ''evidence_cutoff'')
      \<and> (case jget shadow ''shadow_gate'' of
           JDict g \<Rightarrow> truthy (jget g ''eligible_for_manual_promotion_review'') | _ \<Rightarrow> False)
      \<and> (case jget shadow ''manifest_verification'' of
           JDict c \<Rightarrow> truthy (jget c ''valid'') | _ \<Rightarrow> False)
      \<and> (case jget shadow ''execution'' of
           JDict e \<Rightarrow> \<not> truthy (jget e ''policy_received_runtime_traffic'') | _ \<Rightarrow> False))"

definition approved_state ::
  "runtime \<Rightarrow> string \<Rightarrow> json dict \<Rightarrow> json dict \<Rightarrow> string \<Rightarrow> guardrail_params \<Rightarrow> json dict \<Rightarrow> json dict" where
  "approved_state rt now manifest shadow approver p distribution =
     [(''schema_version'', JStr DEPLOYMENT_SCHEMA_VERSION),
      (''policy_id'', JStr (strip (py_str rt (jget_or manifest ''policy_id'' (JStr []))))),
      (''stage'', JStr ''approved''),
      (''traffic_fraction'', JFloat (Fin 0)),
      (''bounded_traffic_fraction'', JFloat (gp_bounded_traffic_fraction p)),
      (''generation'', JInt 1),
      (''created_at'', JStr now),
      (''updated_at'', JStr now),
      (''approved_by'', JStr approver),
      (''automatic_runtime_activation'', JBool False),
      (''policy_manifest'', JDict manifest),
      (''shadow_report_sha256'', JStr (sha256_json rt (JDict shadow))),
      (''baseline_context_distribution'', JDict distribution),
      (''guardrails'', guardrails_json p),
      (''rollback'', JDict [(''target_arm'', JStr BASELINE_ARM), (''automatic'', JBool True),
         (''reason'', JNull), (''rolled_back_at'', JNull)]),
      (''history'', JList [JDict [(''generation'', JInt 1), (''from'', JStr ''shadow''),
         (''to'', JStr ''approved''), (''actor'', JStr approver), (''at'', JStr now),
         (''evidence_sha256'', JStr (sha256_json rt (JDict shadow))),
         (''reason'', JStr ''manual approval after signed shadow evidence'')]])]"

definition create_deployment_state ::
  "runtime \<Rightarrow> string \<Rightarrow> json dict list \<Rightarrow> json dict \<Rightarrow> json dict \<Rightarrow> string \<Rightarrow> string \<Rightarrow> guardrail_params
     \<Rightarrow> json dict result" where
  "create_deployment_state rt now records manifest shadow signing_key approved_by p =
     rbind (manifest_errors rt manifest signing_key) (\<lambda>errors.
     guard_that (errors = []) (ValueError ''policy manifest verification failed'')
     (guard_that (shadow_report_ok manifest shadow)
       (ValueError ''shadow report is not eligible for deployment approval'')
     (let approver = strip approved_by in
      guard_that (approver \<noteq> []) (ValueError ''approved_by must not be blank'')
      (check_params p
        (rbind (low_risk_context_distribution rt records manifest 2000) (\<lambda>distribution.
           sign_payload rt (approved_state rt now manifest shadow approver p distribution) signing_key))))))"

section \<open>Verification\<close>

definition state_stage :: "runtime \<Rightarrow> json dict \<Rightarrow> string" where
  "state_stage rt state = py_str rt (jget_or state ''stage'' (JStr []))"

definition generation_ok :: "json \<Rightarrow> bool" where
  "generation_ok g = (case g of JInt n \<Rightarrow> 1 \<le> n | _ \<Rightarrow> False)"

definition manifest_part :: "runtime \<Rightarrow> json dict \<Rightarrow> string \<Rightarrow> (string list \<times> json dict) result" where
  "manifest_part rt state signing_key =
     (case jget state ''policy_manifest'' of
        JDict manifest \<Rightarrow> rbind (verify_policy_manifest rt manifest signing_key) (\<lambda>manifest_check.
          Inr (err_if (\<not> truthy (jget manifest_check ''valid'')) ''manifest_verification_failed''
             @ err_if (\<not> py_eq (jget state ''policy_id'') (jget manifest ''policy_id''))
                 ''policy_id_mismatch'', manifest_check))
      | _ \<Rightarrow> Inr ([''manifest_missing''], [(''valid'', JBool False)]))"

definition bounded_invalid :: "runtime \<Rightarrow> json dict \<Rightarrow> bool result" where
  "bounded_invalid rt state =
     (let bounded = jget state ''bounded_traffic_fraction'' in
      if is_number bounded then rbind (to_float rt bounded) (\<lambda>x. Inr (\<not> bounded_fraction_ok x))
      else Inr True)"

definition traffic_mismatch :: "runtime \<Rightarrow> json dict \<Rightarrow> bool result" where
  "traffic_mismatch rt state =
     (let stage = state_stage rt state; actual = jget state ''traffic_fraction'' in
      if stage \<in> set DEPLOYMENT_STAGES then
        rbind (traffic_for_stage rt state stage) (\<lambda>expected.
          if is_number actual then
            rbind (to_float rt actual) (\<lambda>a. Inr (fl_lt (Fin (1 / 10 ^ 12)) (fl_abs (fl_sub a expected))))
          else Inr True)
      else Inr True)"

definition rollback_ok :: "json dict \<Rightarrow> bool" where
  "rollback_ok state = (case jget state ''rollback'' of
     JDict r \<Rightarrow> py_eq (jget r ''target_arm'') (JStr BASELINE_ARM) | _ \<Rightarrow> False)"

text \<open>The error list of \<open>verify_deployment_state\<close> with the manifest's own verification.\<close>

definition state_checks :: "runtime \<Rightarrow> json dict \<Rightarrow> string \<Rightarrow> (string list \<times> json dict) result" where
  "state_checks rt state signing_key =
     rbind (verify_signature rt state signing_key) (\<lambda>e_sig.
     rbind (manifest_part rt state signing_key) (\<lambda>(e_man, manifest_check).
     rbind (bounded_invalid rt state) (\<lambda>bad_bounded.
     rbind (traffic_mismatch rt state) (\<lambda>bad_traffic.
     Inr (e_sig
       @ err_if (\<not> py_eq (jget state ''schema_version'') (JStr DEPLOYMENT_SCHEMA_VERSION)) ''schema_version_mismatch''
       @ err_if (state_stage rt state \<notin> set DEPLOYMENT_STAGES) ''invalid_stage''
       @ err_if (\<not> generation_ok (jget state ''generation'')) ''invalid_generation''
       @ e_man
       @ err_if bad_bounded ''invalid_bounded_traffic_fraction''
       @ err_if bad_traffic ''traffic_fraction_mismatch''
       @ err_if (truthy (jget state ''automatic_runtime_activation'')) ''automatic_activation_forbidden''
       @ err_if (\<not> rollback_ok state) ''rollback_target_mismatch'',
       manifest_check)))))"

definition verify_deployment_state :: "runtime \<Rightarrow> json dict \<Rightarrow> string \<Rightarrow> json dict result" where
  "verify_deployment_state rt state signing_key =
     rbind (state_checks rt state signing_key) (\<lambda>(errors, manifest_check). Inr
       [(''valid'', JBool (errors = [])),
        (''errors'', JList (map JStr errors)),
        (''policy_id'', jget state ''policy_id''),
        (''stage'', JStr (state_stage rt state)),
        (''generation'', jget state ''generation''),
        (''traffic_fraction'', jget state ''traffic_fraction''),
        (''manifest_verification'', JDict manifest_check),
        (''automatic_runtime_activation'', JBool False),
        (''rollback_target'', JStr BASELINE_ARM)])"

text \<open>What a caller tests: \<open>verification["valid"]\<close>.\<close>

definition state_valid :: "runtime \<Rightarrow> json dict \<Rightarrow> string \<Rightarrow> bool result" where
  "state_valid rt state signing_key =
     rbind (verify_deployment_state rt state signing_key) (\<lambda>v. Inr (truthy (jget v ''valid'')))"

section \<open>Transition\<close>

text \<open>The gates of a promotion out of a live stage.\<close>

definition promotion_gate :: "json dict \<Rightarrow> string \<Rightarrow> json \<Rightarrow> 'a result \<Rightarrow> 'a result" where
  "promotion_gate state current guardrail_report k =
     (case guardrail_report of
        JDict report \<Rightarrow>
          guard_that (case jget report ''gate'' of JDict gate \<Rightarrow> truthy (jget gate ''safe_to_advance'') | _ \<Rightarrow> False)
            (ValueError ''live-stage promotion requires a passing guardrail report'')
          (guard_that (py_eq (jget report ''policy_id'') (jget state ''policy_id''))
            (ValueError ''guardrail report policy_id mismatch'')
          (guard_that (py_eq (jget report ''state_generation'') (jget state ''generation''))
            (ValueError ''guardrail report generation mismatch'')
          (guard_that (py_eq (jget report ''stage'') (JStr current))
            (ValueError ''guardrail report stage mismatch'') k)))
      | _ \<Rightarrow> Inl (ValueError ''live-stage promotion requires a passing guardrail report''))"

definition transition_gate ::
  "json dict \<Rightarrow> string \<Rightarrow> string \<Rightarrow> json \<Rightarrow> 'a result \<Rightarrow> 'a result" where
  "transition_gate state current target guardrail_report k =
     (if target = ''rolled_back''
      then guard_that (current \<noteq> ''rolled_back'') (ValueError ''deployment is already rolled back'') k
      else guard_that (dget NEXT_STAGE current = Some target) (ValueError ''invalid deployment transition'')
        (if current \<in> set LIVE_STAGES then promotion_gate state current guardrail_report k else k))"

text \<open>\<open>str(reason).strip() if reason is not None and str(reason).strip() else default\<close>\<close>

definition reason_or :: "string option \<Rightarrow> string \<Rightarrow> string" where
  "reason_or reason dflt = (case reason of
     Some r \<Rightarrow> (if strip r \<noteq> [] then strip r else dflt) | None \<Rightarrow> dflt)"

definition history_entry ::
  "runtime \<Rightarrow> string \<Rightarrow> int \<Rightarrow> string \<Rightarrow> string \<Rightarrow> string \<Rightarrow> json \<Rightarrow> string option \<Rightarrow> json" where
  "history_entry rt now generation current target actor guardrail_report reason = JDict
     [(''generation'', JInt generation),
      (''from'', JStr current),
      (''to'', JStr target),
      (''actor'', JStr actor),
      (''at'', JStr now),
      (''evidence_sha256'', if guardrail_report \<noteq> JNull
          then JStr (sha256_json rt guardrail_report) else JNull),
      (''reason'', JStr (reason_or reason (if target \<noteq> ''rolled_back''
          then ''manual staged promotion'' else ''manual or automatic rollback'')))]"

definition rolled_back_entry :: "string \<Rightarrow> string \<Rightarrow> string option \<Rightarrow> json dict \<Rightarrow> json dict" where
  "rolled_back_entry now actor reason rollback =
     dset (dset (dset rollback
       ''reason'' (JStr (reason_or reason ''deployment guardrail rollback'')))
       ''rolled_back_at'' (JStr now))
       ''automatic'' (JBool (starts_with actor ''runtime:''))"

definition transition_deployment_state ::
  "runtime \<Rightarrow> string \<Rightarrow> json dict \<Rightarrow> string \<Rightarrow> string \<Rightarrow> string \<Rightarrow> json \<Rightarrow> string option
     \<Rightarrow> json dict result" where
  "transition_deployment_state rt now state signing_key to_stage actor guardrail_report reason =
     rbind (state_valid rt state signing_key) (\<lambda>valid.
     guard_that valid (ValueError ''deployment state verification failed'')
     (let current = state_stage rt state; target = strip to_stage; actor_value = strip actor in
      guard_that (actor_value \<noteq> []) (ValueError ''actor must not be blank'')
      (transition_gate state current target guardrail_report
        (let unsigned = dset (dpop state ''signature'') ''stage'' (JStr target) in
         rbind (traffic_for_stage rt unsigned target) (\<lambda>traffic.
         rbind (to_int (jget state ''generation'')) (\<lambda>g.
         let generation = g + 1;
             unsigned = dset (dset (dset unsigned ''traffic_fraction'' (JFloat traffic))
               ''generation'' (JInt generation)) ''updated_at'' (JStr now)
         in rbind (to_list (py_or (jget unsigned ''history'') (JList []))) (\<lambda>history.
         let unsigned = dset unsigned ''history'' (JList (history @
               [history_entry rt now generation current target actor_value guardrail_report reason]))
         in rbind (if target = ''rolled_back'' then
                (case py_or (jget unsigned ''rollback'') (JDict []) of
                   JDict rollback \<Rightarrow> Inr (dset unsigned ''rollback''
                     (JDict (rolled_back_entry now actor_value reason rollback)))
                 | _ \<Rightarrow> Inl (TypeError ''rollback is not an object''))
              else Inr unsigned)
            (\<lambda>unsigned. sign_payload rt unsigned signing_key))))))))"

end
