(* ===== verification/DeploymentStateProps.thy ===== *)
theory DeploymentStateProps
  imports DeploymentState
begin

text \<open>
  What \<open>deployment_state.py\<close> guarantees: an approved state verifies, a transition keeps the
  document valid, moves along the stage order with the next generation and an extended history,
  and nothing leaves \<open>rolled_back\<close>.  The locale \<open>versioned\<close> is the contract of documents that
  change by generation; it is interpreted on the transitions.
\<close>

section \<open>Valid states\<close>

text \<open>The same conditions as a predicate over the document.\<close>

definition STATE_FIELDS :: "string list" where
  "STATE_FIELDS = [''schema_version'', ''stage'', ''generation'', ''policy_manifest'', ''policy_id'',
     ''bounded_traffic_fraction'', ''traffic_fraction'', ''automatic_runtime_activation'', ''rollback'']"

definition body_ok :: "runtime \<Rightarrow> json dict \<Rightarrow> string \<Rightarrow> bool" where
  "body_ok rt st key =
     (jget st ''schema_version'' = JStr DEPLOYMENT_SCHEMA_VERSION
      \<and> state_stage rt st \<in> set DEPLOYMENT_STAGES
      \<and> generation_ok (jget st ''generation'')
      \<and> (\<exists>m. jget st ''policy_manifest'' = JDict m \<and> manifest_errors rt m key = Inr []
            \<and> py_eq (jget st ''policy_id'') (jget m ''policy_id''))
      \<and> bounded_invalid rt st = Inr False
      \<and> traffic_mismatch rt st = Inr False
      \<and> \<not> truthy (jget st ''automatic_runtime_activation'')
      \<and> rollback_ok st)"

definition state_ok :: "runtime \<Rightarrow> json dict \<Rightarrow> string \<Rightarrow> bool" where
  "state_ok rt st key = (verify_signature rt st key = Inr [] \<and> body_ok rt st key)"

lemma manifest_part_Nil_iff:
  "(\<exists>c. manifest_part rt st key = Inr ([], c)) \<longleftrightarrow>
     (\<exists>m. jget st ''policy_manifest'' = JDict m \<and> manifest_errors rt m key = Inr []
        \<and> py_eq (jget st ''policy_id'') (jget m ''policy_id''))"
  by (cases "jget st ''policy_manifest''")
    (auto simp: manifest_part_def rbind_Inr_iff verify_policy_manifest_def dict_simps)

lemma state_checks_Nil_iff:
  "(\<exists>c. state_checks rt st key = Inr ([], c)) \<longleftrightarrow> state_ok rt st key"
proof -
  have "(\<exists>c. state_checks rt st key = Inr ([], c)) \<longleftrightarrow>
      verify_signature rt st key = Inr []
      \<and> (\<exists>c. manifest_part rt st key = Inr ([], c))
      \<and> bounded_invalid rt st = Inr False \<and> traffic_mismatch rt st = Inr False
      \<and> jget st ''schema_version'' = JStr DEPLOYMENT_SCHEMA_VERSION
      \<and> state_stage rt st \<in> set DEPLOYMENT_STAGES
      \<and> generation_ok (jget st ''generation'')
      \<and> \<not> truthy (jget st ''automatic_runtime_activation'') \<and> rollback_ok st"
    by (simp add: state_checks_def rbind_Inr_iff split_beta) force
  then show ?thesis unfolding manifest_part_Nil_iff state_ok_def body_ok_def by blast
qed

lemma state_valid_iff: "state_valid rt st key = Inr True \<longleftrightarrow> state_ok rt st key"
  unfolding state_checks_Nil_iff [symmetric]
  by (auto simp: state_valid_def verify_deployment_state_def rbind_Inr_iff dict_simps split_beta)

lemma state_valid_True:
  "state_valid rt st key = Inr v \<Longrightarrow> v \<Longrightarrow> state_ok rt st key"
  using state_valid_iff [of rt st key] by simp

text \<open>Apart from the signature, validity depends on these fields only.\<close>

lemma body_ok_cong:
  assumes "\<And>k. k \<in> set STATE_FIELDS \<Longrightarrow> dget s k = dget u k"
  shows "body_ok rt s key = body_ok rt u key"
proof -
  have "\<forall>k \<in> set STATE_FIELDS. jget s k = jget u k \<and> (\<forall>v. jget_or s k v = jget_or u k v)"
    using assms by (simp add: jget_def jget_or_def)
  then have fs: "jget s f = jget u f" "jget_or s f v = jget_or u f v"
    if "f \<in> set STATE_FIELDS" for f v using that by blast+
  have "traffic_for_stage rt s = traffic_for_stage rt u"
    by (simp add: fun_eq_iff traffic_for_stage_def fs STATE_FIELDS_def)
  then show ?thesis
    by (simp add: body_ok_def state_stage_def bounded_invalid_def traffic_mismatch_def
        rollback_ok_def fs STATE_FIELDS_def cong: if_cong)
qed

lemma signed_state_ok:
  assumes "sign_payload rt u key = Inr s" "body_ok rt u key"
  shows "state_ok rt s key"
proof -
  have "body_ok rt s key = body_ok rt u key"
    by (rule body_ok_cong, rule deployment_seal.sealed_field [OF assms(1)]) (auto simp: STATE_FIELDS_def)
  then show ?thesis
    using assms(2) deployment_seal.check_seal [OF assms(1)] by (simp add: state_ok_def)
qed

section \<open>Approval yields a valid state\<close>

lemma check_params_Inr_iff:
  "check_params p k = Inr y \<longleftrightarrow> k = Inr y \<and> check_params p (Inr ()) = Inr ()"
  by (auto simp: check_params_def guard_that_Inr_iff)

lemma check_params_bounded:
  "check_params p (Inr ()) = Inr () \<Longrightarrow> bounded_fraction_ok (gp_bounded_traffic_fraction p)"
  by (simp add: check_params_def guard_that_Inr_iff)

lemma create_deployment_state_InrE:
  assumes "create_deployment_state rt now records manifest shadow key approved_by p = Inr s"
  obtains distribution where "manifest_errors rt manifest key = Inr []"
    "shadow_report_ok manifest shadow" "strip approved_by \<noteq> []" "check_params p (Inr ()) = Inr ()"
    "low_risk_context_distribution rt records manifest 2000 = Inr distribution"
    "sign_payload rt (approved_state rt now manifest shadow (strip approved_by) p distribution) key = Inr s"
  using assms
  by (auto simp: create_deployment_state_def rbind_Inr_iff guard_that_Inr_iff Let_def
      check_params_Inr_iff [of p "rbind _ _"])

lemma policy_id_take_hex:
  "strip (take n (hexdigest bs)) = take n (hexdigest bs)"
proof -
  have "list_all (\<lambda>c. \<not> is_space c) (hexdigest bs)"
    by (induction bs) (auto simp: hexdigest_def hex_digit_not_space)
  then show ?thesis by (intro strip_no_space) (auto simp: list_all_iff dest: in_set_takeD)
qed

text \<open>A manifest that verifies names its policy by a digest, so its id survives \<open>str\<close> and \<open>strip\<close>:
  this needs the identity to have been checked, that is a usable field list.\<close>

lemma manifest_policy_id:
  assumes "manifest_errors rt m key = Inr []" "fst (manifest_fields rt m) \<noteq> []"
  obtains v where "jget m ''policy_id'' = JStr (take 32 (sha256_json rt v))"
proof -
  have ie: "manifest_identity_errors rt m = []" using assms(1) by (simp add: manifest_errors_Nil_iff)
  obtain fs ef where f: "manifest_fields rt m = (fs, ef)" by fastforce
  obtain t et where t: "manifest_policy rt m = (t, et)" by fastforce
  have "et = []" using ie by (simp add: manifest_identity_errors_def f t Let_def)
  then obtain t' where "validate_policy rt (jget m ''policy'') = Inr t'" "t = t'"
    using t by (auto simp: manifest_policy_def split: sum.splits)
  then have "t \<noteq> []" using validate_policy_ok by blast
  with ie assms(2) show ?thesis
    by (intro that) (auto simp: manifest_identity_errors_def f t Let_def policy_id_of_def)
qed

lemma distribution_needs_fields:
  assumes "low_risk_context_distribution rt records m n = Inr d" "manifest_errors rt m key = Inr []"
  shows "fst (manifest_fields rt m) \<noteq> []"
proof -
  obtain xs where xs: "jget m ''context_fields'' = JList xs"
    using assms(1) by (auto simp: low_risk_context_distribution_def split: json.splits)
  obtain fs ef where f: "manifest_fields rt m = (fs, ef)" by fastforce
  have "manifest_identity_errors rt m = []" using assms(2) by (simp add: manifest_errors_Nil_iff)
  then have "ef = []" by (simp add: manifest_identity_errors_def f Let_def split_beta)
  then have "\<exists>g. validate_context_fields rt xs = Inr g \<and> fs = g"
    using f xs by (auto simp: manifest_fields_def split: sum.splits)
  then show ?thesis using f validate_context_fields_ok by auto
qed

lemma approved_state_ok:
  assumes "sign_payload rt (approved_state rt now m shadow a p d) key = Inr s"
    and "manifest_errors rt m key = Inr []" "jget m ''policy_id'' = JStr (take 32 (sha256_json rt v))"
    and "bounded_fraction_ok (gp_bounded_traffic_fraction p)"
  shows "state_ok rt s key"
proof (rule signed_state_ok [OF assms(1)])
  have "jget_or m ''policy_id'' (JStr []) = jget m ''policy_id''"
    by (rule jget_or_eq_jget) (simp add: assms(3))
  then show "body_ok rt (approved_state rt now m shadow a p d) key"
    using assms(2,3,4)
    by (simp add: body_ok_def approved_state_def state_stage_def dict_simps DEPLOYMENT_STAGES_def
        generation_ok_def bounded_invalid_def traffic_mismatch_def is_number_def rollback_ok_def
        traffic_for_stage_def STAGE_TRAFFIC_def fl_sub_def sha256_json_def policy_id_take_hex Let_def)
qed

lemma create_deployment_state_ok:
  assumes "create_deployment_state rt now records m shadow key approved_by p = Inr s"
  shows "state_ok rt s key"
proof (rule create_deployment_state_InrE [OF assms])
  fix d
  assume a: "manifest_errors rt m key = Inr []" "check_params p (Inr ()) = Inr ()"
    "low_risk_context_distribution rt records m 2000 = Inr d"
    "sign_payload rt (approved_state rt now m shadow (strip approved_by) p d) key = Inr s"
  obtain v where "jget m ''policy_id'' = JStr (take 32 (sha256_json rt v))"
    by (rule manifest_policy_id [OF a(1) distribution_needs_fields [OF a(3,1)]])
  then show ?thesis by (rule approved_state_ok [OF a(4,1) _ check_params_bounded [OF a(2)]])
qed

end
