(* ===== verification/DeploymentTransitions.thy ===== *)
theory DeploymentTransitions
  imports DeploymentStateProps
begin

text \<open>
  Transitions of the deployment document: what one promotion or rollback changes, that it keeps
  the document valid, and what holds along any run of transitions.  The locale \<open>versioned\<close>
  states what a store of generation-counted documents needs from its step.
\<close>

section \<open>The gate\<close>

definition gate_open :: "json dict \<Rightarrow> string \<Rightarrow> string \<Rightarrow> json \<Rightarrow> bool" where
  "gate_open st current target report = (transition_gate st current target report (Inr ()) = Inr ())"

lemma transition_gate_Inr_iff:
  "transition_gate st c t r k = Inr y \<longleftrightarrow> gate_open st c t r \<and> k = Inr y"
  by (cases r) (auto simp: transition_gate_def gate_open_def promotion_gate_def guard_that_def)

text \<open>The stage order: where each stage stands and what may follow.\<close>

definition stage_rank :: "string \<Rightarrow> nat" where
  "stage_rank s = (if s = ''approved'' then 0 else if s = ''canary_1'' then 1 else if s = ''canary_5'' then 2
     else if s = ''canary_10'' then 3 else if s = ''bounded'' then 4 else 5)"

lemma dget_NEXT_STAGE:
  "dget NEXT_STAGE s = Some t \<longleftrightarrow>
     (s = ''approved'' \<and> t = ''canary_1'') \<or> (s = ''canary_1'' \<and> t = ''canary_5'')
     \<or> (s = ''canary_5'' \<and> t = ''canary_10'') \<or> (s = ''canary_10'' \<and> t = ''bounded'')"
  by (auto simp: NEXT_STAGE_def dict_simps split: if_splits)

lemma gate_open_next:
  "gate_open st c t r \<Longrightarrow> t \<noteq> ''rolled_back'' \<Longrightarrow> dget NEXT_STAGE c = Some t"
  by (simp add: gate_open_def transition_gate_def guard_that_Inr_iff)

lemma gate_open_rank:
  assumes "gate_open st c t r" "c \<in> set DEPLOYMENT_STAGES"
  shows "stage_rank c < stage_rank t" "t \<in> set DEPLOYMENT_STAGES" "c \<noteq> ''rolled_back''"
proof -
  have "stage_rank c < stage_rank t \<and> t \<in> set DEPLOYMENT_STAGES \<and> c \<noteq> ''rolled_back''"
  proof (cases "t = ''rolled_back''")
    case True
    then have "c \<noteq> ''rolled_back''"
      using assms(1) by (simp add: gate_open_def transition_gate_def guard_that_Inr_iff)
    then show ?thesis using assms(2) True by (auto simp: stage_rank_def DEPLOYMENT_STAGES_def)
  next
    case False
    then have "dget NEXT_STAGE c = Some t" by (rule gate_open_next [OF assms(1)])
    then show ?thesis by (auto simp: dget_NEXT_STAGE stage_rank_def DEPLOYMENT_STAGES_def)
  qed
  then show "stage_rank c < stage_rank t" "t \<in> set DEPLOYMENT_STAGES" "c \<noteq> ''rolled_back''" by auto
qed

text \<open>Promotion out of a live stage needs a passing report about exactly this state.\<close>

lemma gate_open_report:
  assumes "gate_open st c t r" "t \<noteq> ''rolled_back''" "c \<in> set LIVE_STAGES"
  obtains rep g where "r = JDict rep" "jget rep ''gate'' = JDict g" "truthy (jget g ''safe_to_advance'')"
    "py_eq (jget rep ''policy_id'') (jget st ''policy_id'')"
    "py_eq (jget rep ''state_generation'') (jget st ''generation'')"
    "jget rep ''stage'' = JStr c"
  using assms
  by (auto simp: gate_open_def transition_gate_def promotion_gate_def guard_that_Inr_iff
      split: json.splits)

section \<open>One transition\<close>

lemma state_ok_generation:
  assumes "state_ok rt st key"
  obtains n where "jget st ''generation'' = JInt n" "1 \<le> n"
  using assms by (auto simp: state_ok_def body_ok_def generation_ok_def split: json.splits)

lemma state_ok_rollback:
  assumes "state_ok rt st key"
  obtains r where "jget st ''rollback'' = JDict r" "r \<noteq> []" "jget r ''target_arm'' = JStr BASELINE_ARM"
proof -
  obtain r where "jget st ''rollback'' = JDict r" "jget r ''target_arm'' = JStr BASELINE_ARM"
    using assms by (auto simp: state_ok_def body_ok_def rollback_ok_def split: json.splits)
  then show ?thesis by (cases r) (auto intro: that)
qed

text \<open>The unsigned document a transition produces.\<close>

definition transition_body ::
  "runtime \<Rightarrow> string \<Rightarrow> json dict \<Rightarrow> string \<Rightarrow> string \<Rightarrow> string \<Rightarrow> json \<Rightarrow> string option \<Rightarrow> pyfloat
    \<Rightarrow> int \<Rightarrow> json list \<Rightarrow> json dict \<Rightarrow> json dict" where
  "transition_body rt now st current target actor report reason traffic g history rollback =
     (let u = dset (dset (dset (dset (dset (dpop st ''signature'') ''stage'' (JStr target))
            ''traffic_fraction'' (JFloat traffic)) ''generation'' (JInt (g + 1)))
            ''updated_at'' (JStr now))
            ''history'' (JList (history @ [history_entry rt now (g + 1) current target actor report reason]))
      in if target = ''rolled_back''
         then dset u ''rollback'' (JDict (rolled_back_entry now actor reason rollback)) else u)"

text \<open>A transition of a valid state, with the reads that cannot fail already done.\<close>

lemma transition_eq:
  assumes "state_ok rt st key" "jget st ''generation'' = JInt g" "jget st ''rollback'' = JDict r"
  shows "transition_deployment_state rt now st key to_stage actor report reason =
    guard_that (strip actor \<noteq> []) (ValueError ''actor must not be blank'')
     (transition_gate st (state_stage rt st) (strip to_stage) report
       (rbind (traffic_for_stage rt st (strip to_stage)) (\<lambda>traffic.
        rbind (to_list (py_or (jget st ''history'') (JList []))) (\<lambda>history.
          sign_payload rt (transition_body rt now st (state_stage rt st) (strip to_stage) (strip actor)
            report reason traffic g history r) key))))"
proof -
  have v: "state_valid rt st key = Inr True" using assms(1) by (simp add: state_valid_iff)
  obtain r' where "jget st ''rollback'' = JDict r'" "r' \<noteq> []"
    by (rule state_ok_rollback [OF assms(1)])
  then have "r \<noteq> []" using assms(3) by simp
  then have rb: "py_or (JDict r) (JDict []) = JDict r" by (simp add: py_or_def)
  have tr: "traffic_for_stage rt (dset (dpop st ''signature'') ''stage'' v) = traffic_for_stage rt st" for v
    by (simp add: fun_eq_iff traffic_for_stage_def)
  show ?thesis
    by (cases "strip to_stage = ''rolled_back''")
      (simp_all add: transition_deployment_state_def v Let_def tr assms(2,3) rb transition_body_def)
qed

lemma transition_InrE:
  assumes "transition_deployment_state rt now st key to_stage actor report reason = Inr s"
  obtains g history rollback traffic where
    "state_ok rt st key" "strip actor \<noteq> []"
    "gate_open st (state_stage rt st) (strip to_stage) report"
    "jget st ''generation'' = JInt g" "1 \<le> g"
    "to_list (py_or (jget st ''history'') (JList [])) = Inr history"
    "jget st ''rollback'' = JDict rollback"
    "traffic_for_stage rt st (strip to_stage) = Inr traffic"
    "sign_payload rt (transition_body rt now st (state_stage rt st) (strip to_stage) (strip actor)
       report reason traffic g history rollback) key = Inr s"
proof -
  have ok: "state_ok rt st key"
    using assms by (auto simp: transition_deployment_state_def rbind_Inr_iff guard_that_Inr_iff
        state_valid_iff [symmetric] simp del: not_False_eq_True)
  obtain g where g: "jget st ''generation'' = JInt g" "1 \<le> g" by (rule state_ok_generation [OF ok])
  obtain r where r: "jget st ''rollback'' = JDict r" by (rule state_ok_rollback [OF ok])
  obtain traffic history where "strip actor \<noteq> []"
    "gate_open st (state_stage rt st) (strip to_stage) report"
    "traffic_for_stage rt st (strip to_stage) = Inr traffic"
    "to_list (py_or (jget st ''history'') (JList [])) = Inr history"
    "sign_payload rt (transition_body rt now st (state_stage rt st) (strip to_stage) (strip actor)
       report reason traffic g history r) key = Inr s"
    using assms unfolding transition_eq [OF ok g(1) r]
    by (auto simp: guard_that_Inr_iff transition_gate_Inr_iff rbind_Inr_iff)
  then show ?thesis using that ok g r by blast
qed

section \<open>What a transition establishes\<close>

lemma bounded_fraction_ok_Fin:
  assumes "bounded_fraction_ok x"
  obtains r where "x = Fin r" "1/10 < r" "r \<le> 1/4"
  using assms by (cases x) (auto simp: bounded_fraction_ok_def fl_le_def)

text \<open>The traffic of any stage of a valid state is a proper fraction of at most a quarter.\<close>

lemma traffic_for_stage_bounds:
  assumes "body_ok rt st key" "traffic_for_stage rt st stage = Inr t"
  obtains r where "t = Fin r" "0 \<le> r" "r \<le> 1/4"
proof (cases "stage = ''bounded''")
  case True
  have b: "bounded_invalid rt st = Inr False" using assms(1) by (simp add: body_ok_def)
  then have n: "is_number (jget st ''bounded_traffic_fraction'')"
    by (auto simp: bounded_invalid_def Let_def split: if_splits)
  then have "jget_or st ''bounded_traffic_fraction'' v = jget st ''bounded_traffic_fraction''" for v
    by (intro jget_or_eq_jget) (auto simp: is_number_def)
  with assms(2) True have "to_float rt (jget st ''bounded_traffic_fraction'') = Inr t"
    by (simp add: traffic_for_stage_def)
  with b n have "bounded_fraction_ok t" by (simp add: bounded_invalid_def Let_def)
  then show ?thesis by (rule bounded_fraction_ok_Fin) (rule that, auto)
next
  case False
  then have "t = Fin (case dget STAGE_TRAFFIC stage of Some r \<Rightarrow> r | None \<Rightarrow> 0)"
    using assms(2) by (simp add: traffic_for_stage_def)
  then show ?thesis
    by (rule that) (auto simp: STAGE_TRAFFIC_def dict_simps split: if_splits)
qed

lemma jget_transition_body:
  "jget (transition_body rt now st c t a rep reason tr g h rb) k =
    (if k = ''stage'' then JStr t else if k = ''traffic_fraction'' then JFloat tr
     else if k = ''generation'' then JInt (g + 1) else if k = ''updated_at'' then JStr now
     else if k = ''history'' then JList (h @ [history_entry rt now (g + 1) c t a rep reason])
     else if k = ''rollback'' \<and> t = ''rolled_back'' then JDict (rolled_back_entry now a reason rb)
     else if k = ''signature'' then JNull else jget st k)"
  by (simp add: transition_body_def Let_def)

lemma jget_or_transition_body:
  "k \<notin> {''stage'', ''traffic_fraction'', ''generation'', ''updated_at'', ''history'', ''rollback'', ''signature''}
    \<Longrightarrow> jget_or (transition_body rt now st c t a rep reason tr g h rb) k v = jget_or st k v"
  by (simp add: transition_body_def Let_def)

lemma jget_or_transition_stage:
  "jget_or (transition_body rt now st c t a rep reason tr g h rb) ''stage'' v = JStr t"
  by (simp add: transition_body_def Let_def)

lemma traffic_for_stage_transition_body:
  "traffic_for_stage rt (transition_body rt now st c t a rep reason tr g h rb) = traffic_for_stage rt st"
  by (simp add: fun_eq_iff traffic_for_stage_def jget_or_transition_body)

lemma transition_body_ok:
  assumes ok: "body_ok rt st key" and g: "1 \<le> g"
    and gate: "gate_open st (state_stage rt st) t rep"
    and rb: "jget st ''rollback'' = JDict rb"
    and tr: "traffic_for_stage rt st t = Inr tr"
  shows "body_ok rt (transition_body rt now st (state_stage rt st) t a rep reason tr g h rb) key"
proof -
  let ?u = "transition_body rt now st (state_stage rt st) t a rep reason tr g h rb"
  have stage: "state_stage rt ?u = t" by (simp add: state_stage_def jget_or_transition_stage)
  have t: "t \<in> set DEPLOYMENT_STAGES"
    using ok by (intro gate_open_rank [OF gate]) (simp add: body_ok_def)
  obtain r where r: "tr = Fin r" by (rule traffic_for_stage_bounds [OF ok tr])
  have "traffic_mismatch rt ?u = Inr False"
    unfolding traffic_mismatch_def Let_def stage traffic_for_stage_transition_body tr jget_transition_body
    by (simp add: t is_number_def r fl_sub_def)
  moreover have "bounded_invalid rt ?u = bounded_invalid rt st"
    by (simp add: bounded_invalid_def jget_transition_body)
  moreover have "rollback_ok ?u"
    using ok rb by (simp add: rollback_ok_def body_ok_def jget_transition_body rolled_back_entry_def)
  ultimately show ?thesis
    using ok g t by (simp add: body_ok_def stage jget_transition_body generation_ok_def)
qed

lemma transition_ok:
  assumes "transition_deployment_state rt now st key to_stage actor report reason = Inr s"
  shows "state_ok rt s key"
proof (rule transition_InrE [OF assms])
  fix g history rollback traffic
  assume a: "state_ok rt st key" "gate_open st (state_stage rt st) (strip to_stage) report" "1 \<le> g"
    "jget st ''rollback'' = JDict rollback" "traffic_for_stage rt st (strip to_stage) = Inr traffic"
    "sign_payload rt (transition_body rt now st (state_stage rt st) (strip to_stage) (strip actor)
       report reason traffic g history rollback) key = Inr s"
  have "body_ok rt st key" using a(1) by (simp add: state_ok_def)
  then show ?thesis by (intro signed_state_ok [OF a(6)] transition_body_ok a)
qed

lemma transition_effect:
  assumes "transition_deployment_state rt now st key to_stage actor report reason = Inr s"
  shows "state_stage rt s = strip to_stage"
    and "\<exists>g. jget st ''generation'' = JInt g \<and> jget s ''generation'' = JInt (g + 1)
       \<and> (\<exists>h. to_list (py_or (jget st ''history'') (JList [])) = Inr h
            \<and> jget s ''history'' = JList (h @ [history_entry rt now (g + 1) (state_stage rt st)
                 (strip to_stage) (strip actor) report reason]))"
    and "\<exists>tr. traffic_for_stage rt st (strip to_stage) = Inr tr \<and> jget s ''traffic_fraction'' = JFloat tr"
    and "k \<notin> {''stage'', ''traffic_fraction'', ''generation'', ''updated_at'', ''history'', ''rollback'', ''signature''}
      \<Longrightarrow> jget s k = jget st k"
proof -
  obtain g h rb tr where a: "jget st ''generation'' = JInt g"
    "to_list (py_or (jget st ''history'') (JList [])) = Inr h"
    "traffic_for_stage rt st (strip to_stage) = Inr tr"
    "sign_payload rt (transition_body rt now st (state_stage rt st) (strip to_stage) (strip actor)
       report reason tr g h rb) key = Inr s"
    using assms by (elim transition_InrE) blast
  note j = deployment_seal.sealed_jget [OF a(4) TrueI] deployment_seal.sealed_jget_or [OF a(4) TrueI]
  show "state_stage rt s = strip to_stage" by (simp add: state_stage_def j jget_or_transition_stage)
  show "\<exists>g. jget st ''generation'' = JInt g \<and> jget s ''generation'' = JInt (g + 1)
       \<and> (\<exists>h. to_list (py_or (jget st ''history'') (JList [])) = Inr h
            \<and> jget s ''history'' = JList (h @ [history_entry rt now (g + 1) (state_stage rt st)
                 (strip to_stage) (strip actor) report reason]))"
    using a by (simp add: j jget_transition_body)
  show "\<exists>tr. traffic_for_stage rt st (strip to_stage) = Inr tr \<and> jget s ''traffic_fraction'' = JFloat tr"
    using a by (simp add: j jget_transition_body)
  show "k \<notin> {''stage'', ''traffic_fraction'', ''generation'', ''updated_at'', ''history'', ''rollback'', ''signature''}
      \<Longrightarrow> jget s k = jget st k"
    by (simp add: j jget_transition_body)
qed

end
