(* ===== verification/DeploymentRuns.thy ===== *)
theory DeploymentRuns
  imports DeploymentTransitions
begin

text \<open>
  Runs of the deployment document: the locale \<open>versioned\<close> (documents that change by one
  generation and climb a bounded rank), its interpretation on the transitions, and the
  reachable states with the audit trail their history forms.
\<close>

section \<open>Versioned documents\<close>

locale versioned =
  fixes valid :: "'s \<Rightarrow> bool"
    and gen :: "'s \<Rightarrow> int"
    and rank :: "'s \<Rightarrow> nat"
    and top :: nat
    and step :: "'s \<Rightarrow> 's \<Rightarrow> bool"
  assumes step_valid: "step s t \<Longrightarrow> valid s \<and> valid t"
    and step_gen: "step s t \<Longrightarrow> gen t = gen s + 1"
    and step_rank: "step s t \<Longrightarrow> rank s < rank t"
    and rank_top: "valid s \<Longrightarrow> rank s \<le> top"
begin

lemma steps_gen: "(step ^^ n) s t \<Longrightarrow> gen t = gen s + int n"
  by (induction n arbitrary: t) (auto dest: step_gen)

lemma steps_rank: "(step ^^ n) s t \<Longrightarrow> rank s + n \<le> rank t"
  by (induction n arbitrary: t) (fastforce dest: step_rank)+

lemma steps_valid: "(step ^^ n) s t \<Longrightarrow> valid s \<Longrightarrow> valid t"
  by (cases n) (auto dest: step_valid)

text \<open>A run from a valid document is at most as long as the ranks above it.\<close>

lemma steps_bounded:
  assumes "(step ^^ n) s t" "valid s"
  shows "n \<le> top - rank s"
  using steps_rank [OF assms(1)] rank_top [OF steps_valid [OF assms]] by simp

lemma later_gen: "step\<^sup>+\<^sup>+ s t \<Longrightarrow> gen s < gen t"
  by (induction rule: tranclp_induct) (auto dest: step_gen)

lemma no_return: "step\<^sup>+\<^sup>+ s t \<Longrightarrow> t \<noteq> s"
  using later_gen by fastforce

end

definition generation_of :: "json dict \<Rightarrow> int" where
  "generation_of st = (case jget st ''generation'' of JInt n \<Rightarrow> n | _ \<Rightarrow> 0)"

inductive deployment_step :: "runtime \<Rightarrow> string \<Rightarrow> json dict \<Rightarrow> json dict \<Rightarrow> bool"
  for rt :: runtime and key :: string where
  transition: "transition_deployment_state rt now s key to_stage actor report reason = Inr t
    \<Longrightarrow> deployment_step rt key s t"

inductive_cases deployment_stepE: "deployment_step rt key s t"

lemma stage_rank_le: "stage_rank s \<le> 5"
  by (simp add: stage_rank_def)

lemma transition_stage_rank:
  assumes "transition_deployment_state rt now s key to_stage actor report reason = Inr t"
  shows "stage_rank (state_stage rt s) < stage_rank (state_stage rt t)"
    and "state_stage rt s \<noteq> ''rolled_back''"
  using assms transition_effect(1) [OF assms]
  by (auto elim!: transition_InrE dest: gate_open_rank simp: state_ok_def body_ok_def)

interpretation deployment: versioned "\<lambda>s. state_ok rt s key" generation_of
    "\<lambda>s. stage_rank (state_stage rt s)" 5 "deployment_step rt key"
  for rt key
proof unfold_locales
  fix s t
  assume "deployment_step rt key s t"
  then obtain now to_stage actor report reason where
    tr: "transition_deployment_state rt now s key to_stage actor report reason = Inr t"
    by (rule deployment_stepE)
  show "state_ok rt s key \<and> state_ok rt t key"
    using transition_ok [OF tr] tr by (auto elim: transition_InrE)
  show "generation_of t = generation_of s + 1"
    using transition_effect(2) [OF tr] by (auto simp: generation_of_def)
  show "stage_rank (state_stage rt s) < stage_rank (state_stage rt t)"
    by (rule transition_stage_rank [OF tr])
qed (rule stage_rank_le)

section \<open>Reachable states and their audit trail\<close>

inductive reachable_deployment :: "runtime \<Rightarrow> string \<Rightarrow> json dict \<Rightarrow> bool"
  for rt :: runtime and key :: string where
  approved: "create_deployment_state rt now records manifest shadow key approver p = Inr s
    \<Longrightarrow> reachable_deployment rt key s"
| moved: "reachable_deployment rt key s
    \<Longrightarrow> transition_deployment_state rt now s key to_stage actor report reason = Inr t
    \<Longrightarrow> reachable_deployment rt key t"

lemma reachable_state_ok: "reachable_deployment rt key s \<Longrightarrow> state_ok rt s key"
  by (induction rule: reachable_deployment.induct) (blast intro: create_deployment_state_ok transition_ok)+

definition PROMOTIONS :: "string list" where
  "PROMOTIONS = [''approved'', ''canary_1'', ''canary_5'', ''canary_10'', ''bounded'']"

definition entry_field :: "string \<Rightarrow> json \<Rightarrow> json" where
  "entry_field k e = (case e of JDict d \<Rightarrow> jget d k | _ \<Rightarrow> JNull)"

text \<open>The stages a history records, oldest first.\<close>

definition trail :: "json dict \<Rightarrow> json list" where
  "trail st = (case jget st ''history'' of JList h \<Rightarrow> map (entry_field ''to'') h | _ \<Rightarrow> [])"

definition trail_ok :: "runtime \<Rightarrow> json dict \<Rightarrow> bool" where
  "trail_ok rt st = (\<exists>n. 1 \<le> n \<and> n \<le> 5 \<and>
     (let promoted = map JStr (take n PROMOTIONS) in
      if state_stage rt st = ''rolled_back''
      then trail st = promoted @ [JStr ''rolled_back''] \<and> generation_of st = int n + 1
      else trail st = promoted \<and> state_stage rt st = PROMOTIONS ! (n - 1) \<and> generation_of st = int n)
     \<and> (\<exists>h. jget st ''history'' = JList h \<and> h \<noteq> []
          \<and> map (entry_field ''generation'') h = map (\<lambda>i. JInt (int i + 1)) [0..<length h]))"

lemma approved_trail_ok:
  assumes "create_deployment_state rt now records manifest shadow key approver p = Inr s"
  shows "trail_ok rt s"
proof (rule create_deployment_state_InrE [OF assms])
  fix d
  assume "sign_payload rt (approved_state rt now manifest shadow (strip approver) p d) key = Inr s"
  note j = deployment_seal.sealed_jget [OF this TrueI] deployment_seal.sealed_jget_or [OF this TrueI]
  show ?thesis
    unfolding trail_ok_def
    by (rule exI [of _ 1])
      (simp add: trail_def state_stage_def generation_of_def j approved_state_def dict_simps
        entry_field_def PROMOTIONS_def)
qed

lemma PROMOTIONS_next:
  assumes "1 \<le> n" "n \<le> 5" "dget NEXT_STAGE (PROMOTIONS ! (n - 1)) = Some t"
  shows "n \<le> 4 \<and> t = PROMOTIONS ! n \<and> take (Suc n) PROMOTIONS = take n PROMOTIONS @ [t]"
proof -
  from assms(1,2) consider "n = 1" | "n = 2" | "n = 3" | "n = 4" | "n = 5" by linarith
  then show ?thesis
    by cases (use assms(3) in \<open>simp_all add: PROMOTIONS_def dget_NEXT_STAGE\<close>)
qed

lemma PROMOTIONS_not_rolled_back:
  "1 \<le> n \<Longrightarrow> n \<le> 5 \<Longrightarrow> PROMOTIONS ! (n - 1) \<noteq> ''rolled_back''"
proof -
  assume "1 \<le> n" "n \<le> 5"
  then have "PROMOTIONS ! (n - 1) \<in> set PROMOTIONS" by (intro nth_mem) (simp add: PROMOTIONS_def)
  then show ?thesis by (auto simp: PROMOTIONS_def)
qed

lemma moved_trail_ok:
  assumes tr: "transition_deployment_state rt now s key to_stage actor report reason = Inr t"
    and ok: "trail_ok rt s"
  shows "trail_ok rt t"
proof -
  let ?c = "state_stage rt s" and ?t = "strip to_stage"
  have nb: "?c \<noteq> ''rolled_back''" by (rule transition_stage_rank [OF tr])
  obtain n h where n: "1 \<le> n" "n \<le> 5" "trail s = map JStr (take n PROMOTIONS)"
      "?c = PROMOTIONS ! (n - 1)" "generation_of s = int n"
    and h: "jget s ''history'' = JList h" "h \<noteq> []"
      "map (entry_field ''generation'') h = map (\<lambda>i. JInt (int i + 1)) [0..<length h]"
    using ok nb by (auto simp: trail_ok_def Let_def)
  have len: "length h = n"
    using n(1,2,3) h(1) by (auto simp: trail_def PROMOTIONS_def dest: arg_cong [where f = length])
  obtain g where g: "jget s ''generation'' = JInt g" "jget t ''generation'' = JInt (g + 1)"
      "jget t ''history'' = JList (h @ [history_entry rt now (g + 1) ?c ?t (strip actor) report reason])"
    using transition_effect(2) [OF tr] h by (auto simp: py_or_def to_list_def)
  have st: "state_stage rt t = ?t" by (rule transition_effect(1) [OF tr])
  have gn: "g = int n" using n(5) g(1) by (simp add: generation_of_def)
  have tl: "trail t = trail s @ [JStr ?t]"
    using g(3) h(1) by (simp add: trail_def entry_field_def history_entry_def dict_simps)
  have gs: "map (entry_field ''generation'') (h @ [history_entry rt now (g + 1) ?c ?t (strip actor) report reason])
      = map (\<lambda>i. JInt (int i + 1)) [0..<Suc (length h)]"
    using h(3) by (simp add: entry_field_def history_entry_def dict_simps gn len)
  show ?thesis
  proof (cases "?t = ''rolled_back''")
    case True
    then show ?thesis
      unfolding trail_ok_def using n g gs st tl
      by (intro exI [of _ n]) (auto simp: generation_of_def gn)
  next
    case False
    have "gate_open s ?c ?t report" using tr by (auto elim: transition_InrE)
    then have "dget NEXT_STAGE (PROMOTIONS ! (n - 1)) = Some ?t"
      using False n(4) by (auto dest: gate_open_next)
    from PROMOTIONS_next [OF n(1,2) this] show ?thesis
      unfolding trail_ok_def using n g gs st tl False
      by (intro exI [of _ "Suc n"]) (auto simp: generation_of_def gn)
  qed
qed

lemma reachable_trail_ok: "reachable_deployment rt key s \<Longrightarrow> trail_ok rt s"
  by (induction rule: reachable_deployment.induct) (blast intro: approved_trail_ok moved_trail_ok)+

section \<open>Reports are for one state only\<close>

lemma py_eq_ints: "py_eq x (JInt a) \<Longrightarrow> py_eq x (JInt b) \<Longrightarrow> a = b"
  by (simp add: py_eq_def)

lemma report_not_reusable:
  assumes "state_ok rt s key" "gate_open s (state_stage rt s) u report" "u \<noteq> ''rolled_back''"
    and "state_stage rt s \<in> set LIVE_STAGES"
    and "(deployment_step rt key)\<^sup>+\<^sup>+ s t" "state_ok rt t key"
    and "state_stage rt t \<in> set LIVE_STAGES" "v \<noteq> ''rolled_back''"
  shows "\<not> gate_open t (state_stage rt t) v report"
proof
  assume "gate_open t (state_stage rt t) v report"
  then obtain rep where r: "report = JDict rep" "py_eq (jget rep ''state_generation'') (jget t ''generation'')"
    using assms(7,8) by (auto elim: gate_open_report)
  have "py_eq (jget rep ''state_generation'') (jget s ''generation'')"
    using assms(2,3,4) r(1) by (auto elim: gate_open_report)
  moreover obtain a where "jget s ''generation'' = JInt a" by (rule state_ok_generation [OF assms(1)])
  moreover obtain b where "jget t ''generation'' = JInt b" by (rule state_ok_generation [OF assms(6)])
  ultimately have "generation_of s = generation_of t"
    using r(2) py_eq_ints by (simp add: generation_of_def)
  then show False using deployment.later_gen [OF assms(5)] by simp
qed

end
