(* ===== verification/WriteOnce.thy ===== *)
theory WriteOnce
  imports PyText
begin

text \<open>
  The JSON files of \<open>io_utils.py\<close>: a directory of JSON files, \<open>atomic_create_json\<close> (publish by hard
  link, never over an existing name) and \<open>atomic_write_json\<close> (publish by replace).  What the
  operating system decides is the argument of type \<open>publish_outcome\<close>: the write of the temporary
  file may fail, and so may the directory sync after the name is already visible.

  The locale \<open>write_once\<close> is the contract the record stores rely on.
\<close>

datatype file_body = Garbled | Holds json

type_synonym directory = "(string \<times> file_body) list"

datatype publish_outcome = Durable | WriteFails | SyncFails

text \<open>\<open>FileExistsError\<close> is a subclass of \<open>OSError\<close>.\<close>

definition is_os_error :: "py_error \<Rightarrow> bool" where
  "is_os_error e = (case e of OSError _ \<Rightarrow> True | FileExistsError _ \<Rightarrow> True | _ \<Rightarrow> False)"

definition is_value_error :: "py_error \<Rightarrow> bool" where
  "is_value_error e = (case e of ValueError _ \<Rightarrow> True | _ \<Rightarrow> False)"

definition is_runtime_error :: "py_error \<Rightarrow> bool" where
  "is_runtime_error e = (case e of RuntimeError _ \<Rightarrow> True | _ \<Rightarrow> False)"

definition sync_result :: "publish_outcome \<Rightarrow> unit result" where
  "sync_result out = (if out = SyncFails then Inl (OSError ''fsync'') else Inr ())"

text \<open>\<open>atomic_create_json(path, value, sort_keys=True)\<close>\<close>

definition atomic_create_json ::
  "publish_outcome \<Rightarrow> string \<Rightarrow> json \<Rightarrow> directory \<Rightarrow> unit result \<times> directory" where
  "atomic_create_json out name v d =
     (if out = WriteFails then (Inl (OSError ''write''), d)
      else if dget d name \<noteq> None then (Inl (FileExistsError name), d)
      else (sync_result out, d @ [(name, Holds (sort_keys v))]))"

text \<open>\<open>atomic_write_json(path, value, sort_keys=True)\<close>\<close>

definition atomic_write_json ::
  "publish_outcome \<Rightarrow> string \<Rightarrow> json \<Rightarrow> directory \<Rightarrow> unit result \<times> directory" where
  "atomic_write_json out name v d =
     (if out = WriteFails then (Inl (OSError ''write''), d)
      else (sync_result out, dset d name (Holds (sort_keys v))))"

text \<open>A reader that skips what does not parse to an object.\<close>

definition load_json :: "file_body \<Rightarrow> json dict option" where
  "load_json b = (case b of Holds (JDict d) \<Rightarrow> Some d | _ \<Rightarrow> None)"

section \<open>The contract\<close>

locale write_once =
  fixes create :: "'o \<Rightarrow> 'k \<Rightarrow> 'v \<Rightarrow> 'd \<Rightarrow> unit result \<times> 'd"
    and find :: "'d \<Rightarrow> 'k \<Rightarrow> 'w option"
    and image :: "'v \<Rightarrow> 'w"
  assumes keeps: "find d k = Some w \<Longrightarrow> find (snd (create out k' v d)) k = Some w"
    and created: "fst (create out k v d) = Inr () \<Longrightarrow> find d k = None \<and> find (snd (create out k v d)) k = Some (image v)"
    and clash: "find d k = Some w \<Longrightarrow> \<exists>e. create out k v d = (Inl e, d)"
    and others: "k' \<noteq> k \<Longrightarrow> find (snd (create out k v d)) k' = find d k'"
begin

text \<open>A store after a sequence of creations, whatever each one returned.\<close>

fun creations :: "('o \<times> 'k \<times> 'v) list \<Rightarrow> 'd \<Rightarrow> 'd" where
  "creations [] d = d"
| "creations ((out, k, v) # cs) d = creations cs (snd (create out k v d))"

lemma creations_keep: "find d k = Some w \<Longrightarrow> find (creations cs d) k = Some w"
  by (induction cs d rule: creations.induct) (auto intro: keeps)

lemma creations_others: "k \<notin> (\<lambda>(_, k, _). k) ` set cs \<Longrightarrow> find (creations cs d) k = find d k"
  by (induction cs d rule: creations.induct) (auto simp: others)

text \<open>A value that was published is what every later reader finds, and nobody publishes under
  its name again.\<close>

lemma published_for_good:
  assumes "fst (create out k v d) = Inr ()"
  shows "find (creations cs (snd (create out k v d))) k = Some (image v)"
  using created [OF assms] creations_keep by blast

lemma published_once:
  assumes "fst (create out k v d) = Inr ()"
  shows "fst (create out' k v' (creations cs (snd (create out k v d)))) \<noteq> Inr ()"
  using published_for_good [OF assms] created by fastforce

end

definition find_file :: "directory \<Rightarrow> string \<Rightarrow> file_body option" where
  "find_file d k = dget d k"

lemma dget_append: "dget (d @ e) k = (case dget d k of Some v \<Rightarrow> Some v | None \<Rightarrow> dget e k)"
  by (simp add: dget_def map_add_def split: option.splits)

interpretation json_files: write_once atomic_create_json find_file "\<lambda>v. Holds (sort_keys v)"
  by unfold_locales
    (auto simp: atomic_create_json_def find_file_def dget_append sync_result_def dget_Cons
      split: option.splits if_splits)

end
