(* ===== verification/DeploymentStore.thy ===== *)
theory DeploymentStore
  imports DeploymentRuns WriteOnce
begin

text \<open>
  \<open>deployment_state.py\<close>, the file part: the state file, its lock directory with stale-lock
  recovery, and the append-only audit events.  Every operation maps a file system to a result
  and the file system it leaves, so an exception keeps the effects that came before it.  Which calls of the file system
  fail is the argument \<open>pe_io\<close>; files are text in UTF-8.
\<close>

section \<open>The file system\<close>

text \<open>\<open>Unreadable\<close>: reading raises \<open>OSError\<close>.\<close>

datatype state_file = Missing | Unreadable | Unparsable | Parsed json

record lock_dir =
  lock_mtime :: rat
  lock_owner :: json  \<comment> \<open>what \<open>owner.json\<close> parses to; \<open>JNull\<close> when absent or unreadable\<close>

record deployment_fs =
  fs_state :: state_file
  fs_lock :: "lock_dir option"
  fs_events :: "json dict"

text \<open>What a process sees of its machine.\<close>

datatype kill_result = KillOk | ProcessLookupError | PermissionError | OtherOSError

text \<open>What \<open>shutil.rmtree\<close>, which ignores errors, achieves on leaving: everything, the record only, or nothing; the last
  also when the record cannot be read.\<close>

datatype removal = Removed | RecordRemoved | NothingRemoved

text \<open>Which calls succeed: the attempts of \<open>mkdir\<close> (with those of the directories above), \<open>stat\<close>, \<open>rename\<close>, and how the
  writes of \<open>owner.json\<close>, of the state file and of the audit event end.\<close>

record store_io =
  io_mkdir :: "nat \<Rightarrow> bool"
  io_stat :: bool
  io_rename :: bool
  io_owner :: publish_outcome
  io_removal :: removal
  io_state :: publish_outcome
  io_event :: publish_outcome

record process_env =
  pe_time :: rat
  pe_now :: string
  pe_token :: string
  pe_pid :: int
  pe_host :: string
  pe_windows :: bool
  pe_kill :: "int \<Rightarrow> kill_result"
  pe_io :: store_io

definition STATE_LOCK_LEASE_SECONDS :: rat where
  "STATE_LOCK_LEASE_SECONDS = 300"

text \<open>\<open>json.loads(json.dumps(v, sort_keys=True))\<close>: the stored value has its keys in order.\<close>

definition stored :: "json dict \<Rightarrow> state_file" where
  "stored v = Parsed (sort_keys (JDict v))"

definition load_deployment_state :: "deployment_fs \<Rightarrow> json dict result" where
  "load_deployment_state fs = (case fs_state fs of
     Missing \<Rightarrow> Inl (OSError ''no such file'')
   | Unreadable \<Rightarrow> Inl (OSError ''unreadable'')
   | Unparsable \<Rightarrow> Inl (ValueError ''invalid JSON'')
   | Parsed (JDict d) \<Rightarrow> Inr d
   | Parsed _ \<Rightarrow> Inl (ValueError ''deployment state must be a JSON object''))"

section \<open>The lock\<close>

definition host_fingerprint :: "runtime \<Rightarrow> process_env \<Rightarrow> string" where
  "host_fingerprint rt pe = take 16 (hexdigest (rt_sha256 rt (utf8 (pe_host pe))))"

definition pid_is_alive :: "process_env \<Rightarrow> int \<Rightarrow> bool option" where
  "pid_is_alive pe pid =
     (if pe_windows pe then None
      else if pid \<le> 0 then Some False
      else case pe_kill pe pid of
        KillOk \<Rightarrow> Some True
      | ProcessLookupError \<Rightarrow> Some False
      | PermissionError \<Rightarrow> Some True
      | OtherOSError \<Rightarrow> None)"

definition read_lock_owner :: "lock_dir option \<Rightarrow> json dict" where
  "read_lock_owner lock = (case lock of
     None \<Rightarrow> [] | Some l \<Rightarrow> (case lock_owner l of JDict d \<Rightarrow> d | _ \<Rightarrow> []))"

text \<open>The test of \<open>_recover_stale_lock\<close> before it renames the directory away.\<close>

definition lock_is_stale :: "runtime \<Rightarrow> process_env \<Rightarrow> lock_dir \<Rightarrow> bool" where
  "lock_is_stale rt pe l =
     (let age = max 0 (pe_time pe - lock_mtime l); owner = read_lock_owner (Some l) in
      STATE_LOCK_LEASE_SECONDS < age
      \<and> \<not> (py_eq (jget owner ''host_fingerprint'') (JStr (host_fingerprint rt pe))
           \<and> (case jget owner ''pid'' of JInt pid \<Rightarrow> pid_is_alive pe pid = Some True | _ \<Rightarrow> False)))"

text \<open>\<open>Some\<close> of the file system without the lock is \<open>True\<close>.\<close>

definition recover_stale_lock :: "runtime \<Rightarrow> process_env \<Rightarrow> deployment_fs \<Rightarrow> deployment_fs option" where
  "recover_stale_lock rt pe fs = (case fs_lock fs of
     None \<Rightarrow> None
   | Some l \<Rightarrow> if io_stat (pe_io pe) \<and> lock_is_stale rt pe l \<and> io_rename (pe_io pe) then Some (fs\<lparr>fs_lock := None\<rparr>) else None)"

definition lock_owner_record :: "runtime \<Rightarrow> process_env \<Rightarrow> json" where
  "lock_owner_record rt pe = sort_keys (JDict
     [(''token'', JStr (pe_token pe)),
      (''pid'', JInt (pe_pid pe)),
      (''host_fingerprint'', JStr (host_fingerprint rt pe)),
      (''acquired_at'', JStr (pe_now pe)),
      (''lease_seconds'', JFloat (Fin STATE_LOCK_LEASE_SECONDS))])"

text \<open>\<open>lock.mkdir(exist_ok=False)\<close> in attempt \<open>n\<close>: \<open>False\<close> when the directory exists.\<close>

definition try_mkdir :: "process_env \<Rightarrow> nat \<Rightarrow> deployment_fs \<Rightarrow> bool result \<times> deployment_fs" where
  "try_mkdir pe n fs =
     (if \<not> io_mkdir (pe_io pe) n then (Inl (OSError ''mkdir''), fs)
      else case fs_lock fs of
        None \<Rightarrow> (Inr True, fs\<lparr>fs_lock := Some \<lparr>lock_mtime = pe_time pe, lock_owner = JNull\<rparr>\<rparr>)
      | Some _ \<Rightarrow> (Inr False, fs))"

text \<open>The loop over \<open>range(2)\<close>: the second attempt exists only after a recovery.\<close>

definition make_lock_dir :: "runtime \<Rightarrow> process_env \<Rightarrow> deployment_fs \<Rightarrow> bool result \<times> deployment_fs" where
  "make_lock_dir rt pe fs = (case try_mkdir pe 0 fs of
     (Inr False, fs1) \<Rightarrow> (case recover_stale_lock rt pe fs1 of
         None \<Rightarrow> (Inr False, fs1)
       | Some fs2 \<Rightarrow> try_mkdir pe 1 fs2)
   | x \<Rightarrow> x)"

text \<open>When the record cannot be written the directory stays.\<close>

definition write_owner :: "runtime \<Rightarrow> process_env \<Rightarrow> deployment_fs \<Rightarrow> unit result \<times> deployment_fs" where
  "write_owner rt pe fs =
     (if io_owner (pe_io pe) = WriteFails then (Inl (OSError ''owner''), fs)
      else (sync_result (io_owner (pe_io pe)),
        fs\<lparr>fs_lock := map_option (\<lambda>l. l\<lparr>lock_owner := lock_owner_record rt pe\<rparr>) (fs_lock fs)\<rparr>))"

definition acquire_lock :: "runtime \<Rightarrow> process_env \<Rightarrow> deployment_fs \<Rightarrow> unit result \<times> deployment_fs" where
  "acquire_lock rt pe fs =
     (case make_lock_dir rt pe fs of
        (Inl e, fs1) \<Rightarrow> (Inl e, fs1)
      | (Inr acquired, fs1) \<Rightarrow>
          if acquired then write_owner rt pe fs1 else (Inl (RuntimeError ''deployment state is locked''), fs1))"

definition release_lock :: "process_env \<Rightarrow> deployment_fs \<Rightarrow> deployment_fs" where
  "release_lock pe fs =
     (if py_eq (jget (read_lock_owner (fs_lock fs)) ''token'') (JStr (pe_token pe))
      then (case io_removal (pe_io pe) of
          Removed \<Rightarrow> fs\<lparr>fs_lock := None\<rparr>
        | RecordRemoved \<Rightarrow> fs\<lparr>fs_lock := Some \<lparr>lock_mtime = pe_time pe, lock_owner = JNull\<rparr>\<rparr>
        | NothingRemoved \<Rightarrow> fs)
      else fs)"

text \<open>\<open>with _state_lock(path): body\<close>\<close>

definition with_lock ::
  "runtime \<Rightarrow> process_env \<Rightarrow> (deployment_fs \<Rightarrow> 'a result \<times> deployment_fs) \<Rightarrow> deployment_fs
     \<Rightarrow> 'a result \<times> deployment_fs" where
  "with_lock rt pe body fs =
     (case acquire_lock rt pe fs of
        (Inl e, fs1) \<Rightarrow> (Inl e, fs1)
      | (Inr _, fs1) \<Rightarrow> (case body fs1 of (r, fs2) \<Rightarrow> (r, release_lock pe fs2)))"

section \<open>Files\<close>

text \<open>\<open>atomic_write_json\<close> of the state file\<close>

definition write_state :: "process_env \<Rightarrow> json dict \<Rightarrow> deployment_fs \<Rightarrow> unit result \<times> deployment_fs" where
  "write_state pe st fs =
     (if io_state (pe_io pe) = WriteFails then (Inl (OSError ''state''), fs)
      else (sync_result (io_state (pe_io pe)), fs\<lparr>fs_state := stored st\<rparr>))"

section \<open>Audit events\<close>

definition event_name :: "runtime \<Rightarrow> json dict \<Rightarrow> string result" where
  "event_name rt st =
     rbind (to_int (jget_or st ''generation'' (JInt 0))) (\<lambda>generation. Inr
       (pad_dec 6 generation @ ''-'' @ take 12 (py_str rt (jget_or st ''policy_id'' (JStr ''unknown'')))
         @ ''-'' @ py_str rt (jget_or st ''stage'' (JStr ''unknown'')) @ ''.json''))"

definition event_payload :: "runtime \<Rightarrow> json dict \<Rightarrow> int \<Rightarrow> json result" where
  "event_payload rt st generation =
     rbind (case jget st ''history'' of
         JList h \<Rightarrow> (if h = [] then Inl (IndexError ''list index out of range'') else Inr (last h))
       | _ \<Rightarrow> Inr JNull) (\<lambda>tail. Inr (sort_keys (JDict
       [(''policy_id'', JStr (py_str rt (jget_or st ''policy_id'' (JStr ''unknown'')))),
        (''generation'', JInt generation),
        (''stage'', JStr (py_str rt (jget_or st ''stage'' (JStr ''unknown'')))),
        (''updated_at'', jget st ''updated_at''),
        (''state_sha256'', JStr (sha256_json rt (JDict st))),
        (''history_tail'', tail)])))"

text \<open>A directory of events that cannot be made counts as a write that fails.\<close>

definition write_audit_event ::
  "runtime \<Rightarrow> process_env \<Rightarrow> json dict \<Rightarrow> deployment_fs \<Rightarrow> unit result \<times> deployment_fs" where
  "write_audit_event rt pe st fs =
     (case rbind (event_name rt st) (\<lambda>name.
           rbind (to_int (jget_or st ''generation'' (JInt 0))) (\<lambda>generation.
           rbind (event_payload rt st generation) (\<lambda>payload. Inr (name, payload)))) of
        Inl e \<Rightarrow> (Inl e, fs)
      | Inr (name, payload) \<Rightarrow>
          (if io_event (pe_io pe) = WriteFails then (Inl (OSError ''event''), fs)
           else if dget (fs_events fs) name \<noteq> None then (Inl (FileExistsError name), fs)
           else (sync_result (io_event (pe_io pe)), fs\<lparr>fs_events := fs_events fs @ [(name, payload)]\<rparr>)))"

section \<open>Creation and update\<close>

definition write_new_deployment_state ::
  "runtime \<Rightarrow> process_env \<Rightarrow> json dict \<Rightarrow> string \<Rightarrow> deployment_fs \<Rightarrow> unit result \<times> deployment_fs" where
  "write_new_deployment_state rt pe st signing_key fs =
     (case state_valid rt st signing_key of
        Inl e \<Rightarrow> (Inl e, fs)
      | Inr valid \<Rightarrow>
          if \<not> valid then (Inl (ValueError ''refusing to write invalid deployment state''), fs)
          else with_lock rt pe (\<lambda>fs.
            if fs_state fs \<noteq> Missing
            then (Inl (FileExistsError ''deployment state already exists''), fs)
            else (case write_state pe st fs of
                (Inl e, fs1) \<Rightarrow> (Inl e, fs1)
              | (Inr _, fs1) \<Rightarrow> write_audit_event rt pe st fs1)) fs)"

text \<open>The body of \<open>update_deployment_state_file\<close> under the lock: the new document, or the error.\<close>

definition compute_update ::
  "runtime \<Rightarrow> process_env \<Rightarrow> string \<Rightarrow> string \<Rightarrow> string \<Rightarrow> int option \<Rightarrow> json \<Rightarrow> string option
     \<Rightarrow> deployment_fs \<Rightarrow> json dict result" where
  "compute_update rt pe signing_key to_stage actor expected_generation guardrail_report reason fs =
     rbind (load_deployment_state fs) (\<lambda>current.
     rbind (state_valid rt current signing_key) (\<lambda>valid.
     guard_that valid (ValueError ''deployment state verification failed'')
     (rbind (to_int (jget current ''generation'')) (\<lambda>g.
       guard_that (case expected_generation of None \<Rightarrow> True | Some n \<Rightarrow> g = n)
         (ValueError ''deployment state generation changed; refresh before retrying'')
       (transition_deployment_state rt (pe_now pe) current signing_key to_stage actor
          guardrail_report reason)))))"

text \<open>\<open>atomic_write_json\<close>, then the audit event; an event that exists already is tolerated.\<close>

definition publish_update ::
  "runtime \<Rightarrow> process_env \<Rightarrow> json dict \<Rightarrow> deployment_fs \<Rightarrow> json dict result \<times> deployment_fs" where
  "publish_update rt pe updated fs =
     (case write_state pe updated fs of
        (Inl e, fs1) \<Rightarrow> (Inl e, fs1)
      | (Inr _, fs1) \<Rightarrow> (case write_audit_event rt pe updated fs1 of
          (Inr _, fs2) \<Rightarrow> (Inr updated, fs2)
        | (Inl (FileExistsError _), fs2) \<Rightarrow> (Inr updated, fs2)
        | (Inl e, fs2) \<Rightarrow> (Inl e, fs2)))"

definition update_deployment_state_file ::
  "runtime \<Rightarrow> process_env \<Rightarrow> string \<Rightarrow> string \<Rightarrow> string \<Rightarrow> int option \<Rightarrow> json \<Rightarrow> string option
     \<Rightarrow> deployment_fs \<Rightarrow> json dict result \<times> deployment_fs" where
  "update_deployment_state_file rt pe signing_key to_stage actor expected_generation guardrail_report reason =
     with_lock rt pe (\<lambda>fs.
       case compute_update rt pe signing_key to_stage actor expected_generation guardrail_report reason fs of
         Inl e \<Rightarrow> (Inl e, fs)
       | Inr updated \<Rightarrow> publish_update rt pe updated fs)"

section \<open>Properties of the file operations\<close>

lemma acquire_lock_frame:
  "acquire_lock rt pe fs = (r, fs') \<Longrightarrow> fs_state fs' = fs_state fs \<and> fs_events fs' = fs_events fs"
  by (auto simp: acquire_lock_def make_lock_dir_def try_mkdir_def recover_stale_lock_def write_owner_def
      split: option.splits if_splits sum.splits prod.splits bool.splits)

lemma release_lock_frame [simp]:
  "fs_state (release_lock pe fs) = fs_state fs" "fs_events (release_lock pe fs) = fs_events fs"
  by (auto simp: release_lock_def split: removal.split)

lemma lock_owner_token:
  obtains d where "lock_owner_record rt pe = JDict d" "jget d ''token'' = JStr (pe_token pe)"
proof -
  define d where "d = [(''token'', JStr (pe_token pe)), (''pid'', JInt (pe_pid pe)),
      (''host_fingerprint'', JStr (host_fingerprint rt pe)), (''acquired_at'', JStr (pe_now pe)),
      (''lease_seconds'', JFloat (Fin STATE_LOCK_LEASE_SECONDS))]"
  have "lock_owner_record rt pe = JDict (sort_key fst (map (map_prod id sort_keys) d))"
    by (simp only: lock_owner_record_def d_def sort_keys.simps)
  moreover have "dict_wf d" by (simp add: d_def dict_wf_def dkeys_def)
  then have "jget (sort_key fst (map (map_prod id sort_keys) d)) ''token'' = JStr (pe_token pe)"
    unfolding jget_sort_keys [OF \<open>dict_wf d\<close>] by (simp add: d_def jget_Cons)
  ultimately show ?thesis by (rule that)
qed

text \<open>A successful acquisition leaves a lock that carries the caller's record.\<close>

lemma acquire_lock_owner:
  assumes "acquire_lock rt pe fs = (Inr u, fs')"
  obtains l where "fs_lock fs' = Some l" "lock_owner l = lock_owner_record rt pe"
  using assms
  by (auto simp: acquire_lock_def make_lock_dir_def try_mkdir_def write_owner_def
      split: option.splits if_splits sum.splits prod.splits bool.splits)

lemma release_own_lock:
  assumes "fs_lock fs = Some l" "lock_owner l = lock_owner_record rt pe" "io_removal (pe_io pe) = Removed"
  shows "fs_lock (release_lock pe fs) = None"
proof -
  obtain d where "lock_owner_record rt pe = JDict d" "jget d ''token'' = JStr (pe_token pe)"
    by (rule lock_owner_token)
  then show ?thesis using assms by (simp add: release_lock_def read_lock_owner_def)
qed

definition keeps_lock :: "(deployment_fs \<Rightarrow> 'a result \<times> deployment_fs) \<Rightarrow> bool" where
  "keeps_lock body = (\<forall>fs. fs_lock (snd (body fs)) = fs_lock fs)"

text \<open>A body that leaves the lock alone runs between acquisition and release; otherwise nothing
  but the lock has changed.\<close>

lemma with_lock_cases:
  assumes "with_lock rt pe body fs = (r, fs')" "keeps_lock body"
  obtains (refused) e where "r = Inl e" "acquire_lock rt pe fs = (Inl e, fs')"
  | (ran) u fs1 fs2 where "acquire_lock rt pe fs = (Inr u, fs1)" "body fs1 = (r, fs2)"
      "fs' = release_lock pe fs2" "io_removal (pe_io pe) = Removed \<longrightarrow> fs_lock fs' = None"
proof -
  obtain a fs1 where a: "acquire_lock rt pe fs = (a, fs1)" by (cases "acquire_lock rt pe fs")
  show ?thesis
  proof (cases a)
    case (Inl e)
    then show ?thesis using assms(1) a by (intro refused) (auto simp: with_lock_def)
  next
    case (Inr u)
    obtain fs2 where b: "body fs1 = (r, fs2)" "fs' = release_lock pe fs2"
      using assms(1) a Inr by (auto simp: with_lock_def split: prod.splits)
    have "fs_lock fs2 = fs_lock fs1" using assms(2) b(1) by (metis keeps_lock_def snd_conv)
    moreover obtain l where "fs_lock fs1 = Some l" "lock_owner l = lock_owner_record rt pe"
      using a Inr by (auto elim: acquire_lock_owner)
    ultimately have "io_removal (pe_io pe) = Removed \<longrightarrow> fs_lock fs' = None" by (simp add: b(2) release_own_lock)
    then show ?thesis using Inr a b by (intro ran) auto
  qed
qed

lemma write_audit_event_frame:
  "write_audit_event rt pe st fs = (r, fs') \<Longrightarrow> fs_lock fs' = fs_lock fs \<and> fs_state fs' = fs_state fs
     \<and> (\<exists>es. fs_events fs' = fs_events fs @ es)"
  by (auto simp: write_audit_event_def split: sum.splits if_splits)

lemma compute_update_cong:
  "fs_state a = fs_state b \<Longrightarrow> compute_update rt pe key to_stage actor eg rep reason a
     = compute_update rt pe key to_stage actor eg rep reason b"
  by (simp add: compute_update_def load_deployment_state_def)

text \<open>A publication writes the document or fails without a trace; with both writes durable it succeeds.\<close>

lemma publish_update_cases:
  assumes "publish_update rt pe u fs = (r, fs')"
  obtains (unwritten) e where "r = Inl e" "fs' = fs" "io_state (pe_io pe) = WriteFails"
  | (written) es where "fs_state fs' = stored u" "fs_events fs' = fs_events fs @ es" "fs_lock fs' = fs_lock fs"
      "r \<in> {Inr u} \<union> range Inl"
proof (cases "io_state (pe_io pe) = WriteFails")
  case True
  then show ?thesis using assms by (intro unwritten) (auto simp: publish_update_def write_state_def)
next
  case False
  define fs1 where "fs1 = fs\<lparr>fs_state := stored u\<rparr>"
  obtain q fs2 where e: "write_audit_event rt pe u fs1 = (q, fs2)" by (cases "write_audit_event rt pe u fs1")
  have "(fs' = fs1 \<or> fs' = fs2) \<and> r \<in> {Inr u} \<union> range Inl"
    using assms False e by (auto simp: publish_update_def write_state_def fs1_def split: sum.splits py_error.splits)
  moreover obtain es where "fs_state fs2 = stored u" "fs_events fs2 = fs_events fs @ es" "fs_lock fs2 = fs_lock fs"
    using write_audit_event_frame [OF e] by (auto simp: fs1_def)
  ultimately show ?thesis by (elim conjE disjE; intro written [of "if fs' = fs1 then [] else es"]) (auto simp: fs1_def)
qed

lemma publish_update_lock: "fs_lock (snd (publish_update rt pe u fs)) = fs_lock fs"
  by (cases "publish_update rt pe u fs") (auto elim: publish_update_cases)

text \<open>The contract of the state file's updates: a compare-and-set on its content.  Either the document is
  what it was and the caller has an exception, or the document on disk produced the new one and the new one is on disk.
  Whoever got the lock gives it back, unless the removal fails.\<close>

lemma update_file_cases:
  assumes "update_deployment_state_file rt pe key to_stage actor eg rep reason fs = (r, fs')"
  obtains (unchanged) e where "r = Inl e" "fs_state fs' = fs_state fs" "fs_events fs' = fs_events fs"
      "\<And>u fs1. acquire_lock rt pe fs = (Inr u, fs1) \<Longrightarrow> io_removal (pe_io pe) = Removed \<Longrightarrow> fs_lock fs' = None"
  | (written) u es where "compute_update rt pe key to_stage actor eg rep reason fs = Inr u"
      "fs_state fs' = stored u" "fs_events fs' = fs_events fs @ es" "r \<in> {Inr u} \<union> range Inl"
      "io_removal (pe_io pe) = Removed \<Longrightarrow> fs_lock fs' = None" "fst (acquire_lock rt pe fs) = Inr ()"
proof -
  let ?c = "compute_update rt pe key to_stage actor eg rep reason"
  let ?body = "\<lambda>fs. case ?c fs of Inl e \<Rightarrow> (Inl e, fs) | Inr updated \<Rightarrow> publish_update rt pe updated fs"
  have "keeps_lock ?body"
    unfolding keeps_lock_def by (auto simp: publish_update_lock split: sum.split)
  with assms show ?thesis
    unfolding update_deployment_state_file_def
  proof (cases rule: with_lock_cases)
    case (refused e)
    then show ?thesis using acquire_lock_frame [OF refused(2)] by (intro unchanged) auto
  next
    case (ran v fs1 fs2)
    have f: "fs_state fs1 = fs_state fs" "fs_events fs1 = fs_events fs"
      using acquire_lock_frame [OF ran(1)] by auto
    then have c: "?c fs1 = ?c fs" by (intro compute_update_cong)
    show ?thesis
    proof (cases "?c fs")
      case (Inl e)
      then have "r = Inl e" "fs2 = fs1" using ran(2) c by auto
      with ran(3,4) f show ?thesis by (intro unchanged) auto
    next
      case (Inr u)
      then have "publish_update rt pe u fs1 = (r, fs2)" using ran(2) c by simp
      then show ?thesis
      proof (cases rule: publish_update_cases)
        case (unwritten e)
        with ran(3,4) f show ?thesis by (intro unchanged) auto
      next
        case p: (written es)
        then show ?thesis using ran f by (intro written [OF Inr]) auto
      qed
    qed
  qed
qed

section \<open>Sequences of updates\<close>

record update_call =
  uc_env :: process_env
  uc_stage :: string
  uc_actor :: string
  uc_expected :: "int option"
  uc_report :: json
  uc_reason :: "string option"

text \<open>Any calls, of any processes, one after another: the lock serialises them.\<close>

fun run_updates :: "runtime \<Rightarrow> string \<Rightarrow> update_call list \<Rightarrow> deployment_fs \<Rightarrow> json dict result list \<times> deployment_fs" where
  "run_updates rt key [] fs = ([], fs)"
| "run_updates rt key (c # cs) fs =
     (case update_deployment_state_file rt (uc_env c) key (uc_stage c) (uc_actor c) (uc_expected c) (uc_report c) (uc_reason c) fs of
        (r, fs1) \<Rightarrow> (case run_updates rt key cs fs1 of (rs, fs2) \<Rightarrow> (r # rs, fs2)))"

definition generation_on_disk :: "deployment_fs \<Rightarrow> int option" where
  "generation_on_disk fs = (case load_deployment_state fs of
     Inl _ \<Rightarrow> None | Inr d \<Rightarrow> (case to_int (jget d ''generation'') of Inl _ \<Rightarrow> None | Inr g \<Rightarrow> Some g))"

text \<open>Sorting the keys of a document is stable, so every entry is found again.\<close>

lemma map_of_filter: "map_of xs k = (case filter (\<lambda>x. fst x = k) xs of [] \<Rightarrow> None | x # _ \<Rightarrow> Some (snd x))"
  by (induction xs) auto

lemma stored_entry: "map_of (sort_key fst xs) k = map_of xs k"
  by (simp add: map_of_filter [of _ k] sort_key_stable)

lemma load_stored:
  assumes "fs_state fs = stored u"
  obtains d where "load_deployment_state fs = Inr d" "\<forall>k. jget d k = sort_keys (jget u k)"
proof -
  define d where "d = sort_key fst (map (map_prod id sort_keys) u)"
  have "map_of (map (map_prod id sort_keys) u) k = map_option sort_keys (map_of u k)" for k
    by (induction u) auto
  then have "jget d k = sort_keys (jget u k)" for k
    by (simp add: d_def jget_def dget_def stored_entry split: option.split)
  moreover have "load_deployment_state fs = Inr d"
    by (simp add: load_deployment_state_def assms stored_def d_def)
  ultimately show ?thesis using that by blast
qed

lemma transition_generation:
  assumes "transition_deployment_state rt now st key to_stage actor report reason = Inr u"
  obtains g where "jget st ''generation'' = JInt g" "jget u ''generation'' = JInt (g + 1)"
proof (rule transition_InrE [OF assms])
  fix g history rollback traffic
  assume "jget st ''generation'' = JInt g"
    "sign_payload rt (transition_body rt now st (state_stage rt st) (strip to_stage) (strip actor)
       report reason traffic g history rollback) key = Inr u"
  moreover from this have "jget u ''generation'' = JInt (g + 1)"
    by (auto simp: sign_payload_def Let_def jget_transition_body split: if_splits)
  ultimately show ?thesis using that by blast
qed

text \<open>What a call that wrote leaves: the generation on disk is one more.\<close>

lemma written_generation:
  assumes "compute_update rt pe key to_stage actor eg rep reason fs = Inr u" "fs_state fs' = stored u"
  obtains g where "generation_on_disk fs = Some g" "generation_on_disk fs' = Some (g + 1)" "eg = None \<or> eg = Some g"
proof -
  obtain current where c: "load_deployment_state fs = Inr current"
    "transition_deployment_state rt (pe_now pe) current key to_stage actor rep reason = Inr u"
    "case eg of None \<Rightarrow> True | Some n \<Rightarrow> to_int (jget current ''generation'') = Inr n"
    using assms(1) by (cases eg) (auto simp: compute_update_def rbind_Inr_iff guard_that_Inr_iff)
  obtain g where g: "jget current ''generation'' = JInt g" "jget u ''generation'' = JInt (g + 1)"
    by (rule transition_generation [OF c(2)])
  obtain d where d: "load_deployment_state fs' = Inr d" "\<forall>k. jget d k = sort_keys (jget u k)" by (rule load_stored [OF assms(2)])
  show ?thesis
  proof (rule that)
    show "generation_on_disk fs = Some g" "generation_on_disk fs' = Some (g + 1)"
      using c(1) d g by (simp_all add: generation_on_disk_def to_int_def)
    show "eg = None \<or> eg = Some g" using c(3) g(1) by (cases eg) (auto simp: to_int_def)
  qed
qed

text \<open>A call leaves the generation on disk or raises it by one; only a call that expected the old one, or none, succeeds.\<close>

lemma update_generation:
  assumes "update_deployment_state_file rt pe key to_stage actor eg rep reason fs = (r, fs')"
  shows "(generation_on_disk fs' = generation_on_disk fs \<and> (\<exists>e. r = Inl e))
    \<or> (\<exists>g. generation_on_disk fs = Some g \<and> generation_on_disk fs' = Some (g + 1) \<and> (eg = None \<or> eg = Some g))"
  using assms
proof (cases rule: update_file_cases)
  case (unchanged e)
  then show ?thesis by (auto simp: generation_on_disk_def load_deployment_state_def)
next
  case (written u es)
  then show ?thesis using written_generation [OF written(1,2)] by metis
qed

lemma run_updates_generation:
  assumes "run_updates rt key cs fs = (rs, fs')" "generation_on_disk fs = Some g"
  shows "\<exists>g'. generation_on_disk fs' = Some g' \<and> g \<le> g'
    \<and> (\<forall>i < length cs. uc_expected (cs ! i) = Some n \<and> n < g \<longrightarrow> (\<exists>e. rs ! i = Inl e))"
  using assms
proof (induction cs arbitrary: fs rs g)
  case (Cons c cs)
  obtain r fs1 where r: "update_deployment_state_file rt (uc_env c) key (uc_stage c) (uc_actor c) (uc_expected c) (uc_report c)
      (uc_reason c) fs = (r, fs1)" by force
  obtain rs' where rs: "run_updates rt key cs fs1 = (rs', fs')" "rs = r # rs'"
    using Cons.prems(1) r by (auto split: prod.splits)
  obtain h where h: "generation_on_disk fs1 = Some h" "g \<le> h" "uc_expected c = Some n \<and> n < g \<longrightarrow> (\<exists>e. r = Inl e)"
    using update_generation [OF r] Cons.prems(2) by fastforce
  show ?case using Cons.IH [OF rs(1) h(1)] h(2,3) by (fastforce simp: rs(2) less_Suc_eq_0_disj)
qed simp

text \<open>No update is lost: of any calls that expect one generation, at most one succeeds.\<close>

lemma at_most_one_update:
  assumes "run_updates rt key cs fs = (rs, fs')" "i < j" "j < length cs"
    and "uc_expected (cs ! i) = Some n" "uc_expected (cs ! j) = Some n" "rs ! i = Inr u"
  shows "\<exists>e. rs ! j = Inl e"
  using assms
proof (induction cs arbitrary: fs rs i j)
  case (Cons c cs)
  obtain r fs1 where r: "update_deployment_state_file rt (uc_env c) key (uc_stage c) (uc_actor c) (uc_expected c) (uc_report c)
      (uc_reason c) fs = (r, fs1)" by force
  obtain rs' where rs: "run_updates rt key cs fs1 = (rs', fs')" "rs = r # rs'"
    using Cons.prems(1) r by (auto split: prod.splits)
  obtain k where j: "j = Suc k" "k < length cs" using Cons.prems(2,3) by (cases j) auto
  show ?case
  proof (cases i)
    case 0
    then have "generation_on_disk fs1 = Some (n + 1)" using update_generation [OF r] Cons.prems(4,6) rs(2) by fastforce
    from run_updates_generation [OF rs(1) this, of n] show ?thesis using j Cons.prems(5) by (auto simp: rs(2))
  next
    case (Suc l)
    then show ?thesis using Cons.IH [OF rs(1), of l k] Cons.prems j by (auto simp: rs(2))
  qed
qed simp

end
