(* ===== verification/Statistics.thy ===== *)
theory Statistics
  imports Domain
begin

text \<open>
  The statistics the live guardrails rest on: \<open>percentile\<close> of \<open>benchmark_statistics.py\<close>, the
  anytime Hoeffding sequence of \<open>shadow_policy.py\<close>, the clustered bootstrap of
  \<open>deployment_statistics.py\<close> and the total variation distance of \<open>deployment_guardrails.py\<close>.

  Two things come from the standard library as parameters: \<open>radius\<close>, the half width
  \<open>bound * sqrt(2 log(2 / allocated_alpha) / n)\<close> computed by \<open>math\<close> from the bound, the alpha
  and the sample count, and \<open>draw\<close>, the sequence of \<open>randrange\<close> results of a seeded generator.
\<close>

section \<open>Numbers of a row\<close>

text \<open>\<open>_number\<close>: a finite int or float, not a bool; an int beyond the doubles raises.\<close>

definition number :: "json \<Rightarrow> rat option result" where
  "number v = (case v of
     JInt i \<Rightarrow> rbind (float_of_int i) (\<lambda>x. Inr (case x of Fin r \<Rightarrow> Some r | _ \<Rightarrow> None))
   | JFloat x \<Rightarrow> Inr (case x of Fin r \<Rightarrow> Some r | _ \<Rightarrow> None)
   | _ \<Rightarrow> Inr None)"

definition row_deployment :: "json dict \<Rightarrow> json dict option" where
  "row_deployment row = as_dict (jget row ''deployment'')"

text \<open>The outcome of a row when it is an object marked verified.\<close>

definition verified_outcome :: "json dict \<Rightarrow> json dict option" where
  "verified_outcome row = (case jget row ''outcome'' of
     JDict out \<Rightarrow> (if truthy (jget out ''verified'') then Some out else None) | _ \<Rightarrow> None)"

definition in_unit :: "rat \<Rightarrow> bool" where
  "in_unit p = (0 < p \<and> p < 1)"

section \<open>Percentiles\<close>

definition percentile :: "rat list \<Rightarrow> rat \<Rightarrow> rat result" where
  "percentile values probability =
     (if values = [] then Inl (ValueError ''percentile requires at least one value'')
      else let p = min 1 (max 0 probability); ordered = sort values in
        if length ordered = 1 then Inr (ordered ! 0)
        else let position = rat_of_nat (length ordered - 1) * p;
                 lower = nat \<lfloor>position\<rfloor>; upper = nat \<lceil>position\<rceil>
          in if lower = upper then Inr (ordered ! lower)
             else let fraction = position - rat_of_nat lower
               in Inr (ordered ! lower + (ordered ! upper - ordered ! lower) * fraction))"

lemma interpolate_between:
  fixes a b f :: rat
  assumes "a \<le> b" "0 \<le> f" "f \<le> 1"
  shows "a \<le> a + (b - a) * f" "a + (b - a) * f \<le> b"
proof -
  show "a \<le> a + (b - a) * f" using assms by simp
  have "(b - a) * f \<le> (b - a) * 1" using assms by (intro mult_left_mono) auto
  then show "a + (b - a) * f \<le> b" by simp
qed

lemma percentile_between:
  assumes "percentile vs pr = Inr x"
  shows "\<exists>lo \<in> set vs. \<exists>hi \<in> set vs. lo \<le> x \<and> x \<le> hi"
proof -
  define p where "p = min 1 (max 0 pr)"
  define os where "os = sort vs"
  define pos where "pos = rat_of_nat (length os - 1) * p"
  have ne: "vs \<noteq> []" using assms by (auto simp: percentile_def split: if_splits)
  have p: "0 \<le> p" "p \<le> 1" by (auto simp: p_def)
  have len: "length os \<noteq> 0" using ne by (simp add: os_def)
  have pos: "0 \<le> pos" "pos \<le> rat_of_nat (length os - 1)"
    using p by (auto simp: pos_def mult_left_le)
  have lo: "nat \<lfloor>pos\<rfloor> < length os" and hi: "nat \<lceil>pos\<rceil> < length os"
  proof -
    have "\<lceil>pos\<rceil> \<le> int (length os - 1)" using pos(2) by (simp add: ceiling_le_iff)
    then show "nat \<lceil>pos\<rceil> < length os" using len by linarith
    have "\<lfloor>pos\<rfloor> \<le> \<lceil>pos\<rceil>" by (rule floor_le_ceiling)
    then show "nat \<lfloor>pos\<rfloor> < length os" using \<open>\<lceil>pos\<rceil> \<le> int (length os - 1)\<close> len by linarith
  qed
  have mem: "i < length os \<Longrightarrow> os ! i \<in> set vs" for i
    using nth_mem [of i os] by (simp add: os_def)
  have ord: "os ! nat \<lfloor>pos\<rfloor> \<le> os ! nat \<lceil>pos\<rceil>"
  proof -
    have "nat \<lfloor>pos\<rfloor> \<le> nat \<lceil>pos\<rceil>" using floor_le_ceiling [of pos] by linarith
    then show ?thesis using hi by (intro sorted_nth_mono) (auto simp: os_def)
  qed
  have fr: "0 \<le> pos - rat_of_nat (nat \<lfloor>pos\<rfloor>)" "pos - rat_of_nat (nat \<lfloor>pos\<rfloor>) \<le> 1"
  proof -
    have "rat_of_nat (nat \<lfloor>pos\<rfloor>) = of_int \<lfloor>pos\<rfloor>" using pos(1) by simp
    then show "0 \<le> pos - rat_of_nat (nat \<lfloor>pos\<rfloor>)" "pos - rat_of_nat (nat \<lfloor>pos\<rfloor>) \<le> 1"
      by linarith+
  qed
  have one: "length os = 1 \<Longrightarrow> os ! 0 \<in> set vs" using mem by simp
  have "x = os ! 0 \<and> length os = 1 \<or> x = os ! nat \<lfloor>pos\<rfloor>
      \<or> x = os ! nat \<lfloor>pos\<rfloor> + (os ! nat \<lceil>pos\<rceil> - os ! nat \<lfloor>pos\<rfloor>) * (pos - rat_of_nat (nat \<lfloor>pos\<rfloor>))"
    using assms ne by (auto simp: percentile_def Let_def p_def os_def pos_def split: if_splits)
  then show ?thesis
    using one mem [OF lo] mem [OF hi] interpolate_between [OF ord fr] by blast
qed

section \<open>The anytime Hoeffding sequence\<close>

record interval =
  iv_n :: nat
  iv_mean :: rat
  iv_lower :: rat
  iv_upper :: rat

definition interval_at :: "(nat \<Rightarrow> rat) \<Rightarrow> nat \<Rightarrow> rat \<Rightarrow> interval" where
  "interval_at radius n running = (let mean = running / rat_of_nat n in
     \<lparr>iv_n = n, iv_mean = round_to 6 mean, iv_lower = round_to 6 (mean - radius n),
      iv_upper = round_to 6 (mean + radius n)\<rparr>)"

text \<open>\<open>index & (index - 1) == 0\<close>: powers of two.\<close>

definition power_of_two :: "nat \<Rightarrow> bool" where
  "power_of_two n = (and n (n - 1) = 0)"

fun hoeffding_loop ::
  "(nat \<Rightarrow> rat) \<Rightarrow> nat \<Rightarrow> rat \<Rightarrow> rat list \<Rightarrow> interval option \<Rightarrow> interval list \<Rightarrow> interval option \<times> interval list"
where
  "hoeffding_loop radius index running [] final checkpoints = (final, checkpoints)"
| "hoeffding_loop radius index running (v # vs) final checkpoints =
     (let running = running + v; current = interval_at radius index running
      in hoeffding_loop radius (Suc index) running vs (Some current)
           (if power_of_two index then checkpoints @ [current] else checkpoints))"

record hoeffding_sequence =
  hs_confidence :: rat
  hs_absolute_bound :: rat
  hs_final :: "interval option"
  hs_checkpoints :: "interval list"

definition anytime_hoeffding_sequence ::
  "(rat \<Rightarrow> rat \<Rightarrow> nat \<Rightarrow> rat) \<Rightarrow> rat list \<Rightarrow> rat \<Rightarrow> pyfloat \<Rightarrow> hoeffding_sequence result" where
  "anytime_hoeffding_sequence radius values confidence absolute_bound =
     guard_that (0 < confidence \<and> confidence < 1) (ValueError ''confidence must be between 0 and 1'')
     (case absolute_bound of
        Fin b \<Rightarrow>
          guard_that (\<not> b \<le> 0) (ValueError ''absolute_bound must be finite and positive'')
          (let alpha = 1 - confidence;
               (final, checkpoints) = hoeffding_loop (radius b alpha) 1 0 values None []
           in Inr \<lparr>hs_confidence = confidence, hs_absolute_bound = b, hs_final = final,
                hs_checkpoints = (case final of
                    None \<Rightarrow> checkpoints
                  | Some f \<Rightarrow> if checkpoints = [] \<or> iv_n (last checkpoints) \<noteq> iv_n f
                      then checkpoints @ [f] else checkpoints)\<rparr>)
      | _ \<Rightarrow> Inl (ValueError ''absolute_bound must be finite and positive''))"

text \<open>Their JSON forms.\<close>

definition interval_json :: "interval \<Rightarrow> json" where
  "interval_json iv = JDict [(''n'', JInt (int (iv_n iv))), (''mean'', JFloat (Fin (iv_mean iv))),
     (''lower'', JFloat (Fin (iv_lower iv))), (''upper'', JFloat (Fin (iv_upper iv)))]"

definition sequence_json :: "hoeffding_sequence \<Rightarrow> json" where
  "sequence_json s = JDict
     [(''confidence'', JFloat (Fin (hs_confidence s))),
      (''method'', JStr ''union_bound_hoeffding_anytime_sequence''),
      (''anytime_valid'', JBool True),
      (''exact_off_policy_confidence_sequence_paper'', JBool False),
      (''absolute_bound'', JFloat (Fin (hs_absolute_bound s))),
      (''final'', case hs_final s of None \<Rightarrow> JNull | Some iv \<Rightarrow> interval_json iv),
      (''checkpoints'', JList (map interval_json (hs_checkpoints s)))]"

definition opt_rat :: "rat option \<Rightarrow> json" where
  "opt_rat r = (case r of None \<Rightarrow> JNull | Some x \<Rightarrow> JFloat (Fin x))"

text \<open>Rounding is monotone, so an interval keeps its order.\<close>

lemma interval_ordered:
  assumes "0 \<le> radius n"
  shows "iv_lower (interval_at radius n r) \<le> iv_mean (interval_at radius n r)
    \<and> iv_mean (interval_at radius n r) \<le> iv_upper (interval_at radius n r)"
  using assms by (simp add: interval_at_def Let_def round_to_mono)

lemma hoeffding_loop_final:
  "fst (hoeffding_loop radius i run vs f cs) =
     (if vs = [] then f else Some (interval_at radius (i + length vs - 1) (run + sum_list vs)))"
  by (induction radius i run vs f cs rule: hoeffding_loop.induct) (auto simp: Let_def algebra_simps)

lemma hoeffding_final:
  assumes "anytime_hoeffding_sequence radius vs c b = Inr s"
  shows "hs_final s = (if vs = [] then None
    else Some (interval_at (radius (hs_absolute_bound s) (1 - c)) (length vs) (sum_list vs)))"
  using assms
  by (auto simp: anytime_hoeffding_sequence_def guard_that_Inr_iff Let_def split_beta hoeffding_loop_final
      split: pyfloat.splits)

section \<open>Total variation\<close>

definition total_variation_distance :: "rat dict \<Rightarrow> rat dict \<Rightarrow> rat" where
  "total_variation_distance left right =
     (let prob = (\<lambda>d k. case dget d k of Some r \<Rightarrow> r | None \<Rightarrow> (0::rat)) in
      1/2 * sum_list (map (\<lambda>k. \<bar>prob left k - prob right k\<bar>) (uniq (dkeys left @ dkeys right))))"

definition distribution :: "rat dict \<Rightarrow> bool" where
  "distribution d = (dict_wf d \<and> (\<forall>(k, r) \<in> set d. 0 \<le> r) \<and> sum_list (map snd d) = 1)"

definition mass :: "rat dict \<Rightarrow> string \<Rightarrow> rat" where
  "mass d k = (case dget d k of Some r \<Rightarrow> r | None \<Rightarrow> 0)"

lemma tv_as_sum:
  "total_variation_distance l r = 1/2 * (\<Sum>k \<in> set (dkeys l) \<union> set (dkeys r). \<bar>mass l k - mass r k\<bar>)"
  by (simp add: total_variation_distance_def mass_def sum_list_distinct_conv_sum_set)

lemma tv_nonneg: "0 \<le> total_variation_distance l r"
  by (simp add: tv_as_sum sum_nonneg)

lemma tv_commute: "total_variation_distance l r = total_variation_distance r l"
  by (simp add: tv_as_sum abs_minus_commute Un_commute)

lemma sum_mass:
  assumes "dict_wf d" "finite K" "set (dkeys d) \<subseteq> K"
  shows "(\<Sum>k \<in> K. mass d k) = sum_list (map snd d)"
proof -
  have "(\<Sum>k \<in> K. mass d k) = (\<Sum>k \<in> set (dkeys d). mass d k)"
    using assms(2,3) by (intro sum.mono_neutral_right) (auto simp: mass_def set_dkeys_iff)
  also have "\<dots> = sum_list (map (mass d) (dkeys d))"
    using assms(1) by (simp add: dict_wf_def sum_list_distinct_conv_sum_set)
  also have "map (mass d) (dkeys d) = map snd d"
    using assms(1) by (auto simp: dkeys_def dict_wf_def mass_def dget_def)
  finally show ?thesis .
qed

lemma mass_nonneg: "distribution d \<Longrightarrow> 0 \<le> mass d k"
  by (auto simp: distribution_def mass_def dget_def dest!: map_of_SomeD split: option.splits)

lemma tv_le_one:
  assumes "distribution l" "distribution r"
  shows "total_variation_distance l r \<le> 1"
proof -
  let ?K = "set (dkeys l) \<union> set (dkeys r)"
  have "(\<Sum>k \<in> ?K. \<bar>mass l k - mass r k\<bar>) \<le> (\<Sum>k \<in> ?K. mass l k + mass r k)"
  proof (rule sum_mono)
    fix k
    have "0 \<le> mass l k" "0 \<le> mass r k" using assms by (simp_all add: mass_nonneg)
    then show "\<bar>mass l k - mass r k\<bar> \<le> mass l k + mass r k" by linarith
  qed
  also have "\<dots> = 2"
    using assms by (simp add: sum.distrib sum_mass distribution_def)
  finally show ?thesis by (simp add: tv_as_sum)
qed

section \<open>The clustered bootstrap\<close>

text \<open>\<open>_row_score\<close>: the signed inverse-probability score of a verified row.\<close>

definition row_score :: "runtime \<Rightarrow> json dict \<Rightarrow> rat option result" where
  "row_score rt row = (case (row_deployment row, verified_outcome row) of
     (Some dep, Some out) \<Rightarrow>
       (let assignment = py_str rt (jget_or dep ''assignment'' (JStr [])) in
        if assignment \<notin> {''candidate'', ''control''} then Inr None
        else rbind (number (jget dep ''candidate_probability'')) (\<lambda>probability.
          rbind (number (jget out ''reward'')) (\<lambda>reward.
            Inr (case (probability, reward) of
                (Some p, Some r) \<Rightarrow>
                  if \<not> in_unit p then None
                  else if assignment = ''candidate'' then Some (r / p) else Some (- r / (1 - p))
              | _ \<Rightarrow> None))))
   | _ \<Rightarrow> Inr None)"

definition cluster_of :: "runtime \<Rightarrow> string \<Rightarrow> nat \<Rightarrow> json dict \<Rightarrow> string" where
  "cluster_of rt cluster_field index row =
     (let raw = jget row cluster_field; cluster = (if raw \<noteq> JNull then strip (py_str rt raw) else [])
      in if cluster = [] then ''row:'' @ nat_dec index else cluster)"

text \<open>The first loop: valid scores grouped by cluster, with the number of invalid rows.\<close>

fun collect_clusters ::
  "runtime \<Rightarrow> string \<Rightarrow> nat \<Rightarrow> json dict list \<Rightarrow> rat list dict \<Rightarrow> nat \<Rightarrow> (rat list dict \<times> nat) result"
where
  "collect_clusters rt cf index [] clusters invalid = Inr (clusters, invalid)"
| "collect_clusters rt cf index (row # rows) clusters invalid =
     rbind (row_score rt row) (\<lambda>score. case score of
       None \<Rightarrow> collect_clusters rt cf (Suc index) rows clusters (Suc invalid)
     | Some s \<Rightarrow>
         (let c = cluster_of rt cf index row;
              old = (case dget clusters c of Some ss \<Rightarrow> ss | None \<Rightarrow> [])
          in collect_clusters rt cf (Suc index) rows (dset clusters c (old @ [s])) invalid))"

definition mean_of :: "rat list \<Rightarrow> rat" where
  "mean_of xs = sum_list xs / rat_of_nat (length xs)"

definition cluster_scores :: "rat list dict \<Rightarrow> string list \<Rightarrow> rat list" where
  "cluster_scores clusters names =
     concat (map (\<lambda>n. case dget clusters n of Some ss \<Rightarrow> ss | None \<Rightarrow> []) names)"

text \<open>One resample: as many draws as clusters, from draw number \<open>i * m\<close> on; \<open>randrange(m)\<close>
  is a value of the seeded generator reduced below \<open>m\<close>.\<close>

definition resample :: "(int \<Rightarrow> nat \<Rightarrow> nat) \<Rightarrow> int \<Rightarrow> rat list dict \<Rightarrow> string list \<Rightarrow> nat \<Rightarrow> rat list" where
  "resample draw seed clusters names i =
     (let m = length names in
      cluster_scores clusters (map (\<lambda>j. names ! (draw seed (i * m + j) mod m)) [0..<m]))"

definition bootstrap_means ::
  "(int \<Rightarrow> nat \<Rightarrow> nat) \<Rightarrow> int \<Rightarrow> rat list dict \<Rightarrow> string list \<Rightarrow> nat \<Rightarrow> rat list" where
  "bootstrap_means draw seed clusters names resamples =
     map mean_of (filter (\<lambda>s. s \<noteq> []) (map (resample draw seed clusters names) [0..<resamples]))"

record cluster_report =
  cr_status :: string
  cr_rows :: nat
  cr_clusters :: nat
  cr_invalid_rows :: nat
  cr_largest :: "nat option"
  cr_mean :: "rat option"
  cr_ci_low :: "rat option"
  cr_ci_high :: "rat option"

definition clustered_reward_difference ::
  "runtime \<Rightarrow> (int \<Rightarrow> nat \<Rightarrow> nat) \<Rightarrow> json dict list \<Rightarrow> string \<Rightarrow> rat \<Rightarrow> int \<Rightarrow> int \<Rightarrow> cluster_report result"
where
  "clustered_reward_difference rt draw rows cluster_field confidence resamples seed =
     guard_that (0 < confidence \<and> confidence < 1) (ValueError ''confidence must be between 0 and 1'')
     (guard_that (\<not> resamples < 100) (ValueError ''resamples must be at least 100'')
     (rbind (collect_clusters rt cluster_field 0 rows [] 0) (\<lambda>(clusters, invalid).
       let names = sort (dkeys clusters);
           values = cluster_scores clusters names;
           largest = fold max (map (\<lambda>(_, ss). length ss) clusters) 0
       in if values = [] then
            Inr \<lparr>cr_status = ''no_valid_rows'', cr_rows = 0, cr_clusters = 0, cr_invalid_rows = invalid,
              cr_largest = None, cr_mean = None, cr_ci_low = None, cr_ci_high = None\<rparr>
          else if length names < 2 then
            Inr \<lparr>cr_status = ''insufficient_clusters'', cr_rows = length values,
              cr_clusters = length names, cr_invalid_rows = invalid, cr_largest = Some largest,
              cr_mean = Some (mean_of values), cr_ci_low = None, cr_ci_high = None\<rparr>
          else
            (let bootstrap = bootstrap_means draw seed clusters names (nat resamples);
                 alpha = 1 - confidence
             in rbind (percentile bootstrap (alpha / 2)) (\<lambda>lo.
                rbind (percentile bootstrap (1 - alpha / 2)) (\<lambda>hi.
                  Inr \<lparr>cr_status = ''ok'', cr_rows = length values, cr_clusters = length names,
                    cr_invalid_rows = invalid, cr_largest = Some largest,
                    cr_mean = Some (mean_of values), cr_ci_low = Some lo, cr_ci_high = Some hi\<rparr>))))))"

text \<open>Every row is either scored once, in one non-empty cluster, or counted as invalid.\<close>

definition clusters_ok :: "rat list dict \<Rightarrow> bool" where
  "clusters_ok d = (dict_wf d \<and> (\<forall>(c, ss) \<in> set d. ss \<noteq> []))"

definition scored :: "rat list dict \<Rightarrow> nat" where
  "scored d = sum_list (map (\<lambda>(_, ss). length ss) d)"

lemma scored_dset:
  "scored (dset d c (old @ [s])) = Suc (scored d)"
  if "dget d c = Some old \<or> dget d c = None \<and> old = []"
  using that by (induction d) (auto simp: scored_def dget_def split: if_splits)

lemma collect_clusters_counts:
  assumes "collect_clusters rt cf i rows d bad = Inr (d', bad')" "clusters_ok d"
  shows "clusters_ok d' \<and> scored d' + bad' = scored d + bad + length rows"
  using assms
proof (induction rt cf i rows d bad rule: collect_clusters.induct)
  case (2 rt cf index row rows clusters invalid)
  from 2(3) obtain sc where sc: "row_score rt row = Inr sc" by (auto simp: rbind_Inr_iff)
  show ?case
  proof (cases sc)
    case None
    then show ?thesis using 2(1) 2(3,4) sc by simp
  next
    case (Some s)
    define c where "c = cluster_of rt cf index row"
    define old where "old = (case dget clusters c of Some ss \<Rightarrow> ss | None \<Rightarrow> [])"
    have ok: "clusters_ok (dset clusters c (old @ [s]))"
      using 2(4) set_dset [of clusters c "old @ [s]"] by (auto simp: clusters_ok_def)
    have "scored (dset clusters c (old @ [s])) = Suc (scored clusters)"
      by (rule scored_dset) (auto simp: old_def split: option.splits)
    then show ?thesis
      using 2(2) [OF c_def old_def, of s] 2(3) ok sc Some
      by (simp add: Let_def c_def old_def)
  qed
qed simp

end
