(* ===== verification/Guardrails.thy ===== *)
theory Guardrails
  imports Statistics DeploymentTransitions
begin

text \<open>
  \<open>deployment_guardrails.py\<close>: what the logged rows say about a live deployment.  The report is the
  JSON document the promotion gate of \<open>deployment_state.py\<close> and the runtime's automatic rollback
  read.  \<open>records\<close> is the result of \<open>load_learning_records\<close>.
\<close>

section \<open>The rows of a deployment\<close>

text \<open>Membership in a frozenset hashes the value first.\<close>

definition in_frozenset :: "json \<Rightarrow> string list \<Rightarrow> bool result" where
  "in_frozenset v names = (case v of
     JList _ \<Rightarrow> Inl (TypeError ''unhashable type: list'')
   | JDict _ \<Rightarrow> Inl (TypeError ''unhashable type: dict'')
   | JStr s \<Rightarrow> Inr (s \<in> set names)
   | _ \<Rightarrow> Inr False)"

definition row_selected :: "string \<Rightarrow> int \<Rightarrow> json dict \<Rightarrow> bool" where
  "row_selected policy_id generation row = (case row_deployment row of
     None \<Rightarrow> False
   | Some dep \<Rightarrow> jget dep ''policy_id'' = JStr policy_id
       \<and> (case jget dep ''state_generation'' of JInt g \<Rightarrow> g \<le> generation | _ \<Rightarrow> False))"

definition deployment_rows :: "runtime \<Rightarrow> json dict list \<Rightarrow> json dict \<Rightarrow> json dict list result" where
  "deployment_rows rt records state =
     (let policy_id = py_str rt (jget_or state ''policy_id'' (JStr [])) in
      rbind (to_int (jget_or state ''generation'' (JInt 0))) (\<lambda>generation. Inr
        (sort_key (\<lambda>row. py_str rt (jget_or row ''created_at'' (JStr [])))
          (filter (row_selected policy_id generation) records))))"

text \<open>A comprehension with a condition that may raise.\<close>

fun rfilter :: "('a \<Rightarrow> bool result) \<Rightarrow> 'a list \<Rightarrow> 'a list result" where
  "rfilter p [] = Inr []"
| "rfilter p (x # xs) = rbind (p x) (\<lambda>b. rbind (rfilter p xs) (\<lambda>ys. Inr (if b then x # ys else ys)))"

definition row_is_live :: "json dict \<Rightarrow> bool result" where
  "row_is_live row = (case row_deployment row of
     None \<Rightarrow> Inr False | Some dep \<Rightarrow> in_frozenset (jget dep ''stage'') LIVE_STAGES)"

definition assigned :: "string \<Rightarrow> json dict \<Rightarrow> bool" where
  "assigned a row = (case row_deployment row of
     None \<Rightarrow> False | Some dep \<Rightarrow> jget dep ''assignment'' = JStr a)"

section \<open>Context distribution\<close>

definition row_context_key :: "runtime \<Rightarrow> json list \<Rightarrow> json dict \<Rightarrow> string option" where
  "row_context_key rt fs row = (case jget row ''context_features'' of
     JDict features \<Rightarrow> (case context_key rt (JDict features) fs of Inr k \<Rightarrow> Some k | Inl _ \<Rightarrow> None)
   | _ \<Rightarrow> None)"

text \<open>The distribution, the number of keyed rows and the number of invalid ones.\<close>

definition context_distribution ::
  "runtime \<Rightarrow> json dict list \<Rightarrow> json list \<Rightarrow> rat dict \<times> int \<times> int" where
  "context_distribution rt rows fs =
     (let keys = map (row_context_key rt fs) rows;
          (counts, total) = count_keys keys [] 0;
          invalid = int (length (filter (\<lambda>k. k = None) keys))
      in if total = 0 then ([], 0, invalid)
         else (map (\<lambda>(k, n). (k, of_int n / of_int total)) counts, total, invalid))"

section \<open>Sequential scores\<close>

record violations =
  vi_probability :: nat
  vi_outcome :: nat
  vi_reward_range :: nat
  vi_weight :: nat

definition no_violations :: violations where
  "no_violations = \<lparr>vi_probability = 0, vi_outcome = 0, vi_reward_range = 0, vi_weight = 0\<rparr>"

definition any_violation :: "violations \<Rightarrow> bool" where
  "any_violation v = (vi_probability v \<noteq> 0 \<or> vi_outcome v \<noteq> 0 \<or> vi_reward_range v \<noteq> 0 \<or> vi_weight v \<noteq> 0)"

datatype score_result = Skipped | BadProbability | BadOutcome | BadReward | BadWeight | Score rat

definition score_row :: "runtime \<Rightarrow> pyfloat \<Rightarrow> pyfloat \<Rightarrow> pyfloat \<Rightarrow> json dict \<Rightarrow> score_result result" where
  "score_row rt reward_min reward_max max_weight row =
     (case (row_deployment row, verified_outcome row) of
        (Some dep, Some out) \<Rightarrow>
          (let assignment = py_str rt (jget_or dep ''assignment'' (JStr [])) in
           if assignment \<notin> {''candidate'', ''control''} then Inr Skipped
           else rbind (number (jget dep ''candidate_probability'')) (\<lambda>probability.
             case probability of
               None \<Rightarrow> Inr BadProbability
             | Some p \<Rightarrow> if \<not> in_unit p then Inr BadProbability
                 else rbind (number (jget out ''reward'')) (\<lambda>reward. Inr (case reward of
                     None \<Rightarrow> BadOutcome
                   | Some r \<Rightarrow>
                       if fl_lt (Fin r) reward_min \<or> fl_lt reward_max (Fin r) then BadReward
                       else let weight = (if assignment = ''candidate'' then 1 / p else 1 / (1 - p));
                                score = (if assignment = ''candidate'' then weight * r else - weight * r)
                         in if fl_lt max_weight (Fin weight) then BadWeight else Score score))))
      | _ \<Rightarrow> Inr Skipped)"

fun tally :: "score_result list \<Rightarrow> rat list \<Rightarrow> violations \<Rightarrow> rat list \<times> violations" where
  "tally [] values v = (values, v)"
| "tally (s # ss) values v = (case s of
     Skipped \<Rightarrow> tally ss values v
   | BadProbability \<Rightarrow> tally ss values (v\<lparr>vi_probability := vi_probability v + 1\<rparr>)
   | BadOutcome \<Rightarrow> tally ss values (v\<lparr>vi_outcome := vi_outcome v + 1\<rparr>)
   | BadReward \<Rightarrow> tally ss values (v\<lparr>vi_reward_range := vi_reward_range v + 1\<rparr>)
   | BadWeight \<Rightarrow> tally ss values (v\<lparr>vi_weight := vi_weight v + 1\<rparr>)
   | Score x \<Rightarrow> tally ss (values @ [x]) v)"

definition sequential_scores ::
  "runtime \<Rightarrow> json dict list \<Rightarrow> pyfloat \<Rightarrow> pyfloat \<Rightarrow> pyfloat \<Rightarrow> (rat list \<times> violations) result" where
  "sequential_scores rt rows reward_min reward_max max_weight =
     rbind (rmap (score_row rt reward_min reward_max max_weight) rows) (\<lambda>ss. Inr (tally ss [] no_violations))"

section \<open>Exposure\<close>

record exposure =
  ex_candidate :: nat
  ex_control :: nat
  ex_candidate_outcomes :: nat
  ex_control_outcomes :: nat
  ex_failures :: nat
  ex_cost :: rat

definition failed_row :: "json dict \<Rightarrow> bool" where
  "failed_row row = (case verified_outcome row of Some out \<Rightarrow> \<not> truthy (jget out ''success'') | None \<Rightarrow> False)"

definition row_cost :: "json dict \<Rightarrow> rat option result" where
  "row_cost row = (case verified_outcome row of
     Some out \<Rightarrow> number (jget out ''realized_cost'') | None \<Rightarrow> Inr None)"

definition live_exposure :: "json dict list \<Rightarrow> exposure result" where
  "live_exposure live =
     (let candidates = filter (assigned ''candidate'') live;
          controls = filter (assigned ''control'') live;
          outcomes = filter (\<lambda>row. verified_outcome row \<noteq> None) candidates
      in rbind (rmap row_cost outcomes) (\<lambda>costs. Inr
        \<lparr>ex_candidate = length candidates, ex_control = length controls,
         ex_candidate_outcomes = length outcomes,
         ex_control_outcomes = length (filter (\<lambda>row. verified_outcome row \<noteq> None) controls),
         ex_failures = length (filter failed_row outcomes),
         ex_cost = sum_list (map the (filter (\<lambda>c. c \<noteq> None) costs))\<rparr>))"

definition failure_rate :: "exposure \<Rightarrow> rat option" where
  "failure_rate ex = (if ex_candidate_outcomes ex = 0 then None
     else Some (rat_of_nat (ex_failures ex) / rat_of_nat (ex_candidate_outcomes ex)))"

section \<open>Drift\<close>

record drift =
  dr_window :: int
  dr_samples :: int
  dr_invalid :: int
  dr_distance :: rat
  dr_unknown :: rat

text \<open>The finite numbers of the approved distribution.\<close>

definition baseline_masses :: "json dict \<Rightarrow> rat dict result" where
  "baseline_masses state =
     (case (case jget state ''baseline_context_distribution'' of
          JDict b \<Rightarrow> jget b ''distribution'' | _ \<Rightarrow> JDict []) of
        JDict d \<Rightarrow> rbind (rmap (\<lambda>(k, v). rbind (number v) (\<lambda>n. Inr (k, n))) d) (\<lambda>ns.
            Inr (map (\<lambda>(k, n). (k, the n)) (filter (\<lambda>(_, n). n \<noteq> None) ns)))
      | _ \<Rightarrow> Inr [])"

definition live_drift ::
  "runtime \<Rightarrow> json dict \<Rightarrow> json dict \<Rightarrow> json dict list \<Rightarrow> json list \<Rightarrow> json dict \<Rightarrow> drift result" where
  "live_drift rt state guardrails live fs policy =
     rbind (to_int (jget_or guardrails ''drift_window'' (JInt 200))) (\<lambda>w.
     let window = max 1 w;
         rows = filter (\<lambda>row. lower (py_str rt (jget_or row ''risk'' (JStr []))) = ''low'') live;
         (current, samples, invalid) = context_distribution rt (last_n (nat window) rows) fs
     in rbind (baseline_masses state) (\<lambda>baseline. Inr
       \<lparr>dr_window = window, dr_samples = samples, dr_invalid = invalid,
        dr_distance = total_variation_distance current baseline,
        dr_unknown = sum_list (map snd (filter (\<lambda>(k, _). k \<notin> set (dkeys policy)) current))\<rparr>))"

section \<open>Budgets\<close>

record budget =
  bu_json :: "json dict"
  bu_exposures :: int
  bu_failures :: int
  bu_cost :: "rat option"

definition stage_budget :: "json dict \<Rightarrow> string \<Rightarrow> budget result" where
  "stage_budget guardrails stage =
     (let sb = (case jget guardrails ''stage_budgets'' of
            JDict budgets \<Rightarrow> (case jget budgets stage of JDict b \<Rightarrow> b | _ \<Rightarrow> []) | _ \<Rightarrow> [])
      in rbind (to_int (jget_or sb ''max_candidate_exposures'' (JInt 0))) (\<lambda>e.
         rbind (to_int (jget_or sb ''max_candidate_failures'' (JInt 0))) (\<lambda>f.
         rbind (number (jget sb ''max_cumulative_realized_cost'')) (\<lambda>c.
           Inr \<lparr>bu_json = sb, bu_exposures = e, bu_failures = f, bu_cost = c\<rparr>))))"

definition budget_blockers :: "exposure \<Rightarrow> budget \<Rightarrow> string list" where
  "budget_blockers ex b =
     err_if (0 < bu_exposures b \<and> bu_exposures b < int (ex_candidate ex)) ''candidate_exposure_budget_exhausted''
     @ err_if (0 \<le> bu_failures b \<and> bu_failures b < int (ex_failures ex)) ''candidate_failure_budget_exhausted''
     @ err_if (case bu_cost b of Some c \<Rightarrow> c < ex_cost ex | None \<Rightarrow> False) ''candidate_cost_budget_exhausted''"

section \<open>The gate\<close>

definition drift_blockers :: "runtime \<Rightarrow> json dict \<Rightarrow> drift \<Rightarrow> int \<Rightarrow> string list result" where
  "drift_blockers rt guardrails dr minimum_drift =
     (if minimum_drift \<le> dr_samples dr then
        rbind (to_float rt (jget_or guardrails ''max_context_tv_distance'' (JFloat (Fin (3/10))))) (\<lambda>max_tv.
        rbind (to_float rt (jget_or guardrails ''max_unknown_context_rate'' (JFloat (Fin (2/10))))) (\<lambda>max_unknown.
          Inr (err_if (fl_lt max_tv (Fin (dr_distance dr))) ''context_distribution_drift''
            @ err_if (fl_lt max_unknown (Fin (dr_unknown dr))) ''unknown_context_rate_exceeded'')))
      else Inr [])"

definition clustered_json :: "cluster_report \<Rightarrow> int \<Rightarrow> int \<Rightarrow> json" where
  "clustered_json c resamples seed = JDict
     ([(''status'', JStr (cr_status c)), (''cluster_field'', JStr ''task_fingerprint''),
       (''rows'', JInt (int (cr_rows c))), (''clusters'', JInt (int (cr_clusters c))),
       (''invalid_rows'', JInt (int (cr_invalid_rows c)))]
      @ (if cr_status c = ''ok'' then
           [(''largest_cluster'', JInt (int (case cr_largest c of Some n \<Rightarrow> n | None \<Rightarrow> 0))),
            (''mean'', opt_rat (cr_mean c)), (''confidence'', JFloat (Fin (95/100))),
            (''resamples'', JInt resamples), (''seed'', JInt seed),
            (''ci_low'', opt_rat (cr_ci_low c)), (''ci_high'', opt_rat (cr_ci_high c))]
         else [(''mean'', opt_rat (cr_mean c)), (''ci_low'', JNull), (''ci_high'', JNull)]
           @ (case cr_largest c of None \<Rightarrow> [] | Some n \<Rightarrow> [(''largest_cluster'', JInt (int n))])))"

text \<open>The report for a state that does not verify.\<close>

definition invalid_state_report :: "runtime \<Rightarrow> json dict \<Rightarrow> json dict \<Rightarrow> json dict" where
  "invalid_state_report rt state verification =
     [(''scope'', JStr ''live-deployment-guardrails''),
      (''policy_id'', JStr (py_str rt (jget_or state ''policy_id'' (JStr [])))),
      (''stage'', JStr (state_stage rt state)),
      (''state_generation'', jget state ''generation''),
      (''state_verification'', JDict verification),
      (''gate'', JDict [(''rollback_required'', JBool True), (''safe_to_advance'', JBool False),
         (''blockers'', JList [JStr ''deployment_state_verification_failed''])])]"

text \<open>Everything the gate is decided on.\<close>

record evidence =
  gu_rows :: "json dict list"
  gu_exposure :: exposure
  gu_violations :: violations
  gu_sequence :: hoeffding_sequence
  gu_clustered :: cluster_report
  gu_resamples :: int
  gu_seed :: int
  gu_drift :: drift
  gu_budget :: budget

definition float_field :: "runtime \<Rightarrow> json dict \<Rightarrow> string \<Rightarrow> rat \<Rightarrow> pyfloat result" where
  "float_field rt d k dflt = to_float rt (jget_or d k (JFloat (Fin dflt)))"

definition int_field :: "json dict \<Rightarrow> string \<Rightarrow> int \<Rightarrow> int result" where
  "int_field d k dflt = to_int (jget_or d k (JInt dflt))"

definition sequence_bound :: "pyfloat \<Rightarrow> pyfloat \<Rightarrow> pyfloat \<Rightarrow> pyfloat" where
  "sequence_bound max_weight reward_min reward_max =
     fl_max (Fin (1 / 10 ^ 12)) (fl_mul max_weight (fl_max (fl_abs reward_min) (fl_abs reward_max)))"

definition gather_evidence ::
  "runtime \<Rightarrow> (rat \<Rightarrow> rat \<Rightarrow> nat \<Rightarrow> rat) \<Rightarrow> (int \<Rightarrow> nat \<Rightarrow> nat) \<Rightarrow> json dict list \<Rightarrow> json dict \<Rightarrow> json dict
     \<Rightarrow> json list \<Rightarrow> json dict \<Rightarrow> evidence result" where
  "gather_evidence rt radius draw records state guardrails flds policy =
     rbind (deployment_rows rt records state) (\<lambda>rows.
     rbind (rfilter row_is_live rows) (\<lambda>live.
     rbind (live_exposure live) (\<lambda>ex.
     rbind (float_field rt guardrails ''reward_min'' 0) (\<lambda>reward_min.
     rbind (float_field rt guardrails ''reward_max'' 1) (\<lambda>reward_max.
     rbind (float_field rt guardrails ''max_importance_weight'' 100) (\<lambda>max_weight.
     rbind (sequential_scores rt live reward_min reward_max max_weight) (\<lambda>(scores, vi).
     rbind (anytime_hoeffding_sequence radius scores (95/100) (sequence_bound max_weight reward_min reward_max)) (\<lambda>sq.
     rbind (int_field guardrails ''cluster_bootstrap_resamples'' 2000) (\<lambda>resamples.
     rbind (int_field guardrails ''cluster_bootstrap_seed'' 20260911) (\<lambda>seed.
     rbind (clustered_reward_difference rt draw live ''task_fingerprint'' (95/100) (max 100 resamples) seed) (\<lambda>cl.
     rbind (live_drift rt state guardrails live flds policy) (\<lambda>dr.
     rbind (stage_budget guardrails (state_stage rt state)) (\<lambda>bu.
       Inr \<lparr>gu_rows = live, gu_exposure = ex, gu_violations = vi, gu_sequence = sq, gu_clustered = cl,
         gu_resamples = max 100 resamples, gu_seed = seed, gu_drift = dr, gu_budget = bu\<rparr>)))))))))))))"

record verdict =
  ve_blockers :: "string list"
  ve_rollback :: "string list"
  ve_minimum_monitor :: int
  ve_minimum_clusters :: int
  ve_promotion_margin :: pyfloat
  ve_regression_margin :: pyfloat
  ve_improvement :: bool

text \<open>Confident regression: an upper confidence limit below minus the margin.\<close>

definition below_margin :: "rat option \<Rightarrow> pyfloat \<Rightarrow> bool" where
  "below_margin upper margin = (case upper of Some u \<Rightarrow> fl_lt (Fin u) (fl_neg margin) | None \<Rightarrow> False)"

definition judge :: "runtime \<Rightarrow> string \<Rightarrow> json dict \<Rightarrow> evidence \<Rightarrow> verdict result" where
  "judge rt stage guardrails g =
     (let ex = gu_exposure g in
     rbind (int_field guardrails ''minimum_monitor_outcomes'' 20) (\<lambda>mm.
     rbind (float_field rt guardrails ''max_failure_rate'' (1/10)) (\<lambda>max_failure_rate.
     rbind (float_field rt guardrails ''max_reward_regression'' (5/100)) (\<lambda>mr.
     rbind (int_field guardrails ''minimum_monitor_clusters'' 5) (\<lambda>mc.
     rbind (int_field guardrails ''minimum_drift_samples'' 50) (\<lambda>md.
     rbind (drift_blockers rt guardrails (gu_drift g) (max 1 md)) (\<lambda>drift_b.
     rbind (float_field rt guardrails ''promotion_margin'' 0) (\<lambda>promotion_margin.
     let minimum_monitor = max 1 mm;
         margin = fl_max (Fin 0) mr;
         minimum_clusters = max 2 mc;
         clusters = int (cr_clusters (gu_clustered g));
         rollback =
           budget_blockers ex (gu_budget g)
           @ err_if (minimum_monitor \<le> int (ex_candidate_outcomes ex)
               \<and> (case failure_rate ex of Some f \<Rightarrow> fl_lt max_failure_rate (Fin f) | None \<Rightarrow> False))
               ''candidate_failure_rate_regression''
           @ err_if (minimum_monitor \<le> int (ex_candidate_outcomes ex + ex_control_outcomes ex)
               \<and> below_margin (map_option iv_upper (hs_final (gu_sequence g))) margin)
               ''reward_regression_confident''
           @ err_if (minimum_clusters \<le> clusters \<and> below_margin (cr_ci_high (gu_clustered g)) margin)
               ''clustered_reward_regression_confident''
           @ drift_b
           @ err_if (dr_invalid (gu_drift g) \<noteq> 0) ''invalid_context_features''
           @ err_if (any_violation (gu_violations g)) ''monitoring_input_violation'';
         blockers =
           err_if (stage \<notin> set LIVE_STAGES) ''stage_not_live''
           @ rollback
           @ err_if (int (ex_candidate_outcomes ex) < minimum_monitor) ''insufficient_candidate_monitor_outcomes''
           @ err_if (clusters < minimum_clusters) ''insufficient_monitor_clusters''
     in Inr \<lparr>ve_blockers = blockers, ve_rollback = rollback, ve_minimum_monitor = minimum_monitor,
          ve_minimum_clusters = minimum_clusters, ve_promotion_margin = promotion_margin,
          ve_regression_margin = margin,
          ve_improvement = (case hs_final (gu_sequence g) of
            Some iv \<Rightarrow> fl_lt promotion_margin (Fin (iv_lower iv)) | None \<Rightarrow> False)\<rparr>))))))))"

definition gate_json :: "verdict \<Rightarrow> json dict" where
  "gate_json v =
     [(''rollback_required'', JBool (ve_rollback v \<noteq> [])),
      (''safe_to_advance'', JBool (ve_blockers v = [])),
      (''rollback_blockers'', JList (map JStr (ve_rollback v))),
      (''blockers'', JList (map JStr (uniq (ve_blockers v)))),
      (''minimum_monitor_outcomes'', JInt (ve_minimum_monitor v)),
      (''minimum_monitor_clusters'', JInt (ve_minimum_clusters v)),
      (''promotion_margin'', JFloat (ve_promotion_margin v)),
      (''evidence_of_improvement'', JBool (ve_improvement v)),
      (''advance_rule'', JStr ''minimum candidate outcomes plus no live rollback blocker''),
      (''max_reward_regression'', JFloat (ve_regression_margin v))]"

definition exposure_json :: "exposure \<Rightarrow> json" where
  "exposure_json ex = JDict
     [(''candidate'', JInt (int (ex_candidate ex))),
      (''control'', JInt (int (ex_control ex))),
      (''candidate_verified_outcomes'', JInt (int (ex_candidate_outcomes ex))),
      (''control_verified_outcomes'', JInt (int (ex_control_outcomes ex))),
      (''candidate_failures'', JInt (int (ex_failures ex))),
      (''candidate_failure_rate'', opt_rat (map_option (round_to 6) (failure_rate ex))),
      (''cumulative_candidate_realized_cost'', JFloat (Fin (round_to 6 (ex_cost ex))))]"

definition guardrail_report ::
  "runtime \<Rightarrow> json dict \<Rightarrow> json dict \<Rightarrow> int \<Rightarrow> evidence \<Rightarrow> verdict \<Rightarrow> json dict" where
  "guardrail_report rt state verification generation g v =
     [(''scope'', JStr ''live-deployment-guardrails''),
      (''policy_id'', JStr (py_str rt (jget_or state ''policy_id'' (JStr [])))),
      (''stage'', JStr (state_stage rt state)),
      (''state_generation'', JInt generation),
      (''state_verification'', JDict verification),
      (''traffic_fraction'', jget state ''traffic_fraction''),
      (''exposure'', exposure_json (gu_exposure g)),
      (''sequential_reward_difference'', sequence_json (gu_sequence g)),
      (''clustered_reward_difference'', clustered_json (gu_clustered g) (gu_resamples g) (gu_seed g)),
      (''monitoring_violations'', JDict
         [(''invalid_assignment_probability'', JInt (int (vi_probability (gu_violations g)))),
          (''invalid_outcome'', JInt (int (vi_outcome (gu_violations g)))),
          (''reward_range_violation'', JInt (int (vi_reward_range (gu_violations g)))),
          (''importance_weight_violation'', JInt (int (vi_weight (gu_violations g))))]),
      (''drift'', JDict
         [(''window'', JInt (dr_window (gu_drift g))),
          (''samples'', JInt (dr_samples (gu_drift g))),
          (''invalid_contexts'', JInt (dr_invalid (gu_drift g))),
          (''total_variation_distance'', JFloat (Fin (round_to 6 (dr_distance (gu_drift g))))),
          (''unknown_context_rate'', JFloat (Fin (round_to 6 (dr_unknown (gu_drift g)))))]),
      (''current_stage_budget'', JDict (bu_json (gu_budget g))),
      (''gate'', JDict (gate_json v)),
      (''automatic_runtime_activation'', JBool False),
      (''rollback_target'', JStr BASELINE_ARM)]"

definition evaluate_live_guardrails ::
  "runtime \<Rightarrow> (rat \<Rightarrow> rat \<Rightarrow> nat \<Rightarrow> rat) \<Rightarrow> (int \<Rightarrow> nat \<Rightarrow> nat) \<Rightarrow> json dict list \<Rightarrow> json dict \<Rightarrow> string
     \<Rightarrow> json dict result" where
  "evaluate_live_guardrails rt radius draw records state signing_key =
     rbind (verify_deployment_state rt state signing_key) (\<lambda>verification.
     if \<not> truthy (jget verification ''valid'') then Inr (invalid_state_report rt state verification)
     else case jget state ''guardrails'' of
       JDict guardrails \<Rightarrow>
         (case jget state ''policy_manifest'' of
            JDict manifest \<Rightarrow>
              (case (jget manifest ''context_fields'', jget manifest ''policy'') of
                 (JList fields_raw, JDict policy) \<Rightarrow>
                   rbind (gather_evidence rt radius draw records state guardrails
                       (map (\<lambda>f. JStr (py_str rt f)) fields_raw) policy) (\<lambda>g.
                   rbind (judge rt (state_stage rt state) guardrails g) (\<lambda>v.
                   rbind (to_int (jget state ''generation'')) (\<lambda>generation.
                     Inr (guardrail_report rt state verification generation g v))))
               | _ \<Rightarrow> Inl (ValueError ''deployment manifest is missing context policy''))
          | _ \<Rightarrow> Inl (ValueError ''deployment state is missing policy manifest''))
     | _ \<Rightarrow> Inl (ValueError ''deployment state is missing guardrails''))"

end
