(* ===== verification/ProductionStore.thy ===== *)
theory ProductionStore
  imports WriteOnce
begin

text \<open>
  \<open>production_store.py\<close>: the append-only SQLite table of learning and deployment events, the
  mirror the writers call, the bulk synchronisation from the canonical JSON files and the
  reconciliation report.  The table is the list of its rows; what SQLite and the machine decide
  (whether the connection can be opened and the transaction committed) is a \<open>db_outcome\<close>.
\<close>

definition STORE_SCHEMA_VERSION :: string where
  "STORE_SCHEMA_VERSION = ''ai-workflow-production-store-v1''"

definition DEFAULT_STORE_RELATIVE :: string where
  "DEFAULT_STORE_RELATIVE = ''ai-workspace/generated/learning/production/events.sqlite3''"

definition EVENT_KINDS :: "string list" where
  "EVENT_KINDS = [''decision'', ''observation'', ''outcome'', ''deployment_state'', ''deployment_incident'']"

section \<open>Configuration\<close>

definition section_of :: "json dict \<Rightarrow> string \<Rightarrow> json dict" where
  "section_of config name = (case jget config ''context'' of
     JDict context \<Rightarrow> (case jget context name of JDict d \<Rightarrow> d | _ \<Rightarrow> [])
   | _ \<Rightarrow> [])"

definition production_config :: "json dict \<Rightarrow> json dict" where
  "production_config config = section_of config ''production''"

definition production_store_enabled :: "json dict \<Rightarrow> bool" where
  "production_store_enabled config = truthy (jget_or (production_config config) ''enabled'' (JBool False))"

text \<open>\<open>inside p\<close>: resolving the relative path \<open>p\<close> stays below the project root.\<close>

definition production_store_path :: "runtime \<Rightarrow> (string \<Rightarrow> bool) \<Rightarrow> json dict \<Rightarrow> string result" where
  "production_store_path rt inside config =
     (let raw = strip (py_str rt (jget_or (production_config config) ''sqlite_path''
                  (JStr DEFAULT_STORE_RELATIVE))) in
      guard_that (\<not> starts_with raw ''/'') (ValueError ''context.production.sqlite_path must be relative'')
      (guard_that (inside raw) (ValueError ''context.production.sqlite_path must stay inside project root'')
      (Inr raw)))"

definition production_busy_timeout_ms :: "json dict \<Rightarrow> int" where
  "production_busy_timeout_ms config =
     (case jget_or (production_config config) ''busy_timeout_ms'' (JInt 5000) of
        JInt v \<Rightarrow> if v \<le> 0 then 5000 else min v 60000
      | _ \<Rightarrow> 5000)"

section \<open>The table\<close>

record event_row =
  er_event_id :: string
  er_event_type :: string
  er_decision_id :: "string option"
  er_policy_id :: "string option"
  er_state_generation :: "int option"
  er_created_at :: string
  er_payload_sha256 :: string
  er_payload_json :: string

record production_store =
  ps_schema :: "string option"
  ps_events :: "event_row list"

definition empty_store :: production_store where
  "empty_store = \<lparr>ps_schema = None, ps_events = []\<rparr>"

datatype db_outcome = DbOk | DbFails py_error

definition ensure_schema :: "production_store \<Rightarrow> production_store result" where
  "ensure_schema s = (case ps_schema s of
     None \<Rightarrow> Inr (s\<lparr>ps_schema := Some STORE_SCHEMA_VERSION\<rparr>)
   | Some v \<Rightarrow> if v = STORE_SCHEMA_VERSION then Inr s else Inl (ValueError ''production store schema mismatch''))"

text \<open>\<open>open_production_store\<close>: unsafe runtimes, missing WAL and locks end in \<open>DbFails\<close>.\<close>

definition open_production_store :: "db_outcome \<Rightarrow> production_store \<Rightarrow> production_store result" where
  "open_production_store db s = (case db of DbFails e \<Rightarrow> Inl e | DbOk \<Rightarrow> ensure_schema s)"

definition find_event :: "production_store \<Rightarrow> string \<Rightarrow> event_row option" where
  "find_event s identity = find (\<lambda>r. er_event_id r = identity) (ps_events s)"

definition opt_text :: "runtime \<Rightarrow> json \<Rightarrow> string option" where
  "opt_text rt v = (if v = JNull then None else Some (strip (py_str rt v)))"

definition blank_none :: "string option \<Rightarrow> string option" where
  "blank_none t = (if t = Some [] then None else t)"

definition opt_int :: "json \<Rightarrow> int option \<Rightarrow> int option" where
  "opt_int v dflt = (case v of JInt i \<Rightarrow> Some i | _ \<Rightarrow> dflt)"

definition event_identity ::
  "runtime \<Rightarrow> string \<Rightarrow> json dict \<Rightarrow> string option \<times> string option \<times> int option" where
  "event_identity rt event_type payload =
     (let decision_id = opt_text rt (jget payload ''decision_id'');
          (policy_id, generation) = (case jget payload ''deployment'' of
              JDict deployment \<Rightarrow> (blank_none (opt_text rt (jget deployment ''policy_id'')),
                opt_int (jget deployment ''state_generation'') None)
            | _ \<Rightarrow> (None, None))
      in if event_type = ''deployment_state''
         then (decision_id, opt_text rt (jget payload ''policy_id''),
               opt_int (jget payload ''generation'') generation)
         else (decision_id, policy_id, generation))"

definition event_created_at :: "runtime \<Rightarrow> string \<Rightarrow> json dict \<Rightarrow> string" where
  "event_created_at rt now payload =
     (let pick = (\<lambda>k rest. if truthy (jget payload k) then py_str rt (jget payload k) else rest) in
      pick ''created_at'' (pick ''observed_at'' (pick ''recorded_at'' (pick ''updated_at'' now))))"

text \<open>The digest a payload is stored and compared under.\<close>

definition payload_digest :: "runtime \<Rightarrow> json dict \<Rightarrow> string" where
  "payload_digest rt payload = sha256_json rt (JDict payload)"

definition event_id_of :: "runtime \<Rightarrow> string \<Rightarrow> json dict \<Rightarrow> string option \<Rightarrow> string" where
  "event_id_of rt kind payload event_id =
     (let identity = (case event_id of Some i \<Rightarrow> strip i | None \<Rightarrow> []) in
      if identity = [] then hexdigest (rt_sha256 rt (utf8 (kind @ '':'' @ payload_digest rt payload)))
      else identity)"

text \<open>SQLite integers have 64 bits; binding a larger one raises.\<close>

definition sqlite_int :: "int option \<Rightarrow> bool" where
  "sqlite_int g = (case g of None \<Rightarrow> True | Some i \<Rightarrow> - (2 ^ 63) \<le> i \<and> i < 2 ^ 63)"

record append_result =
  ar_event_id :: string
  ar_inserted :: bool
  ar_payload_sha256 :: string

definition new_event :: "runtime \<Rightarrow> string \<Rightarrow> string \<Rightarrow> json dict \<Rightarrow> string \<Rightarrow> event_row" where
  "new_event rt now kind payload identity =
     (let (decision_id, policy_id, generation) = event_identity rt kind payload in
      \<lparr>er_event_id = identity, er_event_type = kind, er_decision_id = decision_id,
       er_policy_id = policy_id, er_state_generation = generation,
       er_created_at = event_created_at rt now payload,
       er_payload_sha256 = payload_digest rt payload,
       er_payload_json = dumps False (rt_float_repr rt) (sort_keys (JDict payload))\<rparr>)"

text \<open>The transaction: the existing row decides, else one row is inserted.\<close>

definition insert_event ::
  "runtime \<Rightarrow> event_row \<Rightarrow> production_store \<Rightarrow> append_result result \<times> production_store" where
  "insert_event rt row s =
     (case find_event s (er_event_id row) of
        Some existing \<Rightarrow>
          (if er_payload_sha256 existing \<noteq> er_payload_sha256 row
           then (Inl (ValueError ''production event id already exists with different payload''), s)
           else (Inr \<lparr>ar_event_id = er_event_id row, ar_inserted = False,
                   ar_payload_sha256 = er_payload_sha256 row\<rparr>, s))
      | None \<Rightarrow>
          (if \<not> sqlite_int (er_state_generation row)
           then (Inl (OverflowError ''Python int too large to convert to SQLite INTEGER''), s)
           else (Inr \<lparr>ar_event_id = er_event_id row, ar_inserted = True,
                   ar_payload_sha256 = er_payload_sha256 row\<rparr>,
                 s\<lparr>ps_events := ps_events s @ [row]\<rparr>)))"

definition append_production_event ::
  "runtime \<Rightarrow> string \<Rightarrow> db_outcome \<Rightarrow> string \<Rightarrow> json dict \<Rightarrow> string option \<Rightarrow> production_store
     \<Rightarrow> append_result result \<times> production_store" where
  "append_production_event rt now db event_type payload event_id s =
     (let kind = strip event_type in
      if kind \<notin> set EVENT_KINDS then (Inl (ValueError ''unsupported production event type''), s)
      else case open_production_store db s of
        Inl e \<Rightarrow> (Inl e, s)
      | Inr s' \<Rightarrow> insert_event rt (new_event rt now kind payload (event_id_of rt kind payload event_id)) s')"

section \<open>The mirror\<close>

text \<open>One database per path.\<close>

type_synonym stores = "(string \<times> production_store) list"

definition store_at :: "stores \<Rightarrow> string \<Rightarrow> production_store" where
  "store_at ss p = (case dget ss p of Some s \<Rightarrow> s | None \<Rightarrow> empty_store)"

datatype mirror_result = NotEnabled | Mirrored append_result | MirrorError py_error

text \<open>\<open>except (OSError, RuntimeError, sqlite3.Error, ValueError)\<close>\<close>

definition mirror_catches :: "py_error \<Rightarrow> bool" where
  "mirror_catches e = (is_os_error e \<or> is_runtime_error e \<or> is_value_error e
     \<or> (case e of SqliteError _ \<Rightarrow> True | _ \<Rightarrow> False))"

definition mirror_event_id :: "runtime \<Rightarrow> string \<Rightarrow> json dict \<Rightarrow> string option" where
  "mirror_event_id rt event_type payload =
     (let decision_id = strip (py_str rt (jget_or payload ''decision_id'' (JStr []))) in
      if decision_id \<noteq> [] then Some (event_type @ '':'' @ decision_id) else None)"

definition mirror_learning_event ::
  "runtime \<Rightarrow> string \<Rightarrow> db_outcome \<Rightarrow> (string \<Rightarrow> bool) \<Rightarrow> json dict \<Rightarrow> string \<Rightarrow> json dict \<Rightarrow> stores
     \<Rightarrow> mirror_result result \<times> stores" where
  "mirror_learning_event rt now db inside config event_type payload ss =
     (if \<not> production_store_enabled config then (Inr NotEnabled, ss)
      else case production_store_path rt inside config of
        Inl e \<Rightarrow> (if mirror_catches e then Inr (MirrorError e) else Inl e, ss)
      | Inr p \<Rightarrow>
          (case append_production_event rt now db event_type payload
              (mirror_event_id rt event_type payload) (store_at ss p) of
             (Inr res, s') \<Rightarrow> (Inr (Mirrored res), dset ss p s')
           | (Inl e, s') \<Rightarrow> (if mirror_catches e then Inr (MirrorError e) else Inl e,
                dset ss p s')))"

section \<open>Synchronisation and reconciliation\<close>

record learning_fs =
  lf_decisions :: directory
  lf_observations :: directory
  lf_outcomes :: directory
  lf_stores :: stores

text \<open>The canonical files in the order both loops visit them: three directories, names sorted.\<close>

definition canonical_files :: "learning_fs \<Rightarrow> (string \<times> string \<times> file_body) list" where
  "canonical_files fs =
     map (\<lambda>(n, b). (''decision'', n, b)) (dsort (lf_decisions fs))
     @ map (\<lambda>(n, b). (''observation'', n, b)) (dsort (lf_observations fs))
     @ map (\<lambda>(n, b). (''outcome'', n, b)) (dsort (lf_outcomes fs))"

text \<open>The payload of a usable file with its event id; \<open>None\<close> counts as invalid.\<close>

definition canonical_event :: "runtime \<Rightarrow> string \<Rightarrow> file_body \<Rightarrow> (string \<times> json dict) option" where
  "canonical_event rt event_type b = (case load_json b of
     None \<Rightarrow> None
   | Some payload \<Rightarrow>
       (let decision_id = strip (py_str rt (jget_or payload ''decision_id'' (JStr []))) in
        if decision_id = [] then None else Some (event_type @ '':'' @ decision_id, payload)))"

record sync_counters =
  sc_scanned :: nat
  sc_inserted :: nat
  sc_already_present :: nat
  sc_invalid :: nat

fun sync_loop ::
  "runtime \<Rightarrow> string \<Rightarrow> (nat \<Rightarrow> db_outcome) \<Rightarrow> (string \<times> string \<times> file_body) list \<Rightarrow> sync_counters
     \<Rightarrow> production_store \<Rightarrow> sync_counters result \<times> production_store" where
  "sync_loop rt now db [] c s = (Inr c, s)"
| "sync_loop rt now db ((event_type, name, b) # files) c s =
     (let c = c\<lparr>sc_scanned := sc_scanned c + 1\<rparr> in
      case canonical_event rt event_type b of
        None \<Rightarrow> sync_loop rt now db files (c\<lparr>sc_invalid := sc_invalid c + 1\<rparr>) s
      | Some (event_id, payload) \<Rightarrow>
          (case append_production_event rt now (db (sc_scanned c)) event_type payload (Some event_id) s of
             (Inl e, s') \<Rightarrow> (Inl e, s')
           | (Inr res, s') \<Rightarrow> sync_loop rt now db files
               (if ar_inserted res then c\<lparr>sc_inserted := sc_inserted c + 1\<rparr>
                else c\<lparr>sc_already_present := sc_already_present c + 1\<rparr>) s'))"

definition sync_learning_store ::
  "runtime \<Rightarrow> string \<Rightarrow> (nat \<Rightarrow> db_outcome) \<Rightarrow> (string \<Rightarrow> bool) \<Rightarrow> json dict \<Rightarrow> learning_fs
     \<Rightarrow> sync_counters result \<times> learning_fs" where
  "sync_learning_store rt now db inside config fs =
     (if \<not> production_store_enabled config
      then (Inl (ValueError ''context.production.enabled must be true''), fs)
      else case production_store_path rt inside config of
        Inl e \<Rightarrow> (Inl e, fs)
      | Inr p \<Rightarrow>
          (case sync_loop rt now db (canonical_files fs)
              \<lparr>sc_scanned = 0, sc_inserted = 0, sc_already_present = 0, sc_invalid = 0\<rparr>
              (store_at (lf_stores fs) p) of
             (r, s') \<Rightarrow> (r, fs\<lparr>lf_stores := dset (lf_stores fs) p s'\<rparr>)))"

text \<open>The events the files call for: the last file with an id decides its digest.\<close>

fun expected_events ::
  "runtime \<Rightarrow> (string \<times> string \<times> file_body) list \<Rightarrow> string dict \<Rightarrow> string list \<Rightarrow> string dict \<times> string list"
where
  "expected_events rt [] expected invalid = (expected, invalid)"
| "expected_events rt ((event_type, name, b) # files) expected invalid =
     (case canonical_event rt event_type b of
        None \<Rightarrow> expected_events rt files expected (invalid @ [''ai-workspace/generated/learning/'' @ event_type @ ''s/'' @ name])
      | Some (event_id, payload) \<Rightarrow>
          expected_events rt files (dset expected event_id (payload_digest rt payload)) invalid)"

record reconcile_report =
  rr_consistent :: bool
  rr_expected_events :: nat
  rr_stored_events :: nat
  rr_missing :: "string list"
  rr_mismatched :: "string list"
  rr_extra :: "string list"
  rr_invalid_files :: "string list"

definition actual_events :: "production_store \<Rightarrow> string dict" where
  "actual_events s = map (\<lambda>r. (er_event_id r, er_payload_sha256 r))
     (filter (\<lambda>r. er_event_type r \<in> {''decision'', ''observation'', ''outcome''}) (ps_events s))"

definition reconcile_with :: "runtime \<Rightarrow> learning_fs \<Rightarrow> production_store \<Rightarrow> reconcile_report" where
  "reconcile_with rt fs s =
     (let (expected, invalid) = expected_events rt (canonical_files fs) [] [];
          actual = actual_events s;
          missing = sort (filter (\<lambda>k. dget actual k = None) (dkeys expected));
          mismatched = sort (filter (\<lambda>k. dget actual k \<noteq> None \<and> dget expected k \<noteq> dget actual k) (dkeys expected));
          extra = sort (filter (\<lambda>k. dget expected k = None) (dkeys actual))
      in \<lparr>rr_consistent = (missing = [] \<and> mismatched = [] \<and> extra = [] \<and> invalid = []),
          rr_expected_events = length expected, rr_stored_events = length actual,
          rr_missing = missing, rr_mismatched = mismatched, rr_extra = extra,
          rr_invalid_files = sort invalid\<rparr>)"

definition reconcile_learning_store ::
  "runtime \<Rightarrow> db_outcome \<Rightarrow> (string \<Rightarrow> bool) \<Rightarrow> json dict \<Rightarrow> learning_fs
     \<Rightarrow> reconcile_report option result \<times> learning_fs" where
  "reconcile_learning_store rt db inside config fs =
     (case production_store_path rt inside config of
        Inl e \<Rightarrow> (Inl e, fs)
      | Inr p \<Rightarrow>
          (case dget (lf_stores fs) p of
             None \<Rightarrow> (Inr None, fs)
           | Some s \<Rightarrow>
               (case open_production_store db s of
                  Inl e \<Rightarrow> (Inl e, fs)
                | Inr s' \<Rightarrow> (Inr (Some (reconcile_with rt fs s')),
                    fs\<lparr>lf_stores := dset (lf_stores fs) p s'\<rparr>))))"

text \<open>\<open>production_store_status\<close>: the counts by type (the query's \<open>GROUP BY\<close>).\<close>

definition events_by_type :: "production_store \<Rightarrow> nat dict" where
  "events_by_type s = map (\<lambda>t. (t, length (filter (\<lambda>r. er_event_type r = t) (ps_events s))))
     (sort (uniq (map er_event_type (ps_events s))))"

section \<open>The contract of the log\<close>

text \<open>What the mirror and the synchronisation rely on: an entry stays, and an accepted addition
  is on record under its key with its digest.\<close>

locale digest_log =
  fixes add :: "'i \<Rightarrow> 's \<Rightarrow> 'r result \<times> 's"
    and digest_at :: "'s \<Rightarrow> 'k \<Rightarrow> 'd option"
    and key :: "'i \<Rightarrow> 'k"
    and dig :: "'i \<Rightarrow> 'd"
  assumes grows: "digest_at s k = Some d \<Longrightarrow> digest_at (snd (add i s)) k = Some d"
    and records: "fst (add i s) = Inr r \<Longrightarrow> digest_at (snd (add i s)) (key i) = Some (dig i)"
begin

fun add_all :: "'i list \<Rightarrow> 's \<Rightarrow> 'r list result \<times> 's" where
  "add_all [] s = (Inr [], s)"
| "add_all (i # is) s = (case add i s of
     (Inl e, s') \<Rightarrow> (Inl e, s')
   | (Inr r, s') \<Rightarrow> (case add_all is s' of
       (Inl e, s'') \<Rightarrow> (Inl e, s'') | (Inr rs, s'') \<Rightarrow> (Inr (r # rs), s'')))"

lemma add_all_grows: "digest_at s k = Some d \<Longrightarrow> digest_at (snd (add_all is s)) k = Some d"
proof (induction "is" arbitrary: s)
  case (Cons i "is")
  obtain r s' where a: "add i s = (r, s')" by (cases "add i s")
  have g: "digest_at s' k = Some d" using grows [OF Cons.prems, of i] a by simp
  show ?case using Cons.IH [OF g] g a by (auto split: sum.splits prod.splits)
qed simp

lemma add_all_records:
  "fst (add_all is s) = Inr rs \<Longrightarrow> i \<in> set is \<Longrightarrow> digest_at (snd (add_all is s)) (key i) = Some (dig i)"
proof (induction "is" arbitrary: s rs)
  case (Cons j "is")
  obtain r s' where a: "add j s = (Inr r, s')"
    using Cons.prems(1) by (auto split: sum.splits prod.splits)
  obtain q s'' where b: "add_all is s' = (Inr q, s'')"
    using Cons.prems(1) a by (auto split: sum.splits prod.splits)
  have "digest_at s' (key j) = Some (dig j)" using records [of j s r] a by simp
  then have "digest_at s'' (key j) = Some (dig j)" using add_all_grows [of s' "key j" "dig j" "is"] b by simp
  then show ?case using Cons.IH [of s' q] Cons.prems(2) a b by auto
qed simp

text \<open>Two accepted additions under one key carry one digest.\<close>

lemma add_all_functional:
  "fst (add_all is s) = Inr rs \<Longrightarrow> i \<in> set is \<Longrightarrow> j \<in> set is \<Longrightarrow> key i = key j \<Longrightarrow> dig i = dig j"
  by (metis add_all_records option.inject)

end

definition digest_of_event :: "production_store \<Rightarrow> string \<Rightarrow> string option" where
  "digest_of_event s k = map_option er_payload_sha256 (find_event s k)"

text \<open>One addition: the outcome of the database, the kind, the payload and the event id.\<close>

type_synonym addition = "db_outcome \<times> string \<times> json dict \<times> string option"

definition add_event ::
  "runtime \<Rightarrow> string \<Rightarrow> addition \<Rightarrow> production_store \<Rightarrow> append_result result \<times> production_store" where
  "add_event rt now i s = (case i of (db, kind, payload, event_id) \<Rightarrow>
     append_production_event rt now db kind payload event_id s)"

definition addition_key :: "runtime \<Rightarrow> addition \<Rightarrow> string" where
  "addition_key rt i = (case i of (db, kind, payload, event_id) \<Rightarrow>
     event_id_of rt (strip kind) payload event_id)"

definition addition_digest :: "runtime \<Rightarrow> addition \<Rightarrow> string" where
  "addition_digest rt i = (case i of (db, kind, payload, event_id) \<Rightarrow> payload_digest rt payload)"

lemma find_event_schema [simp]: "find_event (s\<lparr>ps_schema := v\<rparr>) k = find_event s k"
  by (simp add: find_event_def)

lemma find_append: "find P (xs @ ys) = (case find P xs of Some x \<Rightarrow> Some x | None \<Rightarrow> find P ys)"
  by (induction xs) auto

lemma find_event_insert:
  "find_event (s\<lparr>ps_events := ps_events s @ [row]\<rparr>) k =
     (case find_event s k of Some r \<Rightarrow> Some r | None \<Rightarrow> if er_event_id row = k then Some row else None)"
  by (simp add: find_event_def find_append split: option.splits)

lemma open_store_events: "open_production_store db s = Inr s' \<Longrightarrow> ps_events s' = ps_events s"
  by (auto simp: open_production_store_def ensure_schema_def split: db_outcome.splits option.splits if_splits)

lemma new_event_simps [simp]:
  "er_event_id (new_event rt now kind payload i) = i"
  "er_event_type (new_event rt now kind payload i) = kind"
  "er_payload_sha256 (new_event rt now kind payload i) = payload_digest rt payload"
  by (simp_all add: new_event_def split_beta)

text \<open>The three ways an append ends.\<close>

lemma append_event_cases:
  assumes "append_production_event rt now db kind payload eid s = (r, s')"
  obtains (failed) e where "r = Inl e" "ps_events s' = ps_events s"
  | (present) row where "r = Inr \<lparr>ar_event_id = event_id_of rt (strip kind) payload eid, ar_inserted = False,
        ar_payload_sha256 = payload_digest rt payload\<rparr>" "ps_events s' = ps_events s"
      "find_event s (event_id_of rt (strip kind) payload eid) = Some row"
      "er_payload_sha256 row = payload_digest rt payload"
  | (inserted) "r = Inr \<lparr>ar_event_id = event_id_of rt (strip kind) payload eid, ar_inserted = True,
        ar_payload_sha256 = payload_digest rt payload\<rparr>" "strip kind \<in> set EVENT_KINDS"
      "find_event s (event_id_of rt (strip kind) payload eid) = None"
      "ps_events s' = ps_events s @ [new_event rt now (strip kind) payload (event_id_of rt (strip kind) payload eid)]"
proof (cases "strip kind \<in> set EVENT_KINDS")
  case False
  then show ?thesis using assms by (intro failed) (auto simp: append_production_event_def)
next
  case True
  show ?thesis
  proof (cases "open_production_store db s")
    case (Inl e)
    then show ?thesis using assms True by (intro failed) (auto simp: append_production_event_def)
  next
    case (Inr t)
    let ?row = "new_event rt now (strip kind) payload (event_id_of rt (strip kind) payload eid)"
    have ev: "ps_events t = ps_events s" by (rule open_store_events [OF Inr])
    then have f: "find_event t k = find_event s k" for k by (simp add: find_event_def)
    have ins: "insert_event rt ?row t = (r, s')"
      using assms True Inr by (simp add: append_production_event_def Let_def)
    then show ?thesis
    proof (cases "find_event t (er_event_id ?row)")
      case None
      then show ?thesis
        using ins ev f True failed inserted by (auto simp: insert_event_def split: if_splits)
    next
      case (Some row)
      then show ?thesis
        using ins ev f failed present by (auto simp: insert_event_def split: if_splits)
    qed
  qed
qed

lemma find_event_cong: "ps_events s' = ps_events s \<Longrightarrow> find_event s' k = find_event s k"
  by (simp add: find_event_def)

lemma find_event_extend:
  "ps_events s' = ps_events s @ [row] \<Longrightarrow> find_event s' k =
     (case find_event s k of Some r \<Rightarrow> Some r | None \<Rightarrow> if er_event_id row = k then Some row else None)"
  by (simp add: find_event_def find_append split: option.splits)

lemma append_keeps:
  assumes "append_production_event rt now db kind payload eid s = (r, s')"
    and "digest_of_event s k = Some d"
  shows "digest_of_event s' k = Some d"
  using assms(1)
proof (cases rule: append_event_cases)
  case (failed e)
  then show ?thesis using assms(2) find_event_cong [OF failed(2)] by (simp add: digest_of_event_def)
next
  case (present row)
  then show ?thesis using assms(2) find_event_cong [OF present(2)] by (simp add: digest_of_event_def)
next
  case inserted
  then show ?thesis using assms(2) by (auto simp: digest_of_event_def find_event_extend [OF inserted(4)])
qed

lemma append_records:
  assumes "append_production_event rt now db kind payload eid s = (Inr r, s')"
  shows "digest_of_event s' (event_id_of rt (strip kind) payload eid) = Some (payload_digest rt payload)"
  using assms
proof (cases rule: append_event_cases)
  case (present row)
  then show ?thesis using find_event_cong [OF present(2)] by (simp add: digest_of_event_def)
next
  case inserted
  then show ?thesis by (simp add: digest_of_event_def find_event_extend [OF inserted(4)])
qed simp

interpretation event_log: digest_log "add_event rt now" digest_of_event "addition_key rt" "addition_digest rt"
  for rt now
proof unfold_locales
  fix s k d and i :: addition
  assume d: "digest_of_event s k = Some d"
  obtain db kind payload eid where i: "i = (db, kind, payload, eid)" by (cases i)
  obtain r s' where a: "append_production_event rt now db kind payload eid s = (r, s')"
    by (cases "append_production_event rt now db kind payload eid s")
  then show "digest_of_event (snd (add_event rt now i s)) k = Some d"
    using i append_keeps [OF a d] by (simp add: add_event_def)
next
  fix s r and i :: addition
  assume r: "fst (add_event rt now i s) = Inr r"
  obtain db kind payload eid where i: "i = (db, kind, payload, eid)" by (cases i)
  obtain s' where a: "append_production_event rt now db kind payload eid s = (Inr r, s')"
    using r i by (cases "append_production_event rt now db kind payload eid s") (simp add: add_event_def)
  show "digest_of_event (snd (add_event rt now i s)) (addition_key rt i) = Some (addition_digest rt i)"
    using i a append_records [OF a] by (simp add: add_event_def addition_key_def addition_digest_def)
qed

section \<open>Synchronisation makes the store agree with the files\<close>

text \<open>The additions one pass over the files makes.\<close>

fun file_additions ::
  "runtime \<Rightarrow> (nat \<Rightarrow> db_outcome) \<Rightarrow> nat \<Rightarrow> (string \<times> string \<times> file_body) list \<Rightarrow> addition list" where
  "file_additions rt db n [] = []"
| "file_additions rt db n ((event_type, name, b) # files) =
     (case canonical_event rt event_type b of
        None \<Rightarrow> file_additions rt db (n + 1) files
      | Some (event_id, payload) \<Rightarrow>
          (db (n + 1), event_type, payload, Some event_id) # file_additions rt db (n + 1) files)"

definition counted :: "sync_counters \<Rightarrow> bool" where
  "counted c = (sc_scanned c = sc_inserted c + sc_already_present c + sc_invalid c)"

lemma sync_loop_adds:
  assumes "sync_loop rt now db files c s = (Inr c', s')"
  shows "\<exists>rs. event_log.add_all rt now (file_additions rt db (sc_scanned c) files) s = (Inr rs, s')
    \<and> sc_inserted c' = sc_inserted c + length (filter ar_inserted rs)"
  using assms
proof (induction rt now db files c s rule: sync_loop.induct)
  case (2 rt now db event_type name b files c s)
  define c1 where "c1 = c\<lparr>sc_scanned := sc_scanned c + 1\<rparr>"
  show ?case
  proof (cases "canonical_event rt event_type b")
    case None
    then show ?thesis using 2(1) [OF refl None] 2(3) by (simp add: Let_def)
  next
    case (Some p)
    obtain eid payload where p: "p = (eid, payload)" by (cases p)
    obtain r t where a: "append_production_event rt now (db (sc_scanned c + 1)) event_type payload (Some eid) s = (Inr r, t)"
      using 2(3) Some p by (auto simp: Let_def split: prod.splits sum.splits)
    have e: "add_event rt now (db (sc_scanned c + 1), event_type, payload, Some eid) s = (Inr r, t)"
      using a by (simp add: add_event_def)
    show ?thesis
      using 2(2) [OF refl Some p [symmetric]] 2(3) Some p a e
      by (auto simp: Let_def split: if_splits)
  qed
qed simp

lemma sync_loop_counted:
  "sync_loop rt now db files c s = (Inr c', s') \<Longrightarrow> counted c
     \<Longrightarrow> counted c' \<and> sc_scanned c' = sc_scanned c + length files"
proof (induction rt now db files c s rule: sync_loop.induct)
  case (2 rt now db event_type name b files c s)
  show ?case
  proof (cases "canonical_event rt event_type b")
    case None
    then show ?thesis using 2(1) [OF refl None] 2(3,4) by (simp add: Let_def counted_def)
  next
    case (Some p)
    obtain eid payload where p: "p = (eid, payload)" by (cases p)
    obtain r t where a: "append_production_event rt now (db (sc_scanned c + 1)) event_type payload (Some eid) s = (Inr r, t)"
      using 2(3) Some p by (auto simp: Let_def split: prod.splits sum.splits)
    then show ?thesis
      using 2(2) [OF refl Some p [symmetric]] 2(3,4) Some p
      by (auto simp: Let_def counted_def split: if_splits)
  qed
qed simp

text \<open>The store only grows at its end.\<close>

lemma append_event_extends:
  assumes "append_production_event rt now db kind payload eid s = (r, s')"
  shows "\<exists>es. ps_events s' = ps_events s @ es"
  using assms by (cases rule: append_event_cases) auto

lemma sync_loop_extends:
  "sync_loop rt now db files c s = (r, s') \<Longrightarrow> \<exists>es. ps_events s' = ps_events s @ es"
proof (induction rt now db files c s arbitrary: r rule: sync_loop.induct)
  case (2 rt now db event_type name b files c s)
  show ?case
  proof (cases "canonical_event rt event_type b")
    case None
    then show ?thesis using 2(1) [OF refl None] 2(3) by (simp add: Let_def)
  next
    case (Some p)
    obtain eid payload where p: "p = (eid, payload)" by (cases p)
    obtain q t where a: "append_production_event rt now (db (sc_scanned c + 1)) event_type payload (Some eid) s = (q, t)"
      by (cases "append_production_event rt now (db (sc_scanned c + 1)) event_type payload (Some eid) s")
    obtain es where es: "ps_events t = ps_events s @ es" using append_event_extends [OF a] by blast
    show ?thesis
    proof (cases q)
      case (Inl e)
      then show ?thesis using 2(3) Some p a es by (auto simp: Let_def)
    next
      case (Inr res)
      obtain fs where "ps_events s' = ps_events t @ fs"
        using 2(2) [OF refl Some p [symmetric]] 2(3) Some p a Inr by (auto simp: Let_def split: if_splits)
      then show ?thesis using es by simp
    qed
  qed
qed simp

text \<open>Event ids of the three canonical kinds carry their kind.\<close>

definition CANONICAL_KINDS :: "string list" where
  "CANONICAL_KINDS = [''decision'', ''observation'', ''outcome'']"

definition typed_ids :: "production_store \<Rightarrow> bool" where
  "typed_ids s = (\<forall>r \<in> set (ps_events s). \<forall>t \<in> set CANONICAL_KINDS.
     starts_with (er_event_id r) (t @ '':'') \<longrightarrow> er_event_type r = t)"

lemma canonical_event_Some:
  assumes "canonical_event rt t b = Some (eid, payload)"
  obtains i where "eid = t @ '':'' @ strip i" "strip i \<noteq> []"
  using assms by (auto simp: canonical_event_def Let_def split: option.splits if_splits)

lemma kind_strip: "t \<in> set CANONICAL_KINDS \<Longrightarrow> strip t = t"
  by (auto simp: CANONICAL_KINDS_def strip_def rstrip_def lstrip_def is_space_def code_def Let_def)

lemma kind_id_strip:
  assumes "t \<in> set CANONICAL_KINDS" "strip i \<noteq> []"
  shows "strip (t @ '':'' @ strip i) = t @ '':'' @ strip i"
proof -
  have sp: "\<not> is_space (CHR ''d'')" "\<not> is_space (CHR ''o'')" by (simp_all add: is_space_def code_def Let_def)
  have "\<exists>c u. t = c # u \<and> \<not> is_space c"
    using assms(1) sp by (auto simp: CANONICAL_KINDS_def)
  then obtain c u where t: "t = c # u" "\<not> is_space c" by blast
  then show ?thesis using strip_prefixed [OF t(2) assms(2), of "u @ '':''"] by simp
qed

lemma canonical_event_key:
  assumes "canonical_event rt t b = Some (eid, payload)" "t \<in> set CANONICAL_KINDS"
  shows "event_id_of rt (strip t) payload (Some eid) = eid"
proof -
  obtain i where i: "eid = t @ '':'' @ strip i" "strip i \<noteq> []" by (rule canonical_event_Some [OF assms(1)])
  have "strip eid = eid" using kind_id_strip [OF assms(2) i(2)] i(1) by simp
  moreover have "eid \<noteq> []" using i by simp
  ultimately show ?thesis by (simp add: event_id_of_def Let_def)
qed

lemma kinds_of_canonical_files: "(t, n, b) \<in> set (canonical_files fs) \<Longrightarrow> t \<in> set CANONICAL_KINDS"
  by (auto simp: canonical_files_def CANONICAL_KINDS_def)

lemma file_additions_member:
  assumes "(t, n, b) \<in> set files" "canonical_event rt t b = Some (eid, payload)"
  shows "\<exists>d. (d, t, payload, Some eid) \<in> set (file_additions rt db k files)"
  using assms
proof (induction rt db k files rule: file_additions.induct)
  case (2 rt db k t' n' b' files)
  show ?case
  proof (cases "canonical_event rt t' b'")
    case None
    then show ?thesis using 2(1) 2(3,4) by auto
  next
    case (Some p)
    obtain e q where p: "p = (e, q)" by (cases p)
    show ?thesis using 2(2) [OF Some p [symmetric]] 2(3,4) Some p by auto
  qed
qed simp

text \<open>After a successful synchronisation every usable file has its event, with its digest.\<close>

lemma sync_records:
  assumes "sync_loop rt now db files c s = (Inr c', s')"
    and "(t, n, b) \<in> set files" "canonical_event rt t b = Some (eid, payload)" "t \<in> set CANONICAL_KINDS"
  shows "digest_of_event s' eid = Some (payload_digest rt payload)"
proof -
  obtain rs where rs: "event_log.add_all rt now (file_additions rt db (sc_scanned c) files) s = (Inr rs, s')"
    using sync_loop_adds [OF assms(1)] by blast
  obtain d where m: "(d, t, payload, Some eid) \<in> set (file_additions rt db (sc_scanned c) files)"
    using file_additions_member [OF assms(2,3)] by blast
  show ?thesis
    using event_log.add_all_records [OF _ m, of rt now s rs] rs canonical_event_key [OF assms(3,4)]
    by (simp add: addition_key_def addition_digest_def)
qed

lemma expected_events_from:
  "dget (fst (expected_events rt files ex bad)) k = Some g \<Longrightarrow> dget ex k = Some g
     \<or> (\<exists>t n b payload. (t, n, b) \<in> set files \<and> canonical_event rt t b = Some (k, payload)
          \<and> g = payload_digest rt payload)"
proof (induction rt files ex bad rule: expected_events.induct)
  case (2 rt t n b files ex bad)
  show ?case
  proof (cases "canonical_event rt t b")
    case None
    then show ?thesis using 2(1) [OF None] 2(3) by auto
  next
    case (Some p)
    obtain eid payload where p: "p = (eid, payload)" by (cases p)
    show ?thesis
      using 2(2) [OF Some p [symmetric]] 2(3) Some p by (fastforce split: if_splits)
  qed
qed simp

lemma typed_ids_extend:
  assumes "typed_ids s" "ps_events s' = ps_events s @ es"
    and "\<And>r t. r \<in> set es \<Longrightarrow> t \<in> set CANONICAL_KINDS \<Longrightarrow> starts_with (er_event_id r) (t @ '':'') \<Longrightarrow> er_event_type r = t"
  shows "typed_ids s'"
  using assms by (auto simp: typed_ids_def)

lemma kind_prefix_unique:
  assumes "t \<in> set CANONICAL_KINDS" "u \<in> set CANONICAL_KINDS" "starts_with (t @ '':'' @ x) (u @ '':'')"
  shows "t = u"
  using assms by (auto simp: CANONICAL_KINDS_def starts_with_def)

lemma append_canonical_typed:
  assumes "append_production_event rt now db t payload (Some eid) s = (r, s')"
    and "canonical_event rt t b = Some (eid, payload)" "t \<in> set CANONICAL_KINDS" "typed_ids s"
  shows "typed_ids s'"
  using assms(1)
proof (cases rule: append_event_cases)
  case (failed e)
  then show ?thesis using assms(4) by (simp add: typed_ids_def)
next
  case (present row)
  then show ?thesis using assms(4) by (simp add: typed_ids_def)
next
  case inserted
  obtain i where i: "eid = t @ '':'' @ strip i" by (rule canonical_event_Some [OF assms(2)])
  show ?thesis
  proof (rule typed_ids_extend [OF assms(4)
        inserted(4) [unfolded canonical_event_key [OF assms(2,3)], unfolded kind_strip [OF assms(3)]]])
    fix r' u
    assume "r' \<in> set [new_event rt now t payload eid]" "u \<in> set CANONICAL_KINDS"
      "starts_with (er_event_id r') (u @ '':'')"
    then show "er_event_type r' = u" using kind_prefix_unique [OF assms(3)] i by simp
  qed
qed

lemma sync_loop_typed:
  "sync_loop rt now db files c s = (r, s') \<Longrightarrow> typed_ids s
     \<Longrightarrow> \<forall>(t, n, b) \<in> set files. t \<in> set CANONICAL_KINDS \<Longrightarrow> typed_ids s'"
proof (induction rt now db files c s arbitrary: r rule: sync_loop.induct)
  case (2 rt now db event_type name b files c s)
  show ?case
  proof (cases "canonical_event rt event_type b")
    case None
    then show ?thesis using 2(1) [OF refl None] 2(3,4,5) by (simp add: Let_def)
  next
    case (Some p)
    obtain eid payload where p: "p = (eid, payload)" by (cases p)
    obtain q t where a: "append_production_event rt now (db (sc_scanned c + 1)) event_type payload (Some eid) s = (q, t)"
      by (cases "append_production_event rt now (db (sc_scanned c + 1)) event_type payload (Some eid) s")
    have ty: "typed_ids t"
      using append_canonical_typed [OF a Some [unfolded p] _ 2(4)] 2(5) by simp
    show ?thesis
      using 2(2) [OF refl Some p [symmetric]] 2(3,5) Some p a ty
      by (cases q) (auto simp: Let_def split: if_splits)
  qed
qed simp

lemma actual_events_find:
  assumes "find_event s k = Some r" "er_event_type r \<in> set CANONICAL_KINDS"
  shows "dget (actual_events s) k = Some (er_payload_sha256 r)"
proof -
  have "find (\<lambda>r. er_event_id r = k) es = Some r \<Longrightarrow>
      map_of (map (\<lambda>r. (er_event_id r, er_payload_sha256 r))
        (filter (\<lambda>r. er_event_type r \<in> set CANONICAL_KINDS) es)) k = Some (er_payload_sha256 r)" for es
    using assms(2) by (induction es) (auto split: if_splits)
  then show ?thesis
    using assms(1) by (simp add: actual_events_def dget_def find_event_def CANONICAL_KINDS_def)
qed

lemma typed_actual:
  assumes "typed_ids s" "digest_of_event s k = Some g" "t \<in> set CANONICAL_KINDS" "starts_with k (t @ '':'')"
  shows "dget (actual_events s) k = Some g"
proof -
  obtain r where r: "find_event s k = Some r" "er_payload_sha256 r = g"
    using assms(2) by (auto simp: digest_of_event_def)
  then have "r \<in> set (ps_events s)" "er_event_id r = k"
    by (auto simp: find_event_def find_Some_iff)
  then have "er_event_type r = t" using assms(1,3,4) by (auto simp: typed_ids_def)
  then show ?thesis using actual_events_find [OF r(1)] assms(3) r(2) by simp
qed

text \<open>Synchronise, then reconcile: nothing is missing and no digest differs.\<close>

lemma synced_agrees:
  assumes "sync_loop rt now db (canonical_files fs) c s = (Inr c', s')" "typed_ids s"
  shows "rr_missing (reconcile_with rt fs s') = [] \<and> rr_mismatched (reconcile_with rt fs s') = []"
proof -
  obtain ex bad where ex: "expected_events rt (canonical_files fs) [] [] = (ex, bad)" by (cases "expected_events rt (canonical_files fs) [] []")
  have ty: "typed_ids s'"
    by (rule sync_loop_typed [OF assms]) (auto dest: kinds_of_canonical_files)
  have at: "dget (actual_events s') k = Some g" if e: "dget ex k = Some g" for k g
  proof -
    obtain t n b payload where f: "(t, n, b) \<in> set (canonical_files fs)"
        "canonical_event rt t b = Some (k, payload)" "g = payload_digest rt payload"
      using expected_events_from [of rt "canonical_files fs" "[]" "[]" k g] e unfolding ex by auto
    have t: "t \<in> set CANONICAL_KINDS" by (rule kinds_of_canonical_files [OF f(1)])
    obtain i where i: "k = t @ '':'' @ strip i" by (rule canonical_event_Some [OF f(2)])
    have "digest_of_event s' k = Some g" using sync_records [OF assms(1) f(1,2) t] f(3) by simp
    then show ?thesis
    proof (rule typed_actual [OF ty _ t])
      show "starts_with k (t @ '':'')" using i starts_with_append [of "t @ '':''" "strip i"] by simp
    qed
  qed
  have "dget (actual_events s') k = dget ex k" if "k \<in> set (dkeys ex)" for k
    using that at by (auto simp: set_dkeys_iff)
  then have "filter (\<lambda>k. dget (actual_events s') k = None) (dkeys ex) = []"
    and "filter (\<lambda>k. dget (actual_events s') k \<noteq> None \<and> dget ex k \<noteq> dget (actual_events s') k) (dkeys ex) = []"
    by (auto simp: filter_empty_conv set_dkeys_iff)
  then show ?thesis by (simp add: reconcile_with_def ex Let_def del: filter.simps)
qed

end
