(* ===== verification/Learning.thy ===== *)
theory Learning
  imports ContextFeatures ProductionStore
begin

text \<open>
  \<open>retrieval_learning.py\<close> and \<open>outcome_verification.py\<close>: choosing a retrieval arm for a task
  (safe epsilon exploration or a deployment's canary assignment), logging the decision before it
  takes effect, recording observations and verified outcomes write-once, and reading the
  records back.
\<close>

section \<open>Outcome verification\<close>

definition DEFAULT_TRUSTED_OUTCOME_SOURCES :: "string list" where
  "DEFAULT_TRUSTED_OUTCOME_SOURCES = [''github-actions:test-suite'', ''github-actions:integration-suite'',
     ''signed-human-review'', ''local:test-suite'']"

text \<open>\<open>trusted_env\<close> is the value of \<open>AI_WORKFLOW_TRUSTED_OUTCOME_SOURCES\<close>.\<close>

definition trusted_outcome_sources :: "string \<Rightarrow> string set" where
  "trusted_outcome_sources trusted_env =
     set DEFAULT_TRUSTED_OUTCOME_SOURCES
     \<union> set (filter (\<lambda>s. s \<noteq> []) (map strip (split_on (CHR '','') trusted_env)))"

record verified_outcome_evidence =
  vo_source :: string
  vo_verifier_identity :: string
  vo_evidence_digest :: string
  vo_reward :: rat
  vo_realized_cost :: rat

definition is_hex :: "string \<Rightarrow> bool" where
  "is_hex s = list_all (\<lambda>c. c \<in> set ''0123456789abcdef'') s"

definition validated_sha256_digest :: "string \<Rightarrow> string result" where
  "validated_sha256_digest value =
     (let digest = lower (strip value); prefix = ''sha256:'' in
      guard_that (starts_with digest prefix) (ValueError ''immutable verifier evidence must use sha256:<hex>'')
      (let hex_value = drop (length prefix) digest in
       guard_that (length hex_value = 64 \<and> is_hex hex_value)
         (ValueError ''immutable verifier evidence must be a 64-byte sha256 hex digest'')
       (Inr digest)))"

definition validate_verified_outcome ::
  "string \<Rightarrow> string \<Rightarrow> string \<Rightarrow> string \<Rightarrow> pyfloat \<Rightarrow> pyfloat \<Rightarrow> verified_outcome_evidence result" where
  "validate_verified_outcome trusted_env source verifier_identity evidence_digest reward realized_cost =
     (let source_id = strip source in
      guard_that (source_id \<in> trusted_outcome_sources trusted_env)
        (ValueError ''outcome source is not trusted by runtime policy'')
      (let verifier = strip verifier_identity in
       guard_that (verifier \<noteq> []) (ValueError ''verifier_identity must not be blank'')
       (case reward of
          Fin r \<Rightarrow>
            guard_that (0 \<le> r \<and> r \<le> 1) (ValueError ''reward must be finite and between 0.0 and 1.0'')
            (case realized_cost of
               Fin c \<Rightarrow>
                 guard_that (\<not> c < 0) (ValueError ''realized_cost must be finite and non-negative'')
                 (rbind (validated_sha256_digest evidence_digest) (\<lambda>digest.
                    Inr \<lparr>vo_source = source_id, vo_verifier_identity = verifier,
                      vo_evidence_digest = digest, vo_reward = r, vo_realized_cost = c\<rparr>))
             | _ \<Rightarrow> Inl (ValueError ''realized_cost must be finite and non-negative''))
        | _ \<Rightarrow> Inl (ValueError ''reward must be finite and between 0.0 and 1.0''))))"

section \<open>Configuration\<close>

definition LEARNING_MODES :: "string list" where
  "LEARNING_MODES = [''off'', ''observe'', ''explore'']"

definition learning_config :: "json dict \<Rightarrow> json dict" where
  "learning_config config = section_of config ''learning''"

definition learning_mode :: "runtime \<Rightarrow> json dict \<Rightarrow> string" where
  "learning_mode rt config =
     (let raw = lower (strip (py_str rt (jget_or (learning_config config) ''mode'' (JStr ''off'')))) in
      if raw \<in> set LEARNING_MODES then raw else ''off'')"

text \<open>\<open>kill_env\<close> is the value of \<open>AI_WORKFLOW_LEARNING_KILL_SWITCH\<close>.\<close>

definition learning_kill_switch :: "string \<Rightarrow> json dict \<Rightarrow> bool" where
  "learning_kill_switch kill_env config =
     (lower (strip kill_env) \<in> {''1'', ''true'', ''yes'', ''on''}
      \<or> truthy (jget_or (learning_config config) ''kill_switch'' (JBool False)))"

definition clamp01 :: "rat \<Rightarrow> rat" where
  "clamp01 r = min 1 (max 0 r)"

definition fraction_of :: "json \<Rightarrow> rat \<Rightarrow> rat result" where
  "fraction_of value dflt = (case value of
     JInt i \<Rightarrow> rbind (float_of_int i) (\<lambda>x. Inr (case x of Fin r \<Rightarrow> clamp01 r | _ \<Rightarrow> dflt))
   | JFloat x \<Rightarrow> Inr (case x of Fin r \<Rightarrow> clamp01 r | _ \<Rightarrow> dflt)
   | _ \<Rightarrow> Inr dflt)"

definition allowed_risks :: "runtime \<Rightarrow> json dict \<Rightarrow> string set" where
  "allowed_risks rt config =
     (case jget_or (learning_config config) ''allowed_risks'' (JList [JStr ''low'']) of
        JList raw \<Rightarrow> set (filter (\<lambda>s. s = ''low'') (map (\<lambda>i. lower (strip (py_str rt i))) raw))
      | _ \<Rightarrow> {''low''})"

definition eligible_arms :: "runtime \<Rightarrow> json dict \<Rightarrow> string list" where
  "eligible_arms rt config =
     (let values = (case jget (learning_config config) ''eligible_arms'' of
            JList raw \<Rightarrow> map (\<lambda>v. strip (py_str rt v)) raw | _ \<Rightarrow> SAFE_EXPLORATION_ARMS);
          arms = filter (\<lambda>a. a \<in> set SAFE_EXPLORATION_ARMS) values
      in uniq (if BASELINE_ARM \<in> set arms then arms else BASELINE_ARM # arms))"

section \<open>Propensities and sampling\<close>

definition propensities :: "string list \<Rightarrow> rat \<Rightarrow> rat dict" where
  "propensities arms epsilon =
     (if length arms \<le> 1 \<or> epsilon \<le> 0
      then map (\<lambda>a. (a, if a = BASELINE_ARM then 1 else 0)) arms
      else let exploration_share = epsilon / rat_of_nat (length arms)
        in map (\<lambda>a. (a, if a = BASELINE_ARM then 1 - epsilon + exploration_share
             else exploration_share)) arms)"

fun sample_loop :: "rat \<Rightarrow> rat \<Rightarrow> string \<Rightarrow> rat dict \<Rightarrow> string" where
  "sample_loop point cumulative lst [] = lst"
| "sample_loop point cumulative lst ((arm, probability) # ps) =
     (let cumulative = cumulative + probability in
      if point \<le> cumulative then arm else sample_loop point cumulative arm ps)"

definition sample_arm :: "rat dict \<Rightarrow> rat \<Rightarrow> string" where
  "sample_arm ps point = sample_loop point 0 BASELINE_ARM ps"

section \<open>The decision\<close>

record learning_decision =
  ld_decision_id :: string
  ld_policy_version :: string
  ld_mode :: string
  ld_baseline_arm :: string
  ld_eligible_arms :: "string list"
  ld_chosen_arm :: string
  ld_chosen_propensity :: rat
  ld_arm_propensities :: "rat dict"
  ld_exploration_probability :: rat
  ld_explored :: bool
  ld_safety_reason :: string
  ld_lane :: string
  ld_risk :: string
  ld_intent :: string
  ld_task_fingerprint :: string
  ld_feature_schema_version :: string
  ld_context_features :: "json dict"
  ld_created_at :: string
  ld_deployment :: "json dict option"

text \<open>\<open>to_dict\<close>\<close>

definition decision_json :: "learning_decision \<Rightarrow> json dict" where
  "decision_json d =
     [(''decision_id'', JStr (ld_decision_id d)),
      (''policy_version'', JStr (ld_policy_version d)),
      (''mode'', JStr (ld_mode d)),
      (''baseline_arm'', JStr (ld_baseline_arm d)),
      (''eligible_arms'', JList (map JStr (ld_eligible_arms d))),
      (''chosen_arm'', JStr (ld_chosen_arm d)),
      (''chosen_propensity'', JFloat (Fin (ld_chosen_propensity d))),
      (''arm_propensities'', JDict (map (\<lambda>(a, p). (a, JFloat (Fin p))) (ld_arm_propensities d))),
      (''exploration_probability'', JFloat (Fin (ld_exploration_probability d))),
      (''explored'', JBool (ld_explored d)),
      (''safety_reason'', JStr (ld_safety_reason d)),
      (''lane'', JStr (ld_lane d)),
      (''risk'', JStr (ld_risk d)),
      (''intent'', JStr (ld_intent d)),
      (''task_fingerprint'', JStr (ld_task_fingerprint d)),
      (''feature_schema_version'', JStr (ld_feature_schema_version d)),
      (''context_features'', JDict (ld_context_features d)),
      (''created_at'', JStr (ld_created_at d)),
      (''deployment'', case ld_deployment d of None \<Rightarrow> JNull | Some x \<Rightarrow> JDict x)]"

text \<open>What a process sees while it learns: clock readings, fresh identifiers and I/O outcomes in
  the order it asks for them.\<close>

record learning_env =
  le_clock :: "nat \<Rightarrow> string"
  le_uuid :: "nat \<Rightarrow> string"
  le_publish :: "nat \<Rightarrow> publish_outcome"
  le_db :: "nat \<Rightarrow> db_outcome"
  le_random :: rat
  le_kill_env :: string
  le_trusted_env :: string
  le_inside_root :: "string \<Rightarrow> bool"
  le_parse_time :: "string \<Rightarrow> (rat \<times> bool) option"  \<comment> \<open>seconds, and whether an offset is given\<close>

text \<open>The loop that reads an assignment's propensities; \<open>False\<close> when one is refused.\<close>

fun parse_propensities :: "(string \<times> json) list \<Rightarrow> rat dict \<Rightarrow> (bool \<times> rat dict) result" where
  "parse_propensities [] parsed = Inr (True, parsed)"
| "parse_propensities ((arm, probability) # items) parsed =
     (let name = strip arm in
      if name \<notin> set SAFE_EXPLORATION_ARMS then Inr (False, parsed)
      else case probability of
        JInt i \<Rightarrow> rbind (float_of_int i) (\<lambda>value. case value of
            Fin r \<Rightarrow> if 0 \<le> r \<and> r \<le> 1 then parse_propensities items (dset parsed name r) else Inr (False, parsed)
          | _ \<Rightarrow> Inr (False, parsed))
      | JFloat (Fin r) \<Rightarrow>
          (if 0 \<le> r \<and> r \<le> 1 then parse_propensities items (dset parsed name r) else Inr (False, parsed))
      | _ \<Rightarrow> Inr (False, parsed))"

definition mass_ok :: "rat dict \<Rightarrow> string \<Rightarrow> bool" where
  "mass_ok parsed raw_arm =
     (parsed \<noteq> [] \<and> \<not> 1 / 10 ^ 9 < \<bar>sum_list (map snd parsed) - 1\<bar>
      \<and> (case dget parsed raw_arm of None \<Rightarrow> False | Some p \<Rightarrow> \<not> p \<le> 0))"

text \<open>The arm and the propensities of an acceptable assignment.\<close>

definition assignment_choice ::
  "runtime \<Rightarrow> risk \<Rightarrow> json dict \<Rightarrow> (string \<times> rat dict) option result" where
  "assignment_choice rt risk_level assignment =
     (let raw_arm = strip (py_str rt (jget_or assignment ''chosen_arm'' (JStr BASELINE_ARM))) in
      if raw_arm \<notin> set SAFE_EXPLORATION_ARMS then Inr None
      else case jget assignment ''arm_propensities'' of
        JDict raw \<Rightarrow>
          rbind (parse_propensities raw []) (\<lambda>(ok, parsed).
            Inr (if ok \<and> mass_ok parsed raw_arm \<and> \<not> (raw_arm \<noteq> BASELINE_ARM \<and> risk_level \<noteq> Low)
                 then Some (raw_arm, parsed) else None))
      | _ \<Rightarrow> Inr None)"

text \<open>The fields the branches of \<open>choose_learning_decision\<close> decide.\<close>

record choice =
  ch_mode :: string
  ch_chosen :: string
  ch_propensities :: "rat dict"
  ch_explored :: bool
  ch_epsilon :: rat
  ch_safety_reason :: string
  ch_policy_version :: string
  ch_deployment :: "json dict option"

definition baseline_choice :: "string \<Rightarrow> rat \<Rightarrow> string \<Rightarrow> choice" where
  "baseline_choice mode epsilon reason =
     \<lparr>ch_mode = mode, ch_chosen = BASELINE_ARM, ch_propensities = [(BASELINE_ARM, 1)],
      ch_explored = False, ch_epsilon = epsilon, ch_safety_reason = reason,
      ch_policy_version = ''safe-epsilon-v1'', ch_deployment = None\<rparr>"

definition invalid_assignment :: choice where
  "invalid_assignment = (baseline_choice ''canary'' 0 ''deployment_assignment_invalid'')
     \<lparr>ch_deployment := Some [(''assignment'', JStr ''baseline''),
        (''reason'', JStr ''deployment_assignment_invalid''), (''source'', JStr ''stage7_deployment'')]\<rparr>"

definition assigned_choice :: "runtime \<Rightarrow> json dict \<Rightarrow> string \<Rightarrow> rat dict \<Rightarrow> choice result" where
  "assigned_choice rt assignment raw_arm parsed =
     (let deployment = (case jget assignment ''deployment'' of JDict d \<Rightarrow> d | _ \<Rightarrow> []) in
      rbind (fraction_of (jget_or deployment ''candidate_probability'' (JFloat (Fin 0))) 0) (\<lambda>epsilon.
      let policy_id = strip (py_str rt (jget_or deployment ''policy_id'' (JStr []))) in
      Inr \<lparr>ch_mode = py_str rt (jget_or assignment ''mode'' (JStr ''canary'')),
        ch_chosen = raw_arm, ch_propensities = parsed,
        ch_explored = (raw_arm \<noteq> BASELINE_ARM), ch_epsilon = epsilon,
        ch_safety_reason = py_str rt (jget_or assignment ''safety_reason'' (JStr ''deployment_canary'')),
        ch_policy_version = ''deployment:'' @ (if policy_id \<noteq> [] then policy_id else ''fail-closed''),
        ch_deployment = Some deployment\<rparr>))"

definition explore_choice ::
  "runtime \<Rightarrow> learning_env \<Rightarrow> json dict \<Rightarrow> risk \<Rightarrow> string list \<Rightarrow> rat \<Rightarrow> choice" where
  "explore_choice rt env config risk_level arms epsilon =
     (if learning_kill_switch (le_kill_env env) config
      then baseline_choice ''explore'' epsilon ''kill_switch''
      else if risk_value risk_level \<notin> allowed_risks rt config
      then baseline_choice ''explore'' epsilon ''risk_locked''
      else if length arms \<le> 1 \<or> epsilon \<le> 0
      then baseline_choice ''explore'' epsilon ''no_exploration_mass''
      else let ps = propensities arms epsilon; chosen = sample_arm ps (le_random env);
               explored = (chosen \<noteq> BASELINE_ARM)
        in (baseline_choice ''explore'' epsilon
              (if explored then ''bounded_exploration'' else ''baseline_sample''))
           \<lparr>ch_chosen := chosen, ch_propensities := ps, ch_explored := explored\<rparr>)"

definition make_choice ::
  "runtime \<Rightarrow> learning_env \<Rightarrow> json dict \<Rightarrow> risk \<Rightarrow> json dict option \<Rightarrow> choice result" where
  "make_choice rt env config risk_level assignment =
     (let mode = learning_mode rt config in
      rbind (fraction_of (jget_or (learning_config config) ''exploration_probability'' (JFloat (Fin (5/100)))) (5/100)) (\<lambda>epsilon.
      case assignment of
        Some a \<Rightarrow> rbind (assignment_choice rt risk_level a) (\<lambda>c. case c of
            Some (arm, parsed) \<Rightarrow> assigned_choice rt a arm parsed
          | None \<Rightarrow> Inr invalid_assignment)
      | None \<Rightarrow> Inr (if mode = ''observe'' then baseline_choice mode epsilon ''observe_only''
          else if mode = ''explore''
          then explore_choice rt env config risk_level (eligible_arms rt config) epsilon
          else baseline_choice mode epsilon ''learning_disabled'')))"

definition choose_learning_decision ::
  "runtime \<Rightarrow> learning_env \<Rightarrow> string \<Rightarrow> route_decision \<Rightarrow> string \<Rightarrow> json dict \<Rightarrow> int \<Rightarrow> int
     \<Rightarrow> json dict option \<Rightarrow> learning_decision result" where
  "choose_learning_decision rt env query decision intent config changed_files_count
     workspace_roots_count assignment =
     rbind (make_choice rt env config (rd_risk decision) assignment) (\<lambda>c. Inr
       \<lparr>ld_decision_id = le_uuid env 0,
        ld_policy_version = ch_policy_version c,
        ld_mode = ch_mode c,
        ld_baseline_arm = BASELINE_ARM,
        ld_eligible_arms = dkeys (ch_propensities c),
        ld_chosen_arm = ch_chosen c,
        ld_chosen_propensity = (case dget (ch_propensities c) (ch_chosen c) of Some p \<Rightarrow> p | None \<Rightarrow> 1),
        ld_arm_propensities = map (\<lambda>(a, p). (a, round_to 12 p)) (ch_propensities c),
        ld_exploration_probability = (if ch_mode c = ''explore'' then ch_epsilon c else 0),
        ld_explored = ch_explored c,
        ld_safety_reason = ch_safety_reason c,
        ld_lane = lane_value (rd_lane decision),
        ld_risk = risk_value (rd_risk decision),
        ld_intent = intent,
        ld_task_fingerprint = hexdigest (rt_sha256 rt (utf8 query)),
        ld_feature_schema_version = FEATURE_SCHEMA_VERSION,
        ld_context_features = build_context_features query decision intent changed_files_count
          workspace_roots_count,
        ld_created_at = le_clock env 0,
        ld_deployment = ch_deployment c\<rparr>)"

definition baseline_fallback :: "learning_env \<Rightarrow> learning_decision \<Rightarrow> string \<Rightarrow> learning_decision" where
  "baseline_fallback env source reason = source
     \<lparr>ld_decision_id := le_uuid env 1,
      ld_baseline_arm := BASELINE_ARM,
      ld_eligible_arms := [BASELINE_ARM],
      ld_chosen_arm := BASELINE_ARM,
      ld_chosen_propensity := 1,
      ld_arm_propensities := [(BASELINE_ARM, 1)],
      ld_exploration_probability := 0,
      ld_explored := False,
      ld_safety_reason := reason,
      ld_created_at := le_clock env 1,
      ld_deployment := map_option (\<lambda>d. dset (dset (dset (dset d
         ''assignment'' (JStr ''baseline'')) ''reason'' (JStr reason))
         ''candidate_probability'' (JFloat (Fin 0))) ''chosen_probability'' (JFloat (Fin 1)))
         (ld_deployment source)\<rparr>"

section \<open>The records\<close>

text \<open>\<open>_record_path\<close>: the file name of a well-formed identifier.\<close>

definition record_path :: "string \<Rightarrow> string result" where
  "record_path decision_id =
     guard_that (length decision_id = 32 \<and> is_hex decision_id)
       (ValueError ''decision_id must be a 32-character lowercase hexadecimal ID'')
     (Inr (decision_id @ ''.json''))"

text \<open>Publish a record in one directory, then mirror it; the mirror's own exceptions propagate.\<close>

definition mirror_into ::
  "runtime \<Rightarrow> learning_env \<Rightarrow> nat \<Rightarrow> json dict \<Rightarrow> string \<Rightarrow> json dict \<Rightarrow> string \<Rightarrow> learning_fs
     \<Rightarrow> string result \<times> learning_fs" where
  "mirror_into rt env n config event_type payload path fs =
     (case mirror_learning_event rt (le_clock env n) (le_db env n) (le_inside_root env) config event_type
         payload (lf_stores fs) of
        (r, ss) \<Rightarrow> (rbind r (\<lambda>_. Inr path), fs\<lparr>lf_stores := ss\<rparr>))"

definition write_learning_decision ::
  "runtime \<Rightarrow> learning_env \<Rightarrow> nat \<Rightarrow> json dict \<Rightarrow> learning_decision \<Rightarrow> learning_fs
     \<Rightarrow> string result \<times> learning_fs" where
  "write_learning_decision rt env n config d fs =
     (let payload = decision_json d in
      case record_path (ld_decision_id d) of
        Inl e \<Rightarrow> (Inl e, fs)
      | Inr name \<Rightarrow>
          (case atomic_create_json (le_publish env n) name (JDict payload) (lf_decisions fs) of
             (Inl e, dir) \<Rightarrow> (Inl e, fs\<lparr>lf_decisions := dir\<rparr>)
           | (Inr _, dir) \<Rightarrow> mirror_into rt env n config ''decision'' payload name (fs\<lparr>lf_decisions := dir\<rparr>)))"

definition prepare_learning_decision ::
  "runtime \<Rightarrow> learning_env \<Rightarrow> string \<Rightarrow> route_decision \<Rightarrow> string \<Rightarrow> json dict \<Rightarrow> int \<Rightarrow> int
     \<Rightarrow> json dict option \<Rightarrow> learning_fs \<Rightarrow> (learning_decision \<times> string option) result \<times> learning_fs" where
  "prepare_learning_decision rt env query decision intent config changed_files_count
     workspace_roots_count assignment fs =
     (case choose_learning_decision rt env query decision intent config changed_files_count
         workspace_roots_count assignment of
        Inl e \<Rightarrow> (Inl e, fs)
      | Inr selected \<Rightarrow>
          if ld_mode selected = ''off'' then (Inr (selected, None), fs)
          else case write_learning_decision rt env 0 config selected fs of
            (Inr path, fs') \<Rightarrow> (Inr (selected, Some path), fs')
          | (Inl e, fs') \<Rightarrow>
              (if \<not> is_os_error e then (Inl e, fs')
               else if ld_chosen_arm selected = BASELINE_ARM then (Inr (selected, None), fs')
               else let fallback = baseline_fallback env selected ''decision_log_failure'' in
                 case write_learning_decision rt env 1 config fallback fs' of
                   (Inr path, fs'') \<Rightarrow> (Inr (fallback, Some path), fs'')
                 | (Inl e, fs'') \<Rightarrow>
                     (if is_os_error e then (Inr (fallback, None), fs'') else (Inl e, fs''))))"

definition write_learning_observation ::
  "runtime \<Rightarrow> learning_env \<Rightarrow> json dict \<Rightarrow> string \<Rightarrow> rat \<Rightarrow> int \<Rightarrow> int \<Rightarrow> rat \<Rightarrow> string \<Rightarrow> learning_fs
     \<Rightarrow> string result \<times> learning_fs" where
  "write_learning_observation rt env config decision_id elapsed_ms used_chars fallback_count
     sufficiency_score evidence_state fs =
     (let payload =
        [(''decision_id'', JStr decision_id),
         (''observed_at'', JStr (le_clock env 0)),
         (''elapsed_ms'', JFloat (Fin (round_to 4 (max 0 elapsed_ms)))),
         (''used_chars'', JInt (max 0 used_chars)),
         (''fallback_count'', JInt (max 0 fallback_count)),
         (''sufficiency_score'', JFloat (Fin (round_to 6 (clamp01 sufficiency_score)))),
         (''evidence_state'', JStr evidence_state)]
      in case record_path decision_id of
        Inl e \<Rightarrow> (Inl e, fs)
      | Inr name \<Rightarrow>
          (case atomic_create_json (le_publish env 0) name (JDict payload) (lf_observations fs) of
             (Inl e, dir) \<Rightarrow> (Inl e, fs\<lparr>lf_observations := dir\<rparr>)
           | (Inr _, dir) \<Rightarrow> mirror_into rt env 0 config ''observation'' payload name (fs\<lparr>lf_observations := dir\<rparr>)))"

definition verification_delay :: "learning_env \<Rightarrow> string \<Rightarrow> string \<Rightarrow> rat option" where
  "verification_delay env created_at recorded_at =
     (if created_at = [] then None
      else case (le_parse_time env created_at, le_parse_time env recorded_at) of
        (Some (c, True), Some (r, True)) \<Rightarrow> Some (max 0 (r - c))
      | _ \<Rightarrow> None)"

definition outcome_payload ::
  "learning_env \<Rightarrow> string \<Rightarrow> bool \<Rightarrow> verified_outcome_evidence \<Rightarrow> string \<Rightarrow> json dict \<Rightarrow> json dict" where
  "outcome_payload env decision_id success ev created_at metadata =
     (let recorded_at = le_clock env 0 in
     [(''decision_id'', JStr decision_id),
      (''verified'', JBool True),
      (''success'', JBool success),
      (''reward'', JFloat (Fin (vo_reward ev))),
      (''realized_cost'', JFloat (Fin (vo_realized_cost ev))),
      (''source'', JStr (vo_source ev)),
      (''verifier_identity'', JStr (vo_verifier_identity ev)),
      (''evidence_digest'', JStr (vo_evidence_digest ev)),
      (''recorded_at'', JStr recorded_at),
      (''decision_created_at'', if created_at = [] then JNull else JStr created_at),
      (''verification_delay_seconds'', case verification_delay env created_at recorded_at of
         Some s \<Rightarrow> JFloat (Fin (round_to 6 s)) | None \<Rightarrow> JNull),
      (''metadata'', JDict metadata)])"

text \<open>Everything \<open>record_verified_outcome\<close> does before it writes: the file name and the payload.\<close>

definition outcome_record ::
  "runtime \<Rightarrow> learning_env \<Rightarrow> string \<Rightarrow> bool \<Rightarrow> string \<Rightarrow> string \<Rightarrow> string \<Rightarrow> pyfloat option
     \<Rightarrow> pyfloat \<Rightarrow> json dict \<Rightarrow> learning_fs \<Rightarrow> (string \<times> json dict) result" where
  "outcome_record rt env decision_id success source verifier_identity evidence_digest
     reward realized_cost metadata fs =
     rbind (record_path decision_id) (\<lambda>name.
     rbind (case find_file (lf_decisions fs) name of
         None \<Rightarrow> Inl (ValueError ''unknown learning decision'')
       | Some Garbled \<Rightarrow> Inl (ValueError ''learning decision is unreadable'')
       | Some (Holds (JDict d)) \<Rightarrow> Inr d
       | Some (Holds _) \<Rightarrow> Inl (ValueError ''learning decision is invalid'')) (\<lambda>decision_record.
     rbind (validate_verified_outcome (le_trusted_env env) source verifier_identity evidence_digest
         (case reward of None \<Rightarrow> Fin (if success then 1 else 0) | Some r \<Rightarrow> r) realized_cost) (\<lambda>evidence.
     let created_at = strip (py_str rt (jget_or decision_record ''created_at'' (JStr []))) in
     Inr (name, outcome_payload env decision_id success evidence created_at metadata))))"

definition record_verified_outcome ::
  "runtime \<Rightarrow> learning_env \<Rightarrow> json dict \<Rightarrow> string \<Rightarrow> bool \<Rightarrow> string \<Rightarrow> string \<Rightarrow> string \<Rightarrow> pyfloat option
     \<Rightarrow> pyfloat \<Rightarrow> json dict \<Rightarrow> learning_fs \<Rightarrow> string result \<times> learning_fs" where
  "record_verified_outcome rt env config decision_id success source verifier_identity evidence_digest
     reward realized_cost metadata fs =
     (case outcome_record rt env decision_id success source verifier_identity evidence_digest
         reward realized_cost metadata fs of
        Inl e \<Rightarrow> (Inl e, fs)
      | Inr (name, payload) \<Rightarrow>
          (case atomic_create_json (le_publish env 0) name (JDict payload) (lf_outcomes fs) of
             (Inl e, dir) \<Rightarrow> (Inl e, fs\<lparr>lf_outcomes := dir\<rparr>)
           | (Inr _, dir) \<Rightarrow> mirror_into rt env 0 config ''outcome'' payload name (fs\<lparr>lf_outcomes := dir\<rparr>)))"

section \<open>Reading back\<close>

definition add_record :: "runtime \<Rightarrow> string \<times> file_body \<Rightarrow> json dict dict \<Rightarrow> json dict dict" where
  "add_record rt f records = (case load_json (snd f) of
     None \<Rightarrow> records
   | Some value \<Rightarrow>
       (let decision_id = strip (py_str rt (jget_or value ''decision_id'' (JStr []))) in
        if decision_id \<noteq> [] then dset records decision_id value else records))"

definition read_records :: "runtime \<Rightarrow> directory \<Rightarrow> json dict dict" where
  "read_records rt d = fold (add_record rt) (dsort d) []"

definition opt_json :: "json dict option \<Rightarrow> json" where
  "opt_json v = (case v of None \<Rightarrow> JNull | Some d \<Rightarrow> JDict d)"

definition load_learning_records :: "runtime \<Rightarrow> learning_fs \<Rightarrow> json dict list" where
  "load_learning_records rt fs =
     (let decisions = read_records rt (lf_decisions fs);
          observations = read_records rt (lf_observations fs);
          outcomes = read_records rt (lf_outcomes fs)
      in map (\<lambda>(decision_id, decision). dset (dset decision
           ''observation'' (opt_json (dget observations decision_id)))
           ''outcome'' (opt_json (dget outcomes decision_id))) (dsort decisions))"

record learning_status_report =
  ls_mode :: string
  ls_kill_switch :: bool
  ls_decisions :: nat
  ls_current_features :: nat
  ls_observations :: nat
  ls_verified_outcomes :: nat

definition learning_status :: "runtime \<Rightarrow> learning_env \<Rightarrow> json dict \<Rightarrow> learning_fs \<Rightarrow> learning_status_report" where
  "learning_status rt env config fs =
     (let rows = load_learning_records rt fs in
      \<lparr>ls_mode = learning_mode rt config, ls_kill_switch = learning_kill_switch (le_kill_env env) config,
       ls_decisions = length rows,
       ls_current_features = length (filter (\<lambda>r. jget r ''feature_schema_version'' = JStr FEATURE_SCHEMA_VERSION) rows),
       ls_observations = length (filter (\<lambda>r. is_dict (jget r ''observation'')) rows),
       ls_verified_outcomes = length (filter (\<lambda>r. is_dict (jget r ''outcome'')) rows)\<rparr>)"

section \<open>Applying an arm\<close>

text \<open>\<open>d.setdefault(k, {})\<close> used as a dictionary; \<open>e\<close> is what its use on anything else raises.\<close>

definition sub_dict :: "py_error \<Rightarrow> json dict \<Rightarrow> string \<Rightarrow> json dict result" where
  "sub_dict e d k = (case dget d k of
     None \<Rightarrow> Inr [] | Some (JDict x) \<Rightarrow> Inr x | Some _ \<Rightarrow> Inl e)"

text \<open>The value of the last segment after \<open>_\<close>, as \<open>int(arm.rsplit("_", 1)[1])\<close>.\<close>

definition last_segment :: "string \<Rightarrow> string" where
  "last_segment s = last (split_on (CHR ''_'') s)"

definition arm_experiments :: "string \<Rightarrow> json dict \<Rightarrow> json dict result" where
  "arm_experiments arm ex =
     (if arm = ''source_rank'' then Inr (dset ex ''hybrid_ranker'' (JStr ''source''))
      else if arm = ''bm25_rank'' then Inr (dset ex ''hybrid_ranker'' (JStr ''bm25''))
      else if arm = ''rrf_only'' then Inr (dset ex ''hybrid_ranker'' (JStr ''rrf''))
      else if starts_with arm ''rrf_mmr_'' then
        (case parse_int (last_segment arm) of
           Some n \<Rightarrow> Inr (dset (dset ex ''hybrid_ranker'' (JStr ''rrf_mmr''))
             ''mmr_lambda'' (JFloat (Fin (of_int n / 100))))
         | None \<Rightarrow> Inl (ValueError ''invalid literal for int() with base 10''))
      else Inr ex)"

definition apply_learning_arm :: "json dict \<Rightarrow> string \<Rightarrow> json dict result" where
  "apply_learning_arm config arm =
     (if arm \<notin> set SAFE_EXPLORATION_ARMS then Inl (ValueError ''unsafe or unknown retrieval arm'')
      else if arm = BASELINE_ARM then Inr config
      else rbind (sub_dict (AttributeError ''object has no attribute setdefault'') config ''context'') (\<lambda>context.
        rbind (sub_dict (TypeError ''object does not support item assignment'') context ''experiments'') (\<lambda>experiments.
        rbind (arm_experiments arm experiments) (\<lambda>ex.
          Inr (dset config ''context'' (JDict (dset context ''experiments'' (JDict ex))))))))"

end
