(* ===== verification/Incident.thy ===== *)
theory Incident
  imports Signing Learning DeploymentState
begin

text \<open>
  \<open>deployment_incident.py\<close>: the signed bundle that documents an automatic rollback, its
  verification, and its exclusive creation on disk.
\<close>

definition INCIDENT_SCHEMA_VERSION :: string where
  "INCIDENT_SCHEMA_VERSION = ''ai-workflow-deployment-incident-v1''"

definition incident_errors :: "runtime \<Rightarrow> json dict \<Rightarrow> string \<Rightarrow> string list result" where
  "incident_errors rt payload signing_key =
     rbind (incident_signature_errors rt payload signing_key) (\<lambda>es. Inr
       (err_if (\<not> py_eq (jget payload ''schema_version'') (JStr INCIDENT_SCHEMA_VERSION)) ''schema_version_mismatch'' @ es))"

definition verify_incident_bundle :: "runtime \<Rightarrow> json dict \<Rightarrow> string \<Rightarrow> json dict result" where
  "verify_incident_bundle rt payload signing_key =
     rbind (incident_errors rt payload signing_key) (\<lambda>errors. Inr
       [(''valid'', JBool (errors = [])),
        (''errors'', JList (map JStr errors)),
        (''incident_id'', jget payload ''incident_id''),
        (''policy_id'', jget payload ''policy_id'')])"

section \<open>The evidence summary\<close>

definition of_policy :: "string \<Rightarrow> json dict \<Rightarrow> bool" where
  "of_policy policy_id row = (case jget row ''deployment'' of
     JDict dep \<Rightarrow> jget dep ''policy_id'' = JStr policy_id | _ \<Rightarrow> False)"

record summary =
  su_assignments :: "int dict"
  su_verified :: nat
  su_failures :: nat
  su_sources :: "int dict"
  su_decisions :: "string list"

definition summarise_row :: "runtime \<Rightarrow> json dict \<Rightarrow> summary \<Rightarrow> summary" where
  "summarise_row rt row s =
     (let s = (case jget row ''deployment'' of
            JDict dep \<Rightarrow> s\<lparr>su_assignments := bump (su_assignments s)
                (py_str rt (jget_or dep ''assignment'' (JStr ''unknown'')))\<rparr>
          | _ \<Rightarrow> s);
          decision_id = strip (py_str rt (jget_or row ''decision_id'' (JStr [])));
          s = (if decision_id \<noteq> [] then s\<lparr>su_decisions := su_decisions s @ [decision_id]\<rparr> else s)
      in case jget row ''outcome'' of
           JDict out \<Rightarrow>
             (if truthy (jget out ''verified'') then
                let source = strip (py_str rt (jget_or out ''source'' (JStr [])));
                    s = s\<lparr>su_verified := su_verified s + 1,
                          su_failures := su_failures s + (if truthy (jget out ''success'') then 0 else 1)\<rparr>
                in if source \<noteq> [] then s\<lparr>su_sources := bump (su_sources s) source\<rparr> else s
              else s)
         | _ \<Rightarrow> s)"

definition evidence_summary :: "runtime \<Rightarrow> json dict list \<Rightarrow> string \<Rightarrow> int \<Rightarrow> json dict" where
  "evidence_summary rt records policy_id limit =
     (let rows = last_n (nat (max 1 limit)) (filter (of_policy policy_id) records);
          s = fold (summarise_row rt) rows
            \<lparr>su_assignments = [], su_verified = 0, su_failures = 0, su_sources = [], su_decisions = []\<rparr>
      in [(''rows'', JInt (int (length rows))),
          (''assignments'', JDict (map (map_prod id JInt) (dsort (su_assignments s)))),
          (''verified_outcomes'', JInt (int (su_verified s))),
          (''verified_failures'', JInt (int (su_failures s))),
          (''outcome_sources'', JDict (map (map_prod id JInt) (dsort (su_sources s)))),
          (''recent_decision_ids'', JList (map JStr (last_n 50 (su_decisions s)))),
          (''raw_task_text_included'', JBool False),
          (''repository_content_included'', JBool False)])"

section \<open>Creation\<close>

definition history_tail :: "json dict \<Rightarrow> json" where
  "history_tail state = (case jget state ''history'' of
     JList h \<Rightarrow> if h = [] then JNull else last h | _ \<Rightarrow> JNull)"

definition incident_identity ::
  "runtime \<Rightarrow> string \<Rightarrow> string \<Rightarrow> json \<Rightarrow> string \<Rightarrow> json dict \<Rightarrow> json dict \<Rightarrow> string" where
  "incident_identity rt created_at policy_id generation reason state report =
     take 24 (sha256_json rt (JDict
       [(''created_at'', JStr created_at),
        (''policy_id'', JStr policy_id),
        (''generation'', generation),
        (''reason'', JStr reason),
        (''state_sha256'', JStr (sha256_json rt (JDict state))),
        (''guardrail_sha256'', JStr (sha256_json rt (JDict report)))]))"

definition incident_body ::
  "runtime \<Rightarrow> string \<Rightarrow> json dict list \<Rightarrow> string \<Rightarrow> string \<Rightarrow> json dict \<Rightarrow> json dict \<Rightarrow> json dict" where
  "incident_body rt created_at records policy_id reason state report =
     [(''schema_version'', JStr INCIDENT_SCHEMA_VERSION),
      (''incident_id'', JStr (incident_identity rt created_at policy_id (jget state ''generation'') reason state report)),
      (''created_at'', JStr created_at),
      (''policy_id'', JStr policy_id),
      (''state_generation'', jget state ''generation''),
      (''stage'', jget state ''stage''),
      (''reason'', JStr reason),
      (''deployment_state_sha256'', JStr (sha256_json rt (JDict state))),
      (''guardrail_report_sha256'', JStr (sha256_json rt (JDict report))),
      (''state_history_tail'', history_tail state),
      (''guardrail_gate'', JDict (case jget report ''gate'' of JDict g \<Rightarrow> g | _ \<Rightarrow> [])),
      (''evidence_summary'', JDict (evidence_summary rt records policy_id 200)),
      (''privacy'', JDict [(''raw_task_text'', JBool False), (''repository_content'', JBool False),
         (''environment_variables'', JBool False), (''signing_key'', JBool False)])]"

definition create_incident_bundle ::
  "runtime \<Rightarrow> string \<Rightarrow> json dict list \<Rightarrow> json dict \<Rightarrow> json dict \<Rightarrow> string \<Rightarrow> string \<Rightarrow> json dict result" where
  "create_incident_bundle rt now records state report signing_key reason =
     (let policy_id = strip (py_str rt (jget_or state ''policy_id'' (JStr []))) in
      guard_that (policy_id \<noteq> []) (ValueError ''deployment state is missing policy_id'')
      (let text = (if strip reason \<noteq> [] then strip reason else ''deployment rollback'')
       in sign_incident rt (incident_body rt now records policy_id text state report) signing_key))"

section \<open>Writing\<close>

text \<open>\<open>os.open(path, O_WRONLY | O_CREAT | O_EXCL)\<close>, then the write: an interrupted one leaves the
  name taken by an unfinished file.\<close>

definition create_exclusive ::
  "publish_outcome \<Rightarrow> string \<Rightarrow> json \<Rightarrow> directory \<Rightarrow> unit result \<times> directory" where
  "create_exclusive out name v d =
     (if dget d name \<noteq> None then (Inl (FileExistsError name), d)
      else case out of
        WriteFails \<Rightarrow> (Inl (OSError ''open''), d)
      | SyncFails \<Rightarrow> (Inl (OSError ''write''), d @ [(name, Garbled)])
      | Durable \<Rightarrow> (Inr (), d @ [(name, Holds (sort_keys v))]))"

interpretation exclusive_files: write_once create_exclusive find_file "\<lambda>v. Holds (sort_keys v)"
  by unfold_locales
    (auto simp: create_exclusive_def find_file_def dget_append dget_Cons
      split: option.splits if_splits publish_outcome.splits)

definition write_incident_bundle ::
  "runtime \<Rightarrow> publish_outcome \<Rightarrow> json dict \<Rightarrow> string \<Rightarrow> directory \<Rightarrow> string result \<times> directory" where
  "write_incident_bundle rt out payload signing_key d =
     (case verify_incident_bundle rt payload signing_key of
        Inl e \<Rightarrow> (Inl e, d)
      | Inr verification \<Rightarrow>
          if \<not> truthy (jget verification ''valid'')
          then (Inl (ValueError ''refusing to write invalid incident bundle''), d)
          else let incident_id = strip (py_str rt (jget_or payload ''incident_id'' (JStr []))) in
            if incident_id = [] then (Inl (ValueError ''incident bundle is missing incident_id''), d)
            else case create_exclusive out (incident_id @ ''.json'') (JDict payload) d of
              (r, d') \<Rightarrow> (rbind r (\<lambda>_. Inr (incident_id @ ''.json'')), d'))"

end
