(* ===== verification/DeploymentRuntime.thy ===== *)
theory DeploymentRuntime
  imports DeploymentStore Guardrails Incident
begin

text \<open>
  \<open>deployment_runtime.py\<close>: the assignment of one task to the candidate or the control arm of the
  active deployment, with the automatic rollback the live guardrails may ask for.  Every refusal
  falls back to the baseline arm.
\<close>

section \<open>Configuration and environment\<close>

definition deployment_config :: "json dict \<Rightarrow> json dict" where
  "deployment_config config = section_of config ''deployment''"

definition deployment_enabled :: "json dict \<Rightarrow> bool" where
  "deployment_enabled config = truthy (jget_or (deployment_config config) ''enabled'' (JBool False))"

record runtime_env =
  re_process :: process_env
  re_getenv :: "string \<Rightarrow> string"
  re_nonce :: string
  re_now :: string
  re_publish :: publish_outcome
  re_db :: "nat \<Rightarrow> db_outcome"
  re_inside_root :: "string \<Rightarrow> bool"
  re_radius :: "rat \<Rightarrow> rat \<Rightarrow> nat \<Rightarrow> rat"
  re_draw :: "int \<Rightarrow> nat \<Rightarrow> nat"

record runtime_fs =
  rf_deployment :: deployment_fs
  rf_learning :: learning_fs
  rf_incidents :: directory

definition state_path :: "runtime \<Rightarrow> runtime_env \<Rightarrow> json dict \<Rightarrow> string result" where
  "state_path rt env config =
     (let raw = strip (py_str rt (jget_or (deployment_config config) ''state_path''
                  (JStr ''ai-workspace/generated/learning/deployment/active.json''))) in
      guard_that (\<not> starts_with raw ''/'') (ValueError ''context.deployment.state_path must be relative'')
      (guard_that (re_inside_root env raw)
        (ValueError ''context.deployment.state_path must stay inside project root'')
      (Inr raw)))"

definition signing_key_of :: "runtime \<Rightarrow> runtime_env \<Rightarrow> json dict \<Rightarrow> string" where
  "signing_key_of rt env config =
     (let env_name = strip (py_str rt (jget_or (deployment_config config) ''signing_key_env''
                       (JStr ''AI_WORKFLOW_POLICY_SIGNING_KEY''))) in
      if env_name = [] then [] else utf8 (re_getenv env env_name))"

section \<open>Assignments\<close>

definition baseline_assignment ::
  "string \<Rightarrow> json dict \<Rightarrow> string option \<Rightarrow> string option \<Rightarrow> json dict" where
  "baseline_assignment reason state context target_arm =
     [(''chosen_arm'', JStr BASELINE_ARM),
      (''arm_propensities'', JDict [(BASELINE_ARM, JFloat (Fin 1))]),
      (''mode'', JStr ''canary''),
      (''safety_reason'', JStr reason),
      (''deployment'', JDict
         [(''assignment'', JStr ''baseline''),
          (''reason'', JStr reason),
          (''policy_id'', jget state ''policy_id''),
          (''state_generation'', jget state ''generation''),
          (''stage'', jget state ''stage''),
          (''traffic_fraction'', if state \<noteq> [] then jget state ''traffic_fraction'' else JFloat (Fin 0)),
          (''candidate_probability'', JFloat (Fin 0)),
          (''chosen_probability'', JFloat (Fin 1)),
          (''target_arm'', JStr (case target_arm of Some t \<Rightarrow> if t \<noteq> [] then t else BASELINE_ARM | None \<Rightarrow> BASELINE_ARM)),
          (''context_key'', case context of Some k \<Rightarrow> JStr k | None \<Rightarrow> JNull),
          (''source'', JStr ''stage7_deployment'')])]"

text \<open>\<open>int.from_bytes(bs, "big")\<close>\<close>

definition from_bytes :: "string \<Rightarrow> nat" where
  "from_bytes bs = fold (\<lambda>c n. n * 256 + code c) bs 0"

definition assignment_fraction :: "runtime \<Rightarrow> runtime_env \<Rightarrow> string \<Rightarrow> string \<Rightarrow> rat" where
  "assignment_fraction rt env signing_key policy_id =
     (let digest = rt_hmac rt signing_key (utf8 (policy_id @ '':'' @ re_nonce env)) in
      rat_of_nat (from_bytes (take 8 digest)) / 2 ^ 64)"

definition target_arm :: "runtime \<Rightarrow> json dict \<Rightarrow> json dict \<Rightarrow> string \<times> string option" where
  "target_arm rt state features =
     (case jget state ''policy_manifest'' of
        JDict manifest \<Rightarrow>
          (case (jget manifest ''context_fields'', jget manifest ''policy'') of
             (JList fields_raw, JDict policy) \<Rightarrow>
               (case context_key rt (JDict features) (map (\<lambda>f. JStr (py_str rt f)) fields_raw) of
                  Inl _ \<Rightarrow> (BASELINE_ARM, None)
                | Inr key \<Rightarrow>
                    (let arm = strip (py_str rt (jget_or policy key (JStr BASELINE_ARM))) in
                     if arm \<notin> set SAFE_EXPLORATION_ARMS then (BASELINE_ARM, Some key) else (arm, Some key)))
           | _ \<Rightarrow> (BASELINE_ARM, None))
      | _ \<Rightarrow> (BASELINE_ARM, None))"

section \<open>Automatic rollback\<close>

text \<open>\<open>except (OSError, RuntimeError, ValueError)\<close>\<close>

definition rollback_catches :: "py_error \<Rightarrow> bool" where
  "rollback_catches e = (is_os_error e \<or> is_runtime_error e \<or> is_value_error e)"

definition rollback_reason :: "runtime \<Rightarrow> json dict \<Rightarrow> string" where
  "rollback_reason rt gate = (case jget gate ''rollback_blockers'' of
     JList bs \<Rightarrow> if bs \<noteq> [] then join '', '' (map (py_str rt) bs) else ''live deployment guardrail failure''
   | _ \<Rightarrow> ''live deployment guardrail failure'')"

text \<open>\<open>mirror_learning_event\<close> on the runtime's files.\<close>

definition mirror_runtime ::
  "runtime \<Rightarrow> runtime_env \<Rightarrow> nat \<Rightarrow> json dict \<Rightarrow> string \<Rightarrow> json dict \<Rightarrow> runtime_fs
     \<Rightarrow> mirror_result result \<times> runtime_fs" where
  "mirror_runtime rt env n config kind payload fs =
     (case mirror_learning_event rt (re_now env) (re_db env n) (re_inside_root env) config kind payload
         (lf_stores (rf_learning fs)) of
        (r, ss) \<Rightarrow> (r, fs\<lparr>rf_learning := (rf_learning fs)\<lparr>lf_stores := ss\<rparr>\<rparr>))"

text \<open>The bundle of a rollback: created, written, mirrored; the result is its path, \<open>None\<close> after
  a caught failure.\<close>

definition incident_of_rollback ::
  "runtime \<Rightarrow> runtime_env \<Rightarrow> json dict \<Rightarrow> json dict \<Rightarrow> json dict \<Rightarrow> string \<Rightarrow> string \<Rightarrow> runtime_fs
     \<Rightarrow> string option result \<times> runtime_fs" where
  "incident_of_rollback rt env config rolled_back report signing_key reason fs =
     (let body =
        (case create_incident_bundle rt (re_now env) (load_learning_records rt (rf_learning fs)) rolled_back
            report signing_key reason of
           Inl e \<Rightarrow> (Inl e, fs)
         | Inr incident \<Rightarrow>
             (case write_incident_bundle rt (re_publish env) incident signing_key (rf_incidents fs) of
                (Inl e, d) \<Rightarrow> (Inl e, fs\<lparr>rf_incidents := d\<rparr>)
              | (Inr path, d) \<Rightarrow>
                  (case mirror_runtime rt env 1 config ''deployment_incident'' incident (fs\<lparr>rf_incidents := d\<rparr>) of
                     (Inl e, fs') \<Rightarrow> (Inl e, fs') | (Inr _, fs') \<Rightarrow> (Inr (Some path), fs'))))
      in case body of
           (Inl e, fs') \<Rightarrow> (if rollback_catches e then Inr None else Inl e, fs')
         | (Inr path, fs') \<Rightarrow> (Inr path, fs'))"

text \<open>The body of the outer \<open>try\<close>: the transition on disk, its mirror, the incident.\<close>

definition perform_rollback ::
  "runtime \<Rightarrow> runtime_env \<Rightarrow> json dict \<Rightarrow> json dict \<Rightarrow> json dict \<Rightarrow> string \<Rightarrow> string \<Rightarrow> runtime_fs
     \<Rightarrow> json dict result \<times> runtime_fs" where
  "perform_rollback rt env config state report signing_key reason fs =
     (case to_int (jget state ''generation'') of
        Inl e \<Rightarrow> (Inl e, fs)
      | Inr generation \<Rightarrow>
          (case update_deployment_state_file rt (re_process env) signing_key ''rolled_back''
              ''runtime:auto-rollback'' (Some generation) JNull (Some reason) (rf_deployment fs) of
             (Inl e, d) \<Rightarrow> (Inl e, fs\<lparr>rf_deployment := d\<rparr>)
           | (Inr rolled_back, d) \<Rightarrow>
               (case mirror_runtime rt env 0 config ''deployment_state'' rolled_back (fs\<lparr>rf_deployment := d\<rparr>) of
                  (Inl e, fs') \<Rightarrow> (Inl e, fs')
                | (Inr _, fs') \<Rightarrow>
                    (if truthy (jget_or (deployment_config config) ''incident_bundles'' (JBool True)) then
                       (case incident_of_rollback rt env config rolled_back report signing_key reason fs' of
                          (r, fs'') \<Rightarrow> (rbind r (\<lambda>_. Inr rolled_back), fs''))
                     else (Inr rolled_back, fs')))))"

text \<open>The state to go on with, and whether a report asks for a rollback.\<close>

definition auto_rollback ::
  "runtime \<Rightarrow> runtime_env \<Rightarrow> json dict \<Rightarrow> json dict \<Rightarrow> string \<Rightarrow> runtime_fs
     \<Rightarrow> (json dict \<times> json dict option) result \<times> runtime_fs" where
  "auto_rollback rt env config state signing_key fs =
     (case in_frozenset (jget state ''stage'') LIVE_STAGES of
        Inl e \<Rightarrow> (Inl e, fs)
      | Inr live \<Rightarrow>
          if \<not> live \<or> \<not> truthy (jget_or (deployment_config config) ''auto_rollback'' (JBool True))
          then (Inr (state, None), fs)
          else case evaluate_live_guardrails rt (re_radius env) (re_draw env)
              (load_learning_records rt (rf_learning fs)) state signing_key of
            Inl e \<Rightarrow> (Inl e, fs)
          | Inr report \<Rightarrow>
              (case jget report ''gate'' of
                 JDict gate \<Rightarrow>
                   (if \<not> truthy (jget gate ''rollback_required'') then (Inr (state, Some report), fs)
                    else case perform_rollback rt env config state report signing_key
                        (rollback_reason rt gate) fs of
                      (Inr rolled_back, fs') \<Rightarrow> (Inr (rolled_back, Some report), fs')
                    | (Inl e, fs') \<Rightarrow>
                        (if rollback_catches e then Inr (state, Some report) else Inl e, fs'))
               | _ \<Rightarrow> (Inr (state, Some report), fs)))"

section \<open>Resolution\<close>

definition wants_rollback :: "json dict option \<Rightarrow> bool" where
  "wants_rollback report = (case report of
     Some r \<Rightarrow> (case jget r ''gate'' of JDict g \<Rightarrow> truthy (jget g ''rollback_required'') | _ \<Rightarrow> False)
   | None \<Rightarrow> False)"

definition canary_assignment ::
  "runtime \<Rightarrow> runtime_env \<Rightarrow> json dict \<Rightarrow> string \<Rightarrow> string \<Rightarrow> string option \<Rightarrow> rat \<Rightarrow> int \<Rightarrow> json dict" where
  "canary_assignment rt env state signing_key target key probability generation =
     (let bucket = assignment_fraction rt env signing_key (py_str rt (jget_or state ''policy_id'' (JStr [])));
          candidate = (bucket < probability)
      in [(''chosen_arm'', JStr (if candidate then target else BASELINE_ARM)),
          (''arm_propensities'', JDict
             [(BASELINE_ARM, JFloat (Fin (round_to 12 (1 - probability)))),
              (target, JFloat (Fin (round_to 12 probability)))]),
          (''mode'', JStr ''canary''),
          (''safety_reason'', JStr (if candidate then ''deployment_candidate'' else ''deployment_control'')),
          (''deployment'', JDict
             [(''assignment'', JStr (if candidate then ''candidate'' else ''control'')),
              (''reason'', JStr ''signed_canary_assignment''),
              (''policy_id'', jget state ''policy_id''),
              (''state_generation'', JInt generation),
              (''stage'', jget state ''stage''),
              (''traffic_fraction'', JFloat (Fin probability)),
              (''candidate_probability'', JFloat (Fin probability)),
              (''chosen_probability'', JFloat (Fin (if candidate then probability else 1 - probability))),
              (''target_arm'', JStr target),
              (''context_key'', case key of Some k \<Rightarrow> JStr k | None \<Rightarrow> JNull),
              (''assignment_bucket'', JFloat (Fin (round_to 12 bucket))),
              (''assignment_nonce'', JStr (re_nonce env)),
              (''source'', JStr ''stage7_deployment'')])])"

text \<open>The part of \<open>resolve_runtime_deployment\<close> after the automatic rollback.\<close>

definition assign_live ::
  "runtime \<Rightarrow> runtime_env \<Rightarrow> string \<Rightarrow> route_decision \<Rightarrow> string \<Rightarrow> int \<Rightarrow> int \<Rightarrow> string \<Rightarrow> json dict
     \<Rightarrow> json dict result" where
  "assign_live rt env query decision intent changed roots signing_key state =
     rbind (in_frozenset (jget state ''stage'') LIVE_STAGES) (\<lambda>live.
     if \<not> live then Inr (baseline_assignment (''deployment_stage_'' @ py_str rt (jget state ''stage'')) state None None)
     else if rd_risk decision \<noteq> Low then Inr (baseline_assignment ''deployment_risk_locked'' state None None)
     else let features = build_context_features query decision intent changed roots;
              (target, key) = target_arm rt state features
       in if target = BASELINE_ARM
          then Inr (baseline_assignment ''deployment_baseline_context'' state key (Some target))
          else rbind (to_float rt (jget_or state ''traffic_fraction'' (JFloat (Fin 0)))) (\<lambda>x. case x of
              Fin p \<Rightarrow> if in_unit p
                then rbind (to_int (jget state ''generation'')) (\<lambda>generation.
                  Inr (canary_assignment rt env state signing_key target key p generation))
                else Inr (baseline_assignment ''deployment_traffic_fraction_invalid'' state key (Some target))
            | _ \<Rightarrow> Inr (baseline_assignment ''deployment_traffic_fraction_invalid'' state key (Some target))))"

text \<open>\<open>None\<close> when deployments are disabled.\<close>

definition resolve_runtime_deployment ::
  "runtime \<Rightarrow> runtime_env \<Rightarrow> string \<Rightarrow> route_decision \<Rightarrow> string \<Rightarrow> json dict \<Rightarrow> int \<Rightarrow> int \<Rightarrow> runtime_fs
     \<Rightarrow> json dict option result \<times> runtime_fs" where
  "resolve_runtime_deployment rt env query decision intent config changed roots fs =
     (let base = (\<lambda>reason state. (Inr (Some (baseline_assignment reason state None None)), fs)) in
      if \<not> deployment_enabled config then (Inr None, fs)
      else if learning_kill_switch (re_getenv env ''AI_WORKFLOW_LEARNING_KILL_SWITCH'') config
      then base ''deployment_global_kill_switch'' []
      else case state_path rt env config of
        Inl _ \<Rightarrow> base ''deployment_state_path_invalid'' []
      | Inr _ \<Rightarrow>
          (let signing_key = signing_key_of rt env config in
           if signing_key = [] then base ''deployment_signing_key_missing'' []
           else case load_deployment_state (rf_deployment fs) of
             Inl _ \<Rightarrow> base ''deployment_state_unavailable'' []
           | Inr state \<Rightarrow>
               (case state_valid rt state signing_key of
                  Inl e \<Rightarrow> (Inl e, fs)
                | Inr False \<Rightarrow> base ''deployment_state_verification_failed'' state
                | Inr True \<Rightarrow>
                    (case auto_rollback rt env config state signing_key fs of
                       (Inl e, fs') \<Rightarrow> (Inl e, fs')
                     | (Inr (state', report), fs') \<Rightarrow>
                         (if wants_rollback report
                          then (Inr (Some (baseline_assignment ''deployment_auto_rollback'' state' None None)), fs')
                          else (rbind (assign_live rt env query decision intent changed roots signing_key state')
                                 (\<lambda>a. Inr (Some a)), fs'))))))"

end
