(* ===== verification/GuardrailProps.thy ===== *)
theory GuardrailProps
  imports Guardrails
begin

text \<open>
  What the guardrail report certifies: the values given to the confidence sequence stay within
  the bound it assumes, every row is accounted for, the drift measures are proportions, and a
  passing gate means the evidence is there.
\<close>

section \<open>Scores\<close>

lemma weighted_reward_bound:
  fixes a b r w m :: rat
  assumes "a \<le> r" "r \<le> b" "0 < w" "w \<le> m"
  shows "\<bar>w * r\<bar> \<le> m * max \<bar>a\<bar> \<bar>b\<bar>"
proof -
  have r: "\<bar>r\<bar> \<le> max \<bar>a\<bar> \<bar>b\<bar>" using assms(1,2) by (auto simp: abs_le_iff le_max_iff_disj abs_if)
  have "\<bar>w * r\<bar> = w * \<bar>r\<bar>" using assms(3) by (simp add: abs_mult)
  also have "\<dots> \<le> m * max \<bar>a\<bar> \<bar>b\<bar>" using r assms(3,4) by (intro mult_mono) auto
  finally show ?thesis .
qed

lemma score_row_bound:
  assumes "score_row rt (Fin a) (Fin b) (Fin m) row = Inr (Score x)"
  shows "\<bar>x\<bar> \<le> m * max \<bar>a\<bar> \<bar>b\<bar>"
proof -
  obtain dep out where do: "row_deployment row = Some dep" "verified_outcome row = Some out"
    using assms by (auto simp: score_row_def split: option.splits)
  define asg where "asg = py_str rt (jget_or dep ''assignment'' (JStr []))"
  have eq: "score_row rt (Fin a) (Fin b) (Fin m) row =
      (if asg \<notin> {''candidate'', ''control''} then Inr Skipped
       else rbind (number (jget dep ''candidate_probability'')) (\<lambda>probability. case probability of
           None \<Rightarrow> Inr BadProbability
         | Some p \<Rightarrow> if \<not> in_unit p then Inr BadProbability
             else rbind (number (jget out ''reward'')) (\<lambda>reward. Inr (case reward of
                 None \<Rightarrow> BadOutcome
               | Some r \<Rightarrow> if r < a \<or> b < r then BadReward
                   else if m < (if asg = ''candidate'' then 1 / p else 1 / (1 - p)) then BadWeight
                   else Score (if asg = ''candidate'' then (1 / p) * r else - (1 / (1 - p)) * r)))))"
    by (simp add: score_row_def do asg_def Let_def cong: if_cong option.case_cong)
  obtain pr where pr: "number (jget dep ''candidate_probability'') = Inr pr"
    using assms unfolding eq by (auto simp: rbind_Inr_iff split: if_splits)
  obtain p where p: "pr = Some p" "in_unit p"
    using assms unfolding eq pr by (cases pr) (auto split: if_splits)
  obtain re where re: "number (jget out ''reward'') = Inr re"
    using assms unfolding eq pr by (auto simp: p rbind_Inr_iff split: if_splits)
  obtain r where r: "re = Some r"
    using assms unfolding eq pr re by (cases re) (auto simp: p split: if_splits)
  define w where "w = (if asg = ''candidate'' then 1 / p else 1 / (1 - p))"
  have w0: "0 < w" using p(2) by (simp add: w_def in_unit_def)
  have rest: "a \<le> r" "r \<le> b" "w \<le> m" "x = w * r \<or> x = - w * r"
    using assms unfolding eq pr re by (auto simp: p r w_def not_less split: if_splits)
  have "\<bar>x\<bar> = \<bar>w * r\<bar>" using rest(4) by auto
  then show ?thesis using weighted_reward_bound [OF rest(1,2) w0 rest(3)] by simp
qed

lemma tally_values: "fst (tally ss vs v) = vs @ concat (map (\<lambda>s. case s of Score x \<Rightarrow> [x] | _ \<Rightarrow> []) ss)"
  by (induction ss vs v rule: tally.induct) (auto split: score_result.splits)

definition violation_count :: "violations \<Rightarrow> nat" where
  "violation_count v = vi_probability v + vi_outcome v + vi_reward_range v + vi_weight v"

lemma tally_counts:
  "length (fst (tally ss vs v)) + violation_count (snd (tally ss vs v)) + length (filter ((=) Skipped) ss)
     = length vs + violation_count v + length ss"
  by (induction ss vs v rule: tally.induct) (auto simp: violation_count_def split: score_result.splits)

lemma sequential_scores_bound:
  assumes "sequential_scores rt rows (Fin a) (Fin b) (Fin m) = Inr (values, v)" "x \<in> set values"
  shows "\<bar>x\<bar> \<le> m * max \<bar>a\<bar> \<bar>b\<bar>"
proof -
  obtain ss where ss: "rmap (score_row rt (Fin a) (Fin b) (Fin m)) rows = Inr ss" "tally ss [] no_violations = (values, v)"
    using assms(1) by (auto simp: sequential_scores_def rbind_Inr_iff)
  then have "values = concat (map (\<lambda>s. case s of Score x \<Rightarrow> [x] | _ \<Rightarrow> []) ss)"
    using tally_values [of ss "[]" no_violations] by simp
  then have "Score x \<in> set ss" using assms(2) by (auto split: score_result.splits)
  then show ?thesis using rmap_Inr_set [OF ss(1)] score_row_bound by blast
qed

section \<open>Distributions of contexts\<close>

lemma sum_dset_add:
  "sum_list (map snd (dset d k ((case dget d k of None \<Rightarrow> 0 | Some n \<Rightarrow> n) + (1::int)))) = sum_list (map snd d) + 1"
  by (induction d) (auto simp: dget_def)

lemma set_dset_cases: "(a, n) \<in> set (dset d k v) \<Longrightarrow> (a, n) = (k, v) \<or> (a, n) \<in> set d"
  using set_dset [of d k v] by blast

lemma count_keys_ok:
  assumes "count_keys ks counts acc = (counts', acc')"
    and "dict_wf counts" "\<forall>(k, n) \<in> set counts. 0 < n" "sum_list (map snd counts) = acc"
  shows "dict_wf counts' \<and> (\<forall>(k, n) \<in> set counts'. 0 < n) \<and> sum_list (map snd counts') = acc'
    \<and> acc' = acc + int (length (filter (\<lambda>k. k \<noteq> None) ks))"
  using assms
proof (induction ks counts acc rule: count_keys.induct)
  case (3 k ks counts acc)
  have "0 < (case dget counts k of None \<Rightarrow> 0 | Some n \<Rightarrow> n) + (1::int)"
    using 3(4) by (auto simp: dget_def dest!: map_of_SomeD split: option.splits)
  then have "\<forall>(a, n) \<in> set (bump counts k). 0 < n"
    using 3(4) set_dset_cases unfolding bump_def by fastforce
  then show ?case
    using 3(1) [of] 3(2,3,5) sum_dset_add [of counts k] by (simp add: bump_def)
qed auto

lemma context_distribution_ok:
  assumes "context_distribution rt rows fs = (d, tot, invalid)"
  shows "tot + invalid = int (length rows)" and "0 \<le> tot"
    and "tot = 0 \<Longrightarrow> d = []" and "tot \<noteq> 0 \<Longrightarrow> distribution d"
proof -
  define keys where "keys = map (row_context_key rt fs) rows"
  obtain counts t where c: "count_keys keys [] 0 = (counts, t)" by (cases "count_keys keys [] 0")
  have ok: "dict_wf counts" "\<forall>(k, n) \<in> set counts. 0 < n" "sum_list (map snd counts) = t"
    "t = int (length (filter (\<lambda>k. k \<noteq> None) keys))"
    using count_keys_ok [OF c] by (auto simp: dict_wf_def dkeys_def)
  have eq: "tot = t" "invalid = int (length (filter (\<lambda>k. k = None) keys))"
    "d = (if t = 0 then [] else map (\<lambda>(k, n). (k, of_int n / of_int t)) counts)"
    using assms c by (auto simp: context_distribution_def keys_def Let_def split: if_splits)
  show "tot + invalid = int (length rows)"
    using sum_length_filter_compl [of "\<lambda>k. k = None" keys] by (simp add: eq ok(4) keys_def)
  show "0 \<le> tot" using eq(1) ok(4) by simp
  show "tot = 0 \<Longrightarrow> d = []" using eq by simp
  show "distribution d" if nz: "tot \<noteq> 0"
  proof -
    have "sum_list (map (\<lambda>(k, n). rat_of_int n / of_int t) counts) = of_int (sum_list (map snd counts)) / of_int t"
      by (induction counts) (auto simp: add_divide_distrib)
    then have "sum_list (map snd d) = 1" using eq nz ok(3) by (simp add: comp_def case_prod_unfold)
    moreover have "0 < t" using eq nz ok(4) by simp
    then have "\<forall>(k, r) \<in> set d. 0 \<le> r" using eq nz ok(2) by force
    moreover have "dict_wf d" using eq nz ok(1) by (simp add: dict_wf_def dkeys_def comp_def case_prod_unfold)
    ultimately show ?thesis by (simp add: distribution_def)
  qed
qed

lemma tv_empty:
  assumes "distribution r"
  shows "total_variation_distance [] r = 1/2"
proof -
  have "(\<Sum>k \<in> set (dkeys r). \<bar>mass [] k - mass r k\<bar>) = (\<Sum>k \<in> set (dkeys r). mass r k)"
    using mass_nonneg [OF assms] by (intro sum.cong) (auto simp: mass_def [of "[]"])
  also have "\<dots> = 1" using sum_mass [of r "set (dkeys r)"] assms by (simp add: distribution_def)
  finally show ?thesis by (simp add: tv_as_sum dkeys_def [of "[]"])
qed

lemma tail_mass_bounds:
  assumes "distribution d"
  shows "0 \<le> sum_list (map snd (filter P d)) \<and> sum_list (map snd (filter P d)) \<le> 1"
proof -
  have nn: "\<forall>(k, r) \<in> set d. 0 \<le> r" and one: "sum_list (map snd d) = 1"
    using assms by (auto simp: distribution_def)
  have "0 \<le> sum_list (map snd (filter P d)) \<and> sum_list (map snd (filter P d)) \<le> sum_list (map snd d)"
    using nn by (induction d) auto
  then show ?thesis using one by simp
qed

lemma live_drift_bounds:
  assumes "live_drift rt state guardrails live fs policy = Inr dr"
    and "baseline_masses state = Inr base" "distribution base"
  shows "0 \<le> dr_distance dr \<and> dr_distance dr \<le> 1 \<and> 0 \<le> dr_unknown dr \<and> dr_unknown dr \<le> 1"
proof -
  obtain w where "to_int (jget_or guardrails ''drift_window'' (JInt 200)) = Inr w"
    using assms(1) by (auto simp: live_drift_def rbind_Inr_iff)
  obtain cur samples invalid where c: "context_distribution rt
      (last_n (nat (max 1 w)) (filter (\<lambda>row. lower (py_str rt (jget_or row ''risk'' (JStr []))) = ''low'') live)) fs = (cur, samples, invalid)"
    by (metis prod_cases3)
  have dr: "dr_distance dr = total_variation_distance cur base"
    "dr_unknown dr = sum_list (map snd (filter (\<lambda>(k, _). k \<notin> set (dkeys policy)) cur))"
    using assms(1,2) c \<open>to_int _ = Inr w\<close> by (auto simp: live_drift_def Let_def)
  show ?thesis
  proof (cases "samples = 0")
    case True
    then have "cur = []" using context_distribution_ok(3) [OF c] by simp
    then show ?thesis using dr tv_empty [OF assms(3)] by simp
  next
    case False
    then have "distribution cur" using context_distribution_ok(4) [OF c] by simp
    then show ?thesis using dr tv_nonneg tv_le_one assms(3) tail_mass_bounds by simp
  qed
qed

section \<open>The gate\<close>

text \<open>What a passing verdict certifies.\<close>

lemma judge_pass:
  assumes "judge rt stage guardrails g = Inr v" "ve_blockers v = []"
  shows "stage \<in> set LIVE_STAGES \<and> ve_rollback v = []
    \<and> 1 \<le> ve_minimum_monitor v \<and> ve_minimum_monitor v \<le> int (ex_candidate_outcomes (gu_exposure g))
    \<and> 2 \<le> ve_minimum_clusters v \<and> ve_minimum_clusters v \<le> int (cr_clusters (gu_clustered g))
    \<and> budget_blockers (gu_exposure g) (gu_budget g) = []
    \<and> dr_invalid (gu_drift g) = 0 \<and> \<not> any_violation (gu_violations g)"
  using assms by (auto simp: judge_def Let_def rbind_Inr_iff not_less)

lemma judge_blockers:
  assumes "judge rt stage guardrails g = Inr v"
  shows "set (ve_rollback v) \<subseteq> set (ve_blockers v)"
  using assms by (auto simp: judge_def Let_def rbind_Inr_iff)

text \<open>The report of a valid state.\<close>

lemma evaluate_valid_InrE:
  assumes "evaluate_live_guardrails rt radius draw records state key = Inr report"
    and "state_valid rt state key = Inr True"
  obtains verification guardrails g v n where
    "judge rt (state_stage rt state) guardrails g = Inr v"
    "to_int (jget state ''generation'') = Inr n"
    "report = guardrail_report rt state verification n g v"
proof -
  obtain ver where ver: "verify_deployment_state rt state key = Inr ver" "truthy (jget ver ''valid'')"
    using assms(2) by (auto simp: state_valid_def rbind_Inr_iff)
  obtain gr m fr po where j: "jget state ''guardrails'' = JDict gr" "jget state ''policy_manifest'' = JDict m"
    "jget m ''context_fields'' = JList fr" "jget m ''policy'' = JDict po"
    using assms(1) ver by (auto simp: evaluate_live_guardrails_def split: json.splits)
  show ?thesis
    using assms(1) ver j that by (auto simp: evaluate_live_guardrails_def rbind_Inr_iff)
qed

lemma report_fields [simp]:
  "jget (guardrail_report rt state ver n g v) ''policy_id'' = JStr (py_str rt (jget_or state ''policy_id'' (JStr [])))"
  "jget (guardrail_report rt state ver n g v) ''stage'' = JStr (state_stage rt state)"
  "jget (guardrail_report rt state ver n g v) ''state_generation'' = JInt n"
  "jget (guardrail_report rt state ver n g v) ''gate'' = JDict (gate_json v)"
  by (simp_all add: guardrail_report_def dict_simps)

lemma gate_fields [simp]:
  "jget (gate_json v) ''safe_to_advance'' = JBool (ve_blockers v = [])"
  "jget (gate_json v) ''rollback_required'' = JBool (ve_rollback v \<noteq> [])"
  "jget (gate_json v) ''rollback_blockers'' = JList (map JStr (ve_rollback v))"
  by (simp_all add: gate_json_def dict_simps)

text \<open>The promotion gate accepts the report of the state it is about exactly when nothing blocks.\<close>

lemma own_report_gate:
  assumes "jget state ''policy_id'' = JStr p" "jget state ''generation'' = JInt n"
  shows "promotion_gate state (state_stage rt state) (JDict (guardrail_report rt state ver n g v)) k
    = (if ve_blockers v = [] then k
       else Inl (ValueError ''live-stage promotion requires a passing guardrail report''))"
proof -
  have "jget_or state ''policy_id'' (JStr []) = JStr p" using assms(1) by (simp add: jget_or_eq_jget)
  then show ?thesis using assms by (simp add: promotion_gate_def)
qed

section \<open>What a passing report rests on\<close>

text \<open>The evidence of a report is computed from the records: the rows of this deployment that the live stages produced.\<close>

lemma evidence_rows:
  assumes "gather_evidence rt radius draw records state guardrails flds policy = Inr g"
  obtains rows where "deployment_rows rt records state = Inr rows" "rfilter row_is_live rows = Inr (gu_rows g)"
    "live_exposure (gu_rows g) = Inr (gu_exposure g)"
  using assms by (auto simp: gather_evidence_def rbind_Inr_iff)

lemma exposure_outcomes:
  assumes "live_exposure live = Inr ex"
  shows "ex_candidate_outcomes ex = length (filter (\<lambda>row. verified_outcome row \<noteq> None) (filter (assigned ''candidate'') live))"
  using assms by (auto simp: live_exposure_def Let_def rbind_Inr_iff)

lemma judge_pass_thresholds:
  assumes "judge rt stage guardrails g = Inr v" "ve_blockers v = []"
  obtains mm mf where "int_field guardrails ''minimum_monitor_outcomes'' 20 = Inr mm"
    "max 1 mm \<le> int (ex_candidate_outcomes (gu_exposure g))"
    "float_field rt guardrails ''max_failure_rate'' (1/10) = Inr mf"
    "\<And>f. failure_rate (gu_exposure g) = Some f \<Longrightarrow> \<not> fl_lt mf (Fin f)"
proof -
  obtain mm mf where m: "int_field guardrails ''minimum_monitor_outcomes'' 20 = Inr mm"
    "float_field rt guardrails ''max_failure_rate'' (1/10) = Inr mf"
    using assms(1) by (auto simp: judge_def Let_def rbind_Inr_iff)
  define c where "c = (max 1 mm \<le> int (ex_candidate_outcomes (gu_exposure g))
      \<and> (case failure_rate (gu_exposure g) of Some f \<Rightarrow> fl_lt mf (Fin f) | None \<Rightarrow> False))"
  have "set (err_if c ''candidate_failure_rate_regression'') \<subseteq> set (ve_rollback v) \<and> ve_minimum_monitor v = max 1 mm"
    using assms(1) m unfolding c_def by (auto simp: judge_def Let_def rbind_Inr_iff)
  moreover have "ve_rollback v = []" "ve_minimum_monitor v \<le> int (ex_candidate_outcomes (gu_exposure g))"
    using judge_pass [OF assms] by auto
  ultimately have "\<not> c" "max 1 mm \<le> int (ex_candidate_outcomes (gu_exposure g))" by (auto simp: err_if_def split: if_splits)
  moreover from this have "failure_rate (gu_exposure g) = Some f \<Longrightarrow> \<not> fl_lt mf (Fin f)" for f by (auto simp: c_def)
  ultimately show ?thesis using that [OF m(1) _ m(2)] by blast
qed

text \<open>The evidence that the records give for a document: its own guardrails, and the policy of the manifest it holds.\<close>

definition own_evidence ::
  "runtime \<Rightarrow> (rat \<Rightarrow> rat \<Rightarrow> nat \<Rightarrow> rat) \<Rightarrow> (int \<Rightarrow> nat \<Rightarrow> nat) \<Rightarrow> json dict list \<Rightarrow> json dict \<Rightarrow> json dict \<Rightarrow> evidence \<Rightarrow> bool" where
  "own_evidence rt radius draw records s guardrails g = (\<exists>m flds policy. jget s ''guardrails'' = JDict guardrails
     \<and> jget s ''policy_manifest'' = JDict m \<and> jget m ''context_fields'' = JList flds \<and> jget m ''policy'' = JDict policy
     \<and> gather_evidence rt radius draw records s guardrails (map (\<lambda>f. JStr (py_str rt f)) flds) policy = Inr g)"

lemma evaluate_valid_evidence:
  assumes "evaluate_live_guardrails rt radius draw records state key = Inr report"
    and "state_valid rt state key = Inr True"
  obtains verification guardrails g v n where
    "own_evidence rt radius draw records state guardrails g"
    "judge rt (state_stage rt state) guardrails g = Inr v"
    "to_int (jget state ''generation'') = Inr n"
    "report = guardrail_report rt state verification n g v"
proof -
  obtain ver where ver: "verify_deployment_state rt state key = Inr ver" "truthy (jget ver ''valid'')"
    using assms(2) by (auto simp: state_valid_def rbind_Inr_iff)
  obtain gr m fr po where j: "jget state ''guardrails'' = JDict gr" "jget state ''policy_manifest'' = JDict m"
    "jget m ''context_fields'' = JList fr" "jget m ''policy'' = JDict po"
    using assms(1) ver by (auto simp: evaluate_live_guardrails_def split: json.splits)
  obtain g v n where "gather_evidence rt radius draw records state gr (map (\<lambda>f. JStr (py_str rt f)) fr) po = Inr g"
    "judge rt (state_stage rt state) gr g = Inr v" "to_int (jget state ''generation'') = Inr n"
    "report = guardrail_report rt state ver n g v"
    using assms(1) ver j by (auto simp: evaluate_live_guardrails_def rbind_Inr_iff)
  then show ?thesis using that j unfolding own_evidence_def by blast
qed

text \<open>A promotion of a live deployment needs a passing report about this very document.\<close>

lemma promotion_report:
  assumes "transition_deployment_state rt now s key to_stage actor r reason = Inr t" "strip to_stage \<noteq> ''rolled_back''"
    and "state_stage rt s \<in> set LIVE_STAGES"
  obtains rep gate where "dget NEXT_STAGE (state_stage rt s) = Some (strip to_stage)" "r = JDict rep" "jget rep ''gate'' = JDict gate"
    "truthy (jget gate ''safe_to_advance'')" "py_eq (jget rep ''policy_id'') (jget s ''policy_id'')"
    "py_eq (jget rep ''state_generation'') (jget s ''generation'')" "py_eq (jget rep ''stage'') (JStr (state_stage rt s))"
proof -
  have go: "gate_open s (state_stage rt s) (strip to_stage) r" using assms(1) by (auto elim: transition_InrE)
  then have "promotion_gate s (state_stage rt s) r (Inr ()) = Inr ()"
    using assms(2,3) by (simp add: gate_open_def transition_gate_def guard_that_Inr_iff)
  then show ?thesis using gate_open_next [OF go assms(2)] that
    by (auto simp: promotion_gate_def guard_that_Inr_iff split: json.splits)
qed

text \<open>What the records contain when the promotion rests on the report they give.\<close>

definition passing_evidence :: "runtime \<Rightarrow> json dict list \<Rightarrow> json dict \<Rightarrow> json dict \<Rightarrow> evidence \<Rightarrow> verdict \<Rightarrow> bool" where
  "passing_evidence rt records s guardrails g v =
     ((\<exists>rows mm. deployment_rows rt records s = Inr rows \<and> rfilter row_is_live rows = Inr (gu_rows g)
        \<and> int_field guardrails ''minimum_monitor_outcomes'' 20 = Inr mm
        \<and> max 1 mm \<le> int (length (filter (\<lambda>row. verified_outcome row \<noteq> None) (filter (assigned ''candidate'') (gu_rows g)))))
      \<and> (\<exists>mf. float_field rt guardrails ''max_failure_rate'' (1/10) = Inr mf
        \<and> (\<forall>f. failure_rate (gu_exposure g) = Some f \<longrightarrow> \<not> fl_lt mf (Fin f)))
      \<and> ve_rollback v = [] \<and> ve_minimum_clusters v \<le> int (cr_clusters (gu_clustered g))
      \<and> budget_blockers (gu_exposure g) (gu_budget g) = [] \<and> dr_invalid (gu_drift g) = 0 \<and> \<not> any_violation (gu_violations g))"

lemma promotion_evidence:
  assumes "state_ok rt s key" "state_stage rt s \<in> set LIVE_STAGES" "strip to_stage \<noteq> ''rolled_back''"
    and "evaluate_live_guardrails rt radius draw records s key = Inr report"
    and "transition_deployment_state rt now s key to_stage actor (JDict report) reason = Inr t"
  obtains guardrails g v where "own_evidence rt radius draw records s guardrails g"
    "judge rt (state_stage rt s) guardrails g = Inr v" "jget report ''gate'' = JDict (gate_json v)"
    "jget report ''exposure'' = exposure_json (gu_exposure g)" "passing_evidence rt records s guardrails g v"
proof (rule evaluate_valid_evidence [OF assms(4)])
  show "state_valid rt s key = Inr True" using assms(1) by (simp add: state_valid_iff)
  fix ver guardrails g v n
  assume a: "own_evidence rt radius draw records s guardrails g"
    "judge rt (state_stage rt s) guardrails g = Inr v" "report = guardrail_report rt s ver n g v"
  have "truthy (jget (gate_json v) ''safe_to_advance'')"
    by (rule promotion_report [OF assms(5,3,2)]) (use a(3) in auto)
  then have b: "ve_blockers v = []" by simp
  obtain rows where rows: "deployment_rows rt records s = Inr rows" "rfilter row_is_live rows = Inr (gu_rows g)"
    "live_exposure (gu_rows g) = Inr (gu_exposure g)" 
    using a(1) evidence_rows unfolding own_evidence_def by metis
  obtain mm mf where m: "int_field guardrails ''minimum_monitor_outcomes'' 20 = Inr mm"
    "max 1 mm \<le> int (ex_candidate_outcomes (gu_exposure g))"
    "float_field rt guardrails ''max_failure_rate'' (1/10) = Inr mf"
    "\<And>f. failure_rate (gu_exposure g) = Some f \<Longrightarrow> \<not> fl_lt mf (Fin f)" using judge_pass_thresholds [OF a(2) b] by blast
  have "passing_evidence rt records s guardrails g v"
    using rows m judge_pass [OF a(2) b] exposure_outcomes [OF rows(3)] unfolding passing_evidence_def by metis
  then show ?thesis using a by (intro that [OF a(1,2)]) (simp_all add: guardrail_report_def dict_simps)
qed

end
