(* ===== verification/LearningProps.thy ===== *)
theory LearningProps
  imports Learning
begin

text \<open>
  Properties of the learning component: the arms offered and their probabilities, the safety of
  every chosen arm, logging before effect, and the write-once records.
\<close>

section \<open>Arms and propensities\<close>

lemma eligible_arms_ok:
  "distinct (eligible_arms rt config) \<and> BASELINE_ARM \<in> set (eligible_arms rt config)
    \<and> set (eligible_arms rt config) \<subseteq> set SAFE_EXPLORATION_ARMS"
  by (auto simp: eligible_arms_def Let_def)

lemma dkeys_propensities [simp]: "dkeys (propensities arms e) = arms"
  by (simp add: propensities_def dkeys_def Let_def comp_def)

lemma sum_list_indicator:
  "distinct xs \<Longrightarrow> b \<in> set xs \<Longrightarrow>
     sum_list (map (\<lambda>a. (if a = b then x else 0) + y) xs) = x + (y::rat) * of_nat (length xs)"
proof (induction xs)
  case (Cons a xs)
  have no: "b \<notin> set xs \<Longrightarrow> sum_list (map (\<lambda>a. (if a = b then x else 0) + y) xs) = y * of_nat (length xs)"
    by (induction xs) (auto simp: algebra_simps)
  show ?case
  proof (cases "a = b")
    case True
    then show ?thesis using Cons.prems no by (simp add: algebra_simps)
  next
    case False
    then show ?thesis using Cons by (simp add: algebra_simps)
  qed
qed simp

text \<open>The propensities of a set of arms that contains the baseline are a distribution.\<close>

lemma propensities_sum:
  assumes "distinct arms" "BASELINE_ARM \<in> set arms"
  shows "sum_list (map snd (propensities arms e)) = 1"
proof (cases "length arms \<le> 1 \<or> e \<le> 0")
  case True
  then have "map snd (propensities arms e) = map (\<lambda>a. (if a = BASELINE_ARM then 1 else 0) + 0) arms"
    by (simp add: propensities_def comp_def)
  then show ?thesis using sum_list_indicator [OF assms, of 1 0] by simp
next
  case False
  define share where "share = e / rat_of_nat (length arms)"
  have "map snd (propensities arms e) = map (\<lambda>a. (if a = BASELINE_ARM then 1 - e else 0) + share) arms"
    using False by (simp add: propensities_def comp_def share_def Let_def)
  moreover have "share * of_nat (length arms) = e" using False by (auto simp: share_def)
  ultimately show ?thesis using sum_list_indicator [OF assms, of "1 - e" share] by simp
qed

lemma propensities_pos:
  assumes "0 < e" "e \<le> 1" "1 < length arms" "(a, p) \<in> set (propensities arms e)"
  shows "0 < p"
proof -
  have "arms \<noteq> []" using assms(3) by auto
  then have "0 < e / rat_of_nat (length arms)" using assms(1) by simp
  then show ?thesis using assms by (auto simp: propensities_def Let_def split: if_splits)
qed

lemma propensities_nonneg:
  assumes "e \<le> 1" "(a, p) \<in> set (propensities arms e)"
  shows "0 \<le> p"
proof (cases "length arms \<le> 1 \<or> e \<le> 0")
  case True
  then show ?thesis using assms by (auto simp: propensities_def split: if_splits)
next
  case False
  then show ?thesis using propensities_pos [of e arms a p] assms by auto
qed

section \<open>Sampling\<close>

lemma sample_loop_in: "sample_loop u c lst ps \<in> insert lst (set (dkeys ps))"
  by (induction u c lst ps rule: sample_loop.induct) (auto simp: Let_def dkeys_def)

lemma sample_arm_in:
  assumes "ps \<noteq> []"
  shows "sample_arm ps u \<in> set (dkeys ps)"
proof -
  obtain a p qs where ps: "ps = (a, p) # qs" using assms by (cases ps) auto
  show ?thesis using sample_loop_in [of u p a qs] by (auto simp: sample_arm_def ps dkeys_def Let_def)
qed

text \<open>Inverse transform sampling: an arm is drawn exactly on its interval of the cumulative sum.\<close>

lemma sample_loop_interval:
  assumes "\<forall>(a, q) \<in> set xs. 0 \<le> q" "c + sum_list (map snd xs) < u" "u \<le> c + sum_list (map snd xs) + p"
  shows "sample_loop u c lst (xs @ (a, p) # ys) = a"
  using assms
proof (induction xs arbitrary: c lst)
  case (Cons x xs)
  obtain b q where x: "x = (b, q)" by (cases x)
  have "0 \<le> sum_list (map snd xs)" using Cons.prems(1) by (intro sum_list_nonneg) auto
  then have "\<not> u \<le> c + q" using Cons.prems(2) x by simp
  then show ?case using Cons.IH [of "c + q" b] Cons.prems x by (simp add: Let_def algebra_simps)
qed simp

lemma sample_arm_interval:
  assumes "\<forall>(a, q) \<in> set xs. 0 \<le> q" "sum_list (map snd xs) < u" "u \<le> sum_list (map snd xs) + p"
  shows "sample_arm (xs @ (a, p) # ys) u = a"
  using sample_loop_interval [of xs 0 u p] assms by (simp add: sample_arm_def)

section \<open>Choices\<close>

lemma clamp01_bounds: "0 \<le> clamp01 r \<and> clamp01 r \<le> 1"
  by (simp add: clamp01_def)

lemma fraction_of_bounds:
  assumes "fraction_of v d = Inr r" "0 \<le> d" "d \<le> 1"
  shows "0 \<le> r \<and> r \<le> 1"
proof -
  have c: "0 \<le> (case x of Fin q \<Rightarrow> clamp01 q | _ \<Rightarrow> d) \<and> (case x of Fin q \<Rightarrow> clamp01 q | _ \<Rightarrow> d) \<le> 1" for x
    using assms(2,3) by (simp add: clamp01_bounds split: pyfloat.split)
  show ?thesis using assms c by (cases v) (auto simp: fraction_of_def rbind_Inr_iff)
qed

text \<open>What every choice guarantees.\<close>

definition choice_ok :: "risk \<Rightarrow> choice \<Rightarrow> bool" where
  "choice_ok r c = (dict_wf (ch_propensities c)
     \<and> set (dkeys (ch_propensities c)) \<subseteq> set SAFE_EXPLORATION_ARMS
     \<and> (\<exists>p. dget (ch_propensities c) (ch_chosen c) = Some p \<and> 0 < p)
     \<and> (\<forall>(a, p) \<in> set (ch_propensities c). 0 \<le> p)
     \<and> \<bar>sum_list (map snd (ch_propensities c)) - 1\<bar> \<le> 1 / 10 ^ 9
     \<and> (ch_chosen c \<noteq> BASELINE_ARM \<longrightarrow> r = Low)
     \<and> (ch_explored c \<longleftrightarrow> ch_chosen c \<noteq> BASELINE_ARM))"

lemma baseline_choice_ok: "choice_ok r (baseline_choice m e s)"
  by (simp add: choice_ok_def baseline_choice_def dict_wf_def dkeys_def dget_def)

lemma invalid_assignment_ok: "choice_ok r invalid_assignment"
  by (simp add: choice_ok_def invalid_assignment_def baseline_choice_def dict_wf_def dkeys_def dget_def)

definition parsed_ok :: "rat dict \<Rightarrow> bool" where
  "parsed_ok d = (dict_wf d \<and> set (dkeys d) \<subseteq> set SAFE_EXPLORATION_ARMS \<and> (\<forall>(a, p) \<in> set d. 0 \<le> p))"

lemma parsed_ok_dset: "parsed_ok d \<Longrightarrow> k \<in> set SAFE_EXPLORATION_ARMS \<Longrightarrow> 0 \<le> r \<Longrightarrow> parsed_ok (dset d k r)"
  using set_dset [of d k r] by (auto simp: parsed_ok_def dkeys_dset split: if_splits)

lemma float_of_int_Inr: "float_of_int i = Inr x \<Longrightarrow> x = Fin (of_int i)"
  by (simp add: float_of_int_def split: if_splits)

lemma parse_step:
  assumes "parse_propensities ((arm, v) # items) parsed = Inr (b, parsed')"
  obtains (refused) "parsed' = parsed" "\<not> b"
  | (taken) r where "strip arm \<in> set SAFE_EXPLORATION_ARMS" "0 \<le> r" "r \<le> 1"
      "parse_propensities items (dset parsed (strip arm) r) = Inr (b, parsed')"
proof (cases "strip arm \<in> set SAFE_EXPLORATION_ARMS")
  case False
  then show ?thesis using assms refused by (simp add: Let_def)
next
  case True
  show ?thesis
  proof (cases v)
    case (JInt i)
    then obtain x where x: "float_of_int i = Inr x" using assms True by (auto simp: Let_def rbind_Inr_iff)
    then have "x = Fin (of_int i)" by (rule float_of_int_Inr)
    then show ?thesis
      using assms True JInt x refused taken [of "of_int i"] by (simp add: Let_def split: if_splits)
  next
    case (JFloat x)
    then show ?thesis using assms True refused taken by (cases x) (auto simp: Let_def split: if_splits)
  qed (use assms True refused in \<open>auto simp: Let_def\<close>)
qed

lemma parse_propensities_ok:
  "parse_propensities items parsed = Inr (b, parsed') \<Longrightarrow> parsed_ok parsed \<Longrightarrow> parsed_ok parsed'"
proof (induction items arbitrary: parsed)
  case (Cons x items)
  obtain arm v where x: "x = (arm, v)" by (cases x)
  from Cons.prems(1) [unfolded x] show ?case
  proof (cases rule: parse_step)
    case refused
    then show ?thesis using Cons.prems(2) by simp
  next
    case (taken r)
    then show ?thesis using Cons.IH [OF taken(4)] parsed_ok_dset [OF Cons.prems(2)] by simp
  qed
qed simp

lemma assignment_choice_ok:
  assumes "assignment_choice rt r a = Inr (Some (arm, parsed))"
  shows "parsed_ok parsed \<and> mass_ok parsed arm \<and> (arm \<noteq> BASELINE_ARM \<longrightarrow> r = Low)"
proof -
  obtain raw where raw: "jget a ''arm_propensities'' = JDict raw"
    using assms by (auto simp: assignment_choice_def Let_def split: if_splits json.splits)
  obtain b where "parse_propensities raw [] = Inr (b, parsed)"
    and "mass_ok parsed arm" "\<not> (arm \<noteq> BASELINE_ARM \<and> r \<noteq> Low)"
    using assms raw by (auto simp: assignment_choice_def Let_def rbind_Inr_iff split: if_splits)
  moreover have "parsed_ok []" by (simp add: parsed_ok_def dict_wf_def dkeys_def)
  ultimately show ?thesis using parse_propensities_ok by blast
qed

lemma assigned_choice_ok:
  assumes "assigned_choice rt a arm parsed = Inr c"
    and "parsed_ok parsed" "mass_ok parsed arm" "arm \<noteq> BASELINE_ARM \<longrightarrow> r = Low"
  shows "choice_ok r c"
  using assms
  by (auto simp: assigned_choice_def Let_def rbind_Inr_iff choice_ok_def parsed_ok_def mass_ok_def
      split: option.splits)

lemma explore_choice_ok:
  assumes "0 \<le> e" "e \<le> 1"
  shows "choice_ok r (explore_choice rt env config r (eligible_arms rt config) e)"
proof -
  let ?arms = "eligible_arms rt config"
  let ?ps = "propensities ?arms e"
  have arms: "distinct ?arms" "BASELINE_ARM \<in> set ?arms" "set ?arms \<subseteq> set SAFE_EXPLORATION_ARMS"
    using eligible_arms_ok [of rt config] by auto
  let ?a = "sample_arm ?ps (le_random env)"
  consider (base) s where "explore_choice rt env config r ?arms e = baseline_choice ''explore'' e s"
    | (sampled) "risk_value r \<in> allowed_risks rt config" "1 < length ?arms" "0 < e"
      "explore_choice rt env config r ?arms e = (baseline_choice ''explore'' e
         (if ?a \<noteq> BASELINE_ARM then ''bounded_exploration'' else ''baseline_sample''))
         \<lparr>ch_chosen := ?a, ch_propensities := ?ps, ch_explored := (?a \<noteq> BASELINE_ARM)\<rparr>"
  proof (cases "learning_kill_switch (le_kill_env env) config \<or> risk_value r \<notin> allowed_risks rt config
      \<or> length ?arms \<le> 1 \<or> e \<le> 0")
    case True
    then have "\<exists>s. explore_choice rt env config r ?arms e = baseline_choice ''explore'' e s"
      unfolding explore_choice_def by (simp only: if_True if_False split: if_split) blast
    then show ?thesis using that(1) by blast
  next
    case False
    then show ?thesis by (intro that(2)) (simp_all add: explore_choice_def Let_def)
  qed
  then show ?thesis
  proof cases
    case base
    then show ?thesis by (simp add: baseline_choice_ok)
  next
    case sampled
    have low: "r = Low" using sampled(1) by (auto simp: allowed_risks_def split: json.splits)
    have "?ps \<noteq> []" using sampled(2) dkeys_propensities [of ?arms e] by (metis dkeys_def list.size(3) list.simps(8) not_one_less_zero)
    then have inn: "sample_arm ?ps (le_random env) \<in> set (dkeys ?ps)" by (rule sample_arm_in)
    have wf: "dict_wf ?ps" using arms(1) by (simp add: dict_wf_def)
    obtain p where p: "dget ?ps (sample_arm ?ps (le_random env)) = Some p"
      using inn unfolding set_dkeys_iff by blast
    then have "0 < p" using propensities_pos [OF sampled(3) assms(2) sampled(2)]
      by (auto simp: dget_def dest: map_of_SomeD)
    then show ?thesis
      using sampled(4) low wf arms p propensities_sum [OF arms(1,2), of e]
        propensities_nonneg [OF assms(2)]
      by (auto simp: choice_ok_def baseline_choice_def)
  qed
qed

lemma make_choice_ok:
  assumes "make_choice rt env config r assignment = Inr c"
  shows "choice_ok r c"
proof -
  obtain e where e: "0 \<le> e" "e \<le> 1"
    and c: "(case assignment of
        Some a \<Rightarrow> rbind (assignment_choice rt r a) (\<lambda>c. case c of
            Some (arm, parsed) \<Rightarrow> assigned_choice rt a arm parsed | None \<Rightarrow> Inr invalid_assignment)
      | None \<Rightarrow> Inr (if learning_mode rt config = ''observe'' then baseline_choice (learning_mode rt config) e ''observe_only''
          else if learning_mode rt config = ''explore''
          then explore_choice rt env config r (eligible_arms rt config) e
          else baseline_choice (learning_mode rt config) e ''learning_disabled'')) = Inr c"
    using assms fraction_of_bounds by (fastforce simp: make_choice_def Let_def rbind_Inr_iff)
  show ?thesis
  proof (cases assignment)
    case None
    then show ?thesis using c explore_choice_ok [OF e] baseline_choice_ok by (auto split: if_splits)
  next
    case (Some a)
    then obtain ch where ch: "assignment_choice rt r a = Inr ch"
      "(case ch of Some (arm, parsed) \<Rightarrow> assigned_choice rt a arm parsed | None \<Rightarrow> Inr invalid_assignment) = Inr c"
      using c by (auto simp: rbind_Inr_iff)
    show ?thesis
    proof (cases ch)
      case None
      then show ?thesis using ch(2) invalid_assignment_ok by simp
    next
      case (Some p)
      obtain arm parsed where p: "p = (arm, parsed)" by (cases p)
      show ?thesis
        using assigned_choice_ok [of rt a arm parsed c r] assignment_choice_ok [of rt r a arm parsed]
          ch Some p by simp
    qed
  qed
qed

section \<open>Logging before effect\<close>

lemma choose_decision_InrE:
  assumes "choose_learning_decision rt env query decision intent config cf wr assignment = Inr d"
  obtains c where "make_choice rt env config (rd_risk decision) assignment = Inr c"
    and "choice_ok (rd_risk decision) c"
    and "ld_chosen_arm d = ch_chosen c" and "ld_mode d = ch_mode c"
    and "dget (ch_propensities c) (ch_chosen c) = Some (ld_chosen_propensity d)"
    and "ld_risk d = risk_value (rd_risk decision)" and "ld_decision_id d = le_uuid env 0"
    and "ld_explored d = ch_explored c"
  using assms make_choice_ok
  by (fastforce simp: choose_learning_decision_def rbind_Inr_iff choice_ok_def)

lemma fallback_simps [simp]:
  "ld_chosen_arm (baseline_fallback env d r) = BASELINE_ARM"
  "ld_mode (baseline_fallback env d r) = ld_mode d"
  "ld_decision_id (baseline_fallback env d r) = le_uuid env 1"
  by (simp_all add: baseline_fallback_def)

text \<open>The record of a decision as its file holds it.\<close>

definition logged :: "learning_fs \<Rightarrow> learning_decision \<Rightarrow> bool" where
  "logged fs d = (find_file (lf_decisions fs) (ld_decision_id d @ ''.json'')
     = Some (Holds (sort_keys (JDict (decision_json d)))))"

lemma record_path_Inr: "record_path i = Inr n \<longleftrightarrow> length i = 32 \<and> is_hex i \<and> n = i @ ''.json''"
  by (auto simp: record_path_def guard_that_Inr_iff)

lemma mirror_into_frame:
  assumes "mirror_into rt env n config t payload path fs = (r, fs')"
  shows "lf_decisions fs' = lf_decisions fs \<and> lf_observations fs' = lf_observations fs
    \<and> lf_outcomes fs' = lf_outcomes fs" and "r = Inr q \<Longrightarrow> q = path"
  using assms by (auto simp: mirror_into_def rbind_Inr_iff split: prod.splits)

lemma create_json_keeps:
  "find_file d k = Some w \<Longrightarrow> find_file (snd (atomic_create_json out n v d)) k = Some w"
  by (rule json_files.keeps)

lemma write_decision_logged:
  assumes "write_learning_decision rt env n config d fs = (Inr path, fs')"
  shows "logged fs' d \<and> path = ld_decision_id d @ ''.json''"
proof -
  let ?v = "JDict (decision_json d)"
  obtain name where name: "record_path (ld_decision_id d) = Inr name"
    using assms by (auto simp: write_learning_decision_def Let_def split: sum.splits)
  obtain q dir where c: "atomic_create_json (le_publish env n) name ?v (lf_decisions fs) = (q, dir)"
    by (cases "atomic_create_json (le_publish env n) name ?v (lf_decisions fs)")
  have q: "q = Inr ()" using assms name c
    by (cases q) (auto simp: write_learning_decision_def Let_def)
  have m: "mirror_into rt env n config ''decision'' (decision_json d) name (fs\<lparr>lf_decisions := dir\<rparr>) = (Inr path, fs')"
    using assms name c q by (simp add: write_learning_decision_def Let_def)
  have "find_file dir name = Some (Holds (sort_keys ?v))"
    using json_files.created [of "le_publish env n" name ?v "lf_decisions fs"] c q by simp
  then show ?thesis
    using mirror_into_frame [OF m] name by (auto simp: logged_def record_path_Inr)
qed

lemma write_decision_keeps:
  assumes "write_learning_decision rt env n config d fs = (r, fs')"
    and "find_file (lf_decisions fs) k = Some w"
  shows "find_file (lf_decisions fs') k = Some w"
proof (cases "record_path (ld_decision_id d)")
  case (Inl e)
  then show ?thesis using assms by (simp add: write_learning_decision_def Let_def)
next
  case (Inr name)
  obtain q dir where c: "atomic_create_json (le_publish env n) name (JDict (decision_json d)) (lf_decisions fs) = (q, dir)"
    by (cases "atomic_create_json (le_publish env n) name (JDict (decision_json d)) (lf_decisions fs)")
  have k: "find_file dir k = Some w"
    using create_json_keeps [OF assms(2), of "le_publish env n" name "JDict (decision_json d)"] c by simp
  show ?thesis
  proof (cases q)
    case (Inl e)
    then show ?thesis using assms Inr c k by (auto simp: write_learning_decision_def Let_def)
  next
    case (Inr u)
    then have "mirror_into rt env n config ''decision'' (decision_json d) name (fs\<lparr>lf_decisions := dir\<rparr>) = (r, fs')"
      using assms(1) \<open>record_path (ld_decision_id d) = Inr name\<close> c
      by (simp add: write_learning_decision_def Let_def)
    then show ?thesis using mirror_into_frame(1) k by fastforce
  qed
qed

text \<open>The ways \<open>prepare_learning_decision\<close> returns.\<close>

lemma prepare_cases:
  assumes "prepare_learning_decision rt env query decision intent config cf wr assignment fs = (Inr (d, path), fs')"
  obtains (off) "choose_learning_decision rt env query decision intent config cf wr assignment = Inr d"
      "ld_mode d = ''off''" "path = None" "fs' = fs"
  | (logged) p where "choose_learning_decision rt env query decision intent config cf wr assignment = Inr d"
      "path = Some p" "logged fs' d"
  | (unlogged_baseline) "choose_learning_decision rt env query decision intent config cf wr assignment = Inr d"
      "path = None" "ld_chosen_arm d = BASELINE_ARM"
  | (fallback) s where "choose_learning_decision rt env query decision intent config cf wr assignment = Inr s"
      "d = baseline_fallback env s ''decision_log_failure''" "path \<noteq> None \<Longrightarrow> logged fs' d"
proof -
  obtain s where s: "choose_learning_decision rt env query decision intent config cf wr assignment = Inr s"
    using assms by (auto simp: prepare_learning_decision_def split: sum.splits)
  show ?thesis
  proof (cases "ld_mode s = ''off''")
    case True
    then show ?thesis using assms s by (intro off) (auto simp: prepare_learning_decision_def)
  next
    case m: False
    obtain r fs1 where w: "write_learning_decision rt env 0 config s fs = (r, fs1)"
      by (cases "write_learning_decision rt env 0 config s fs")
    show ?thesis
    proof (cases r)
      case (Inr p)
      then have "d = s" "path = Some p" "fs' = fs1"
        using assms s m w by (auto simp: prepare_learning_decision_def)
      then show ?thesis using logged s write_decision_logged w Inr by blast
    next
      case (Inl e)
      have os: "is_os_error e" using assms s m w Inl
        by (auto simp: prepare_learning_decision_def split: if_splits)
      show ?thesis
      proof (cases "ld_chosen_arm s = BASELINE_ARM")
        case True
        then show ?thesis using assms s m w Inl os
          by (intro unlogged_baseline) (auto simp: prepare_learning_decision_def)
      next
        case False
        let ?f = "baseline_fallback env s ''decision_log_failure''"
        obtain r2 fs2 where w2: "write_learning_decision rt env 1 config ?f fs1 = (r2, fs2)"
          by (cases "write_learning_decision rt env 1 config ?f fs1")
        have d: "d = ?f" "fs' = fs2" "path \<noteq> None \<Longrightarrow> r2 = Inr (the path)"
          using assms s m w Inl os False w2
          by (auto simp: prepare_learning_decision_def Let_def split: sum.splits if_splits)
        show ?thesis
        proof (rule fallback [OF s d(1)])
          assume "path \<noteq> None"
          then show "logged fs' d" using write_decision_logged w2 d by blast
        qed
      qed
    qed
  qed
qed

section \<open>Outcomes\<close>

lemma validate_outcome_Inr:
  assumes "validate_verified_outcome te source verifier digest reward cost = Inr ev"
  shows "vo_source ev = strip source \<and> vo_source ev \<in> trusted_outcome_sources te
    \<and> vo_verifier_identity ev \<noteq> [] \<and> 0 \<le> vo_reward ev \<and> vo_reward ev \<le> 1 \<and> 0 \<le> vo_realized_cost ev
    \<and> (\<exists>h. vo_evidence_digest ev = ''sha256:'' @ h \<and> length h = 64 \<and> is_hex h)"
proof -
  obtain r c where rc: "reward = Fin r" "cost = Fin c"
    using assms by (cases reward; cases cost) (auto simp: validate_verified_outcome_def Let_def guard_that_Inr_iff)
  obtain dg where dg: "validated_sha256_digest digest = Inr dg" "vo_evidence_digest ev = dg"
    using assms rc by (auto simp: validate_verified_outcome_def Let_def guard_that_Inr_iff rbind_Inr_iff)
  have "\<exists>h. dg = ''sha256:'' @ h \<and> length h = 64 \<and> is_hex h"
    using dg(1) by (fastforce simp: validated_sha256_digest_def Let_def guard_that_Inr_iff starts_with_iff)
  then show ?thesis
    using assms rc dg by (auto simp: validate_verified_outcome_def Let_def guard_that_Inr_iff rbind_Inr_iff)
qed

lemma outcome_record_Inr:
  assumes "outcome_record rt env i success source verifier digest reward cost metadata fs = Inr (name, payload)"
  obtains dec ev where "record_path i = Inr name"
      "find_file (lf_decisions fs) name = Some (Holds (JDict dec))"
      "validate_verified_outcome (le_trusted_env env) source verifier digest
         (case reward of None \<Rightarrow> Fin (if success then 1 else 0) | Some x \<Rightarrow> x) cost = Inr ev"
      "payload = outcome_payload env i success ev (strip (py_str rt (jget_or dec ''created_at'' (JStr [])))) metadata"
proof -
  obtain n d ev where "record_path i = Inr n"
      and d: "(case find_file (lf_decisions fs) n of
         None \<Rightarrow> Inl (ValueError ''unknown learning decision'')
       | Some Garbled \<Rightarrow> Inl (ValueError ''learning decision is unreadable'')
       | Some (Holds (JDict d)) \<Rightarrow> Inr d
       | Some (Holds _) \<Rightarrow> Inl (ValueError ''learning decision is invalid'')) = Inr d"
      and "validate_verified_outcome (le_trusted_env env) source verifier digest
         (case reward of None \<Rightarrow> Fin (if success then 1 else 0) | Some x \<Rightarrow> x) cost = Inr ev"
      and "name = n" "payload = outcome_payload env i success ev (strip (py_str rt (jget_or d ''created_at'' (JStr [])))) metadata"
    using assms by (auto simp: outcome_record_def rbind_Inr_iff Let_def)
  moreover have "find_file (lf_decisions fs) n = Some (Holds (JDict d))"
    using d by (auto split: option.splits file_body.splits json.splits)
  ultimately show ?thesis using that by blast
qed

text \<open>A recorded outcome: the payload is in its file, and nothing else of the records changed.\<close>

lemma record_outcome_written:
  assumes "record_verified_outcome rt env config i success source verifier digest reward cost metadata fs = (Inr p, fs')"
  obtains name payload where
      "outcome_record rt env i success source verifier digest reward cost metadata fs = Inr (name, payload)"
      "find_file (lf_outcomes fs) name = None"
      "lf_outcomes fs' = lf_outcomes fs @ [(name, Holds (sort_keys (JDict payload)))]"
      "lf_decisions fs' = lf_decisions fs" "lf_observations fs' = lf_observations fs"
proof -
  obtain name payload where o: "outcome_record rt env i success source verifier digest reward cost metadata fs = Inr (name, payload)"
    using assms by (auto simp: record_verified_outcome_def split: sum.splits)
  obtain q dir where c: "atomic_create_json (le_publish env 0) name (JDict payload) (lf_outcomes fs) = (q, dir)"
    by (cases "atomic_create_json (le_publish env 0) name (JDict payload) (lf_outcomes fs)")
  have q: "q = Inr ()" using assms o c by (cases q) (auto simp: record_verified_outcome_def)
  have m: "mirror_into rt env 0 config ''outcome'' payload name (fs\<lparr>lf_outcomes := dir\<rparr>) = (Inr p, fs')"
    using assms o c q by (simp add: record_verified_outcome_def)
  have "find_file (lf_outcomes fs) name = None" "dir = lf_outcomes fs @ [(name, Holds (sort_keys (JDict payload)))]"
    using c q by (auto simp: atomic_create_json_def find_file_def split: if_splits)
  then show ?thesis using that [OF o] mirror_into_frame(1) [OF m] by simp
qed

section \<open>Reading the records back\<close>

text \<open>Every record names itself after the decision it belongs to.\<close>

definition dir_ok :: "directory \<Rightarrow> bool" where
  "dir_ok d = (dict_wf d \<and> (\<forall>n b v. (n, b) \<in> set d \<longrightarrow> load_json b = Some v \<longrightarrow>
     (\<exists>i. record_path i = Inr n \<and> jget v ''decision_id'' = JStr i)))"

lemma record_outcome_keeps:
  assumes "record_verified_outcome rt env config i success source verifier digest reward cost metadata fs = (r, fs')"
    and "find_file (lf_outcomes fs) k = Some w"
  shows "find_file (lf_outcomes fs') k = Some w"
proof (cases "outcome_record rt env i success source verifier digest reward cost metadata fs")
  case (Inl e)
  then show ?thesis using assms by (simp add: record_verified_outcome_def)
next
  case (Inr a)
  obtain name payload where a: "a = (name, payload)" by (cases a)
  obtain q dir where c: "atomic_create_json (le_publish env 0) name (JDict payload) (lf_outcomes fs) = (q, dir)"
    by (cases "atomic_create_json (le_publish env 0) name (JDict payload) (lf_outcomes fs)")
  have "find_file dir k = Some w"
    using create_json_keeps [OF assms(2), of "le_publish env 0" name "JDict payload"] c by simp
  moreover have "lf_outcomes fs' = dir"
    using assms(1) Inr a c by (cases q) (auto simp: record_verified_outcome_def dest: mirror_into_frame)
  ultimately show ?thesis by simp
qed

lemma hex_not_space: "is_hex s \<Longrightarrow> c \<in> set s \<Longrightarrow> \<not> is_space c"
proof -
  have "\<forall>c \<in> set ''0123456789abcdef''. \<not> is_space c" by (simp add: is_space_def code_def Let_def)
  then show "is_hex s \<Longrightarrow> c \<in> set s \<Longrightarrow> \<not> is_space c" unfolding is_hex_def list_all_iff by blast
qed

lemma strip_nonspace:
  assumes "\<forall>c \<in> set s. \<not> is_space c"
  shows "strip s = s"
proof -
  have "dropWhile is_space t = t" if "set t = set s" for t
    using assms that by (cases t) auto
  then show ?thesis by (simp add: strip_def rstrip_def lstrip_def)
qed

lemma record_id_strip: "record_path i = Inr n \<Longrightarrow> strip i = i \<and> i \<noteq> []"
  using hex_not_space strip_nonspace by (auto simp: record_path_Inr)

lemma record_path_inject: "record_path i = Inr n \<Longrightarrow> record_path j = Inr n \<Longrightarrow> i = j"
  by (auto simp: record_path_Inr)

lemma jget_or_JStr: "jget v k = JStr i \<Longrightarrow> jget_or v k e = JStr i"
  by (auto simp: jget_def jget_or_def split: option.splits)

lemma fold_add_record:
  assumes "distinct (map fst fs)" "record_path i = Inr n"
    and "\<And>n b v. (n, b) \<in> set fs \<Longrightarrow> load_json b = Some v \<Longrightarrow> \<exists>i. record_path i = Inr n \<and> jget v ''decision_id'' = JStr i"
  shows "dget (fold (add_record rt) fs recs) i =
    (case map_of fs n of None \<Rightarrow> dget recs i | Some b \<Rightarrow> (case load_json b of None \<Rightarrow> dget recs i | Some v \<Rightarrow> Some v))"
  using assms(1,3)
proof (induction fs arbitrary: recs)
  case (Cons f fs)
  obtain m b where f: "f = (m, b)" by (cases f)
  have hyp: "\<And>n b v. (n, b) \<in> set fs \<Longrightarrow> load_json b = Some v \<Longrightarrow> \<exists>i. record_path i = Inr n \<and> jget v ''decision_id'' = JStr i"
    using Cons.prems(2) by (meson list.set_intros(2))
  have IH: "dget (fold (add_record rt) fs recs) i = (case map_of fs n of None \<Rightarrow> dget recs i
      | Some b \<Rightarrow> (case load_json b of None \<Rightarrow> dget recs i | Some v \<Rightarrow> Some v))" for recs
    using Cons.prems(1) by (intro Cons.IH [OF _ hyp]) auto
  show ?case
  proof (cases "load_json b")
    case None
    have "add_record rt f recs = recs" using None f by (simp add: add_record_def)
    moreover have "map_of fs n = None" if "m = n"
      using Cons.prems(1) f that by (simp add: map_of_eq_None_iff)
    ultimately show ?thesis using IH [of recs] None f by (cases "m = n") simp_all
  next
    case (Some v)
    obtain j where j: "record_path j = Inr m" "jget v ''decision_id'' = JStr j"
      using Cons.prems(2) [of m b v] f Some by auto
    have add: "add_record rt f recs = dset recs j v"
      using Some f record_id_strip [OF j(1)] jget_or_JStr [OF j(2)] by (simp add: add_record_def)
    have jm: "j = i \<longleftrightarrow> m = n" using j(1) assms(2) record_path_inject by auto
    have no: "m = n \<Longrightarrow> map_of fs n = None"
      using Cons.prems(1) f by (auto simp: map_of_eq_None_iff)
    show ?thesis
      using IH [of "dset recs j v"] add jm no Some f
      by (cases "m = n") (auto split: option.splits)
  qed
qed simp

lemma read_records_lookup:
  assumes "dir_ok d" "record_path i = Inr n"
  shows "dget (read_records rt d) i = (case find_file d n of None \<Rightarrow> None | Some b \<Rightarrow> load_json b)"
proof -
  have wf: "dict_wf d" using assms(1) by (simp add: dir_ok_def)
  have "mset (map fst (dsort d)) = mset (map fst d)" by (simp add: dsort_def)
  then have dist: "distinct (map fst (dsort d))"
    using wf by (metis dict_wf_def dkeys_def mset_eq_imp_distinct_iff)
  have "dget (read_records rt d) i = (case map_of (dsort d) n of None \<Rightarrow> dget [] i
      | Some b \<Rightarrow> (case load_json b of None \<Rightarrow> dget [] i | Some v \<Rightarrow> Some v))"
    unfolding read_records_def
    by (rule fold_add_record [OF dist assms(2)]) (use assms(1) in \<open>auto simp: dir_ok_def dsort_def\<close>)
  then show ?thesis
    using dget_dsort [OF wf, of n] by (auto simp: find_file_def dget_def split: option.splits)
qed

lemma dir_ok_append:
  assumes "dir_ok d" "find_file d n = None" "record_path i = Inr n" "dict_wf payload" "jget payload ''decision_id'' = JStr i"
  shows "dir_ok (d @ [(n, Holds (sort_keys (JDict payload)))])"
proof -
  have "n \<notin> set (dkeys d)" using assms(2) by (simp add: set_dkeys_iff find_file_def)
  moreover have "jget (sort_key fst (map (map_prod id sort_keys) payload)) ''decision_id'' = JStr i"
    by (simp add: jget_sort_keys [OF assms(4)] assms(5))
  ultimately show ?thesis
    using assms(1,3) by (auto simp: dir_ok_def dict_wf_def dkeys_def load_json_def)
qed

lemma outcome_payload_simps [simp]:
  "dict_wf (outcome_payload env i s ev c m)"
  "jget (outcome_payload env i s ev c m) ''decision_id'' = JStr i"
  "jget (outcome_payload env i s ev c m) ''verified'' = JBool True"
  "jget (outcome_payload env i s ev c m) ''success'' = JBool s"
  "jget (outcome_payload env i s ev c m) ''reward'' = JFloat (Fin (vo_reward ev))"
  by (simp_all add: outcome_payload_def dict_wf_def dkeys_def dict_simps Let_def)

definition records_ok :: "learning_fs \<Rightarrow> bool" where
  "records_ok fs = (dir_ok (lf_decisions fs) \<and> dir_ok (lf_observations fs) \<and> dir_ok (lf_outcomes fs))"

lemma record_outcome_ok:
  assumes "record_verified_outcome rt env config i success source verifier digest reward cost metadata fs = (Inr p, fs')"
    and "records_ok fs"
  shows "records_ok fs'"
proof -
  obtain name payload where w:
      "outcome_record rt env i success source verifier digest reward cost metadata fs = Inr (name, payload)"
      "find_file (lf_outcomes fs) name = None"
      "lf_outcomes fs' = lf_outcomes fs @ [(name, Holds (sort_keys (JDict payload)))]"
      "lf_decisions fs' = lf_decisions fs" "lf_observations fs' = lf_observations fs"
    by (rule record_outcome_written [OF assms(1)])
  obtain dec ev where p: "record_path i = Inr name"
      "payload = outcome_payload env i success ev (strip (py_str rt (jget_or dec ''created_at'' (JStr [])))) metadata"
    by (rule outcome_record_Inr [OF w(1)])
  have "dir_ok (lf_outcomes fs)" using assms(2) by (simp add: records_ok_def)
  from dir_ok_append [OF this w(2) p(1), of payload] have "dir_ok (lf_outcomes fs')"
    by (simp add: w(3) p(2))
  then show ?thesis using assms(2) w(4,5) by (simp add: records_ok_def)
qed

text \<open>A recorded outcome shows up in the learning records, joined to its decision.\<close>

lemma recorded_outcome_row:
  assumes "record_verified_outcome rt env config i success source verifier digest reward cost metadata fs = (Inr p, fs')"
    and "records_ok fs"
  shows "\<exists>row \<in> set (load_learning_records rt fs'). jget row ''decision_id'' = JStr i
    \<and> (\<exists>out. jget row ''outcome'' = JDict out \<and> jget out ''verified'' = JBool True
         \<and> jget out ''success'' = JBool success)"
proof -
  obtain name payload where w:
      "outcome_record rt env i success source verifier digest reward cost metadata fs = Inr (name, payload)"
      "find_file (lf_outcomes fs) name = None"
      "lf_outcomes fs' = lf_outcomes fs @ [(name, Holds (sort_keys (JDict payload)))]"
      "lf_decisions fs' = lf_decisions fs" "lf_observations fs' = lf_observations fs"
    by (rule record_outcome_written [OF assms(1)])
  obtain dec ev where p: "record_path i = Inr name"
      "find_file (lf_decisions fs) name = Some (Holds (JDict dec))"
      "payload = outcome_payload env i success ev (strip (py_str rt (jget_or dec ''created_at'' (JStr [])))) metadata"
    by (rule outcome_record_Inr [OF w(1)])
  have ok: "records_ok fs'" by (rule record_outcome_ok [OF assms])
  define out where "out = sort_key fst (map (map_prod id sort_keys) payload)"
  have "find_file (lf_outcomes fs') name = Some (Holds (JDict out))"
    using w(2,3) by (simp add: find_file_def dget_append dget_Cons out_def)
  then have o: "dget (read_records rt (lf_outcomes fs')) i = Some out"
    using read_records_lookup [OF _ p(1), of "lf_outcomes fs'" rt] ok by (simp add: records_ok_def load_json_def)
  have d: "dget (read_records rt (lf_decisions fs')) i = Some dec"
    using read_records_lookup [OF _ p(1), of "lf_decisions fs'" rt] ok p(2) w(4) by (simp add: records_ok_def load_json_def)
  have "(name, Holds (JDict dec)) \<in> set (lf_decisions fs')" "load_json (Holds (JDict dec)) = Some dec"
    using p(2) w(4) by (auto simp: find_file_def dget_def load_json_def dest: map_of_SomeD)
  then obtain j where j: "record_path j = Inr name" "jget dec ''decision_id'' = JStr j"
    using ok unfolding records_ok_def dir_ok_def by blast
  have ji: "j = i" using record_path_inject [OF j(1) p(1)] .
  have mem: "(i, dec) \<in> set (dsort (read_records rt (lf_decisions fs')))"
    using d by (auto simp: dsort_def dget_def dest: map_of_SomeD)
  define row where "row = dset (dset dec ''observation'' (opt_json (dget (read_records rt (lf_observations fs')) i)))
      ''outcome'' (opt_json (dget (read_records rt (lf_outcomes fs')) i))"
  have "row \<in> set (load_learning_records rt fs')"
    using mem unfolding load_learning_records_def row_def Let_def by force
  moreover have "jget row ''decision_id'' = JStr i" using j ji by (simp add: row_def)
  moreover have "jget row ''outcome'' = JDict out" by (simp add: row_def o opt_json_def)
  moreover have "jget out ''verified'' = JBool True" "jget out ''success'' = JBool success"
    by (simp_all add: out_def p(3) jget_sort_keys)
  ultimately show ?thesis by blast
qed

end
