(* ===== verification/RuntimeProps.thy ===== *)
theory RuntimeProps
  imports DeploymentRuntime GuardrailProps LearningProps
begin

text \<open>
  What an assignment of \<open>deployment_runtime.py\<close> guarantees: the candidate arm is given out only for
  a verified live state with the approved traffic fraction, a rollback verdict always ends in the
  baseline, a rollback that succeeds is on disk, and the learner accepts what the runtime assigns.
\<close>

section \<open>Traffic of a live state\<close>

lemma live_expected:
  assumes "body_ok rt st key" "traffic_for_stage rt st stage = Inr t" "stage \<in> set LIVE_STAGES"
  obtains r where "t = Fin r" "1/100 \<le> r" "r \<le> 1/4"
proof (cases "stage = ''bounded''")
  case True
  have b: "bounded_invalid rt st = Inr False" using assms(1) by (simp add: body_ok_def)
  then have n: "is_number (jget st ''bounded_traffic_fraction'')"
    by (auto simp: bounded_invalid_def Let_def split: if_splits)
  then have "jget_or st ''bounded_traffic_fraction'' v = jget st ''bounded_traffic_fraction''" for v
    by (intro jget_or_eq_jget) (auto simp: is_number_def)
  with assms(2) True have "to_float rt (jget st ''bounded_traffic_fraction'') = Inr t"
    by (simp add: traffic_for_stage_def)
  with b n have bf: "bounded_fraction_ok t" by (simp add: bounded_invalid_def Let_def)
  obtain r where r: "t = Fin r" "0 \<le> r" "r \<le> 1/4" by (rule traffic_for_stage_bounds [OF assms(1,2)])
  have "1/10 < r" using bf r(1) by (simp add: bounded_fraction_ok_def)
  then show ?thesis using that [OF r(1)] r(3) by simp
next
  case False
  then have "stage = ''canary_1'' \<or> stage = ''canary_5'' \<or> stage = ''canary_10''"
    using assms(3) by (auto simp: LIVE_STAGES_def)
  then have "t = Fin (1/100) \<or> t = Fin (5/100) \<or> t = Fin (1/10)"
    using assms(2) False by (auto simp: traffic_for_stage_def STAGE_TRAFFIC_def dget_Cons)
  then show ?thesis using that [of "1/100"] that [of "5/100"] that [of "1/10"] by auto
qed

lemma live_traffic:
  assumes "state_ok rt st key" "state_stage rt st \<in> set LIVE_STAGES"
    and "to_float rt (jget_or st ''traffic_fraction'' v) = Inr (Fin p)"
  shows "1/100 - 1/10^12 \<le> p \<and> p \<le> 1/4 + 1/10^12"
proof -
  have b: "body_ok rt st key" using assms(1) by (simp add: state_ok_def)
  have live: "state_stage rt st \<in> set DEPLOYMENT_STAGES"
    using assms(2) by (auto simp: LIVE_STAGES_def DEPLOYMENT_STAGES_def)
  have tm: "traffic_mismatch rt st = Inr False" using b by (simp add: body_ok_def)
  then obtain t where t: "traffic_for_stage rt st (state_stage rt st) = Inr t"
    using live by (auto simp: traffic_mismatch_def Let_def rbind_Inr_iff)
  have n: "is_number (jget st ''traffic_fraction'')"
    using tm live t by (auto simp: traffic_mismatch_def Let_def split: if_splits)
  then have "jget_or st ''traffic_fraction'' v = jget st ''traffic_fraction''"
    by (intro jget_or_eq_jget) (auto simp: is_number_def)
  then have a: "to_float rt (jget st ''traffic_fraction'') = Inr (Fin p)" using assms(3) by simp
  obtain r where r: "t = Fin r" "1/100 \<le> r" "r \<le> 1/4" by (rule live_expected [OF b t assms(2)])
  have "\<not> fl_lt (Fin (1 / 10 ^ 12)) (fl_abs (fl_sub (Fin p) t))"
    using tm live t n a by (simp add: traffic_mismatch_def Let_def)
  then have "\<bar>p - r\<bar> \<le> 1 / 10 ^ 12" by (simp add: r(1) fl_sub_def)
  then have "r - 1 / 10 ^ 12 \<le> p" "p \<le> r + 1 / 10 ^ 12" by (simp_all only: abs_le_iff) linarith+
  then show ?thesis using r(2,3) by linarith
qed

section \<open>Arms\<close>

lemma target_arm_safe: "fst (target_arm rt st f) \<in> set SAFE_EXPLORATION_ARMS"
  by (simp add: target_arm_def Let_def split: json.split sum.split)

lemma baseline_fields [simp]:
  "jget (baseline_assignment reason st c t) ''chosen_arm'' = JStr BASELINE_ARM"
  "jget_or (baseline_assignment reason st c t) ''chosen_arm'' v = JStr BASELINE_ARM"
  "jget (baseline_assignment reason st c t) ''arm_propensities'' = JDict [(BASELINE_ARM, JFloat (Fin 1))]"
  by (simp_all add: baseline_assignment_def dict_simps)

lemma canary_fields [simp]:
  "jget (canary_assignment rt env st key target k p g) ''chosen_arm'' =
     JStr (if assignment_fraction rt env key (py_str rt (jget_or st ''policy_id'' (JStr []))) < p then target else BASELINE_ARM)"
  "jget_or (canary_assignment rt env st key target k p g) ''chosen_arm'' v =
     JStr (if assignment_fraction rt env key (py_str rt (jget_or st ''policy_id'' (JStr []))) < p then target else BASELINE_ARM)"
  "jget (canary_assignment rt env st key target k p g) ''arm_propensities'' =
     JDict [(BASELINE_ARM, JFloat (Fin (round_to 12 (1 - p)))), (target, JFloat (Fin (round_to 12 p)))]"
  by (simp_all add: canary_assignment_def Let_def dict_simps)

section \<open>The branches of the resolution\<close>

lemma assign_live_cases:
  assumes "assign_live rt env query decision intent changed roots key st = Inr a"
  obtains (base) reason c t where "a = baseline_assignment reason st c t"
  | (canary) target k p g where "jget st ''stage'' \<in> JStr ` set LIVE_STAGES" "rd_risk decision = Low"
      "target_arm rt st (build_context_features query decision intent changed roots) = (target, k)"
      "target \<noteq> BASELINE_ARM"
      "to_float rt (jget_or st ''traffic_fraction'' (JFloat (Fin 0))) = Inr (Fin p)" "in_unit p"
      "a = canary_assignment rt env st key target k p g"
proof -
  obtain live where l: "in_frozenset (jget st ''stage'') LIVE_STAGES = Inr live"
    using assms by (auto simp: assign_live_def rbind_Inr_iff)
  obtain target k where t: "target_arm rt st (build_context_features query decision intent changed roots) = (target, k)"
    by (cases "target_arm rt st (build_context_features query decision intent changed roots)")
  show ?thesis
  proof (cases "\<not> live \<or> rd_risk decision \<noteq> Low \<or> target = BASELINE_ARM")
    case True
    then show ?thesis using assms l t base
      by (auto simp: assign_live_def Let_def split: if_splits)
  next
    case False
    obtain x where x: "to_float rt (jget_or st ''traffic_fraction'' (JFloat (Fin 0))) = Inr x"
      using assms l t False by (auto simp: assign_live_def Let_def rbind_Inr_iff)
    have lv: "jget st ''stage'' \<in> JStr ` set LIVE_STAGES"
      using l False by (auto simp: in_frozenset_def split: json.splits)
    have rest: "(case x of Fin p \<Rightarrow> if in_unit p
                then rbind (to_int (jget st ''generation'')) (\<lambda>generation.
                  Inr (canary_assignment rt env st key target k p generation))
                else Inr (baseline_assignment ''deployment_traffic_fraction_invalid'' st k (Some target))
            | _ \<Rightarrow> Inr (baseline_assignment ''deployment_traffic_fraction_invalid'' st k (Some target))) = Inr a"
      using assms l t False x by (simp add: assign_live_def Let_def)
    show ?thesis
    proof (cases x)
      case (Fin p)
      show ?thesis
      proof (cases "in_unit p")
        case True
        then obtain g where "a = canary_assignment rt env st key target k p g"
          using rest Fin by (auto simp: rbind_Inr_iff)
        then show ?thesis using canary [OF lv _ t] False x Fin True by blast
      next
        case F: False
        then show ?thesis using rest Fin base by force
      qed
    qed (use rest base in auto)
  qed
qed

lemma auto_rollback_quiet:
  assumes "auto_rollback rt env config st key fs = (Inr (st', report), fs')" "\<not> wants_rollback report"
  shows "st' = st \<and> fs' = fs"
proof -
  obtain live where l: "in_frozenset (jget st ''stage'') LIVE_STAGES = Inr live"
    using assms(1) by (auto simp: auto_rollback_def split: sum.splits)
  show ?thesis
  proof (cases "\<not> live \<or> \<not> truthy (jget_or (deployment_config config) ''auto_rollback'' (JBool True))")
    case True
    then show ?thesis using assms(1) l by (auto simp: auto_rollback_def)
  next
    case False
    obtain rep where rep: "evaluate_live_guardrails rt (re_radius env) (re_draw env)
        (load_learning_records rt (rf_learning fs)) st key = Inr rep"
      using assms(1) l False by (auto simp: auto_rollback_def split: sum.splits)
    have eq: "auto_rollback rt env config st key fs = (case jget rep ''gate'' of
                 JDict gate \<Rightarrow>
                   (if \<not> truthy (jget gate ''rollback_required'') then (Inr (st, Some rep), fs)
                    else case perform_rollback rt env config st rep key (rollback_reason rt gate) fs of
                      (Inr rolled_back, fs') \<Rightarrow> (Inr (rolled_back, Some rep), fs')
                    | (Inl e, fs') \<Rightarrow>
                        (if rollback_catches e then Inr (st, Some rep) else Inl e, fs'))
               | _ \<Rightarrow> (Inr (st, Some rep), fs))"
      using l False rep by (simp add: auto_rollback_def)
    show ?thesis
    proof (cases "wants_rollback (Some rep)")
      case True
      then obtain gate where g: "jget rep ''gate'' = JDict gate" "truthy (jget gate ''rollback_required'')"
        by (auto simp: wants_rollback_def split: json.splits)
      obtain r fs1 where p: "perform_rollback rt env config st rep key (rollback_reason rt gate) fs = (r, fs1)"
        by (cases "perform_rollback rt env config st rep key (rollback_reason rt gate) fs")
      have "report = Some rep"
        using assms(1) eq g p by (cases r) (auto split: if_splits)
      then show ?thesis using assms(2) True by simp
    next
      case F: False
      then show ?thesis
        using assms(1) eq by (auto simp: wants_rollback_def split: json.splits)
    qed
  qed
qed

text \<open>Every answer is a baseline assignment, or the assignment of a state that verifies and needs
  no rollback.\<close>

lemma resolve_cases:
  assumes "resolve_runtime_deployment rt env query decision intent config changed roots fs = (Inr (Some a), fs')"
  obtains (base) reason st c t where "a = baseline_assignment reason st c t"
  | (assigned) st key where "deployment_enabled config"
      "\<not> learning_kill_switch (re_getenv env ''AI_WORKFLOW_LEARNING_KILL_SWITCH'') config"
      "key = signing_key_of rt env config" "key \<noteq> []"
      "load_deployment_state (rf_deployment fs) = Inr st" "state_ok rt st key" "fs' = fs"
      "\<exists>report. auto_rollback rt env config st key fs = (Inr (st, report), fs) \<and> \<not> wants_rollback report"
      "assign_live rt env query decision intent changed roots key st = Inr a"
proof -
  let ?kill = "learning_kill_switch (re_getenv env ''AI_WORKFLOW_LEARNING_KILL_SWITCH'') config"
  let ?key = "signing_key_of rt env config"
  have en: "deployment_enabled config" using assms by (auto simp: resolve_runtime_deployment_def Let_def split: if_splits)
  show ?thesis
  proof (cases "?kill \<or> (\<exists>e. state_path rt env config = Inl e) \<or> ?key = []
      \<or> (\<exists>e. load_deployment_state (rf_deployment fs) = Inl e)")
    case True
    then show ?thesis
      using assms en base by (fastforce simp: resolve_runtime_deployment_def Let_def split: if_splits sum.splits)
  next
    case False
    then obtain p st where p: "state_path rt env config = Inr p" "load_deployment_state (rf_deployment fs) = Inr st"
      "\<not> ?kill" "?key \<noteq> []" by (metis sum.exhaust)
    obtain v where v: "state_valid rt st ?key = Inr v"
      using assms en p by (auto simp: resolve_runtime_deployment_def Let_def split: sum.splits)
    show ?thesis
    proof (cases v)
      case False
      then show ?thesis using assms en p v base by (auto simp: resolve_runtime_deployment_def Let_def)
    next
      case True
      obtain r fs1 where ar: "auto_rollback rt env config st ?key fs = (r, fs1)"
        by (cases "auto_rollback rt env config st ?key fs")
      obtain st' report where r: "r = Inr (st', report)"
        using assms en p v True ar by (cases r) (auto simp: resolve_runtime_deployment_def Let_def)
      show ?thesis
      proof (cases "wants_rollback report")
        case w: True
        then show ?thesis using assms en p v True ar r base
          by (auto simp: resolve_runtime_deployment_def Let_def)
      next
        case w: False
        have q: "st' = st" "fs1 = fs" using auto_rollback_quiet ar r w by blast+
        have a: "assign_live rt env query decision intent changed roots ?key st = Inr a" "fs' = fs"
          using assms en p v True ar r w q
          by (auto simp: resolve_runtime_deployment_def Let_def rbind_Inr_iff)
        show ?thesis
        proof (rule assigned [OF en p(3) refl p(4) p(2)])
          show "state_ok rt st ?key" using v True state_valid_iff by simp
        qed (use a ar r w q in blast)+
      qed
    qed
  qed
qed

text \<open>The candidate arm is only ever given out under these conditions.\<close>

lemma candidate_conditions:
  assumes "resolve_runtime_deployment rt env query decision intent config changed roots fs = (Inr (Some a), fs')"
    and "jget a ''chosen_arm'' = JStr arm" "arm \<noteq> BASELINE_ARM"
  shows "deployment_enabled config
    \<and> \<not> learning_kill_switch (re_getenv env ''AI_WORKFLOW_LEARNING_KILL_SWITCH'') config
    \<and> rd_risk decision = Low \<and> arm \<in> set SAFE_EXPLORATION_ARMS \<and> fs' = fs
    \<and> (\<exists>st key p. key = signing_key_of rt env config \<and> load_deployment_state (rf_deployment fs) = Inr st
         \<and> state_ok rt st key \<and> state_stage rt st \<in> set LIVE_STAGES
         \<and> to_float rt (jget_or st ''traffic_fraction'' (JFloat (Fin 0))) = Inr (Fin p) \<and> p \<le> 1/4 + 1/10^12
         \<and> assignment_fraction rt env key (py_str rt (jget_or st ''policy_id'' (JStr []))) < p)"
  using assms(1)
proof (cases rule: resolve_cases)
  case (base reason st c t)
  then show ?thesis using assms(2,3) by simp
next
  case (assigned st key)
  from assigned(9) show ?thesis
  proof (cases rule: assign_live_cases)
    case (base reason c t)
    then show ?thesis using assms(2,3) by simp
  next
    case (canary target k p g)
    have b: "assignment_fraction rt env key (py_str rt (jget_or st ''policy_id'' (JStr []))) < p" "arm = target"
      using assms(2,3) canary(7) by (auto split: if_splits)
    have st: "state_stage rt st \<in> set LIVE_STAGES"
      using canary(1) by (auto simp: state_stage_def jget_or_JStr)
    have "arm \<in> set SAFE_EXPLORATION_ARMS"
      using target_arm_safe [of rt st "build_context_features query decision intent changed roots"] canary(3) b(2) by simp
    then show ?thesis
      using assigned canary(2,5) b st live_traffic [OF assigned(6) st canary(5)] by blast
  qed
qed

section \<open>The learner accepts the runtime's assignments\<close>

lemma round_to_error: "\<bar>round_to n r - r\<bar> \<le> 1 / (2 * 10 ^ n)"
proof -
  define x where "x = rat_of_int (round_half_even (r * 10 ^ n))"
  have "\<bar>x - r * 10 ^ n\<bar> \<le> 1/2" unfolding x_def by (rule round_half_even_bound)
  then have "\<bar>x - r * 10 ^ n\<bar> / 10 ^ n \<le> (1/2) / 10 ^ n" by (intro divide_right_mono) auto
  moreover have "round_to n r - r = (x - r * 10 ^ n) / 10 ^ n"
    by (simp add: round_to_def x_def diff_divide_distrib)
  ultimately show ?thesis by (simp add: abs_divide)
qed

lemma parse_two:
  assumes "a \<in> set SAFE_EXPLORATION_ARMS" "b \<in> set SAFE_EXPLORATION_ARMS" "a \<noteq> b"
    and "0 \<le> x" "x \<le> 1" "0 \<le> y" "y \<le> 1"
  shows "parse_propensities [(a, JFloat (Fin x)), (b, JFloat (Fin y))] [] = Inr (True, [(a, x), (b, y)])"
  using assms by (simp add: Let_def safe_arm_strip)

lemma assignment_choice_baseline:
  "assignment_choice rt r (baseline_assignment reason st c t) = Inr (Some (BASELINE_ARM, [(BASELINE_ARM, 1)]))"
  by (simp add: assignment_choice_def Let_def safe_arm_strip mass_ok_def dget_Cons)

lemma rounded_masses:
  assumes "1/100 - 1/10^12 \<le> p" "p \<le> 1/4 + 1/10^12"
  shows "0 < round_to 12 p \<and> 0 < round_to 12 (1 - p)
    \<and> \<bar>round_to 12 (1 - p) + round_to 12 p - 1\<bar> \<le> 1 / 10 ^ 9"
proof -
  define e :: rat where "e = 1 / (2 * 10 ^ 12)"
  have c: "1 / 10 ^ 12 = 2 * e" "0 < e" "e < 1/1000" "2 * e \<le> 1 / 10 ^ 9" by (simp_all add: e_def)
  have "\<bar>round_to 12 p - p\<bar> \<le> e" "\<bar>round_to 12 (1 - p) - (1 - p)\<bar> \<le> e"
    unfolding e_def by (rule round_to_error)+
  then have b: "p - e \<le> round_to 12 p" "round_to 12 p \<le> p + e"
    "(1 - p) - e \<le> round_to 12 (1 - p)" "round_to 12 (1 - p) \<le> (1 - p) + e"
    by (simp_all only: abs_le_iff) linarith+
  have p: "1/100 - 2 * e \<le> p" "p \<le> 1/4 + 2 * e" using assms unfolding c(1) .
  have "0 < round_to 12 p" using b(1) p(1) c(3) by linarith
  moreover have "0 < round_to 12 (1 - p)" using b(3) p(2) c(3) by linarith
  moreover have "round_to 12 (1 - p) + round_to 12 p - 1 \<le> 2 * e"
    "- (round_to 12 (1 - p) + round_to 12 p - 1) \<le> 2 * e" using b by linarith+
  then have "\<bar>round_to 12 (1 - p) + round_to 12 p - 1\<bar> \<le> 1 / 10 ^ 9"
    using c(4) unfolding abs_le_iff by linarith
  ultimately show ?thesis by blast
qed

lemma assignment_accepted:
  assumes "resolve_runtime_deployment rt env query decision intent config changed roots fs = (Inr (Some a), fs')"
  shows "\<exists>arm parsed. jget a ''chosen_arm'' = JStr arm
    \<and> assignment_choice rt (rd_risk decision) a = Inr (Some (arm, parsed))"
  using assms
proof (cases rule: resolve_cases)
  case (base reason st c t)
  then show ?thesis by (simp add: assignment_choice_baseline)
next
  case (assigned st key)
  from assigned(9) show ?thesis
  proof (cases rule: assign_live_cases)
    case (base reason c t)
    then show ?thesis by (simp add: assignment_choice_baseline)
  next
    case (canary target k p g)
    define bucket where "bucket = assignment_fraction rt env key (py_str rt (jget_or st ''policy_id'' (JStr [])))"
    define arm where "arm = (if bucket < p then target else BASELINE_ARM)"
    define parsed where "parsed = [(BASELINE_ARM, round_to 12 (1 - p)), (target, round_to 12 p)]"
    have safe: "target \<in> set SAFE_EXPLORATION_ARMS"
      using target_arm_safe [of rt st "build_context_features query decision intent changed roots"] canary(3) by simp
    then have arm: "arm \<in> set SAFE_EXPLORATION_ARMS" by (simp add: arm_def)
    have u: "0 \<le> p" "p \<le> 1" using canary(6) by (auto simp: in_unit_def)
    have ru: "0 \<le> round_to 12 p" "round_to 12 p \<le> 1" "0 \<le> round_to 12 (1 - p)" "round_to 12 (1 - p) \<le> 1"
      using round_to_unit u by auto
    have st: "state_stage rt st \<in> set LIVE_STAGES"
      using canary(1) by (auto simp: state_stage_def jget_or_JStr)
    have tr: "1/100 - 1/10^12 \<le> p" "p \<le> 1/4 + 1/10^12"
      using live_traffic [OF assigned(6) st canary(5)] by auto
    have pr: "parse_propensities [(BASELINE_ARM, JFloat (Fin (round_to 12 (1 - p)))), (target, JFloat (Fin (round_to 12 p)))] []
        = Inr (True, parsed)"
      unfolding parsed_def using parse_two [OF baseline_is_safe safe] canary(4) ru by metis
    have m: "mass_ok parsed arm"
      using rounded_masses [OF tr] canary(4) by (auto simp: mass_ok_def parsed_def arm_def dget_Cons not_less)
    have "jget a ''chosen_arm'' = JStr arm"
      by (simp add: canary(7) arm_def bucket_def)
    moreover have "jget_or a ''chosen_arm'' v = JStr arm" for v
      by (simp add: canary(7) arm_def bucket_def)
    moreover have "jget a ''arm_propensities'' = JDict [(BASELINE_ARM, JFloat (Fin (round_to 12 (1 - p)))), (target, JFloat (Fin (round_to 12 p)))]"
      by (simp add: canary(7))
    ultimately show ?thesis
      using arm pr m canary(2) by (simp add: assignment_choice_def Let_def safe_arm_strip)
  qed
qed

section \<open>Automatic rollback\<close>

lemma mirror_runtime_frame:
  assumes "mirror_runtime rt env n config kind payload fs = (r, fs')"
  shows "rf_deployment fs' = rf_deployment fs \<and> rf_incidents fs' = rf_incidents fs"
  using assms by (auto simp: mirror_runtime_def split: prod.splits)

lemma incident_frame:
  assumes "incident_of_rollback rt env config rb report key reason fs = (r, fs')"
  shows "rf_deployment fs' = rf_deployment fs"
  using assms mirror_runtime_frame
  by (fastforce simp: incident_of_rollback_def Let_def split: sum.splits prod.splits)

text \<open>A rollback that is reported as done is the document on disk.\<close>

lemma perform_rollback_done:
  assumes "perform_rollback rt env config st report key reason fs = (Inr rb, fs')"
  shows "fs_state (rf_deployment fs') = stored rb
    \<and> (io_removal (pe_io (re_process env)) = Removed \<longrightarrow> fs_lock (rf_deployment fs') = None)
    \<and> (\<exists>cur now. load_deployment_state (rf_deployment fs) = Inr cur
        \<and> to_int (jget cur ''generation'') = to_int (jget st ''generation'')
        \<and> transition_deployment_state rt now cur key ''rolled_back'' ''runtime:auto-rollback'' JNull (Some reason) = Inr rb)"
proof -
  obtain g where g: "to_int (jget st ''generation'') = Inr g"
    using assms by (auto simp: perform_rollback_def split: sum.splits)
  obtain r d where u: "update_deployment_state_file rt (re_process env) key ''rolled_back''
      ''runtime:auto-rollback'' (Some g) JNull (Some reason) (rf_deployment fs) = (r, d)"
    by (cases "update_deployment_state_file rt (re_process env) key ''rolled_back''
      ''runtime:auto-rollback'' (Some g) JNull (Some reason) (rf_deployment fs)")
  obtain rb' where r: "r = Inr rb'" using assms g u by (cases r) (auto simp: perform_rollback_def)
  obtain m fs1 where m: "mirror_runtime rt env 0 config ''deployment_state'' rb' (fs\<lparr>rf_deployment := d\<rparr>) = (m, fs1)"
    by (cases "mirror_runtime rt env 0 config ''deployment_state'' rb' (fs\<lparr>rf_deployment := d\<rparr>)")
  obtain m' where m': "m = Inr m'" using assms g u r m by (cases m) (auto simp: perform_rollback_def)
  have d: "rf_deployment fs1 = d" using mirror_runtime_frame [OF m] by simp
  have fin: "rb = rb' \<and> rf_deployment fs' = d"
  proof (cases "truthy (jget_or (deployment_config config) ''incident_bundles'' (JBool True))")
    case False
    then show ?thesis using assms g u r m m' d by (simp add: perform_rollback_def)
  next
    case True
    obtain q fs2 where q: "incident_of_rollback rt env config rb' report key reason fs1 = (q, fs2)"
      by (cases "incident_of_rollback rt env config rb' report key reason fs1")
    then show ?thesis
      using assms g u r m m' d True incident_frame [OF q] by (auto simp: perform_rollback_def rbind_Inr_iff)
  qed
  from u show ?thesis
  proof (cases rule: update_file_cases)
    case (unchanged e)
    then show ?thesis using r by simp
  next
    case (written v es)
    have v: "v = rb'" using written(4) r by auto
    have "\<exists>cur. load_deployment_state (rf_deployment fs) = Inr cur
        \<and> to_int (jget cur ''generation'') = Inr g
        \<and> transition_deployment_state rt (pe_now (re_process env)) cur key ''rolled_back'' ''runtime:auto-rollback'' JNull (Some reason) = Inr v"
      using written(1) by (auto simp: compute_update_def rbind_Inr_iff guard_that_Inr_iff)
    then show ?thesis using fin v g written(2,5) by auto
  qed
qed

text \<open>Whatever a rollback returns, the document on disk is the one before or a rolled-back one.\<close>

lemma perform_rollback_disk:
  assumes "perform_rollback rt env config st report key reason fs = (r, fs')"
  shows "fs_state (rf_deployment fs') = fs_state (rf_deployment fs)
    \<or> (\<exists>rb. fs_state (rf_deployment fs') = stored rb \<and> state_ok rt rb key \<and> state_stage rt rb = ''rolled_back'')"
proof (cases "to_int (jget st ''generation'')")
  case (Inl e)
  then show ?thesis using assms by (simp add: perform_rollback_def)
next
  case (Inr g)
  obtain q d where u: "update_deployment_state_file rt (re_process env) key ''rolled_back''
      ''runtime:auto-rollback'' (Some g) JNull (Some reason) (rf_deployment fs) = (q, d)" by fastforce
  have "rf_deployment fs' = d"
    using assms u Inr mirror_runtime_frame incident_frame
    by (fastforce simp: perform_rollback_def split: sum.splits prod.splits if_splits)
  moreover from u have "fs_state d = fs_state (rf_deployment fs)
    \<or> (\<exists>rb. fs_state d = stored rb \<and> state_ok rt rb key \<and> state_stage rt rb = ''rolled_back'')"
  proof (cases rule: update_file_cases)
    case (written v es)
    then obtain cur now where tr: "transition_deployment_state rt now cur key ''rolled_back'' ''runtime:auto-rollback'' JNull (Some reason) = Inr v"
      by (auto simp: compute_update_def rbind_Inr_iff guard_that_Inr_iff)
    have "state_stage rt v = ''rolled_back''" using transition_effect(1) [OF tr]
      by (simp add: strip_def rstrip_def lstrip_def is_space_def code_def)
    then show ?thesis using transition_ok [OF tr] written(2) by blast
  qed simp
  ultimately show ?thesis by simp
qed

text \<open>When the guardrails of a live deployment ask for a rollback the request gets the baseline arm, whatever becomes of the
  rollback; or the exception is of a class that no branch of the code catches.\<close>

lemma demanded_rollback:
  assumes "auto_rollback rt env config st key fs = (ar, fs1)"
    and "jget st ''stage'' \<in> JStr ` set LIVE_STAGES" "truthy (jget_or (deployment_config config) ''auto_rollback'' (JBool True))"
    and "evaluate_live_guardrails rt (re_radius env) (re_draw env) (load_learning_records rt (rf_learning fs)) st key = Inr report"
    and "wants_rollback (Some report)"
  shows "((\<exists>st'. ar = Inr (st', Some report)) \<or> (\<exists>e. ar = Inl e \<and> \<not> rollback_catches e))
    \<and> (fs_state (rf_deployment fs1) = fs_state (rf_deployment fs)
       \<or> (\<exists>rb. fs_state (rf_deployment fs1) = stored rb \<and> state_ok rt rb key \<and> state_stage rt rb = ''rolled_back''))"
proof -
  obtain gate where g: "jget report ''gate'' = JDict gate" "truthy (jget gate ''rollback_required'')"
    using assms(5) by (auto simp: wants_rollback_def split: json.splits)
  obtain q fs2 where p: "perform_rollback rt env config st report key (rollback_reason rt gate) fs = (q, fs2)" by fastforce
  have "in_frozenset (jget st ''stage'') LIVE_STAGES = Inr True" using assms(2) by (auto simp: in_frozenset_def)
  then have "((\<exists>st'. ar = Inr (st', Some report)) \<or> (\<exists>e. ar = Inl e \<and> \<not> rollback_catches e)) \<and> fs1 = fs2"
    using assms(1,3,4) g p by (cases q) (auto simp: auto_rollback_def split: if_splits)
  then show ?thesis using perform_rollback_disk [OF p] by simp
qed

lemma rollback_ends_in_baseline:
  assumes "deployment_enabled config"
    and "load_deployment_state (rf_deployment fs) = Inr st" "state_valid rt st (signing_key_of rt env config) = Inr True"
    and "jget st ''stage'' \<in> JStr ` set LIVE_STAGES" "truthy (jget_or (deployment_config config) ''auto_rollback'' (JBool True))"
    and "evaluate_live_guardrails rt (re_radius env) (re_draw env) (load_learning_records rt (rf_learning fs)) st
      (signing_key_of rt env config) = Inr report"
    and "wants_rollback (Some report)"
    and "resolve_runtime_deployment rt env query decision intent config changed roots fs = (r, fs')"
  shows "((\<exists>a. r = Inr (Some a) \<and> jget a ''chosen_arm'' = JStr BASELINE_ARM) \<or> (\<exists>e. r = Inl e \<and> \<not> rollback_catches e))
    \<and> (fs_state (rf_deployment fs') = fs_state (rf_deployment fs)
       \<or> (\<exists>rb. fs_state (rf_deployment fs') = stored rb \<and> state_ok rt rb (signing_key_of rt env config)
            \<and> state_stage rt rb = ''rolled_back''))"
proof -
  let ?key = "signing_key_of rt env config"
  obtain ar fs1 where ar: "auto_rollback rt env config st ?key fs = (ar, fs1)" by fastforce
  have d: "((\<exists>st'. ar = Inr (st', Some report)) \<or> (\<exists>e. ar = Inl e \<and> \<not> rollback_catches e))
    \<and> (fs_state (rf_deployment fs1) = fs_state (rf_deployment fs)
       \<or> (\<exists>rb. fs_state (rf_deployment fs1) = stored rb \<and> state_ok rt rb ?key \<and> state_stage rt rb = ''rolled_back''))"
    by (rule demanded_rollback [OF ar assms(4-7)])
  show ?thesis
  proof (cases "learning_kill_switch (re_getenv env ''AI_WORKFLOW_LEARNING_KILL_SWITCH'') config \<or> ?key = []
      \<or> (\<exists>e. state_path rt env config = Inl e)")
    case True
    then show ?thesis using assms(1,2,8) by (auto simp: resolve_runtime_deployment_def Let_def split: if_splits sum.splits)
  next
    case False
    then obtain p where "state_path rt env config = Inr p" by (metis sum.exhaust)
    then have "(case (ar, fs1) of (Inl e, fs') \<Rightarrow> (Inl e, fs')
        | (Inr (state', rep), fs') \<Rightarrow>
            (if wants_rollback rep then (Inr (Some (baseline_assignment ''deployment_auto_rollback'' state' None None)), fs')
             else (rbind (assign_live rt env query decision intent changed roots ?key state') (\<lambda>a. Inr (Some a)), fs'))) = (r, fs')"
      using assms(1-3,8) False ar by (simp add: resolve_runtime_deployment_def)
    moreover have "(\<exists>st'. ar = Inr (st', Some report)) \<or> (\<exists>e. ar = Inl e \<and> \<not> rollback_catches e)" using d by blast
    ultimately have "fs' = fs1" "(\<exists>a. r = Inr (Some a) \<and> jget a ''chosen_arm'' = JStr BASELINE_ARM) \<or> (\<exists>e. r = Inl e \<and> \<not> rollback_catches e)"
      using assms(7) by auto
    then show ?thesis using d by blast
  qed
qed

end
