(* ===== verification/Examples.thy ===== *)
theory Examples
  imports DeploymentRuns
begin

text \<open>
  Concrete documents for the witnesses: a process runtime with constant digests, a policy report,
  the manifest and the deployment states made from it.
\<close>

definition demo_rt :: runtime where
  "demo_rt = \<lparr>rt_sha256 = (\<lambda>_. replicate 32 (CHR ''a'')), rt_hmac = (\<lambda>_ _. replicate 32 (CHR 0x00)),
     rt_float_repr = (\<lambda>_. ''0.5''), rt_parse_float = (\<lambda>_. None)\<rparr>"

definition demo_key :: string where
  "demo_key = ''k''"

lemma demo_key_nonempty [simp]: "demo_key \<noteq> []"
  by (simp add: demo_key_def)

text \<open>The context of a small-lane task under the single field \<open>lane\<close>.\<close>

definition demo_context :: string where
  "demo_context = ''{'' @ [CHR 0x22] @ ''lane'' @ [CHR 0x22] @ '':'' @ [CHR 0x22] @ ''small'' @ [CHR 0x22] @ ''}''"

definition demo_report :: "json dict" where
  "demo_report = [(''scope'', JStr ''contextual-retrieval-policy-development''),
     (''promotion'', JDict [(''eligible_for_shadow'', JBool True)]),
     (''feature_schema_version'', JStr FEATURE_SCHEMA_VERSION),
     (''context_fields'', JList [JStr ''lane'']),
     (''development_policy'', JDict [(demo_context, JStr ''bm25_rank'')]),
     (''evidence_cutoff'', JStr ''c1'')]"

definition demo_manifest :: "json dict" where
  "demo_manifest = (case create_policy_manifest demo_rt ''t0'' demo_report demo_key of Inr m \<Rightarrow> m | Inl _ \<Rightarrow> [])"

lemma demo_sized: "sha256_sized demo_rt"
  by (simp add: sha256_sized_def demo_rt_def)

lemma demo_fields: "validate_context_fields demo_rt [JStr ''lane''] = Inr [''lane'']"
  by (simp add: validate_context_fields_def Let_def FEATURE_FIELDS_def strip_def rstrip_def lstrip_def
      is_space_def code_def uniq_def)

lemma demo_policy: "validate_policy demo_rt (JDict [(demo_context, JStr ''bm25_rank'')]) = Inr [(demo_context, ''bm25_rank'')]"
  by (simp add: validate_policy_def Let_def demo_context_def SAFE_EXPLORATION_ARMS_def strip_def
      rstrip_def lstrip_def is_space_def code_def dsort_def)

lemma demo_created: "create_policy_manifest demo_rt ''t0'' demo_report demo_key = Inr demo_manifest"
proof -
  have "\<exists>m. create_policy_manifest demo_rt ''t0'' demo_report demo_key = Inr m"
    by (simp add: create_policy_manifest_def demo_report_def dict_simps demo_fields demo_policy demo_key_def
        sign_manifest_def Let_def strip_def rstrip_def lstrip_def is_space_def code_def)
  then show ?thesis by (auto simp: demo_manifest_def)
qed

lemma demo_manifest_ok: "manifest_errors demo_rt demo_manifest demo_key = Inr []"
  by (rule created_manifest_errors [OF demo_created demo_sized])

lemma demo_manifest_fields:
  "jget demo_manifest ''context_fields'' = JList [JStr ''lane'']"
  "jget demo_manifest ''policy'' = JDict [(demo_context, JStr ''bm25_rank'')]"
  "jget demo_manifest ''evidence_cutoff'' = JStr ''c1''"
proof -
  have m: "demo_manifest = dset (manifest_body demo_rt ''t0'' demo_report [''lane''] [(demo_context, ''bm25_rank'')] ''c1'')
      ''signature'' (signature_entry demo_rt (manifest_body demo_rt ''t0'' demo_report [''lane''] [(demo_context, ''bm25_rank'')] ''c1'') demo_key)"
    using demo_created
    by (simp add: create_policy_manifest_def demo_report_def dict_simps demo_fields demo_policy demo_key_def
        sign_manifest_def Let_def strip_def rstrip_def lstrip_def is_space_def code_def)
  show "jget demo_manifest ''context_fields'' = JList [JStr ''lane'']"
    "jget demo_manifest ''policy'' = JDict [(demo_context, JStr ''bm25_rank'')]"
    "jget demo_manifest ''evidence_cutoff'' = JStr ''c1''"
    by (simp_all add: m manifest_body_def Let_def dict_simps)
qed

section \<open>The deployment\<close>

definition demo_shadow :: "json dict" where
  "demo_shadow = [(''policy_id'', jget demo_manifest ''policy_id''),
     (''evidence_cutoff'', JStr ''c1''),
     (''shadow_gate'', JDict [(''eligible_for_manual_promotion_review'', JBool True)]),
     (''manifest_verification'', JDict [(''valid'', JBool True)]),
     (''execution'', JDict [(''policy_received_runtime_traffic'', JBool False)])]"

definition demo_approved :: "json dict" where
  "demo_approved = (case create_deployment_state demo_rt ''t1'' [] demo_manifest demo_shadow demo_key ''ops''
     default_params of Inr s \<Rightarrow> s | Inl _ \<Rightarrow> [])"

lemma demo_policy_id: "\<exists>p. jget demo_manifest ''policy_id'' = JStr p"
  by (rule manifest_policy_id [OF demo_manifest_ok])
    (auto simp: manifest_fields_def demo_manifest_fields demo_fields)

lemma demo_create: "create_deployment_state demo_rt ''t1'' [] demo_manifest demo_shadow demo_key ''ops'' default_params
    = Inr demo_approved"
proof -
  obtain p where p: "jget demo_manifest ''policy_id'' = JStr p" using demo_policy_id by blast
  have ops: "strip ''ops'' = ''ops''"
    by (simp add: strip_def rstrip_def lstrip_def is_space_def code_def)
  have shadow: "shadow_report_ok demo_manifest demo_shadow"
    by (simp add: shadow_report_ok_def demo_shadow_def dict_simps p demo_manifest_fields)
  have par: "check_params default_params k = k" for k :: "json dict result"
    by (simp add: check_params_def default_params_def fl_finite_def bounded_fraction_ok_def unit_interval_def fl_le_def)
  have "\<exists>d. low_risk_context_distribution demo_rt [] demo_manifest 2000 = Inr d"
    by (simp add: low_risk_context_distribution_def demo_manifest_fields last_n_def)
  then have "\<exists>s. create_deployment_state demo_rt ''t1'' [] demo_manifest demo_shadow demo_key ''ops'' default_params = Inr s"
    by (auto simp: create_deployment_state_def demo_manifest_ok shadow ops par sign_payload_def demo_key_nonempty Let_def)
  then show ?thesis by (auto simp: demo_approved_def)
qed

lemma demo_approved_ok: "state_ok demo_rt demo_approved demo_key"
  by (rule create_deployment_state_ok [OF demo_create])

lemma demo_approved_fields:
  "state_stage demo_rt demo_approved = ''approved''"
  "jget demo_approved ''generation'' = JInt 1"
  "\<exists>h. jget demo_approved ''history'' = JList h"
proof -
  obtain d where s: "sign_payload demo_rt (approved_state demo_rt ''t1'' demo_manifest demo_shadow (strip ''ops'') default_params d) demo_key
      = Inr demo_approved"
    by (rule create_deployment_state_InrE [OF demo_create])
  note j = deployment_seal.sealed_jget [OF s TrueI] deployment_seal.sealed_jget_or [OF s TrueI]
  show "state_stage demo_rt demo_approved = ''approved''"
    "jget demo_approved ''generation'' = JInt 1"
    "\<exists>h. jget demo_approved ''history'' = JList h"
    by (simp_all add: state_stage_def j approved_state_def dict_simps)
qed

definition demo_move :: "json dict \<Rightarrow> string \<Rightarrow> json \<Rightarrow> json dict" where
  "demo_move st target report = (case transition_deployment_state demo_rt ''t2'' st demo_key target ''ops'' report None of
     Inr s \<Rightarrow> s | Inl _ \<Rightarrow> [])"

lemma demo_move_ok:
  assumes "state_ok demo_rt st demo_key" "\<exists>h. jget st ''history'' = JList h" "strip target = target"
    and "gate_open st (state_stage demo_rt st) target report" "target \<noteq> ''bounded''"
  shows "transition_deployment_state demo_rt ''t2'' st demo_key target ''ops'' report None = Inr (demo_move st target report)"
proof -
  obtain g where g: "jget st ''generation'' = JInt g" by (rule state_ok_generation [OF assms(1)])
  obtain r where r: "jget st ''rollback'' = JDict r" by (rule state_ok_rollback [OF assms(1)])
  obtain h where "jget st ''history'' = JList h" using assms(2) by blast
  then have h: "to_list (py_or (jget st ''history'') (JList [])) = Inr h"
    by (cases "h = []") (simp_all add: py_or_def to_list_def)
  have ops: "strip ''ops'' = ''ops''"
    by (simp add: strip_def rstrip_def lstrip_def is_space_def code_def)
  obtain t where t: "traffic_for_stage demo_rt st target = Inr t"
    using assms(5) by (simp add: traffic_for_stage_def)
  have "\<exists>s. transition_deployment_state demo_rt ''t2'' st demo_key target ''ops'' report None = Inr s"
    unfolding transition_eq [OF assms(1) g r]
    using assms(4) h t ops assms(3)
    by (simp add: transition_gate_Inr_iff sign_payload_def demo_key_nonempty Let_def)
  then show ?thesis by (auto simp: demo_move_def)
qed

definition demo_canary :: "json dict" where
  "demo_canary = demo_move demo_approved ''canary_1'' JNull"

lemma strip_stage [simp]:
  "strip ''canary_1'' = ''canary_1''" "strip ''canary_5'' = ''canary_5''" "strip ''rolled_back'' = ''rolled_back''"
  by (simp_all add: strip_def rstrip_def lstrip_def is_space_def code_def)

lemma demo_canary_step:
  "transition_deployment_state demo_rt ''t2'' demo_approved demo_key ''canary_1'' ''ops'' JNull None = Inr demo_canary"
  unfolding demo_canary_def
  by (rule demo_move_ok [OF demo_approved_ok demo_approved_fields(3)])
    (simp_all add: gate_open_def transition_gate_def demo_approved_fields dget_NEXT_STAGE LIVE_STAGES_def)

lemma demo_canary_ok: "state_ok demo_rt demo_canary demo_key"
  by (rule transition_ok [OF demo_canary_step])

lemma demo_canary_fields:
  "state_stage demo_rt demo_canary = ''canary_1''" "jget demo_canary ''generation'' = JInt 2"
  "\<exists>h. jget demo_canary ''history'' = JList h" "jget demo_canary ''traffic_fraction'' = JFloat (Fin (1/100))"
  using transition_effect [OF demo_canary_step] demo_approved_fields
  by (auto simp: traffic_for_stage_def STAGE_TRAFFIC_def dict_simps)

lemma demo_reachable: "reachable_deployment demo_rt demo_key demo_canary"
  by (rule reachable_deployment.moved [OF reachable_deployment.approved [OF demo_create] demo_canary_step])

end
