(* ===== verification/RuntimeExamples.thy ===== *)
theory RuntimeExamples
  imports RuntimeProps Examples
begin

text \<open>
  A concrete runtime for the witnesses: one process with its environment, the canary deployment of
  \<open>Examples\<close> on disk, and a logged decision that makes the guardrails ask for a rollback.
\<close>

definition demo_pe :: process_env where
  "demo_pe = \<lparr>pe_time = 0, pe_now = ''t3'', pe_token = ''tok'', pe_pid = 1, pe_host = ''h'', pe_windows = False,
     pe_kill = (\<lambda>_. KillOk),
     pe_io = \<lparr>io_mkdir = (\<lambda>_. True), io_stat = True, io_rename = True, io_owner = Durable, io_removal = Removed,
       io_state = Durable, io_event = Durable\<rparr>\<rparr>"

definition demo_renv :: runtime_env where
  "demo_renv = \<lparr>re_process = demo_pe,
     re_getenv = (\<lambda>n. if n = ''AI_WORKFLOW_POLICY_SIGNING_KEY'' then demo_key else []),
     re_nonce = ''n'', re_now = ''t3'', re_publish = Durable, re_db = (\<lambda>_. DbOk), re_inside_root = (\<lambda>_. True),
     re_radius = (\<lambda>_ _ _. 1), re_draw = (\<lambda>_ n. n)\<rparr>"

definition demo_cfg :: "bool \<Rightarrow> json dict" where
  "demo_cfg auto = [(''context'', JDict [(''deployment'', JDict
     [(''enabled'', JBool True), (''auto_rollback'', JBool auto), (''incident_bundles'', JBool False)])])]"

definition demo_dfs :: deployment_fs where
  "demo_dfs = \<lparr>fs_state = Parsed (JDict demo_canary), fs_lock = None, fs_events = []\<rparr>"

definition demo_rfs :: "directory \<Rightarrow> runtime_fs" where
  "demo_rfs decisions = \<lparr>rf_deployment = demo_dfs,
     rf_learning = \<lparr>lf_decisions = decisions, lf_observations = [], lf_outcomes = [], lf_stores = []\<rparr>,
     rf_incidents = []\<rparr>"

definition demo_low :: route_decision where
  "demo_low = \<lparr>rd_lane = Small, rd_risk = Low, rd_reasons = [], rd_structural = False, rd_confidence = 1\<rparr>"

section \<open>The documents\<close>

lemma demo_approved_entries:
  "jget demo_approved ''policy_manifest'' = JDict demo_manifest"
  "jget demo_approved ''guardrails'' = guardrails_json default_params"
  "jget demo_approved ''policy_id'' = jget demo_manifest ''policy_id''"
proof -
  obtain d where s: "sign_payload demo_rt (approved_state demo_rt ''t1'' demo_manifest demo_shadow (strip ''ops'') default_params d) demo_key
      = Inr demo_approved"
    by (rule create_deployment_state_InrE [OF demo_create])
  note j = deployment_seal.sealed_jget [OF s TrueI] deployment_seal.sealed_jget_or [OF s TrueI]
  obtain v where p: "jget demo_manifest ''policy_id'' = JStr (take 32 (sha256_json demo_rt v))"
    by (rule manifest_policy_id [OF demo_manifest_ok])
      (auto simp: manifest_fields_def demo_manifest_fields demo_fields)
  then have "jget_or demo_manifest ''policy_id'' e = JStr (take 32 (sha256_json demo_rt v))" for e
    by (simp add: jget_or_eq_jget)
  then show "jget demo_approved ''policy_manifest'' = JDict demo_manifest"
    "jget demo_approved ''guardrails'' = guardrails_json default_params"
    "jget demo_approved ''policy_id'' = jget demo_manifest ''policy_id''"
    by (simp_all add: j approved_state_def dict_simps p policy_id_take_hex sha256_json_def)
qed

lemma demo_canary_entries:
  "jget demo_canary ''stage'' = JStr ''canary_1''"
  "jget demo_canary ''policy_manifest'' = JDict demo_manifest"
  "jget demo_canary ''guardrails'' = guardrails_json default_params"
  "jget demo_canary ''policy_id'' = jget demo_manifest ''policy_id''"
proof -
  show "jget demo_canary ''stage'' = JStr ''canary_1''"
  proof (rule transition_InrE [OF demo_canary_step])
    fix g h rb tr
    assume "sign_payload demo_rt (transition_body demo_rt ''t2'' demo_approved (state_stage demo_rt demo_approved) (strip ''canary_1'')
       (strip ''ops'') JNull None tr g h rb) demo_key = Inr demo_canary"
    from deployment_seal.sealed_jget [OF this TrueI, of "''stage''"]
    show "jget demo_canary ''stage'' = JStr ''canary_1''" by (simp add: jget_transition_body)
  qed
  show "jget demo_canary ''policy_manifest'' = JDict demo_manifest"
    "jget demo_canary ''guardrails'' = guardrails_json default_params"
    "jget demo_canary ''policy_id'' = jget demo_manifest ''policy_id''"
    using transition_effect(4) [OF demo_canary_step] by (simp_all add: demo_approved_entries)
qed

lemma demo_canary_or: "jget_or demo_canary ''traffic_fraction'' v = JFloat (Fin (1/100))"
  "jget_or demo_canary ''stage'' v = JStr ''canary_1''"
  using demo_canary_fields(4) demo_canary_entries(1) by (simp_all add: jget_or_eq_jget)

lemma demo_load: "load_deployment_state demo_dfs = Inr demo_canary"
  by (simp add: load_deployment_state_def demo_dfs_def)

lemma demo_valid: "state_valid demo_rt demo_canary demo_key = Inr True"
  by (simp add: state_valid_iff demo_canary_ok)

section \<open>A canary assignment\<close>

lemma char_of_quote: "char_of (34::nat) = CHR 0x22"
  by code_simp

lemma demo_target: "target_arm demo_rt demo_canary (build_context_features ''q'' demo_low ''fix'' 0 1) = (''bm25_rank'', Some demo_context)"
proof -
  have ctx: "context_key demo_rt (JDict (build_context_features ''q'' demo_low ''fix'' 0 1)) [JStr ''lane''] = Inr demo_context"
    by (simp add: context_key_def demo_fields normalize_context_features_def build_context_features_def FEATURE_FIELDS_def
        dict_simps demo_low_def lane_value_def risk_value_def query_length_bucket_def count_bucket_def workspace_bucket_def
        strip_def rstrip_def lstrip_def is_space_def code_def demo_context_def json_string_def json_char_def char_of_quote
        split_ws_def Let_def)
  show ?thesis
    by (simp add: target_arm_def demo_canary_entries demo_manifest_fields ctx dict_simps SAFE_EXPLORATION_ARMS_def
        strip_def rstrip_def lstrip_def is_space_def code_def)
qed

lemma demo_config:
  "deployment_config (demo_cfg auto) = [(''enabled'', JBool True), (''auto_rollback'', JBool auto), (''incident_bundles'', JBool False)]"
  "deployment_enabled (demo_cfg auto)" "\<not> learning_kill_switch [] (demo_cfg auto)"
  "\<not> production_store_enabled (demo_cfg auto)"
  by (simp_all add: deployment_config_def section_of_def demo_cfg_def dict_simps deployment_enabled_def
      learning_kill_switch_def learning_config_def strip_def rstrip_def lstrip_def lower_def
      production_store_enabled_def production_config_def)

lemma demo_signing_key: "signing_key_of demo_rt demo_renv (demo_cfg auto) = demo_key"
  by (simp add: signing_key_of_def demo_config dict_simps demo_renv_def strip_def rstrip_def lstrip_def is_space_def
      code_def demo_key_def utf8_def utf8_char_def)

lemma demo_path: "\<exists>p. state_path demo_rt demo_renv (demo_cfg auto) = Inr p"
  by (simp add: state_path_def demo_config dict_simps demo_renv_def strip_def rstrip_def lstrip_def is_space_def
      code_def starts_with_def)

lemma demo_fraction: "assignment_fraction demo_rt demo_renv demo_key i = 0"
  by (simp add: assignment_fraction_def demo_rt_def from_bytes_def code_def eval_nat_numeral)

definition demo_assignment :: "json dict" where
  "demo_assignment = canary_assignment demo_rt demo_renv demo_canary demo_key ''bm25_rank'' (Some demo_context) (1/100) 2"

lemma demo_resolved:
  "resolve_runtime_deployment demo_rt demo_renv ''q'' demo_low ''fix'' (demo_cfg False) 0 1 (demo_rfs decisions)
    = (Inr (Some demo_assignment), demo_rfs decisions)"
proof -
  have quiet: "auto_rollback demo_rt demo_renv (demo_cfg False) demo_canary demo_key (demo_rfs decisions)
      = (Inr (demo_canary, None), demo_rfs decisions)"
    by (simp add: auto_rollback_def demo_canary_entries in_frozenset_def demo_config dict_simps)
  have live: "assign_live demo_rt demo_renv ''q'' demo_low ''fix'' 0 1 demo_key demo_canary = Inr demo_assignment"
    using demo_target
    by (simp add: assign_live_def demo_canary_entries in_frozenset_def LIVE_STAGES_def demo_low_def demo_canary_or to_float_def
        in_unit_def demo_canary_fields to_int_def demo_assignment_def BASELINE_ARM_def)
  obtain p where p: "state_path demo_rt demo_renv (demo_cfg False) = Inr p" using demo_path by blast
  have k: "learning_kill_switch (re_getenv demo_renv ''AI_WORKFLOW_LEARNING_KILL_SWITCH'') (demo_cfg False) = False"
    using demo_config(3) by (simp add: demo_renv_def)
  show ?thesis
    by (simp add: resolve_runtime_deployment_def demo_config k p demo_signing_key demo_rfs_def demo_load demo_valid
        quiet [unfolded demo_rfs_def] live wants_rollback_def)
qed

lemma demo_assignment_arm: "jget demo_assignment ''chosen_arm'' = JStr ''bm25_rank''"
  by (simp add: demo_assignment_def demo_fraction)

section \<open>A rollback\<close>

definition demo_id :: string where
  "demo_id = replicate 32 (CHR ''0'')"

text \<open>A live row without context features.\<close>

definition demo_row :: "json dict" where
  "demo_row = [(''decision_id'', JStr demo_id), (''risk'', JStr ''low''), (''created_at'', JStr ''t1''),
     (''deployment'', JDict [(''policy_id'', jget demo_manifest ''policy_id''), (''state_generation'', JInt 2),
        (''stage'', JStr ''canary_1''), (''assignment'', JStr ''candidate'')])]"

definition demo_files :: directory where
  "demo_files = [(demo_id @ ''.json'', Holds (JDict demo_row))]"

definition demo_live_row :: "json dict" where
  "demo_live_row = demo_row @ [(''observation'', JNull), (''outcome'', JNull)]"

lemma demo_id_strip: "strip demo_id = demo_id" "demo_id \<noteq> []"
proof -
  show "strip demo_id = demo_id"
    by (rule strip_nonspace) (auto simp: demo_id_def is_space_def code_def)
  show "demo_id \<noteq> []" by (simp add: demo_id_def)
qed

lemma demo_records: "load_learning_records demo_rt (rf_learning (demo_rfs demo_files)) = [demo_live_row]"
proof -
  have d: "read_records demo_rt demo_files = [(demo_id, demo_row)]"
    by (simp add: read_records_def demo_files_def dsort_def add_record_def load_json_def demo_row_def dict_simps demo_id_strip)
  have n: "read_records demo_rt [] = []" by (simp add: read_records_def dsort_def)
  show ?thesis
    by (simp add: load_learning_records_def demo_rfs_def d n dsort_def opt_json_def demo_live_row_def demo_row_def)
qed

lemma demo_row_fields:
  "row_deployment demo_live_row = Some [(''policy_id'', jget demo_manifest ''policy_id''), (''state_generation'', JInt 2),
        (''stage'', JStr ''canary_1''), (''assignment'', JStr ''candidate'')]"
  "verified_outcome demo_live_row = None" "jget_or demo_live_row ''risk'' v = JStr ''low''"
  "jget demo_live_row ''context_features'' = JNull"
  by (simp_all add: row_deployment_def verified_outcome_def as_dict_def demo_live_row_def demo_row_def dict_simps)

lemma demo_baseline: "\<exists>base. baseline_masses demo_canary = Inr base"
proof -
  obtain d where l: "low_risk_context_distribution demo_rt [] demo_manifest 2000 = Inr d"
    and s: "sign_payload demo_rt (approved_state demo_rt ''t1'' demo_manifest demo_shadow (strip ''ops'') default_params d) demo_key
      = Inr demo_approved"
    by (rule create_deployment_state_InrE [OF demo_create])
  have "jget demo_approved ''baseline_context_distribution'' = JDict d"
    using deployment_seal.sealed_jget [OF s TrueI, of "''baseline_context_distribution''"]
    by (simp add: approved_state_def dict_simps)
  then have b: "jget demo_canary ''baseline_context_distribution'' = JDict d"
    using transition_effect(4) [OF demo_canary_step] by simp
  have "jget d ''distribution'' = JDict []"
    using l by (auto simp: low_risk_context_distribution_def demo_manifest_fields last_n_def dict_simps dsort_def)
  then show ?thesis by (simp add: baseline_masses_def b)
qed

lemma demo_lower: "lower ''low'' = ''low''"
  by (simp add: lower_def lower_char_def is_upper_def code_def)

lemma demo_gathered:
  "\<exists>g. gather_evidence demo_rt (re_radius demo_renv) (re_draw demo_renv) [demo_live_row] demo_canary
      (case guardrails_json default_params of JDict gr \<Rightarrow> gr | _ \<Rightarrow> []) [JStr ''lane''] [(demo_context, JStr ''bm25_rank'')] = Inr g
    \<and> dr_samples (gu_drift g) = 0 \<and> dr_invalid (gu_drift g) = 1"
proof -
  obtain p where p: "jget demo_manifest ''policy_id'' = JStr p" using demo_policy_id by blast
  have po: "jget_or demo_canary ''policy_id'' v = JStr p" for v
    using p demo_canary_entries(4) by (simp add: jget_or_eq_jget)
  have go: "jget_or demo_canary ''generation'' v = JInt 2" for v
    using demo_canary_fields(2) by (simp add: jget_or_eq_jget)
  have rows: "deployment_rows demo_rt [demo_live_row] demo_canary = Inr [demo_live_row]"
    by (simp add: deployment_rows_def po go row_selected_def demo_row_fields dict_simps p to_int_def)
  have live: "rfilter row_is_live [demo_live_row] = Inr [demo_live_row]"
    by (simp add: row_is_live_def demo_row_fields dict_simps in_frozenset_def LIVE_STAGES_def)
  have ex: "\<exists>ex. live_exposure [demo_live_row] = Inr ex"
    by (simp add: live_exposure_def demo_row_fields assigned_def dict_simps)
  have sc: "sequential_scores demo_rt [demo_live_row] a b m = Inr ([], no_violations)" for a b m
    by (simp add: sequential_scores_def score_row_def demo_row_fields)
  have cl: "\<exists>c. clustered_reward_difference demo_rt dr [demo_live_row] f (95/100) r s = Inr c" if "100 \<le> r" for dr f r s
    using that by (simp add: clustered_reward_difference_def row_score_def demo_row_fields cluster_scores_def guard_that_def)
  obtain base where base: "baseline_masses demo_canary = Inr base" using demo_baseline by blast
  define gr where "gr = (case guardrails_json default_params of JDict gr \<Rightarrow> gr | _ \<Rightarrow> [])"
  have gr: "jget_or gr ''reward_min'' v = JFloat (Fin 0)" "jget_or gr ''reward_max'' v = JFloat (Fin 1)"
    "jget_or gr ''max_importance_weight'' v = JFloat (Fin 100)" "jget_or gr ''cluster_bootstrap_resamples'' v = JInt 2000"
    "jget_or gr ''cluster_bootstrap_seed'' v = JInt 20260911" "jget_or gr ''drift_window'' v = JInt 200"
    "jget gr ''stage_budgets'' = stage_budgets JNull" for v
    by (simp_all add: gr_def guardrails_json_def default_params_def dict_simps)
  have dr: "live_drift demo_rt demo_canary gr [demo_live_row] fl po =
      Inr \<lparr>dr_window = 200, dr_samples = 0, dr_invalid = 1, dr_distance = total_variation_distance [] base, dr_unknown = 0\<rparr>" for fl po
    by (simp add: live_drift_def gr to_int_def demo_row_fields demo_lower last_n_def context_distribution_def row_context_key_def base)
  have bu: "\<exists>b. stage_budget gr (state_stage demo_rt demo_canary) = Inr b"
    by (simp add: stage_budget_def gr stage_budgets_def LIVE_STAGES_def demo_canary_fields dict_simps to_int_def number_def
        DEFAULT_STAGE_EXPOSURE_BUDGETS_def DEFAULT_STAGE_FAILURE_BUDGETS_def)
  obtain e c b where "live_exposure [demo_live_row] = Inr e" "stage_budget gr (state_stage demo_rt demo_canary) = Inr b"
    "clustered_reward_difference demo_rt (re_draw demo_renv) [demo_live_row] ''task_fingerprint'' (95/100) 2000 20260911 = Inr c"
    using ex bu cl [of 2000] by fastforce
  then show ?thesis
    unfolding gr_def [symmetric]
    by (simp add: gather_evidence_def rows live float_field_def int_field_def gr to_float_def to_int_def sc dr
        anytime_hoeffding_sequence_def sequence_bound_def fl_max_def Let_def guard_that_def
        del: rfilter.simps)
qed

definition demo_report_row :: "json dict" where
  "demo_report_row = (case evaluate_live_guardrails demo_rt (re_radius demo_renv) (re_draw demo_renv) [demo_live_row]
     demo_canary demo_key of Inr r \<Rightarrow> r | Inl _ \<Rightarrow> [])"

lemma demo_evaluated:
  "evaluate_live_guardrails demo_rt (re_radius demo_renv) (re_draw demo_renv) [demo_live_row] demo_canary demo_key
     = Inr demo_report_row"
  "jget demo_report_row ''gate'' = JDict gate \<Longrightarrow> truthy (jget gate ''rollback_required'')"
  "\<exists>gate. jget demo_report_row ''gate'' = JDict gate"
proof -
  define gr where "gr = (case guardrails_json default_params of JDict gr \<Rightarrow> gr | _ \<Rightarrow> [])"
  have grs: "guardrails_json default_params = JDict gr" by (simp add: gr_def guardrails_json_def)
  obtain g where g: "gather_evidence demo_rt (re_radius demo_renv) (re_draw demo_renv) [demo_live_row] demo_canary
      gr [JStr ''lane''] [(demo_context, JStr ''bm25_rank'')] = Inr g" "dr_samples (gu_drift g) = 0" "dr_invalid (gu_drift g) = 1"
    using demo_gathered unfolding gr_def by blast
  obtain ver where ver: "verify_deployment_state demo_rt demo_canary demo_key = Inr ver" "truthy (jget ver ''valid'')"
    using demo_valid by (auto simp: state_valid_def rbind_Inr_iff)
  have "\<exists>v. judge demo_rt (state_stage demo_rt demo_canary) gr g = Inr v \<and> ve_rollback v \<noteq> []"
    by (simp add: judge_def gr_def guardrails_json_def default_params_def int_field_def float_field_def dict_simps to_int_def
        to_float_def drift_blockers_def g Let_def err_if_def)
  then obtain v where v: "judge demo_rt (state_stage demo_rt demo_canary) gr g = Inr v" "ve_rollback v \<noteq> []" by blast
  have e: "evaluate_live_guardrails demo_rt (re_radius demo_renv) (re_draw demo_renv) [demo_live_row] demo_canary demo_key
      = Inr (guardrail_report demo_rt demo_canary ver 2 g v)"
    using v(1) by (simp add: evaluate_live_guardrails_def ver demo_canary_entries grs demo_manifest_fields g demo_canary_fields to_int_def)
  then have r: "demo_report_row = guardrail_report demo_rt demo_canary ver 2 g v" by (simp add: demo_report_row_def)
  show "evaluate_live_guardrails demo_rt (re_radius demo_renv) (re_draw demo_renv) [demo_live_row] demo_canary demo_key
     = Inr demo_report_row" using e r by simp
  show "jget demo_report_row ''gate'' = JDict gate \<Longrightarrow> truthy (jget gate ''rollback_required'')"
    "\<exists>gate. jget demo_report_row ''gate'' = JDict gate"
    using v(2) by (auto simp: r)
qed

definition demo_pass :: "json dict" where
  "demo_pass = [(''gate'', JDict [(''safe_to_advance'', JBool True)]), (''policy_id'', jget demo_canary ''policy_id''),
     (''state_generation'', JInt 2), (''stage'', JStr ''canary_1'')]"

lemma demo_promotes:
  "\<exists>t. transition_deployment_state demo_rt ''t3'' demo_canary demo_key ''canary_5'' ''ops'' (JDict demo_pass) None = Inr t"
proof -
  have act: "strip ''ops'' = ''ops''" "strip ''canary_5'' = ''canary_5''"
    by (simp_all add: strip_def rstrip_def lstrip_def is_space_def code_def)
  obtain p where p: "jget demo_canary ''policy_id'' = JStr p" using demo_policy_id demo_canary_entries(4) by auto
  obtain rr where rr: "jget demo_canary ''rollback'' = JDict rr" by (rule state_ok_rollback [OF demo_canary_ok])
  obtain h where h: "jget demo_canary ''history'' = JList h" using demo_canary_fields(3) by blast
  have h2: "to_list (py_or (JList h) (JList [])) = Inr h" by (cases "h = []") (simp_all add: py_or_def to_list_def)
  show ?thesis
    unfolding transition_eq [OF demo_canary_ok demo_canary_fields(2) rr]
    by (simp add: act transition_gate_Inr_iff transition_gate_def demo_canary_fields traffic_for_stage_def h h2 promotion_gate_def
        demo_pass_def p dict_simps NEXT_STAGE_def LIVE_STAGES_def sign_payload_def guard_that_def Let_def)
qed

lemma demo_update:
  "\<exists>u d. update_deployment_state_file demo_rt demo_pe demo_key ''rolled_back'' ''runtime:auto-rollback'' (Some 2) JNull
      (Some reason) demo_dfs = (Inr u, d)"
proof -
  have act: "strip ''runtime:auto-rollback'' = ''runtime:auto-rollback''"
    by (simp add: strip_def rstrip_def lstrip_def is_space_def code_def)
  obtain rr where rr: "jget demo_canary ''rollback'' = JDict rr" by (rule state_ok_rollback [OF demo_canary_ok])
  obtain h where h: "jget demo_canary ''history'' = JList h" using demo_canary_fields(3) by blast
  have h2: "to_list (py_or (JList h) (JList [])) = Inr h" by (cases "h = []") (simp_all add: py_or_def to_list_def)
  have "\<exists>u. transition_deployment_state demo_rt ''t3'' demo_canary demo_key ''rolled_back'' ''runtime:auto-rollback'' JNull (Some reason) = Inr u"
    unfolding transition_eq [OF demo_canary_ok demo_canary_fields(2) rr]
    by (simp add: act transition_gate_Inr_iff transition_gate_def demo_canary_fields(1) traffic_for_stage_def h h2
        sign_payload_def guard_that_def Let_def)
  then obtain u where "transition_deployment_state demo_rt ''t3'' demo_canary demo_key ''rolled_back'' ''runtime:auto-rollback'' JNull
      (Some reason) = Inr u" by blast
  note tr = this
  have c: "compute_update demo_rt demo_pe demo_key ''rolled_back'' ''runtime:auto-rollback'' (Some 2) JNull (Some reason) fs = Inr u"
    if "fs_state fs = fs_state demo_dfs" for fs
    using that tr by (simp add: compute_update_def load_deployment_state_def demo_dfs_def demo_valid demo_canary_fields to_int_def
        guard_that_def demo_pe_def)
  have "\<exists>d. update_deployment_state_file demo_rt demo_pe demo_key ''rolled_back'' ''runtime:auto-rollback'' (Some 2) JNull
      (Some reason) demo_dfs = (Inr u, d)"
  proof -
    obtain e where uh: "jget u ''generation'' = JInt 3" "jget u ''history'' = JList (h @ [e])"
      using transition_effect(2) [OF tr] h h2 demo_canary_fields(2) by auto
    have "jget_or u ''generation'' v = JInt 3" for v using uh(1) by (simp add: jget_or_eq_jget)
    then have "\<exists>d. publish_update demo_rt demo_pe u fs = (Inr u, d)" if "fs_events fs = []" for fs
      using uh that by (auto simp: publish_update_def write_state_def write_audit_event_def event_name_def event_payload_def to_int_def
          demo_pe_def sync_result_def)
    moreover obtain fs1 where "acquire_lock demo_rt demo_pe demo_dfs = (Inr (), fs1)"
      by (simp add: acquire_lock_def make_lock_dir_def try_mkdir_def write_owner_def demo_dfs_def demo_pe_def sync_result_def)
    moreover from this have "fs_state fs1 = fs_state demo_dfs \<and> fs_events fs1 = []"
      using acquire_lock_frame by (fastforce simp: demo_dfs_def)
    ultimately show ?thesis
      using c by (fastforce simp: update_deployment_state_file_def with_lock_def)
  qed
  then show ?thesis by blast
qed

lemma demo_performs:
  "\<exists>rb fs. perform_rollback demo_rt demo_renv (demo_cfg True) demo_canary demo_report_row demo_key
      (rollback_reason demo_rt gate) (demo_rfs demo_files) = (Inr rb, fs)"
proof -
  obtain u d where "update_deployment_state_file demo_rt demo_pe demo_key ''rolled_back'' ''runtime:auto-rollback'' (Some 2) JNull
      (Some (rollback_reason demo_rt gate)) demo_dfs = (Inr u, d)" using demo_update by blast
  then show ?thesis
    using demo_config
    by (auto simp: perform_rollback_def demo_canary_fields to_int_def demo_renv_def demo_rfs_def
        mirror_runtime_def mirror_learning_event_def dict_simps)
qed

text \<open>Two callers ask for the same transition.\<close>

definition demo_call :: update_call where
  "demo_call = \<lparr>uc_env = demo_pe, uc_stage = ''rolled_back'', uc_actor = ''runtime:auto-rollback'', uc_expected = Some 2,
     uc_report = JNull, uc_reason = Some ''x''\<rparr>"

lemma demo_two_updates: "\<exists>u r fs. run_updates demo_rt demo_key [demo_call, demo_call] demo_dfs = ([Inr u, r], fs)"
proof -
  obtain u d where u: "update_deployment_state_file demo_rt demo_pe demo_key ''rolled_back'' ''runtime:auto-rollback'' (Some 2) JNull
      (Some ''x'') demo_dfs = (Inr u, d)" using demo_update by blast
  obtain r d' where "update_deployment_state_file demo_rt demo_pe demo_key ''rolled_back'' ''runtime:auto-rollback'' (Some 2) JNull
      (Some ''x'') d = (r, d')" by force
  then show ?thesis using u by (simp add: demo_call_def)
qed

lemma demo_rolls_back:
  "\<exists>st fs. auto_rollback demo_rt demo_renv (demo_cfg True) demo_canary demo_key (demo_rfs demo_files)
     = (Inr (st, Some demo_report_row), fs)"
  "wants_rollback (Some demo_report_row)"
proof -
  obtain gate where gate: "jget demo_report_row ''gate'' = JDict gate" using demo_evaluated(3) by blast
  then have t: "truthy (jget gate ''rollback_required'')" by (rule demo_evaluated(2))
  then show "wants_rollback (Some demo_report_row)" by (simp add: wants_rollback_def gate)
  have ar: "auto_rollback demo_rt demo_renv (demo_cfg True) demo_canary demo_key (demo_rfs demo_files)
     = (case perform_rollback demo_rt demo_renv (demo_cfg True) demo_canary demo_report_row demo_key
          (rollback_reason demo_rt gate) (demo_rfs demo_files) of
        (Inr rolled_back, fs') \<Rightarrow> (Inr (rolled_back, Some demo_report_row), fs')
      | (Inl e, fs') \<Rightarrow> (if rollback_catches e then Inr (demo_canary, Some demo_report_row) else Inl e, fs'))"
    using t by (simp add: auto_rollback_def demo_canary_entries in_frozenset_def LIVE_STAGES_def demo_config dict_simps
        demo_records demo_evaluated(1) gate)
  show "\<exists>st fs. auto_rollback demo_rt demo_renv (demo_cfg True) demo_canary demo_key (demo_rfs demo_files)
     = (Inr (st, Some demo_report_row), fs)" unfolding ar using demo_performs [of gate] by auto
qed

lemma demo_resolve_rollback:
  "\<exists>a fs. resolve_runtime_deployment demo_rt demo_renv ''q'' demo_low ''fix'' (demo_cfg True) 0 1 (demo_rfs demo_files)
     = (Inr (Some a), fs)"
proof -
  obtain st fs where roll: "auto_rollback demo_rt demo_renv (demo_cfg True) demo_canary demo_key (demo_rfs demo_files)
      = (Inr (st, Some demo_report_row), fs)" using demo_rolls_back(1) by blast
  obtain p where p: "state_path demo_rt demo_renv (demo_cfg True) = Inr p" using demo_path by blast
  have k: "learning_kill_switch (re_getenv demo_renv ''AI_WORKFLOW_LEARNING_KILL_SWITCH'') (demo_cfg True) = False"
    using demo_config(3) by (simp add: demo_renv_def)
  show ?thesis
    by (simp add: resolve_runtime_deployment_def demo_config k p demo_signing_key demo_rfs_def demo_load demo_valid
        roll [unfolded demo_rfs_def] demo_rolls_back(2))
qed

end
