(* ===== verification/RunJournal.thy ===== *)
theory RunJournal
  imports WriteOnce
begin

text \<open>
  \<open>run_journal.py\<close>: the tamper-evident journal of one run.  Replay events are chained by digests,
  the journal carries the head of the chain and a digest of itself, a reader re-checks all of it
  before it releases the recorded events.  Reading the working tree and the graph is an
  argument (\<open>journal_env\<close>); JSON objects have string keys only.
\<close>

definition REPLAY_SCHEMA_VERSION :: string where "REPLAY_SCHEMA_VERSION = ''ai-workflow-run-journal-v2''"
definition REPLAY_MODE :: string where "REPLAY_MODE = ''decision-history-only''"
definition JOURNAL_DIGEST_FIELD :: string where "JOURNAL_DIGEST_FIELD = ''journal_digest''"

definition EXPECTED_REPLAY_EVENT_KINDS :: "string list" where
  "EXPECTED_REPLAY_EVENT_KINDS = [''routing'', ''repository_routing'', ''retrieval'', ''ranking'', ''selection'',
     ''orchestration'', ''authorization'']"

definition MAX_CHANGED_FILES :: nat where "MAX_CHANGED_FILES = 4096"
definition MAX_CHANGED_FILE_CHARS :: nat where "MAX_CHANGED_FILE_CHARS = 4096"

definition REQUIRED_MAPPINGS :: "string list" where
  "REQUIRED_MAPPINGS = [''policy_identity'', ''workspace_state'', ''graph_state'', ''repository_state'',
     ''provider_versions'', ''retrieval'']"

section \<open>Identifiers and digests\<close>

definition safe_run_id :: "string \<Rightarrow> string result" where
  "safe_run_id run_id =
     (let value = strip run_id;
          safe = filter (\<lambda>c. is_alnum c \<or> c = CHR ''-'' \<or> c = CHR ''_'') value
      in guard_that (value \<noteq> [] \<and> safe = value) (ValueError ''invalid run_id'') (Inr value))"

text \<open>The journal's file name.\<close>

definition journal_path :: "string \<Rightarrow> string result" where
  "journal_path run_id = rbind (safe_run_id run_id) (\<lambda>i. Inr (i @ ''.json''))"

text \<open>\<open>_canonical\<close> refuses values with a non-finite float.\<close>

definition finite_json :: "json \<Rightarrow> 'a result \<Rightarrow> 'a result" where
  "finite_json v k = guard_that (all_finite v) (ValueError ''Out of range float values are not JSON compliant'') k"

definition json_clone :: "json \<Rightarrow> json result" where
  "json_clone v = finite_json v (Inr (sort_keys v))"

definition digest_of :: "runtime \<Rightarrow> json \<Rightarrow> string result" where
  "digest_of rt v = finite_json v (Inr (''sha256:'' @ sha256_json rt v))"

definition journal_digest :: "runtime \<Rightarrow> json dict \<Rightarrow> string result" where
  "journal_digest rt record = digest_of rt (JDict (dpop record JOURNAL_DIGEST_FIELD))"

definition valid_changed_file :: "json \<Rightarrow> bool" where
  "valid_changed_file v = (case v of
     JStr s \<Rightarrow> s \<noteq> [] \<and> char_of (0::nat) \<notin> set s \<and> length s \<le> MAX_CHANGED_FILE_CHARS | _ \<Rightarrow> False)"

definition validated_changed_files :: "json dict \<Rightarrow> bool \<Rightarrow> json list result" where
  "validated_changed_files record required =
     (case jget record ''changed_files'' of
        JList raw \<Rightarrow>
          guard_that (length raw \<le> MAX_CHANGED_FILES) (ValueError ''changed_files exceeds replay safety bound'')
          (guard_that (list_all valid_changed_file raw) (ValueError ''changed_files contains an invalid path'')
          (Inr raw))
      | v \<Rightarrow> (if v = JNull \<and> \<not> required then Inr [] else Inl (ValueError ''changed_files must be a list'')))"

section \<open>The chain\<close>

definition event_body :: "nat \<Rightarrow> string \<Rightarrow> json \<Rightarrow> json dict \<Rightarrow> json dict" where
  "event_body sequence kind previous payload =
     [(''sequence'', JInt (int sequence)), (''kind'', JStr kind), (''previous_event_digest'', previous),
      (''payload'', JDict payload)]"

definition event_kind :: "runtime \<Rightarrow> json dict \<Rightarrow> string" where
  "event_kind rt raw = strip (text_or_empty rt (jget raw ''kind''))"

fun chain_from :: "runtime \<Rightarrow> nat \<Rightarrow> json \<Rightarrow> json dict list \<Rightarrow> json dict list result" where
  "chain_from rt sequence previous [] = Inr []"
| "chain_from rt sequence previous (raw # events) =
     (let kind = event_kind rt raw in
      guard_that (kind \<noteq> []) (ValueError ''replay event kind must not be blank'')
      (case jget raw ''payload'' of
         JDict payload \<Rightarrow>
           rbind (json_clone (JDict payload)) (\<lambda>clone.
           let body = event_body sequence kind previous (case clone of JDict d \<Rightarrow> d | _ \<Rightarrow> []) in
           rbind (digest_of rt (JDict body)) (\<lambda>digest.
           rbind (chain_from rt (Suc sequence) (JStr digest) events) (\<lambda>rest.
             Inr ((body @ [(''event_digest'', JStr digest)]) # rest))))
       | _ \<Rightarrow> Inl (ValueError ''replay event payload must be an object'')))"

definition chain_replay_events :: "runtime \<Rightarrow> json dict list \<Rightarrow> json dict list result" where
  "chain_replay_events rt events = chain_from rt 0 JNull events"

section \<open>Building\<close>

text \<open>The first required entry that is no object.\<close>

definition missing_mapping :: "json dict \<Rightarrow> string option" where
  "missing_mapping record = find (\<lambda>k. \<not> is_dict (jget record k)) REQUIRED_MAPPINGS"

definition journal_body :: "json dict \<Rightarrow> string \<Rightarrow> json dict list \<Rightarrow> json dict" where
  "journal_body normalized run_id chained =
     dset (dset (dset (dset (dset (dset normalized
       ''schema_version'' (JStr REPLAY_SCHEMA_VERSION))
       ''replay_mode'' (JStr REPLAY_MODE))
       ''run_id'' (JStr run_id))
       ''replay_event_count'' (JInt (int (length chained))))
       ''replay_head_digest'' (jget (last chained) ''event_digest''))
       ''replay_events'' (JList (map JDict chained))"

definition build_replay_journal :: "runtime \<Rightarrow> json dict \<Rightarrow> json dict list \<Rightarrow> json dict result" where
  "build_replay_journal rt record events =
     rbind (safe_run_id (text_or_empty rt (jget record ''run_id''))) (\<lambda>run_id.
     rbind (json_clone (JDict record)) (\<lambda>clone.
     let normalized = (case clone of JDict d \<Rightarrow> d | _ \<Rightarrow> []) in
     case missing_mapping normalized of
       Some k \<Rightarrow> Inl (ValueError (k @ '' must be an object''))
     | None \<Rightarrow>
         guard_that (is_list (jget normalized ''selected_evidence'')) (ValueError ''selected_evidence must be a list'')
         (rbind (validated_changed_files normalized True) (\<lambda>_.
         guard_that (map (event_kind rt) events = EXPECTED_REPLAY_EVENT_KINDS)
           (ValueError ''replay events must match the v2 event contract exactly'')
         (rbind (chain_replay_events rt events) (\<lambda>chained.
         let journal = journal_body normalized run_id chained in
         rbind (journal_digest rt journal) (\<lambda>digest.
           Inr (dset journal JOURNAL_DIGEST_FIELD (JStr digest)))))))))"

section \<open>Verification\<close>

definition err :: "bool \<Rightarrow> string \<Rightarrow> string list" where
  "err b e = (if b then [e] else [])"

definition event_error :: "nat \<Rightarrow> string \<Rightarrow> string" where
  "event_error i what = ''event_'' @ nat_dec i @ ''_'' @ what"

definition recorded_run_id :: "json dict \<Rightarrow> string" where
  "recorded_run_id record = (case jget record ''run_id'' of
     JStr s \<Rightarrow> (case safe_run_id s of Inr i \<Rightarrow> i | Inl _ \<Rightarrow> []) | _ \<Rightarrow> [])"

definition run_id_errors :: "json dict \<Rightarrow> string option \<Rightarrow> string list" where
  "run_id_errors record expected =
     err (recorded_run_id record = []) ''run_id_invalid''
     @ (case expected of
          None \<Rightarrow> []
        | Some e \<Rightarrow> (case safe_run_id e of
            Inr requested \<Rightarrow> err (recorded_run_id record \<noteq> requested) ''run_id_mismatch''
          | Inl _ \<Rightarrow> [''expected_run_id_invalid''] @ err (recorded_run_id record \<noteq> []) ''run_id_mismatch''))"

definition shape_errors :: "json dict \<Rightarrow> string option \<Rightarrow> string list" where
  "shape_errors record expected =
     err (\<not> py_eq (jget record ''schema_version'') (JStr REPLAY_SCHEMA_VERSION)) ''schema_version_mismatch''
     @ err (\<not> py_eq (jget record ''replay_mode'') (JStr REPLAY_MODE)) ''replay_mode_mismatch''
     @ run_id_errors record expected
     @ concat (map (\<lambda>k. err (\<not> is_dict (jget record k)) (k @ ''_invalid'')) REQUIRED_MAPPINGS)
     @ err (\<not> is_list (jget record ''selected_evidence'')) ''selected_evidence_invalid''
     @ (case validated_changed_files record True of Inr _ \<Rightarrow> [] | Inl _ \<Rightarrow> [''changed_files_invalid''])"

text \<open>The loop over the events: errors, the digest to chain from, and the payloads by kind.\<close>

fun verify_events ::
  "runtime \<Rightarrow> nat \<Rightarrow> json \<Rightarrow> json dict dict \<Rightarrow> json list \<Rightarrow> string list \<times> json \<times> json dict dict" where
  "verify_events rt i previous payloads [] = ([], previous, payloads)"
| "verify_events rt i previous payloads (raw # events) =
     (case raw of
        JDict ev \<Rightarrow>
          (let kind = event_kind rt ev;
               e1 = err (\<not> py_eq (jget ev ''sequence'') (JInt (int i))) (event_error i ''sequence_mismatch'')
                 @ err (i < length EXPECTED_REPLAY_EVENT_KINDS \<and> kind \<noteq> EXPECTED_REPLAY_EVENT_KINDS ! i)
                     (event_error i ''kind_mismatch'')
           in case (if kind = [] then None else as_dict (jget ev ''payload'')) of
             None \<Rightarrow>
               (case verify_events rt (Suc i) previous payloads events of
                  (es, p, ps) \<Rightarrow> (e1 @ [event_error i ''shape_invalid''] @ es, p, ps))
           | Some payload \<Rightarrow>
               (let stored = jget ev ''previous_event_digest'';
                    e2 = err (\<not> py_eq stored previous) (event_error i ''previous_digest_mismatch'');
                    (e3, expected) = (case digest_of rt (JDict (event_body i kind stored payload)) of
                        Inr d \<Rightarrow> ([], d) | Inl _ \<Rightarrow> ([event_error i ''digest_unverifiable''], []));
                    supplied = text_or_empty rt (jget ev ''event_digest'');
                    e4 = err (supplied \<noteq> expected) (event_error i ''digest_mismatch'')
                in case verify_events rt (Suc i) (JStr supplied) (dset payloads kind payload) events of
                  (es, p, ps) \<Rightarrow> (e1 @ e2 @ e3 @ e4 @ es, p, ps)))
      | _ \<Rightarrow>
          (case verify_events rt (Suc i) previous payloads events of
             (es, p, ps) \<Rightarrow> (event_error i ''invalid'' # es, p, ps)))"

record integrity =
  in_valid :: bool
  in_errors :: "string list"
  in_event_count :: nat
  in_head_digest :: json
  in_journal_digest :: json

definition snapshot_errors :: "json dict \<Rightarrow> json dict dict \<Rightarrow> string list" where
  "snapshot_errors record payloads =
     err (case (dget payloads ''retrieval'', jget record ''retrieval'') of
         (Some p, JDict r) \<Rightarrow> \<not> py_eq (JDict p) (JDict r) | _ \<Rightarrow> False) ''retrieval_snapshot_mismatch''
     @ err (case dget payloads ''selection'' of
         Some p \<Rightarrow> \<not> py_eq (jget p ''selected_evidence'') (jget record ''selected_evidence'')
       | None \<Rightarrow> False) ''selection_snapshot_mismatch''"

definition journal_digest_errors :: "runtime \<Rightarrow> json dict \<Rightarrow> string list" where
  "journal_digest_errors rt record =
     (let supplied = text_or_empty rt (jget record JOURNAL_DIGEST_FIELD) in
      case journal_digest rt record of
        Inr d \<Rightarrow> err (supplied \<noteq> d) ''journal_digest_mismatch''
      | Inl _ \<Rightarrow> ''journal_digest_unverifiable'' # err (supplied \<noteq> []) ''journal_digest_mismatch'')"

definition verify_replay_journal :: "runtime \<Rightarrow> json dict \<Rightarrow> string option \<Rightarrow> integrity" where
  "verify_replay_journal rt record expected =
     (let shape = shape_errors record expected in
      case jget record ''replay_events'' of
        JList raw_events \<Rightarrow>
          (let (es, previous, payloads) = verify_events rt 0 JNull [] raw_events;
               errors = shape
                 @ err (length raw_events \<noteq> length EXPECTED_REPLAY_EVENT_KINDS) ''event_contract_count_mismatch''
                 @ es
                 @ err (\<not> py_eq (jget record ''replay_event_count'') (JInt (int (length raw_events)))) ''event_count_mismatch''
                 @ err (\<not> py_eq (jget record ''replay_head_digest'') previous) ''head_digest_mismatch''
                 @ snapshot_errors record payloads
                 @ journal_digest_errors rt record;
               supplied = text_or_empty rt (jget record JOURNAL_DIGEST_FIELD)
           in \<lparr>in_valid = (errors = []), in_errors = errors, in_event_count = length raw_events,
               in_head_digest = previous,
               in_journal_digest = (if supplied = [] then JNull else JStr supplied)\<rparr>)
      | _ \<Rightarrow> \<lparr>in_valid = False, in_errors = shape @ [''replay_events_missing''], in_event_count = 0,
            in_head_digest = JNull, in_journal_digest = jget record JOURNAL_DIGEST_FIELD\<rparr>)"

section \<open>The files\<close>

definition write_run_journal ::
  "runtime \<Rightarrow> publish_outcome \<Rightarrow> json dict \<Rightarrow> directory \<Rightarrow> string result \<times> directory" where
  "write_run_journal rt out record d =
     (case rbind (safe_run_id (text_or_empty rt (jget record ''run_id''))) journal_path of
        Inl e \<Rightarrow> (Inl e, d)
      | Inr name \<Rightarrow> (case atomic_create_json out name (JDict record) d of
          (r, d') \<Rightarrow> (rbind r (\<lambda>_. Inr (''ai-workspace/generated/run-journal/'' @ name)), d')))"

text \<open>The text \<open>atomic_create_json\<close> writes: \<open>json.dumps(v, indent=2, ensure_ascii=False)\<close> and a line feed.\<close>

definition line_break :: "nat \<Rightarrow> string" where
  "line_break n = char_of (10::nat) # replicate (2 * n) (CHR '' '')"

definition bracketed :: "string \<Rightarrow> string \<Rightarrow> string list \<Rightarrow> nat \<Rightarrow> string" where
  "bracketed open_text close_text parts n =
     (if parts = [] then open_text @ close_text
      else open_text @ line_break (Suc n) @ join ('','' @ line_break (Suc n)) parts @ line_break n @ close_text)"

primrec indented :: "(rat \<Rightarrow> string) \<Rightarrow> json \<Rightarrow> nat \<Rightarrow> string" where
  "indented fr JNull = (\<lambda>n. ''null'')"
| "indented fr (JBool b) = (\<lambda>n. if b then ''true'' else ''false'')"
| "indented fr (JInt i) = (\<lambda>n. int_dec i)"
| "indented fr (JFloat x) = (\<lambda>n. dumps False fr (JFloat x))"
| "indented fr (JStr s) = (\<lambda>n. json_string False s)"
| "indented fr (JList xs) = (\<lambda>n. bracketed ''['' '']'' (map (\<lambda>t. t (Suc n)) (map (indented fr) xs)) n)"
| "indented fr (JDict d) = (\<lambda>n. bracketed ''{'' ''}''
     (map (\<lambda>(k, t). json_string False k @ '': '' @ t (Suc n)) (map (map_prod id (indented fr)) d)) n)"

text \<open>\<open>st_size\<close> of a file; what no JSON parser reads is \<open>Garbled\<close> whatever its size.\<close>

definition file_size :: "runtime \<Rightarrow> file_body \<Rightarrow> nat" where
  "file_size rt b = (case b of Garbled \<Rightarrow> 0 | Holds v \<Rightarrow> length (utf8 (indented (rt_float_repr rt) v 0 @ line_break 0)))"

definition MAX_JOURNAL_BYTES :: nat where
  "MAX_JOURNAL_BYTES = 8 * 1024 * 1024"

definition read_run_journal :: "runtime \<Rightarrow> directory \<Rightarrow> string \<Rightarrow> json dict option" where
  "read_run_journal rt d run_id =
     (case journal_path run_id of
        Inl _ \<Rightarrow> None
      | Inr name \<Rightarrow> (case find_file d name of
          None \<Rightarrow> None
        | Some b \<Rightarrow> if MAX_JOURNAL_BYTES < file_size rt b then None else load_json b))"

section \<open>Compatibility and replay\<close>

text \<open>What reading the machine's state returns: the fingerprints of the changed files, of the code
  graph and of the registered repositories, as the JSON objects of their modules.\<close>

record journal_env =
  je_workspace :: "json list \<Rightarrow> json dict"
  je_graph :: "json dict \<Rightarrow> json dict"
  je_repository :: "json dict \<Rightarrow> json dict"

definition mapping_or_empty :: "json \<Rightarrow> json dict" where
  "mapping_or_empty v = (case v of JDict d \<Rightarrow> d | _ \<Rightarrow> [])"

definition text_field :: "runtime \<Rightarrow> json dict \<Rightarrow> string \<Rightarrow> string \<Rightarrow> string" where
  "text_field rt d k dflt = py_str rt (jget_or d k (JStr dflt))"

record compatibility =
  co_compatible :: bool
  co_mismatches :: "string list"
  co_recorded :: "string dict"
  co_current :: "string dict"

definition incompatible :: "string \<Rightarrow> compatibility" where
  "incompatible reason = \<lparr>co_compatible = False, co_mismatches = [reason], co_recorded = [], co_current = []\<rparr>"

definition config_digest :: "runtime \<Rightarrow> json dict \<Rightarrow> string" where
  "config_digest rt config = sha256_json rt (JDict config)"

definition compatibility_from_record ::
  "runtime \<Rightarrow> journal_env \<Rightarrow> json dict \<Rightarrow> json dict \<Rightarrow> compatibility" where
  "compatibility_from_record rt env config record =
     (case validated_changed_files record (py_eq (jget record ''schema_version'') (JStr REPLAY_SCHEMA_VERSION)) of
        Inl _ \<Rightarrow> incompatible ''invalid_changed_files''
      | Inr changed_files \<Rightarrow>
          (let policy = mapping_or_empty (jget record ''policy_identity'');
               workspace = mapping_or_empty (jget record ''workspace_state'');
               graph = mapping_or_empty (jget record ''graph_state'');
               repository = mapping_or_empty (jget record ''repository_state'');
               repository_fp = text_field rt repository ''fingerprint'' [];
               current =
                 [(''config_digest'', config_digest rt config),
                  (''retrieval_policy_version'', text_field rt config ''version'' ''unknown''),
                  (''workspace_fingerprint'', text_field rt (je_workspace env changed_files) ''fingerprint'' []),
                  (''graph_fingerprint'', text_field rt (je_graph env config) ''fingerprint'' [])]
                 @ (if repository_fp = [] then []
                    else [(''repository_fingerprint'', text_field rt (je_repository env config) ''fingerprint'' [])]);
               recorded =
                 [(''config_digest'', text_field rt policy ''config_digest'' []),
                  (''retrieval_policy_version'', text_field rt policy ''retrieval_policy_version'' []),
                  (''workspace_fingerprint'', text_field rt workspace ''fingerprint'' []),
                  (''graph_fingerprint'', text_field rt graph ''fingerprint'' [])]
                 @ (if repository_fp = [] then [] else [(''repository_fingerprint'', repository_fp)]);
               mismatches = filter (\<lambda>k. dget current k \<noteq> dget recorded k) (dkeys current)
           in \<lparr>co_compatible = (mismatches = []), co_mismatches = mismatches, co_recorded = recorded,
               co_current = current\<rparr>))"

definition verify_run_journal ::
  "runtime \<Rightarrow> journal_env \<Rightarrow> directory \<Rightarrow> string \<Rightarrow> json dict \<Rightarrow> compatibility" where
  "verify_run_journal rt env d run_id config =
     (case read_run_journal rt d run_id of
        None \<Rightarrow> incompatible ''missing_journal''
      | Some record \<Rightarrow>
          if py_eq (jget record ''schema_version'') (JStr REPLAY_SCHEMA_VERSION)
             \<and> \<not> in_valid (verify_replay_journal rt record (Some run_id))
          then incompatible ''invalid_journal''
          else compatibility_from_record rt env config record)"

record replay =
  rp_found :: bool
  rp_integrity :: integrity
  rp_compatibility :: compatibility
  rp_events_released :: bool
  rp_events :: "json dict list"

definition replay_run_journal ::
  "runtime \<Rightarrow> journal_env \<Rightarrow> directory \<Rightarrow> string \<Rightarrow> json dict \<Rightarrow> replay" where
  "replay_run_journal rt env d run_id config =
     (case read_run_journal rt d run_id of
        None \<Rightarrow> \<lparr>rp_found = False,
          rp_integrity = \<lparr>in_valid = False, in_errors = [''missing_journal''], in_event_count = 0,
            in_head_digest = JNull, in_journal_digest = JNull\<rparr>,
          rp_compatibility = incompatible ''missing_journal'', rp_events_released = False, rp_events = []\<rparr>
      | Some record \<Rightarrow>
          (let i = verify_replay_journal rt record (Some run_id) in
           if in_valid i then
             \<lparr>rp_found = True, rp_integrity = i,
              rp_compatibility = compatibility_from_record rt env config record,
              rp_events_released = True,
              rp_events = (case jget record ''replay_events'' of
                 JList raw \<Rightarrow> map (\<lambda>e. case e of JDict ev \<Rightarrow> ev | _ \<Rightarrow> []) (filter is_dict raw) | _ \<Rightarrow> [])\<rparr>
           else
             \<lparr>rp_found = True, rp_integrity = i, rp_compatibility = incompatible ''invalid_journal'',
              rp_events_released = False, rp_events = []\<rparr>))"

end
