(* ===== verification/JournalProps.thy ===== *)
theory JournalProps
  imports RunJournal
begin

text \<open>
  Properties of the run journal: what is built verifies after its trip through the disk, a replay
  releases exactly the chained events, and two accepted journals with one digest have one
  canonical text unless SHA-256 collides.
\<close>

section \<open>Sorted documents\<close>

definition sorted_dict :: "json dict \<Rightarrow> json dict" where
  "sorted_dict d = sort_key fst (map (map_prod id sort_keys) d)"

lemma sort_keys_JDict: "sort_keys (JDict d) = JDict (sorted_dict d)"
  by (simp add: sorted_dict_def)

lemma jget_sorted: "dict_wf d \<Longrightarrow> jget (sorted_dict d) k = sort_keys (jget d k)"
  by (simp add: sorted_dict_def jget_sort_keys)

lemma dict_wf_sorted: "dict_wf d \<Longrightarrow> dict_wf (sorted_dict d)"
proof -
  assume w: "dict_wf d"
  have "mset (map fst (sorted_dict d)) = image_mset fst (mset (map (map_prod id sort_keys) d))"
    by (simp only: sorted_dict_def mset_map mset_sort)
  also have "\<dots> = mset (map fst d)"
    by (simp add: image_mset.compositionality comp_def flip: mset_map)
  finally have "mset (map fst (sorted_dict d)) = mset (map fst d)" .
  with w show ?thesis unfolding dict_wf_def dkeys_def using mset_eq_imp_distinct_iff by blast
qed

lemma all_finite_sort_keys [simp]: "all_finite (sort_keys v) = all_finite v"
proof (induction v)
  case (JDict d)
  have "all_finite (sort_keys (JDict d)) \<longleftrightarrow> (\<forall>e \<in> set (map (map_prod id sort_keys) d). all_finite (snd e))"
    by (auto simp: list_all_iff)
  also have "\<dots> \<longleftrightarrow> (\<forall>e \<in> set d. all_finite (snd e))"
    using JDict by (force simp: prod_set_defs)
  finally show ?case by (auto simp: list_all_iff)
qed (auto simp: list_all_iff)

lemma all_finite_no_nan: "all_finite v \<Longrightarrow> \<not> has_nan v"
proof (induction v)
  case (JDict d)
  then show ?case by (force simp: list_all_iff list_ex_iff prod_set_defs)
next
  case (JFloat x)
  then show ?case by (cases x) (auto simp: fl_finite_def)
qed (auto simp: list_all_iff list_ex_iff)

lemma all_finite_jget: "all_finite (JDict d) \<Longrightarrow> all_finite (jget d k)"
  by (auto simp: jget_def dget_def list_all_iff dest!: map_of_SomeD split: option.splits)

lemma filter_sort_key: "filter P (sort_key f xs) = sort_key f (filter P xs)"
  by (simp add: filter_sort)

lemma dpop_sorted: "JDict (dpop (sorted_dict d) k) = sort_keys (JDict (dpop d k))"
proof -
  have "filter (\<lambda>(k', _). k' \<noteq> k) (map (map_prod id sort_keys) d) = map (map_prod id sort_keys) (filter (\<lambda>(k', _). k' \<noteq> k) d)"
    by (induction d) auto
  then show ?thesis by (simp add: sorted_dict_def dpop_def filter_sort_key)
qed

lemma sha256_json_sort_keys [simp]: "sha256_json rt (sort_keys v) = sha256_json rt v"
  by (simp add: sha256_json_def)

lemma digest_of_sort_keys [simp]: "digest_of rt (sort_keys v) = digest_of rt v"
  by (simp add: digest_of_def finite_json_def guard_that_def del: sort_keys.simps)

lemma digest_of_Inr: "digest_of rt v = Inr d \<longleftrightarrow> all_finite v \<and> d = ''sha256:'' @ sha256_json rt v"
  by (auto simp: digest_of_def finite_json_def guard_that_Inr_iff)

lemma json_clone_Inr: "json_clone v = Inr c \<longleftrightarrow> all_finite v \<and> c = sort_keys v"
  by (auto simp: json_clone_def finite_json_def guard_that_Inr_iff)

section \<open>Chained events\<close>

definition chained_event :: "nat \<Rightarrow> string \<Rightarrow> json \<Rightarrow> json dict \<Rightarrow> string \<Rightarrow> json dict" where
  "chained_event i kind previous payload digest = event_body i kind previous payload @ [(''event_digest'', JStr digest)]"

lemma chained_event_fields [simp]:
  "jget (chained_event i k p pl d) ''sequence'' = JInt (int i)"
  "jget (chained_event i k p pl d) ''kind'' = JStr k"
  "jget (chained_event i k p pl d) ''previous_event_digest'' = p"
  "jget (chained_event i k p pl d) ''payload'' = JDict pl"
  "jget (chained_event i k p pl d) ''event_digest'' = JStr d"
  "dict_wf (chained_event i k p pl d)"
  by (simp_all add: chained_event_def event_body_def dict_simps dict_wf_def dkeys_def)

lemma chain_from_ConsE:
  assumes "chain_from rt i previous (raw # events) = Inr chained"
  obtains payload digest rest where "event_kind rt raw \<noteq> []" "jget raw ''payload'' = JDict payload"
    "all_finite (JDict payload)"
    "digest_of rt (JDict (event_body i (event_kind rt raw) previous (sorted_dict payload))) = Inr digest"
    "chain_from rt (Suc i) (JStr digest) events = Inr rest"
    "chained = chained_event i (event_kind rt raw) previous (sorted_dict payload) digest # rest"
proof -
  obtain payload where p: "jget raw ''payload'' = JDict payload" and k: "event_kind rt raw \<noteq> []"
    using assms by (auto simp: Let_def guard_that_Inr_iff split: json.splits)
  show ?thesis
    using assms p k that
    by (auto simp: Let_def guard_that_Inr_iff rbind_Inr_iff json_clone_Inr sort_keys_JDict chained_event_def
        simp del: sort_keys.simps)
qed

definition stored_events :: "json dict list \<Rightarrow> json list" where
  "stored_events chained = map (\<lambda>e. sort_keys (JDict e)) chained"

definition head_of :: "json \<Rightarrow> json dict list \<Rightarrow> json" where
  "head_of previous chained = (if chained = [] then previous else jget (last chained) ''event_digest'')"

definition payload_pairs :: "runtime \<Rightarrow> json dict list \<Rightarrow> (string \<times> json dict) list" where
  "payload_pairs rt events = map (\<lambda>raw. (event_kind rt raw,
     sorted_dict (case jget raw ''payload'' of JDict p \<Rightarrow> p | _ \<Rightarrow> []))) events"

lemma event_kind_stripped: "strip (event_kind rt raw) = event_kind rt raw"
  by (simp add: event_kind_def)

lemma digest_nonempty: "digest_of rt v = Inr d \<Longrightarrow> d \<noteq> []"
  by (auto simp: digest_of_Inr)

lemma err_False [simp]: "err False e = []"
  by (simp add: err_def)

text \<open>One event the chain produced is accepted after storage.\<close>

lemma verify_events_step:
  assumes "digest_of rt (JDict (event_body i kind previous (sorted_dict payload))) = Inr digest"
    and "kind \<noteq> []" "strip kind = kind" "sort_keys previous = previous" "\<not> has_nan previous"
    and "i < length EXPECTED_REPLAY_EVENT_KINDS \<longrightarrow> kind = EXPECTED_REPLAY_EVENT_KINDS ! i"
    and "verify_events rt (Suc i) (JStr digest) (dset P kind (sorted_dict payload)) rest = ([], h, Q)"
  shows "verify_events rt i previous P (sort_keys (JDict (chained_event i kind previous (sorted_dict payload) digest)) # rest)
    = ([], h, Q)"
proof -
  let ?e = "sorted_dict (chained_event i kind previous (sorted_dict payload) digest)"
  have pl: "sort_keys (JDict (sorted_dict payload)) = JDict (sorted_dict payload)"
    by (metis sort_keys_JDict sort_keys_idem)
  have f: "jget ?e ''sequence'' = JInt (int i)" "jget ?e ''kind'' = JStr kind"
    "jget ?e ''previous_event_digest'' = previous" "jget ?e ''payload'' = JDict (sorted_dict payload)"
    "jget ?e ''event_digest'' = JStr digest"
    using assms(4) pl by (simp_all add: jget_sorted)
  have k: "event_kind rt ?e = kind" using assms(2,3) by (simp add: event_kind_def text_or_empty_def f)
  have d: "text_or_empty rt (jget ?e ''event_digest'') = digest"
    using digest_nonempty [OF assms(1)] by (simp add: text_or_empty_def f)
  have d': "text_or_empty rt (JStr digest) = digest" using d by (simp add: f)
  have ke: "err (i < length EXPECTED_REPLAY_EVENT_KINDS \<and> kind \<noteq> EXPECTED_REPLAY_EVENT_KINDS ! i) e = []" for e
    using assms(6) by (auto simp: err_def)
  have eq: "sort_keys (JDict (chained_event i kind previous (sorted_dict payload) digest)) = JDict ?e"
    by (rule sort_keys_JDict)
  show ?thesis
    unfolding eq
    using assms(1,2,5,7)
    by (simp add: f k d' ke as_dict_def py_eq_refl Let_def)
qed

lemma verify_chained:
  assumes "chain_from rt i previous events = Inr chained"
    and "sort_keys previous = previous" "\<not> has_nan previous"
    and "\<And>j. j < length events \<Longrightarrow> i + j < length EXPECTED_REPLAY_EVENT_KINDS
      \<Longrightarrow> event_kind rt (events ! j) = EXPECTED_REPLAY_EVENT_KINDS ! (i + j)"
  shows "verify_events rt i previous P (stored_events chained)
    = ([], head_of previous chained, fold (\<lambda>(k, p) P. dset P k p) (payload_pairs rt events) P)"
  using assms
proof (induction events arbitrary: i previous chained P)
  case Nil
  then show ?case by (simp add: stored_events_def head_of_def payload_pairs_def)
next
  case (Cons raw events)
  obtain payload digest rest where c: "event_kind rt raw \<noteq> []" "jget raw ''payload'' = JDict payload"
    "all_finite (JDict payload)"
    "digest_of rt (JDict (event_body i (event_kind rt raw) previous (sorted_dict payload))) = Inr digest"
    "chain_from rt (Suc i) (JStr digest) events = Inr rest"
    "chained = chained_event i (event_kind rt raw) previous (sorted_dict payload) digest # rest"
    by (rule chain_from_ConsE [OF Cons.prems(1)])
  have kinds: "event_kind rt (events ! j) = EXPECTED_REPLAY_EVENT_KINDS ! (Suc i + j)"
    if "j < length events" "Suc i + j < length EXPECTED_REPLAY_EVENT_KINDS" for j
    using Cons.prems(4) [of "Suc j"] that by simp
  have IH: "verify_events rt (Suc i) (JStr digest) (dset P (event_kind rt raw) (sorted_dict payload)) (stored_events rest)
    = ([], head_of (JStr digest) rest,
       fold (\<lambda>(k, p) P. dset P k p) (payload_pairs rt events) (dset P (event_kind rt raw) (sorted_dict payload)))"
    by (rule Cons.IH [OF c(5)]) (simp_all add: kinds)
  have kind0: "i < length EXPECTED_REPLAY_EVENT_KINDS \<longrightarrow> event_kind rt raw = EXPECTED_REPLAY_EVENT_KINDS ! i"
    using Cons.prems(4) [of 0] by simp
  have hd: "head_of previous chained = head_of (JStr digest) rest"
    by (simp add: c(6) head_of_def)
  have pp: "payload_pairs rt (raw # events) = (event_kind rt raw, sorted_dict payload) # payload_pairs rt events"
    by (simp add: payload_pairs_def c(2))
  have st: "stored_events chained
      = sort_keys (JDict (chained_event i (event_kind rt raw) previous (sorted_dict payload) digest)) # stored_events rest"
    by (simp add: c(6) stored_events_def del: sort_keys.simps)
  show ?case
    unfolding st
    using verify_events_step [OF c(4,1) event_kind_stripped Cons.prems(2,3) kind0 IH] hd
    by (simp add: pp c(6) del: verify_events.simps sort_keys.simps)
qed

lemma chain_from_length: "chain_from rt i p events = Inr chained \<Longrightarrow> length chained = length events"
  by (induction events arbitrary: i p chained) (auto elim!: chain_from_ConsE simp del: chain_from.simps(2))

section \<open>What is built verifies\<close>

text \<open>The recorded retrieval and selection events repeat what the record itself says; the builder
  does not check this, the reader does.\<close>

definition consistent_snapshots :: "json dict \<Rightarrow> json dict list \<Rightarrow> bool" where
  "consistent_snapshots record events =
     (jget record ''retrieval'' = jget (events ! 2) ''payload''
      \<and> (case jget (events ! 4) ''payload'' of
           JDict p \<Rightarrow> dict_wf p \<and> jget p ''selected_evidence'' = jget record ''selected_evidence''
         | _ \<Rightarrow> False))"

lemma safe_run_id_again: "safe_run_id v = Inr i \<Longrightarrow> safe_run_id i = Inr i \<and> i \<noteq> []"
  by (auto simp: safe_run_id_def Let_def guard_that_Inr_iff)

lemma build_replay_journal_InrE:
  assumes "build_replay_journal rt record events = Inr j"
  obtains run_id chained digest where
    "safe_run_id (text_or_empty rt (jget record ''run_id'')) = Inr run_id" "all_finite (JDict record)"
    "missing_mapping (sorted_dict record) = None" "is_list (jget (sorted_dict record) ''selected_evidence'')"
    "\<exists>fs. validated_changed_files (sorted_dict record) True = Inr fs"
    "map (event_kind rt) events = EXPECTED_REPLAY_EVENT_KINDS"
    "chain_from rt 0 JNull events = Inr chained"
    "journal_digest rt (journal_body (sorted_dict record) run_id chained) = Inr digest"
    "j = dset (journal_body (sorted_dict record) run_id chained) JOURNAL_DIGEST_FIELD (JStr digest)"
  using assms
  by (auto simp: build_replay_journal_def rbind_Inr_iff json_clone_Inr sort_keys_JDict Let_def guard_that_Inr_iff
      chain_replay_events_def simp del: sort_keys.simps split: option.splits)

lemma journal_digest_stored:
  "journal_digest rt (sorted_dict (dset b JOURNAL_DIGEST_FIELD v)) = journal_digest rt b"
  by (simp add: journal_digest_def dpop_sorted del: sort_keys.simps)

lemma journal_fields:
  assumes "dict_wf normalized"
    and "J = sorted_dict (dset (journal_body normalized i chained) JOURNAL_DIGEST_FIELD (JStr digest))"
  shows "jget J ''schema_version'' = JStr REPLAY_SCHEMA_VERSION" "jget J ''replay_mode'' = JStr REPLAY_MODE"
    "jget J ''run_id'' = JStr i" "jget J ''replay_event_count'' = JInt (int (length chained))"
    "jget J ''replay_head_digest'' = sort_keys (jget (last chained) ''event_digest'')"
    "jget J ''replay_events'' = JList (stored_events chained)"
    "jget J JOURNAL_DIGEST_FIELD = JStr digest"
  using assms by (simp_all add: jget_sorted journal_body_def JOURNAL_DIGEST_FIELD_def stored_events_def)

lemma journal_other_fields:
  assumes "dict_wf normalized"
    and "J = sorted_dict (dset (journal_body normalized i chained) JOURNAL_DIGEST_FIELD (JStr digest))"
    and "k \<notin> {''schema_version'', ''replay_mode'', ''run_id'', ''replay_event_count'', ''replay_head_digest'',
      ''replay_events'', JOURNAL_DIGEST_FIELD}"
  shows "jget J k = sort_keys (jget normalized k)"
  using assms by (auto simp: jget_sorted journal_body_def)

lemma is_dict_sort_keys [simp]: "is_dict (sort_keys v) = is_dict v" "is_list (sort_keys v) = is_list v"
  by (cases v; simp add: is_dict_def is_list_def)+

lemma valid_changed_file_sort_keys: "valid_changed_file v \<Longrightarrow> sort_keys v = v"
  by (cases v) (auto simp: valid_changed_file_def)

lemma validated_changed_files_stored:
  assumes "validated_changed_files n True = Inr fs" and "jget J ''changed_files'' = sort_keys (jget n ''changed_files'')"
  shows "validated_changed_files J True = Inr fs"
proof -
  obtain raw where raw: "jget n ''changed_files'' = JList raw" and fs: "fs = raw"
    and ok: "length raw \<le> MAX_CHANGED_FILES" "list_all valid_changed_file raw"
    using assms(1) by (auto simp: validated_changed_files_def guard_that_Inr_iff split: json.splits)
  have "map sort_keys raw = raw"
    using ok(2) by (induction raw) (auto simp: valid_changed_file_sort_keys)
  then show ?thesis using assms(2) ok by (simp add: validated_changed_files_def raw fs guard_that_def)
qed

lemma missing_mapping_None: "missing_mapping r = None \<longleftrightarrow> (\<forall>k \<in> set REQUIRED_MAPPINGS. is_dict (jget r k))"
  by (auto simp: missing_mapping_def find_None_iff)

lemma chained_head:
  assumes "chain_from rt i p events = Inr chained" "chained \<noteq> []"
  shows "\<exists>d. jget (last chained) ''event_digest'' = JStr d"
  using assms
proof (induction events arbitrary: i p chained)
  case (Cons raw events)
  show ?case
  proof (rule chain_from_ConsE [OF Cons.prems(1)], goal_cases)
    case (1 payload digest rest)
    then show ?case using Cons.IH [OF 1(5)] by (cases "rest = []") auto
  qed
qed simp

lemma stored_retrieval_selection:
  assumes kinds: "map (event_kind rt) events = EXPECTED_REPLAY_EVENT_KINDS"
    and c: "consistent_snapshots record events" and fin: "all_finite (JDict record)" and w: "dict_wf record"
    and payload: "is_dict (jget (sorted_dict record) ''retrieval'')"
    and J: "jget J ''retrieval'' = sort_keys (jget (sorted_dict record) ''retrieval'')"
      "jget J ''selected_evidence'' = sort_keys (jget (sorted_dict record) ''selected_evidence'')"
  shows "snapshot_errors J (fold (\<lambda>(k, p) P. dset P k p) (payload_pairs rt events) []) = []"
proof -
  define P where "P = fold (\<lambda>(k, p) P. dset P k p) (payload_pairs rt events) []"
  define pl where "pl raw = sorted_dict (case jget raw ''payload'' of JDict p \<Rightarrow> p | _ \<Rightarrow> [])" for raw
  obtain e0 e1 e2 e3 e4 e5 e6 where ev: "events = [e0, e1, e2, e3, e4, e5, e6]"
    using kinds by (auto simp: EXPECTED_REPLAY_EVENT_KINDS_def map_eq_Cons_conv)
  have P: "dget P ''retrieval'' = Some (pl e2)" "dget P ''selection'' = Some (pl e4)"
    using kinds by (simp_all add: P_def ev payload_pairs_def EXPECTED_REPLAY_EVENT_KINDS_def pl_def dget_Cons)
  obtain r where r: "jget record ''retrieval'' = JDict r"
    using payload w by (cases "jget record ''retrieval''") (auto simp: jget_sorted is_dict_def)
  obtain p where p: "jget e4 ''payload'' = JDict p" "dict_wf p" "jget p ''selected_evidence'' = jget record ''selected_evidence''"
    using c by (auto simp: consistent_snapshots_def ev split: json.splits)
  have e2: "jget e2 ''payload'' = JDict r" using c r by (simp add: consistent_snapshots_def ev)
  have ret: "jget J ''retrieval'' = JDict (pl e2)" "\<not> has_nan (JDict (pl e2))"
  proof -
    show "jget J ''retrieval'' = JDict (pl e2)"
      using J(1) w r e2 by (simp add: jget_sorted pl_def sort_keys_JDict del: sort_keys.simps flip: sort_keys_JDict)
    have "all_finite (sort_keys (JDict r))"
      using all_finite_jget [OF fin, of "''retrieval''"] r by (simp del: sort_keys.simps)
    then show "\<not> has_nan (JDict (pl e2))"
      using all_finite_no_nan e2 by (simp add: pl_def sort_keys_JDict del: has_nan.simps sort_keys.simps all_finite_sort_keys)
  qed
  have sel: "jget (pl e4) ''selected_evidence'' = jget J ''selected_evidence''" "\<not> has_nan (jget J ''selected_evidence'')"
  proof -
    have s: "jget J ''selected_evidence'' = sort_keys (jget record ''selected_evidence'')"
      using J(2) w by (simp add: jget_sorted del: sort_keys.simps)
    then show "jget (pl e4) ''selected_evidence'' = jget J ''selected_evidence''"
      using p by (simp add: pl_def jget_sorted del: sort_keys.simps)
    show "\<not> has_nan (jget J ''selected_evidence'')"
      unfolding s using all_finite_jget [OF fin, of "''selected_evidence''"]
      by (intro all_finite_no_nan) (simp del: sort_keys.simps)
  qed
  show ?thesis
    using ret sel py_eq_refl by (simp add: snapshot_errors_def P_def [symmetric] P err_def del: has_nan.simps)
qed

theorem built_verifies:
  assumes b: "build_replay_journal rt record events = Inr j" and w: "dict_wf record"
    and c: "consistent_snapshots record events"
    and e: "safe_run_id expected = safe_run_id (text_or_empty rt (jget record ''run_id''))"
  shows "in_valid (verify_replay_journal rt (sorted_dict j) (Some expected))"
proof -
  obtain i chained digest where
    i: "safe_run_id (text_or_empty rt (jget record ''run_id'')) = Inr i" and fin: "all_finite (JDict record)"
    and mm: "missing_mapping (sorted_dict record) = None" and ev: "is_list (jget (sorted_dict record) ''selected_evidence'')"
    and cf: "\<exists>fs. validated_changed_files (sorted_dict record) True = Inr fs"
    and kinds: "map (event_kind rt) events = EXPECTED_REPLAY_EVENT_KINDS"
    and ch: "chain_from rt 0 JNull events = Inr chained"
    and dg: "journal_digest rt (journal_body (sorted_dict record) i chained) = Inr digest"
    and j: "j = dset (journal_body (sorted_dict record) i chained) JOURNAL_DIGEST_FIELD (JStr digest)"
    by (rule build_replay_journal_InrE [OF b])
  define J where "J = sorted_dict j"
  note sw = dict_wf_sorted [OF w]
  note F = journal_fields [OF sw J_def [unfolded j]]
  note G = journal_other_fields [OF sw J_def [unfolded j]]
  have len: "length chained = 7" "length events = 7"
    using chain_from_length [OF ch] arg_cong [OF kinds, of length] by (simp_all add: EXPECTED_REPLAY_EVENT_KINDS_def)
  have ne: "chained \<noteq> []" using len by auto
  obtain h where h: "jget (last chained) ''event_digest'' = JStr h" using chained_head [OF ch ne] by blast
  have maps: "is_dict (jget J k)" if "k \<in> set REQUIRED_MAPPINGS" for k
    using that mm G [of k] by (auto simp: missing_mapping_None REQUIRED_MAPPINGS_def JOURNAL_DIGEST_FIELD_def)
  have GC: "jget J ''changed_files'' = sort_keys (jget (sorted_dict record) ''changed_files'')"
    "jget J ''selected_evidence'' = sort_keys (jget (sorted_dict record) ''selected_evidence'')"
    "jget J ''retrieval'' = sort_keys (jget (sorted_dict record) ''retrieval'')"
    by (rule G; simp add: JOURNAL_DIGEST_FIELD_def)+
  obtain fs where fs: "validated_changed_files J True = Inr fs"
    using cf validated_changed_files_stored GC(1) by blast
  have shape: "shape_errors J (Some expected) = []"
    using maps fs GC(2) ev safe_run_id_again [OF i] e i
    by (simp add: shape_errors_def run_id_errors_def recorded_run_id_def F err_def REQUIRED_MAPPINGS_def)
  have vs: "verify_events rt 0 JNull [] (stored_events chained)
    = ([], JStr h, fold (\<lambda>(k, p) P. dset P k p) (payload_pairs rt events) [])"
  proof -
    have kj: "event_kind rt (events ! n) = EXPECTED_REPLAY_EVENT_KINDS ! (0 + n)" if "n < length events" for n
      using arg_cong [OF kinds, of "\<lambda>xs. xs ! n"] that by simp
    show ?thesis
      using verify_chained [OF ch, of "[]"] kj ne by (simp add: head_of_def h)
  qed
  have "is_dict (jget (sorted_dict record) ''retrieval'')"
    using mm by (simp add: missing_mapping_None REQUIRED_MAPPINGS_def)
  note snap = stored_retrieval_selection [OF kinds c fin w this GC(3,2)]
  have "journal_digest rt J = Inr digest"
    using dg by (simp add: J_def j journal_digest_stored)
  moreover have "digest \<noteq> []"
    using dg digest_nonempty unfolding journal_digest_def by blast
  ultimately have jd: "journal_digest_errors rt J = []"
    by (simp add: journal_digest_errors_def F text_or_empty_def)
  have ls: "length (stored_events chained) = 7" by (simp add: stored_events_def len)
  show ?thesis
    unfolding J_def [symmetric]
    by (simp add: verify_replay_journal_def F shape vs snap jd ls h len EXPECTED_REPLAY_EVENT_KINDS_def Let_def)
qed

section \<open>Replay\<close>

lemma map_as_dict_stored:
  "map (\<lambda>e. case e of JDict ev \<Rightarrow> ev | _ \<Rightarrow> []) (filter is_dict (stored_events chained)) = map sorted_dict chained"
  by (induction chained) (auto simp: stored_events_def is_dict_def sort_keys_JDict simp del: sort_keys.simps)

text \<open>A journal that is on disk and within the reader's limit replays; a longer one, which the writer accepts, does not.\<close>

lemma journal_on_disk:
  assumes b: "build_replay_journal rt record events = Inr j" and w: "dict_wf record"
    and c: "consistent_snapshots record events"
    and e: "safe_run_id run_id = safe_run_id (text_or_empty rt (jget record ''run_id''))"
    and found: "journal_path run_id = Inr name" "find_file d name = Some (Holds (sort_keys (JDict j)))"
  obtains chained where "chain_replay_events rt events = Inr chained"
    "let r = replay_run_journal rt env d run_id config
     in if file_size rt (Holds (sort_keys (JDict j))) \<le> MAX_JOURNAL_BYTES
        then rp_found r \<and> in_valid (rp_integrity r) \<and> rp_events_released r \<and> rp_events r = map sorted_dict chained
        else \<not> rp_found r"
proof -
  obtain i chained digest where i: "safe_run_id (text_or_empty rt (jget record ''run_id'')) = Inr i"
    and ch: "chain_from rt 0 JNull events = Inr chained"
    and j: "j = dset (journal_body (sorted_dict record) i chained) JOURNAL_DIGEST_FIELD (JStr digest)"
    by (rule build_replay_journal_InrE [OF b])
  have rd: "read_run_journal rt d run_id
      = (if file_size rt (Holds (sort_keys (JDict j))) \<le> MAX_JOURNAL_BYTES then Some (sorted_dict j) else None)"
    by (simp add: read_run_journal_def found load_json_def sort_keys_JDict not_less del: sort_keys.simps)
  have v: "in_valid (verify_replay_journal rt (sorted_dict j) (Some run_id))"
    by (rule built_verifies [OF b w c e])
  have ev: "jget (sorted_dict j) ''replay_events'' = JList (stored_events chained)"
    by (rule journal_fields(6) [OF dict_wf_sorted [OF w]]) (simp add: j)
  show ?thesis
    by (rule that) (use ch v in \<open>auto simp: chain_replay_events_def replay_run_journal_def rd Let_def ev map_as_dict_stored\<close>)
qed

text \<open>The journal a run wrote is what a later reader finds, whatever was written in between.\<close>

lemma written_journal_found:
  assumes b: "build_replay_journal rt record events = Inr j"
    and wr: "write_run_journal rt out j d = (r, d')"
    and e: "safe_run_id run_id = safe_run_id (text_or_empty rt (jget record ''run_id''))"
    and fresh: "r \<noteq> Inr path \<Longrightarrow> out \<noteq> WriteFails \<and> (\<forall>name. journal_path run_id = Inr name \<longrightarrow> dget d name = None)"
  obtains name where "journal_path run_id = Inr name"
    "find_file (json_files.creations cs d') name = Some (Holds (sort_keys (JDict j)))"
proof -
  obtain i chained digest where i: "safe_run_id (text_or_empty rt (jget record ''run_id'')) = Inr i"
    and j: "j = dset (journal_body (sorted_dict record) i chained) JOURNAL_DIGEST_FIELD (JStr digest)"
    by (rule build_replay_journal_InrE [OF b])
  note i' = safe_run_id_again [OF i]
  have ji: "safe_run_id (text_or_empty rt (jget j ''run_id'')) = Inr i"
    using i' by (simp add: j journal_body_def JOURNAL_DIGEST_FIELD_def text_or_empty_def)
  define name where "name = i @ ''.json''"
  have n: "journal_path i = Inr name" "journal_path run_id = Inr name"
    using i' e i by (simp_all add: journal_path_def name_def)
  obtain q where at: "atomic_create_json out name (JDict j) d = (q, d')" "r = rbind q (\<lambda>_. Inr (''ai-workspace/generated/run-journal/'' @ name))"
    using wr by (auto simp: write_run_journal_def ji n split: prod.splits)
  have "find_file d' name = Some (Holds (sort_keys (JDict j)))"
  proof (cases "r = Inr path")
    case True
    then have "q = Inr ()" using at(2) by (cases q) auto
    then show ?thesis using json_files.created [of out name "JDict j" d] at(1) by simp
  next
    case False
    then show ?thesis using fresh [OF False] n(2) at(1)
      by (auto simp: atomic_create_json_def find_file_def dget_append dget_Cons simp del: sort_keys.simps)
  qed
  then show ?thesis using that [OF n(2)] json_files.creations_keep by blast
qed

theorem written_journal_replays:
  assumes b: "build_replay_journal rt record events = Inr j" and w: "dict_wf record"
    and c: "consistent_snapshots record events"
    and wr: "write_run_journal rt out j d = (Inr path, d')"
    and e: "safe_run_id run_id = safe_run_id (text_or_empty rt (jget record ''run_id''))"
    and small: "file_size rt (Holds (sort_keys (JDict j))) \<le> MAX_JOURNAL_BYTES"
  shows "\<exists>chained. chain_replay_events rt events = Inr chained
    \<and> (let r = replay_run_journal rt env (json_files.creations cs d') run_id config
       in rp_found r \<and> in_valid (rp_integrity r) \<and> rp_events_released r
          \<and> rp_events r = map sorted_dict chained)"
proof -
  obtain name where n: "journal_path run_id = Inr name"
    "find_file (json_files.creations cs d') name = Some (Holds (sort_keys (JDict j)))"
    using written_journal_found [OF b wr e, of path] by blast
  show ?thesis using journal_on_disk [OF b w c e n, of env config] small unfolding Let_def by metis
qed

text \<open>A reader releases no event of a journal it does not accept.\<close>

lemma replay_refuses:
  "rp_events_released (replay_run_journal rt env d run_id config)
     \<longleftrightarrow> in_valid (rp_integrity (replay_run_journal rt env d run_id config))"
  "\<not> rp_events_released (replay_run_journal rt env d run_id config)
     \<Longrightarrow> rp_events (replay_run_journal rt env d run_id config) = []"
  by (auto simp: replay_run_journal_def Let_def split: option.splits)

section \<open>What the digest binds\<close>

lemma hex_digit_eq: "hex_digit m = hex_digit n \<longleftrightarrow> m mod 16 = n mod 16"
proof -
  have "distinct ''0123456789abcdef''" by simp
  then show ?thesis
    unfolding hex_digit_def by (rule nth_eq_iff_index_eq) simp_all
qed

lemma hex_pair_inj:
  "hex_digit (code c div 16) = hex_digit (code d div 16) \<Longrightarrow> hex_digit (code c) = hex_digit (code d) \<Longrightarrow> c = d"
proof -
  assume h: "hex_digit (code c div 16) = hex_digit (code d div 16)" "hex_digit (code c) = hex_digit (code d)"
  have "code c < 256" "code d < 256" by (simp_all add: code_def)
  then have "code c div 16 < 16" "code d div 16 < 16" by simp_all
  then have "code c div 16 = code d div 16" using h(1) by (simp add: hex_digit_eq)
  moreover have "code c mod 16 = code d mod 16" using h(2) by (simp add: hex_digit_eq)
  ultimately have "code c = code d" by (metis div_mult_mod_eq)
  then show "c = d" by (simp add: code_def)
qed

lemma hexdigest_inj: "hexdigest a = hexdigest b \<Longrightarrow> a = b"
proof (induction a arbitrary: b)
  case Nil
  then show ?case by (cases b) (simp_all add: hexdigest_def)
next
  case (Cons c a)
  then obtain d b' where b: "b = d # b'" by (cases b) (simp_all add: hexdigest_def)
  have "hex_digit (code c div 16) = hex_digit (code d div 16)" "hex_digit (code c) = hex_digit (code d)"
    "hexdigest a = hexdigest b'"
    using Cons.prems by (simp_all add: b hexdigest_def)
  then show ?case using Cons.IH [of b'] hex_pair_inj [of c d] unfolding b by blast
qed

lemma valid_journal_digest:
  assumes "in_valid (verify_replay_journal rt r e)"
  shows "in_journal_digest (verify_replay_journal rt r e)
      = JStr (''sha256:'' @ sha256_json rt (JDict (dpop r JOURNAL_DIGEST_FIELD)))"
proof -
  have je: "journal_digest_errors rt r = []"
    and d: "in_journal_digest (verify_replay_journal rt r e)
      = (if text_or_empty rt (jget r JOURNAL_DIGEST_FIELD) = [] then JNull else JStr (text_or_empty rt (jget r JOURNAL_DIGEST_FIELD)))"
    using assms by (auto simp: verify_replay_journal_def Let_def split: json.splits prod.splits)
  show ?thesis
    using je d by (auto simp: journal_digest_errors_def Let_def err_def journal_digest_def digest_of_Inr
        split: sum.splits if_splits)
qed

theorem digest_binds:
  assumes "in_valid (verify_replay_journal rt r e)" "in_valid (verify_replay_journal rt r' e')"
    and "in_journal_digest (verify_replay_journal rt r e) = in_journal_digest (verify_replay_journal rt r' e')"
    and "canonical rt (JDict (dpop r JOURNAL_DIGEST_FIELD)) \<noteq> canonical rt (JDict (dpop r' JOURNAL_DIGEST_FIELD))"
  shows "\<exists>x y. x \<noteq> y \<and> rt_sha256 rt x = rt_sha256 rt y"
  using assms(3,4) hexdigest_inj
  unfolding valid_journal_digest [OF assms(1)] valid_journal_digest [OF assms(2)]
  by (auto simp: sha256_json_def)

section \<open>A journal that can be built\<close>

lemma all_finite_event_body:
  "all_finite (JDict (event_body i k p pl)) \<longleftrightarrow> all_finite p \<and> all_finite (JDict pl)"
  by (simp add: event_body_def)

lemma chain_from_total:
  assumes "\<forall>e \<in> set events. event_kind rt e \<noteq> [] \<and> (\<exists>pl. jget e ''payload'' = JDict pl \<and> all_finite (JDict pl))"
    and "all_finite p"
  shows "\<exists>r. chain_from rt i p events = Inr r"
  using assms
proof (induction events arbitrary: i p)
  case (Cons e es)
  then obtain pl where e: "event_kind rt e \<noteq> []" "jget e ''payload'' = JDict pl" "all_finite (JDict pl)" by auto
  have c: "json_clone (JDict pl) = Inr (JDict (sorted_dict pl))"
    using e(3) by (simp add: json_clone_def finite_json_def guard_that_def sorted_dict_def)
  have "all_finite (JDict (sorted_dict pl))" using e(3) all_finite_sort_keys [of "JDict pl"] by (simp only: sort_keys_JDict)
  then have "all_finite (JDict (event_body i (event_kind rt e) p (sorted_dict pl)))"
    using Cons.prems(2) by (simp only: all_finite_event_body)
  then obtain d where d: "digest_of rt (JDict (event_body i (event_kind rt e) p (sorted_dict pl))) = Inr d"
    by (simp only: digest_of_def finite_json_def guard_that_def) auto
  obtain r where "chain_from rt (Suc i) (JStr d) es = Inr r" using Cons by fastforce
  then show ?case using e c d by (simp add: Let_def guard_that_def)
qed simp

lemma all_finite_dset: "all_finite (JDict d) \<Longrightarrow> all_finite v \<Longrightarrow> all_finite (JDict (dset d k v))"
  using set_dset [of d k v] by (auto simp: list_all_iff)

lemma all_finite_dpop: "all_finite (JDict d) \<Longrightarrow> all_finite (JDict (dpop d k))"
  by (auto simp: list_all_iff dpop_def)

lemma chain_from_finite:
  assumes "chain_from rt i p events = Inr chained" "all_finite p" "e \<in> set chained"
  shows "all_finite (JDict e)"
  using assms
proof (induction events arbitrary: i p chained)
  case (Cons raw events)
  from Cons.prems(1) show ?case
  proof (rule chain_from_ConsE)
    fix payload digest rest
    assume f: "all_finite (JDict payload)" and r: "chain_from rt (Suc i) (JStr digest) events = Inr rest"
      and c: "chained = chained_event i (event_kind rt raw) p (sorted_dict payload) digest # rest"
    have "all_finite (JDict (sorted_dict payload))"
      using f all_finite_sort_keys [of "JDict payload"] by (simp only: sort_keys_JDict)
    then have "all_finite (JDict (chained_event i (event_kind rt raw) p (sorted_dict payload) digest))"
      using Cons.prems(2) by (simp add: chained_event_def event_body_def)
    then show ?thesis using Cons.IH [OF r] Cons.prems(3) c by auto
  qed
qed simp

lemma journal_builds:
  assumes run: "safe_run_id (text_or_empty rt (jget record ''run_id'')) = Inr i" and wf: "dict_wf record"
    and fin: "all_finite (JDict record)" and maps: "\<forall>k \<in> set REQUIRED_MAPPINGS. is_dict (jget record k)"
    and evidence: "is_list (jget record ''selected_evidence'')"
    and changed: "\<exists>fs. validated_changed_files record True = Inr fs"
    and kinds: "map (event_kind rt) events = EXPECTED_REPLAY_EVENT_KINDS"
    and payloads: "\<forall>e \<in> set events. \<exists>pl. jget e ''payload'' = JDict pl \<and> all_finite (JDict pl)"
  shows "\<exists>j. build_replay_journal rt record events = Inr j"
proof -
  have J: "jget (sorted_dict record) k = sort_keys (jget record k)" for k by (rule jget_sorted [OF wf])
  have "[] \<notin> set EXPECTED_REPLAY_EVENT_KINDS" by (simp add: EXPECTED_REPLAY_EVENT_KINDS_def)
  then have ne: "event_kind rt e \<noteq> []" if "e \<in> set events" for e
    using kinds that by (metis image_eqI list.set_map)
  obtain chained where ch: "chain_from rt 0 JNull events = Inr chained"
    using chain_from_total [of events rt JNull 0] ne payloads by auto
  have "length events = length EXPECTED_REPLAY_EVENT_KINDS" using kinds by (metis length_map)
  then have some: "chained \<noteq> []" using chain_from_length [OF ch] by (auto simp: EXPECTED_REPLAY_EVENT_KINDS_def)
  have "all_finite (JDict (sorted_dict record))"
    using fin all_finite_sort_keys [of "JDict record"] by (simp only: sort_keys_JDict)
  moreover have "all_finite (JList (map JDict chained))"
    using chain_from_finite [OF ch] by (auto simp: list_all_iff)
  moreover have "all_finite (jget (last chained) ''event_digest'')"
    using chain_from_finite [OF ch _ last_in_set [OF some]] all_finite_jget by simp
  ultimately have "all_finite (JDict (journal_body (sorted_dict record) i chained))"
    unfolding journal_body_def by (intro all_finite_dset) simp_all
  then have "\<exists>d. journal_digest rt (journal_body (sorted_dict record) i chained) = Inr d"
    unfolding journal_digest_def digest_of_def finite_json_def guard_that_def by (simp only: all_finite_dpop if_True) simp
  moreover have "missing_mapping (sorted_dict record) = None" using maps by (auto simp: missing_mapping_None J)
  moreover have "is_list (jget (sorted_dict record) ''selected_evidence'')" using evidence by (simp add: J)
  moreover have "\<exists>fs. validated_changed_files (sorted_dict record) True = Inr fs"
    using changed validated_changed_files_stored J by blast
  moreover have "json_clone (JDict record) = Inr (JDict (sorted_dict record))"
    using fin by (simp add: json_clone_def finite_json_def guard_that_def sorted_dict_def)
  ultimately show ?thesis
    using run ch kinds by (auto simp: build_replay_journal_def chain_replay_events_def guard_that_def Let_def)
qed

end
