(* ===== verification/LearningExamples.thy ===== *)
theory LearningExamples
  imports RuntimeExamples JournalProps
begin

text \<open>
  Concrete runs for the witnesses of the learning records and the run journal: an exploring
  process, its logged decision, a verified outcome, a synchronised store, and the identifier of a run.
\<close>

section \<open>An exploring process\<close>

definition demo_lenv :: learning_env where
  "demo_lenv = \<lparr>le_clock = (\<lambda>_. ''t1''), le_uuid = (\<lambda>_. demo_id), le_publish = (\<lambda>_. Durable), le_db = (\<lambda>_. DbOk),
     le_random = 1, le_kill_env = [], le_trusted_env = [], le_inside_root = (\<lambda>_. True), le_parse_time = (\<lambda>_. None)\<rparr>"

definition demo_lcfg :: "json dict" where
  "demo_lcfg = [(''context'', JDict [(''learning'', JDict
     [(''mode'', JStr ''explore''), (''exploration_probability'', JFloat (Fin (1/10))),
      (''eligible_arms'', JList [JStr BASELINE_ARM, JStr ''bm25_rank''])])])]"

definition demo_empty :: learning_fs where
  "demo_empty = \<lparr>lf_decisions = [], lf_observations = [], lf_outcomes = [], lf_stores = []\<rparr>"

lemma demo_lconfig: "learning_config demo_lcfg = [(''mode'', JStr ''explore''),
    (''exploration_probability'', JFloat (Fin (1/10))), (''eligible_arms'', JList [JStr BASELINE_ARM, JStr ''bm25_rank''])]"
  by (simp add: learning_config_def demo_lcfg_def section_of_def dict_simps)

lemma strip_arms: "strip BASELINE_ARM = BASELINE_ARM" "strip ''bm25_rank'' = ''bm25_rank''" "strip ''explore'' = ''explore''"
  by (simp_all add: BASELINE_ARM_def strip_def rstrip_def lstrip_def is_space_def code_def)

lemma lower_words: "lower ''explore'' = ''explore''" "lower ''low'' = ''low''" "lower [] = []"
  by (simp_all add: lower_def lower_char_def is_upper_def code_def)

lemma demo_arms: "eligible_arms demo_rt demo_lcfg = [BASELINE_ARM, ''bm25_rank'']"
proof -
  have "BASELINE_ARM \<noteq> ''bm25_rank''" by (simp add: BASELINE_ARM_def)
  moreover have "BASELINE_ARM \<in> set SAFE_EXPLORATION_ARMS" "''bm25_rank'' \<in> set SAFE_EXPLORATION_ARMS"
    by (simp_all add: SAFE_EXPLORATION_ARMS_def BASELINE_ARM_def)
  ultimately show ?thesis
    by (simp add: eligible_arms_def demo_lconfig dict_simps strip_arms uniq_def)
qed

lemma demo_mode: "learning_mode demo_rt demo_lcfg = ''explore''"
  by (simp add: learning_mode_def demo_lconfig dict_simps strip_arms lower_words LEARNING_MODES_def)

lemma demo_no_kill: "\<not> learning_kill_switch [] demo_lcfg"
  by (simp add: learning_kill_switch_def demo_lconfig dict_simps lower_words strip_def rstrip_def lstrip_def)

lemma demo_risks: "allowed_risks demo_rt demo_lcfg = {''low''}"
  by (simp add: allowed_risks_def demo_lconfig dict_simps lower_words strip_def rstrip_def lstrip_def is_space_def code_def)

definition demo_choice :: choice where
  "demo_choice = (baseline_choice ''explore'' (1/10) ''bounded_exploration'')
     \<lparr>ch_chosen := ''bm25_rank'', ch_propensities := [(BASELINE_ARM, 19/20), (''bm25_rank'', 1/20)], ch_explored := True\<rparr>"

lemma demo_chooses: "make_choice demo_rt demo_lenv demo_lcfg Low None = Inr demo_choice"
proof -
  have ps: "propensities [BASELINE_ARM, ''bm25_rank''] (1/10) = [(BASELINE_ARM, 19/20), (''bm25_rank'', 1/20)]"
    by (simp add: propensities_def BASELINE_ARM_def)
  have sa: "sample_arm [(BASELINE_ARM, 19/20), (''bm25_rank'', 1/20)] 1 = ''bm25_rank''"
    by (simp add: sample_arm_def)
  have ne: "''bm25_rank'' \<noteq> BASELINE_ARM" by (simp add: BASELINE_ARM_def)
  have low: "risk_value Low = ''low''" by simp
  show ?thesis
    using demo_no_kill ne
    by (simp add: make_choice_def demo_lconfig dict_simps fraction_of_def clamp01_def demo_mode explore_choice_def
        demo_lenv_def demo_risks demo_arms ps sa demo_choice_def low Let_def)
qed

lemma demo_decision: "\<exists>d. choose_learning_decision demo_rt demo_lenv ''q'' demo_low ''fix'' demo_lcfg 0 1 None = Inr d
    \<and> ld_chosen_arm d = ''bm25_rank'' \<and> ld_mode d = ''explore'' \<and> ld_decision_id d = demo_id"
  using demo_chooses
  by (simp add: choose_learning_decision_def demo_low_def demo_choice_def demo_lenv_def baseline_choice_def)

lemma demo_no_mirror: "\<not> production_store_enabled demo_lcfg"
  by (simp add: production_store_enabled_def production_config_def demo_lcfg_def section_of_def dict_simps)

lemma demo_record_path: "record_path demo_id = Inr (demo_id @ ''.json'')"
  by (simp add: record_path_Inr is_hex_def demo_id_def list_all_iff)

lemma demo_prepared: "\<exists>d p fs. prepare_learning_decision demo_rt demo_lenv ''q'' demo_low ''fix'' demo_lcfg 0 1 None demo_empty
    = (Inr (d, p), fs) \<and> ld_chosen_arm d = ''bm25_rank'' \<and> ld_mode d = ''explore''"
proof -
  obtain d where d: "choose_learning_decision demo_rt demo_lenv ''q'' demo_low ''fix'' demo_lcfg 0 1 None = Inr d"
    "ld_chosen_arm d = ''bm25_rank''" "ld_mode d = ''explore''" "ld_decision_id d = demo_id" using demo_decision by blast
  have "\<exists>p fs. write_learning_decision demo_rt demo_lenv 0 demo_lcfg d demo_empty = (Inr p, fs)"
    using demo_no_mirror
    by (simp add: write_learning_decision_def d demo_record_path demo_lenv_def demo_empty_def
        atomic_create_json_def sync_result_def mirror_into_def mirror_learning_event_def)
  then obtain p fs where "write_learning_decision demo_rt demo_lenv 0 demo_lcfg d demo_empty = (Inr p, fs)" by blast
  then show ?thesis using d by (simp add: prepare_learning_decision_def)
qed

section \<open>An outcome\<close>

definition demo_logged :: learning_fs where
  "demo_logged = demo_empty\<lparr>lf_decisions := demo_files\<rparr>"

definition demo_evidence :: string where
  "demo_evidence = ''sha256:'' @ replicate 64 (CHR ''0'')"

lemma demo_evidence_ok: "validated_sha256_digest demo_evidence = Inr demo_evidence"
proof -
  have s: "strip demo_evidence = demo_evidence"
    by (rule strip_nonspace) (auto simp: demo_evidence_def is_space_def code_def)
  have l: "lower demo_evidence = demo_evidence"
    by (simp add: demo_evidence_def lower_def lower_char_def is_upper_def code_def map_replicate_const)
  show ?thesis
    unfolding validated_sha256_digest_def s l
    by (simp add: demo_evidence_def starts_with_def guard_that_def is_hex_def list_all_iff)
qed

lemma demo_logged_ok: "records_ok demo_logged"
  by (auto simp: records_ok_def demo_logged_def demo_empty_def dir_ok_def demo_files_def dict_wf_def dkeys_def
      load_json_def demo_row_def dict_simps demo_record_path intro!: exI [of _ demo_id])

lemma demo_source: "strip ''local:test-suite'' = ''local:test-suite''" "strip ''v'' = ''v''"
  by (simp_all add: strip_def rstrip_def lstrip_def is_space_def code_def)

lemma demo_recorded: "\<exists>p fs. record_verified_outcome demo_rt demo_lenv demo_lcfg demo_id True ''local:test-suite'' ''v'' demo_evidence None
    (Fin 0) [] demo_logged = (Inr p, fs)"
proof -
  have f: "find_file (lf_decisions demo_logged) (demo_id @ ''.json'') = Some (Holds (JDict demo_row))"
    by (simp add: demo_logged_def demo_empty_def demo_files_def find_file_def dget_Cons)
  have "\<exists>ev. validate_verified_outcome [] ''local:test-suite'' ''v'' demo_evidence (Fin 1) (Fin 0) = Inr ev"
    by (simp add: validate_verified_outcome_def demo_source trusted_outcome_sources_def DEFAULT_TRUSTED_OUTCOME_SOURCES_def
        demo_evidence_ok guard_that_def)
  then obtain ev where "validate_verified_outcome [] ''local:test-suite'' ''v'' demo_evidence (Fin 1) (Fin 0) = Inr ev" by blast
  then have "\<exists>payload. outcome_record demo_rt demo_lenv demo_id True ''local:test-suite'' ''v'' demo_evidence None (Fin 0) [] demo_logged
      = Inr (demo_id @ ''.json'', payload)"
    by (simp add: outcome_record_def demo_record_path f demo_lenv_def)
  then show ?thesis
    using demo_no_mirror
    by (auto simp: record_verified_outcome_def demo_lenv_def demo_logged_def demo_empty_def
        atomic_create_json_def sync_result_def mirror_into_def mirror_learning_event_def)
qed

section \<open>A store\<close>

lemma demo_synced: "\<exists>c s. sync_loop demo_rt ''t2'' (\<lambda>_. DbOk) (canonical_files demo_logged)
    \<lparr>sc_scanned = 0, sc_inserted = 0, sc_already_present = 0, sc_invalid = 0\<rparr> empty_store = (Inr c, s)"
proof -
  have f: "canonical_files demo_logged = [(''decision'', demo_id @ ''.json'', Holds (JDict demo_row))]"
    by (simp add: canonical_files_def demo_logged_def demo_empty_def demo_files_def dsort_def)
  obtain eid where e: "canonical_event demo_rt ''decision'' (Holds (JDict demo_row)) = Some (eid, demo_row)"
    using demo_id_strip by (simp add: canonical_event_def load_json_def demo_row_def dict_simps)
  have k: "strip ''decision'' = ''decision''" by (simp add: strip_def rstrip_def lstrip_def is_space_def code_def)
  have "\<exists>r s. append_production_event demo_rt ''t2'' DbOk ''decision'' demo_row (Some eid) empty_store = (Inr r, s)"
    by (simp add: append_production_event_def k EVENT_KINDS_def open_production_store_def ensure_schema_def empty_store_def
        insert_event_def find_event_def new_event_def event_identity_def demo_row_def dict_simps opt_int_def sqlite_int_def Let_def)
  then show ?thesis by (auto simp: f e Let_def)
qed

lemma empty_store_typed: "typed_ids empty_store"
  by (simp add: typed_ids_def empty_store_def)

section \<open>A run\<close>

lemma demo_run_id: "safe_run_id ''r1'' = Inr ''r1''"
  by (simp add: safe_run_id_def Let_def strip_def rstrip_def lstrip_def is_space_def code_def is_alnum_def is_lower_def
      is_upper_def is_digit_def guard_that_def)

end
