(* ===== verification/LockProtocol.thy ===== *)
theory LockProtocol
  imports DeploymentStore
begin

text \<open>
  The lock directory of \<open>deployment_state.py\<close> under concurrency: any number of processes run \<open>_state_lock\<close>, every
  file-system call of it one atomic step, in any interleaving; each may crash at any point, and every call that changes
  the directory may fail.  \<open>DeploymentStore\<close> runs one process at a time; here the calls of several interleave.

  \<open>near p q\<close> says that process \<open>p\<close> can probe the pid of \<open>q\<close>: they run on one host, and the platform has the probe.  A
  pid that is probed may belong to a later process, so the probe of a dead process may answer either way.  Reading
  \<open>owner.json\<close> fails only when there is none; writing it is one step because it ends in \<open>os.replace\<close>.
\<close>

datatype phase =
    Trying nat           \<comment> \<open>about to \<open>mkdir\<close>, attempt 0 or 1\<close>
  | Aging                \<comment> \<open>\<open>mkdir\<close> failed on attempt 0: about to \<open>stat\<close> in \<open>_recover_stale_lock\<close>\<close>
  | Reading              \<comment> \<open>found the directory older than the lease, about to read its owner\<close>
  | Probing "nat option" \<comment> \<open>read the owner, about to probe its pid\<close>
  | Renaming             \<comment> \<open>found nobody alive, about to rename the directory away\<close>
  | Owning               \<comment> \<open>\<open>mkdir\<close> succeeded, \<open>owner.json\<close> not yet written\<close>
  | Critical             \<comment> \<open>in the body of the \<open>with\<close>\<close>
  | Removing             \<comment> \<open>read its own token on exit, about to remove \<open>owner.json\<close>\<close>
  | Emptying             \<comment> \<open>removed \<open>owner.json\<close>, about to remove the directory\<close>
  | Refused              \<comment> \<open>raised an exception\<close>
  | Left                 \<comment> \<open>done\<close>
  | Crashed

record lock_sys =
  ls_clock :: int
  ls_lock :: "(int \<times> nat option) option"  \<comment> \<open>modification time and owner\<close>
  ls_phase :: "nat \<Rightarrow> phase"

definition goto :: "lock_sys \<Rightarrow> nat \<Rightarrow> phase \<Rightarrow> lock_sys" where
  "goto s p ph = s\<lparr>ls_phase := (ls_phase s)(p := ph)\<rparr>"

definition lease :: int where
  "lease = 300"

definition lock_age :: "lock_sys \<Rightarrow> int \<times> nat option \<Rightarrow> int" where
  "lock_age s l = max 0 (ls_clock s - fst l)"

text \<open>The process whose pid is recorded has ended.\<close>

definition ended :: "phase \<Rightarrow> bool" where
  "ended ph = (ph \<in> {Refused, Left, Crashed})"

inductive lock_step :: "(nat \<Rightarrow> nat \<Rightarrow> bool) \<Rightarrow> lock_sys \<Rightarrow> lock_sys \<Rightarrow> bool"
  for near :: "nat \<Rightarrow> nat \<Rightarrow> bool" where
  mkdir: "ls_phase s p = Trying a \<Longrightarrow> ls_lock s = None \<Longrightarrow>
    lock_step near s (goto (s\<lparr>ls_lock := Some (ls_clock s, None)\<rparr>) p Owning)"
| mkdir_fails: "ls_phase s p = Trying a \<Longrightarrow> lock_step near s (goto s p Refused)"
| exists_first: "ls_phase s p = Trying 0 \<Longrightarrow> ls_lock s = Some l \<Longrightarrow> lock_step near s (goto s p Aging)"
| exists_again: "ls_phase s p = Trying (Suc a) \<Longrightarrow> ls_lock s = Some l \<Longrightarrow> lock_step near s (goto s p Refused)"
| stat_fails: "ls_phase s p = Aging \<Longrightarrow> lock_step near s (goto s p Refused)"
| stat_young: "ls_phase s p = Aging \<Longrightarrow> ls_lock s = Some l \<Longrightarrow> lock_age s l \<le> lease \<Longrightarrow> lock_step near s (goto s p Refused)"
| stat_old: "ls_phase s p = Aging \<Longrightarrow> ls_lock s = Some l \<Longrightarrow> lease < lock_age s l \<Longrightarrow> lock_step near s (goto s p Reading)"
| read_owner: "ls_phase s p = Reading \<Longrightarrow> owner = Option.bind (ls_lock s) snd \<Longrightarrow> lock_step near s (goto s p (Probing owner))"
| probe_alive: "ls_phase s p = Probing (Some q) \<Longrightarrow> near p q \<Longrightarrow> lock_step near s (goto s p Refused)"
| probe_dead: "ls_phase s p = Probing owner \<Longrightarrow> \<forall>q. owner = Some q \<longrightarrow> \<not> near p q \<or> ended (ls_phase s q) \<Longrightarrow>
    lock_step near s (goto s p Renaming)"
| rename: "ls_phase s p = Renaming \<Longrightarrow> ls_lock s = Some l \<Longrightarrow> lock_step near s (goto (s\<lparr>ls_lock := None\<rparr>) p (Trying 1))"
| rename_fails: "ls_phase s p = Renaming \<Longrightarrow> lock_step near s (goto s p Refused)"
| own: "ls_phase s p = Owning \<Longrightarrow> lock_step near s (goto (s\<lparr>ls_lock := Some (ls_clock s, Some p)\<rparr>) p Critical)"
| own_fails: "ls_phase s p = Owning \<Longrightarrow> lock_step near s (goto s p Refused)"
| own_unsynced: "ls_phase s p = Owning \<Longrightarrow> lock_step near s (goto (s\<lparr>ls_lock := Some (ls_clock s, Some p)\<rparr>) p Refused)"
| leave_own: "ls_phase s p = Critical \<Longrightarrow> ls_lock s = Some (m, Some p) \<Longrightarrow> lock_step near s (goto s p Removing)"
| leave_other: "ls_phase s p = Critical \<Longrightarrow> \<forall>m. ls_lock s \<noteq> Some (m, Some p) \<Longrightarrow> lock_step near s (goto s p Left)"
| unlink: "ls_phase s p = Removing \<Longrightarrow>
    lock_step near s (goto (s\<lparr>ls_lock := map_option (\<lambda>_. (ls_clock s, None)) (ls_lock s)\<rparr>) p Emptying)"
| unlink_fails: "ls_phase s p = Removing \<Longrightarrow> lock_step near s (goto s p Left)"
| rmdir: "ls_phase s p = Emptying \<Longrightarrow> ls_lock s = Some (m, None) \<Longrightarrow> lock_step near s (goto (s\<lparr>ls_lock := None\<rparr>) p Left)"
| rmdir_fails: "ls_phase s p = Emptying \<Longrightarrow> lock_step near s (goto s p Left)"
| crash: "\<not> ended (ls_phase s p) \<Longrightarrow> lock_step near s (goto s p Crashed)"
| tick: "0 \<le> d \<Longrightarrow> lock_step near s (s\<lparr>ls_clock := ls_clock s + d\<rparr>)"

definition init_lock :: lock_sys where
  "init_lock = \<lparr>ls_clock = 0, ls_lock = None, ls_phase = (\<lambda>_. Trying 0)\<rparr>"

inductive lock_reachable :: "(nat \<Rightarrow> nat \<Rightarrow> bool) \<Rightarrow> lock_sys \<Rightarrow> bool"
  for near :: "nat \<Rightarrow> nat \<Rightarrow> bool" where
  start: "lock_reachable near init_lock"
| step: "lock_reachable near s \<Longrightarrow> lock_step near s t \<Longrightarrow> lock_reachable near t"

text \<open>The window of the recovery: one process is between its \<open>stat\<close> and its \<open>rename\<close> while another has the directory
  without a record in it, just made or about to be removed.\<close>

definition recovering :: "phase \<Rightarrow> bool" where
  "recovering ph = (ph \<in> {Reading, Renaming} \<or> ph \<in> range Probing)"

definition overlapping :: "lock_sys \<Rightarrow> bool" where
  "overlapping s = (\<exists>p q. recovering (ls_phase s p) \<and> ls_phase s q \<in> {Owning, Emptying})"

text \<open>Runs in which nobody is ever caught in the window.\<close>

inductive undisturbed :: "(nat \<Rightarrow> nat \<Rightarrow> bool) \<Rightarrow> lock_sys \<Rightarrow> bool"
  for near :: "nat \<Rightarrow> nat \<Rightarrow> bool" where
  start: "undisturbed near init_lock"
| step: "undisturbed near s \<Longrightarrow> lock_step near s t \<Longrightarrow> \<not> overlapping t \<Longrightarrow> undisturbed near t"

definition holding :: "phase \<Rightarrow> bool" where
  "holding ph = (ph \<in> {Owning, Critical, Removing, Emptying})"

lemma goto_simps [simp]:
  "ls_clock (goto s p ph) = ls_clock s" "ls_lock (goto s p ph) = ls_lock s"
  "ls_phase (goto s p ph) = (ls_phase s)(p := ph)"
  by (simp_all add: goto_def)

lemma holding_simps [simp]:
  "holding Owning" "holding Critical" "holding Removing" "holding Emptying" "\<not> holding (Trying a)" "\<not> holding Aging"
  "\<not> holding Reading" "\<not> holding (Probing q)" "\<not> holding Renaming" "\<not> holding Refused" "\<not> holding Left" "\<not> holding Crashed"
  by (simp_all add: holding_def)

lemma recovering_simps [simp]:
  "recovering Reading" "recovering Renaming" "recovering (Probing owner)" "\<not> recovering Owning" "\<not> recovering Emptying"
  "\<not> recovering (Trying a)" "\<not> recovering Aging" "\<not> recovering Critical" "\<not> recovering Removing"
  "\<not> recovering Refused" "\<not> recovering Left" "\<not> recovering Crashed"
  by (auto simp: recovering_def)

lemma ended_holding: "ended ph \<Longrightarrow> \<not> holding ph"
  by (auto simp: ended_def)

lemma undisturbed_reachable: "undisturbed near s \<Longrightarrow> lock_reachable near s"
  by (induction rule: undisturbed.induct) (auto intro: lock_reachable.intros)

section \<open>Mutual exclusion outside the window\<close>

text \<open>There is one holder at most, who has the directory with the record his phase says; and who is about to rename the
  directory away, or to find its owner dead, knows of every holder.\<close>

definition lock_inv :: "lock_sys \<Rightarrow> bool" where
  "lock_inv s = ((\<forall>p q. holding (ls_phase s p) \<longrightarrow> holding (ls_phase s q) \<longrightarrow> p = q)
     \<and> (\<forall>p. ls_phase s p \<in> {Owning, Emptying} \<longrightarrow> (\<exists>m. ls_lock s = Some (m, None)))
     \<and> (\<forall>p. ls_phase s p \<in> {Critical, Removing} \<longrightarrow> (\<exists>m. ls_lock s = Some (m, Some p)))
     \<and> (\<forall>p q owner. ls_phase s p = Probing owner \<longrightarrow> holding (ls_phase s q) \<longrightarrow> owner = Some q)
     \<and> (\<forall>p q. ls_phase s p = Renaming \<longrightarrow> \<not> holding (ls_phase s q)))"

lemma lock_invD:
  assumes "lock_inv s"
  shows "holding (ls_phase s p) \<Longrightarrow> holding (ls_phase s q) \<Longrightarrow> p = q"
    "ls_phase s p = Owning \<or> ls_phase s p = Emptying \<Longrightarrow> \<exists>m. ls_lock s = Some (m, None)"
    "ls_phase s p = Critical \<or> ls_phase s p = Removing \<Longrightarrow> \<exists>m. ls_lock s = Some (m, Some p)"
    "ls_phase s p = Probing owner \<Longrightarrow> holding (ls_phase s q) \<Longrightarrow> owner = Some q"
    "ls_phase s p = Renaming \<Longrightarrow> \<not> holding (ls_phase s q)"
  using assms by (auto simp: lock_inv_def)

lemma lock_inv_free: "lock_inv s \<Longrightarrow> ls_lock s = None \<Longrightarrow> \<not> holding (ls_phase s q)"
  by (auto simp: lock_inv_def holding_def)

text \<open>A process that goes on without the lock, and knows what it has to know, keeps the invariant.\<close>

lemma lock_inv_goto:
  assumes "lock_inv s" "\<not> holding ph"
    and "\<And>owner q. ph = Probing owner \<Longrightarrow> holding (ls_phase s q) \<Longrightarrow> q \<noteq> p \<Longrightarrow> owner = Some q"
    and "\<And>q. ph = Renaming \<Longrightarrow> q \<noteq> p \<Longrightarrow> \<not> holding (ls_phase s q)"
  shows "lock_inv (goto s p ph)"
proof -
  have ph: "ph \<notin> {Owning, Emptying, Critical, Removing}" using assms(2) by auto
  show ?thesis using assms ph unfolding lock_inv_def by (simp add: fun_upd_apply) metis
qed

text \<open>The only holder, with nobody in recovery, takes the directory or goes on with it or gives it back.\<close>

lemma lock_inv_hold:
  assumes "\<And>q. q \<noteq> p \<Longrightarrow> \<not> holding (ls_phase s q)"
    and "\<And>q. holding ph \<Longrightarrow> q \<noteq> p \<Longrightarrow> \<not> recovering (ls_phase s q)"
    and "ph \<in> {Owning, Emptying} \<Longrightarrow> \<exists>m. l = Some (m, None)" "ph \<in> {Critical, Removing} \<Longrightarrow> \<exists>m. l = Some (m, Some p)"
    and "ph \<noteq> Renaming" "ph \<notin> range Probing"
  shows "lock_inv (goto (s\<lparr>ls_lock := l\<rparr>) p ph)"
proof -
  have nc: "ls_phase s q \<notin> {Owning, Emptying, Critical, Removing}" if "q \<noteq> p" for q
    using assms(1) [OF that] by (auto simp: holding_def)
  have nr: "ls_phase s q \<noteq> Renaming \<and> ls_phase s q \<noteq> Probing owner" if "holding ph" "q \<noteq> p" for q owner
    using assms(2) [OF that] by (auto simp: recovering_def)
  have o: "ph \<noteq> Probing owner" for owner using assms(6) by blast
  show ?thesis
    unfolding lock_inv_def using assms(1,3-5) nc nr o by (simp add: fun_upd_apply) blast
qed

lemma lock_step_inv:
  assumes "lock_step near s t" "\<And>p q. near p q" "lock_inv s" "\<not> overlapping s" "\<not> overlapping t"
  shows "lock_inv t"
proof -
  note inv = lock_invD [OF assms(3)]
  have others: "q \<noteq> p \<Longrightarrow> \<not> holding (ls_phase s q)" if "holding (ls_phase s p)" for p q
    using inv(1) that by blast
  have alone: "\<not> recovering (ls_phase s q)" if "ls_phase s p \<in> {Owning, Emptying}" for p q
    using assms(4) that by (auto simp: overlapping_def)
  have alone': "q \<noteq> p \<Longrightarrow> \<not> recovering (ls_phase s q)" if "t = goto s' p ph" "ls_phase s' = ls_phase s" "ph \<in> {Owning, Emptying}" for p q s' ph
    using assms(5) that unfolding overlapping_def by (metis fun_upd_apply goto_simps(3))
  note go = lock_inv_goto [OF assms(3)]
  show ?thesis
    using assms(1)
  proof (cases rule: lock_step.cases)
    case (mkdir p a)
    then show ?thesis
      using lock_inv_free [OF assms(3)] alone' [OF mkdir(1)] by (auto intro!: lock_inv_hold)
  next
    case (read_owner p owner)
    have "owner = Some q" if h: "holding (ls_phase s q)" for q
    proof -
      have "ls_phase s q \<notin> {Owning, Emptying}" using alone [of q p] read_owner(2) by auto
      then show ?thesis using h inv(3) [of q] read_owner(3) by (auto simp: holding_def)
    qed
    then show ?thesis unfolding read_owner(1) by (intro go) auto
  next
    case (probe_dead p owner)
    have "\<not> holding (ls_phase s q)" for q
      using inv(4) [OF probe_dead(2), of q] probe_dead(3) assms(2) ended_holding by blast
    then show ?thesis unfolding probe_dead(1) by (intro go) auto
  next
    case (rename p l)
    then show ?thesis using inv(5) by (auto intro!: lock_inv_hold)
  next
    case (own p)
    then show ?thesis using others [of p] alone [of p] by (auto intro!: lock_inv_hold)
  next
    case (own_unsynced p)
    then show ?thesis using others [of p] by (auto intro!: lock_inv_hold)
  next
    case (leave_own p m)
    have eq: "holding (ls_phase t q) = holding (ls_phase s q)" "(ls_phase t q \<in> {Owning, Emptying}) = (ls_phase s q \<in> {Owning, Emptying})"
      "(ls_phase t q \<in> {Critical, Removing}) = (ls_phase s q \<in> {Critical, Removing})" "ls_lock t = ls_lock s"
      "(ls_phase t q = Probing owner) = (ls_phase s q = Probing owner)" "(ls_phase t q = Renaming) = (ls_phase s q = Renaming)" for q owner
      using leave_own(2) by (simp_all add: leave_own(1))
    show ?thesis using assms(3) unfolding lock_inv_def by (simp only: eq)
  next
    case (unlink p)
    obtain m where "ls_lock s = Some (m, Some p)" using inv(3) unlink(2) by blast
    then show ?thesis
      using others [of p] alone' [OF unlink(1)] unlink by (auto intro!: lock_inv_hold)
  next
    case (rmdir p m)
    then show ?thesis using others [of p] by (auto intro!: lock_inv_hold)
  next
    case (tick d)
    then show ?thesis using assms(3) by (simp add: lock_inv_def)
  qed (auto intro!: go)
qed

lemma undisturbed_inv:
  assumes "undisturbed near s" "\<And>p q. near p q"
  shows "lock_inv s \<and> \<not> overlapping s"
  using assms(1)
proof (induction rule: undisturbed.induct)
  case start
  then show ?case by (simp add: lock_inv_def init_lock_def overlapping_def)
next
  case (step s t)
  then show ?case using lock_step_inv [OF step.hyps(2) assms(2)] by blast
qed
text \<open>While no directory outlives the lease nobody recovers, so nobody is caught in the window.\<close>

inductive young :: "(nat \<Rightarrow> nat \<Rightarrow> bool) \<Rightarrow> lock_sys \<Rightarrow> bool"
  for near :: "nat \<Rightarrow> nat \<Rightarrow> bool" where
  start: "young near init_lock"
| step: "young near s \<Longrightarrow> lock_step near s t \<Longrightarrow> \<forall>l. ls_lock t = Some l \<longrightarrow> lock_age t l \<le> lease \<Longrightarrow> young near t"

lemma not_recovering_step:
  assumes "lock_step near s t" "\<forall>l. ls_lock s = Some l \<longrightarrow> lock_age s l \<le> lease" "\<forall>p. \<not> recovering (ls_phase s p)"
  shows "\<forall>p. \<not> recovering (ls_phase t p)"
  using assms
proof (cases rule: lock_step.cases)
  case (read_owner p owner)
  then show ?thesis using assms(3) recovering_simps(1) by metis
next
  case (probe_dead p owner)
  then show ?thesis using assms(3) recovering_simps(3) by metis
qed (auto simp: recovering_def)

lemma young_undisturbed:
  assumes "young near s"
  shows "undisturbed near s \<and> (\<forall>l. ls_lock s = Some l \<longrightarrow> lock_age s l \<le> lease) \<and> (\<forall>p. \<not> recovering (ls_phase s p))"
  using assms
proof (induction rule: young.induct)
  case start
  then show ?case by (auto simp: init_lock_def recovering_def intro: undisturbed.start [unfolded init_lock_def])
next
  case (step s t)
  then have "\<forall>p. \<not> recovering (ls_phase t p)" using not_recovering_step [OF step.hyps(2)] by blast
  moreover have "undisturbed near t"
    using step calculation by (intro undisturbed.step [OF _ step.hyps(2)]) (auto simp: overlapping_def)
  ultimately show ?case using step.hyps(3) by blast
qed

section \<open>Runs\<close>

lemma goto_goto [simp]: "goto (goto s p a) p b = goto s p b"
  by (simp add: goto_def)

lemma lock_goto [simp]: "(goto s p ph)\<lparr>ls_lock := l\<rparr> = goto (s\<lparr>ls_lock := l\<rparr>) p ph"
  by (simp add: goto_def)

lemma run_acquire:
  assumes "lock_reachable near s" "ls_phase s p = Trying a" "ls_lock s = None"
  shows "lock_reachable near (goto (s\<lparr>ls_lock := Some (ls_clock s, Some p)\<rparr>) p Critical)"
proof -
  have "lock_reachable near (goto (s\<lparr>ls_lock := Some (ls_clock s, None)\<rparr>) p Owning)"
    by (rule lock_reachable.step [OF assms(1) lock_step.mkdir [OF assms(2,3)]])
  from lock_reachable.step [OF this lock_step.own [of _ p]] show ?thesis by simp
qed

text \<open>A process that finds an old lock of an ended one.\<close>

lemma run_judge:
  assumes "lock_reachable near s" "ls_phase s p = Trying 0" "ls_lock s = Some (m, Some q)" "lease < ls_clock s - m" "p \<noteq> q"
    and "ended (ls_phase s q)"
  shows "lock_reachable near (goto s p Renaming)"
proof -
  have "lock_reachable near (goto s p Aging)"
    by (rule lock_reachable.step [OF assms(1) lock_step.exists_first [OF assms(2,3)]])
  from lock_reachable.step [OF this lock_step.stat_old [of _ p]] have "lock_reachable near (goto s p Reading)"
    using assms(3,4) by (simp add: lock_age_def)
  from lock_reachable.step [OF this lock_step.read_owner [of _ p]] have "lock_reachable near (goto s p (Probing (Some q)))"
    using assms(3) by simp
  from lock_reachable.step [OF this lock_step.probe_dead [of _ p]] show ?thesis using assms(5,6) by simp
qed

lemma run_steal:
  assumes "lock_reachable near s" "ls_phase s p = Renaming" "ls_lock s = Some l"
  shows "lock_reachable near (goto (s\<lparr>ls_lock := Some (ls_clock s, Some p)\<rparr>) p Critical)"
proof -
  have "lock_reachable near (goto (s\<lparr>ls_lock := None\<rparr>) p (Trying 1))"
    by (rule lock_reachable.step [OF assms(1) lock_step.rename [OF assms(2,3)]])
  from run_acquire [OF this, of p 1] show ?thesis by simp
qed

text \<open>Process 0 crashes in its body and the lease runs out.  Processes 1 and 2 both find the lock stale; 2 renames it away,
  takes a fresh lock and enters its body; then 1 performs the rename it decided on, which removes the fresh lock of 2, and
  enters as well.\<close>

lemma recovery_race_run:
  "\<exists>s. lock_reachable near s \<and> ls_phase s 0 = Crashed \<and> ls_phase s 1 = Critical \<and> ls_phase s 2 = Critical"
proof -
  define s1 where "s1 = goto (init_lock\<lparr>ls_lock := Some (0, Some 0)\<rparr>) 0 Critical"
  define s3 where "s3 = (goto s1 0 Crashed)\<lparr>ls_clock := 301\<rparr>"
  define s5 where "s5 = goto (goto s3 1 Renaming) 2 Renaming"
  define s6 where "s6 = goto (s5\<lparr>ls_lock := Some (301, Some 2)\<rparr>) 2 Critical"
  define s7 where "s7 = goto (s6\<lparr>ls_lock := Some (301, Some 1)\<rparr>) 1 Critical"
  note defs = s1_def s3_def s5_def s6_def s7_def init_lock_def lease_def ended_def
  have "lock_reachable near s1" using run_acquire [OF lock_reachable.start, of 0 0] by (simp add: defs)
  from lock_reachable.step [OF this lock_step.crash [of _ 0]] have "lock_reachable near (goto s1 0 Crashed)" by (simp add: defs)
  from lock_reachable.step [OF this lock_step.tick [of 301]] have "lock_reachable near s3" by (simp add: defs goto_def)
  from run_judge [OF this, of 1 0 0] have "lock_reachable near (goto s3 1 Renaming)" by (simp add: defs)
  from run_judge [OF this, of 2 0 0] have "lock_reachable near s5" by (simp add: defs)
  from run_steal [OF this, of 2] have "lock_reachable near s6" by (simp add: defs)
  from run_steal [OF this, of 1] have "lock_reachable near s7" by (simp add: defs)
  then show ?thesis by (intro exI [of _ s7]) (simp add: defs)
qed

text \<open>Nobody crashes.  Process 0 keeps the lock beyond the lease and process 1 finds it old; 0 leaves and 2 makes the
  directory anew; 1 finds no record in it, renames it away and enters, and 2, whose record makes the directory again,
  enters as well.\<close>

lemma reread_race_run:
  "\<exists>s. lock_reachable near s \<and> (\<forall>p. ls_phase s p \<noteq> Crashed) \<and> ls_phase s 1 = Critical \<and> ls_phase s 2 = Critical"
proof -
  define s2 where "s2 = (goto (init_lock\<lparr>ls_lock := Some (0, Some 0)\<rparr>) 0 Critical)\<lparr>ls_clock := 301\<rparr>"
  define s4 where "s4 = goto s2 1 Reading"
  define s7 where "s7 = goto (s4\<lparr>ls_lock := None\<rparr>) 0 Left"
  define s8 where "s8 = goto (s7\<lparr>ls_lock := Some (301, None)\<rparr>) 2 Owning"
  define s10 where "s10 = goto s8 1 Renaming"
  define s11 where "s11 = goto (s10\<lparr>ls_lock := Some (301, Some 1)\<rparr>) 1 Critical"
  define s12 where "s12 = goto (s11\<lparr>ls_lock := Some (301, Some 2)\<rparr>) 2 Critical"
  note defs = s2_def s4_def s7_def s8_def s10_def s11_def s12_def init_lock_def lease_def
  have "lock_reachable near (goto (init_lock\<lparr>ls_lock := Some (0, Some 0)\<rparr>) 0 Critical)"
    using run_acquire [OF lock_reachable.start, of 0 0] by (simp add: defs)
  from lock_reachable.step [OF this lock_step.tick [of 301]] have "lock_reachable near s2" by (simp add: defs goto_def)
  from lock_reachable.step [OF this lock_step.exists_first [of _ 1]] have "lock_reachable near (goto s2 1 Aging)" by (simp add: defs)
  from lock_reachable.step [OF this lock_step.stat_old [of _ 1]] have "lock_reachable near s4" by (simp add: defs lock_age_def)
  from lock_reachable.step [OF this lock_step.leave_own [of _ 0 0]] have "lock_reachable near (goto s4 0 Removing)" by (simp add: defs)
  from lock_reachable.step [OF this lock_step.unlink [of _ 0]]
  have "lock_reachable near (goto (s4\<lparr>ls_lock := Some (301, None)\<rparr>) 0 Emptying)" by (simp add: defs)
  from lock_reachable.step [OF this lock_step.rmdir [of _ 0 301]] have "lock_reachable near s7" by (simp add: defs)
  from lock_reachable.step [OF this lock_step.mkdir [of _ 2 0]] have "lock_reachable near s8" by (simp add: defs)
  from lock_reachable.step [OF this lock_step.read_owner [of _ 1]] have "lock_reachable near (goto s8 1 (Probing None))" by (simp add: defs)
  from lock_reachable.step [OF this lock_step.probe_dead [of _ 1]] have "lock_reachable near s10" by (simp add: defs)
  from run_steal [OF this, of 1] have "lock_reachable near s11" by (simp add: defs)
  from lock_reachable.step [OF this lock_step.own [of _ 2]] have "lock_reachable near s12" by (simp add: defs)
  then show ?thesis by (intro exI [of _ s12]) (simp add: defs)
qed

text \<open>A recovery that nobody disturbs: process 0 crashes in its body, and process 1 takes over after the lease.\<close>

lemma solo_step:
  assumes "undisturbed near s" "lock_step near s (goto s' p ph)" "ls_phase s' = ls_phase s"
    and "\<And>q. q \<noteq> p \<Longrightarrow> ls_phase s q \<notin> {Owning, Emptying} \<and> \<not> recovering (ls_phase s q)"
  shows "undisturbed near (goto s' p ph)"
proof (rule undisturbed.step [OF assms(1,2)])
  show "\<not> overlapping (goto s' p ph)" using assms(3,4) by (auto simp: overlapping_def recovering_def split: if_splits)
qed

lemma undisturbed_recovery:
  "\<exists>s. undisturbed near s \<and> lease < ls_clock s \<and> ls_phase s 0 = Crashed \<and> ls_phase s 1 = Critical"
proof -
  define s1 where "s1 = init_lock\<lparr>ls_lock := Some (0, Some 0)\<rparr>"
  define s3 where "s3 = (goto s1 0 Crashed)\<lparr>ls_clock := 301\<rparr>"
  define s4 where "s4 = s3\<lparr>ls_lock := None\<rparr>"
  define s5 where "s5 = goto (s4\<lparr>ls_lock := Some (301, Some 1)\<rparr>) 1 Critical"
  note defs = s1_def s3_def s4_def s5_def init_lock_def lease_def lock_age_def ended_def overlapping_def
  have "undisturbed near (goto (init_lock\<lparr>ls_lock := Some (0, None)\<rparr>) 0 Owning)"
    using solo_step [OF undisturbed.start lock_step.mkdir [of _ 0 0]] by (simp add: defs)
  from solo_step [OF this lock_step.own [of _ 0]] have "undisturbed near (goto s1 0 Critical)" by (simp add: defs)
  from solo_step [OF this lock_step.crash [of _ 0]] have "undisturbed near (goto s1 0 Crashed)" by (simp add: defs)
  from undisturbed.step [OF this lock_step.tick [of 301]] have "undisturbed near s3" by (simp add: defs goto_def)
  from solo_step [OF this lock_step.exists_first [of _ 1]] have "undisturbed near (goto s3 1 Aging)" by (simp add: defs)
  from solo_step [OF this lock_step.stat_old [of _ 1]] have "undisturbed near (goto s3 1 Reading)" by (simp add: defs)
  from solo_step [OF this lock_step.read_owner [of _ 1]] have "undisturbed near (goto s3 1 (Probing (Some 0)))" by (simp add: defs)
  from solo_step [OF this lock_step.probe_dead [of _ 1]] have "undisturbed near (goto s3 1 Renaming)" by (simp add: defs)
  from solo_step [OF this lock_step.rename [of _ 1]] have "undisturbed near (goto s4 1 (Trying 1))" by (simp add: defs)
  from solo_step [OF this lock_step.mkdir [of _ 1]] have "undisturbed near (goto (s4\<lparr>ls_lock := Some (301, None)\<rparr>) 1 Owning)" by (simp add: defs)
  from solo_step [OF this lock_step.own [of _ 1]] have "undisturbed near s5" by (simp add: defs)
  then show ?thesis by (intro exI [of _ s5]) (simp add: defs)
qed

end
