(* ===== verification/Patterns.thy ===== *)
theory Patterns
  imports Prelude
begin

text \<open>
  The part of Python's \<open>re\<close> module the retrieval code uses: characters classes, concatenation, ordered
  alternatives, greedy repetition and word boundaries.  \<open>re_matches\<close> lists the ends of all matches that
  start at a position in the order the backtracking matcher tries them, so its head is the match
  \<open>re\<close> reports; \<open>matched\<close> is the declarative meaning, and the two are shown to agree.  A position is
  the rest of the text with a flag that says whether a word character stands before it.
\<close>

datatype regex =
    Chars "char \<Rightarrow> bool"
  | Eps
  | Bound
  | Seq regex regex
  | Alt regex regex
  | Star regex

type_synonym position = "bool \<times> string"

section \<open>Matching\<close>

definition is_word :: "char \<Rightarrow> bool" where
  "is_word c = (is_alnum c \<or> c = CHR ''_'')"

definition word_first :: "string \<Rightarrow> bool" where
  "word_first s = (case s of c # _ \<Rightarrow> is_word c | [] \<Rightarrow> False)"

text \<open>Greedy repetition: as long as an iteration consumes something, it is tried before stopping.\<close>

fun repeat_match :: "(position \<Rightarrow> position list) \<Rightarrow> nat \<Rightarrow> position \<Rightarrow> position list" where
  "repeat_match m 0 x = [x]"
| "repeat_match m (Suc n) x =
     concat (map (repeat_match m n) (filter (\<lambda>y. length (snd y) < length (snd x)) (m x))) @ [x]"

fun re_matches :: "regex \<Rightarrow> position \<Rightarrow> position list" where
  "re_matches (Chars p) x = (case snd x of c # cs \<Rightarrow> if p c then [(is_word c, cs)] else [] | [] \<Rightarrow> [])"
| "re_matches Eps x = [x]"
| "re_matches Bound x = (if fst x \<noteq> word_first (snd x) then [x] else [])"
| "re_matches (Seq r s) x = concat (map (re_matches s) (re_matches r x))"
| "re_matches (Alt r s) x = re_matches r x @ re_matches s x"
| "re_matches (Star r) x = repeat_match (re_matches r) (length (snd x)) x"

text \<open>\<open>pattern.search(text)\<close>, as a truth value.\<close>

fun search_from :: "regex \<Rightarrow> bool \<Rightarrow> string \<Rightarrow> bool" where
  "search_from r b [] = (re_matches r (b, []) \<noteq> [])"
| "search_from r b (c # cs) = (re_matches r (b, c # cs) \<noteq> [] \<or> search_from r (is_word c) cs)"

definition re_search :: "regex \<Rightarrow> string \<Rightarrow> bool" where
  "re_search r text = search_from r False text"

text \<open>\<open>pattern.findall(text)\<close> for a pattern without groups that never matches the empty text.\<close>

function find_from :: "regex \<Rightarrow> bool \<Rightarrow> string \<Rightarrow> string list" where
  "find_from r b [] = []"
| "find_from r b (c # cs) =
     (case re_matches r (b, c # cs) of
        [] \<Rightarrow> find_from r (is_word c) cs
      | (b', rest) # _ \<Rightarrow>
          (if length rest < length (c # cs)
           then take (length (c # cs) - length rest) (c # cs) # find_from r b' rest
           else find_from r (is_word c) cs))"
  by pat_completeness auto
termination find_from by (relation "measure (\<lambda>(_, _, s). length s)") auto

definition re_findall :: "regex \<Rightarrow> string \<Rightarrow> string list" where
  "re_findall r text = find_from r False text"

section \<open>Building patterns\<close>

definition chr :: "char \<Rightarrow> regex" where
  "chr c = Chars (\<lambda>d. d = c)"

definition opt_re :: "regex \<Rightarrow> regex" where
  "opt_re r = Alt r Eps"

definition plus_re :: "regex \<Rightarrow> regex" where
  "plus_re r = Seq r (Star r)"

text \<open>A literal under \<open>re.I\<close>, and \<open>\s+\<close>.\<close>

definition lit :: "string \<Rightarrow> regex" where
  "lit s = foldr (\<lambda>c r. Seq (Chars (\<lambda>d. lower_char d = lower_char c)) r) s Eps"

definition spaces :: regex where
  "spaces = plus_re (Chars is_space)"

fun alts :: "regex list \<Rightarrow> regex" where
  "alts [] = Chars (\<lambda>_. False)"
| "alts [r] = r"
| "alts (r # s # rs) = Alt r (alts (s # rs))"

fun seqs :: "regex list \<Rightarrow> regex" where
  "seqs [] = Eps"
| "seqs [r] = r"
| "seqs (r # s # rs) = Seq r (seqs (s # rs))"

text \<open>\<open>\b(...|...)\b\<close>\<close>

definition whole_words :: "regex list \<Rightarrow> regex" where
  "whole_words rs = seqs [Bound, alts rs, Bound]"

section \<open>The declarative meaning\<close>

text \<open>Repetition is the reflexive transitive closure of one iteration.\<close>

fun matched :: "regex \<Rightarrow> position \<Rightarrow> position \<Rightarrow> bool" where
  "matched (Chars p) x y = (\<exists>c. snd x = c # snd y \<and> p c \<and> fst y = is_word c)"
| "matched Eps x y = (x = y)"
| "matched Bound x y = (x = y \<and> fst x \<noteq> word_first (snd x))"
| "matched (Seq r s) x y = (\<exists>z. matched r x z \<and> matched s z y)"
| "matched (Alt r s) x y = (matched r x y \<or> matched s x y)"
| "matched (Star r) x y = (matched r)\<^sup>*\<^sup>* x y"

text \<open>\<open>y\<close> is reached from \<open>x\<close> by reading some characters.\<close>

definition advances :: "position \<Rightarrow> position \<Rightarrow> bool" where
  "advances x y = (\<exists>u. snd x = u @ snd y \<and> fst y = (if u = [] then fst x else is_word (last u)))"

lemma advances_refl [simp]: "advances x x"
  by (simp add: advances_def)

lemma advances_trans: "advances x y \<Longrightarrow> advances y z \<Longrightarrow> advances x z"
proof -
  assume "advances x y" "advances y z"
  then obtain u v where "snd x = u @ snd y" "fst y = (if u = [] then fst x else is_word (last u))"
    "snd y = v @ snd z" "fst z = (if v = [] then fst y else is_word (last v))"
    by (auto simp: advances_def)
  then show "advances x z" unfolding advances_def by (intro exI [of _ "u @ v"]) auto
qed

lemma advances_length: "advances x y \<Longrightarrow> length (snd y) \<le> length (snd x)"
  by (auto simp: advances_def)

lemma advances_same: "advances x y \<Longrightarrow> \<not> length (snd y) < length (snd x) \<Longrightarrow> y = x"
  by (cases x; cases y) (auto simp: advances_def)

lemma matched_advances: "matched r x y \<Longrightarrow> advances x y"
proof (induction r arbitrary: x y)
  case (Chars p)
  then obtain c where "snd x = c # snd y" "fst y = is_word c" by auto
  then show ?case unfolding advances_def by (intro exI [of _ "[c]"]) simp
next
  case (Star r)
  from Star.prems have "(matched r)\<^sup>*\<^sup>* x y" by simp
  then show ?case by (induction rule: rtranclp_induct) (auto intro: advances_trans Star.IH)
next
  case (Seq r s)
  then show ?case using advances_trans by (metis matched.simps(4))
qed auto

lemma rtranclp_first_move: "R\<^sup>*\<^sup>* x y \<Longrightarrow> x = y \<or> (\<exists>z. R x z \<and> z \<noteq> x \<and> R\<^sup>*\<^sup>* z y)"
  by (induction rule: converse_rtranclp_induct) (metis, metis)

text \<open>An iteration that reads nothing changes nothing, so leaving it out loses no match.\<close>

lemma repeat_match_iff:
  assumes m: "\<And>x y. y \<in> set (m x) \<longleftrightarrow> R x y" and adv: "\<And>x y. R x y \<Longrightarrow> advances x y"
    and "length (snd x) \<le> n"
  shows "y \<in> set (repeat_match m n x) \<longleftrightarrow> R\<^sup>*\<^sup>* x y"
  using assms(3)
proof (induction n arbitrary: x)
  case 0
  have "R\<^sup>*\<^sup>* x y \<Longrightarrow> y = x"
  proof (induction rule: rtranclp_induct)
    case (step y z)
    then show ?case using 0 advances_same [OF adv [of x z]] by simp
  qed simp
  then show ?case by auto
next
  case (Suc n)
  have step: "R x z \<Longrightarrow> z \<noteq> x \<Longrightarrow> length (snd z) < length (snd x)" for z
    using advances_same adv by blast
  show ?case
  proof
    assume "y \<in> set (repeat_match m (Suc n) x)"
    then consider "y = x" | z where "R x z" "length (snd z) < length (snd x)" "y \<in> set (repeat_match m n z)"
      by (auto simp: m)
    then show "R\<^sup>*\<^sup>* x y"
    proof cases
      case 2
      then have "R\<^sup>*\<^sup>* z y" using Suc.IH Suc.prems by fastforce
      then show ?thesis using 2 by (meson converse_rtranclp_into_rtranclp)
    qed simp
  next
    assume "R\<^sup>*\<^sup>* x y"
    then consider "y = x" | z where "R x z" "z \<noteq> x" "R\<^sup>*\<^sup>* z y" using rtranclp_first_move by metis
    then show "y \<in> set (repeat_match m (Suc n) x)"
    proof cases
      case 2
      then have "length (snd z) < length (snd x)" using step by blast
      then have "y \<in> set (repeat_match m n z)" using 2(3) Suc.IH [of z] Suc.prems by simp
      moreover have "z \<in> set (m x)" using 2(1) m by blast
      ultimately show ?thesis using \<open>length (snd z) < length (snd x)\<close>
        by (auto simp del: split_paired_Ex split_paired_All)
    qed simp
  qed
qed

lemma re_matches_iff: "y \<in> set (re_matches r x) \<longleftrightarrow> matched r x y"
proof (induction r arbitrary: x y)
  case (Chars p)
  then show ?case by (cases x; cases y) (auto split: list.splits)
next
  case (Star r)
  then show ?case using repeat_match_iff [of "re_matches r" "matched r" x "length (snd x)" y] matched_advances
    by simp
next
  case (Seq r s)
  then show ?case by (simp del: split_paired_Ex) blast
qed auto

lemma re_matches_Nil_iff: "re_matches r x = [] \<longleftrightarrow> (\<nexists>y. matched r x y)"
  by (metis re_matches_iff list.set_cases empty_iff list.set(1) last_in_set)

section \<open>Searching\<close>

text \<open>The flag at a position of \<open>text\<close>.\<close>

definition after_word :: "bool \<Rightarrow> string \<Rightarrow> bool" where
  "after_word b before = (if before = [] then b else is_word (last before))"

lemma after_word_Cons [simp]: "after_word b (c # u) = after_word (is_word c) u"
  by (simp add: after_word_def)

lemma split_Cons: "(\<exists>u v. c # cs = u @ v \<and> P u v) \<longleftrightarrow> P [] (c # cs) \<or> (\<exists>u v. cs = u @ v \<and> P (c # u) v)"
  by (auto simp: Cons_eq_append_conv)

lemma search_from_iff:
  "search_from r b s \<longleftrightarrow> (\<exists>u v y. s = u @ v \<and> matched r (after_word b u, v) y)"
proof (induction s arbitrary: b)
  case Nil
  then show ?case by (simp add: re_matches_Nil_iff after_word_def)
next
  case (Cons c cs)
  have "search_from r b (c # cs) \<longleftrightarrow> (\<exists>y. matched r (b, c # cs) y)
      \<or> (\<exists>u v. cs = u @ v \<and> (\<exists>y. matched r (after_word (is_word c) u, v) y))"
    using Cons.IH [of "is_word c"] by (simp add: re_matches_Nil_iff)
  also have "\<dots> \<longleftrightarrow> (\<exists>u v. c # cs = u @ v \<and> (\<exists>y. matched r (after_word b u, v) y))"
    by (subst split_Cons) (simp add: after_word_def [of b "[]"])
  finally show ?case by blast
qed

lemma re_search_iff:
  "re_search r s \<longleftrightarrow> (\<exists>u v y. s = u @ v \<and> matched r (after_word False u, v) y)"
  by (simp add: re_search_def search_from_iff)

text \<open>What \<open>findall\<close> returns are non-empty pieces of the s, each the reading of a match.\<close>

lemma find_from_pieces:
  "w \<in> set (find_from r b s) \<Longrightarrow> w \<noteq> [] \<and> (\<exists>u v. s = u @ w @ v \<and> (\<exists>b b'. matched r (b, w @ v) (b', v)))"
proof (induction r b s rule: find_from.induct)
  case (2 r b c cs)
  show ?case
  proof (cases "re_matches r (b, c # cs)")
    case Nil
    then have "w \<in> set (find_from r (is_word c) cs)" using 2 by simp
    with 2(1) [OF Nil] show ?thesis by (metis append_Cons)
  next
    case (Cons y ys)
    obtain b' rest where y: "y = (b', rest)" by (cases y)
    have m: "matched r (b, c # cs) (b', rest)" using Cons y re_matches_iff by (metis list.set_intros(1))
    then obtain u where u: "c # cs = u @ rest" using matched_advances by (fastforce simp: advances_def)
    then have tk: "take (length (c # cs) - length rest) (c # cs) = u" by simp
    show ?thesis
    proof (cases "length rest < length (c # cs)")
      case True
      then consider "w = u" | "w \<in> set (find_from r b' rest)"
        using 2(4) Cons y tk by (auto simp del: length_Cons split: if_splits)
      then show ?thesis
      proof cases
        case 1
        then show ?thesis using m u True by auto
      next
        case 2
        with "2.IH"(2) [OF Cons y [symmetric] True] show ?thesis using u by (metis append.assoc)
      qed
    next
      case False
      then have "w \<in> set (find_from r (is_word c) cs)" using 2(4) Cons y by simp
      with "2.IH"(3) [OF Cons y [symmetric] False] show ?thesis by (metis append_Cons)
    qed
  qed
qed simp

end
