(* ===== verification/Fusion.thy ===== *)
theory Fusion
  imports Domain "HOL-Library.Product_Lexorder"
begin

text \<open>
  \<open>math_retrieval.py\<close>: the tokenizer, BM25 scoring, reciprocal rank fusion and maximal marginal
  relevance.  \<open>math.log\<close> is the argument \<open>mlog\<close> of the scorer; token sets are finite sets; the sums over
  a set are exact, so their order does not matter.
\<close>

section \<open>Tokens\<close>

text \<open>The maximal runs of \<open>[^\W_]\<close>, that is of \<open>str.isalnum\<close> characters.\<close>

fun alnum_runs :: "string \<Rightarrow> string \<Rightarrow> string list" where
  "alnum_runs acc [] = (if acc = [] then [] else [rev acc])"
| "alnum_runs acc (c # cs) =
     (if is_alnum c then alnum_runs (c # acc) cs
      else if acc = [] then alnum_runs [] cs else rev acc # alnum_runs [] cs)"

definition ascii_upper :: "char \<Rightarrow> bool" where
  "ascii_upper c = (65 \<le> code c \<and> code c \<le> 90)"

definition ascii_lower :: "char \<Rightarrow> bool" where
  "ascii_lower c = (97 \<le> code c \<and> code c \<le> 122)"

text \<open>The two alternatives of the split pattern between \<open>a\<close> and \<open>b\<close>, with the text after \<open>b\<close>.\<close>

definition camel_boundary :: "char \<Rightarrow> char \<Rightarrow> string \<Rightarrow> bool" where
  "camel_boundary a b rest = ((ascii_lower a \<or> is_digit a) \<and> ascii_upper b
     \<or> ascii_upper a \<and> ascii_upper b \<and> (case rest of c # _ \<Rightarrow> ascii_lower c | [] \<Rightarrow> False))"

fun camel_parts :: "string \<Rightarrow> string \<Rightarrow> string list" where
  "camel_parts acc [] = [rev acc]"
| "camel_parts acc [c] = [rev (c # acc)]"
| "camel_parts acc (c # d # cs) =
     (if camel_boundary c d cs then rev (c # acc) # camel_parts [] (d # cs)
      else camel_parts (c # acc) (d # cs))"

definition tokens_of_run :: "string \<Rightarrow> string list" where
  "tokens_of_run raw =
     (let whole = lower raw; parts = camel_parts [] raw
      in (if 2 \<le> length whole then [whole] else [])
         @ (if 1 < length parts then map lower (filter (\<lambda>p. 2 \<le> length p) parts) else []))"

definition tokenize :: "string \<Rightarrow> string list" where
  "tokenize text = concat (map tokens_of_run (alnum_runs [] text))"

lemma concat_camel_parts: "concat (camel_parts acc cs) = rev acc @ cs"
  by (induction acc cs rule: camel_parts.induct) auto

lemma length_lower [simp]: "length (lower s) = length s"
  by (simp add: lower_def)

lemma tokenize_long: "t \<in> set (tokenize text) \<Longrightarrow> 2 \<le> length t"
  by (auto simp: tokenize_def tokens_of_run_def Let_def split: if_splits)

section \<open>Token sets\<close>

definition jaccard_similarity :: "string set \<Rightarrow> string set \<Rightarrow> rat" where
  "jaccard_similarity a b =
     (let common = card (a \<inter> b)
      in if common = 0 then 0 else of_nat common / (of_nat (card a) + of_nat (card b) - of_nat common))"

lemma jaccard_as_union:
  assumes "finite a" "finite b"
  shows "jaccard_similarity a b = of_nat (card (a \<inter> b)) / of_nat (card (a \<union> b))"
proof -
  have "rat_of_nat (card a) + of_nat (card b) = of_nat (card (a \<union> b)) + of_nat (card (a \<inter> b))"
    using card_Un_Int [OF assms] by (metis of_nat_add)
  then show ?thesis by (simp add: jaccard_similarity_def Let_def)
qed

lemma jaccard_bounds:
  assumes "finite a" "finite b"
  shows "0 \<le> jaccard_similarity a b \<and> jaccard_similarity a b \<le> 1"
proof -
  have "card (a \<inter> b) \<le> card (a \<union> b)" using assms by (intro card_mono) auto
  then show ?thesis by (cases "card (a \<union> b) = 0") (simp_all add: jaccard_as_union [OF assms] divide_le_eq_1)
qed

section \<open>BM25\<close>

record 'a doc =
  dc_id :: nat
  dc_text :: string
  dc_tokens :: "string list"
  dc_token_set :: "string set"
  dc_term_freq :: "nat dict"
  dc_length :: nat
  dc_item :: 'a

record 'a bm25 =
  bm_k1 :: rat
  bm_b :: rat
  bm_doc_freqs :: "nat dict"
  bm_docs :: "'a doc list"
  bm_avgdl :: rat
  bm_idf :: "rat dict"

text \<open>\<open>Counter(tks)\<close>, in order of first occurrence; also the document frequencies, one token set per
  document.\<close>

definition count_token :: "string \<Rightarrow> nat dict \<Rightarrow> nat dict" where
  "count_token t d = dset d t ((case dget d t of Some n \<Rightarrow> n | None \<Rightarrow> 0) + 1)"

definition token_counts :: "string list \<Rightarrow> nat dict \<Rightarrow> nat dict" where
  "token_counts ts d = fold count_token ts d"

definition tokenized_doc :: "nat \<Rightarrow> string \<Rightarrow> 'a \<Rightarrow> 'a doc" where
  "tokenized_doc i text item =
     (let ts = tokenize text in
      \<lparr>dc_id = i, dc_text = text, dc_tokens = ts, dc_token_set = set ts, dc_term_freq = token_counts ts [],
       dc_length = length ts, dc_item = item\<rparr>)"

definition idf_of :: "(rat \<Rightarrow> rat) \<Rightarrow> nat \<Rightarrow> nat \<Rightarrow> rat" where
  "idf_of mlog num_docs freq =
     max (1/100) (mlog (1 + (of_nat num_docs - of_nat freq + 1/2) / (of_nat freq + 1/2)))"

definition bm25_fit :: "(rat \<Rightarrow> rat) \<Rightarrow> string list \<Rightarrow> 'a list \<Rightarrow> 'a bm25 \<Rightarrow> 'a bm25 result" where
  "bm25_fit mlog texts objects s =
     guard_that (length texts = length objects) (ValueError ''texts and objects must have the same length'')
     (let docs = map (\<lambda>(i, text, item). tokenized_doc i text item) (zip [0..<length texts] (zip texts objects));
          freqs = fold (\<lambda>d. token_counts (uniq (dc_tokens d))) docs [];
          n = length docs
      in Inr (s\<lparr>bm_docs := docs, bm_doc_freqs := freqs,
           bm_avgdl := of_nat (sum_list (map dc_length docs)) / of_nat (max 1 n),
           bm_idf := map (\<lambda>(t, freq). (t, idf_of mlog n freq)) freqs\<rparr>))"

definition term_score :: "'a bm25 \<Rightarrow> 'a doc \<Rightarrow> string \<Rightarrow> rat" where
  "term_score s d qt =
     (let freq = (case dget (dc_term_freq d) qt of Some n \<Rightarrow> n | None \<Rightarrow> 0) in
      if freq = 0 then 0
      else let idf = (case dget (bm_idf s) qt of Some x \<Rightarrow> x | None \<Rightarrow> 1/100);
               len_norm = 1 - bm_b s + bm_b s * (of_nat (dc_length d) / bm_avgdl s)
        in idf * ((of_nat freq * (bm_k1 s + 1)) / (of_nat freq + bm_k1 s * len_norm)))"

definition score_document :: "'a bm25 \<Rightarrow> string list \<Rightarrow> 'a doc \<Rightarrow> rat" where
  "score_document s query_tokens d =
     (if bm_avgdl s \<le> 0 then 0 else sum_list (map (term_score s d) query_tokens))"

definition bm25_rank :: "'a bm25 \<Rightarrow> string \<Rightarrow> (rat \<times> 'a) list" where
  "bm25_rank s query =
     (let q = uniq (tokenize query);
          results = filter (\<lambda>(x, _). 0 < x) (map (\<lambda>d. (score_document s q d, d)) (bm_docs s))
      in map (\<lambda>(x, d). (x, dc_item d)) (sort_key (\<lambda>(x, _). - x) results))"

section \<open>Reciprocal rank fusion\<close>

record 'a fusion =
  fu_scores :: "rat dict"
  fu_items :: "'a dict"
  fu_first_seen :: "nat dict"

text \<open>One ranking: \<open>rank\<close> counts from 1, an item seen before in the same ranking is skipped.\<close>

definition fuse_item :: "('a \<Rightarrow> string) \<Rightarrow> int \<Rightarrow> rat \<Rightarrow> nat \<Rightarrow> 'a \<Rightarrow> 'a fusion \<Rightarrow> 'a fusion" where
  "fuse_item key k w rank item st =
     (let x = key item;
          st1 = (if dget (fu_first_seen st) x = None
            then st\<lparr>fu_first_seen := dset (fu_first_seen st) x (length (fu_items st)),
                    fu_items := dset (fu_items st) x item\<rparr> else st);
          old = (case dget (fu_scores st1) x of Some r \<Rightarrow> r | None \<Rightarrow> 0)
      in st1\<lparr>fu_scores := dset (fu_scores st1) x (old + w / of_int (k + int rank))\<rparr>)"

fun fuse_ranking :: "('a \<Rightarrow> string) \<Rightarrow> int \<Rightarrow> rat \<Rightarrow> nat \<Rightarrow> string set \<Rightarrow> 'a list \<Rightarrow> 'a fusion \<Rightarrow> 'a fusion" where
  "fuse_ranking key k w rank seen [] st = st"
| "fuse_ranking key k w rank seen (item # items) st =
     (if key item \<in> seen then fuse_ranking key k w (Suc rank) seen items st
      else fuse_ranking key k w (Suc rank) (insert (key item) seen) items (fuse_item key k w rank item st))"

fun fuse_rankings :: "('a \<Rightarrow> string) \<Rightarrow> int \<Rightarrow> ('a list \<times> rat) list \<Rightarrow> 'a fusion \<Rightarrow> 'a fusion" where
  "fuse_rankings key k [] st = st"
| "fuse_rankings key k ((ranking, w) # rs) st =
     fuse_rankings key k rs (if w = 0 then st else fuse_ranking key k w 1 {} ranking st)"

text \<open>\<open>weights or [1.0] * len(rankings)\<close>: an empty list counts as none.\<close>

definition effective_weights :: "'a list list \<Rightarrow> rat list option \<Rightarrow> rat list" where
  "effective_weights rankings weights =
     (case weights of Some (w # ws) \<Rightarrow> w # ws | _ \<Rightarrow> replicate (length rankings) 1)"

definition fused :: "('a \<Rightarrow> string) \<Rightarrow> int \<Rightarrow> 'a list list \<Rightarrow> rat list \<Rightarrow> 'a fusion" where
  "fused key k rankings ws =
     fuse_rankings key k (zip rankings ws) \<lparr>fu_scores = [], fu_items = [], fu_first_seen = []\<rparr>"

definition reciprocal_rank_fusion ::
  "'a list list \<Rightarrow> ('a \<Rightarrow> string) \<Rightarrow> int \<Rightarrow> rat list option \<Rightarrow> (rat \<times> 'a) list result" where
  "reciprocal_rank_fusion rankings key k weights =
     guard_that (0 < k) (ValueError ''k must be positive'')
     (guard_that (case weights of None \<Rightarrow> True | Some ws \<Rightarrow> length ws = length rankings)
        (ValueError ''weights must match rankings'')
     (guard_that (case weights of None \<Rightarrow> True | Some ws \<Rightarrow> list_all (\<lambda>w. 0 \<le> w) ws)
        (ValueError ''weights must be non-negative'')
     (let st = fused key k rankings (effective_weights rankings weights);
          ordered = sort_key (\<lambda>x. (- the (dget (fu_scores st) x), the (dget (fu_first_seen st) x))) (dkeys (fu_scores st))
      in Inr (map (\<lambda>x. (the (dget (fu_scores st) x), the (dget (fu_items st) x))) ordered))))"

section \<open>Maximal marginal relevance\<close>

text \<open>\<open>max(d.items(), key=...)[0]\<close>: the first of the best.\<close>

fun first_best :: "('b \<Rightarrow> rat) \<Rightarrow> 'b \<Rightarrow> 'b list \<Rightarrow> 'b" where
  "first_best f x [] = x"
| "first_best f x (y # ys) = first_best f (if f x < f y then y else x) ys"

definition mmr_score :: "'a doc list \<Rightarrow> rat list \<Rightarrow> rat \<Rightarrow> nat list \<Rightarrow> nat \<Rightarrow> rat" where
  "mmr_score candidates norm_scores lambda_param selected i =
     (let penalty = (case selected of [] \<Rightarrow> 0
          | s # ss \<Rightarrow> fold max (map (\<lambda>j. jaccard_similarity (dc_token_set (candidates ! i)) (dc_token_set (candidates ! j))) ss)
              (jaccard_similarity (dc_token_set (candidates ! i)) (dc_token_set (candidates ! s))))
      in lambda_param * norm_scores ! i - (1 - lambda_param) * penalty)"

text \<open>The loop; \<open>selected\<close> in order of selection.\<close>

function mmr_loop :: "'a doc list \<Rightarrow> rat list \<Rightarrow> rat \<Rightarrow> int \<Rightarrow> nat list \<Rightarrow> nat list \<Rightarrow> nat list" where
  "mmr_loop candidates norm_scores lambda_param max_items unselected selected =
     (case unselected of
        [] \<Rightarrow> selected
      | u # us \<Rightarrow>
          (if int (length selected) < max_items
           then let best = first_best (mmr_score candidates norm_scores lambda_param selected) u us
             in mmr_loop candidates norm_scores lambda_param max_items (remove1 best unselected) (selected @ [best])
           else selected))"
  by pat_completeness auto

lemma first_best_in: "first_best f x ys \<in> insert x (set ys)"
  by (induction ys arbitrary: x) (auto split: if_splits)

termination mmr_loop
proof (relation "measure (\<lambda>(_, _, _, _, us, _). length us)", goal_cases)
  case (2 candidates norm_scores lambda_param max_items unselected selected u us best)
  have "best \<in> set unselected" using first_best_in 2 by fastforce
  then have "length (remove1 best unselected) < length unselected"
    by (cases unselected) (auto simp: length_remove1 dest: length_pos_if_in_set)
  then show ?case by simp
qed simp

declare mmr_loop.simps [simp del]

definition maximal_marginal_relevance ::
  "string list \<Rightarrow> 'a doc list \<Rightarrow> rat list \<Rightarrow> rat \<Rightarrow> int \<Rightarrow> 'a list result" where
  "maximal_marginal_relevance query_tokens candidates scores lambda_param max_items =
     (if candidates = [] \<or> query_tokens = [] then Inr []
      else guard_that (length candidates = length scores)
        (ValueError ''candidates and scores must have the same length'')
      (let relevant = filter (\<lambda>i. 0 < scores ! i) [0..<length scores] in
       if relevant = [] then Inr []
       else let top_score = fold max (tl scores) (hd scores);
                max_score = (if top_score \<le> 0 then 1 else top_score)
         in Inr (map (\<lambda>i. dc_item (candidates ! i))
              (mmr_loop candidates (map (\<lambda>s. s / max_score) scores) lambda_param max_items relevant []))))"

section \<open>What fusion computes\<close>

text \<open>The contribution of one ranking to the score of \<open>x\<close>: its weight over \<open>k\<close> plus the rank of the first
  occurrence.\<close>

fun contribution :: "int \<Rightarrow> rat \<Rightarrow> nat \<Rightarrow> string list \<Rightarrow> string \<Rightarrow> rat" where
  "contribution k w rank [] x = 0"
| "contribution k w rank (y # ys) x = (if y = x then w / of_int (k + int rank) else contribution k w (Suc rank) ys x)"

definition scores_at :: "rat dict \<Rightarrow> string \<Rightarrow> rat" where
  "scores_at d x = (case dget d x of Some r \<Rightarrow> r | None \<Rightarrow> 0)"

text \<open>The three dictionaries have the same keys, and an item is stored under its own key.\<close>

definition fusion_ok :: "('a \<Rightarrow> string) \<Rightarrow> 'a fusion \<Rightarrow> bool" where
  "fusion_ok key st = (dict_wf (fu_scores st) \<and> dkeys (fu_items st) = dkeys (fu_scores st)
     \<and> dkeys (fu_first_seen st) = dkeys (fu_scores st)
     \<and> (\<forall>x i. dget (fu_items st) x = Some i \<longrightarrow> key i = x))"

lemma scores_at_dset: "scores_at (dset d x v) y = (if x = y then v else scores_at d y)"
  by (simp add: scores_at_def)

lemma fuse_item_scores:
  "scores_at (fu_scores (fuse_item key k w rank item st)) x
     = scores_at (fu_scores st) x + (if key item = x then w / of_int (k + int rank) else 0)"
  by (simp add: fuse_item_def Let_def scores_at_dset) (simp add: scores_at_def)

lemma fuse_item_ok:
  assumes "fusion_ok key st"
  shows "fusion_ok key (fuse_item key k w rank item st)"
    and "set (dkeys (fu_scores (fuse_item key k w rank item st))) = insert (key item) (set (dkeys (fu_scores st)))"
proof -
  have eqs: "dkeys (fu_items st) = dkeys (fu_scores st)" "dkeys (fu_first_seen st) = dkeys (fu_scores st)"
    using assms by (simp_all add: fusion_ok_def)
  have known: "dget (fu_first_seen st) x = None \<longleftrightarrow> x \<notin> set (dkeys (fu_scores st))" for x
    using set_dkeys_iff [of x "fu_first_seen st"] eqs(2) by simp
  show "fusion_ok key (fuse_item key k w rank item st)"
    using assms eqs known [of "key item"] by (auto simp: fusion_ok_def fuse_item_def Let_def dkeys_dset)
  show "set (dkeys (fu_scores (fuse_item key k w rank item st))) = insert (key item) (set (dkeys (fu_scores st)))"
    by (auto simp: fuse_item_def Let_def dkeys_dset)
qed

lemma fuse_ranking_scores:
  "scores_at (fu_scores (fuse_ranking key k w rank seen items st)) x
     = scores_at (fu_scores st) x + (if x \<in> seen then 0 else contribution k w rank (map key items) x)"
  by (induction key k w rank seen items st rule: fuse_ranking.induct) (auto simp: fuse_item_scores)

lemma fuse_ranking_ok:
  assumes "fusion_ok key st"
  shows "fusion_ok key (fuse_ranking key k w rank seen items st)
    \<and> set (dkeys (fu_scores (fuse_ranking key k w rank seen items st)))
      = set (dkeys (fu_scores st)) \<union> (key ` set items - seen)"
  using assms
  by (induction key k w rank seen items st rule: fuse_ranking.induct) (auto simp: fuse_item_ok)

lemma fuse_rankings_scores:
  "scores_at (fu_scores (fuse_rankings key k rs st)) x
     = scores_at (fu_scores st) x + sum_list (map (\<lambda>(ranking, w). contribution k w 1 (map key ranking) x) rs)"
proof (induction key k rs st rule: fuse_rankings.induct)
  case (2 key k ranking w rs st)
  have "contribution k 0 r ys x = 0" for r ys by (induction ys arbitrary: r) auto
  then show ?case using 2 by (simp add: fuse_ranking_scores)
qed simp

lemma fuse_rankings_ok:
  assumes "fusion_ok key st"
  shows "fusion_ok key (fuse_rankings key k rs st)
    \<and> set (dkeys (fu_scores (fuse_rankings key k rs st)))
      = set (dkeys (fu_scores st)) \<union> (\<Union>(ranking, w) \<in> set rs. if w = 0 then {} else key ` set ranking)"
  using assms
proof (induction key k rs st rule: fuse_rankings.induct)
  case (2 key k ranking w rs st)
  then show ?case using fuse_ranking_ok [OF 2(2)] by (cases "w = 0") auto
qed simp

lemma sorted_map_fst:
  fixes xs :: "('b::linorder \<times> 'c::linorder) list"
  assumes "sorted xs"
  shows "sorted (map fst xs)"
  using assms by (induction xs) (auto simp: less_eq_prod_def)

text \<open>The fused list: every key of a ranking that counts, once, with the sum of its contributions, best
  first.\<close>

definition fused_score :: "('a \<Rightarrow> string) \<Rightarrow> int \<Rightarrow> 'a list list \<Rightarrow> rat list \<Rightarrow> string \<Rightarrow> rat" where
  "fused_score key k rankings ws x = sum_list (map (\<lambda>(ranking, w). contribution k w 1 (map key ranking) x) (zip rankings ws))"

lemma fused_result:
  assumes "reciprocal_rank_fusion rankings key k weights = Inr rs" and "ws = effective_weights rankings weights"
  shows "sorted (map (\<lambda>(r, _). - r) rs) \<and> distinct (map (\<lambda>(_, i). key i) rs)
    \<and> key ` snd ` set rs = (\<Union>(ranking, w) \<in> set (zip rankings ws). if w = 0 then {} else key ` set ranking)
    \<and> list_all (\<lambda>(r, i). r = fused_score key k rankings ws (key i)) rs"
proof -
  define st where "st = fused key k rankings ws"
  have empty: "fusion_ok key \<lparr>fu_scores = [], fu_items = [], fu_first_seen = []\<rparr>"
    by (simp add: fusion_ok_def dict_wf_def dkeys_def)
  have ok: "fusion_ok key st"
    and keys: "set (dkeys (fu_scores st)) = (\<Union>(ranking, w) \<in> set (zip rankings ws). if w = 0 then {} else key ` set ranking)"
    using fuse_rankings_ok [OF empty, of k "zip rankings ws"] unfolding st_def fused_def by (auto simp: dkeys_def)
  have score: "scores_at (fu_scores st) x = fused_score key k rankings ws x" for x
    unfolding st_def fused_def fuse_rankings_scores fused_score_def by (simp add: scores_at_def)
  define rank where "rank x = (- the (dget (fu_scores st) x), the (dget (fu_first_seen st) x))" for x
  define row where "row x = (the (dget (fu_scores st) x), the (dget (fu_items st) x))" for x
  have rs: "rs = map row (sort_key rank (dkeys (fu_scores st)))"
    using assms by (simp add: reciprocal_rank_fusion_def guard_that_Inr_iff st_def rank_def [abs_def] row_def [abs_def] Let_def)
  have row: "row x = (fused_score key k rankings ws x, snd (row x)) \<and> key (snd (row x)) = x" if m: "x \<in> set (dkeys (fu_scores st))" for x
  proof -
    obtain r where r: "dget (fu_scores st) x = Some r" using m by (auto simp: set_dkeys_iff)
    have "x \<in> set (dkeys (fu_items st))" using m ok by (simp add: fusion_ok_def)
    then obtain i where i: "dget (fu_items st) x = Some i" by (auto simp: set_dkeys_iff)
    then have "key i = x" using ok by (auto simp: fusion_ok_def)
    then show ?thesis using r i score [of x] by (simp add: row_def scores_at_def)
  qed
  have keyed: "map (\<lambda>(_, i). key i) rs = sort_key rank (dkeys (fu_scores st))"
    unfolding rs map_map by (rule map_idI) (use row in \<open>force simp: case_prod_beta\<close>)
  have "sorted (map fst (map rank (sort_key rank (dkeys (fu_scores st)))))"
    by (rule sorted_map_fst) simp
  then have "sorted (map (\<lambda>(r, _). - r) rs)"
    by (simp add: rs comp_def rank_def row_def)
  moreover have "distinct (map (\<lambda>(_, i). key i) rs)"
    unfolding keyed using ok by (simp add: fusion_ok_def dict_wf_def)
  moreover have "key ` snd ` set rs = set (map (\<lambda>(_, i). key i) rs)" by (force simp: image_image)
  then have "key ` snd ` set rs = set (dkeys (fu_scores st))" unfolding keyed by simp
  moreover have "fst (row x) = fused_score key k rankings ws (key (snd (row x)))" if m: "x \<in> set (dkeys (fu_scores st))" for x
    using row [OF m] by (metis fst_conv)
  then have "list_all (\<lambda>(r, i). r = fused_score key k rankings ws (key i)) rs"
    by (simp add: rs list_all_iff case_prod_beta)
  ultimately show ?thesis using keys by simp
qed

section \<open>What the relevance rankings return\<close>

text \<open>A ranking by BM25 holds positive scores only, best first; a document without a query token is not
  in it.\<close>

lemma bm25_rank_sorted:
  "sorted (map (\<lambda>(r, _). - r) (bm25_rank s query)) \<and> list_all (\<lambda>(r, _). 0 < r) (bm25_rank s query)"
proof -
  define results where "results = filter (\<lambda>(x, _). 0 < x)
      (map (\<lambda>d. (score_document s (uniq (tokenize query)) d, d)) (bm_docs s))"
  have "bm25_rank s query = map (\<lambda>(x, d). (x, dc_item d)) (sort_key (\<lambda>(x, _). - x) results)"
    by (simp add: bm25_rank_def results_def Let_def)
  moreover have "(\<lambda>(r, _). - r) \<circ> (\<lambda>(x, d). (x, dc_item d)) = (\<lambda>(x :: rat, _ :: 'a doc). - x)" by auto
  then have "sorted (map ((\<lambda>(r, _). - r) \<circ> (\<lambda>(x, d). (x, dc_item d))) (sort_key (\<lambda>(x, _). - x) results))"
    by (simp only: sorted_sort_key)
  moreover have "\<forall>(x, d) \<in> set results. 0 < x" by (auto simp: results_def)
  ultimately show ?thesis by (auto simp: list_all_iff)
qed

lemma score_document_nonneg:
  assumes "0 \<le> bm_k1 s" "0 \<le> bm_b s" "bm_b s \<le> 1" "\<forall>(t, x) \<in> set (bm_idf s). 0 \<le> x"
  shows "0 \<le> score_document s q d"
proof -
  have "0 \<le> term_score s d t" if "0 < bm_avgdl s" for t
  proof -
    have "0 \<le> 1 - bm_b s + bm_b s * (of_nat (dc_length d) / bm_avgdl s)" using assms that by simp
    moreover have "0 \<le> (case dget (bm_idf s) t of Some x \<Rightarrow> x | None \<Rightarrow> 1/100)"
      using assms(4) by (auto simp: dget_def dest!: map_of_SomeD split: option.splits)
    ultimately show ?thesis using assms(1) by (simp add: term_score_def Let_def)
  qed
  then show ?thesis by (auto simp: score_document_def intro!: sum_list_nonneg)
qed

text \<open>The indices MMR selects: distinct, relevant, as many as asked for or all there are.\<close>

lemma mmr_loop_spec:
  assumes "distinct (selected @ unselected)"
  shows "distinct (mmr_loop cs ns lam n unselected selected)
    \<and> set (mmr_loop cs ns lam n unselected selected) \<subseteq> set (selected @ unselected)
    \<and> (\<exists>more. mmr_loop cs ns lam n unselected selected = selected @ more)
    \<and> (int (length selected) \<le> n \<longrightarrow> int (length (mmr_loop cs ns lam n unselected selected))
         = min n (int (length (selected @ unselected))))"
  using assms
proof (induction cs ns lam n unselected selected rule: mmr_loop.induct)
  case (1 cs ns lam n unselected selected)
  show ?case
  proof (cases unselected)
    case Nil
    then show ?thesis using 1(2) by (simp add: mmr_loop.simps)
  next
    case (Cons u us)
    show ?thesis
    proof (cases "int (length selected) < n")
      case False
      then show ?thesis using 1(2) Cons by (auto simp: mmr_loop.simps)
    next
      case True
      define best where "best = first_best (mmr_score cs ns lam selected) u us"
      have best: "best \<in> set unselected" using first_best_in Cons by (fastforce simp: best_def)
      have step: "mmr_loop cs ns lam n unselected selected = mmr_loop cs ns lam n (remove1 best unselected) (selected @ [best])"
        using Cons True by (subst mmr_loop.simps) (simp add: best_def Let_def)
      have perm: "mset ((selected @ [best]) @ remove1 best unselected) = mset (selected @ unselected)"
        using best by simp
      have "distinct ((selected @ [best]) @ remove1 best unselected)"
        using 1(2) perm mset_eq_imp_distinct_iff by blast
      note IH = 1(1) [OF Cons True best_def this]
      have "set ((selected @ [best]) @ remove1 best unselected) = set (selected @ unselected)"
        "length ((selected @ [best]) @ remove1 best unselected) = length (selected @ unselected)"
        using perm mset_eq_setD mset_eq_length by blast+
      then show ?thesis using IH True unfolding step by auto
    qed
  qed
qed

lemma mmr_result:
  assumes "maximal_marginal_relevance query cs scores lam n = Inr out" "0 \<le> n"
  shows "\<exists>idx. out = map (\<lambda>i. dc_item (cs ! i)) idx \<and> distinct idx \<and> list_all (\<lambda>i. i < length scores \<and> 0 < scores ! i) idx
    \<and> (out = [] \<or> int (length out) = min n (int (length (filter (\<lambda>x. 0 < x) scores))))"
proof -
  define relevant where "relevant = filter (\<lambda>i. 0 < scores ! i) [0..<length scores]"
  have d: "distinct ([] @ relevant)" by (simp add: relevant_def)
  have size: "length relevant = length (filter (\<lambda>x. 0 < x) scores)"
  proof -
    have "map ((!) scores) relevant = filter (\<lambda>x. 0 < x) (map ((!) scores) [0..<length scores])"
      by (simp add: relevant_def filter_map o_def)
    then show ?thesis by (metis length_map map_nth)
  qed
  consider "out = []" | ns where "out = map (\<lambda>i. dc_item (cs ! i)) (mmr_loop cs ns lam n relevant [])"
    using assms(1) by (auto simp: maximal_marginal_relevance_def guard_that_def Let_def relevant_def split: if_splits)
  then show ?thesis
  proof cases
    case 1
    then show ?thesis by (intro exI [of _ "[]"]) simp
  next
    case 2
    note spec = mmr_loop_spec [OF d, of cs ns lam n]
    show ?thesis
      using spec 2 assms(2) size
      by (intro exI [of _ "mmr_loop cs ns lam n relevant []"]) (auto simp: list_all_iff relevant_def)
  qed
qed

end
