(* ===== verification/RetrievalPolicy.thy ===== *)
theory RetrievalPolicy
  imports Patterns Fusion
begin

text \<open>
  \<open>retrieval_policy.py\<close>: the regular expressions that read the intent of a query, the retrieval plan
  made from them, and the sufficiency score of retrieved items; and \<open>task_retrieval.py\<close>, the fusion
  weights of a task family.  A threshold may be any float; scores are exact.
\<close>

section \<open>The patterns\<close>

definition id_start :: "char \<Rightarrow> bool" where
  "id_start c = (ascii_upper c \<or> ascii_lower c \<or> c = CHR ''_'')"

definition id_char :: "char \<Rightarrow> bool" where
  "id_char c = (id_start c \<or> is_digit c)"

definition IDENTIFIER_RE :: regex where
  "IDENTIFIER_RE = seqs [Bound, Chars id_start, Star (Chars id_char),
     opt_re (Seq (chr (CHR ''.'')) (plus_re (Chars (\<lambda>c. id_char c \<or> c \<in> {CHR ''.'', CHR ''/'', CHR ''-''})))), Bound]"

definition path_part :: regex where
  "path_part = plus_re (Chars (\<lambda>c. is_word c \<or> c = CHR ''.'' \<or> c = CHR ''-''))"

definition PATH_RE :: regex where
  "PATH_RE = Seq (plus_re (Seq path_part (Chars (\<lambda>c. c = CHR ''/'' \<or> c = char_of (92::nat))))) path_part"

definition STRUCTURAL_RE :: regex where
  "STRUCTURAL_RE = whole_words (map lit [''caller'', ''callee'', ''call graph'', ''dependency'', ''dependents'', ''impact'',
     ''blast radius'', ''what breaks'', ''affected'', ''tests for'', ''execution flow'', ''architecture''])"

definition SEMANTIC_RE :: regex where
  "SEMANTIC_RE = whole_words [lit ''where do we'', lit ''how do we'', lit ''how does'', lit ''responsible for'',
     Seq (lit ''handle'') (opt_re (lit ''s'')), Seq (lit ''prevent'') (opt_re (lit ''s'')),
     Seq (lit ''ensure'') (opt_re (lit ''s'')), Seq (lit ''implement'') (opt_re (lit ''s'')),
     lit ''logic for'', lit ''flow for'', lit ''behavior'', lit ''behaviour'', lit ''concept'', lit ''meaning'']"

definition REFERENCES_RE :: regex where
  "REFERENCES_RE = whole_words [
     seqs [lit ''reference'', opt_re (lit ''s''), spaces, lit ''to''],
     seqs [lit ''find'', spaces, lit ''reference'', opt_re (lit ''s'')],
     seqs [lit ''usage'', opt_re (lit ''s''), spaces, lit ''of'']]"

definition CALLERS_RE :: regex where
  "CALLERS_RE = whole_words [
     seqs [lit ''who'', spaces, lit ''call'', opt_re (lit ''s'')],
     Seq (lit ''caller'') (opt_re (lit ''s'')),
     seqs [lit ''called'', spaces, lit ''by''],
     Seq (lit ''dependent'') (opt_re (lit ''s''))]"

definition CALLEES_RE :: regex where
  "CALLEES_RE = whole_words [
     Seq (lit ''callee'') (opt_re (lit ''s'')),
     seqs [lit ''what'', spaces, lit ''does'', Bound, Star (Chars (\<lambda>c. c \<noteq> CHR 0x0A)), Bound, lit ''call''],
     seqs [lit ''call'', opt_re (lit ''s''), spaces, lit ''into''],
     Seq (lit ''dependencie'') (opt_re (lit ''s'')),
     seqs [lit ''import'', opt_re (lit ''s''), spaces, lit ''of'']]"

definition TESTS_RE :: regex where
  "TESTS_RE = whole_words [
     seqs [lit ''test'', opt_re (lit ''s''), spaces, alts [lit ''for'', lit ''cover'', lit ''covering'']],
     seqs [lit ''which'', spaces, lit ''test'', opt_re (lit ''s'')],
     seqs [lit ''test'', spaces, lit ''coverage'']]"

definition IMPACT_RE :: regex where
  "IMPACT_RE = whole_words [lit ''impact'', seqs [lit ''blast'', spaces, lit ''radius''],
     seqs [lit ''what'', spaces, lit ''breaks''], lit ''affected'']"

definition ARCHITECTURE_RE :: regex where
  "ARCHITECTURE_RE = whole_words [lit ''architecture'', seqs [lit ''execution'', spaces, lit ''flow''],
     seqs [lit ''call'', spaces, lit ''graph'']]"

section \<open>The plan\<close>

datatype retrieval_intent = IntentExact | IntentSemantic | IntentStructural | IntentMixed

definition intent_value :: "retrieval_intent \<Rightarrow> string" where
  "intent_value i = (case i of IntentExact \<Rightarrow> ''exact'' | IntentSemantic \<Rightarrow> ''semantic''
     | IntentStructural \<Rightarrow> ''structural'' | IntentMixed \<Rightarrow> ''mixed'')"

record retrieval_plan =
  pl_intent :: retrieval_intent
  pl_use_lexical :: bool
  pl_use_semantic :: bool
  pl_use_structural :: bool
  pl_reason :: string
  pl_patterns :: "string list"

definition plan_for :: "retrieval_intent \<Rightarrow> bool \<Rightarrow> bool \<Rightarrow> string \<Rightarrow> string list \<Rightarrow> retrieval_plan" where
  "plan_for intent semantic structural reason patterns =
     \<lparr>pl_intent = intent, pl_use_lexical = True, pl_use_semantic = semantic, pl_use_structural = structural,
      pl_reason = reason, pl_patterns = patterns\<rparr>"

definition squeeze :: "string \<Rightarrow> string" where
  "squeeze query = join '' '' (split_ws (strip query))"

definition STRUCTURAL_MATCHERS :: "(string \<times> regex) list" where
  "STRUCTURAL_MATCHERS = [(''impact'', IMPACT_RE), (''tests_for'', TESTS_RE), (''references_to'', REFERENCES_RE),
     (''callers_of'', CALLERS_RE), (''callees_of'', CALLEES_RE), (''architecture'', ARCHITECTURE_RE)]"

definition structural_requirements :: "string \<Rightarrow> string list" where
  "structural_requirements query =
     (let text = squeeze query in map fst (filter (\<lambda>(_, r). re_search r text) STRUCTURAL_MATCHERS))"

definition given :: "string option \<Rightarrow> bool" where
  "given s = (case s of Some t \<Rightarrow> t \<noteq> [] | None \<Rightarrow> False)"

definition exact_signal :: "string \<Rightarrow> string option \<Rightarrow> string option \<Rightarrow> bool" where
  "exact_signal text symbol endpoint =
     (given symbol \<or> given endpoint \<or> re_search PATH_RE text
      \<or> list_ex (\<lambda>token. CHR ''_'' \<in> set token \<or> list_ex is_upper (tl token)) (re_findall IDENTIFIER_RE text))"

definition semantic_signal :: "string \<Rightarrow> bool \<Rightarrow> bool" where
  "semantic_signal text exact = (re_search SEMANTIC_RE text \<or> 7 \<le> length (tokenize text) \<and> \<not> exact)"

text \<open>The branches, by the signals; \<open>matcher\<close> is what the broad structural pattern says.\<close>

definition plan_of :: "route_decision \<Rightarrow> bool \<Rightarrow> bool \<Rightarrow> string list \<Rightarrow> bool \<Rightarrow> retrieval_plan" where
  "plan_of decision exact semantic patterns matcher =
     (if rd_structural decision \<or> patterns \<noteq> [] \<or> matcher
      then plan_for (if \<not> exact then IntentMixed else IntentStructural) (\<not> exact) True
        (if \<not> exact then ''structural relationship needs entry-point discovery''
         else ''structural relationship requested'')
        (if patterns = [] then [''architecture''] else patterns)
      else if exact \<and> semantic
      then plan_for IntentMixed True False ''identifier and semantic intent both present'' []
      else if exact then plan_for IntentExact False False ''exact identifier/path/endpoint signal'' []
      else if semantic then plan_for IntentSemantic True False ''natural-language semantic intent'' []
      else if rd_lane decision = Answer
      then plan_for IntentMixed True False ''read-only query with ambiguous retrieval intent'' []
      else plan_for IntentExact False False ''bounded deterministic default'' [])"

definition classify_retrieval_intent ::
  "string \<Rightarrow> route_decision \<Rightarrow> string option \<Rightarrow> string option \<Rightarrow> retrieval_plan" where
  "classify_retrieval_intent query decision symbol endpoint =
     (let text = squeeze query;
          exact = exact_signal text symbol endpoint
      in plan_of decision exact (semantic_signal text exact) (structural_requirements text) (re_search STRUCTURAL_RE text))"

section \<open>Sufficiency\<close>

record sufficiency =
  sf_score :: rat
  sf_sufficient :: bool
  sf_coverage :: rat
  sf_diversity :: nat
  sf_exact :: bool
  sf_structural :: bool

definition no_sufficiency :: sufficiency where
  "no_sufficiency = \<lparr>sf_score = 0, sf_sufficient = False, sf_coverage = 0, sf_diversity = 0, sf_exact = False,
     sf_structural = False\<rparr>"

text \<open>\<open>"".join(text.casefold().split())\<close>\<close>

definition normalized :: "string \<Rightarrow> string" where
  "normalized s = concat (split_ws (casefold s))"

definition item_pattern :: "runtime \<Rightarrow> context_item \<Rightarrow> string" where
  "item_pattern rt i = strip (text_or_empty rt (jget (ci_metadata i) ''pattern''))"

definition structural_valid :: "context_item \<Rightarrow> bool" where
  "structural_valid i = truthy (jget (ci_metadata i) ''structural_valid'')"

definition matched_tokens :: "string \<Rightarrow> context_item list \<Rightarrow> string set" where
  "matched_tokens query items = (\<Union>i \<in> set items. set (tokenize query) \<inter> set (tokenize (ci_text i)))"

definition matched_structural :: "runtime \<Rightarrow> context_item list \<Rightarrow> string set" where
  "matched_structural rt items =
     {p. \<exists>i \<in> set items. structural_valid i \<and> p = item_pattern rt i \<and> p \<noteq> []}"

lemma matched_structural_code [code]:
  "matched_structural rt items = set (filter (\<lambda>p. p \<noteq> []) (map (item_pattern rt) (filter structural_valid items)))"
  by (auto simp: matched_structural_def)

definition exact_match :: "string \<Rightarrow> context_item list \<Rightarrow> bool" where
  "exact_match query items =
     (normalized query \<noteq> [] \<and> list_ex (\<lambda>i. contains_str (normalized (ci_text i)) (normalized query)) items)"

definition structural_complete :: "runtime \<Rightarrow> bool \<Rightarrow> string list \<Rightarrow> context_item list \<Rightarrow> bool" where
  "structural_complete rt required patterns items =
     (if \<not> required then True
      else if patterns \<noteq> [] then set patterns \<subseteq> matched_structural rt items
      else matched_structural rt items \<noteq> {})"

definition coverage_of :: "string \<Rightarrow> context_item list \<Rightarrow> rat" where
  "coverage_of query items = of_nat (card (matched_tokens query items)) / of_nat (max 1 (card (set (tokenize query))))"

definition diversity_of :: "context_item list \<Rightarrow> nat" where
  "diversity_of items = card (ci_source ` set items)"

definition flag_score :: "bool \<Rightarrow> rat" where
  "flag_score b = (if b then 1 else 0)"

definition sufficiency_score :: "rat \<Rightarrow> nat \<Rightarrow> bool \<Rightarrow> bool \<Rightarrow> rat" where
  "sufficiency_score coverage diversity exact whole =
     max 0 (min 1 (58/100 * coverage + 17/100 * min 1 (of_nat diversity / 2) + 15/100 * flag_score exact + 10/100 * flag_score whole))"

definition evaluate_sufficiency ::
  "runtime \<Rightarrow> string \<Rightarrow> context_item list \<Rightarrow> bool \<Rightarrow> string list \<Rightarrow> pyfloat \<Rightarrow> sufficiency" where
  "evaluate_sufficiency rt query items structural_required patterns threshold =
     (if items = [] then no_sufficiency
      else let coverage = coverage_of query items;
               diversity = diversity_of items;
               exact = exact_match query items;
               whole = structural_complete rt structural_required patterns items;
               score = sufficiency_score coverage diversity exact whole
        in \<lparr>sf_score = round_to 4 score,
            sf_sufficient = (fl_le threshold (Fin score) \<and> (whole \<or> \<not> structural_required)),
            sf_coverage = round_to 4 coverage, sf_diversity = diversity, sf_exact = exact,
            sf_structural = whole\<rparr>)"

section \<open>Task policies\<close>

record task_policy =
  tp_profile :: string
  tp_source_weight :: rat
  tp_lexical_weight :: rat
  tp_specialist_weight :: rat
  tp_mmr_lambda :: rat
  tp_reason :: string

definition TRACE_RE :: regex where
  "TRACE_RE = whole_words (map lit [''traceback'', ''stack trace'', ''exception'', ''panic'', ''segfault'', ''failed at'',
     ''failure log'', ''error log''])"

definition TEST_RE :: regex where
  "TEST_RE = whole_words (map lit [''test'', ''tests'', ''pytest'', ''unittest'', ''spec'', ''coverage'', ''regression''])"

definition CHANGE_RE :: regex where
  "CHANGE_RE = whole_words (map lit [''change'', ''modify'', ''refactor'', ''rename'', ''migration'', ''impact'',
     ''blast radius'', ''what breaks'', ''affected''])"

definition REVIEW_RE :: regex where
  "REVIEW_RE = whole_words (map lit [''review'', ''comment'', ''feedback'', ''requested change'', ''nit'', ''pull request'',
     ''pr comment''])"

definition task_profile :: "string \<Rightarrow> rat \<Rightarrow> rat \<Rightarrow> rat \<Rightarrow> rat \<Rightarrow> string \<Rightarrow> task_policy" where
  "task_profile p s l sp m r = \<lparr>tp_profile = p, tp_source_weight = s, tp_lexical_weight = l,
     tp_specialist_weight = sp, tp_mmr_lambda = m, tp_reason = r\<rparr>"

definition task_retrieval_policy :: "string \<Rightarrow> retrieval_plan \<Rightarrow> string list \<Rightarrow> task_policy" where
  "task_retrieval_policy query plan changed_files =
     (let text = join '' '' (split_ws query); changed = changed_files \<noteq> [] in
      if ''tests_for'' \<in> set (pl_patterns plan) \<or> re_search TEST_RE text \<and> (re_search CHANGE_RE text \<or> changed)
      then task_profile ''code2test'' (105/100) (115/100) (135/100) (78/100)
        ''test discovery benefits from lexical anchors plus structural evidence''
      else if re_search TRACE_RE text
      then task_profile ''trace2code'' (110/100) (140/100) (115/100) (82/100)
        ''failure traces contain high-value exact lexical anchors''
      else if ''impact'' \<in> set (pl_patterns plan) \<or> changed \<and> re_search CHANGE_RE text
      then task_profile ''edit2ripple'' 1 (85/100) (150/100) (72/100)
        ''change-impact tasks prioritize dependency evidence''
      else if re_search REVIEW_RE text
      then task_profile ''comment2context'' 1 (105/100) (135/100) (76/100)
        ''review comments often require semantic context beyond named files''
      else if pl_use_structural plan
      then task_profile ''structural'' 1 (85/100) (145/100) (72/100)
        ''structural intent prioritizes graph-backed specialist evidence''
      else if pl_use_semantic plan
      then task_profile ''semantic'' (95/100) 1 (135/100) (76/100)
        ''semantic intent prioritizes semantic specialist evidence''
      else task_profile ''exact'' (110/100) (135/100) (75/100) (84/100)
        ''exact intent prioritizes deterministic lexical evidence'')"


section \<open>What a plan asks for\<close>

lemma plan_for_fields [simp]:
  "pl_intent (plan_for i a b r ps) = i" "pl_use_lexical (plan_for i a b r ps)"
  "pl_use_semantic (plan_for i a b r ps) = a" "pl_use_structural (plan_for i a b r ps) = b"
  "pl_patterns (plan_for i a b r ps) = ps"
  by (simp_all add: plan_for_def)

lemma plan_structural:
  assumes "p = classify_retrieval_intent query decision symbol endpoint"
  shows "pl_use_structural p \<longleftrightarrow> pl_patterns p \<noteq> []"
    and "rd_structural decision \<Longrightarrow> pl_use_structural p"
    and "pl_use_lexical p"
    and "pl_intent p = IntentStructural \<Longrightarrow> pl_use_structural p \<and> \<not> pl_use_semantic p"
    and "pl_intent p = IntentSemantic \<Longrightarrow> pl_use_semantic p \<and> \<not> pl_use_structural p"
    and "pl_intent p = IntentExact \<Longrightarrow> \<not> pl_use_semantic p \<and> \<not> pl_use_structural p"
    and "pl_intent p = IntentMixed \<Longrightarrow> pl_use_semantic p"
proof -
  obtain a b ps m where "p = plan_of decision a b ps m"
    using assms by (simp add: classify_retrieval_intent_def Let_def)
  then show "pl_use_structural p \<longleftrightarrow> pl_patterns p \<noteq> []"
    and "rd_structural decision \<Longrightarrow> pl_use_structural p"
    and "pl_use_lexical p"
    and "pl_intent p = IntentStructural \<Longrightarrow> pl_use_structural p \<and> \<not> pl_use_semantic p"
    and "pl_intent p = IntentSemantic \<Longrightarrow> pl_use_semantic p \<and> \<not> pl_use_structural p"
    and "pl_intent p = IntentExact \<Longrightarrow> \<not> pl_use_semantic p \<and> \<not> pl_use_structural p"
    and "pl_intent p = IntentMixed \<Longrightarrow> pl_use_semantic p"
    by (auto simp: plan_of_def split: if_split_asm)
qed

lemma task_policy_bounds:
  assumes "p = task_retrieval_policy query plan changed"
  shows "3/4 \<le> tp_source_weight p" "3/4 \<le> tp_lexical_weight p" "3/4 \<le> tp_specialist_weight p"
    and "0 \<le> tp_mmr_lambda p" "tp_mmr_lambda p \<le> 1"
  using assms by (auto simp: task_retrieval_policy_def task_profile_def Let_def)

section \<open>Sufficiency as a measure\<close>

lemma matched_tokens_subset: "matched_tokens query items \<subseteq> set (tokenize query)"
  by (auto simp: matched_tokens_def)

lemma finite_matched_tokens [simp]: "finite (matched_tokens query items)"
  using matched_tokens_subset finite_subset by blast

lemma coverage_bounds: "0 \<le> coverage_of query items \<and> coverage_of query items \<le> 1"
proof -
  have "card (matched_tokens query items) \<le> card (set (tokenize query))"
    by (rule card_mono [OF _ matched_tokens_subset]) simp
  then have "card (matched_tokens query items) \<le> max 1 (card (set (tokenize query)))" by simp
  then show ?thesis by (simp add: coverage_of_def divide_le_eq_1 del: of_nat_max)
qed

lemma sufficiency_score_bounds: "0 \<le> sufficiency_score c d e w \<and> sufficiency_score c d e w \<le> 1"
  by (simp add: sufficiency_score_def)

lemma sufficiency_score_mono:
  assumes "c \<le> c'" "d \<le> d'" "e \<longrightarrow> e'" "w \<longrightarrow> w'"
  shows "sufficiency_score c d e w \<le> sufficiency_score c' d' e' w'"
proof -
  have "min 1 (rat_of_nat d / 2) \<le> min 1 (of_nat d' / 2)" using assms(2) by (simp add: min.coboundedI2)
  moreover have "flag_score e \<le> flag_score e'" "flag_score w \<le> flag_score w'"
    using assms by (auto simp: flag_score_def)
  ultimately have "58/100 * c + 17/100 * min 1 (of_nat d / 2) + 15/100 * flag_score e + 10/100 * flag_score w
    \<le> 58/100 * c' + 17/100 * min 1 (of_nat d' / 2) + 15/100 * flag_score e' + 10/100 * flag_score w'"
    using assms(1) by (intro add_mono mult_left_mono) auto
  then show ?thesis unfolding sufficiency_score_def by (meson max.mono min.mono order_refl)
qed

text \<open>More items never lower a component.\<close>

lemma components_mono:
  assumes "set items \<subseteq> set items'"
  shows "coverage_of query items \<le> coverage_of query items'"
    and "diversity_of items \<le> diversity_of items'"
    and "exact_match query items \<Longrightarrow> exact_match query items'"
    and "structural_complete rt required patterns items \<Longrightarrow> structural_complete rt required patterns items'"
proof -
  have "matched_tokens query items \<subseteq> matched_tokens query items'" using assms by (auto simp: matched_tokens_def)
  then have "card (matched_tokens query items) \<le> card (matched_tokens query items')" by (simp add: card_mono)
  then show "coverage_of query items \<le> coverage_of query items'"
    by (simp add: coverage_of_def divide_right_mono)
  show "diversity_of items \<le> diversity_of items'"
    unfolding diversity_of_def using assms by (intro card_mono image_mono) auto
  show "exact_match query items \<Longrightarrow> exact_match query items'"
    using assms by (auto simp: exact_match_def list_ex_iff)
  have "matched_structural rt items \<subseteq> matched_structural rt items'" using assms by (auto simp: matched_structural_def)
  then show "structural_complete rt required patterns items \<Longrightarrow> structural_complete rt required patterns items'"
    by (auto simp: structural_complete_def split: if_splits)
qed

lemma sufficient_mono:
  assumes "set items \<subseteq> set items'"
    and "sf_sufficient (evaluate_sufficiency rt query items required patterns threshold)"
  shows "sf_sufficient (evaluate_sufficiency rt query items' required patterns threshold)"
proof -
  let ?s = "\<lambda>is. sufficiency_score (coverage_of query is) (diversity_of is) (exact_match query is)
    (structural_complete rt required patterns is)"
  have ne: "items \<noteq> []" "items' \<noteq> []" using assms by (auto simp: evaluate_sufficiency_def no_sufficiency_def)
  have "?s items \<le> ?s items'"
    using components_mono [OF assms(1)] by (intro sufficiency_score_mono) auto
  moreover have t: "fl_le threshold (Fin (?s items))"
    and c: "structural_complete rt required patterns items \<or> \<not> required"
    using assms(2) ne by (simp_all add: evaluate_sufficiency_def Let_def)
  ultimately have "fl_le threshold (Fin (?s items'))" by (cases threshold) (auto simp: fl_le_def)
  then show ?thesis using ne c components_mono(4) [OF assms(1)] by (auto simp: evaluate_sufficiency_def Let_def)
qed

text \<open>The rounded scores a run reports stay in the unit interval.\<close>

lemma sufficiency_bounds:
  assumes "s = evaluate_sufficiency rt query items required patterns threshold"
  shows "0 \<le> sf_score s \<and> sf_score s \<le> 1 \<and> 0 \<le> sf_coverage s \<and> sf_coverage s \<le> 1"
  using assms round_to_unit sufficiency_score_bounds coverage_bounds
  by (simp add: evaluate_sufficiency_def no_sufficiency_def Let_def)

end
