(* ===== verification/Evidence.thy ===== *)
theory Evidence
  imports RetrievalPolicy
begin

text \<open>
  \<open>evidence.py\<close>: the category and the trust class of a source, and the envelope the system builds for
  a selected item; and \<open>selective_retrieval.py\<close>, the quality gates an evidence set passes before it
  counts.  The identifiers of repositories are arguments.
\<close>

section \<open>Categories\<close>

definition kind_value :: "evidence_kind \<Rightarrow> string" where
  "kind_value k = (case k of Index \<Rightarrow> ''index'' | Repository \<Rightarrow> ''repository'' | Structural \<Rightarrow> ''structural''
     | Semantic \<Rightarrow> ''semantic'' | Test \<Rightarrow> ''test'' | Memory \<Rightarrow> ''memory'' | Generated \<Rightarrow> ''generated''
     | External \<Rightarrow> ''external'' | Context \<Rightarrow> ''context'')"

definition trust_value :: "trust_class \<Rightarrow> string" where
  "trust_value t = (case t of UntrustedRepositoryContent \<Rightarrow> ''untrusted_repository_content''
     | UntrustedExternalProvider \<Rightarrow> ''untrusted_external_provider''
     | UntrustedDurableMemory \<Rightarrow> ''untrusted_durable_memory''
     | UntrustedGeneratedContext \<Rightarrow> ''untrusted_generated_context''
     | UntrustedContextData \<Rightarrow> ''untrusted_context_data'')"

definition evidence_kind_for_source :: "string \<Rightarrow> evidence_kind" where
  "evidence_kind_for_source source =
     (if starts_with source ''external:'' then External
      else if source = ''lightweight_index'' then Index
      else if source = ''targeted_source'' then Repository
      else if source \<in> {''code_review_graph'', ''scip''} then Structural
      else if source = ''semantic'' then Semantic
      else if source = ''test_resolver'' then Test
      else if source = ''durable_memory'' then Memory
      else if source \<in> {''hot_cache'', ''research_cache'', ''domain_manifest''} then Generated
      else Context)"

definition trust_class_for_source :: "string \<Rightarrow> trust_class" where
  "trust_class_for_source source =
     (if starts_with source ''external:'' then UntrustedExternalProvider
      else if source = ''durable_memory'' then UntrustedDurableMemory
      else if source \<in> {''hot_cache'', ''research_cache'', ''domain_manifest''} then UntrustedGeneratedContext
      else if source \<in> {''lightweight_index'', ''targeted_source'', ''code_review_graph'', ''scip'', ''semantic'', ''test_resolver''}
      then UntrustedRepositoryContent
      else UntrustedContextData)"

section \<open>Envelopes\<close>

definition LOCATOR_KEYS :: "string list" where
  "LOCATOR_KEYS = [''path'', ''file'', ''line'', ''start_line'', ''end_line'', ''symbol'', ''endpoint'', ''pattern'', ''role'',
     ''language'']"

definition locator_value :: "json \<Rightarrow> bool" where
  "locator_value v = (case v of JStr _ \<Rightarrow> True | JInt _ \<Rightarrow> True | JFloat _ \<Rightarrow> True | _ \<Rightarrow> False)"

definition safe_locator :: "json dict \<Rightarrow> json dict" where
  "safe_locator metadata =
     fold (\<lambda>key locator. let v = jget metadata key in if locator_value v then dset locator key v else locator)
       LOCATOR_KEYS []"

definition content_sha256 :: "runtime \<Rightarrow> string \<Rightarrow> string" where
  "content_sha256 rt text = ''sha256:'' @ hexdigest (rt_sha256 rt (utf8 text))"

definition CONFIDENCE_LABELS :: "string list" where
  "CONFIDENCE_LABELS = [''candidate'', ''corroborated'', ''verified'']"

definition evidence_confidence :: "runtime \<Rightarrow> string \<Rightarrow> json dict \<Rightarrow> string" where
  "evidence_confidence rt source metadata =
     (let v = jget metadata ''evidence_confidence'';
          raw = casefold (strip (py_str rt (if truthy v then v else JStr ''candidate'')))
      in if source = ''code_review_graph'' \<and> raw \<in> set CONFIDENCE_LABELS then raw else ''candidate'')"

definition provider_label :: "json dict \<Rightarrow> json dict \<Rightarrow> string option" where
  "provider_label provenance metadata =
     (let v = jget provenance ''provider'' in
      case (if truthy v then v else jget metadata ''provider'') of
        JStr s \<Rightarrow> if strip s \<noteq> [] then Some (take 160 (strip s)) else None
      | _ \<Rightarrow> None)"

definition system_provenance :: "string \<Rightarrow> bool \<Rightarrow> json dict \<Rightarrow> string option \<Rightarrow> json dict" where
  "system_provenance source stale locator provider =
     [(''retriever'', JStr source), (''fresh'', JBool (\<not> stale))]
     @ (if locator = [] then [] else [(''locator'', JDict locator)])
     @ (case provider of None \<Rightarrow> [] | Some p \<Rightarrow> [(''provider'', JStr p)])"

definition identity_payload :: "string \<Rightarrow> string \<Rightarrow> string \<Rightarrow> json dict \<Rightarrow> json dict" where
  "identity_payload repository_id source content locator =
     [(''schema'', JStr ''evidence-v1''), (''repository_id'', JStr repository_id), (''source'', JStr source),
      (''kind'', JStr (kind_value (evidence_kind_for_source source))), (''content_sha256'', JStr content),
      (''locator'', JDict locator)]"

definition build_evidence_envelope ::
  "runtime \<Rightarrow> string \<Rightarrow> string \<Rightarrow> bool \<Rightarrow> json dict \<Rightarrow> json dict \<Rightarrow> string \<Rightarrow> evidence_envelope" where
  "build_evidence_envelope rt source text stale metadata provenance repository_id =
     (let content = content_sha256 rt text; locator = safe_locator metadata in
      \<lparr>ev_id = ''evidence-v1:'' @ sha256_json rt (JDict (identity_payload repository_id source content locator)),
       ev_repository_id = repository_id,
       ev_kind = evidence_kind_for_source source,
       ev_content_sha256 = content,
       ev_trust_class = trust_class_for_source source,
       ev_authority = no_authority,
       ev_provenance = system_provenance source stale locator (provider_label provenance metadata),
       ev_confidence = evidence_confidence rt source metadata\<rparr>)"

text \<open>\<open>to_dict\<close>\<close>

definition authority_json :: "evidence_authority \<Rightarrow> json dict" where
  "authority_json a = [(''instructions'', JBool (auth_instructions a)), (''tools'', JBool (auth_tools a)),
     (''policy'', JBool (auth_policy a)), (''repository_activation'', JBool (auth_repository_activation a)),
     (''network_access'', JBool (auth_network_access a)), (''secret_access'', JBool (auth_secret_access a)),
     (''memory_write'', JBool (auth_memory_write a)), (''verification_bypass'', JBool (auth_verification_bypass a))]"

definition envelope_json :: "evidence_envelope \<Rightarrow> json dict" where
  "envelope_json e = [(''evidence_id'', JStr (ev_id e)), (''repository_id'', JStr (ev_repository_id e)),
     (''kind'', JStr (kind_value (ev_kind e))), (''content_sha256'', JStr (ev_content_sha256 e)),
     (''trust_class'', JStr (trust_value (ev_trust_class e))), (''authority'', JDict (authority_json (ev_authority e))),
     (''provenance'', JDict (ev_provenance e)), (''confidence'', JStr (ev_confidence e))]"

section \<open>Quality gates\<close>

datatype evidence_condition = Supported | Partial | Irrelevant | NoContext | Conflicting | WrongRepository

definition condition_value :: "evidence_condition \<Rightarrow> string" where
  "condition_value c = (case c of Supported \<Rightarrow> ''supported'' | Partial \<Rightarrow> ''partial'' | Irrelevant \<Rightarrow> ''irrelevant''
     | NoContext \<Rightarrow> ''no_context'' | Conflicting \<Rightarrow> ''conflicting'' | WrongRepository \<Rightarrow> ''wrong_repository'')"

record selective_decision =
  sd_condition :: evidence_condition
  sd_accept :: bool
  sd_score :: rat
  sd_reasons :: "string list"

definition selective_json :: "selective_decision \<Rightarrow> json dict" where
  "selective_json d = [(''condition'', JStr (condition_value (sd_condition d))), (''accept'', JBool (sd_accept d)),
     (''score'', JFloat (Fin (sd_score d))), (''reasons'', JList (map JStr (sd_reasons d)))]"

definition anchor_of :: "runtime \<Rightarrow> context_item \<Rightarrow> string" where
  "anchor_of rt i = (let m = ci_metadata i in
     strip (text_or_empty rt (py_or (jget m ''symbol'') (py_or (jget m ''qualified_name'')
       (py_or (jget m ''path'') (jget m ''file''))))))"

definition structural_witness :: "runtime \<Rightarrow> context_item \<Rightarrow> bool" where
  "structural_witness rt i =
     (ci_source i \<in> {''code_review_graph'', ''scip''} \<and> structural_valid i
      \<and> (ci_source i = ''code_review_graph'' \<longrightarrow>
          py_str rt (py_or (jget (ci_metadata i) ''evidence_confidence'') (JStr ''candidate'')) \<in> {''corroborated'', ''verified''})
      \<and> item_pattern rt i \<noteq> [] \<and> anchor_of rt i \<noteq> [])"

definition structural_state :: "context_item \<Rightarrow> string" where
  "structural_state i = (if truthy (jget (ci_metadata i) ''empty_verified'') then ''empty'' else ''present'')"

text \<open>\<open>states.setdefault(key, set()).add(state)\<close>\<close>

fun add_state :: "'k \<Rightarrow> string \<Rightarrow> ('k \<times> string set) list \<Rightarrow> ('k \<times> string set) list" where
  "add_state k s [] = [(k, {s})]"
| "add_state k s ((k', ss) # d) = (if k' = k then (k', insert s ss) # d else (k', ss) # add_state k s d)"

definition structural_conflict :: "runtime \<Rightarrow> context_item list \<Rightarrow> bool" where
  "structural_conflict rt items =
     (let states = fold (\<lambda>i. add_state (item_pattern rt i, anchor_of rt i) (structural_state i))
            (filter (structural_witness rt) items) []
      in list_ex (\<lambda>(_, values). 1 < card values) states)"

definition gate_reasons :: "sufficiency \<Rightarrow> pyfloat \<Rightarrow> string list" where
  "gate_reasons s minimum_coverage =
     (if \<not> sf_structural s then [''required_structural_evidence_incomplete''] else [])
     @ (if fl_lt (Fin (sf_coverage s)) minimum_coverage then [''query_coverage_below_floor''] else [])
     @ (if \<not> sf_sufficient s then [''sufficiency_below_threshold''] else [])"

definition reject :: "evidence_condition \<Rightarrow> string \<Rightarrow> selective_decision" where
  "reject c reason = \<lparr>sd_condition = c, sd_accept = False, sd_score = 0, sd_reasons = [reason]\<rparr>"

definition evaluate_selective_retrieval ::
  "runtime \<Rightarrow> context_item list \<Rightarrow> sufficiency \<Rightarrow> string set \<Rightarrow> pyfloat \<Rightarrow> selective_decision" where
  "evaluate_selective_retrieval rt items s expected minimum_coverage =
     (if items = [] then reject NoContext ''no_selected_context''
      else if expected \<noteq> {} \<and> list_ex (\<lambda>i. ci_evidence i = None) items
      then reject WrongRepository ''missing_code_owned_evidence_identity''
      else if expected \<noteq> {} \<and> \<not> list_all (\<lambda>i. case ci_evidence i of Some e \<Rightarrow> ev_repository_id e \<in> expected | None \<Rightarrow> True) items
      then reject WrongRepository ''evidence_repository_outside_routing_plan''
      else if structural_conflict rt items then reject Conflicting ''verified_structural_evidence_conflicts''
      else if list_all ci_stale items then reject Irrelevant ''all_selected_evidence_is_stale''
      else let reasons = gate_reasons s minimum_coverage in
        if reasons \<noteq> []
        then \<lparr>sd_condition = (if fl_lt (Fin (sf_coverage s)) minimum_coverage then Irrelevant else Partial),
              sd_accept = False, sd_score = sf_score s, sd_reasons = reasons\<rparr>
        else \<lparr>sd_condition = Supported, sd_accept = True, sd_score = sf_score s,
              sd_reasons = [''evidence_quality_gate_passed'']\<rparr>)"

section \<open>What an envelope says\<close>

lemma envelope_fields [simp]:
  "ev_repository_id (build_evidence_envelope rt src txt st m p r) = r"
  "ev_authority (build_evidence_envelope rt src txt st m p r) = no_authority"
  "ev_kind (build_evidence_envelope rt src txt st m p r) = evidence_kind_for_source src"
  "ev_trust_class (build_evidence_envelope rt src txt st m p r) = trust_class_for_source src"
  "ev_content_sha256 (build_evidence_envelope rt src txt st m p r) = content_sha256 rt txt"
  "ev_confidence (build_evidence_envelope rt src txt st m p r) = evidence_confidence rt src m"
  by (simp_all add: build_evidence_envelope_def Let_def)

lemma confidence_label: "evidence_confidence rt source metadata \<in> set CONFIDENCE_LABELS"
  by (simp add: evidence_confidence_def Let_def CONFIDENCE_LABELS_def)

lemma confidence_not_self_promoted:
  "source \<noteq> ''code_review_graph'' \<Longrightarrow> evidence_confidence rt source metadata = ''candidate''"
  by (simp add: evidence_confidence_def Let_def)

text \<open>The locator copies values of the metadata and nothing else.\<close>

lemma safe_locator_get:
  "dget (safe_locator metadata) k =
     (if k \<in> set LOCATOR_KEYS \<and> locator_value (jget metadata k) then Some (jget metadata k) else None)"
proof -
  have "dget (fold (\<lambda>key locator. let v = jget metadata key in if locator_value v then dset locator key v else locator) ks d) k
      = (if k \<in> set ks \<and> locator_value (jget metadata k) then Some (jget metadata k) else dget d k)" for ks d
    by (induction ks arbitrary: d) (auto simp: Let_def)
  then show ?thesis by (simp add: safe_locator_def)
qed

text \<open>The provenance of an envelope is what the system knows: a provider may only name itself.\<close>

lemma system_provenance_get:
  "jget (system_provenance source stale locator p) ''retriever'' = JStr source"
  "jget (system_provenance source stale locator p) ''fresh'' = JBool (\<not> stale)"
  by (simp_all add: system_provenance_def dict_simps jget_def)

section \<open>What the gate accepts\<close>

lemma add_state_get:
  "map_of (add_state k s d) k' = (if k' = k then Some (insert s (case map_of d k of Some ss \<Rightarrow> ss | None \<Rightarrow> {})) else map_of d k')"
  by (induction k s d rule: add_state.induct) auto

lemma add_state_keys: "fst ` set (add_state k s d) = insert k (fst ` set d)"
  by (induction k s d rule: add_state.induct) auto

lemma add_state_distinct: "distinct (map fst d) \<Longrightarrow> distinct (map fst (add_state k s d))"
proof (induction k s d rule: add_state.induct)
  case (2 k s k' ss d)
  then show ?case using add_state_keys [of k s d] by (auto simp: image_iff)
qed simp

definition states_of :: "('k \<times> string) list \<Rightarrow> 'k \<Rightarrow> string set" where
  "states_of rows k = {s. (k, s) \<in> set rows}"

lemma fold_add_state:
  assumes "distinct (map fst d)"
  shows "distinct (map fst (fold (\<lambda>(k, s). add_state k s) rows d))
    \<and> (\<forall>k. (case map_of (fold (\<lambda>(k, s). add_state k s) rows d) k of Some ss \<Rightarrow> ss | None \<Rightarrow> {})
          = (case map_of d k of Some ss \<Rightarrow> ss | None \<Rightarrow> {}) \<union> states_of rows k)"
  using assms
proof (induction rows arbitrary: d)
  case (Cons r rows)
  obtain k s where r: "r = (k, s)" by (cases r)
  have "distinct (map fst (add_state k s d))" using Cons.prems by (rule add_state_distinct)
  from Cons.IH [OF this] show ?case
    by (auto simp: r add_state_get states_of_def split: option.splits)
qed (simp add: states_of_def)

lemma states_of_two:
  "(\<exists>k. \<exists>a \<in> states_of rows k. \<exists>b \<in> states_of rows k. a \<noteq> b)
     \<longleftrightarrow> (\<exists>x \<in> set rows. \<exists>y \<in> set rows. fst x = fst y \<and> snd x \<noteq> snd y)"
  (is "?l \<longleftrightarrow> ?r")
proof
  assume ?l
  then obtain k a b where "(k, a) \<in> set rows" "(k, b) \<in> set rows" "a \<noteq> b" by (auto simp: states_of_def)
  then show ?r by (intro bexI [of _ "(k, a)"] bexI [of _ "(k, b)"]) auto
next
  assume ?r
  then obtain k a b where "(k, a) \<in> set rows" "(k, b) \<in> set rows" "a \<noteq> b" by auto
  then show ?l by (intro exI [of _ k] bexI [of _ a] bexI [of _ b]) (auto simp: states_of_def)
qed

text \<open>A conflict is a pattern and an anchor that one trusted item reports empty and another present.\<close>

lemma structural_conflict_iff:
  "structural_conflict rt items \<longleftrightarrow>
     (\<exists>i \<in> set items. \<exists>j \<in> set items. structural_witness rt i \<and> structural_witness rt j
        \<and> item_pattern rt i = item_pattern rt j \<and> anchor_of rt i = anchor_of rt j
        \<and> structural_state i \<noteq> structural_state j)"
proof -
  let ?ws = "filter (structural_witness rt) items"
  let ?row = "\<lambda>i. ((item_pattern rt i, anchor_of rt i), structural_state i)"
  let ?d = "fold (\<lambda>(k, s). add_state k s) (map ?row ?ws) []"
  have eq: "structural_conflict rt items = list_ex (\<lambda>(_, values). 1 < card values) ?d"
    by (simp add: structural_conflict_def fold_map comp_def)
  have d: "distinct (map fst ?d)"
    and g: "\<And>k. (case map_of ?d k of Some ss \<Rightarrow> ss | None \<Rightarrow> {}) = states_of (map ?row ?ws) k"
    using fold_add_state [of "[]" "map ?row ?ws"] by auto
  have two: "1 < card ss \<longleftrightarrow> (\<exists>a \<in> ss. \<exists>b \<in> ss. a \<noteq> b)" if "ss \<subseteq> {''empty'', ''present''}" for ss :: "string set"
  proof -
    have "finite ss" using that finite_subset by blast
    then show ?thesis by (metis One_nat_def card_le_Suc0_iff_eq not_le)
  qed
  have sub: "states_of (map ?row ?ws) k \<subseteq> {''empty'', ''present''}" for k
    by (auto simp: states_of_def structural_state_def)
  have "(\<exists>(k, ss) \<in> set ?d. 1 < card ss) \<longleftrightarrow> (\<exists>k. 1 < card (states_of (map ?row ?ws) k))"
  proof
    assume "\<exists>(k, ss) \<in> set ?d. 1 < card ss"
    then obtain k ss where "(k, ss) \<in> set ?d" "1 < card ss" by auto
    then have "map_of ?d k = Some ss" using d by simp
    then have "states_of (map ?row ?ws) k = ss" using g [of k] by simp
    then have "1 < card (states_of (map ?row ?ws) k)" using \<open>1 < card ss\<close> by simp
    then show "\<exists>k. 1 < card (states_of (map ?row ?ws) k)" by (rule exI)
  next
    assume "\<exists>k. 1 < card (states_of (map ?row ?ws) k)"
    then obtain k where "1 < card (states_of (map ?row ?ws) k)" by blast
    then have "map_of ?d k = Some (states_of (map ?row ?ws) k)" using g [of k] by (cases "map_of ?d k") auto
    then show "\<exists>(k, ss) \<in> set ?d. 1 < card ss"
      using \<open>1 < card (states_of (map ?row ?ws) k)\<close> by (blast dest: map_of_SomeD)
  qed
  also have "\<dots> \<longleftrightarrow> (\<exists>k. \<exists>a \<in> states_of (map ?row ?ws) k. \<exists>b \<in> states_of (map ?row ?ws) k. a \<noteq> b)"
    using two [OF sub] by blast
  also have "\<dots> \<longleftrightarrow> (\<exists>i \<in> set ?ws. \<exists>j \<in> set ?ws. fst (?row i) = fst (?row j) \<and> snd (?row i) \<noteq> snd (?row j))"
    by (simp only: states_of_two set_map bex_simps)
  finally show ?thesis unfolding eq list_ex_iff set_filter by auto
qed

lemma gate_reasons_Nil_iff:
  "gate_reasons s m = [] \<longleftrightarrow> sf_structural s \<and> \<not> fl_lt (Fin (sf_coverage s)) m \<and> sf_sufficient s"
  by (simp add: gate_reasons_def)

lemma selective_accept_iff:
  "sd_accept (evaluate_selective_retrieval rt items s expected m) \<longleftrightarrow>
     (\<exists>i \<in> set items. \<not> ci_stale i)
     \<and> (expected = {} \<or> (\<forall>i \<in> set items. \<exists>e. ci_evidence i = Some e \<and> ev_repository_id e \<in> expected))
     \<and> \<not> structural_conflict rt items
     \<and> sf_structural s \<and> \<not> fl_lt (Fin (sf_coverage s)) m \<and> sf_sufficient s"
  (is "?l \<longleftrightarrow> ?r")
proof -
  have ids: "(\<forall>i \<in> set items. \<exists>e. ci_evidence i = Some e \<and> ev_repository_id e \<in> expected) \<longleftrightarrow>
      \<not> list_ex (\<lambda>i. ci_evidence i = None) items
      \<and> list_all (\<lambda>i. case ci_evidence i of Some e \<Rightarrow> ev_repository_id e \<in> expected | None \<Rightarrow> True) items"
    by (force simp: list_ex_iff list_all_iff split: option.splits)
  have st: "(\<exists>i \<in> set items. \<not> ci_stale i) \<longleftrightarrow> items \<noteq> [] \<and> \<not> list_all ci_stale items"
    by (auto simp: list_all_iff)
  show ?thesis unfolding ids st
    by (simp add: evaluate_selective_retrieval_def reject_def Let_def gate_reasons_Nil_iff)
qed

lemma selective_supported_iff:
  "sd_condition (evaluate_selective_retrieval rt items s expected m) = Supported
     \<longleftrightarrow> sd_accept (evaluate_selective_retrieval rt items s expected m)"
  by (simp add: evaluate_selective_retrieval_def reject_def Let_def)

end
