(* ===== verification/Selection.thy ===== *)
theory Selection
  imports Fusion
begin

text \<open>
  \<open>context_selection.py\<close>: which context items fit a budget, chosen by relevance when it is tight and
  by lazy greedy facility location otherwise.  The heap of \<open>heapq\<close> is a list kept sorted by the
  compared part of its entries: the keys of the candidates are distinct, so the comparison never
  reaches the candidate itself.  \<open>est\<close> is the token estimator, \<open>blake\<close> the digest behind \<open>dedupe_key\<close>.
\<close>

section \<open>Candidates\<close>

record candidate =
  cd_item :: context_item
  cd_key :: string  \<comment> \<open>\<open>item.dedupe_key\<close>\<close>
  cd_relevance :: rat
  cd_tokens :: "string set"
  cd_char_cost :: int
  cd_token_cost :: int

definition jaccard :: "string set \<Rightarrow> string set \<Rightarrow> rat" where
  "jaccard a b =
     (if a = {} \<or> b = {} then 0
      else let union = card (a \<union> b) in if union \<noteq> 0 then of_nat (card (a \<inter> b)) / of_nat union else 0)"

fun dedupe :: "(context_item \<Rightarrow> string) \<Rightarrow> context_item list \<Rightarrow> string set \<Rightarrow> context_item list" where
  "dedupe key [] seen = []"
| "dedupe key (i # is) seen =
     (if key i \<in> seen then dedupe key is seen else i # dedupe key is (insert (key i) seen))"

definition candidates ::
  "(string \<Rightarrow> int) \<Rightarrow> (string \<Rightarrow> string) \<Rightarrow> string \<Rightarrow> context_item list \<Rightarrow> candidate list" where
  "candidates est blake query items =
     (let unique = dedupe (dedupe_key blake) items {};
          query_tokens = set (tokenize query);
          best = fold max (map (\<lambda>i. max 0 (ci_score i)) unique) 0;
          max_score = (if best = 0 then 1 else best)
      in map (\<lambda>i. let tokens = set (tokenize (ci_text i)) in
           \<lparr>cd_item = i, cd_key = dedupe_key blake i,
            cd_relevance = min 1 (65/100 * (max 0 (ci_score i) / max_score) + 35/100 * jaccard query_tokens tokens),
            cd_tokens = tokens, cd_char_cost = max 1 (int (length (ci_text i))),
            cd_token_cost = max 1 (est (ci_text i))\<rparr>) unique)"

definition active_cost :: "bool \<Rightarrow> candidate \<Rightarrow> int" where
  "active_cost token_aware c = (if token_aware then cd_token_cost c else cd_char_cost c)"

section \<open>Coverage\<close>

definition represented :: "candidate \<Rightarrow> candidate \<Rightarrow> rat" where
  "represented c target = cd_relevance target * jaccard (cd_tokens target) (cd_tokens c)"

definition gain :: "candidate \<Rightarrow> candidate list \<Rightarrow> rat list \<Rightarrow> rat" where
  "gain c universe coverage = sum_list (map (\<lambda>(target, covered).
     if covered < represented c target then represented c target - covered else 0) (zip universe coverage))"

definition apply_candidate :: "candidate \<Rightarrow> candidate list \<Rightarrow> rat list \<Rightarrow> rat list" where
  "apply_candidate c universe coverage = map (\<lambda>(target, covered).
     if covered < represented c target then represented c target else covered) (zip universe coverage)"

section \<open>The candidate limit\<close>

definition relevance_rank :: "bool \<Rightarrow> candidate \<Rightarrow> rat \<times> int \<times> string \<times> string" where
  "relevance_rank token_aware c =
     (- cd_relevance c, active_cost token_aware c, ci_source (cd_item c), cd_key c)"

definition bounded_rows :: "bool \<Rightarrow> candidate list \<Rightarrow> int \<Rightarrow> string list \<Rightarrow> candidate list" where
  "bounded_rows token_aware rows limit mandatory_sources =
     (if int (length rows) \<le> limit then rows
      else let mandatory = filter (\<lambda>r. ci_source (cd_item r) \<in> set mandatory_sources) rows;
               mandatory_keys = cd_key ` set mandatory;
               ranked = sort_key (relevance_rank token_aware) (filter (\<lambda>r. cd_key r \<notin> mandatory_keys) rows)
        in mandatory @ take (nat (max 0 (limit - int (length mandatory)))) ranked)"

section \<open>Taking candidates\<close>

record limits =
  li_chars :: int
  li_tokens :: "int option"

definition token_aware :: "limits \<Rightarrow> bool" where
  "token_aware l = (li_tokens l \<noteq> None)"

definition candidate_cost :: "limits \<Rightarrow> candidate \<Rightarrow> int" where
  "candidate_cost l c = active_cost (token_aware l) c"

record chosen =
  ch_rows :: "candidate list"  \<comment> \<open>in order of selection\<close>
  ch_chars :: int
  ch_tokens :: int

definition chosen_keys :: "chosen \<Rightarrow> string set" where
  "chosen_keys s = cd_key ` set (ch_rows s)"

definition fits :: "limits \<Rightarrow> chosen \<Rightarrow> candidate \<Rightarrow> bool" where
  "fits l s c = (ch_chars s + cd_char_cost c \<le> li_chars l
     \<and> (case li_tokens l of None \<Rightarrow> True | Some t \<Rightarrow> ch_tokens s + cd_token_cost c \<le> t))"

definition add :: "candidate \<Rightarrow> chosen \<Rightarrow> chosen" where
  "add c s = \<lparr>ch_rows = ch_rows s @ [c], ch_chars = ch_chars s + cd_char_cost c,
     ch_tokens = ch_tokens s + cd_token_cost c\<rparr>"

definition take_mandatory :: "limits \<Rightarrow> string list \<Rightarrow> candidate list \<Rightarrow> chosen \<Rightarrow> chosen" where
  "take_mandatory l mandatory_sources rows s = fold (\<lambda>c s.
     if ci_source (cd_item c) \<notin> set mandatory_sources then s
     else if cd_key c \<in> chosen_keys s \<or> \<not> fits l s c then s
     else add c s) rows s"

definition take_relevant :: "limits \<Rightarrow> candidate list \<Rightarrow> chosen \<Rightarrow> chosen" where
  "take_relevant l rows s = fold (\<lambda>c s. if fits l s c then add c s else s)
     (sort_key (relevance_rank (token_aware l)) rows) s"

section \<open>The lazy greedy loop\<close>

type_synonym entry = "rat \<times> string \<times> nat \<times> candidate"

definition entry_order :: "entry \<Rightarrow> rat \<times> string \<times> nat" where
  "entry_order e = (case e of (neg, key, epoch, _) \<Rightarrow> (neg, key, epoch))"

definition heap_push :: "entry \<Rightarrow> entry list \<Rightarrow> entry list" where
  "heap_push e h = insort_key entry_order e h"

definition density :: "limits \<Rightarrow> candidate list \<Rightarrow> rat list \<Rightarrow> candidate \<Rightarrow> rat" where
  "density l rows coverage c = gain c rows coverage / of_int (candidate_cost l c)"

definition initial_heap :: "limits \<Rightarrow> candidate list \<Rightarrow> rat list \<Rightarrow> candidate list \<Rightarrow> entry list" where
  "initial_heap l rows coverage remaining =
     fold (\<lambda>c. heap_push (- density l rows coverage c, cd_key c, 0, c)) remaining []"

text \<open>\<open>None\<close> if the loop never ends.\<close>

partial_function (option) lazy_loop ::
  "limits \<Rightarrow> candidate list \<Rightarrow> entry list \<Rightarrow> nat \<Rightarrow> rat list \<Rightarrow> chosen \<Rightarrow> chosen option" where
  "lazy_loop l rows heap epoch coverage s =
     (case heap of
        [] \<Rightarrow> Some s
      | (neg_bound, _, candidate_epoch, c) # h \<Rightarrow>
          (if \<not> fits l s c then lazy_loop l rows h epoch coverage s
           else let current = density l rows coverage c in
             if candidate_epoch \<noteq> epoch \<or> 1 / 10 ^ 12 < \<bar>current + neg_bound\<bar>
             then lazy_loop l rows (heap_push (- current, cd_key c, epoch, c) h) epoch coverage s
             else if current \<le> 0 then Some s
             else lazy_loop l rows h (epoch + 1) (apply_candidate c rows coverage) (add c s)))"

declare lazy_loop.simps [code]

definition take_covering :: "limits \<Rightarrow> candidate list \<Rightarrow> candidate list \<Rightarrow> chosen \<Rightarrow> chosen option" where
  "take_covering l rows remaining s =
     (let coverage = fold (\<lambda>c. apply_candidate c rows) (ch_rows s) (replicate (length rows) 0)
      in lazy_loop l rows (initial_heap l rows coverage remaining) 0 coverage s)"

section \<open>\<open>select_context\<close>\<close>

record selection_report =
  sr_mode :: string
  sr_candidate_count :: nat
  sr_selector_candidates :: nat
  sr_candidate_limit :: int
  sr_selected_count :: nat
  sr_used_chars :: int
  sr_used_tokens :: int
  sr_budget_chars :: int
  sr_budget_tokens :: "int option"
  sr_budget_ratio :: "rat option"
  sr_mandatory_sources :: "string list option"

definition nothing_chosen :: chosen where
  "nothing_chosen = \<lparr>ch_rows = [], ch_chars = 0, ch_tokens = 0\<rparr>"

text \<open>\<open>int(requested)\<close> with \<open>except (TypeError, ValueError)\<close>: an infinity still raises.\<close>

definition candidate_limit_of :: "int option \<Rightarrow> json dict \<Rightarrow> int result" where
  "candidate_limit_of requested selector_cfg =
     (case (case requested of Some n \<Rightarrow> Inr n
        | None \<Rightarrow> to_int (jget_or selector_cfg ''max_selector_candidates'' (JInt 200))) of
        Inr n \<Rightarrow> Inr (max 1 n)
      | Inl (OverflowError e) \<Rightarrow> Inl (OverflowError e)
      | Inl _ \<Rightarrow> Inr 200)"

definition limits_of :: "int option \<Rightarrow> int option \<Rightarrow> int option \<Rightarrow> limits" where
  "limits_of char_budget budget_chars budget_tokens =
     \<lparr>li_chars = max 0 (case budget_chars of Some n \<Rightarrow> n | None \<Rightarrow> (case char_budget of Some n \<Rightarrow> n | None \<Rightarrow> 0)),
      li_tokens = map_option (max 0) budget_tokens\<rparr>"

text \<open>The outer \<open>None\<close>: the call does not return.\<close>

definition choose_rows ::
  "limits \<Rightarrow> string list \<Rightarrow> candidate list \<Rightarrow> rat \<Rightarrow> pyfloat \<Rightarrow> (string \<times> chosen) option" where
  "choose_rows l mandatory_sources rows ratio tight_fraction =
     (let s = take_mandatory l mandatory_sources rows nothing_chosen;
          remaining = filter (\<lambda>r. cd_key r \<notin> chosen_keys s) rows
      in if fl_le (Fin ratio) tight_fraction then Some (''relevance'', take_relevant l remaining s)
         else map_option (\<lambda>s'. (''facility_location'', s')) (take_covering l rows remaining s))"

definition select_with ::
  "runtime \<Rightarrow> (string \<Rightarrow> int) \<Rightarrow> (string \<Rightarrow> string) \<Rightarrow> string \<Rightarrow> context_item list \<Rightarrow> int option \<Rightarrow> json dict
     \<Rightarrow> string list \<Rightarrow> int option \<Rightarrow> int option \<Rightarrow> int option
     \<Rightarrow> (context_item list \<times> selection_report) result option" where
  "select_with rt est blake query items char_budget selector_cfg mandatory_sources budget_chars budget_tokens
     max_selector_candidates =
     (let l = limits_of char_budget budget_chars budget_tokens in
      case candidate_limit_of max_selector_candidates selector_cfg of
        Inl e \<Rightarrow> Some (Inl e)
      | Inr limit \<Rightarrow>
          (let all_rows = candidates est blake query items;
               rows = bounded_rows (token_aware l) all_rows limit mandatory_sources;
               report = \<lparr>sr_mode = ''empty'', sr_candidate_count = length all_rows,
                 sr_selector_candidates = length rows, sr_candidate_limit = limit, sr_selected_count = 0,
                 sr_used_chars = 0, sr_used_tokens = 0, sr_budget_chars = li_chars l, sr_budget_tokens = li_tokens l,
                 sr_budget_ratio = None, sr_mandatory_sources = None\<rparr>
           in if rows = [] \<or> li_chars l \<le> 0 \<or> (case li_tokens l of None \<Rightarrow> False | Some t \<Rightarrow> t \<le> 0)
              then Some (Inr ([], report))
              else let total_cost = sum_list (map (candidate_cost l) rows);
                       active_budget = (case li_tokens l of Some t \<Rightarrow> t | None \<Rightarrow> li_chars l);
                       ratio = rat_of_int active_budget / of_int (max 1 total_cost)
                in case to_float rt (jget_or selector_cfg ''tight_budget_fraction'' (JFloat (Fin (3/10)))) of
                     Inl e \<Rightarrow> Some (Inl e)
                   | Inr tight \<Rightarrow> map_option (\<lambda>(mode, s).
                       Inr (map cd_item (ch_rows s), report\<lparr>sr_mode := mode, sr_selected_count := length (ch_rows s),
                         sr_used_chars := ch_chars s, sr_used_tokens := ch_tokens s,
                         sr_budget_ratio := Some (round_to 4 ratio), sr_mandatory_sources := Some mandatory_sources\<rparr>))
                       (choose_rows l mandatory_sources rows ratio tight)))"

text \<open>\<open>((config or {}).get("context") or {}).get("selector") or {}\<close>\<close>

definition selector_config :: "json dict \<Rightarrow> json dict result" where
  "selector_config config = rbind (or_empty (jget config ''context'')) (\<lambda>context. or_empty (jget context ''selector''))"

definition select_context ::
  "runtime \<Rightarrow> (string \<Rightarrow> int) \<Rightarrow> (string \<Rightarrow> string) \<Rightarrow> string \<Rightarrow> context_item list \<Rightarrow> int option \<Rightarrow> json dict
     \<Rightarrow> string list \<Rightarrow> int option \<Rightarrow> int option \<Rightarrow> int option
     \<Rightarrow> (context_item list \<times> selection_report) result option" where
  "select_context rt est blake query items char_budget config mandatory_sources budget_chars budget_tokens
     max_selector_candidates =
     (case selector_config config of
        Inl e \<Rightarrow> Some (Inl e)
      | Inr selector_cfg \<Rightarrow> select_with rt est blake query items char_budget selector_cfg mandatory_sources budget_chars
          budget_tokens max_selector_candidates)"

end
