(* ===== verification/Routing.thy ===== *)
theory Routing
  imports Domain Patterns
begin

text \<open>
  How a task is routed: \<open>classifier.py\<close> picks the lane and the risk, \<open>budget.py\<close> the context budget of a
  lane, \<open>orchestration.py\<close> the contract the rest of a run works under.  The regular expressions of the
  classifier are searches for words between word boundaries and for file names.
\<close>

section \<open>Searching\<close>

text \<open>\<open>\b p \b\<close> at the head of \<open>text\<close>; \<open>before\<close> says whether a word character precedes it.\<close>

definition word_here :: "bool \<Rightarrow> string \<Rightarrow> string \<Rightarrow> bool" where
  "word_here before text p = (starts_with text p \<and> before \<noteq> word_first text
     \<and> (if p = [] then before else is_word (last p)) \<noteq> word_first (drop (length p) text))"

fun search_word :: "bool \<Rightarrow> string \<Rightarrow> string \<Rightarrow> bool" where
  "search_word before [] p = word_here before [] p"
| "search_word before (c # cs) p = (word_here before (c # cs) p \<or> search_word (is_word c) cs p)"

text \<open>\<open>_contains_any\<close> on lower-case text.\<close>

definition contains_any :: "string \<Rightarrow> string list \<Rightarrow> string list" where
  "contains_any text items =
     filter (\<lambda>item. let cleaned = strip (lower item) in cleaned \<noteq> [] \<and> search_word False (lower text) cleaned) items"

definition CHANGE_WORDS :: "string list" where
  "CHANGE_WORDS = [''add'', ''alter'', ''build'', ''create'', ''change'', ''edit'', ''fix'', ''implement'', ''modify'',
     ''patch'', ''remove'', ''rename'', ''replace'', ''rewrite'', ''update'', ''refactor'', ''migrate'', ''deploy'']"

definition QUESTION_WORDS :: "string list" where
  "QUESTION_WORDS = [''what'', ''why'', ''how'', ''where'', ''which'', ''who'', ''whom'', ''whose'', ''when'', ''explain'',
     ''describe'', ''compare'', ''difference'', ''understand'', ''show'', ''find'', ''list'', ''locate'', ''tell'']"

definition search_any :: "string list \<Rightarrow> string \<Rightarrow> bool" where
  "search_any ws text = list_ex (search_word False (lower text)) ws"

text \<open>\<open>FILE_HINT\<close>: the extensions are made of characters of the class before them, and the greedy class
  runs to the last extension, so each maximal run of the class holds at most one match.\<close>

definition FILE_EXTENSIONS :: "string list" where
  "FILE_EXTENSIONS = [''py'', ''go'', ''rs'', ''js'', ''ts'', ''tsx'', ''java'', ''cs'', ''cpp'', ''h'', ''rb'', ''php'', ''md'',
     ''json'', ''yaml'', ''yml'']"

definition path_char :: "char \<Rightarrow> bool" where
  "path_char c = (is_word c \<or> c \<in> {CHR ''.'', CHR ''/'', char_of (92::nat), CHR ''-''})"

fun path_runs :: "string \<Rightarrow> string \<Rightarrow> string list" where
  "path_runs acc [] = (if acc = [] then [] else [rev acc])"
| "path_runs acc (c # cs) =
     (if path_char c then path_runs (c # acc) cs
      else if acc = [] then path_runs [] cs else rev acc # path_runs [] cs)"

definition extension_at :: "string \<Rightarrow> nat \<Rightarrow> bool" where
  "extension_at run j = (run ! j = CHR ''.'' \<and> list_ex (starts_with (lower (drop (Suc j) run))) FILE_EXTENSIONS)"

definition file_hints :: "string \<Rightarrow> nat" where
  "file_hints text = length (filter (\<lambda>run. list_ex (extension_at run) [1..<length run]) (path_runs [] text))"

section \<open>\<open>classify\<close>\<close>

text \<open>The keyword lists of the configuration; an absent list is empty.\<close>

record keyword_lists =
  kw_high :: "string list"
  kw_full :: "string list"
  kw_answer :: "string list"
  kw_small :: "string list"
  kw_structural :: "string list"

definition route ::
  "lane \<Rightarrow> risk \<Rightarrow> string list \<Rightarrow> bool \<Rightarrow> rat \<Rightarrow> route_decision" where
  "route l r reasons structural confidence =
     \<lparr>rd_lane = l, rd_risk = r, rd_reasons = reasons, rd_structural = structural, rd_confidence = confidence\<rparr>"

record signals =
  sg_text :: string
  sg_high :: "string list"
  sg_full :: "string list"
  sg_answer :: "string list"
  sg_small :: "string list"
  sg_structural :: bool
  sg_hints :: nat
  sg_change :: bool
  sg_question :: bool

definition signals_of :: "string \<Rightarrow> keyword_lists \<Rightarrow> signals" where
  "signals_of task kw =
     (let text = join '' '' (split_ws (strip task));
          answer = contains_any (lower text) (kw_answer kw)
      in \<lparr>sg_text = text,
          sg_high = contains_any (lower text) (kw_high kw),
          sg_full = contains_any (lower text) (kw_full kw),
          sg_answer = answer,
          sg_small = contains_any (lower text) (kw_small kw),
          sg_structural = contains_any (lower text) (kw_structural kw) \<noteq> [],
          sg_hints = file_hints text,
          sg_change = search_any CHANGE_WORDS text,
          sg_question = (search_any QUESTION_WORDS text \<or> ends_with text ''?'' \<or> answer \<noteq> [])\<rparr>)"

definition small_change :: "signals \<Rightarrow> bool" where
  "small_change g = (1 \<le> sg_hints g \<and> sg_hints g \<le> 2 \<and> (sg_small g \<noteq> [] \<or> length (split_ws (sg_text g)) \<le> 22))"

definition classify :: "string \<Rightarrow> keyword_lists \<Rightarrow> route_decision" where
  "classify task kw =
     (let g = signals_of task kw in
      if sg_question g \<and> \<not> sg_change g \<and> \<not> sg_structural g
      then route Answer Low [''read-only question/explanation''] False (if sg_answer g \<noteq> [] then 96/100 else 88/100)
      else if sg_high g \<noteq> []
      then route Full High [''high-risk change keyword: '' @ join '', '' (take 3 (sg_high g))] (sg_structural g) (99/100)
      else if sg_full g \<noteq> [] \<or> sg_structural g
      then route Full Medium
        ((if sg_full g \<noteq> [] then [''full-lane signal: '' @ join '', '' (take 3 (sg_full g))] else [])
         @ (if sg_structural g then [''multi-hop/structural context requested''] else []))
        (sg_structural g) (if sg_structural g then 94/100 else 9/10)
      else if sg_change g
      then (if small_change g
            then route Small Low [''bounded low-complexity edit'',
                ''explicit file scope: '' @ nat_dec (sg_hints g) @ '' file(s)''] False
                (if sg_small g \<noteq> [] then 9/10 else 82/100)
            else route Full Medium [''implementation scope not safely bounded''] False (78/100))
      else route Full Medium [''ambiguous task defaults to safe full-lane planning''] False (62/100))"

text \<open>What each lane and each risk needs.\<close>

lemma classify_lane:
  assumes "g = signals_of task kw"
  shows "rd_lane (classify task kw) = Answer \<longleftrightarrow> sg_question g \<and> \<not> sg_change g \<and> \<not> sg_structural g"
    and "rd_lane (classify task kw) = Small \<longleftrightarrow> sg_change g \<and> small_change g
      \<and> sg_high g = [] \<and> sg_full g = [] \<and> \<not> sg_structural g"
    and "rd_risk (classify task kw) = High \<longleftrightarrow> sg_high g \<noteq> [] \<and> rd_lane (classify task kw) \<noteq> Answer"
    and "rd_risk (classify task kw) = Low \<longleftrightarrow> rd_lane (classify task kw) \<noteq> Full"
    and "0 < rd_confidence (classify task kw) \<and> rd_confidence (classify task kw) < 1"
  by (auto simp: classify_def assms route_def Let_def)

section \<open>Context budgets\<close>

record context_budget =
  cb_estimated_tokens :: int
  cb_output_tokens :: int
  cb_context_chars :: int
  cb_source_chars :: "int dict"

text \<open>\<open>config["budgets"][lane]\<close> and \<open>config["context"]["source_shares"]\<close> as the arguments \<open>raw\<close> and
  \<open>shares\<close>; a missing key raises.\<close>

definition required :: "json dict \<Rightarrow> string \<Rightarrow> json result" where
  "required d k = (case dget d k of Some v \<Rightarrow> Inr v | None \<Rightarrow> Inl (KeyError k))"

definition source_share :: "runtime \<Rightarrow> int \<Rightarrow> string \<times> json \<Rightarrow> (string \<times> int) result" where
  "source_share rt context_chars s = rbind (to_float rt (snd s)) (\<lambda>share.
     rbind (to_int (JFloat (fl_mul (Fin (of_int context_chars)) share))) (\<lambda>n. Inr (fst s, max 160 n)))"

definition budget_for :: "runtime \<Rightarrow> json dict \<Rightarrow> json dict \<Rightarrow> context_budget result" where
  "budget_for rt raw shares =
     rbind (required raw ''estimated_tokens'') (\<lambda>e. rbind (to_int e) (\<lambda>total.
     let context_chars = total * 4 in
     rbind (rmap (source_share rt context_chars) shares) (\<lambda>source_chars.
     rbind (required raw ''output_tokens'') (\<lambda>out. rbind (to_int out) (\<lambda>output_tokens.
       Inr \<lparr>cb_estimated_tokens = total, cb_output_tokens = output_tokens, cb_context_chars = context_chars,
         cb_source_chars = source_chars\<rparr>)))))"

text \<open>Slices \<open>s[:n]\<close> and \<open>s[-n:]\<close>.\<close>

definition slice_to :: "'a list \<Rightarrow> int \<Rightarrow> 'a list" where
  "slice_to s n = (if 0 \<le> n then take (nat n) s else take (length s - nat (- n)) s)"

definition slice_last :: "string \<Rightarrow> int \<Rightarrow> string" where
  "slice_last s n = (if 0 < n then drop (length s - nat n) s else drop (nat (- n)) s)"

definition truncation_mark :: string where
  "truncation_mark = [CHR 0x0A] @ ''... [TRUNCATED] ...'' @ [CHR 0x0A]"

definition truncate_text :: "string \<Rightarrow> int \<Rightarrow> string \<times> bool" where
  "truncate_text text max_chars =
     (if int (length text) \<le> max_chars then (text, False)
      else if max_chars < 80 then (slice_to text max_chars, True)
      else let tail = min 220 (max_chars div 5); head = max_chars - tail - 40
        in (rstrip (slice_to text head) @ truncation_mark @ lstrip (slice_last text tail), True))"

lemma length_rstrip: "length (rstrip s) \<le> length s"
  using length_dropWhile_le [of is_space "rev s"] by (simp add: rstrip_def)

lemma length_lstrip: "length (lstrip s) \<le> length s"
  by (simp add: lstrip_def length_dropWhile_le)

lemma truncate_text_bound:
  assumes "0 \<le> max_chars"
  shows "int (length (fst (truncate_text text max_chars))) \<le> max_chars"
proof (cases "int (length text) \<le> max_chars \<or> max_chars < 80")
  case True
  then show ?thesis using assms by (auto simp: truncate_text_def slice_to_def)
next
  case False
  define tail where "tail = min 220 (max_chars div 5)"
  define hd_chars where "hd_chars = max_chars - tail - 40"
  have t: "0 < tail" "0 \<le> hd_chars" using False by (auto simp: tail_def hd_chars_def)
  have "int (length (slice_to text hd_chars)) \<le> hd_chars" using t by (simp add: slice_to_def)
  moreover have "int (length (slice_last text tail)) \<le> tail" using t by (simp add: slice_last_def)
  moreover have "length truncation_mark = 21" by (simp add: truncation_mark_def)
  ultimately show ?thesis
    using False length_rstrip [of "slice_to text hd_chars"] length_lstrip [of "slice_last text tail"]
    by (simp add: truncate_text_def Let_def tail_def [symmetric] hd_chars_def [symmetric]) (simp add: hd_chars_def)
qed

section \<open>The orchestration contract\<close>

record provider_status =
  pv_superpowers :: bool
  pv_code_review_graph :: bool
  pv_rtk :: bool
  pv_ripgrep :: bool
  pv_semantic :: bool
  pv_scip :: bool

record complexity =
  cx_lane_weight :: int
  cx_risk_weight :: int
  cx_changed_files :: int
  cx_workspace_roots :: int
  cx_structural :: bool
  cx_evidence_gap :: bool

record orchestration_budget =
  ob_agent_slots :: int
  ob_crg_calls :: int
  ob_graph_depth :: int
  ob_review_passes :: int
  ob_verification_passes :: int

record contract =
  oc_complexity :: complexity
  oc_score :: int
  oc_skills :: "string list"
  oc_crg_plan :: "string list"
  oc_agent_slots :: int
  oc_review_passes :: int
  oc_verification_passes :: int
  oc_graph_depth :: int
  oc_budget :: orchestration_budget
  oc_native_fallback :: bool

definition budget_entry :: "json dict \<Rightarrow> string \<Rightarrow> int \<Rightarrow> int \<Rightarrow> int result" where
  "budget_entry raw k least dflt = rbind (to_int (jget_or raw k (JInt dflt))) (\<lambda>n. Inr (max least n))"

definition orchestration_budget_of :: "json dict \<Rightarrow> orchestration_budget result" where
  "orchestration_budget_of config =
     rbind (or_empty (jget config ''execution'')) (\<lambda>execution.
     rbind (or_empty (jget execution ''orchestration_budget'')) (\<lambda>raw.
     rbind (budget_entry raw ''max_agent_slots'' 1 4) (\<lambda>slots.
     rbind (budget_entry raw ''max_crg_calls'' 0 6) (\<lambda>calls.
     rbind (budget_entry raw ''max_graph_depth'' 1 3) (\<lambda>depth.
     rbind (budget_entry raw ''review_passes'' 1 2) (\<lambda>reviews.
     rbind (budget_entry raw ''verification_passes'' 1 2) (\<lambda>verifications.
       Inr \<lparr>ob_agent_slots = slots, ob_crg_calls = calls, ob_graph_depth = depth, ob_review_passes = reviews,
         ob_verification_passes = verifications\<rparr>)))))))"

definition sufficient_evidence :: "json dict \<Rightarrow> bool result" where
  "sufficient_evidence diagnostics =
     rbind (or_empty (jget diagnostics ''sufficiency'')) (\<lambda>s.
     let raw_sufficient = truthy (jget_or s ''sufficient'' (JBool False)) in
     rbind (or_empty (jget diagnostics ''selective_retrieval'')) (\<lambda>selective.
     let enabled = truthy (jget_or selective ''enabled'' (JBool False));
         accept = truthy (jget_or selective ''accept'' (JBool True))
     in Inr (raw_sufficient \<and> (accept \<or> \<not> enabled))))"

definition one_if :: "bool \<Rightarrow> int" where
  "one_if b = (if b then 1 else 0)"

definition complexity_of ::
  "route_decision \<Rightarrow> string \<Rightarrow> bool \<Rightarrow> nat \<Rightarrow> int \<Rightarrow> complexity" where
  "complexity_of decision intent sufficient changed_files workspace_count =
     \<lparr>cx_lane_weight = lane_weight (rd_lane decision), cx_risk_weight = risk_weight (rd_risk decision),
      cx_changed_files = int changed_files, cx_workspace_roots = max 1 workspace_count,
      cx_structural = (intent = ''structural'' \<or> rd_structural decision), cx_evidence_gap = (\<not> sufficient)\<rparr>"

definition complexity_score :: "complexity \<Rightarrow> int" where
  "complexity_score c = cx_lane_weight c * 2 + cx_risk_weight c * 2 + min 4 (cx_changed_files c)
     + min 2 (cx_workspace_roots c - 1) + 2 * one_if (cx_structural c) + 2 * one_if (cx_evidence_gap c)"

text \<open>Slots, skills, review passes and verification passes of a lane.\<close>

definition lane_plan ::
  "route_decision \<Rightarrow> provider_status \<Rightarrow> complexity \<Rightarrow> int \<Rightarrow> orchestration_budget \<Rightarrow> int \<times> string list \<times> int \<times> int" where
  "lane_plan decision providers c score b = (case rd_lane decision of
     Answer \<Rightarrow> (1, [], 1, 1)
   | Small \<Rightarrow> (1, if pv_superpowers providers then [''test-driven-development'', ''verification-before-completion''] else [], 1, 1)
   | Full \<Rightarrow> (min (ob_agent_slots b) (2 + one_if (8 \<le> score) + one_if (12 \<le> score)),
        if pv_superpowers providers
        then [''writing-plans'', ''subagent-driven-development'', ''requesting-code-review'', ''verification-before-completion'']
        else [],
        min (ob_review_passes b) (1 + one_if (rd_risk decision = High \<or> 10 \<le> score)),
        min (ob_verification_passes b) (1 + one_if (rd_risk decision = High \<or> cx_evidence_gap c))))"

definition crg_plan_of :: "route_decision \<Rightarrow> provider_status \<Rightarrow> complexity \<Rightarrow> orchestration_budget \<Rightarrow> string list" where
  "crg_plan_of decision providers c b =
     (if pv_code_review_graph providers \<and> rd_lane decision \<noteq> Answer
      then take (nat (ob_crg_calls b)) ([''get_minimal_context_tool'']
        @ (if cx_structural c \<or> 2 \<le> cx_changed_files c then [''get_impact_radius_tool''] else [])
        @ (if cx_structural c then [''query_graph_tool''] else [])
        @ [''get_review_context_tool''])
      else [])"

definition build_orchestration_contract ::
  "runtime \<Rightarrow> route_decision \<Rightarrow> json dict \<Rightarrow> string list \<Rightarrow> int \<Rightarrow> provider_status \<Rightarrow> json dict \<Rightarrow> contract result" where
  "build_orchestration_contract rt decision diagnostics changed_files workspace_count providers config =
     (let intent = py_str rt (jget_or diagnostics ''retrieval_intent'' (JStr ''unknown'')) in
      rbind (sufficient_evidence diagnostics) (\<lambda>sufficient.
      let c = complexity_of decision intent sufficient (length changed_files) workspace_count;
          score = complexity_score c in
      rbind (orchestration_budget_of config) (\<lambda>b.
      let (slots, skills, reviews, verifications) = lane_plan decision providers c score b in
      Inr \<lparr>oc_complexity = c, oc_score = score, oc_skills = skills, oc_crg_plan = crg_plan_of decision providers c b,
        oc_agent_slots = min slots (ob_agent_slots b),
        oc_review_passes = min reviews (ob_review_passes b),
        oc_verification_passes = min verifications (ob_verification_passes b),
        oc_graph_depth = min (1 + one_if (8 \<le> score) + one_if (12 \<le> score)) (ob_graph_depth b),
        oc_budget = b,
        oc_native_fallback = (rd_lane decision \<noteq> Answer \<and> \<not> pv_superpowers providers)\<rparr>)))"

text \<open>The contract as the dictionary the code returns.\<close>

definition budget_json :: "orchestration_budget \<Rightarrow> json dict" where
  "budget_json b = [(''max_agent_slots'', JInt (ob_agent_slots b)), (''max_crg_calls'', JInt (ob_crg_calls b)),
     (''max_graph_depth'', JInt (ob_graph_depth b)), (''review_passes'', JInt (ob_review_passes b)),
     (''verification_passes'', JInt (ob_verification_passes b))]"

definition complexity_json :: "complexity \<Rightarrow> json dict" where
  "complexity_json c = [(''lane_weight'', JInt (cx_lane_weight c)), (''risk_weight'', JInt (cx_risk_weight c)),
     (''changed_file_count'', JInt (cx_changed_files c)), (''workspace_root_count'', JInt (cx_workspace_roots c)),
     (''structural_intent'', JBool (cx_structural c)), (''evidence_gap'', JBool (cx_evidence_gap c))]"

definition contract_json :: "contract \<Rightarrow> json dict" where
  "contract_json ct = [(''complexity_vector'', JDict (complexity_json (oc_complexity ct))),
     (''complexity_score'', JInt (oc_score ct)),
     (''superpowers_skills'', JList (map JStr (oc_skills ct))),
     (''crg_plan'', JList (map JStr (oc_crg_plan ct))),
     (''agent_slots'', JInt (oc_agent_slots ct)),
     (''review_passes'', JInt (oc_review_passes ct)),
     (''verification_passes'', JInt (oc_verification_passes ct)),
     (''graph_depth'', JInt (oc_graph_depth ct)),
     (''budget'', JDict (budget_json (oc_budget ct))),
     (''native_fallback'', JBool (oc_native_fallback ct))]"

section \<open>Bounds of the contract\<close>

lemma budget_entry_least: "budget_entry raw k least dflt = Inr n \<Longrightarrow> least \<le> n"
  by (auto simp: budget_entry_def rbind_Inr_iff)

lemma orchestration_budget_positive:
  "orchestration_budget_of config = Inr b \<Longrightarrow> 1 \<le> ob_agent_slots b \<and> 0 \<le> ob_crg_calls b \<and> 1 \<le> ob_graph_depth b
     \<and> 1 \<le> ob_review_passes b \<and> 1 \<le> ob_verification_passes b"
  by (auto simp: orchestration_budget_of_def rbind_Inr_iff dest!: budget_entry_least)

lemma lane_weight_bounds: "0 \<le> lane_weight l \<and> lane_weight l \<le> 2"
  by (cases l) (simp_all add: lane_weight_def)

lemma risk_weight_bounds: "0 \<le> risk_weight r \<and> risk_weight r \<le> 2"
  by (cases r) (simp_all add: risk_weight_def)

lemma one_if_bounds: "0 \<le> one_if b \<and> one_if b \<le> 1"
  by (simp add: one_if_def)

lemma complexity_score_bounds:
  "0 \<le> complexity_score (complexity_of decision intent sufficient n w) \<and> complexity_score (complexity_of decision intent sufficient n w) \<le> 18"
proof -
  let ?c = "complexity_of decision intent sufficient n w"
  have "0 \<le> min 4 (cx_changed_files ?c)" "min 4 (cx_changed_files ?c) \<le> 4"
    "0 \<le> min 2 (cx_workspace_roots ?c - 1)" "min 2 (cx_workspace_roots ?c - 1) \<le> 2"
    "cx_lane_weight ?c = lane_weight (rd_lane decision)" "cx_risk_weight ?c = risk_weight (rd_risk decision)"
    by (simp_all add: complexity_of_def)
  then show ?thesis
    using lane_weight_bounds [of "rd_lane decision"] risk_weight_bounds [of "rd_risk decision"]
      one_if_bounds [of "cx_structural ?c"] one_if_bounds [of "cx_evidence_gap ?c"]
    unfolding complexity_score_def by linarith
qed

lemma contract_within_budget:
  assumes "build_orchestration_contract rt decision diagnostics changed roots providers config = Inr ct"
  shows "1 \<le> oc_agent_slots ct \<and> oc_agent_slots ct \<le> ob_agent_slots (oc_budget ct) \<and> oc_agent_slots ct \<le> 4
    \<and> 1 \<le> oc_graph_depth ct \<and> oc_graph_depth ct \<le> ob_graph_depth (oc_budget ct) \<and> oc_graph_depth ct \<le> 3
    \<and> 1 \<le> oc_review_passes ct \<and> oc_review_passes ct \<le> ob_review_passes (oc_budget ct)
    \<and> 1 \<le> oc_verification_passes ct \<and> oc_verification_passes ct \<le> ob_verification_passes (oc_budget ct)
    \<and> int (length (oc_crg_plan ct)) \<le> ob_crg_calls (oc_budget ct) \<and> length (oc_crg_plan ct) \<le> 4
    \<and> 0 \<le> oc_score ct \<and> oc_score ct \<le> 18
    \<and> (rd_lane decision = Full \<or> oc_agent_slots ct = 1) \<and> (rd_lane decision \<noteq> Answer \<or> oc_crg_plan ct = [])"
proof -
  let ?c = "\<lambda>sufficient. complexity_of decision (py_str rt (jget_or diagnostics ''retrieval_intent'' (JStr ''unknown'')))
    sufficient (length changed) roots"
  obtain sufficient b where b: "orchestration_budget_of config = Inr b"
    and eq: "(let (slots, skills, reviews, verifications) = lane_plan decision providers (?c sufficient) (complexity_score (?c sufficient)) b in
      Inr \<lparr>oc_complexity = ?c sufficient, oc_score = complexity_score (?c sufficient), oc_skills = skills,
        oc_crg_plan = crg_plan_of decision providers (?c sufficient) b,
        oc_agent_slots = min slots (ob_agent_slots b),
        oc_review_passes = min reviews (ob_review_passes b),
        oc_verification_passes = min verifications (ob_verification_passes b),
        oc_graph_depth = min (1 + one_if (8 \<le> complexity_score (?c sufficient)) + one_if (12 \<le> complexity_score (?c sufficient)))
          (ob_graph_depth b),
        oc_budget = b,
        oc_native_fallback = (rd_lane decision \<noteq> Answer \<and> \<not> pv_superpowers providers)\<rparr>) = (Inr ct :: contract result)"
    using assms unfolding build_orchestration_contract_def Let_def rbind_Inr_iff by blast
  obtain slots skills reviews verifications
    where lp: "lane_plan decision providers (?c sufficient) (complexity_score (?c sufficient)) b = (slots, skills, reviews, verifications)"
    by (metis surj_pair)
  have fields: "oc_agent_slots ct = min slots (ob_agent_slots b)" "oc_review_passes ct = min reviews (ob_review_passes b)"
      "oc_verification_passes ct = min verifications (ob_verification_passes b)" "oc_budget ct = b"
      "oc_graph_depth ct = min (1 + one_if (8 \<le> oc_score ct) + one_if (12 \<le> oc_score ct)) (ob_graph_depth b)"
      "oc_score ct = complexity_score (?c sufficient)" "oc_crg_plan ct = crg_plan_of decision providers (?c sufficient) b"
    using eq unfolding lp by auto
  note pos = orchestration_budget_positive [OF b]
  have sc: "0 \<le> oc_score ct" "oc_score ct \<le> 18" using complexity_score_bounds by (simp_all add: fields(6))
  have plan: "int (length (oc_crg_plan ct)) \<le> ob_crg_calls b" "length (oc_crg_plan ct) \<le> 4"
    using pos by (auto simp: crg_plan_of_def fields(7))
  have lane: "1 \<le> slots" "slots \<le> 4" "1 \<le> reviews" "1 \<le> verifications" "rd_lane decision = Full \<or> slots = 1"
    using lp pos one_if_bounds by (auto simp: lane_plan_def one_if_def split: lane.splits if_splits)
  have empty: "rd_lane decision = Answer \<Longrightarrow> oc_crg_plan ct = []" by (simp add: fields(7) crg_plan_of_def)
  have depth: "1 \<le> oc_graph_depth ct" "oc_graph_depth ct \<le> 3" "oc_graph_depth ct \<le> ob_graph_depth b"
    using pos by (auto simp: fields(5) one_if_def)
  show ?thesis
    using pos sc plan lane empty depth by (auto simp: fields)
qed

end
