(* ===== verification/Scheduler.thy ===== *)
theory Scheduler
  imports PyText Domain "HOL-Library.Product_Lexorder"
begin

text \<open>
  \<open>retrieval_scheduler.py\<close>: retrieval calls on a bounded pool of threads under one deadline, and the
  provider results of \<open>retrieval_contracts.py\<close>.  Time starts at 0 when \<open>run\<close> is entered; what a
  call does is an argument: it returns or raises after some time, or hangs.  The pool serves the calls first
  in, first out; a call that is still queued at the deadline is cancelled, one that runs keeps its thread.
\<close>

section \<open>Requests and results\<close>

record retrieval_request =
  rx_query :: string
  rx_root :: string
  rx_limit :: int
  rx_intent :: string
  rx_timeout :: pyfloat
  rx_changed_files :: "string list"
  rx_metadata :: "json dict"

definition check_request :: "retrieval_request \<Rightarrow> retrieval_request result" where
  "check_request r =
     guard_that (strip (rx_query r) \<noteq> []) (ValueError ''retrieval query must not be blank'')
     (guard_that (1 \<le> rx_limit r) (ValueError ''retrieval limit must be >= 1'')
     (guard_that (fl_finite (rx_timeout r) \<and> fl_lt (Fin 0) (rx_timeout r))
       (ValueError ''retrieval timeout_seconds must be finite and > 0'')
     (Inr r)))"

record provider_result =
  pr_provider :: string
  pr_items :: "context_item list"
  pr_latency_ms :: pyfloat
  pr_error :: "string option"
  pr_error_kind :: "string option"
  pr_timed_out :: bool
  pr_output_limited :: bool
  pr_returncode :: "int option"
  pr_stderr_tail :: "string option"
  pr_stderr_truncated :: bool
  pr_sandboxed :: bool
  pr_sandbox_backend :: "string option"
  pr_sandbox_mode :: string
  pr_sandbox_network :: string
  pr_limits_enforced :: bool
  pr_fallback_reason :: "string option"

definition result_ok :: "provider_result \<Rightarrow> bool" where
  "result_ok r = (pr_error r = None)"

definition error_dict :: "provider_result \<Rightarrow> json dict option" where
  "error_dict r = (case pr_error r of None \<Rightarrow> None
   | Some e \<Rightarrow> Some [
       (''kind'', JStr (case pr_error_kind r of None \<Rightarrow> ''provider_error'' | Some k \<Rightarrow> if k = [] then ''provider_error'' else k)),
       (''message'', JStr e), (''timed_out'', JBool (pr_timed_out r)),
       (''output_limited'', JBool (pr_output_limited r)),
       (''returncode'', case pr_returncode r of None \<Rightarrow> JNull | Some n \<Rightarrow> JInt n),
       (''stderr_tail'', opt_str (pr_stderr_tail r)), (''stderr_truncated'', JBool (pr_stderr_truncated r)),
       (''sandboxed'', JBool (pr_sandboxed r)), (''sandbox_backend'', opt_str (pr_sandbox_backend r)),
       (''sandbox_mode'', JStr (pr_sandbox_mode r)), (''sandbox_network'', JStr (pr_sandbox_network r)),
       (''resource_limits_enforced'', JBool (pr_limits_enforced r)),
       (''sandbox_fallback_reason'', opt_str (pr_fallback_reason r))])"

section \<open>Outcomes\<close>

record 'v outcome =
  ou_label :: string
  ou_value :: "'v option"
  ou_latency_ms :: rat
  ou_error :: "string option"
  ou_error_kind :: "string option"
  ou_timed_out :: bool

definition outcome_ok :: "'v outcome \<Rightarrow> bool" where
  "outcome_ok oc = (ou_error oc = None \<and> \<not> ou_timed_out oc)"

text \<open>What the function of a call does: its duration with its value, or with the type and the text of the
  exception; \<open>TimesOut\<close>: the exception is a \<open>TimeoutError\<close> of the call itself.\<close>

datatype 'v behaviour = Returns rat 'v | Raises rat string string | TimesOut rat | Hangs

fun duration :: "'v behaviour \<Rightarrow> rat option" where
  "duration (Returns d _) = Some d"
| "duration (Raises d _ _) = Some d"
| "duration (TimesOut d) = Some d"
| "duration Hangs = None"

section \<open>The pool\<close>

text \<open>When each thread is free next; \<open>None\<close>: never again.\<close>

type_synonym pool = "rat option list"

definition free_order :: "rat option \<Rightarrow> nat \<times> rat" where
  "free_order t = (case t of None \<Rightarrow> (1, 0) | Some r \<Rightarrow> (0, r))"

definition next_worker :: "pool \<Rightarrow> nat" where
  "next_worker ws = hd (sort_key (\<lambda>i. free_order (ws ! i)) [0..<length ws])"

record job =
  jo_worker :: nat
  jo_start :: rat
  jo_finish :: "rat option"

fun assign_jobs :: "rat \<Rightarrow> pool \<Rightarrow> 'v behaviour list \<Rightarrow> job option list" where
  "assign_jobs deadline ws [] = []"
| "assign_jobs deadline ws (b # bs) =
     (let w = next_worker ws in
      case ws ! w of
        None \<Rightarrow> None # assign_jobs deadline ws bs
      | Some start \<Rightarrow>
          (if deadline \<le> start then None # assign_jobs deadline ws bs
           else let finish = map_option (\<lambda>d. start + d) (duration b)
             in Some \<lparr>jo_worker = w, jo_start = start, jo_finish = finish\<rparr>
                # assign_jobs deadline (ws[w := finish]) bs))"

definition deadline_outcome :: "(rat \<Rightarrow> string) \<Rightarrow> rat \<Rightarrow> rat \<Rightarrow> string \<Rightarrow> 'v outcome" where
  "deadline_outcome fmt_g deadline latency label =
     \<lparr>ou_label = label, ou_value = None, ou_latency_ms = latency,
      ou_error = Some (''global retrieval deadline exceeded after '' @ fmt_g deadline @ '' seconds''),
      ou_error_kind = Some ''deadline'', ou_timed_out = True\<rparr>"

text \<open>A \<open>TimeoutError\<close> of the call is not told from that of \<open>wait_for\<close>.\<close>

definition finished_outcome :: "(rat \<Rightarrow> string) \<Rightarrow> rat \<Rightarrow> string \<Rightarrow> rat \<Rightarrow> 'v behaviour \<Rightarrow> 'v outcome" where
  "finished_outcome fmt_g deadline label finish b = (case b of
     Returns _ v \<Rightarrow> \<lparr>ou_label = label, ou_value = Some v, ou_latency_ms = finish * 1000,
       ou_error = None, ou_error_kind = None, ou_timed_out = False\<rparr>
   | Raises _ kind msg \<Rightarrow> \<lparr>ou_label = label, ou_value = None, ou_latency_ms = finish * 1000,
       ou_error = Some (kind @ '': '' @ msg), ou_error_kind = Some ''exception'', ou_timed_out = False\<rparr>
   | _ \<Rightarrow> deadline_outcome fmt_g deadline (finish * 1000) label)"

definition outcome_for :: "(rat \<Rightarrow> string) \<Rightarrow> rat \<Rightarrow> string \<times> 'v behaviour \<Rightarrow> job option \<Rightarrow> 'v outcome" where
  "outcome_for fmt_g deadline call j =
     (case j of
        None \<Rightarrow> deadline_outcome fmt_g deadline (deadline * 1000) (fst call)
      | Some jb \<Rightarrow> (case jo_finish jb of
          Some finish \<Rightarrow> (if finish < deadline then finished_outcome fmt_g deadline (fst call) finish (snd call)
            else deadline_outcome fmt_g deadline (deadline * 1000) (fst call))
        | None \<Rightarrow> deadline_outcome fmt_g deadline (deadline * 1000) (fst call)))"

definition new_scheduler :: "int \<Rightarrow> nat result" where
  "new_scheduler max_concurrency =
     guard_that (1 \<le> max_concurrency) (ValueError ''max_concurrency must be >= 1'') (Inr (nat max_concurrency))"

definition run_calls :: "(rat \<Rightarrow> string) \<Rightarrow> nat \<Rightarrow> (string \<times> 'v behaviour) list \<Rightarrow> rat \<Rightarrow> 'v outcome list result" where
  "run_calls fmt_g max_concurrency calls deadline =
     guard_that (0 < deadline) (ValueError ''deadline_seconds must be > 0'')
     (if calls = [] then Inr []
      else Inr (map2 (outcome_for fmt_g deadline) calls
        (assign_jobs deadline (replicate max_concurrency (Some 0)) (map snd calls))))"

section \<open>The pool is bounded\<close>

lemma length_assign_jobs [simp]: "length (assign_jobs deadline ws bs) = length bs"
  by (induction deadline ws bs rule: assign_jobs.induct) (auto simp: Let_def split: option.splits)

lemma next_worker_less: "ws \<noteq> [] \<Longrightarrow> next_worker ws < length ws"
proof -
  assume "ws \<noteq> []"
  have "length (sort_key (\<lambda>i. free_order (ws ! i)) [0..<length ws]) = length ws" by simp
  with \<open>ws \<noteq> []\<close> have "sort_key (\<lambda>i. free_order (ws ! i)) [0..<length ws] \<noteq> []" by (metis length_0_conv)
  then have "next_worker ws \<in> set (sort_key (\<lambda>i. free_order (ws ! i)) [0..<length ws])"
    unfolding next_worker_def by (rule hd_in_set)
  then show ?thesis by simp
qed

text \<open>A job runs on its thread from its start to its finish, if it finishes.\<close>

definition runs_at :: "rat \<Rightarrow> job \<Rightarrow> bool" where
  "runs_at t j = (jo_start j \<le> t \<and> (case jo_finish j of None \<Rightarrow> True | Some f \<Rightarrow> t < f))"

text \<open>A later job of a thread starts when the thread is free again.\<close>

definition free_from :: "pool \<Rightarrow> job \<Rightarrow> bool" where
  "free_from ws j = (jo_worker j < length ws
     \<and> (case ws ! jo_worker j of None \<Rightarrow> False | Some f \<Rightarrow> f \<le> jo_start j))"

lemma assigned_free_from:
  assumes "ws \<noteq> []" "\<forall>b \<in> set bs. \<forall>d. duration b = Some d \<longrightarrow> 0 \<le> d" "Some j \<in> set (assign_jobs deadline ws bs)"
  shows "free_from ws j \<and> jo_start j < deadline"
  using assms
proof (induction deadline ws bs rule: assign_jobs.induct)
  case (2 deadline ws b bs)
  let ?w = "next_worker ws"
  have w: "?w < length ws" by (rule next_worker_less [OF "2.prems"(1)])
  show ?case
  proof (cases "ws ! ?w")
    case None
    then show ?thesis using 2 by (simp add: Let_def)
  next
    case (Some start)
    show ?thesis
    proof (cases "deadline \<le> start")
      case True
      then show ?thesis using 2 Some by (simp add: Let_def)
    next
      case False
      let ?f = "map_option (\<lambda>d. start + d) (duration b)"
      have "j = \<lparr>jo_worker = ?w, jo_start = start, jo_finish = ?f\<rparr> \<or> Some j \<in> set (assign_jobs deadline (ws[?w := ?f]) bs)"
        using "2.prems"(3) Some False by (auto simp: Let_def)
      then show ?thesis
      proof
        assume "j = \<lparr>jo_worker = ?w, jo_start = start, jo_finish = ?f\<rparr>"
        then show ?thesis using w Some False by (simp add: free_from_def)
      next
        assume "Some j \<in> set (assign_jobs deadline (ws[?w := ?f]) bs)"
        moreover have "ws[?w := ?f] \<noteq> []" using 2 by simp
        ultimately have j: "free_from (ws[?w := ?f]) j \<and> jo_start j < deadline"
          using 2(3) [OF refl Some False refl] "2.prems"(2) by simp
        show ?thesis
        proof (cases "jo_worker j = ?w")
          case True
          then obtain f where "?f = Some f" "f \<le> jo_start j" using j w by (auto simp: free_from_def split: option.splits)
          moreover have "start \<le> f" using "2.prems"(2) \<open>?f = Some f\<close> by (cases "duration b") auto
          ultimately have "start \<le> jo_start j" by simp
          then show ?thesis using True Some w j by (simp add: free_from_def)
        next
          case False
          then show ?thesis using j by (simp add: free_from_def)
        qed
      qed
    qed
  qed
qed simp

lemma one_job_per_worker:
  assumes "ws \<noteq> []" "\<forall>b \<in> set bs. \<forall>d. duration b = Some d \<longrightarrow> 0 \<le> d"
    and "i < k" "k < length bs"
    and "assign_jobs deadline ws bs ! i = Some j" "assign_jobs deadline ws bs ! k = Some j'"
    and "runs_at t j" "runs_at t j'"
  shows "jo_worker j \<noteq> jo_worker j'"
  using assms
proof (induction deadline ws bs arbitrary: i k rule: assign_jobs.induct)
  case (2 deadline ws b bs)
  let ?w = "next_worker ws"
  have w: "?w < length ws" by (rule next_worker_less [OF "2.prems"(1)])
  obtain k' where k: "k = Suc k'" "k' < length bs" using 2 by (cases k) auto
  show ?case
  proof (cases "\<exists>start. ws ! ?w = Some start \<and> \<not> deadline \<le> start")
    case False
    then have eq: "assign_jobs deadline ws (b # bs) = None # assign_jobs deadline ws bs"
      by (auto simp: Let_def split: option.splits)
    then obtain i' where i: "i = Suc i'" using 2 by (cases i) auto
    show ?thesis
    proof (cases "ws ! ?w")
      case None
      show ?thesis using 2(1) [OF refl None, of i' k'] 2(4-) i k eq by simp
    next
      case (Some start)
      show ?thesis using 2(2) [OF refl Some, of i' k'] 2(4-) i k eq False Some by simp
    qed
  next
    case True
    then obtain start where st: "ws ! ?w = Some start" "\<not> deadline \<le> start" by blast
    let ?f = "map_option (\<lambda>d. start + d) (duration b)"
    have eq: "assign_jobs deadline ws (b # bs)
        = Some \<lparr>jo_worker = ?w, jo_start = start, jo_finish = ?f\<rparr> # assign_jobs deadline (ws[?w := ?f]) bs"
      using st by (simp add: Let_def)
    have ne: "ws[?w := ?f] \<noteq> []" "\<forall>b \<in> set bs. \<forall>d. duration b = Some d \<longrightarrow> 0 \<le> d" using 2 by auto
    show ?thesis
    proof (cases i)
      case 0
      then have j: "j = \<lparr>jo_worker = ?w, jo_start = start, jo_finish = ?f\<rparr>" using "2.prems" eq by simp
      have "Some j' \<in> set (assign_jobs deadline (ws[?w := ?f]) bs)"
        using "2.prems" eq k by (metis length_assign_jobs nth_Cons_Suc nth_mem)
      from assigned_free_from [OF ne this] have fr: "free_from (ws[?w := ?f]) j'" by blast
      show ?thesis
      proof
        assume same: "jo_worker j = jo_worker j'"
        then obtain f where "?f = Some f" "f \<le> jo_start j'"
          using fr w j by (auto simp: free_from_def split: option.splits)
        then show False using "2.prems"(7,8) j by (auto simp: runs_at_def)
      qed
    next
      case (Suc i')
      show ?thesis using 2(3) [OF refl st refl ne, of i' k'] "2.prems" Suc k eq by simp
    qed
  qed
qed simp

text \<open>So at no time do more calls run than there are threads.\<close>

definition running :: "rat \<Rightarrow> job option list \<Rightarrow> nat set" where
  "running t js = {i. i < length js \<and> (\<exists>j. js ! i = Some j \<and> runs_at t j)}"

lemma running_bounded:
  assumes "0 < n" "\<forall>b \<in> set bs. \<forall>d. duration b = Some d \<longrightarrow> 0 \<le> d"
  shows "card (running t (assign_jobs deadline (replicate n (Some 0)) bs)) \<le> n"
proof -
  let ?ws = "replicate n (Some (0::rat))"
  let ?js = "assign_jobs deadline ?ws bs"
  let ?worker = "\<lambda>i. jo_worker (the (?js ! i))"
  have ne: "?ws \<noteq> []" using assms(1) by simp
  have "inj_on ?worker (running t ?js)"
  proof (rule linorder_inj_onI')
    fix i k assume "i \<in> running t ?js" "k \<in> running t ?js" "i < k"
    then show "?worker i \<noteq> ?worker k"
      using one_job_per_worker [OF ne assms(2), of i k] by (auto simp: running_def)
  qed
  moreover have "?worker ` running t ?js \<subseteq> {..<n}"
  proof (rule image_subsetI)
    fix i assume "i \<in> running t ?js"
    then obtain j where "i < length bs" "?js ! i = Some j" by (auto simp: running_def)
    moreover from this have "Some j \<in> set ?js" by (metis length_assign_jobs nth_mem)
    ultimately show "?worker i \<in> {..<n}"
      using assigned_free_from [OF ne assms(2)] by (fastforce simp: free_from_def)
  qed
  ultimately show ?thesis by (metis card_lessThan card_image card_mono finite_lessThan)
qed

text \<open>Every call has one outcome, in the order of the calls.\<close>

lemma outcome_for_label [simp]: "ou_label (outcome_for fmt_g deadline call j) = fst call"
  by (auto simp: outcome_for_def deadline_outcome_def finished_outcome_def split: option.splits behaviour.splits)

lemma map_map2: "map f (map2 g xs ys) = map2 (\<lambda>x y. f (g x y)) xs ys"
  by (simp add: split_def)

lemma run_calls_labels:
  assumes "run_calls fmt_g n calls deadline = Inr outs"
  shows "map ou_label outs = map fst calls"
proof (cases "calls = []")
  case False
  then have "outs = map2 (outcome_for fmt_g deadline) calls
      (assign_jobs deadline (replicate n (Some 0)) (map snd calls))"
    using assms by (simp add: run_calls_def guard_that_Inr_iff)
  then show ?thesis by (auto intro: nth_equalityI)
qed (use assms in \<open>simp add: run_calls_def guard_that_Inr_iff\<close>)

text \<open>What becomes of a call.\<close>

lemma assigned_finish:
  assumes "i < length bs" "assign_jobs deadline ws bs ! i = Some j"
  shows "jo_finish j = map_option (\<lambda>d. jo_start j + d) (duration (bs ! i))"
  using assms
proof (induction deadline ws bs arbitrary: i rule: assign_jobs.induct)
  case (2 deadline ws b bs)
  then show ?case
    by (cases i) (auto simp: Let_def split: option.splits if_splits)
qed simp

text \<open>The call got a thread, at \<open>start\<close>, and was done before the deadline.\<close>

definition done_in_time :: "rat \<Rightarrow> 'v behaviour \<Rightarrow> job option \<Rightarrow> rat option" where
  "done_in_time deadline b j = (case (j, duration b) of
     (Some jb, Some d) \<Rightarrow> if jo_start jb + d < deadline then Some (jo_start jb + d) else None | _ \<Rightarrow> None)"

text \<open>A call that is done in time has its value or its exception, at the time it was done, except that a timeout of its own
  is reported as the deadline; any other call has the deadline, at the deadline.\<close>

definition outcome_of_call :: "rat \<Rightarrow> 'v behaviour \<Rightarrow> job option \<Rightarrow> 'v outcome \<Rightarrow> bool" where
  "outcome_of_call deadline b j oc =
     (let late = (\<not> outcome_ok oc \<and> ou_value oc = None \<and> ou_timed_out oc \<and> ou_error_kind oc = Some ''deadline'') in
      case done_in_time deadline b j of
        None \<Rightarrow> late \<and> ou_latency_ms oc = deadline * 1000
      | Some t \<Rightarrow> ou_latency_ms oc = t * 1000 \<and> (case b of
            Returns _ v \<Rightarrow> outcome_ok oc \<and> ou_value oc = Some v
          | Raises _ kind msg \<Rightarrow> \<not> outcome_ok oc \<and> ou_value oc = None \<and> \<not> ou_timed_out oc
              \<and> ou_error oc = Some (kind @ '': '' @ msg) \<and> ou_error_kind oc = Some ''exception''
          | _ \<Rightarrow> late))"

lemma outcome_for_call:
  assumes "\<And>jb. j = Some jb \<Longrightarrow> jo_finish jb = map_option (\<lambda>d. jo_start jb + d) (duration (snd call))"
  shows "outcome_of_call deadline (snd call) j (outcome_for fmt_g deadline call j)"
  using assms
  by (cases j; cases "snd call")
    (auto simp: outcome_of_call_def done_in_time_def outcome_for_def deadline_outcome_def finished_outcome_def outcome_ok_def)

lemma run_calls_outcomes:
  assumes "run_calls fmt_g n calls deadline = Inr outs" "i < length calls"
  shows "outcome_of_call deadline (snd (calls ! i)) (assign_jobs deadline (replicate n (Some 0)) (map snd calls) ! i) (outs ! i)"
proof -
  let ?js = "assign_jobs deadline (replicate n (Some 0)) (map snd calls)"
  have "outs = map2 (outcome_for fmt_g deadline) calls ?js"
    using assms by (cases "calls = []") (simp_all add: run_calls_def guard_that_Inr_iff)
  then have "outs ! i = outcome_for fmt_g deadline (calls ! i) (?js ! i)" using assms(2) by simp
  moreover have "?js ! i = Some jb \<Longrightarrow> jo_finish jb = map_option (\<lambda>d. jo_start jb + d) (duration (snd (calls ! i)))" for jb
    using assigned_finish [of i "map snd calls"] assms(2) by simp
  ultimately show ?thesis using outcome_for_call [of "?js ! i" "calls ! i" deadline fmt_g] by metis
qed

text \<open>With a thread for each call, all start at once.\<close>

lemma next_worker_least:
  assumes "ws \<noteq> []" "k < length ws"
  shows "free_order (ws ! next_worker ws) \<le> free_order (ws ! k)"
proof -
  let ?f = "\<lambda>i. free_order (ws ! i)" and ?xs = "sort_key (\<lambda>i. free_order (ws ! i)) [0..<length ws]"
  have ne: "?xs \<noteq> []" using assms(1) by (metis length_0_conv length_sort length_upt diff_zero)
  have "k \<in> set ?xs" using assms(2) by simp
  then show ?thesis
    using sorted_sort_key [of ?f "[0..<length ws]"] ne unfolding next_worker_def by (cases ?xs) auto
qed

lemma all_start_at_once:
  assumes "\<forall>b \<in> set bs. \<forall>d. duration b = Some d \<longrightarrow> 0 \<le> d" "\<forall>t. Some t \<in> set ws \<longrightarrow> 0 \<le> t" "0 < deadline"
    and "length bs \<le> card {k. k < length ws \<and> ws ! k = Some 0}" "i < length bs"
  shows "\<exists>j. assign_jobs deadline ws bs ! i = Some j \<and> jo_start j = 0"
  using assms
proof (induction deadline ws bs arbitrary: i rule: assign_jobs.induct)
  case (2 deadline ws b bs)
  let ?w = "next_worker ws" and ?free = "\<lambda>ws. {k. k < length ws \<and> ws ! k = Some (0::rat)}"
  have "?free ws \<noteq> {}" using "2.prems"(4) by (metis card.empty le_zero_eq length_Cons nat.distinct(1))
  then obtain k where k: "k < length ws" "ws ! k = Some 0" by blast
  then have ne: "ws \<noteq> []" by auto
  have w: "?w < length ws" by (rule next_worker_less [OF ne])
  have least: "free_order (ws ! ?w) \<le> (0, 0)"
    using next_worker_least [OF ne k(1)] k(2) by (simp add: free_order_def)
  have st: "ws ! ?w = Some 0"
  proof (cases "ws ! ?w")
    case (Some t)
    then show ?thesis using least "2.prems"(2) nth_mem [OF w] by (auto simp: free_order_def less_eq_prod_def)
  qed (use least in \<open>simp add: free_order_def less_eq_prod_def\<close>)
  let ?f = "duration b"
  have plus: "map_option ((+) 0) ?f = ?f" by (cases ?f) auto
  have eq: "assign_jobs deadline ws (b # bs)
      = Some \<lparr>jo_worker = ?w, jo_start = 0, jo_finish = ?f\<rparr> # assign_jobs deadline (ws[?w := ?f]) bs"
    using st "2.prems"(3) by (simp add: Let_def plus)
  have "?free ws - {?w} \<subseteq> ?free (ws[?w := ?f])" by auto
  then have "card (?free ws - {?w}) \<le> card (?free (ws[?w := ?f]))" by (intro card_mono) auto
  then have c: "length bs \<le> card (?free (ws[?w := ?f]))" using "2.prems"(4) st w by (simp add: card_Diff_singleton_if)
  have n: "\<forall>t. Some t \<in> set (ws[?w := ?f]) \<longrightarrow> 0 \<le> t"
  proof (intro allI impI)
    fix t assume "Some t \<in> set (ws[?w := ?f])"
    then consider "Some t = ?f" | "Some t \<in> set ws" using set_update_subset_insert [of ws ?w ?f] by blast
    then show "0 \<le> t"
    proof cases
      case 1
      then show ?thesis using "2.prems"(1) by (cases "duration b") auto
    qed (use "2.prems"(2) in blast)
  qed
  show ?case
  proof (cases i)
    case 0
    show ?thesis unfolding 0 eq by simp
  next
    case (Suc i')
    have "\<exists>j. assign_jobs deadline (ws[?w := ?f]) bs ! i' = Some j \<and> jo_start j = 0"
      using 2(3) [OF refl st _ refl _ _ "2.prems"(3), of i'] "2.prems" Suc n c by (simp add: plus)
    then show ?thesis unfolding Suc eq by simp
  qed
qed simp

lemma calls_start_at_once:
  assumes "\<forall>b \<in> snd ` set calls. \<forall>d. duration b = Some d \<longrightarrow> 0 \<le> d" "0 < deadline" "length calls \<le> n" "i < length calls"
  shows "\<exists>j. assign_jobs deadline (replicate n (Some 0)) (map snd calls) ! i = Some j \<and> jo_start j = 0"
proof -
  have "{k. k < n \<and> replicate n (Some (0::rat)) ! k = Some 0} = {..<n}" by auto
  then show ?thesis using assms by (intro all_start_at_once) auto
qed

end
