(* ===== verification/PathPolicy.thy ===== *)
theory PathPolicy
  imports PyText Domain
begin

text \<open>
  \<open>path_policy.py\<close>: untrusted relative paths are refused or resolved below a root.  \<open>resolve\<close> stands for
  \<open>Path.resolve\<close>: it follows the symbolic links of the file system and returns \<open>None\<close> for the
  \<open>OSError\<close> of a link loop.  Roots are resolved absolute paths.
\<close>

definition backslash :: char where
  "backslash = char_of (92::nat)"

definition posix_text :: "string \<Rightarrow> string" where
  "posix_text raw = replace_char backslash (CHR ''/'') raw"

text \<open>\<open>PureWindowsPath(raw).drive\<close> is not empty, or the path is absolute: a second character \<open>:\<close>, or two
  leading separators.\<close>

definition windows_anchored :: "string \<Rightarrow> bool" where
  "windows_anchored raw = (case posix_text raw of
     c # d # _ \<Rightarrow> d = CHR '':'' \<or> (c = CHR ''/'' \<and> d = CHR ''/'') | _ \<Rightarrow> False)"

definition below :: "string \<Rightarrow> string \<Rightarrow> bool" where
  "below base p = (p = base \<or> starts_with p (if ends_with base ''/'' then base else base @ ''/''))"

definition join_path :: "string \<Rightarrow> string \<Rightarrow> string" where
  "join_path base raw = (if ends_with base ''/'' then base else base @ ''/'') @ raw"

definition outside :: "string \<Rightarrow> py_error" where
  "outside msg = ValueError (''PathOutsideWorkspace: '' @ msg)"

definition resolve_within_root :: "(string \<Rightarrow> string option) \<Rightarrow> string \<Rightarrow> string \<Rightarrow> string result" where
  "resolve_within_root resolve base raw =
     guard_that (raw \<noteq> [] \<and> char_of (0::nat) \<notin> set raw) (outside ''path must be a non-empty relative path'')
     (guard_that (\<not> starts_with raw ''/'' \<and> \<not> windows_anchored raw) (outside ''absolute paths are not allowed'')
     (guard_that (''..'' \<notin> set (split_on (CHR ''/'') raw) \<and> ''..'' \<notin> set (split_on (CHR ''/'') (posix_text raw)))
        (outside ''parent traversal is not allowed'')
     (case resolve (join_path base raw) of
        None \<Rightarrow> Inl (OSError ''symlink loop'')
      | Some resolved \<Rightarrow> guard_that (below base resolved) (outside ''path escapes the workspace root'') (Inr resolved))))"

text \<open>The entries are checked in order; the rejected ones are listed in a tuple.\<close>

definition confine_key :: "(string \<Rightarrow> string option) \<Rightarrow> string \<Rightarrow> string \<Rightarrow> json dict \<times> string list \<Rightarrow> json dict \<times> string list" where
  "confine_key resolve base key st = (case st of (clean, rejected) \<Rightarrow>
     (case dget clean key of
        None \<Rightarrow> (clean, rejected)
      | Some (JStr value) \<Rightarrow> (case resolve_within_root resolve base value of
          Inr _ \<Rightarrow> (clean, rejected)
        | Inl _ \<Rightarrow> (dpop clean key, rejected @ [key]))
      | Some _ \<Rightarrow> (dpop clean key, rejected @ [key])))"

definition confine_metadata_paths :: "(string \<Rightarrow> string option) \<Rightarrow> string \<Rightarrow> json dict \<Rightarrow> json dict" where
  "confine_metadata_paths resolve base metadata =
     (case fold (confine_key resolve base) [''path'', ''file''] (metadata, []) of
        (clean, rejected) \<Rightarrow>
          (if rejected = [] then clean
           else dset (dset clean ''path_rejected'' (JBool True))
             ''rejected_path_fields'' (JList (map JStr rejected))))"

section \<open>What passes\<close>

lemma resolved_is_below: "resolve_within_root resolve base raw = Inr p \<Longrightarrow> below base p"
  by (auto simp: resolve_within_root_def guard_that_Inr_iff split: option.splits)

lemma traversal_refused:
  assumes "''..'' \<in> set (split_on (CHR ''/'') raw) \<or> starts_with raw ''/''"
  shows "\<exists>e. resolve_within_root resolve base raw = Inl e"
  using assms by (auto simp: resolve_within_root_def guard_that_def)

lemma confine_key_keeps:
  assumes "confine_key resolve base key (d, rs) = (d', rs')"
  shows "dget d' k = (if k = key \<and> (\<nexists>v p. dget d k = Some (JStr v) \<and> resolve_within_root resolve base v = Inr p)
      then None else dget d k)"
  using assms by (auto simp: confine_key_def split: option.splits json.splits sum.splits)

text \<open>After confinement a \<open>path\<close> or \<open>file\<close> entry is text that resolves below the root; other entries are
  kept.\<close>

lemma confined_paths:
  assumes "k = ''path'' \<or> k = ''file''"
    and "dget (confine_metadata_paths resolve base metadata) k = Some v"
  shows "\<exists>s p. v = JStr s \<and> resolve_within_root resolve base s = Inr p \<and> below base p \<and> dget metadata k = Some v"
proof -
  obtain d1 r1 where 1: "confine_key resolve base ''path'' (metadata, []) = (d1, r1)" by (meson surj_pair)
  obtain d2 r2 where 2: "confine_key resolve base ''file'' (d1, r1) = (d2, r2)" by (meson surj_pair)
  have "dget d2 k = Some v"
    using assms 1 2 by (auto simp: confine_metadata_paths_def split: if_splits)
  then have d1: "dget d1 k = Some v" and f: "k = ''file'' \<Longrightarrow> \<exists>s p. v = JStr s \<and> resolve_within_root resolve base s = Inr p"
    using confine_key_keeps [OF 2, of k] by (auto split: if_splits)
  from d1 have m: "dget metadata k = Some v" and p: "k = ''path'' \<Longrightarrow> \<exists>s p. v = JStr s \<and> resolve_within_root resolve base s = Inr p"
    using confine_key_keeps [OF 1, of k] by (auto split: if_splits)
  show ?thesis using assms(1) f p m resolved_is_below by blast
qed

lemma confined_others:
  assumes "k \<notin> {''path'', ''file'', ''path_rejected'', ''rejected_path_fields''}"
  shows "dget (confine_metadata_paths resolve base metadata) k = dget metadata k"
proof -
  obtain d1 r1 where 1: "confine_key resolve base ''path'' (metadata, []) = (d1, r1)" by (meson surj_pair)
  obtain d2 r2 where 2: "confine_key resolve base ''file'' (d1, r1) = (d2, r2)" by (meson surj_pair)
  show ?thesis
    using assms 1 2 confine_key_keeps [OF 1, of k] confine_key_keeps [OF 2, of k]
    by (auto simp: confine_metadata_paths_def)
qed

end
