(* ===== verification/Registry.thy ===== *)
theory Registry
  imports PathPolicy "HOL-Library.Product_Lexorder"
begin

text \<open>
  \<open>repository_registry.py\<close>: the reviewed list of repositories of a workspace.  The registry file is the
  JSON value it holds (\<open>None\<close>: missing or unreadable); writing it replaces the value under the writers' lock.
  What \<open>discover_repositories\<close> finds on disk and what \<open>urlparse\<close> makes of a remote are arguments.
\<close>

record repository_spec =
  rs_name :: string
  rs_relative_path :: string
  rs_git_dir :: "string option"
  rs_remote_identity :: "string option"
  rs_head_ref :: "string option"
  rs_head_sha :: "string option"
  rs_included :: bool
  rs_reason :: string

text \<open>\<open>json.dumps(payload, sort_keys=True, separators=(",", ":"))\<close>, escaped to ASCII, and its digest.\<close>

definition ascii_digest :: "runtime \<Rightarrow> json \<Rightarrow> string" where
  "ascii_digest rt v = hexdigest (rt_sha256 rt (utf8 (dumps True (rt_float_repr rt) (sort_keys v))))"

definition repository_id :: "runtime \<Rightarrow> string \<Rightarrow> string option \<Rightarrow> string" where
  "repository_id rt relative_path remote =
     ascii_digest rt (JDict [(''relative_path'', JStr relative_path), (''remote_identity'', opt_str remote)])"

section \<open>Remote identities\<close>

record url =
  ur_scheme :: string
  ur_netloc :: string
  ur_hostname :: "string option"
  ur_path :: string

definition after_last :: "char \<Rightarrow> string \<Rightarrow> string" where
  "after_last c s = last (split_on c s)"

definition strip_slashes :: "string \<Rightarrow> string" where
  "strip_slashes s = rev (dropWhile (\<lambda>c. c = CHR ''/'') (rev (dropWhile (\<lambda>c. c = CHR ''/'') s)))"

definition opaque_remote :: "runtime \<Rightarrow> string \<Rightarrow> string" where
  "opaque_remote rt raw = ''opaque:'' @ take 16 (hexdigest (rt_sha256 rt (utf8 raw)))"

definition named_remote :: "runtime \<Rightarrow> string \<Rightarrow> string \<Rightarrow> string \<Rightarrow> string" where
  "named_remote rt raw host path =
     (let p = (if ends_with (lower path) ''.git'' then take (length path - 4) path else path) in
      if host = [] \<or> p = [] then opaque_remote rt raw else lower host @ ''/'' @ p)"

definition remote_identity :: "runtime \<Rightarrow> (string \<Rightarrow> url) \<Rightarrow> string option \<Rightarrow> string option" where
  "remote_identity rt urlparse remote_url =
     (case remote_url of
        None \<Rightarrow> None
      | Some text \<Rightarrow>
          (let raw = strip text in
           if raw = [] then None
           else if CHR ''@'' \<in> set raw \<and> CHR '':'' \<in> set raw \<and> \<not> contains_str raw ''://''
           then let host_part = takeWhile (\<lambda>c. c \<noteq> CHR '':'') raw;
                    path_part = tl (dropWhile (\<lambda>c. c \<noteq> CHR '':'') raw)
             in Some (named_remote rt raw (after_last (CHR ''@'') host_part) (strip_slashes path_part))
           else let parsed = urlparse raw in
             if ur_scheme parsed \<noteq> [] \<and> ur_netloc parsed \<noteq> []
             then Some (named_remote rt raw
               (case ur_hostname parsed of Some h \<Rightarrow> if h = [] then after_last (CHR ''@'') (ur_netloc parsed) else h
                | None \<Rightarrow> after_last (CHR ''@'') (ur_netloc parsed))
               (strip_slashes (ur_path parsed)))
             else Some (opaque_remote rt raw)))"

section \<open>The file\<close>

definition registry_order :: "repository_spec \<Rightarrow> string \<times> string \<times> string" where
  "registry_order r = (lower (rs_relative_path r),
     (case rs_remote_identity r of Some s \<Rightarrow> s | None \<Rightarrow> []), lower (rs_name r))"

definition registry_entry :: "runtime \<Rightarrow> repository_spec \<Rightarrow> json dict" where
  "registry_entry rt r = [
     (''repository_id'', JStr (repository_id rt (rs_relative_path r) (rs_remote_identity r))),
     (''name'', JStr (rs_name r)), (''relative_path'', JStr (rs_relative_path r)),
     (''git_dir'', opt_str (rs_git_dir r)), (''remote_identity'', opt_str (rs_remote_identity r)),
     (''head_ref'', opt_str (rs_head_ref r)), (''head_sha'', opt_str (rs_head_sha r)),
     (''included'', JBool (rs_included r)), (''reason'', JStr (rs_reason r))]"

definition registry_payload :: "runtime \<Rightarrow> repository_spec list \<Rightarrow> json" where
  "registry_payload rt repositories = JDict [(''version'', JInt 1), (''review_required'', JBool True),
     (''repositories'', JList (map (\<lambda>r. JDict (registry_entry rt r)) (sort_key registry_order repositories)))]"

text \<open>An optional text: \<open>None\<close> outside when the value is neither text nor absent.\<close>

definition optional_text :: "json \<Rightarrow> string option option" where
  "optional_text v = (case v of JNull \<Rightarrow> Some None | JStr s \<Rightarrow> Some (Some s) | _ \<Rightarrow> None)"

definition nonblank_text :: "json \<Rightarrow> string option" where
  "nonblank_text v = (case v of JStr s \<Rightarrow> if strip s = [] then None else Some (strip s) | _ \<Rightarrow> None)"

definition entry_to_spec :: "runtime \<Rightarrow> json \<Rightarrow> repository_spec option" where
  "entry_to_spec rt v =
     (case v of JDict e \<Rightarrow>
        (case (nonblank_text (jget e ''name''), nonblank_text (jget e ''relative_path''),
            optional_text (jget e ''remote_identity''), optional_text (jget e ''git_dir''),
            optional_text (jget e ''head_ref''), optional_text (jget e ''head_sha''),
            jget_or e ''reason'' (JStr ''discovered''), jget_or e ''included'' (JBool False)) of
          (Some name, Some relative_path, Some remote, Some git_dir, Some head_ref, Some head_sha, JStr reason, JBool included) \<Rightarrow>
            (case jget e ''repository_id'' of
               JNull \<Rightarrow> Some \<lparr>rs_name = name, rs_relative_path = relative_path, rs_git_dir = git_dir,
                 rs_remote_identity = remote, rs_head_ref = head_ref, rs_head_sha = head_sha, rs_included = included,
                 rs_reason = reason\<rparr>
             | JStr persisted \<Rightarrow> (if persisted = repository_id rt relative_path remote
                 then Some \<lparr>rs_name = name, rs_relative_path = relative_path, rs_git_dir = git_dir,
                   rs_remote_identity = remote, rs_head_ref = head_ref, rs_head_sha = head_sha, rs_included = included,
                   rs_reason = reason\<rparr>
                 else None)
             | _ \<Rightarrow> None)
        | _ \<Rightarrow> None)
      | _ \<Rightarrow> None)"

definition registry_key :: "repository_spec \<Rightarrow> string \<times> string option" where
  "registry_key r = (rs_relative_path r, rs_remote_identity r)"

text \<open>\<open>None\<close> when an entry is malformed or repeats a key: the whole file is refused.\<close>

fun read_entries :: "runtime \<Rightarrow> (string \<times> string option) set \<Rightarrow> json list \<Rightarrow> repository_spec list option" where
  "read_entries rt seen [] = Some []"
| "read_entries rt seen (raw # rest) =
     (case entry_to_spec rt raw of
        None \<Rightarrow> None
      | Some spec \<Rightarrow> (if registry_key spec \<in> seen then None
          else map_option (\<lambda>specs. spec # specs) (read_entries rt (insert (registry_key spec) seen) rest)))"

definition load_registry :: "runtime \<Rightarrow> json option \<Rightarrow> repository_spec list" where
  "load_registry rt reg =
     (case reg of
        Some (JDict data) \<Rightarrow>
          (if py_eq (jget data ''version'') (JInt 1) \<and> jget data ''review_required'' = JBool True
           then (case jget data ''repositories'' of
               JList raw \<Rightarrow> (case read_entries rt {} raw of
                   Some specs \<Rightarrow> sort_key registry_order specs | None \<Rightarrow> [])
             | _ \<Rightarrow> [])
           else [])
      | _ \<Rightarrow> [])"

definition fingerprint_order :: "repository_spec \<Rightarrow> string \<times> string" where
  "fingerprint_order r = (lower (rs_relative_path r), case rs_remote_identity r of Some s \<Rightarrow> s | None \<Rightarrow> [])"

definition workspace_registry_fingerprint :: "runtime \<Rightarrow> repository_spec list \<Rightarrow> string" where
  "workspace_registry_fingerprint rt repositories =
     ascii_digest rt (JList (map (\<lambda>r. JDict [
       (''repository_id'', JStr (repository_id rt (rs_relative_path r) (rs_remote_identity r))),
       (''relative_path'', JStr (rs_relative_path r)), (''remote_identity'', opt_str (rs_remote_identity r)),
       (''head_ref'', opt_str (rs_head_ref r)), (''head_sha'', opt_str (rs_head_sha r)),
       (''included'', JBool (rs_included r))]) (sort_key fingerprint_order repositories)))"

definition registry_summary :: "runtime \<Rightarrow> string \<Rightarrow> json option \<Rightarrow> json dict" where
  "registry_summary rt path reg =
     (let repositories = load_registry rt reg in
      [(''path'', JStr path), (''version'', JInt 1), (''review_required'', JBool True),
       (''discovered'', JInt (int (length repositories))),
       (''accepted'', JInt (int (length (filter rs_included repositories)))),
       (''fingerprint'', JStr (workspace_registry_fingerprint rt repositories)),
       (''repositories'', JList (map (\<lambda>r. JDict (registry_entry rt r)) repositories))])"

section \<open>Refreshing and deciding\<close>

definition refreshed :: "bool \<Rightarrow> repository_spec list \<Rightarrow> repository_spec \<Rightarrow> repository_spec" where
  "refreshed include_new existing repo =
     (case find (\<lambda>r. registry_key r = registry_key repo) (rev existing) of
        None \<Rightarrow> repo\<lparr>rs_included := include_new,
            rs_reason := (if include_new then ''auto-discovered'' else rs_reason repo)\<rparr>
      | Some previous \<Rightarrow>
          (if include_new \<and> \<not> rs_included previous \<and> rs_reason previous = ''discovered''
           then repo\<lparr>rs_included := True, rs_reason := ''auto-discovered''\<rparr>
           else repo\<lparr>rs_included := rs_included previous, rs_reason := rs_reason previous\<rparr>))"

text \<open>\<open>refresh_registry\<close>: the new content of the file.\<close>

definition refresh_registry ::
  "runtime \<Rightarrow> json dict \<Rightarrow> bool option \<Rightarrow> repository_spec list \<Rightarrow> json option \<Rightarrow> json option result" where
  "refresh_registry rt config auto_include discovered reg =
     rbind (or_empty (jget config ''workspace'')) (\<lambda>workspace.
     rbind (or_empty (jget workspace ''discovery'')) (\<lambda>discovery.
     let include_new = (case auto_include of Some b \<Rightarrow> b
           | None \<Rightarrow> \<not> truthy (jget_or discovery ''require_acceptance'' (JBool True)))
     in Inr (Some (registry_payload rt (map (refreshed include_new (load_registry rt reg)) discovered)))))"

definition matches_selector :: "runtime \<Rightarrow> repository_spec \<Rightarrow> string \<Rightarrow> bool" where
  "matches_selector rt r selector =
     (selector \<in> {rs_relative_path r, repository_id rt (rs_relative_path r) (rs_remote_identity r),
        (case rs_remote_identity r of Some s \<Rightarrow> s | None \<Rightarrow> []), rs_name r})"

definition decide :: "bool \<Rightarrow> repository_spec \<Rightarrow> repository_spec" where
  "decide included r = r\<lparr>rs_included := included,
     rs_reason := (if included then ''manual-include'' else ''manual-exclude'')\<rparr>"

definition set_repository_included ::
  "runtime \<Rightarrow> string \<Rightarrow> bool \<Rightarrow> json option \<Rightarrow> json option result" where
  "set_repository_included rt selector included reg =
     (let value = strip selector in
      guard_that (value \<noteq> []) (ValueError ''repository selector must not be blank'')
      (let repositories = load_registry rt reg in
       case filter (\<lambda>r. matches_selector rt r value) repositories of
         [] \<Rightarrow> Inl (ValueError (''repository not found: '' @ value))
       | [target] \<Rightarrow> Inr (Some (registry_payload rt (map (\<lambda>r. if r = target then decide included r else r) repositories)))
       | _ \<Rightarrow> Inl (ValueError (''repository selector is ambiguous: '' @ value))))"

section \<open>Writing and reading back\<close>

text \<open>A list the registry can hold: stripped names and paths, one entry per key.\<close>

definition spec_ok :: "repository_spec \<Rightarrow> bool" where
  "spec_ok r = (rs_name r \<noteq> [] \<and> strip (rs_name r) = rs_name r
     \<and> rs_relative_path r \<noteq> [] \<and> strip (rs_relative_path r) = rs_relative_path r)"

definition registry_ok :: "repository_spec list \<Rightarrow> bool" where
  "registry_ok rs = (list_all spec_ok rs \<and> distinct (map registry_key rs))"

lemma optional_text_opt [simp]: "optional_text (opt_str s) = Some s"
  by (cases s) (simp_all add: optional_text_def opt_str_def)

lemma entry_fields:
  "jget (registry_entry rt r) ''repository_id'' = JStr (repository_id rt (rs_relative_path r) (rs_remote_identity r))"
  "jget (registry_entry rt r) ''name'' = JStr (rs_name r)"
  "jget (registry_entry rt r) ''relative_path'' = JStr (rs_relative_path r)"
  "jget (registry_entry rt r) ''git_dir'' = opt_str (rs_git_dir r)"
  "jget (registry_entry rt r) ''remote_identity'' = opt_str (rs_remote_identity r)"
  "jget (registry_entry rt r) ''head_ref'' = opt_str (rs_head_ref r)"
  "jget (registry_entry rt r) ''head_sha'' = opt_str (rs_head_sha r)"
  "jget_or (registry_entry rt r) ''included'' d = JBool (rs_included r)"
  "jget_or (registry_entry rt r) ''reason'' d = JStr (rs_reason r)"
  by (simp_all add: registry_entry_def jget_def jget_or_def dict_simps)

lemma nonblank_text_id: "strip s = s \<Longrightarrow> s \<noteq> [] \<Longrightarrow> nonblank_text (JStr s) = Some s"
  by (simp add: nonblank_text_def)

lemma entry_round_trip: "spec_ok r \<Longrightarrow> entry_to_spec rt (JDict (registry_entry rt r)) = Some r"
  by (simp add: entry_to_spec_def entry_fields nonblank_text_id spec_ok_def)

lemma entry_to_spec_ok:
  assumes "entry_to_spec rt v = Some r" shows "spec_ok r"
proof -
  have "nonblank_text w = Some s \<Longrightarrow> s \<noteq> [] \<and> strip s = s" for w s
    by (auto simp: nonblank_text_def split: json.splits if_splits)
  then show ?thesis using assms
    by (auto simp: entry_to_spec_def spec_ok_def split: json.splits option.splits if_splits)
qed

lemma read_entries_payload:
  assumes "list_all spec_ok rs" "distinct (map registry_key rs)" "registry_key ` set rs \<inter> seen = {}"
  shows "read_entries rt seen (map (\<lambda>r. JDict (registry_entry rt r)) rs) = Some rs"
  using assms by (induction rs arbitrary: seen) (auto simp: entry_round_trip)

lemma read_entries_ok:
  assumes "read_entries rt seen raws = Some rs"
  shows "registry_ok rs \<and> registry_key ` set rs \<inter> seen = {}"
  using assms
proof (induction rt seen raws arbitrary: rs rule: read_entries.induct)
  case (2 rt seen raw rest)
  then obtain spec specs where s: "entry_to_spec rt raw = Some spec" "registry_key spec \<notin> seen"
    "read_entries rt (insert (registry_key spec) seen) rest = Some specs" "rs = spec # specs"
    by (auto split: option.splits if_splits)
  from "2.IH" [OF s(1) s(2) s(3)] entry_to_spec_ok [OF s(1)] show ?case
    using s(2,4) by (fastforce simp: registry_ok_def)
qed (simp add: registry_ok_def)

lemma registry_ok_sort [simp]: "registry_ok (sort_key f rs) \<longleftrightarrow> registry_ok rs"
proof -
  have "mset (map registry_key (sort_key f rs)) = mset (map registry_key rs)" by simp
  then have "distinct (map registry_key (sort_key f rs)) \<longleftrightarrow> distinct (map registry_key rs)"
    using mset_eq_imp_distinct_iff by blast
  then show ?thesis by (simp add: registry_ok_def list_all_iff)
qed

lemma load_registry_ok: "registry_ok (load_registry rt reg)"
  using read_entries_ok
  by (auto simp: load_registry_def registry_ok_def [of "[]"] split: option.splits json.splits)

lemma load_payload:
  assumes "registry_ok rs"
  shows "load_registry rt (Some (registry_payload rt rs)) = sort_key registry_order rs"
proof -
  have "registry_ok (sort_key registry_order rs)" using assms by simp
  then have "read_entries rt {} (map (\<lambda>r. JDict (registry_entry rt r)) (sort_key registry_order rs))
      = Some (sort_key registry_order rs)"
    by (intro read_entries_payload) (simp_all add: registry_ok_def)
  then show ?thesis
    by (simp add: load_registry_def registry_payload_def jget_def dict_simps py_eq_def sort_key_idem)
qed

lemma load_sorted: "sort_key registry_order (load_registry rt reg) = load_registry rt reg"
  by (auto simp: load_registry_def sort_key_idem split: option.splits json.splits)

section \<open>Decisions\<close>

lemma registry_key_decide [simp]: "registry_key (decide b r) = registry_key r"
  by (simp add: registry_key_def decide_def)

lemma registry_order_decide [simp]: "registry_order (decide b r) = registry_order r"
  by (simp add: registry_order_def decide_def)

lemma sort_key_map_fixed:
  assumes "\<And>x. f (g x) = f x" "sort_key f xs = xs"
  shows "sort_key f (map g xs) = map g xs"
proof -
  have "sorted (map f xs)" using assms(2) by (metis sorted_sort_key)
  then have "sorted (map f (map g xs))" by (simp add: assms(1) comp_def)
  then show ?thesis by (rule sort_key_id_if_sorted)
qed

lemma decision_is_local:
  assumes "set_repository_included rt selector included reg = Inr reg'"
  shows "\<exists>target. filter (\<lambda>r. matches_selector rt r (strip selector)) (load_registry rt reg) = [target]
    \<and> load_registry rt reg' = map (\<lambda>r. if r = target then decide included r else r) (load_registry rt reg)"
proof -
  let ?rs = "load_registry rt reg"
  obtain target where t: "filter (\<lambda>r. matches_selector rt r (strip selector)) ?rs = [target]"
    and f: "reg' = Some (registry_payload rt (map (\<lambda>r. if r = target then decide included r else r) ?rs))"
    using assms by (auto simp: set_repository_included_def guard_that_Inr_iff Let_def split: list.splits)
  let ?g = "\<lambda>r. if r = target then decide included r else r"
  have "spec_ok (decide included r) \<longleftrightarrow> spec_ok r" for r by (simp add: spec_ok_def decide_def)
  then have "list_all spec_ok (map ?g ?rs)"
    using load_registry_ok [of rt reg] by (auto simp: registry_ok_def list_all_iff)
  moreover have "map registry_key (map ?g ?rs) = map registry_key ?rs" by simp
  ultimately have "registry_ok (map ?g ?rs)"
    using load_registry_ok [of rt reg] by (simp add: registry_ok_def del: map_map)
  then have "load_registry rt reg' = sort_key registry_order (map ?g ?rs)" using f load_payload by simp
  also have "\<dots> = map ?g ?rs" by (rule sort_key_map_fixed) (simp_all add: load_sorted)
  finally show ?thesis using t by blast
qed

text \<open>A refresh keeps every decision about a repository that is found again.\<close>

lemma refreshed_key [simp]: "registry_key (refreshed b existing r) = registry_key r"
  by (auto simp: refreshed_def registry_key_def split: option.splits)

lemma refresh_result:
  assumes "refresh_registry rt config auto_include discovered reg = Inr reg'" "registry_ok discovered"
  shows "\<exists>include_new. load_registry rt reg'
    = sort_key registry_order (map (refreshed include_new (load_registry rt reg)) discovered)"
proof -
  obtain b where f: "reg' = Some (registry_payload rt (map (refreshed b (load_registry rt reg)) discovered))"
    using assms(1) by (auto simp: refresh_registry_def rbind_Inr_iff Let_def)
  have "spec_ok (refreshed b ex r) \<longleftrightarrow> spec_ok r" for ex r
    by (auto simp: refreshed_def spec_ok_def split: option.splits)
  then have "registry_ok (map (refreshed b (load_registry rt reg)) discovered)"
    using assms(2) by (simp add: registry_ok_def list_all_iff comp_def)
  then show ?thesis using f load_payload by auto
qed

lemma find_SomeD: "find P xs = Some x \<Longrightarrow> x \<in> set xs" "find P xs = Some x \<Longrightarrow> P x"
  by (induction xs) (auto split: if_splits)

lemma refresh_keeps_decision:
  assumes "refresh_registry rt config auto_include discovered reg = Inr reg'" "registry_ok discovered"
    and "previous \<in> set (load_registry rt reg)" "repo \<in> set discovered" "registry_key previous = registry_key repo"
    and "rs_reason previous \<noteq> ''discovered''"
  shows "\<exists>r \<in> set (load_registry rt reg'). registry_key r = registry_key repo
    \<and> rs_included r = rs_included previous \<and> rs_reason r = rs_reason previous"
proof -
  let ?rs = "load_registry rt reg"
  obtain b where l: "load_registry rt reg' = sort_key registry_order (map (refreshed b ?rs) discovered)"
    using refresh_result [OF assms(1,2)] by blast
  have inj: "inj_on registry_key (set ?rs)"
    using load_registry_ok [of rt reg] by (simp add: registry_ok_def distinct_map)
  obtain p where p: "find (\<lambda>r. registry_key r = registry_key repo) (rev ?rs) = Some p"
    using assms(3,5) by (cases "find (\<lambda>r. registry_key r = registry_key repo) (rev ?rs)")
      (auto simp: find_None_iff)
  have "p \<in> set (rev ?rs)" "registry_key p = registry_key repo" using find_SomeD [OF p] by simp_all
  then have "p = previous" using inj assms(3,5) by (metis inj_onD set_rev)
  then have "rs_included (refreshed b ?rs repo) = rs_included previous \<and> rs_reason (refreshed b ?rs repo) = rs_reason previous"
    using p assms(6) by (simp add: refreshed_def)
  then show ?thesis unfolding l using assms(4) by (intro bexI [of _ "refreshed b ?rs repo"]) auto
qed

end
