(* ===== verification/RepositoryRouting.thy ===== *)
theory RepositoryRouting
  imports Registry
begin

text \<open>
  \<open>repository_graph.py\<close>: the reviewed relationships between accepted repositories, and
  \<open>multi_repo_retrieval.py\<close>: which repositories of a workspace a query is routed to.  Roots are resolved
  absolute paths; \<open>root_of\<close> locates the directory of a registry entry, \<open>None\<close> when it cannot.
\<close>

section \<open>The graph\<close>

datatype relationship = DependsOn | PublishesApi | ConsumesSchema | Deploys

definition RELATIONSHIPS :: "relationship list" where
  "RELATIONSHIPS = [DependsOn, PublishesApi, ConsumesSchema, Deploys]"

definition relationship_value :: "relationship \<Rightarrow> string" where
  "relationship_value k = (case k of DependsOn \<Rightarrow> ''depends_on'' | PublishesApi \<Rightarrow> ''publishes_api''
     | ConsumesSchema \<Rightarrow> ''consumes_schema'' | Deploys \<Rightarrow> ''deploys'')"

definition relationship_of :: "string \<Rightarrow> relationship option" where
  "relationship_of s = find (\<lambda>k. relationship_value k = s) RELATIONSHIPS"

record repository_node =
  rn_id :: string
  rn_name :: string
  rn_relative_path :: string
  rn_remote_identity :: "string option"

record repository_edge =
  eg_source :: string
  eg_target :: string
  eg_relationship :: relationship

record repository_graph =
  gr_nodes :: "repository_node list"
  gr_edges :: "repository_edge list"

definition edge_id :: "runtime \<Rightarrow> repository_edge \<Rightarrow> string" where
  "edge_id rt e = ascii_digest rt (JDict [(''source_repository_id'', JStr (eg_source e)),
     (''target_repository_id'', JStr (eg_target e)), (''relationship'', JStr (relationship_value (eg_relationship e)))])"

definition graph_fingerprint :: "runtime \<Rightarrow> repository_graph \<Rightarrow> string" where
  "graph_fingerprint rt g = ascii_digest rt (JDict [(''nodes'', JList (map (\<lambda>n. JStr (rn_id n)) (gr_nodes g))),
     (''edges'', JList (map (\<lambda>e. JStr (edge_id rt e)) (gr_edges g)))])"

definition accepted_nodes :: "runtime \<Rightarrow> repository_spec list \<Rightarrow> repository_node list" where
  "accepted_nodes rt specs = sort_key rn_id (map (\<lambda>r.
     \<lparr>rn_id = repository_id rt (rs_relative_path r) (rs_remote_identity r), rn_name = rs_name r,
      rn_relative_path = rs_relative_path r, rn_remote_identity = rs_remote_identity r\<rparr>) (filter rs_included specs))"

definition EDGE_KEYS :: "string list" where
  "EDGE_KEYS = [''source_repository_id'', ''target_repository_id'', ''relationship'']"

definition parse_edge :: "string set \<Rightarrow> json \<Rightarrow> repository_edge option" where
  "parse_edge accepted v =
     (case v of JDict raw \<Rightarrow>
        (if set (dkeys raw) \<noteq> set EDGE_KEYS then None
         else case (nonblank_text (jget raw ''source_repository_id''), nonblank_text (jget raw ''target_repository_id''),
             nonblank_text (jget raw ''relationship'')) of
           (Some source, Some target, Some relation) \<Rightarrow>
             (if source = target \<or> source \<notin> accepted \<or> target \<notin> accepted then None
              else map_option (\<lambda>k. \<lparr>eg_source = source, eg_target = target, eg_relationship = k\<rparr>) (relationship_of relation))
         | _ \<Rightarrow> None)
      | _ \<Rightarrow> None)"

fun read_edges :: "string set \<Rightarrow> repository_edge set \<Rightarrow> json list \<Rightarrow> repository_edge list option" where
  "read_edges accepted seen [] = Some []"
| "read_edges accepted seen (raw # rest) =
     (case parse_edge accepted raw of
        None \<Rightarrow> None
      | Some e \<Rightarrow> (if e \<in> seen then None
          else map_option (\<lambda>es. e # es) (read_edges accepted (insert e seen) rest)))"

definition edge_order :: "repository_edge \<Rightarrow> string \<times> string \<times> string" where
  "edge_order e = (eg_source e, eg_target e, relationship_value (eg_relationship e))"

definition load_repository_graph :: "runtime \<Rightarrow> repository_spec list \<Rightarrow> json option \<Rightarrow> repository_graph" where
  "load_repository_graph rt specs graph_file =
     (let nodes = accepted_nodes rt specs;
          none = \<lparr>gr_nodes = nodes, gr_edges = []\<rparr>
      in case graph_file of
        Some (JDict data) \<Rightarrow>
          (if py_eq (jget data ''version'') (JInt 1) \<and> jget data ''review_required'' = JBool True
           then (case jget data ''edges'' of
               JList raw \<Rightarrow> (case read_edges (rn_id ` set nodes) {} raw of
                   Some es \<Rightarrow> \<lparr>gr_nodes = nodes, gr_edges = sort_key edge_order es\<rparr> | None \<Rightarrow> none)
             | _ \<Rightarrow> none)
           else none)
      | _ \<Rightarrow> none)"

section \<open>Signals\<close>

definition relation_prior :: "relationship \<Rightarrow> rat" where
  "relation_prior k = (case k of DependsOn \<Rightarrow> 85/100 | PublishesApi \<Rightarrow> 80/100 | ConsumesSchema \<Rightarrow> 90/100 | Deploys \<Rightarrow> 70/100)"

record routing_settings =
  rg_enabled :: bool
  rg_max_primary :: int
  rg_max_expansions :: int
  rg_allowed :: "relationship list"

definition workspace_config :: "json dict \<Rightarrow> json dict result" where
  "workspace_config config = or_empty (jget config ''workspace'')"

definition routing_settings_of :: "runtime \<Rightarrow> json dict \<Rightarrow> routing_settings result" where
  "routing_settings_of rt config =
     rbind (workspace_config config) (\<lambda>workspace.
     rbind (or_empty (jget workspace ''hierarchical_retrieval'')) (\<lambda>raw.
     rbind (to_int (jget_or raw ''max_primary_repositories'' (JInt 2))) (\<lambda>primary.
     rbind (to_int (jget_or raw ''max_graph_expansions'' (JInt 2))) (\<lambda>expansions.
     let requested = (case dget raw ''relationships'' of
           None \<Rightarrow> map (\<lambda>k. JStr (relationship_value k)) RELATIONSHIPS
         | Some (JList vs) \<Rightarrow> vs | Some _ \<Rightarrow> [])
     in Inr \<lparr>rg_enabled = truthy (jget_or raw ''enabled'' (JBool True)), rg_max_primary = max 1 primary,
          rg_max_expansions = max 0 expansions,
          rg_allowed = List.map_filter (\<lambda>v. relationship_of (py_str rt v)) requested\<rparr>))))"

definition max_roots :: "json dict \<Rightarrow> nat \<Rightarrow> int result" where
  "max_roots config dflt = rbind (workspace_config config) (\<lambda>workspace.
     rbind (to_int (jget_or workspace ''max_roots'' (JInt (int dflt)))) (\<lambda>n. Inr (max 1 n)))"

record registered =
  rd_id :: string
  rd_repo_name :: string
  rd_relative :: string

definition registry_roots ::
  "runtime \<Rightarrow> (repository_spec \<Rightarrow> string option) \<Rightarrow> repository_spec list \<Rightarrow> registered dict" where
  "registry_roots rt root_of specs = fold (\<lambda>spec mapped. case root_of spec of
       None \<Rightarrow> mapped
     | Some p \<Rightarrow> dset mapped p \<lparr>rd_id = repository_id rt (rs_relative_path spec) (rs_remote_identity spec),
         rd_repo_name = rs_name spec, rd_relative = rs_relative_path spec\<rparr>) (filter rs_included specs) []"

definition mention_char :: "char \<Rightarrow> bool" where
  "mention_char c = ((65 \<le> code c \<and> code c \<le> 90) \<or> (97 \<le> code c \<and> code c \<le> 122) \<or> is_digit c
     \<or> c \<in> {CHR ''_'', CHR ''.'', CHR ''-''})"

text \<open>The candidate at the head of the text, with no such character on either side.\<close>

definition mentioned_here :: "bool \<Rightarrow> string \<Rightarrow> string \<Rightarrow> bool" where
  "mentioned_here before t p = (\<not> before \<and> starts_with t p
     \<and> (case drop (length p) t of c # _ \<Rightarrow> \<not> mention_char c | [] \<Rightarrow> True))"

fun mentioned :: "bool \<Rightarrow> string \<Rightarrow> string \<Rightarrow> bool" where
  "mentioned before [] p = mentioned_here before [] p"
| "mentioned before (c # cs) p = (mentioned_here before (c # cs) p \<or> mentioned (mention_char c) cs p)"

definition strip_dots :: "string \<Rightarrow> string" where
  "strip_dots s = (let d = (\<lambda>c. c = CHR ''.'' \<or> c = CHR ''/'') in rev (dropWhile d (rev (dropWhile d s))))"

definition candidate_mentioned :: "string \<Rightarrow> string \<Rightarrow> bool" where
  "candidate_mentioned lowered candidate =
     (candidate \<noteq> [] \<and> candidate \<noteq> ''.''
      \<and> (if CHR ''/'' \<in> set candidate \<or> backslash \<in> set candidate then contains_str lowered candidate
         else mentioned False lowered candidate))"

definition query_mentions :: "string \<Rightarrow> string \<Rightarrow> string \<Rightarrow> bool" where
  "query_mentions query name relative =
     (candidate_mentioned (casefold query) (strip (casefold name))
      \<or> candidate_mentioned (casefold query) (strip_dots (casefold relative)))"

definition dir_prefix :: "string \<Rightarrow> string" where
  "dir_prefix relative = rev (dropWhile (\<lambda>c. c = CHR ''/'') (rev relative)) @ ''/''"

definition changed_matches :: "string \<Rightarrow> string \<Rightarrow> string \<Rightarrow> string list \<Rightarrow> bool" where
  "changed_matches control_root repository_root relative changed_files =
     (if changed_files = [] then False
      else if repository_root = control_root then True
      else list_ex (\<lambda>p. p = relative \<or> starts_with p (dir_prefix relative)) changed_files)"

section \<open>The plan\<close>

record routed_repository =
  ro_root :: string
  ro_id :: "string option"
  ro_tier :: string
  ro_prior :: rat
  ro_reason :: string
  ro_relationship :: "string option"
  ro_anchor :: "string option"

record routing_plan =
  rk_repositories :: "routed_repository list"
  rk_graph_fingerprint :: string
  rk_primary :: "string list"
  rk_expanded :: "string list"
  rk_skipped :: "string list"

definition routed :: "string \<Rightarrow> string option \<Rightarrow> string \<Rightarrow> rat \<Rightarrow> string \<Rightarrow> routed_repository" where
  "routed r i tier prior reason = \<lparr>ro_root = r, ro_id = i, ro_tier = tier, ro_prior = prior, ro_reason = reason,
     ro_relationship = None, ro_anchor = None\<rparr>"

definition identity_of :: "registered dict \<Rightarrow> string \<Rightarrow> string option" where
  "identity_of registry r = map_option rd_id (dget registry r)"

definition nested_prefixes :: "registered dict \<Rightarrow> string \<Rightarrow> string list" where
  "nested_prefixes registry workspace =
     map (\<lambda>(_, e). dir_prefix (rd_relative e))
       (filter (\<lambda>(p, e). p \<noteq> workspace \<and> rd_relative e \<notin> {[], ''.''}) registry)"

definition signal_of ::
  "registered dict \<Rightarrow> string \<Rightarrow> string \<Rightarrow> string list \<Rightarrow> string \<Rightarrow> (string \<times> string) option" where
  "signal_of registry workspace query changed_files r =
     (case dget registry r of
        None \<Rightarrow> None
      | Some e \<Rightarrow>
          (let owns = (if r = workspace \<and> nested_prefixes registry workspace \<noteq> []
                then list_ex (\<lambda>p. \<not> list_ex (starts_with p) (nested_prefixes registry workspace)) changed_files
                else changed_matches workspace r (rd_relative e) changed_files)
           in if rd_id e = [] then None
              else if owns then Some (r, ''changed_files'')
              else if query_mentions query (rd_repo_name e) (rd_relative e) then Some (r, ''explicit_query_anchor'')
              else None))"

fun take_primary ::
  "registered dict \<Rightarrow> int \<Rightarrow> (string \<times> string) list \<Rightarrow> string set \<Rightarrow> routed_repository list \<Rightarrow> routed_repository list" where
  "take_primary registry bound [] seen acc = acc"
| "take_primary registry bound ((r, reason) # rest) seen acc =
     (if r \<in> seen \<or> bound \<le> int (length acc) then take_primary registry bound rest seen acc
      else take_primary registry bound rest (insert r seen)
        (acc @ [routed r (identity_of registry r) ''primary'' 1 reason]))"

type_synonym expansion = "rat \<times> string \<times> string \<times> string \<times> string"

definition root_for_id :: "registered dict \<Rightarrow> string set \<Rightarrow> string list \<Rightarrow> string dict" where
  "root_for_id registry graph_nodes roots = fold (\<lambda>r d. case identity_of registry r of
       Some i \<Rightarrow> if i \<in> graph_nodes then dset d i r else d | None \<Rightarrow> d) (uniq roots) []"

definition expansion_of ::
  "runtime \<Rightarrow> relationship list \<Rightarrow> string set \<Rightarrow> string dict \<Rightarrow> string set \<Rightarrow> repository_edge \<Rightarrow> expansion option" where
  "expansion_of rt allowed primary_ids roots seen e =
     (if eg_relationship e \<notin> set allowed then None
      else let side = (if eg_source e \<in> primary_ids then Some (eg_target e, eg_source e)
             else if eg_target e \<in> primary_ids then Some (eg_source e, eg_target e) else None)
        in case side of
          None \<Rightarrow> None
        | Some (neighbor, anchor) \<Rightarrow>
            (case dget roots neighbor of
               None \<Rightarrow> None
             | Some r \<Rightarrow> (if r \<in> seen then None
                 else Some (- relation_prior (eg_relationship e), edge_id rt e, r, anchor,
                   relationship_value (eg_relationship e)))))"

fun take_expanded ::
  "registered dict \<Rightarrow> int \<Rightarrow> expansion list \<Rightarrow> string set \<Rightarrow> routed_repository list \<Rightarrow> routed_repository list" where
  "take_expanded registry bound [] seen acc = acc"
| "take_expanded registry bound ((neg, _, r, anchor, relation) # rest) seen acc =
     (if r \<in> seen \<or> bound \<le> int (length acc) then take_expanded registry bound rest seen acc
      else take_expanded registry bound rest (insert r seen)
        (acc @ [\<lparr>ro_root = r, ro_id = identity_of registry r, ro_tier = ''graph_expansion'', ro_prior = - neg,
           ro_reason = ''reviewed_graph_neighbor'', ro_relationship = Some relation, ro_anchor = Some anchor\<rparr>]))"

definition present_ids :: "string option list \<Rightarrow> string list" where
  "present_ids ids = List.map_filter (\<lambda>i. case i of Some s \<Rightarrow> if s = [] then None else Some s | None \<Rightarrow> None) ids"

definition skipped_ids :: "registered dict \<Rightarrow> string list \<Rightarrow> routed_repository list \<Rightarrow> string list" where
  "skipped_ids registry roots chosen =
     present_ids (map (identity_of registry) (filter (\<lambda>r. r \<notin> ro_root ` set chosen) (uniq roots)))"

definition tier_ids :: "string \<Rightarrow> routed_repository list \<Rightarrow> string list" where
  "tier_ids tier rs = present_ids (map ro_id (filter (\<lambda>r. ro_tier r = tier) rs))"

definition primary_repositories ::
  "registered dict \<Rightarrow> int \<Rightarrow> string \<Rightarrow> string \<Rightarrow> string list \<Rightarrow> string list \<Rightarrow> routed_repository list" where
  "primary_repositories registry bound workspace query changed_files roots =
     (let signaled = List.map_filter (signal_of registry workspace query changed_files) roots in
      take_primary registry bound
        (if signaled = [] \<and> roots \<noteq> [] then [(hd roots, ''default_local_repository'')] else signaled) {} [])"

definition expanded_repositories ::
  "runtime \<Rightarrow> routing_settings \<Rightarrow> registered dict \<Rightarrow> repository_graph \<Rightarrow> string list \<Rightarrow> routed_repository list
     \<Rightarrow> routed_repository list" where
  "expanded_repositories rt s registry g roots primary =
     (if rg_max_expansions s = 0 \<or> rg_allowed s = [] then []
      else let seen = ro_root ` set primary;
               primary_ids = set (present_ids (map ro_id primary));
               by_id = root_for_id registry (rn_id ` set (gr_nodes g)) roots;
               found = List.map_filter (expansion_of rt (rg_allowed s) primary_ids by_id seen) (gr_edges g)
        in take_expanded registry (rg_max_expansions s) (sort found) seen [])"

definition legacy_plan :: "runtime \<Rightarrow> json dict \<Rightarrow> repository_graph \<Rightarrow> string list \<Rightarrow> routing_plan result" where
  "legacy_plan rt config g roots = rbind (max_roots config (length roots)) (\<lambda>hard_max.
     Inr \<lparr>rk_repositories = map (\<lambda>r. routed r None ''legacy_explicit'' 1 ''legacy_workspace_root'') (take (nat hard_max) roots),
       rk_graph_fingerprint = graph_fingerprint rt g, rk_primary = [], rk_expanded = [], rk_skipped = []\<rparr>)"

text \<open>The selection over the settings, the registered roots and the graph, once these are read.\<close>

definition select_repositories ::
  "runtime \<Rightarrow> routing_settings \<Rightarrow> registered dict \<Rightarrow> repository_graph \<Rightarrow> string \<Rightarrow> string list
     \<Rightarrow> string \<Rightarrow> string list \<Rightarrow> json dict \<Rightarrow> routing_plan result" where
  "select_repositories rt s registry g workspace roots query changed_files config =
     (if roots \<noteq> [] \<and> present_ids (map (identity_of registry) roots) = [] then legacy_plan rt config g roots
     else let primary = primary_repositories registry (rg_max_primary s) workspace query changed_files roots in
       if \<not> rg_enabled s
       then Inr \<lparr>rk_repositories = primary, rk_graph_fingerprint = graph_fingerprint rt g,
         rk_primary = present_ids (map ro_id primary), rk_expanded = [], rk_skipped = skipped_ids registry roots primary\<rparr>
       else let found = primary @ expanded_repositories rt s registry g roots primary in
         rbind (max_roots config (if found = [] then 1 else length found)) (\<lambda>hard_max.
           let chosen = take (nat hard_max) found in
           Inr \<lparr>rk_repositories = chosen, rk_graph_fingerprint = graph_fingerprint rt g,
             rk_primary = tier_ids ''primary'' chosen, rk_expanded = tier_ids ''graph_expansion'' chosen,
             rk_skipped = skipped_ids registry roots chosen\<rparr>))"

text \<open>\<open>reg\<close> and \<open>graph_file\<close> are what reading the two configured files gives: the error of a path that leaves the
  project, nothing for a file that cannot be read or parsed, or the document.\<close>

definition plan_repository_retrieval ::
  "runtime \<Rightarrow> (repository_spec \<Rightarrow> string option) \<Rightarrow> json option result \<Rightarrow> json option result \<Rightarrow> string \<Rightarrow> string list
     \<Rightarrow> string \<Rightarrow> string list \<Rightarrow> json dict \<Rightarrow> routing_plan result" where
  "plan_repository_retrieval rt root_of reg graph_file workspace roots query changed_files config =
     rbind (routing_settings_of rt config) (\<lambda>s.
     rbind reg (\<lambda>registry_file.
     rbind graph_file (\<lambda>doc.
       let specs = load_registry rt registry_file in
       select_repositories rt s (registry_roots rt root_of specs) (load_repository_graph rt specs doc)
         workspace roots query changed_files config)))"

definition plan_json :: "routing_plan \<Rightarrow> json dict" where
  "plan_json p = [(''strategy'', JStr ''repository_first_graph_expansion''),
     (''graph_fingerprint'', JStr (rk_graph_fingerprint p)),
     (''primary_repository_ids'', JList (map JStr (rk_primary p))),
     (''expanded_repository_ids'', JList (map JStr (rk_expanded p))),
     (''skipped_repository_ids'', JList (map JStr (rk_skipped p))),
     (''repositories'', JList (map (\<lambda>r. JDict [(''repository_id'', opt_str (ro_id r)), (''tier'', JStr (ro_tier r)),
        (''prior'', JFloat (Fin (ro_prior r))), (''reason'', JStr (ro_reason r)),
        (''relationship'', opt_str (ro_relationship r)), (''anchor_repository_id'', opt_str (ro_anchor r))])
        (rk_repositories p)))]"

section \<open>The graph holds reviewed relationships only\<close>

lemma parse_edge_ok:
  assumes "parse_edge accepted v = Some e"
  shows "eg_source e \<in> accepted \<and> eg_target e \<in> accepted \<and> eg_source e \<noteq> eg_target e"
  using assms by (auto simp: parse_edge_def split: json.splits if_splits option.splits)

lemma read_edges_ok:
  assumes "read_edges accepted seen raws = Some es"
  shows "(\<forall>e \<in> set es. eg_source e \<in> accepted \<and> eg_target e \<in> accepted \<and> eg_source e \<noteq> eg_target e)
    \<and> distinct es \<and> set es \<inter> seen = {}"
  using assms
proof (induction accepted seen raws arbitrary: es rule: read_edges.induct)
  case (2 accepted seen raw rest)
  then obtain e es' where e: "parse_edge accepted raw = Some e" "e \<notin> seen"
    "read_edges accepted (insert e seen) rest = Some es'" "es = e # es'"
    by (auto split: option.splits if_splits)
  from "2.IH" [OF e(1) e(2) e(3)] parse_edge_ok [OF e(1)] show ?case using e(2,4) by fastforce
qed simp

lemma graph_edges_reviewed:
  assumes "e \<in> set (gr_edges (load_repository_graph rt specs graph_file))"
  shows "eg_source e \<noteq> eg_target e
    \<and> {eg_source e, eg_target e} \<subseteq> rn_id ` set (gr_nodes (load_repository_graph rt specs graph_file))"
  using assms read_edges_ok
  by (fastforce simp: load_repository_graph_def Let_def split: option.splits json.splits if_splits)

lemma graph_nodes_accepted:
  "rn_id ` set (gr_nodes (load_repository_graph rt specs graph_file))
     = (\<lambda>r. repository_id rt (rs_relative_path r) (rs_remote_identity r)) ` {r \<in> set specs. rs_included r}"
proof -
  have "gr_nodes (load_repository_graph rt specs graph_file) = accepted_nodes rt specs"
    by (auto simp: load_repository_graph_def Let_def split: option.splits json.splits)
  then show ?thesis by (force simp: accepted_nodes_def)
qed

section \<open>What a plan selects\<close>

lemma map_filter_set: "set (List.map_filter f xs) = {y. \<exists>x \<in> set xs. f x = Some y}"
  by (force simp: map_filter_def)

lemma take_primary_props:
  assumes "ro_root ` set acc = seen" "distinct (map ro_root acc)" "int (length acc) \<le> bound"
    and "\<forall>r \<in> set acc. ro_tier r = ''primary'' \<and> ro_prior r = 1 \<and> ro_id r = identity_of registry (ro_root r)"
    and "ps = take_primary registry bound sig seen acc"
  shows "distinct (map ro_root ps) \<and> int (length ps) \<le> bound \<and> ro_root ` set ps \<subseteq> seen \<union> fst ` set sig
    \<and> set acc \<subseteq> set ps
    \<and> (\<forall>r \<in> set ps. ro_tier r = ''primary'' \<and> ro_prior r = 1 \<and> ro_id r = identity_of registry (ro_root r))"
  using assms
proof (induction registry bound sig seen acc arbitrary: ps rule: take_primary.induct)
  case (2 registry bound r reason rest seen acc)
  show ?case
  proof (cases "r \<in> seen \<or> bound \<le> int (length acc)")
    case True
    then show ?thesis using "2.IH"(1) [OF True "2.prems"(1-4) refl] "2.prems"(5) by auto
  next
    case False
    let ?acc = "acc @ [routed r (identity_of registry r) ''primary'' 1 reason]"
    have "ro_root ` set ?acc = insert r seen" "distinct (map ro_root ?acc)" "int (length ?acc) \<le> bound"
      "\<forall>r \<in> set ?acc. ro_tier r = ''primary'' \<and> ro_prior r = 1 \<and> ro_id r = identity_of registry (ro_root r)"
      using False "2.prems" by (auto simp: routed_def)
    from "2.IH"(2) [OF False this refl] show ?thesis using False "2.prems"(5) by auto
  qed
qed auto

text \<open>What the expansion loop keeps of an element: it comes from an entry of the sorted candidates.\<close>

definition expands :: "registered dict \<Rightarrow> expansion \<Rightarrow> routed_repository \<Rightarrow> bool" where
  "expands registry x r = (case x of (neg, _, p, anchor, relation) \<Rightarrow>
     r = \<lparr>ro_root = p, ro_id = identity_of registry p, ro_tier = ''graph_expansion'', ro_prior = - neg,
       ro_reason = ''reviewed_graph_neighbor'', ro_relationship = Some relation, ro_anchor = Some anchor\<rparr>)"

lemma take_expanded_props:
  assumes "ro_root ` set acc \<subseteq> seen" "distinct (map ro_root acc)" "int (length acc) \<le> bound"
    and "\<forall>r \<in> set acc. ro_root r \<notin> base \<and> (\<exists>x \<in> xs. expands registry x r)" "base \<subseteq> seen" "set cands \<subseteq> xs"
    and "ps = take_expanded registry bound cands seen acc"
  shows "distinct (map ro_root ps) \<and> int (length ps) \<le> bound
    \<and> (\<forall>r \<in> set ps. ro_root r \<notin> base \<and> (\<exists>x \<in> xs. expands registry x r))"
  using assms
proof (induction registry bound cands seen acc arbitrary: ps rule: take_expanded.induct)
  case (2 registry bound neg i r anchor relation rest seen acc)
  show ?case
  proof (cases "r \<in> seen \<or> bound \<le> int (length acc)")
    case True
    then show ?thesis using "2.IH"(1) [OF True "2.prems"(1-5) _ refl] "2.prems"(6,7) by auto
  next
    case False
    let ?new = "\<lparr>ro_root = r, ro_id = identity_of registry r, ro_tier = ''graph_expansion'', ro_prior = - neg,
       ro_reason = ''reviewed_graph_neighbor'', ro_relationship = Some relation, ro_anchor = Some anchor\<rparr>"
    let ?acc = "acc @ [?new]"
    have "expands registry (neg, i, r, anchor, relation) ?new" by (simp add: expands_def)
    moreover have "(neg, i, r, anchor, relation) \<in> xs" using "2.prems"(6) by simp
    ultimately have "\<exists>x \<in> xs. expands registry x ?new" by (rule bexI)
    then have "\<forall>r \<in> set ?acc. ro_root r \<notin> base \<and> (\<exists>x \<in> xs. expands registry x r)"
      using False "2.prems"(4,5) by auto
    moreover have "ro_root ` set ?acc \<subseteq> insert r seen" "distinct (map ro_root ?acc)" "int (length ?acc) \<le> bound"
      using False "2.prems"(1-3) by auto
    moreover have "base \<subseteq> insert r seen" "set rest \<subseteq> xs" using "2.prems"(5,6) by auto
    ultimately show ?thesis using "2.IH"(2) [OF False _ _ _ _ _ _ refl] False "2.prems"(7) by simp
  qed
qed auto

lemma root_for_id_sound:
  assumes "dget (root_for_id registry nodes roots) i = Some r"
  shows "r \<in> set roots \<and> identity_of registry r = Some i \<and> i \<in> nodes"
proof -
  let ?f = "\<lambda>r d. case identity_of registry r of Some i \<Rightarrow> if i \<in> nodes then dset d i r else d | None \<Rightarrow> d"
  have "dget (fold ?f rs d) i = Some r \<Longrightarrow>
      dget d i = Some r \<or> r \<in> set rs \<and> identity_of registry r = Some i \<and> i \<in> nodes" for rs d
    by (induction rs arbitrary: d) (fastforce split: option.splits if_splits)+
  from this [of "uniq roots" "[]"] show ?thesis using assms by (simp add: root_for_id_def)
qed

text \<open>An expanded repository is reached from a primary one over an edge of the reviewed graph whose kind is
  allowed, and is itself accepted.\<close>

definition reviewed_neighbor ::
  "routing_settings \<Rightarrow> repository_graph \<Rightarrow> routed_repository list \<Rightarrow> routed_repository \<Rightarrow> bool" where
  "reviewed_neighbor s g primary r =
     (\<exists>e \<in> set (gr_edges g). eg_relationship e \<in> set (rg_allowed s)
        \<and> ro_relationship r = Some (relationship_value (eg_relationship e))
        \<and> ro_prior r = relation_prior (eg_relationship e)
        \<and> (\<exists>anchor neighbor. ro_anchor r = Some anchor \<and> ro_id r = Some neighbor
             \<and> neighbor \<in> rn_id ` set (gr_nodes g)
             \<and> {eg_source e, eg_target e} = {anchor, neighbor}
             \<and> anchor \<in> set (present_ids (map ro_id primary))))"

lemma expansion_of_sound:
  assumes "expansion_of rt allowed ids by_id seen e = Some x" "expands registry x r"
    and "\<And>i p. dget by_id i = Some p \<Longrightarrow> identity_of registry p = Some i \<and> i \<in> nodes \<and> p \<in> roots"
  shows "eg_relationship e \<in> set allowed \<and> ro_root r \<in> roots
    \<and> ro_relationship r = Some (relationship_value (eg_relationship e)) \<and> ro_prior r = relation_prior (eg_relationship e)
    \<and> (\<exists>anchor neighbor. ro_anchor r = Some anchor \<and> ro_id r = Some neighbor \<and> neighbor \<in> nodes
         \<and> {eg_source e, eg_target e} = {anchor, neighbor} \<and> anchor \<in> ids)"
  using assms by (fastforce simp: expansion_of_def expands_def Let_def split: option.splits if_splits)

lemma expanded_repositories_props:
  assumes "es = expanded_repositories rt s registry g roots primary" "0 \<le> rg_max_expansions s"
  shows "distinct (map ro_root es) \<and> int (length es) \<le> rg_max_expansions s
    \<and> (\<forall>r \<in> set es. ro_root r \<notin> ro_root ` set primary \<and> ro_root r \<in> set roots \<and> ro_tier r = ''graph_expansion''
          \<and> ro_id r = identity_of registry (ro_root r) \<and> reviewed_neighbor s g primary r)"
proof (cases "rg_max_expansions s = 0 \<or> rg_allowed s = []")
  case True
  then show ?thesis using assms by (simp add: expanded_repositories_def)
next
  case False
  let ?seen = "ro_root ` set primary"
  let ?ids = "set (present_ids (map ro_id primary))"
  let ?by = "root_for_id registry (rn_id ` set (gr_nodes g)) roots"
  let ?found = "List.map_filter (expansion_of rt (rg_allowed s) ?ids ?by ?seen) (gr_edges g)"
  have es: "es = take_expanded registry (rg_max_expansions s) (sort ?found) ?seen []"
    using assms(1) False by (simp add: expanded_repositories_def Let_def)
  have props: "distinct (map ro_root es) \<and> int (length es) \<le> rg_max_expansions s
      \<and> (\<forall>r \<in> set es. ro_root r \<notin> ?seen \<and> (\<exists>x \<in> set ?found. expands registry x r))"
    by (rule take_expanded_props [OF _ _ _ _ _ _ es]) (use assms(2) in auto)
  have "ro_tier r = ''graph_expansion'' \<and> ro_root r \<in> set roots \<and> ro_id r = identity_of registry (ro_root r)
      \<and> reviewed_neighbor s g primary r"
    if "r \<in> set es" for r
  proof -
    obtain x e where x: "expands registry x r" "e \<in> set (gr_edges g)"
      "expansion_of rt (rg_allowed s) ?ids ?by ?seen e = Some x"
      using props \<open>r \<in> set es\<close> by (auto simp: map_filter_set)
    from expansion_of_sound [OF x(3,1), of "rn_id ` set (gr_nodes g)" "set roots"] root_for_id_sound
    have "eg_relationship e \<in> set (rg_allowed s) \<and> ro_root r \<in> set roots
      \<and> ro_relationship r = Some (relationship_value (eg_relationship e)) \<and> ro_prior r = relation_prior (eg_relationship e)
      \<and> (\<exists>anchor neighbor. ro_anchor r = Some anchor \<and> ro_id r = Some neighbor \<and> neighbor \<in> rn_id ` set (gr_nodes g)
         \<and> {eg_source e, eg_target e} = {anchor, neighbor} \<and> anchor \<in> ?ids)" by blast
    then show ?thesis using x(1,2) unfolding reviewed_neighbor_def
      by (auto simp: expands_def split: prod.splits)
  qed
  then show ?thesis using props by blast
qed

lemma signal_of_root: "signal_of registry workspace query changed r = Some x \<Longrightarrow> fst x = r"
  by (cases "dget registry r"; cases x) (simp_all add: signal_of_def Let_def split: if_split_asm)

lemma primary_repositories_props:
  assumes "ps = primary_repositories registry bound workspace query changed roots" "1 \<le> bound"
  shows "distinct (map ro_root ps) \<and> int (length ps) \<le> bound \<and> ro_root ` set ps \<subseteq> set roots
    \<and> (roots \<noteq> [] \<longrightarrow> ps \<noteq> [])
    \<and> (\<forall>r \<in> set ps. ro_tier r = ''primary'' \<and> ro_prior r = 1 \<and> ro_id r = identity_of registry (ro_root r))"
proof -
  let ?sig = "List.map_filter (signal_of registry workspace query changed) roots"
  let ?s = "if ?sig = [] \<and> roots \<noteq> [] then [(hd roots, ''default_local_repository'')] else ?sig"
  have ps: "ps = take_primary registry bound ?s {} []" using assms(1) by (simp add: primary_repositories_def Let_def)
  have "fst ` set ?sig \<subseteq> set roots" unfolding map_filter_set using signal_of_root by fastforce
  then have sub: "fst ` set ?s \<subseteq> set roots" by (auto simp: hd_in_set)
  have ne: "roots \<noteq> [] \<Longrightarrow> ?s \<noteq> []" by simp
  have "roots \<noteq> [] \<Longrightarrow> ps \<noteq> []"
  proof -
    assume "roots \<noteq> []"
    then obtain r reason rest where s: "?s = (r, reason) # rest" using ne by (metis list.exhaust surj_pair)
    have "ps = take_primary registry bound rest {r} [routed r (identity_of registry r) ''primary'' 1 reason]"
      using assms(2) unfolding ps s by simp
    from take_primary_props [OF _ _ _ _ this] assms(2) show "ps \<noteq> []" by (auto simp: routed_def)
  qed
  moreover have "distinct (map ro_root ps) \<and> int (length ps) \<le> bound \<and> ro_root ` set ps \<subseteq> {} \<union> fst ` set ?s
      \<and> set [] \<subseteq> set ps
      \<and> (\<forall>r \<in> set ps. ro_tier r = ''primary'' \<and> ro_prior r = 1 \<and> ro_id r = identity_of registry (ro_root r))"
    by (rule take_primary_props [OF _ _ _ _ ps]) (use assms(2) in auto)
  ultimately show ?thesis using sub unfolding Un_empty_left by (blast intro: subset_trans)
qed

lemma routing_settings_bounds:
  "routing_settings_of rt config = Inr s \<Longrightarrow> 1 \<le> rg_max_primary s \<and> 0 \<le> rg_max_expansions s"
  by (auto simp: routing_settings_of_def rbind_Inr_iff Let_def)

text \<open>Every expansion in a prefix of the list comes after all primary repositories.\<close>

lemma take_keeps_primaries:
  assumes "r \<in> set (take n (ps @ es))" "r \<notin> set ps"
    and "\<forall>q \<in> set ps. T q" "\<forall>q \<in> set es. \<not> T q"
  shows "filter T (take n (ps @ es)) = ps"
proof -
  have "length ps < n" using assms(1,2) by (cases "length ps < n") (auto dest: in_set_takeD)
  moreover have "filter T (take m es) = []" for m using assms(4) by (auto simp: filter_empty_conv dest: in_set_takeD)
  ultimately show ?thesis using assms(3) by (simp add: filter_id_conv)
qed

lemma filter_take_le: "length (filter P (take m xs)) \<le> length (filter P xs)"
  by (metis append_take_drop_id filter_append le_add1 length_append)

definition is_primary :: "routed_repository \<Rightarrow> bool" where
  "is_primary r = (ro_tier r = ''primary'')"

lemma max_roots_pos: "max_roots config n = Inr m \<Longrightarrow> 1 \<le> m"
  by (auto simp: max_roots_def rbind_Inr_iff)

text \<open>A repository without an identity is taken only when nothing is signaled, and then it is the first root.\<close>

lemma take_primary_from:
  "r \<in> set (take_primary registry bound sig seen acc) \<Longrightarrow> r \<in> set acc \<or> (ro_root r, ro_reason r) \<in> set sig"
  by (induction registry bound sig seen acc rule: take_primary.induct) (auto simp: routed_def split: if_splits)

lemma signal_of_registered: "signal_of registry workspace query changed r = Some x \<Longrightarrow> identity_of registry r \<noteq> None"
  by (auto simp: signal_of_def identity_of_def split: option.splits)

lemma unregistered_is_default:
  assumes "r \<in> set (primary_repositories registry bound workspace query changed roots)" "identity_of registry (ro_root r) = None"
  shows "ro_root r = hd roots \<and> ro_reason r = ''default_local_repository''"
proof -
  let ?sig = "List.map_filter (signal_of registry workspace query changed) roots"
  have "(ro_root r, ro_reason r) \<in> set (if ?sig = [] \<and> roots \<noteq> [] then [(hd roots, ''default_local_repository'')] else ?sig)"
    using take_primary_from [of r registry bound _ "{}" "[]"] assms(1) by (auto simp: primary_repositories_def Let_def)
  moreover have "(ro_root r, ro_reason r) \<notin> set ?sig"
    using assms(2) signal_of_root signal_of_registered unfolding map_filter_set by fastforce
  ultimately show ?thesis by (auto split: if_splits)
qed

text \<open>The plan when at least one of the roots is registered.\<close>

definition reviewed_plan :: "routing_settings \<Rightarrow> registered dict \<Rightarrow> repository_graph \<Rightarrow> string list \<Rightarrow> routed_repository list \<Rightarrow> bool" where
  "reviewed_plan s registry g roots rs =
     ((\<forall>r \<in> set rs. ro_id r = identity_of registry (ro_root r)
          \<and> (ro_tier r = ''primary'' \<and> (ro_id r = None \<longrightarrow> ro_root r = hd roots \<and> ro_reason r = ''default_local_repository'')
             \<or> ro_tier r = ''graph_expansion'' \<and> rg_enabled s \<and> reviewed_neighbor s g (filter is_primary rs) r))
      \<and> int (length (filter is_primary rs)) \<le> rg_max_primary s
      \<and> int (length (filter (\<lambda>r. ro_tier r = ''graph_expansion'') rs)) \<le> rg_max_expansions s)"

lemma primary_reviewed:
  assumes "ps = primary_repositories registry (rg_max_primary s) workspace query changed roots" "1 \<le> rg_max_primary s" "r \<in> set ps"
  shows "ro_id r = identity_of registry (ro_root r) \<and> ro_tier r = ''primary''
    \<and> (ro_id r = None \<longrightarrow> ro_root r = hd roots \<and> ro_reason r = ''default_local_repository'')"
proof -
  have id: "ro_id r = identity_of registry (ro_root r)" "ro_tier r = ''primary''"
    using primary_repositories_props [OF assms(1,2)] assms(3) by blast+
  moreover have "ro_root r = hd roots \<and> ro_reason r = ''default_local_repository''" if "ro_id r = None"
    by (rule unregistered_is_default [OF assms(3) [unfolded assms(1)]]) (use id(1) that in simp)
  ultimately show ?thesis by blast
qed

lemma reviewed_primaries:
  assumes "ps = primary_repositories registry (rg_max_primary s) workspace query changed roots" "1 \<le> rg_max_primary s" "0 \<le> rg_max_expansions s"
  shows "reviewed_plan s registry g roots (take n ps)"
proof -
  note P = primary_repositories_props [OF assms(1,2)]
  have "filter (\<lambda>r. ro_tier r = ''graph_expansion'') (take n ps) = []" using P by (auto simp: filter_empty_conv dest: in_set_takeD)
  then have "int (length (filter (\<lambda>r. ro_tier r = ''graph_expansion'') (take n ps))) \<le> rg_max_expansions s" using assms(3) by simp
  moreover have "int (length (filter is_primary (take n ps))) \<le> rg_max_primary s"
  proof -
    have "length (filter is_primary (take n ps)) \<le> length ps"
      using filter_take_le [of is_primary n ps] length_filter_le [of is_primary ps] by linarith
    moreover have "int (length ps) \<le> rg_max_primary s" using P by blast
    ultimately show ?thesis by linarith
  qed
  moreover have "ro_id r = identity_of registry (ro_root r) \<and> ro_tier r = ''primary''
      \<and> (ro_id r = None \<longrightarrow> ro_root r = hd roots \<and> ro_reason r = ''default_local_repository'')"
    if "r \<in> set (take n ps)" for r
    by (rule primary_reviewed [OF assms(1,2) in_set_takeD [OF that]])
  ultimately show ?thesis unfolding reviewed_plan_def by blast
qed

lemma reviewed_chosen:
  assumes "ps = primary_repositories registry (rg_max_primary s) workspace query changed roots" "1 \<le> rg_max_primary s"
    and "es = expanded_repositories rt s registry g roots ps" "0 \<le> rg_max_expansions s" "rg_enabled s"
  shows "reviewed_plan s registry g roots (take n (ps @ es))"
proof -
  let ?rs = "take n (ps @ es)"
  note P = primary_repositories_props [OF assms(1,2)] and E = expanded_repositories_props [OF assms(3,4)]
  have tiers: "\<forall>r \<in> set ps. is_primary r" "\<forall>r \<in> set es. \<not> is_primary r" "\<forall>r \<in> set ps. ro_tier r \<noteq> ''graph_expansion''"
    using P E by (auto simp: is_primary_def)
  have "filter is_primary (ps @ es) = ps" "filter (\<lambda>r. ro_tier r = ''graph_expansion'') (ps @ es) = es"
    using tiers E by (auto simp: filter_id_conv filter_empty_conv)
  then have "length (filter is_primary ?rs) \<le> length ps" "length (filter (\<lambda>r. ro_tier r = ''graph_expansion'') ?rs) \<le> length es"
    using filter_take_le by metis+
  then have bounds: "int (length (filter is_primary ?rs)) \<le> rg_max_primary s"
    "int (length (filter (\<lambda>r. ro_tier r = ''graph_expansion'') ?rs)) \<le> rg_max_expansions s" using P E by linarith+
  have "ro_id r = identity_of registry (ro_root r)
      \<and> (ro_tier r = ''primary'' \<and> (ro_id r = None \<longrightarrow> ro_root r = hd roots \<and> ro_reason r = ''default_local_repository'')
         \<or> ro_tier r = ''graph_expansion'' \<and> rg_enabled s \<and> reviewed_neighbor s g (filter is_primary ?rs) r)"
    if r: "r \<in> set ?rs" for r
  proof (cases "r \<in> set ps")
    case True
    from primary_reviewed [OF assms(1,2) this] show ?thesis by blast
  next
    case False
    then have "r \<in> set es" using in_set_takeD [OF r] by simp
    moreover have "filter is_primary ?rs = ps" by (rule take_keeps_primaries [OF r False tiers(1,2)])
    ultimately show ?thesis using E assms(5) by simp
  qed
  then show ?thesis unfolding reviewed_plan_def using bounds by blast
qed

text \<open>The roots of a plan are distinct roots of the caller, and there is one when the caller has one.\<close>

definition routes_among :: "string list \<Rightarrow> routed_repository list \<Rightarrow> bool" where
  "routes_among roots rs = (distinct (map ro_root rs) \<and> ro_root ` set rs \<subseteq> set roots \<and> (roots = [] \<or> rs \<noteq> []))"

lemma chosen_among:
  assumes "ps = primary_repositories registry (rg_max_primary s) workspace query changed roots" "1 \<le> rg_max_primary s"
    and "es = expanded_repositories rt s registry g roots ps" "0 \<le> rg_max_expansions s" "0 < n"
  shows "routes_among roots (take n (ps @ es))"
proof -
  note P = primary_repositories_props [OF assms(1,2)] and E = expanded_repositories_props [OF assms(3,4)]
  have "ro_root ` set ps \<inter> ro_root ` set es = {}"
  proof (rule equals0I)
    fix x assume "x \<in> ro_root ` set ps \<inter> ro_root ` set es"
    then obtain r where "r \<in> set es" "ro_root r \<in> ro_root ` set ps" by (elim IntE imageE) simp
    then show False using E by blast
  qed
  then have "distinct (map ro_root (ps @ es))" using P E by simp
  moreover have "map ro_root (take n (ps @ es)) = take n (map ro_root (ps @ es))" by (simp only: take_map)
  ultimately have "distinct (map ro_root (take n (ps @ es)))" by (simp only: distinct_take)
  moreover have "ro_root ` set (ps @ es) \<subseteq> set roots" using P E by auto
  then have "ro_root ` set (take n (ps @ es)) \<subseteq> set roots" using set_take_subset [of n "ps @ es"] by blast
  ultimately show ?thesis unfolding routes_among_def using P assms(5) by auto
qed

lemma legacy_among:
  assumes "distinct roots" "1 \<le> m" "rs = map (\<lambda>r. routed r None ''legacy_explicit'' 1 ''legacy_workspace_root'') (take (nat m) roots)"
  shows "routes_among roots rs"
proof -
  have "map ro_root rs = take (nat m) roots" by (simp add: assms(3) routed_def comp_def)
  then show ?thesis using assms unfolding routes_among_def by (auto simp: distinct_take routed_def dest: in_set_takeD)
qed

lemma select_cases:
  assumes "select_repositories rt s registry g workspace roots query changed config = Inr p"
  obtains (legacy) m where "roots \<noteq> []" "present_ids (map (identity_of registry) roots) = []" "max_roots config (length roots) = Inr m"
      "rk_repositories p = map (\<lambda>r. routed r None ''legacy_explicit'' 1 ''legacy_workspace_root'') (take (nat m) roots)"
    | (local) "\<not> rg_enabled s"
      "rk_repositories p = primary_repositories registry (rg_max_primary s) workspace query changed roots"
    | (graph) m ps where "rg_enabled s" "ps = primary_repositories registry (rg_max_primary s) workspace query changed roots" "1 \<le> m"
      "rk_repositories p = take (nat m) (ps @ expanded_repositories rt s registry g roots ps)"
proof (cases "roots \<noteq> [] \<and> present_ids (map (identity_of registry) roots) = []")
  case True
  then show thesis using assms legacy by (auto simp: select_repositories_def legacy_plan_def rbind_Inr_iff)
next
  case notlegacy: False
  let ?ps = "primary_repositories registry (rg_max_primary s) workspace query changed roots"
  let ?found = "?ps @ expanded_repositories rt s registry g roots ?ps"
  show thesis
  proof (cases "rg_enabled s")
    case True
    then obtain m where "max_roots config (if ?found = [] then 1 else length ?found) = Inr m"
      "rk_repositories p = take (nat m) ?found"
      using assms notlegacy unfolding select_repositories_def Let_def rbind_Inr_iff by (auto simp: rbind_Inr_iff split: if_splits)
    then show thesis using graph [OF True refl] max_roots_pos by blast
  next
    case False
    then show thesis using assms notlegacy local by (auto simp: select_repositories_def Let_def split: if_splits)
  qed
qed

lemma plan_selects:
  assumes "plan_repository_retrieval rt root_of reg graph_file workspace roots query changed config = Inr p" "distinct roots"
  obtains s registry_file doc specs registry where "routing_settings_of rt config = Inr s" "reg = Inr registry_file" "graph_file = Inr doc"
    "specs = load_registry rt registry_file" "registry = registry_roots rt root_of specs"
    "routes_among roots (rk_repositories p)"
    "(if roots \<noteq> [] \<and> present_ids (map (identity_of registry) roots) = []
      then \<exists>m. max_roots config (length roots) = Inr m
        \<and> rk_repositories p = map (\<lambda>r. routed r None ''legacy_explicit'' 1 ''legacy_workspace_root'') (take (nat m) roots)
      else reviewed_plan s registry (load_repository_graph rt specs doc) roots (rk_repositories p))"
proof -
  obtain s registry_file doc where s: "routing_settings_of rt config = Inr s" "reg = Inr registry_file" "graph_file = Inr doc"
    and sel: "select_repositories rt s (registry_roots rt root_of (load_registry rt registry_file))
      (load_repository_graph rt (load_registry rt registry_file) doc) workspace roots query changed config = Inr p"
    using assms(1) by (auto simp: plan_repository_retrieval_def rbind_Inr_iff Let_def)
  note b = routing_settings_bounds [OF s(1)]
  let ?registry = "registry_roots rt root_of (load_registry rt registry_file)"
  let ?g = "load_repository_graph rt (load_registry rt registry_file) doc"
  from sel have "routes_among roots (rk_repositories p)
    \<and> (if roots \<noteq> [] \<and> present_ids (map (identity_of ?registry) roots) = []
      then \<exists>m. max_roots config (length roots) = Inr m
        \<and> rk_repositories p = map (\<lambda>r. routed r None ''legacy_explicit'' 1 ''legacy_workspace_root'') (take (nat m) roots)
      else reviewed_plan s ?registry ?g roots (rk_repositories p))"
  proof (cases "roots \<noteq> [] \<and> present_ids (map (identity_of ?registry) roots) = []")
    case True
    then obtain m where "max_roots config (length roots) = Inr m"
      "rk_repositories p = map (\<lambda>r. routed r None ''legacy_explicit'' 1 ''legacy_workspace_root'') (take (nat m) roots)"
      using sel by (auto simp: select_repositories_def legacy_plan_def rbind_Inr_iff)
    then show ?thesis using True legacy_among [OF assms(2) max_roots_pos] by auto
  next
    case notlegacy: False
    from sel show ?thesis
    proof (cases rule: select_cases)
      case legacy
      then show ?thesis using notlegacy by simp
    next
      case local
      let ?ps = "primary_repositories ?registry (rg_max_primary s) workspace query changed roots"
      have "routes_among roots ?ps" using primary_repositories_props [OF refl, of "rg_max_primary s"] b by (auto simp: routes_among_def)
      moreover have "reviewed_plan s ?registry ?g roots ?ps"
        using reviewed_primaries [OF refl, where s = s and n = "length ?ps" and roots = roots and registry = ?registry and g = ?g and workspace = workspace and query = query and changed = changed] b by simp
      ultimately show ?thesis unfolding local(2) if_not_P [OF notlegacy] by simp
    next
      case (graph m ps)
      let ?rs = "take (nat m) (ps @ expanded_repositories rt s ?registry ?g roots ps)"
      have "reviewed_plan s ?registry ?g roots ?rs" using reviewed_chosen [OF graph(2) _ refl _ graph(1)] b by simp
      moreover have "routes_among roots ?rs" using chosen_among [OF graph(2) _ refl] b graph(3) by simp
      ultimately show ?thesis unfolding graph(4) if_not_P [OF notlegacy] by blast
    qed
  qed
  then show thesis using that [OF s refl refl] by blast
qed

end
