(* ===== verification/EngineParts.thy ===== *)
theory EngineParts
  imports Evidence Selection Routing Scheduler RepositoryRouting
begin

text \<open>
  The helpers of \<open>workflow_engine.py\<close>: provenance and envelopes, the ranking policy and hybrid ranking,
  the caps and adaptive budgets, the structural anchor, and the provider lists of \<open>retriever_plugins.py\<close>.
  \<open>blake\<close>, \<open>est\<close> and \<open>mlog\<close> are the digest, the token estimator and the logarithm of the components used;
  \<open>resolve\<close> is \<open>Path.resolve\<close> and \<open>parse\<close> is \<open>json.loads\<close>, both \<open>None\<close> where the call raises.
\<close>

section \<open>Provenance\<close>

definition PROVENANCE_KEYS :: "string list" where
  "PROVENANCE_KEYS = [''path'', ''file'', ''line'', ''start_line'', ''end_line'', ''sha256'']"

definition provenance_of :: "string option \<Rightarrow> context_item \<Rightarrow> context_item" where
  "provenance_of workspace i =
     (let p1 = dset (dset (ci_provenance i) ''retriever'' (JStr (ci_source i))) ''fresh'' (JBool (\<not> ci_stale i));
          p2 = (case workspace of None \<Rightarrow> p1 | Some w \<Rightarrow> dset p1 ''workspace_root'' (JStr w));
          p3 = dset p2 ''trust'' (JStr (trust_value (trust_class_for_source (ci_source i))));
          p4 = fold (\<lambda>key p. case dget (ci_metadata i) key of None \<Rightarrow> p | Some v \<Rightarrow> dset p key v) PROVENANCE_KEYS p3
      in i\<lparr>ci_provenance := p4, ci_evidence := None\<rparr>)"

text \<open>The repository an item came from, by its provenance; an item without one belongs to the control root.\<close>

definition item_root :: "(string \<Rightarrow> string option) \<Rightarrow> string \<Rightarrow> context_item \<Rightarrow> string" where
  "item_root resolve control_root i =
     (case jget (ci_provenance i) ''workspace_root'' of
        JStr raw \<Rightarrow> (if strip raw = [] then control_root
          else case resolve raw of None \<Rightarrow> control_root | Some p \<Rightarrow> p)
      | _ \<Rightarrow> control_root)"

definition attach_envelope ::
  "runtime \<Rightarrow> (string \<Rightarrow> string option) \<Rightarrow> string \<Rightarrow> string dict \<Rightarrow> context_item \<Rightarrow> context_item result" where
  "attach_envelope rt resolve control_root repository_ids i =
     (let named = dget repository_ids (item_root resolve control_root i) in
      case (case named of Some n \<Rightarrow> Some n | None \<Rightarrow> dget repository_ids control_root) of
        None \<Rightarrow> Inl (KeyError control_root)
      | Some repository \<Rightarrow> Inr (i\<lparr>ci_evidence := Some (build_evidence_envelope rt (ci_source i) (ci_text i) (ci_stale i)
          (ci_metadata i) (ci_provenance i) repository)\<rparr>))"

section \<open>Ranking\<close>

definition RANKERS :: "string list" where
  "RANKERS = [''adaptive'', ''source'', ''bm25'', ''rrf'', ''rrf_mmr'']"

record ranking_policy =
  ak_ranker :: string
  ak_rrf_k :: int
  ak_mmr_lambda :: rat
  ak_no_early_gate :: bool

text \<open>\<open>except (TypeError, ValueError)\<close>\<close>

definition or_default :: "'a result \<Rightarrow> 'a \<Rightarrow> 'a result" where
  "or_default r d = (case r of Inl (TypeError _) \<Rightarrow> Inr d | Inl (ValueError _) \<Rightarrow> Inr d | _ \<Rightarrow> r)"

definition clamp_unit :: "pyfloat \<Rightarrow> rat" where
  "clamp_unit x = (case fl_min (Fin 1) (fl_max (Fin 0) x) of Fin r \<Rightarrow> r | _ \<Rightarrow> 0)"

definition algorithm_policy :: "runtime \<Rightarrow> json dict \<Rightarrow> ranking_policy result" where
  "algorithm_policy rt config =
     rbind (or_empty (jget config ''context'')) (\<lambda>context.
     rbind (or_empty (jget context ''experiments'')) (\<lambda>experiments.
     let named = lower (strip (py_str rt (jget_or experiments ''hybrid_ranker'' (JStr ''adaptive''))));
         ranker = (if named \<in> set RANKERS then named else ''adaptive'')
     in rbind (or_default (rbind (to_int (jget_or experiments ''rrf_k'' (JInt 60))) (\<lambda>n. Inr (max 1 n))) 60) (\<lambda>k.
        rbind (or_default (to_float rt (jget_or experiments ''mmr_lambda'' (JFloat (Fin (75/100))))) (Fin (75/100))) (\<lambda>l.
          Inr \<lparr>ak_ranker = ranker, ak_rrf_k = k, ak_mmr_lambda = clamp_unit l,
            ak_no_early_gate = truthy (jget_or experiments ''disable_early_sufficiency_gate'' (JBool False))\<rparr>))))"

definition policy_json :: "ranking_policy \<Rightarrow> json dict" where
  "policy_json p = [(''hybrid_ranker'', JStr (ak_ranker p)), (''rrf_k'', JInt (ak_rrf_k p)),
     (''mmr_lambda'', JFloat (Fin (ak_mmr_lambda p))), (''disable_early_sufficiency_gate'', JBool (ak_no_early_gate p))]"

definition new_scorer :: "context_item bm25" where
  "new_scorer = \<lparr>bm_k1 = 15/10, bm_b = 75/100, bm_doc_freqs = [], bm_docs = [], bm_avgdl = 0, bm_idf = []\<rparr>"

definition by_score :: "context_item list \<Rightarrow> context_item list" where
  "by_score items = sort_key (\<lambda>i. - ci_score i) items"

definition task_weights :: "task_policy option \<Rightarrow> rat list option" where
  "task_weights p = map_option (\<lambda>t. [tp_source_weight t, tp_lexical_weight t, tp_specialist_weight t]) p"

definition fit_texts :: "(rat \<Rightarrow> rat) \<Rightarrow> context_item list \<Rightarrow> context_item bm25 result" where
  "fit_texts mlog items = bm25_fit mlog (map ci_text items) items new_scorer"

text \<open>The lexical ranking is completed by the items BM25 gives no score, in source order.\<close>

definition lexical_ranking ::
  "(rat \<Rightarrow> rat) \<Rightarrow> (string \<Rightarrow> string) \<Rightarrow> string \<Rightarrow> context_item list \<Rightarrow> context_item list \<Rightarrow> context_item list result" where
  "lexical_ranking mlog blake query cands source_rank =
     rbind (fit_texts mlog cands) (\<lambda>scorer.
     let ranked = map snd (bm25_rank scorer query);
         keys = dedupe_key blake ` set ranked
     in Inr (ranked @ filter (\<lambda>i. dedupe_key blake i \<notin> keys) source_rank))"

definition fused_ranking ::
  "(rat \<Rightarrow> rat) \<Rightarrow> (string \<Rightarrow> string) \<Rightarrow> string \<Rightarrow> ranking_policy \<Rightarrow> string \<Rightarrow> bool \<Rightarrow> task_policy option \<Rightarrow> int
     \<Rightarrow> context_item list list \<Rightarrow> context_item list result" where
  "fused_ranking mlog blake query policy mode adaptive task limit rankings =
     rbind (reciprocal_rank_fusion rankings (dedupe_key blake) (ak_rrf_k policy) (task_weights task)) (\<lambda>fusion.
     let items = map snd fusion; scores = map fst fusion in
     if mode = ''rrf'' \<or> length items \<le> 1 then Inr (slice_to items limit)
     else rbind (fit_texts mlog items) (\<lambda>scorer.
       maximal_marginal_relevance (tokenize query) (bm_docs scorer) scores
         (case task of Some t \<Rightarrow> if adaptive then tp_mmr_lambda t else ak_mmr_lambda policy | None \<Rightarrow> ak_mmr_lambda policy)
         (min limit (int (length items)))))"

definition rank_candidates ::
  "(rat \<Rightarrow> rat) \<Rightarrow> (string \<Rightarrow> string) \<Rightarrow> string \<Rightarrow> context_item list \<Rightarrow> context_item list \<Rightarrow> int \<Rightarrow> ranking_policy
     \<Rightarrow> task_policy option \<Rightarrow> context_item list result" where
  "rank_candidates mlog blake query base specialist limit policy task =
     (let cands = map (provenance_of None) (base @ specialist);
          adaptive = (ak_ranker policy = ''adaptive'');
          mode = (if adaptive then ''rrf_mmr'' else ak_ranker policy);
          key = dedupe_key blake
      in if cands = [] then Inr []
      else if adaptive \<and> specialist = [] then Inr (dedupe key cands {})
      else let source_rank = dedupe key (by_score cands) {} in
        rbind (lexical_ranking mlog blake query cands source_rank) (\<lambda>lexical.
        if mode = ''source'' then Inr (slice_to source_rank limit)
        else if mode = ''bm25'' then Inr (slice_to (dedupe key lexical {}) limit)
        else fused_ranking mlog blake query policy mode adaptive task limit
          [source_rank, lexical, dedupe key (by_score (map (provenance_of None) specialist)) {}]))"

definition hybrid_rank ::
  "runtime \<Rightarrow> (rat \<Rightarrow> rat) \<Rightarrow> (string \<Rightarrow> string) \<Rightarrow> string \<Rightarrow> context_item list \<Rightarrow> context_item list \<Rightarrow> int \<Rightarrow> json dict
     \<Rightarrow> task_policy option \<Rightarrow> context_item list result" where
  "hybrid_rank rt mlog blake query base specialist limit config task =
     (if base @ specialist = [] then Inr []
      else rbind (algorithm_policy rt config) (\<lambda>policy.
        rank_candidates mlog blake query base specialist limit policy task))"

section \<open>Caps\<close>

fun hard_cap_from :: "(context_item \<Rightarrow> string) \<Rightarrow> int \<Rightarrow> string set \<Rightarrow> int \<Rightarrow> context_item list \<Rightarrow> context_item list" where
  "hard_cap_from key chars seen used [] = []"
| "hard_cap_from key chars seen used (i # is) =
     (if chars \<le> used \<or> key i \<in> seen then hard_cap_from key chars seen used is
      else case truncate_text (ci_text i) (chars - used) of (t, shortened) \<Rightarrow>
        (if t = [] then hard_cap_from key chars (insert (key i) seen) used is
         else i\<lparr>ci_text := t,
                ci_metadata := (if shortened then dset (ci_metadata i) ''truncated'' (JBool True) else ci_metadata i),
                ci_evidence := None\<rparr>
              # hard_cap_from key chars (insert (key i) seen) (used + int (length t)) is))"

definition hard_cap :: "(string \<Rightarrow> string) \<Rightarrow> context_item list \<Rightarrow> int \<Rightarrow> context_item list" where
  "hard_cap blake items chars = hard_cap_from (dedupe_key blake) chars {} 0 items"

fun token_cap :: "(string \<Rightarrow> int) \<Rightarrow> int \<Rightarrow> int \<Rightarrow> context_item list \<Rightarrow> context_item list" where
  "token_cap est limit used [] = []"
| "token_cap est limit used (i # is) =
     (if limit < used + est (ci_text i) then token_cap est limit used is
      else i # token_cap est limit (used + est (ci_text i)) is)"

text \<open>\<open>int(amount * fraction)\<close>, the fraction chosen by the sufficiency score.\<close>

definition adaptive_config :: "json dict \<Rightarrow> json dict result" where
  "adaptive_config config =
     rbind (or_empty (jget config ''context'')) (\<lambda>context. or_empty (jget context ''adaptive_budget''))"

definition budget_fraction :: "runtime \<Rightarrow> json dict \<Rightarrow> rat \<Rightarrow> pyfloat result" where
  "budget_fraction rt cfg score =
     rbind (to_float rt (jget_or cfg ''high_sufficiency_fraction'' (JFloat (Fin (45/100))))) (\<lambda>high.
     rbind (to_float rt (jget_or cfg ''medium_sufficiency_fraction'' (JFloat (Fin (7/10))))) (\<lambda>medium.
       Inr (if 86/100 \<le> score then high else if 72/100 \<le> score then medium else Fin 1)))"

definition scaled :: "int \<Rightarrow> pyfloat \<Rightarrow> int result" where
  "scaled amount fraction = to_int (JFloat (fl_mul (Fin (of_int amount)) fraction))"

definition adaptive_char_limit :: "runtime \<Rightarrow> context_budget \<Rightarrow> rat \<Rightarrow> json dict \<Rightarrow> int result" where
  "adaptive_char_limit rt b score config =
     rbind (adaptive_config config) (\<lambda>cfg.
     if \<not> truthy (jget_or cfg ''enabled'' (JBool True)) then Inr (cb_context_chars b)
     else rbind (budget_fraction rt cfg score) (\<lambda>fraction.
       rbind (to_int (jget_or cfg ''minimum_chars'' (JInt 900))) (\<lambda>minimum.
       rbind (scaled (cb_context_chars b) fraction) (\<lambda>n.
         Inr (min (cb_context_chars b) (max minimum n))))))"

definition adaptive_token_limit :: "runtime \<Rightarrow> context_budget \<Rightarrow> rat \<Rightarrow> json dict \<Rightarrow> int result" where
  "adaptive_token_limit rt b score config =
     rbind (adaptive_config config) (\<lambda>cfg.
     if \<not> truthy (jget_or cfg ''enabled'' (JBool True)) then Inr (cb_estimated_tokens b)
     else rbind (budget_fraction rt cfg score) (\<lambda>fraction.
       rbind (scaled (cb_estimated_tokens b) fraction) (\<lambda>n.
         Inr (min (cb_estimated_tokens b) (max 1 n)))))"

definition evidence_state :: "route_decision \<Rightarrow> bool \<Rightarrow> string" where
  "evidence_state decision sufficient =
     (if sufficient then ''sufficient'' else if rd_lane decision = Answer then ''abstain'' else ''requires_exploration'')"

definition scheduler_settings :: "runtime \<Rightarrow> json dict \<Rightarrow> (int \<times> pyfloat) result" where
  "scheduler_settings rt config =
     rbind (or_empty (jget config ''execution'')) (\<lambda>execution.
     rbind (or_empty (jget execution ''retrieval_scheduler'')) (\<lambda>cfg.
     rbind (to_int (jget_or cfg ''max_concurrency'' (JInt 4))) (\<lambda>n.
     rbind (to_float rt (jget_or cfg ''global_deadline_seconds'' (JFloat (Fin 12)))) (\<lambda>d.
       Inr (max 1 n, fl_max (Fin (5/100)) d)))))"

section \<open>Failures\<close>

definition nonempty_or :: "string option \<Rightarrow> string \<Rightarrow> string" where
  "nonempty_or s d = (case s of Some t \<Rightarrow> if t = [] then d else t | None \<Rightarrow> d)"

definition scheduler_error :: "'v outcome \<Rightarrow> json dict" where
  "scheduler_error oc = [(''kind'', JStr (nonempty_or (ou_error_kind oc) ''scheduler_error'')),
     (''message'', JStr (nonempty_or (ou_error oc) ''retrieval call failed'')), (''timed_out'', JBool (ou_timed_out oc))]"

definition fallback_label :: "string \<Rightarrow> string \<Rightarrow> string" where
  "fallback_label label kind =
     (if label = ''semantic'' then ''semantic provider failed: '' @ kind else label @ '' failed: '' @ kind)"

section \<open>The structural anchor\<close>

definition anchor_order :: "(string \<Rightarrow> string) \<Rightarrow> context_item \<Rightarrow> bool \<times> rat \<times> string" where
  "anchor_order blake i = (ci_stale i, - ci_score i, dedupe_key blake i)"

text \<open>Symbol and path of an item, from its metadata, or from the JSON text of an index entry.\<close>

definition anchor_parts :: "runtime \<Rightarrow> (string \<Rightarrow> json option) \<Rightarrow> context_item \<Rightarrow> string \<times> string" where
  "anchor_parts rt parse i =
     (let m = ci_metadata i;
          symbol = strip (text_or_empty rt (py_or (jget m ''symbol'') (jget m ''qualified_name'')));
          path = strip (text_or_empty rt (py_or (jget m ''path'') (jget m ''file'')))
      in if symbol = [] \<and> ci_source i = ''lightweight_index''
         then (case parse (ci_text i) of
             Some (JDict payload) \<Rightarrow>
               (strip (text_or_empty rt (py_or (jget payload ''symbol'') (jget payload ''qualified_name''))),
                if path \<noteq> [] then path
                else strip (text_or_empty rt (py_or (jget payload ''file'') (jget payload ''path''))))
           | _ \<Rightarrow> (symbol, path))
         else (symbol, path))"

record anchor =
  an_symbol :: "string option"
  an_path :: "string option"
  an_root :: "string option"

definition no_anchor :: anchor where
  "no_anchor = \<lparr>an_symbol = None, an_path = None, an_root = None\<rparr>"

definition given_text :: "string \<Rightarrow> string option" where
  "given_text s = (if s = [] then None else Some s)"

definition structural_anchor ::
  "runtime \<Rightarrow> (string \<Rightarrow> json option) \<Rightarrow> (string \<Rightarrow> string option) \<Rightarrow> (string \<Rightarrow> string) \<Rightarrow> context_item list \<Rightarrow> anchor result" where
  "structural_anchor rt parse resolve blake items =
     (case find (\<lambda>i. anchor_parts rt parse i \<noteq> ([], [])) (sort_key (anchor_order blake) items) of
        None \<Rightarrow> Inr no_anchor
      | Some i \<Rightarrow>
          (let (symbol, path) = anchor_parts rt parse i; raw = jget (ci_provenance i) ''workspace_root'' in
           if \<not> truthy raw then Inr \<lparr>an_symbol = given_text symbol, an_path = given_text path, an_root = None\<rparr>
           else (case resolve (py_str rt raw) of
               None \<Rightarrow> Inl (OSError ''symlink loop'')
             | Some p \<Rightarrow> Inr \<lparr>an_symbol = given_text symbol, an_path = given_text path, an_root = Some p\<rparr>)))"

section \<open>Configured providers\<close>

definition VALID_INTENTS :: "string list" where
  "VALID_INTENTS = [''exact'', ''semantic'', ''structural'', ''mixed'', ''all'']"

definition listed :: "json \<Rightarrow> json list result" where
  "listed v = (if truthy v then to_list v else Inr [])"

definition retriever_accepted :: "runtime \<Rightarrow> bool \<Rightarrow> string \<Rightarrow> json dict \<Rightarrow> bool result" where
  "retriever_accepted rt unsafe intent item =
     (let name = strip (py_str rt (jget_or item ''name'' (JStr [])));
          provider_id = strip (text_or_empty rt (jget item ''provider_id''));
          legacy = (case jget_or item ''command'' (JStr []) of
              JList xs \<Rightarrow> xs \<noteq> [] | v \<Rightarrow> strip (py_str rt v) \<noteq> []);
          configured = (provider_id \<noteq> [] \<or> legacy \<and> unsafe)
      in rbind (to_list (py_or (jget item ''intents'') (JList [JStr ''all'']))) (\<lambda>xs.
           let intents = map (\<lambda>x. lower (strip (py_str rt x))) xs in
           Inr (name \<noteq> [] \<and> configured \<and> set intents \<subseteq> set VALID_INTENTS
                \<and> (''all'' \<in> set intents \<or> intent \<in> set intents))))"

fun accepted_retrievers :: "runtime \<Rightarrow> bool \<Rightarrow> string \<Rightarrow> json list \<Rightarrow> json dict list result" where
  "accepted_retrievers rt unsafe intent [] = Inr []"
| "accepted_retrievers rt unsafe intent (v # vs) =
     (case v of
        JDict item \<Rightarrow>
          (if jget_or item ''enabled'' (JBool True) = JBool False then accepted_retrievers rt unsafe intent vs
           else rbind (retriever_accepted rt unsafe intent item) (\<lambda>ok.
             rbind (accepted_retrievers rt unsafe intent vs) (\<lambda>rest. Inr (if ok then item # rest else rest))))
      | _ \<Rightarrow> accepted_retrievers rt unsafe intent vs)"

definition configured_retrievers :: "runtime \<Rightarrow> bool \<Rightarrow> json dict \<Rightarrow> string \<Rightarrow> json dict list result" where
  "configured_retrievers rt unsafe config intent =
     rbind (or_empty (jget config ''context'')) (\<lambda>context.
     rbind (listed (jget context ''external_retrievers'')) (\<lambda>raw. accepted_retrievers rt unsafe intent raw))"

end
