(* ===== verification/CapabilityGate.thy ===== *)
theory CapabilityGate
  imports Domain
begin

text \<open>
  \<open>capability_gate.py\<close>: the deterministic gate between a model-proposed action and its effect.  A
  policy is built from control-plane state; a request is allowed only for an allowlisted tool
  whose structured parameters stay inside the policy's scope.
\<close>

section \<open>Action parameters\<close>

text \<open>What a caller may put into a request: any Python value, of which the gate tells these kinds
  apart (\<open>POther\<close> is an object of any other type, \<open>OtherKey\<close> a mapping key that is no string).\<close>

datatype pkey = Key string | OtherKey

datatype pval =
    PNone
  | PBool bool
  | PInt int
  | PFloat pyfloat
  | PStr string
  | PMap "(pkey \<times> pval) list"
  | PSeq "pval list"
  | POther

definition MAX_PARAMETER_DEPTH :: nat where "MAX_PARAMETER_DEPTH = 6"
definition MAX_PARAMETER_NODES :: nat where "MAX_PARAMETER_NODES = 256"
definition MAX_PARAMETER_STRING_CHARS :: nat where "MAX_PARAMETER_STRING_CHARS = 4096"

definition PRIVILEGED_PARAMETER_KEYS :: "string list" where
  "PRIVILEGED_PARAMETER_KEYS = [''command'', ''commands'', ''shell'', ''argv'', ''executable'', ''network_host'',
     ''host'', ''hostname'', ''url'', ''uri'', ''endpoint_url'', ''secret'', ''secret_name'', ''secrets'', ''token'',
     ''api_key'', ''credential'', ''credentials'', ''provider'', ''provider_id'', ''requested_lane'', ''lane'', ''risk'',
     ''skip_verification'', ''verification_passes'', ''repository_activation'', ''activate_repository'']"

definition REPOSITORY_PARAMETER_KEYS :: "string list" where
  "REPOSITORY_PARAMETER_KEYS = [''repository_id'', ''repo_id'']"

definition DEPTH_PARAMETER_KEYS :: "string list" where
  "DEPTH_PARAMETER_KEYS = [''depth'', ''graph_depth'', ''max_depth'']"

definition PATH_PARAMETER_KEYS :: "string list" where
  "PATH_PARAMETER_KEYS = [''path'', ''file'', ''files'', ''changed_file'', ''changed_files'', ''source_path'', ''target_path'']"

datatype capability = ToolExecution | ProviderSelection | RepositoryActivation | NetworkAccess
  | SecretAccess | SafetyLaneChange | SkipVerification

definition capability_value :: "capability \<Rightarrow> string" where
  "capability_value c = (case c of
     ToolExecution \<Rightarrow> ''tool_execution'' | ProviderSelection \<Rightarrow> ''provider_selection''
   | RepositoryActivation \<Rightarrow> ''repository_activation'' | NetworkAccess \<Rightarrow> ''network_access''
   | SecretAccess \<Rightarrow> ''secret_access'' | SafetyLaneChange \<Rightarrow> ''safety_lane_change''
   | SkipVerification \<Rightarrow> ''skip_verification'')"

datatype denial_reason = UnknownEvidence | InvalidRequest | ToolNotAllowlisted | ControlPlaneOwned
  | OperatorOwned | TrustedRuntimeGrantRequired | VerificationRequired | CapabilityNotGranted
  | PrivilegedParameter | RepositoryScopeViolation | RepositoryScopeRequired | PathScopeViolation
  | GraphDepthExceeded | ParameterBudgetExceeded

definition denial_value :: "denial_reason \<Rightarrow> string" where
  "denial_value r = (case r of
     UnknownEvidence \<Rightarrow> ''unknown_evidence'' | InvalidRequest \<Rightarrow> ''invalid_request''
   | ToolNotAllowlisted \<Rightarrow> ''tool_not_allowlisted'' | ControlPlaneOwned \<Rightarrow> ''control_plane_owned_capability''
   | OperatorOwned \<Rightarrow> ''operator_owned_capability''
   | TrustedRuntimeGrantRequired \<Rightarrow> ''trusted_runtime_grant_required''
   | VerificationRequired \<Rightarrow> ''verification_required'' | CapabilityNotGranted \<Rightarrow> ''capability_not_granted''
   | PrivilegedParameter \<Rightarrow> ''privileged_parameter'' | RepositoryScopeViolation \<Rightarrow> ''repository_scope_violation''
   | RepositoryScopeRequired \<Rightarrow> ''repository_scope_required'' | PathScopeViolation \<Rightarrow> ''path_scope_violation''
   | GraphDepthExceeded \<Rightarrow> ''graph_depth_exceeded'' | ParameterBudgetExceeded \<Rightarrow> ''parameter_budget_exceeded'')"

record action_request =
  rq_capability :: capability
  rq_tool_name :: "string option"
  rq_provider_id :: "string option"
  rq_repository_id :: "string option"
  rq_network_host :: "string option"
  rq_secret_name :: "string option"
  rq_requested_lane :: "string option"
  rq_parameters :: "(pkey \<times> pval) list"
  rq_cited_evidence_ids :: "string list"

record capability_policy =
  cp_schema :: string
  cp_lane :: string
  cp_risk :: string
  cp_allowed_tools :: "string list"
  cp_active_repository_ids :: "string list"
  cp_verification_passes :: int
  cp_max_graph_depth :: int
  cp_denied_by_default :: "string list"
  cp_task_digest :: "string option"
  cp_policy_owner :: string

record authorization_decision =
  ad_allowed :: bool
  ad_reason :: string
  ad_capability :: capability
  ad_request_digest :: string
  ad_policy_schema :: string
  ad_task_digest :: "string option"

definition task_scope_digest :: "runtime \<Rightarrow> string option \<Rightarrow> string option" where
  "task_scope_digest rt task_text = (case task_text of
     None \<Rightarrow> None
   | Some t \<Rightarrow> Some (''sha256:'' @ hexdigest (rt_sha256 rt
       (utf8 (''task-scope-v1'' @ [char_of (0::nat)] @ join '' '' (split_ws t))))))"

section \<open>The request digest\<close>

text \<open>\<open>_ParameterBudgetError\<close>, and the other value errors.\<close>

datatype canonical_error = ParameterBudget | BadParameter

text \<open>\<open>_canonical_value\<close> with its shared node counter: the value, or the error, and the count.\<close>

function (sequential) canonical_value :: "nat \<Rightarrow> pval \<Rightarrow> nat \<Rightarrow> (canonical_error + json) \<times> nat"
  and canonical_items :: "nat \<Rightarrow> pval list \<Rightarrow> nat \<Rightarrow> (canonical_error + json list) \<times> nat"
  and canonical_entries :: "nat \<Rightarrow> (pkey \<times> pval) list \<Rightarrow> nat \<Rightarrow> (canonical_error + json dict) \<times> nat"
where
  "canonical_value depth v n =
     (let n = n + 1 in
      if MAX_PARAMETER_NODES < n \<or> MAX_PARAMETER_DEPTH < depth then (Inl ParameterBudget, n)
      else case v of
        PNone \<Rightarrow> (Inr JNull, n)
      | PBool b \<Rightarrow> (Inr (JBool b), n)
      | PInt i \<Rightarrow> (Inr (JInt i), n)
      | PStr s \<Rightarrow> (if MAX_PARAMETER_STRING_CHARS < length s then Inl ParameterBudget else Inr (JStr s), n)
      | PFloat x \<Rightarrow> (if fl_finite x then Inr (JFloat x) else Inl BadParameter, n)
      | PMap kvs \<Rightarrow>
          (if MAX_PARAMETER_NODES < length kvs then (Inl ParameterBudget, n)
           else case canonical_entries (depth + 1) kvs n of
             (Inl e, n') \<Rightarrow> (Inl e, n') | (Inr d, n') \<Rightarrow> (Inr (JDict d), n'))
      | PSeq xs \<Rightarrow>
          (if MAX_PARAMETER_NODES < length xs then (Inl ParameterBudget, n)
           else case canonical_items (depth + 1) xs n of
             (Inl e, n') \<Rightarrow> (Inl e, n') | (Inr ys, n') \<Rightarrow> (Inr (JList ys), n'))
      | POther \<Rightarrow> (Inl BadParameter, n))"
| "canonical_items depth [] n = (Inr [], n)"
| "canonical_items depth (x # xs) n =
     (case canonical_value depth x n of
        (Inl e, n') \<Rightarrow> (Inl e, n')
      | (Inr y, n') \<Rightarrow> (case canonical_items depth xs n' of
          (Inl e, n'') \<Rightarrow> (Inl e, n'') | (Inr ys, n'') \<Rightarrow> (Inr (y # ys), n'')))"
| "canonical_entries depth [] n = (Inr [], n)"
| "canonical_entries depth ((k, v) # kvs) n =
     (case k of
        OtherKey \<Rightarrow> (Inl BadParameter, n)
      | Key s \<Rightarrow>
          (if s = [] \<or> 128 < length s then (Inl BadParameter, n)
           else case canonical_value depth v n of
             (Inl e, n') \<Rightarrow> (Inl e, n')
           | (Inr y, n') \<Rightarrow> (case canonical_entries depth kvs n' of
               (Inl e, n'') \<Rightarrow> (Inl e, n'') | (Inr d, n'') \<Rightarrow> (Inr ((s, y) # d), n''))))"
  by pat_completeness auto

termination
  by (relation "measure (\<lambda>x. case x of Inl (d, v, n) \<Rightarrow> size v
      | Inr (Inl (d, xs, n)) \<Rightarrow> size_list size xs
      | Inr (Inr (d, kvs, n)) \<Rightarrow> size_list (size_prod (\<lambda>_. 0) size) kvs)")
    auto

definition action_request_digest :: "runtime \<Rightarrow> action_request \<Rightarrow> canonical_error + string" where
  "action_request_digest rt rq =
     (case fst (canonical_value 0 (PMap (rq_parameters rq)) 0) of
        Inl e \<Rightarrow> Inl e
      | Inr parameters \<Rightarrow> Inr (''sha256:'' @ sha256_json rt (JDict
          [(''schema'', JStr ''model-action-v2''),
           (''capability'', JStr (capability_value (rq_capability rq))),
           (''tool_name'', opt_str (rq_tool_name rq)),
           (''provider_id'', opt_str (rq_provider_id rq)),
           (''repository_id'', opt_str (rq_repository_id rq)),
           (''network_host'', opt_str (rq_network_host rq)),
           (''secret_name'', opt_str (rq_secret_name rq)),
           (''requested_lane'', opt_str (rq_requested_lane rq)),
           (''parameters'', parameters),
           (''cited_evidence_ids'', JList (map JStr (sort (uniq (rq_cited_evidence_ids rq)))))])))"

section \<open>Parameter checks\<close>

definition evidence_ids :: "context_item list \<Rightarrow> string list" where
  "evidence_ids items = map (\<lambda>i. ev_id (the (ci_evidence i))) (filter (\<lambda>i. ci_evidence i \<noteq> None) items)"

definition normalized_parameter_key :: "string \<Rightarrow> string" where
  "normalized_parameter_key value = replace_char (CHR ''-'') (CHR ''_'') (casefold (strip value))"

definition is_path_key :: "string \<Rightarrow> bool" where
  "is_path_key key = (key \<in> set PATH_PARAMETER_KEYS \<or> ends_with key ''_path'' \<or> ends_with key ''_file''
     \<or> ends_with key ''_files'')"

definition is_drive :: "string \<Rightarrow> bool" where
  "is_drive raw = (case raw of
     c # d # _ \<Rightarrow> ((65 \<le> code c \<and> code c \<le> 90) \<or> (97 \<le> code c \<and> code c \<le> 122)) \<and> d = CHR '':''
   | _ \<Rightarrow> False)"

text \<open>\<open>PurePosixPath(raw).parts\<close> of a relative path: empty and \<open>.\<close> components vanish.\<close>

definition posix_parts :: "string \<Rightarrow> string list" where
  "posix_parts raw = filter (\<lambda>p. p \<noteq> [] \<and> p \<noteq> ''.'') (split_on (CHR ''/'') raw)"

definition safe_relative_path :: "string \<Rightarrow> bool" where
  "safe_relative_path value =
     (let raw = replace_char (char_of (92::nat)) (CHR ''/'') (strip value) in
      raw \<noteq> [] \<and> char_of (0::nat) \<notin> set raw \<and> \<not> starts_with raw ''/'' \<and> \<not> starts_with raw ''~''
      \<and> \<not> contains_str raw ''://'' \<and> \<not> is_drive raw
      \<and> list_all (\<lambda>p. p \<noteq> ''..'' \<and> p \<noteq> []) (posix_parts raw))"

definition path_values_are_safe :: "pval \<Rightarrow> bool" where
  "path_values_are_safe v = (case v of
     PStr s \<Rightarrow> safe_relative_path s
   | PSeq xs \<Rightarrow> xs \<noteq> [] \<and> list_all (\<lambda>x. case x of PStr s \<Rightarrow> safe_relative_path s | _ \<Rightarrow> False) xs
   | _ \<Rightarrow> False)"

text \<open>The checks of one named parameter, in order; \<open>repositories\<close> grows before the depth check.\<close>

definition check_key ::
  "capability_policy \<Rightarrow> string \<Rightarrow> pval \<Rightarrow> string set \<Rightarrow> denial_reason option \<times> string set" where
  "check_key policy key v repositories =
     (let k = normalized_parameter_key key in
      if k \<in> set PRIVILEGED_PARAMETER_KEYS then (Some PrivilegedParameter, repositories)
      else
        let (r1, repositories) =
          (if k \<in> set REPOSITORY_PARAMETER_KEYS then
             (case v of
                PStr s \<Rightarrow> (if strip s = [] then (Some InvalidRequest, repositories)
                  else if strip s \<notin> set (cp_active_repository_ids policy)
                    then (Some RepositoryScopeViolation, repositories)
                  else (None, insert (strip s) repositories))
              | _ \<Rightarrow> (Some InvalidRequest, repositories))
           else (None, repositories))
        in if r1 \<noteq> None then (r1, repositories)
        else
          let r2 = (if k \<in> set DEPTH_PARAMETER_KEYS then
                (case v of
                   PInt i \<Rightarrow> if i < 0 \<or> cp_max_graph_depth policy < i then Some GraphDepthExceeded else None
                 | _ \<Rightarrow> Some InvalidRequest) else None)
          in if r2 \<noteq> None then (r2, repositories)
          else if is_path_key k \<and> \<not> path_values_are_safe v then (Some PathScopeViolation, repositories)
          else (None, repositories))"

text \<open>\<open>walk\<close>: the reason to refuse, with the node count and the repositories seen.\<close>

type_synonym walk_state = "nat \<times> string set"

function (sequential) walk ::
    "capability_policy \<Rightarrow> string option \<Rightarrow> nat \<Rightarrow> pval \<Rightarrow> walk_state \<Rightarrow> denial_reason option \<times> walk_state"
  and walk_entries ::
    "capability_policy \<Rightarrow> nat \<Rightarrow> (pkey \<times> pval) list \<Rightarrow> walk_state \<Rightarrow> denial_reason option \<times> walk_state"
  and walk_items ::
    "capability_policy \<Rightarrow> nat \<Rightarrow> pval list \<Rightarrow> walk_state \<Rightarrow> denial_reason option \<times> walk_state"
where
  "walk policy key depth v (n, repos) =
     (let n = n + 1 in
      if MAX_PARAMETER_NODES < n \<or> MAX_PARAMETER_DEPTH < depth
      then (Some ParameterBudgetExceeded, (n, repos))
      else
        let (r, repos) = (case key of None \<Rightarrow> (None, repos) | Some k \<Rightarrow> check_key policy k v repos) in
        if r \<noteq> None then (r, (n, repos))
        else case v of
          PMap kvs \<Rightarrow> walk_entries policy (depth + 1) kvs (n, repos)
        | PSeq xs \<Rightarrow> walk_items policy (depth + 1) xs (n, repos)
        | PStr s \<Rightarrow> (if MAX_PARAMETER_STRING_CHARS < length s then Some ParameterBudgetExceeded else None, (n, repos))
        | PFloat x \<Rightarrow> (if fl_finite x then None else Some InvalidRequest, (n, repos))
        | POther \<Rightarrow> (Some InvalidRequest, (n, repos))
        | _ \<Rightarrow> (None, (n, repos)))"
| "walk_entries policy depth [] st = (None, st)"
| "walk_entries policy depth ((k, v) # kvs) st =
     (case k of
        OtherKey \<Rightarrow> (Some InvalidRequest, st)
      | Key s \<Rightarrow>
          (if s = [] then (Some InvalidRequest, st)
           else case walk policy (Some s) depth v st of
             (Some r, st') \<Rightarrow> (Some r, st')
           | (None, st') \<Rightarrow> walk_entries policy depth kvs st'))"
| "walk_items policy depth [] st = (None, st)"
| "walk_items policy depth (x # xs) st =
     (case walk policy None depth x st of
        (Some r, st') \<Rightarrow> (Some r, st')
      | (None, st') \<Rightarrow> walk_items policy depth xs st')"
  by pat_completeness auto

termination
  by (relation "measure (\<lambda>x. case x of Inl (p, k, d, v, s) \<Rightarrow> size v
      | Inr (Inl (p, d, kvs, s)) \<Rightarrow> size_list (size_prod (\<lambda>_. 0) size) kvs
      | Inr (Inr (p, d, xs, s)) \<Rightarrow> size_list size xs)")
    auto

definition validate_tool_parameters ::
  "capability_policy \<Rightarrow> (pkey \<times> pval) list \<Rightarrow> denial_reason option \<times> string set" where
  "validate_tool_parameters policy parameters =
     (case walk policy None 0 (PMap parameters) (0, {}) of (r, (n, repos)) \<Rightarrow> (r, repos))"

section \<open>The policy\<close>

text \<open>\<open>int(v)\<close> with \<open>except (TypeError, ValueError)\<close>; an infinity still raises.\<close>

definition int_or :: "json \<Rightarrow> int \<Rightarrow> int result" where
  "int_or v dflt = (case to_int v of
     Inr i \<Rightarrow> Inr i | Inl (OverflowError e) \<Rightarrow> Inl (OverflowError e) | Inl _ \<Rightarrow> Inr dflt)"

definition build_model_capability_policy ::
  "runtime \<Rightarrow> route_decision \<Rightarrow> json dict \<Rightarrow> context_item list \<Rightarrow> string option \<Rightarrow> capability_policy result"
where
  "build_model_capability_policy rt decision orchestration evidence task_text =
     (let raw_tools = (let v = jget orchestration ''crg_plan'' in if truthy v then v else JList []) in
     rbind (to_list raw_tools) (\<lambda>tools.
     let allowed_tools = uniq (filter (\<lambda>t. t \<noteq> []) (map (\<lambda>t. case t of JStr s \<Rightarrow> strip s | _ \<Rightarrow> []) tools)) in
     rbind (int_or (jget_or orchestration ''verification_passes'' (JInt 1)) 1) (\<lambda>vp.
     rbind (int_or (jget_or orchestration ''graph_depth'' (JInt 1)) 1) (\<lambda>requested_depth.
     let raw_budget = (let v = jget orchestration ''budget'' in if truthy v then v else JDict []) in
     rbind (case raw_budget of
         JDict b \<Rightarrow> int_or (jget_or b ''max_graph_depth'' (JInt requested_depth)) requested_depth
       | _ \<Rightarrow> Inr requested_depth) (\<lambda>budget_depth.
     let repositories = sort (uniq (filter (\<lambda>r. r \<noteq> [])
           (map (\<lambda>i. ev_repository_id (the (ci_evidence i))) (filter (\<lambda>i. ci_evidence i \<noteq> None) evidence))))
     in Inr \<lparr>cp_schema = ''capability-v2'',
          cp_lane = lane_value (rd_lane decision),
          cp_risk = risk_value (rd_risk decision),
          cp_allowed_tools = allowed_tools,
          cp_active_repository_ids = repositories,
          cp_verification_passes = max 1 vp,
          cp_max_graph_depth = max 1 (min requested_depth budget_depth),
          cp_denied_by_default = map capability_value [ProviderSelection, RepositoryActivation,
              NetworkAccess, SecretAccess, SafetyLaneChange, SkipVerification]
            @ [''tool_execution_unless_allowlisted_and_scoped'', ''privileged_parameters_from_model'',
               ''repository_scope_expansion'', ''absolute_or_traversal_paths''],
          cp_task_digest = task_scope_digest rt task_text,
          cp_policy_owner = ''control_plane''\<rparr>)))))"

section \<open>Authorization\<close>

definition decision_for ::
  "capability_policy \<Rightarrow> action_request \<Rightarrow> bool \<Rightarrow> string \<Rightarrow> string \<Rightarrow> authorization_decision" where
  "decision_for policy rq allowed reason digest =
     \<lparr>ad_allowed = allowed, ad_reason = reason, ad_capability = rq_capability rq,
      ad_request_digest = digest, ad_policy_schema = cp_schema policy, ad_task_digest = cp_task_digest policy\<rparr>"

definition nonblank :: "string option \<Rightarrow> bool" where
  "nonblank v = (case v of None \<Rightarrow> False | Some s \<Rightarrow> strip s \<noteq> [])"

text \<open>The part for \<open>TOOL_EXECUTION\<close>: the reason to refuse, \<open>None\<close> to allow.\<close>

definition tool_refusal :: "capability_policy \<Rightarrow> action_request \<Rightarrow> denial_reason option" where
  "tool_refusal policy rq =
     (let tool_name = (case rq_tool_name rq of None \<Rightarrow> [] | Some t \<Rightarrow> strip t) in
      if tool_name = [] then Some InvalidRequest
      else if tool_name \<notin> set (cp_allowed_tools policy) then Some ToolNotAllowlisted
      else if nonblank (rq_provider_id rq) \<or> nonblank (rq_network_host rq) \<or> nonblank (rq_secret_name rq)
        \<or> nonblank (rq_requested_lane rq) then Some PrivilegedParameter
      else if (case rq_repository_id rq of None \<Rightarrow> False
          | Some r \<Rightarrow> strip r = [] \<or> strip r \<notin> set (cp_active_repository_ids policy)) then Some RepositoryScopeViolation
      else
        let refs = (case rq_repository_id rq of None \<Rightarrow> {} | Some r \<Rightarrow> {strip r});
            (reason, parameter_repositories) = validate_tool_parameters policy (rq_parameters rq)
        in if reason \<noteq> None then reason
           else if 1 < length (cp_active_repository_ids policy) \<and> refs \<union> parameter_repositories = {}
             then Some RepositoryScopeRequired
           else None)"

definition capability_refusal :: "capability_policy \<Rightarrow> action_request \<Rightarrow> denial_reason option" where
  "capability_refusal policy rq = (case rq_capability rq of
     ToolExecution \<Rightarrow> tool_refusal policy rq
   | ProviderSelection \<Rightarrow> Some ControlPlaneOwned
   | RepositoryActivation \<Rightarrow> Some OperatorOwned
   | NetworkAccess \<Rightarrow> Some TrustedRuntimeGrantRequired
   | SecretAccess \<Rightarrow> Some TrustedRuntimeGrantRequired
   | SafetyLaneChange \<Rightarrow> Some ControlPlaneOwned
   | SkipVerification \<Rightarrow> Some VerificationRequired)"

definition authorize_model_action ::
  "runtime \<Rightarrow> capability_policy \<Rightarrow> action_request \<Rightarrow> context_item list \<Rightarrow> authorization_decision" where
  "authorize_model_action rt policy rq evidence =
     (case action_request_digest rt rq of
        Inl ParameterBudget \<Rightarrow> decision_for policy rq False (denial_value ParameterBudgetExceeded)
          (''sha256:'' @ replicate 64 (CHR ''0''))
      | Inl BadParameter \<Rightarrow> decision_for policy rq False (denial_value InvalidRequest)
          (''sha256:'' @ replicate 64 (CHR ''0''))
      | Inr digest \<Rightarrow>
          if list_ex (\<lambda>e. e \<notin> set (evidence_ids evidence)) (rq_cited_evidence_ids rq)
          then decision_for policy rq False (denial_value UnknownEvidence) digest
          else case capability_refusal policy rq of
            Some r \<Rightarrow> decision_for policy rq False (denial_value r) digest
          | None \<Rightarrow> decision_for policy rq True ''preauthorized_scoped_tool'' digest)"

end
