(* ===== verification/GateProps.thy ===== *)
theory GateProps
  imports CapabilityGate
begin

text \<open>
  What the gate allows, stated without its traversal: \<open>clean\<close> describes acceptable parameters by
  recursion on the value, \<open>nodes\<close> and \<open>height\<close> the structural budget.  The walk accepts exactly the
  clean values within budget, and an action is allowed exactly when its request is in scope.
\<close>

section \<open>The specification\<close>

definition key_ok :: "capability_policy \<Rightarrow> string option \<Rightarrow> pval \<Rightarrow> bool" where
  "key_ok p key v = (case key of None \<Rightarrow> True | Some s \<Rightarrow>
     (let k = normalized_parameter_key s in
      k \<notin> set PRIVILEGED_PARAMETER_KEYS
      \<and> (k \<in> set REPOSITORY_PARAMETER_KEYS \<longrightarrow>
           (\<exists>r. v = PStr r \<and> strip r \<noteq> [] \<and> strip r \<in> set (cp_active_repository_ids p)))
      \<and> (k \<in> set DEPTH_PARAMETER_KEYS \<longrightarrow> (\<exists>i. v = PInt i \<and> 0 \<le> i \<and> i \<le> cp_max_graph_depth p))
      \<and> (is_path_key k \<longrightarrow> path_values_are_safe v)))"

definition key_refs :: "string option \<Rightarrow> pval \<Rightarrow> string set" where
  "key_refs key v = (case (key, v) of
     (Some s, PStr r) \<Rightarrow> (if normalized_parameter_key s \<in> set REPOSITORY_PARAMETER_KEYS then {strip r} else {})
   | _ \<Rightarrow> {})"

primrec clean :: "capability_policy \<Rightarrow> pval \<Rightarrow> string option \<Rightarrow> bool" where
  "clean p PNone key = key_ok p key PNone"
| "clean p (PBool b) key = key_ok p key (PBool b)"
| "clean p (PInt i) key = key_ok p key (PInt i)"
| "clean p (PFloat x) key = (key_ok p key (PFloat x) \<and> fl_finite x)"
| "clean p (PStr s) key = (key_ok p key (PStr s) \<and> length s \<le> MAX_PARAMETER_STRING_CHARS)"
| "clean p (PMap kvs) key = (key_ok p key (PMap kvs)
     \<and> list_all (\<lambda>(k, ok). case k of Key s \<Rightarrow> s \<noteq> [] \<and> ok (Some s) | OtherKey \<Rightarrow> False)
         (map (map_prod id (clean p)) kvs))"
| "clean p (PSeq xs) key = (key_ok p key (PSeq xs) \<and> list_all (\<lambda>ok. ok None) (map (clean p) xs))"
| "clean p POther key = False"

primrec nodes :: "pval \<Rightarrow> nat" where
  "nodes PNone = 1"
| "nodes (PBool b) = 1"
| "nodes (PInt i) = 1"
| "nodes (PFloat x) = 1"
| "nodes (PStr s) = 1"
| "nodes (PMap kvs) = 1 + sum_list (map snd (map (map_prod id nodes) kvs))"
| "nodes (PSeq xs) = 1 + sum_list (map nodes xs)"
| "nodes POther = 1"

primrec height :: "pval \<Rightarrow> nat" where
  "height PNone = 0"
| "height (PBool b) = 0"
| "height (PInt i) = 0"
| "height (PFloat x) = 0"
| "height (PStr s) = 0"
| "height (PMap kvs) = fold max (map (\<lambda>(_, h). h + 1) (map (map_prod id height) kvs)) 0"
| "height (PSeq xs) = fold max (map (\<lambda>h. h + 1) (map height xs)) 0"
| "height POther = 0"

primrec refs :: "pval \<Rightarrow> string option \<Rightarrow> string set" where
  "refs PNone key = {}"
| "refs (PBool b) key = {}"
| "refs (PInt i) key = {}"
| "refs (PFloat x) key = {}"
| "refs (PStr s) key = key_refs key (PStr s)"
| "refs (PMap kvs) key = \<Union> (set (map (\<lambda>(k, f). case k of Key s \<Rightarrow> f (Some s) | OtherKey \<Rightarrow> {}) (map (map_prod id refs) kvs)))"
| "refs (PSeq xs) key = \<Union> (set (map (\<lambda>f. f None) (map refs xs)))"
| "refs POther key = {}"

lemma fold_max_le: "fold max xs (a::nat) \<le> b \<longleftrightarrow> a \<le> b \<and> (\<forall>x \<in> set xs. x \<le> b)"
  by (induction xs arbitrary: a) auto

lemma nodes_pos: "1 \<le> nodes v"
  by (cases v) auto

section \<open>The walk implements it\<close>

lemma check_key_None_iff:
  "check_key p s v R = (None, R') \<longleftrightarrow> key_ok p (Some s) v \<and> R' = R \<union> key_refs (Some s) v"
proof -
  define k where "k = normalized_parameter_key s"
  have priv: "k \<in> set PRIVILEGED_PARAMETER_KEYS \<Longrightarrow> ?thesis"
    by (simp add: check_key_def key_ok_def k_def Let_def)
  have dis: "k \<in> set REPOSITORY_PARAMETER_KEYS \<Longrightarrow> k \<notin> set DEPTH_PARAMETER_KEYS"
    by (auto simp: REPOSITORY_PARAMETER_KEYS_def DEPTH_PARAMETER_KEYS_def)
  show ?thesis
  proof (cases "k \<in> set PRIVILEGED_PARAMETER_KEYS")
    case True
    then show ?thesis by (rule priv)
  next
    case False
    then show ?thesis
      using dis
      by (cases v) (auto simp: check_key_def key_ok_def key_refs_def Let_def k_def [symmetric] not_less)
  qed
qed

definition entry_clean :: "capability_policy \<Rightarrow> pkey \<Rightarrow> pval \<Rightarrow> bool" where
  "entry_clean p k v = (case k of Key s \<Rightarrow> s \<noteq> [] \<and> clean p v (Some s) | OtherKey \<Rightarrow> False)"

definition entries_ok :: "capability_policy \<Rightarrow> nat \<Rightarrow> (pkey \<times> pval) list \<Rightarrow> bool" where
  "entries_ok p d kvs = list_all (\<lambda>(k, v). entry_clean p k v \<and> d + height v \<le> MAX_PARAMETER_DEPTH) kvs"

lemma clean_entries:
  "list_all (\<lambda>(k, ok). case k of Key s \<Rightarrow> s \<noteq> [] \<and> ok (Some s) | OtherKey \<Rightarrow> False) (map (map_prod id (clean p)) kvs)
    \<longleftrightarrow> (\<forall>e \<in> set kvs. entry_clean p (fst e) (snd e))"
  by (induction kvs) (auto simp: entry_clean_def split: pkey.split)

definition items_ok :: "capability_policy \<Rightarrow> nat \<Rightarrow> pval list \<Rightarrow> bool" where
  "items_ok p d xs = list_all (\<lambda>v. clean p v None \<and> d + height v \<le> MAX_PARAMETER_DEPTH) xs"

definition entry_refs :: "(pkey \<times> pval) list \<Rightarrow> string set" where
  "entry_refs kvs = (\<Union>(k, v) \<in> set kvs. case k of Key s \<Rightarrow> refs v (Some s) | OtherKey \<Rightarrow> {})"

definition item_refs :: "pval list \<Rightarrow> string set" where
  "item_refs xs = (\<Union>v \<in> set xs. refs v None)"

lemma clean_PMap: "clean p (PMap kvs) key \<and> d + height (PMap kvs) \<le> MAX_PARAMETER_DEPTH
    \<longleftrightarrow> key_ok p key (PMap kvs) \<and> d \<le> MAX_PARAMETER_DEPTH \<and> entries_ok p (d + 1) kvs"
proof -
  have "d + height (PMap kvs) \<le> MAX_PARAMETER_DEPTH
      \<longleftrightarrow> d \<le> MAX_PARAMETER_DEPTH \<and> (\<forall>e \<in> set kvs. d + 1 + height (snd e) \<le> MAX_PARAMETER_DEPTH)"
  proof (cases "d \<le> MAX_PARAMETER_DEPTH")
    case True
    then have "d + height (PMap kvs) \<le> MAX_PARAMETER_DEPTH \<longleftrightarrow> height (PMap kvs) \<le> MAX_PARAMETER_DEPTH - d" by auto
    also have "\<dots> \<longleftrightarrow> (\<forall>e \<in> set kvs. height (snd e) + 1 \<le> MAX_PARAMETER_DEPTH - d)"
      by (auto simp: fold_max_le)
    also have "\<dots> \<longleftrightarrow> (\<forall>e \<in> set kvs. d + 1 + height (snd e) \<le> MAX_PARAMETER_DEPTH)"
      using True by (intro ball_cong) auto
    finally show ?thesis using True by simp
  qed simp
  then show ?thesis
    unfolding clean.simps clean_entries entries_ok_def by (auto simp: list_all_iff simp del: height.simps)
qed

lemma clean_PSeq: "clean p (PSeq xs) key \<and> d + height (PSeq xs) \<le> MAX_PARAMETER_DEPTH
    \<longleftrightarrow> key_ok p key (PSeq xs) \<and> d \<le> MAX_PARAMETER_DEPTH \<and> items_ok p (d + 1) xs"
proof -
  have "d + height (PSeq xs) \<le> MAX_PARAMETER_DEPTH
      \<longleftrightarrow> d \<le> MAX_PARAMETER_DEPTH \<and> (\<forall>v \<in> set xs. d + 1 + height v \<le> MAX_PARAMETER_DEPTH)"
  proof (cases "d \<le> MAX_PARAMETER_DEPTH")
    case True
    then have "d + height (PSeq xs) \<le> MAX_PARAMETER_DEPTH \<longleftrightarrow> height (PSeq xs) \<le> MAX_PARAMETER_DEPTH - d" by auto
    also have "\<dots> \<longleftrightarrow> (\<forall>v \<in> set xs. height v + 1 \<le> MAX_PARAMETER_DEPTH - d)"
      by (auto simp: fold_max_le)
    also have "\<dots> \<longleftrightarrow> (\<forall>v \<in> set xs. d + 1 + height v \<le> MAX_PARAMETER_DEPTH)"
      using True by (intro ball_cong) auto
    finally show ?thesis using True by simp
  qed simp
  then show ?thesis by (auto simp: items_ok_def list_all_iff simp del: height.simps)
qed

lemma refs_PMap: "refs (PMap kvs) key = entry_refs kvs"
  by (auto simp: entry_refs_def split: pkey.splits)

lemma refs_PSeq: "refs (PSeq xs) key = item_refs xs"
  by (simp add: item_refs_def)

definition fits_nodes :: "nat \<Rightarrow> nat \<Rightarrow> bool" where
  "fits_nodes n k = (n + k \<le> MAX_PARAMETER_NODES)"

lemma walk_head:
  "walk p key d v (n, R) = (None, st) \<longleftrightarrow>
     fits_nodes n 1 \<and> d \<le> MAX_PARAMETER_DEPTH \<and> key_ok p key v
     \<and> (let s = (n + 1, R \<union> key_refs key v) in
        case v of
          PMap kvs \<Rightarrow> walk_entries p (d + 1) kvs s = (None, st)
        | PSeq xs \<Rightarrow> walk_items p (d + 1) xs s = (None, st)
        | PStr t \<Rightarrow> length t \<le> MAX_PARAMETER_STRING_CHARS \<and> st = s
        | PFloat x \<Rightarrow> fl_finite x \<and> st = s
        | POther \<Rightarrow> False
        | _ \<Rightarrow> st = s)"
proof (cases "MAX_PARAMETER_NODES < n + 1 \<or> MAX_PARAMETER_DEPTH < d")
  case True
  then show ?thesis by (auto simp: fits_nodes_def)
next
  case False
  have key: "key_ok p None v" "key_refs None v = {}" by (simp_all add: key_ok_def key_refs_def)
  show ?thesis
  proof (cases key)
    case None
    then show ?thesis using False key by (cases v) (auto simp: fits_nodes_def Let_def)
  next
    case (Some s)
    obtain r R' where c: "check_key p s v R = (r, R')" by (cases "check_key p s v R")
    show ?thesis
    proof (cases r)
      case (Some x)
      then have "\<not> key_ok p (Some s) v" using c check_key_None_iff [of p s v R "R \<union> key_refs (Some s) v"] by simp
      then show ?thesis using False c Some \<open>key = Some s\<close> by simp
    next
      case None
      then have "key_ok p (Some s) v" "R' = R \<union> key_refs (Some s) v" using c check_key_None_iff by simp_all
      then show ?thesis using False c None \<open>key = Some s\<close> by (cases v) (auto simp: fits_nodes_def Let_def)
    qed
  qed
qed

lemma refs_leaf:
  "refs v key = key_refs key v" if "\<forall>kvs. v \<noteq> PMap kvs" "\<forall>xs. v \<noteq> PSeq xs"
  using that by (cases v) (auto simp: key_refs_def split: option.splits)

text \<open>The claim about one value, and from it the claims about sequences of them.\<close>

definition walk_exact :: "capability_policy \<Rightarrow> pval \<Rightarrow> bool" where
  "walk_exact p v = (\<forall>key d n R st. walk p key d v (n, R) = (None, st) \<longleftrightarrow> clean p v key \<and> fits_nodes n (nodes v)
     \<and> d + height v \<le> MAX_PARAMETER_DEPTH \<and> st = (n + nodes v, R \<union> refs v key))"

definition entry_nodes :: "(pkey \<times> pval) list \<Rightarrow> nat" where
  "entry_nodes kvs = sum_list (map (\<lambda>(k, v). nodes v) kvs)"

lemma walk_entries_exact:
  assumes "\<forall>(k, v) \<in> set kvs. walk_exact p v" "fits_nodes n 0"
  shows "walk_entries p d kvs (n, R) = (None, st) \<longleftrightarrow> entries_ok p d kvs
     \<and> fits_nodes n (entry_nodes kvs) \<and> st = (n + entry_nodes kvs, R \<union> entry_refs kvs)"
  using assms
proof (induction kvs arbitrary: n R)
  case (Cons e kvs)
  obtain k v where e: "e = (k, v)" by (cases e)
  show ?case
  proof (cases "\<exists>s. k = Key s \<and> s \<noteq> []")
    case False
    then show ?thesis using e by (cases k) (auto simp: entries_ok_def entry_clean_def)
  next
    case True
    then obtain s where s: "k = Key s" "s \<noteq> []" by blast
    obtain r st1 where w: "walk p (Some s) d v (n, R) = (r, st1)" by (cases "walk p (Some s) d v (n, R)")
    have ex: "walk_exact p v" using Cons.prems(1) e by simp
    show ?thesis
    proof (cases r)
      case (Some x)
      have "walk p (Some s) d v (n, R) \<noteq> (None, (n + nodes v, R \<union> refs v (Some s)))" using w Some by simp
      then have "\<not> (clean p v (Some s) \<and> fits_nodes n (nodes v) \<and> d + height v \<le> MAX_PARAMETER_DEPTH)"
        using ex unfolding walk_exact_def by blast
      then show ?thesis using e s w Some by (auto simp: entries_ok_def entry_clean_def entry_nodes_def fits_nodes_def)
    next
      case None
      then have c: "clean p v (Some s)" "fits_nodes n (nodes v)" "d + height v \<le> MAX_PARAMETER_DEPTH"
        "st1 = (n + nodes v, R \<union> refs v (Some s))"
        using ex w unfolding walk_exact_def by blast+
      have IH: "walk_entries p d kvs st1 = (None, st) \<longleftrightarrow> entries_ok p d kvs
          \<and> fits_nodes (n + nodes v) (entry_nodes kvs)
          \<and> st = (n + nodes v + entry_nodes kvs, R \<union> refs v (Some s) \<union> entry_refs kvs)"
        using Cons.IH [of "n + nodes v" "R \<union> refs v (Some s)"] Cons.prems(1) c by (simp add: fits_nodes_def)
      have "walk_entries p d (e # kvs) (n, R) = walk_entries p d kvs st1" using e s w None by simp
      then show ?thesis
        using IH c e s by (auto simp: entries_ok_def entry_clean_def entry_nodes_def entry_refs_def fits_nodes_def add.assoc Un_assoc)
    qed
  qed
qed (auto simp: entries_ok_def entry_nodes_def entry_refs_def)

lemma walk_items_exact:
  assumes "\<forall>v \<in> set xs. walk_exact p v" "fits_nodes n 0"
  shows "walk_items p d xs (n, R) = (None, st) \<longleftrightarrow> items_ok p d xs
     \<and> fits_nodes n (sum_list (map nodes xs)) \<and> st = (n + sum_list (map nodes xs), R \<union> item_refs xs)"
  using assms
proof (induction xs arbitrary: n R)
  case (Cons v xs)
  obtain r st1 where w: "walk p None d v (n, R) = (r, st1)" by (cases "walk p None d v (n, R)")
  have ex: "walk_exact p v" using Cons.prems(1) by simp
  show ?case
  proof (cases r)
    case (Some x)
    have "walk p None d v (n, R) \<noteq> (None, (n + nodes v, R \<union> refs v None))" using w Some by simp
    then have "\<not> (clean p v None \<and> fits_nodes n (nodes v) \<and> d + height v \<le> MAX_PARAMETER_DEPTH)"
      using ex unfolding walk_exact_def by blast
    then show ?thesis using w Some by (auto simp: items_ok_def fits_nodes_def)
  next
    case None
    then have c: "clean p v None" "fits_nodes n (nodes v)" "d + height v \<le> MAX_PARAMETER_DEPTH"
      "st1 = (n + nodes v, R \<union> refs v None)"
      using ex w unfolding walk_exact_def by blast+
    have "walk_items p d xs st1 = (None, st) \<longleftrightarrow> items_ok p d xs
        \<and> fits_nodes (n + nodes v) (sum_list (map nodes xs))
        \<and> st = (n + nodes v + sum_list (map nodes xs), R \<union> refs v None \<union> item_refs xs)"
      using Cons.IH [of "n + nodes v" "R \<union> refs v None"] Cons.prems(1) c by (simp add: fits_nodes_def)
    then show ?thesis
      using c w None by (auto simp: items_ok_def item_refs_def fits_nodes_def add.assoc Un_assoc)
  qed
qed (auto simp: items_ok_def item_refs_def)

lemma nodes_PMap: "nodes (PMap kvs) = 1 + entry_nodes kvs"
  by (simp add: entry_nodes_def comp_def case_prod_unfold)

lemma fits_Suc: "fits_nodes n 1 \<and> fits_nodes (n + 1) k \<longleftrightarrow> fits_nodes n (1 + k)"
  by (auto simp: fits_nodes_def)

lemma key_refs_compound [simp]: "key_refs key (PMap kvs) = {}" "key_refs key (PSeq xs) = {}"
  by (auto simp: key_refs_def split: option.splits)

lemma walk_is_exact: "walk_exact p v"
proof (induction v)
  case (PMap kvs)
  have each: "\<forall>(k, v) \<in> set kvs. walk_exact p v" using PMap by (force simp: prod_set_defs)
  show ?case
    unfolding walk_exact_def
  proof (intro allI)
    fix key d n R st
    have "walk p key d (PMap kvs) (n, R) = (None, st) \<longleftrightarrow>
        fits_nodes n 1 \<and> d \<le> MAX_PARAMETER_DEPTH \<and> key_ok p key (PMap kvs)
        \<and> entries_ok p (d + 1) kvs \<and> fits_nodes (n + 1) (entry_nodes kvs)
        \<and> st = (n + 1 + entry_nodes kvs, R \<union> entry_refs kvs)"
      using walk_entries_exact [OF each, of "n + 1" "d + 1" R st]
      by (auto simp: walk_head fits_nodes_def Let_def simp del: walk.simps)
    then show "walk p key d (PMap kvs) (n, R) = (None, st) \<longleftrightarrow> clean p (PMap kvs) key \<and> fits_nodes n (nodes (PMap kvs))
       \<and> d + height (PMap kvs) \<le> MAX_PARAMETER_DEPTH \<and> st = (n + nodes (PMap kvs), R \<union> refs (PMap kvs) key)"
      using clean_PMap [of p kvs key d] fits_Suc [of n "entry_nodes kvs"]
      unfolding nodes_PMap refs_PMap by auto
  qed
next
  case (PSeq xs)
  have each: "\<forall>v \<in> set xs. walk_exact p v" using PSeq by blast
  show ?case
    unfolding walk_exact_def
  proof (intro allI)
    fix key d n R st
    have "walk p key d (PSeq xs) (n, R) = (None, st) \<longleftrightarrow>
        fits_nodes n 1 \<and> d \<le> MAX_PARAMETER_DEPTH \<and> key_ok p key (PSeq xs)
        \<and> items_ok p (d + 1) xs \<and> fits_nodes (n + 1) (sum_list (map nodes xs))
        \<and> st = (n + 1 + sum_list (map nodes xs), R \<union> item_refs xs)"
      using walk_items_exact [OF each, of "n + 1" "d + 1" R st]
      by (auto simp: walk_head fits_nodes_def Let_def simp del: walk.simps)
    then show "walk p key d (PSeq xs) (n, R) = (None, st) \<longleftrightarrow> clean p (PSeq xs) key \<and> fits_nodes n (nodes (PSeq xs))
       \<and> d + height (PSeq xs) \<le> MAX_PARAMETER_DEPTH \<and> st = (n + nodes (PSeq xs), R \<union> refs (PSeq xs) key)"
      using clean_PSeq [of p xs key d] fits_Suc [of n "sum_list (map nodes xs)"]
      unfolding refs_PSeq by auto
  qed
qed (auto simp: walk_exact_def walk_head key_refs_def Let_def simp del: walk.simps split: option.splits)

section \<open>Authorization\<close>

text \<open>The digest exists exactly for values within the structural and textual bounds; the part of
  this the gate's answer depends on is that it never allows without one.\<close>

definition scope_ok :: "capability_policy \<Rightarrow> action_request \<Rightarrow> bool" where
  "scope_ok p rq =
     (rq_capability rq = ToolExecution
      \<and> (\<exists>t. rq_tool_name rq = Some t \<and> strip t \<noteq> [] \<and> strip t \<in> set (cp_allowed_tools p))
      \<and> \<not> nonblank (rq_provider_id rq) \<and> \<not> nonblank (rq_network_host rq) \<and> \<not> nonblank (rq_secret_name rq)
      \<and> \<not> nonblank (rq_requested_lane rq)
      \<and> (\<forall>r. rq_repository_id rq = Some r \<longrightarrow> strip r \<noteq> [] \<and> strip r \<in> set (cp_active_repository_ids p))
      \<and> clean p (PMap (rq_parameters rq)) None
      \<and> nodes (PMap (rq_parameters rq)) \<le> MAX_PARAMETER_NODES
      \<and> height (PMap (rq_parameters rq)) \<le> MAX_PARAMETER_DEPTH
      \<and> (length (cp_active_repository_ids p) \<le> 1 \<or> rq_repository_id rq \<noteq> None
         \<or> refs (PMap (rq_parameters rq)) None \<noteq> {}))"

lemma validate_parameters_iff:
  "validate_tool_parameters p ps = (None, R) \<longleftrightarrow> clean p (PMap ps) None \<and> nodes (PMap ps) \<le> MAX_PARAMETER_NODES
     \<and> height (PMap ps) \<le> MAX_PARAMETER_DEPTH \<and> R = refs (PMap ps) None"
proof -
  have "validate_tool_parameters p ps = (None, R) \<longleftrightarrow> (\<exists>n. walk p None 0 (PMap ps) (0, {}) = (None, (n, R)))"
    by (auto simp: validate_tool_parameters_def simp del: walk.simps split: prod.splits)
  also have "\<dots> \<longleftrightarrow> (\<exists>n. clean p (PMap ps) None \<and> fits_nodes 0 (nodes (PMap ps))
      \<and> 0 + height (PMap ps) \<le> MAX_PARAMETER_DEPTH \<and> (n, R) = (0 + nodes (PMap ps), {} \<union> refs (PMap ps) None))"
    using walk_is_exact [of p "PMap ps"] unfolding walk_exact_def by blast
  finally show ?thesis by (simp only: fits_nodes_def prod.inject add_0 Un_empty_left) blast
qed

lemma validate_parameters_None:
  "fst (validate_tool_parameters p ps) = None \<longleftrightarrow> validate_tool_parameters p ps = (None, refs (PMap ps) None)"
  using validate_parameters_iff by (metis fst_conv prod.collapse)

lemma capability_refusal_None_iff: "capability_refusal p rq = None \<longleftrightarrow> scope_ok p rq"
proof (cases "rq_capability rq = ToolExecution")
  case False
  then show ?thesis by (cases "rq_capability rq") (auto simp: capability_refusal_def scope_ok_def)
next
  case True
  define refs0 where "refs0 = (case rq_repository_id rq of None \<Rightarrow> {} | Some r \<Rightarrow> {strip r})"
  have empty: "refs0 = {} \<longleftrightarrow> rq_repository_id rq = None" by (simp add: refs0_def split: option.splits)
  obtain r R where v: "validate_tool_parameters p (rq_parameters rq) = (r, R)"
    by (cases "validate_tool_parameters p (rq_parameters rq)")
  have vi: "r = None \<longleftrightarrow> clean p (PMap (rq_parameters rq)) None
      \<and> nodes (PMap (rq_parameters rq)) \<le> MAX_PARAMETER_NODES
      \<and> height (PMap (rq_parameters rq)) \<le> MAX_PARAMETER_DEPTH"
    using validate_parameters_iff [of p "rq_parameters rq"] validate_parameters_None [of p "rq_parameters rq"] v
    by (metis fst_conv)
  have vR: "r = None \<Longrightarrow> R = refs (PMap (rq_parameters rq)) None"
    using validate_parameters_None [of p "rq_parameters rq"] v by (metis fst_conv snd_conv)
  have "capability_refusal p rq = tool_refusal p rq" using True by (simp add: capability_refusal_def)
  moreover have "tool_refusal p rq = None \<longleftrightarrow> scope_ok p rq"
    unfolding tool_refusal_def scope_ok_def refs0_def [symmetric] v Let_def case_prod_conv
    using vi vR empty True
    by (cases "rq_tool_name rq"; cases "rq_repository_id rq"; cases r) (auto simp: not_le)
  ultimately show ?thesis by simp
qed

lemma authorize_allowed_iff:
  "ad_allowed (authorize_model_action rt p rq evidence) \<longleftrightarrow>
     (\<exists>digest. action_request_digest rt rq = Inr digest) \<and> scope_ok p rq
     \<and> set (rq_cited_evidence_ids rq) \<subseteq> set (evidence_ids evidence)"
proof (cases "action_request_digest rt rq")
  case (Inl e)
  then show ?thesis by (cases e) (auto simp: authorize_model_action_def decision_for_def)
next
  case (Inr digest)
  then show ?thesis
    using capability_refusal_None_iff [of p rq]
    by (cases "capability_refusal p rq")
      (auto simp: authorize_model_action_def decision_for_def list_ex_iff subset_iff)
qed

text \<open>Only identities of the evidence matter.\<close>

lemma authorize_cong:
  assumes "evidence_ids a = evidence_ids b"
  shows "authorize_model_action rt p rq a = authorize_model_action rt p rq b"
  by (simp only: authorize_model_action_def assms)

lemma policy_bounds:
  assumes "build_model_capability_policy rt decision orchestration evidence task = Inr p"
  shows "1 \<le> cp_max_graph_depth p \<and> 1 \<le> cp_verification_passes p"
  using assms by (auto simp: build_model_capability_policy_def Let_def rbind_Inr_iff)

end
