(* ===== verification/ContractPolicy.thy ===== *)
theory ContractPolicy
  imports Routing GateProps Examples
begin

text \<open>
  How \<open>workflow_engine.py\<close> composes the orchestration contract with the capability gate: the contract
  is the \<open>orchestration\<close> argument of \<open>build_model_capability_policy\<close>, so the policy of a request is
  never wider than the budget of its route.
\<close>

lemma plan_tools:
  "set (crg_plan_of decision providers c b) \<subseteq> {''get_minimal_context_tool'', ''get_impact_radius_tool'', ''query_graph_tool'',
     ''get_review_context_tool''}"
  by (auto simp: crg_plan_of_def dest!: in_set_takeD)

lemma tool_name_stripped:
  "t \<in> {''get_minimal_context_tool'', ''get_impact_radius_tool'', ''query_graph_tool'', ''get_review_context_tool''}
     \<Longrightarrow> strip t = t \<and> t \<noteq> []"
  by (auto simp: strip_def rstrip_def lstrip_def is_space_def code_def)

lemma contract_fields:
  assumes "build_orchestration_contract rt decision diagnostics changed roots providers config = Inr ct"
  shows "\<exists>c. oc_crg_plan ct = crg_plan_of decision providers c (oc_budget ct)"
proof -
  obtain b and c :: complexity where "(let (slots, skills, reviews, verifications) = lane_plan decision providers c (complexity_score c) b in
      Inr \<lparr>oc_complexity = c, oc_score = complexity_score c, oc_skills = skills,
        oc_crg_plan = crg_plan_of decision providers c b,
        oc_agent_slots = min slots (ob_agent_slots b),
        oc_review_passes = min reviews (ob_review_passes b),
        oc_verification_passes = min verifications (ob_verification_passes b),
        oc_graph_depth = min (1 + one_if (8 \<le> complexity_score c) + one_if (12 \<le> complexity_score c)) (ob_graph_depth b),
        oc_budget = b,
        oc_native_fallback = (rd_lane decision \<noteq> Answer \<and> \<not> pv_superpowers providers)\<rparr>) = (Inr ct :: contract result)"
    using assms unfolding build_orchestration_contract_def Let_def rbind_Inr_iff by blast
  then show ?thesis by (auto simp: Let_def split: prod.splits)
qed

lemma stripped_tools:
  assumes "\<forall>t \<in> set ts. strip t = t \<and> t \<noteq> []"
  shows "set (uniq (filter (\<lambda>t. t \<noteq> []) (map (\<lambda>t. case t of JStr s \<Rightarrow> strip s | _ \<Rightarrow> []) (map JStr ts)))) = set ts"
  using assms by force

lemma int_or_JInt [simp]: "int_or (JInt n) d = Inr n"
  by (simp add: int_or_def to_int_def)

lemma contract_entries:
  "jget (contract_json ct) ''crg_plan'' = JList (map JStr (oc_crg_plan ct))"
  "jget_or (contract_json ct) ''verification_passes'' d = JInt (oc_verification_passes ct)"
  "jget_or (contract_json ct) ''graph_depth'' d = JInt (oc_graph_depth ct)"
  "jget (contract_json ct) ''budget'' = JDict (budget_json (oc_budget ct))"
  "jget_or (budget_json b) ''max_graph_depth'' d = JInt (ob_graph_depth b)"
  "budget_json b \<noteq> []"
  by (simp_all add: contract_json_def budget_json_def dict_simps)

lemma contract_policy:
  assumes "build_orchestration_contract rt decision diagnostics changed roots providers config = Inr ct"
  shows "\<exists>p. build_model_capability_policy rt decision (contract_json ct) evidence task = Inr p
    \<and> set (cp_allowed_tools p) = set (oc_crg_plan ct)
    \<and> cp_max_graph_depth p = oc_graph_depth ct
    \<and> cp_verification_passes p = oc_verification_passes ct"
proof -
  obtain c where plan: "oc_crg_plan ct = crg_plan_of decision providers c (oc_budget ct)"
    using contract_fields [OF assms] by blast
  have tools: "set (uniq (filter (\<lambda>t. t \<noteq> []) (map (\<lambda>t. case t of JStr s \<Rightarrow> strip s | _ \<Rightarrow> []) (map JStr (oc_crg_plan ct)))))
      = set (oc_crg_plan ct)"
  proof (rule stripped_tools, intro ballI)
    fix t assume "t \<in> set (oc_crg_plan ct)"
    then have "t \<in> set (crg_plan_of decision providers c (oc_budget ct))" by (simp only: plan)
    from subsetD [OF plan_tools this] show "strip t = t \<and> t \<noteq> []" by (rule tool_name_stripped)
  qed
  note bounds = contract_within_budget [OF assms]
  have listed: "to_list (let v = JList (map JStr ts) in if truthy v then v else JList []) = Inr (map JStr ts)" for ts
    by (cases ts) (simp_all add: to_list_def)
  have "\<exists>p. build_model_capability_policy rt decision (contract_json ct) evidence task = Inr p
    \<and> set (cp_allowed_tools p) = set (oc_crg_plan ct)
    \<and> cp_max_graph_depth p = max 1 (min (oc_graph_depth ct) (ob_graph_depth (oc_budget ct)))
    \<and> cp_verification_passes p = max 1 (oc_verification_passes ct)"
    using tools listed [of "oc_crg_plan ct"]
    by (simp add: build_model_capability_policy_def contract_entries Let_def)
  then show ?thesis using bounds by (auto simp: max_def min_def)
qed

lemma allowed_tool:
  assumes "ad_allowed (authorize_model_action rt p rq evidence)"
  shows "\<exists>t. rq_tool_name rq = Some t \<and> strip t \<in> set (cp_allowed_tools p)"
  using assms by (auto simp: authorize_allowed_iff scope_ok_def)

end
