(* ===== verification/Engine.thy ===== *)
theory Engine
  imports EngineParts ContractPolicy Learning
begin

text \<open>
  \<open>WorkflowEngine.gather_detailed_async\<close> of \<open>workflow_engine.py\<close>: retrieval in three phases (base calls per
  routed repository, specialist calls behind the sufficiency gate, structural expansion from an anchor), then
  ranking, selection, envelopes, the evidence gates, the orchestration contract and the capability policy.
  The outcomes the scheduler reports for the provider calls, the time left before a phase and the parts of
  the standard library are the fields of \<open>engine_env\<close>; \<open>None\<close> at the outside means the call never
  returns.
\<close>

record engine_env =
  en_blake :: "string \<Rightarrow> string"
  en_est :: "string \<Rightarrow> int"
  en_mlog :: "rat \<Rightarrow> rat"
  en_parse :: "string \<Rightarrow> json option"
  en_resolve :: "string \<Rightarrow> string option"
  en_unsafe :: bool
  en_base :: "string \<Rightarrow> string list \<Rightarrow> context_item list outcome"
  en_semantic :: "string \<Rightarrow> provider_result outcome"
  en_external :: "nat \<Rightarrow> json dict \<Rightarrow> provider_result outcome"
  en_structural :: "string \<Rightarrow> string \<Rightarrow> string option \<Rightarrow> string list \<Rightarrow> context_item list outcome"
  en_left :: "string \<Rightarrow> rat"
  en_fmt :: "pyfloat \<Rightarrow> string"

record request =
  qr_query :: string
  qr_decision :: route_decision
  qr_budget :: context_budget
  qr_providers :: provider_status
  qr_symbol :: "string option"
  qr_endpoint :: "string option"
  qr_changed :: "string list"

text \<open>The workspace of a run: its control root, all known roots, the routed repositories and the identities of
  the roots.\<close>

record workspace_view =
  wv_root :: string
  wv_roots :: "string list"
  wv_routes :: "routed_repository list"
  wv_repository_ids :: "string dict"

section \<open>Routing items\<close>

definition relative_to :: "string \<Rightarrow> string \<Rightarrow> string option" where
  "relative_to base p = (if p = base then Some ''.'' else if below base p then Some (drop (length (join_path base [])) p) else None)"

definition nested_root_prefixes :: "workspace_view \<Rightarrow> string list" where
  "nested_root_prefixes w =
     map dir_prefix (List.map_filter (relative_to (wv_root w)) (filter (\<lambda>r. r \<noteq> wv_root w) (wv_roots w)))"

definition changed_for :: "workspace_view \<Rightarrow> string list \<Rightarrow> string \<Rightarrow> string list" where
  "changed_for w changed candidate =
     (if candidate = wv_root w
      then filter (\<lambda>p. \<not> list_ex (starts_with p) (nested_root_prefixes w)) changed
      else case relative_to (wv_root w) candidate of
        None \<Rightarrow> []
      | Some rel \<Rightarrow> map (drop (length (dir_prefix rel))) (filter (\<lambda>p. starts_with p (dir_prefix rel)) changed))"

definition route_for :: "workspace_view \<Rightarrow> string \<Rightarrow> routed_repository option" where
  "route_for w provider_root = find (\<lambda>r. ro_root r = provider_root) (rev (wv_routes w))"

definition routed_item :: "workspace_view \<Rightarrow> string \<Rightarrow> context_item \<Rightarrow> context_item" where
  "routed_item w provider_root i =
     (let i' = provenance_of (Some provider_root) i in
      case route_for w provider_root of
        None \<Rightarrow> i'
      | Some r \<Rightarrow> i'\<lparr>ci_metadata := dset (dset (dset (dset (ci_metadata i')
            ''repository_tier'' (JStr (ro_tier r))) ''repository_prior'' (JFloat (Fin (ro_prior r))))
            ''repository_relationship'' (opt_str (ro_relationship r))) ''repository_id'' (opt_str (ro_id r)),
          ci_score := ci_score i' * ro_prior r\<rparr>)"

definition base_name :: "string \<Rightarrow> string" where
  "base_name p = after_last (CHR ''/'') p"

section \<open>The trace\<close>

record trace =
  tr_base :: "context_item list"
  tr_specialist :: "context_item list"
  tr_attempted :: "string list"
  tr_skipped :: "string dict"
  tr_errors :: "json dict dict"
  tr_fallbacks :: "string list"
  tr_deadlines :: "string list"
  tr_candidates :: "nat dict"
  tr_latency :: "pyfloat dict"

definition empty_trace :: trace where
  "empty_trace = \<lparr>tr_base = [], tr_specialist = [], tr_attempted = [], tr_skipped = [], tr_errors = [],
     tr_fallbacks = [], tr_deadlines = [], tr_candidates = [], tr_latency = []\<rparr>"

definition round_ms :: "pyfloat \<Rightarrow> pyfloat" where
  "round_ms x = (case x of Fin r \<Rightarrow> Fin (round_to 2 r) | _ \<Rightarrow> x)"

definition note_failure :: "string \<Rightarrow> 'v outcome \<Rightarrow> trace \<Rightarrow> trace" where
  "note_failure label oc t =
     t\<lparr>tr_candidates := dset (tr_candidates t) label 0,
       tr_errors := dset (tr_errors t) label (scheduler_error oc),
       tr_fallbacks := tr_fallbacks t @ [fallback_label label (nonempty_or (ou_error_kind oc) ''scheduler_error'')],
       tr_deadlines := tr_deadlines t @ (if ou_timed_out oc then [label] else [])\<rparr>"

definition note_latency :: "string \<Rightarrow> pyfloat \<Rightarrow> trace \<Rightarrow> trace" where
  "note_latency label x t = t\<lparr>tr_latency := dset (tr_latency t) label (round_ms x)\<rparr>"

definition attempt :: "string \<Rightarrow> trace \<Rightarrow> trace" where
  "attempt label t = t\<lparr>tr_attempted := tr_attempted t @ [label]\<rparr>"

definition skip :: "string \<Rightarrow> string \<Rightarrow> trace \<Rightarrow> trace" where
  "skip label reason t = t\<lparr>tr_skipped := dset (tr_skipped t) label reason\<rparr>"

definition good_value :: "'v outcome \<Rightarrow> 'v option" where
  "good_value oc = (if outcome_ok oc then ou_value oc else None)"

section \<open>Base calls\<close>

definition base_label :: "nat \<Rightarrow> string \<Rightarrow> string" where
  "base_label index r = (if index = 0 then ''base'' else ''workspace:'' @ base_name r)"

definition base_result :: "workspace_view \<Rightarrow> string \<Rightarrow> string \<Rightarrow> context_item list outcome \<Rightarrow> trace \<Rightarrow> trace" where
  "base_result w label r oc t =
     (let t' = note_latency label (Fin (ou_latency_ms oc)) t in
      case good_value oc of
        Some items \<Rightarrow> t'\<lparr>tr_candidates := dset (tr_candidates t') label (length items),
            tr_base := tr_base t' @ map (routed_item w r) items\<rparr>
      | None \<Rightarrow> note_failure label oc t')"

definition base_call :: "engine_env \<Rightarrow> workspace_view \<Rightarrow> string list \<Rightarrow> nat \<times> string \<Rightarrow> trace \<Rightarrow> trace" where
  "base_call env w changed c t = (case c of (index, r) \<Rightarrow>
     let label = base_label index r in base_result w label r (en_base env r (changed_for w changed r)) (attempt label t))"

definition selected_roots :: "workspace_view \<Rightarrow> string list" where
  "selected_roots w = map ro_root (wv_routes w)"

definition base_phase :: "engine_env \<Rightarrow> workspace_view \<Rightarrow> string list \<Rightarrow> trace" where
  "base_phase env w changed =
     fold (base_call env w changed) (zip [0..<length (wv_routes w)] (selected_roots w)) empty_trace"

section \<open>Specialist calls\<close>

type_synonym specialist_call = "string \<times> string \<times> provider_result outcome"

definition semantic_calls :: "engine_env \<Rightarrow> workspace_view \<Rightarrow> specialist_call list" where
  "semantic_calls env w = map (\<lambda>r.
     (if length (selected_roots w) = 1 then ''semantic'' else ''semantic:'' @ base_name r, r, en_semantic env r))
     (selected_roots w)"

definition external_calls :: "runtime \<Rightarrow> engine_env \<Rightarrow> workspace_view \<Rightarrow> json dict list \<Rightarrow> specialist_call list" where
  "external_calls rt env w specs = map (\<lambda>(i, spec).
     (''external:'' @ py_str rt (jget_or spec ''name'' (JStr ''external'')), wv_root w, en_external env i spec))
     (zip [0..<length specs] specs)"

definition specialist_calls ::
  "runtime \<Rightarrow> engine_env \<Rightarrow> workspace_view \<Rightarrow> retrieval_plan \<Rightarrow> provider_status \<Rightarrow> bool \<Rightarrow> json dict list \<Rightarrow> specialist_call list" where
  "specialist_calls rt env w plan providers gate specs =
     (if pl_use_semantic plan \<and> gate \<and> pv_semantic providers then semantic_calls env w else [])
     @ (if gate then external_calls rt env w specs else [])"

definition note_semantic_skip :: "retrieval_plan \<Rightarrow> provider_status \<Rightarrow> bool \<Rightarrow> trace \<Rightarrow> trace" where
  "note_semantic_skip plan providers gate t =
     (if pl_use_semantic plan \<and> \<not> (gate \<and> pv_semantic providers)
      then skip ''semantic'' (if \<not> pv_semantic providers then ''provider not configured'' else ''base evidence sufficient'') t
      else t)"

text \<open>Without time left the calls are not made.\<close>

definition expired :: "(pyfloat \<Rightarrow> string) \<Rightarrow> pyfloat \<Rightarrow> string \<Rightarrow> 'v outcome" where
  "expired fmt deadline label =
     \<lparr>ou_label = label, ou_value = None, ou_latency_ms = 0,
      ou_error = Some (''global retrieval deadline exceeded after '' @ fmt deadline @ '' seconds''),
      ou_error_kind = Some ''deadline'', ou_timed_out = True\<rparr>"

definition result_latency :: "provider_result \<Rightarrow> 'v outcome \<Rightarrow> pyfloat" where
  "result_latency r oc = (if pr_latency_ms r = Fin 0 then Fin (ou_latency_ms oc) else pr_latency_ms r)"

definition specialist_result :: "workspace_view \<Rightarrow> specialist_call \<Rightarrow> trace \<Rightarrow> trace" where
  "specialist_result w c t = (case c of (label, r, oc) \<Rightarrow>
     (case good_value oc of
        None \<Rightarrow> note_failure label oc (note_latency label (Fin (ou_latency_ms oc)) t)
      | Some res \<Rightarrow>
          (let t1 = note_latency label (result_latency res oc) t;
               t2 = t1\<lparr>tr_candidates := dset (tr_candidates t1) label (length (pr_items res))\<rparr>;
               t3 = (if nonempty_or (pr_error res) [] = [] then t2
                 else t2\<lparr>tr_errors := dset (tr_errors t2) label (the (error_dict res)),
                    tr_fallbacks := tr_fallbacks t2 @ [fallback_label label (nonempty_or (pr_error_kind res) ''provider_error'')]\<rparr>)
           in t3\<lparr>tr_specialist := tr_specialist t3 @ map (routed_item w r) (pr_items res)\<rparr>)))"

definition specialist_phase ::
  "engine_env \<Rightarrow> workspace_view \<Rightarrow> pyfloat \<Rightarrow> specialist_call list \<Rightarrow> trace \<Rightarrow> trace" where
  "specialist_phase env w deadline calls t =
     (let t' = fold (\<lambda>(label, _). attempt label) calls t;
          made = (if 0 < en_left env ''specialist'' then calls
            else map (\<lambda>(label, r, _). (label, r, expired (en_fmt env) deadline label)) calls)
      in fold (specialist_result w) made t')"

section \<open>Structural expansion\<close>

definition structural_steps :: "provider_status \<Rightarrow> retrieval_plan \<Rightarrow> (string \<times> bool \<times> bool) list" where
  "structural_steps providers plan =
     [(''structural-expansion'', pv_code_review_graph providers, True),
      (''scip-structural-expansion'', pv_scip providers, ''references_to'' \<in> set (pl_patterns plan))]"

definition structural_result ::
  "workspace_view \<Rightarrow> string \<Rightarrow> string \<Rightarrow> context_item list outcome \<Rightarrow> trace \<Rightarrow> trace" where
  "structural_result w r label oc t =
     (let t' = note_latency label (Fin (ou_latency_ms oc)) t in
      case good_value oc of
        Some items \<Rightarrow> t'\<lparr>tr_candidates := dset (tr_candidates t') label (length items),
            tr_specialist := tr_specialist t' @ map (routed_item w r) items\<rparr>
      | None \<Rightarrow> note_failure label oc t')"

definition structural_call ::
  "engine_env \<Rightarrow> workspace_view \<Rightarrow> pyfloat \<Rightarrow> string \<Rightarrow> string option \<Rightarrow> string list \<Rightarrow> string \<Rightarrow> trace \<Rightarrow> trace" where
  "structural_call env w deadline r symbol changed_files label t =
     structural_result w r label
       (if 0 < en_left env label then en_structural env label r symbol changed_files
        else expired (en_fmt env) deadline label) (attempt label t)"

definition suff_of :: "runtime \<Rightarrow> request \<Rightarrow> retrieval_plan \<Rightarrow> bool \<Rightarrow> pyfloat \<Rightarrow> trace \<Rightarrow> sufficiency" where
  "suff_of rt rq plan needed threshold t =
     evaluate_sufficiency rt (qr_query rq) (tr_base t @ tr_specialist t) needed (pl_patterns plan) threshold"

fun run_structural ::
  "runtime \<Rightarrow> engine_env \<Rightarrow> workspace_view \<Rightarrow> pyfloat \<Rightarrow> retrieval_plan \<Rightarrow> request \<Rightarrow> pyfloat \<Rightarrow> string \<Rightarrow> string option
     \<Rightarrow> string list \<Rightarrow> (string \<times> bool \<times> bool) list \<Rightarrow> trace \<Rightarrow> trace" where
  "run_structural rt env w deadline plan rq threshold r symbol changed_files [] t = t"
| "run_structural rt env w deadline plan rq threshold r symbol changed_files ((label, enabled, relevant) # steps) t =
     (if sf_structural (suff_of rt rq plan True threshold t) then t
      else if \<not> relevant then run_structural rt env w deadline plan rq threshold r symbol changed_files steps t
      else if \<not> enabled
      then run_structural rt env w deadline plan rq threshold r symbol changed_files steps
        (skip label ''provider not configured'' t)
      else run_structural rt env w deadline plan rq threshold r symbol changed_files steps
        (structural_call env w deadline r symbol changed_files label t))"

text \<open>The root to expand in, the symbol and the files, if an expansion is possible.\<close>

definition expansion_target ::
  "workspace_view \<Rightarrow> retrieval_plan \<Rightarrow> string option \<Rightarrow> string list \<Rightarrow> anchor \<Rightarrow> (string \<times> string option \<times> string list) option" where
  "expansion_target w plan symbol changed a =
     (let anchor_symbol = (if given symbol then symbol else an_symbol a);
          target = (case an_root a of Some r \<Rightarrow> Some r
            | None \<Rightarrow> if length (selected_roots w) = 1 then Some (hd (selected_roots w)) else None)
      in case target of
        None \<Rightarrow> None
      | Some r \<Rightarrow>
          (let own = changed_for w changed r;
               changed_files = (if own = [] then (case an_path a of Some p \<Rightarrow> [p] | None \<Rightarrow> []) else own)
           in if given anchor_symbol \<or> changed_files \<noteq> [] \<or> ''architecture'' \<in> set (pl_patterns plan)
                \<or> ''references_to'' \<in> set (pl_patterns plan)
              then Some (r, anchor_symbol, changed_files) else None))"

definition skip_expansion :: "retrieval_plan \<Rightarrow> trace \<Rightarrow> trace" where
  "skip_expansion plan t =
     (let t' = skip ''structural-expansion'' ''no unambiguous repository anchor'' t in
      if ''references_to'' \<in> set (pl_patterns plan)
      then skip ''scip-structural-expansion'' ''no unambiguous repository anchor'' t' else t')"

definition structural_phase ::
  "runtime \<Rightarrow> engine_env \<Rightarrow> workspace_view \<Rightarrow> pyfloat \<Rightarrow> retrieval_plan \<Rightarrow> request \<Rightarrow> pyfloat \<Rightarrow> trace \<Rightarrow> trace result" where
  "structural_phase rt env w deadline plan rq threshold t =
     (if \<not> pl_use_structural plan \<or> sf_structural (suff_of rt rq plan (pl_use_structural plan) threshold t) then Inr t
      else rbind (structural_anchor rt (en_parse env) (en_resolve env) (en_blake env) (tr_specialist t @ tr_base t)) (\<lambda>a.
        Inr (case expansion_target w plan (qr_symbol rq) (qr_changed rq) a of
          None \<Rightarrow> skip_expansion plan t
        | Some (r, symbol, changed_files) \<Rightarrow>
            run_structural rt env w deadline plan rq threshold r symbol changed_files
              (structural_steps (qr_providers rq) plan) t)))"

section \<open>Retrieval\<close>

definition sufficiency_threshold :: "runtime \<Rightarrow> json dict \<Rightarrow> pyfloat result" where
  "sufficiency_threshold rt config =
     rbind (or_empty (jget config ''context'')) (\<lambda>context.
     rbind (or_empty (jget context ''sufficiency'')) (\<lambda>s. to_float rt (jget_or s ''threshold'' (JFloat (Fin (72/100))))))"

definition provider_limit :: "json dict \<Rightarrow> int result" where
  "provider_limit config = (case dget config ''context'' of
     None \<Rightarrow> Inl (KeyError ''context'')
   | Some (JDict context) \<Rightarrow> to_int (jget_or context ''max_results_per_source'' (JInt 6))
   | Some _ \<Rightarrow> Inl (AttributeError ''object has no attribute get''))"

record retrieval =
  rv_trace :: trace
  rv_ranked :: "context_item list"
  rv_policy :: ranking_policy
  rv_task :: task_policy
  rv_threshold :: pyfloat

definition specialist_gate :: "sufficiency \<Rightarrow> ranking_policy \<Rightarrow> bool" where
  "specialist_gate s p = (\<not> sf_sufficient s \<or> ak_no_early_gate p)"

definition retrieve ::
  "runtime \<Rightarrow> engine_env \<Rightarrow> workspace_view \<Rightarrow> json dict \<Rightarrow> json dict \<Rightarrow> retrieval_plan \<Rightarrow> request \<Rightarrow> retrieval result" where
  "retrieve rt env w config effective plan rq =
     (let task = task_retrieval_policy (qr_query rq) plan (qr_changed rq) in
      rbind (algorithm_policy rt effective) (\<lambda>policy.
      rbind (scheduler_settings rt config) (\<lambda>settings.
      let deadline = snd settings; t0 = base_phase env w (qr_changed rq) in
      rbind (sufficiency_threshold rt config) (\<lambda>threshold.
      let s = evaluate_sufficiency rt (qr_query rq) (tr_base t0) (pl_use_structural plan) (pl_patterns plan) threshold;
          gate = specialist_gate s policy in
      rbind (provider_limit config) (\<lambda>per_source.
      rbind (if gate then configured_retrievers rt (en_unsafe env) config (intent_value (pl_intent plan)) else Inr []) (\<lambda>specs.
      let t1 = specialist_phase env w deadline (specialist_calls rt env w plan (qr_providers rq) gate specs)
            (note_semantic_skip plan (qr_providers rq) gate t0) in
      rbind (structural_phase rt env w deadline plan rq threshold t1) (\<lambda>t2.
      rbind (hybrid_rank rt (en_mlog env) (en_blake env) (qr_query rq) (tr_base t2) (tr_specialist t2) (per_source * 3)
          effective (Some task)) (\<lambda>ranked.
        Inr \<lparr>rv_trace = t2, rv_ranked = ranked, rv_policy = policy, rv_task = task, rv_threshold = threshold\<rparr>))))))))"

section \<open>Selection\<close>

text \<open>The context that is sent on: how it was chosen and what it takes of the budget.\<close>

record chosen_context =
  kx_items :: "context_item list"
  kx_mode :: string
  kx_fallback :: bool
  kx_used_chars :: int
  kx_used_tokens :: "int option"
  kx_report :: "selection_report option"

definition chars_of :: "context_item list \<Rightarrow> int" where
  "chars_of items = sum_list (map (\<lambda>i. int (length (ci_text i))) items)"

definition tokens_of :: "(string \<Rightarrow> int) \<Rightarrow> context_item list \<Rightarrow> int" where
  "tokens_of est items = sum_list (map (\<lambda>i. est (ci_text i)) items)"

definition structural_sources :: "runtime \<Rightarrow> retrieval_plan \<Rightarrow> context_item list \<Rightarrow> string list" where
  "structural_sources rt plan items = uniq (map ci_source (filter (\<lambda>i. structural_valid i
     \<and> (pl_patterns plan = [] \<or> text_or_empty rt (jget (ci_metadata i) ''pattern'') \<in> set (pl_patterns plan))) items))"

definition mandatory_sources :: "runtime \<Rightarrow> retrieval_plan \<Rightarrow> json dict \<Rightarrow> context_item list \<Rightarrow> string list" where
  "mandatory_sources rt plan selector_cfg items =
     (if pl_use_structural plan \<and> truthy (jget_or selector_cfg ''mandatory_structural_evidence'' (JBool True))
      then structural_sources rt plan items else [])"

definition fallback_context ::
  "engine_env \<Rightarrow> int \<Rightarrow> int \<Rightarrow> selection_report \<Rightarrow> context_item list \<Rightarrow> chosen_context" where
  "fallback_context env chars tokens report items =
     (let kept = token_cap (en_est env) tokens 0 (hard_cap (en_blake env) items chars) in
      \<lparr>kx_items = kept, kx_mode = sr_mode report, kx_fallback = True, kx_used_chars = chars_of kept,
       kx_used_tokens = Some (tokens_of (en_est env) kept), kx_report = Some report\<rparr>)"

definition choose_context ::
  "runtime \<Rightarrow> engine_env \<Rightarrow> json dict \<Rightarrow> retrieval_plan \<Rightarrow> string \<Rightarrow> context_item list \<Rightarrow> int \<Rightarrow> int
     \<Rightarrow> chosen_context result option" where
  "choose_context rt env config plan query ranked chars tokens =
     (case selector_config config of
        Inl e \<Rightarrow> Some (Inl e)
      | Inr cfg \<Rightarrow>
          (if truthy (jget_or cfg ''enabled'' (JBool True))
           then map_option (\<lambda>r. rbind r (\<lambda>(picked, report).
               Inr (if picked = [] \<and> ranked \<noteq> [] then fallback_context env chars tokens report ranked
                else \<lparr>kx_items = picked, kx_mode = sr_mode report, kx_fallback = False,
                  kx_used_chars = sr_used_chars report, kx_used_tokens = Some (sr_used_tokens report),
                  kx_report = Some report\<rparr>)))
             (select_context rt (en_est env) (en_blake env) query ranked (Some chars) config
               (mandatory_sources rt plan cfg ranked) None (Some tokens) None)
           else let kept = hard_cap (en_blake env) ranked chars in
             Some (Inr \<lparr>kx_items = kept, kx_mode = ''legacy_hard_cap'', kx_fallback = False,
               kx_used_chars = chars_of kept, kx_used_tokens = None, kx_report = None\<rparr>)))"

section \<open>The gates\<close>

record gathered =
  gd_trace :: trace
  gd_ranked :: "context_item list"
  gd_selected :: "context_item list"
  gd_context :: chosen_context
  gd_chars :: int
  gd_tokens :: int
  gd_sufficiency :: sufficiency
  gd_selective :: selective_decision
  gd_selective_enabled :: bool
  gd_state :: string
  gd_contract :: contract
  gd_policy :: capability_policy

definition sufficiency_json :: "sufficiency \<Rightarrow> retrieval_plan \<Rightarrow> json dict" where
  "sufficiency_json s plan = [(''score'', JFloat (Fin (sf_score s))), (''sufficient'', JBool (sf_sufficient s)),
     (''lexical_coverage'', JFloat (Fin (sf_coverage s))), (''source_diversity'', JInt (int (sf_diversity s))),
     (''exact_match'', JBool (sf_exact s)), (''structural_complete'', JBool (sf_structural s)),
     (''structural_patterns'', JList (map JStr (pl_patterns plan)))]"

text \<open>The entries of the diagnostics the orchestration contract reads.\<close>

definition diagnostics_of :: "retrieval_plan \<Rightarrow> string \<Rightarrow> sufficiency \<Rightarrow> selective_decision \<Rightarrow> bool \<Rightarrow> json dict" where
  "diagnostics_of plan state s d enabled =
     [(''retrieval_intent'', JStr (intent_value (pl_intent plan))), (''retrieval_reason'', JStr (pl_reason plan)),
      (''evidence_state'', JStr state), (''sufficiency'', JDict (sufficiency_json s plan)),
      (''selective_retrieval'', JDict (selective_json d @ [(''enabled'', JBool enabled)]))]"

definition selective_config :: "json dict \<Rightarrow> json dict result" where
  "selective_config config =
     rbind (or_empty (jget config ''context'')) (\<lambda>context. or_empty (jget context ''selective_retrieval''))"

definition expected_ids :: "workspace_view \<Rightarrow> string set" where
  "expected_ids w = set (List.map_filter ro_id (wv_routes w))"

definition final_trace :: "retrieval_plan \<Rightarrow> sufficiency \<Rightarrow> trace \<Rightarrow> trace" where
  "final_trace plan s t =
     t\<lparr>tr_fallbacks := tr_fallbacks t
       @ (if pl_use_semantic plan \<and> \<not> list_ex (\<lambda>i. ci_source i = ''semantic'') (tr_specialist t) \<and> \<not> sf_sufficient s
             \<and> dget (tr_errors t) ''semantic'' = None
          then [''semantic unavailable or returned no candidates''] else [])
       @ (if pl_use_structural plan \<and> \<not> sf_structural s
          then [''structural evidence incomplete; source fallback used''] else [])\<rparr>"

definition conclude ::
  "runtime \<Rightarrow> engine_env \<Rightarrow> workspace_view \<Rightarrow> json dict \<Rightarrow> retrieval_plan \<Rightarrow> request \<Rightarrow> retrieval \<Rightarrow> int \<Rightarrow> int
     \<Rightarrow> chosen_context \<Rightarrow> gathered result" where
  "conclude rt env w config plan rq rv chars tokens kx =
     rbind (rmap (attach_envelope rt (en_resolve env) (wv_root w) (wv_repository_ids w)) (kx_items kx)) (\<lambda>items.
     let s = evaluate_sufficiency rt (qr_query rq) items (pl_use_structural plan) (pl_patterns plan) (rv_threshold rv) in
     rbind (selective_config config) (\<lambda>cfg.
     rbind (to_float rt (jget_or cfg ''minimum_coverage'' (JFloat (Fin (15/100))))) (\<lambda>minimum.
     let d = evaluate_selective_retrieval rt items s (expected_ids w) minimum;
         enabled = truthy (jget_or cfg ''enabled'' (JBool True));
         state = evidence_state (qr_decision rq) (sf_sufficient s \<and> (sd_accept d \<or> \<not> enabled))
     in rbind (build_orchestration_contract rt (qr_decision rq) (diagnostics_of plan state s d enabled) (qr_changed rq)
          (int (length (wv_routes w))) (qr_providers rq) config) (\<lambda>ct.
        rbind (build_model_capability_policy rt (qr_decision rq) (contract_json ct) items (Some (qr_query rq))) (\<lambda>policy.
          Inr \<lparr>gd_trace = final_trace plan s (rv_trace rv), gd_ranked = rv_ranked rv, gd_selected = items, gd_context = kx,
            gd_chars = chars, gd_tokens = tokens, gd_sufficiency = s, gd_selective = d, gd_selective_enabled = enabled,
            gd_state = state, gd_contract = ct, gd_policy = policy\<rparr>)))))"

text \<open>The whole call; \<open>arm\<close> is the retrieval arm the learning decision chose.\<close>

definition gather ::
  "runtime \<Rightarrow> engine_env \<Rightarrow> workspace_view \<Rightarrow> json dict \<Rightarrow> string \<Rightarrow> request \<Rightarrow> gathered result option" where
  "gather rt env w config arm rq =
     (let plan = classify_retrieval_intent (qr_query rq) (qr_decision rq) (qr_symbol rq) (qr_endpoint rq) in
      case rbind (apply_learning_arm config arm) (\<lambda>effective.
           rbind (retrieve rt env w config effective plan rq) (\<lambda>rv.
           let s = evaluate_sufficiency rt (qr_query rq) (rv_ranked rv) (pl_use_structural plan) (pl_patterns plan)
                 (rv_threshold rv) in
           rbind (adaptive_char_limit rt (qr_budget rq) (sf_score s) config) (\<lambda>chars.
           rbind (adaptive_token_limit rt (qr_budget rq) (sf_score s) config) (\<lambda>tokens.
             Inr (rv, chars, tokens))))) of
        Inl e \<Rightarrow> Some (Inl e)
      | Inr (rv, chars, tokens) \<Rightarrow>
          map_option (\<lambda>r. rbind r (conclude rt env w config plan rq rv chars tokens))
            (choose_context rt env config plan (qr_query rq) (rv_ranked rv) chars tokens))"

end
