(* ===== verification/SelectionProps.thy ===== *)
theory SelectionProps
  imports Selection
begin

text \<open>
  Properties of the context selection: what is chosen stays within the limits, and the lazy loop, which
  re-evaluates only the candidate at the top of its heap, ends and chooses what the eager greedy
  algorithm \<open>greedy\<close> chooses.
\<close>

section \<open>Rows\<close>

text \<open>The rows a selection works on: distinct keys and positive costs.\<close>

definition rows_ok :: "candidate list \<Rightarrow> bool" where
  "rows_ok rows = (distinct (map cd_key rows) \<and> (\<forall>c \<in> set rows. 1 \<le> cd_char_cost c \<and> 1 \<le> cd_token_cost c))"

lemma dedupe_in: "i \<in> set (dedupe key is seen) \<Longrightarrow> i \<in> set is \<and> key i \<notin> seen"
  by (induction key "is" seen rule: dedupe.induct) (simp_all split: if_splits, blast+)

lemma dedupe_distinct: "distinct (map key (dedupe key is seen))"
proof (induction key "is" seen rule: dedupe.induct)
  case (2 key i "is" seen)
  then show ?case using dedupe_in [of _ key "is" "insert (key i) seen"] by (cases "key i \<in> seen") force+
qed simp

lemma candidates_ok: "rows_ok (candidates est blake query items)"
  using dedupe_distinct [of "dedupe_key blake" items "{}"]
  by (simp add: rows_ok_def candidates_def Let_def comp_def)

lemma candidates_items: "c \<in> set (candidates est blake query items) \<Longrightarrow> cd_item c \<in> set items"
  by (auto simp: candidates_def Let_def dest: dedupe_in)

lemma distinct_map_take: "distinct (map f xs) \<Longrightarrow> distinct (map f (take n xs))"
  by (metis distinct_take take_map)

lemma bounded_rows_ok:
  assumes "rows_ok rows"
  shows "rows_ok (bounded_rows ta rows limit ms) \<and> set (bounded_rows ta rows limit ms) \<subseteq> set rows"
proof (cases "int (length rows) \<le> limit")
  case False
  define must where "must = filter (\<lambda>r. ci_source (cd_item r) \<in> set ms) rows"
  define ranked where "ranked = sort_key (relevance_rank ta) (filter (\<lambda>r. cd_key r \<notin> cd_key ` set must) rows)"
  have b: "bounded_rows ta rows limit ms = must @ take (nat (max 0 (limit - int (length must)))) ranked"
    using False by (simp add: bounded_rows_def must_def ranked_def Let_def)
  have d: "distinct (map cd_key must)" "distinct (map cd_key (filter (\<lambda>r. cd_key r \<notin> cd_key ` set must) rows))"
    using assms by (simp_all add: rows_ok_def must_def distinct_map_filter)
  have "mset (map cd_key ranked) = mset (map cd_key (filter (\<lambda>r. cd_key r \<notin> cd_key ` set must) rows))"
    by (simp add: ranked_def)
  then have "distinct (map cd_key ranked)" using d(2) mset_eq_imp_distinct_iff by blast
  then have t: "distinct (map cd_key (take n ranked))" for n by (rule distinct_map_take)
  have s: "set (take n ranked) \<subseteq> {r \<in> set rows. cd_key r \<notin> cd_key ` set must}" for n
    by (auto simp: ranked_def dest!: in_set_takeD)
  define cut where "cut = take (nat (max 0 (limit - int (length must)))) ranked"
  have c: "\<forall>r \<in> set cut. r \<in> set rows \<and> cd_key r \<notin> cd_key ` set must" "distinct (map cd_key cut)"
    using subsetD [OF s] t by (auto simp: cut_def)
  have "cd_key ` set must \<inter> cd_key ` set cut = {}"
  proof (rule ccontr)
    assume "cd_key ` set must \<inter> cd_key ` set cut \<noteq> {}"
    then obtain k where k: "k \<in> cd_key ` set must" "k \<in> cd_key ` set cut" by blast
    from k(2) obtain r where "k = cd_key r" "r \<in> set cut" by (rule imageE)
    with c(1) k(1) show False by simp
  qed
  then have "distinct (map cd_key (must @ cut))" using d(1) c(2) by simp
  moreover have "set (must @ cut) \<subseteq> set rows" using c(1) by (auto simp: must_def)
  ultimately show ?thesis using assms unfolding b cut_def [symmetric] rows_ok_def by blast
qed (use assms in \<open>simp add: bounded_rows_def\<close>)

section \<open>Limits\<close>

definition spent :: "chosen \<Rightarrow> bool" where
  "spent s = (ch_chars s = sum_list (map cd_char_cost (ch_rows s)) \<and> ch_tokens s = sum_list (map cd_token_cost (ch_rows s)))"

definition within_limits :: "limits \<Rightarrow> candidate list \<Rightarrow> chosen \<Rightarrow> bool" where
  "within_limits l rows s = (spent s \<and> distinct (map cd_key (ch_rows s)) \<and> set (ch_rows s) \<subseteq> set rows
     \<and> ch_chars s \<le> li_chars l \<and> (case li_tokens l of None \<Rightarrow> True | Some t \<Rightarrow> ch_tokens s \<le> t))"

lemma chosen_keys_add [simp]: "chosen_keys (add c s) = insert (cd_key c) (chosen_keys s)"
  by (auto simp: chosen_keys_def add_def)

lemma add_within:
  assumes "within_limits l rows s" "fits l s c" "cd_key c \<notin> chosen_keys s" "c \<in> set rows"
  shows "within_limits l rows (add c s)"
  using assms by (auto simp: within_limits_def spent_def add_def fits_def chosen_keys_def split: option.splits)

lemma fits_add:
  assumes "fits l (add c s) d" "1 \<le> cd_char_cost c" "1 \<le> cd_token_cost c"
  shows "fits l s d"
  using assms by (auto simp: fits_def add_def split: option.splits)

lemma take_mandatory_within:
  assumes "within_limits l rows s" "set cs \<subseteq> set rows"
  shows "within_limits l rows (take_mandatory l ms cs s)"
  using assms
  by (induction cs arbitrary: s) (auto simp: take_mandatory_def add_within)

lemma fold_relevant_within:
  assumes "within_limits l rows s" "set cs \<subseteq> set rows" "distinct (map cd_key cs)" "\<forall>c \<in> set cs. cd_key c \<notin> chosen_keys s"
  shows "within_limits l rows (fold (\<lambda>c s. if fits l s c then add c s else s) cs s)"
  using assms
proof (induction cs arbitrary: s)
  case (Cons c cs)
  then have "\<forall>d \<in> set cs. cd_key d \<notin> chosen_keys (if fits l s c then add c s else s)"
    by (auto simp: rev_image_eqI)
  then show ?case using Cons by (simp add: add_within)
qed simp

lemma take_relevant_within:
  assumes "within_limits l rows s" "rows_ok rows" "remaining = filter (\<lambda>r. cd_key r \<notin> chosen_keys s) rows"
  shows "within_limits l rows (take_relevant l remaining s)"
proof -
  define cs where "cs = sort_key (relevance_rank (token_aware l)) remaining"
  have "distinct (map cd_key remaining)" using assms(2,3) by (simp add: rows_ok_def distinct_map_filter)
  moreover have "mset (map cd_key cs) = mset (map cd_key remaining)" by (simp add: cs_def)
  ultimately have "distinct (map cd_key cs)" using mset_eq_imp_distinct_iff by blast
  then show ?thesis
    unfolding take_relevant_def cs_def [symmetric]
    by (rule fold_relevant_within [OF assms(1), rotated]) (auto simp: cs_def assms(3))
qed

section \<open>Coverage grows, gains shrink\<close>

locale diminishing_returns =
  fixes proper :: "'s \<Rightarrow> bool" and grow :: "'c \<Rightarrow> 's \<Rightarrow> 's" and worth :: "'s \<Rightarrow> 'c \<Rightarrow> rat"
  assumes proper_grow: "proper s \<Longrightarrow> proper (grow c s)"
    and diminishing: "proper s \<Longrightarrow> worth (grow c s) d \<le> worth s d"
begin

lemma proper_fold: "proper s \<Longrightarrow> proper (fold grow cs s)"
  by (induction cs arbitrary: s) (auto intro: proper_grow)

text \<open>An old evaluation bounds every later one.\<close>

lemma stale_bound: "proper s \<Longrightarrow> worth (fold grow cs s) d \<le> worth s d"
  by (induction cs arbitrary: s) (auto intro: order_trans diminishing proper_grow)

text \<open>The candidate with the best bound is best, once its own bound is up to date.\<close>

lemma best_bound_wins:
  assumes "\<And>d. d \<in> D \<Longrightarrow> worth s d \<le> bound d" "\<And>d. d \<in> D \<Longrightarrow> bound d \<le> bound c" "bound c = worth s c" "d \<in> D"
  shows "worth s d \<le> worth s c"
  using assms order_trans by metis

end

lemma represented_gain_mono:
  fixes a b r :: rat
  assumes "a \<le> b"
  shows "(if b < r then r - b else 0) \<le> (if a < r then r - a else 0)"
  using assms by auto

lemma gain_antimono:
  assumes "list_all2 (\<le>) cov cov'"
  shows "gain c us cov' \<le> gain c us cov"
  using assms
proof (induction cov cov' arbitrary: us rule: list_all2_induct)
  case (Cons a as b bs)
  show ?case
  proof (cases us)
    case (Cons u us')
    then show ?thesis
      using Cons.IH [of us'] represented_gain_mono [OF \<open>a \<le> b\<close>, of "represented c u"]
      by (simp add: gain_def)
  qed (simp add: gain_def)
qed (simp add: gain_def)

lemma apply_candidate_grows:
  "length us = length cov \<Longrightarrow> list_all2 (\<le>) cov (apply_candidate c us cov)"
  by (induction us cov rule: list_induct2) (auto simp: apply_candidate_def)

lemma length_apply_candidate [simp]: "length us = length cov \<Longrightarrow> length (apply_candidate c us cov) = length cov"
  by (simp add: apply_candidate_def)

lemma density_antimono:
  assumes "length rows = length cov" "0 \<le> candidate_cost l d"
  shows "density l rows (apply_candidate c rows cov) d \<le> density l rows cov d"
  unfolding density_def using gain_antimono [OF apply_candidate_grows [OF assms(1)]] assms(2)
  by (intro divide_right_mono) simp_all

text \<open>Only rows of positive cost are weighed; anything else counts as worthless.\<close>

definition row_worth :: "limits \<Rightarrow> candidate list \<Rightarrow> rat list \<Rightarrow> candidate \<Rightarrow> rat" where
  "row_worth l rows cov c = (if 0 \<le> candidate_cost l c then density l rows cov c else 0)"

interpretation coverage: diminishing_returns "\<lambda>cov. length rows = length cov" "\<lambda>c. apply_candidate c rows" "row_worth l rows"
  for l rows
  by unfold_locales (auto simp: row_worth_def density_antimono)

section \<open>The eager algorithm\<close>

text \<open>Take the unchosen row of the best density that fits, the smaller key among equals, while its density
  is positive.\<close>

definition available :: "limits \<Rightarrow> candidate list \<Rightarrow> chosen \<Rightarrow> candidate list" where
  "available l rows s = filter (\<lambda>c. cd_key c \<notin> chosen_keys s \<and> fits l s c) rows"

definition greedy_order :: "limits \<Rightarrow> candidate list \<Rightarrow> rat list \<Rightarrow> candidate \<Rightarrow> rat \<times> string" where
  "greedy_order l rows cov c = (- density l rows cov c, cd_key c)"

function greedy :: "limits \<Rightarrow> candidate list \<Rightarrow> rat list \<Rightarrow> chosen \<Rightarrow> chosen" where
  "greedy l rows cov s =
     (case sort_key (greedy_order l rows cov) (available l rows s) of
        [] \<Rightarrow> s
      | c # _ \<Rightarrow> (if density l rows cov c \<le> 0 then s
          else greedy l rows (apply_candidate c rows cov) (add c s)))"
  by pat_completeness auto

termination
proof (relation "measure (\<lambda>(l, rows, cov, s). length (filter (\<lambda>c. cd_key c \<notin> chosen_keys s) rows))", goal_cases)
  case (2 l rows cov s c cs)
  have "c \<in> set (sort_key (greedy_order l rows cov) (available l rows s))" using 2 by simp
  then have "c \<in> set rows" "cd_key c \<notin> chosen_keys s" by (auto simp: available_def)
  then have "length (filter (\<lambda>d. cd_key d \<notin> chosen_keys (add c s)) rows) < length (filter (\<lambda>d. cd_key d \<notin> chosen_keys s) rows)"
  proof -
    have "filter (\<lambda>d. cd_key d \<notin> chosen_keys (add c s)) rows
        = filter (\<lambda>d. cd_key d \<noteq> cd_key c) (filter (\<lambda>d. cd_key d \<notin> chosen_keys s) rows)"
      by (auto intro: filter_cong)
    then show ?thesis using \<open>c \<in> set rows\<close> \<open>cd_key c \<notin> chosen_keys s\<close> by (simp only:) (rule length_filter_less [of c], auto)
  qed
  then show ?case by simp
qed simp

declare greedy.simps [simp del]

section \<open>Lazy is eager\<close>

text \<open>The heap is sorted, an entry's bound is at least the present density of its candidate and equal to it
  when the entry is of the present epoch, and every row that could still be taken is in the heap.\<close>

definition entry_ok :: "limits \<Rightarrow> candidate list \<Rightarrow> nat \<Rightarrow> rat list \<Rightarrow> chosen \<Rightarrow> entry \<Rightarrow> bool" where
  "entry_ok l rows epoch cov s e = (case e of (neg, k, ep, c) \<Rightarrow>
     k = cd_key c \<and> c \<in> set rows \<and> k \<notin> chosen_keys s \<and> ep \<le> epoch
     \<and> row_worth l rows cov c \<le> - neg \<and> (ep = epoch \<longrightarrow> neg = - row_worth l rows cov c))"

definition heap_ok :: "limits \<Rightarrow> candidate list \<Rightarrow> entry list \<Rightarrow> nat \<Rightarrow> rat list \<Rightarrow> chosen \<Rightarrow> bool" where
  "heap_ok l rows heap epoch cov s = (sorted (map entry_order heap)
     \<and> distinct (map (\<lambda>(_, k, _, _). k) heap)
     \<and> (\<forall>e \<in> set heap. entry_ok l rows epoch cov s e)
     \<and> (\<forall>c \<in> set (available l rows s). \<exists>neg ep. (neg, cd_key c, ep, c) \<in> set heap))"

lemma row_cost_pos: "rows_ok rows \<Longrightarrow> c \<in> set rows \<Longrightarrow> 0 < candidate_cost l c"
  by (auto simp: rows_ok_def candidate_cost_def active_cost_def)

lemma row_worth_density: "rows_ok rows \<Longrightarrow> c \<in> set rows \<Longrightarrow> row_worth l rows cov c = density l rows cov c"
  using row_cost_pos [of rows c l] by (simp add: row_worth_def)

lemma sort_key_head:
  assumes "c \<in> set xs" "\<forall>d \<in> set xs. f c \<le> f d" "inj_on f (set xs)"
  shows "\<exists>rest. sort_key f xs = c # rest"
proof (cases "sort_key f xs")
  case Nil
  then show ?thesis using assms(1) by (metis set_empty set_sort empty_iff empty_set)
next
  case (Cons d ds)
  have "d \<in> set xs" by (metis Cons list.set_intros(1) set_sort)
  moreover have "f d \<le> f c"
  proof -
    have "sorted (map f (d # ds))" by (metis Cons sorted_sort_key)
    moreover have "c \<in> set (d # ds)" by (metis Cons assms(1) set_sort)
    ultimately show ?thesis by auto
  qed
  ultimately have "d = c" using assms by (metis inj_onD order_antisym)
  then show ?thesis using Cons by simp
qed

lemma greedy_order_inj: "rows_ok rows \<Longrightarrow> inj_on (greedy_order l rows cov) (set (available l rows s))"
  by (auto simp: inj_on_def greedy_order_def rows_ok_def available_def distinct_map)

text \<open>An up-to-date entry at the top of the heap holds what the eager algorithm takes.\<close>

lemma fresh_top_is_greedy:
  assumes "heap_ok l rows ((neg, k, ep, c) # h) epoch cov s" "ep = epoch" "fits l s c" "rows_ok rows"
  shows "\<exists>rest. sort_key (greedy_order l rows cov) (available l rows s) = c # rest"
proof (rule sort_key_head)
  have c: "k = cd_key c" "c \<in> set rows" "k \<notin> chosen_keys s" "neg = - row_worth l rows cov c"
    using assms(1,2) by (auto simp: heap_ok_def entry_ok_def)
  show "c \<in> set (available l rows s)" using c assms(3) by (simp add: available_def)
  show "inj_on (greedy_order l rows cov) (set (available l rows s))" by (rule greedy_order_inj [OF assms(4)])
  show "\<forall>d \<in> set (available l rows s). greedy_order l rows cov c \<le> greedy_order l rows cov d"
  proof
    fix d assume d: "d \<in> set (available l rows s)"
    then obtain negd epd where e: "(negd, cd_key d, epd, d) \<in> set ((neg, k, ep, c) # h)"
      using assms(1) unfolding heap_ok_def by blast
    then have le: "(neg, k, ep) \<le> (negd, cd_key d, epd)"
      using assms(1) by (auto simp: heap_ok_def entry_order_def)
    have b: "row_worth l rows cov d \<le> - negd" using assms(1) e unfolding heap_ok_def entry_ok_def by fastforce
    have w: "row_worth l rows cov c = density l rows cov c" "row_worth l rows cov d = density l rows cov d"
      using row_worth_density [OF assms(4)] c(2) d by (auto simp: available_def)
    have le2: "neg < negd \<or> neg = negd \<and> k \<le> cd_key d"
      using le by (auto simp: less_eq_prod_def less_prod_def)
    have n: "neg = - density l rows cov c" "negd \<le> - density l rows cov d" using c(4) b w by linarith+
    show "greedy_order l rows cov c \<le> greedy_order l rows cov d"
    proof (cases "- density l rows cov c < - density l rows cov d")
      case True
      then show ?thesis by (simp add: greedy_order_def less_eq_prod_def)
    next
      case False
      then have "neg = negd" "density l rows cov c = density l rows cov d" using le2 n by linarith+
      then show ?thesis using le2 c(1) by (simp add: greedy_order_def less_eq_prod_def)
    qed
  qed
qed

lemma heap_tail:
  assumes "heap_ok l rows ((neg, k, ep, c) # h) epoch cov s" "\<not> fits l s c"
  shows "heap_ok l rows h epoch cov s"
proof -
  have "\<exists>neg ep. (neg, cd_key d, ep, d) \<in> set h" if d: "d \<in> set (available l rows s)" for d
  proof -
    have "d \<noteq> c" using d assms(2) by (auto simp: available_def)
    moreover obtain negd epd where "(negd, cd_key d, epd, d) \<in> set ((neg, k, ep, c) # h)"
      using assms(1) d unfolding heap_ok_def by blast
    ultimately show ?thesis by auto
  qed
  then show ?thesis using assms(1) by (auto simp: heap_ok_def)
qed

lemma heap_refresh:
  assumes "heap_ok l rows ((neg, k, ep, c) # h) epoch cov s"
  shows "heap_ok l rows (heap_push (- row_worth l rows cov c, cd_key c, epoch, c) h) epoch cov s"
proof -
  let ?e = "(- row_worth l rows cov c, cd_key c, epoch, c)"
  have k: "k = cd_key c" "c \<in> set rows" "k \<notin> chosen_keys s" using assms by (auto simp: heap_ok_def entry_ok_def)
  have "sorted (map entry_order (heap_push ?e h))"
    using assms by (simp add: heap_ok_def heap_push_def sorted_insort_key)
  moreover have "distinct (map (\<lambda>(_, k, _, _). k) (heap_push ?e h))"
  proof -
    have "mset (map (\<lambda>(_, k, _, _). k) (heap_push ?e h)) = mset (map (\<lambda>(_, k, _, _). k) ((neg, k, ep, c) # h))"
      by (simp add: heap_push_def k(1))
    moreover have "distinct (map (\<lambda>(_, k, _, _). k) ((neg, k, ep, c) # h))"
      using assms unfolding heap_ok_def by blast
    ultimately show ?thesis using mset_eq_imp_distinct_iff by blast
  qed
  moreover have "\<forall>e \<in> set (heap_push ?e h). entry_ok l rows epoch cov s e"
    using assms k by (simp add: heap_push_def set_insort_key heap_ok_def) (simp add: entry_ok_def)
  moreover have "\<exists>neg ep. (neg, cd_key d, ep, d) \<in> set (heap_push ?e h)" if d: "d \<in> set (available l rows s)" for d
  proof -
    obtain negd epd where "(negd, cd_key d, epd, d) \<in> set ((neg, k, ep, c) # h)"
      using assms d unfolding heap_ok_def by blast
    then show ?thesis by (cases "d = c") (auto simp: heap_push_def set_insort_key)
  qed
  ultimately show ?thesis unfolding heap_ok_def by blast
qed

lemma heap_accept:
  assumes "heap_ok l rows ((neg, k, ep, c) # h) epoch cov s" "rows_ok rows" "length rows = length cov"
  shows "heap_ok l rows h (epoch + 1) (apply_candidate c rows cov) (add c s)"
proof -
  have c: "k = cd_key c" "c \<in> set rows" using assms(1) by (auto simp: heap_ok_def entry_ok_def)
  have dk: "k \<notin> (\<lambda>(_, k, _, _). k) ` set h" using assms(1) by (auto simp: heap_ok_def)
  have "entry_ok l rows (epoch + 1) (apply_candidate c rows cov) (add c s) e" if e: "e \<in> set h" for e
  proof -
    obtain negd kd epd d where ed: "e = (negd, kd, epd, d)" by (cases e)
    have ok: "entry_ok l rows epoch cov s e" using assms(1) e by (simp add: heap_ok_def)
    have "kd \<noteq> k" using dk e ed by force
    moreover have "row_worth l rows (apply_candidate c rows cov) d \<le> row_worth l rows cov d"
      by (rule coverage.diminishing [OF assms(3)])
    ultimately show ?thesis using ok c(1) unfolding entry_ok_def ed by auto
  qed
  moreover have "\<exists>neg ep. (neg, cd_key d, ep, d) \<in> set h" if d: "d \<in> set (available l rows (add c s))" for d
  proof -
    have "1 \<le> cd_char_cost c \<and> 1 \<le> cd_token_cost c" using assms(2) c(2) by (auto simp: rows_ok_def)
    then have "d \<in> set (available l rows s)" "d \<noteq> c" using d fits_add [of l c s d] by (auto simp: available_def)
    moreover obtain negd epd where "(negd, cd_key d, epd, d) \<in> set ((neg, k, ep, c) # h)"
      using assms(1) calculation(1) unfolding heap_ok_def by blast
    ultimately show ?thesis by auto
  qed
  ultimately show ?thesis using assms(1) by (simp add: heap_ok_def)
qed

text \<open>Out-of-date entries and the heap's length measure the work left.\<close>

definition stale_entries :: "nat \<Rightarrow> entry list \<Rightarrow> nat" where
  "stale_entries epoch heap = length (filter (\<lambda>(_, _, ep, _). ep \<noteq> epoch) heap)"

definition work :: "nat \<Rightarrow> entry list \<Rightarrow> nat" where
  "work epoch heap = length heap * Suc (length heap) + stale_entries epoch heap"

lemma stale_entries_le: "stale_entries epoch heap \<le> length heap"
  by (simp add: stale_entries_def)

lemma work_tail: "work epoch' h < work epoch (e # h)"
  using stale_entries_le [of epoch' h] by (simp add: work_def)

lemma work_refresh:
  assumes "ep \<noteq> epoch"
  shows "work epoch (heap_push (x, y, epoch, z) h) < work epoch ((neg, k, ep, c) # h)"
proof -
  have "mset (filter (\<lambda>(_, _, ep, _). ep \<noteq> epoch) (heap_push (x, y, epoch, z) h)) = mset (filter (\<lambda>(_, _, ep, _). ep \<noteq> epoch) h)"
    by (simp add: heap_push_def)
  then have "stale_entries epoch (heap_push (x, y, epoch, z) h) = stale_entries epoch h"
    unfolding stale_entries_def by (rule mset_eq_length)
  then show ?thesis using assms by (simp add: work_def heap_push_def stale_entries_def)
qed

theorem lazy_loop_greedy:
  assumes "heap_ok l rows heap epoch cov s" "rows_ok rows" "length rows = length cov"
  shows "lazy_loop l rows heap epoch cov s = Some (greedy l rows cov s)"
  using assms
proof (induction "work epoch heap" arbitrary: heap epoch cov s rule: less_induct)
  case less
  show ?case
  proof (cases heap)
    case Nil
    then have "available l rows s = []" using less.prems(1) by (cases "available l rows s") (auto simp: heap_ok_def)
    then show ?thesis using Nil by (simp add: lazy_loop.simps greedy.simps)
  next
    case (Cons e h)
    obtain neg k ep c where e: "e = (neg, k, ep, c)" by (cases e)
    note heap = Cons [unfolded e]
    have ok: "heap_ok l rows ((neg, k, ep, c) # h) epoch cov s" using less.prems(1) heap by simp
    have c: "c \<in> set rows" using ok by (auto simp: heap_ok_def entry_ok_def)
    have w: "row_worth l rows cov c = density l rows cov c" by (rule row_worth_density [OF less.prems(2) c])
    consider (unfit) "\<not> fits l s c" | (stale) "fits l s c" "ep \<noteq> epoch" | (fresh) "fits l s c" "ep = epoch" by blast
    then show ?thesis
    proof cases
      case unfit
      then have "lazy_loop l rows heap epoch cov s = lazy_loop l rows h epoch cov s"
        by (subst lazy_loop.simps) (simp add: heap)
      also have "\<dots> = Some (greedy l rows cov s)"
        by (rule less.hyps [OF _ heap_tail [OF ok unfit] less.prems(2,3)]) (simp add: heap work_tail)
      finally show ?thesis .
    next
      case stale
      then have "lazy_loop l rows heap epoch cov s
          = lazy_loop l rows (heap_push (- row_worth l rows cov c, cd_key c, epoch, c) h) epoch cov s"
        by (subst lazy_loop.simps) (simp add: heap w Let_def)
      also have "\<dots> = Some (greedy l rows cov s)"
        by (rule less.hyps [OF _ heap_refresh [OF ok] less.prems(2,3)]) (simp only: heap work_refresh [OF stale(2)])
      finally show ?thesis .
    next
      case fresh
      obtain rest where g: "sort_key (greedy_order l rows cov) (available l rows s) = c # rest"
        using fresh_top_is_greedy [OF ok fresh(2,1) less.prems(2)] by blast
      have neg: "neg = - density l rows cov c" using ok fresh(2) w by (auto simp: heap_ok_def entry_ok_def)
      show ?thesis
      proof (cases "density l rows cov c \<le> 0")
        case True
        then have "lazy_loop l rows heap epoch cov s = Some s"
          by (subst lazy_loop.simps) (simp add: heap fresh neg Let_def)
        then show ?thesis using True g by (simp add: greedy.simps)
      next
        case False
        then have "lazy_loop l rows heap epoch cov s = lazy_loop l rows h (epoch + 1) (apply_candidate c rows cov) (add c s)"
          by (subst lazy_loop.simps) (simp add: heap fresh neg Let_def)
        also have "\<dots> = Some (greedy l rows (apply_candidate c rows cov) (add c s))"
          by (rule less.hyps [OF _ heap_accept [OF ok less.prems(2,3)] less.prems(2)])
            (simp_all add: heap work_tail less.prems(3))
        finally show ?thesis using False g by (simp add: greedy.simps)
      qed
    qed
  qed
qed

lemma fold_push_mset:
  "mset (fold (\<lambda>c. heap_push (f c)) cs h) = mset (map f cs) + mset h"
  by (induction cs arbitrary: h) (simp_all add: heap_push_def)

lemma fold_push_sorted: "sorted (map entry_order h) \<Longrightarrow> sorted (map entry_order (fold (\<lambda>c. heap_push (f c)) cs h))"
  by (induction cs arbitrary: h) (simp_all add: heap_push_def sorted_insort_key)

lemma initial_heap_ok:
  assumes "rows_ok rows" "remaining = filter (\<lambda>r. cd_key r \<notin> chosen_keys s) rows"
  shows "heap_ok l rows (initial_heap l rows cov remaining) 0 cov s"
proof -
  define f where "f c = (- density l rows cov c, cd_key c, 0 :: nat, c)" for c
  have ih: "initial_heap l rows cov remaining = fold (\<lambda>c. heap_push (f c)) remaining []"
    by (simp add: initial_heap_def f_def)
  have m: "mset (initial_heap l rows cov remaining) = mset (map f remaining)"
    using fold_push_mset [of f remaining "[]"] by (simp add: ih)
  then have entries: "set (initial_heap l rows cov remaining) = f ` set remaining" by (metis mset_eq_setD set_map)
  have rem: "c \<in> set remaining \<longleftrightarrow> c \<in> set rows \<and> cd_key c \<notin> chosen_keys s" for c using assms(2) by auto
  have "mset (map (\<lambda>(_, k, _, _). k) (initial_heap l rows cov remaining)) = mset (map cd_key remaining)"
    using m by (simp add: f_def image_mset.compositionality comp_def)
  moreover have "distinct (map cd_key remaining)" using assms by (simp add: rows_ok_def distinct_map_filter)
  ultimately have "distinct (map (\<lambda>(_, k, _, _). k) (initial_heap l rows cov remaining))"
    using mset_eq_imp_distinct_iff by blast
  moreover have "sorted (map entry_order (initial_heap l rows cov remaining))"
    unfolding ih by (rule fold_push_sorted) simp
  moreover have "\<forall>e \<in> set (initial_heap l rows cov remaining). entry_ok l rows 0 cov s e"
    using row_worth_density [OF assms(1)] by (auto simp: entries rem f_def entry_ok_def)
  moreover have "\<forall>c \<in> set (available l rows s). \<exists>neg ep. (neg, cd_key c, ep, c) \<in> set (initial_heap l rows cov remaining)"
    by (auto simp: entries rem f_def available_def image_iff)
  ultimately show ?thesis by (simp add: heap_ok_def)
qed

definition start_coverage :: "candidate list \<Rightarrow> chosen \<Rightarrow> rat list" where
  "start_coverage rows s = fold (\<lambda>c. apply_candidate c rows) (ch_rows s) (replicate (length rows) 0)"

theorem take_covering_greedy:
  assumes "rows_ok rows" "remaining = filter (\<lambda>r. cd_key r \<notin> chosen_keys s) rows"
  shows "take_covering l rows remaining s = Some (greedy l rows (start_coverage rows s) s)"
proof -
  have "length rows = length (start_coverage rows s)"
    unfolding start_coverage_def by (rule coverage.proper_fold) simp
  then show ?thesis
    using lazy_loop_greedy [OF initial_heap_ok [OF assms] assms(1)]
    by (simp add: take_covering_def Let_def start_coverage_def)
qed

section \<open>\<open>select_context\<close>\<close>

lemma greedy_within: "within_limits l rows s \<Longrightarrow> within_limits l rows (greedy l rows cov s)"
proof (induction l rows cov s rule: greedy.induct)
  case (1 l rows cov s)
  show ?case
  proof (cases "sort_key (greedy_order l rows cov) (available l rows s)")
    case Nil
    then show ?thesis using 1(2) by (simp add: greedy.simps)
  next
    case (Cons c rest)
    then have "c \<in> set (available l rows s)" by (metis list.set_intros(1) set_sort)
    then have "within_limits l rows (add c s)" using 1(2) by (intro add_within) (auto simp: available_def)
    then show ?thesis using 1 Cons by (subst greedy.simps) simp
  qed
qed

lemma nothing_within: "0 \<le> li_chars l \<Longrightarrow> (case li_tokens l of None \<Rightarrow> True | Some t \<Rightarrow> 0 \<le> t) \<Longrightarrow> within_limits l rows nothing_chosen"
  by (simp add: within_limits_def spent_def nothing_chosen_def split: option.splits)

lemma choose_rows_within:
  assumes "rows_ok rows" "within_limits l rows nothing_chosen"
  shows "\<exists>mode s. choose_rows l ms rows ratio tight = Some (mode, s) \<and> within_limits l rows s"
proof -
  define s where "s = take_mandatory l ms rows nothing_chosen"
  define remaining where "remaining = filter (\<lambda>r. cd_key r \<notin> chosen_keys s) rows"
  have s: "within_limits l rows s" unfolding s_def by (rule take_mandatory_within [OF assms(2)]) simp
  show ?thesis
    using take_relevant_within [OF s assms(1) remaining_def] greedy_within [OF s]
      take_covering_greedy [OF assms(1) remaining_def, of l]
    by (simp add: choose_rows_def s_def [symmetric] remaining_def [symmetric])
qed

lemma limits_of_nonneg:
  "0 \<le> li_chars (limits_of a b c)" "case li_tokens (limits_of a b c) of None \<Rightarrow> True | Some t \<Rightarrow> 0 \<le> t"
  by (simp_all add: limits_of_def split: option.splits)

text \<open>The shape of every call: an error of the configuration, nothing, or rows within the limits.\<close>

lemma select_with_cases:
  fixes mandatory_sources :: "string list"
  assumes "l = limits_of char_budget budget_chars budget_tokens"
  obtains (refused) e where "select_with rt est blake query items char_budget cfg mandatory_sources budget_chars budget_tokens
      max_selector_candidates = Some (Inl e)"
  | (emptied) report where "select_with rt est blake query items char_budget cfg mandatory_sources budget_chars budget_tokens
      max_selector_candidates = Some (Inr ([], report))" "sr_used_chars report = 0" "sr_used_tokens report = 0"
      "sr_selected_count report = 0"
      "li_chars l \<le> 0 \<or> (\<exists>t. li_tokens l = Some t \<and> t \<le> 0)
        \<or> (\<exists>limit. bounded_rows (token_aware l) (candidates est blake query items) limit mandatory_sources = [])"
  | (some) rows mode s report where "select_with rt est blake query items char_budget cfg mandatory_sources budget_chars budget_tokens
      max_selector_candidates = Some (Inr (map cd_item (ch_rows s), report))"
      "sr_used_chars report = ch_chars s" "sr_used_tokens report = ch_tokens s" "sr_selected_count report = length (ch_rows s)"
      "\<exists>limit. rows = bounded_rows (token_aware l) (candidates est blake query items) limit mandatory_sources"
      "rows_ok rows" "set rows \<subseteq> set (candidates est blake query items)" "within_limits l rows s"
      "\<exists>ratio tight. choose_rows l mandatory_sources rows ratio tight = Some (mode, s)"
proof (cases "candidate_limit_of max_selector_candidates cfg")
  case (Inl e)
  then show ?thesis by (intro refused) (simp add: select_with_def Let_def)
next
  case (Inr limit)
  let ?call = "select_with rt est blake query items char_budget cfg mandatory_sources budget_chars budget_tokens
      max_selector_candidates"
  define all_rows where "all_rows = candidates est blake query items"
  define rows where "rows = bounded_rows (token_aware l) all_rows limit mandatory_sources"
  define ratio where "ratio = rat_of_int (case li_tokens l of Some t \<Rightarrow> t | None \<Rightarrow> li_chars l)
    / of_int (max 1 (sum_list (map (candidate_cost l) rows)))"
  have r: "rows_ok rows" "set rows \<subseteq> set all_rows"
    using bounded_rows_ok [OF candidates_ok] by (simp_all add: rows_def all_rows_def)
  show ?thesis
  proof (cases "rows = [] \<or> li_chars l \<le> 0 \<or> (case li_tokens l of None \<Rightarrow> False | Some t \<Rightarrow> t \<le> 0)")
    case True
    then have "\<exists>report. ?call = Some (Inr ([], report)) \<and> sr_used_chars report = 0 \<and> sr_used_tokens report = 0
        \<and> sr_selected_count report = 0"
      using Inr by (simp add: select_with_def assms [symmetric] Let_def rows_def all_rows_def)
    moreover have "li_chars l \<le> 0 \<or> (\<exists>t. li_tokens l = Some t \<and> t \<le> 0)
        \<or> (\<exists>limit. bounded_rows (token_aware l) (candidates est blake query items) limit mandatory_sources = [])"
      using True by (auto simp: rows_def all_rows_def split: option.splits)
    ultimately show ?thesis using emptied by blast
  next
    case False
    show ?thesis
    proof (cases "to_float rt (jget_or cfg ''tight_budget_fraction'' (JFloat (Fin (3/10))))")
      case (Inl e)
      then show ?thesis
        using Inr False by (intro refused) (simp add: select_with_def assms [symmetric] Let_def rows_def all_rows_def)
    next
      case tight: (Inr tight)
      obtain mode s where s: "choose_rows l mandatory_sources rows ratio tight = Some (mode, s)" "within_limits l rows s"
        using choose_rows_within [OF r(1) nothing_within [OF limits_of_nonneg, where rows = rows]]
        unfolding assms by blast
      have "\<exists>report. ?call = Some (Inr (map cd_item (ch_rows s), report)) \<and> sr_used_chars report = ch_chars s
          \<and> sr_used_tokens report = ch_tokens s \<and> sr_selected_count report = length (ch_rows s)"
        using Inr False tight s(1)
        by (simp add: select_with_def assms [symmetric] Let_def rows_def [symmetric] ratio_def [symmetric]
            all_rows_def [symmetric])
      then obtain report where rep: "?call = Some (Inr (map cd_item (ch_rows s), report))" "sr_used_chars report = ch_chars s"
          "sr_used_tokens report = ch_tokens s" "sr_selected_count report = length (ch_rows s)" by blast
      show ?thesis
        by (rule some [OF rep _ r(1) _ s(2)]) (use r(2) s(1) in \<open>auto simp: rows_def all_rows_def\<close>)
    qed
  qed
qed

text \<open>What a call returns: items of the input, no text twice, paid for within both budgets.\<close>

lemma selection_within_budget:
  assumes "select_with rt est blake query items char_budget cfg ms budget_chars budget_tokens max_selector_candidates
      = Some (Inr (selected, report))"
    and "l = limits_of char_budget budget_chars budget_tokens"
  shows "set selected \<subseteq> set items \<and> distinct (map (dedupe_key blake) selected)
    \<and> sr_used_chars report = sum_list (map (\<lambda>i. max 1 (int (length (ci_text i)))) selected)
    \<and> sr_used_tokens report = sum_list (map (\<lambda>i. max 1 (est (ci_text i))) selected)
    \<and> sr_selected_count report = length selected
    \<and> sr_used_chars report \<le> li_chars l
    \<and> (case li_tokens l of None \<Rightarrow> True | Some t \<Rightarrow> sr_used_tokens report \<le> t)"
  using assms(2)
proof (cases rule: select_with_cases [where rt = rt and est = est and blake = blake and query = query
    and items = items and cfg = cfg and mandatory_sources = ms and max_selector_candidates = max_selector_candidates])
  case (refused e)
  then show ?thesis using assms(1) by simp
next
  case (emptied r)
  then show ?thesis
    using assms limits_of_nonneg [of char_budget budget_chars budget_tokens] by (simp split: option.splits)
next
  case (some rows mode s r)
  have sel: "selected = map cd_item (ch_rows s)" "report = r" using assms(1) some(1) by simp_all
  have w: "spent s" "distinct (map cd_key (ch_rows s))" "set (ch_rows s) \<subseteq> set (candidates est blake query items)"
    "ch_chars s \<le> li_chars l" "case li_tokens l of None \<Rightarrow> True | Some t \<Rightarrow> ch_tokens s \<le> t"
    using some(7,8) by (auto simp: within_limits_def)
  have c: "cd_key c = dedupe_key blake (cd_item c) \<and> cd_char_cost c = max 1 (int (length (ci_text (cd_item c))))
      \<and> cd_token_cost c = max 1 (est (ci_text (cd_item c))) \<and> cd_item c \<in> set items" if m: "c \<in> set (ch_rows s)" for c
  proof -
    have "c \<in> set (candidates est blake query items)" using m w(3) by blast
    then show ?thesis using candidates_items by (auto simp: candidates_def Let_def)
  qed
  have "map cd_key (ch_rows s) = map (dedupe_key blake) selected"
    "map cd_char_cost (ch_rows s) = map (\<lambda>i. max 1 (int (length (ci_text i)))) selected"
    "map cd_token_cost (ch_rows s) = map (\<lambda>i. max 1 (est (ci_text i))) selected"
    using c by (simp_all add: sel(1))
  moreover have "set selected \<subseteq> set items" using c by (auto simp: sel(1))
  moreover have "length (ch_rows s) = length selected" by (simp add: sel(1))
  ultimately show ?thesis using w(1,2,4,5) some(2-4) unfolding spent_def sel(2) by metis
qed

section \<open>Mandatory sources\<close>

definition extends :: "chosen \<Rightarrow> chosen \<Rightarrow> bool" where
  "extends s t = (chosen_keys s \<subseteq> chosen_keys t \<and> ch_chars s \<le> ch_chars t \<and> ch_tokens s \<le> ch_tokens t)"

lemma extends_refl [simp]: "extends s s" by (simp add: extends_def)

lemma extends_trans: "extends s t \<Longrightarrow> extends t u \<Longrightarrow> extends s u"
  by (auto simp: extends_def)

lemma extends_add: "1 \<le> cd_char_cost c \<Longrightarrow> 1 \<le> cd_token_cost c \<Longrightarrow> extends s (add c s)"
  by (auto simp: extends_def) (auto simp: add_def)

lemma extends_unfit: "extends s t \<Longrightarrow> \<not> fits l s c \<Longrightarrow> \<not> fits l t c"
  by (auto simp: extends_def fits_def split: option.splits)

lemma fold_extends:
  assumes "\<And>c s. c \<in> set cs \<Longrightarrow> extends s (f c s)"
  shows "extends s (fold f cs s)"
  using assms
proof (induction cs arbitrary: s)
  case (Cons c cs)
  then show ?case using extends_trans [of s "f c s"] by simp
qed simp

lemma greedy_extends: "rows_ok rows \<Longrightarrow> extends s (greedy l rows cov s)"
proof (induction l rows cov s rule: greedy.induct)
  case (1 l rows cov s)
  show ?case
  proof (cases "sort_key (greedy_order l rows cov) (available l rows s)")
    case Nil
    then show ?thesis by (simp add: greedy.simps)
  next
    case (Cons c rest)
    then have "c \<in> set (available l rows s)" by (metis list.set_intros(1) set_sort)
    then have "extends s (add c s)" using 1(2) by (intro extends_add) (auto simp: available_def rows_ok_def)
    then show ?thesis using 1 Cons extends_trans by (subst greedy.simps) auto
  qed
qed

text \<open>A row of a mandatory source is chosen, or it does not fit in what the final choice leaves.\<close>

lemma take_mandatory_served:
  assumes "\<forall>c \<in> set cs. 1 \<le> cd_char_cost c \<and> 1 \<le> cd_token_cost c" "c \<in> set cs" "ci_source (cd_item c) \<in> set ms"
  shows "cd_key c \<in> chosen_keys (take_mandatory l ms cs s) \<or> \<not> fits l (take_mandatory l ms cs s) c"
  using assms
proof (induction cs arbitrary: s)
  case (Cons d cs)
  define step where "step = (\<lambda>c s. if ci_source (cd_item c) \<notin> set ms then s
     else if cd_key c \<in> chosen_keys s \<or> \<not> fits l s c then s else add c s)"
  have t: "take_mandatory l ms (d # cs) s = take_mandatory l ms cs (step d s)"
    by (simp add: take_mandatory_def step_def)
  show ?case
  proof (cases "c \<in> set cs")
    case True
    then show ?thesis using Cons unfolding t by simp
  next
    case False
    then have "d = c" using Cons.prems(2) by simp
    then have "cd_key c \<in> chosen_keys (step d s) \<or> \<not> fits l (step d s) c"
      using Cons.prems(3) by (auto simp: step_def)
    moreover have "extends (step d s) (take_mandatory l ms cs (step d s))"
      unfolding take_mandatory_def by (rule fold_extends) (use Cons.prems(1) extends_add in auto)
    ultimately show ?thesis unfolding t using extends_unfit by (auto simp: extends_def)
  qed
qed simp

lemma choose_rows_mandatory:
  assumes "choose_rows l ms rows ratio tight = Some (mode, s)" "rows_ok rows"
    and "c \<in> set rows" "ci_source (cd_item c) \<in> set ms"
  shows "cd_key c \<in> chosen_keys s \<or> \<not> fits l s c"
proof -
  define s0 where "s0 = take_mandatory l ms rows nothing_chosen"
  define remaining where "remaining = filter (\<lambda>r. cd_key r \<notin> chosen_keys s0) rows"
  have costs: "\<forall>c \<in> set rows. 1 \<le> cd_char_cost c \<and> 1 \<le> cd_token_cost c" using assms(2) by (simp add: rows_ok_def)
  have "extends s0 (take_relevant l remaining s0)"
    unfolding take_relevant_def by (rule fold_extends) (use costs extends_add in \<open>auto simp: remaining_def\<close>)
  then have "extends s0 s"
    using assms(1) take_covering_greedy [OF assms(2) remaining_def, of l] greedy_extends [OF assms(2)]
    by (auto simp: choose_rows_def s0_def [symmetric] remaining_def [symmetric] split: if_splits)
  moreover have "cd_key c \<in> chosen_keys s0 \<or> \<not> fits l s0 c"
    unfolding s0_def by (rule take_mandatory_served [OF costs assms(3,4)])
  ultimately show ?thesis using extends_unfit by (auto simp: extends_def)
qed

lemma bounded_rows_mandatory:
  assumes "c \<in> set rows" "ci_source (cd_item c) \<in> set ms"
  shows "c \<in> set (bounded_rows ta rows limit ms)"
  using assms by (auto simp: bounded_rows_def Let_def)

text \<open>What is left of a budget after a call does not pay for an item the call left out.\<close>

definition unaffordable :: "(string \<Rightarrow> int) \<Rightarrow> limits \<Rightarrow> selection_report \<Rightarrow> context_item \<Rightarrow> bool" where
  "unaffordable est l report i =
     (li_chars l < sr_used_chars report + max 1 (int (length (ci_text i)))
      \<or> (\<exists>t. li_tokens l = Some t \<and> t < sr_used_tokens report + max 1 (est (ci_text i))))"

lemma candidate_of_item:
  assumes "i \<in> set (dedupe (dedupe_key blake) items {})"
  obtains c where "c \<in> set (candidates est blake query items)" "cd_item c = i" "cd_key c = dedupe_key blake i"
    "cd_char_cost c = max 1 (int (length (ci_text i)))" "cd_token_cost c = max 1 (est (ci_text i))"
proof -
  define f where "f = (\<lambda>i. let tokens = set (tokenize (ci_text i)) in
           \<lparr>cd_item = i, cd_key = dedupe_key blake i,
            cd_relevance = min 1 (65/100 * (max 0 (ci_score i) / (let best = fold max (map (\<lambda>i. max 0 (ci_score i))
               (dedupe (dedupe_key blake) items {})) 0 in if best = 0 then 1 else best))
              + 35/100 * jaccard (set (tokenize query)) tokens),
            cd_tokens = tokens, cd_char_cost = max 1 (int (length (ci_text i))),
            cd_token_cost = max 1 (est (ci_text i))\<rparr>)"
  have "candidates est blake query items = map f (dedupe (dedupe_key blake) items {})"
    by (simp only: candidates_def f_def Let_def)
  then have "f i \<in> set (candidates est blake query items)" using assms by simp
  then show ?thesis by (rule that) (simp_all add: f_def Let_def)
qed

lemma mandatory_source_served:
  assumes "select_with rt est blake query items char_budget cfg ms budget_chars budget_tokens max_selector_candidates
      = Some (Inr (selected, report))"
    and l: "l = limits_of char_budget budget_chars budget_tokens"
    and i: "i \<in> set (dedupe (dedupe_key blake) items {})" "ci_source i \<in> set ms"
  shows "i \<in> set selected \<or> unaffordable est l report i"
proof -
  obtain c where c: "c \<in> set (candidates est blake query items)" "cd_item c = i" "cd_key c = dedupe_key blake i"
    "cd_char_cost c = max 1 (int (length (ci_text i)))" "cd_token_cost c = max 1 (est (ci_text i))"
    by (rule candidate_of_item [OF i(1)])
  have kept: "c \<in> set (bounded_rows (token_aware l) (candidates est blake query items) limit ms)" for limit
    by (rule bounded_rows_mandatory) (simp_all add: c i(2))
  show ?thesis
    using l
  proof (cases rule: select_with_cases [where rt = rt and est = est and blake = blake and query = query
      and items = items and cfg = cfg and mandatory_sources = ms and max_selector_candidates = max_selector_candidates])
    case (refused e)
    then show ?thesis using assms(1) by simp
  next
    case (emptied r)
    have "li_chars l \<le> 0 \<or> (\<exists>t. li_tokens l = Some t \<and> t \<le> 0)" using emptied(5) kept by (metis empty_iff list.set(1))
    then show ?thesis using emptied(1-4) assms(1) by (auto simp: unaffordable_def)
  next
    case (some rows mode s r)
    have "c \<in> set rows" using some(5) kept by blast
    then have "cd_key c \<in> chosen_keys s \<or> \<not> fits l s c"
      using some(9) choose_rows_mandatory [OF _ some(6)] i(2) c(2) by blast
    moreover have "c \<in> set (ch_rows s)" if k: "cd_key c \<in> chosen_keys s"
    proof -
      obtain d where "d \<in> set (ch_rows s)" "cd_key d = cd_key c" using k by (force simp: chosen_keys_def)
      moreover have "d \<in> set rows" using some(8) \<open>d \<in> set (ch_rows s)\<close> by (auto simp: within_limits_def)
      ultimately show ?thesis using some(6) \<open>c \<in> set rows\<close> by (metis rows_ok_def distinct_map inj_onD)
    qed
    ultimately show ?thesis
      using some(1-3) assms(1) c by (auto simp: unaffordable_def fits_def split: option.splits)
  qed
qed

text \<open>The wrapper that reads the configuration.\<close>

lemma select_context_Inr:
  "select_context rt est blake query items char_budget config ms budget_chars budget_tokens m = Some (Inr r) \<longleftrightarrow>
     (\<exists>cfg. selector_config config = Inr cfg
        \<and> select_with rt est blake query items char_budget cfg ms budget_chars budget_tokens m = Some (Inr r))"
  by (simp add: select_context_def split: sum.splits)

lemma select_context_returns:
  "\<exists>r. select_context rt est blake query items char_budget config ms budget_chars budget_tokens m = Some r"
proof (cases "selector_config config")
  case (Inl e)
  then show ?thesis by (simp add: select_context_def)
next
  case (Inr cfg)
  have "\<exists>r. select_with rt est blake query items char_budget cfg ms budget_chars budget_tokens m = Some r"
    by (rule select_with_cases [OF refl, where rt = rt and est = est and blake = blake and query = query
      and items = items and cfg = cfg and mandatory_sources = ms and max_selector_candidates = m and char_budget = char_budget
      and budget_chars = budget_chars and budget_tokens = budget_tokens]) blast+
  then show ?thesis using Inr by (simp add: select_context_def)
qed

end
