(* ===== verification/EngineProps.thy ===== *)
theory EngineProps
  imports Engine SelectionProps
begin

text \<open>
  What a gathered context is: where its items come from, what their envelopes say, how much of the budget they
  take, when the specialist calls are skipped, and how the evidence state, the orchestration contract and the
  capability policy agree.
\<close>

section \<open>Rankings only reorder\<close>

lemma fuse_item_items:
  "set (map snd (fu_items (fuse_item key k w rank item st))) \<subseteq> insert item (set (map snd (fu_items st)))"
  using set_dset [of "fu_items st" "key item" item] by (auto simp: fuse_item_def Let_def)

lemma fuse_ranking_items:
  "set (map snd (fu_items (fuse_ranking key k w rank seen items st))) \<subseteq> set items \<union> set (map snd (fu_items st))"
proof (induction key k w rank seen items st rule: fuse_ranking.induct)
  case (2 key k w rank seen item items st)
  show ?case
  proof (cases "key item \<in> seen")
    case True
    then show ?thesis using 2(1) by (simp only: fuse_ranking.simps if_True list.simps(15)) blast
  next
    case False
    then show ?thesis using 2(2) fuse_item_items [of key k w rank item st]
      by (simp only: fuse_ranking.simps if_False list.simps(15)) blast
  qed
qed simp

lemma fuse_rankings_items:
  "set (map snd (fu_items (fuse_rankings key k rs st))) \<subseteq> (\<Union>(r, w) \<in> set rs. set r) \<union> set (map snd (fu_items st))"
proof (induction key k rs st rule: fuse_rankings.induct)
  case (2 key k ranking w rs st)
  let ?st = "if w = 0 then st else fuse_ranking key k w 1 {} ranking st"
  have "set (map snd (fu_items ?st)) \<subseteq> set ranking \<union> set (map snd (fu_items st))"
    using fuse_ranking_items [of key k w 1 "{}" ranking st] by (cases "w = 0") auto
  then show ?case using 2 by (simp only: fuse_rankings.simps list.simps(15) UN_insert prod.case) blast
qed simp

lemma fusion_items:
  assumes "reciprocal_rank_fusion rankings key k weights = Inr rs"
  shows "snd ` set rs \<subseteq> \<Union> (set ` set rankings)"
proof -
  define ws where "ws = effective_weights rankings weights"
  define st where "st = fused key k rankings ws"
  have empty: "fusion_ok key \<lparr>fu_scores = [], fu_items = [], fu_first_seen = []\<rparr>"
    by (simp add: fusion_ok_def dict_wf_def dkeys_def)
  have ok: "fusion_ok key st"
    using fuse_rankings_ok [OF empty] unfolding st_def fused_def by blast
  have sub: "set (map snd (fu_items st)) \<subseteq> \<Union> (set ` set rankings)"
    using fuse_rankings_items [of key k "zip rankings ws" "\<lparr>fu_scores = [], fu_items = [], fu_first_seen = []\<rparr>"]
    unfolding st_def fused_def by (force dest: set_zip_leftD)
  have "i \<in> \<Union> (set ` set rankings)" if i: "i \<in> snd ` set rs" for i
  proof -
    obtain x where x: "x \<in> set (dkeys (fu_scores st))" "i = the (dget (fu_items st) x)"
      using i assms by (auto simp: reciprocal_rank_fusion_def guard_that_Inr_iff Let_def st_def ws_def)
    then have "x \<in> set (dkeys (fu_items st))" using ok by (simp add: fusion_ok_def)
    then have "dget (fu_items st) x \<noteq> None" by (simp add: set_dkeys_iff)
    then have "i \<in> set (map snd (fu_items st))" using x(2) by (force simp: dget_def dest: map_of_SomeD)
    then show ?thesis using sub by blast
  qed
  then show ?thesis by blast
qed

lemma fit_texts_docs:
  assumes "fit_texts mlog items = Inr s"
  shows "map dc_item (bm_docs s) = items"
  using assms by (auto simp: fit_texts_def bm25_fit_def Let_def tokenized_doc_def comp_def split_def intro: nth_equalityI)

lemma bm25_rank_items: "snd ` set (bm25_rank s query) \<subseteq> dc_item ` set (bm_docs s)"
  by (auto simp: bm25_rank_def Let_def)

lemma mmr_items:
  assumes "maximal_marginal_relevance query cs scores lam n = Inr out"
  shows "set out \<subseteq> dc_item ` set cs"
proof -
  define relevant where "relevant = filter (\<lambda>i. 0 < scores ! i) [0..<length scores]"
  consider "out = []" | ns where "length cs = length scores"
      "out = map (\<lambda>i. dc_item (cs ! i)) (mmr_loop cs ns lam n relevant [])"
    using assms by (auto simp: maximal_marginal_relevance_def guard_that_def Let_def relevant_def split: if_splits)
  then show ?thesis
  proof cases
    case 2
    have "set (mmr_loop cs ns lam n relevant []) \<subseteq> set relevant"
      using mmr_loop_spec [of "[]" relevant cs ns lam n] by (simp add: relevant_def)
    then show ?thesis using 2 by (fastforce simp: relevant_def)
  qed simp
qed

lemma slice_to_subset: "set (slice_to xs n) \<subseteq> set xs"
  by (simp add: slice_to_def set_take_subset)

lemma dedupe_subset: "set (dedupe key is seen) \<subseteq> set is"
  using dedupe_in [of _ key "is" seen] by blast

lemma lexical_ranking_subset:
  assumes "lexical_ranking mlog blake query cands source_rank = Inr xs"
  shows "set xs \<subseteq> set cands \<union> set source_rank"
proof -
  obtain s where s: "fit_texts mlog cands = Inr s"
    "xs = map snd (bm25_rank s query)
      @ filter (\<lambda>i. dedupe_key blake i \<notin> dedupe_key blake ` set (map snd (bm25_rank s query))) source_rank"
    using assms by (auto simp: lexical_ranking_def rbind_Inr_iff Let_def)
  have "dc_item ` set (bm_docs s) = set cands" using fit_texts_docs [OF s(1)] by (metis set_map)
  then show ?thesis using s(2) bm25_rank_items [of s query] by auto
qed

lemma fused_ranking_subset:
  assumes "fused_ranking mlog blake query policy mode adaptive task limit rankings = Inr xs"
  shows "set xs \<subseteq> \<Union> (set ` set rankings)"
proof -
  obtain fusion where f: "reciprocal_rank_fusion rankings (dedupe_key blake) (ak_rrf_k policy) (task_weights task) = Inr fusion"
    and x: "(if mode = ''rrf'' \<or> length (map snd fusion) \<le> 1 then Inr (slice_to (map snd fusion) limit)
      else rbind (fit_texts mlog (map snd fusion)) (\<lambda>scorer.
       maximal_marginal_relevance (tokenize query) (bm_docs scorer) (map fst fusion)
         (case task of Some t \<Rightarrow> if adaptive then tp_mmr_lambda t else ak_mmr_lambda policy | None \<Rightarrow> ak_mmr_lambda policy)
         (min limit (int (length (map snd fusion)))))) = Inr xs"
    using assms unfolding fused_ranking_def Let_def rbind_Inr_iff by blast
  have "set xs \<subseteq> snd ` set fusion"
  proof (cases "mode = ''rrf'' \<or> length (map snd fusion) \<le> 1")
    case True
    then have "xs = slice_to (map snd fusion) limit" using x by simp
    then show ?thesis using slice_to_subset [of "map snd fusion" limit] by simp
  next
    case False
    then obtain s q sc l n where s: "fit_texts mlog (map snd fusion) = Inr s" "maximal_marginal_relevance q (bm_docs s) sc l n = Inr xs"
      using x unfolding if_not_P [OF False] rbind_Inr_iff by blast
    have "dc_item ` set (bm_docs s) = snd ` set fusion" using fit_texts_docs [OF s(1)] by (metis set_map)
    then show ?thesis using mmr_items [OF s(2)] by simp
  qed
  then show ?thesis using fusion_items [OF f] by blast
qed

lemma hybrid_rank_subset:
  assumes "hybrid_rank rt mlog blake query base specialist limit config task = Inr xs"
  shows "set xs \<subseteq> provenance_of None ` set (base @ specialist)"
proof (cases "base @ specialist = []")
  case False
  let ?cands = "map (provenance_of None) (base @ specialist)"
  let ?source = "dedupe (dedupe_key blake) (by_score ?cands) {}"
  let ?spec = "dedupe (dedupe_key blake) (by_score (map (provenance_of None) specialist)) {}"
  obtain policy where r: "rank_candidates mlog blake query base specialist limit policy task = Inr xs"
    using assms False by (auto simp: hybrid_rank_def rbind_Inr_iff)
  have source: "set ?source \<subseteq> set ?cands" using dedupe_subset [of "dedupe_key blake" "by_score ?cands"] by (simp add: by_score_def)
  have spec: "set ?spec \<subseteq> set ?cands"
    using dedupe_subset [of "dedupe_key blake" "by_score (map (provenance_of None) specialist)"] by (auto simp: by_score_def)
  have ne: "?cands \<noteq> []" using False by auto
  consider "xs = dedupe (dedupe_key blake) ?cands {}"
    | lexical where "lexical_ranking mlog blake query ?cands ?source = Inr lexical"
        "xs = slice_to ?source limit \<or> xs = slice_to (dedupe (dedupe_key blake) lexical {}) limit
         \<or> (\<exists>mode a. fused_ranking mlog blake query policy mode a task limit [?source, lexical, ?spec] = Inr xs)"
  proof (cases "ak_ranker policy = ''adaptive'' \<and> specialist = []")
    case True
    then show thesis using r ne that(1) by (simp add: rank_candidates_def Let_def)
  next
    case no: False
    let ?mode = "if ak_ranker policy = ''adaptive'' then ''rrf_mmr'' else ak_ranker policy"
    have "rbind (lexical_ranking mlog blake query ?cands ?source) (\<lambda>lexical.
        if ?mode = ''source'' then Inr (slice_to ?source limit)
        else if ?mode = ''bm25'' then Inr (slice_to (dedupe (dedupe_key blake) lexical {}) limit)
        else fused_ranking mlog blake query policy ?mode (ak_ranker policy = ''adaptive'') task limit [?source, lexical, ?spec]) = Inr xs"
      using r unfolding rank_candidates_def Let_def if_not_P [OF ne] if_not_P [OF no] .
    then obtain lexical where l: "lexical_ranking mlog blake query ?cands ?source = Inr lexical"
      and x: "(if ?mode = ''source'' then Inr (slice_to ?source limit)
        else if ?mode = ''bm25'' then Inr (slice_to (dedupe (dedupe_key blake) lexical {}) limit)
        else fused_ranking mlog blake query policy ?mode (ak_ranker policy = ''adaptive'') task limit [?source, lexical, ?spec]) = Inr xs"
      unfolding rbind_Inr_iff by blast
    show thesis
    proof (cases "?mode = ''source''")
      case True
      then show thesis using that(2) [OF l] x by simp
    next
      case ns: False
      show thesis
      proof (cases "?mode = ''bm25''")
        case True
        then show thesis using that(2) [OF l] x ns by simp
      next
        case False
        then show thesis using that(2) [OF l] x ns by (metis (no_types, lifting))
      qed
    qed
  qed
  then have "set xs \<subseteq> set ?cands"
  proof cases
    case 1
    then show ?thesis using dedupe_subset [of "dedupe_key blake" ?cands "{}"] by simp
  next
    case 2
    have lexical: "set lexical \<subseteq> set ?cands" using lexical_ranking_subset [OF 2(1)] source by blast
    from 2(2) show ?thesis
    proof (elim disjE exE)
      assume "xs = slice_to ?source limit"
      then show ?thesis using slice_to_subset [of ?source limit] source by blast
    next
      assume "xs = slice_to (dedupe (dedupe_key blake) lexical {}) limit"
      then show ?thesis
        using slice_to_subset [of "dedupe (dedupe_key blake) lexical {}" limit] dedupe_subset [of _ lexical] lexical by blast
    next
      fix mode a assume "fused_ranking mlog blake query policy mode a task limit [?source, lexical, ?spec] = Inr xs"
      from fused_ranking_subset [OF this] show ?thesis using source lexical spec by auto
    qed
  qed
  then show ?thesis by (simp add: image_Un)
qed (use assms in \<open>simp add: hybrid_rank_def\<close>)

section \<open>Caps and budgets\<close>

lemma chars_of_Cons [simp]: "chars_of (i # is) = int (length (ci_text i)) + chars_of is" "chars_of [] = 0"
  by (simp_all add: chars_of_def)

lemma tokens_of_Cons [simp]: "tokens_of est (i # is) = est (ci_text i) + tokens_of est is" "tokens_of est [] = 0"
  by (simp_all add: tokens_of_def)

text \<open>An item made from another: same source and freshness, same or shortened text.\<close>

definition derived :: "context_item \<Rightarrow> context_item \<Rightarrow> bool" where
  "derived x j = (ci_source x = ci_source j \<and> ci_stale x = ci_stale j
     \<and> (\<exists>n. ci_text x = fst (truncate_text (ci_text j) n)))"

lemma derived_same: "ci_source x = ci_source j \<Longrightarrow> ci_stale x = ci_stale j \<Longrightarrow> ci_text x = ci_text j \<Longrightarrow> derived x j"
  unfolding derived_def by (intro conjI exI [of _ "int (length (ci_text j))"]) (simp_all add: truncate_text_def)

lemma hard_cap_from_props:
  "chars_of (hard_cap_from key chars seen used items) + used \<le> max chars used
   \<and> (\<forall>x \<in> set (hard_cap_from key chars seen used items). \<exists>j \<in> set items. derived x j)"
proof (induction key chars seen used items rule: hard_cap_from.induct)
  case (2 key chars seen used i "is")
  show ?case
  proof (cases "chars \<le> used \<or> key i \<in> seen")
    case True
    then show ?thesis using 2(1) by auto
  next
    case False
    obtain t c where t: "truncate_text (ci_text i) (chars - used) = (t, c)" by (meson surj_pair)
    have "int (length t) \<le> chars - used" using truncate_text_bound [of "chars - used" "ci_text i"] False t by simp
    moreover have "derived (i\<lparr>ci_text := t, ci_metadata := m, ci_evidence := None\<rparr>) i" for m
      using t unfolding derived_def by (simp, intro exI [of _ "chars - used"]) simp
    ultimately show ?thesis using 2(2,3) [OF False t [symmetric]] False t by (auto simp: Let_def)
  qed
qed auto

lemma token_cap_props:
  "tokens_of est (token_cap est limit used items) + used \<le> max limit used \<and> set (token_cap est limit used items) \<subseteq> set items
   \<and> chars_of (token_cap est limit used items) \<le> chars_of items"
  by (induction est limit used items rule: token_cap.induct) auto

lemma adaptive_char_limit_le: "adaptive_char_limit rt b score config = Inr n \<Longrightarrow> n \<le> cb_context_chars b"
  by (auto simp: adaptive_char_limit_def rbind_Inr_iff split: if_splits)

lemma adaptive_token_limit_le: "adaptive_token_limit rt b score config = Inr n \<Longrightarrow> n \<le> cb_estimated_tokens b"
  by (auto simp: adaptive_token_limit_def rbind_Inr_iff split: if_splits)

lemma sum_max_ge: "sum_list (map f xs) \<le> sum_list (map (\<lambda>x. max 1 (f x)) xs)" for f :: "'a \<Rightarrow> int"
  by (induction xs) auto

lemma fallback_context_props:
  "chars_of (kx_items (fallback_context env chars tokens report items)) \<le> max 0 chars
   \<and> tokens_of (en_est env) (kx_items (fallback_context env chars tokens report items)) \<le> max 0 tokens
   \<and> (\<forall>x \<in> set (kx_items (fallback_context env chars tokens report items)). \<exists>j \<in> set items. derived x j)"
  using hard_cap_from_props [of "dedupe_key (en_blake env)" chars "{}" 0 items]
    token_cap_props [of "en_est env" tokens 0 "hard_cap (en_blake env) items chars"]
  by (auto simp: fallback_context_def hard_cap_def Let_def)

lemma selected_context_props:
  assumes "select_context rt est blake query items (Some chars) config ms None (Some tokens) None = Some (Inr (selected, report))"
  shows "chars_of selected \<le> max 0 chars \<and> tokens_of est selected \<le> max 0 tokens \<and> set selected \<subseteq> set items"
proof -
  obtain cfg where "select_with rt est blake query items (Some chars) cfg ms None (Some tokens) None = Some (Inr (selected, report))"
    using assms by (auto simp: select_context_Inr)
  from selection_within_budget [OF this refl] show ?thesis
    using sum_max_ge [of "\<lambda>i. int (length (ci_text i))" selected] sum_max_ge [of "\<lambda>i. est (ci_text i)" selected]
    by (auto simp: limits_of_def chars_of_def tokens_of_def)
qed

lemma choose_context_props:
  assumes "choose_context rt env config plan query ranked chars tokens = Some (Inr kx)"
  shows "chars_of (kx_items kx) \<le> max 0 chars
    \<and> (kx_used_tokens kx \<noteq> None \<longrightarrow> tokens_of (en_est env) (kx_items kx) \<le> max 0 tokens)
    \<and> (\<forall>x \<in> set (kx_items kx). \<exists>j \<in> set ranked. derived x j)"
proof -
  obtain cfg where cfg: "selector_config config = Inr cfg"
    using assms by (auto simp: choose_context_def split: sum.splits)
  show ?thesis
  proof (cases "truthy (jget_or cfg ''enabled'' (JBool True))")
    case True
    then obtain picked report where sel: "select_context rt (en_est env) (en_blake env) query ranked (Some chars) config
        (mandatory_sources rt plan cfg ranked) None (Some tokens) None = Some (Inr (picked, report))"
      and kx: "kx = (if picked = [] \<and> ranked \<noteq> [] then fallback_context env chars tokens report ranked
        else \<lparr>kx_items = picked, kx_mode = sr_mode report, kx_fallback = False,
          kx_used_chars = sr_used_chars report, kx_used_tokens = Some (sr_used_tokens report), kx_report = Some report\<rparr>)"
      using assms cfg by (auto simp: choose_context_def rbind_Inr_iff)
    show ?thesis
    proof (cases "picked = [] \<and> ranked \<noteq> []")
      case True
      then show ?thesis using kx fallback_context_props by simp
    next
      case False
      then show ?thesis using kx selected_context_props [OF sel] derived_same by (auto split: if_splits)
    qed
  next
    case False
    then show ?thesis
      using assms cfg hard_cap_from_props [of "dedupe_key (en_blake env)" chars "{}" 0 ranked]
      by (auto simp: choose_context_def hard_cap_def Let_def)
  qed
qed

section \<open>Envelopes\<close>

lemma provenance_of_fields [simp]:
  "ci_source (provenance_of r i) = ci_source i" "ci_text (provenance_of r i) = ci_text i"
  "ci_stale (provenance_of r i) = ci_stale i" "ci_metadata (provenance_of r i) = ci_metadata i"
  by (simp_all add: provenance_of_def Let_def)

lemma routed_item_fields [simp]:
  "ci_source (routed_item w r i) = ci_source i" "ci_text (routed_item w r i) = ci_text i"
  "ci_stale (routed_item w r i) = ci_stale i"
  by (simp_all add: routed_item_def Let_def split: option.splits)

lemma attach_envelope_props:
  assumes "attach_envelope rt resolve control_root ids i = Inr x"
  shows "ci_source x = ci_source i \<and> ci_text x = ci_text i \<and> ci_stale x = ci_stale i
    \<and> (\<exists>e. ci_evidence x = Some e \<and> ev_authority e = no_authority \<and> ev_content_sha256 e = content_sha256 rt (ci_text x)
        \<and> ev_trust_class e = trust_class_for_source (ci_source x) \<and> ev_kind e = evidence_kind_for_source (ci_source x)
        \<and> ev_repository_id e \<in> snd ` set ids)"
proof -
  obtain repository k where k: "dget ids k = Some repository"
    and x: "x = i\<lparr>ci_evidence := Some (build_evidence_envelope rt (ci_source i) (ci_text i) (ci_stale i)
        (ci_metadata i) (ci_provenance i) repository)\<rparr>"
    using assms by (auto simp: attach_envelope_def Let_def split: option.splits)
  have "repository \<in> snd ` set ids" using k by (force simp: dget_def dest: map_of_SomeD)
  then show ?thesis by (simp add: x)
qed

section \<open>Where the items come from\<close>

text \<open>An item some successful call returned, with the root it was called for.\<close>

inductive provided :: "engine_env \<Rightarrow> workspace_view \<Rightarrow> string \<Rightarrow> context_item \<Rightarrow> bool" for env w where
  by_base: "r \<in> set (selected_roots w) \<Longrightarrow> good_value (en_base env r changed) = Some items \<Longrightarrow> i \<in> set items \<Longrightarrow> provided env w r i"
| by_semantic: "r \<in> set (selected_roots w) \<Longrightarrow> good_value (en_semantic env r) = Some res \<Longrightarrow> i \<in> set (pr_items res)
    \<Longrightarrow> provided env w r i"
| by_external: "good_value (en_external env n spec) = Some res \<Longrightarrow> i \<in> set (pr_items res) \<Longrightarrow> provided env w (wv_root w) i"
| by_structural: "good_value (en_structural env label r symbol files) = Some items \<Longrightarrow> i \<in> set items \<Longrightarrow> provided env w r i"

definition trace_items :: "trace \<Rightarrow> context_item set" where
  "trace_items t = set (tr_base t) \<union> set (tr_specialist t)"

definition sourced :: "engine_env \<Rightarrow> workspace_view \<Rightarrow> trace \<Rightarrow> bool" where
  "sourced env w t = (\<forall>x \<in> trace_items t. \<exists>r i. provided env w r i \<and> x = routed_item w r i)"

lemma trace_items_simps [simp]:
  "trace_items empty_trace = {}" "trace_items (note_failure label oc t) = trace_items t"
  "trace_items (note_latency label x t) = trace_items t" "trace_items (attempt label t) = trace_items t"
  "trace_items (skip label reason t) = trace_items t" "trace_items (note_semantic_skip plan providers gate t) = trace_items t"
  "trace_items (skip_expansion plan t) = trace_items t" "trace_items (final_trace plan s t) = trace_items t"
  by (simp_all add: trace_items_def empty_trace_def note_failure_def note_latency_def attempt_def skip_def
      note_semantic_skip_def skip_expansion_def final_trace_def Let_def)

lemma base_result_items:
  "trace_items (base_result w label r oc t)
     = trace_items t \<union> (case good_value oc of Some items \<Rightarrow> routed_item w r ` set items | None \<Rightarrow> {})"
  by (auto simp: base_result_def Let_def trace_items_def note_failure_def note_latency_def split: option.splits)

lemma structural_result_items:
  "trace_items (structural_result w r label oc t)
     = trace_items t \<union> (case good_value oc of Some items \<Rightarrow> routed_item w r ` set items | None \<Rightarrow> {})"
  by (auto simp: structural_result_def Let_def trace_items_def note_failure_def note_latency_def split: option.splits)

lemma specialist_result_items:
  "trace_items (specialist_result w (label, r, oc) t)
     = trace_items t \<union> (case good_value oc of Some res \<Rightarrow> routed_item w r ` set (pr_items res) | None \<Rightarrow> {})"
  by (auto simp: specialist_result_def Let_def trace_items_def note_failure_def note_latency_def split: option.splits)

lemma expired_no_value [simp]: "good_value (expired fmt deadline label) = None"
  by (simp add: good_value_def outcome_ok_def expired_def)

lemma sourced_empty: "sourced env w empty_trace"
  by (simp add: sourced_def)

lemma sourced_cong: "trace_items t' = trace_items t \<Longrightarrow> sourced env w t' = sourced env w t"
  by (simp add: sourced_def)

lemma sourced_fold:
  assumes "sourced env w t" "\<And>x t. x \<in> set xs \<Longrightarrow> sourced env w t \<Longrightarrow> sourced env w (f x t)"
  shows "sourced env w (fold f xs t)"
  using assms by (induction xs arbitrary: t) auto

lemma sourced_base_phase: "sourced env w (base_phase env w changed)"
  unfolding base_phase_def
proof (rule sourced_fold [OF sourced_empty])
  fix c t assume c: "c \<in> set (zip [0..<length (wv_routes w)] (selected_roots w))" and t: "sourced env w t"
  obtain index r where cr: "c = (index, r)" by (cases c)
  then have "r \<in> set (selected_roots w)" using c by (auto dest: set_zip_rightD)
  then show "sourced env w (base_call env w changed c t)"
    using t by (auto simp: cr base_call_def Let_def sourced_def base_result_items split: option.splits intro: provided.by_base)
qed

text \<open>A call list whose outcomes are those of the environment.\<close>

definition calls_ok :: "engine_env \<Rightarrow> workspace_view \<Rightarrow> specialist_call list \<Rightarrow> bool" where
  "calls_ok env w calls = (\<forall>(label, r, oc) \<in> set calls. \<forall>res i. good_value oc = Some res \<longrightarrow> i \<in> set (pr_items res) \<longrightarrow> provided env w r i)"

lemma specialist_calls_ok: "calls_ok env w (specialist_calls rt env w plan providers gate specs)"
  by (auto simp: calls_ok_def specialist_calls_def semantic_calls_def external_calls_def
      intro: provided.by_semantic provided.by_external)

lemma expired_calls_ok: "calls_ok env w (map (\<lambda>(label, r, _). (label, r, expired fmt deadline label)) calls)"
  for calls :: "specialist_call list"
  by (auto simp: calls_ok_def)

lemma sourced_specialist_phase:
  assumes "calls_ok env w calls" "sourced env w t"
  shows "sourced env w (specialist_phase env w deadline calls t)"
proof -
  have step: "sourced env w (fold (specialist_result w) cs t')" if "calls_ok env w cs" "sourced env w t'" for cs t'
  proof (rule sourced_fold [OF that(2)])
    fix c t assume "c \<in> set cs" "sourced env w t"
    moreover obtain label r oc where "c = (label, r, oc)" by (rule prod_cases3)
    ultimately show "sourced env w (specialist_result w c t)"
      using that(1) unfolding calls_ok_def
      by (auto simp: sourced_def specialist_result_items split: option.splits dest!: bspec)
  qed
  have "trace_items (fold (\<lambda>(label, _). attempt label) cs t) = trace_items t" for cs :: "specialist_call list"
    by (induction cs arbitrary: t) auto
  then have "sourced env w (fold (\<lambda>(label, _). attempt label) calls t)" using assms(2) sourced_cong by blast
  then show ?thesis
    using step [OF assms(1)] step [OF expired_calls_ok] by (simp add: specialist_phase_def Let_def)
qed

lemma sourced_structural_call: "sourced env w t \<Longrightarrow> sourced env w (structural_call env w deadline r symbol files label t)"
  by (auto simp: structural_call_def sourced_def structural_result_items split: option.splits intro: provided.by_structural)

lemma sourced_run_structural:
  "sourced env w t \<Longrightarrow> sourced env w (run_structural rt env w deadline plan rq threshold r symbol files steps t)"
proof (induction rt env w deadline plan rq threshold r symbol files steps t rule: run_structural.induct)
  case (2 rt env w deadline plan rq threshold r symbol files label enabled relevant steps t)
  have skipped: "sourced env w (skip label ''provider not configured'' t)"
    using "2.prems" sourced_cong trace_items_simps(5) by blast
  show ?case
    using "2.IH" "2.prems" skipped sourced_structural_call by (simp only: run_structural.simps split: if_split) blast
qed simp

lemma sourced_structural_phase:
  assumes "structural_phase rt env w deadline plan rq threshold t = Inr t'" "sourced env w t"
  shows "sourced env w t'"
proof -
  consider "t' = t" | "t' = skip_expansion plan t" | r symbol files steps where
      "t' = run_structural rt env w deadline plan rq threshold r symbol files steps t"
    using assms(1) by (auto simp: structural_phase_def rbind_Inr_iff split: if_split_asm option.split_asm)
  then show ?thesis
  proof cases
    case 1
    then show ?thesis using assms(2) by simp
  next
    case 2
    then show ?thesis using assms(2) sourced_cong trace_items_simps(7) by blast
  next
    case 3
    then show ?thesis using assms(2) sourced_run_structural by blast
  qed
qed

section \<open>The phases of a call\<close>

lemma retrieve_phases:
  assumes "retrieve rt env w config effective plan rq = Inr rv"
  obtains deadline specs gate t1 n where
    "t1 = specialist_phase env w deadline (specialist_calls rt env w plan (qr_providers rq) gate specs)
      (note_semantic_skip plan (qr_providers rq) gate (base_phase env w (qr_changed rq)))"
    "gate = specialist_gate (evaluate_sufficiency rt (qr_query rq) (tr_base (base_phase env w (qr_changed rq)))
      (pl_use_structural plan) (pl_patterns plan) (rv_threshold rv)) (rv_policy rv)"
    "gate \<or> specs = []"
    "structural_phase rt env w deadline plan rq (rv_threshold rv) t1 = Inr (rv_trace rv)"
    "hybrid_rank rt (en_mlog env) (en_blake env) (qr_query rq) (tr_base (rv_trace rv)) (tr_specialist (rv_trace rv)) n
      effective (Some (task_retrieval_policy (qr_query rq) plan (qr_changed rq))) = Inr (rv_ranked rv)"
    "algorithm_policy rt effective = Inr (rv_policy rv)" "sufficiency_threshold rt config = Inr (rv_threshold rv)"
  using assms unfolding retrieve_def Let_def rbind_Inr_iff by (elim exE conjE) (auto split: if_split_asm)

lemma gather_phases:
  assumes "gather rt env w config arm rq = Some (Inr g)"
    and "plan = classify_retrieval_intent (qr_query rq) (qr_decision rq) (qr_symbol rq) (qr_endpoint rq)"
  obtains effective rv s kx where
    "apply_learning_arm config arm = Inr effective"
    "retrieve rt env w config effective plan rq = Inr rv"
    "s = evaluate_sufficiency rt (qr_query rq) (rv_ranked rv) (pl_use_structural plan) (pl_patterns plan) (rv_threshold rv)"
    "adaptive_char_limit rt (qr_budget rq) (sf_score s) config = Inr (gd_chars g)"
    "adaptive_token_limit rt (qr_budget rq) (sf_score s) config = Inr (gd_tokens g)"
    "choose_context rt env config plan (qr_query rq) (rv_ranked rv) (gd_chars g) (gd_tokens g) = Some (Inr kx)"
    "conclude rt env w config plan rq rv (gd_chars g) (gd_tokens g) kx = Inr g"
proof -
  obtain effective rv chars tokens kx where f: "apply_learning_arm config arm = Inr effective"
    "retrieve rt env w config effective plan rq = Inr rv"
    "adaptive_char_limit rt (qr_budget rq) (sf_score (evaluate_sufficiency rt (qr_query rq) (rv_ranked rv) (pl_use_structural plan)
      (pl_patterns plan) (rv_threshold rv))) config = Inr chars"
    "adaptive_token_limit rt (qr_budget rq) (sf_score (evaluate_sufficiency rt (qr_query rq) (rv_ranked rv) (pl_use_structural plan)
      (pl_patterns plan) (rv_threshold rv))) config = Inr tokens"
    "choose_context rt env config plan (qr_query rq) (rv_ranked rv) chars tokens = Some (Inr kx)"
    "conclude rt env w config plan rq rv chars tokens kx = Inr g"
    using assms(1) unfolding gather_def assms(2) [symmetric] Let_def
    by (auto simp: rbind_Inr_iff split: sum.splits)
  have "gd_chars g = chars" "gd_tokens g = tokens"
    using f(6) unfolding conclude_def Let_def rbind_Inr_iff by auto
  then show thesis using that f by blast
qed

lemma conclude_fields:
  assumes "conclude rt env w config plan rq rv chars tokens kx = Inr g"
  shows "rmap (attach_envelope rt (en_resolve env) (wv_root w) (wv_repository_ids w)) (kx_items kx) = Inr (gd_selected g)"
    and "gd_context g = kx" "gd_ranked g = rv_ranked rv" "gd_chars g = chars" "gd_tokens g = tokens"
    and "gd_trace g = final_trace plan (gd_sufficiency g) (rv_trace rv)"
    and "gd_sufficiency g = evaluate_sufficiency rt (qr_query rq) (gd_selected g) (pl_use_structural plan) (pl_patterns plan) (rv_threshold rv)"
    and "gd_state g = evidence_state (qr_decision rq) (sf_sufficient (gd_sufficiency g) \<and> (sd_accept (gd_selective g) \<or> \<not> gd_selective_enabled g))"
    and "build_orchestration_contract rt (qr_decision rq)
      (diagnostics_of plan (gd_state g) (gd_sufficiency g) (gd_selective g) (gd_selective_enabled g)) (qr_changed rq)
      (int (length (wv_routes w))) (qr_providers rq) config = Inr (gd_contract g)"
    and "build_model_capability_policy rt (qr_decision rq) (contract_json (gd_contract g)) (gd_selected g) (Some (qr_query rq)) = Inr (gd_policy g)"
  using assms unfolding conclude_def Let_def rbind_Inr_iff by auto

lemma conclude_selective:
  assumes "conclude rt env w config plan rq rv chars tokens kx = Inr g" "selective_config config = Inr cfg"
    and "to_float rt (jget_or cfg ''minimum_coverage'' (JFloat (Fin (15/100)))) = Inr m"
  shows "gd_selective g = evaluate_selective_retrieval rt (gd_selected g) (gd_sufficiency g) (expected_ids w) m"
  using assms unfolding conclude_def Let_def rbind_Inr_iff by auto

section \<open>What is gathered\<close>

lemma gathered_sourced:
  assumes "gather rt env w config arm rq = Some (Inr g)"
  shows "sourced env w (gd_trace g) \<and> set (gd_ranked g) \<subseteq> provenance_of None ` trace_items (gd_trace g)"
proof (cases rule: gather_phases [OF assms refl])
  case g: (1 effective rv s kx)
  let ?plan = "classify_retrieval_intent (qr_query rq) (qr_decision rq) (qr_symbol rq) (qr_endpoint rq)"
  obtain deadline specs gate t1 n where p:
    "t1 = specialist_phase env w deadline (specialist_calls rt env w ?plan (qr_providers rq) gate specs)
      (note_semantic_skip ?plan (qr_providers rq) gate (base_phase env w (qr_changed rq)))"
    "structural_phase rt env w deadline ?plan rq (rv_threshold rv) t1 = Inr (rv_trace rv)"
    "hybrid_rank rt (en_mlog env) (en_blake env) (qr_query rq) (tr_base (rv_trace rv)) (tr_specialist (rv_trace rv)) n
      effective (Some (task_retrieval_policy (qr_query rq) ?plan (qr_changed rq))) = Inr (rv_ranked rv)"
    using retrieve_phases [OF g(2)] by metis
  have "sourced env w (note_semantic_skip ?plan (qr_providers rq) gate (base_phase env w (qr_changed rq)))"
    using sourced_base_phase sourced_cong trace_items_simps(6) by blast
  then have "sourced env w t1" unfolding p(1) by (rule sourced_specialist_phase [OF specialist_calls_ok])
  then have "sourced env w (rv_trace rv)" by (rule sourced_structural_phase [OF p(2)])
  moreover have "set (rv_ranked rv) \<subseteq> provenance_of None ` trace_items (rv_trace rv)"
    using hybrid_rank_subset [OF p(3)] by (simp add: trace_items_def)
  ultimately show ?thesis by (simp add: conclude_fields [OF g(7)] sourced_def)
qed

lemma gathered_selected:
  assumes "gather rt env w config arm rq = Some (Inr g)" "x \<in> set (gd_selected g)"
  shows "(\<exists>r i. provided env w r i \<and> derived x i)
    \<and> (\<exists>e. ci_evidence x = Some e \<and> ev_authority e = no_authority \<and> ev_content_sha256 e = content_sha256 rt (ci_text x)
        \<and> ev_trust_class e = trust_class_for_source (ci_source x) \<and> ev_kind e = evidence_kind_for_source (ci_source x)
        \<and> ev_repository_id e \<in> snd ` set (wv_repository_ids w))"
proof (cases rule: gather_phases [OF assms(1) refl])
  case g: (1 effective rv s kx)
  let ?plan = "classify_retrieval_intent (qr_query rq) (qr_decision rq) (qr_symbol rq) (qr_endpoint rq)"
  note fields = conclude_fields [OF g(7)]
  obtain y where y: "y \<in> set (kx_items kx)" "attach_envelope rt (en_resolve env) (wv_root w) (wv_repository_ids w) y = Inr x"
    using rmap_Inr_set [OF fields(1) assms(2)] by blast
  obtain j where j: "j \<in> set (gd_ranked g)" "derived y j" using choose_context_props [OF g(6)] y(1) fields(3) by auto
  obtain z where z: "z \<in> trace_items (gd_trace g)" "j = provenance_of None z"
    using gathered_sourced [OF assms(1)] j(1) by blast
  obtain r i where "provided env w r i" "z = routed_item w r i"
    using gathered_sourced [OF assms(1)] z(1) unfolding sourced_def by blast
  then have "provided env w r i \<and> derived x i"
    using attach_envelope_props [OF y(2)] j(2) z(2) by (simp add: derived_def)
  then show ?thesis using attach_envelope_props [OF y(2)] by blast
qed

lemma attached_sizes:
  "rmap (attach_envelope rt resolve control_root ids) items = Inr xs \<Longrightarrow> chars_of xs = chars_of items \<and> tokens_of est xs = tokens_of est items"
proof (induction items arbitrary: xs)
  case (Cons i items)
  then obtain x ys where "attach_envelope rt resolve control_root ids i = Inr x" "rmap (attach_envelope rt resolve control_root ids) items = Inr ys"
    "xs = x # ys" by (auto simp: rbind_Inr_iff)
  then show ?case using Cons.IH attach_envelope_props [of rt resolve control_root ids i x] by auto
qed simp

lemma gathered_sizes:
  assumes "gather rt env w config arm rq = Some (Inr g)"
  shows "chars_of (gd_selected g) \<le> max 0 (gd_chars g) \<and> gd_chars g \<le> cb_context_chars (qr_budget rq)
    \<and> gd_tokens g \<le> cb_estimated_tokens (qr_budget rq)
    \<and> (kx_used_tokens (gd_context g) \<noteq> None \<longrightarrow> tokens_of (en_est env) (gd_selected g) \<le> max 0 (gd_tokens g))"
proof (cases rule: gather_phases [OF assms refl])
  case g: (1 effective rv s kx)
  let ?plan = "classify_retrieval_intent (qr_query rq) (qr_decision rq) (qr_symbol rq) (qr_endpoint rq)"
  note fields = conclude_fields [OF g(7)]
  show ?thesis
    using choose_context_props [OF g(6)] attached_sizes [OF fields(1)] fields(2)
      adaptive_char_limit_le [OF g(4)] adaptive_token_limit_le [OF g(5)] by simp
qed

section \<open>The early gate\<close>

lemma base_call_attempts:
  "tr_attempted (base_call env w changed (index, r) t) = tr_attempted t @ [base_label index r]
   \<and> tr_specialist (base_call env w changed (index, r) t) = tr_specialist t"
  by (simp add: base_call_def Let_def base_result_def note_failure_def note_latency_def attempt_def split: option.splits)

definition base_labels :: "workspace_view \<Rightarrow> string list" where
  "base_labels w = map (\<lambda>(i, r). base_label i r) (zip [0..<length (wv_routes w)] (selected_roots w))"

lemma base_phase_attempts:
  "tr_attempted (base_phase env w changed) = base_labels w \<and> tr_specialist (base_phase env w changed) = []"
proof -
  have "tr_attempted (fold (base_call env w changed) cs t) = tr_attempted t @ map (\<lambda>(i, r). base_label i r) cs
      \<and> tr_specialist (fold (base_call env w changed) cs t) = tr_specialist t" for cs t
    by (induction cs arbitrary: t) (auto simp: base_call_attempts)
  then show ?thesis by (simp add: base_phase_def base_labels_def empty_trace_def)
qed

lemma sufficient_structural:
  "sf_sufficient (evaluate_sufficiency rt query items needed patterns threshold) \<Longrightarrow>
     sf_structural (evaluate_sufficiency rt query items needed patterns threshold) \<or> \<not> needed"
  by (auto simp: evaluate_sufficiency_def no_sufficiency_def Let_def split: if_splits)

lemma note_semantic_skip_fields [simp]:
  "tr_base (note_semantic_skip plan providers gate t) = tr_base t"
  "tr_specialist (note_semantic_skip plan providers gate t) = tr_specialist t"
  "tr_attempted (note_semantic_skip plan providers gate t) = tr_attempted t"
  by (simp_all add: note_semantic_skip_def skip_def)

lemma final_trace_fields [simp]:
  "tr_specialist (final_trace plan s t) = tr_specialist t" "tr_attempted (final_trace plan s t) = tr_attempted t"
  "tr_base (final_trace plan s t) = tr_base t"
  by (simp_all add: final_trace_def)

lemma closed_gate_calls: "specialist_phase env w deadline (specialist_calls rt env w plan providers False specs) t = t"
  by (simp add: specialist_phase_def specialist_calls_def)

lemma early_gate:
  assumes "gather rt env w config arm rq = Some (Inr g)"
    and "apply_learning_arm config arm = Inr effective" "algorithm_policy rt effective = Inr p" "\<not> ak_no_early_gate p"
    and "sufficiency_threshold rt config = Inr threshold"
    and "plan = classify_retrieval_intent (qr_query rq) (qr_decision rq) (qr_symbol rq) (qr_endpoint rq)"
    and "sf_sufficient (evaluate_sufficiency rt (qr_query rq) (tr_base (base_phase env w (qr_changed rq)))
      (pl_use_structural plan) (pl_patterns plan) threshold)"
  shows "tr_attempted (gd_trace g) = base_labels w \<and> tr_specialist (gd_trace g) = []
    \<and> tr_base (gd_trace g) = tr_base (base_phase env w (qr_changed rq))"
proof (cases rule: gather_phases [OF assms(1,6)])
  case g: (1 effective' rv s kx)
  let ?t0 = "base_phase env w (qr_changed rq)"
  show ?thesis
  proof (cases rule: retrieve_phases [OF g(2)])
    case r: (1 deadline specs gate t1 n)
    have eff: "effective' = effective" using assms(2) g(1) by simp
    have th: "rv_threshold rv = threshold" using assms(5) r(7) by simp
    have "rv_policy rv = p" using assms(3) r(6) eff by simp
    then have gate: "\<not> gate" using r(2) assms(4,7) th by (simp add: specialist_gate_def)
    have t1: "t1 = note_semantic_skip plan (qr_providers rq) gate ?t0"
      unfolding r(1) using gate closed_gate_calls by simp
    have base: "tr_base t1 @ tr_specialist t1 = tr_base ?t0" by (simp add: t1 base_phase_attempts)
    have "pl_use_structural plan \<longrightarrow> sf_structural (suff_of rt rq plan (pl_use_structural plan) (rv_threshold rv) t1)"
      using sufficient_structural [OF assms(7)] by (auto simp: suff_of_def base th)
    then have "rv_trace rv = t1" using r(4) by (auto simp: structural_phase_def split: if_split_asm)
    then show ?thesis by (simp add: conclude_fields [OF g(7)] t1 base_phase_attempts)
  qed
qed

section \<open>The gates agree\<close>

lemma evidence_state_iff:
  "evidence_state decision b = ''sufficient'' \<longleftrightarrow> b"
  "evidence_state decision b = ''abstain'' \<longleftrightarrow> \<not> b \<and> rd_lane decision = Answer"
  by (auto simp: evidence_state_def)

lemma sufficient_evidence_of_diagnostics:
  "sufficient_evidence (diagnostics_of plan state s d enabled) = Inr (sf_sufficient s \<and> (sd_accept d \<or> \<not> enabled))"
  by (simp add: sufficient_evidence_def diagnostics_of_def sufficiency_json_def selective_json_def dict_simps or_empty_def
      jget_or_def jget_def Let_def)

lemma contract_complexity:
  assumes "build_orchestration_contract rt decision diagnostics changed roots providers config = Inr ct"
    and "sufficient_evidence diagnostics = Inr b"
  shows "cx_evidence_gap (oc_complexity ct) = (\<not> b)"
proof -
  let ?c = "complexity_of decision (py_str rt (jget_or diagnostics ''retrieval_intent'' (JStr ''unknown''))) b (length changed) roots"
  obtain b' where "(let (slots, skills, reviews, verifications) = lane_plan decision providers ?c (complexity_score ?c) b' in
      Inr \<lparr>oc_complexity = ?c, oc_score = complexity_score ?c, oc_skills = skills,
        oc_crg_plan = crg_plan_of decision providers ?c b',
        oc_agent_slots = min slots (ob_agent_slots b'),
        oc_review_passes = min reviews (ob_review_passes b'),
        oc_verification_passes = min verifications (ob_verification_passes b'),
        oc_graph_depth = min (1 + one_if (8 \<le> complexity_score ?c) + one_if (12 \<le> complexity_score ?c)) (ob_graph_depth b'),
        oc_budget = b',
        oc_native_fallback = (rd_lane decision \<noteq> Answer \<and> \<not> pv_superpowers providers)\<rparr>) = (Inr ct :: contract result)"
    using assms(1) unfolding build_orchestration_contract_def Let_def assms(2) rbind_Inr_iff by auto
  then have "oc_complexity ct = ?c" by (auto simp: Let_def split: prod.splits)
  then show ?thesis by (simp add: complexity_of_def)
qed

lemma gathered_gates:
  assumes "gather rt env w config arm rq = Some (Inr g)"
  shows "(gd_state g = ''sufficient'' \<longleftrightarrow> sf_sufficient (gd_sufficiency g) \<and> (sd_accept (gd_selective g) \<or> \<not> gd_selective_enabled g))
    \<and> (gd_state g = ''abstain'' \<longleftrightarrow> gd_state g \<noteq> ''sufficient'' \<and> rd_lane (qr_decision rq) = Answer)
    \<and> cx_evidence_gap (oc_complexity (gd_contract g)) = (gd_state g \<noteq> ''sufficient'')
    \<and> set (cp_allowed_tools (gd_policy g)) = set (oc_crg_plan (gd_contract g))
    \<and> cp_max_graph_depth (gd_policy g) = oc_graph_depth (gd_contract g)
    \<and> cp_verification_passes (gd_policy g) = oc_verification_passes (gd_contract g)"
proof (cases rule: gather_phases [OF assms refl])
  case g: (1 effective rv s kx)
  note fields = conclude_fields [OF g(7)]
  have gap: "cx_evidence_gap (oc_complexity (gd_contract g))
      = (\<not> (sf_sufficient (gd_sufficiency g) \<and> (sd_accept (gd_selective g) \<or> \<not> gd_selective_enabled g)))"
    by (rule contract_complexity [OF fields(9) sufficient_evidence_of_diagnostics])
  obtain p where "build_model_capability_policy rt (qr_decision rq) (contract_json (gd_contract g)) (gd_selected g) (Some (qr_query rq)) = Inr p"
    "set (cp_allowed_tools p) = set (oc_crg_plan (gd_contract g))" "cp_max_graph_depth p = oc_graph_depth (gd_contract g)"
    "cp_verification_passes p = oc_verification_passes (gd_contract g)"
    using contract_policy [OF fields(9)] by blast
  then show ?thesis using fields(10) gap by (simp add: fields(8) evidence_state_iff)
qed

lemma gathered_contract:
  assumes "gather rt env w config arm rq = Some (Inr g)"
  shows "rd_lane (qr_decision rq) \<noteq> Answer \<or> oc_crg_plan (gd_contract g) = []"
proof (cases rule: gather_phases [OF assms refl])
  case g: (1 effective rv s kx)
  show ?thesis using contract_within_budget [OF conclude_fields(9) [OF g(7)]] by blast
qed

text \<open>What a context called sufficient has passed, with the quality gate on: some of it is fresh, all of it is from a
  routed repository when the routes name theirs, no two trusted items contradict each other, the structural
  evidence is complete, the query is covered and the score is over the threshold.\<close>

lemma gathered_sufficient:
  assumes "gather rt env w config arm rq = Some (Inr g)" "gd_selective_enabled g"
    and "selective_config config = Inr cfg" "to_float rt (jget_or cfg ''minimum_coverage'' (JFloat (Fin (15/100)))) = Inr m"
  shows "gd_state g = ''sufficient'' \<longleftrightarrow>
    (\<exists>i \<in> set (gd_selected g). \<not> ci_stale i)
    \<and> (expected_ids w = {} \<or> (\<forall>i \<in> set (gd_selected g). \<exists>e. ci_evidence i = Some e \<and> ev_repository_id e \<in> expected_ids w))
    \<and> \<not> structural_conflict rt (gd_selected g) \<and> sf_structural (gd_sufficiency g)
    \<and> \<not> fl_lt (Fin (sf_coverage (gd_sufficiency g))) m \<and> sf_sufficient (gd_sufficiency g)"
proof (cases rule: gather_phases [OF assms(1) refl])
  case g: (1 effective rv s kx)
  have d: "gd_selective g = evaluate_selective_retrieval rt (gd_selected g) (gd_sufficiency g) (expected_ids w) m"
    using conclude_selective [OF g(7) assms(3,4)] .
  have "gd_state g = ''sufficient'' \<longleftrightarrow> sf_sufficient (gd_sufficiency g) \<and> sd_accept (gd_selective g)"
    using gathered_gates [OF assms(1)] assms(2) by simp
  then show ?thesis unfolding d selective_accept_iff by blast
qed

section \<open>Returning\<close>

lemma contract_returns:
  assumes "sufficient_evidence diagnostics = Inr e" "orchestration_budget_of config = Inr b"
  shows "\<exists>ct. build_orchestration_contract rt decision diagnostics changed roots providers config = Inr ct"
  by (simp add: build_orchestration_contract_def assms Let_def split: prod.splits)

lemma conclude_returns:
  assumes "rmap (attach_envelope rt (en_resolve env) (wv_root w) (wv_repository_ids w)) (kx_items kx) = Inr xs"
    and "selective_config config = Inr cfg" "to_float rt (jget_or cfg ''minimum_coverage'' (JFloat (Fin (15/100)))) = Inr m"
    and "orchestration_budget_of config = Inr b"
  shows "\<exists>g. conclude rt env w config plan rq rv chars tokens kx = Inr g
    \<and> gd_selective_enabled g = truthy (jget_or cfg ''enabled'' (JBool True))"
proof -
  define s where "s = evaluate_sufficiency rt (qr_query rq) xs (pl_use_structural plan) (pl_patterns plan) (rv_threshold rv)"
  define d where "d = evaluate_selective_retrieval rt xs s (expected_ids w) m"
  define en where "en = truthy (jget_or cfg ''enabled'' (JBool True))"
  define st where "st = evidence_state (qr_decision rq) (sf_sufficient s \<and> (sd_accept d \<or> \<not> en))"
  obtain ct where ct: "build_orchestration_contract rt (qr_decision rq) (diagnostics_of plan st s d en) (qr_changed rq)
      (int (length (wv_routes w))) (qr_providers rq) config = Inr ct"
    using contract_returns [OF sufficient_evidence_of_diagnostics assms(4)] by blast
  obtain p where p: "build_model_capability_policy rt (qr_decision rq) (contract_json ct) xs (Some (qr_query rq)) = Inr p"
    using contract_policy [OF ct] by blast
  show ?thesis
    unfolding conclude_def Let_def assms(1-3) rbind_simps s_def [symmetric] d_def [symmetric] en_def [symmetric]
      st_def [symmetric] ct p by simp
qed

lemma choose_context_returns: "\<exists>r. choose_context rt env config plan query ranked chars tokens = Some r"
proof (cases "selector_config config")
  case (Inr cfg)
  obtain r where "select_context rt (en_est env) (en_blake env) query ranked (Some chars) config
      (mandatory_sources rt plan cfg ranked) None (Some tokens) None = Some r"
    using select_context_returns by blast
  then show ?thesis by (simp add: choose_context_def Inr Let_def)
qed (simp add: choose_context_def)

lemma gather_some: "\<exists>r. gather rt env w config arm rq = Some r"
proof -
  have "\<exists>x. map_option f (choose_context rt env config plan query ranked chars tokens) = Some x"
    for f :: "chosen_context result \<Rightarrow> gathered result" and plan query ranked chars tokens
    using choose_context_returns [of rt env config plan query ranked chars tokens] by auto
  then show ?thesis by (simp add: gather_def Let_def split: sum.split prod.split)
qed

end
