(* ===== verification/RetrievalExamples.thy ===== *)
theory RetrievalExamples
  imports SelectionProps ContractPolicy
begin

text \<open>
  Concrete items, a token estimator and a route for the runs of the engine in the witnesses.
\<close>

section \<open>Items\<close>

definition demo_item :: "string \<Rightarrow> string \<Rightarrow> rat \<Rightarrow> context_item" where
  "demo_item source text score = \<lparr>ci_source = source, ci_text = text, ci_score = score, ci_stale = False,
     ci_metadata = [], ci_provenance = [], ci_evidence = None\<rparr>"

definition demo_est :: "string \<Rightarrow> int" where
  "demo_est t = int (length t)"

definition demo_blake :: "string \<Rightarrow> string" where
  "demo_blake t = t"

section \<open>A route\<close>

definition demo_route :: route_decision where
  "demo_route = \<lparr>rd_lane = Full, rd_risk = High, rd_reasons = [], rd_structural = True, rd_confidence = 1\<rparr>"

definition demo_providers :: provider_status where
  "demo_providers = \<lparr>pv_superpowers = True, pv_code_review_graph = True, pv_rtk = False, pv_ripgrep = True,
     pv_semantic = True, pv_scip = False\<rparr>"

end
