(* ===== verification/EngineExamples.thy ===== *)
theory EngineExamples
  imports EngineProps RetrievalExamples
begin

text \<open>
  A run of the engine for the witnesses: one repository, one base provider that finds one item, and a
  threshold the base evidence meets.
\<close>

definition engine_config :: "json dict" where
  "engine_config = [(''context'', JDict [(''sufficiency'', JDict [(''threshold'', JInt 0)]),
     (''adaptive_budget'', JDict [(''enabled'', JBool False)]),
     (''selective_retrieval'', JDict [(''minimum_coverage'', JInt 0)])])]"

definition engine_workspace :: workspace_view where
  "engine_workspace = \<lparr>wv_root = ''/ws'', wv_roots = [''/ws''],
     wv_routes = [\<lparr>ro_root = ''/ws'', ro_id = Some ''repo'', ro_tier = ''primary'', ro_prior = 1, ro_reason = ''control'',
       ro_relationship = None, ro_anchor = None\<rparr>], wv_repository_ids = [(''/ws'', ''repo'')]\<rparr>"

definition demo_good :: "string \<Rightarrow> 'v \<Rightarrow> 'v outcome" where
  "demo_good label v = \<lparr>ou_label = label, ou_value = Some v, ou_latency_ms = 1, ou_error = None, ou_error_kind = None,
     ou_timed_out = False\<rparr>"

definition demo_bad :: "string \<Rightarrow> 'v outcome" where
  "demo_bad label = \<lparr>ou_label = label, ou_value = None, ou_latency_ms = 1, ou_error = Some ''no'', ou_error_kind = Some ''OSError'',
     ou_timed_out = False\<rparr>"

definition demo_engine :: engine_env where
  "demo_engine = \<lparr>en_blake = demo_blake, en_est = demo_est, en_mlog = (\<lambda>x. x), en_parse = (\<lambda>_. None),
     en_resolve = Some, en_unsafe = False,
     en_base = (\<lambda>r changed. demo_good ''base'' [demo_item ''index'' ''stale lock'' 1]),
     en_semantic = (\<lambda>r. demo_bad ''semantic''), en_external = (\<lambda>n spec. demo_bad ''external''),
     en_structural = (\<lambda>label r symbol files. demo_bad label), en_left = (\<lambda>_. 1), en_fmt = (\<lambda>_. ''12'')\<rparr>"

definition demo_request :: request where
  "demo_request = \<lparr>qr_query = ''x'',
     qr_decision = demo_route\<lparr>rd_structural := False\<rparr>,
     qr_budget = \<lparr>cb_estimated_tokens = 100, cb_output_tokens = 50, cb_context_chars = 400, cb_source_chars = []\<rparr>,
     qr_providers = demo_providers, qr_symbol = None, qr_endpoint = None, qr_changed = []\<rparr>"


definition demo_plan :: retrieval_plan where
  "demo_plan = \<lparr>pl_intent = IntentExact, pl_use_lexical = True, pl_use_semantic = False,
    pl_use_structural = False, pl_reason = ''bounded deterministic default'', pl_patterns = []\<rparr>"

lemma demo_classified: "classify_retrieval_intent ''x'' (demo_route\<lparr>rd_structural := False\<rparr>) None None = demo_plan"
  by code_simp

definition demo_found :: context_item where
  "demo_found = routed_item engine_workspace ''/ws'' (demo_item ''index'' ''stale lock'' 1)"

lemma demo_base: "tr_base (base_phase demo_engine engine_workspace []) = [demo_found]"
  by (simp add: base_phase_def selected_roots_def engine_workspace_def base_call_def base_result_def demo_engine_def demo_good_def
      good_value_def outcome_ok_def note_latency_def attempt_def empty_trace_def demo_found_def Let_def)

lemma exact_sufficient:
  "items \<noteq> [] \<Longrightarrow> sf_sufficient (evaluate_sufficiency rt query items False [] (Fin 0))"
  using sufficiency_score_bounds [of "coverage_of query items" "diversity_of items" "exact_match query items"
    "structural_complete rt False [] items"] by (auto simp: evaluate_sufficiency_def Let_def fl_le_def)

lemma demo_retrieved:
  "\<exists>rv. retrieve demo_rt demo_engine engine_workspace engine_config engine_config demo_plan demo_request = Inr rv
     \<and> rv_ranked rv = [provenance_of None demo_found] \<and> rv_threshold rv = Fin 0"
proof -
  let ?s = "evaluate_sufficiency demo_rt ''x'' [demo_found] False [] (Fin 0)"
  have q: "qr_query demo_request = ''x''" "qr_changed demo_request = []"
    "pl_use_structural demo_plan = False" "pl_use_semantic demo_plan = False" "pl_patterns demo_plan = []"
    by (simp_all add: demo_request_def demo_plan_def)
  have p: "algorithm_policy demo_rt engine_config = Inr \<lparr>ak_ranker = ''adaptive'', ak_rrf_k = 60, ak_mmr_lambda = 75/100, ak_no_early_gate = False\<rparr>"
    by code_simp
  have t: "sufficiency_threshold demo_rt engine_config = Inr (Fin 0)" by code_simp
  have n: "provider_limit engine_config = Inr 6" by code_simp
  have sch: "scheduler_settings demo_rt engine_config = Inr (4, Fin 12)" by code_simp
  have s: "sf_sufficient ?s" by (rule exact_sufficient) simp
  have b: "tr_base t @ tr_specialist t = [demo_found] \<Longrightarrow> tr_specialist t = [] \<Longrightarrow> tr_base t = [demo_found]" for t by simp
  show ?thesis
    by (simp add: retrieve_def q p t n sch s demo_base specialist_gate_def closed_gate_calls structural_phase_def hybrid_rank_def
        rank_candidates_def base_phase_attempts Let_def)
qed

lemma small_selection:
  assumes "candidates est blake query items \<noteq> []" "length (candidates est blake query items) \<le> 200" "0 < chars" "0 < tokens"
  shows "\<exists>selected report. select_with rt est blake query items (Some chars) [] ms None (Some tokens) None = Some (Inr (selected, report))"
proof -
  let ?rows = "candidates est blake query items"
  let ?l = "limits_of (Some chars) None (Some tokens)"
  have r: "bounded_rows ta ?rows 200 ms = ?rows" for ta using assms(2) by (simp add: bounded_rows_def)
  obtain mode s where "choose_rows ?l ms ?rows
      (rat_of_int (if token_aware ?l then (case li_tokens ?l of Some t \<Rightarrow> t | None \<Rightarrow> 0) else li_chars ?l) / of_int (max 1 (sum_list (map (candidate_cost ?l) ?rows)))) (Fin (3/10)) = Some (mode, s)"
    using choose_rows_within [OF candidates_ok nothing_within [OF limits_of_nonneg]] by blast
  then show ?thesis using assms
    by (simp add: select_with_def dict_simps candidate_limit_of_def to_int_def to_float_def Let_def r) (simp add: limits_of_def token_aware_def)
qed

lemma one_candidate: "length (candidates est blake query [i]) = 1"
  by (simp add: candidates_def Let_def)

lemma demo_limits:
  "adaptive_char_limit demo_rt (qr_budget demo_request) score engine_config = Inr 400"
  "adaptive_token_limit demo_rt (qr_budget demo_request) score engine_config = Inr 100"
proof -
  have "adaptive_config engine_config = Inr [(''enabled'', JBool False)]" by code_simp
  then show "adaptive_char_limit demo_rt (qr_budget demo_request) score engine_config = Inr 400"
    "adaptive_token_limit demo_rt (qr_budget demo_request) score engine_config = Inr 100"
    by (simp_all add: adaptive_char_limit_def adaptive_token_limit_def demo_request_def dict_simps)
qed

lemma demo_context_chosen:
  assumes "ci_text i = ''stale lock''"
  shows "\<exists>kx. choose_context demo_rt demo_engine engine_config demo_plan query [i] 400 100 = Some (Inr kx)
    \<and> kx_used_tokens kx \<noteq> None \<and> kx_items kx \<noteq> []"
proof -
  have cfg: "selector_config engine_config = Inr []" by code_simp
  have n: "length (candidates est blake query [i]) = 1" for est blake by (rule one_candidate)
  then have ne: "candidates est blake query [i] \<noteq> []" for est blake by (metis length_0_conv zero_neq_one)
  obtain selected report where sel: "select_with demo_rt demo_est demo_blake query [i] (Some 400) [] [] None (Some 100) None
      = Some (Inr (selected, report))"
    using small_selection [OF ne, where chars = 400 and tokens = 100] n by (metis one_le_numeral zero_less_numeral)
  have kept: "kx_items (fallback_context demo_engine 400 100 rep [i]) \<noteq> []"
    "kx_used_tokens (fallback_context demo_engine 400 100 rep [i]) \<noteq> None" for rep
    by (simp_all add: fallback_context_def hard_cap_def truncate_text_def assms demo_engine_def demo_est_def Let_def)
  have env: "en_est demo_engine = demo_est" "en_blake demo_engine = demo_blake" by (simp_all add: demo_engine_def)
  show ?thesis using sel kept
    by (simp add: choose_context_def cfg select_context_def dict_simps mandatory_sources_def demo_plan_def env)
qed

lemma demo_attached: "\<exists>xs. rmap (attach_envelope demo_rt (en_resolve demo_engine) (wv_root engine_workspace) (wv_repository_ids engine_workspace)) items = Inr xs"
proof (rule rmap_total, intro ballI)
  fix i :: context_item
  have "dget (wv_repository_ids engine_workspace) (wv_root engine_workspace) = Some ''repo''" by (simp add: engine_workspace_def dict_simps)
  then show "\<exists>y. attach_envelope demo_rt (en_resolve demo_engine) (wv_root engine_workspace) (wv_repository_ids engine_workspace) i = Inr y"
    by (auto simp: attach_envelope_def Let_def split: option.split)
qed

lemma demo_concluded:
  "\<exists>g. conclude demo_rt demo_engine engine_workspace engine_config demo_plan demo_request rv 400 100 kx = Inr g \<and> gd_selective_enabled g"
proof -
  obtain xs where xs: "rmap (attach_envelope demo_rt (en_resolve demo_engine) (wv_root engine_workspace) (wv_repository_ids engine_workspace))
      (kx_items kx) = Inr xs" using demo_attached by blast
  have cfg: "selective_config engine_config = Inr [(''minimum_coverage'', JInt 0)]" by code_simp
  have b: "orchestration_budget_of engine_config = Inr \<lparr>ob_agent_slots = 4, ob_crg_calls = 6, ob_graph_depth = 3, ob_review_passes = 2,
      ob_verification_passes = 2\<rparr>" by code_simp
  have m: "to_float demo_rt (jget_or [(''minimum_coverage'', JInt 0)] ''minimum_coverage'' (JFloat (Fin (15/100)))) = Inr (Fin 0)" by code_simp
  from conclude_returns [OF xs cfg m b] show ?thesis by (simp add: dict_simps)
qed

lemma demo_context_gathered:
  "\<exists>g. gather demo_rt demo_engine engine_workspace engine_config BASELINE_ARM demo_request = Some (Inr g)
     \<and> gd_selective_enabled g \<and> kx_used_tokens (gd_context g) \<noteq> None \<and> gd_selected g \<noteq> []
     \<and> gd_sufficiency g = evaluate_sufficiency demo_rt ''x'' (gd_selected g) False [] (Fin 0)"
proof -
  obtain rv where rv: "retrieve demo_rt demo_engine engine_workspace engine_config engine_config demo_plan demo_request = Inr rv"
    "rv_ranked rv = [provenance_of None demo_found]" "rv_threshold rv = Fin 0"
    using demo_retrieved by blast
  have "ci_text (provenance_of None demo_found) = ''stale lock''" by (simp add: demo_found_def demo_item_def)
  then obtain kx where kx: "choose_context demo_rt demo_engine engine_config demo_plan ''x'' (rv_ranked rv) 400 100 = Some (Inr kx)"
    "kx_used_tokens kx \<noteq> None" "kx_items kx \<noteq> []" using demo_context_chosen rv(2) by metis
  obtain g where g: "conclude demo_rt demo_engine engine_workspace engine_config demo_plan demo_request rv 400 100 kx = Inr g"
    "gd_selective_enabled g" using demo_concluded by blast
  have rq: "qr_query demo_request = ''x''" "qr_decision demo_request = demo_route\<lparr>rd_structural := False\<rparr>"
    "qr_symbol demo_request = None" "qr_endpoint demo_request = None" by (simp_all add: demo_request_def)
  have "apply_learning_arm engine_config BASELINE_ARM = Inr engine_config" by (simp add: apply_learning_arm_def)
  then have "gather demo_rt demo_engine engine_workspace engine_config BASELINE_ARM demo_request = Some (Inr g)"
    unfolding gather_def rq demo_classified Let_def using rv(1) demo_limits kx(1) g(1) by simp
  moreover have "gd_selected g \<noteq> []"
    using rmap_Inr_length [OF conclude_fields(1) [OF g(1)]] kx(3) by auto
  moreover have "gd_sufficiency g = evaluate_sufficiency demo_rt ''x'' (gd_selected g) False [] (Fin 0)"
    using conclude_fields(7) [OF g(1)] rv(3) rq by (simp add: demo_plan_def)
  ultimately show ?thesis using g(2) kx(2) conclude_fields(2) [OF g(1)] by auto
qed

lemma demo_selective:
  "selective_config engine_config = Inr [(''minimum_coverage'', JInt 0)]"
  "to_float demo_rt (jget_or [(''minimum_coverage'', JInt 0)] ''minimum_coverage'' (JFloat (Fin (15/100)))) = Inr (Fin 0)"
  by code_simp+

text \<open>What the run selects quotes its only item, of the repository it routes to.\<close>

lemma demo_context_items:
  assumes "gather demo_rt demo_engine engine_workspace engine_config BASELINE_ARM demo_request = Some (Inr g)" "x \<in> set (gd_selected g)"
  shows "ci_source x = ''index'' \<and> \<not> ci_stale x \<and> (\<exists>e. ci_evidence x = Some e \<and> ev_repository_id e = ''repo'')"
proof -
  obtain r i e where i: "provided demo_engine engine_workspace r i" "derived x i"
    and e: "ci_evidence x = Some e" "ev_repository_id e \<in> snd ` set (wv_repository_ids engine_workspace)"
    using gathered_selected [OF assms] by blast
  have "i = demo_item ''index'' ''stale lock'' 1"
    using i(1) by (cases rule: provided.cases)
      (auto simp: demo_engine_def demo_good_def demo_bad_def good_value_def outcome_ok_def split: if_splits)
  then show ?thesis using i(2) e by (auto simp: derived_def demo_item_def engine_workspace_def)
qed

lemma demo_repository_ids: "expected_ids engine_workspace = {''repo''}"
  by (simp add: expected_ids_def engine_workspace_def List.map_filter_def)

section \<open>Routing without a registry\<close>

lemma demo_routed:
  "\<exists>p. plan_repository_retrieval demo_rt (\<lambda>_. None) (Inr None) (Inr None) ''/ws'' [''/ws''] ''x'' [] [] = Inr p"
proof -
  have none: "registry_roots demo_rt (\<lambda>_. None) (load_registry demo_rt None) = []"
    by (simp add: registry_roots_def load_registry_def)
  obtain s where "routing_settings_of demo_rt [] = Inr s"
    by (simp add: routing_settings_of_def workspace_config_def or_empty_def dict_simps to_int_def Let_def)
  then show ?thesis
    by (simp add: plan_repository_retrieval_def select_repositories_def none identity_of_def present_ids_def List.map_filter_def
        legacy_plan_def max_roots_def workspace_config_def or_empty_def dict_simps to_int_def Let_def)
qed


end
