(* ===== verification/OffPolicy.thy ===== *)
theory OffPolicy
  imports Statistics Learning "HOL-Library.Product_Lexorder"
begin

text \<open>
  \<open>learning_ope.py\<close>: what the logged exploration says about each arm, and which arm it recommends.
  \<open>records\<close> is the result of \<open>load_learning_records\<close>; \<open>draw\<close> is the sequence of \<open>randrange\<close> results of
  a seeded generator, as in the clustered bootstrap.
\<close>

section \<open>Rows\<close>

text \<open>\<open>row["k"].get\<close>: the value under a key that the code takes for a dictionary.\<close>

definition row_dict :: "json dict \<Rightarrow> string \<Rightarrow> json dict result" where
  "row_dict row k = (case dget row k of
     None \<Rightarrow> Inl (KeyError k)
   | Some (JDict d) \<Rightarrow> Inr d
   | Some _ \<Rightarrow> Inl (AttributeError ''get''))"

definition chosen_arm_of :: "runtime \<Rightarrow> json dict \<Rightarrow> string" where
  "chosen_arm_of rt row = py_str rt (jget_or row ''chosen_arm'' (JStr []))"

definition positive :: "rat option \<Rightarrow> bool" where
  "positive p = (case p of Some x \<Rightarrow> 0 < x | None \<Rightarrow> False)"

definition verified_row :: "runtime \<Rightarrow> json dict \<Rightarrow> bool result" where
  "verified_row rt row = (case verified_outcome row of
     None \<Rightarrow> Inr False
   | Some out \<Rightarrow>
       rbind (number (jget out ''reward'')) (\<lambda>reward.
       rbind (number (jget out ''realized_cost'')) (\<lambda>cost. case (reward, cost) of
           (Some _, Some c) \<Rightarrow>
             if c < 0 then Inr False
             else (case jget row ''arm_propensities'' of
                 JDict ps \<Rightarrow> rbind (number (jget ps (chosen_arm_of rt row))) (\<lambda>p. Inr (positive p))
               | _ \<Rightarrow> Inr False)
         | _ \<Rightarrow> Inr False)))"

fun verified_rows :: "runtime \<Rightarrow> json dict list \<Rightarrow> json dict list result" where
  "verified_rows rt [] = Inr []"
| "verified_rows rt (row # rows) =
     rbind (verified_row rt row) (\<lambda>b. rbind (verified_rows rt rows) (\<lambda>out. Inr (if b then row # out else out)))"

definition safe_target_action :: "json dict \<Rightarrow> string \<Rightarrow> string result" where
  "safe_target_action row target = (case jget row ''arm_propensities'' of
     JDict ps \<Rightarrow> rbind (number (jget ps target)) (\<lambda>p. Inr (if positive p then target else BASELINE_ARM))
   | _ \<Rightarrow> Inr BASELINE_ARM)"

section \<open>Estimates\<close>

text \<open>A row that took the target's action: its importance weight, reward, cost, and whether the action was
  the target arm itself.\<close>

record sample =
  sa_weight :: rat
  sa_reward :: rat
  sa_cost :: rat
  sa_direct :: bool

definition make_sample :: "bool \<Rightarrow> rat option \<Rightarrow> rat option \<Rightarrow> rat option \<Rightarrow> sample option" where
  "make_sample direct probability reward cost = (case (probability, reward, cost) of
     (Some p, Some r, Some c) \<Rightarrow>
       if p \<le> 0 then None else Some \<lparr>sa_weight = 1 / p, sa_reward = r, sa_cost = c, sa_direct = direct\<rparr>
   | _ \<Rightarrow> None)"

definition sample_of :: "runtime \<Rightarrow> string \<Rightarrow> json dict \<Rightarrow> sample option result" where
  "sample_of rt target row =
     (let chosen = chosen_arm_of rt row in
      rbind (safe_target_action row target) (\<lambda>action.
      if chosen \<noteq> action then Inr None
      else rbind (row_dict row ''arm_propensities'') (\<lambda>ps.
        rbind (number (jget ps chosen)) (\<lambda>probability.
        rbind (row_dict row ''outcome'') (\<lambda>out.
        rbind (number (jget out ''reward'')) (\<lambda>reward.
        rbind (number (jget out ''realized_cost'')) (\<lambda>cost.
          Inr (make_sample (chosen = target \<and> target \<noteq> BASELINE_ARM) probability reward cost))))))))"

definition samples_of :: "runtime \<Rightarrow> string \<Rightarrow> json dict list \<Rightarrow> sample list result" where
  "samples_of rt target rows =
     rbind (rmap (sample_of rt target) rows) (\<lambda>ss. Inr (map the (filter (\<lambda>s. s \<noteq> None) ss)))"

record estimate =
  es_target :: string
  es_logged :: nat
  es_matched :: nat
  es_direct :: nat
  es_coverage :: rat
  es_ips_reward :: "rat option"
  es_snips_reward :: "rat option"
  es_ips_cost :: "rat option"
  es_snips_cost :: "rat option"
  es_ess :: rat
  es_max_weight :: "rat option"
  es_max_direct_cost :: "rat option"

definition weighted :: "(sample \<Rightarrow> rat) \<Rightarrow> sample list \<Rightarrow> rat" where
  "weighted f ss = sum_list (map (\<lambda>s. sa_weight s * f s) ss)"

definition total_weight :: "sample list \<Rightarrow> rat" where
  "total_weight ss = sum_list (map sa_weight ss)"

definition snips :: "(sample \<Rightarrow> rat) \<Rightarrow> sample list \<Rightarrow> rat option" where
  "snips f ss = (if 0 < total_weight ss then Some (weighted f ss / total_weight ss) else None)"

definition ips :: "nat \<Rightarrow> (sample \<Rightarrow> rat) \<Rightarrow> sample list \<Rightarrow> rat option" where
  "ips n f ss = (if n = 0 then None else Some (weighted f ss / of_nat n))"

definition effective_size :: "rat list \<Rightarrow> rat" where
  "effective_size ws = (let squared = sum_list (map (\<lambda>w. w * w) ws) in
     if 0 < squared then sum_list ws * sum_list ws / squared else 0)"

definition max_or_none :: "rat list \<Rightarrow> rat option" where
  "max_or_none xs = (case xs of [] \<Rightarrow> None | y # ys \<Rightarrow> Some (fold max ys y))"

definition rounded :: "rat option \<Rightarrow> rat option" where
  "rounded = map_option (round_to 6)"

definition estimate_of :: "runtime \<Rightarrow> json dict list \<Rightarrow> string \<Rightarrow> estimate result" where
  "estimate_of rt rows target =
     rbind (samples_of rt target rows) (\<lambda>ss.
     let n = length rows; direct = filter sa_direct ss in
     Inr \<lparr>es_target = target, es_logged = n, es_matched = length ss, es_direct = length direct,
       es_coverage = (if n = 0 then 0 else round_to 6 (of_nat (length ss) / of_nat n)),
       es_ips_reward = rounded (ips n sa_reward ss), es_snips_reward = rounded (snips sa_reward ss),
       es_ips_cost = rounded (ips n sa_cost ss), es_snips_cost = rounded (snips sa_cost ss),
       es_ess = round_to 6 (effective_size (map sa_weight ss)),
       es_max_weight = rounded (max_or_none (map sa_weight ss)),
       es_max_direct_cost = rounded (max_or_none (map sa_cost direct))\<rparr>)"

section \<open>The paired bootstrap\<close>

text \<open>\<open>_snips_value\<close> reads one field and counts the rows that have it.\<close>

definition field_sample :: "runtime \<Rightarrow> string \<Rightarrow> string \<Rightarrow> json dict \<Rightarrow> (rat \<times> rat) option result" where
  "field_sample rt target field row =
     (let chosen = chosen_arm_of rt row in
      rbind (safe_target_action row target) (\<lambda>action.
      if chosen \<noteq> action then Inr None
      else rbind (row_dict row ''arm_propensities'') (\<lambda>ps.
        rbind (number (jget ps chosen)) (\<lambda>probability.
        rbind (case jget row ''outcome'' of JDict out \<Rightarrow> number (jget out field) | _ \<Rightarrow> Inr None) (\<lambda>v.
          Inr (case (probability, v) of
            (Some p, Some x) \<Rightarrow> if p \<le> 0 then None else Some (1 / p, x)
          | _ \<Rightarrow> None))))))"

definition snips_value :: "runtime \<Rightarrow> json dict list \<Rightarrow> string \<Rightarrow> string \<Rightarrow> rat option result" where
  "snips_value rt rows target field =
     rbind (rmap (field_sample rt target field) rows) (\<lambda>ss.
     let ps = map the (filter (\<lambda>s. s \<noteq> None) ss);
         total = sum_list (map fst ps)
     in Inr (if 0 < total then Some (sum_list (map (\<lambda>(w, x). w * x) ps) / total) else None))"

definition delta :: "rat option \<Rightarrow> rat option \<Rightarrow> rat option" where
  "delta candidate baseline = (case (candidate, baseline) of (Some a, Some b) \<Rightarrow> Some (a - b) | _ \<Rightarrow> None)"

definition snips_delta :: "runtime \<Rightarrow> json dict list \<Rightarrow> string \<Rightarrow> string \<Rightarrow> rat option result" where
  "snips_delta rt rows target field =
     rbind (snips_value rt rows target field) (\<lambda>candidate.
     rbind (snips_value rt rows BASELINE_ARM field) (\<lambda>baseline. Inr (delta candidate baseline)))"

definition drawn_rows :: "(int \<Rightarrow> nat \<Rightarrow> nat) \<Rightarrow> int \<Rightarrow> json dict list \<Rightarrow> nat \<Rightarrow> json dict list" where
  "drawn_rows draw seed rows i =
     (let n = length rows in map (\<lambda>j. rows ! (draw seed (i * n + j) mod n)) [0..<n])"

record delta_report =
  de_mean :: "rat option"
  de_ci_low :: "rat option"
  de_ci_high :: "rat option"
  de_resamples :: nat

definition bootstrap_delta ::
  "runtime \<Rightarrow> (int \<Rightarrow> nat \<Rightarrow> nat) \<Rightarrow> json dict list \<Rightarrow> string \<Rightarrow> string \<Rightarrow> rat \<Rightarrow> int \<Rightarrow> int \<Rightarrow> delta_report result" where
  "bootstrap_delta rt draw rows target field confidence resamples seed =
     guard_that (0 < confidence \<and> confidence < 1) (ValueError ''confidence must be between 0 and 1'')
     (if rows = [] then Inr \<lparr>de_mean = None, de_ci_low = None, de_ci_high = None, de_resamples = 0\<rparr>
      else rbind (rmap (\<lambda>i. snips_delta rt (drawn_rows draw seed rows i) target field)
          [0..<nat (max 1 resamples)]) (\<lambda>ds.
        let deltas = map the (filter (\<lambda>d. d \<noteq> None) ds) in
        rbind (snips_delta rt rows target field) (\<lambda>observed.
        if deltas = [] then Inr \<lparr>de_mean = rounded observed, de_ci_low = None, de_ci_high = None, de_resamples = 0\<rparr>
        else let alpha = (1 - confidence) / 2 in
          rbind (percentile deltas alpha) (\<lambda>low. rbind (percentile deltas (1 - alpha)) (\<lambda>high.
          Inr \<lparr>de_mean = Some (round_to 6 (case observed of Some d \<Rightarrow> d | None \<Rightarrow> mean_of deltas)),
            de_ci_low = Some (round_to 6 low), de_ci_high = Some (round_to 6 high),
            de_resamples = length deltas\<rparr>)))))"

section \<open>The gate of an arm\<close>

record gate =
  ga_minimum_ess :: pyfloat
  ga_minimum_direct :: int
  ga_safety_margin :: pyfloat
  ga_max_cost :: "pyfloat option"

record evaluation =
  el_estimate :: estimate
  el_reward_delta :: delta_report
  el_cost_delta :: delta_report
  el_eligible :: bool
  el_blockers :: "string list"

definition clears_margin :: "rat option \<Rightarrow> pyfloat \<Rightarrow> bool" where
  "clears_margin low margin = (case low of None \<Rightarrow> False | Some x \<Rightarrow> \<not> fl_le (Fin x) margin)"

definition cost_met :: "rat option \<Rightarrow> pyfloat option \<Rightarrow> bool" where
  "cost_met observed bound = (case bound of
     None \<Rightarrow> True
   | Some b \<Rightarrow> (case observed of None \<Rightarrow> False | Some c \<Rightarrow> \<not> fl_lt b (Fin c)))"

definition arm_blockers :: "gate \<Rightarrow> estimate \<Rightarrow> delta_report \<Rightarrow> string list" where
  "arm_blockers g e reward =
     (if fl_lt (Fin (es_ess e)) (ga_minimum_ess g) then [''insufficient_effective_sample_size''] else [])
     @ (if int (es_direct e) < ga_minimum_direct g then [''insufficient_direct_target_exposures''] else [])
     @ (if clears_margin (de_ci_low reward) (ga_safety_margin g) then [] else [''reward_lower_bound_does_not_clear_margin''])
     @ (if cost_met (es_max_direct_cost e) (ga_max_cost g) then [] else [''realized_cost_constraint_not_met''])"

definition evaluate_arm ::
  "runtime \<Rightarrow> (int \<Rightarrow> nat \<Rightarrow> nat) \<Rightarrow> json dict list \<Rightarrow> rat \<Rightarrow> int \<Rightarrow> int \<Rightarrow> gate \<Rightarrow> string
     \<Rightarrow> (string \<times> evaluation) result" where
  "evaluate_arm rt draw rows confidence resamples seed g arm =
     rbind (estimate_of rt rows arm) (\<lambda>e.
     rbind (bootstrap_delta rt draw rows arm ''reward'' confidence resamples seed) (\<lambda>reward.
     rbind (bootstrap_delta rt draw rows arm ''realized_cost'' confidence resamples (seed + 1)) (\<lambda>cost.
     let blockers = arm_blockers g e reward in
     Inr (arm, \<lparr>el_estimate = e, el_reward_delta = reward, el_cost_delta = cost,
       el_eligible = (arm \<noteq> BASELINE_ARM \<and> blockers = []), el_blockers = blockers\<rparr>))))"

section \<open>The recommendation\<close>

text \<open>\<open>max\<close> with a key: the first of the largest; \<open>float(None)\<close> raises.\<close>

definition promotion_key :: "string \<times> evaluation \<Rightarrow> (rat \<times> rat \<times> string) result" where
  "promotion_key x = (case (de_ci_low (el_reward_delta (snd x)), es_snips_reward (el_estimate (snd x))) of
     (Some low, Some reward) \<Rightarrow> Inr (low, reward, fst x)
   | _ \<Rightarrow> Inl (TypeError ''float() argument must be a string or a real number''))"

fun first_max :: "('k::linorder) \<times> 'a \<Rightarrow> ('k \<times> 'a) list \<Rightarrow> 'k \<times> 'a" where
  "first_max best [] = best"
| "first_max best (x # xs) = first_max (if fst best < fst x then x else best) xs"

definition recommend :: "(string \<times> evaluation) list \<Rightarrow> string result" where
  "recommend evaluations =
     (let promoted = filter (\<lambda>x. el_eligible (snd x)) evaluations in
      rbind (rmap promotion_key promoted) (\<lambda>keys. Inr (case zip keys (map fst promoted) of
          [] \<Rightarrow> BASELINE_ARM
        | x # xs \<Rightarrow> snd (first_max x xs))))"

record ope_report =
  op_logged :: nat
  op_baseline :: estimate
  op_evaluations :: "(string \<times> evaluation) list"
  op_recommended :: string

definition requested_arms :: "string list option \<Rightarrow> string list" where
  "requested_arms arms = uniq (map strip (case arms of Some (a # as) \<Rightarrow> a # as | _ \<Rightarrow> SAFE_EXPLORATION_ARMS))"

definition evaluate_learning_policies ::
  "runtime \<Rightarrow> (int \<Rightarrow> nat \<Rightarrow> nat) \<Rightarrow> json dict list \<Rightarrow> string list option \<Rightarrow> rat \<Rightarrow> int \<Rightarrow> int \<Rightarrow> gate \<Rightarrow> ope_report result" where
  "evaluate_learning_policies rt draw records arms confidence resamples seed g =
     (let normalized = requested_arms arms in
      case find (\<lambda>arm. arm \<notin> set SAFE_EXPLORATION_ARMS) normalized of
        Some arm \<Rightarrow> Inl (ValueError (''unsupported learning arm: '' @ arm))
      | None \<Rightarrow>
          rbind (verified_rows rt records) (\<lambda>rows.
          rbind (estimate_of rt rows BASELINE_ARM) (\<lambda>baseline.
          rbind (rmap (evaluate_arm rt draw rows confidence resamples seed g) normalized) (\<lambda>evaluations.
          rbind (recommend evaluations) (\<lambda>recommendation.
          Inr \<lparr>op_logged = length rows, op_baseline = baseline, op_evaluations = evaluations,
            op_recommended = recommendation\<rparr>)))))"

end
