(* ===== verification/OffPolicyProps.thy ===== *)
theory OffPolicyProps
  imports OffPolicy
begin

text \<open>
  What the off-policy evaluation guarantees: its estimates are bounded by the logged outcomes and the
  number of matched rows, and the arm it recommends has passed every gate.
\<close>

section \<open>Samples\<close>

definition sample_ok :: "sample \<Rightarrow> bool" where
  "sample_ok s = (0 < sa_weight s)"

lemma make_sample_Some:
  "make_sample d p r c = Some s \<longleftrightarrow> (\<exists>p' r' c'. p = Some p' \<and> r = Some r' \<and> c = Some c' \<and> 0 < p'
     \<and> s = \<lparr>sa_weight = 1 / p', sa_reward = r', sa_cost = c', sa_direct = d\<rparr>)"
  by (auto simp: make_sample_def split: option.splits if_splits)

lemma sample_of_ok: "sample_of rt target row = Inr (Some s) \<Longrightarrow> sample_ok s"
  by (auto simp: sample_of_def rbind_Inr_iff Let_def sample_ok_def make_sample_Some split: if_splits)

lemma samples_of_ok:
  assumes "samples_of rt target rows = Inr ss"
  shows "(\<forall>s \<in> set ss. sample_ok s) \<and> length ss \<le> length rows"
proof -
  obtain os where os: "rmap (sample_of rt target) rows = Inr os" and ss: "ss = map the (filter (\<lambda>s. s \<noteq> None) os)"
    using assms by (auto simp: samples_of_def rbind_Inr_iff)
  have "sample_ok s" if "s \<in> set ss" for s
  proof -
    have "Some s \<in> set os" using that by (auto simp: ss)
    then show ?thesis using rmap_Inr_set [OF os] sample_of_ok by blast
  qed
  moreover have "length ss \<le> length rows"
    using rmap_Inr_length [OF os] by (metis ss length_filter_le length_map)
  ultimately show ?thesis by blast
qed

lemma total_weight_nonneg: "\<forall>s \<in> set ss. sample_ok s \<Longrightarrow> 0 \<le> total_weight ss"
  by (induction ss) (auto simp: total_weight_def sample_ok_def)

lemma total_weight_pos: "\<forall>s \<in> set ss. sample_ok s \<Longrightarrow> ss \<noteq> [] \<Longrightarrow> 0 < total_weight ss"
  using total_weight_nonneg [of "tl ss"] by (cases ss) (auto simp: total_weight_def sample_ok_def)

lemma weighted_le:
  assumes "\<forall>s \<in> set ss. sample_ok s" "\<forall>s \<in> set ss. f s \<le> b"
  shows "weighted f ss \<le> b * total_weight ss"
  using assms
proof (induction ss)
  case (Cons s ss)
  have "sa_weight s * f s \<le> sa_weight s * b" using Cons.prems by (intro mult_left_mono) (auto simp: sample_ok_def)
  then show ?case using Cons by (simp add: weighted_def total_weight_def algebra_simps)
qed (simp add: weighted_def total_weight_def)

lemma weighted_uminus: "weighted (\<lambda>s. - f s) ss = - weighted f ss"
  by (induction ss) (simp_all add: weighted_def)

lemma snips_between:
  assumes ok: "\<forall>s \<in> set ss. sample_ok s" and "\<forall>s \<in> set ss. a \<le> f s \<and> f s \<le> b" "snips f ss = Some x"
  shows "a \<le> x \<and> x \<le> b"
proof -
  have t: "0 < total_weight ss" and x: "x = weighted f ss / total_weight ss"
    using assms(3) by (auto simp: snips_def split: if_splits)
  have "weighted f ss \<le> b * total_weight ss" using weighted_le [OF ok, of f b] assms(2) by blast
  moreover have "a * total_weight ss \<le> weighted f ss"
    using weighted_le [OF ok, of "\<lambda>s. - f s" "- a"] assms(2) by (simp add: weighted_uminus)
  ultimately show ?thesis using t by (simp add: x field_simps)
qed

section \<open>The effective sample size\<close>

lemma pairwise_squares:
  fixes a :: rat
  shows "2 * a * sum_list ws \<le> of_nat (length ws) * (a * a) + sum_list (map (\<lambda>w. w * w) ws)"
proof (induction ws)
  case (Cons w ws)
  have "0 \<le> (a - w) * (a - w)" by simp
  then have "2 * a * w \<le> a * a + w * w" by (simp add: algebra_simps)
  then show ?case using Cons by (simp add: algebra_simps)
qed simp

lemma square_of_sum:
  fixes ws :: "rat list"
  shows "sum_list ws * sum_list ws \<le> of_nat (length ws) * sum_list (map (\<lambda>w. w * w) ws)"
proof (induction ws)
  case (Cons w ws)
  then show ?case using pairwise_squares [of w ws] by (simp add: algebra_simps)
qed simp

lemma effective_size_bounds: "0 \<le> effective_size ws \<and> effective_size ws \<le> of_nat (length ws)"
proof (cases "0 < sum_list (map (\<lambda>w. w * w) ws)")
  case True
  then show ?thesis
    using square_of_sum [of ws] zero_le_square [of "sum_list ws"]
    by (simp add: effective_size_def Let_def divide_le_eq)
next
  case False
  then show ?thesis by (simp add: effective_size_def Let_def)
qed

lemma estimate_of_fields:
  assumes "estimate_of rt rows target = Inr e"
  obtains ss where "samples_of rt target rows = Inr ss"
    "es_matched e = length ss" "es_logged e = length rows" "es_direct e = length (filter sa_direct ss)"
    "es_ess e = round_to 6 (effective_size (map sa_weight ss))"
    "es_coverage e = (if length rows = 0 then 0 else round_to 6 (of_nat (length ss) / of_nat (length rows)))"
    "es_snips_reward e = rounded (snips sa_reward ss)"
  using assms by (auto simp: estimate_of_def rbind_Inr_iff Let_def)

lemma estimate_bounds:
  assumes "estimate_of rt rows target = Inr e"
  shows "es_matched e \<le> es_logged e \<and> es_direct e \<le> es_matched e
    \<and> 0 \<le> es_coverage e \<and> es_coverage e \<le> 1
    \<and> 0 \<le> es_ess e \<and> es_ess e \<le> of_nat (es_matched e)"
proof -
  obtain ss where ss: "samples_of rt target rows = Inr ss"
    and e: "es_matched e = length ss" "es_logged e = length rows" "es_direct e = length (filter sa_direct ss)"
      "es_ess e = round_to 6 (effective_size (map sa_weight ss))"
      "es_coverage e = (if length rows = 0 then 0 else round_to 6 (of_nat (length ss) / of_nat (length rows)))"
    by (rule estimate_of_fields [OF assms])
  have len: "length ss \<le> length rows" using samples_of_ok [OF ss] by blast
  have "0 \<le> round_to 6 (effective_size (map sa_weight ss))
      \<and> round_to 6 (effective_size (map sa_weight ss)) \<le> of_nat (length ss)"
    using effective_size_bounds [of "map sa_weight ss"] round_to_mono [of 0 "effective_size (map sa_weight ss)" 6]
      round_to_mono [of "effective_size (map sa_weight ss)" "of_nat (length ss)" 6] by simp
  moreover have "0 \<le> es_coverage e \<and> es_coverage e \<le> 1"
    using len round_to_unit [of "of_nat (length ss) / of_nat (length rows)" 6] by (simp add: e divide_le_eq)
  ultimately show ?thesis using len by (simp add: e)
qed

section \<open>The recommendation\<close>

lemma first_max_in: "first_max x xs \<in> insert x (set xs)"
  by (induction xs arbitrary: x) auto

lemma first_max_ge: "y \<in> insert x (set xs) \<Longrightarrow> fst y \<le> fst (first_max x xs)"
  proof (induction xs arbitrary: x y)
  case (Cons a xs)
  show ?case
  proof (cases "fst x < fst a")
    case True
    then show ?thesis using Cons.prems Cons.IH [of y a] Cons.IH [of a a] by auto
  next
    case False
    then show ?thesis using Cons.prems Cons.IH [of y x] Cons.IH [of x x] by auto
  qed
qed simp

lemma rmap_zip:
  "rmap f xs = Inr ys \<Longrightarrow> (y, x) \<in> set (zip ys xs) \<longleftrightarrow> x \<in> set xs \<and> f x = Inr y"
  by (induction xs arbitrary: ys) (auto simp: rbind_Inr_iff)

text \<open>The baseline, or an arm that is eligible and whose lower bound no eligible arm exceeds.\<close>

definition best_eligible :: "(string \<times> evaluation) list \<Rightarrow> string \<times> evaluation \<Rightarrow> bool" where
  "best_eligible evaluations x =
     (x \<in> set evaluations \<and> el_eligible (snd x)
      \<and> (\<forall>y \<in> set evaluations. el_eligible (snd y) \<longrightarrow>
           the (de_ci_low (el_reward_delta (snd y))) \<le> the (de_ci_low (el_reward_delta (snd x)))))"

lemma recommend_best:
  assumes "recommend evaluations = Inr arm"
  shows "(arm = BASELINE_ARM \<and> \<not> list_ex (\<lambda>x. el_eligible (snd x)) evaluations)
    \<or> (\<exists>e. best_eligible evaluations (arm, e))"
proof -
  define promoted where "promoted = filter (\<lambda>x. el_eligible (snd x)) evaluations"
  obtain keys where keys: "rmap promotion_key promoted = Inr keys"
    and arm: "arm = (case zip keys (map fst promoted) of [] \<Rightarrow> BASELINE_ARM | x # xs \<Rightarrow> snd (first_max x xs))"
    using assms by (auto simp: recommend_def rbind_Inr_iff promoted_def Let_def)
  show ?thesis
  proof (cases promoted)
    case Nil
    then have "\<not> list_ex (\<lambda>x. el_eligible (snd x)) evaluations"
      by (auto simp: promoted_def filter_empty_conv list_ex_iff)
    then show ?thesis using arm by (simp add: Nil)
  next
    case (Cons p ps)
    then obtain k ks where z: "keys = k # ks" using rmap_Inr_length [OF keys] by (cases keys) auto
    define m where "m = first_max (k, fst p) (zip ks (map fst ps))"
    have zk: "zip keys (map fst promoted) = (k, fst p) # zip ks (map fst ps)" by (simp add: z Cons)
    have m_in: "m \<in> set (zip keys (map fst promoted))"
      using first_max_in [of "(k, fst p)" "zip ks (map fst ps)"] by (simp only: zk m_def list.set)
    have m_ge: "fst y \<le> fst m" if "y \<in> set (zip keys (map fst promoted))" for y
      using first_max_ge [of y "(k, fst p)" "zip ks (map fst ps)"] that by (simp only: zk m_def list.set)
    have keyed: "\<exists>x \<in> set promoted. fst x = a \<and> promotion_key x = Inr q" if "(q, a) \<in> set (zip keys (map fst promoted))" for q a
    proof -
      obtain i where i: "i < length keys" "i < length promoted" "q = keys ! i" "a = fst (promoted ! i)"
        using \<open>(q, a) \<in> _\<close> by (auto simp: in_set_zip)
      then have "(keys ! i, promoted ! i) \<in> set (zip keys promoted)" by (auto simp: in_set_zip)
      then show ?thesis using rmap_zip [OF keys] i by auto
    qed
    obtain x where x: "x \<in> set promoted" "fst x = snd m" "promotion_key x = Inr (fst m)"
      using keyed [of "fst m" "snd m"] m_in by auto
    have "the (de_ci_low (el_reward_delta (snd y))) \<le> the (de_ci_low (el_reward_delta (snd x)))"
      if y: "y \<in> set promoted" for y
    proof -
      obtain q where q: "promotion_key y = Inr q" "q \<in> set keys"
        using keys y rmap_Inr_mem by metis
      have "(q, y) \<in> set (zip keys promoted)" using rmap_zip [OF keys] y q(1) by blast
      then have "(q, fst y) \<in> set (zip keys (map fst promoted))" by (auto simp: in_set_zip)
      from m_ge [OF this] have "q \<le> fst m" by simp
      then show ?thesis using q(1) x(3)
        by (cases "fst m") (auto simp: promotion_key_def split: option.split_asm)
    qed
    moreover have "arm = fst x" using arm x(2) by (simp add: zk m_def)
    ultimately have "best_eligible evaluations (arm, snd x)"
      using x(1) by (auto simp: best_eligible_def promoted_def)
    then show ?thesis by blast
  qed
qed

text \<open>What an eligible arm has shown.\<close>

definition arm_passes :: "gate \<Rightarrow> string \<Rightarrow> evaluation \<Rightarrow> bool" where
  "arm_passes g arm e =
     (arm \<in> set SAFE_EXPLORATION_ARMS \<and> arm \<noteq> BASELINE_ARM
      \<and> \<not> fl_lt (Fin (es_ess (el_estimate e))) (ga_minimum_ess g)
      \<and> ga_minimum_direct g \<le> int (es_direct (el_estimate e))
      \<and> clears_margin (de_ci_low (el_reward_delta e)) (ga_safety_margin g)
      \<and> cost_met (es_max_direct_cost (el_estimate e)) (ga_max_cost g))"

lemma arm_blockers_Nil:
  "arm_blockers g e reward = [] \<longleftrightarrow> \<not> fl_lt (Fin (es_ess e)) (ga_minimum_ess g)
     \<and> ga_minimum_direct g \<le> int (es_direct e)
     \<and> clears_margin (de_ci_low reward) (ga_safety_margin g)
     \<and> cost_met (es_max_direct_cost e) (ga_max_cost g)"
  by (auto simp: arm_blockers_def)

lemma evaluations_pass:
  assumes "evaluate_learning_policies rt draw records arms confidence resamples seed g = Inr r"
    and "(arm, e) \<in> set (op_evaluations r)"
  shows "el_eligible e \<longleftrightarrow> arm_passes g arm e"
proof -
  obtain rows where ev: "rmap (evaluate_arm rt draw rows confidence resamples seed g) (requested_arms arms)
      = Inr (op_evaluations r)" and safe: "find (\<lambda>arm. arm \<notin> set SAFE_EXPLORATION_ARMS) (requested_arms arms) = None"
    using assms(1) by (auto simp: evaluate_learning_policies_def rbind_Inr_iff Let_def split: option.splits)
  obtain a where a: "a \<in> set (requested_arms arms)" "evaluate_arm rt draw rows confidence resamples seed g a = Inr (arm, e)"
    using rmap_Inr_set [OF ev assms(2)] by blast
  then have "arm \<in> set SAFE_EXPLORATION_ARMS"
    using safe by (auto simp: find_None_iff evaluate_arm_def rbind_Inr_iff Let_def)
  then show ?thesis using a(2) by (auto simp: arm_passes_def evaluate_arm_def rbind_Inr_iff Let_def arm_blockers_Nil)
qed

lemma recommended_arm_passes:
  assumes "evaluate_learning_policies rt draw records arms confidence resamples seed g = Inr r"
  shows "(op_recommended r = BASELINE_ARM \<and> list_all (\<lambda>(a, e). \<not> arm_passes g a e) (op_evaluations r))
    \<or> (\<exists>e. arm_passes g (op_recommended r) e \<and> best_eligible (op_evaluations r) (op_recommended r, e))"
proof -
  have "recommend (op_evaluations r) = Inr (op_recommended r)"
    using assms by (auto simp: evaluate_learning_policies_def rbind_Inr_iff Let_def split: option.splits)
  from recommend_best [OF this] show ?thesis
    using evaluations_pass [OF assms] by (auto simp: best_eligible_def list_ex_iff list_all_iff)
qed

section \<open>The recommendation cannot fail\<close>

text \<open>An arm with a confidence interval has a matched row, so its own estimate is there to compare.\<close>

lemma snips_value_row:
  assumes "snips_value rt rows target field = Inr (Some v)"
  shows "\<exists>row \<in> set rows. \<exists>w x. field_sample rt target field row = Inr (Some (w, x))"
proof -
  obtain ss where ss: "rmap (field_sample rt target field) rows = Inr ss"
    and pos: "0 < sum_list (map fst (map the (filter (\<lambda>s. s \<noteq> None) ss)))"
    using assms by (auto simp: snips_value_def rbind_Inr_iff Let_def split: if_splits)
  then have "filter (\<lambda>s. s \<noteq> None) ss \<noteq> []" by auto
  then obtain w x where "Some (w, x) \<in> set ss" by (auto simp: filter_empty_conv)
  then show ?thesis using rmap_Inr_set [OF ss] by blast
qed

lemma ci_low_row:
  assumes "bootstrap_delta rt draw rows target field confidence resamples seed = Inr d" "de_ci_low d = Some low"
  shows "\<exists>row \<in> set rows. \<exists>w x. field_sample rt target field row = Inr (Some (w, x))"
proof -
  obtain ds where rows: "rows \<noteq> []"
    and ds: "rmap (\<lambda>i. snips_delta rt (drawn_rows draw seed rows i) target field) [0..<nat (max 1 resamples)] = Inr ds"
    and ne: "map the (filter (\<lambda>d. d \<noteq> None) ds) \<noteq> []"
    using assms by (auto simp: bootstrap_delta_def guard_that_Inr_iff rbind_Inr_iff Let_def split: if_splits)
  then obtain x where "Some x \<in> set ds" by (auto simp: filter_empty_conv)
  then obtain i where "snips_delta rt (drawn_rows draw seed rows i) target field = Inr (Some x)"
    using rmap_Inr_set [OF ds] by blast
  then obtain v where "snips_value rt (drawn_rows draw seed rows i) target field = Inr (Some v)"
    by (auto simp: snips_delta_def rbind_Inr_iff delta_def split: option.splits)
  then obtain row w y where r: "row \<in> set (drawn_rows draw seed rows i)" "field_sample rt target field row = Inr (Some (w, y))"
    using snips_value_row by blast
  then have "row \<in> set rows" using rows by (auto simp: drawn_rows_def Let_def)
  then show ?thesis using r(2) by blast
qed

lemma verified_rows_in: "verified_rows rt rows = Inr out \<Longrightarrow> row \<in> set out \<Longrightarrow> verified_row rt row = Inr True"
  by (induction rows arbitrary: out) (auto simp: rbind_Inr_iff split: if_splits)

lemma verified_row_parts:
  assumes "verified_row rt row = Inr True"
  obtains out ps r c p where "row_dict row ''outcome'' = Inr out" "row_dict row ''arm_propensities'' = Inr ps"
    "number (jget out ''reward'') = Inr (Some r)" "number (jget out ''realized_cost'') = Inr (Some c)"
    "number (jget ps (chosen_arm_of rt row)) = Inr (Some p)" "0 < p"
proof -
  obtain out where out: "verified_outcome row = Some out"
    using assms by (auto simp: verified_row_def split: option.splits)
  obtain r c where rc: "number (jget out ''reward'') = Inr (Some r)" "number (jget out ''realized_cost'') = Inr (Some c)"
    and rest: "(if c < 0 then Inr False else (case jget row ''arm_propensities'' of
                 JDict ps \<Rightarrow> rbind (number (jget ps (chosen_arm_of rt row))) (\<lambda>p. Inr (positive p))
               | _ \<Rightarrow> Inr False)) = (Inr True :: bool result)"
    using assms out by (auto simp: verified_row_def rbind_Inr_iff split: option.split_asm)
  obtain ps p where ps: "jget row ''arm_propensities'' = JDict ps" "number (jget ps (chosen_arm_of rt row)) = Inr (Some p)" "0 < p"
    using rest by (auto simp: rbind_Inr_iff positive_def split: if_split_asm json.split_asm option.split_asm)
  have "jget row ''outcome'' = JDict out"
    using out by (auto simp: verified_outcome_def split: json.split_asm if_split_asm)
  then have "row_dict row ''outcome'' = Inr out" "row_dict row ''arm_propensities'' = Inr ps"
    using ps(1) by (auto simp: row_dict_def jget_def split: option.split_asm)
  then show ?thesis using that rc ps(2,3) by blast
qed

lemma field_sample_sample:
  assumes "field_sample rt target ''reward'' row = Inr (Some (w, x))" "verified_row rt row = Inr True"
  shows "\<exists>s. sample_of rt target row = Inr (Some s)"
proof -
  have action: "safe_target_action row target = Inr (chosen_arm_of rt row)"
    using assms(1) by (auto simp: field_sample_def rbind_Inr_iff Let_def split: if_split_asm)
  show ?thesis
    by (rule verified_row_parts [OF assms(2)]) (simp add: action sample_of_def make_sample_def)
qed

lemma recommend_succeeds:
  assumes rows: "\<forall>row \<in> set rows. verified_row rt row = Inr True"
    and ev: "rmap (evaluate_arm rt draw rows confidence resamples seed g) arms = Inr evaluations"
  shows "\<exists>arm. recommend evaluations = Inr arm"
proof -
  have key: "\<exists>q. promotion_key y = Inr q" if y: "y \<in> set evaluations" "el_eligible (snd y)" for y
  proof -
    obtain a e where ae: "y = (a, e)" by (cases y)
    obtain b where b: "evaluate_arm rt draw rows confidence resamples seed g b = Inr (a, e)"
      using rmap_Inr_set [OF ev y(1)] by (auto simp: ae)
    then have est: "estimate_of rt rows a = Inr (el_estimate e)"
      and boot: "bootstrap_delta rt draw rows a ''reward'' confidence resamples seed = Inr (el_reward_delta e)"
      and "arm_blockers g (el_estimate e) (el_reward_delta e) = []"
      using y(2) by (auto simp: ae evaluate_arm_def rbind_Inr_iff Let_def)
    then obtain low where low: "de_ci_low (el_reward_delta e) = Some low"
      by (auto simp: arm_blockers_Nil clears_margin_def split: option.splits)
    obtain row w x where r: "row \<in> set rows" "field_sample rt a ''reward'' row = Inr (Some (w, x))"
      using ci_low_row [OF boot low] by blast
    obtain s where s: "sample_of rt a row = Inr (Some s)" using field_sample_sample [OF r(2)] rows r(1) by blast
    obtain ss where ss: "samples_of rt a rows = Inr ss"
      and snips: "es_snips_reward (el_estimate e) = rounded (snips sa_reward ss)"
      by (rule estimate_of_fields [OF est])
    obtain os where os: "rmap (sample_of rt a) rows = Inr os" "ss = map the (filter (\<lambda>s. s \<noteq> None) os)"
      using ss by (auto simp: samples_of_def rbind_Inr_iff)
    have "Some s \<in> set os" using rmap_Inr_mem [OF os(1) r(1)] s by auto
    then have "ss \<noteq> []" by (auto simp: os(2) filter_empty_conv)
    then have "snips sa_reward ss \<noteq> None" using total_weight_pos samples_of_ok [OF ss] by (auto simp: snips_def)
    then show ?thesis using low snips by (auto simp: ae promotion_key_def rounded_def)
  qed
  have "\<exists>keys. rmap promotion_key (filter (\<lambda>x. el_eligible (snd x)) evaluations) = Inr keys"
    by (rule rmap_total) (use key in auto)
  then show ?thesis by (auto simp: recommend_def Let_def)
qed

end
