(* ===== verification/ContextualPolicy.thy ===== *)
theory ContextualPolicy
  imports OffPolicy
begin

text \<open>
  \<open>contextual_policy.py\<close>: an arm per context learned from the verified rows, judged on rows held out.
  A direct model is the JSON document that a policy manifest later carries.  \<open>draw\<close> is the sequence of
  \<open>randrange\<close> results of a seeded generator, \<open>msqrt\<close> the square root of \<open>math\<close>.
\<close>

section \<open>Rows\<close>

definition chosen_stripped :: "runtime \<Rightarrow> json dict \<Rightarrow> string" where
  "chosen_stripped rt row = strip (chosen_arm_of rt row)"

definition low_risk :: "runtime \<Rightarrow> json dict \<Rightarrow> bool" where
  "low_risk rt row = (lower (py_str rt (jget_or row ''risk'' (JStr []))) = ''low'')"

text \<open>A verified outcome with a finite reward and a finite cost of at least zero.\<close>

definition outcome_numbers_ok :: "json dict \<Rightarrow> bool result" where
  "outcome_numbers_ok out =
     rbind (number (jget out ''reward'')) (\<lambda>reward.
     rbind (number (jget out ''realized_cost'')) (\<lambda>cost. Inr (case (reward, cost) of
         (Some _, Some c) \<Rightarrow> 0 \<le> c | _ \<Rightarrow> False)))"

definition chosen_probability_ok :: "runtime \<Rightarrow> json dict \<Rightarrow> bool result" where
  "chosen_probability_ok rt row = (case jget row ''arm_propensities'' of
     JDict ps \<Rightarrow> rbind (number (jget ps (chosen_stripped rt row))) (\<lambda>p. Inr (positive p))
   | _ \<Rightarrow> Inr False)"

text \<open>What becomes of a row: accepted with normalised features, or counted under one key.\<close>

definition current_features :: "runtime \<Rightarrow> json dict \<Rightarrow> string dict option" where
  "current_features rt row =
     (if py_eq (jget row ''feature_schema_version'') (JStr FEATURE_SCHEMA_VERSION)
      then normalize_context_features rt (jget row ''context_features'') else None)"

definition with_features :: "json dict \<Rightarrow> string dict \<Rightarrow> json dict" where
  "with_features row features = dset row ''context_features'' (JDict (map (map_prod id JStr) features))"

definition feature_row :: "runtime \<Rightarrow> json dict \<Rightarrow> (string + json dict) result" where
  "feature_row rt row = (case verified_outcome row of
     None \<Rightarrow> Inr (Inl ''unverified'')
   | Some out \<Rightarrow> rbind (outcome_numbers_ok out) (\<lambda>ok.
       if \<not> ok then Inr (Inl ''invalid_outcome'')
       else case current_features rt row of
           None \<Rightarrow> Inr (Inl ''missing_current_features'')
         | Some features \<Rightarrow> rbind (chosen_probability_ok rt row) (\<lambda>ok.
             Inr (if ok then Inr (with_features row features) else Inl ''invalid_propensity''))))"

definition accepted_rows :: "(string + json dict) list \<Rightarrow> json dict list" where
  "accepted_rows rs = concat (map (\<lambda>r. case r of Inr row \<Rightarrow> [row] | Inl _ \<Rightarrow> []) rs)"

definition excluded_counts :: "string list \<Rightarrow> (string + json dict) list \<Rightarrow> json" where
  "excluded_counts names rs =
     JDict (map (\<lambda>k. (k, JInt (int (length (filter (\<lambda>r. r = Inl k) rs))))) names)"

definition EXCLUSIONS :: "string list" where
  "EXCLUSIONS = [''unverified'', ''invalid_outcome'', ''missing_current_features'', ''invalid_propensity'']"

section \<open>The deterministic split\<close>

definition bytes_to_nat :: "string \<Rightarrow> nat" where
  "bytes_to_nat bs = fold (\<lambda>c n. n * 256 + of_char c) bs 0"

definition decision_digest_of :: "runtime \<Rightarrow> json dict \<Rightarrow> string" where
  "decision_digest_of rt row = rt_sha256 rt (utf8 (py_str rt (jget_or row ''decision_id'' (JStr []))))"

definition split_rows :: "runtime \<Rightarrow> json dict list \<Rightarrow> rat \<Rightarrow> (json dict list \<times> json dict list) result" where
  "split_rows rt rows fraction =
     guard_that (0 < fraction \<and> fraction < 1) (ValueError ''development_fraction must be between 0 and 1'')
     (let limit = trunc_rat (fraction * (2 ^ 64 - 1));
          dev = (\<lambda>row. int (bytes_to_nat (take 8 (decision_digest_of rt row))) \<le> limit)
      in Inr (filter dev rows, filter (\<lambda>row. \<not> dev row) rows))"

section \<open>The direct model\<close>

definition row_context :: "runtime \<Rightarrow> string list \<Rightarrow> json dict \<Rightarrow> string result" where
  "row_context rt fs row = (case jget row ''context_features'' of
     JDict features \<Rightarrow> context_key rt (JDict features) (map JStr fs)
   | _ \<Rightarrow> Inl (ValueError ''learning row is missing context features''))"

definition outcome_value :: "json dict \<Rightarrow> string \<Rightarrow> rat option result" where
  "outcome_value row field = (case jget row ''outcome'' of
     JDict out \<Rightarrow> number (jget out field) | _ \<Rightarrow> Inr None)"

text \<open>A row's part in the model: context, arm and value.\<close>

type_synonym observation = "string \<times> string \<times> rat"

definition model_entry :: "runtime \<Rightarrow> string list \<Rightarrow> string \<Rightarrow> json dict \<Rightarrow> observation option result" where
  "model_entry rt fs field row =
     rbind (outcome_value row field) (\<lambda>v.
     let arm = chosen_stripped rt row in
     case v of None \<Rightarrow> Inr None
     | Some x \<Rightarrow> if arm = [] then Inr None
         else rbind (row_context rt fs row) (\<lambda>key. Inr (Some (key, arm, x))))"

definition values_of_arm :: "observation list \<Rightarrow> string \<Rightarrow> rat list" where
  "values_of_arm es arm = map (\<lambda>(_, _, x). x) (filter (\<lambda>(_, a, _). a = arm) es)"

definition values_at :: "observation list \<Rightarrow> string \<Rightarrow> string \<Rightarrow> rat list" where
  "values_at es key arm = map (\<lambda>(_, _, x). x) (filter (\<lambda>(k, a, _). k = key \<and> a = arm) es)"

definition arms_at :: "observation list \<Rightarrow> string \<Rightarrow> string list" where
  "arms_at es key = sort (uniq (map (\<lambda>(_, a, _). a) (filter (\<lambda>(k, _, _). k = key) es)))"

definition smoothed_mean :: "observation list \<Rightarrow> rat \<Rightarrow> string \<Rightarrow> string \<Rightarrow> rat" where
  "smoothed_mean es prior key arm =
     (let vs = values_at es key arm in
      (sum_list vs + prior * mean_of (values_of_arm es arm)) / max 1 (of_nat (length vs) + prior))"

definition jrat :: "rat \<Rightarrow> json" where
  "jrat x = JFloat (Fin x)"

definition model_json :: "string list \<Rightarrow> string \<Rightarrow> rat \<Rightarrow> observation list \<Rightarrow> json dict" where
  "model_json fs field prior es =
     (let arms = sort (uniq (map (\<lambda>(_, a, _). a) es)); keys = sort (uniq (map fst es))
      in [(''outcome_field'', JStr field),
          (''context_fields'', JList (map JStr fs)),
          (''prior_weight'', jrat prior),
          (''global_mean'', jrat (if es = [] then 0 else mean_of (map (\<lambda>(_, _, x). x) es))),
          (''arm_means'', JDict (map (\<lambda>a. (a, jrat (mean_of (values_of_arm es a)))) arms)),
          (''context_arm_means'', JDict (map (\<lambda>k. (k, JDict (map (\<lambda>a. (a, jrat (smoothed_mean es prior k a)))
             (arms_at es k)))) keys)),
          (''context_arm_counts'', JDict (map (\<lambda>k. (k, JDict (map (\<lambda>a. (a, JInt (int (length (values_at es k a)))))
             (arms_at es k)))) keys))])"

definition fit_direct_model ::
  "runtime \<Rightarrow> json dict list \<Rightarrow> string list \<Rightarrow> string \<Rightarrow> rat \<Rightarrow> json dict result" where
  "fit_direct_model rt rows fs field prior =
     guard_that (0 \<le> prior) (ValueError ''prior_weight must be non-negative'')
     (rbind (rmap (model_entry rt fs field) rows) (\<lambda>es.
        Inr (model_json fs field prior (map the (filter (\<lambda>e. e \<noteq> None) es)))))"

definition lookup_number :: "json \<Rightarrow> string \<Rightarrow> rat option result" where
  "lookup_number v k = (case v of JDict d \<Rightarrow> number (jget d k) | _ \<Rightarrow> Inr None)"

definition predict_model_value :: "json dict \<Rightarrow> string \<Rightarrow> string \<Rightarrow> rat result" where
  "predict_model_value model context arm =
     rbind (case jget model ''context_arm_means'' of
         JDict by_context \<Rightarrow> lookup_number (jget by_context context) arm | _ \<Rightarrow> Inr None) (\<lambda>direct.
     case direct of Some x \<Rightarrow> Inr x
     | None \<Rightarrow> rbind (lookup_number (jget model ''arm_means'') arm) (\<lambda>arm_mean.
         case arm_mean of Some x \<Rightarrow> Inr x
         | None \<Rightarrow> rbind (number (jget model ''global_mean'')) (\<lambda>fallback.
             Inr (case fallback of Some x \<Rightarrow> x | None \<Rightarrow> 0))))"

section \<open>Cross validation\<close>

record validation =
  va_folds :: int
  va_n :: nat
  va_mae :: "rat option"
  va_rmse :: "rat option"

definition in_fold :: "runtime \<Rightarrow> int \<Rightarrow> int \<Rightarrow> json dict \<Rightarrow> bool" where
  "in_fold rt fold_count f row = (int (bytes_to_nat (take 4 (decision_digest_of rt row))) mod fold_count = f)"

definition row_error :: "runtime \<Rightarrow> json dict \<Rightarrow> string list \<Rightarrow> string \<Rightarrow> json dict \<Rightarrow> rat option result" where
  "row_error rt model fs field row =
     rbind (outcome_value row field) (\<lambda>observed. case observed of
       None \<Rightarrow> Inr None
     | Some x \<Rightarrow> rbind (row_context rt fs row) (\<lambda>key.
         rbind (predict_model_value model key (chosen_stripped rt row)) (\<lambda>predicted. Inr (Some (predicted - x)))))"

definition fold_errors :: "runtime \<Rightarrow> json dict list \<Rightarrow> string list \<Rightarrow> string \<Rightarrow> rat \<Rightarrow> int \<Rightarrow> int \<Rightarrow> rat list result" where
  "fold_errors rt rows fs field prior fold_count f =
     (let validation = filter (in_fold rt fold_count f) rows;
          training = filter (\<lambda>row. \<not> in_fold rt fold_count f row) rows
      in if training = [] \<or> validation = [] then Inr []
         else rbind (fit_direct_model rt training fs field prior) (\<lambda>model.
           rbind (rmap (row_error rt model fs field) validation) (\<lambda>es. Inr (map the (filter (\<lambda>e. e \<noteq> None) es)))))"

definition cross_validate_direct_model ::
  "runtime \<Rightarrow> (rat \<Rightarrow> rat) \<Rightarrow> json dict list \<Rightarrow> string list \<Rightarrow> string \<Rightarrow> int \<Rightarrow> rat \<Rightarrow> validation result" where
  "cross_validate_direct_model rt msqrt rows fs field folds prior =
     (let fold_count = max 2 folds in
      rbind (rmap (\<lambda>f. fold_errors rt rows fs field prior fold_count (int f)) [0..<nat fold_count]) (\<lambda>ess.
      let errors = concat ess in
      Inr \<lparr>va_folds = fold_count, va_n = length errors,
        va_mae = (if errors = [] then None else Some (round_to 6 (mean_of (map abs errors)))),
        va_rmse = (if errors = [] then None else Some (round_to 6 (msqrt (mean_of (map (\<lambda>e. e * e) errors)))))\<rparr>))"

section \<open>The policy map\<close>

text \<open>Low-risk rows with their contexts and arms, in row order.\<close>

definition low_risk_contexts :: "runtime \<Rightarrow> string list \<Rightarrow> json dict list \<Rightarrow> (string \<times> string) list result" where
  "low_risk_contexts rt fs rows =
     rmap (\<lambda>row. rbind (row_context rt fs row) (\<lambda>key. Inr (key, chosen_stripped rt row))) (filter (low_risk rt) rows)"

definition exposures_of :: "(string \<times> string) list \<Rightarrow> string \<Rightarrow> string \<Rightarrow> nat" where
  "exposures_of cs key arm = (if arm = [] then 0 else length (filter (\<lambda>c. c = (key, arm)) cs))"

record learner =
  ln_minimum_context :: int
  ln_minimum_direct :: int
  ln_minimum_gain :: rat

record arm_candidate =
  ac_arm :: string
  ac_direct :: nat
  ac_estimate :: rat
  ac_supported :: bool

definition arm_candidate_of ::
  "learner \<Rightarrow> json dict \<Rightarrow> (string \<times> string) list \<Rightarrow> string \<Rightarrow> string \<Rightarrow> arm_candidate result" where
  "arm_candidate_of lr model cs key arm =
     rbind (predict_model_value model key arm) (\<lambda>x.
     let direct = exposures_of cs key arm in
     Inr \<lparr>ac_arm = arm, ac_direct = direct, ac_estimate = x,
       ac_supported = (arm = BASELINE_ARM \<or> max 1 (ln_minimum_direct lr) \<le> int direct)\<rparr>)"

text \<open>The loop over the arms: the chosen arm and its value.\<close>

definition choose_step :: "rat \<Rightarrow> bool \<Rightarrow> rat \<Rightarrow> arm_candidate \<Rightarrow> string \<times> rat \<Rightarrow> string \<times> rat" where
  "choose_step gain enough baseline c st =
     (if \<not> enough \<or> ac_arm c = BASELINE_ARM \<or> \<not> ac_supported c then st
      else if ac_estimate c \<le> baseline + gain then st
      else if snd st < ac_estimate c then (ac_arm c, ac_estimate c) else st)"

record context_choice =
  cc_events :: nat
  cc_baseline :: rat
  cc_arm :: string
  cc_value :: rat
  cc_candidates :: "arm_candidate list"

definition choose_for_context ::
  "learner \<Rightarrow> json dict \<Rightarrow> (string \<times> string) list \<Rightarrow> string \<Rightarrow> (string \<times> context_choice) result" where
  "choose_for_context lr model cs key =
     (let events = length (filter (\<lambda>c. fst c = key) cs) in
      rbind (predict_model_value model key BASELINE_ARM) (\<lambda>baseline.
      rbind (rmap (arm_candidate_of lr model cs key) SAFE_EXPLORATION_ARMS) (\<lambda>candidates.
      let (arm, v) = fold (choose_step (ln_minimum_gain lr) (max 1 (ln_minimum_context lr) \<le> int events) baseline)
            candidates (BASELINE_ARM, baseline)
      in Inr (key, \<lparr>cc_events = events, cc_baseline = baseline, cc_arm = arm, cc_value = v, cc_candidates = candidates\<rparr>))))"

definition build_context_policy_map ::
  "runtime \<Rightarrow> json dict list \<Rightarrow> json dict \<Rightarrow> string list \<Rightarrow> learner \<Rightarrow> (string \<times> context_choice) list result" where
  "build_context_policy_map rt rows model fs lr =
     rbind (low_risk_contexts rt fs rows) (\<lambda>cs.
       rmap (choose_for_context lr model cs) (sort (uniq (map fst cs))))"

definition policy_of :: "(string \<times> context_choice) list \<Rightarrow> string dict" where
  "policy_of cs = map (\<lambda>(k, c). (k, cc_arm c)) cs"

section \<open>Doubly robust evaluation\<close>

definition target_action_for_row :: "runtime \<Rightarrow> string dict \<Rightarrow> string list \<Rightarrow> json dict \<Rightarrow> string result" where
  "target_action_for_row rt policy fs row =
     (if \<not> low_risk rt row then Inr BASELINE_ARM
      else rbind (row_context rt fs row) (\<lambda>key.
        let requested = (case dget policy key of Some a \<Rightarrow> a | None \<Rightarrow> BASELINE_ARM) in
        case jget row ''arm_propensities'' of
          JDict ps \<Rightarrow> rbind (number (jget ps requested)) (\<lambda>p. Inr (if positive p then requested else BASELINE_ARM))
        | _ \<Rightarrow> Inr BASELINE_ARM))"

definition chosen_probability :: "runtime \<Rightarrow> json dict \<Rightarrow> rat option result" where
  "chosen_probability rt row = (case jget row ''arm_propensities'' of
     JDict ps \<Rightarrow> rbind (number (jget ps (chosen_stripped rt row))) (\<lambda>p. Inr (if positive p then p else None))
   | _ \<Rightarrow> Inr None)"

definition dr_value ::
  "runtime \<Rightarrow> json dict \<Rightarrow> string list \<Rightarrow> string \<Rightarrow> string \<Rightarrow> json dict \<Rightarrow> rat option result" where
  "dr_value rt model fs field target row =
     rbind (outcome_value row field) (\<lambda>observed. case observed of None \<Rightarrow> Inr None
     | Some x \<Rightarrow> rbind (chosen_probability rt row) (\<lambda>probability. case probability of None \<Rightarrow> Inr None
         | Some p \<Rightarrow> rbind (row_context rt fs row) (\<lambda>key.
             rbind (predict_model_value model key target) (\<lambda>target_prediction.
             rbind (predict_model_value model key (chosen_stripped rt row)) (\<lambda>chosen_prediction.
             Inr (Some (target_prediction
               + (if chosen_stripped rt row = target then (x - chosen_prediction) / p else 0))))))))"

text \<open>\<open>bootstrap_mean_ci\<close> of \<open>benchmark_statistics.py\<close>.\<close>

record mean_ci =
  ci_n :: nat
  ci_mean :: "rat option"
  ci_low :: "rat option"
  ci_high :: "rat option"
  ci_resamples :: int

definition sampled_mean :: "(int \<Rightarrow> nat \<Rightarrow> nat) \<Rightarrow> int \<Rightarrow> rat list \<Rightarrow> nat \<Rightarrow> rat" where
  "sampled_mean draw seed vs i =
     (let n = length vs in mean_of (map (\<lambda>j. vs ! (draw seed (i * n + j) mod n)) [0..<n]))"

definition bootstrap_mean_ci :: "(int \<Rightarrow> nat \<Rightarrow> nat) \<Rightarrow> rat list \<Rightarrow> rat \<Rightarrow> int \<Rightarrow> int \<Rightarrow> mean_ci result" where
  "bootstrap_mean_ci draw vs confidence resamples seed =
     (if vs = [] then Inr \<lparr>ci_n = 0, ci_mean = None, ci_low = None, ci_high = None, ci_resamples = 0\<rparr>
      else guard_that (0 < confidence \<and> confidence < 1) (ValueError ''confidence must be between 0 and 1'')
      (let draws = max 1 resamples; m = Some (round_to 6 (mean_of vs)) in
       if length vs = 1 then Inr \<lparr>ci_n = 1, ci_mean = m, ci_low = m, ci_high = m, ci_resamples = 0\<rparr>
       else let means = map (sampled_mean draw seed vs) [0..<nat draws]; alpha = (1 - confidence) / 2 in
         rbind (percentile means alpha) (\<lambda>low. rbind (percentile means (1 - alpha)) (\<lambda>high.
           Inr \<lparr>ci_n = length vs, ci_mean = m, ci_low = Some (round_to 6 low), ci_high = Some (round_to 6 high),
             ci_resamples = draws\<rparr>))))"

text \<open>One row: the two differences, the weight when the target's action was taken, and the cost of a direct
  exposure of an arm other than the baseline.\<close>

record row_evidence =
  rw_nonbaseline :: bool
  rw_reward_delta :: "rat option"
  rw_cost_delta :: "rat option"
  rw_weight :: "rat option"
  rw_direct :: bool
  rw_direct_cost :: "rat option"

definition row_evidence_of ::
  "runtime \<Rightarrow> string dict \<Rightarrow> json dict \<Rightarrow> json dict \<Rightarrow> string list \<Rightarrow> json dict \<Rightarrow> row_evidence result" where
  "row_evidence_of rt policy reward_model cost_model fs row =
     rbind (target_action_for_row rt policy fs row) (\<lambda>target.
     rbind (dr_value rt reward_model fs ''reward'' target row) (\<lambda>target_reward.
     rbind (dr_value rt reward_model fs ''reward'' BASELINE_ARM row) (\<lambda>baseline_reward.
     rbind (dr_value rt cost_model fs ''realized_cost'' target row) (\<lambda>target_cost.
     rbind (dr_value rt cost_model fs ''realized_cost'' BASELINE_ARM row) (\<lambda>baseline_cost.
     rbind (chosen_probability rt row) (\<lambda>probability.
     let taken = (chosen_stripped rt row = target \<and> probability \<noteq> None); direct = (taken \<and> target \<noteq> BASELINE_ARM) in
     rbind (if direct then outcome_value row ''realized_cost'' else Inr None) (\<lambda>c.
     Inr \<lparr>rw_nonbaseline = (target \<noteq> BASELINE_ARM), rw_reward_delta = delta target_reward baseline_reward,
       rw_cost_delta = delta target_cost baseline_cost,
       rw_weight = (if taken then map_option (\<lambda>p. 1 / p) probability else None),
       rw_direct = direct, rw_direct_cost = c\<rparr>)))))))"

definition somes :: "'a option list \<Rightarrow> 'a list" where
  "somes xs = map the (filter (\<lambda>x. x \<noteq> None) xs)"

record dr_report =
  dv_events :: nat
  dv_nonbaseline :: nat
  dv_direct :: nat
  dv_ess :: rat
  dv_max_weight :: "rat option"
  dv_max_direct_cost :: "rat option"
  dv_reward_ci :: mean_ci
  dv_cost_ci :: mean_ci

definition evaluate_context_policy_dr ::
  "runtime \<Rightarrow> (int \<Rightarrow> nat \<Rightarrow> nat) \<Rightarrow> json dict list \<Rightarrow> string dict \<Rightarrow> json dict \<Rightarrow> json dict \<Rightarrow> string list
     \<Rightarrow> rat \<Rightarrow> int \<Rightarrow> int \<Rightarrow> dr_report result" where
  "evaluate_context_policy_dr rt draw rows policy reward_model cost_model fs confidence resamples seed =
     rbind (rmap (row_evidence_of rt policy reward_model cost_model fs) rows) (\<lambda>es.
     let weights = somes (map rw_weight es) in
     rbind (bootstrap_mean_ci draw (somes (map rw_reward_delta es)) confidence resamples seed) (\<lambda>reward_ci.
     rbind (bootstrap_mean_ci draw (somes (map rw_cost_delta es)) confidence resamples (seed + 1)) (\<lambda>cost_ci.
     Inr \<lparr>dv_events = length rows, dv_nonbaseline = length (filter rw_nonbaseline es),
       dv_direct = length (filter rw_direct es), dv_ess = round_to 6 (effective_size weights),
       dv_max_weight = rounded (max_or_none weights),
       dv_max_direct_cost = rounded (max_or_none (somes (map rw_direct_cost es))),
       dv_reward_ci = reward_ci, dv_cost_ci = cost_ci\<rparr>)))"

section \<open>The report\<close>

definition jint :: "nat \<Rightarrow> json" where
  "jint n = JInt (int n)"

definition jopt_float :: "pyfloat option \<Rightarrow> json" where
  "jopt_float x = (case x of None \<Rightarrow> JNull | Some f \<Rightarrow> JFloat f)"

definition ci_json :: "rat \<Rightarrow> mean_ci \<Rightarrow> json" where
  "ci_json confidence c = JDict [(''n'', jint (ci_n c)), (''mean'', opt_rat (ci_mean c)), (''confidence'', jrat confidence),
     (''ci_low'', opt_rat (ci_low c)), (''ci_high'', opt_rat (ci_high c)), (''resamples'', JInt (ci_resamples c))]"

definition dr_json :: "rat \<Rightarrow> dr_report \<Rightarrow> json" where
  "dr_json confidence r = JDict
     [(''holdout_events'', jint (dv_events r)), (''nonbaseline_target_events'', jint (dv_nonbaseline r)),
      (''direct_target_exposures'', jint (dv_direct r)), (''effective_sample_size'', jrat (dv_ess r)),
      (''max_importance_weight'', opt_rat (dv_max_weight r)),
      (''max_direct_realized_cost'', opt_rat (dv_max_direct_cost r)),
      (''reward_delta_vs_baseline'', ci_json confidence (dv_reward_ci r)),
      (''cost_delta_vs_baseline'', ci_json confidence (dv_cost_ci r))]"

definition validation_json :: "validation \<Rightarrow> json" where
  "validation_json v = JDict [(''folds'', JInt (va_folds v)), (''n'', jint (va_n v)), (''mae'', opt_rat (va_mae v)),
     (''rmse'', opt_rat (va_rmse v))]"

definition choice_json :: "context_choice \<Rightarrow> json" where
  "choice_json c = JDict
     [(''development_events'', jint (cc_events c)), (''baseline_estimated_reward'', jrat (round_to 6 (cc_baseline c))),
      (''chosen_arm'', JStr (cc_arm c)), (''chosen_estimated_reward'', jrat (round_to 6 (cc_value c))),
      (''candidates'', JDict (map (\<lambda>a. (ac_arm a, JDict
         [(''direct_exposures'', jint (ac_direct a)), (''direct_model_reward'', jrat (round_to 6 (ac_estimate a))),
          (''supported'', JBool (ac_supported a))])) (cc_candidates c)))]"

definition evidence_cutoff_of :: "runtime \<Rightarrow> json dict list \<Rightarrow> string option" where
  "evidence_cutoff_of rt rows =
     (let stamps = filter (\<lambda>t. t \<noteq> []) (concat (map (\<lambda>row. case jget row ''outcome'' of
            JDict out \<Rightarrow> [strip (py_str rt (jget_or out ''recorded_at'' (JStr [])))] | _ \<Rightarrow> []) rows))
      in case stamps of [] \<Rightarrow> None | t # ts \<Rightarrow> Some (fold max ts t))"

definition decision_digest :: "runtime \<Rightarrow> json dict list \<Rightarrow> string" where
  "decision_digest rt rows = hexdigest (rt_sha256 rt (utf8 (join [CHR 0x0A]
     (sort (map (\<lambda>row. py_str rt (jget_or row ''decision_id'' (JStr []))) rows)))))"

record report_options =
  bo_fields :: "json list"
  bo_fraction :: rat
  bo_prior :: rat
  bo_folds :: int
  bo_learner :: learner
  bo_minimum_holdout :: int
  bo_minimum_ess :: pyfloat
  bo_minimum_validation :: int
  bo_safety_margin :: pyfloat
  bo_max_cost :: "pyfloat option"
  bo_confidence :: rat
  bo_resamples :: int
  bo_seed :: int

text \<open>Everything the gate of the report is decided on.\<close>

record learned =
  lp_fields :: "string list"
  lp_rows :: "json dict list"
  lp_excluded :: json
  lp_development :: "json dict list"
  lp_holdout :: "json dict list"
  lp_reward_model :: "json dict"
  lp_cost_model :: "json dict"
  lp_reward_validation :: validation
  lp_cost_validation :: validation
  lp_choices :: "(string \<times> context_choice) list"
  lp_evaluation :: dr_report

definition learn_policy ::
  "runtime \<Rightarrow> (int \<Rightarrow> nat \<Rightarrow> nat) \<Rightarrow> (rat \<Rightarrow> rat) \<Rightarrow> report_options \<Rightarrow> json dict list \<Rightarrow> learned result" where
  "learn_policy rt draw msqrt opts records =
     rbind (validate_context_fields rt (bo_fields opts)) (\<lambda>fs.
     rbind (rmap (feature_row rt) records) (\<lambda>rs.
     let rows = accepted_rows rs in
     rbind (split_rows rt rows (bo_fraction opts)) (\<lambda>(dev, holdout).
     rbind (fit_direct_model rt dev fs ''reward'' (bo_prior opts)) (\<lambda>reward_model.
     rbind (fit_direct_model rt dev fs ''realized_cost'' (bo_prior opts)) (\<lambda>cost_model.
     rbind (cross_validate_direct_model rt msqrt dev fs ''reward'' (bo_folds opts) (bo_prior opts)) (\<lambda>rv.
     rbind (cross_validate_direct_model rt msqrt dev fs ''realized_cost'' (bo_folds opts) (bo_prior opts)) (\<lambda>cv.
     rbind (build_context_policy_map rt dev reward_model fs (bo_learner opts)) (\<lambda>choices.
     rbind (evaluate_context_policy_dr rt draw holdout (policy_of choices) reward_model cost_model fs
        (bo_confidence opts) (bo_resamples opts) (bo_seed opts)) (\<lambda>evaluation.
     Inr \<lparr>lp_fields = fs, lp_rows = rows, lp_excluded = excluded_counts EXCLUSIONS rs, lp_development = dev,
       lp_holdout = holdout, lp_reward_model = reward_model, lp_cost_model = cost_model,
       lp_reward_validation = rv, lp_cost_validation = cv, lp_choices = choices, lp_evaluation = evaluation\<rparr>)))))))))"

definition nonbaseline_contexts :: "learned \<Rightarrow> nat" where
  "nonbaseline_contexts l = length (filter (\<lambda>(_, c). cc_arm c \<noteq> BASELINE_ARM) (lp_choices l))"

definition policy_blockers :: "report_options \<Rightarrow> learned \<Rightarrow> string list" where
  "policy_blockers opts l =
     (let e = lp_evaluation l in
      (if nonbaseline_contexts l = 0 then [''no_contextual_candidate''] else [])
      @ (if int (length (lp_holdout l)) < max 1 (bo_minimum_holdout opts) then [''insufficient_holdout_events''] else [])
      @ (if fl_lt (Fin (dv_ess e)) (bo_minimum_ess opts) then [''insufficient_effective_sample_size''] else [])
      @ (if int (dv_direct e) < ln_minimum_direct (bo_learner opts) then [''insufficient_direct_target_exposures''] else [])
      @ (if int (va_n (lp_reward_validation l)) < bo_minimum_validation opts then [''insufficient_reward_model_validation''] else [])
      @ (if clears_margin (ci_low (dv_reward_ci e)) (bo_safety_margin opts) then []
         else [''reward_lower_bound_does_not_clear_margin''])
      @ (if cost_met (dv_max_direct_cost e) (bo_max_cost opts) then [] else [''realized_cost_constraint_not_met'']))"

definition policy_report :: "runtime \<Rightarrow> report_options \<Rightarrow> learned \<Rightarrow> json dict" where
  "policy_report rt opts l =
     [(''scope'', JStr ''contextual-retrieval-policy-development''),
      (''feature_schema_version'', JStr FEATURE_SCHEMA_VERSION),
      (''context_fields'', JList (map JStr (lp_fields l))),
      (''baseline_arm'', JStr BASELINE_ARM),
      (''development_fraction'', jrat (bo_fraction opts)),
      (''development_events'', jint (length (lp_development l))),
      (''holdout_events'', jint (length (lp_holdout l))),
      (''excluded_events'', lp_excluded l),
      (''source_decision_sha256'', JStr (decision_digest rt (lp_rows l))),
      (''evidence_cutoff'', case evidence_cutoff_of rt (lp_rows l) of None \<Rightarrow> JNull | Some t \<Rightarrow> JStr t),
      (''reward_model'', JDict (lp_reward_model l)),
      (''cost_model'', JDict (lp_cost_model l)),
      (''reward_model_cross_validation'', validation_json (lp_reward_validation l)),
      (''cost_model_cross_validation'', validation_json (lp_cost_validation l)),
      (''development_policy'', JDict (map (map_prod id JStr) (policy_of (lp_choices l)))),
      (''development_diagnostics'', JDict (map (map_prod id choice_json) (lp_choices l))),
      (''holdout_doubly_robust_evaluation'', dr_json (bo_confidence opts) (lp_evaluation l)),
      (''promotion'', JDict
        [(''eligible_for_shadow'', JBool (policy_blockers opts l = [])),
         (''automatic_runtime_promotion'', JBool False),
         (''nonbaseline_contexts'', jint (nonbaseline_contexts l)),
         (''blockers'', JList (map JStr (policy_blockers opts l))),
         (''minimum_context_events'', JInt (ln_minimum_context (bo_learner opts))),
         (''minimum_direct_exposures'', JInt (ln_minimum_direct (bo_learner opts))),
         (''minimum_holdout_events'', JInt (bo_minimum_holdout opts)),
         (''minimum_effective_sample_size'', JFloat (bo_minimum_ess opts)),
         (''minimum_model_validation_events'', JInt (bo_minimum_validation opts)),
         (''minimum_estimated_gain'', jrat (ln_minimum_gain (bo_learner opts))),
         (''safety_margin'', JFloat (bo_safety_margin opts)),
         (''max_realized_cost'', jopt_float (bo_max_cost opts))]),
      (''methodology'', JDict
        [(''policy_learning'', JStr ''development split with smoothed categorical direct model''),
         (''reward_model_validation'', JStr ''deterministic cross-validation on development rows''),
         (''final_evaluation'', JStr ''doubly robust evaluation on an untouched deterministic holdout''),
         (''high_risk_override'', JStr ''non-low-risk rows are always mapped to adaptive_math'')])]"

definition build_contextual_policy_report ::
  "runtime \<Rightarrow> (int \<Rightarrow> nat \<Rightarrow> nat) \<Rightarrow> (rat \<Rightarrow> rat) \<Rightarrow> report_options \<Rightarrow> json dict list \<Rightarrow> json dict result" where
  "build_contextual_policy_report rt draw msqrt opts records =
     rbind (learn_policy rt draw msqrt opts records) (\<lambda>l. Inr (policy_report rt opts l))"

end
