(* ===== verification/ShadowPolicy.thy ===== *)
theory ShadowPolicy
  imports ContextualPolicy PolicyManifest
begin

text \<open>
  \<open>shadow_policy.py\<close>: the counterfactual evaluation of a signed policy on the events after its
  evidence cutoff.  Its report is what a deployment is approved on.  \<open>parse\<close> is \<open>fromisoformat\<close>: seconds,
  and whether an offset is given.
\<close>

section \<open>The events after the cutoff\<close>

definition shadow_time :: "runtime \<Rightarrow> (string \<Rightarrow> (rat \<times> bool) option) \<Rightarrow> json \<Rightarrow> rat option" where
  "shadow_time rt parse v =
     (let text = strip (if truthy v then py_str rt v else []) in
      if text = [] then None else (case parse text of Some (t, True) \<Rightarrow> Some t | _ \<Rightarrow> None))"

definition SHADOW_EXCLUSIONS :: "string list" where
  "SHADOW_EXCLUSIONS = [''not_after_cutoff'', ''unverified'', ''invalid_outcome'', ''feature_schema_mismatch'',
     ''invalid_propensity'', ''invalid_timestamp'']"

definition shadow_row ::
  "runtime \<Rightarrow> (string \<Rightarrow> (rat \<times> bool) option) \<Rightarrow> rat \<Rightarrow> json dict \<Rightarrow> (string + json dict) result" where
  "shadow_row rt parse cutoff row = (case verified_outcome row of
     None \<Rightarrow> Inr (Inl ''unverified'')
   | Some out \<Rightarrow> (case shadow_time rt parse (jget out ''recorded_at'') of
       None \<Rightarrow> Inr (Inl ''invalid_timestamp'')
     | Some t \<Rightarrow>
         if t \<le> cutoff then Inr (Inl ''not_after_cutoff'')
         else rbind (outcome_numbers_ok out) (\<lambda>ok.
           if \<not> ok then Inr (Inl ''invalid_outcome'')
           else case current_features rt row of
               None \<Rightarrow> Inr (Inl ''feature_schema_mismatch'')
             | Some features \<Rightarrow> rbind (chosen_probability_ok rt row) (\<lambda>ok.
                 Inr (if ok then Inr (with_features row features) else Inl ''invalid_propensity'')))))"

definition recorded_text :: "runtime \<Rightarrow> json dict \<Rightarrow> string" where
  "recorded_text rt row = (case jget row ''outcome'' of
     JDict out \<Rightarrow> py_str rt (jget_or out ''recorded_at'' (JStr [])) | _ \<Rightarrow> [])"

definition post_cutoff_rows ::
  "runtime \<Rightarrow> (string \<Rightarrow> (rat \<times> bool) option) \<Rightarrow> json dict list \<Rightarrow> string \<Rightarrow> (json dict list \<times> json) result" where
  "post_cutoff_rows rt parse records cutoff =
     (case shadow_time rt parse (JStr cutoff) of
        None \<Rightarrow> Inl (ValueError ''manifest evidence cutoff is not a valid timestamp'')
      | Some t \<Rightarrow> rbind (rmap (shadow_row rt parse t) records) (\<lambda>rs.
          Inr (sort_key (recorded_text rt) (accepted_rows rs), excluded_counts SHADOW_EXCLUSIONS rs)))"

section \<open>Scores\<close>

definition desired_manifest_action :: "runtime \<Rightarrow> json dict \<Rightarrow> json dict \<Rightarrow> string result" where
  "desired_manifest_action rt manifest row =
     (if \<not> low_risk rt row then Inr BASELINE_ARM
      else case (jget manifest ''context_fields'', jget manifest ''policy'') of
        (JList fs, JDict policy) \<Rightarrow>
          (case jget row ''context_features'' of
             JDict features \<Rightarrow>
               rbind (context_key rt (JDict features) (map (\<lambda>x. JStr (py_str rt x)) fs)) (\<lambda>key.
               let arm = py_str rt (jget_or policy key (JStr BASELINE_ARM)) in
               Inr (if arm \<in> set SAFE_EXPLORATION_ARMS then arm else BASELINE_ARM))
           | _ \<Rightarrow> Inr BASELINE_ARM)
      | _ \<Rightarrow> Inr BASELINE_ARM)"

definition supported_for_target :: "json dict \<Rightarrow> string \<Rightarrow> bool result" where
  "supported_for_target row target = (case jget row ''arm_propensities'' of
     JDict ps \<Rightarrow> rbind (number (jget ps target)) (\<lambda>p. Inr (positive p)) | _ \<Rightarrow> Inr False)"

record reward_range =
  rr_min :: pyfloat
  rr_max :: pyfloat
  rr_max_weight :: pyfloat

definition arm_term :: "string \<Rightarrow> string \<Rightarrow> rat \<Rightarrow> rat \<Rightarrow> rat" where
  "arm_term chosen arm p reward = (if chosen = arm then 1 / p * reward else 0)"

definition shadow_score :: "runtime \<Rightarrow> reward_range \<Rightarrow> string \<Rightarrow> json dict \<Rightarrow> (string + rat) result" where
  "shadow_score rt rr target row =
     (let chosen = chosen_stripped rt row in
      case jget row ''outcome'' of
        JDict out \<Rightarrow> rbind (number (jget out ''reward'')) (\<lambda>reward. case reward of
            None \<Rightarrow> Inr (Inl ''reward_range_violation'')
          | Some r \<Rightarrow>
              if fl_lt (Fin r) (rr_min rr) \<or> fl_lt (rr_max rr) (Fin r) then Inr (Inl ''reward_range_violation'')
              else rbind (chosen_probability rt row) (\<lambda>probability. Inr (case probability of
                  None \<Rightarrow> Inl ''invalid_propensity''
                | Some p \<Rightarrow>
                    if (chosen = target \<or> chosen = BASELINE_ARM) \<and> fl_lt (rr_max_weight rr) (Fin (1 / p))
                    then Inl ''importance_weight_violation''
                    else Inr (arm_term chosen target p r - arm_term chosen BASELINE_ARM p r))))
      | _ \<Rightarrow> Inr (Inl ''invalid_outcome''))"

text \<open>A row of the loop: without support, with a violation, or scored.\<close>

datatype shadow_verdict = Unsupported | Violation string | Scored "json dict" rat "rat option"

definition judge_score :: "runtime \<Rightarrow> json dict \<Rightarrow> string \<Rightarrow> string + rat \<Rightarrow> shadow_verdict result" where
  "judge_score rt row target score = (case score of
     Inl v \<Rightarrow> Inr (Violation v)
   | Inr x \<Rightarrow> rbind (if target \<noteq> BASELINE_ARM \<and> chosen_stripped rt row = target
         then outcome_value row ''realized_cost'' else Inr None) (\<lambda>c. Inr (Scored row x c)))"

definition shadow_verdict_of :: "runtime \<Rightarrow> reward_range \<Rightarrow> json dict \<Rightarrow> json dict \<Rightarrow> shadow_verdict result" where
  "shadow_verdict_of rt rr manifest row =
     rbind (desired_manifest_action rt manifest row) (\<lambda>target.
     rbind (supported_for_target row target) (\<lambda>supported.
     if \<not> supported then Inr Unsupported
     else rbind (shadow_score rt rr target row) (judge_score rt row target)))"

definition VIOLATION_KINDS :: "string list" where
  "VIOLATION_KINDS = [''reward_range_violation'', ''importance_weight_violation'', ''invalid_outcome'', ''invalid_propensity'']"

definition violation_total :: "shadow_verdict list \<Rightarrow> string \<Rightarrow> nat" where
  "violation_total vs k = length (filter (\<lambda>v. v = Violation k) vs)"

definition supported_rows :: "shadow_verdict list \<Rightarrow> json dict list" where
  "supported_rows vs = concat (map (\<lambda>v. case v of Scored row _ _ \<Rightarrow> [row] | _ \<Rightarrow> []) vs)"

definition shadow_scores :: "shadow_verdict list \<Rightarrow> rat list" where
  "shadow_scores vs = concat (map (\<lambda>v. case v of Scored _ x _ \<Rightarrow> [x] | _ \<Rightarrow> []) vs)"

definition shadow_costs :: "shadow_verdict list \<Rightarrow> rat list" where
  "shadow_costs vs = concat (map (\<lambda>v. case v of Scored _ _ (Some c) \<Rightarrow> [c] | _ \<Rightarrow> []) vs)"

section \<open>The evaluation\<close>

record shadow_options =
  so_confidence :: rat
  so_range :: reward_range
  so_minimum_new :: int
  so_safety_margin :: pyfloat
  so_max_cost :: "pyfloat option"
  so_resamples :: int
  so_seed :: int

definition shadow_bound :: "reward_range \<Rightarrow> pyfloat" where
  "shadow_bound rr = fl_max (fl_mul (rr_max_weight rr) (fl_max (fl_abs (rr_min rr)) (fl_abs (rr_max rr)))) (Fin (1 / 10 ^ 12))"

record shadow_evidence =
  se_verification :: "json dict"
  se_cutoff :: string
  se_rows :: "json dict list"
  se_excluded :: json
  se_verdicts :: "shadow_verdict list"
  se_sequence :: hoeffding_sequence
  se_dr :: dr_report

definition policy_parts :: "json dict \<Rightarrow> (json list \<times> json dict \<times> json dict \<times> json dict) option" where
  "policy_parts manifest =
     (case (jget manifest ''context_fields'', jget manifest ''policy'', jget manifest ''reward_model'', jget manifest ''cost_model'') of
        (JList fs, JDict policy, JDict reward_model, JDict cost_model) \<Rightarrow> Some (fs, policy, reward_model, cost_model)
      | _ \<Rightarrow> None)"

definition measure_shadow ::
  "runtime \<Rightarrow> (rat \<Rightarrow> rat \<Rightarrow> nat \<Rightarrow> rat) \<Rightarrow> (int \<Rightarrow> nat \<Rightarrow> nat) \<Rightarrow> json dict \<Rightarrow> shadow_options \<Rightarrow> json dict list
     \<Rightarrow> (json list \<times> json dict \<times> json dict \<times> json dict) \<Rightarrow> (shadow_verdict list \<times> hoeffding_sequence \<times> dr_report) result" where
  "measure_shadow rt radius draw manifest opts rows parts =
     (case parts of (fs, policy, reward_model, cost_model) \<Rightarrow>
        rbind (rmap (shadow_verdict_of rt (so_range opts) manifest) rows) (\<lambda>vs.
        rbind (anytime_hoeffding_sequence radius (shadow_scores vs) (so_confidence opts) (shadow_bound (so_range opts))) (\<lambda>sq.
        rbind (evaluate_context_policy_dr rt draw (supported_rows vs) (map (\<lambda>(k, v). (k, py_str rt v)) policy)
          reward_model cost_model (map (py_str rt) fs) (so_confidence opts) (so_resamples opts) (so_seed opts)) (\<lambda>dr.
        Inr (vs, sq, dr)))))"

definition gather_shadow ::
  "runtime \<Rightarrow> (string \<Rightarrow> (rat \<times> bool) option) \<Rightarrow> (rat \<Rightarrow> rat \<Rightarrow> nat \<Rightarrow> rat) \<Rightarrow> (int \<Rightarrow> nat \<Rightarrow> nat) \<Rightarrow> json dict list
     \<Rightarrow> json dict \<Rightarrow> string \<Rightarrow> shadow_options \<Rightarrow> shadow_evidence result" where
  "gather_shadow rt parse radius draw records manifest key opts =
     (let rr = so_range opts in
      rbind (verify_policy_manifest rt manifest key) (\<lambda>verification.
      guard_that (\<not> fl_le (rr_max rr) (rr_min rr)) (ValueError ''reward_max must be greater than reward_min'')
      (guard_that (\<not> fl_le (rr_max_weight rr) (Fin 0)) (ValueError ''max_importance_weight must be positive'')
      (let cutoff = strip (py_str rt (jget_or manifest ''evidence_cutoff'' (JStr []))) in
      rbind (post_cutoff_rows rt parse records cutoff) (\<lambda>(rows, excluded).
      case policy_parts manifest of
        None \<Rightarrow> Inl (ValueError ''manifest is missing contextual policy evidence'')
      | Some parts \<Rightarrow> rbind (measure_shadow rt radius draw manifest opts rows parts) (\<lambda>(vs, sq, dr).
          Inr \<lparr>se_verification = verification, se_cutoff = cutoff, se_rows = rows, se_excluded = excluded,
            se_verdicts = vs, se_sequence = sq, se_dr = dr\<rparr>))))))"

definition unsupported_events :: "shadow_evidence \<Rightarrow> nat" where
  "unsupported_events e = length (filter (\<lambda>v. v = Unsupported) (se_verdicts e))"

definition shadow_blockers :: "shadow_options \<Rightarrow> shadow_evidence \<Rightarrow> string list" where
  "shadow_blockers opts e =
     (if truthy (jget (se_verification e) ''valid'') then [] else [''manifest_verification_failed''])
     @ (if int (length (se_rows e)) < max 1 (so_minimum_new opts) then [''insufficient_post_cutoff_events''] else [])
     @ (if unsupported_events e \<noteq> 0 then [''target_policy_support_violation''] else [])
     @ (if list_ex (\<lambda>k. violation_total (se_verdicts e) k \<noteq> 0) VIOLATION_KINDS
        then [''sequential_monitoring_input_violation''] else [])
     @ (if clears_margin (map_option iv_lower (hs_final (se_sequence e))) (so_safety_margin opts) then []
        else [''anytime_lower_bound_does_not_clear_margin''])
     @ (if cost_met (max_or_none (shadow_costs (se_verdicts e))) (so_max_cost opts) then []
        else [''realized_cost_constraint_not_met''])"

definition shadow_report :: "json dict \<Rightarrow> shadow_options \<Rightarrow> shadow_evidence \<Rightarrow> json dict" where
  "shadow_report manifest opts e =
     [(''scope'', JStr ''contextual-retrieval-shadow-evaluation''),
      (''policy_id'', jget manifest ''policy_id''),
      (''manifest_verification'', JDict (se_verification e)),
      (''evidence_cutoff'', JStr (se_cutoff e)),
      (''post_cutoff_events'', jint (length (se_rows e))),
      (''supported_events'', jint (length (supported_rows (se_verdicts e)))),
      (''excluded_events'', se_excluded e),
      (''unsupported_target_events'', jint (unsupported_events e)),
      (''monitoring_violations'', JDict (map (\<lambda>k. (k, jint (violation_total (se_verdicts e) k))) VIOLATION_KINDS)),
      (''doubly_robust_shadow_evaluation'', dr_json (so_confidence opts) (se_dr e)),
      (''sequential_reward_confidence'', sequence_json (se_sequence e)),
      (''max_direct_realized_cost'', opt_rat (rounded (max_or_none (shadow_costs (se_verdicts e))))),
      (''shadow_gate'', JDict
        [(''eligible_for_manual_promotion_review'', JBool (shadow_blockers opts e = [])),
         (''blockers'', JList (map JStr (shadow_blockers opts e))),
         (''minimum_new_events'', JInt (so_minimum_new opts)),
         (''safety_margin'', JFloat (so_safety_margin opts)),
         (''max_realized_cost'', jopt_float (so_max_cost opts)),
         (''automatic_runtime_activation'', JBool False)]),
      (''execution'', JDict
        [(''policy_received_runtime_traffic'', JBool False), (''mode'', JStr ''counterfactual_shadow_only''),
         (''rollback_target'', JStr BASELINE_ARM)]),
      (''methodology'', JDict
        [(''sequential_gate'', JStr ''conservative union-bound Hoeffding confidence sequence''),
         (''paper_equivalence'', JStr (''does not implement the exact betting/martingale construction ''
            @ ''from Off-policy Confidence Sequences''))])]"

definition evaluate_shadow_policy ::
  "runtime \<Rightarrow> (string \<Rightarrow> (rat \<times> bool) option) \<Rightarrow> (rat \<Rightarrow> rat \<Rightarrow> nat \<Rightarrow> rat) \<Rightarrow> (int \<Rightarrow> nat \<Rightarrow> nat) \<Rightarrow> json dict list
     \<Rightarrow> json dict \<Rightarrow> string \<Rightarrow> shadow_options \<Rightarrow> json dict result" where
  "evaluate_shadow_policy rt parse radius draw records manifest key opts =
     rbind (gather_shadow rt parse radius draw records manifest key opts) (\<lambda>e. Inr (shadow_report manifest opts e))"

end
