(* ===== verification/ContextualProps.thy ===== *)
theory ContextualProps
  imports ShadowPolicy DeploymentState
begin

text \<open>
  What the learned policy, its manifest and the shadow evaluation guarantee: an arm is learned for a
  context only on enough direct evidence, a manifest is signed only for a report whose holdout gate
  passed, and a deployment is approved only on a shadow report whose events all lie after the cutoff.
\<close>

section \<open>The learned arm of a context\<close>

lemma choose_step_cases:
  "choose_step gain enough baseline c st = st
   \<or> choose_step gain enough baseline c st = (ac_arm c, ac_estimate c) \<and> enough \<and> ac_arm c \<noteq> BASELINE_ARM
     \<and> ac_supported c \<and> baseline + gain < ac_estimate c"
  by (auto simp: choose_step_def)

lemma choose_step_keeps:
  assumes "fold (choose_step gain enough baseline) cs st = (arm, v)"
  shows "(arm, v) = st \<or> (\<exists>c \<in> set cs. ac_arm c = arm \<and> ac_estimate c = v \<and> enough \<and> arm \<noteq> BASELINE_ARM
    \<and> ac_supported c \<and> baseline + gain < v)"
  using assms
proof (induction cs arbitrary: st)
  case (Cons c cs)
  have "fold (choose_step gain enough baseline) cs (choose_step gain enough baseline c st) = (arm, v)"
    using Cons.prems by simp
  from Cons.IH [OF this] show ?case
    using choose_step_cases [of gain enough baseline c st] by (metis list.set_intros fst_conv snd_conv)
qed simp

lemma choose_step_mono: "snd st \<le> snd (fold (choose_step gain enough baseline) cs st)"
proof (induction cs arbitrary: st)
  case (Cons c cs)
  have "snd st \<le> snd (choose_step gain enough baseline c st)" by (auto simp: choose_step_def)
  then show ?case using Cons [of "choose_step gain enough baseline c st"] by simp
qed simp

lemma choose_step_best:
  assumes "c \<in> set cs" "enough" "ac_arm c \<noteq> BASELINE_ARM" "ac_supported c" "baseline + gain < ac_estimate c"
  shows "ac_estimate c \<le> snd (fold (choose_step gain enough baseline) cs st)"
  using assms(1)
proof (induction cs arbitrary: st)
  case (Cons d cs)
  show ?case
  proof (cases "c = d")
    case True
    have "ac_estimate c \<le> snd (choose_step gain enough baseline c st)"
      using assms(2-5) by (auto simp: choose_step_def)
    then show ?thesis using choose_step_mono [of "choose_step gain enough baseline c st" gain enough baseline cs] True by simp
  next
    case False
    then show ?thesis using Cons by simp
  qed
qed simp

text \<open>The evidence for the arm of a context: enough low-risk rows there, enough of them with the arm itself,
  a model value above the baseline's by more than the gain, and no supported arm with a better one.\<close>

definition arm_justified ::
  "learner \<Rightarrow> json dict \<Rightarrow> (string \<times> string) list \<Rightarrow> string \<Rightarrow> context_choice \<Rightarrow> bool" where
  "arm_justified lr model cs key c =
     (cc_arm c \<in> set SAFE_EXPLORATION_ARMS
      \<and> max 1 (ln_minimum_context lr) \<le> int (length (filter (\<lambda>x. fst x = key) cs))
      \<and> max 1 (ln_minimum_direct lr) \<le> int (exposures_of cs key (cc_arm c))
      \<and> predict_model_value model key (cc_arm c) = Inr (cc_value c)
      \<and> predict_model_value model key BASELINE_ARM = Inr (cc_baseline c)
      \<and> cc_baseline c + ln_minimum_gain lr < cc_value c)"

lemma choose_for_context_parts:
  assumes "choose_for_context lr model cs key = Inr (k, c)"
  obtains candidates where "k = key" "predict_model_value model key BASELINE_ARM = Inr (cc_baseline c)"
    "rmap (arm_candidate_of lr model cs key) SAFE_EXPLORATION_ARMS = Inr candidates"
    "fold (choose_step (ln_minimum_gain lr) (max 1 (ln_minimum_context lr) \<le> int (length (filter (\<lambda>x. fst x = key) cs)))
       (cc_baseline c)) candidates (BASELINE_ARM, cc_baseline c) = (cc_arm c, cc_value c)"
proof -
  obtain baseline candidates where b: "predict_model_value model key BASELINE_ARM = Inr baseline"
    and cand: "rmap (arm_candidate_of lr model cs key) SAFE_EXPLORATION_ARMS = Inr candidates"
    and eq: "(let (arm, v) = fold (choose_step (ln_minimum_gain lr) (max 1 (ln_minimum_context lr)
            \<le> int (length (filter (\<lambda>c. fst c = key) cs))) baseline) candidates (BASELINE_ARM, baseline)
      in Inr (key, \<lparr>cc_events = length (filter (\<lambda>c. fst c = key) cs), cc_baseline = baseline, cc_arm = arm, cc_value = v,
           cc_candidates = candidates\<rparr>)) = (Inr (k, c) :: (string \<times> context_choice) result)"
    using assms unfolding choose_for_context_def rbind_Inr_iff Let_def by blast
  obtain arm v where f: "fold (choose_step (ln_minimum_gain lr) (max 1 (ln_minimum_context lr)
            \<le> int (length (filter (\<lambda>c. fst c = key) cs))) baseline) candidates (BASELINE_ARM, baseline) = (arm, v)"
    by (metis surj_pair)
  have "k = key" "cc_baseline c = baseline" "cc_arm c = arm" "cc_value c = v" using eq unfolding f by auto
  then show ?thesis using that b cand f by simp
qed

lemma arm_candidate_of_parts:
  "arm_candidate_of lr model cs key arm = Inr a \<Longrightarrow> ac_arm a = arm \<and> predict_model_value model key arm = Inr (ac_estimate a)
     \<and> (ac_supported a \<longleftrightarrow> arm = BASELINE_ARM \<or> max 1 (ln_minimum_direct lr) \<le> int (exposures_of cs key arm))"
  by (auto simp: arm_candidate_of_def rbind_Inr_iff Let_def)

lemma choice_justified:
  assumes "choose_for_context lr model cs key = Inr (k, c)" "cc_arm c \<noteq> BASELINE_ARM"
  shows "arm_justified lr model cs key c"
proof -
  let ?enough = "max 1 (ln_minimum_context lr) \<le> int (length (filter (\<lambda>x. fst x = key) cs))"
  obtain candidates where b: "predict_model_value model key BASELINE_ARM = Inr (cc_baseline c)"
    and cand: "rmap (arm_candidate_of lr model cs key) SAFE_EXPLORATION_ARMS = Inr candidates"
    and f: "fold (choose_step (ln_minimum_gain lr) ?enough (cc_baseline c)) candidates (BASELINE_ARM, cc_baseline c)
      = (cc_arm c, cc_value c)"
    by (rule choose_for_context_parts [OF assms(1)])
  obtain a where a: "a \<in> set candidates" "ac_arm a = cc_arm c" "ac_estimate a = cc_value c" "?enough" "ac_supported a"
      "cc_baseline c + ln_minimum_gain lr < cc_value c"
    using choose_step_keeps [OF f] assms(2) by auto
  obtain arm where arm: "arm \<in> set SAFE_EXPLORATION_ARMS" "arm_candidate_of lr model cs key arm = Inr a"
    using rmap_Inr_set [OF cand a(1)] by blast
  show ?thesis
    using arm_candidate_of_parts [OF arm(2)] arm(1) a b assms(2) by (simp add: arm_justified_def)
qed

lemma choice_best:
  assumes "choose_for_context lr model cs key = Inr (k, c)"
    and "arm \<in> set SAFE_EXPLORATION_ARMS" "arm \<noteq> BASELINE_ARM"
    and "max 1 (ln_minimum_context lr) \<le> int (length (filter (\<lambda>x. fst x = key) cs))"
    and "max 1 (ln_minimum_direct lr) \<le> int (exposures_of cs key arm)"
    and "predict_model_value model key arm = Inr x" "cc_baseline c + ln_minimum_gain lr < x"
  shows "x \<le> cc_value c"
proof -
  let ?enough = "max 1 (ln_minimum_context lr) \<le> int (length (filter (\<lambda>x. fst x = key) cs))"
  obtain candidates where cand: "rmap (arm_candidate_of lr model cs key) SAFE_EXPLORATION_ARMS = Inr candidates"
    and f: "fold (choose_step (ln_minimum_gain lr) ?enough (cc_baseline c)) candidates (BASELINE_ARM, cc_baseline c)
      = (cc_arm c, cc_value c)"
    by (rule choose_for_context_parts [OF assms(1)])
  obtain a where a: "a \<in> set candidates" "arm_candidate_of lr model cs key arm = Inr a"
    using rmap_Inr_mem [OF cand assms(2)] by blast
  note p = arm_candidate_of_parts [OF a(2)]
  have "ac_estimate a \<le> snd (fold (choose_step (ln_minimum_gain lr) ?enough (cc_baseline c)) candidates (BASELINE_ARM, cc_baseline c))"
    by (rule choose_step_best) (use a(1) p assms(3-7) in simp_all)
  then show ?thesis using f p assms(6) by simp
qed

lemma policy_map_justified:
  assumes "build_context_policy_map rt rows model fs lr = Inr choices"
  shows "\<exists>cs. low_risk_contexts rt fs rows = Inr cs
    \<and> list_all (\<lambda>(key, c). cc_arm c = BASELINE_ARM \<or> arm_justified lr model cs key c) choices"
proof -
  obtain cs where cs: "low_risk_contexts rt fs rows = Inr cs"
    and m: "rmap (choose_for_context lr model cs) (sort (uniq (map fst cs))) = Inr choices"
    using assms by (auto simp: build_context_policy_map_def rbind_Inr_iff)
  have "cc_arm c = BASELINE_ARM \<or> arm_justified lr model cs key c" if kc: "(key, c) \<in> set choices" for key c
  proof -
    obtain k where k: "choose_for_context lr model cs k = Inr (key, c)" using rmap_Inr_set [OF m kc] by blast
    then have "key = k" by (rule choose_for_context_parts)
    then show ?thesis using choice_justified [OF k] by blast
  qed
  then show ?thesis using cs by (auto simp: list_all_iff)
qed

section \<open>The split\<close>

lemma split_partitions:
  assumes "split_rows rt rows f = Inr (dev, holdout)"
  shows "mset dev + mset holdout = mset rows \<and> decision_digest_of rt ` set dev \<inter> decision_digest_of rt ` set holdout = {}"
  using assms by (auto simp: split_rows_def guard_that_Inr_iff Let_def)

section \<open>Manifests of reports\<close>

lemma policy_blockers_Nil:
  "policy_blockers opts l = [] \<longleftrightarrow> 0 < nonbaseline_contexts l
     \<and> max 1 (bo_minimum_holdout opts) \<le> int (length (lp_holdout l))
     \<and> \<not> fl_lt (Fin (dv_ess (lp_evaluation l))) (bo_minimum_ess opts)
     \<and> ln_minimum_direct (bo_learner opts) \<le> int (dv_direct (lp_evaluation l))
     \<and> bo_minimum_validation opts \<le> int (va_n (lp_reward_validation l))
     \<and> clears_margin (ci_low (dv_reward_ci (lp_evaluation l))) (bo_safety_margin opts)
     \<and> cost_met (dv_max_direct_cost (lp_evaluation l)) (bo_max_cost opts)"
  by (auto simp: policy_blockers_def Let_def)

lemma manifest_needs_gate:
  assumes "create_policy_manifest rt now (policy_report rt opts l) key = Inr m"
  shows "policy_blockers opts l = []"
proof -
  have "case jget (policy_report rt opts l) ''promotion'' of
      JDict p \<Rightarrow> truthy (jget p ''eligible_for_shadow'') | _ \<Rightarrow> False"
    using assms by (auto simp: create_policy_manifest_def guard_that_Inr_iff)
  then show ?thesis by (simp add: policy_report_def dict_simps)
qed

section \<open>Shadow evaluation\<close>

lemma shadow_blockers_Nil:
  "shadow_blockers opts e = [] \<longleftrightarrow> truthy (jget (se_verification e) ''valid'')
     \<and> max 1 (so_minimum_new opts) \<le> int (length (se_rows e))
     \<and> unsupported_events e = 0 \<and> \<not> list_ex (\<lambda>k. violation_total (se_verdicts e) k \<noteq> 0) VIOLATION_KINDS
     \<and> clears_margin (map_option iv_lower (hs_final (se_sequence e))) (so_safety_margin opts)
     \<and> cost_met (max_or_none (shadow_costs (se_verdicts e))) (so_max_cost opts)"
  by (auto simp: shadow_blockers_def)

lemma shadow_score_kinds:
  assumes "shadow_score rt rr target row = Inr (Inl v)"
  shows "v \<in> set VIOLATION_KINDS"
  using assms
  by (auto simp: shadow_score_def VIOLATION_KINDS_def rbind_Inr_iff Let_def split: json.splits option.splits if_splits)

lemma judge_score_cases:
  "judge_score rt row target score = Inr (Violation v) \<longleftrightarrow> score = Inl v"
  "judge_score rt row target score = Inr (Scored r x c) \<Longrightarrow> score = Inr x \<and> r = row"
  "judge_score rt row target score \<noteq> Inr Unsupported"
  by (auto simp: judge_score_def rbind_Inr_iff split: sum.splits)

lemma shadow_verdict_kinds:
  "shadow_verdict_of rt rr manifest row = Inr (Violation v) \<Longrightarrow> v \<in> set VIOLATION_KINDS"
  by (auto simp: shadow_verdict_of_def rbind_Inr_iff judge_score_cases dest: shadow_score_kinds split: if_splits)

text \<open>Each score is within the bound the confidence sequence is computed with.\<close>

lemma shadow_score_bound:
  assumes "shadow_score rt \<lparr>rr_min = Fin lo, rr_max = Fin hi, rr_max_weight = Fin w\<rparr> target row = Inr (Inr x)"
  shows "\<bar>x\<bar> \<le> w * max \<bar>lo\<bar> \<bar>hi\<bar> \<or> x = 0"
proof -
  let ?chosen = "chosen_stripped rt row"
  obtain out r p where r: "lo \<le> r" "r \<le> hi" and p: "chosen_probability rt row = Inr (Some p)"
    and w: "(?chosen = target \<or> ?chosen = BASELINE_ARM) \<longrightarrow> 1 / p \<le> w"
    and x: "x = arm_term ?chosen target p r - arm_term ?chosen BASELINE_ARM p r"
    using assms
    by (auto simp: shadow_score_def rbind_Inr_iff Let_def not_less split: json.split_asm option.split_asm if_split_asm)
  have pos: "0 < p" using p
    by (auto simp: chosen_probability_def rbind_Inr_iff positive_def split: json.split_asm if_split_asm option.split_asm)
  have "\<bar>1 / p * r\<bar> \<le> w * max \<bar>lo\<bar> \<bar>hi\<bar>" if "1 / p \<le> w"
  proof -
    have "\<bar>r\<bar> \<le> max \<bar>lo\<bar> \<bar>hi\<bar>" using r by linarith
    then have "1 / p * \<bar>r\<bar> \<le> w * max \<bar>lo\<bar> \<bar>hi\<bar>" using that pos less_le_trans [of 0 "1 / p" w] by (intro mult_mono) auto
    then show ?thesis using pos by (simp add: abs_mult)
  qed
  then show ?thesis using w by (auto simp: x arm_term_def)
qed

lemma accepted_rows_in: "row \<in> set (accepted_rows rs) \<longleftrightarrow> Inr row \<in> set rs"
  by (force simp: accepted_rows_def split: sum.splits)

lemma shadow_row_after:
  assumes "shadow_row rt parse cutoff row = Inr (Inr row')"
  shows "\<exists>out t. verified_outcome row' = Some out \<and> shadow_time rt parse (jget out ''recorded_at'') = Some t \<and> cutoff < t"
proof -
  obtain out t features where "verified_outcome row = Some out" "shadow_time rt parse (jget out ''recorded_at'') = Some t"
      "cutoff < t" "row' = with_features row features"
    using assms by (auto simp: shadow_row_def rbind_Inr_iff not_le split: option.split_asm if_split_asm)
  then show ?thesis by (simp add: verified_outcome_def with_features_def)
qed

lemma post_cutoff_rows_after:
  assumes "post_cutoff_rows rt parse records cutoff = Inr (rows, ex)"
  shows "\<exists>c. shadow_time rt parse (JStr cutoff) = Some c
    \<and> (\<forall>row \<in> set rows. \<exists>out t. verified_outcome row = Some out
         \<and> shadow_time rt parse (jget out ''recorded_at'') = Some t \<and> c < t)"
proof -
  obtain c rs where c: "shadow_time rt parse (JStr cutoff) = Some c" and rs: "rmap (shadow_row rt parse c) records = Inr rs"
    and rows: "rows = sort_key (recorded_text rt) (accepted_rows rs)"
    using assms by (auto simp: post_cutoff_rows_def rbind_Inr_iff split: option.splits)
  show ?thesis using c rmap_Inr_set [OF rs] shadow_row_after by (fastforce simp: rows accepted_rows_in)
qed

section \<open>From shadow report to approval\<close>

definition is_scored :: "shadow_verdict \<Rightarrow> bool" where
  "is_scored v = (case v of Scored _ _ _ \<Rightarrow> True | _ \<Rightarrow> False)"

lemma all_scored:
  assumes "unsupported_events e = 0" "\<not> list_ex (\<lambda>k. violation_total (se_verdicts e) k \<noteq> 0) VIOLATION_KINDS"
    and "\<forall>v. Violation v \<in> set (se_verdicts e) \<longrightarrow> v \<in> set VIOLATION_KINDS"
  shows "list_all is_scored (se_verdicts e)"
proof -
  have "is_scored v" if "v \<in> set (se_verdicts e)" for v
  proof (cases v)
    case Unsupported
    then show ?thesis using that assms(1) by (auto simp: unsupported_events_def filter_empty_conv)
  next
    case (Violation k)
    then show ?thesis using that assms(2,3) by (auto simp: list_ex_iff violation_total_def filter_empty_conv)
  qed (simp add: is_scored_def)
  then show ?thesis by (simp add: list_all_iff)
qed

lemma scored_lengths:
  assumes "list_all is_scored vs"
  shows "length (shadow_scores vs) = length vs \<and> length (supported_rows vs) = length vs"
  using assms
  by (induction vs) (auto simp: shadow_scores_def supported_rows_def is_scored_def split: shadow_verdict.splits)

lemma gather_shadow_parts:
  assumes "gather_shadow rt parse radius draw records manifest key opts = Inr e"
  obtains ex where "verify_policy_manifest rt manifest key = Inr (se_verification e)"
    "post_cutoff_rows rt parse records (se_cutoff e) = Inr (se_rows e, ex)"
    "rmap (shadow_verdict_of rt (so_range opts) manifest) (se_rows e) = Inr (se_verdicts e)"
    "anytime_hoeffding_sequence radius (shadow_scores (se_verdicts e)) (so_confidence opts) (shadow_bound (so_range opts))
      = Inr (se_sequence e)"
  using assms
  by (auto simp: gather_shadow_def measure_shadow_def Let_def rbind_Inr_iff guard_that_Inr_iff
      split: prod.splits option.split_asm)

lemma shadow_approval:
  assumes "evaluate_shadow_policy rt parse radius draw records manifest key opts = Inr shadow"
    and "create_deployment_state rt now records' manifest shadow key' by p = Inr state"
  shows "\<exists>e c. gather_shadow rt parse radius draw records manifest key opts = Inr e
    \<and> manifest_errors rt manifest key' = Inr []
    \<and> max 1 (so_minimum_new opts) \<le> int (length (se_rows e))
    \<and> shadow_time rt parse (JStr (se_cutoff e)) = Some c
    \<and> (\<forall>row \<in> set (se_rows e). \<exists>out t. verified_outcome row = Some out
         \<and> shadow_time rt parse (jget out ''recorded_at'') = Some t \<and> c < t)
    \<and> length (shadow_scores (se_verdicts e)) = length (se_rows e)
    \<and> clears_margin (map_option iv_lower (hs_final (se_sequence e))) (so_safety_margin opts)
    \<and> cost_met (max_or_none (shadow_costs (se_verdicts e))) (so_max_cost opts)"
proof -
  obtain e where e: "gather_shadow rt parse radius draw records manifest key opts = Inr e"
    and shadow: "shadow = shadow_report manifest opts e"
    using assms(1) by (auto simp: evaluate_shadow_policy_def rbind_Inr_iff)
  have m: "manifest_errors rt manifest key' = Inr []" and ok: "shadow_report_ok manifest shadow"
    using assms(2) by (auto simp: create_deployment_state_def rbind_Inr_iff guard_that_Inr_iff)
  have "shadow_blockers opts e = []"
    using ok by (simp add: shadow_report_ok_def shadow shadow_report_def dict_simps)
  note gate = this [unfolded shadow_blockers_Nil]
  obtain ex where rows: "post_cutoff_rows rt parse records (se_cutoff e) = Inr (se_rows e, ex)"
    and vs: "rmap (shadow_verdict_of rt (so_range opts) manifest) (se_rows e) = Inr (se_verdicts e)"
    by (rule gather_shadow_parts [OF e])
  have "\<forall>v. Violation v \<in> set (se_verdicts e) \<longrightarrow> v \<in> set VIOLATION_KINDS"
    using rmap_Inr_set [OF vs] shadow_verdict_kinds by blast
  then have "length (shadow_scores (se_verdicts e)) = length (se_rows e)"
    using all_scored [of e] gate scored_lengths rmap_Inr_length [OF vs] by simp
  then show ?thesis using e m gate post_cutoff_rows_after [OF rows] by blast
qed

text \<open>The premise of the Hoeffding sequence: every score is within the bound it is computed with.\<close>

lemma shadow_scores_bounded:
  assumes "rmap (shadow_verdict_of rt \<lparr>rr_min = Fin lo, rr_max = Fin hi, rr_max_weight = Fin w\<rparr> manifest) rows = Inr vs"
    and "x \<in> set (shadow_scores vs)"
  shows "\<bar>x\<bar> \<le> max (w * max \<bar>lo\<bar> \<bar>hi\<bar>) (1 / 10 ^ 12)"
proof -
  obtain r c where "Scored r x c \<in> set vs"
    using assms(2) by (force simp: shadow_scores_def split: shadow_verdict.splits)
  then obtain row where "shadow_verdict_of rt \<lparr>rr_min = Fin lo, rr_max = Fin hi, rr_max_weight = Fin w\<rparr> manifest row
      = Inr (Scored r x c)" using rmap_Inr_set [OF assms(1)] by blast
  then obtain target where "shadow_score rt \<lparr>rr_min = Fin lo, rr_max = Fin hi, rr_max_weight = Fin w\<rparr> target row
      = Inr (Inr x)"
    by (auto simp: shadow_verdict_of_def rbind_Inr_iff dest: judge_score_cases(2) split: if_splits)
  then show ?thesis using shadow_score_bound by fastforce
qed

lemma shadow_bound_fin:
  "shadow_bound \<lparr>rr_min = Fin lo, rr_max = Fin hi, rr_max_weight = Fin w\<rparr> = Fin (max (w * max \<bar>lo\<bar> \<bar>hi\<bar>) (1 / 10 ^ 12))"
  by (auto simp: shadow_bound_def fl_max_def max_def)

end
