(* ===== verification/PipelineExamples.thy ===== *)
theory PipelineExamples
  imports OffPolicyProps ContextualProps Examples
begin

text \<open>
  Concrete data for the witnesses of the evidence pipeline: a learned policy whose gate passes, the
  manifest signed for it, one event after its cutoff, and the deployment approved on it.
\<close>

section \<open>A learned policy\<close>

definition demo_features :: "string dict" where
  "demo_features = map (\<lambda>f. (f, ''x'')) FEATURE_FIELDS"

definition demo_outcome_row :: "json dict" where
  "demo_outcome_row =
     [(''decision_id'', JStr ''d1''), (''chosen_arm'', JStr ''bm25_rank''), (''risk'', JStr ''high''),
      (''arm_propensities'', JDict [(BASELINE_ARM, jrat (1/2)), (''bm25_rank'', jrat (1/2))]),
      (''feature_schema_version'', JStr FEATURE_SCHEMA_VERSION),
      (''context_features'', JDict (map (map_prod id JStr) demo_features)),
      (''outcome'', JDict [(''verified'', JBool True), (''reward'', jrat 1), (''realized_cost'', jrat 0),
         (''recorded_at'', JStr ''t1'')])]"

definition demo_cutoff_row :: "json dict" where
  "demo_cutoff_row = [(''decision_id'', JStr ''d0''), (''outcome'', JDict [(''recorded_at'', JStr ''t0'')])]"

definition demo_ci :: mean_ci where
  "demo_ci = \<lparr>ci_n = 1, ci_mean = Some 1, ci_low = Some 1, ci_high = Some 1, ci_resamples = 0\<rparr>"

definition demo_learned :: learned where
  "demo_learned = \<lparr>lp_fields = [''lane''], lp_rows = [demo_cutoff_row], lp_excluded = JDict [],
     lp_development = [demo_cutoff_row], lp_holdout = [demo_cutoff_row],
     lp_reward_model = [(''global_mean'', jrat 0)], lp_cost_model = [(''global_mean'', jrat 0)],
     lp_reward_validation = \<lparr>va_folds = 2, va_n = 1, va_mae = None, va_rmse = None\<rparr>,
     lp_cost_validation = \<lparr>va_folds = 2, va_n = 1, va_mae = None, va_rmse = None\<rparr>,
     lp_choices = [(demo_context, \<lparr>cc_events = 1, cc_baseline = 0, cc_arm = ''bm25_rank'', cc_value = 1, cc_candidates = []\<rparr>)],
     lp_evaluation = \<lparr>dv_events = 1, dv_nonbaseline = 1, dv_direct = 1, dv_ess = 1, dv_max_weight = None,
       dv_max_direct_cost = None, dv_reward_ci = demo_ci, dv_cost_ci = demo_ci\<rparr>\<rparr>"

definition demo_options :: report_options where
  "demo_options = \<lparr>bo_fields = [JStr ''lane''], bo_fraction = 7/10, bo_prior = 5, bo_folds = 2,
     bo_learner = \<lparr>ln_minimum_context = 1, ln_minimum_direct = 1, ln_minimum_gain = 0\<rparr>,
     bo_minimum_holdout = 1, bo_minimum_ess = Fin 1, bo_minimum_validation = 1, bo_safety_margin = Fin 0, bo_max_cost = None,
     bo_confidence = 19/20, bo_resamples = 1, bo_seed = 1\<rparr>"

lemma demo_gate: "policy_blockers demo_options demo_learned = []"
  by (simp add: policy_blockers_Nil demo_options_def demo_learned_def demo_ci_def nonbaseline_contexts_def BASELINE_ARM_def
      clears_margin_def cost_met_def fl_le_def)

lemma strip_t: "strip ''t0'' = ''t0''" "strip ''t1'' = ''t1''" "strip ''x'' = ''x''" "strip ''bm25_rank'' = ''bm25_rank''"
  by (simp_all add: strip_def rstrip_def lstrip_def is_space_def code_def)

lemma demo_evidence_cutoff: "evidence_cutoff_of demo_rt [demo_cutoff_row] = Some ''t0''"
  by (simp add: evidence_cutoff_of_def demo_cutoff_row_def dict_simps strip_t)

definition demo_policy_report :: "json dict" where
  "demo_policy_report = policy_report demo_rt demo_options demo_learned"

lemma demo_policy_report_fields:
  "jget demo_policy_report ''scope'' = JStr ''contextual-retrieval-policy-development''"
  "jget demo_policy_report ''feature_schema_version'' = JStr FEATURE_SCHEMA_VERSION"
  "jget demo_policy_report ''context_fields'' = JList [JStr ''lane'']"
  "jget demo_policy_report ''development_policy'' = JDict [(demo_context, JStr ''bm25_rank'')]"
  "jget_or demo_policy_report ''evidence_cutoff'' d = JStr ''t0''"
  "jget demo_policy_report ''reward_model'' = JDict [(''global_mean'', jrat 0)]"
  "jget demo_policy_report ''cost_model'' = JDict [(''global_mean'', jrat 0)]"
  "\<exists>p. jget demo_policy_report ''promotion'' = JDict p \<and> truthy (jget p ''eligible_for_shadow'')"
  by (simp_all add: demo_policy_report_def policy_report_def dict_simps demo_gate)
    (simp_all add: demo_learned_def policy_of_def demo_evidence_cutoff)

definition demo_learned_manifest :: "json dict" where
  "demo_learned_manifest = (case create_policy_manifest demo_rt ''t0'' demo_policy_report demo_key of Inr m \<Rightarrow> m | Inl _ \<Rightarrow> [])"

lemma demo_learned_body:
  "create_policy_manifest demo_rt ''t0'' demo_policy_report demo_key
     = sign_manifest demo_rt (manifest_body demo_rt ''t0'' demo_policy_report [''lane''] [(demo_context, ''bm25_rank'')] ''t0'') demo_key"
proof -
  obtain p where "jget demo_policy_report ''promotion'' = JDict p" "truthy (jget p ''eligible_for_shadow'')"
    using demo_policy_report_fields(8) by blast
  then show ?thesis
    by (simp add: create_policy_manifest_def demo_policy_report_fields demo_fields demo_policy strip_t
        Let_def)
qed

lemma demo_learned_created: "create_policy_manifest demo_rt ''t0'' demo_policy_report demo_key = Inr demo_learned_manifest"
  by (simp add: demo_learned_manifest_def demo_learned_body) (simp add: sign_manifest_def demo_key_def)

lemma demo_learned_manifest_ok: "manifest_errors demo_rt demo_learned_manifest demo_key = Inr []"
  by (rule created_manifest_errors [OF demo_learned_created demo_sized])

lemma demo_learned_manifest_fields:
  "jget demo_learned_manifest ''context_fields'' = JList [JStr ''lane'']"
  "jget demo_learned_manifest ''policy'' = JDict [(demo_context, JStr ''bm25_rank'')]"
  "jget demo_learned_manifest ''evidence_cutoff'' = JStr ''t0''"
  "jget_or demo_learned_manifest ''evidence_cutoff'' d = JStr ''t0''"
  "jget demo_learned_manifest ''reward_model'' = JDict [(''global_mean'', jrat 0)]"
  "jget demo_learned_manifest ''cost_model'' = JDict [(''global_mean'', jrat 0)]"
proof -
  have m: "demo_learned_manifest = dset (manifest_body demo_rt ''t0'' demo_policy_report [''lane''] [(demo_context, ''bm25_rank'')] ''t0'')
      ''signature'' (signature_entry demo_rt (manifest_body demo_rt ''t0'' demo_policy_report [''lane''] [(demo_context, ''bm25_rank'')] ''t0'') demo_key)"
    by (simp add: demo_learned_manifest_def demo_learned_body) (simp add: sign_manifest_def demo_key_def)
  show "jget demo_learned_manifest ''context_fields'' = JList [JStr ''lane'']"
    "jget demo_learned_manifest ''policy'' = JDict [(demo_context, JStr ''bm25_rank'')]"
    "jget demo_learned_manifest ''evidence_cutoff'' = JStr ''t0''"
    "jget_or demo_learned_manifest ''evidence_cutoff'' d = JStr ''t0''"
    "jget demo_learned_manifest ''reward_model'' = JDict [(''global_mean'', jrat 0)]"
    "jget demo_learned_manifest ''cost_model'' = JDict [(''global_mean'', jrat 0)]"
    by (simp_all add: m manifest_body_def Let_def dict_simps demo_policy_report_fields)
qed

section \<open>One event after the cutoff\<close>

definition demo_parse :: "string \<Rightarrow> (rat \<times> bool) option" where
  "demo_parse s = (if s = ''t0'' then Some (0, True) else Some (1, True))"

definition demo_shadow_options :: shadow_options where
  "demo_shadow_options = \<lparr>so_confidence = 19/20, so_range = \<lparr>rr_min = Fin 0, rr_max = Fin 1, rr_max_weight = Fin 20\<rparr>,
     so_minimum_new = 1, so_safety_margin = Fin (-1), so_max_cost = None, so_resamples = 1, so_seed = 1\<rparr>"

lemma demo_normalized: "normalize_context_features demo_rt (JDict (map (map_prod id JStr) demo_features)) = Some demo_features"
  by (simp add: normalize_context_features_def demo_features_def FEATURE_FIELDS_def dict_simps Let_def strip_t)

lemma demo_with_features: "with_features demo_outcome_row demo_features = demo_outcome_row"
  by (simp add: with_features_def demo_outcome_row_def)

lemma demo_shadow_row: "shadow_row demo_rt demo_parse 0 demo_outcome_row = Inr (Inr demo_outcome_row)"
proof -
  have out: "verified_outcome demo_outcome_row = Some [(''verified'', JBool True), (''reward'', jrat 1), (''realized_cost'', jrat 0),
         (''recorded_at'', JStr ''t1'')]"
    by (simp add: verified_outcome_def demo_outcome_row_def dict_simps)
  have f: "current_features demo_rt demo_outcome_row = Some demo_features"
    by (simp add: current_features_def demo_outcome_row_def dict_simps demo_normalized)
  have p: "chosen_probability_ok demo_rt demo_outcome_row = Inr True"
    by (simp add: chosen_probability_ok_def chosen_stripped_def chosen_arm_of_def demo_outcome_row_def dict_simps strip_t
        BASELINE_ARM_def jrat_def number_def positive_def)
  show ?thesis
    by (simp add: shadow_row_def out shadow_time_def dict_simps strip_t demo_parse_def outcome_numbers_ok_def number_def jrat_def
        f p demo_with_features)
qed

lemma demo_post_cutoff: "\<exists>ex. post_cutoff_rows demo_rt demo_parse [demo_outcome_row] ''t0'' = Inr ([demo_outcome_row], ex)"
  by (simp add: post_cutoff_rows_def shadow_time_def strip_t demo_parse_def demo_shadow_row accepted_rows_def)

lemma demo_chosen: "chosen_stripped demo_rt demo_outcome_row = ''bm25_rank''"
  by (simp add: chosen_stripped_def chosen_arm_of_def demo_outcome_row_def dict_simps strip_t)

lemma demo_not_low: "\<not> low_risk demo_rt demo_outcome_row"
  by (simp add: low_risk_def demo_outcome_row_def dict_simps lower_def lower_char_def is_upper_def code_def)

lemma demo_row_parts:
  "jget demo_outcome_row ''arm_propensities'' = JDict [(BASELINE_ARM, jrat (1/2)), (''bm25_rank'', jrat (1/2))]"
  "jget demo_outcome_row ''outcome'' = JDict [(''verified'', JBool True), (''reward'', jrat 1), (''realized_cost'', jrat 0),
     (''recorded_at'', JStr ''t1'')]"
  "jget demo_outcome_row ''context_features'' = JDict (map (map_prod id JStr) demo_features)"
  by (simp_all add: demo_outcome_row_def dict_simps)

lemma number_jrat [simp]: "number (jrat x) = Inr (Some x)"
  by (simp add: number_def jrat_def)

lemma demo_probability: "chosen_probability demo_rt demo_outcome_row = Inr (Some (1/2))"
  by (simp add: chosen_probability_def demo_chosen demo_row_parts dict_simps BASELINE_ARM_def positive_def)

lemma demo_verdict:
  "shadow_verdict_of demo_rt (so_range demo_shadow_options) demo_learned_manifest demo_outcome_row = Inr (Scored demo_outcome_row 0 None)"
proof -
  have sup: "supported_for_target demo_outcome_row BASELINE_ARM = Inr True"
    by (simp add: supported_for_target_def demo_row_parts dict_simps positive_def)
  have score: "shadow_score demo_rt (so_range demo_shadow_options) BASELINE_ARM demo_outcome_row = Inr (Inr 0)"
    unfolding shadow_score_def demo_chosen Let_def demo_probability
    by (simp add: demo_row_parts dict_simps demo_shadow_options_def arm_term_def BASELINE_ARM_def)
  show ?thesis
    by (simp add: shadow_verdict_of_def desired_manifest_action_def demo_not_low sup score judge_score_def)
qed

lemma demo_row_context: "\<exists>k. row_context demo_rt [''lane''] demo_outcome_row = Inr k"
  by (simp add: row_context_def demo_row_parts context_key_def demo_fields demo_normalized)

lemma demo_predict: "predict_model_value [(''global_mean'', jrat 0)] k arm = Inr 0"
  by (simp add: predict_model_value_def lookup_number_def dict_simps)

lemma demo_dr_value:
  assumes "field \<in> {''reward'', ''realized_cost''}"
  shows "dr_value demo_rt [(''global_mean'', jrat 0)] [''lane''] field BASELINE_ARM demo_outcome_row = Inr (Some 0)"
proof -
  obtain y where "outcome_value demo_outcome_row field = Inr (Some y)"
    using assms by (auto simp: outcome_value_def demo_row_parts dict_simps)
  then show ?thesis
    using demo_row_context by (auto simp: dr_value_def demo_probability demo_predict demo_chosen BASELINE_ARM_def)
qed

lemma demo_dr: "\<exists>r. evaluate_context_policy_dr demo_rt (\<lambda>_ _. 0) [demo_outcome_row] policy [(''global_mean'', jrat 0)]
    [(''global_mean'', jrat 0)] [''lane''] (19/20) 1 1 = Inr r"
proof -
  have t: "target_action_for_row demo_rt policy [''lane''] demo_outcome_row = Inr BASELINE_ARM"
    by (simp add: target_action_for_row_def demo_not_low)
  have "\<exists>e. row_evidence_of demo_rt policy [(''global_mean'', jrat 0)] [(''global_mean'', jrat 0)] [''lane''] demo_outcome_row = Inr e
      \<and> rw_reward_delta e = Some 0 \<and> rw_cost_delta e = Some 0"
    using demo_dr_value [of "''reward''"] demo_dr_value [of "''realized_cost''"]
    by (simp add: row_evidence_of_def t demo_probability demo_chosen delta_def BASELINE_ARM_def)
  then show ?thesis
    by (auto simp: evaluate_context_policy_dr_def somes_def bootstrap_mean_ci_def Let_def)
qed

lemma demo_sequence:
  "\<exists>sq. anytime_hoeffding_sequence (\<lambda>_ _ _. 0) [0] (19/20) (shadow_bound (so_range demo_shadow_options)) = Inr sq
     \<and> map_option iv_lower (hs_final sq) = Some 0"
  by (simp add: demo_shadow_options_def shadow_bound_def fl_max_def anytime_hoeffding_sequence_def interval_at_def Let_def
      power_of_two_def)

lemma demo_shadow_gathered:
  "\<exists>e. gather_shadow demo_rt demo_parse (\<lambda>_ _ _. 0) (\<lambda>_ _. 0) [demo_outcome_row] demo_learned_manifest demo_key demo_shadow_options
     = Inr e \<and> shadow_blockers demo_shadow_options e = [] \<and> se_cutoff e = ''t0''
       \<and> (\<exists>v. se_verification e = v \<and> truthy (jget v ''valid''))"
proof -
  obtain v where v: "verify_policy_manifest demo_rt demo_learned_manifest demo_key = Inr v" "truthy (jget v ''valid'')"
    by (simp add: verify_policy_manifest_def demo_learned_manifest_ok dict_simps)
  obtain ex where rows: "post_cutoff_rows demo_rt demo_parse [demo_outcome_row] ''t0'' = Inr ([demo_outcome_row], ex)"
    using demo_post_cutoff by blast
  have parts: "policy_parts demo_learned_manifest = Some ([JStr ''lane''], [(demo_context, JStr ''bm25_rank'')],
      [(''global_mean'', jrat 0)], [(''global_mean'', jrat 0)])"
    by (simp add: policy_parts_def demo_learned_manifest_fields)
  obtain sq where sq: "anytime_hoeffding_sequence (\<lambda>_ _ _. 0) [0] (19/20) (shadow_bound (so_range demo_shadow_options)) = Inr sq"
    "map_option iv_lower (hs_final sq) = Some 0" using demo_sequence by blast
  obtain dr where dr: "evaluate_context_policy_dr demo_rt (\<lambda>_ _. 0) [demo_outcome_row] [(demo_context, ''bm25_rank'')]
      [(''global_mean'', jrat 0)] [(''global_mean'', jrat 0)] [''lane''] (19/20) 1 1 = Inr dr" using demo_dr by blast
  have so: "so_confidence demo_shadow_options = 19/20" "so_resamples demo_shadow_options = 1" "so_seed demo_shadow_options = 1"
    "so_minimum_new demo_shadow_options = 1" "so_safety_margin demo_shadow_options = Fin (-1)" "so_max_cost demo_shadow_options = None"
    by (simp_all add: demo_shadow_options_def)
  have m: "measure_shadow demo_rt (\<lambda>_ _ _. 0) (\<lambda>_ _. 0) demo_learned_manifest demo_shadow_options [demo_outcome_row]
      ([JStr ''lane''], [(demo_context, JStr ''bm25_rank'')], [(''global_mean'', jrat 0)], [(''global_mean'', jrat 0)])
      = Inr ([Scored demo_outcome_row 0 None], sq, dr)"
    by (simp add: measure_shadow_def demo_verdict shadow_scores_def supported_rows_def so sq dr)
  have guards: "\<not> fl_le (rr_max (so_range demo_shadow_options)) (rr_min (so_range demo_shadow_options))"
    "\<not> fl_le (rr_max_weight (so_range demo_shadow_options)) (Fin 0)"
    by (simp_all add: demo_shadow_options_def fl_le_def)
  have g: "gather_shadow demo_rt demo_parse (\<lambda>_ _ _. 0) (\<lambda>_ _. 0) [demo_outcome_row] demo_learned_manifest demo_key demo_shadow_options
      = Inr \<lparr>se_verification = v, se_cutoff = ''t0'', se_rows = [demo_outcome_row], se_excluded = ex,
          se_verdicts = [Scored demo_outcome_row 0 None], se_sequence = sq, se_dr = dr\<rparr>"
    by (simp add: gather_shadow_def v(1) guards demo_learned_manifest_fields strip_t rows parts m Let_def)
  obtain iv where iv: "hs_final sq = Some iv" "iv_lower iv = 0" using sq(2) by auto
  have "shadow_blockers demo_shadow_options \<lparr>se_verification = v, se_cutoff = ''t0'', se_rows = [demo_outcome_row], se_excluded = ex,
          se_verdicts = [Scored demo_outcome_row 0 None], se_sequence = sq, se_dr = dr\<rparr> = []"
    by (simp add: shadow_blockers_Nil v(2) so unsupported_events_def VIOLATION_KINDS_def violation_total_def clears_margin_def
        cost_met_def fl_le_def iv)
  then show ?thesis using g v(2) by auto
qed

section \<open>The approval\<close>

lemma demo_shadow_approved:
  "\<exists>shadow state. evaluate_shadow_policy demo_rt demo_parse (\<lambda>_ _ _. 0) (\<lambda>_ _. 0) [demo_outcome_row] demo_learned_manifest demo_key
      demo_shadow_options = Inr shadow
    \<and> create_deployment_state demo_rt ''t1'' [] demo_learned_manifest shadow demo_key ''ops'' default_params = Inr state"
proof -
  obtain e where e: "gather_shadow demo_rt demo_parse (\<lambda>_ _ _. 0) (\<lambda>_ _. 0) [demo_outcome_row] demo_learned_manifest demo_key
      demo_shadow_options = Inr e" "shadow_blockers demo_shadow_options e = []" "se_cutoff e = ''t0''"
      "truthy (jget (se_verification e) ''valid'')" using demo_shadow_gathered by blast
  define shadow where "shadow = shadow_report demo_learned_manifest demo_shadow_options e"
  obtain p where p: "jget demo_learned_manifest ''policy_id'' = JStr p"
    using manifest_policy_id [OF demo_learned_manifest_ok] by (auto simp: manifest_fields_def demo_learned_manifest_fields demo_fields)
  have ok: "shadow_report_ok demo_learned_manifest shadow"
    by (simp add: shadow_report_ok_def shadow_def shadow_report_def dict_simps p demo_learned_manifest_fields e)
  have ops: "strip ''ops'' = ''ops''" by (simp add: strip_def rstrip_def lstrip_def is_space_def code_def)
  have par: "check_params default_params k = k" for k :: "json dict result"
    by (simp add: check_params_def default_params_def fl_finite_def bounded_fraction_ok_def unit_interval_def fl_le_def)
  have "\<exists>d. low_risk_context_distribution demo_rt [] demo_learned_manifest 2000 = Inr d"
    by (simp add: low_risk_context_distribution_def demo_learned_manifest_fields last_n_def)
  then have "\<exists>s. create_deployment_state demo_rt ''t1'' [] demo_learned_manifest shadow demo_key ''ops'' default_params = Inr s"
    by (auto simp: create_deployment_state_def demo_learned_manifest_ok ok ops par sign_payload_def demo_key_nonempty Let_def)
  then show ?thesis using e(1) by (auto simp: evaluate_shadow_policy_def shadow_def)
qed

section \<open>An arm that is recommended\<close>

definition demo_control_row :: "json dict" where
  "demo_control_row =
     [(''decision_id'', JStr ''d2''), (''chosen_arm'', JStr BASELINE_ARM),
      (''arm_propensities'', JDict [(BASELINE_ARM, jrat (1/2)), (''bm25_rank'', jrat (1/2))]),
      (''outcome'', JDict [(''verified'', JBool True), (''reward'', jrat 0), (''realized_cost'', jrat 0)])]"

definition demo_arm_gate :: gate where
  "demo_arm_gate = \<lparr>ga_minimum_ess = Fin 1, ga_minimum_direct = 1, ga_safety_margin = Fin 0, ga_max_cost = Some (Fin 0)\<rparr>"

lemma demo_control_parts:
  "jget demo_control_row ''arm_propensities'' = JDict [(BASELINE_ARM, jrat (1/2)), (''bm25_rank'', jrat (1/2))]"
  "jget demo_control_row ''outcome'' = JDict [(''verified'', JBool True), (''reward'', jrat 0), (''realized_cost'', jrat 0)]"
  "chosen_arm_of demo_rt demo_control_row = BASELINE_ARM"
  "chosen_arm_of demo_rt demo_outcome_row = ''bm25_rank''"
  by (simp_all add: demo_control_row_def demo_outcome_row_def dict_simps chosen_arm_of_def)

lemma demo_row_dicts:
  "row_dict demo_outcome_row ''arm_propensities'' = Inr [(BASELINE_ARM, jrat (1/2)), (''bm25_rank'', jrat (1/2))]"
  "row_dict demo_outcome_row ''outcome'' = Inr [(''verified'', JBool True), (''reward'', jrat 1), (''realized_cost'', jrat 0),
     (''recorded_at'', JStr ''t1'')]"
  "row_dict demo_control_row ''arm_propensities'' = Inr [(BASELINE_ARM, jrat (1/2)), (''bm25_rank'', jrat (1/2))]"
  "row_dict demo_control_row ''outcome'' = Inr [(''verified'', JBool True), (''reward'', jrat 0), (''realized_cost'', jrat 0)]"
  by (simp_all add: row_dict_def demo_outcome_row_def demo_control_row_def dget_Cons)

lemma demo_verified: "verified_rows demo_rt [demo_outcome_row, demo_control_row] = Inr [demo_outcome_row, demo_control_row]"
  by (simp add: verified_row_def verified_outcome_def demo_row_parts demo_control_parts dict_simps positive_def BASELINE_ARM_def)

lemma demo_targets:
  "a \<in> {BASELINE_ARM, ''bm25_rank''} \<Longrightarrow> safe_target_action demo_outcome_row a = Inr a"
  "a \<in> {BASELINE_ARM, ''bm25_rank''} \<Longrightarrow> safe_target_action demo_control_row a = Inr a"
  by (auto simp: safe_target_action_def demo_row_parts demo_control_parts dict_simps positive_def BASELINE_ARM_def)

lemma demo_samples:
  "samples_of demo_rt ''bm25_rank'' [demo_outcome_row, demo_control_row]
     = Inr [\<lparr>sa_weight = 2, sa_reward = 1, sa_cost = 0, sa_direct = True\<rparr>]"
  "samples_of demo_rt BASELINE_ARM [demo_outcome_row, demo_control_row]
     = Inr [\<lparr>sa_weight = 2, sa_reward = 0, sa_cost = 0, sa_direct = False\<rparr>]"
  by (simp_all add: samples_of_def sample_of_def demo_targets demo_control_parts demo_row_dicts make_sample_def dict_simps)
    (simp_all add: BASELINE_ARM_def demo_row_dicts [unfolded BASELINE_ARM_def] dict_simps)

lemma demo_snips:
  assumes "field \<in> {''reward'', ''realized_cost''}"
  shows "snips_value demo_rt [demo_outcome_row, demo_control_row] ''bm25_rank'' field = Inr (Some (if field = ''reward'' then 1 else 0))"
    and "snips_value demo_rt [demo_outcome_row, demo_control_row] BASELINE_ARM field = Inr (Some 0)"
  using assms
  by (auto simp: snips_value_def field_sample_def demo_targets demo_control_parts demo_row_dicts demo_row_parts dict_simps
      Let_def BASELINE_ARM_def)

lemma demo_boot:
  assumes "field \<in> {''reward'', ''realized_cost''}"
  shows "\<exists>d. bootstrap_delta demo_rt (\<lambda>_ k. k) [demo_outcome_row, demo_control_row] ''bm25_rank'' field (19/20) 1 seed = Inr d
    \<and> de_ci_low d = Some (if field = ''reward'' then 1 else 0)"
proof -
  have "drawn_rows (\<lambda>_ k. k) seed [demo_outcome_row, demo_control_row] 0 = [demo_outcome_row, demo_control_row]"
    by (simp add: drawn_rows_def Let_def upt_rec)
  then show ?thesis
    using demo_snips [OF assms]
    by (simp add: bootstrap_delta_def snips_delta_def delta_def percentile_def Let_def)
qed

lemma demo_recommended:
  "\<exists>r. evaluate_learning_policies demo_rt (\<lambda>_ k. k) [demo_outcome_row, demo_control_row] (Some [''bm25_rank'']) (19/20) 1 1
     demo_arm_gate = Inr r \<and> op_recommended r = ''bm25_rank''"
proof -
  let ?rows = "[demo_outcome_row, demo_control_row]"
  have arms: "requested_arms (Some [''bm25_rank'']) = [''bm25_rank'']" by (simp add: requested_arms_def strip_t uniq_def)
  obtain d c where d: "bootstrap_delta demo_rt (\<lambda>_ k. k) ?rows ''bm25_rank'' ''reward'' (19/20) 1 1 = Inr d" "de_ci_low d = Some 1"
    and c: "bootstrap_delta demo_rt (\<lambda>_ k. k) ?rows ''bm25_rank'' ''realized_cost'' (19/20) 1 2 = Inr c"
    using demo_boot [of "''reward''" 1] demo_boot [of "''realized_cost''" 2] by auto
  obtain e where e: "estimate_of demo_rt ?rows ''bm25_rank'' = Inr e" "es_ess e = 1" "es_direct e = 1"
      "es_snips_reward e = Some 1" "es_max_direct_cost e = Some 0"
    by (simp add: estimate_of_def demo_samples effective_size_def rounded_def snips_def total_weight_def weighted_def
        max_or_none_def Let_def)
  obtain b where b: "estimate_of demo_rt ?rows BASELINE_ARM = Inr b" by (simp add: estimate_of_def demo_samples)
  have blockers: "arm_blockers demo_arm_gate e d = []"
    by (simp add: arm_blockers_Nil demo_arm_gate_def e d(2) clears_margin_def cost_met_def fl_le_def)
  have ev: "rmap (evaluate_arm demo_rt (\<lambda>_ k. k) ?rows (19/20) 1 1 demo_arm_gate) [''bm25_rank'']
      = Inr [(''bm25_rank'', \<lparr>el_estimate = e, el_reward_delta = d, el_cost_delta = c, el_eligible = True, el_blockers = []\<rparr>)]"
    by (simp add: evaluate_arm_def e(1) d(1) c blockers BASELINE_ARM_def)
  have safe: "find (\<lambda>arm. arm \<notin> set SAFE_EXPLORATION_ARMS) [''bm25_rank''] = None" by (simp add: SAFE_EXPLORATION_ARMS_def)
  show ?thesis
    unfolding evaluate_learning_policies_def arms Let_def safe
    by (simp only: option.case demo_verified rbind_simps b ev)
      (simp add: recommend_def promotion_key_def d(2) e(4))
qed

end
