(* ===== verification/EngineJournal.thy ===== *)
theory EngineJournal
  imports EngineProps JournalProps
begin

text \<open>
  The audit record of a run: the token funnel of \<open>context_economics.py\<close> and the journal that
  \<open>gather_detailed_async\<close> of \<open>workflow_engine.py\<close> builds from what it did.  What the working tree, the graph and
  the registered repositories look like is an argument (\<open>run_state\<close>), as in \<open>RunJournal\<close>.
\<close>

section \<open>The token funnel\<close>

definition ratio_json :: "int \<Rightarrow> int \<Rightarrow> json" where
  "ratio_json numerator denominator =
     (if denominator \<le> 0 then JNull else JFloat (Fin (round_to 4 (of_int numerator / of_int denominator))))"

definition retrieval_token_funnel ::
  "(string \<Rightarrow> string) \<Rightarrow> (string \<Rightarrow> int) \<Rightarrow> context_item list \<Rightarrow> context_item list \<Rightarrow> context_item list \<Rightarrow> int \<Rightarrow> int \<Rightarrow> nat
     \<Rightarrow> json dict" where
  "retrieval_token_funnel blake est retrieved ranked selected hard adaptive calls =
     (let unique = dedupe (dedupe_key blake) retrieved {};
          retrieved_tokens = tokens_of est retrieved; unique_tokens = tokens_of est unique;
          ranked_tokens = tokens_of est ranked; selected_tokens = tokens_of est selected;
          duplicate_tokens = max 0 (retrieved_tokens - unique_tokens);
          duplicate_items = max 0 (int (length retrieved) - int (length unique))
      in [(''estimator'', JStr ''provider_neutral_estimate''),
          (''retrieved_item_count'', JInt (int (length retrieved))),
          (''retrieved_estimated_tokens'', JInt retrieved_tokens),
          (''unique_retrieved_item_count'', JInt (int (length unique))),
          (''unique_retrieved_estimated_tokens'', JInt unique_tokens),
          (''duplicate_item_count'', JInt duplicate_items),
          (''duplicate_estimated_tokens'', JInt duplicate_tokens),
          (''duplicate_token_fraction'', ratio_json duplicate_tokens retrieved_tokens),
          (''ranked_candidate_item_count'', JInt (int (length ranked))),
          (''ranked_candidate_estimated_tokens'', JInt ranked_tokens),
          (''selected_item_count'', JInt (int (length selected))),
          (''selected_estimated_tokens'', JInt selected_tokens),
          (''selected_vs_retrieved_token_ratio'', ratio_json selected_tokens retrieved_tokens),
          (''selected_vs_ranked_token_ratio'', ratio_json selected_tokens ranked_tokens),
          (''estimated_token_reduction_vs_retrieved'',
             if 0 < retrieved_tokens then JFloat (Fin (round_to 4 (1 - of_int selected_tokens / of_int retrieved_tokens))) else JNull),
          (''hard_budget_tokens'', JInt (max 0 hard)),
          (''adaptive_budget_tokens'', JInt (max 0 adaptive)),
          (''selected_hard_budget_utilization'', ratio_json selected_tokens (max 0 hard)),
          (''selected_adaptive_budget_utilization'', ratio_json selected_tokens (max 0 adaptive)),
          (''adaptive_budget_fraction'', ratio_json (max 0 adaptive) (max 0 hard)),
          (''retrieval_call_count'', JInt (int calls))])"

section \<open>The records\<close>

definition SAFE_METADATA_KEYS :: "string list" where
  "SAFE_METADATA_KEYS = [''path'', ''file'', ''line'', ''start_line'', ''end_line'', ''sha256'', ''symbol'', ''endpoint'',
     ''pattern'', ''role'', ''language'']"

definition SAFE_PROVENANCE_KEYS :: "string list" where
  "SAFE_PROVENANCE_KEYS = [''path'', ''file'', ''line'', ''start_line'', ''end_line'', ''sha256'', ''retriever'', ''fresh'', ''trust'']"

definition restricted :: "string list \<Rightarrow> json dict \<Rightarrow> json dict" where
  "restricted ks d = filter (\<lambda>(k, _). k \<in> set ks) d"

definition safe_item_descriptor :: "(string \<Rightarrow> string) \<Rightarrow> bool \<Rightarrow> nat option \<Rightarrow> context_item \<Rightarrow> json dict" where
  "safe_item_descriptor blake include_evidence rank i =
     [(''source'', JStr (ci_source i)), (''dedupe_key'', JStr (dedupe_key blake i)), (''stale'', JBool (ci_stale i)),
      (''score'', JFloat (Fin (ci_score i))), (''metadata'', JDict (restricted SAFE_METADATA_KEYS (ci_metadata i))),
      (''provenance'', JDict (restricted SAFE_PROVENANCE_KEYS (ci_provenance i)))]
     @ (case rank of None \<Rightarrow> [] | Some n \<Rightarrow> [(''rank'', JInt (int n))])
     @ (if include_evidence
        then [(''evidence'', case ci_evidence i of Some e \<Rightarrow> JDict (envelope_json e) | None \<Rightarrow> JNull)] else [])"

definition selector_json :: "chosen_context \<Rightarrow> json dict" where
  "selector_json kx = (case kx_report kx of
     None \<Rightarrow> [(''mode'', JStr (kx_mode kx)), (''selected_count'', JInt (int (length (kx_items kx)))),
        (''used_chars'', JInt (kx_used_chars kx))]
   | Some r \<Rightarrow> [(''mode'', JStr (sr_mode r)), (''candidate_count'', JInt (int (sr_candidate_count r))),
        (''selector_candidates'', JInt (int (sr_selector_candidates r))), (''candidate_limit'', JInt (sr_candidate_limit r)),
        (''selected_count'', JInt (int (sr_selected_count r))), (''used_chars'', JInt (kx_used_chars kx)),
        (''used_tokens'', case kx_used_tokens kx of Some n \<Rightarrow> JInt n | None \<Rightarrow> JNull),
        (''budget_chars'', JInt (sr_budget_chars r)),
        (''budget_tokens'', case sr_budget_tokens r of Some n \<Rightarrow> JInt n | None \<Rightarrow> JNull)]
       @ (case sr_budget_ratio r of Some x \<Rightarrow> [(''budget_ratio'', JFloat (Fin x))] | None \<Rightarrow> [])
       @ (case sr_mandatory_sources r of Some ms \<Rightarrow> [(''mandatory_sources'', JList (map JStr ms))] | None \<Rightarrow> [])
       @ (if kx_fallback kx then [(''fallback'', JStr ''hard_cap_token_bounded'')] else []))"

definition decision_dict :: "route_decision \<Rightarrow> json dict" where
  "decision_dict d = [(''lane'', JStr (lane_value (rd_lane d))), (''risk'', JStr (risk_value (rd_risk d))),
     (''reasons'', JList (map JStr (rd_reasons d))), (''structural_context'', JBool (rd_structural d)),
     (''confidence'', JFloat (Fin (rd_confidence d)))]"

definition task_policy_dict :: "task_policy \<Rightarrow> json dict" where
  "task_policy_dict t = [(''profile'', JStr (tp_profile t)),
     (''fusion_weights'', JDict [(''source'', JFloat (Fin (tp_source_weight t))), (''lexical'', JFloat (Fin (tp_lexical_weight t))),
        (''specialist'', JFloat (Fin (tp_specialist_weight t)))]),
     (''mmr_lambda'', JFloat (Fin (tp_mmr_lambda t))), (''reason'', JStr (tp_reason t))]"

definition capability_policy_dict :: "capability_policy \<Rightarrow> json dict" where
  "capability_policy_dict p = [(''schema'', JStr (cp_schema p)), (''lane'', JStr (cp_lane p)), (''risk'', JStr (cp_risk p)),
     (''allowed_tools'', JList (map JStr (cp_allowed_tools p))),
     (''active_repository_ids'', JList (map JStr (cp_active_repository_ids p))),
     (''verification_passes'', JInt (cp_verification_passes p)), (''max_graph_depth'', JInt (cp_max_graph_depth p)),
     (''denied_by_default'', JList (map JStr (cp_denied_by_default p))), (''task_digest'', opt_str (cp_task_digest p)),
     (''policy_owner'', JStr (cp_policy_owner p))]"

text \<open>What a run reads of its surroundings: its identifier, the state of the working tree, of the graph and of the
  repositories, the elapsed time and the limits of the scheduler.\<close>

record run_state =
  ru_run_id :: string
  ru_workspace :: "json dict"
  ru_graph :: "json dict"
  ru_repository_fingerprint :: string
  ru_repository_count :: int
  ru_versions :: "string dict"
  ru_elapsed_ms :: pyfloat
  ru_max_concurrency :: int
  ru_deadline :: pyfloat

definition error_kind_dict :: "runtime \<Rightarrow> json dict \<Rightarrow> json" where
  "error_kind_dict rt e = JDict [(''kind'', JStr (py_str rt (py_or (jget e ''kind'') (JStr ''provider_error'')))),
     (''timed_out'', JBool (truthy (jget_or e ''timed_out'' (JBool False))))]"

definition scheduler_dict :: "run_state \<Rightarrow> trace \<Rightarrow> json dict" where
  "scheduler_dict ru t = [(''max_concurrency'', JInt (ru_max_concurrency ru)),
     (''global_deadline_seconds'', JFloat (ru_deadline ru)), (''deadline_exceeded'', JBool (tr_deadlines t \<noteq> [])),
     (''deadline_labels'', JList (map JStr (tr_deadlines t))), (''elapsed_ms'', JFloat (round_ms (ru_elapsed_ms ru)))]"

definition run_funnel :: "engine_env \<Rightarrow> request \<Rightarrow> gathered \<Rightarrow> json dict" where
  "run_funnel env rq g = retrieval_token_funnel (en_blake env) (en_est env)
     (tr_base (gd_trace g) @ tr_specialist (gd_trace g)) (gd_ranked g) (gd_selected g)
     (cb_estimated_tokens (qr_budget rq)) (gd_tokens g) (length (tr_attempted (gd_trace g)))"

definition retrieval_record ::
  "runtime \<Rightarrow> engine_env \<Rightarrow> run_state \<Rightarrow> retrieval_plan \<Rightarrow> request \<Rightarrow> gathered \<Rightarrow> json dict" where
  "retrieval_record rt env ru plan rq g =
     [(''retrieval_intent'', JStr (intent_value (pl_intent plan))), (''retrieval_reason'', JStr (pl_reason plan)),
      (''evidence_state'', JStr (gd_state g)),
      (''providers_attempted'', JList (map JStr (tr_attempted (gd_trace g)))),
      (''providers_skipped'', JDict (map (map_prod id JStr) (tr_skipped (gd_trace g)))),
      (''provider_errors'', JDict (map (map_prod id (error_kind_dict rt)) (tr_errors (gd_trace g)))),
      (''sufficiency'', JDict (sufficiency_json (gd_sufficiency g) plan)),
      (''selective_retrieval'', JDict (selective_json (gd_selective g) @ [(''enabled'', JBool (gd_selective_enabled g))])),
      (''selector'', JDict (selector_json (gd_context g))),
      (''token_funnel'', JDict (run_funnel env rq g)),
      (''fallbacks'', JList (map JStr (tr_fallbacks (gd_trace g)))),
      (''scheduler'', JDict (scheduler_dict ru (gd_trace g)))]"

definition selected_evidence :: "engine_env \<Rightarrow> gathered \<Rightarrow> json" where
  "selected_evidence env g = JList (map (\<lambda>i. JDict (safe_item_descriptor (en_blake env) True None i)) (gd_selected g))"

definition ranking_record :: "engine_env \<Rightarrow> retrieval_plan \<Rightarrow> request \<Rightarrow> ranking_policy \<Rightarrow> gathered \<Rightarrow> json dict" where
  "ranking_record env plan rq policy g =
     [(''algorithm_policy'', JDict (policy_json policy)),
      (''task_retrieval_policy'', JDict (task_policy_dict (task_retrieval_policy (qr_query rq) plan (qr_changed rq)))),
      (''candidate_count'', JInt (int (length (gd_ranked g)))),
      (''candidates'', JList (map (\<lambda>(n, i). JDict (safe_item_descriptor (en_blake env) False (Some n) i))
         (zip [1..<length (gd_ranked g) + 1] (gd_ranked g))))]"

definition policy_identity ::
  "runtime \<Rightarrow> json dict \<Rightarrow> retrieval_plan \<Rightarrow> request \<Rightarrow> ranking_policy \<Rightarrow> json dict" where
  "policy_identity rt config plan rq policy =
     [(''config_digest'', JStr (config_digest rt config)),
      (''retrieval_policy_version'', JStr (py_str rt (jget_or config ''version'' (JStr ''unknown'')))),
      (''algorithm_policy'', JDict (policy_json policy)),
      (''task_retrieval_policy'', JDict (task_policy_dict (task_retrieval_policy (qr_query rq) plan (qr_changed rq))))]"

definition journal_input ::
  "runtime \<Rightarrow> engine_env \<Rightarrow> run_state \<Rightarrow> json dict \<Rightarrow> retrieval_plan \<Rightarrow> request \<Rightarrow> ranking_policy \<Rightarrow> gathered \<Rightarrow> json dict" where
  "journal_input rt env ru config plan rq policy g =
     [(''run_id'', JStr (ru_run_id ru)),
      (''policy_identity'', JDict (policy_identity rt config plan rq policy)),
      (''workspace_state'', JDict [(''fingerprint'', jget (ru_workspace ru) ''fingerprint''),
         (''git_head'', jget (ru_workspace ru) ''git_head'')]),
      (''graph_state'', JDict (ru_graph ru)),
      (''repository_state'', JDict [(''fingerprint'', JStr (ru_repository_fingerprint ru)),
         (''repository_count'', JInt (ru_repository_count ru))]),
      (''changed_files'', JList (map JStr (qr_changed rq))),
      (''provider_versions'', JDict (map (map_prod id JStr) (ru_versions ru))),
      (''retrieval'', JDict (retrieval_record rt env ru plan rq g)),
      (''selected_evidence'', selected_evidence env g)]"

definition replay_event :: "string \<Rightarrow> json dict \<Rightarrow> json dict" where
  "replay_event kind payload = [(''kind'', JStr kind), (''payload'', JDict payload)]"

definition journal_events ::
  "runtime \<Rightarrow> engine_env \<Rightarrow> run_state \<Rightarrow> routing_plan \<Rightarrow> retrieval_plan \<Rightarrow> request \<Rightarrow> ranking_policy \<Rightarrow> gathered
     \<Rightarrow> json dict list" where
  "journal_events rt env ru routes plan rq policy g =
     [replay_event ''routing'' (decision_dict (qr_decision rq)),
      replay_event ''repository_routing'' (plan_json routes),
      replay_event ''retrieval'' (retrieval_record rt env ru plan rq g),
      replay_event ''ranking'' (ranking_record env plan rq policy g),
      replay_event ''selection'' [(''selected_count'', JInt (int (length (gd_selected g)))),
         (''selected_evidence'', selected_evidence env g)],
      replay_event ''orchestration'' (contract_json (gd_contract g)),
      replay_event ''authorization'' (capability_policy_dict (gd_policy g))]"

text \<open>Building may raise; a failure to write is only noted.\<close>

definition engine_journal ::
  "runtime \<Rightarrow> engine_env \<Rightarrow> run_state \<Rightarrow> routing_plan \<Rightarrow> json dict \<Rightarrow> retrieval_plan \<Rightarrow> request \<Rightarrow> ranking_policy \<Rightarrow> gathered
     \<Rightarrow> json dict result" where
  "engine_journal rt env ru routes config plan rq policy g =
     build_replay_journal rt (journal_input rt env ru config plan rq policy g) (journal_events rt env ru routes plan rq policy g)"

definition record_run ::
  "runtime \<Rightarrow> engine_env \<Rightarrow> run_state \<Rightarrow> routing_plan \<Rightarrow> json dict \<Rightarrow> retrieval_plan \<Rightarrow> request \<Rightarrow> ranking_policy \<Rightarrow> gathered
     \<Rightarrow> publish_outcome \<Rightarrow> directory \<Rightarrow> string option result \<times> directory" where
  "record_run rt env ru routes config plan rq policy g out d =
     (case engine_journal rt env ru routes config plan rq policy g of
        Inl e \<Rightarrow> (Inl e, d)
      | Inr j \<Rightarrow> (case write_run_journal rt out j d of
          (Inr path, d') \<Rightarrow> (Inr (Some path), d')
        | (Inl e, d') \<Rightarrow> (if is_os_error e \<or> is_value_error e then Inr None else Inl e, d')))"

section \<open>The journal of a run is accepted\<close>

lemma journal_input_wf: "dict_wf (journal_input rt env ru config plan rq policy g)"
  by (simp add: journal_input_def dict_wf_def dkeys_def)

lemma journal_run_id: "text_or_empty rt (jget (journal_input rt env ru config plan rq policy g) ''run_id'') = ru_run_id ru"
  by (cases "ru_run_id ru = []") (simp_all add: journal_input_def dict_simps text_or_empty_def)

lemma journal_snapshots:
  "consistent_snapshots (journal_input rt env ru config plan rq policy g) (journal_events rt env ru routes plan rq policy g)"
  by (simp add: consistent_snapshots_def journal_events_def journal_input_def replay_event_def dict_simps dict_wf_def dkeys_def)

lemma journal_event_kinds:
  "map (event_kind rt) (journal_events rt env ru routes plan rq policy g) = EXPECTED_REPLAY_EVENT_KINDS"
  by (simp add: journal_events_def event_kind_def replay_event_def dict_simps text_or_empty_def EXPECTED_REPLAY_EVENT_KINDS_def
      strip_def rstrip_def lstrip_def is_space_def code_def)

text \<open>What a journal can hold: no JSON text exists for a non-finite number.\<close>

definition finite_dict :: "json dict \<Rightarrow> bool" where
  "finite_dict d = all_finite (JDict d)"

definition finite_item :: "context_item \<Rightarrow> bool" where
  "finite_item i = (finite_dict (ci_metadata i) \<and> finite_dict (ci_provenance i)
     \<and> (case ci_evidence i of Some e \<Rightarrow> finite_dict (ev_provenance e) | None \<Rightarrow> True))"

definition finite_run :: "run_state \<Rightarrow> bool" where
  "finite_run ru = (finite_dict (ru_workspace ru) \<and> finite_dict (ru_graph ru) \<and> fl_finite (ru_elapsed_ms ru) \<and> fl_finite (ru_deadline ru))"

lemma finite_dict_simps [simp]:
  "finite_dict []" "finite_dict ((k, v) # d) \<longleftrightarrow> all_finite v \<and> finite_dict d"
  "finite_dict (d @ d') \<longleftrightarrow> finite_dict d \<and> finite_dict d'" "all_finite (JDict d) \<longleftrightarrow> finite_dict d"
  by (simp_all add: finite_dict_def)

lemma finite_strings [simp]: "finite_dict (map (map_prod id JStr) d)" "all_finite (opt_str s)"
  by (auto simp: finite_dict_def list_all_iff opt_str_def split: option.split)

lemma finite_restricted: "finite_dict d \<Longrightarrow> finite_dict (restricted ks d)"
  by (auto simp: finite_dict_def restricted_def list_all_iff)

lemma finite_jget: "finite_dict d \<Longrightarrow> all_finite (jget d k)"
  using all_finite_jget by (simp add: finite_dict_def)

lemma finite_JList [simp]: "all_finite (JList xs) \<longleftrightarrow> (\<forall>x \<in> set xs. all_finite x)"
  by (auto simp: list_all_iff)

declare all_finite.simps(6,7) [simp del]

lemma finite_json_parts [simp]:
  "finite_dict (envelope_json e) \<longleftrightarrow> finite_dict (ev_provenance e)"
  "finite_dict (sufficiency_json s plan)" "finite_dict (selective_json d)" "finite_dict (policy_json policy)"
  "finite_dict (contract_json ct)" "finite_dict (decision_dict decision)" "finite_dict (task_policy_dict t)"
  "finite_dict (capability_policy_dict p)"
  by (simp_all add: envelope_json_def authority_json_def sufficiency_json_def selective_json_def policy_json_def contract_json_def
      complexity_json_def budget_json_def decision_dict_def task_policy_dict_def capability_policy_dict_def fl_finite_def)

lemma finite_ratio [simp]: "all_finite (ratio_json a b)"
  by (simp add: ratio_json_def fl_finite_def)

lemma finite_funnel [simp]: "finite_dict (retrieval_token_funnel blake est xs ys zs h a n)"
  by (simp add: retrieval_token_funnel_def Let_def fl_finite_def)

lemma finite_selector [simp]: "finite_dict (selector_json kx)"
  by (simp add: selector_json_def fl_finite_def split: option.split)

lemma finite_routes [simp]: "finite_dict (plan_json routes)"
  by (simp add: plan_json_def fl_finite_def)

lemma finite_errors [simp]: "finite_dict (map (map_prod id (error_kind_dict rt)) es)"
  by (induction es) (auto simp: error_kind_dict_def)

lemma finite_descriptor: "finite_item i \<Longrightarrow> finite_dict (safe_item_descriptor blake b n i)"
  by (simp add: safe_item_descriptor_def finite_item_def finite_restricted fl_finite_def split: option.splits)

lemma finite_selected: "\<forall>i \<in> set (gd_selected g). finite_item i \<Longrightarrow> all_finite (selected_evidence env g)"
  by (simp add: selected_evidence_def finite_descriptor)

lemma finite_scheduler: "finite_run ru \<Longrightarrow> finite_dict (scheduler_dict ru t)"
  by (cases "ru_elapsed_ms ru") (simp_all add: scheduler_dict_def finite_run_def fl_finite_def round_ms_def)

lemma finite_retrieval: "finite_run ru \<Longrightarrow> finite_dict (retrieval_record rt env ru plan rq g)"
  by (simp add: retrieval_record_def finite_scheduler run_funnel_def)

lemma finite_ranking: "\<forall>i \<in> set (gd_ranked g). finite_item i \<Longrightarrow> finite_dict (ranking_record env plan rq policy g)"
  by (auto simp: ranking_record_def finite_descriptor dest!: set_zip_rightD)

lemma finite_input:
  assumes "finite_run ru" "\<forall>i \<in> set (gd_selected g). finite_item i"
  shows "all_finite (JDict (journal_input rt env ru config plan rq policy g))"
  using assms by (simp add: journal_input_def finite_retrieval finite_selected policy_identity_def finite_jget finite_run_def)

lemma journal_payloads:
  assumes "finite_run ru" "\<forall>i \<in> set (gd_ranked g) \<union> set (gd_selected g). finite_item i"
    and "e \<in> set (journal_events rt env ru routes plan rq policy g)"
  shows "\<exists>pl. jget e ''payload'' = JDict pl \<and> all_finite (JDict pl)"
  using assms
  by (auto simp: journal_events_def replay_event_def dict_simps finite_retrieval finite_ranking finite_selected)

text \<open>The request names files a journal accepts: at most 4096, each a non-empty text of at most 4096 characters without
  a null.\<close>

definition recordable_request :: "request \<Rightarrow> bool" where
  "recordable_request rq =
     (length (qr_changed rq) \<le> MAX_CHANGED_FILES \<and> list_all (\<lambda>f. valid_changed_file (JStr f)) (qr_changed rq))"

lemma recordable_iff:
  "recordable_request rq \<longleftrightarrow> (\<exists>fs. validated_changed_files (journal_input rt env ru config plan rq policy g) True = Inr fs)"
  by (auto simp: recordable_request_def validated_changed_files_def journal_input_def dict_simps guard_that_def list_all_iff)

theorem engine_journal_builds:
  assumes "safe_run_id (ru_run_id ru) = Inr i" "recordable_request rq" "finite_run ru"
    and "\<forall>i \<in> set (gd_ranked g) \<union> set (gd_selected g). finite_item i"
  shows "\<exists>j. engine_journal rt env ru routes config plan rq policy g = Inr j"
  unfolding engine_journal_def
proof (rule journal_builds)
  show "\<forall>k \<in> set REQUIRED_MAPPINGS. is_dict (jget (journal_input rt env ru config plan rq policy g) k)"
    by (simp add: REQUIRED_MAPPINGS_def journal_input_def dict_simps is_dict_def)
  show "is_list (jget (journal_input rt env ru config plan rq policy g) ''selected_evidence'')"
    by (simp add: journal_input_def dict_simps is_list_def selected_evidence_def)
  show "all_finite (JDict (journal_input rt env ru config plan rq policy g))"
    using assms(3,4) by (intro finite_input) auto
  show "\<forall>e \<in> set (journal_events rt env ru routes plan rq policy g). \<exists>pl. jget e ''payload'' = JDict pl \<and> all_finite (JDict pl)"
    using journal_payloads [OF assms(3,4)] by blast
qed (use assms in \<open>auto simp: journal_run_id journal_input_wf journal_event_kinds simp flip: recordable_iff\<close>)

text \<open>With a file of its own, the run is recorded; whatever reached the disk is found by every later reader, which replays it
  if it is within the limit.\<close>

lemma journal_identifier:
  assumes "engine_journal rt env ru routes config plan rq policy g = Inr j" "safe_run_id (ru_run_id ru) = Inr i"
  shows "text_or_empty rt (jget j ''run_id'') = i"
proof -
  have b: "build_replay_journal rt (journal_input rt env ru config plan rq policy g)
      (journal_events rt env ru routes plan rq policy g) = Inr j"
    using assms(1) by (simp add: engine_journal_def)
  obtain k chained digest where k: "safe_run_id (text_or_empty rt (jget (journal_input rt env ru config plan rq policy g) ''run_id'')) = Inr k"
    and jb: "j = dset (journal_body (sorted_dict (journal_input rt env ru config plan rq policy g)) k chained)
      JOURNAL_DIGEST_FIELD (JStr digest)"
    by (rule build_replay_journal_InrE [OF b])
  have "k = i" using k assms(2) by (simp add: journal_run_id)
  then show ?thesis
    using safe_run_id_again [OF assms(2)] by (simp add: jb journal_body_def JOURNAL_DIGEST_FIELD_def text_or_empty_def)
qed

lemma engine_run_recorded:
  assumes "engine_journal rt env ru routes config plan rq policy g = Inr j"
    and "safe_run_id (ru_run_id ru) = Inr i" "dget d (i @ ''.json'') = None"
  shows "fst (record_run rt env ru routes config plan rq policy g out d)
      = (if out = Durable then Inr (Some (''ai-workspace/generated/run-journal/'' @ i @ ''.json'')) else Inr None)"
    "write_run_journal rt out j d = (fst (write_run_journal rt out j d), snd (record_run rt env ru routes config plan rq policy g out d))"
proof -
  have again: "safe_run_id i = Inr i" "i \<noteq> []" using safe_run_id_again [OF assms(2)] by auto
  have w: "write_run_journal rt out j d = (case atomic_create_json out (i @ ''.json'') (JDict j) d of
      (r, d') \<Rightarrow> (rbind r (\<lambda>_. Inr (''ai-workspace/generated/run-journal/'' @ i @ ''.json'')), d'))"
    using again by (simp add: write_run_journal_def journal_identifier [OF assms(1,2)] journal_path_def)
  show "fst (record_run rt env ru routes config plan rq policy g out d)
      = (if out = Durable then Inr (Some (''ai-workspace/generated/run-journal/'' @ i @ ''.json'')) else Inr None)"
    using assms(3) w by (cases out) (simp_all add: record_run_def assms(1) atomic_create_json_def sync_result_def is_os_error_def)
  show "write_run_journal rt out j d = (fst (write_run_journal rt out j d), snd (record_run rt env ru routes config plan rq policy g out d))"
    by (auto simp: record_run_def assms(1) split: prod.split sum.split)
qed

lemma engine_journal_replays:
  assumes j: "engine_journal rt env ru routes config plan rq policy g = Inr j"
    and i: "safe_run_id (ru_run_id ru) = Inr i" "dget d (i @ ''.json'') = None" and out: "out \<noteq> WriteFails"
  obtains chained where "chain_replay_events rt (journal_events rt env ru routes plan rq policy g) = Inr chained"
    "let r = replay_run_journal rt je (json_files.creations cs (snd (record_run rt env ru routes config plan rq policy g out d)))
         (ru_run_id ru) config'
     in if file_size rt (Holds (sort_keys (JDict j))) \<le> MAX_JOURNAL_BYTES
        then rp_found r \<and> in_valid (rp_integrity r) \<and> rp_events_released r \<and> rp_events r = map sorted_dict chained
        else \<not> rp_found r"
proof -
  note b = j [unfolded engine_journal_def]
  have e: "safe_run_id (ru_run_id ru) = safe_run_id (text_or_empty rt (jget (journal_input rt env ru config plan rq policy g) ''run_id''))"
    by (simp add: journal_run_id)
  have "journal_path (ru_run_id ru) = Inr name \<Longrightarrow> dget d name = None" for name
    using i by (auto simp: journal_path_def)
  then obtain name where n: "journal_path (ru_run_id ru) = Inr name"
    "find_file (json_files.creations cs (snd (record_run rt env ru routes config plan rq policy g out d))) name = Some (Holds (sort_keys (JDict j)))"
    using written_journal_found [OF b engine_run_recorded(2) [OF j i, of out] e, of "[]"] out by blast
  show ?thesis by (rule journal_on_disk [OF b journal_input_wf journal_snapshots e n]) (rule that)
qed

text \<open>Building is outside the handler that tolerates a failed write: a run whose identifier no file name can have, or with
  changed files beyond those bounds, raises after its whole context was gathered.\<close>

theorem engine_journal_refused:
  assumes "(\<nexists>i. safe_run_id (ru_run_id ru) = Inr i) \<or> \<not> recordable_request rq"
  shows "\<exists>e. record_run rt env ru routes config plan rq policy g out d = (Inl e, d)"
proof -
  have "\<exists>e. engine_journal rt env ru routes config plan rq policy g = Inl e"
  proof (rule ccontr)
    assume "\<nexists>e. engine_journal rt env ru routes config plan rq policy g = Inl e"
    then obtain j where "engine_journal rt env ru routes config plan rq policy g = Inr j"
      by (cases "engine_journal rt env ru routes config plan rq policy g") auto
    then have b: "build_replay_journal rt (journal_input rt env ru config plan rq policy g)
        (journal_events rt env ru routes plan rq policy g) = Inr j"
      by (simp add: engine_journal_def)
    have J: "jget (sorted_dict (journal_input rt env ru config plan rq policy g)) ''changed_files''
        = jget (journal_input rt env ru config plan rq policy g) ''changed_files''"
      unfolding jget_sorted [OF journal_input_wf] by (simp add: journal_input_def dict_simps)
    then have "validated_changed_files (sorted_dict (journal_input rt env ru config plan rq policy g)) True
        = validated_changed_files (journal_input rt env ru config plan rq policy g) True"
      by (simp add: validated_changed_files_def)
    with build_replay_journal_InrE [OF b] show False
      using assms recordable_iff [of rq rt env ru config plan policy g] journal_run_id [of rt env ru config plan rq policy g] by metis
  qed
  then show ?thesis by (auto simp: record_run_def)
qed

end
