(* ===== verification/Configuration.thy ===== *)
theory Configuration
  imports Guardrails Routing WriteOnce
begin

text \<open>
  \<open>config.py\<close> and \<open>typed_config.py\<close>: the built-in defaults, the upgrade of version 1 documents, the validation
  that every loaded configuration passes and the frozen form it is kept in.  A validation is the list of its checks
  in source order; the first failure is the exception.  What the file system answers is an argument.
\<close>

section \<open>The defaults\<close>

definition default_budgets :: "json dict" where
  "default_budgets =
     [(''answer'', JDict [(''estimated_tokens'', JInt 1200), (''output_tokens'', JInt 450)]), (''small'', JDict
     [(''estimated_tokens'', JInt 2500), (''output_tokens'', JInt 700)]), (''full'', JDict [(''estimated_tokens'',
     JInt 6000), (''output_tokens'', JInt 1200)])]"

definition default_classifier :: "json dict" where
  "default_classifier =
     [(''high_risk_keywords'', JList (map JStr [''auth'', ''authentication'', ''authorization'', ''security'',
     ''payment'', ''billing'', ''migration'', ''schema'', ''database'', ''delete data'', ''destructive'',
     ''concurrency'', ''race condition'', ''deploy'', ''production'', ''public api'', ''contract change'',
     ''permission'', ''credential'', ''secret''])), (''full_keywords'', JList (map JStr [''refactor'',
     ''architecture'', ''multi-file'', ''cross-cutting'', ''end-to-end'', ''redesign'', ''performance'',
     ''distributed'', ''integration'', ''implement feature''])), (''answer_keywords'', JList (map JStr [''explain'',
     ''what is'', ''how does'', ''why does'', ''compare'', ''difference'', ''where is'', ''show me'',
     ''understand''])), (''small_keywords'', JList (map JStr [''rename'', ''typo'', ''copy change'', ''small fix'',
     ''one-line'', ''one line'', ''adjust'', ''update text'']))]"

definition default_crg :: "json dict" where
  "default_crg =
     [(''mode'', JStr ''auto''), (''min_lane'', JStr ''full''), (''structural_keywords'', JList (map JStr [''caller'',
     ''callee'', ''dependency'', ''dependents'', ''impact'', ''blast radius'', ''flow'', ''architecture'',
     ''tests for'', ''refactor'', ''what breaks'', ''affected''])), (''min_source_files'', JInt 250),
     (''changed_files_threshold'', JInt 3)]"

definition default_semantic :: "json dict" where
  "default_semantic =
     [(''mode'', JStr ''auto''), (''provider_id'', JStr ''builtin-local''), (''command'', JStr []),
     (''timeout_seconds'', JInt 8), (''max_results'', JInt 6), (''max_output_bytes'', JInt 8388608),
     (''env_allowlist'', JList [])]"

definition default_learning :: "json dict" where
  "default_learning =
     [(''mode'', JStr ''off''), (''kill_switch'', JBool False), (''exploration_probability'', JFloat (Fin (5/100))),
     (''allowed_risks'', JList (map JStr [''low''])), (''eligible_arms'', JList (map JStr [''adaptive_math'',
     ''source_rank'', ''bm25_rank'', ''rrf_only'', ''rrf_mmr_050'', ''rrf_mmr_075'', ''rrf_mmr_090'']))]"

definition default_deployment :: "json dict" where
  "default_deployment =
     [(''enabled'', JBool False), (''state_path'', JStr ''ai-workspace/generated/learning/deployment/active.json''),
     (''signing_key_env'', JStr ''AI_WORKFLOW_POLICY_SIGNING_KEY''), (''auto_rollback'', JBool True),
     (''incident_bundles'', JBool True)]"

definition default_production :: "json dict" where
  "default_production =
     [(''enabled'', JBool False), (''sqlite_path'', JStr
     ''ai-workspace/generated/learning/production/events.sqlite3''), (''busy_timeout_ms'', JInt 5000)]"

definition default_context :: "json dict" where
  "default_context =
     [(''max_results_per_source'', JInt 6), (''source_shares'', JDict [(''hot_cache'', JFloat (Fin (15/100))),
     (''lightweight'', JFloat (Fin (3/10))), (''crg'', JFloat (Fin (4/10))), (''source_fallback'', JFloat (Fin
     (15/100)))]), (''crg'', JDict default_crg), (''scip'', JDict [(''mode'', JStr ''auto'')]), (''semantic'', JDict
     default_semantic), (''external_retrievers'', JList []), (''sufficiency'', JDict [(''threshold'', JFloat (Fin
     (72/100)))]), (''selective_retrieval'', JDict [(''enabled'', JBool True), (''minimum_coverage'', JFloat (Fin
     (15/100)))]), (''adaptive_budget'', JDict [(''enabled'', JBool True), (''high_sufficiency_fraction'', JFloat (Fin
     (45/100))), (''medium_sufficiency_fraction'', JFloat (Fin (7/10))), (''minimum_chars'', JInt 900)]),
     (''selector'', JDict [(''enabled'', JBool True), (''tight_budget_fraction'', JFloat (Fin (3/10))),
     (''mandatory_structural_evidence'', JBool True), (''max_selector_candidates'', JInt 200)]), (''telemetry'', JDict
     [(''mode'', JStr ''mutations'')]), (''learning'', JDict default_learning), (''deployment'', JDict
     default_deployment), (''production'', JDict default_production), (''targeted_search'', JDict [(''max_matches'',
     JInt 12), (''max_file_bytes'', JInt 500000)])]"

definition default_workspace :: "json dict" where
  "default_workspace =
     [(''roots'', JList []), (''max_roots'', JInt 4), (''registry'', JStr ''ai-workspace/config/repositories.json''),
     (''repository_graph'', JStr ''ai-workspace/config/repository-graph.json''), (''hierarchical_retrieval'', JDict
     [(''enabled'', JBool True), (''max_primary_repositories'', JInt 2), (''max_graph_expansions'', JInt 2),
     (''relationships'', JList (map JStr [''depends_on'', ''publishes_api'', ''consumes_schema'', ''deploys'']))]),
     (''discovery'', JDict [(''max_depth'', JInt 8), (''require_acceptance'', JBool False),
     (''auto_include_on_setup'', JBool True)])]"

definition default_execution :: "json dict" where
  "default_execution =
     [(''prefer_superpowers_for_full'', JBool True), (''native_fallback'', JBool True), (''superpowers'', JDict
     [(''mode'', JStr ''auto'')]), (''orchestration_budget'', JDict [(''max_agent_slots'', JInt 4),
     (''max_crg_calls'', JInt 6), (''max_graph_depth'', JInt 3), (''review_passes'', JInt 2),
     (''verification_passes'', JInt 2)])]"

definition default_config :: "json dict" where
  "default_config =
     [(''version'', JInt 2), (''budgets'', JDict default_budgets), (''classifier'', JDict default_classifier),
     (''context'', JDict default_context), (''workspace'', JDict default_workspace), (''execution'', JDict
     default_execution), (''handoff'', JDict [(''max_lines'', JInt 30)]), (''memory'', JDict [(''max_results'', JInt
     5), (''minimum_confidence'', JFloat (Fin (55/100)))]), (''models'', JDict [(''answer'', JStr ''fast''),
     (''small'', JStr ''fast''), (''full_medium'', JStr ''standard''), (''full_high'', JStr ''capable'')])]"

section \<open>Upgrading\<close>

definition CURRENT_CONFIG_VERSION :: int where
  "CURRENT_CONFIG_VERSION = 2"

definition REQUIRED_SECTIONS :: "string list" where
  "REQUIRED_SECTIONS = [''budgets'', ''classifier'', ''context'', ''workspace'', ''execution'', ''handoff'', ''memory'', ''models'']"

text \<open>The entries of the override are laid over the base in their order; two dictionaries are merged.\<close>

function deep_merge :: "json dict \<Rightarrow> json dict \<Rightarrow> json dict" where
  "deep_merge out [] = out"
| "deep_merge out ((k, v) # override) =
     (case (v, dget out k) of
        (JDict d, Some (JDict b)) \<Rightarrow> deep_merge (dset out k (JDict (deep_merge b d))) override
      | _ \<Rightarrow> deep_merge (dset out k v) override)"
  by pat_completeness auto
termination deep_merge
  by (relation "measure (\<lambda>(out, override). size (JDict override))") auto

definition migrate_config :: "runtime \<Rightarrow> json \<Rightarrow> json dict result" where
  "migrate_config rt data = (case data of
     JDict raw \<Rightarrow>
       (let version = jget raw ''version'' in
        if version = JNull then Inr raw
        else if py_eq version (JInt 1)
          then Inr (dset (deep_merge default_config (dpop raw ''version'')) ''version'' (JInt CURRENT_CONFIG_VERSION))
        else if py_eq version (JInt CURRENT_CONFIG_VERSION) then Inr raw
        else (case version of
          JInt n \<Rightarrow> if CURRENT_CONFIG_VERSION < n
            then Inl (ValueError (''config version '' @ int_dec n @ '' is newer than supported version '' @ int_dec CURRENT_CONFIG_VERSION))
            else Inl (ValueError (''unsupported control-plane config version: '' @ int_dec n))
        | _ \<Rightarrow> Inl (ValueError (''unsupported control-plane config version: '' @ py_str rt version))))
   | _ \<Rightarrow> Inl (ValueError ''control-plane config must be a JSON object''))"

section \<open>Checks of single values\<close>

text \<open>The checks of a validation in source order.\<close>

fun checks :: "unit result list \<Rightarrow> unit result" where
  "checks [] = Inr ()"
| "checks (c # cs) = rbind c (\<lambda>_. checks cs)"

definition must :: "bool \<Rightarrow> string \<Rightarrow> unit result" where
  "must c msg = guard_that c (ValueError msg) (Inr ())"

definition is_bool :: "json \<Rightarrow> bool" where
  "is_bool v = (case v of JBool _ \<Rightarrow> True | _ \<Rightarrow> False)"

definition positive_int :: "json \<Rightarrow> string \<Rightarrow> unit result" where
  "positive_int v name = must (case v of JInt n \<Rightarrow> 0 < n | _ \<Rightarrow> False) (name @ '' must be a positive integer'')"

definition nonnegative_int :: "json \<Rightarrow> string \<Rightarrow> unit result" where
  "nonnegative_int v name = must (case v of JInt n \<Rightarrow> 0 \<le> n | _ \<Rightarrow> False) (name @ '' must be a non-negative integer'')"

definition fraction_check :: "runtime \<Rightarrow> json \<Rightarrow> string \<Rightarrow> unit result" where
  "fraction_check rt v name =
     (if \<not> is_number v then Inl (ValueError (name @ '' must be between 0 and 1''))
      else rbind (to_float rt v) (\<lambda>x. must (fl_le (Fin 0) x \<and> fl_le x (Fin 1)) (name @ '' must be between 0 and 1'')))"

definition nonblank_string :: "json \<Rightarrow> bool" where
  "nonblank_string v = (case v of JStr s \<Rightarrow> strip s \<noteq> [] | _ \<Rightarrow> False)"

definition string_list :: "json \<Rightarrow> string \<Rightarrow> unit result" where
  "string_list v name = must (case v of JList xs \<Rightarrow> list_all nonblank_string xs | _ \<Rightarrow> False)
     (name @ '' must be an array of non-empty strings'')"

definition provider_command :: "json \<Rightarrow> string \<Rightarrow> unit result" where
  "provider_command v name = (case v of
     JStr s \<Rightarrow> must (strip s \<noteq> []) (name @ '' must not be blank'')
   | JList xs \<Rightarrow> must (xs \<noteq> [] \<and> list_all (\<lambda>x. case x of JStr s \<Rightarrow> s \<noteq> [] | _ \<Rightarrow> False) xs)
       (name @ '' must be a non-empty string or argv array'')
   | _ \<Rightarrow> Inl (ValueError (name @ '' must be a non-empty string or argv array'')))"

definition one_of :: "json \<Rightarrow> string list \<Rightarrow> string \<Rightarrow> unit result" where
  "one_of v names msg = rbind (in_frozenset v names) (\<lambda>b. must b msg)"

definition table_at :: "json dict \<Rightarrow> string \<Rightarrow> json dict" where
  "table_at d k = (case jget d k of JDict t \<Rightarrow> t | _ \<Rightarrow> [])"

definition texts_of :: "json \<Rightarrow> string list" where
  "texts_of v = (case v of JList xs \<Rightarrow> List.map_filter (\<lambda>x. case x of JStr s \<Rightarrow> Some s | _ \<Rightarrow> None) xs | _ \<Rightarrow> [])"

text \<open>\<open>value not in (None, "", [])\<close>\<close>

definition has_command :: "json \<Rightarrow> bool" where
  "has_command v = (v \<notin> {JNull, JStr [], JList []})"

section \<open>Validation\<close>

definition budget_check :: "json dict \<Rightarrow> string \<Rightarrow> unit result" where
  "budget_check budgets lane = checks
     [must (is_dict (jget budgets lane)) (''missing required budget: '' @ lane),
      positive_int (jget (table_at budgets lane) ''estimated_tokens'') (''budgets.'' @ lane @ ''.estimated_tokens''),
      positive_int (jget (table_at budgets lane) ''output_tokens'') (''budgets.'' @ lane @ ''.output_tokens'')]"

definition shares_check :: "runtime \<Rightarrow> json dict \<Rightarrow> unit result" where
  "shares_check rt shares = checks
     (map (\<lambda>(name, v). fraction_check rt v (''source share '' @ name)) shares
      @ [rbind (rmap (\<lambda>s. to_float rt (snd s)) shares) (\<lambda>xs.
           must (\<not> fl_lt (Fin (1000001/1000000)) (foldl fl_add (Fin 0) xs)) ''source shares must sum to at most 1'')])"

text \<open>The keys of a provider that the repository may not decide: a registered provider brings its own command and
  environment.\<close>

definition owner_check :: "runtime \<Rightarrow> json dict \<Rightarrow> string \<Rightarrow> unit result list" where
  "owner_check rt spec prefix =
     (let owned = strip (text_or_empty rt (jget spec ''provider_id'')) \<noteq> [] in
      [must (\<not> (owned \<and> has_command (jget spec ''command''))) (prefix @ '' may not combine provider_id with repository command''),
       must (\<not> (owned \<and> jget spec ''env_allowlist'' \<notin> {JNull, JList []}))
         (prefix @ '' may not define env_allowlist with provider_id'')])"

definition converted_positive :: "json \<Rightarrow> string \<Rightarrow> unit result" where
  "converted_positive v name = rbind (to_int v) (\<lambda>n. positive_int (JInt n) name)"

definition RETRIEVER_INTENTS :: "string list" where
  "RETRIEVER_INTENTS = [''exact'', ''semantic'', ''structural'', ''mixed'', ''all'']"

definition retriever_check :: "runtime \<Rightarrow> nat \<Rightarrow> json \<Rightarrow> unit result" where
  "retriever_check rt index v =
     (let prefix = ''context.external_retrievers['' @ nat_dec index @ '']'';
          spec = (case v of JDict d \<Rightarrow> d | _ \<Rightarrow> []);
          intents = jget_or spec ''intents'' (JList [JStr ''all''])
      in checks
       ([must (is_dict v \<and> strip (py_str rt (jget_or spec ''name'' (JStr []))) \<noteq> []) (prefix @ '' requires a non-empty name''),
         must (strip (text_or_empty rt (jget spec ''provider_id'')) \<noteq> [] \<or> has_command (jget spec ''command''))
           (prefix @ '' requires provider_id'')]
        @ owner_check rt spec prefix
        @ [(if has_command (jget spec ''command'') then provider_command (jget spec ''command'') (prefix @ ''.command'') else Inr ()),
           string_list intents (prefix @ ''.intents''),
           must (set (map lower (texts_of intents)) \<subseteq> set RETRIEVER_INTENTS) (prefix @ ''.intents contains unsupported values''),
           converted_positive (jget_or spec ''timeout_seconds'' (JInt 8)) (prefix @ ''.timeout_seconds''),
           converted_positive (jget_or spec ''max_output_bytes'' (JInt 8388608)) (prefix @ ''.max_output_bytes''),
           string_list (jget_or spec ''env_allowlist'' (JList [])) (prefix @ ''.env_allowlist'')]))"

definition retrievers_check :: "runtime \<Rightarrow> json \<Rightarrow> unit result" where
  "retrievers_check rt v = (case v of
     JList specs \<Rightarrow> checks (map (\<lambda>(i, s). retriever_check rt i s) (zip [0..<length specs] specs))
   | _ \<Rightarrow> Inl (ValueError ''context.external_retrievers must be an array''))"

definition PROVIDER_MODES :: "string list" where
  "PROVIDER_MODES = [''auto'', ''on'', ''off'']"

definition providers_check :: "runtime \<Rightarrow> json dict \<Rightarrow> unit result" where
  "providers_check rt context =
     (let scip = jget_or context ''scip'' (JDict [(''mode'', JStr ''auto'')]); semantic = table_at context ''semantic'' in checks
       ([must (is_dict scip) ''context.scip must be an object'',
         one_of (jget_or (case scip of JDict d \<Rightarrow> d | _ \<Rightarrow> []) ''mode'' (JStr ''auto'')) PROVIDER_MODES
           ''context.scip.mode must be auto, on, or off'',
         one_of (jget_or semantic ''mode'' (JStr ''auto'')) PROVIDER_MODES ''context.semantic.mode must be auto, on, or off'']
        @ owner_check rt semantic ''context.semantic''
        @ [(if has_command (jget semantic ''command'') then provider_command (jget semantic ''command'') ''context.semantic.command'' else Inr ()),
           converted_positive (jget_or semantic ''timeout_seconds'' (JInt 0)) ''context.semantic.timeout_seconds'',
           converted_positive (jget_or semantic ''max_results'' (JInt 0)) ''context.semantic.max_results'',
           converted_positive (jget_or semantic ''max_output_bytes'' (JInt 8388608)) ''context.semantic.max_output_bytes'',
           string_list (jget_or semantic ''env_allowlist'' (JList [])) ''context.semantic.env_allowlist'']))"

definition TRUSTED_RUNTIME_FIELDS :: "string list" where
  "TRUSTED_RUNTIME_FIELDS = [''export_timeout_seconds'', ''include_task_text'', ''otlp_allowed_hosts'', ''otlp_endpoint'',
     ''otlp_headers'', ''otlp_headers_env'', ''store_task_text'']"

definition evidence_check :: "runtime \<Rightarrow> json dict \<Rightarrow> unit result" where
  "evidence_check rt context =
     (let selective = jget_or context ''selective_retrieval'' (JDict []); sel = (case selective of JDict d \<Rightarrow> d | _ \<Rightarrow> []);
          adaptive = table_at context ''adaptive_budget''; selector = table_at context ''selector'';
          telemetry = table_at context ''telemetry''
      in checks
       ([fraction_check rt (jget (table_at context ''sufficiency'') ''threshold'') ''context.sufficiency.threshold'',
         must (is_dict selective) ''context.selective_retrieval must be an object'',
         must (is_bool (jget_or sel ''enabled'' (JBool True))) ''context.selective_retrieval.enabled must be boolean'',
         fraction_check rt (jget_or sel ''minimum_coverage'' (JFloat (Fin (15/100)))) ''context.selective_retrieval.minimum_coverage'',
         fraction_check rt (jget adaptive ''high_sufficiency_fraction'') ''context.adaptive_budget.high_sufficiency_fraction'',
         fraction_check rt (jget adaptive ''medium_sufficiency_fraction'') ''context.adaptive_budget.medium_sufficiency_fraction'',
         positive_int (jget adaptive ''minimum_chars'') ''context.adaptive_budget.minimum_chars'',
         must (is_bool (jget_or selector ''enabled'' (JBool True))) ''context.selector.enabled must be boolean'',
         fraction_check rt (jget selector ''tight_budget_fraction'') ''context.selector.tight_budget_fraction'',
         must (is_bool (jget_or selector ''mandatory_structural_evidence'' (JBool True)))
           ''context.selector.mandatory_structural_evidence must be boolean'',
         positive_int (jget_or selector ''max_selector_candidates'' (JInt 200)) ''context.selector.max_selector_candidates'',
         one_of (jget_or telemetry ''mode'' (JStr ''mutations'')) [''off'', ''mutations'', ''all'']
           ''context.telemetry.mode must be off, mutations, or all'']
        @ map (\<lambda>f. must (f \<notin> set (dkeys telemetry)) (''context.telemetry.'' @ f
            @ '' is trusted runtime configuration and must not appear in project config'')) TRUSTED_RUNTIME_FIELDS))"

definition SAFE_ARMS :: "string list" where
  "SAFE_ARMS = [''adaptive_math'', ''source_rank'', ''bm25_rank'', ''rrf_only'', ''rrf_mmr_050'', ''rrf_mmr_075'', ''rrf_mmr_090'']"

definition learning_check :: "runtime \<Rightarrow> json \<Rightarrow> unit result" where
  "learning_check rt v =
     (let d = (case v of JDict d \<Rightarrow> d | _ \<Rightarrow> []);
          risks = jget_or d ''allowed_risks'' (JList [JStr ''low'']); arms = jget_or d ''eligible_arms'' (JList [JStr ''adaptive_math''])
      in if v = JNull then Inr () else checks
       [must (is_dict v) ''context.learning must be an object'',
        one_of (jget_or d ''mode'' (JStr ''off'')) [''off'', ''observe'', ''explore''] ''context.learning.mode must be off, observe, or explore'',
        must (is_bool (jget_or d ''kill_switch'' (JBool False))) ''context.learning.kill_switch must be boolean'',
        fraction_check rt (jget_or d ''exploration_probability'' (JFloat (Fin (5/100)))) ''context.learning.exploration_probability'',
        string_list risks ''context.learning.allowed_risks'',
        must (set (map lower (texts_of risks)) \<subseteq> {''low''}) ''context.learning.allowed_risks may only contain low'',
        string_list arms ''context.learning.eligible_arms'',
        must (set (texts_of arms) \<subseteq> set SAFE_ARMS) ''context.learning.eligible_arms contains an unsafe or unknown arm'',
        must (''adaptive_math'' \<in> set (texts_of arms)) ''context.learning.eligible_arms must include adaptive_math''])"

text \<open>A POSIX path stays below its root when it is relative and has no component \<open>..\<close>.\<close>

definition nonblank_text_at :: "json \<Rightarrow> string \<Rightarrow> unit result" where
  "nonblank_text_at v msg = must (nonblank_string v) msg"

definition inside_project :: "json \<Rightarrow> string \<Rightarrow> unit result" where
  "inside_project v msg = must (case v of JStr s \<Rightarrow> \<not> starts_with s ''/'' \<and> ''..'' \<notin> set (split_on (CHR ''/'') s) | _ \<Rightarrow> False) msg"

definition deployment_check :: "json \<Rightarrow> unit result" where
  "deployment_check v =
     (let d = (case v of JDict d \<Rightarrow> d | _ \<Rightarrow> []);
          path = jget_or d ''state_path'' (JStr ''ai-workspace/generated/learning/deployment/active.json'')
      in if v = JNull then Inr () else checks
       [must (is_dict v) ''context.deployment must be an object'',
        must (is_bool (jget_or d ''enabled'' (JBool False))) ''context.deployment.enabled must be boolean'',
        must (is_bool (jget_or d ''auto_rollback'' (JBool True))) ''context.deployment.auto_rollback must be boolean'',
        must (is_bool (jget_or d ''incident_bundles'' (JBool True))) ''context.deployment.incident_bundles must be boolean'',
        must (\<not> (truthy (jget_or d ''enabled'' (JBool False)) \<and> \<not> truthy (jget_or d ''auto_rollback'' (JBool True))))
          ''enabled deployment requires automatic rollback'',
        nonblank_text_at path ''context.deployment.state_path must be a relative path'',
        inside_project path ''context.deployment.state_path must stay inside project root'',
        nonblank_text_at (jget_or d ''signing_key_env'' (JStr ''AI_WORKFLOW_POLICY_SIGNING_KEY''))
          ''context.deployment.signing_key_env must be non-empty''])"

definition production_check :: "json \<Rightarrow> unit result" where
  "production_check v =
     (let d = (case v of JDict d \<Rightarrow> d | _ \<Rightarrow> []);
          path = jget_or d ''sqlite_path'' (JStr ''ai-workspace/generated/learning/production/events.sqlite3'')
      in if v = JNull then Inr () else checks
       [must (is_dict v) ''context.production must be an object'',
        must (is_bool (jget_or d ''enabled'' (JBool False))) ''context.production.enabled must be boolean'',
        nonblank_text_at path ''context.production.sqlite_path must be a relative path'',
        inside_project path ''context.production.sqlite_path must stay inside project root'',
        positive_int (jget_or d ''busy_timeout_ms'' (JInt 5000)) ''context.production.busy_timeout_ms''])"

definition RELATIONSHIP_NAMES :: "string list" where
  "RELATIONSHIP_NAMES = [''depends_on'', ''publishes_api'', ''consumes_schema'', ''deploys'']"

definition workspace_check :: "json dict \<Rightarrow> unit result" where
  "workspace_check w =
     (let hierarchical = jget_or w ''hierarchical_retrieval'' (JDict []); h = (case hierarchical of JDict d \<Rightarrow> d | _ \<Rightarrow> []);
          relationships = jget_or h ''relationships'' (JList (map JStr RELATIONSHIP_NAMES));
          discovery = jget_or w ''discovery'' (JDict [(''max_depth'', JInt 8), (''require_acceptance'', JBool False),
            (''auto_include_on_setup'', JBool True)]);
          disc = (case discovery of JDict d \<Rightarrow> d | _ \<Rightarrow> [])
      in checks
       [must (case jget_or w ''roots'' (JList []) of JList xs \<Rightarrow> list_all (\<lambda>x. case x of JStr _ \<Rightarrow> True | _ \<Rightarrow> False) xs | _ \<Rightarrow> False)
          ''workspace.roots must be an array of paths'',
        positive_int (jget w ''max_roots'') ''workspace.max_roots'',
        nonblank_text_at (jget_or w ''registry'' (JStr ''ai-workspace/config/repositories.json''))
          ''workspace.registry must be a non-empty path'',
        nonblank_text_at (jget_or w ''repository_graph'' (JStr ''ai-workspace/config/repository-graph.json''))
          ''workspace.repository_graph must be a non-empty path'',
        must (is_dict hierarchical) ''workspace.hierarchical_retrieval must be an object'',
        must (is_bool (jget_or h ''enabled'' (JBool True))) ''workspace.hierarchical_retrieval.enabled must be boolean'',
        positive_int (jget_or h ''max_primary_repositories'' (JInt 2)) ''workspace.hierarchical_retrieval.max_primary_repositories'',
        nonnegative_int (jget_or h ''max_graph_expansions'' (JInt 2)) ''workspace.hierarchical_retrieval.max_graph_expansions'',
        string_list relationships ''workspace.hierarchical_retrieval.relationships'',
        must (set (texts_of relationships) \<subseteq> set RELATIONSHIP_NAMES)
          ''workspace.hierarchical_retrieval.relationships contains an unsupported relationship'',
        must (is_dict discovery) ''workspace.discovery must be an object'',
        nonnegative_int (jget_or disc ''max_depth'' (JInt 8)) ''workspace.discovery.max_depth'',
        must (is_bool (jget_or disc ''require_acceptance'' (JBool False))) ''workspace.discovery.require_acceptance must be boolean'',
        must (is_bool (jget_or disc ''auto_include_on_setup'' (JBool True)))
          ''workspace.discovery.auto_include_on_setup must be boolean''])"

definition execution_check :: "json dict \<Rightarrow> unit result" where
  "execution_check x =
     (let d = table_at x ''orchestration_budget'' in checks
       [must (is_dict (jget x ''orchestration_budget'')) ''missing required section: execution.orchestration_budget'',
        positive_int (jget d ''max_agent_slots'') ''execution.orchestration_budget.max_agent_slots'',
        nonnegative_int (jget d ''max_crg_calls'') ''execution.orchestration_budget.max_crg_calls'',
        positive_int (jget d ''max_graph_depth'') ''execution.orchestration_budget.max_graph_depth'',
        positive_int (jget d ''review_passes'') ''execution.orchestration_budget.review_passes'',
        positive_int (jget d ''verification_passes'') ''execution.orchestration_budget.verification_passes''])"

definition LANES :: "string list" where
  "LANES = [''answer'', ''small'', ''full'']"

definition CONTEXT_SECTIONS :: "string list" where
  "CONTEXT_SECTIONS = [''crg'', ''targeted_search'', ''semantic'', ''sufficiency'', ''adaptive_budget'', ''selector'', ''telemetry'']"

definition context_check :: "runtime \<Rightarrow> json dict \<Rightarrow> unit result" where
  "context_check rt c =
     (let shares = table_at c ''source_shares'' in checks
       ([must (is_dict (jget c ''source_shares'') \<and> shares \<noteq> []) ''context.source_shares must be a non-empty object'',
         shares_check rt shares]
        @ map (\<lambda>k. must (is_dict (jget c k)) (''missing required section: context.'' @ k)) CONTEXT_SECTIONS
        @ [retrievers_check rt (jget_or c ''external_retrievers'' (JList [])),
           providers_check rt c, evidence_check rt c, learning_check rt (jget c ''learning''),
           deployment_check (jget c ''deployment''), production_check (jget c ''production'')]))"

definition validate_config :: "runtime \<Rightarrow> json dict \<Rightarrow> unit result" where
  "validate_config rt data = checks
     ([must (py_eq (jget data ''version'') (JInt CURRENT_CONFIG_VERSION)) ''unsupported control-plane config version'']
      @ map (\<lambda>s. must (is_dict (jget data s)) (''missing required section: '' @ s)) REQUIRED_SECTIONS
      @ map (budget_check (table_at data ''budgets'')) LANES
      @ [context_check rt (table_at data ''context''), workspace_check (table_at data ''workspace''),
         execution_check (table_at data ''execution''),
         positive_int (jget (table_at data ''handoff'') ''max_lines'') ''handoff.max_lines'',
         positive_int (jget (table_at data ''memory'') ''max_results'') ''memory.max_results''])"

section \<open>The frozen form\<close>

text \<open>Dictionaries become read-only mappings and lists become tuples, at every depth.\<close>

datatype frozen = Proxy "(string \<times> frozen) list" | Tuple "frozen list" | Leaf json

fun freeze :: "json \<Rightarrow> frozen" where
  "freeze (JDict d) = Proxy (map (\<lambda>(k, v). (k, freeze v)) d)"
| "freeze (JList xs) = Tuple (map freeze xs)"
| "freeze v = Leaf v"

fun thaw :: "frozen \<Rightarrow> json" where
  "thaw (Proxy d) = JDict (map (\<lambda>(k, v). (k, thaw v)) d)"
| "thaw (Tuple xs) = JList (map thaw xs)"
| "thaw (Leaf v) = v"

definition parse_typed_config :: "runtime \<Rightarrow> json \<Rightarrow> frozen result" where
  "parse_typed_config rt data =
     rbind (migrate_config rt data) (\<lambda>migrated. rbind (validate_config rt migrated) (\<lambda>_. Inr (freeze (JDict migrated))))"

text \<open>The file of a workspace: absent, unreadable as JSON, or a document.\<close>

definition load_typed_config :: "runtime \<Rightarrow> file_body option \<Rightarrow> frozen result" where
  "load_typed_config rt content = (case content of
     None \<Rightarrow> Inl (OSError ''control-plane config missing'')
   | Some Garbled \<Rightarrow> Inl (ValueError ''JSONDecodeError'')
   | Some (Holds data) \<Rightarrow> parse_typed_config rt data)"

definition load_config :: "runtime \<Rightarrow> file_body option \<Rightarrow> json result" where
  "load_config rt content = rbind (load_typed_config rt content) (\<lambda>c. Inr (thaw c))"

text \<open>The directory itself and its parents, nearest first; \<open>present p name\<close>: the path exists below \<open>p\<close>.\<close>

fun find_project_root :: "(string \<Rightarrow> string \<Rightarrow> bool) \<Rightarrow> string \<Rightarrow> string list \<Rightarrow> string" where
  "find_project_root present current [] = current"
| "find_project_root present current (p # ps) =
     (if present p ''ai-workspace/config/control-plane.json'' \<or> (present p ''AGENTS.md'' \<and> present p ''ai-workspace'') then p
      else find_project_root present current ps)"

end
