(* ===== verification/ConfigProps.thy ===== *)
theory ConfigProps
  imports Configuration Engine Learning RepositoryRouting
begin

text \<open>
  What an accepted configuration gives its readers: positive budgets, fractions in the unit interval, settings that
  every component of the engine reads without an exception, retrieval providers of registered owners only; and what the
  upgrade of a version 1 document keeps.
\<close>

section \<open>Checks\<close>

lemma checks_all: "checks cs = Inr () \<longleftrightarrow> (\<forall>c \<in> set cs. c = Inr ())"
  by (induction cs) (auto simp: rbind_Inr_iff)

lemma checks_ok [simp]:
  "checks [] = Inr ()"
  "checks (c # cs) = Inr () \<longleftrightarrow> c = Inr () \<and> checks cs = Inr ()"
  "checks (cs @ ds) = Inr () \<longleftrightarrow> checks cs = Inr () \<and> checks ds = Inr ()"
  "checks (map f xs) = Inr () \<longleftrightarrow> (\<forall>x \<in> set xs. f x = Inr ())"
  by (auto simp: checks_all rbind_Inr_iff)

declare checks.simps [simp del]

lemma must_ok [simp]: "must c msg = Inr () \<longleftrightarrow> c"
  by (simp add: must_def guard_that_def)

lemma is_dict_iff: "is_dict v \<longleftrightarrow> (\<exists>d. v = JDict d)"
  by (cases v) (simp_all add: is_dict_def)

lemma is_bool_iff: "is_bool v \<longleftrightarrow> (\<exists>b. v = JBool b)"
  by (cases v) (simp_all add: is_bool_def)

lemma positive_int_ok [simp]: "positive_int v name = Inr () \<longleftrightarrow> (\<exists>n. v = JInt n \<and> 0 < n)"
  by (cases v) (simp_all add: positive_int_def)

lemma nonnegative_int_ok [simp]: "nonnegative_int v name = Inr () \<longleftrightarrow> (\<exists>n. v = JInt n \<and> 0 \<le> n)"
  by (cases v) (simp_all add: nonnegative_int_def)

definition unit_number :: "runtime \<Rightarrow> json \<Rightarrow> bool" where
  "unit_number rt v = (\<exists>r. to_float rt v = Inr (Fin r) \<and> 0 \<le> r \<and> r \<le> 1)"

lemma fraction_ok: "fraction_check rt v name = Inr () \<Longrightarrow> unit_number rt v"
proof -
  assume a: "fraction_check rt v name = Inr ()"
  then obtain x where x: "to_float rt v = Inr x" "fl_le (Fin 0) x" "fl_le x (Fin 1)"
    by (auto simp: fraction_check_def rbind_Inr_iff split: if_splits)
  then show ?thesis by (cases x) (auto simp: unit_number_def fl_le_def)
qed

lemma table_at_eq: "is_dict (jget d k) \<Longrightarrow> jget d k = JDict (table_at d k)"
  by (auto simp: is_dict_iff table_at_def)

lemma or_empty_table: "is_dict (jget d k) \<Longrightarrow> or_empty (jget d k) = Inr (table_at d k)"
  by (auto simp: is_dict_iff table_at_def or_empty_def)

text \<open>\<open>d.get(k) or {}\<close> of an optional entry that passed as an object.\<close>

lemma or_empty_optional: "is_dict (jget_or d k (JDict [])) \<Longrightarrow> or_empty (jget d k) = Inr (table_at d k)"
  by (auto simp: is_dict_iff table_at_def or_empty_def jget_or_def jget_def split: option.splits)

lemma table_optional: "is_dict (jget_or d k (JDict [])) \<Longrightarrow> (case jget_or d k (JDict []) of JDict t \<Rightarrow> t | _ \<Rightarrow> []) = table_at d k"
  by (auto simp: is_dict_iff table_at_def jget_or_def jget_def split: option.splits)

section \<open>The parts of an accepted configuration\<close>

lemma accepted_parts:
  assumes "validate_config rt c = Inr ()"
  shows "\<forall>s \<in> set REQUIRED_SECTIONS. is_dict (jget c s)" "\<forall>l \<in> set LANES. budget_check (table_at c ''budgets'') l = Inr ()"
    "context_check rt (table_at c ''context'') = Inr ()" "workspace_check (table_at c ''workspace'') = Inr ()"
    "execution_check (table_at c ''execution'') = Inr ()"
  using assms by (simp_all add: validate_config_def)

lemma context_parts:
  assumes "context_check rt c = Inr ()"
  shows "is_dict (jget c ''source_shares'')" "shares_check rt (table_at c ''source_shares'') = Inr ()"
    "\<forall>k \<in> set CONTEXT_SECTIONS. is_dict (jget c k)" "retrievers_check rt (jget_or c ''external_retrievers'' (JList [])) = Inr ()"
    "evidence_check rt c = Inr ()" "learning_check rt (jget c ''learning'') = Inr ()"
    "deployment_check (jget c ''deployment'') = Inr ()"
  using assms by (simp_all add: context_check_def Let_def)

lemma accepted_context:
  assumes "validate_config rt c = Inr ()"
  shows "or_empty (jget c ''context'') = Inr (table_at c ''context'')" "jget c ''context'' = JDict (table_at c ''context'')"
proof -
  have "is_dict (jget c ''context'')" using accepted_parts(1) [OF assms] by (simp add: REQUIRED_SECTIONS_def)
  then show "or_empty (jget c ''context'') = Inr (table_at c ''context'')" "jget c ''context'' = JDict (table_at c ''context'')"
    by (rule or_empty_table, rule table_at_eq)
qed

section \<open>Budgets\<close>

lemma share_values:
  assumes "\<forall>s \<in> set shares. unit_number rt (snd s)" "rmap (\<lambda>s. to_float rt (snd s)) shares = Inr xs"
  shows "\<exists>rs. xs = map Fin rs \<and> (\<forall>r \<in> set rs. 0 \<le> r \<and> r \<le> 1)"
  using assms
proof (induction shares arbitrary: xs)
  case (Cons s shares)
  then obtain r rest where "to_float rt (snd s) = Inr (Fin r)" "0 \<le> r" "r \<le> 1"
    "rmap (\<lambda>s. to_float rt (snd s)) shares = Inr rest" "xs = Fin r # rest"
    by (auto simp: rbind_Inr_iff unit_number_def)
  with Cons.IH [of rest] Cons.prems(1) show ?case by (metis list.set_intros(2) list.simps(9) set_ConsD)
qed simp

lemma float_sum: "foldl fl_add (Fin a) (map Fin rs) = Fin (a + sum_list rs)"
  by (induction rs arbitrary: a) (simp_all add: add.assoc)

lemma source_chars_bound:
  assumes "rmap (\<lambda>s. to_float rt (snd s)) shares = Inr (map Fin rs)" "\<forall>r \<in> set rs. 0 \<le> r \<and> r \<le> 1" "0 \<le> n"
  shows "\<exists>cs. rmap (source_share rt n) shares = Inr cs \<and> map fst cs = map fst shares
    \<and> (\<forall>x \<in> set cs. 160 \<le> snd x \<and> snd x \<le> max 160 n)
    \<and> rat_of_int (sum_list (map snd cs)) \<le> of_int n * sum_list rs + 160 * of_nat (length shares)"
  using assms(1,2)
proof (induction shares arbitrary: rs)
  case (Cons s shares)
  then obtain r rs' where s: "to_float rt (snd s) = Inr (Fin r)" and rest: "rmap (\<lambda>s. to_float rt (snd s)) shares = Inr (map Fin rs')"
    and rs: "rs = r # rs'" by (cases rs) (auto simp: rbind_Inr_iff)
  obtain cs where cs: "rmap (source_share rt n) shares = Inr cs" "map fst cs = map fst shares"
      "\<forall>x \<in> set cs. 160 \<le> snd x \<and> snd x \<le> max 160 n"
      "rat_of_int (sum_list (map snd cs)) \<le> of_int n * sum_list rs' + 160 * of_nat (length shares)"
    using Cons.IH [OF rest] Cons.prems(2) rs by auto
  have r: "0 \<le> r" "r \<le> 1" using Cons.prems(2) rs by auto
  let ?k = "\<lfloor>of_int n * r\<rfloor>"
  have pos: "0 \<le> of_int n * r" using assms(3) r by simp
  have le: "of_int n * r \<le> of_int n * 1" using assms(3) r by (intro mult_left_mono) auto
  have k: "0 \<le> ?k" "?k \<le> n" "rat_of_int ?k \<le> of_int n * r"
    using pos le floor_mono [OF le] by auto
  have share: "source_share rt n s = Inr (fst s, max 160 ?k)"
    using s pos by (simp add: source_share_def to_int_def trunc_rat_def)
  have "max 160 ?k \<le> 160 + ?k" using k(1) by linarith
  then have "rat_of_int (max 160 ?k) \<le> rat_of_int (160 + ?k)" by (simp only: of_int_le_iff)
  then have "rat_of_int (max 160 ?k) \<le> 160 + of_int n * r" using k(3) by (simp only: of_int_add of_int_numeral)
  then show ?case using cs k share by (auto simp: rs ring_distribs intro!: order.trans [OF add_mono])
qed simp

theorem accepted_budget:
  assumes "validate_config rt c = Inr ()"
  shows "\<exists>b. budget_for rt (table_at (table_at c ''budgets'') (lane_value lane)) (table_at (table_at c ''context'') ''source_shares'') = Inr b
    \<and> 0 < cb_estimated_tokens b \<and> 0 < cb_output_tokens b \<and> cb_context_chars b = 4 * cb_estimated_tokens b
    \<and> map fst (cb_source_chars b) = map fst (table_at (table_at c ''context'') ''source_shares'')
    \<and> (\<forall>x \<in> set (cb_source_chars b). 160 \<le> snd x \<and> snd x \<le> max 160 (cb_context_chars b))
    \<and> rat_of_int (sum_list (map snd (cb_source_chars b)))
        \<le> of_int (cb_context_chars b) * (1000001/1000000) + 160 * of_nat (length (cb_source_chars b))"
proof -
  let ?shares = "table_at (table_at c ''context'') ''source_shares''"
  let ?raw = "table_at (table_at c ''budgets'') (lane_value lane)"
  have sh: "shares_check rt ?shares = Inr ()" by (rule context_parts(2) [OF accepted_parts(3) [OF assms]])
  then have units: "\<forall>s \<in> set ?shares. unit_number rt (snd s)"
    by (force simp: shares_check_def dest: fraction_ok)
  obtain xs where xs: "rmap (\<lambda>s. to_float rt (snd s)) ?shares = Inr xs" and sum: "\<not> fl_lt (Fin (1000001/1000000)) (foldl fl_add (Fin 0) xs)"
    using sh by (auto simp: shares_check_def rbind_Inr_iff)
  obtain rs where rs: "xs = map Fin rs" "\<forall>r \<in> set rs. 0 \<le> r \<and> r \<le> 1" using share_values [OF units xs] by blast
  have total: "sum_list rs \<le> 1000001/1000000" using sum by (simp add: rs float_sum)
  have "lane_value lane \<in> set LANES" by (cases lane) (simp_all add: LANES_def lane_value_def)
  then have "budget_check (table_at c ''budgets'') (lane_value lane) = Inr ()" using accepted_parts(2) [OF assms] by blast
  then obtain e out where e: "jget ?raw ''estimated_tokens'' = JInt e" "0 < e" and out: "jget ?raw ''output_tokens'' = JInt out" "0 < out"
    by (auto simp: budget_check_def)
  have req: "required ?raw ''estimated_tokens'' = Inr (JInt e)" "required ?raw ''output_tokens'' = Inr (JInt out)"
    using e(1) out(1) by (auto simp: required_def jget_def split: option.splits)
  obtain cs where cs: "rmap (source_share rt (e * 4)) ?shares = Inr cs" "map fst cs = map fst ?shares"
      "\<forall>x \<in> set cs. 160 \<le> snd x \<and> snd x \<le> max 160 (e * 4)"
      "rat_of_int (sum_list (map snd cs)) \<le> of_int (e * 4) * sum_list rs + 160 * of_nat (length ?shares)"
    using source_chars_bound [OF xs [unfolded rs(1)] rs(2), of "e * 4"] e(2) by auto
  have "of_int (e * 4) * sum_list rs \<le> of_int (e * 4) * (1000001/1000000)"
    using total e(2) by (intro mult_left_mono) auto
  moreover have "length cs = length ?shares" using cs(2) by (metis length_map)
  ultimately have "rat_of_int (sum_list (map snd cs)) \<le> of_int (e * 4) * (1000001/1000000) + 160 * of_nat (length cs)"
    using cs(4) by linarith
  then show ?thesis using cs(1-3) e(2) out(2) by (simp add: budget_for_def req Let_def mult.commute)
qed

section \<open>Settings\<close>

lemma unit_default: "unit_number rt (jget_or d k (JFloat (Fin r))) \<Longrightarrow> \<exists>q. to_float rt (jget_or d k (JFloat (Fin r))) = Inr (Fin q) \<and> 0 \<le> q \<and> q \<le> 1"
  by (simp add: unit_number_def)

lemma unit_entry: "unit_number rt (jget d k) \<Longrightarrow> jget_or d k v = jget d k"
  by (rule jget_or_eq_jget) (auto simp: unit_number_def to_float_def)

lemma context_table:
  assumes "validate_config rt c = Inr ()" "k \<in> set CONTEXT_SECTIONS"
  shows "rbind (or_empty (jget c ''context'')) (\<lambda>x. or_empty (jget x k)) = Inr (table_at (table_at c ''context'') k)"
  using context_parts(3) [OF accepted_parts(3) [OF assms(1)]] assms(2) by (simp add: accepted_context(1) [OF assms(1)] or_empty_table)

lemma evidence_parts:
  assumes "evidence_check rt x = Inr ()"
  shows "unit_number rt (jget (table_at x ''sufficiency'') ''threshold'')" "is_dict (jget_or x ''selective_retrieval'' (JDict []))"
    "unit_number rt (jget_or (table_at x ''selective_retrieval'') ''minimum_coverage'' (JFloat (Fin (15/100))))"
    "unit_number rt (jget (table_at x ''adaptive_budget'') ''high_sufficiency_fraction'')"
    "unit_number rt (jget (table_at x ''adaptive_budget'') ''medium_sufficiency_fraction'')"
    "\<exists>n. jget (table_at x ''adaptive_budget'') ''minimum_chars'' = JInt n \<and> 0 < n"
    "unit_number rt (jget (table_at x ''selector'') ''tight_budget_fraction'')"
    "\<exists>n. jget_or (table_at x ''selector'') ''max_selector_candidates'' (JInt 200) = JInt n \<and> 0 < n"
proof -
  note c = assms [unfolded evidence_check_def Let_def checks_ok must_ok positive_int_ok]
  show "is_dict (jget_or x ''selective_retrieval'' (JDict []))" using c by blast
  note t = table_optional [OF this]
  show "unit_number rt (jget (table_at x ''sufficiency'') ''threshold'')"
    "unit_number rt (jget (table_at x ''adaptive_budget'') ''high_sufficiency_fraction'')"
    "unit_number rt (jget (table_at x ''adaptive_budget'') ''medium_sufficiency_fraction'')"
    "unit_number rt (jget (table_at x ''selector'') ''tight_budget_fraction'')"
    by (rule fraction_ok, use c in blast)+
  show "unit_number rt (jget_or (table_at x ''selective_retrieval'') ''minimum_coverage'' (JFloat (Fin (15/100))))"
    by (rule fraction_ok, use c [unfolded t] in blast)
  show "\<exists>n. jget (table_at x ''adaptive_budget'') ''minimum_chars'' = JInt n \<and> 0 < n"
    "\<exists>n. jget_or (table_at x ''selector'') ''max_selector_candidates'' (JInt 200) = JInt n \<and> 0 < n"
    using c by blast+
qed

lemma accepted_threshold:
  assumes "validate_config rt c = Inr ()"
  shows "\<exists>t. sufficiency_threshold rt c = Inr (Fin t) \<and> 0 \<le> t \<and> t \<le> 1"
proof -
  have u: "unit_number rt (jget (table_at (table_at c ''context'') ''sufficiency'') ''threshold'')"
    by (rule evidence_parts(1) [OF context_parts(5) [OF accepted_parts(3) [OF assms]]])
  have "is_dict (jget (table_at c ''context'') ''sufficiency'')"
    using context_parts(3) [OF accepted_parts(3) [OF assms]] by (simp add: CONTEXT_SECTIONS_def)
  then show ?thesis
    using u by (simp add: sufficiency_threshold_def accepted_context(1) [OF assms] or_empty_table unit_entry [OF u] unit_number_def)
qed

lemma scaled_unit:
  assumes "0 < n" "0 \<le> r" "r \<le> 1"
  shows "\<exists>k. scaled n (Fin r) = Inr k \<and> 0 \<le> k \<and> k \<le> n"
proof -
  have pos: "0 \<le> of_int n * r" using assms by simp
  have "of_int n * r \<le> of_int n * 1" using assms by (intro mult_left_mono) auto
  then have "\<lfloor>of_int n * r\<rfloor> \<le> n" using floor_mono by fastforce
  then show ?thesis using pos by (simp add: scaled_def to_int_def trunc_rat_def)
qed

theorem accepted_adaptive_limits:
  assumes v: "validate_config rt c = Inr ()" and pos: "0 < cb_context_chars b" "0 < cb_estimated_tokens b"
  shows "\<exists>chars tokens. adaptive_char_limit rt b score c = Inr chars \<and> 0 < chars \<and> chars \<le> cb_context_chars b
    \<and> adaptive_token_limit rt b score c = Inr tokens \<and> 0 < tokens \<and> tokens \<le> cb_estimated_tokens b"
proof -
  let ?a = "table_at (table_at c ''context'') ''adaptive_budget''"
  note e = evidence_parts [OF context_parts(5) [OF accepted_parts(3) [OF v]]]
  have cfg: "adaptive_config c = Inr ?a"
    unfolding adaptive_config_def by (rule context_table [OF v]) (simp add: CONTEXT_SECTIONS_def)
  obtain h m where hm: "to_float rt (jget ?a ''high_sufficiency_fraction'') = Inr (Fin h)" "0 \<le> h" "h \<le> 1"
    "to_float rt (jget ?a ''medium_sufficiency_fraction'') = Inr (Fin m)" "0 \<le> m" "m \<le> 1"
    using e(4,5) unfolding unit_number_def by blast
  obtain f where f: "budget_fraction rt ?a score = Inr (Fin f)" "0 \<le> f" "f \<le> 1"
    using hm by (cases "86/100 \<le> score"; cases "72/100 \<le> score")
      (simp_all add: budget_fraction_def unit_entry [OF e(4)] unit_entry [OF e(5)])
  obtain n where n: "jget_or ?a ''minimum_chars'' (JInt 900) = JInt n" "0 < n"
    using e(6) jget_or_eq_jget by (metis json.distinct(3))
  obtain k where k: "scaled (cb_context_chars b) (Fin f) = Inr k" "0 \<le> k" "k \<le> cb_context_chars b"
    using scaled_unit [OF pos(1) f(2,3)] by blast
  obtain l where l: "scaled (cb_estimated_tokens b) (Fin f) = Inr l" "0 \<le> l" "l \<le> cb_estimated_tokens b"
    using scaled_unit [OF pos(2) f(2,3)] by blast
  show ?thesis
    using pos k l n f(1) by (auto simp: adaptive_char_limit_def adaptive_token_limit_def cfg)
qed

text \<open>A limit that its reader floors is read as it is written: the floor changes nothing.  Without the check of its sign the
  limit that is read can differ from the one that is written.\<close>

definition written_budget :: "json dict \<Rightarrow> orchestration_budget \<Rightarrow> bool" where
  "written_budget d b = (jget d ''max_agent_slots'' = JInt (ob_agent_slots b) \<and> jget d ''max_crg_calls'' = JInt (ob_crg_calls b)
     \<and> jget d ''max_graph_depth'' = JInt (ob_graph_depth b) \<and> jget d ''review_passes'' = JInt (ob_review_passes b)
     \<and> jget d ''verification_passes'' = JInt (ob_verification_passes b))"

lemma accepted_orchestration:
  assumes "validate_config rt c = Inr ()"
  shows "\<exists>b. orchestration_budget_of c = Inr b
    \<and> written_budget (table_at (table_at c ''execution'') ''orchestration_budget'') b"
proof -
  let ?x = "table_at c ''execution''"
  have "is_dict (jget c ''execution'')" using accepted_parts(1) [OF assms] by (simp add: REQUIRED_SECTIONS_def)
  note x = or_empty_table [OF this]
  note e = accepted_parts(5) [OF assms, unfolded execution_check_def Let_def checks_ok must_ok positive_int_ok nonnegative_int_ok]
  have entry: "\<exists>n. budget_entry d k least dflt = Inr n \<and> jget d k = JInt n" if "\<exists>n. jget d k = JInt n \<and> least \<le> n" for d k least dflt
    using that jget_or_eq_jget [of d k] by (auto simp: budget_entry_def)
  have "is_dict (jget ?x ''orchestration_budget'')" using e by blast
  note o = or_empty_table [OF this]
  let ?d = "table_at ?x ''orchestration_budget''"
  have one: "\<exists>n. jget ?d k = JInt n \<and> 1 \<le> n"
    if "k \<in> {''max_agent_slots'', ''max_graph_depth'', ''review_passes'', ''verification_passes''}" for k
    using that e by fastforce
  obtain s where s: "budget_entry ?d ''max_agent_slots'' 1 4 = Inr s" "jget ?d ''max_agent_slots'' = JInt s" using entry [OF one] by blast
  obtain cc where cc: "budget_entry ?d ''max_crg_calls'' 0 6 = Inr cc" "jget ?d ''max_crg_calls'' = JInt cc" using entry [of ?d "''max_crg_calls''" 0] e by blast
  obtain g where g: "budget_entry ?d ''max_graph_depth'' 1 3 = Inr g" "jget ?d ''max_graph_depth'' = JInt g" using entry [OF one] by blast
  obtain r where r: "budget_entry ?d ''review_passes'' 1 2 = Inr r" "jget ?d ''review_passes'' = JInt r" using entry [OF one] by blast
  obtain vv where vv: "budget_entry ?d ''verification_passes'' 1 2 = Inr vv" "jget ?d ''verification_passes'' = JInt vv" using entry [OF one] by blast
  show ?thesis by (simp add: orchestration_budget_of_def written_budget_def x o s cc g r vv)
qed

definition written_routing :: "json dict \<Rightarrow> routing_settings \<Rightarrow> bool" where
  "written_routing h r = (jget_or h ''max_primary_repositories'' (JInt 2) = JInt (rg_max_primary r) \<and> 0 < rg_max_primary r
     \<and> jget_or h ''max_graph_expansions'' (JInt 2) = JInt (rg_max_expansions r) \<and> 0 \<le> rg_max_expansions r)"

lemma accepted_routing:
  assumes "validate_config rt c = Inr ()"
  shows "\<exists>r. routing_settings_of rt c = Inr r \<and> written_routing (table_at (table_at c ''workspace'') ''hierarchical_retrieval'') r"
    and "\<exists>n. max_roots c k = Inr n \<and> jget (table_at c ''workspace'') ''max_roots'' = JInt n"
proof -
  let ?w = "table_at c ''workspace''"
  have "is_dict (jget c ''workspace'')" using accepted_parts(1) [OF assms] by (simp add: REQUIRED_SECTIONS_def)
  note w = or_empty_table [OF this]
  note e = accepted_parts(4) [OF assms, unfolded workspace_check_def Let_def checks_ok must_ok positive_int_ok nonnegative_int_ok]
  have h: "is_dict (jget_or ?w ''hierarchical_retrieval'' (JDict []))" using e by blast
  note t = table_optional [OF h]
  obtain p where p: "jget_or (table_at ?w ''hierarchical_retrieval'') ''max_primary_repositories'' (JInt 2) = JInt p" "0 < p"
    using e [unfolded t] by blast
  obtain x where x: "jget_or (table_at ?w ''hierarchical_retrieval'') ''max_graph_expansions'' (JInt 2) = JInt x" "0 \<le> x"
    using e [unfolded t] by blast
  show "\<exists>r. routing_settings_of rt c = Inr r \<and> written_routing (table_at ?w ''hierarchical_retrieval'') r"
    using p(2) x(2) by (simp add: routing_settings_of_def workspace_config_def w or_empty_optional [OF h] p(1) x(1) Let_def written_routing_def)
  obtain n where n: "jget ?w ''max_roots'' = JInt n" "0 < n" using e by blast
  then have "jget_or ?w ''max_roots'' (JInt (int k)) = JInt n" using jget_or_eq_jget [of ?w "''max_roots''"] by simp
  then show "\<exists>n. max_roots c k = Inr n \<and> jget ?w ''max_roots'' = JInt n" using n by (simp add: max_roots_def workspace_config_def w)
qed

definition written_selector :: "runtime \<Rightarrow> json dict \<Rightarrow> bool" where
  "written_selector rt cfg = (\<exists>n q. jget_or cfg ''max_selector_candidates'' (JInt 200) = JInt n \<and> candidate_limit_of None cfg = Inr n
     \<and> to_float rt (jget_or cfg ''tight_budget_fraction'' (JFloat (Fin (3/10)))) = Inr (Fin q) \<and> 0 \<le> q \<and> q \<le> 1)"

text \<open>What no check covers (the experiments, the scheduler, the results per source) is not part of the statement.\<close>

theorem accepted_settings:
  assumes v: "validate_config rt c = Inr ()"
  shows "(\<exists>t. sufficiency_threshold rt c = Inr (Fin t) \<and> 0 \<le> t \<and> t \<le> 1)
    \<and> (\<exists>cfg. selector_config c = Inr cfg \<and> written_selector rt cfg)
    \<and> (\<exists>cfg q. selective_config c = Inr cfg \<and> to_float rt (jget_or cfg ''minimum_coverage'' (JFloat (Fin (15/100)))) = Inr (Fin q)
        \<and> 0 \<le> q \<and> q \<le> 1)
    \<and> (\<exists>b. orchestration_budget_of c = Inr b \<and> written_budget (table_at (table_at c ''execution'') ''orchestration_budget'') b)
    \<and> (\<exists>r. routing_settings_of rt c = Inr r \<and> written_routing (table_at (table_at c ''workspace'') ''hierarchical_retrieval'') r)
    \<and> (\<exists>n. max_roots c k = Inr n \<and> jget (table_at c ''workspace'') ''max_roots'' = JInt n)"
proof (intro conjI)
  note e = evidence_parts [OF context_parts(5) [OF accepted_parts(3) [OF v]]]
  let ?s = "table_at (table_at c ''context'') ''selector''" and ?l = "table_at (table_at c ''context'') ''selective_retrieval''"
  have s: "selector_config c = Inr ?s"
    unfolding selector_config_def by (rule context_table [OF v]) (simp add: CONTEXT_SECTIONS_def)
  obtain n where n: "jget_or ?s ''max_selector_candidates'' (JInt 200) = JInt n" "0 < n" using e(8) by blast
  then have "written_selector rt ?s"
    using e(7) by (simp add: written_selector_def candidate_limit_of_def unit_entry [OF e(7)] unit_number_def)
  with s show "\<exists>cfg. selector_config c = Inr cfg \<and> written_selector rt cfg" by blast
  have l: "selective_config c = Inr ?l"
    by (simp add: selective_config_def accepted_context(1) [OF v] or_empty_optional [OF e(2)])
  then show "\<exists>cfg q. selective_config c = Inr cfg \<and> to_float rt (jget_or cfg ''minimum_coverage'' (JFloat (Fin (15/100)))) = Inr (Fin q)
      \<and> 0 \<le> q \<and> q \<le> 1"
    using e(3) by (simp add: unit_number_def)
qed (use accepted_threshold [OF v] accepted_orchestration [OF v] accepted_routing [OF v] in blast)+

section \<open>Retrieval providers\<close>

lemma truthy_default: "jget_or d k v = (if dget d k = None then v else jget d k)"
  by (simp add: jget_or_def jget_def split: option.split)

lemma string_list_ok:
  assumes "string_list v name = Inr ()"
  shows "\<exists>ss. v = JList (map JStr ss) \<and> (\<forall>s \<in> set ss. strip s \<noteq> []) \<and> texts_of v = ss"
proof -
  obtain xs where v: "v = JList xs" and ok: "list_all nonblank_string xs"
    using assms by (auto simp: string_list_def split: json.splits)
  have "\<exists>ss. xs = map JStr ss \<and> (\<forall>s \<in> set ss. strip s \<noteq> []) \<and> texts_of (JList xs) = ss"
    using ok
  proof (induction xs)
    case (Cons x xs)
    then obtain s where x: "x = JStr s" "strip s \<noteq> []" by (auto simp: nonblank_string_def split: json.splits)
    from Cons obtain ss where "xs = map JStr ss" "\<forall>s \<in> set ss. strip s \<noteq> []" "texts_of (JList xs) = ss" by auto
    with x show ?case by (intro exI [of _ "s # ss"]) (simp add: texts_of_def List.map_filter_simps)
  qed (simp add: texts_of_def List.map_filter_simps)
  then show ?thesis using v by simp
qed

text \<open>An accepted entry names either a registered provider or a command of its own, never both.\<close>

definition one_owner :: "runtime \<Rightarrow> json dict \<Rightarrow> bool" where
  "one_owner rt spec = (strip (py_str rt (jget_or spec ''name'' (JStr []))) \<noteq> []
     \<and> (strip (text_or_empty rt (jget spec ''provider_id'')) \<noteq> [] \<longleftrightarrow> \<not> has_command (jget spec ''command''))
     \<and> (\<exists>ss. jget_or spec ''intents'' (JList [JStr ''all'']) = JList (map JStr ss) \<and> set (map lower ss) \<subseteq> set RETRIEVER_INTENTS))"

lemma retriever_ok:
  assumes "retriever_check rt i v = Inr ()"
  shows "\<exists>spec. v = JDict spec \<and> one_owner rt spec"
proof -
  note c = assms [unfolded retriever_check_def owner_check_def Let_def checks_ok must_ok]
  obtain spec where v: "v = JDict spec" using c by (auto simp: is_dict_iff)
  have "string_list (jget_or spec ''intents'' (JList [JStr ''all''])) (''context.external_retrievers['' @ nat_dec i @ '']'' @ ''.intents'') = Inr ()"
    using c by (simp add: v)
  from string_list_ok [OF this] obtain ss where
    ss: "jget_or spec ''intents'' (JList [JStr ''all'']) = JList (map JStr ss)" "texts_of (jget_or spec ''intents'' (JList [JStr ''all''])) = ss"
    by blast
  show ?thesis using c ss by (simp add: v one_owner_def) blast
qed

lemma retriever_accepted_returns:
  assumes "one_owner rt spec"
  shows "\<exists>b. retriever_accepted rt unsafe intent spec = Inr b
    \<and> (b \<and> \<not> unsafe \<longrightarrow> strip (text_or_empty rt (jget spec ''provider_id'')) \<noteq> [] \<and> \<not> has_command (jget spec ''command''))"
proof -
  obtain ss where "jget_or spec ''intents'' (JList [JStr ''all'']) = JList (map JStr ss)" using assms by (auto simp: one_owner_def)
  then have "\<exists>xs. py_or (jget spec ''intents'') (JList [JStr ''all'']) = JList xs"
    by (auto simp: py_or_def truthy_default jget_def split: if_splits option.splits)
  then obtain xs where "py_or (jget spec ''intents'') (JList [JStr ''all'']) = JList xs" by blast
  then show ?thesis using assms by (simp add: retriever_accepted_def one_owner_def to_list_def Let_def) blast
qed

lemma accepted_retrievers_return:
  assumes "\<forall>v \<in> set vs. \<exists>spec. v = JDict spec \<and> one_owner rt spec"
  shows "\<exists>specs. accepted_retrievers rt unsafe intent vs = Inr specs \<and> JDict ` set specs \<subseteq> set vs
    \<and> (\<not> unsafe \<longrightarrow> (\<forall>spec \<in> set specs.
        strip (text_or_empty rt (jget spec ''provider_id'')) \<noteq> [] \<and> \<not> has_command (jget spec ''command'')))"
  using assms
proof (induction vs)
  case (Cons v vs)
  then obtain spec where v: "v = JDict spec" "one_owner rt spec" by auto
  obtain specs where specs: "accepted_retrievers rt unsafe intent vs = Inr specs" "JDict ` set specs \<subseteq> set vs"
    "\<not> unsafe \<longrightarrow> (\<forall>spec \<in> set specs. strip (text_or_empty rt (jget spec ''provider_id'')) \<noteq> [] \<and> \<not> has_command (jget spec ''command''))"
    using Cons by auto
  obtain b where "retriever_accepted rt unsafe intent spec = Inr b"
    "b \<and> \<not> unsafe \<longrightarrow> strip (text_or_empty rt (jget spec ''provider_id'')) \<noteq> [] \<and> \<not> has_command (jget spec ''command'')"
    using retriever_accepted_returns [OF v(2)] by blast
  with specs show ?case by (auto simp: v(1))
qed simp

text \<open>With an accepted configuration the engine's external retrievers are those of registered providers: unless the
  operator has switched the legacy commands on, no command of the repository is among them.\<close>

theorem accepted_providers:
  assumes "validate_config rt c = Inr ()"
  shows "\<exists>specs. configured_retrievers rt unsafe c intent = Inr specs
    \<and> (\<not> unsafe \<longrightarrow> (\<forall>spec \<in> set specs.
        strip (text_or_empty rt (jget spec ''provider_id'')) \<noteq> [] \<and> \<not> has_command (jget spec ''command'')))"
proof -
  let ?v = "jget_or (table_at c ''context'') ''external_retrievers'' (JList [])"
  have "retrievers_check rt ?v = Inr ()" by (rule context_parts(4) [OF accepted_parts(3) [OF assms]])
  then obtain vs where vs: "?v = JList vs" and all: "\<forall>x \<in> set (zip [0..<length vs] vs). retriever_check rt (fst x) (snd x) = Inr ()"
    by (auto simp: retrievers_check_def case_prod_unfold split: json.splits)
  have "\<exists>spec. v = JDict spec \<and> one_owner rt spec" if "v \<in> set vs" for v
  proof -
    have "\<exists>i. (i, v) \<in> set (zip [0..<length vs] vs)" using that by (force simp: in_set_conv_nth)
    then show ?thesis using all retriever_ok by fastforce
  qed
  then obtain specs where specs: "accepted_retrievers rt unsafe intent vs = Inr specs"
      "\<not> unsafe \<longrightarrow> (\<forall>spec \<in> set specs. strip (text_or_empty rt (jget spec ''provider_id'')) \<noteq> [] \<and> \<not> has_command (jget spec ''command''))"
    using accepted_retrievers_return by blast
  have "listed (jget (table_at c ''context'') ''external_retrievers'') = Inr vs"
    using vs by (auto simp: listed_def to_list_def truthy_default jget_def split: if_splits option.splits)
  then show ?thesis using specs by (simp add: configured_retrievers_def accepted_context(1) [OF assms])
qed

section \<open>Upgrading and freezing\<close>

text \<open>Merging, entry by entry.\<close>

definition merged_value :: "json option \<Rightarrow> json \<Rightarrow> json" where
  "merged_value old v = (case (v, old) of (JDict d, Some (JDict b)) \<Rightarrow> JDict (deep_merge b d) | _ \<Rightarrow> v)"

lemma deep_merge_Cons: "deep_merge out ((k, v) # d) = deep_merge (dset out k (merged_value (dget out k) v)) d"
  by (simp add: merged_value_def split: json.split option.split)

declare deep_merge.simps(2) [simp del]

lemma deep_merge_entry:
  "dict_wf d \<Longrightarrow> dget (deep_merge out d) k = (case dget d k of None \<Rightarrow> dget out k | Some v \<Rightarrow> Some (merged_value (dget out k) v))"
proof (induction d arbitrary: out)
  case (Cons x d)
  obtain k' v where x: "x = (k', v)" by (cases x)
  have wf: "dict_wf d" "k' \<notin> set (dkeys d)" using Cons.prems by (simp_all add: x dict_wf_def dkeys_def)
  then have "dget d k' = None" using set_dkeys_iff by blast
  then show ?case using Cons.IH [OF wf(1)] by (auto simp: x deep_merge_Cons dget_Cons split: option.split)
qed simp

lemma deep_merge_wf: "dict_wf out \<Longrightarrow> dict_wf (deep_merge out d)"
  by (induction d arbitrary: out) (auto simp: deep_merge_Cons)

text \<open>Following a path of keys through nested objects.\<close>

fun value_at :: "json dict \<Rightarrow> string list \<Rightarrow> json option" where
  "value_at d [] = None"
| "value_at d [k] = dget d k"
| "value_at d (k # ks) = (case dget d k of Some (JDict e) \<Rightarrow> value_at e ks | _ \<Rightarrow> None)"

text \<open>Well-formed at every depth: JSON objects as the parser builds them.\<close>

primrec deep_wf :: "json \<Rightarrow> bool" where
  "deep_wf JNull = True"
| "deep_wf (JBool b) = True"
| "deep_wf (JInt i) = True"
| "deep_wf (JFloat x) = True"
| "deep_wf (JStr s) = True"
| "deep_wf (JList xs) = list_all id (map deep_wf xs)"
| "deep_wf (JDict d) = (dict_wf d \<and> list_all snd (map (map_prod id deep_wf) d))"

lemma deep_wf_dget: "deep_wf (JDict d) \<Longrightarrow> dget d k = Some v \<Longrightarrow> deep_wf v"
  by (fastforce simp: dget_def list_all_iff dest: map_of_SomeD)

lemma merge_keeps_leaf:
  assumes "deep_wf (JDict d)" "value_at d ks = Some v" "\<not> is_dict v"
  shows "value_at (deep_merge out d) ks = Some v"
  using assms
proof (induction d ks arbitrary: out rule: value_at.induct)
  case (2 d k)
  then have "merged_value (dget out k) v = v" by (auto simp: merged_value_def is_dict_def split: json.splits)
  then show ?case using 2 deep_merge_entry [of d out k] by simp
next
  case (3 d k k' ks)
  then obtain e where e: "dget d k = Some (JDict e)" "value_at e (k' # ks) = Some v" by (auto split: option.splits json.splits)
  have "deep_wf (JDict e)" by (rule deep_wf_dget [OF 3(2) e(1)])
  note ih = 3(1) [OF e(1) refl this e(2) 3(4)]
  have "dict_wf d" using 3(2) by simp
  then have "dget (deep_merge out d) k = Some (merged_value (dget out k) (JDict e))" using e(1) by (simp add: deep_merge_entry)
  then show ?case using ih e(2) by (auto simp: merged_value_def split: option.split json.split)
qed simp

text \<open>Entries the override does not mention stay as the base has them.\<close>

lemma merge_keeps_base:
  assumes "deep_wf (JDict d)" "dget d k = None"
  shows "dget (deep_merge out d) k = dget out k"
  using assms by (simp add: deep_merge_entry)

lemma thaw_freeze [simp]: "thaw (freeze v) = v"
proof (induction v)
  case (JDict d)
  then have "map (\<lambda>x. (fst x, thaw (freeze (snd x)))) d = d" by (intro map_idI) (force simp: prod_set_defs)
  then show ?case by (simp add: case_prod_unfold comp_def)
next
  case (JList xs)
  then show ?case by (simp add: map_idI)
qed simp_all

theorem migrated_config:
  assumes "deep_wf (JDict raw)" "migrate_config rt (JDict raw) = Inr c"
  shows "(jget raw ''version'' = JNull \<longrightarrow> c = raw)
    \<and> (py_eq (jget raw ''version'') (JInt 2) \<longrightarrow> c = raw)
    \<and> (jget raw ''version'' \<noteq> JNull \<longrightarrow> py_eq (jget c ''version'') (JInt 2))
    \<and> (py_eq (jget raw ''version'') (JInt 1) \<longrightarrow>
        (\<forall>k ks v. k \<noteq> ''version'' \<and> value_at raw (k # ks) = Some v \<and> \<not> is_dict v \<longrightarrow> value_at c (k # ks) = Some v)
        \<and> (\<forall>k. k \<noteq> ''version'' \<and> dget raw k = None \<longrightarrow> dget c k = dget default_config k))
    \<and> migrate_config rt (JDict c) = Inr c"
proof -
  let ?m = "dset (deep_merge default_config (dpop raw ''version'')) ''version'' (JInt CURRENT_CONFIG_VERSION)"
  have ver: "py_eq (JInt 2) (JInt 2)" "\<not> py_eq (JInt 2) (JInt 1)" by simp_all
  have excl: "\<not> (py_eq x (JInt 1) \<and> py_eq x (JInt 2))" for x by (auto simp: py_eq_def)
  have null: "\<not> py_eq JNull (JInt i)" for i by (simp add: py_eq_def)
  consider "jget raw ''version'' = JNull" "c = raw" | "jget raw ''version'' \<noteq> JNull" "py_eq (jget raw ''version'') (JInt 1)" "c = ?m"
    | "jget raw ''version'' \<noteq> JNull" "\<not> py_eq (jget raw ''version'') (JInt 1)" "py_eq (jget raw ''version'') (JInt 2)" "c = raw"
    using assms(2) by (auto simp: migrate_config_def Let_def CURRENT_CONFIG_VERSION_def split: if_splits json.splits)
  then show ?thesis
  proof cases
    case 1
    then show ?thesis using assms(2) null by simp
  next
    case 2
    let ?r = "dpop raw ''version''"
    have wf: "deep_wf (JDict ?r)" using assms(1) by (auto simp: list_all_iff dpop_def dict_wf_def dkeys_def distinct_map_filter)
    have path: "value_at c (k # ks) = Some v" if "k \<noteq> ''version''" "value_at raw (k # ks) = Some v" "\<not> is_dict v" for k ks v
    proof -
      have "value_at ?r (k # ks) = Some v" using that(1,2) by (cases ks) simp_all
      then have "value_at (deep_merge default_config ?r) (k # ks) = Some v" by (rule merge_keeps_leaf [OF wf _ that(3)])
      then show ?thesis using that(1) by (cases ks) (simp_all add: 2(3))
    qed
    have base: "dget c k = dget default_config k" if "k \<noteq> ''version''" "dget raw k = None" for k
      using merge_keeps_base [OF wf, of k default_config] that by (simp add: 2(3))
    have "migrate_config rt (JDict c) = Inr c"
      by (simp add: migrate_config_def 2(3) Let_def CURRENT_CONFIG_VERSION_def)
    then show ?thesis using 2(1,2) excl path base by (simp add: 2(3) CURRENT_CONFIG_VERSION_def)
  next
    case 3
    then show ?thesis using assms(2) excl by auto
  qed
qed

text \<open>What is loaded has passed the validation, and saving it and loading it again changes nothing.\<close>

theorem loaded_config_stable:
  assumes "load_config rt (Some (Holds data)) = Inr v"
  shows "\<exists>c. v = JDict c \<and> validate_config rt c = Inr () \<and> load_config rt (Some (Holds v)) = Inr v"
proof -
  obtain c where c: "migrate_config rt data = Inr c" "validate_config rt c = Inr ()" "v = JDict c"
    using assms by (auto simp: load_config_def load_typed_config_def parse_typed_config_def rbind_Inr_iff simp del: freeze.simps)
  have ver: "py_eq (jget c ''version'') (JInt 2)"
    using c(2) by (simp add: validate_config_def CURRENT_CONFIG_VERSION_def)
  have "\<not> py_eq (jget c ''version'') (JInt 1)" "jget c ''version'' \<noteq> JNull" using ver by (auto simp: py_eq_def)
  then have "migrate_config rt (JDict c) = Inr c" using ver by (simp add: migrate_config_def Let_def CURRENT_CONFIG_VERSION_def)
  then show ?thesis
    using c(2,3) by (simp add: load_config_def load_typed_config_def parse_typed_config_def del: freeze.simps)
qed

text \<open>The built-in configuration is accepted.\<close>

lemma default_config_accepted: "validate_config rt default_config = Inr ()"
  by code_simp

end
