(* ===== verification/ReadBack.thy ===== *)
theory ReadBack
  imports WriteOnce
begin

text \<open>
  Reading a document back from a file: it was written with sorted keys, so a reader finds every entry, with the keys
  of its nested objects in order.
\<close>

definition ordered :: "json dict \<Rightarrow> json dict" where
  "ordered d = sort_key fst (map (map_prod id sort_keys) d)"

lemma sort_keys_object: "sort_keys (JDict d) = JDict (ordered d)"
  by (simp add: ordered_def)

lemma sorted_get: "dict_wf d \<Longrightarrow> sort_keys (JDict d) = JDict e \<Longrightarrow> jget e k = sort_keys (jget d k)"
  by (auto simp: jget_sort_keys)

lemma sorted_get_or: "dict_wf d \<Longrightarrow> sort_keys (JDict d) = JDict e \<Longrightarrow> jget_or e k (sort_keys v) = sort_keys (jget_or d k v)"
proof -
  assume wf: "dict_wf d" and "sort_keys (JDict d) = JDict e"
  then have e: "e = sort_key fst (map (map_prod id sort_keys) d)" by simp
  have "distinct (map fst (map (map_prod id sort_keys) d))" using wf by (simp add: dict_wf_def dkeys_def comp_def)
  then have "dget e k = dget (map (map_prod id sort_keys) d) k" by (simp add: e dget_def map_of_sort_key)
  also have "\<dots> = map_option sort_keys (dget d k)" by (induction d) (auto simp: dget_def)
  finally show ?thesis by (simp add: jget_or_def split: option.split)
qed

lemma ordered_get: "dict_wf d \<Longrightarrow> jget (ordered d) k = sort_keys (jget d k)"
  using sorted_get sort_keys_object by blast

lemma ordered_get_or: "dict_wf d \<Longrightarrow> jget_or (ordered d) k (sort_keys v) = sort_keys (jget_or d k v)"
  using sorted_get_or sort_keys_object by blast

lemma ordered_dget: "dict_wf d \<Longrightarrow> dget (ordered d) k = map_option sort_keys (dget d k)"
proof -
  assume wf: "dict_wf d"
  then have "distinct (map fst (map (map_prod id sort_keys) d))" by (simp add: dict_wf_def dkeys_def comp_def)
  then have "dget (ordered d) k = dget (map (map_prod id sort_keys) d) k" by (simp add: ordered_def dget_def map_of_sort_key)
  also have "\<dots> = map_option sort_keys (dget d k)" by (induction d) (auto simp: dget_def)
  finally show ?thesis .
qed

text \<open>Dictionaries from texts to texts.\<close>

lemma ordered_texts: "ordered (map (map_prod id JStr) d) = map (map_prod id JStr) (sort_key fst d)"
proof -
  have eq: "map (map_prod id sort_keys) (map (map_prod id JStr) d) = map (map_prod id JStr) d" by (simp add: map_prod_def case_prod_unfold)
  show ?thesis unfolding ordered_def eq by (rule sort_key_fst_map) simp
qed

end
