(* ===== verification/RetrievalCache.thy ===== *)
theory RetrievalCache
  imports Scheduler ReadBack Evidence
begin

text \<open>
  \<open>execution_semantics.py\<close> and \<open>retrieval_cache.py\<close>: which providers may be cached, the key of a request, and the
  directory of results.  Scores and latencies keep the special float values here, because the cache checks for
  them.  \<open>undecodable\<close> says which files hold bytes that are no UTF-8 text.
\<close>

section \<open>Execution semantics\<close>

record provider_semantics =
  sm_deterministic :: bool
  sm_cacheable :: bool
  sm_idempotent :: bool
  sm_side_effecting :: bool
  sm_retryable :: bool

definition default_semantics :: provider_semantics where
  "default_semantics = \<lparr>sm_deterministic = False, sm_cacheable = False, sm_idempotent = True, sm_side_effecting = False,
     sm_retryable = True\<rparr>"

definition semantics_flag :: "json dict \<Rightarrow> string \<Rightarrow> bool \<Rightarrow> bool result" where
  "semantics_flag raw name dflt = (case jget_or raw name (JBool dflt) of
     JBool b \<Rightarrow> Inr b | _ \<Rightarrow> Inl (ValueError (''provider semantics.'' @ name @ '' must be boolean'')))"

definition semantics_from_mapping :: "json \<Rightarrow> provider_semantics result" where
  "semantics_from_mapping v = (case v of
     JNull \<Rightarrow> Inr default_semantics
   | JDict raw \<Rightarrow>
       rbind (semantics_flag raw ''deterministic'' False) (\<lambda>d.
       rbind (semantics_flag raw ''cacheable'' False) (\<lambda>c.
       rbind (semantics_flag raw ''idempotent'' True) (\<lambda>i.
       rbind (semantics_flag raw ''side_effecting'' False) (\<lambda>s.
       rbind (semantics_flag raw ''retryable'' True) (\<lambda>r.
         Inr \<lparr>sm_deterministic = d, sm_cacheable = c, sm_idempotent = i, sm_side_effecting = s, sm_retryable = r\<rparr>)))))
   | _ \<Rightarrow> Inl (ValueError ''provider semantics must be an object''))"

definition cache_eligible :: "provider_semantics \<Rightarrow> bool" where
  "cache_eligible s = (sm_deterministic s \<and> sm_cacheable s \<and> \<not> sm_side_effecting s)"

section \<open>The key\<close>

text \<open>On JSON values the canonical form only orders the keys.\<close>

definition cache_canonical :: "json \<Rightarrow> json" where
  "cache_canonical v = sort_keys v"

definition retrieval_cache_key :: "runtime \<Rightarrow> string \<Rightarrow> string \<Rightarrow> string \<Rightarrow> string \<Rightarrow> retrieval_request \<Rightarrow> string" where
  "retrieval_cache_key rt policy_version workspace provider version r = sha256_json rt (JDict
     [(''schema_version'', JInt 1), (''retrieval_policy_version'', JStr policy_version),
      (''workspace_fingerprint'', JStr workspace), (''provider'', JDict [(''name'', JStr provider), (''version'', JStr version)]),
      (''request'', JDict [(''query'', JStr (rx_query r)), (''limit'', JInt (rx_limit r)), (''intent'', JStr (rx_intent r)),
         (''timeout_seconds'', JFloat (rx_timeout r)), (''changed_files'', JList (map JStr (rx_changed_files r))),
         (''metadata'', cache_canonical (JDict (rx_metadata r)))])])"

section \<open>Results as documents\<close>

record cached_item =
  ct_source :: string
  ct_text :: string
  ct_score :: pyfloat
  ct_stale :: bool
  ct_metadata :: "json dict"
  ct_provenance :: "json dict"
  ct_evidence :: "json dict option"

text \<open>The fields of a provider result that the cache keeps.\<close>

record cached_result =
  cq_provider :: string
  cq_items :: "cached_item list"
  cq_latency_ms :: pyfloat
  cq_error :: "string option"
  cq_error_kind :: "string option"
  cq_timed_out :: bool
  cq_output_limited :: bool
  cq_returncode :: "int option"

definition cached_item_to_dict :: "cached_item \<Rightarrow> json dict" where
  "cached_item_to_dict i = [(''source'', JStr (ct_source i)), (''text'', JStr (ct_text i)), (''score'', JFloat (ct_score i)),
     (''stale'', JBool (ct_stale i)), (''metadata'', JDict (ct_metadata i)), (''provenance'', JDict (ct_provenance i))]
     @ (case ct_evidence i of None \<Rightarrow> [] | Some e \<Rightarrow> [(''evidence'', JDict e)])"

definition int_or_null :: "int option \<Rightarrow> json" where
  "int_or_null n = (case n of None \<Rightarrow> JNull | Some i \<Rightarrow> JInt i)"

definition result_to_dict :: "cached_result \<Rightarrow> json dict" where
  "result_to_dict r = [(''schema_version'', JInt 1), (''provider'', JStr (cq_provider r)),
     (''items'', JList (map (\<lambda>i. JDict (cached_item_to_dict i)) (cq_items r))), (''latency_ms'', JFloat (cq_latency_ms r)),
     (''error'', opt_str (cq_error r)), (''error_kind'', opt_str (cq_error_kind r)), (''timed_out'', JBool (cq_timed_out r)),
     (''output_limited'', JBool (cq_output_limited r)), (''returncode'', int_or_null (cq_returncode r))]"

definition float_or_zero :: "runtime \<Rightarrow> json \<Rightarrow> pyfloat result" where
  "float_or_zero rt v = to_float rt (py_or v (JFloat (Fin 0)))"

definition cached_item_of :: "runtime \<Rightarrow> json dict \<Rightarrow> cached_item result" where
  "cached_item_of rt d =
     rbind (float_or_zero rt (jget_or d ''score'' (JFloat (Fin 0)))) (\<lambda>score.
       Inr \<lparr>ct_source = py_str rt (jget_or d ''source'' (JStr ''cache'')), ct_text = py_str rt (jget_or d ''text'' (JStr [])),
         ct_score = score, ct_stale = truthy (jget_or d ''stale'' (JBool False)),
         ct_metadata = (case jget d ''metadata'' of JDict m \<Rightarrow> m | _ \<Rightarrow> []),
         ct_provenance = (case jget d ''provenance'' of JDict p \<Rightarrow> p | _ \<Rightarrow> []), ct_evidence = None\<rparr>)"

text \<open>Entries that are no objects are skipped.\<close>

definition cached_items_of :: "runtime \<Rightarrow> json \<Rightarrow> cached_item list result" where
  "cached_items_of rt v = (case v of JList xs \<Rightarrow> rmap (cached_item_of rt) (List.map_filter as_dict xs) | _ \<Rightarrow> Inr [])"

definition kept_text :: "runtime \<Rightarrow> json \<Rightarrow> string option" where
  "kept_text rt v = (if v = JNull then None else Some (py_str rt v))"

definition opt_to_int :: "json \<Rightarrow> int option result" where
  "opt_to_int v = (if v = JNull then Inr None else rbind (to_int v) (\<lambda>n. Inr (Some n)))"

definition result_from_dict :: "runtime \<Rightarrow> json dict \<Rightarrow> cached_result result" where
  "result_from_dict rt d =
     rbind (cached_items_of rt (jget d ''items'')) (\<lambda>items.
     rbind (float_or_zero rt (jget_or d ''latency_ms'' (JFloat (Fin 0)))) (\<lambda>latency.
     rbind (opt_to_int (jget d ''returncode'')) (\<lambda>code.
       Inr \<lparr>cq_provider = py_str rt (jget_or d ''provider'' (JStr ''unknown'')), cq_items = items, cq_latency_ms = latency,
         cq_error = kept_text rt (jget d ''error''), cq_error_kind = kept_text rt (jget d ''error_kind''),
         cq_timed_out = truthy (jget_or d ''timed_out'' (JBool False)),
         cq_output_limited = truthy (jget_or d ''output_limited'' (JBool False)), cq_returncode = code\<rparr>)))"

section \<open>The directory\<close>

definition KEY_CHARS :: string where
  "KEY_CHARS = ''0123456789abcdefABCDEF-_''"

definition cache_file :: "runtime \<Rightarrow> string \<Rightarrow> string" where
  "cache_file rt key =
     (if key \<noteq> [] \<and> set key \<subseteq> set KEY_CHARS then key else hexdigest (rt_sha256 rt (utf8 key))) @ ''.json''"

text \<open>\<open>OSError\<close> and \<open>JSONDecodeError\<close> are a miss; the \<open>UnicodeDecodeError\<close> of a file that is no UTF-8 text is not
  among them.\<close>

definition cache_get :: "runtime \<Rightarrow> (string \<Rightarrow> bool) \<Rightarrow> directory \<Rightarrow> string \<Rightarrow> cached_result option result" where
  "cache_get rt undecodable d key = (case dget d (cache_file rt key) of
     None \<Rightarrow> Inr None
   | Some body \<Rightarrow>
       (if undecodable (cache_file rt key) then Inl (ValueError ''UnicodeDecodeError'')
        else (case load_json body of
            None \<Rightarrow> Inr None
          | Some raw \<Rightarrow>
              (if \<not> py_eq (jget raw ''schema_version'') (JInt 1) then Inr None
               else (case result_from_dict rt raw of
                   Inl _ \<Rightarrow> Inr None
                 | Inr r \<Rightarrow> Inr (if cq_error r = None then Some r else None))))))"

definition storable :: "cached_result \<Rightarrow> provider_semantics \<Rightarrow> bool" where
  "storable r s = (cq_error r = None \<and> fl_finite (cq_latency_ms r) \<and> list_all (\<lambda>i. fl_finite (ct_score i)) (cq_items r)
     \<and> cache_eligible s)"

definition cache_put ::
  "runtime \<Rightarrow> publish_outcome \<Rightarrow> string \<Rightarrow> cached_result \<Rightarrow> provider_semantics \<Rightarrow> directory \<Rightarrow> bool result \<times> directory" where
  "cache_put rt out key r s d =
     (if \<not> storable r s then (Inr False, d)
      else (case atomic_write_json out (cache_file rt key) (JDict (result_to_dict r)) d of
          (e, d') \<Rightarrow> (rbind e (\<lambda>_. Inr True), d')))"

section \<open>A stored result is what a reader gets\<close>

text \<open>A reader gets the stored result with the entries of its dictionaries in key order and without evidence envelopes.\<close>

definition read_item :: "cached_item \<Rightarrow> cached_item" where
  "read_item i = i\<lparr>ct_metadata := ordered (ct_metadata i), ct_provenance := ordered (ct_provenance i), ct_evidence := None\<rparr>"

definition read_back :: "cached_result \<Rightarrow> cached_result" where
  "read_back r = r\<lparr>cq_items := map read_item (cq_items r)\<rparr>"

lemma float_or_zero_again: "float_or_zero rt (JFloat x) = Inr x"
  by (simp add: float_or_zero_def py_or_def)

lemma item_read_back:
  assumes "sort_keys (JDict (cached_item_to_dict i)) = JDict e"
  shows "cached_item_of rt e = Inr (read_item i)"
proof -
  have wf: "dict_wf (cached_item_to_dict i)" by (simp add: cached_item_to_dict_def dict_wf_def dkeys_def split: option.split)
  have get: "jget_or e k (JStr s) = sort_keys (jget_or (cached_item_to_dict i) k (JStr s))"
    "jget_or e k (JBool b) = sort_keys (jget_or (cached_item_to_dict i) k (JBool b))"
    "jget_or e k (JFloat x) = sort_keys (jget_or (cached_item_to_dict i) k (JFloat x))" for k s b x
    using sorted_get_or [OF wf assms, of k "JStr s"] sorted_get_or [OF wf assms, of k "JBool b"]
      sorted_get_or [OF wf assms, of k "JFloat x"] by simp_all
  show ?thesis
    by (simp add: cached_item_of_def get sorted_get [OF wf assms])
      (simp add: cached_item_to_dict_def dict_simps float_or_zero_again read_item_def ordered_def)
qed

lemma items_read_back:
  "cached_items_of rt (sort_keys (JList (map (\<lambda>i. JDict (cached_item_to_dict i)) xs))) = Inr (map read_item xs)"
  by (induction xs) (simp_all add: cached_items_of_def List.map_filter_simps as_dict_def item_read_back)

lemma kept_text_opt: "kept_text rt (sort_keys (opt_str s)) = s" "opt_to_int (sort_keys (int_or_null n)) = Inr n"
  by (simp_all add: kept_text_def opt_str_def opt_to_int_def int_or_null_def split: option.split)

lemma result_read_back:
  assumes "sort_keys (JDict (result_to_dict r)) = JDict e"
  shows "result_from_dict rt e = Inr (read_back r)" "jget e ''schema_version'' = JInt 1"
proof -
  have wf: "dict_wf (result_to_dict r)" by (simp add: result_to_dict_def dict_wf_def dkeys_def)
  note get = sorted_get [OF wf assms]
  have get_or: "jget_or e k (JStr s) = sort_keys (jget_or (result_to_dict r) k (JStr s))"
    "jget_or e k (JBool b) = sort_keys (jget_or (result_to_dict r) k (JBool b))"
    "jget_or e k (JFloat x) = sort_keys (jget_or (result_to_dict r) k (JFloat x))" for k s b x
    using sorted_get_or [OF wf assms, of k "JStr s"] sorted_get_or [OF wf assms, of k "JBool b"]
      sorted_get_or [OF wf assms, of k "JFloat x"] by simp_all
  have fields: "jget (result_to_dict r) ''items'' = JList (map (\<lambda>i. JDict (cached_item_to_dict i)) (cq_items r))"
    "jget (result_to_dict r) ''error'' = opt_str (cq_error r)" "jget (result_to_dict r) ''error_kind'' = opt_str (cq_error_kind r)"
    "jget (result_to_dict r) ''returncode'' = int_or_null (cq_returncode r)" "jget (result_to_dict r) ''schema_version'' = JInt 1"
    "jget_or (result_to_dict r) ''provider'' v = JStr (cq_provider r)" "jget_or (result_to_dict r) ''latency_ms'' v = JFloat (cq_latency_ms r)"
    "jget_or (result_to_dict r) ''timed_out'' v = JBool (cq_timed_out r)"
    "jget_or (result_to_dict r) ''output_limited'' v = JBool (cq_output_limited r)" for v
    by (simp_all add: result_to_dict_def dict_simps)
  show "jget e ''schema_version'' = JInt 1" by (simp add: get fields)
  show "result_from_dict rt e = Inr (read_back r)"
    by (simp add: result_from_dict_def get get_or fields items_read_back kept_text_opt float_or_zero_again read_back_def
        del: sort_keys.simps(6))
qed

text \<open>The body that \<open>put\<close> leaves in the file.\<close>

definition stored_body :: "cached_result \<Rightarrow> file_body" where
  "stored_body r = Holds (sort_keys (JDict (result_to_dict r)))"

lemma cache_put_directory:
  "snd (cache_put rt out key r s d)
     = (if storable r s \<and> out \<noteq> WriteFails then dset d (cache_file rt key) (stored_body r) else d)"
  by (simp add: cache_put_def atomic_write_json_def stored_body_def split: prod.split del: sort_keys.simps)

lemma cache_get_stored:
  assumes "dget d (cache_file rt key) = Some (stored_body r)" "cq_error r = None" "\<not> undecodable (cache_file rt key)"
  shows "cache_get rt undecodable d key = Inr (Some (read_back r))"
proof -
  obtain e where e: "sort_keys (JDict (result_to_dict r)) = JDict e" by simp
  show ?thesis
    using assms result_read_back [OF e] e
    by (simp add: cache_get_def stored_body_def load_json_def read_back_def del: sort_keys.simps)
qed

theorem put_then_get:
  assumes "cache_put rt out key r s d = (Inr True, d')" "\<not> undecodable (cache_file rt key)"
  shows "cache_get rt undecodable d' key = Inr (Some (read_back r)) \<and> cache_eligible s"
proof -
  have "storable r s" "out \<noteq> WriteFails"
    using assms(1) by (auto simp: cache_put_def atomic_write_json_def split: if_splits)
  then have "d' = dset d (cache_file rt key) (stored_body r)" using cache_put_directory [of rt out key r s d] assms(1) by simp
  then show ?thesis using cache_get_stored [of d' rt key r] assms(2) \<open>storable r s\<close> by (simp add: storable_def)
qed

section \<open>Whatever is read was put\<close>

type_synonym cache_write = "publish_outcome \<times> string \<times> cached_result \<times> provider_semantics"

fun cache_puts :: "runtime \<Rightarrow> cache_write list \<Rightarrow> directory \<Rightarrow> directory" where
  "cache_puts rt [] d = d"
| "cache_puts rt ((out, key, r, s) # ws) d = cache_puts rt ws (snd (cache_put rt out key r s d))"

lemma cache_puts_other:
  assumes "\<forall>(out, key', r, s) \<in> set ws. cache_file rt key' \<noteq> cache_file rt key"
  shows "cache_get rt undecodable (cache_puts rt ws d) key = cache_get rt undecodable d key"
proof -
  have "dget (cache_puts rt ws d) (cache_file rt key) = dget d (cache_file rt key)"
    using assms by (induction rt ws d rule: cache_puts.induct) (auto simp: cache_put_directory)
  then show ?thesis by (simp add: cache_get_def)
qed

definition written :: "runtime \<Rightarrow> cache_write list \<Rightarrow> string \<Rightarrow> file_body \<Rightarrow> bool" where
  "written rt ws f b = (\<exists>out key r s. (out, key, r, s) \<in> set ws \<and> storable r s \<and> cache_file rt key = f \<and> b = stored_body r)"

lemma cache_puts_written:
  "dget (cache_puts rt ws d) f = Some b \<Longrightarrow> dget d f = Some b \<or> written rt ws f b"
proof (induction ws arbitrary: d)
  case (Cons w ws)
  obtain out key r s where w: "w = (out, key, r, s)" by (cases w)
  have "dget (snd (cache_put rt out key r s d)) f = Some b \<or> written rt ws f b" using Cons by (simp add: w)
  moreover have "dget (snd (cache_put rt out key r s d)) f = Some b \<Longrightarrow> dget d f = Some b \<or> written rt (w # ws) f b"
    by (auto simp: cache_put_directory w written_def split: if_splits)
  moreover have "written rt ws f b \<Longrightarrow> written rt (w # ws) f b" by (auto simp: written_def)
  ultimately show ?case by blast
qed simp

text \<open>A hit in a cache that only \<open>put\<close> has filled is the result of a call that did not fail, of a provider declared
  deterministic, cacheable and free of side effects, with finite numbers.\<close>

theorem cache_hit_was_put:
  assumes "cache_get rt undecodable (cache_puts rt ws []) key = Inr (Some q)"
  shows "\<exists>out key' r s. (out, key', r, s) \<in> set ws \<and> cache_file rt key' = cache_file rt key \<and> storable r s \<and> q = read_back r"
proof -
  obtain b where b: "dget (cache_puts rt ws []) (cache_file rt key) = Some b" and u: "\<not> undecodable (cache_file rt key)"
    using assms by (auto simp: cache_get_def split: option.splits if_splits)
  then obtain out key' r s where w: "(out, key', r, s) \<in> set ws" "storable r s" "cache_file rt key' = cache_file rt key" "b = stored_body r"
    using cache_puts_written [OF b] by (auto simp: written_def)
  have "cache_get rt undecodable (cache_puts rt ws []) key = Inr (Some (read_back r))"
    by (rule cache_get_stored) (use b w u in \<open>auto simp: storable_def\<close>)
  then show ?thesis using assms w by auto
qed

text \<open>A file that is no UTF-8 text is the one state of the directory in which reading raises.\<close>

theorem cache_get_raises:
  "(\<exists>e. cache_get rt undecodable d key = Inl e) \<longleftrightarrow> dget d (cache_file rt key) \<noteq> None \<and> undecodable (cache_file rt key)"
  by (auto simp: cache_get_def split: option.splits sum.splits)

section \<open>The key names the call\<close>

definition same_call :: "retrieval_request \<Rightarrow> retrieval_request \<Rightarrow> bool" where
  "same_call a b = (rx_query a = rx_query b \<and> rx_limit a = rx_limit b \<and> rx_intent a = rx_intent b
     \<and> rx_timeout a = rx_timeout b \<and> rx_changed_files a = rx_changed_files b
     \<and> cache_canonical (JDict (rx_metadata a)) = cache_canonical (JDict (rx_metadata b)))"

text \<open>Neither the directory of the workspace nor the order of the metadata decides the key.\<close>

theorem cache_key_same: "same_call a b \<Longrightarrow> retrieval_cache_key rt p w n v a = retrieval_cache_key rt p w n v b"
  by (simp add: same_call_def retrieval_cache_key_def)

end
