(* ===== verification/MemoryStore.thy ===== *)
theory MemoryStore
  imports ProductionStore "HOL-Library.Product_Lexorder"
begin

text \<open>
  \<open>memory_store.py\<close>: the SQLite table of memories, one row per identifier.  Every operation is one transaction: what
  the machine decides is a \<open>db_outcome\<close>, an exception inside rolls back.  A row keeps the record itself; its text is the
  \<open>json.dumps\<close> of it with sorted keys and parses back to it.
\<close>

section \<open>Opening\<close>

text \<open>What the attempts to set up the database meet: \<open>None\<close> for success, else the message of the \<open>OperationalError\<close>.\<close>

definition is_lock_error :: "string \<Rightarrow> bool" where
  "is_lock_error msg = (contains_str (lower msg) ''locked'' \<or> contains_str (lower msg) ''busy'')"

text \<open>At most eight attempts; the second component lists the pauses in seconds.\<close>

function initialize_from :: "(nat \<Rightarrow> string option) \<Rightarrow> nat \<Rightarrow> unit result \<times> rat list" where
  "initialize_from meets attempt = (case meets attempt of
     None \<Rightarrow> (Inr (), [])
   | Some msg \<Rightarrow>
       (if \<not> is_lock_error msg \<or> 7 \<le> attempt then (Inl (SqliteError msg), [])
        else case initialize_from meets (Suc attempt) of
          (r, pauses) \<Rightarrow> (r, min (25/1000 * 2 ^ attempt) (4/10) # pauses)))"
  by pat_completeness auto
termination initialize_from
  by (relation "measure (\<lambda>(_, attempt). 8 - attempt)") auto

declare initialize_from.simps [simp del]

definition initialize_store :: "(nat \<Rightarrow> string option) \<Rightarrow> unit result \<times> rat list" where
  "initialize_store meets = initialize_from meets 0"

lemma initialize_pauses:
  "initialize_from meets attempt = (r, pauses) \<Longrightarrow> length pauses \<le> 7 - attempt \<and> (\<forall>p \<in> set pauses. p \<le> 4/10)"
proof (induction meets attempt arbitrary: r pauses rule: initialize_from.induct)
  case (1 meets attempt)
  show ?case
  proof (cases "\<exists>msg. meets attempt = Some msg \<and> is_lock_error msg \<and> attempt < 7")
    case True
    then obtain msg where m: "meets attempt = Some msg" "is_lock_error msg" "attempt < 7" by blast
    obtain r' ps where n: "initialize_from meets (Suc attempt) = (r', ps)" by (cases "initialize_from meets (Suc attempt)")
    have "length ps \<le> 7 - Suc attempt \<and> (\<forall>p \<in> set ps. p \<le> 4/10)" by (rule 1(1) [OF m(1) _ n]) (use m in simp)
    moreover have "pauses = min (25/1000 * 2 ^ attempt) (4/10) # ps"
      using 1(2) m n by (subst (asm) initialize_from.simps) simp
    ultimately show ?thesis using m(3) by auto
  next
    case False
    then have "pauses = []"
      using 1(2) by (subst (asm) initialize_from.simps) (auto split: option.splits if_splits)
    then show ?thesis by simp
  qed
qed

section \<open>Rows\<close>

record memory_row =
  mw_type :: string
  mw_created_at :: string
  mw_verified_at :: string
  mw_confidence :: pyfloat
  mw_record :: "json dict"

type_synonym memory_table = "memory_row dict"

definition memory_payload :: "runtime \<Rightarrow> json dict \<Rightarrow> (string \<times> memory_row) result" where
  "memory_payload rt r = (case dget r ''id'' of
     None \<Rightarrow> Inl (KeyError ''id'')
   | Some i \<Rightarrow>
       rbind (to_float rt (jget_or r ''confidence'' (JFloat (Fin 0)))) (\<lambda>confidence.
         Inr (py_str rt i, \<lparr>mw_type = py_str rt (jget_or r ''type'' (JStr ''pattern'')),
           mw_created_at = py_str rt (jget_or r ''created_at'' (JStr [])),
           mw_verified_at = py_str rt (jget_or r ''verified_at'' (jget_or r ''created_at'' (JStr []))),
           mw_confidence = confidence, mw_record = (case sort_keys (JDict r) of JDict d \<Rightarrow> d | _ \<Rightarrow> [])\<rparr>)))"

text \<open>A NaN is stored as NULL, which the columns refuse.\<close>

definition storable_row :: "memory_row \<Rightarrow> bool" where
  "storable_row w = (mw_confidence w \<noteq> NaN)"

definition not_null :: py_error where
  "not_null = SqliteError ''NOT NULL constraint failed: memories.confidence''"

definition insert_row :: "string \<times> memory_row \<Rightarrow> memory_table \<Rightarrow> memory_table result" where
  "insert_row p t =
     guard_that (storable_row (snd p)) not_null
     (guard_that (dget t (fst p) = None) (SqliteError ''UNIQUE constraint failed: memories.id'') (Inr (t @ [p])))"

definition upsert_row :: "string \<times> memory_row \<Rightarrow> memory_table \<Rightarrow> memory_table result" where
  "upsert_row p t = guard_that (storable_row (snd p)) not_null (Inr (dset t (fst p) (snd p)))"

text \<open>\<open>INSERT OR IGNORE\<close>: a row the constraints refuse is left out; the second component counts the rows inserted.\<close>

definition insert_or_ignore :: "string \<times> memory_row \<Rightarrow> memory_table \<times> int \<Rightarrow> memory_table \<times> int" where
  "insert_or_ignore p tn = (case insert_row p (fst tn) of Inr t \<Rightarrow> (t, snd tn + 1) | Inl _ \<Rightarrow> tn)"

section \<open>Transactions\<close>

definition in_transaction :: "db_outcome \<Rightarrow> (memory_table \<Rightarrow> ('a \<times> memory_table) result) \<Rightarrow> memory_table \<Rightarrow> 'a result \<times> memory_table" where
  "in_transaction db f t = (case db of
     DbFails e \<Rightarrow> (Inl e, t)
   | DbOk \<Rightarrow> (case f t of Inl e \<Rightarrow> (Inl e, t) | Inr (x, t') \<Rightarrow> (Inr x, t')))"

definition memory_insert :: "runtime \<Rightarrow> db_outcome \<Rightarrow> json dict \<Rightarrow> memory_table \<Rightarrow> unit result \<times> memory_table" where
  "memory_insert rt db r = in_transaction db (\<lambda>t.
     rbind (memory_payload rt r) (\<lambda>p. rbind (insert_row p t) (\<lambda>t'. Inr ((), t'))))"

definition memory_upsert :: "runtime \<Rightarrow> db_outcome \<Rightarrow> json dict \<Rightarrow> memory_table \<Rightarrow> unit result \<times> memory_table" where
  "memory_upsert rt db r = in_transaction db (\<lambda>t.
     rbind (memory_payload rt r) (\<lambda>p. rbind (upsert_row p t) (\<lambda>t'. Inr ((), t'))))"

definition list_memory_records :: "db_outcome \<Rightarrow> memory_table \<Rightarrow> json dict list result" where
  "list_memory_records db t = (case db of
     DbFails e \<Rightarrow> Inl e
   | DbOk \<Rightarrow> Inr (map (\<lambda>(_, w). mw_record w) (sort_key (\<lambda>(i, w). (mw_created_at w, i)) t)))"

fun insert_rows :: "(string \<times> memory_row) list \<Rightarrow> memory_table \<Rightarrow> memory_table result" where
  "insert_rows [] t = Inr t"
| "insert_rows (p # ps) t = rbind (insert_row p t) (insert_rows ps)"

definition memory_replace_all :: "runtime \<Rightarrow> db_outcome \<Rightarrow> json dict list \<Rightarrow> memory_table \<Rightarrow> unit result \<times> memory_table" where
  "memory_replace_all rt db rs t = (case rmap (memory_payload rt) rs of
     Inl e \<Rightarrow> (Inl e, t)
   | Inr ps \<Rightarrow> in_transaction db (\<lambda>_. rbind (insert_rows ps []) (\<lambda>t'. Inr ((), t'))) t)"

text \<open>The lines of a file as the parser sees them: \<open>None\<close> for blank lines and lines that are no JSON.\<close>

definition read_jsonl :: "json option list \<Rightarrow> json dict list" where
  "read_jsonl ls = List.map_filter (\<lambda>l. case l of Some (JDict d) \<Rightarrow> if truthy (jget d ''id'') then Some d else None | _ \<Rightarrow> None) ls"

definition import_jsonl ::
  "runtime \<Rightarrow> db_outcome \<Rightarrow> json option list option \<Rightarrow> memory_table \<Rightarrow> int result \<times> memory_table" where
  "import_jsonl rt db content t = (case content of
     None \<Rightarrow> (Inr 0, t)
   | Some ls \<Rightarrow>
       (let rs = read_jsonl ls in
        if rs = [] then (Inr 0, t)
        else in_transaction db (\<lambda>t. rbind (rmap (memory_payload rt) rs) (\<lambda>ps.
          let (t', n) = fold insert_or_ignore ps (t, 0) in Inr (n, t'))) t))"

text \<open>The lines that are written, one per record.\<close>

definition export_jsonl :: "db_outcome \<Rightarrow> memory_table \<Rightarrow> (int \<times> json option list) result" where
  "export_jsonl db t = rbind (list_memory_records db t) (\<lambda>rs. Inr (int (length rs), map (\<lambda>r. Some (JDict r)) rs))"

section \<open>The table is a map from identifiers to records\<close>

text \<open>Identifiers are unique, and each row was made from the record it keeps.\<close>

definition memory_ok :: "runtime \<Rightarrow> memory_table \<Rightarrow> bool" where
  "memory_ok rt t = (dict_wf t \<and> (\<forall>(i, w) \<in> set t. storable_row w
     \<and> (\<exists>r. memory_payload rt r = Inr (i, w) \<and> dict_wf r)))"

definition memories :: "memory_table \<Rightarrow> string \<rightharpoonup> json dict" where
  "memories t i = map_option mw_record (dget t i)"

lemma dget_snoc: "dget t k = None \<Longrightarrow> dget (t @ [(k, v)]) j = (if j = k then Some v else dget t j)"
  by (auto simp: dget_def map_add_def split: option.split)

lemma insert_row_Inr:
  assumes "insert_row p t = Inr t'"
  shows "storable_row (snd p)" "dget t (fst p) = None" "t' = t @ [p]"
    and "dget t' j = (if j = fst p then Some (snd p) else dget t j)"
  using assms dget_snoc [of t "fst p" "snd p"] by (auto simp: insert_row_def guard_that_Inr_iff)

lemma dict_wf_snoc: "dict_wf t \<Longrightarrow> dget t i = None \<Longrightarrow> dict_wf (t @ [(i, w)])"
  using set_dkeys_iff [of i t] by (simp add: dict_wf_def dkeys_def)

lemma memory_ok_insert:
  assumes "memory_ok rt t" "memory_payload rt r = Inr p" "dict_wf r" "insert_row p t = Inr t'"
  shows "memory_ok rt t'"
  using assms insert_row_Inr [OF assms(4)] dict_wf_snoc [of t "fst p" "snd p"] by (auto simp: memory_ok_def)

lemma memory_ok_upsert:
  assumes "memory_ok rt t" "memory_payload rt r = Inr p" "dict_wf r" "upsert_row p t = Inr t'"
  shows "memory_ok rt t'"
proof -
  have t': "t' = dset t (fst p) (snd p)" "storable_row (snd p)" using assms(4) by (auto simp: upsert_row_def guard_that_Inr_iff)
  then show ?thesis
    using assms(1-3) set_dset [of t "fst p" "snd p"] by (fastforce simp: memory_ok_def)
qed

section \<open>What the store promises\<close>

datatype memory_op = InsertMemory "json dict" | UpsertMemory "json dict" | ReplaceMemories "json dict list"
  | ImportMemories "json option list option"

definition run_memory :: "runtime \<Rightarrow> db_outcome \<Rightarrow> memory_op \<Rightarrow> memory_table \<Rightarrow> unit result \<times> memory_table" where
  "run_memory rt db op t = (case op of
     InsertMemory r \<Rightarrow> memory_insert rt db r t
   | UpsertMemory r \<Rightarrow> memory_upsert rt db r t
   | ReplaceMemories rs \<Rightarrow> memory_replace_all rt db rs t
   | ImportMemories content \<Rightarrow> (case import_jsonl rt db content t of (r, t') \<Rightarrow> (rbind r (\<lambda>_. Inr ()), t')))"

text \<open>The specification: a partial map from identifiers to records with sorted keys.\<close>

definition memory_id :: "runtime \<Rightarrow> json dict \<Rightarrow> string" where
  "memory_id rt r = py_str rt (jget r ''id'')"

definition kept_record :: "json dict \<Rightarrow> json dict" where
  "kept_record r = (case sort_keys (JDict r) of JDict d \<Rightarrow> d | _ \<Rightarrow> [])"

definition refused_record :: "runtime \<Rightarrow> json dict \<Rightarrow> bool" where
  "refused_record rt r = (to_float rt (jget_or r ''confidence'' (JFloat (Fin 0))) = Inr NaN)"

definition import_one :: "runtime \<Rightarrow> json dict \<Rightarrow> (string \<rightharpoonup> json dict) \<Rightarrow> (string \<rightharpoonup> json dict)" where
  "import_one rt r m = (if m (memory_id rt r) \<noteq> None \<or> refused_record rt r then m else m(memory_id rt r \<mapsto> kept_record r))"

definition spec_memory :: "runtime \<Rightarrow> memory_op \<Rightarrow> (string \<rightharpoonup> json dict) \<Rightarrow> (string \<rightharpoonup> json dict) option" where
  "spec_memory rt op m = (case op of
     InsertMemory r \<Rightarrow> if m (memory_id rt r) = None then Some (m(memory_id rt r \<mapsto> kept_record r)) else None
   | UpsertMemory r \<Rightarrow> Some (m(memory_id rt r \<mapsto> kept_record r))
   | ReplaceMemories rs \<Rightarrow> if distinct (map (memory_id rt) rs) then Some (map_of (map (\<lambda>r. (memory_id rt r, kept_record r)) rs)) else None
   | ImportMemories content \<Rightarrow> Some (case content of None \<Rightarrow> m | Some ls \<Rightarrow> fold (import_one rt) (read_jsonl ls) m))"

text \<open>The records of an operation are Python dictionaries.\<close>

definition op_records :: "memory_op \<Rightarrow> json dict list" where
  "op_records op = (case op of InsertMemory r \<Rightarrow> [r] | UpsertMemory r \<Rightarrow> [r] | ReplaceMemories rs \<Rightarrow> rs
     | ImportMemories content \<Rightarrow> (case content of None \<Rightarrow> [] | Some ls \<Rightarrow> read_jsonl ls))"

lemma payload_parts:
  assumes "memory_payload rt r = Inr p"
  shows "fst p = memory_id rt r" "mw_record (snd p) = kept_record r" "storable_row (snd p) \<longleftrightarrow> \<not> refused_record rt r"
  using assms
  by (auto simp: memory_payload_def memory_id_def kept_record_def storable_row_def refused_record_def jget_def rbind_Inr_iff
      split: option.splits simp del: sort_keys.simps)

lemma memories_update: "(\<forall>j. dget t' j = (if j = i then Some w else dget t j)) \<Longrightarrow> memories t' = (memories t)(i \<mapsto> mw_record w)"
  by (auto simp: memories_def)

lemma insert_rows_spec:
  assumes "rmap (memory_payload rt) rs = Inr ps" "\<forall>r \<in> set rs. dict_wf r" "insert_rows ps t = Inr t'" "memory_ok rt t"
  shows "memory_ok rt t' \<and> distinct (map (memory_id rt) rs) \<and> (\<forall>r \<in> set rs. dget t (memory_id rt r) = None)
    \<and> memories t' = memories t ++ map_of (map (\<lambda>r. (memory_id rt r, kept_record r)) rs)"
  using assms
proof (induction rs arbitrary: ps t)
  case (Cons r rs)
  then obtain p ps' t1 where p: "memory_payload rt r = Inr p" "rmap (memory_payload rt) rs = Inr ps'" "ps = p # ps'"
    and t1: "insert_row p t = Inr t1" "insert_rows ps' t1 = Inr t'" by (auto simp: rbind_Inr_iff)
  note pp = payload_parts [OF p(1)]
  have ok: "memory_ok rt t1" using memory_ok_insert [OF Cons.prems(4) p(1) _ t1(1)] Cons.prems(2) by simp
  have ih: "memory_ok rt t' \<and> distinct (map (memory_id rt) rs) \<and> (\<forall>r \<in> set rs. dget t1 (memory_id rt r) = None)
      \<and> memories t' = memories t1 ++ map_of (map (\<lambda>r. (memory_id rt r, kept_record r)) rs)"
    by (rule Cons.IH [OF p(2) _ t1(2) ok]) (use Cons.prems(2) in simp)
  note g = insert_row_Inr(4) [OF t1(1), unfolded pp(1)]
  have m1: "memories t1 = (memories t)(memory_id rt r \<mapsto> kept_record r)"
    using memories_update [of t1 "memory_id rt r" "snd p" t] g pp(2) by simp
  have fresh: "\<forall>r' \<in> set rs. memory_id rt r' \<noteq> memory_id rt r \<and> dget t (memory_id rt r') = None" using ih g by (auto split: if_splits)
  then have "map_of (map (\<lambda>r. (memory_id rt r, kept_record r)) rs) (memory_id rt r) = None" by (auto simp: map_of_eq_None_iff)
  then have eq: "memories t1 ++ map_of (map (\<lambda>r. (memory_id rt r, kept_record r)) rs)
      = memories t ++ map_of (map (\<lambda>r. (memory_id rt r, kept_record r)) (r # rs))"
    by (auto simp: m1 map_add_def fun_eq_iff split: option.split)
  have "memories t' = memories t ++ map_of (map (\<lambda>r. (memory_id rt r, kept_record r)) (r # rs))" using ih eq by metis
  moreover have "distinct (map (memory_id rt) (r # rs))" "\<forall>x \<in> set (r # rs). dget t (memory_id rt x) = None"
    using ih fresh insert_row_Inr(2) [OF t1(1)] pp(1) by auto
  ultimately show ?case using ih by blast
qed simp

lemma insert_or_ignore_spec:
  assumes "memory_payload rt r = Inr p" "dict_wf r" "memory_ok rt t" "insert_or_ignore p (t, n) = (t', n')"
  shows "memory_ok rt t' \<and> memories t' = import_one rt r (memories t)"
proof (cases "insert_row p t")
  case (Inl e)
  then have "dget t (memory_id rt r) \<noteq> None \<or> refused_record rt r"
    using payload_parts [OF assms(1)] by (auto simp: insert_row_def guard_that_Inl_iff)
  then show ?thesis using Inl assms(3,4) by (auto simp: insert_or_ignore_def import_one_def memories_def)
next
  case (Inr t1)
  note pp = payload_parts [OF assms(1)]
  have "t' = t1" using Inr assms(4) by (simp add: insert_or_ignore_def)
  moreover have "memories t1 = (memories t)(memory_id rt r \<mapsto> kept_record r)"
    using memories_update [of t1 "memory_id rt r" "snd p" t] insert_row_Inr(4) [OF Inr] pp(1,2) by simp
  moreover have "memories t (memory_id rt r) = None" "\<not> refused_record rt r"
    using insert_row_Inr(1,2) [OF Inr] pp by (simp_all add: memories_def)
  ultimately show ?thesis using memory_ok_insert [OF assms(3,1,2) Inr] by (simp add: import_one_def)
qed

lemma import_rows_spec:
  assumes "rmap (memory_payload rt) rs = Inr ps" "\<forall>r \<in> set rs. dict_wf r" "fold insert_or_ignore ps (t, n) = (t', n')" "memory_ok rt t"
  shows "memory_ok rt t' \<and> memories t' = fold (import_one rt) rs (memories t)"
  using assms
proof (induction rs arbitrary: ps t n)
  case (Cons r rs)
  then obtain p ps' where p: "memory_payload rt r = Inr p" "rmap (memory_payload rt) rs = Inr ps'" "ps = p # ps'"
    by (auto simp: rbind_Inr_iff)
  obtain t1 n1 where t1: "insert_or_ignore p (t, n) = (t1, n1)" by (cases "insert_or_ignore p (t, n)")
  have s: "memory_ok rt t1 \<and> memories t1 = import_one rt r (memories t)"
    by (rule insert_or_ignore_spec [OF p(1) _ Cons.prems(4) t1]) (use Cons.prems(2) in simp)
  show ?case using Cons.IH [OF p(2), of t1 n1] Cons.prems(2,3) s by (simp add: p(3) t1)
qed simp

text \<open>Every operation takes effect as a whole and as specified, or raises and leaves the table as it was.\<close>

theorem memory_refines:
  assumes "run_memory rt db op t = (r, t')" "memory_ok rt t" "\<forall>d \<in> set (op_records op). dict_wf d"
  shows "memory_ok rt t' \<and> (case r of Inl _ \<Rightarrow> t' = t | Inr _ \<Rightarrow> spec_memory rt op (memories t) = Some (memories t'))"
proof (cases r)
  case (Inl e)
  then have "t' = t"
    using assms(1)
    by (auto simp: run_memory_def memory_insert_def memory_upsert_def memory_replace_all_def import_jsonl_def in_transaction_def Let_def
        rbind_Inl_iff split: memory_op.splits db_outcome.splits sum.splits option.splits prod.splits if_splits)
  then show ?thesis using Inl assms(2) by simp
next
  case (Inr u)
  show ?thesis
  proof (cases op)
    case (InsertMemory d)
    then obtain p where p: "memory_payload rt d = Inr p" "insert_row p t = Inr t'"
      using assms(1) Inr by (auto simp: run_memory_def memory_insert_def in_transaction_def rbind_Inr_iff split: db_outcome.splits sum.splits)
    note pp = payload_parts [OF p(1)]
    have "memories t' = (memories t)(memory_id rt d \<mapsto> kept_record d)"
      using memories_update [of t' "memory_id rt d" "snd p" t] insert_row_Inr(4) [OF p(2)] pp(1,2) by simp
    moreover have "memories t (memory_id rt d) = None" using insert_row_Inr(2) [OF p(2)] pp(1) by (simp add: memories_def)
    ultimately show ?thesis
      using memory_ok_insert [OF assms(2) p(1) _ p(2)] assms(3) InsertMemory Inr by (simp add: spec_memory_def op_records_def)
  next
    case (UpsertMemory d)
    then obtain p where p: "memory_payload rt d = Inr p" "upsert_row p t = Inr t'"
      using assms(1) Inr by (auto simp: run_memory_def memory_upsert_def in_transaction_def rbind_Inr_iff split: db_outcome.splits sum.splits)
    note pp = payload_parts [OF p(1)]
    have "t' = dset t (memory_id rt d) (snd p)" using p(2) pp(1) by (simp add: upsert_row_def guard_that_Inr_iff)
    then have "memories t' = (memories t)(memory_id rt d \<mapsto> kept_record d)"
      using memories_update [of t' "memory_id rt d" "snd p" t] pp(2) by simp
    then show ?thesis
      using memory_ok_upsert [OF assms(2) p(1) _ p(2)] assms(3) UpsertMemory Inr by (simp add: spec_memory_def op_records_def)
  next
    case (ReplaceMemories rs)
    then obtain ps where ps: "rmap (memory_payload rt) rs = Inr ps" "insert_rows ps [] = Inr t'"
      using assms(1) Inr
      by (auto simp: run_memory_def memory_replace_all_def in_transaction_def rbind_Inr_iff split: db_outcome.splits sum.splits)
    have "memory_ok rt t' \<and> distinct (map (memory_id rt) rs) \<and> (\<forall>r \<in> set rs. dget ([] :: memory_table) (memory_id rt r) = None)
        \<and> memories t' = memories [] ++ map_of (map (\<lambda>r. (memory_id rt r, kept_record r)) rs)"
      by (rule insert_rows_spec [OF ps(1) _ ps(2)]) (use assms(3) ReplaceMemories in \<open>simp_all add: op_records_def memory_ok_def dict_wf_def dkeys_def\<close>)
    moreover have "memories [] = Map.empty" by (auto simp: memories_def)
    ultimately show ?thesis using ReplaceMemories Inr by (simp add: spec_memory_def)
  next
    case (ImportMemories content)
    show ?thesis
    proof (cases "content = None \<or> (\<exists>ls. content = Some ls \<and> read_jsonl ls = [])")
      case True
      then have "t' = t" using assms(1) ImportMemories by (auto simp: run_memory_def import_jsonl_def)
      moreover have "spec_memory rt op m = Some m" for m using True ImportMemories by (auto simp: spec_memory_def)
      ultimately show ?thesis using assms(2) Inr by simp
    next
      case False
      then obtain ls where ls: "content = Some ls" "read_jsonl ls \<noteq> []" by (cases content) auto
      then obtain ps where p: "rmap (memory_payload rt) (read_jsonl ls) = Inr ps" "fst (fold insert_or_ignore ps (t, 0)) = t'"
        using assms(1) Inr ImportMemories
        by (auto simp: run_memory_def import_jsonl_def in_transaction_def rbind_Inr_iff Let_def case_prod_unfold
            split: db_outcome.splits sum.splits)
      obtain n where ps: "rmap (memory_payload rt) (read_jsonl ls) = Inr ps" "fold insert_or_ignore ps (t, 0) = (t', n)"
        using p by (metis prod.collapse)
      have "memory_ok rt t' \<and> memories t' = fold (import_one rt) (read_jsonl ls) (memories t)"
        by (rule import_rows_spec [OF ps(1) _ ps(2) assms(2)]) (use assms(3) ImportMemories ls in \<open>simp add: op_records_def\<close>)
      then show ?thesis using ImportMemories Inr ls by (simp add: spec_memory_def)
    qed
  qed
qed

lemma memory_done:
  assumes "run_memory rt db op t = (Inr (), t')" "memory_ok rt t" "\<forall>d \<in> set (op_records op). dict_wf d"
  shows "memory_ok rt t'" "spec_memory rt op (memories t) = Some (memories t')"
  using memory_refines [OF assms] by simp_all

section \<open>Listing\<close>

text \<open>A listing holds every record once, in the order of creation.\<close>

lemma set_sort_key_map: "set (map f (sort_key k xs)) = f ` set xs"
  by simp

lemma listed_memories:
  assumes "memory_ok rt t"
  shows "list_memory_records DbOk t = Inr rs \<Longrightarrow> set rs = ran (memories t) \<and> length rs = card (dom (memories t))"
proof -
  assume rs: "list_memory_records DbOk t = Inr rs"
  have wf: "distinct (map fst t)" using assms by (simp add: memory_ok_def dict_wf_def dkeys_def)
  have "set rs = (\<lambda>(_, w). mw_record w) ` set t" using rs by (auto simp: list_memory_records_def)
  also have "\<dots> = ran (memories t)"
    using wf by (force simp: ran_def memories_def dget_def map_of_eq_Some_iff)
  finally have "set rs = ran (memories t)" .
  moreover have "length rs = length t" using rs by (auto simp: list_memory_records_def)
  moreover have "dom (memories t) = fst ` set t" by (auto simp: memories_def dget_def dom_def map_of_eq_None_iff dest: not_None_eq [THEN iffD2])
  moreover have "card (fst ` set t) = length t" using wf by (metis distinct_card length_map list.set_map)
  ultimately show ?thesis by simp
qed

end
