(* ===== verification/Memory.thy ===== *)
theory Memory
  imports MemoryStore Fusion PathPolicy EngineParts
begin

text \<open>
  \<open>memory.py\<close> over the store of \<open>MemoryStore\<close>: adding a memory with the digests of its files, staleness, search, listing
  and pruning.  What the files of the workspace are is the argument \<open>view\<close>, what \<open>Path.resolve\<close> answers the argument
  \<open>resolve\<close>; \<open>base\<close> is the resolved root.
\<close>

section \<open>Files\<close>

datatype path_view = Absent | NoFile | Unreadable | FileWith string

record memory_env =
  me_base :: string
  me_resolve :: "string \<Rightarrow> string option"
  me_view :: "string \<Rightarrow> path_view"

definition MEMORY_TYPES :: "string list" where
  "MEMORY_TYPES = [''decision'', ''incident'', ''verified-fix'', ''architecture'', ''pattern'', ''optimization'', ''constraint'']"

definition relative_path :: "string \<Rightarrow> string \<Rightarrow> string" where
  "relative_path base p = (if p = base then ''.''
     else drop (length (if ends_with base ''/'' then base else base @ ''/'')) p)"

definition memory_file :: "memory_env \<Rightarrow> string \<Rightarrow> (string \<times> string) result" where
  "memory_file env raw = (case resolve_within_root (me_resolve env) (me_base env) raw of
     Inl _ \<Rightarrow> Inl (ValueError (''memory file path must stay within workspace: '' @ raw))
   | Inr p \<Rightarrow> Inr (relative_path (me_base env) p, p))"

section \<open>Adding\<close>

fun memory_files :: "memory_env \<Rightarrow> string list \<Rightarrow> (string list \<times> json dict) result" where
  "memory_files env [] = Inr ([], [])"
| "memory_files env (raw # raws) =
     rbind (memory_file env raw) (\<lambda>(rel, p).
     rbind (case me_view env p of
         FileWith digest \<Rightarrow> Inr [(rel, JStr digest)] | Unreadable \<Rightarrow> Inl (OSError ''unreadable'') | _ \<Rightarrow> Inr []) (\<lambda>h.
     rbind (memory_files env raws) (\<lambda>(rels, hs). Inr (rel # rels, h @ hs))))"

text \<open>A later digest of one path replaces an earlier one.\<close>

definition hashes_of :: "json dict \<Rightarrow> json dict" where
  "hashes_of hs = fold (\<lambda>(k, v) d. dset d k v) hs []"

definition memory_record ::
  "memory_env \<Rightarrow> string \<Rightarrow> string \<Rightarrow> string \<Rightarrow> string \<Rightarrow> string \<Rightarrow> string \<Rightarrow> string list \<Rightarrow> pyfloat \<Rightarrow> json dict result" where
  "memory_record env token now kind keywords_text summary evidence files confidence =
     guard_that (kind \<in> set MEMORY_TYPES) (ValueError (''unsupported memory type: '' @ kind))
     (rbind (memory_files env files) (\<lambda>(related, hs).
       Inr [(''id'', JStr (''mem-'' @ token)), (''type'', JStr kind), (''created_at'', JStr now), (''verified_at'', JStr now),
         (''keywords'', JList (map JStr (uniq (tokenize keywords_text)))),
         (''summary'', JStr (strip summary)), (''evidence'', JStr (strip evidence)), (''files'', JList (map JStr related)),
         (''source_hashes'', JDict (hashes_of hs)),
         (''confidence'', JFloat (fl_max (Fin 0) (fl_min (Fin 1) confidence)))]))"

definition add_memory ::
  "runtime \<Rightarrow> memory_env \<Rightarrow> db_outcome \<Rightarrow> string \<Rightarrow> string \<Rightarrow> string \<Rightarrow> string \<Rightarrow> string \<Rightarrow> string \<Rightarrow> string list \<Rightarrow> pyfloat
     \<Rightarrow> memory_table \<Rightarrow> json dict result \<times> memory_table" where
  "add_memory rt env db token now kind keywords_text summary evidence files confidence t =
     (case memory_record env token now kind keywords_text summary evidence files confidence of
        Inl e \<Rightarrow> (Inl e, t)
      | Inr r \<Rightarrow> (case memory_insert rt db r t of (x, t') \<Rightarrow> (rbind x (\<lambda>_. Inr r), t')))"

section \<open>Staleness\<close>

text \<open>\<open>rel in source_hashes\<close> for what a record may hold there.\<close>

definition names_entry :: "json \<Rightarrow> json \<Rightarrow> bool result" where
  "names_entry container v = (case container of
     JDict d \<Rightarrow> (case v of JStr s \<Rightarrow> Inr (s \<in> set (dkeys d)) | JList _ \<Rightarrow> Inl (TypeError ''unhashable type: list'')
       | JDict _ \<Rightarrow> Inl (TypeError ''unhashable type: dict'') | _ \<Rightarrow> Inr False)
   | JList xs \<Rightarrow> Inr (list_ex (\<lambda>x. py_eq x v) xs)
   | JStr h \<Rightarrow> (case v of JStr s \<Rightarrow> Inr (contains_str h s) | _ \<Rightarrow> Inl (TypeError ''requires string as left operand''))
   | _ \<Rightarrow> Inl (TypeError ''argument is not iterable''))"

fun any_missing :: "json \<Rightarrow> json list \<Rightarrow> bool result" where
  "any_missing container [] = Inr False"
| "any_missing container (v # vs) = rbind (names_entry container v) (\<lambda>b. if b then any_missing container vs else Inr True)"

definition file_changed :: "memory_env \<Rightarrow> string \<times> json \<Rightarrow> bool" where
  "file_changed env h = (case resolve_within_root (me_resolve env) (me_base env) (fst h) of
     Inl _ \<Rightarrow> True
   | Inr p \<Rightarrow> (case me_view env p of FileWith digest \<Rightarrow> snd h \<noteq> JStr digest | _ \<Rightarrow> True))"

definition memory_stale :: "memory_env \<Rightarrow> json dict \<Rightarrow> bool result" where
  "memory_stale env r =
     (let container = jget_or r ''source_hashes'' (JDict []) in
      rbind (to_list (jget_or r ''files'' (JList []))) (\<lambda>fs.
      rbind (any_missing container fs) (\<lambda>missing.
        if missing then Inr True
        else case container of
          JDict hs \<Rightarrow> Inr (list_ex (file_changed env) hs)
        | _ \<Rightarrow> Inl (AttributeError ''object has no attribute items''))))"

section \<open>Searching and listing\<close>

definition joined_words :: "json \<Rightarrow> string result" where
  "joined_words v = rbind (to_list v) (\<lambda>xs.
     rbind (rmap (\<lambda>x. case x of JStr s \<Rightarrow> Inr s | _ \<Rightarrow> Inl (TypeError ''sequence item: expected str instance'')) xs) (\<lambda>ss.
       Inr (join '' '' ss)))"

definition text_operand :: "json \<Rightarrow> string result" where
  "text_operand v = (case v of JStr s \<Rightarrow> Inr s | _ \<Rightarrow> Inl (TypeError ''can only concatenate str''))"

definition memory_text :: "json dict \<Rightarrow> string result" where
  "memory_text r =
     rbind (joined_words (jget_or r ''keywords'' (JList []))) (\<lambda>k.
     rbind (text_operand (jget_or r ''summary'' (JStr []))) (\<lambda>s.
     rbind (text_operand (jget_or r ''evidence'' (JStr []))) (\<lambda>e. Inr (k @ '' '' @ s @ '' '' @ e))))"

definition confidence_of :: "runtime \<Rightarrow> json dict \<Rightarrow> pyfloat result" where
  "confidence_of rt r = to_float rt (jget_or r ''confidence'' (JInt 0))"

text \<open>The candidates of a search with their texts, in the order of the table.\<close>

fun memory_candidates ::
  "runtime \<Rightarrow> memory_env \<Rightarrow> pyfloat \<Rightarrow> bool \<Rightarrow> json dict list \<Rightarrow> (string \<times> json dict) list result" where
  "memory_candidates rt env minimum exclude [] = Inr []"
| "memory_candidates rt env minimum exclude (r # rs) =
     rbind (confidence_of rt r) (\<lambda>c.
       if fl_lt c minimum then memory_candidates rt env minimum exclude rs
       else rbind (memory_stale env r) (\<lambda>stale.
         if exclude \<and> stale then memory_candidates rt env minimum exclude rs
         else rbind (memory_text r) (\<lambda>text.
           rbind (memory_candidates rt env minimum exclude rs) (\<lambda>rest.
             Inr ((text, dset r ''stale'' (JBool stale)) # rest)))))"

definition memory_scorer :: "json dict bm25" where
  "memory_scorer = \<lparr>bm_k1 = 15/10, bm_b = 75/100, bm_doc_freqs = [], bm_docs = [], bm_avgdl = 0, bm_idf = []\<rparr>"

text \<open>The order of floats that are no NaN.\<close>

definition float_order :: "pyfloat \<Rightarrow> int \<times> rat" where
  "float_order x = (case x of Fin r \<Rightarrow> (0, r) | PosInf \<Rightarrow> (1, 0) | NegInf \<Rightarrow> (-1, 0) | NaN \<Rightarrow> (2, 0))"

record memory_hit =
  mh_stale :: bool
  mh_score :: pyfloat
  mh_confidence :: pyfloat
  mh_row :: "json dict"

definition memory_hit_of :: "runtime \<Rightarrow> rat \<times> json dict \<Rightarrow> memory_hit result" where
  "memory_hit_of rt sr = (case sr of (score, r) \<Rightarrow>
     rbind (confidence_of rt r) (\<lambda>c.
       let weighted = fl_mul (Fin score) c in
       Inr \<lparr>mh_stale = (jget r ''stale'' = JBool True), mh_score = weighted, mh_confidence = c,
         mh_row = dset r ''score'' (JFloat weighted)\<rparr>))"

definition hit_order :: "memory_hit \<Rightarrow> bool \<times> (int \<times> rat) \<times> (int \<times> rat)" where
  "hit_order h = (mh_stale h, float_order (fl_neg (mh_score h)), float_order (fl_neg (mh_confidence h)))"

definition search_memory ::
  "runtime \<Rightarrow> (rat \<Rightarrow> rat) \<Rightarrow> memory_env \<Rightarrow> bool \<Rightarrow> db_outcome \<Rightarrow> string \<Rightarrow> int \<Rightarrow> pyfloat \<Rightarrow> bool \<Rightarrow> memory_table
     \<Rightarrow> memory_hit list result" where
  "search_memory rt mlog env has_store db query limit minimum exclude t =
     (if \<not> has_store then Inr []
      else rbind (list_memory_records db t) (\<lambda>rs.
        rbind (memory_candidates rt env minimum exclude rs) (\<lambda>cs.
        rbind (bm25_fit mlog (map fst cs) (map snd cs) memory_scorer) (\<lambda>scorer.
        rbind (rmap (memory_hit_of rt) (bm25_rank scorer query)) (\<lambda>hits.
          Inr (slice_to (sort_key hit_order hits) limit))))))"

definition list_memories :: "runtime \<Rightarrow> memory_env \<Rightarrow> bool \<Rightarrow> db_outcome \<Rightarrow> memory_table \<Rightarrow> json dict list result" where
  "list_memories rt env has_store db t =
     (if \<not> has_store then Inr []
      else rbind (list_memory_records db t) (\<lambda>rs.
        rbind (rmap (\<lambda>r. rbind (memory_stale env r) (\<lambda>stale. Inr (dset r ''stale'' (JBool stale)))) rs) (\<lambda>rows.
        rbind (rmap (\<lambda>r. rbind (confidence_of rt r) (\<lambda>c. Inr (c, r))) rows) (\<lambda>keyed.
          Inr (map snd (sort_key (\<lambda>(c, r). (jget r ''stale'' = JBool True, float_order (fl_neg c))) keyed))))))"

section \<open>Pruning\<close>

text \<open>Reading and replacing are two transactions.\<close>

definition prune_read :: "memory_env \<Rightarrow> db_outcome \<Rightarrow> memory_table \<Rightarrow> (nat \<times> json dict list) result" where
  "prune_read env db t =
     rbind (list_memory_records db t) (\<lambda>rs.
     rbind (rmap (\<lambda>r. rbind (memory_stale env r) (\<lambda>stale. Inr (stale, r))) rs) (\<lambda>marked.
       Inr (length rs, map snd (filter (\<lambda>(stale, _). \<not> stale) marked))))"

definition prune_stale ::
  "runtime \<Rightarrow> memory_env \<Rightarrow> bool \<Rightarrow> db_outcome \<Rightarrow> db_outcome \<Rightarrow> memory_table \<Rightarrow> (int \<times> int) result \<times> memory_table" where
  "prune_stale rt env has_store db db' t =
     (if \<not> has_store then (Inr (0, 0), t)
      else case prune_read env db t of
        Inl e \<Rightarrow> (Inl e, t)
      | Inr (n, kept) \<Rightarrow> (case memory_replace_all rt db' kept t of
          (x, t') \<Rightarrow> (rbind x (\<lambda>_. Inr (int (length kept), int n - int (length kept))), t')))"

definition export_memory_jsonl :: "bool \<Rightarrow> db_outcome \<Rightarrow> memory_table \<Rightarrow> (int \<times> json option list) result" where
  "export_memory_jsonl has_store db t = (if has_store then export_jsonl db t else Inr (0, []))"

section \<open>What pruning does\<close>

text \<open>Identifiers are texts: the record of a row, its keys in order, still has the identifier of the row.\<close>

definition plain_ids :: "runtime \<Rightarrow> memory_table \<Rightarrow> bool" where
  "plain_ids rt t = (\<forall>(i, w) \<in> set t. memory_id rt (mw_record w) = i)"

lemma kept_record_wf: "dict_wf d \<Longrightarrow> dict_wf (kept_record d)"
proof -
  assume "dict_wf d"
  then have "distinct (map fst (map (map_prod id sort_keys) d))" by (simp add: dict_wf_def dkeys_def comp_def)
  moreover have "mset (map fst (sort_key fst d')) = mset (map fst d')" for d' :: "json dict" by simp
  ultimately have "distinct (map fst (sort_key fst (map (map_prod id sort_keys) d)))" using mset_eq_imp_distinct_iff by blast
  then show ?thesis by (simp add: kept_record_def dict_wf_def dkeys_def)
qed

lemma kept_record_again [simp]: "kept_record (kept_record d) = kept_record d"
proof -
  obtain e where e: "sort_keys (JDict d) = JDict e" by simp
  then have "sort_keys (JDict e) = JDict e" by (metis sort_keys_idem)
  then show ?thesis using e by (simp add: kept_record_def del: sort_keys.simps)
qed

lemma row_record:
  assumes "memory_ok rt t" "(i, w) \<in> set t"
  shows "kept_record (mw_record w) = mw_record w" "dict_wf (mw_record w)" "memories t i = Some (mw_record w)"
proof -
  obtain r where r: "memory_payload rt r = Inr (i, w)" "dict_wf r" using assms by (auto simp: memory_ok_def)
  have "mw_record w = kept_record r" using payload_parts(2) [OF r(1)] by simp
  then show "kept_record (mw_record w) = mw_record w" "dict_wf (mw_record w)" using kept_record_wf [OF r(2)] by simp_all
  show "memories t i = Some (mw_record w)"
    using assms by (simp add: memories_def dget_def memory_ok_def dict_wf_def dkeys_def)
qed

lemma records_of:
  assumes "memory_ok rt t" "list_memory_records DbOk t = Inr rs" "plain_ids rt t"
  shows "\<forall>r \<in> set rs. memories t (memory_id rt r) = Some r \<and> kept_record r = r \<and> dict_wf r"
    and "distinct (map (memory_id rt) rs)"
    and "memories t i = Some r \<Longrightarrow> r \<in> set rs \<and> memory_id rt r = i"
proof -
  have rs: "rs = map (\<lambda>(_, w). mw_record w) (sort_key (\<lambda>(i, w). (mw_created_at w, i)) t)"
    using assms(2) by (simp add: list_memory_records_def)
  have ids: "memory_id rt (mw_record w) = i" if "(i, w) \<in> set t" for i w using assms(3) that by (auto simp: plain_ids_def)
  show "\<forall>r \<in> set rs. memories t (memory_id rt r) = Some r \<and> kept_record r = r \<and> dict_wf r"
    using row_record [OF assms(1)] ids by (fastforce simp: rs)
  have "map (memory_id rt) rs = map fst (sort_key (\<lambda>(i, w). (mw_created_at w, i)) t)"
    using ids by (auto simp: rs comp_def case_prod_unfold)
  moreover have "mset (map fst (sort_key (\<lambda>(i, w). (mw_created_at w, i)) t)) = mset (map fst t)" by simp
  ultimately show "distinct (map (memory_id rt) rs)"
    using assms(1) mset_eq_imp_distinct_iff by (metis dict_wf_def dkeys_def memory_ok_def)
  show "r \<in> set rs \<and> memory_id rt r = i" if m: "memories t i = Some r"
  proof -
    obtain w where "dget t i = Some w" "r = mw_record w" using m by (auto simp: memories_def)
    then have "(i, w) \<in> set t" by (auto simp: dget_def dest: map_of_SomeD)
    then show ?thesis using \<open>r = mw_record w\<close> ids by (force simp: rs)
  qed
qed

lemma marked_filter:
  assumes "rmap (\<lambda>r. rbind (g r) (\<lambda>b. Inr (b, r))) rs = Inr ms"
  shows "map snd (filter (\<lambda>(b, _). \<not> b) ms) = filter (\<lambda>r. g r = Inr False) rs"
  using assms by (induction rs arbitrary: ms) (auto simp: rbind_Inr_iff)

lemma map_of_records:
  assumes "distinct (map f rs)"
  shows "map_of (map (\<lambda>r. (f r, r)) (filter P rs)) i = (if \<exists>r \<in> set rs. f r = i \<and> P r then Some (THE r. r \<in> set rs \<and> f r = i) else None)"
proof (cases "\<exists>r \<in> set rs. f r = i \<and> P r")
  case True
  then obtain r where r: "r \<in> set rs" "f r = i" "P r" by blast
  have inj: "inj_on f (set rs)" using assms by (simp add: distinct_map)
  have the: "(THE r. r \<in> set rs \<and> f r = i) = r" using r inj by (auto simp: inj_on_def intro!: the_equality)
  have "distinct (map fst (map (\<lambda>r. (f r, r)) (filter P rs)))" using assms by (simp add: comp_def distinct_map_filter)
  moreover have "(i, r) \<in> set (map (\<lambda>r. (f r, r)) (filter P rs))" using r by auto
  ultimately have "map_of (map (\<lambda>r. (f r, r)) (filter P rs)) i = Some r" by (rule map_of_is_SomeI)
  then show ?thesis using True the by simp
next
  case False
  then show ?thesis by (auto simp: map_of_eq_None_iff)
qed

theorem pruned_memories:
  assumes ok: "memory_ok rt t" and ids: "plain_ids rt t"
    and p: "prune_stale rt env True DbOk DbOk t = (Inr (kept, pruned), t')"
  shows "memory_ok rt t'
    \<and> (\<forall>i. memories t' i = (case memories t i of Some r \<Rightarrow> if memory_stale env r = Inr False then Some r else None | None \<Rightarrow> None))
    \<and> kept = int (card (dom (memories t'))) \<and> kept + pruned = int (card (dom (memories t)))"
proof -
  obtain rs where rs: "list_memory_records DbOk t = Inr rs" by (simp add: list_memory_records_def)
  note R = records_of [OF ok rs ids]
  let ?f = "filter (\<lambda>r. memory_stale env r = Inr False) rs"
  obtain ms where ms: "rmap (\<lambda>r. rbind (memory_stale env r) (\<lambda>b. Inr (b, r))) rs = Inr ms"
    and "prune_read env DbOk t = Inr (length rs, map snd (filter (\<lambda>(b, _). \<not> b) ms))"
    using p rs by (auto simp: prune_stale_def prune_read_def rbind_Inr_iff split: sum.splits)
  then have rd: "prune_read env DbOk t = Inr (length rs, ?f)" by (simp only: marked_filter [OF ms])
  obtain x where rep: "memory_replace_all rt DbOk ?f t = (x, t')" and x: "rbind x (\<lambda>_. Inr (int (length ?f), int (length rs) - int (length ?f))) = Inr (kept, pruned)"
    using p rd by (simp add: prune_stale_def split: prod.splits)
  have x1: "x = Inr ()" and counts: "kept = int (length ?f)" "kept + pruned = int (length rs)" using x by (auto simp only: rbind_Inr_iff) auto
  have "memory_ok rt t'" "spec_memory rt (ReplaceMemories ?f) (memories t) = Some (memories t')"
    by (rule memory_done [of rt DbOk "ReplaceMemories ?f" t t'], use rep x1 ok R(1) in \<open>auto simp: run_memory_def op_records_def\<close>)+
  then have ok': "memory_ok rt t'" and m: "memories t' = map_of (map (\<lambda>r. (memory_id rt r, kept_record r)) ?f)"
    by (auto simp: spec_memory_def split: if_splits)
  have same: "map (\<lambda>r. (memory_id rt r, kept_record r)) ?f = map (\<lambda>r. (memory_id rt r, r)) ?f" using R(1) by auto
  have m': "memories t' i = (if \<exists>r \<in> set rs. memory_id rt r = i \<and> memory_stale env r = Inr False
      then Some (THE r. r \<in> set rs \<and> memory_id rt r = i) else None)" for i
    unfolding m same by (rule map_of_records [OF R(2)])
  have at: "memories t' i = (case memories t i of Some r \<Rightarrow> if memory_stale env r = Inr False then Some r else None | None \<Rightarrow> None)" for i
  proof (cases "memories t i")
    case None
    then have "\<not> (\<exists>r \<in> set rs. memory_id rt r = i)" using R(1) by auto
    then show ?thesis using None by (auto simp: m')
  next
    case (Some r)
    then have r: "r \<in> set rs" "memory_id rt r = i" using R(3) by auto
    have same: "r' = r" if "r' \<in> set rs" "memory_id rt r' = i" for r'
    proof -
      have "memories t (memory_id rt r') = Some r'" using R(1) that(1) by blast
      then show ?thesis using that(2) Some by simp
    qed
    have "(THE r. r \<in> set rs \<and> memory_id rt r = i) = r" by (rule the_equality) (use r in blast, use same in blast)
    moreover have "(\<exists>x \<in> set rs. memory_id rt x = i \<and> memory_stale env x = Inr False) \<longleftrightarrow> memory_stale env r = Inr False"
      using r same by blast
    ultimately show ?thesis using Some by (simp only: m' option.case)
  qed
  have "dom (memories t') = memory_id rt ` set ?f" by (auto simp: m dom_map_of_conv_image_fst image_image)
  moreover have "card (memory_id rt ` set ?f) = length ?f"
    using R(2) distinct_map_filter [of "memory_id rt" rs] by (metis distinct_card length_map list.set_map)
  moreover have "length rs = card (dom (memories t))" using listed_memories [OF ok rs] by blast
  ultimately show ?thesis using ok' at counts by simp
qed

text \<open>Reading and replacing are not one transaction: a memory another process adds between them is deleted.\<close>

theorem prune_loses_insert:
  assumes ok: "memory_ok rt t" and ids: "plain_ids rt t" and wf: "dict_wf r"
    and rd: "prune_read env DbOk t = Inr (n, kept)" and ins: "memory_insert rt DbOk r t = (Inr (), t1)"
    and rep: "memory_replace_all rt DbOk kept t1 = (Inr (), t2)"
  shows "memories t1 (memory_id rt r) = Some (kept_record r) \<and> memories t2 (memory_id rt r) = None"
proof -
  obtain rs where rs: "list_memory_records DbOk t = Inr rs" by (simp add: list_memory_records_def)
  note R = records_of [OF ok rs ids]
  have i: "memory_ok rt t1" "spec_memory rt (InsertMemory r) (memories t) = Some (memories t1)"
    by (rule memory_done [of rt DbOk "InsertMemory r" t t1], use ins ok wf in \<open>auto simp: run_memory_def op_records_def\<close>)+
  then have fresh: "memories t (memory_id rt r) = None" and "memories t1 = (memories t)(memory_id rt r \<mapsto> kept_record r)"
    by (auto simp: spec_memory_def split: if_splits)
  then have t1: "memories t1 (memory_id rt r) = Some (kept_record r)" by simp
  have k: "kept = filter (\<lambda>r. memory_stale env r = Inr False) rs"
    using rd rs marked_filter [of "memory_stale env" rs] by (auto simp: prune_read_def rbind_Inr_iff)
  have "spec_memory rt (ReplaceMemories kept) (memories t1) = Some (memories t2)"
    by (rule memory_done(2) [of rt DbOk "ReplaceMemories kept" t1 t2]) (use rep i R(1) in \<open>auto simp: run_memory_def op_records_def k\<close>)
  then have "memories t2 = map_of (map (\<lambda>r. (memory_id rt r, kept_record r)) kept)" by (auto simp: spec_memory_def split: if_splits)
  moreover have "memory_id rt r \<notin> memory_id rt ` set kept" using R(1) fresh by (force simp: k)
  ultimately have "memories t2 (memory_id rt r) = None" by (auto simp: map_of_eq_None_iff)
  then show ?thesis using t1 by blast
qed

section \<open>What a search returns\<close>

lemma memory_candidates_ok:
  assumes "memory_candidates rt env minimum exclude rs = Inr cs" "x \<in> set cs"
  shows "\<exists>r c stale. r \<in> set rs \<and> confidence_of rt r = Inr c \<and> \<not> fl_lt c minimum \<and> memory_stale env r = Inr stale
    \<and> \<not> (exclude \<and> stale) \<and> memory_text r = Inr (fst x) \<and> snd x = dset r ''stale'' (JBool stale)"
  using assms
proof (induction rs arbitrary: cs)
  case (Cons r rs)
  obtain c where c: "confidence_of rt r = Inr c" using Cons.prems(1) by (auto simp: rbind_Inr_iff)
  consider (skipped) "memory_candidates rt env minimum exclude rs = Inr cs"
    | (kept) stale words rest where "memory_candidates rt env minimum exclude rs = Inr rest" "\<not> fl_lt c minimum"
      "memory_stale env r = Inr stale" "\<not> (exclude \<and> stale)" "memory_text r = Inr words" "cs = (words, dset r ''stale'' (JBool stale)) # rest"
  proof (cases "fl_lt c minimum")
    case True
    then show thesis using Cons.prems(1) c skipped by simp
  next
    case False
    then obtain stale where s: "memory_stale env r = Inr stale" using Cons.prems(1) c by (auto simp: rbind_Inr_iff)
    show thesis
    proof (cases "exclude \<and> stale")
      case True
      then show thesis using Cons.prems(1) c False s skipped by simp
    next
      case no: False
      then obtain words rest where "memory_text r = Inr words" "memory_candidates rt env minimum exclude rs = Inr rest"
        "cs = (words, dset r ''stale'' (JBool stale)) # rest"
        using Cons.prems(1) c False s by (auto simp: rbind_Inr_iff simp del: de_Morgan_conj)
      then show thesis using kept False s no by blast
    qed
  qed
  then show ?case
  proof cases
    case skipped
    from Cons.IH [OF this Cons.prems(2)] show ?thesis by auto
  next
    case kept
    show ?thesis
    proof (cases "x \<in> set rest")
      case True
      from Cons.IH [OF kept(1) this] show ?thesis by auto
    next
      case False
      then have "x = (words, dset r ''stale'' (JBool stale))" using Cons.prems(2) kept(6) by simp
      then show ?thesis using kept c by (intro exI [of _ r] exI [of _ c] exI [of _ stale]) simp
    qed
  qed
qed simp

lemma bm25_fit_items:
  assumes "bm25_fit mlog texts objects s = Inr s'"
  shows "dc_item ` set (bm_docs s') \<subseteq> set objects"
proof -
  have "bm_docs s' = map (\<lambda>(i, text, item). tokenized_doc i text item) (zip [0..<length texts] (zip texts objects))"
    using assms by (auto simp: bm25_fit_def guard_that_Inr_iff Let_def)
  then show ?thesis by (auto simp: tokenized_doc_def Let_def dest!: set_zip_rightD)
qed

lemma memory_rank_items: "(x, r) \<in> set (bm25_rank s query) \<Longrightarrow> 0 < x \<and> r \<in> dc_item ` set (bm_docs s)"
  by (auto simp: bm25_rank_def Let_def)

lemma slice_to_set: "set (slice_to xs n) \<subseteq> set xs"
  by (auto simp: slice_to_def dest: in_set_takeD)

lemma sorted_slice_to: "sorted (map f xs) \<Longrightarrow> sorted (map f (slice_to xs n))"
  by (simp add: slice_to_def sorted_wrt_take take_map [symmetric])

theorem searched_memories:
  assumes "search_memory rt mlog env True DbOk query limit minimum exclude t = Inr hits" "memory_ok rt t" "0 \<le> limit"
  shows "int (length hits) \<le> limit \<and> sorted (map hit_order hits)
    \<and> (\<forall>h \<in> set hits. \<exists>r score. r \<in> ran (memories t) \<and> 0 < score \<and> confidence_of rt r = Inr (mh_confidence h)
        \<and> \<not> fl_lt (mh_confidence h) minimum \<and> memory_stale env r = Inr (mh_stale h) \<and> \<not> (exclude \<and> mh_stale h)
        \<and> mh_score h = fl_mul (Fin score) (mh_confidence h)
        \<and> mh_row h = dset (dset r ''stale'' (JBool (mh_stale h))) ''score'' (JFloat (mh_score h)))"
proof -
  obtain rs cs scorer hs where rs: "list_memory_records DbOk t = Inr rs" and cs: "memory_candidates rt env minimum exclude rs = Inr cs"
    and fit: "bm25_fit mlog (map fst cs) (map snd cs) memory_scorer = Inr scorer"
    and hs: "rmap (memory_hit_of rt) (bm25_rank scorer query) = Inr hs" and hits: "hits = slice_to (sort_key hit_order hs) limit"
    using assms(1) by (auto simp: search_memory_def rbind_Inr_iff)
  have "int (length hits) \<le> limit" using assms(3) by (simp add: hits slice_to_def)
  moreover have "sorted (map hit_order hits)" unfolding hits by (rule sorted_slice_to) simp
  moreover have "\<exists>r score. r \<in> ran (memories t) \<and> 0 < score \<and> confidence_of rt r = Inr (mh_confidence h)
        \<and> \<not> fl_lt (mh_confidence h) minimum \<and> memory_stale env r = Inr (mh_stale h) \<and> \<not> (exclude \<and> mh_stale h)
        \<and> mh_score h = fl_mul (Fin score) (mh_confidence h)
        \<and> mh_row h = dset (dset r ''stale'' (JBool (mh_stale h))) ''score'' (JFloat (mh_score h))" if "h \<in> set hits" for h
  proof -
    have "h \<in> set hs" using that slice_to_set by (fastforce simp: hits)
    then obtain score d where sd: "(score, d) \<in> set (bm25_rank scorer query)" "memory_hit_of rt (score, d) = Inr h"
      using rmap_Inr_set [OF hs] by fastforce
    have d: "0 < score" "d \<in> snd ` set cs" using memory_rank_items [OF sd(1)] bm25_fit_items [OF fit] by auto
    then obtain x where x: "x \<in> set cs" "d = snd x" by blast
    obtain r c stale where r: "r \<in> set rs" "confidence_of rt r = Inr c" "\<not> fl_lt c minimum" "memory_stale env r = Inr stale"
      "\<not> (exclude \<and> stale)" "d = dset r ''stale'' (JBool stale)"
      using memory_candidates_ok [OF cs x(1)] x(2) by blast
    have "confidence_of rt d = Inr c" using r(2) by (simp add: r(6) confidence_of_def)
    then have h: "h = \<lparr>mh_stale = stale, mh_score = fl_mul (Fin score) c, mh_confidence = c,
        mh_row = dset d ''score'' (JFloat (fl_mul (Fin score) c))\<rparr>"
      using sd(2) by (simp add: memory_hit_of_def r(6) Let_def)
    have "r \<in> ran (memories t)" using listed_memories [OF assms(2) rs] r(1) by blast
    then show ?thesis using d(1) r by (intro exI [of _ r] exI [of _ score]) (simp add: h)
  qed
  ultimately show ?thesis by blast
qed

section \<open>A memory is stale when its files changed\<close>

text \<open>A relative path that was recorded names its file again.\<close>

definition stable_paths :: "memory_env \<Rightarrow> string list \<Rightarrow> bool" where
  "stable_paths env files = (\<forall>raw \<in> set files. \<forall>rel p. memory_file env raw = Inr (rel, p) \<longrightarrow>
     resolve_within_root (me_resolve env) (me_base env) rel = Inr p)"

definition same_tree :: "memory_env \<Rightarrow> memory_env \<Rightarrow> bool" where
  "same_tree env env' = (me_base env' = me_base env \<and> me_resolve env' = me_resolve env)"

lemma memory_files_Cons:
  assumes "memory_files env (raw # raws) = Inr (rels, hs)"
  obtains rel p rels' hs' h where "memory_file env raw = Inr (rel, p)" "memory_files env raws = Inr (rels', hs')"
    "rels = rel # rels'" "hs = h @ hs'" "me_view env p \<noteq> Unreadable"
    "h = (case me_view env p of FileWith digest \<Rightarrow> [(rel, JStr digest)] | _ \<Rightarrow> [])"
proof -
  obtain rel p where f: "memory_file env raw = Inr (rel, p)" using assms by (auto simp: rbind_Inr_iff)
  obtain rels' hs' where "memory_files env raws = Inr (rels', hs')" "rels = rel # rels'" "me_view env p \<noteq> Unreadable"
    "hs = (case me_view env p of FileWith digest \<Rightarrow> [(rel, JStr digest)] | _ \<Rightarrow> []) @ hs'"
    using assms f by (cases "me_view env p") (auto simp: rbind_Inr_iff)
  with f show thesis using that by blast
qed

text \<open>The digests recorded: one entry per path that was a file, the digest of that file.\<close>

lemma memory_files_entries:
  assumes "memory_files env raws = Inr (rels, hs)"
  shows "(\<forall>rel v. (rel, v) \<in> set hs \<longrightarrow> (\<exists>raw \<in> set raws. \<exists>p digest. memory_file env raw = Inr (rel, p)
      \<and> me_view env p = FileWith digest \<and> v = JStr digest))
    \<and> (\<forall>rel \<in> set rels. \<exists>raw \<in> set raws. \<exists>p. memory_file env raw = Inr (rel, p)
      \<and> (\<forall>digest. me_view env p = FileWith digest \<longrightarrow> (rel, JStr digest) \<in> set hs))"
  using assms
proof (induction raws arbitrary: rels hs)
  case (Cons raw raws)
  show ?case
  proof (rule memory_files_Cons [OF Cons.prems])
    fix rel p rels' hs' h
    assume f: "memory_file env raw = Inr (rel, p)" and r: "memory_files env raws = Inr (rels', hs')" "rels = rel # rels'" "hs = h @ hs'"
      and h: "h = (case me_view env p of FileWith digest \<Rightarrow> [(rel, JStr digest)] | _ \<Rightarrow> [])"
    note ih = Cons.IH [OF r(1)]
    have "\<forall>k v. (k, v) \<in> set h \<longrightarrow> k = rel \<and> (\<exists>digest. me_view env p = FileWith digest \<and> v = JStr digest)"
      by (auto simp: h split: path_view.splits)
    moreover have "\<forall>digest. me_view env p = FileWith digest \<longrightarrow> (rel, JStr digest) \<in> set h" by (simp add: h)
    ultimately show ?case using f ih unfolding r(2,3) set_append list.set by blast
  qed
qed simp

lemma memory_files_total:
  "memory_files env raws = Inr (rels, hs) \<Longrightarrow> \<forall>raw \<in> set raws. \<exists>rel p. memory_file env raw = Inr (rel, p) \<and> rel \<in> set rels"
proof (induction raws arbitrary: rels hs)
  case (Cons raw raws)
  show ?case
  proof (rule memory_files_Cons [OF Cons.prems])
    fix rel p rels' hs'
    assume f: "memory_file env raw = Inr (rel, p)" and r: "memory_files env raws = Inr (rels', hs')" "rels = rel # rels'"
    show ?case using f Cons.IH [OF r(1)] unfolding r(2) list.set by blast
  qed
qed simp

lemma fold_dset_entries:
  "set (fold (\<lambda>(k, v) d. dset d k v) hs d) \<subseteq> set d \<union> set hs"
  "set (dkeys (fold (\<lambda>(k, v) d. dset d k v) hs d)) = set (dkeys d) \<union> fst ` set hs"
proof (induction hs arbitrary: d)
  case (Cons x hs)
  obtain k v where x: "x = (k, v)" by (cases x)
  { case 1
    show ?case using Cons(1) [of "dset d k v"] set_dset [of d k v] by (auto simp: x)
  next
    case 2
    show ?case using Cons(2) [of "dset d k v"] by (auto simp: x dkeys_dset)
  }
qed simp_all

lemma any_missing_texts: "any_missing (JDict d) (map JStr rels) = Inr (\<not> set rels \<subseteq> set (dkeys d))"
  by (induction rels) (auto simp: names_entry_def)

definition file_differs :: "memory_env \<Rightarrow> memory_env \<Rightarrow> string \<Rightarrow> bool" where
  "file_differs env env' raw = (\<exists>rel p. memory_file env raw = Inr (rel, p)
     \<and> ((\<nexists>digest. me_view env p = FileWith digest) \<or> me_view env' p \<noteq> me_view env p))"

theorem memory_fresh_until_changed:
  assumes rec: "memory_record env token now kind words summary evidence files confidence = Inr r"
    and tree: "same_tree env env'" and st: "stable_paths env files"
  shows "memory_stale env' r = Inr (\<exists>raw \<in> set files. file_differs env env' raw)"
proof -
  obtain rels hs where mf: "memory_files env files = Inr (rels, hs)"
    and r: "jget_or r ''source_hashes'' (JDict []) = JDict (hashes_of hs)" "jget_or r ''files'' (JList []) = JList (map JStr rels)"
    using rec by (auto simp: memory_record_def guard_that_Inr_iff rbind_Inr_iff dict_simps)
  note entries = memory_files_entries [OF mf]
  have keys: "set (dkeys (hashes_of hs)) = fst ` set hs" and sub: "set (hashes_of hs) \<subseteq> set hs"
    using fold_dset_entries [of hs "[]"] by (simp_all add: hashes_of_def dkeys_def)
  have named: "resolve_within_root (me_resolve env') (me_base env') rel = Inr p"
    if "raw \<in> set files" "memory_file env raw = Inr (rel, p)" for raw rel p
    using st tree that by (simp add: stable_paths_def same_tree_def)
  have total: "\<exists>rel p. memory_file env raw = Inr (rel, p) \<and> rel \<in> set rels" if "raw \<in> set files" for raw
    using memory_files_total [OF mf] that by blast
  have changed: "file_changed env' (rel, JStr digest) \<longleftrightarrow> me_view env' p \<noteq> FileWith digest"
    if "raw \<in> set files" "memory_file env raw = Inr (rel, p)" for raw rel p digest
    using named [OF that] by (auto simp: file_changed_def split: path_view.split)
  have "(\<not> set rels \<subseteq> set (dkeys (hashes_of hs)) \<or> list_ex (file_changed env') (hashes_of hs))
      \<longleftrightarrow> (\<exists>raw \<in> set files. file_differs env env' raw)" (is "?l \<longleftrightarrow> ?r")
  proof
    assume ?l
    then show ?r
    proof
      assume "\<not> set rels \<subseteq> set (dkeys (hashes_of hs))"
      then obtain rel where rel: "rel \<in> set rels" "rel \<notin> fst ` set hs" using keys by blast
      then obtain raw p where "raw \<in> set files" "memory_file env raw = Inr (rel, p)" "\<forall>digest. me_view env p \<noteq> FileWith digest"
        using entries by (metis fst_conv image_eqI)
      then show ?r by (auto simp: file_differs_def)
    next
      assume "list_ex (file_changed env') (hashes_of hs)"
      then obtain rel v where h: "(rel, v) \<in> set hs" "file_changed env' (rel, v)" using sub by (auto simp: list_ex_iff)
      then obtain raw p digest where raw: "raw \<in> set files" "memory_file env raw = Inr (rel, p)" "me_view env p = FileWith digest"
        "v = JStr digest" using entries by blast
      then have "me_view env' p \<noteq> me_view env p" using changed [OF raw(1,2)] h(2) by simp
      then show ?r using raw(1,2) unfolding file_differs_def by blast
    qed
  next
    assume ?r
    then obtain raw rel p where raw: "raw \<in> set files" "memory_file env raw = Inr (rel, p)" "rel \<in> set rels"
      and d: "(\<nexists>digest. me_view env p = FileWith digest) \<or> me_view env' p \<noteq> me_view env p"
      using total by (fastforce simp: file_differs_def)
    show ?l
    proof (cases "rel \<in> fst ` set hs")
      case False
      then show ?thesis using raw(3) keys by blast
    next
      case True
      then have "rel \<in> set (dkeys (hashes_of hs))" using keys by simp
      then obtain v where v: "(rel, v) \<in> set (hashes_of hs)" by (auto simp: dkeys_def)
      then obtain raw' p' digest where raw': "raw' \<in> set files" "memory_file env raw' = Inr (rel, p')" "me_view env p' = FileWith digest"
        "v = JStr digest" using entries sub by blast
      have "p' = p" using named [OF raw(1,2)] named [OF raw'(1,2)] by simp
      then have "me_view env' p \<noteq> FileWith digest" using d raw'(3) by auto
      then show ?thesis using changed [OF raw(1,2)] v raw'(4) by (force simp: list_ex_iff)
    qed
  qed
  then show ?thesis
    by (cases "set rels \<subseteq> set (dkeys (hashes_of hs))") (simp_all add: memory_stale_def r to_list_def any_missing_texts)
qed

text \<open>A memory that was added is in the table, with the confidence in the unit interval.\<close>

theorem added_memory:
  assumes "add_memory rt env db token now kind words summary evidence files confidence t = (Inr r, t')" "memory_ok rt t"
  shows "memory_ok rt t' \<and> kind \<in> set MEMORY_TYPES \<and> memories t (''mem-'' @ token) = None
    \<and> memories t' = (memories t)(''mem-'' @ token \<mapsto> kept_record r)
    \<and> (\<exists>c. jget r ''confidence'' = JFloat (Fin c) \<and> 0 \<le> c \<and> c \<le> 1)"
proof -
  have rec: "memory_record env token now kind words summary evidence files confidence = Inr r"
    and ins: "memory_insert rt db r t = (Inr (), t')"
    using assms(1) by (auto simp: add_memory_def rbind_Inr_iff split: sum.splits prod.splits)
  obtain rels hs where r: "r = [(''id'', JStr (''mem-'' @ token)), (''type'', JStr kind), (''created_at'', JStr now), (''verified_at'', JStr now),
         (''keywords'', JList (map JStr (uniq (tokenize words)))),
         (''summary'', JStr (strip summary)), (''evidence'', JStr (strip evidence)), (''files'', JList (map JStr rels)),
         (''source_hashes'', JDict (hashes_of hs)),
         (''confidence'', JFloat (fl_max (Fin 0) (fl_min (Fin 1) confidence)))]" and k: "kind \<in> set MEMORY_TYPES"
    using rec by (auto simp: memory_record_def guard_that_Inr_iff rbind_Inr_iff)
  have id: "memory_id rt r = ''mem-'' @ token" and wf: "dict_wf r"
    by (simp_all add: r memory_id_def dict_simps dict_wf_def dkeys_def)
  have ins_ok: "memory_ok rt t'" "spec_memory rt (InsertMemory r) (memories t) = Some (memories t')"
    by (rule memory_done [of rt db "InsertMemory r" t t'], use ins assms(2) wf in \<open>auto simp: run_memory_def op_records_def\<close>)+
  then have "memories t (''mem-'' @ token) = None" "memories t' = (memories t)(''mem-'' @ token \<mapsto> kept_record r)"
    by (auto simp: spec_memory_def id split: if_splits)
  moreover have "\<exists>c. jget r ''confidence'' = JFloat (Fin c) \<and> 0 \<le> c \<and> c \<le> 1"
    by (cases confidence) (auto simp: r dict_simps fl_max_def fl_min_def)
  ultimately show ?thesis using ins_ok(1) k by blast
qed

end
