(* ===== verification/Provenance.thy ===== *)
theory Provenance
  imports ReadBack RunJournal
begin

text \<open>
  \<open>provenance.py\<close>: the metadata of a run, its reproducibility key, the references to external artifacts and the local
  store with one document per run.  What the interpreter, Git and the clock answer are arguments.
\<close>

section \<open>Artifacts\<close>

definition SECURITY_SENSITIVE_KINDS :: "string list" where
  "SECURITY_SENSITIVE_KINDS = [''model'', ''dataset'', ''policy'', ''prompt-template'', ''tool-schema'', ''safety-policy'']"

definition artifact_kind_key :: "string \<Rightarrow> string" where
  "artifact_kind_key kind = replace_char (CHR ''_'') (CHR ''-'') (lower (strip kind))"

definition digest_error :: py_error where
  "digest_error = ValueError ''security-sensitive artifact digest must use sha256:<64-hex>''"

definition artifact_digest :: "string option \<Rightarrow> string result" where
  "artifact_digest v =
     (let digest = lower (strip (case v of None \<Rightarrow> [] | Some s \<Rightarrow> s)); hex = drop (length ''sha256:'') digest in
      guard_that (starts_with digest ''sha256:'') digest_error
      (guard_that (length hex = 64 \<and> set hex \<subseteq> set ''0123456789abcdef'') digest_error (Inr digest)))"

record artifact_reference =
  af_kind :: string
  af_uri :: string
  af_digest :: "string option"
  af_version :: "string option"
  af_role :: "string option"

text \<open>\<open>__post_init__\<close>: the digest of a security-sensitive artifact is normalised or refused.\<close>

definition new_artifact :: "artifact_reference \<Rightarrow> artifact_reference result" where
  "new_artifact a =
     (if artifact_kind_key (af_kind a) \<notin> set SECURITY_SENSITIVE_KINDS then Inr a
      else if af_digest a = None then Inl (ValueError ''security-sensitive artifact requires immutable sha256 digest'')
      else rbind (artifact_digest (af_digest a)) (\<lambda>digest. Inr (a\<lparr>af_digest := Some digest\<rparr>)))"

section \<open>Runs\<close>

record run_metadata =
  rz_control_plane_version :: string
  rz_workspace_fingerprint :: string
  rz_git_head :: "string option"
  rz_changed_files_digest :: string
  rz_config_digest :: string
  rz_retrieval_policy_version :: string
  rz_index_manifest_digest :: string
  rz_provider_versions :: "string dict"
  rz_artifacts :: "artifact_reference list"
  rz_graph_fingerprint :: string
  rz_run_id :: string
  rz_schema_version :: int
  rz_created_at :: string
  rz_runtime :: "string dict"

definition artifact_dict :: "artifact_reference \<Rightarrow> json dict" where
  "artifact_dict a = [(''kind'', JStr (af_kind a)), (''uri'', JStr (af_uri a)), (''digest'', opt_str (af_digest a)),
     (''version'', opt_str (af_version a)), (''role'', opt_str (af_role a))]"

definition texts_dict :: "string dict \<Rightarrow> json" where
  "texts_dict d = JDict (map (map_prod id JStr) d)"

definition reproducibility_key :: "runtime \<Rightarrow> run_metadata \<Rightarrow> string" where
  "reproducibility_key rt m = sha256_json rt (JDict
     [(''schema_version'', JInt (rz_schema_version m)), (''control_plane_version'', JStr (rz_control_plane_version m)),
      (''workspace_fingerprint'', JStr (rz_workspace_fingerprint m)), (''graph_fingerprint'', JStr (rz_graph_fingerprint m)),
      (''git_head'', opt_str (rz_git_head m)), (''changed_files_digest'', JStr (rz_changed_files_digest m)),
      (''config_digest'', JStr (rz_config_digest m)), (''retrieval_policy_version'', JStr (rz_retrieval_policy_version m)),
      (''index_manifest_digest'', JStr (rz_index_manifest_digest m)), (''provider_versions'', texts_dict (rz_provider_versions m)),
      (''artifacts'', JList (map (\<lambda>a. JDict (artifact_dict a)) (rz_artifacts m))), (''runtime'', texts_dict (rz_runtime m))])"

definition run_to_dict :: "runtime \<Rightarrow> run_metadata \<Rightarrow> json dict" where
  "run_to_dict rt m =
     [(''schema_version'', JInt (rz_schema_version m)), (''run_id'', JStr (rz_run_id m)), (''created_at'', JStr (rz_created_at m)),
      (''control_plane_version'', JStr (rz_control_plane_version m)),
      (''workspace_fingerprint'', JStr (rz_workspace_fingerprint m)), (''graph_fingerprint'', JStr (rz_graph_fingerprint m)),
      (''git_head'', opt_str (rz_git_head m)), (''changed_files_digest'', JStr (rz_changed_files_digest m)),
      (''config_digest'', JStr (rz_config_digest m)), (''retrieval_policy_version'', JStr (rz_retrieval_policy_version m)),
      (''index_manifest_digest'', JStr (rz_index_manifest_digest m)), (''provider_versions'', texts_dict (rz_provider_versions m)),
      (''runtime'', texts_dict (rz_runtime m)),
      (''artifacts'', JList (map (\<lambda>a. JDict (artifact_dict a)) (rz_artifacts m))),
      (''reproducibility_key'', JStr (reproducibility_key rt m))]"

definition text_or_none :: "runtime \<Rightarrow> json \<Rightarrow> string option" where
  "text_or_none rt v = (if v = JNull then None else Some (py_str rt v))"

definition texts_of_mapping :: "runtime \<Rightarrow> json \<Rightarrow> string dict" where
  "texts_of_mapping rt v = (case v of JDict d \<Rightarrow> map (map_prod id (py_str rt)) d | _ \<Rightarrow> [])"

definition artifact_of :: "runtime \<Rightarrow> json dict \<Rightarrow> artifact_reference result" where
  "artifact_of rt d = new_artifact
     \<lparr>af_kind = py_str rt (jget_or d ''kind'' (JStr ''artifact'')), af_uri = py_str rt (jget_or d ''uri'' (JStr [])),
      af_digest = text_or_none rt (jget d ''digest''), af_version = text_or_none rt (jget d ''version''),
      af_role = text_or_none rt (jget d ''role'')\<rparr>"

definition artifacts_of :: "runtime \<Rightarrow> json \<Rightarrow> artifact_reference list result" where
  "artifacts_of rt v = (case v of JList xs \<Rightarrow> rmap (artifact_of rt) (List.map_filter as_dict xs) | _ \<Rightarrow> Inr [])"

text \<open>\<open>str(raw[k])\<close>\<close>

definition text_at :: "runtime \<Rightarrow> json dict \<Rightarrow> string \<Rightarrow> string result" where
  "text_at rt d k = (case dget d k of None \<Rightarrow> Inl (KeyError k) | Some v \<Rightarrow> Inr (py_str rt v))"

definition run_from_dict :: "runtime \<Rightarrow> json dict \<Rightarrow> run_metadata result" where
  "run_from_dict rt d =
     rbind (artifacts_of rt (jget d ''artifacts'')) (\<lambda>artifacts.
     rbind (to_int (jget_or d ''schema_version'' (JInt 1))) (\<lambda>schema.
     rbind (text_at rt d ''run_id'') (\<lambda>run_id.
     rbind (text_at rt d ''created_at'') (\<lambda>created.
     rbind (text_at rt d ''control_plane_version'') (\<lambda>version.
     rbind (text_at rt d ''workspace_fingerprint'') (\<lambda>workspace.
     rbind (text_at rt d ''changed_files_digest'') (\<lambda>changed.
     rbind (text_at rt d ''config_digest'') (\<lambda>config.
     rbind (text_at rt d ''retrieval_policy_version'') (\<lambda>policy.
     rbind (text_at rt d ''index_manifest_digest'') (\<lambda>index.
       Inr \<lparr>rz_control_plane_version = version, rz_workspace_fingerprint = workspace,
         rz_git_head = text_or_none rt (jget d ''git_head''), rz_changed_files_digest = changed, rz_config_digest = config,
         rz_retrieval_policy_version = policy, rz_index_manifest_digest = index,
         rz_provider_versions = texts_of_mapping rt (jget d ''provider_versions''), rz_artifacts = artifacts,
         rz_graph_fingerprint = py_str rt (jget_or d ''graph_fingerprint'' (JStr ''unknown'')), rz_run_id = run_id,
         rz_schema_version = schema, rz_created_at = created, rz_runtime = texts_of_mapping rt (jget d ''runtime'')\<rparr>))))))))))"

section \<open>The store\<close>

text \<open>The exclusive creation fails, or the write after it breaks and leaves a truncated file, or all goes well.\<close>

datatype store_outcome = StoreDone | OpenFails | WriteBreaks

definition run_path :: "string \<Rightarrow> string result" where
  "run_path run_id =
     (let safe = filter (\<lambda>c. is_alnum c \<or> c \<in> {CHR ''-'', CHR ''_''}) run_id in
      guard_that (safe \<noteq> [] \<and> safe = run_id) (ValueError ''invalid run_id'') (Inr (safe @ ''.json'')))"

definition create_document :: "store_outcome \<Rightarrow> string \<Rightarrow> json \<Rightarrow> directory \<Rightarrow> unit result \<times> directory" where
  "create_document out name v d =
     (if out = OpenFails then (Inl (OSError ''open''), d)
      else if dget d name \<noteq> None then (Inl (FileExistsError name), d)
      else if out = WriteBreaks then (Inl (OSError ''write''), d @ [(name, Garbled)])
      else (Inr (), d @ [(name, Holds (sort_keys v))]))"

definition store_run :: "runtime \<Rightarrow> store_outcome \<Rightarrow> run_metadata \<Rightarrow> directory \<Rightarrow> unit result \<times> directory" where
  "store_run rt out m d = (case run_path (rz_run_id m) of
     Inl e \<Rightarrow> (Inl e, d)
   | Inr name \<Rightarrow> create_document out name (JDict (run_to_dict rt m)) d)"

text \<open>\<open>KeyError\<close>, \<open>TypeError\<close>, \<open>ValueError\<close> and \<open>OSError\<close> are caught; the \<open>OverflowError\<close> of an infinite schema version
  is none of them.\<close>

definition caught :: "py_error \<Rightarrow> bool" where
  "caught e = (case e of OverflowError _ \<Rightarrow> False | _ \<Rightarrow> True)"

definition read_run :: "runtime \<Rightarrow> file_body \<Rightarrow> run_metadata option result" where
  "read_run rt body = (case load_json body of
     None \<Rightarrow> Inr None
   | Some raw \<Rightarrow> (case run_from_dict rt raw of
       Inr m \<Rightarrow> Inr (Some m) | Inl e \<Rightarrow> if caught e then Inr None else Inl e))"

definition get_run :: "runtime \<Rightarrow> directory \<Rightarrow> string \<Rightarrow> run_metadata option result" where
  "get_run rt d run_id = (case run_path run_id of
     Inl _ \<Rightarrow> Inr None
   | Inr name \<Rightarrow> (case dget d name of None \<Rightarrow> Inr None | Some body \<Rightarrow> read_run rt body))"

text \<open>\<open>names\<close>: the documents of the directory, the one modified last first.\<close>

fun list_from :: "runtime \<Rightarrow> directory \<Rightarrow> int \<Rightarrow> string list \<Rightarrow> run_metadata list \<Rightarrow> run_metadata list result" where
  "list_from rt d limit [] rows = Inr rows"
| "list_from rt d limit (name # names) rows =
     rbind (case dget d name of None \<Rightarrow> Inr None | Some body \<Rightarrow> read_run rt body) (\<lambda>r. case r of
       None \<Rightarrow> list_from rt d limit names rows
     | Some m \<Rightarrow> (let rows' = rows @ [m] in if limit \<le> int (length rows') then Inr rows' else list_from rt d limit names rows'))"

definition list_runs :: "runtime \<Rightarrow> directory \<Rightarrow> string list \<Rightarrow> int \<Rightarrow> run_metadata list result" where
  "list_runs rt d names limit = (if limit \<le> 0 then Inr [] else list_from rt d limit names [])"

section \<open>Digests\<close>

definition changed_files_digest :: "runtime \<Rightarrow> string list \<Rightarrow> string" where
  "changed_files_digest rt fs = sha256_json rt (JList (map JStr (sort (map (replace_char (char_of (92::nat)) (CHR ''/'')) fs))))"

definition index_manifest_digest :: "runtime \<Rightarrow> file_body option \<Rightarrow> string" where
  "index_manifest_digest rt content = (case content of
     None \<Rightarrow> sha256_json rt (JDict [(''missing'', JBool True)])
   | Some Garbled \<Rightarrow> sha256_json rt (JDict [(''missing'', JBool True)])
   | Some (Holds (JDict raw)) \<Rightarrow> sha256_json rt (JDict [(''version'', jget raw ''version''), (''files'', jget_or raw ''files'' (JDict []))])
   | Some (Holds _) \<Rightarrow> sha256_json rt (JDict [(''invalid'', JBool True)]))"

text \<open>\<open>answer\<close>: the output and exit status of \<open>git rev-parse HEAD\<close>, if it ran.\<close>

definition git_head_of :: "(string \<times> int) option \<Rightarrow> string option" where
  "git_head_of answer = (case answer of
     None \<Rightarrow> None | Some (out, status) \<Rightarrow> if status = 0 \<and> strip out \<noteq> [] then Some (strip out) else None)"

definition provider_versions_from_config :: "runtime \<Rightarrow> json dict \<Rightarrow> string dict" where
  "provider_versions_from_config rt config =
     (let context = (case jget config ''context'' of JDict c \<Rightarrow> c | _ \<Rightarrow> []);
          semantic = (case jget context ''semantic'' of
             JDict s \<Rightarrow> if truthy (jget s ''command'') then [(''semantic'', py_str rt (jget_or s ''version'' (JStr ''unknown'')))] else []
           | _ \<Rightarrow> []);
          external = (case jget context ''external_retrievers'' of
             JList xs \<Rightarrow> List.map_filter (\<lambda>(i, x). case x of
                JDict item \<Rightarrow> Some (py_str rt (py_or (jget item ''name'') (JStr (''external_'' @ nat_dec i))),
                  py_str rt (jget_or item ''version'' (JStr ''unknown'')))
              | _ \<Rightarrow> None) (zip [0..<length xs] xs)
           | _ \<Rightarrow> [])
      in dsort (fold (\<lambda>(k, v) d. dset d k v) (semantic @ external) []))"

section \<open>Lineage\<close>

definition lineage_entry :: "artifact_reference \<Rightarrow> json" where
  "lineage_entry a = JDict [(''namespace'', JStr (af_kind a)), (''name'', JStr (af_uri a)),
     (''facets'', JDict [(''aiWorkflow'', JDict [(''_producer'', JStr ''ai-workflow-control-plane''), (''digest'', opt_str (af_digest a)),
        (''version'', opt_str (af_version a)), (''role'', opt_str (af_role a))])])]"

definition is_output :: "artifact_reference \<Rightarrow> bool" where
  "is_output a = (case af_role a of None \<Rightarrow> False | Some r \<Rightarrow> starts_with r ''output'')"

definition to_openlineage :: "runtime \<Rightarrow> run_metadata \<Rightarrow> string \<Rightarrow> json dict" where
  "to_openlineage rt m job_name =
     [(''eventType'', JStr ''COMPLETE''), (''eventTime'', JStr (rz_created_at m)), (''producer'', JStr ''ai-workflow-control-plane''),
      (''run'', JDict [(''runId'', JStr (rz_run_id m)),
         (''facets'', JDict [(''aiWorkflow'', JDict [(''reproducibilityKey'', JStr (reproducibility_key rt m))])])]),
      (''job'', JDict [(''namespace'', JStr ''ai-workflow''), (''name'', JStr job_name)]),
      (''inputs'', JList (map lineage_entry (filter (\<lambda>a. \<not> is_output a) (rz_artifacts m)))),
      (''outputs'', JList (map lineage_entry (filter is_output (rz_artifacts m))))]"

section \<open>Artifacts are pinned\<close>

definition pinned :: "artifact_reference \<Rightarrow> bool" where
  "pinned a = (artifact_kind_key (af_kind a) \<in> set SECURITY_SENSITIVE_KINDS \<longrightarrow> (\<exists>digest. af_digest a = Some digest
     \<and> artifact_digest (Some digest) = Inr digest))"

lemma digest_text:
  assumes "set s \<subseteq> set ''sha256:0123456789abcdef''"
  shows "lower s = s" "strip s = s"
proof -
  have c: "\<forall>c \<in> set ''sha256:0123456789abcdef''. lower_char c = c \<and> \<not> is_space c" by code_simp
  show "lower s = s" unfolding lower_def by (rule map_idI) (use assms c in blast)
  have "dropWhile is_space s = s" if "set s \<subseteq> set ''sha256:0123456789abcdef''" for s
    using that c by (cases s) auto
  then show "strip s = s" using assms by (simp add: strip_def lstrip_def rstrip_def)
qed

lemma artifact_digest_fixed: "artifact_digest v = Inr digest \<Longrightarrow> artifact_digest (Some digest) = Inr digest"
proof -
  assume a: "artifact_digest v = Inr digest"
  then have p: "starts_with digest ''sha256:''" "length (drop (length ''sha256:'') digest) = 64"
    "set (drop (length ''sha256:'') digest) \<subseteq> set ''0123456789abcdef''"
    unfolding artifact_digest_def Let_def guard_that_Inr_iff sum.inject by (elim conjE; simp only:)+
  obtain t where d: "digest = ''sha256:'' @ t" using p(1) unfolding starts_with_iff by blast
  then have "set t \<subseteq> set ''0123456789abcdef''" using p(3) by simp
  then have "set digest \<subseteq> set ''sha256:'' \<union> set ''0123456789abcdef''" unfolding d set_append by blast
  also have "\<dots> = set ''sha256:0123456789abcdef''" by code_simp
  finally have "set digest \<subseteq> set ''sha256:0123456789abcdef''" .
  from digest_text [OF this] show ?thesis using p by (simp add: artifact_digest_def Let_def guard_that_def)
qed

theorem artifacts_pinned: "new_artifact a = Inr b \<Longrightarrow> pinned b \<and> new_artifact b = Inr b"
  using artifact_digest_fixed by (auto simp: new_artifact_def pinned_def rbind_Inr_iff split: if_splits)

section \<open>A stored run is read back\<close>

definition run_wf :: "run_metadata \<Rightarrow> bool" where
  "run_wf m = (dict_wf (rz_provider_versions m) \<and> dict_wf (rz_runtime m) \<and> (\<forall>a \<in> set (rz_artifacts m). new_artifact a = Inr a))"

text \<open>Only the order of the two dictionaries is not kept.\<close>

definition canonical_run :: "run_metadata \<Rightarrow> run_metadata" where
  "canonical_run m = m\<lparr>rz_provider_versions := dsort (rz_provider_versions m), rz_runtime := dsort (rz_runtime m)\<rparr>"

lemma text_or_none_opt [simp]: "text_or_none rt (opt_str v) = v"
  by (simp add: text_or_none_def opt_str_def split: option.split)

lemma sort_keys_opt_str [simp]: "sort_keys (opt_str v) = opt_str v"
  by (simp add: opt_str_def split: option.split)

lemma artifact_read_back:
  assumes "new_artifact a = Inr a"
  shows "artifact_of rt (ordered (artifact_dict a)) = Inr a"
proof -
  have wf: "dict_wf (artifact_dict a)" by (simp add: artifact_dict_def dict_wf_def dkeys_def)
  have get_or: "jget_or (ordered (artifact_dict a)) k (JStr s) = sort_keys (jget_or (artifact_dict a) k (JStr s))" for k s
    using ordered_get_or [OF wf, of k "JStr s"] by simp
  have "\<lparr>af_kind = py_str rt (jget_or (ordered (artifact_dict a)) ''kind'' (JStr ''artifact'')),
      af_uri = py_str rt (jget_or (ordered (artifact_dict a)) ''uri'' (JStr [])),
      af_digest = text_or_none rt (jget (ordered (artifact_dict a)) ''digest''),
      af_version = text_or_none rt (jget (ordered (artifact_dict a)) ''version''),
      af_role = text_or_none rt (jget (ordered (artifact_dict a)) ''role'')\<rparr> = a"
    unfolding get_or ordered_get [OF wf] by (simp add: artifact_dict_def dict_simps)
  then show ?thesis using assms unfolding artifact_of_def by (simp only:)
qed

lemma artifacts_read_back:
  assumes "\<forall>a \<in> set xs. new_artifact a = Inr a"
  shows "artifacts_of rt (sort_keys (JList (map (\<lambda>a. JDict (artifact_dict a)) xs))) = Inr xs"
proof -
  have "rmap (artifact_of rt) (map (\<lambda>a. ordered (artifact_dict a)) xs) = Inr xs"
    using assms by (induction xs) (simp_all add: artifact_read_back)
  moreover have "List.map_filter as_dict (map (\<lambda>a. JDict (ordered (artifact_dict a))) xs) = map (\<lambda>a. ordered (artifact_dict a)) xs"
    by (induction xs) (simp_all add: List.map_filter_simps as_dict_def)
  moreover have "sort_keys (JList (map (\<lambda>a. JDict (artifact_dict a)) xs)) = JList (map (\<lambda>a. JDict (ordered (artifact_dict a))) xs)"
    by (simp add: sort_keys_object del: sort_keys.simps(7))
  ultimately show ?thesis unfolding artifacts_of_def by (simp del: sort_keys.simps)
qed

lemma texts_read_back: "texts_of_mapping rt (sort_keys (texts_dict d)) = dsort d"
proof -
  have "sort_keys (texts_dict d) = JDict (map (map_prod id JStr) (sort_key fst d))"
    unfolding texts_dict_def sort_keys_object ordered_texts by (rule refl)
  moreover have "map (map_prod id (py_str rt)) (map (map_prod id JStr) xs) = xs" for xs :: "string dict"
    by (induction xs) auto
  ultimately show ?thesis by (simp add: texts_of_mapping_def dsort_def del: sort_keys.simps list.map_comp map_map)
qed

lemma run_to_dict_wf: "dict_wf (run_to_dict rt m)"
  by (simp add: run_to_dict_def dict_wf_def dkeys_def)

lemma ordered_text_at: "dict_wf d \<Longrightarrow> dget d k = Some (JStr s) \<Longrightarrow> text_at rt (ordered d) k = Inr s"
  by (simp add: text_at_def ordered_dget)

lemma run_read_back:
  assumes "run_wf m"
  shows "run_from_dict rt (ordered (run_to_dict rt m)) = Inr (canonical_run m)"
proof -
  let ?d = "run_to_dict rt m"
  note g = ordered_get [OF run_to_dict_wf [of rt m]] and t = ordered_text_at [OF run_to_dict_wf [of rt m], of _ _ rt]
  have or: "jget_or (ordered ?d) k (JStr s) = sort_keys (jget_or ?d k (JStr s))" "jget_or (ordered ?d) k (JInt i) = sort_keys (jget_or ?d k (JInt i))"
    for k s i using ordered_get_or [OF run_to_dict_wf [of rt m], of k "JStr s"] ordered_get_or [OF run_to_dict_wf [of rt m], of k "JInt i"] by simp_all
  have texts: "text_at rt (ordered ?d) ''run_id'' = Inr (rz_run_id m)" "text_at rt (ordered ?d) ''created_at'' = Inr (rz_created_at m)"
    "text_at rt (ordered ?d) ''control_plane_version'' = Inr (rz_control_plane_version m)"
    "text_at rt (ordered ?d) ''workspace_fingerprint'' = Inr (rz_workspace_fingerprint m)"
    "text_at rt (ordered ?d) ''changed_files_digest'' = Inr (rz_changed_files_digest m)"
    "text_at rt (ordered ?d) ''config_digest'' = Inr (rz_config_digest m)"
    "text_at rt (ordered ?d) ''retrieval_policy_version'' = Inr (rz_retrieval_policy_version m)"
    "text_at rt (ordered ?d) ''index_manifest_digest'' = Inr (rz_index_manifest_digest m)"
    by (rule t, simp add: run_to_dict_def dict_simps)+
  have fields: "jget ?d ''artifacts'' = JList (map (\<lambda>a. JDict (artifact_dict a)) (rz_artifacts m))"
    "jget ?d ''git_head'' = opt_str (rz_git_head m)" "jget ?d ''provider_versions'' = texts_dict (rz_provider_versions m)"
    "jget ?d ''runtime'' = texts_dict (rz_runtime m)" "jget_or ?d ''schema_version'' (JInt 1) = JInt (rz_schema_version m)"
    "jget_or ?d ''graph_fingerprint'' (JStr ''unknown'') = JStr (rz_graph_fingerprint m)"
    by (simp_all add: run_to_dict_def dict_simps)
  have as: "artifacts_of rt (sort_keys (JList (map (\<lambda>a. JDict (artifact_dict a)) (rz_artifacts m)))) = Inr (rz_artifacts m)"
    by (rule artifacts_read_back) (use assms in \<open>simp add: run_wf_def\<close>)
  show ?thesis
    by (simp add: run_from_dict_def texts g or fields as texts_read_back canonical_run_def del: sort_keys.simps(6,7))
qed

section \<open>Runs are never replaced\<close>

interpretation run_files: write_once create_document find_file "\<lambda>v. Holds (sort_keys v)"
  by unfold_locales
    (auto simp: create_document_def find_file_def dget_append dget_Cons split: option.splits if_splits)

lemma stored_run:
  assumes "store_run rt out m d = (Inr (), d')"
  obtains name where "run_path (rz_run_id m) = Inr name" "create_document out name (JDict (run_to_dict rt m)) d = (Inr (), d')"
  using assms by (auto simp: store_run_def split: sum.splits)

text \<open>What was stored is what every later reader gets, whatever else is created in the directory meanwhile.\<close>

theorem stored_run_stays:
  assumes "store_run rt out m d = (Inr (), d')" "run_wf m"
  shows "get_run rt (run_files.creations cs d') (rz_run_id m) = Inr (Some (canonical_run m))
    \<and> (\<exists>e. fst (store_run rt out' m' (run_files.creations cs d')) = Inl e \<or> rz_run_id m' \<noteq> rz_run_id m)"
proof -
  obtain name where n: "run_path (rz_run_id m) = Inr name" "create_document out name (JDict (run_to_dict rt m)) d = (Inr (), d')"
    by (rule stored_run [OF assms(1)])
  have "find_file (run_files.creations cs d') name = Some (Holds (sort_keys (JDict (run_to_dict rt m))))"
    using run_files.published_for_good [of out name "JDict (run_to_dict rt m)" d cs] n(2) by simp
  then have f: "dget (run_files.creations cs d') name = Some (Holds (JDict (ordered (run_to_dict rt m))))"
    by (simp add: find_file_def sort_keys_object del: sort_keys.simps)
  then have "get_run rt (run_files.creations cs d') (rz_run_id m) = Inr (Some (canonical_run m))"
    by (simp add: get_run_def n(1) read_run_def load_json_def run_read_back [OF assms(2)])
  moreover have "\<exists>e. fst (store_run rt out' m' (run_files.creations cs d')) = Inl e" if "rz_run_id m' = rz_run_id m"
    using f by (simp add: store_run_def that n(1) create_document_def)
  ultimately show ?thesis by blast
qed

text \<open>The document is written in place: a write that breaks leaves a file no reader accepts, and the identifier is used up.\<close>

theorem broken_write_blocks:
  assumes "run_path (rz_run_id m) = Inr name" "dget d name = None"
  shows "\<exists>e d'. store_run rt WriteBreaks m d = (Inl e, d') \<and> get_run rt d' (rz_run_id m) = Inr None
    \<and> (\<forall>out. \<exists>e'. store_run rt out m d' = (Inl e', d'))"
proof -
  have "dget (d @ [(name, Garbled)]) name = Some Garbled" using assms(2) by (simp add: dget_append dget_Cons)
  then show ?thesis using assms by (simp add: store_run_def create_document_def get_run_def read_run_def load_json_def)
qed

text \<open>Neither the identifier nor the time of a run is part of its reproducibility key.\<close>

theorem reproducibility_key_frame:
  "reproducibility_key rt (m\<lparr>rz_run_id := i, rz_created_at := t\<rparr>) = reproducibility_key rt m"
  by (simp add: reproducibility_key_def)

lemma listed_runs_bounded: "list_from rt d limit names rows = Inr rs \<Longrightarrow> int (length rows) < limit \<Longrightarrow> int (length rs) \<le> limit"
proof (induction names arbitrary: rows)
  case (Cons name names)
  then show ?case by (fastforce simp: rbind_Inr_iff Let_def split: option.splits if_splits)
qed simp

end
