(* ===== verification/BenchmarkRegression.thy ===== *)
theory BenchmarkRegression
  imports PyText
begin

text \<open>
  \<open>benchmark_regression.py\<close>: a benchmark result against a versioned policy of floors and tolerated regressions.
  Latencies are finite.
\<close>

section \<open>Numbers\<close>

definition number_of :: "runtime \<Rightarrow> json \<Rightarrow> pyfloat option" where
  "number_of rt v = (case v of
     JBool _ \<Rightarrow> None
   | _ \<Rightarrow> (case to_float rt v of Inr x \<Rightarrow> Some x | Inl _ \<Rightarrow> None))"

definition mapping_of :: "json \<Rightarrow> json dict" where
  "mapping_of v = (case v of JDict d \<Rightarrow> d | _ \<Rightarrow> [])"

definition nearest_rank :: "rat list \<Rightarrow> rat \<Rightarrow> rat" where
  "nearest_rank ordered q = (let rank = max 1 (nat \<lceil>q * of_nat (length ordered)\<rceil>) in ordered ! (min rank (length ordered) - 1))"

record latency_summary =
  lu_p50 :: "rat option"
  lu_p95 :: "rat option"
  lu_p99 :: "rat option"

definition latency_percentiles :: "rat list \<Rightarrow> latency_summary" where
  "latency_percentiles values =
     (let xs = sort values; p = (\<lambda>q. if xs = [] then None else Some (nearest_rank xs q)) in
      \<lparr>lu_p50 = p (50/100), lu_p95 = p (95/100), lu_p99 = p (99/100)\<rparr>)"

section \<open>Failures\<close>

datatype regression_failure =
    BelowMinimum string pyfloat "pyfloat option" "string option"
  | Regressed string string pyfloat pyfloat pyfloat "pyfloat option"

definition minimum_failure :: "runtime \<Rightarrow> string \<Rightarrow> json \<Rightarrow> json \<Rightarrow> string option \<Rightarrow> regression_failure option" where
  "minimum_failure rt metric floor_value actual query_type = (case number_of rt floor_value of
     None \<Rightarrow> None
   | Some expected \<Rightarrow>
       (case number_of rt actual of
          Some observed \<Rightarrow> if fl_le expected observed then None else Some (BelowMinimum metric expected (Some observed) query_type)
        | None \<Rightarrow> Some (BelowMinimum metric expected None query_type)))"

text \<open>One policy: \<open>None\<close> when it says nothing, else whether it failed.\<close>

definition policy_failure :: "runtime \<Rightarrow> json dict \<Rightarrow> string \<times> json \<Rightarrow> regression_failure option option result" where
  "policy_failure rt summary entry =
     (let metric = fst entry; policy = mapping_of (snd entry);
          direction = lower (py_str rt (jget_or policy ''direction'' (JStr ''higher'')))
      in if policy = [] then Inr None
      else case (number_of rt (jget policy ''baseline''), number_of rt (jget policy ''relative_tolerance'')) of
        (Some reference, Some tolerance) \<Rightarrow>
          guard_that (\<not> fl_lt tolerance (Fin 0)) (ValueError (''negative relative_tolerance for '' @ metric))
          (guard_that (direction \<in> {''higher'', ''lower''}) (ValueError (''invalid direction for '' @ metric @ '': '' @ direction))
          (let actual = number_of rt (jget summary metric);
               limit = (if direction = ''higher'' then fl_mul reference (fl_sub (Fin 1) tolerance)
                 else fl_mul reference (fl_add (Fin 1) tolerance));
               regressed = (case actual of None \<Rightarrow> True
                 | Some x \<Rightarrow> if direction = ''higher'' then fl_lt x limit else fl_lt limit x)
           in Inr (Some (if regressed then Some (Regressed metric direction reference tolerance limit actual) else None))))
      | _ \<Rightarrow> Inr None)"

record regression_report =
  rb_checked :: nat
  rb_failures :: "regression_failure list"

definition report_ok :: "regression_report \<Rightarrow> bool" where
  "report_ok r = (rb_failures r = [])"

definition floor_failures :: "runtime \<Rightarrow> json dict \<Rightarrow> json dict \<Rightarrow> regression_failure option list" where
  "floor_failures rt floors summary = map (\<lambda>(metric, v). minimum_failure rt metric v (jget summary metric) None) floors"

text \<open>A floor of \<open>null\<close> in a group is no floor.\<close>

definition group_failures :: "runtime \<Rightarrow> json dict \<Rightarrow> string \<times> json \<Rightarrow> regression_failure option list" where
  "group_failures rt groups entry =
     map (\<lambda>(metric, v). minimum_failure rt metric v (jget (mapping_of (jget groups (fst entry))) metric) (Some (fst entry)))
       (filter (\<lambda>(metric, v). v \<noteq> JNull) (mapping_of (snd entry)))"

definition somes_of :: "'a option list \<Rightarrow> 'a list" where
  "somes_of xs = List.map_filter id xs"

definition check_regression :: "runtime \<Rightarrow> json dict \<Rightarrow> json dict \<Rightarrow> regression_report result" where
  "check_regression rt baseline current =
     rbind (to_int (py_or (jget_or baseline ''schema_version'' (JInt 0)) (JInt 0))) (\<lambda>version.
     guard_that (version = 1) (ValueError ''unsupported benchmark baseline schema_version'')
     (let summary = mapping_of (jget current ''summary'');
          floors = floor_failures rt (mapping_of (jget baseline ''minimum'')) summary;
          groups = concat (map (group_failures rt (mapping_of (jget current ''by_query_type''))) (mapping_of (jget baseline ''by_query_type'')))
      in rbind (rmap (policy_failure rt summary) (mapping_of (jget baseline ''maximum_regression''))) (\<lambda>policies.
           let judged = somes_of policies in
           Inr \<lparr>rb_checked = length floors + length judged + length groups,
             rb_failures = somes_of floors @ somes_of judged @ somes_of groups\<rparr>)))"

section \<open>What a passing report says\<close>

lemma somes_of_Nil [simp]: "somes_of xs = [] \<longleftrightarrow> (\<forall>x \<in> set xs. x = None)"
  by (induction xs) (auto simp: somes_of_def List.map_filter_simps split: option.split)

lemma set_somes_of [simp]: "set (somes_of xs) = {y. Some y \<in> set xs}"
  by (induction xs) (auto simp: somes_of_def List.map_filter_simps split: option.splits)

text \<open>A floor is met when it is no number, or the metric is a number and not below it.\<close>

definition meets_floor :: "runtime \<Rightarrow> json \<Rightarrow> json \<Rightarrow> bool" where
  "meets_floor rt floor_value actual = (\<forall>e. number_of rt floor_value = Some e \<longrightarrow> (\<exists>x. number_of rt actual = Some x \<and> fl_le e x))"

definition within_tolerance :: "runtime \<Rightarrow> json dict \<Rightarrow> string \<Rightarrow> json \<Rightarrow> bool" where
  "within_tolerance rt summary metric v =
     (let policy = mapping_of v; direction = lower (py_str rt (jget_or policy ''direction'' (JStr ''higher''))) in
      \<forall>reference tolerance. number_of rt (jget policy ''baseline'') = Some reference
        \<and> number_of rt (jget policy ''relative_tolerance'') = Some tolerance \<longrightarrow>
        (\<exists>x. number_of rt (jget summary metric) = Some x
          \<and> (direction = ''higher'' \<longrightarrow> \<not> fl_lt x (fl_mul reference (fl_sub (Fin 1) tolerance)))
          \<and> (direction \<noteq> ''higher'' \<longrightarrow> \<not> fl_lt (fl_mul reference (fl_add (Fin 1) tolerance)) x)))"

lemma minimum_failure_None: "minimum_failure rt metric v actual q = None \<longleftrightarrow> meets_floor rt v actual"
  by (auto simp: minimum_failure_def meets_floor_def split: option.splits)

lemma policy_failure_ok:
  assumes "policy_failure rt summary (metric, v) = Inr r"
  shows "(r = None \<or> r = Some None) \<longleftrightarrow> within_tolerance rt summary metric v"
proof (cases "mapping_of v = []")
  case True
  then show ?thesis using assms by (simp add: policy_failure_def within_tolerance_def number_of_def to_float_def)
next
  case False
  show ?thesis
  proof (cases "number_of rt (jget (mapping_of v) ''baseline'')")
    case None
    then show ?thesis using assms False by (simp add: policy_failure_def within_tolerance_def Let_def)
  next
    case (Some reference)
    show ?thesis
    proof (cases "number_of rt (jget (mapping_of v) ''relative_tolerance'')")
      case None
      then show ?thesis using assms False Some by (simp add: policy_failure_def within_tolerance_def Let_def)
    next
      case t: (Some tolerance)
      then show ?thesis using assms False Some
        by (cases "number_of rt (jget summary metric)")
          (auto simp: policy_failure_def within_tolerance_def Let_def guard_that_Inr_iff split: if_splits)
    qed
  qed
qed

lemma policies_ok:
  "rmap (policy_failure rt summary) es = Inr policies \<Longrightarrow>
     (\<forall>x \<in> set policies. x = None \<or> x = Some None) \<longleftrightarrow> (\<forall>(metric, v) \<in> set es. within_tolerance rt summary metric v)"
proof (induction es arbitrary: policies)
  case (Cons e es)
  obtain r rest where r: "policy_failure rt summary e = Inr r" "rmap (policy_failure rt summary) es = Inr rest" "policies = r # rest"
    using Cons.prems by (auto simp: rbind_Inr_iff)
  obtain metric v where e: "e = (metric, v)" by (cases e)
  show ?case using Cons.IH [OF r(2)] policy_failure_ok [OF r(1) [unfolded e]] by (auto simp: r(3) e)
qed simp

theorem regression_report_exact:
  assumes "check_regression rt baseline current = Inr r"
  shows "report_ok r \<longleftrightarrow>
      (\<forall>(metric, v) \<in> set (mapping_of (jget baseline ''minimum'')). meets_floor rt v (jget (mapping_of (jget current ''summary'')) metric))
    \<and> (\<forall>(metric, v) \<in> set (mapping_of (jget baseline ''maximum_regression'')). within_tolerance rt (mapping_of (jget current ''summary'')) metric v)
    \<and> (\<forall>(q, floors) \<in> set (mapping_of (jget baseline ''by_query_type'')). \<forall>(metric, v) \<in> set (mapping_of floors).
         v \<noteq> JNull \<longrightarrow> meets_floor rt v (jget (mapping_of (jget (mapping_of (jget current ''by_query_type'')) q)) metric))"
proof -
  let ?s = "mapping_of (jget current ''summary'')" and ?m = "mapping_of (jget baseline ''maximum_regression'')"
  let ?floors = "floor_failures rt (mapping_of (jget baseline ''minimum'')) ?s"
  let ?groups = "concat (map (group_failures rt (mapping_of (jget current ''by_query_type''))) (mapping_of (jget baseline ''by_query_type'')))"
  obtain policies where p: "rmap (policy_failure rt ?s) ?m = Inr policies"
    and r: "rb_failures r = somes_of ?floors @ somes_of (somes_of policies) @ somes_of ?groups"
    using assms by (auto simp: check_regression_def rbind_Inr_iff guard_that_Inr_iff Let_def)
  have f: "(\<forall>x \<in> set ?floors. x = None) \<longleftrightarrow> (\<forall>(metric, v) \<in> set (mapping_of (jget baseline ''minimum'')). meets_floor rt v (jget ?s metric))"
    by (auto simp: floor_failures_def minimum_failure_None)
  have g: "(\<forall>x \<in> set ?groups. x = None) \<longleftrightarrow> (\<forall>(q, floors) \<in> set (mapping_of (jget baseline ''by_query_type'')). \<forall>(metric, v) \<in> set (mapping_of floors).
      v \<noteq> JNull \<longrightarrow> meets_floor rt v (jget (mapping_of (jget (mapping_of (jget current ''by_query_type'')) q)) metric))"
    by (fastforce simp: group_failures_def minimum_failure_None)
  have "(\<forall>x \<in> set policies. x = None \<or> x = Some None) \<longleftrightarrow> (\<forall>(metric, v) \<in> set ?m. within_tolerance rt ?s metric v)"
    by (rule policies_ok [OF p])
  then have "(\<forall>x \<in> set (somes_of policies). x = None) \<longleftrightarrow> (\<forall>(metric, v) \<in> set ?m. within_tolerance rt ?s metric v)" by auto
  then show ?thesis using f g by (simp add: report_ok_def r)
qed

end
