(* ===== verification/StoreExamples.thy ===== *)
theory StoreExamples
  imports ConfigProps RetrievalCache Memory Provenance BenchmarkRegression Examples
begin

text \<open>
  Concrete configurations, cached results, memories, stored runs and benchmark policies for the witnesses.
\<close>

section \<open>Configurations\<close>

text \<open>The built-in configuration with one external retriever, of a registered provider.\<close>

definition project_config :: "json dict" where
  "project_config = dset default_config ''context'' (JDict (dset default_context ''external_retrievers''
     (JList [JDict [(''name'', JStr ''docs''), (''provider_id'', JStr ''docs-index'')]])))"

lemma project_config_accepted: "validate_config demo_rt project_config = Inr ()"
  by code_simp

lemma project_retrievers: "rbind (configured_retrievers demo_rt False project_config ''exact'') (\<lambda>specs. Inr (length specs)) = Inr 1"
  by code_simp

definition old_config :: "json dict" where
  "old_config = [(''version'', JInt 1), (''learning'', JDict [(''mode'', JStr ''observe'')])]"

lemma old_config_migrates: "\<exists>c. migrate_config demo_rt (JDict old_config) = Inr c" "deep_wf (JDict old_config)"
  "py_eq (jget old_config ''version'') (JInt 1)" "value_at old_config [''learning'', ''mode''] = Some (JStr ''observe'')"
  by (auto simp: migrate_config_def old_config_def Let_def dict_simps py_eq_def dict_wf_def dkeys_def)

section \<open>The cache\<close>

definition demo_cached :: cached_result where
  "demo_cached = \<lparr>cq_provider = ''semantic'', cq_items = [\<lparr>ct_source = ''semantic'', ct_text = ''lock'', ct_score = Fin 1,
     ct_stale = False, ct_metadata = [(''path'', JStr ''a.py''), (''line'', JInt 3)], ct_provenance = [], ct_evidence = None\<rparr>],
     cq_latency_ms = Fin 5, cq_error = None, cq_error_kind = None, cq_timed_out = False, cq_output_limited = False,
     cq_returncode = Some 0\<rparr>"

definition demo_cacheable :: provider_semantics where
  "demo_cacheable = default_semantics\<lparr>sm_deterministic := True, sm_cacheable := True\<rparr>"

lemma demo_storable: "storable demo_cached demo_cacheable"
  by (simp add: storable_def demo_cached_def demo_cacheable_def default_semantics_def cache_eligible_def fl_finite_def)

lemma demo_put: "cache_put rt Durable key demo_cached demo_cacheable d
    = (Inr True, dset d (cache_file rt key) (stored_body demo_cached))"
  using demo_storable by (simp add: cache_put_def atomic_write_json_def sync_result_def stored_body_def del: sort_keys.simps)

section \<open>Memories\<close>

definition demo_tree :: memory_env where
  "demo_tree = \<lparr>me_base = ''/ws'', me_resolve = Some, me_view = (\<lambda>p. if p = ''/ws/a.py'' then FileWith ''d1'' else Absent)\<rparr>"

definition edited_tree :: memory_env where
  "edited_tree = demo_tree\<lparr>me_view := (\<lambda>p. if p = ''/ws/a.py'' then FileWith ''d2'' else Absent)\<rparr>"

lemma demo_tree_file: "memory_file demo_tree ''a.py'' = Inr (''a.py'', ''/ws/a.py'')"
  "resolve_within_root Some ''/ws'' ''a.py'' = Inr ''/ws/a.py''"
  by code_simp+

lemma demo_tree_stable: "stable_paths demo_tree [''a.py'']" "same_tree demo_tree edited_tree"
  using demo_tree_file by (simp_all add: stable_paths_def same_tree_def edited_tree_def) (simp add: demo_tree_def)

lemma demo_remembered: "\<exists>r. memory_record demo_tree ''1'' ''t0'' ''decision'' ''lock'' ''s'' ''e'' [''a.py''] (Fin 1) = Inr r"
  using demo_tree_file(1) by (simp add: memory_record_def guard_that_def MEMORY_TYPES_def) (simp add: demo_tree_def)

definition demo_memory :: "json dict" where
  "demo_memory = [(''id'', JStr ''m1''), (''confidence'', JFloat (Fin 1))]"

lemma demo_memory_wf: "dict_wf demo_memory"
  by (simp add: demo_memory_def dict_wf_def dkeys_def)

definition demo_memory_row :: "string \<times> memory_row" where
  "demo_memory_row = (''m1'', \<lparr>mw_type = ''pattern'', mw_created_at = [], mw_verified_at = [], mw_confidence = Fin 1,
     mw_record = [(''confidence'', JFloat (Fin 1)), (''id'', JStr ''m1'')]\<rparr>)"

lemma demo_memory_payload: "memory_payload demo_rt demo_memory = Inr demo_memory_row"
  by code_simp

lemma demo_memory_inserted: "run_memory demo_rt DbOk (InsertMemory demo_memory) [] = (Inr (), [demo_memory_row])"
  by (simp add: run_memory_def memory_insert_def in_transaction_def demo_memory_payload insert_row_def guard_that_def)
    (simp add: demo_memory_row_def storable_row_def)

section \<open>Stored runs\<close>

definition demo_metadata :: run_metadata where
  "demo_metadata = \<lparr>rz_control_plane_version = ''2.0'', rz_workspace_fingerprint = ''w'', rz_git_head = None,
     rz_changed_files_digest = ''c'', rz_config_digest = ''d'', rz_retrieval_policy_version = ''1'', rz_index_manifest_digest = ''i'',
     rz_provider_versions = [(''semantic'', ''3'')], rz_artifacts = [], rz_graph_fingerprint = ''g'', rz_run_id = ''r1'',
     rz_schema_version = 1, rz_created_at = ''t0'', rz_runtime = []\<rparr>"

lemma demo_metadata_stored:
  "\<exists>d. store_run demo_rt StoreDone demo_metadata [] = (Inr (), d)" "run_wf demo_metadata"
proof -
  have "run_path (rz_run_id demo_metadata) = Inr ''r1.json''" by code_simp
  then show "\<exists>d. store_run demo_rt StoreDone demo_metadata [] = (Inr (), d)" by (simp add: store_run_def create_document_def)
  show "run_wf demo_metadata" by (simp add: run_wf_def demo_metadata_def dict_wf_def dkeys_def)
qed

section \<open>A benchmark policy\<close>

end
