(* ===== verification/Sandbox.thy ===== *)
theory Sandbox
  imports PyText
begin

text \<open>
  \<open>provider_sandbox.py\<close>: the sandbox policy of a provider and the command line that enforces it.  What the
  system answers is the argument \<open>sandbox_env\<close>: the platform, the search path, the file system and the exit status of
  a command (\<open>None\<close>: it could not be run or timed out).  The cached probe answers the same for the same backend.
\<close>

section \<open>Limits\<close>

definition MAX_CPU_SECONDS :: int where
  "MAX_CPU_SECONDS = 86400"

definition MAX_MEMORY_MB :: int where
  "MAX_MEMORY_MB = 1048576"

definition MAX_FILE_SIZE_MB :: int where
  "MAX_FILE_SIZE_MB = 1048576"

definition MAX_OPEN_FILES :: int where
  "MAX_OPEN_FILES = 1000000"

definition bounded_positive_int :: "json \<Rightarrow> string \<Rightarrow> int \<Rightarrow> int option result" where
  "bounded_positive_int v name maximum = (case v of
     JNull \<Rightarrow> Inr None
   | JInt n \<Rightarrow> guard_that (1 \<le> n \<and> n \<le> maximum)
       (ValueError (''sandbox '' @ name @ '' must be between 1 and '' @ int_dec maximum)) (Inr (Some n))
   | _ \<Rightarrow> Inl (ValueError (''sandbox '' @ name @ '' must be an integer'')))"

record resource_limits =
  rl_cpu_seconds :: "int option"
  rl_memory_mb :: "int option"
  rl_file_size_mb :: "int option"
  rl_open_files :: "int option"

definition no_limits :: resource_limits where
  "no_limits = \<lparr>rl_cpu_seconds = None, rl_memory_mb = None, rl_file_size_mb = None, rl_open_files = None\<rparr>"

definition unknown_keys :: "string list \<Rightarrow> json dict \<Rightarrow> string list" where
  "unknown_keys known raw = sort (filter (\<lambda>k. k \<notin> set known) (dkeys raw))"

definition limits_from_mapping :: "json \<Rightarrow> resource_limits result" where
  "limits_from_mapping v = (case v of
     JNull \<Rightarrow> Inr no_limits
   | JDict raw \<Rightarrow>
       (let unknown = unknown_keys [''cpu_seconds'', ''memory_mb'', ''file_size_mb'', ''open_files''] raw in
        guard_that (unknown = []) (ValueError (''unknown sandbox limit fields: '' @ join '', '' unknown))
        (rbind (bounded_positive_int (jget raw ''cpu_seconds'') ''cpu_seconds'' MAX_CPU_SECONDS) (\<lambda>c.
         rbind (bounded_positive_int (jget raw ''memory_mb'') ''memory_mb'' MAX_MEMORY_MB) (\<lambda>m.
         rbind (bounded_positive_int (jget raw ''file_size_mb'') ''file_size_mb'' MAX_FILE_SIZE_MB) (\<lambda>f.
         rbind (bounded_positive_int (jget raw ''open_files'') ''open_files'' MAX_OPEN_FILES) (\<lambda>n.
           Inr \<lparr>rl_cpu_seconds = c, rl_memory_mb = m, rl_file_size_mb = f, rl_open_files = n\<rparr>))))))
   | _ \<Rightarrow> Inl (ValueError ''sandbox limits must be an object''))"

definition limits_any :: "resource_limits \<Rightarrow> bool" where
  "limits_any l = (rl_cpu_seconds l \<noteq> None \<or> rl_memory_mb l \<noteq> None \<or> rl_file_size_mb l \<noteq> None \<or> rl_open_files l \<noteq> None)"

section \<open>Policies\<close>

record sandbox_policy =
  sy_mode :: string
  sy_backend :: string
  sy_network :: string
  sy_limits :: resource_limits

definition SANDBOX_MODES :: "string list" where
  "SANDBOX_MODES = [''off'', ''preferred'', ''required'']"

definition SANDBOX_BACKENDS :: "string list" where
  "SANDBOX_BACKENDS = [''auto'', ''bubblewrap'']"

definition NETWORK_POLICIES :: "string list" where
  "NETWORK_POLICIES = [''host'', ''deny'']"

text \<open>A sorted set of texts as an f-string shows it.\<close>

definition texts_repr :: "string list \<Rightarrow> string" where
  "texts_repr names = ''['' @ join '', '' (map repr_string (sort names)) @ '']''"

text \<open>\<open>__post_init__\<close>\<close>

definition new_policy :: "string \<Rightarrow> string \<Rightarrow> string \<Rightarrow> resource_limits \<Rightarrow> sandbox_policy result" where
  "new_policy mode backend network limits =
     (let m = lower (strip mode); b = lower (strip backend); n = lower (strip network) in
      guard_that (m \<in> set SANDBOX_MODES) (ValueError (''sandbox mode must be one of '' @ texts_repr SANDBOX_MODES))
      (guard_that (b \<in> set SANDBOX_BACKENDS) (ValueError (''sandbox backend must be one of '' @ texts_repr SANDBOX_BACKENDS))
      (guard_that (n \<in> set NETWORK_POLICIES) (ValueError (''sandbox network must be one of '' @ texts_repr NETWORK_POLICIES))
      (guard_that (\<not> (m = ''off'' \<and> (n \<noteq> ''host'' \<or> limits_any limits)))
        (ValueError ''sandbox mode=off cannot enforce network or resource limits'')
      (Inr \<lparr>sy_mode = m, sy_backend = b, sy_network = n, sy_limits = limits\<rparr>)))))"

definition default_policy :: sandbox_policy where
  "default_policy = \<lparr>sy_mode = ''off'', sy_backend = ''auto'', sy_network = ''host'', sy_limits = no_limits\<rparr>"

definition policy_from_mapping :: "runtime \<Rightarrow> json \<Rightarrow> sandbox_policy result" where
  "policy_from_mapping rt v = (case v of
     JNull \<Rightarrow> Inr default_policy
   | JDict raw \<Rightarrow>
       (let unknown = unknown_keys [''mode'', ''backend'', ''network'', ''limits''] raw in
        guard_that (unknown = []) (ValueError (''unknown provider sandbox fields: '' @ join '', '' unknown))
        (rbind (limits_from_mapping (jget raw ''limits'')) (\<lambda>limits.
          new_policy (py_str rt (py_or (jget raw ''mode'') (JStr ''off''))) (py_str rt (py_or (jget raw ''backend'') (JStr ''auto'')))
            (py_str rt (py_or (jget raw ''network'') (JStr ''host''))) limits)))
   | _ \<Rightarrow> Inl (ValueError ''provider sandbox must be an object''))"

definition must_enforce :: "sandbox_policy \<Rightarrow> bool" where
  "must_enforce p = (sy_mode p = ''required'' \<or> sy_network p = ''deny'' \<or> limits_any (sy_limits p))"

text \<open>\<open>to_dict\<close>\<close>

definition limit_json :: "int option \<Rightarrow> json" where
  "limit_json v = (case v of None \<Rightarrow> JNull | Some n \<Rightarrow> JInt n)"

definition limits_to_dict :: "resource_limits \<Rightarrow> json dict" where
  "limits_to_dict l = [(''cpu_seconds'', limit_json (rl_cpu_seconds l)), (''memory_mb'', limit_json (rl_memory_mb l)),
     (''file_size_mb'', limit_json (rl_file_size_mb l)), (''open_files'', limit_json (rl_open_files l))]"

definition policy_to_dict :: "sandbox_policy \<Rightarrow> json dict" where
  "policy_to_dict p = [(''mode'', JStr (sy_mode p)), (''backend'', JStr (sy_backend p)), (''network'', JStr (sy_network p)),
     (''limits'', JDict (limits_to_dict (sy_limits p)))]"

section \<open>Plans\<close>

record sandbox_env =
  sx_linux :: bool
  sx_which :: "string \<Rightarrow> string option"
  sx_resolve :: "string \<Rightarrow> string"
  sx_is_file :: "string \<Rightarrow> bool"
  sx_exists :: "string \<Rightarrow> bool"
  sx_run :: "string list \<Rightarrow> int option"
  sx_python :: string

record sandbox_plan =
  sn_command :: "string list"
  sn_sandboxed :: bool
  sn_backend :: "string option"
  sn_mode :: string
  sn_network :: string
  sn_limits_enforced :: bool
  sn_fallback_reason :: "string option"

text \<open>What \<open>shutil.which\<close> finds; an empty answer counts as none.\<close>

definition found_tool :: "sandbox_env \<Rightarrow> string \<Rightarrow> string option" where
  "found_tool env name = (case sx_which env name of Some p \<Rightarrow> if p = [] then None else Some p | None \<Rightarrow> None)"

definition bubblewrap_flags :: "string \<Rightarrow> string list" where
  "bubblewrap_flags network =
     [''--die-with-parent'', ''--new-session'', ''--unshare-pid'', ''--unshare-ipc'', ''--unshare-uts'', ''--cap-drop'', ''ALL'',
      ''--ro-bind'', ''/'', ''/'', ''--proc'', ''/proc'', ''--dev'', ''/dev'']
     @ (if network = ''deny'' then [''--unshare-net''] else [])"

definition bubblewrap_probe :: "sandbox_env \<Rightarrow> string \<Rightarrow> string \<Rightarrow> bool" where
  "bubblewrap_probe env path network = (case found_tool env ''true'' of
     None \<Rightarrow> False
   | Some t \<Rightarrow> sx_run env (path # bubblewrap_flags network @ [sx_resolve env t]) = Some 0)"

definition resolve_bubblewrap :: "sandbox_env \<Rightarrow> string \<Rightarrow> string option" where
  "resolve_bubblewrap env network =
     (if \<not> sx_linux env then None
      else case found_tool env ''bwrap'' of
        None \<Rightarrow> None
      | Some raw \<Rightarrow>
          (let path = sx_resolve env raw in
           if \<not> sx_is_file env path then None
           else if \<not> bubblewrap_probe env path network then None
           else Some path))"

definition limit_option :: "string \<Rightarrow> int option \<Rightarrow> string list" where
  "limit_option name v = (case v of None \<Rightarrow> [] | Some n \<Rightarrow> [name, int_dec n])"

definition limit_wrapper :: "sandbox_env \<Rightarrow> string list \<Rightarrow> resource_limits \<Rightarrow> string list" where
  "limit_wrapper env command l =
     (if \<not> limits_any l then command
      else [sx_python env, ''-m'', ''ai_workflow.provider_sandbox_exec'']
        @ limit_option ''--cpu-seconds'' (rl_cpu_seconds l) @ limit_option ''--memory-mb'' (rl_memory_mb l)
        @ limit_option ''--file-size-mb'' (rl_file_size_mb l) @ limit_option ''--open-files'' (rl_open_files l)
        @ [''--''] @ command)"

definition dedupe_paths :: "sandbox_env \<Rightarrow> string list \<Rightarrow> string list" where
  "dedupe_paths env paths = uniq (map (sx_resolve env) paths)"

definition bare_plan :: "sandbox_policy \<Rightarrow> string list \<Rightarrow> string option \<Rightarrow> sandbox_plan" where
  "bare_plan p command reason = \<lparr>sn_command = command, sn_sandboxed = False, sn_backend = None, sn_mode = sy_mode p,
     sn_network = sy_network p, sn_limits_enforced = False, sn_fallback_reason = reason\<rparr>"

text \<open>\<open>SandboxUnavailableError\<close> is a subclass of \<open>RuntimeError\<close>.\<close>

definition build_sandbox_plan :: "sandbox_env \<Rightarrow> sandbox_policy \<Rightarrow> string list \<Rightarrow> string \<Rightarrow> string list \<Rightarrow> sandbox_plan result" where
  "build_sandbox_plan env p command cwd writable =
     guard_that (command \<noteq> []) (ValueError ''sandbox command must not be empty'')
     (if sy_mode p = ''off'' then Inr (bare_plan p command None)
      else case (if sy_backend p \<in> {''auto'', ''bubblewrap''} then resolve_bubblewrap env (sy_network p) else None) of
        None \<Rightarrow>
          (if must_enforce p then Inl (RuntimeError ''provider sandbox policy requires an available enforcing backend'')
           else Inr (bare_plan p command (Some ''backend_unavailable'')))
      | Some path \<Rightarrow> Inr
          \<lparr>sn_command = path # bubblewrap_flags (sy_network p)
             @ concat (map (\<lambda>w. if sx_exists env w then [''--bind'', w, w] else []) (dedupe_paths env writable))
             @ [''--chdir'', sx_resolve env cwd] @ limit_wrapper env command (sy_limits p),
           sn_sandboxed = True, sn_backend = Some ''bubblewrap'', sn_mode = sy_mode p, sn_network = sy_network p,
           sn_limits_enforced = limits_any (sy_limits p), sn_fallback_reason = None\<rparr>)"

section \<open>The wrapper of the limits\<close>

text \<open>\<open>provider_sandbox_exec.py\<close>: the options as the plan writes them, then \<open>--\<close> and the command.\<close>

definition positive_arg :: "string \<Rightarrow> int option" where
  "positive_arg s = (case parse_int s of Some n \<Rightarrow> if n < 1 then None else Some n | None \<Rightarrow> None)"

definition set_limit :: "string \<Rightarrow> int \<Rightarrow> resource_limits \<Rightarrow> resource_limits option" where
  "set_limit name n l =
     (if name = ''--cpu-seconds'' then Some (l\<lparr>rl_cpu_seconds := Some n\<rparr>)
      else if name = ''--memory-mb'' then Some (l\<lparr>rl_memory_mb := Some n\<rparr>)
      else if name = ''--file-size-mb'' then Some (l\<lparr>rl_file_size_mb := Some n\<rparr>)
      else if name = ''--open-files'' then Some (l\<lparr>rl_open_files := Some n\<rparr>)
      else None)"

fun wrapper_args :: "resource_limits \<Rightarrow> string list \<Rightarrow> (resource_limits \<times> string list) option" where
  "wrapper_args l [] = None"
| "wrapper_args l [a] = None"
| "wrapper_args l (a # v # args) =
     (if a = ''--'' then Some (l, v # args)
      else case positive_arg v of
        None \<Rightarrow> None
      | Some n \<Rightarrow> (case set_limit a n l of None \<Rightarrow> None | Some l' \<Rightarrow> wrapper_args l' args))"

text \<open>The soft and hard limits that are set, in bytes where the option is in megabytes.\<close>

datatype rlimit = CpuTime | AddressSpace | FileSize | OpenFiles

definition apply_limits :: "resource_limits \<Rightarrow> (rlimit \<times> int) list" where
  "apply_limits l =
     (case rl_cpu_seconds l of None \<Rightarrow> [] | Some n \<Rightarrow> [(CpuTime, n)])
     @ (case rl_memory_mb l of None \<Rightarrow> [] | Some n \<Rightarrow> [(AddressSpace, n * 1024 * 1024)])
     @ (case rl_file_size_mb l of None \<Rightarrow> [] | Some n \<Rightarrow> [(FileSize, n * 1024 * 1024)])
     @ (case rl_open_files l of None \<Rightarrow> [] | Some n \<Rightarrow> [(OpenFiles, n)])"

section \<open>Accepted policies\<close>

lemma new_policy_off:
  assumes "new_policy mode backend network limits = Inr p" "sy_mode p = ''off''"
  shows "\<not> must_enforce p"
  using assms by (auto simp: new_policy_def Let_def guard_that_Inr_iff must_enforce_def NETWORK_POLICIES_def)

lemma policy_off:
  assumes "policy_from_mapping rt v = Inr p" "must_enforce p"
  shows "sy_mode p \<noteq> ''off''"
proof
  assume off: "sy_mode p = ''off''"
  show False
  proof (cases v)
    case JNull
    then show ?thesis using assms
      by (simp add: policy_from_mapping_def default_policy_def must_enforce_def limits_any_def no_limits_def)
         (auto simp: limits_any_def no_limits_def)
  next
    case (JDict raw)
    then obtain limits where "new_policy (py_str rt (py_or (jget raw ''mode'') (JStr ''off''))) (py_str rt (py_or (jget raw ''backend'') (JStr ''auto'')))
            (py_str rt (py_or (jget raw ''network'') (JStr ''host''))) limits = Inr p"
      using assms(1) by (auto simp: policy_from_mapping_def Let_def guard_that_Inr_iff rbind_Inr_iff)
    then show ?thesis using new_policy_off off assms(2) by blast
  qed (use assms in \<open>simp_all add: policy_from_mapping_def\<close>)
qed

text \<open>What \<open>to_dict\<close> writes of an accepted policy is read back as the same policy.\<close>

lemma limit_read_back: "bounded_positive_int v name maximum = Inr x \<Longrightarrow> bounded_positive_int (limit_json x) name maximum = Inr x"
  by (auto simp: bounded_positive_int_def limit_json_def guard_that_def split: json.splits if_splits)

lemma no_limit_read_back: "bounded_positive_int (limit_json None) name maximum = Inr None"
  by (simp add: bounded_positive_int_def limit_json_def)

lemma limits_read_back:
  assumes "limits_from_mapping v = Inr l"
  shows "limits_from_mapping (JDict (limits_to_dict l)) = Inr l"
proof -
  have parts: "bounded_positive_int (limit_json (rl_cpu_seconds l)) ''cpu_seconds'' MAX_CPU_SECONDS = Inr (rl_cpu_seconds l)"
    "bounded_positive_int (limit_json (rl_memory_mb l)) ''memory_mb'' MAX_MEMORY_MB = Inr (rl_memory_mb l)"
    "bounded_positive_int (limit_json (rl_file_size_mb l)) ''file_size_mb'' MAX_FILE_SIZE_MB = Inr (rl_file_size_mb l)"
    "bounded_positive_int (limit_json (rl_open_files l)) ''open_files'' MAX_OPEN_FILES = Inr (rl_open_files l)"
    using assms by (auto simp: limits_from_mapping_def Let_def guard_that_Inr_iff rbind_Inr_iff no_limits_def no_limit_read_back
        intro: limit_read_back split: json.splits)
  show ?thesis
    by (simp add: limits_from_mapping_def limits_to_dict_def unknown_keys_def dkeys_def guard_that_def dict_simps parts)
qed

lemma policy_read_back:
  assumes "policy_from_mapping rt v = Inr p"
  shows "policy_from_mapping rt (JDict (policy_to_dict p)) = Inr p"
proof -
  have "limits_from_mapping JNull = Inr (sy_limits default_policy)" by (simp add: limits_from_mapping_def default_policy_def)
  moreover have "sy_mode default_policy \<in> set SANDBOX_MODES \<and> sy_backend default_policy \<in> set SANDBOX_BACKENDS
      \<and> sy_network default_policy \<in> set NETWORK_POLICIES \<and> sy_network default_policy = ''host'' \<and> \<not> limits_any (sy_limits default_policy)"
    by code_simp
  ultimately have "\<exists>w. limits_from_mapping w = Inr (sy_limits p) \<and> sy_mode p \<in> set SANDBOX_MODES \<and> sy_backend p \<in> set SANDBOX_BACKENDS
      \<and> sy_network p \<in> set NETWORK_POLICIES \<and> \<not> (sy_mode p = ''off'' \<and> (sy_network p \<noteq> ''host'' \<or> limits_any (sy_limits p)))"
    using assms by (cases v) (auto simp: policy_from_mapping_def new_policy_def Let_def guard_that_Inr_iff rbind_Inr_iff)
  then obtain w where l: "limits_from_mapping w = Inr (sy_limits p)"
    and m: "sy_mode p \<in> set SANDBOX_MODES" "sy_backend p \<in> set SANDBOX_BACKENDS" "sy_network p \<in> set NETWORK_POLICIES"
      "\<not> (sy_mode p = ''off'' \<and> (sy_network p \<noteq> ''host'' \<or> limits_any (sy_limits p)))" by blast
  have canonical: "lower (strip x) = x \<and> x \<noteq> []" if "x \<in> set (SANDBOX_MODES @ SANDBOX_BACKENDS @ NETWORK_POLICIES)" for x
  proof -
    have "list_all (\<lambda>x. lower (strip x) = x \<and> x \<noteq> []) (SANDBOX_MODES @ SANDBOX_BACKENDS @ NETWORK_POLICIES)" by code_simp
    then show ?thesis using that by (auto simp: list_all_iff)
  qed
  have c: "lower (strip (sy_mode p)) = sy_mode p \<and> sy_mode p \<noteq> []" "lower (strip (sy_backend p)) = sy_backend p \<and> sy_backend p \<noteq> []"
    "lower (strip (sy_network p)) = sy_network p \<and> sy_network p \<noteq> []"
    by (intro canonical; use m in simp)+
  show ?thesis using limits_read_back [OF l] m c
    by (simp add: policy_from_mapping_def policy_to_dict_def unknown_keys_def dkeys_def guard_that_def dict_simps new_policy_def py_or_def)
qed

text \<open>An enforcing policy gives a sandboxed plan or none.\<close>

lemma enforced_plan:
  assumes "policy_from_mapping rt v = Inr p" "must_enforce p" "build_sandbox_plan env p command cwd writable = Inr plan"
  shows "sn_sandboxed plan \<and> sn_network plan = sy_network p \<and> (sn_limits_enforced plan \<longleftrightarrow> limits_any (sy_limits p))"
  using assms(2,3) policy_off [OF assms(1,2)]
  by (auto simp: build_sandbox_plan_def guard_that_Inr_iff split: option.splits if_splits)

section \<open>The wrapper reads back the limits\<close>

definition decimal :: "string \<Rightarrow> int" where
  "decimal ds = foldl (\<lambda>acc c. acc * 10 + digit_val c) 0 ds"

lemma digit_char:
  assumes "n < 10"
  shows "is_digit (char_of (48 + n))" "digit_val (char_of (48 + n)) = int n"
  using assms by (simp_all add: is_digit_def digit_val_def code_def)

lemma nat_dec_digits: "nat_dec n \<noteq> [] \<and> list_all is_digit (nat_dec n) \<and> decimal (nat_dec n) = int n"
proof (induction n rule: nat_dec.induct)
  case (1 n)
  show ?case
  proof (cases "n < 10")
    case True
    then show ?thesis using digit_char [OF True] by (simp add: nat_dec.simps [of n] decimal_def)
  next
    case False
    have "int (n div 10) * 10 + int (n mod 10) = int n" using div_mult_mod_eq [of n 10] by linarith
    then show ?thesis using 1 False digit_char [of "n mod 10"]
      by (subst (1 2 3) nat_dec.simps) (simp add: decimal_def)
  qed
qed

lemma parse_digits_all: "list_all is_digit cs \<Longrightarrow> parse_digits acc cs = Some (foldl (\<lambda>acc c. acc * 10 + digit_val c) acc cs)"
  by (induction cs arbitrary: acc) simp_all

lemma digit_no_space: "is_digit c \<Longrightarrow> \<not> is_space c \<and> c \<noteq> CHR ''-'' \<and> c \<noteq> CHR ''+''"
  by (auto simp: is_digit_def is_space_def code_def)

lemma strip_solid:
  assumes "list_all (\<lambda>c. \<not> is_space c) s"
  shows "strip s = s"
proof -
  have "dropWhile is_space xs = xs" if "set xs \<subseteq> set s" for xs
    using that assms by (cases xs) (auto simp: list_all_iff)
  then show ?thesis by (simp add: strip_def lstrip_def rstrip_def)
qed

lemma parse_nat_dec: "parse_int (nat_dec n) = Some (int n)"
proof -
  obtain c cs where d: "nat_dec n = c # cs" using nat_dec_digits [of n] by (cases "nat_dec n") auto
  have all: "list_all is_digit (c # cs)" using nat_dec_digits [of n] d by simp
  then have "strip (c # cs) = c # cs" using digit_no_space by (intro strip_solid) (auto simp: list_all_iff)
  then show ?thesis
    using all digit_no_space [of c] nat_dec_digits [of n] d by (simp add: parse_int_def parse_nat_def parse_digits_all decimal_def)
qed

lemma positive_arg_dec: "1 \<le> n \<Longrightarrow> positive_arg (int_dec n) = Some n"
  by (simp add: positive_arg_def int_dec_def parse_nat_dec)

definition positive_limits :: "resource_limits \<Rightarrow> bool" where
  "positive_limits l = (\<forall>v \<in> {rl_cpu_seconds l, rl_memory_mb l, rl_file_size_mb l, rl_open_files l}. \<forall>n. v = Some n \<longrightarrow> 1 \<le> n)"

text \<open>The wrapper sets exactly the limits of the policy and runs exactly the command.\<close>

theorem wrapper_reads_back:
  assumes "positive_limits l" "limits_any l" "command \<noteq> []"
  shows "wrapper_args no_limits (drop 3 (limit_wrapper env command l)) = Some (l, command)"
proof -
  obtain v vs where c: "command = v # vs" using assms(3) by (cases command) auto
  have pos: "rl_cpu_seconds l = Some n \<Longrightarrow> 1 \<le> n" "rl_memory_mb l = Some n \<Longrightarrow> 1 \<le> n" "rl_file_size_mb l = Some n \<Longrightarrow> 1 \<le> n"
    "rl_open_files l = Some n \<Longrightarrow> 1 \<le> n" for n
    using assms(1) by (auto simp: positive_limits_def)
  show ?thesis using assms(2) pos
    by (cases l; cases "rl_cpu_seconds l"; cases "rl_memory_mb l"; cases "rl_file_size_mb l"; cases "rl_open_files l")
      (simp_all add: limit_wrapper_def limit_option_def no_limits_def c positive_arg_dec set_limit_def)
qed

lemma accepted_limits_positive: "limits_from_mapping v = Inr l \<Longrightarrow> positive_limits l"
  by (auto simp: limits_from_mapping_def bounded_positive_int_def positive_limits_def no_limits_def Let_def guard_that_Inr_iff
      rbind_Inr_iff split: json.splits)

section \<open>What the command line says\<close>

text \<open>A command line of \<open>bwrap\<close>, read option by option up to the first argument that is no option.\<close>

record jail =
  ja_mounts :: "(bool \<times> string) list"
  ja_unshared :: "string list"
  ja_dropped :: "string list"
  ja_cwd :: "string option"
  ja_argv :: "string list"

definition open_jail :: jail where
  "open_jail = \<lparr>ja_mounts = [], ja_unshared = [], ja_dropped = [], ja_cwd = None, ja_argv = []\<rparr>"

function read_jail :: "jail \<Rightarrow> string list \<Rightarrow> jail option" where
  "read_jail j [] = None"
| "read_jail j (a # xs) =
     (if a \<in> {''--die-with-parent'', ''--new-session''} then read_jail j xs
      else if a \<in> {''--unshare-pid'', ''--unshare-ipc'', ''--unshare-uts'', ''--unshare-net''}
        then read_jail (j\<lparr>ja_unshared := ja_unshared j @ [drop 10 a]\<rparr>) xs
      else if a = ''--cap-drop'' then (case xs of v # ys \<Rightarrow> read_jail (j\<lparr>ja_dropped := ja_dropped j @ [v]\<rparr>) ys | [] \<Rightarrow> None)
      else if a \<in> {''--proc'', ''--dev''} then (case xs of v # ys \<Rightarrow> read_jail j ys | [] \<Rightarrow> None)
      else if a = ''--chdir'' then (case xs of v # ys \<Rightarrow> read_jail (j\<lparr>ja_cwd := Some v\<rparr>) ys | [] \<Rightarrow> None)
      else if a = ''--ro-bind'' then (case xs of u # v # ys \<Rightarrow> read_jail (j\<lparr>ja_mounts := ja_mounts j @ [(False, v)]\<rparr>) ys | _ \<Rightarrow> None)
      else if a = ''--bind'' then (case xs of u # v # ys \<Rightarrow> read_jail (j\<lparr>ja_mounts := ja_mounts j @ [(True, v)]\<rparr>) ys | _ \<Rightarrow> None)
      else if starts_with a ''--'' then None
      else Some (j\<lparr>ja_argv := a # xs\<rparr>))"
  by pat_completeness auto
termination read_jail by (relation "measure (\<lambda>(_, xs). length xs)") auto

declare read_jail.simps(2) [simp del]

lemma read_jail_options:
  "read_jail j (''--die-with-parent'' # xs) = read_jail j xs" "read_jail j (''--new-session'' # xs) = read_jail j xs"
  "read_jail j (''--unshare-pid'' # xs) = read_jail (j\<lparr>ja_unshared := ja_unshared j @ [''pid'']\<rparr>) xs"
  "read_jail j (''--unshare-ipc'' # xs) = read_jail (j\<lparr>ja_unshared := ja_unshared j @ [''ipc'']\<rparr>) xs"
  "read_jail j (''--unshare-uts'' # xs) = read_jail (j\<lparr>ja_unshared := ja_unshared j @ [''uts'']\<rparr>) xs"
  "read_jail j (''--unshare-net'' # xs) = read_jail (j\<lparr>ja_unshared := ja_unshared j @ [''net'']\<rparr>) xs"
  "read_jail j (''--cap-drop'' # v # xs) = read_jail (j\<lparr>ja_dropped := ja_dropped j @ [v]\<rparr>) xs"
  "read_jail j (''--proc'' # v # xs) = read_jail j xs" "read_jail j (''--dev'' # v # xs) = read_jail j xs"
  "read_jail j (''--chdir'' # v # xs) = read_jail (j\<lparr>ja_cwd := Some v\<rparr>) xs"
  "read_jail j (''--ro-bind'' # u # v # xs) = read_jail (j\<lparr>ja_mounts := ja_mounts j @ [(False, v)]\<rparr>) xs"
  "read_jail j (''--bind'' # u # v # xs) = read_jail (j\<lparr>ja_mounts := ja_mounts j @ [(True, v)]\<rparr>) xs"
  by (simp_all add: read_jail.simps(2))

lemma read_jail_command:
  assumes "xs \<noteq> []" "\<not> starts_with (hd xs) ''--''"
  shows "read_jail j xs = Some (j\<lparr>ja_argv := xs\<rparr>)"
proof -
  obtain a ys where xs: "xs = a # ys" using assms(1) by (cases xs) auto
  then have "a \<noteq> ''--'' @ t" for t using assms(2) by (auto simp: starts_with_iff)
  from this [of "''die-with-parent''"] this [of "''new-session''"] this [of "''unshare-pid''"] this [of "''unshare-ipc''"]
    this [of "''unshare-uts''"] this [of "''unshare-net''"] this [of "''cap-drop''"] this [of "''proc''"] this [of "''dev''"]
    this [of "''chdir''"] this [of "''ro-bind''"] this [of "''bind''"]
  show ?thesis using assms(2) by (simp add: xs read_jail.simps(2))
qed

definition bind_args :: "sandbox_env \<Rightarrow> string list \<Rightarrow> string list" where
  "bind_args env ws = concat (map (\<lambda>w. if sx_exists env w then [''--bind'', w, w] else []) ws)"

lemma read_jail_binds:
  "read_jail j (bind_args env ws @ xs)
     = read_jail (j\<lparr>ja_mounts := ja_mounts j @ map (Pair True) (filter (sx_exists env) ws)\<rparr>) xs"
  by (induction ws arbitrary: j) (simp_all add: bind_args_def read_jail_options)

lemma read_jail_flags:
  "read_jail j (bubblewrap_flags network @ xs)
     = read_jail (j\<lparr>ja_mounts := ja_mounts j @ [(False, ''/'')], ja_dropped := ja_dropped j @ [''ALL''],
         ja_unshared := ja_unshared j @ [''pid'', ''ipc'', ''uts''] @ (if network = ''deny'' then [''net''] else [])\<rparr>) xs"
  by (cases j) (simp add: bubblewrap_flags_def read_jail_options)

text \<open>The plan of a policy, as \<open>bwrap\<close> reads it: the root is read-only, exactly the existing runtime directories are
  writable, the network is cut exactly when the policy denies it, and the command is the one to run, under its limits.\<close>

theorem plan_jail:
  assumes "build_sandbox_plan env p command cwd writable = Inr plan" "sn_sandboxed plan"
    and "\<not> starts_with (hd (limit_wrapper env command (sy_limits p))) ''--''"
  shows "\<exists>path j. sn_command plan = path # tl (sn_command plan) \<and> sx_is_file env path
    \<and> read_jail open_jail (tl (sn_command plan)) = Some j
    \<and> ja_mounts j = (False, ''/'') # map (Pair True) (filter (sx_exists env) (dedupe_paths env writable))
    \<and> (''net'' \<in> set (ja_unshared j) \<longleftrightarrow> sy_network p = ''deny'') \<and> {''pid'', ''ipc'', ''uts''} \<subseteq> set (ja_unshared j)
    \<and> ja_dropped j = [''ALL''] \<and> ja_cwd j = Some (sx_resolve env cwd)
    \<and> ja_argv j = limit_wrapper env command (sy_limits p)"
proof -
  let ?inner = "limit_wrapper env command (sy_limits p)"
  obtain path where path: "resolve_bubblewrap env (sy_network p) = Some path" and ne: "command \<noteq> []"
    and c: "sn_command plan = path # bubblewrap_flags (sy_network p) @ bind_args env (dedupe_paths env writable)
      @ [''--chdir'', sx_resolve env cwd] @ ?inner"
    using assms(1,2) by (auto simp: build_sandbox_plan_def guard_that_Inr_iff bare_plan_def bind_args_def split: if_splits option.splits)
  have "?inner \<noteq> []" using ne by (simp add: limit_wrapper_def)
  then have "read_jail j ?inner = Some (j\<lparr>ja_argv := ?inner\<rparr>)" for j by (rule read_jail_command [OF _ assms(3)])
  then show ?thesis
    using path
    by (auto simp: c read_jail_flags read_jail_binds read_jail_options open_jail_def resolve_bubblewrap_def Let_def
        split: if_splits option.splits)
qed

end
