(* ===== verification/ProviderSpec.thy ===== *)
theory ProviderSpec
  imports Sandbox RetrievalCache
begin

text \<open>
  The specification of a command provider of \<open>provider_runner.py\<close>: how it is read from a mapping, what a specification
  must satisfy, and the environment of the process.  \<open>os.environ\<close> is a map of names.
\<close>

section \<open>Splitting a command\<close>

text \<open>\<open>shlex.split\<close> in POSIX mode: between words, in a word, in quotes, after a backslash.\<close>

datatype lex_state = Between | InWord | InQuotes char | Escaped lex_state

definition shell_space :: "char \<Rightarrow> bool" where
  "shell_space c = (c = CHR '' '' \<or> code c \<in> {9, 10, 13})"

definition is_quote :: "char \<Rightarrow> bool" where
  "is_quote c = (code c \<in> {34, 39})"

definition is_escape :: "char \<Rightarrow> bool" where
  "is_escape c = (code c = 92)"

definition unquoted :: "char \<Rightarrow> string \<Rightarrow> lex_state \<times> string" where
  "unquoted c token =
     (if is_escape c then (Escaped InWord, token)
      else if is_quote c then (InQuotes c, token)
      else (InWord, token @ [c]))"

text \<open>\<open>quoted\<close>: some part of the word was in quotes, so that it counts even when it is empty.\<close>

fun shlex_from :: "lex_state \<Rightarrow> string \<Rightarrow> bool \<Rightarrow> string \<Rightarrow> string list result" where
  "shlex_from st token quoted [] = (case st of
     InQuotes _ \<Rightarrow> Inl (ValueError ''No closing quotation'')
   | Escaped _ \<Rightarrow> Inl (ValueError ''No escaped character'')
   | _ \<Rightarrow> Inr (if token \<noteq> [] \<or> quoted then [token] else []))"
| "shlex_from st token quoted (c # cs) = (case st of
     Between \<Rightarrow>
       (if shell_space c then shlex_from Between token quoted cs
        else case unquoted c token of (st', t) \<Rightarrow> shlex_from st' t quoted cs)
   | InWord \<Rightarrow>
       (if shell_space c then
          (if token \<noteq> [] \<or> quoted then rbind (shlex_from Between [] False cs) (\<lambda>ws. Inr (token # ws))
           else shlex_from Between token quoted cs)
        else case unquoted c token of (st', t) \<Rightarrow> shlex_from st' t quoted cs)
   | InQuotes d \<Rightarrow>
       (if c = d then shlex_from InWord token True cs
        else if is_escape c \<and> code d = 34 then shlex_from (Escaped (InQuotes d)) token True cs
        else shlex_from (InQuotes d) (token @ [c]) True cs)
   | Escaped back \<Rightarrow>
       (case back of
          InQuotes d \<Rightarrow> shlex_from back (token @ (if \<not> is_escape c \<and> c \<noteq> d then [char_of (92::nat), c] else [c])) quoted cs
        | _ \<Rightarrow> shlex_from back (token @ [c]) quoted cs))"

definition shlex_split :: "string \<Rightarrow> string list result" where
  "shlex_split s = shlex_from Between [] False s"

section \<open>Specifications\<close>

definition DEFAULT_MAX_OUTPUT_BYTES :: int where
  "DEFAULT_MAX_OUTPUT_BYTES = 8 * 1024 * 1024"

definition DEFAULT_MAX_STDERR_BYTES :: int where
  "DEFAULT_MAX_STDERR_BYTES = 64 * 1024"

definition SAFE_ENV_KEYS :: "string list" where
  "SAFE_ENV_KEYS = [''PATH'', ''PATHEXT'', ''SYSTEMROOT'', ''SYSTEMDRIVE'', ''WINDIR'', ''COMSPEC'', ''HOME'', ''USERPROFILE'',
     ''TMP'', ''TEMP'', ''TMPDIR'', ''LANG'', ''LC_ALL'', ''LC_CTYPE'', ''PYTHONUTF8'', ''PYTHONIOENCODING'']"

definition RUNTIME_PROFILES :: "string list" where
  "RUNTIME_PROFILES = [''restricted'', ''compatibility'']"

definition RESTRICTED_BOOT_ENV_KEYS :: "string list" where
  "RESTRICTED_BOOT_ENV_KEYS = [''PATHEXT'', ''SYSTEMROOT'', ''SYSTEMDRIVE'', ''WINDIR'', ''COMSPEC'']"

definition RESTRICTED_RESERVED_ENV_KEYS :: "string list" where
  "RESTRICTED_RESERVED_ENV_KEYS = [''PATH'', ''HOME'', ''USERPROFILE'', ''TMP'', ''TEMP'', ''TMPDIR'', ''LANG'', ''LC_ALL'',
     ''LC_CTYPE'', ''PYTHONUTF8'', ''PYTHONIOENCODING'']"

record provider_spec =
  cs_name :: string
  cs_command :: "string list"
  cs_timeout :: pyfloat
  cs_max_output :: int
  cs_max_stderr :: int
  cs_intents :: "string list"
  cs_env_allowlist :: "string list"
  cs_trust :: string
  cs_sha256 :: "string option"
  cs_neutral_cwd :: bool
  cs_version :: string
  cs_semantics :: provider_semantics
  cs_profile :: string
  cs_sandbox :: sandbox_policy

text \<open>\<open>sha256:\<close> in front of the digits is dropped.\<close>

definition bare_digest :: "string \<Rightarrow> string" where
  "bare_digest v = (let d = lower (strip v) in if starts_with d ''sha256:'' then drop 7 d else d)"

definition sha256_digest :: "string \<Rightarrow> bool" where
  "sha256_digest d = (length d = 64 \<and> set d \<subseteq> set ''0123456789abcdef'')"

text \<open>\<open>__post_init__\<close>\<close>

definition new_provider_spec :: "provider_spec \<Rightarrow> provider_spec result" where
  "new_provider_spec s =
     (let name = ''provider '' @ repr_string (cs_name s); profile = lower (strip (cs_profile s));
          reserved = sort (filter (\<lambda>k. k \<in> set RESTRICTED_RESERVED_ENV_KEYS) (uniq (cs_env_allowlist s))) in
      guard_that (strip (cs_name s) \<noteq> []) (ValueError ''provider name must not be blank'')
      (guard_that (cs_command s \<noteq> [] \<and> [] \<notin> set (cs_command s)) (ValueError (name @ '' command must not be blank''))
      (guard_that (fl_finite (cs_timeout s) \<and> fl_lt (Fin 0) (cs_timeout s))
        (ValueError (name @ '' timeout_seconds must be finite and > 0''))
      (guard_that (0 < cs_max_output s) (ValueError (name @ '' max_output_bytes must be > 0''))
      (guard_that (0 < cs_max_stderr s) (ValueError (name @ '' max_stderr_bytes must be > 0''))
      (guard_that (profile \<in> set RUNTIME_PROFILES)
        (ValueError (name @ '' runtime_profile must be one of '' @ texts_repr RUNTIME_PROFILES))
      (guard_that (profile = ''restricted'' \<longrightarrow> reserved = [])
        (ValueError (''restricted provider env_allowlist may not override runtime identity/environment keys: '' @ join '', '' reserved))
      (guard_that (case cs_sha256 s of None \<Rightarrow> True | Some d \<Rightarrow> sha256_digest (bare_digest d))
        (ValueError (name @ '' executable_sha256 must be a SHA-256 digest''))
      (guard_that (strip (cs_version s) \<noteq> []) (ValueError (name @ '' version must not be blank''))
      (Inr (s\<lparr>cs_sha256 := map_option bare_digest (cs_sha256 s), cs_profile := profile\<rparr>)))))))))))"

text \<open>A list of non-blank texts; a single text counts as a list of one.\<close>

definition text_list :: "json \<Rightarrow> string \<Rightarrow> string list result" where
  "text_list v msg =
     (case (case v of JStr s \<Rightarrow> JList [JStr s] | _ \<Rightarrow> v) of
        JList xs \<Rightarrow> rmap (\<lambda>x. case x of JStr s \<Rightarrow> guard_that (strip s \<noteq> []) (ValueError msg) (Inr s) | _ \<Rightarrow> Inl (ValueError msg)) xs
      | _ \<Rightarrow> Inl (ValueError msg))"

definition command_provider_spec :: "runtime \<Rightarrow> json dict \<Rightarrow> string \<Rightarrow> provider_spec result" where
  "command_provider_spec rt raw default_name =
     rbind (case jget_or raw ''command'' (JStr []) of
         JStr s \<Rightarrow> shlex_split s
       | JList xs \<Rightarrow> Inr (map (py_str rt) xs)
       | _ \<Rightarrow> Inl (ValueError ''provider command must be a string or argv list'')) (\<lambda>argv.
     rbind (text_list (jget_or raw ''intents'' (JList [JStr ''all'']))
       ''provider intents must be a list of non-empty strings'') (\<lambda>intents.
     rbind (text_list (jget_or raw ''env_allowlist'' (JList []))
       ''provider env_allowlist must be a list of non-empty strings'') (\<lambda>allowlist.
     guard_that (jget raw ''semantics'' = JNull \<or> is_dict (jget raw ''semantics'')) (ValueError ''provider semantics must be an object'')
     (rbind (case jget_or raw ''neutral_cwd'' (JBool False) of
         JBool b \<Rightarrow> Inr b | _ \<Rightarrow> Inl (ValueError ''provider neutral_cwd must be a boolean'')) (\<lambda>neutral.
     let profile = lower (strip (py_str rt (py_or (jget raw ''runtime_profile'') (JStr ''compatibility''))));
         digest = bare_digest (text_or_empty rt (py_or (jget raw ''executable_sha256'') (jget raw ''sha256''))) in
     guard_that (profile \<in> set RUNTIME_PROFILES) (ValueError ''provider runtime_profile must be restricted or compatibility'')
     (rbind (policy_from_mapping rt (jget raw ''sandbox'')) (\<lambda>sandbox.
      rbind (to_float rt (jget_or raw ''timeout_seconds'' (JInt 8))) (\<lambda>timeout.
      rbind (to_int (jget_or raw ''max_output_bytes'' (JInt DEFAULT_MAX_OUTPUT_BYTES))) (\<lambda>max_output.
      rbind (to_int (jget_or raw ''max_stderr_bytes'' (JInt DEFAULT_MAX_STDERR_BYTES))) (\<lambda>max_stderr.
      rbind (semantics_from_mapping (jget raw ''semantics'')) (\<lambda>semantics.
        new_provider_spec
          \<lparr>cs_name = py_str rt (py_or (jget raw ''name'') (JStr default_name)), cs_command = argv, cs_timeout = timeout,
           cs_max_output = max_output, cs_max_stderr = max_stderr, cs_intents = intents, cs_env_allowlist = allowlist,
           cs_trust = ''configured_local_executable'', cs_sha256 = (if digest = [] then None else Some digest),
           cs_neutral_cwd = neutral, cs_version = py_str rt (py_or (jget raw ''version'') (JStr ''unknown'')),
           cs_semantics = semantics, cs_profile = profile, cs_sandbox = sandbox\<rparr>)))))))))))"

section \<open>The environment\<close>

type_synonym environ = "string \<Rightarrow> string option"

text \<open>\<open>str(path.parent)\<close> of an absolute path.\<close>

definition path_parent :: "string \<Rightarrow> string" where
  "path_parent p = (let d = butlast (rev (dropWhile (\<lambda>c. c \<noteq> CHR ''/'') (rev p))) in if d = [] then ''/'' else d)"

definition restricted_values :: "string \<Rightarrow> string \<Rightarrow> string \<Rightarrow> (string \<times> string) list" where
  "restricted_values home temp_dir executable =
     [(''PATH'', path_parent executable), (''HOME'', home), (''USERPROFILE'', home), (''TMPDIR'', temp_dir), (''TEMP'', temp_dir),
      (''TMP'', temp_dir), (''LANG'', ''C''), (''LC_ALL'', ''C''), (''LC_CTYPE'', ''C''), (''PYTHONUTF8'', ''1''),
      (''PYTHONIOENCODING'', ''utf-8'')]"

definition allow_key :: "environ \<Rightarrow> string \<Rightarrow> environ \<Rightarrow> environ" where
  "allow_key os_environ raw_key env =
     (let key = strip raw_key in
      if key = [] \<or> key \<in> set RESTRICTED_RESERVED_ENV_KEYS then env
      else case os_environ key of None \<Rightarrow> env | Some v \<Rightarrow> env(key \<mapsto> v))"

text \<open>\<open>dirs\<close>: the home, the temporary directory and the resolved executable of a restricted provider.\<close>

definition build_provider_env :: "environ \<Rightarrow> string list \<Rightarrow> string \<Rightarrow> (string \<times> string \<times> string) option \<Rightarrow> environ result" where
  "build_provider_env os_environ allowed runtime_profile dirs =
     (let profile = lower (strip runtime_profile) in
      guard_that (profile \<in> set RUNTIME_PROFILES) (ValueError (''unknown provider runtime profile: '' @ runtime_profile))
      (if profile = ''compatibility''
       then Inr (\<lambda>k. if k \<in> set SAFE_ENV_KEYS \<or> (k \<in> set allowed \<and> strip k \<noteq> []) then os_environ k else None)
       else case dirs of
         None \<Rightarrow> Inl (ValueError ''restricted provider environment requires home, temp_dir and executable'')
       | Some (home, temp_dir, executable) \<Rightarrow>
           Inr (fold (allow_key os_environ) allowed
             ((\<lambda>k. if k \<in> set RESTRICTED_BOOT_ENV_KEYS then os_environ k else None)
               ++ map_of (restricted_values home temp_dir executable)))))"

section \<open>What a specification satisfies\<close>

lemma new_provider_spec_Inr:
  assumes "new_provider_spec s = Inr t"
  shows "t = s\<lparr>cs_sha256 := map_option bare_digest (cs_sha256 s), cs_profile := lower (strip (cs_profile s))\<rparr>"
    and "cs_command s \<noteq> []" "[] \<notin> set (cs_command s)" "fl_finite (cs_timeout s)" "fl_lt (Fin 0) (cs_timeout s)" "0 < cs_max_output s"
    "0 < cs_max_stderr s" "strip (cs_name s) \<noteq> []" "strip (cs_version s) \<noteq> []" "cs_profile t \<in> set RUNTIME_PROFILES"
    "cs_sha256 t = Some d \<Longrightarrow> sha256_digest d"
    "cs_profile t = ''restricted'' \<Longrightarrow> set (cs_env_allowlist t) \<inter> set RESTRICTED_RESERVED_ENV_KEYS = {}"
proof -
  note a = assms [unfolded new_provider_spec_def Let_def guard_that_Inr_iff sum.inject]
  show "t = s\<lparr>cs_sha256 := map_option bare_digest (cs_sha256 s), cs_profile := lower (strip (cs_profile s))\<rparr>"
    "cs_command s \<noteq> []" "[] \<notin> set (cs_command s)" "fl_finite (cs_timeout s)" "fl_lt (Fin 0) (cs_timeout s)" "0 < cs_max_output s"
    "0 < cs_max_stderr s" "strip (cs_name s) \<noteq> []" "strip (cs_version s) \<noteq> []" using a by blast+
  show "cs_profile t \<in> set RUNTIME_PROFILES" using a by auto
  show "cs_sha256 t = Some d \<Longrightarrow> sha256_digest d" using a by (auto split: option.splits)
  assume "cs_profile t = ''restricted''"
  moreover have "cs_profile t = lower (strip (cs_profile s))" "cs_env_allowlist t = cs_env_allowlist s" using a by auto
  ultimately have "sort (filter (\<lambda>k. k \<in> set RESTRICTED_RESERVED_ENV_KEYS) (uniq (cs_env_allowlist s))) = []" using a by simp
  then have "set (filter (\<lambda>k. k \<in> set RESTRICTED_RESERVED_ENV_KEYS) (uniq (cs_env_allowlist s))) = {}" by (metis list.set(1) set_sort)
  then show "set (cs_env_allowlist t) \<inter> set RESTRICTED_RESERVED_ENV_KEYS = {}"
    using \<open>cs_env_allowlist t = cs_env_allowlist s\<close> by auto
qed

lemma bare_digest_id:
  assumes "sha256_digest d"
  shows "bare_digest d = d"
proof -
  have c: "\<forall>c \<in> set ''0123456789abcdef''. lower_char c = c \<and> \<not> is_space c \<and> c \<noteq> CHR ''s''" by code_simp
  then have cs: "\<forall>c \<in> set d. lower_char c = c \<and> \<not> is_space c \<and> c \<noteq> CHR ''s''" using assms unfolding sha256_digest_def by blast
  have l: "lower d = d" unfolding lower_def by (rule map_idI) (use cs in blast)
  have st: "strip d = d" by (rule strip_solid) (use cs in \<open>simp add: list_all_iff\<close>)
  have "CHR ''s'' \<in> set d" if "starts_with d ''sha256:''" using that unfolding starts_with_iff by (elim exE) simp
  then have "\<not> starts_with d ''sha256:''" using cs by blast
  then show ?thesis by (simp add: bare_digest_def l st)
qed

lemma profile_id: "p \<in> set RUNTIME_PROFILES \<Longrightarrow> lower (strip p) = p"
proof -
  have "\<forall>p \<in> set RUNTIME_PROFILES. lower (strip p) = p" by code_simp
  then show "p \<in> set RUNTIME_PROFILES \<Longrightarrow> lower (strip p) = p" by blast
qed

lemma command_spec_new:
  assumes "command_provider_spec rt raw name = Inr b"
  obtains s where "new_provider_spec s = Inr b" "policy_from_mapping rt (jget raw ''sandbox'') = Inr (cs_sandbox s)"
  using assms unfolding command_provider_spec_def Let_def rbind_Inr_iff guard_that_Inr_iff
  by (elim exE conjE) (rule that, assumption, simp only: provider_spec.simps)

text \<open>The policy of a specification is an accepted one.\<close>

lemma spec_policy:
  assumes "command_provider_spec rt raw name = Inr b"
  shows "policy_from_mapping rt (jget raw ''sandbox'') = Inr (cs_sandbox b) \<and> cs_profile b \<in> set RUNTIME_PROFILES"
proof (rule command_spec_new [OF assms])
  fix s assume s: "new_provider_spec s = Inr b" "policy_from_mapping rt (jget raw ''sandbox'') = Inr (cs_sandbox s)"
  then show ?thesis using new_provider_spec_Inr(1) [OF s(1)] new_provider_spec_Inr(10) [OF s(1)] by simp
qed

text \<open>In the restricted profile every reserved variable has the value of the runtime, whatever the list of allowed names;
  any other variable is a boot variable or an allowed one, with the value it has outside.\<close>

lemma allowed_keys_env:
  "fold (allow_key os_environ) allowed env k
     = (if k \<in> strip ` set allowed \<and> k \<noteq> [] \<and> k \<notin> set RESTRICTED_RESERVED_ENV_KEYS \<and> os_environ k \<noteq> None
        then os_environ k else env k)"
proof (induction allowed arbitrary: env)
  case (Cons raw allowed)
  show ?case
    unfolding fold_Cons comp_apply Cons.IH
    by (auto simp: allow_key_def Let_def split: option.split)
qed simp

lemma restricted_keys: "map fst (restricted_values home temp_dir executable)
    = [''PATH'', ''HOME'', ''USERPROFILE'', ''TMPDIR'', ''TEMP'', ''TMP'', ''LANG'', ''LC_ALL'', ''LC_CTYPE'', ''PYTHONUTF8'', ''PYTHONIOENCODING'']"
  by (simp add: restricted_values_def)

lemma restricted_domain: "set (map fst (restricted_values home temp_dir executable)) = set RESTRICTED_RESERVED_ENV_KEYS"
  unfolding restricted_keys RESTRICTED_RESERVED_ENV_KEYS_def by auto

theorem restricted_environment:
  assumes "build_provider_env os_environ allowed ''restricted'' (Some (home, temp_dir, executable)) = Inr env"
  shows "env k = (if k \<in> set RESTRICTED_RESERVED_ENV_KEYS then map_of (restricted_values home temp_dir executable) k
    else if k \<in> set RESTRICTED_BOOT_ENV_KEYS \<or> (k \<in> strip ` set allowed \<and> k \<noteq> []) then os_environ k else None)"
proof -
  let ?base = "(\<lambda>k. if k \<in> set RESTRICTED_BOOT_ENV_KEYS then os_environ k else None) ++ map_of (restricted_values home temp_dir executable)"
  have p: "lower (strip ''restricted'') = ''restricted''" by code_simp
  have e: "env = fold (allow_key os_environ) allowed ?base"
    using assms by (simp add: build_provider_env_def p Let_def guard_that_def RUNTIME_PROFILES_def)
  have fixed: "k \<in> set RESTRICTED_RESERVED_ENV_KEYS \<longleftrightarrow> map_of (restricted_values home temp_dir executable) k \<noteq> None"
    using restricted_domain [of home temp_dir executable] by (auto simp: map_of_eq_None_iff)
  show ?thesis
    unfolding e allowed_keys_env using fixed by (auto simp: map_add_def split: option.split)
qed

end
