(* ===== verification/ProviderTrust.thy ===== *)
theory ProviderTrust
  imports ProviderSpec PathPolicy WriteOnce
begin

unbundle bit_operations_syntax

text \<open>
  \<open>provider_registry.py\<close> and the launch checks of \<open>provider_runner.py\<close>: which executable a provider of the repository's
  configuration may run.  What the system answers is the argument \<open>trust_env\<close>.
\<close>

section \<open>The system\<close>

text \<open>What opening the registry without following a symbolic link meets: its mode, its owner and its document.\<close>

datatype registry_file = NoRegistry | NotOpened | Registry int int file_body

record trust_env =
  te_getenv :: "string \<Rightarrow> string option"
  te_windows :: bool
  te_home :: string
  te_uid :: "int option"
  te_expand :: "string \<Rightarrow> string"
  te_absolute :: "string \<Rightarrow> bool"
  te_abspath :: "string \<Rightarrow> string"
  te_resolve :: "string \<Rightarrow> string"
  te_strict :: "string \<Rightarrow> string option"
  te_symlink :: "string \<Rightarrow> bool"
  te_is_file :: "string \<Rightarrow> bool"
  te_digest :: "string \<Rightarrow> string option"
  te_registry :: "string \<Rightarrow> registry_file"

definition getenv_or_empty :: "trust_env \<Rightarrow> string \<Rightarrow> string" where
  "getenv_or_empty te name = (case te_getenv te name of None \<Rightarrow> [] | Some v \<Rightarrow> v)"

definition truthy_env :: "trust_env \<Rightarrow> string \<Rightarrow> bool" where
  "truthy_env te name = (lower (strip (getenv_or_empty te name)) \<in> {''1'', ''true'', ''yes'', ''on''})"

definition unsafe_repo_commands_enabled :: "trust_env \<Rightarrow> bool" where
  "unsafe_repo_commands_enabled te = truthy_env te ''AI_WORKFLOW_ALLOW_REPO_PROVIDER_COMMANDS''"

section \<open>The registry\<close>

definition default_registry_path :: "trust_env \<Rightarrow> string" where
  "default_registry_path te =
     (let data = getenv_or_empty te ''LOCALAPPDATA''; local = (if data = [] then getenv_or_empty te ''APPDATA'' else data);
          xdg = getenv_or_empty te ''XDG_CONFIG_HOME'' in
      if te_windows te \<and> local \<noteq> [] then join_path local ''ai-workflow/providers.json''
      else if xdg \<noteq> [] then join_path xdg ''ai-workflow/providers.json''
      else join_path (te_home te) ''.config/ai-workflow/providers.json'')"

definition trusted_registry_path :: "trust_env \<Rightarrow> string result" where
  "trusted_registry_path te =
     (let configured = strip (getenv_or_empty te ''AI_WORKFLOW_PROVIDER_REGISTRY'') in
      if configured \<noteq> [] then
        (let path = te_expand te configured in
         guard_that (te_absolute te path) (ValueError ''AI_WORKFLOW_PROVIDER_REGISTRY must be an absolute path'') (Inr (te_abspath te path)))
      else Inr (te_abspath te (te_expand te (default_registry_path te))))"

definition is_within :: "trust_env \<Rightarrow> string \<Rightarrow> string \<Rightarrow> bool" where
  "is_within te base p = below (te_resolve te base) (te_resolve te p)"

text \<open>\<open>S_ISREG\<close>, and the write bits of group and others.\<close>

definition validate_registry_stat :: "trust_env \<Rightarrow> int \<Rightarrow> int \<Rightarrow> unit result" where
  "validate_registry_stat te mode owner =
     guard_that (mode AND 61440 = 32768) (ValueError ''trusted provider registry must be a regular file'')
     (if te_windows te then Inr ()
      else guard_that (mode AND 18 = 0) (ValueError ''trusted provider registry may not be writable by group or others'')
        (guard_that (case te_uid te of None \<Rightarrow> True | Some uid \<Rightarrow> owner \<in> {uid, 0})
          (ValueError ''trusted provider registry must be owned by the current user or root'') (Inr ())))"

definition read_trusted_registry :: "trust_env \<Rightarrow> string \<Rightarrow> file_body result" where
  "read_trusted_registry te path =
     (if te_windows te \<and> te_symlink te path then Inl (ValueError ''trusted provider registry may not be a symlink'')
      else case te_registry te path of
        NoRegistry \<Rightarrow> Inl (ValueError (''trusted provider registry not found: '' @ path))
      | NotOpened \<Rightarrow>
          (if te_windows te then Inl (ValueError ''trusted provider registry could not be read'')
           else if te_symlink te path then Inl (ValueError ''trusted provider registry may not be a symlink'')
           else Inl (ValueError ''trusted provider registry could not be opened safely''))
      | Registry mode owner body \<Rightarrow> rbind (validate_registry_stat te mode owner) (\<lambda>_. Inr body))"

definition load_provider_registry :: "trust_env \<Rightarrow> string \<Rightarrow> json dict result" where
  "load_provider_registry te base =
     rbind (trusted_registry_path te) (\<lambda>path.
     guard_that (\<not> is_within te base path) (ValueError ''trusted provider registry must live outside the repository'')
     (rbind (read_trusted_registry te path) (\<lambda>body.
       case body of
         Garbled \<Rightarrow> Inl (ValueError ''trusted provider registry could not be read'')
       | Holds (JDict payload) \<Rightarrow>
           (case jget payload ''providers'' of
              JDict providers \<Rightarrow> Inr providers
            | _ \<Rightarrow> Inl (ValueError ''trusted provider registry must contain a providers object''))
       | Holds _ \<Rightarrow> Inl (ValueError ''trusted provider registry must contain a providers object''))))"

section \<open>Executables\<close>

definition sha256_file :: "trust_env \<Rightarrow> string \<Rightarrow> string result" where
  "sha256_file te p = (case te_digest te p of Some d \<Rightarrow> Inr d | None \<Rightarrow> Inl (OSError ''unreadable''))"

text \<open>The file an argument names, if it exists: a relative one below the root.\<close>

definition argument_file :: "trust_env \<Rightarrow> string \<Rightarrow> string \<Rightarrow> string option" where
  "argument_file te base arg =
     (let p = te_expand te arg in te_strict te (if te_absolute te p then p else join_path base p))"

fun check_arguments :: "trust_env \<Rightarrow> string \<Rightarrow> string list \<Rightarrow> unit result" where
  "check_arguments te base [] = Inr ()"
| "check_arguments te base (arg # args) =
     (if arg = [] \<or> starts_with arg ''-'' then check_arguments te base args
      else case argument_file te base arg of
        None \<Rightarrow> check_arguments te base args
      | Some p \<Rightarrow>
          (if is_within te base p
           then Inl (ValueError ''trusted provider command may not execute repository-owned path arguments'')
           else check_arguments te base args))"

definition validated_executable :: "trust_env \<Rightarrow> runtime \<Rightarrow> string \<Rightarrow> json dict \<Rightarrow> (string list \<times> string) result" where
  "validated_executable te rt base raw = (case jget raw ''command'' of
     JList (c # cs) \<Rightarrow>
       (let argv = map (py_str rt) (c # cs); executable = te_expand te (hd argv) in
        guard_that (te_absolute te executable) (ValueError ''trusted provider executable must be an absolute path'')
        (guard_that (\<not> te_symlink te executable) (ValueError ''trusted provider executable path may not be a symlink'')
        (case te_strict te executable of
           None \<Rightarrow> Inl (ValueError ''trusted provider executable does not exist'')
         | Some p \<Rightarrow>
             guard_that (te_is_file te p) (ValueError ''trusted provider executable is not a regular file'')
             (guard_that (\<not> is_within te base p) (ValueError ''trusted provider executable must live outside the repository'')
             (let expected = bare_digest (text_or_empty rt (jget raw ''sha256'')) in
              guard_that (sha256_digest expected) (ValueError ''trusted provider requires a sha256 digest'')
              (rbind (sha256_file te p) (\<lambda>actual.
               rbind (compare_digest actual expected) (\<lambda>same.
               guard_that same (ValueError ''trusted provider executable digest mismatch'')
               (rbind (check_arguments te base (tl argv)) (\<lambda>_. Inr (p # tl argv, expected)))))))))))
   | _ \<Rightarrow> Inl (ValueError ''trusted provider command must be a non-empty argv array''))"

section \<open>Resolving a provider\<close>

definition positive_cap_float :: "runtime \<Rightarrow> json \<Rightarrow> pyfloat \<Rightarrow> pyfloat" where
  "positive_cap_float rt v fallback = (case to_float rt v of Inr x \<Rightarrow> if fl_lt (Fin 0) x then x else fallback | Inl _ \<Rightarrow> fallback)"

definition positive_cap_int :: "json \<Rightarrow> int \<Rightarrow> int" where
  "positive_cap_int v fallback = (case to_int v of Inr n \<Rightarrow> if 0 < n then n else fallback | Inl _ \<Rightarrow> fallback)"

definition set_default :: "json dict \<Rightarrow> string \<Rightarrow> json \<Rightarrow> json dict" where
  "set_default d k v = (if dget d k = None then dset d k v else d)"

text \<open>The entry of the registry as a mapping for \<open>command_provider_spec\<close>.\<close>

definition trusted_mapping :: "runtime \<Rightarrow> string \<Rightarrow> json dict \<Rightarrow> string list \<Rightarrow> string \<Rightarrow> json dict" where
  "trusted_mapping rt provider_id trusted argv digest =
     (let d = dset (dset (dset trusted ''name'' (JStr (py_str rt (py_or (jget trusted ''name'') (JStr provider_id)))))
         ''command'' (JList (map JStr argv))) ''sha256'' (JStr digest)
      in set_default (set_default (set_default d ''neutral_cwd'' (JBool True)) ''runtime_profile'' (JStr ''restricted''))
        ''sandbox'' (JDict [(''mode'', JStr ''off'')]))"

text \<open>A single text is taken as it is.\<close>

definition project_intents :: "json dict \<Rightarrow> string list \<Rightarrow> string list result" where
  "project_intents project dflt = (case dget project ''intents'' of
     None \<Rightarrow> Inr dflt
   | Some (JStr s) \<Rightarrow> Inr [s]
   | Some v \<Rightarrow> text_list v ''provider intents must be a list of non-empty strings'')"

text \<open>The project's name, tightened limits and intents on a trusted specification.\<close>

definition tightened :: "runtime \<Rightarrow> json dict \<Rightarrow> string \<Rightarrow> string list \<Rightarrow> string \<Rightarrow> provider_spec \<Rightarrow> provider_spec result" where
  "tightened rt project default_name argv digest spec =
     rbind (project_intents project (cs_intents spec)) (\<lambda>intents.
       new_provider_spec (spec\<lparr>cs_name := py_str rt (py_or (jget project ''name'') (JStr default_name)), cs_command := argv,
         cs_timeout := fl_min (cs_timeout spec) (positive_cap_float rt (jget project ''timeout_seconds'') (cs_timeout spec)),
         cs_max_output := min (cs_max_output spec) (positive_cap_int (jget project ''max_output_bytes'') (cs_max_output spec)),
         cs_intents := intents, cs_trust := ''trusted_registry_digest'', cs_sha256 := Some digest\<rparr>))"

definition resolve_trusted_provider ::
  "trust_env \<Rightarrow> runtime \<Rightarrow> string \<Rightarrow> string \<Rightarrow> json dict \<Rightarrow> string \<Rightarrow> provider_spec result" where
  "resolve_trusted_provider te rt base raw_id project default_name =
     (let provider_id = strip raw_id in
      guard_that (provider_id \<noteq> []) (ValueError ''provider_id must not be blank'')
      (rbind (load_provider_registry te base) (\<lambda>providers.
       case dget providers provider_id of
         Some (JDict trusted) \<Rightarrow>
           rbind (validated_executable te rt base trusted) (\<lambda>(argv, digest).
           rbind (command_provider_spec rt (trusted_mapping rt provider_id trusted argv digest) provider_id)
             (tightened rt project default_name argv digest))
       | _ \<Rightarrow> Inl (ValueError (''trusted provider is not registered: '' @ provider_id)))))"

definition forbidden_fields :: "json dict \<Rightarrow> string list" where
  "forbidden_fields raw = filter (\<lambda>k. jget raw k \<notin> (if k = ''command'' then {JNull, JStr [], JList []}
       else if k = ''env_allowlist'' then {JNull, JList []}
       else if k \<in> {''semantics'', ''sandbox''} then {JNull, JDict []}
       else if k \<in> {''neutral_cwd'', ''max_stderr_bytes''} then {JNull}
       else {JNull, JStr []}))
     [''command'', ''env_allowlist'', ''sha256'', ''executable_sha256'', ''neutral_cwd'', ''max_stderr_bytes'', ''version'', ''semantics'',
      ''runtime_profile'', ''sandbox'']"

definition resolve_project_provider :: "trust_env \<Rightarrow> runtime \<Rightarrow> string \<Rightarrow> json dict \<Rightarrow> string \<Rightarrow> provider_spec result" where
  "resolve_project_provider te rt base raw default_name =
     (let provider_id = strip (text_or_empty rt (jget raw ''provider_id'')) in
      if provider_id \<noteq> [] then
        (let forbidden = forbidden_fields raw in
         guard_that (forbidden = [])
           (ValueError (''repository provider_id configuration may not set trusted fields: '' @ join '', '' forbidden))
         (resolve_trusted_provider te rt base provider_id raw default_name))
      else if unsafe_repo_commands_enabled te then command_provider_spec rt raw default_name
      else Inl (ValueError (''repository-defined provider commands are disabled; configure provider_id ''
        @ ''in the project and register executable authority outside the repository'')))"

section \<open>The check at launch\<close>

text \<open>\<open>ProviderTrustError\<close> is a subclass of \<open>ValueError\<close>.\<close>

definition trust_error :: "string \<Rightarrow> py_error" where
  "trust_error msg = ValueError msg"

definition trusted_spec :: "provider_spec \<Rightarrow> bool" where
  "trusted_spec s = (cs_trust s = ''trusted_registry_digest'')"

definition verify_provider_executable :: "trust_env \<Rightarrow> provider_spec \<Rightarrow> string \<Rightarrow> string result" where
  "verify_provider_executable te s base =
     (let configured = te_expand te (hd (cs_command s)) in
      if \<not> trusted_spec s then Inr configured
      else guard_that (te_absolute te configured) (trust_error ''trusted provider executable must remain an absolute path'')
        (guard_that (\<not> te_symlink te configured) (trust_error ''trusted provider executable path may not be a symlink'')
        (case te_strict te configured of
           None \<Rightarrow> Inl (trust_error ''trusted provider executable no longer exists'')
         | Some p \<Rightarrow>
             guard_that (te_is_file te p) (trust_error ''trusted provider executable is no longer a regular file'')
             (guard_that (\<not> is_within te base p) (trust_error ''trusted provider executable may not move inside the repository'')
             (case cs_sha256 s of
                None \<Rightarrow> Inl (trust_error ''trusted provider executable is missing its pinned digest'')
              | Some expected \<Rightarrow>
                  guard_that (expected \<noteq> []) (trust_error ''trusted provider executable is missing its pinned digest'')
                  (rbind (sha256_file te p) (\<lambda>actual.
                   rbind (compare_digest actual expected) (\<lambda>same.
                   guard_that same (trust_error ''trusted provider executable digest mismatch at launch'') (Inr p)))))))))"

definition verified_command :: "trust_env \<Rightarrow> provider_spec \<Rightarrow> string \<Rightarrow> string list result" where
  "verified_command te s base =
     (if \<not> trusted_spec s then Inr (cs_command s)
      else rbind (verify_provider_executable te s base) (\<lambda>executable. Inr (executable # tl (cs_command s))))"

definition legacy_provider_cwd :: "trust_env \<Rightarrow> provider_spec \<Rightarrow> string \<Rightarrow> string" where
  "legacy_provider_cwd te s base =
     (if trusted_spec s then
        (case te_strict te (hd (cs_command s)) of
           Some p \<Rightarrow> path_parent p | None \<Rightarrow> path_parent (te_resolve te (te_expand te (hd (cs_command s)))))
      else base)"

section \<open>Executable authority stays outside the repository\<close>

text \<open>Where a path lies is stated over the resolved paths.  A file that may be run: outside the repository, with the content
  the digest pins.\<close>

definition outside_root :: "trust_env \<Rightarrow> string \<Rightarrow> string \<Rightarrow> bool" where
  "outside_root te base p = (\<not> below (te_resolve te base) (te_resolve te p))"

lemma outside_root_iff: "outside_root te base p \<longleftrightarrow> \<not> is_within te base p"
  by (simp add: outside_root_def is_within_def)

definition pinned_file :: "trust_env \<Rightarrow> string \<Rightarrow> string \<Rightarrow> string \<Rightarrow> bool" where
  "pinned_file te base digest p = (te_is_file te p \<and> outside_root te base p \<and> te_digest te p = Some digest)"

lemma compare_digest_true: "compare_digest a b = Inr True \<Longrightarrow> a = b"
  by (simp add: compare_digest_def guard_that_def split: if_splits)

text \<open>An argument with a leading dash is not looked at, whatever it names.\<close>

definition arguments_outside :: "trust_env \<Rightarrow> string \<Rightarrow> string list \<Rightarrow> bool" where
  "arguments_outside te base args = (\<forall>arg \<in> set args. arg = [] \<or> starts_with arg ''-''
     \<or> (\<forall>p. argument_file te base arg = Some p \<longrightarrow> outside_root te base p))"

lemma checked_arguments: "check_arguments te base args = Inr () \<Longrightarrow> arguments_outside te base args"
  by (induction args) (auto simp: arguments_outside_def outside_root_iff split: if_splits option.splits)

text \<open>The providers of the user's registry: a regular file outside the repository that nobody else may write.\<close>

definition registered_providers :: "trust_env \<Rightarrow> string \<Rightarrow> json dict \<Rightarrow> bool" where
  "registered_providers te base providers = (\<exists>path mode owner payload. trusted_registry_path te = Inr path \<and> outside_root te base path
     \<and> te_registry te path = Registry mode owner (Holds (JDict payload)) \<and> mode AND 61440 = 32768
     \<and> (te_windows te \<or> mode AND 18 = 0 \<and> (case te_uid te of None \<Rightarrow> True | Some uid \<Rightarrow> owner \<in> {uid, 0}))
     \<and> jget payload ''providers'' = JDict providers)"

lemma validated_stat:
  "validate_registry_stat te mode owner = Inr () \<Longrightarrow> mode AND 61440 = 32768
     \<and> (te_windows te \<or> mode AND 18 = 0 \<and> (case te_uid te of None \<Rightarrow> True | Some uid \<Rightarrow> owner \<in> {uid, 0}))"
  unfolding validate_registry_stat_def guard_that_Inr_iff by (simp add: guard_that_Inr_iff split: if_split_asm)

lemma read_registry:
  "read_trusted_registry te path = Inr body \<Longrightarrow>
     \<exists>mode owner. te_registry te path = Registry mode owner body \<and> validate_registry_stat te mode owner = Inr ()"
  by (simp add: read_trusted_registry_def rbind_Inr_iff split: if_split_asm registry_file.split_asm)

lemma loaded_registry:
  assumes "load_provider_registry te base = Inr providers"
  shows "registered_providers te base providers"
proof -
  obtain path body where p: "trusted_registry_path te = Inr path" "outside_root te base path" "read_trusted_registry te path = Inr body"
    and b: "(case body of Garbled \<Rightarrow> Inl (ValueError ''trusted provider registry could not be read'')
       | Holds (JDict payload) \<Rightarrow> (case jget payload ''providers'' of JDict providers \<Rightarrow> Inr providers
            | _ \<Rightarrow> Inl (ValueError ''trusted provider registry must contain a providers object''))
       | Holds _ \<Rightarrow> Inl (ValueError ''trusted provider registry must contain a providers object'')) = Inr providers"
    using assms unfolding load_provider_registry_def rbind_Inr_iff guard_that_Inr_iff outside_root_iff by blast
  obtain payload where "body = Holds (JDict payload)" "jget payload ''providers'' = JDict providers"
    using b by (auto split: file_body.split_asm json.split_asm)
  then show ?thesis unfolding registered_providers_def using p read_registry [OF p(3)] validated_stat by blast
qed

text \<open>The command and the digest are those of the entry.\<close>

definition pinned_entry :: "runtime \<Rightarrow> json dict \<Rightarrow> string list \<Rightarrow> string \<Rightarrow> bool" where
  "pinned_entry rt entry argv digest = (sha256_digest digest \<and> digest = bare_digest (text_or_empty rt (jget entry ''sha256''))
     \<and> (\<exists>c cs. jget entry ''command'' = JList (c # cs) \<and> tl argv = map (py_str rt) cs))"

lemma validated_executable_ok:
  assumes "validated_executable te rt base raw = Inr (argv, digest)"
  shows "argv \<noteq> [] \<and> pinned_entry rt raw argv digest \<and> pinned_file te base digest (hd argv) \<and> arguments_outside te base (tl argv)"
proof -
  obtain c cs where c: "jget raw ''command'' = JList (c # cs)"
    using assms by (auto simp: validated_executable_def split: json.splits list.splits)
  obtain p where "te_is_file te p" "outside_root te base p" "sha256_digest digest" "sha256_file te p = Inr digest"
    "check_arguments te base (map (py_str rt) cs) = Inr ()" "argv = p # map (py_str rt) cs"
    "digest = bare_digest (text_or_empty rt (jget raw ''sha256''))"
    using assms by (auto simp: validated_executable_def c Let_def guard_that_Inr_iff rbind_Inr_iff outside_root_iff
        dest!: compare_digest_true split: option.splits)
  then show ?thesis using checked_arguments c
    by (auto simp: pinned_file_def pinned_entry_def sha256_file_def split: option.splits)
qed

lemma launch_ok:
  assumes "verified_command te s base = Inr argv" "trusted_spec s" "cs_sha256 s = Some digest"
  shows "\<exists>p. argv = p # tl (cs_command s) \<and> pinned_file te base digest p \<and> te_strict te (te_expand te (hd (cs_command s))) = Some p"
  using assms
  by (auto simp: verified_command_def verify_provider_executable_def Let_def guard_that_Inr_iff rbind_Inr_iff pinned_file_def outside_root_iff sha256_file_def
      dest!: compare_digest_true split: option.splits)

lemma fl_min_lower: "\<not> fl_lt x (fl_min x y)"
  by (cases x; cases y) (auto simp: fl_min_def)

text \<open>What the registry decides, and what the project can do: choose an entry, a name and intents, and tighten two limits.\<close>

theorem trusted_resolution:
  assumes "resolve_trusted_provider te rt base raw_id project default_name = Inr s"
  shows "\<exists>providers trusted argv digest b. load_provider_registry te base = Inr providers
    \<and> dget providers (strip raw_id) = Some (JDict trusted)
    \<and> validated_executable te rt base trusted = Inr (argv, digest)
    \<and> command_provider_spec rt (trusted_mapping rt (strip raw_id) trusted argv digest) (strip raw_id) = Inr b
    \<and> trusted_spec s \<and> cs_command s = argv \<and> cs_sha256 s = Some digest
    \<and> cs_env_allowlist s = cs_env_allowlist b \<and> cs_neutral_cwd s = cs_neutral_cwd b \<and> cs_version s = cs_version b
    \<and> cs_semantics s = cs_semantics b \<and> cs_profile s = cs_profile b \<and> cs_sandbox s = cs_sandbox b
    \<and> cs_max_stderr s = cs_max_stderr b \<and> \<not> fl_lt (cs_timeout b) (cs_timeout s) \<and> cs_max_output s \<le> cs_max_output b"
proof -
  note R = assms [unfolded resolve_trusted_provider_def Let_def guard_that_Inr_iff]
  obtain providers where L: "load_provider_registry te base = Inr providers"
    using R by (cases "load_provider_registry te base") simp_all
  obtain trusted where D: "dget providers (strip raw_id) = Some (JDict trusted)"
  proof (cases "dget providers (strip raw_id)")
    case (Some v)
    then show thesis using R L that by (cases v) simp_all
  qed (use R L in simp)
  obtain argv digest where V: "validated_executable te rt base trusted = Inr (argv, digest)"
    using R L D by (cases "validated_executable te rt base trusted") auto
  obtain b where C: "command_provider_spec rt (trusted_mapping rt (strip raw_id) trusted argv digest) (strip raw_id) = Inr b"
    and t: "tightened rt project default_name argv digest b = Inr s"
    using R L D V by (auto simp: rbind_Inr_iff)
  note r = L D V C
  obtain intents where n: "new_provider_spec (b\<lparr>cs_name := py_str rt (py_or (jget project ''name'') (JStr default_name)), cs_command := argv,
         cs_timeout := fl_min (cs_timeout b) (positive_cap_float rt (jget project ''timeout_seconds'') (cs_timeout b)),
         cs_max_output := min (cs_max_output b) (positive_cap_int (jget project ''max_output_bytes'') (cs_max_output b)),
         cs_intents := intents, cs_trust := ''trusted_registry_digest'', cs_sha256 := Some digest\<rparr>) = Inr s"
    using t unfolding tightened_def rbind_Inr_iff by blast
  have "bare_digest digest = digest" "lower (strip (cs_profile b)) = cs_profile b"
    using bare_digest_id validated_executable_ok [OF r(3), unfolded pinned_entry_def] profile_id spec_policy [OF r(4)] by auto
  then show ?thesis
    using r new_provider_spec_Inr(1) [OF n] fl_min_lower by (auto simp: trusted_spec_def)
qed

lemma project_resolution:
  assumes "resolve_project_provider te rt base raw default_name = Inr s" "\<not> unsafe_repo_commands_enabled te"
  shows "strip (text_or_empty rt (jget raw ''provider_id'')) \<noteq> [] \<and> forbidden_fields raw = []
    \<and> resolve_trusted_provider te rt base (strip (text_or_empty rt (jget raw ''provider_id''))) raw default_name = Inr s"
  using assms unfolding resolve_project_provider_def Let_def by (simp add: guard_that_Inr_iff split: if_splits)

text \<open>Without the operator's switch a provider of the repository is the entry of that name in the user's registry: a file
  outside the repository, with the content that the entry pins, and the entry's arguments; under its sandbox policy.\<close>

theorem project_authority:
  assumes "resolve_project_provider te rt base raw default_name = Inr s" "\<not> unsafe_repo_commands_enabled te"
  shows "trusted_spec s \<and> cs_command s \<noteq> [] \<and> arguments_outside te base (tl (cs_command s))
    \<and> (\<exists>providers entry digest v. registered_providers te base providers
        \<and> dget providers (strip (text_or_empty rt (jget raw ''provider_id''))) = Some (JDict entry)
        \<and> pinned_entry rt entry (cs_command s) digest \<and> cs_sha256 s = Some digest \<and> pinned_file te base digest (hd (cs_command s))
        \<and> policy_from_mapping rt v = Inr (cs_sandbox s))"
proof -
  obtain providers trusted argv digest b where
    l: "load_provider_registry te base = Inr providers"
    and d: "dget providers (strip (strip (text_or_empty rt (jget raw ''provider_id'')))) = Some (JDict trusted)"
    and v: "validated_executable te rt base trusted = Inr (argv, digest)"
    and c: "command_provider_spec rt (trusted_mapping rt (strip (strip (text_or_empty rt (jget raw ''provider_id'')))) trusted argv digest)
      (strip (strip (text_or_empty rt (jget raw ''provider_id'')))) = Inr b"
    and s: "trusted_spec s" "cs_command s = argv" "cs_sha256 s = Some digest" "cs_sandbox s = cs_sandbox b"
    using trusted_resolution [OF project_resolution [OF assms, THEN conjunct2, THEN conjunct2]] by blast
  have "dget providers (strip (text_or_empty rt (jget raw ''provider_id''))) = Some (JDict trusted)" using d by simp
  then show ?thesis using loaded_registry [OF l] validated_executable_ok [OF v] spec_policy [OF c] s by metis
qed

text \<open>Two projects that name the same provider differ in its name, its intents and the two limits only.\<close>

definition same_authority :: "provider_spec \<Rightarrow> provider_spec \<Rightarrow> bool" where
  "same_authority s t = (cs_command s = cs_command t \<and> cs_trust s = cs_trust t \<and> cs_sha256 s = cs_sha256 t
     \<and> cs_env_allowlist s = cs_env_allowlist t \<and> cs_neutral_cwd s = cs_neutral_cwd t \<and> cs_version s = cs_version t
     \<and> cs_semantics s = cs_semantics t \<and> cs_profile s = cs_profile t \<and> cs_sandbox s = cs_sandbox t
     \<and> cs_max_stderr s = cs_max_stderr t)"

theorem same_provider_same_authority:
  assumes s: "resolve_project_provider te rt base raw default_name = Inr s"
    and t: "resolve_project_provider te rt base raw' default_name' = Inr t" and u: "\<not> unsafe_repo_commands_enabled te"
    and id: "strip (text_or_empty rt (jget raw' ''provider_id'')) = strip (text_or_empty rt (jget raw ''provider_id''))"
  shows "same_authority s t"
proof -
  note rs = trusted_resolution [OF project_resolution [OF s u, THEN conjunct2, THEN conjunct2]]
  note rt = trusted_resolution [OF project_resolution [OF t u, THEN conjunct2, THEN conjunct2], unfolded id]
  from rs obtain providers trusted argv digest b where 1: "load_provider_registry te base = Inr providers"
    "dget providers (strip (strip (text_or_empty rt (jget raw ''provider_id'')))) = Some (JDict trusted)"
    "validated_executable te rt base trusted = Inr (argv, digest)"
    "command_provider_spec rt (trusted_mapping rt (strip (strip (text_or_empty rt (jget raw ''provider_id'')))) trusted argv digest)
      (strip (strip (text_or_empty rt (jget raw ''provider_id'')))) = Inr b"
    "trusted_spec s" "cs_command s = argv" "cs_sha256 s = Some digest" "cs_env_allowlist s = cs_env_allowlist b"
    "cs_neutral_cwd s = cs_neutral_cwd b" "cs_version s = cs_version b" "cs_semantics s = cs_semantics b" "cs_profile s = cs_profile b"
    "cs_sandbox s = cs_sandbox b" "cs_max_stderr s = cs_max_stderr b" by blast
  show ?thesis using rt 1 unfolding same_authority_def trusted_spec_def by (elim exE conjE) simp
qed

end
