(* ===== verification/ProviderProtocol.thy ===== *)
theory ProviderProtocol
  imports ProviderSpec PathPolicy Routing
begin

text \<open>
  The protocol of \<open>provider_runner.py\<close>: bounded reading of a provider's output, strict JSON, records and context items.
  What \<open>json.loads\<close> makes of a text is the argument \<open>parse\<close>; its tree keeps the pairs of every object, duplicates
  included, and non-standard constants are the special floats.
\<close>

section \<open>Reading\<close>

text \<open>A stream as its reader meets it: the chunks that \<open>read\<close> returns, and how that ends: at the end of the stream, with an
  \<open>OSError\<close>, or because the runner no longer waits for the reader.  A reader keeps what it has in each case.\<close>

datatype stream_end = Closed | Broken | LeftBehind

fun bounded_read :: "nat \<Rightarrow> string \<Rightarrow> string list \<Rightarrow> stream_end \<Rightarrow> string \<times> bool" where
  "bounded_read limit acc [] stop =
     (case stop of Closed \<Rightarrow> (acc, False) | Broken \<Rightarrow> (acc, False) | LeftBehind \<Rightarrow> (acc, False))"
| "bounded_read limit acc (chunk # chunks) stop =
     (if chunk = [] then (acc, False)
      else if limit - length acc < length chunk then (acc @ take (limit - length acc) chunk, True)
      else bounded_read limit (acc @ chunk) chunks stop)"

fun bounded_tail_read :: "nat \<Rightarrow> string \<Rightarrow> bool \<Rightarrow> string list \<Rightarrow> stream_end \<Rightarrow> string \<times> bool" where
  "bounded_tail_read limit acc truncated [] stop =
     (case stop of Closed \<Rightarrow> (acc, truncated) | Broken \<Rightarrow> (acc, truncated) | LeftBehind \<Rightarrow> (acc, truncated))"
| "bounded_tail_read limit acc truncated (chunk # chunks) stop =
     (if chunk = [] then (acc, truncated)
      else if limit \<le> length chunk then bounded_tail_read limit (last_n limit chunk) True chunks stop
      else (let overflow = length acc + length chunk - limit in
        bounded_tail_read limit (drop overflow acc @ chunk) (truncated \<or> 0 < overflow) chunks stop))"

lemma bounded_read_end [simp]: "bounded_read limit acc [] stop = (acc, False)"
  by (cases stop) simp_all

lemma bounded_tail_read_end [simp]: "bounded_tail_read limit acc truncated [] stop = (acc, truncated)"
  by (cases stop) simp_all

declare bounded_read.simps(1) [simp del] bounded_tail_read.simps(1) [simp del]

section \<open>Strict JSON\<close>

text \<open>\<open>NotJson\<close>: \<open>JSONDecodeError\<close>; \<open>TooDeep\<close>: any other error, of the depth of a document or of a hook before the text turned
  out to be broken.\<close>

datatype raw_document = Tree json | NotJson | TooDeep

definition MAX_PROVIDER_RECORDS :: nat where
  "MAX_PROVIDER_RECORDS = 1024"

definition MAX_PROVIDER_ITEM_FIELDS :: nat where
  "MAX_PROVIDER_ITEM_FIELDS = 64"

definition MAX_PROVIDER_TEXT_CHARS :: nat where
  "MAX_PROVIDER_TEXT_CHARS = 1000000"

definition MAX_PROVIDER_METADATA_ENTRIES :: nat where
  "MAX_PROVIDER_METADATA_ENTRIES = 128"

definition MAX_PROVIDER_CONTAINER_ITEMS :: nat where
  "MAX_PROVIDER_CONTAINER_ITEMS = 1024"

definition MAX_PROVIDER_NESTING_DEPTH :: nat where
  "MAX_PROVIDER_NESTING_DEPTH = 8"

definition MAX_PROVIDER_FIELD_CHARS :: nat where
  "MAX_PROVIDER_FIELD_CHARS = 4096"

definition MAX_PROVIDER_METADATA_STRING_CHARS :: nat where
  "MAX_PROVIDER_METADATA_STRING_CHARS = 1000000"

definition MAX_PROVIDER_LINE :: int where
  "MAX_PROVIDER_LINE = 2147483647"

definition MAX_PROVIDER_INTEGER :: int where
  "MAX_PROVIDER_INTEGER = 9223372036854775807"

text \<open>What the hooks let through: no constant and no object with a key twice.\<close>

primrec hooks_accept :: "json \<Rightarrow> bool" where
  "hooks_accept JNull = True"
| "hooks_accept (JBool b) = True"
| "hooks_accept (JInt i) = True"
| "hooks_accept (JFloat x) = fl_finite x"
| "hooks_accept (JStr s) = True"
| "hooks_accept (JList xs) = list_all id (map hooks_accept xs)"
| "hooks_accept (JDict d) = (distinct (dkeys d) \<and> list_all snd (map (map_prod id hooks_accept) d))"

fun first_error :: "unit result list \<Rightarrow> unit result" where
  "first_error [] = Inr ()"
| "first_error (r # rs) = rbind r (\<lambda>_. first_error rs)"

definition shallow :: "nat \<Rightarrow> unit result \<Rightarrow> unit result" where
  "shallow depth r = guard_that (depth \<le> MAX_PROVIDER_NESTING_DEPTH) (ValueError ''provider JSON exceeds maximum nesting depth'') r"

definition check_member :: "nat \<Rightarrow> string \<times> (nat \<Rightarrow> unit result) \<Rightarrow> unit result" where
  "check_member depth kf =
     guard_that (fst kf \<noteq> []) (ValueError ''provider JSON keys must be non-empty strings'')
     (guard_that (length (fst kf) \<le> MAX_PROVIDER_FIELD_CHARS) (ValueError ''provider JSON key exceeds protocol limit'')
     (snd kf depth))"

primrec validate_json_value :: "json \<Rightarrow> nat \<Rightarrow> unit result" where
  "validate_json_value JNull = (\<lambda>depth. shallow depth (Inr ()))"
| "validate_json_value (JBool b) = (\<lambda>depth. shallow depth (Inr ()))"
| "validate_json_value (JInt i) = (\<lambda>depth. shallow depth
     (guard_that (\<bar>i\<bar> \<le> MAX_PROVIDER_INTEGER) (ValueError ''provider integer exceeds signed 64-bit range'') (Inr ())))"
| "validate_json_value (JFloat x) = (\<lambda>depth. shallow depth
     (guard_that (fl_finite x) (ValueError ''provider JSON contains non-finite number'') (Inr ())))"
| "validate_json_value (JStr s) = (\<lambda>depth. shallow depth
     (guard_that (length s \<le> MAX_PROVIDER_METADATA_STRING_CHARS) (ValueError ''provider JSON string exceeds protocol limit'') (Inr ())))"
| "validate_json_value (JList xs) = (\<lambda>depth. shallow depth
     (guard_that (length xs \<le> MAX_PROVIDER_CONTAINER_ITEMS) (ValueError ''provider JSON array exceeds protocol limit'')
     (first_error (map (\<lambda>f. f (Suc depth)) (map validate_json_value xs)))))"
| "validate_json_value (JDict d) = (\<lambda>depth. shallow depth
     (guard_that (length d \<le> MAX_PROVIDER_METADATA_ENTRIES) (ValueError ''provider JSON object exceeds protocol limit'')
     (first_error (map (check_member (Suc depth)) (map (map_prod id validate_json_value) d)))))"

text \<open>\<open>None\<close>: \<open>JSONDecodeError\<close>; \<open>Some None\<close>: \<open>ValueError\<close> or \<open>RecursionError\<close>.\<close>

definition strict_json_loads :: "(string \<Rightarrow> raw_document) \<Rightarrow> string \<Rightarrow> json option option" where
  "strict_json_loads parse raw = (case parse raw of
     NotJson \<Rightarrow> None
   | TooDeep \<Rightarrow> Some None
   | Tree v \<Rightarrow> Some (if hooks_accept v \<and> validate_json_value v 0 = Inr () then Some v else None))"

section \<open>Records\<close>

definition invalid_payload :: py_error where
  "invalid_payload = ValueError ''provider returned invalid JSON/JSONL payload''"

text \<open>\<open>str.splitlines\<close>, up to empty lines.\<close>

definition line_end :: "char \<Rightarrow> bool" where
  "line_end c = (let n = code c in (10 \<le> n \<and> n \<le> 13) \<or> (28 \<le> n \<and> n \<le> 30) \<or> n = 133)"

fun lines_from :: "string \<Rightarrow> string \<Rightarrow> string list" where
  "lines_from current [] = [current]"
| "lines_from current (c # cs) = (if line_end c then current # lines_from [] cs else lines_from (current @ [c]) cs)"

fun parse_lines :: "(string \<Rightarrow> raw_document) \<Rightarrow> string list \<Rightarrow> json dict list \<Rightarrow> json dict list result" where
  "parse_lines parse [] rows = Inr rows"
| "parse_lines parse (line # lines) rows =
     (if strip line = [] then parse_lines parse lines rows
      else guard_that (length rows < MAX_PROVIDER_RECORDS) (ValueError ''provider payload exceeds maximum record count'')
        (case strict_json_loads parse line of
           Some (Some (JDict row)) \<Rightarrow> parse_lines parse lines (rows @ [row])
         | Some (Some _) \<Rightarrow> Inl (ValueError ''provider JSONL rows must be objects'')
         | _ \<Rightarrow> Inl invalid_payload))"

definition payload_records :: "json \<Rightarrow> json dict list result" where
  "payload_records payload =
     rbind (case payload of
         JDict d \<Rightarrow> (case dget d ''items'' of
             None \<Rightarrow> Inl (ValueError ''provider object payload must contain an items array'') | Some v \<Rightarrow> Inr v)
       | _ \<Rightarrow> Inr payload) (\<lambda>items.
     case items of
       JList rows \<Rightarrow>
         guard_that (length rows \<le> MAX_PROVIDER_RECORDS) (ValueError ''provider payload exceeds maximum record count'')
         (guard_that (list_all is_dict rows) (ValueError ''provider payload items must all be objects'')
         (Inr (List.map_filter as_dict rows)))
     | _ \<Rightarrow> Inl (ValueError ''provider payload must be a JSON array or an object with an items array''))"

definition parse_records :: "(string \<Rightarrow> raw_document) \<Rightarrow> string \<Rightarrow> json dict list result" where
  "parse_records parse raw = (case strict_json_loads parse raw of
     None \<Rightarrow> rbind (parse_lines parse (lines_from [] raw) []) (\<lambda>rows.
       guard_that (rows \<noteq> [] \<or> strip raw = []) invalid_payload (Inr rows))
   | Some None \<Rightarrow> Inl invalid_payload
   | Some (Some payload) \<Rightarrow> payload_records payload)"

section \<open>Items\<close>

definition provider_score :: "json \<Rightarrow> rat result" where
  "provider_score v = (case v of
     JNull \<Rightarrow> Inr 0
   | JInt n \<Rightarrow> guard_that (0 \<le> n \<and> n \<le> 1) (ValueError ''provider score must be between 0 and 1'') (Inr (of_int n))
   | JFloat (Fin r) \<Rightarrow> guard_that (0 \<le> r \<and> r \<le> 1) (ValueError ''provider score must be between 0 and 1'') (Inr r)
   | JFloat _ \<Rightarrow> Inl (ValueError ''provider score must be finite'')
   | _ \<Rightarrow> Inl (ValueError ''provider score must be a JSON number''))"

definition line_number :: "json \<Rightarrow> string \<Rightarrow> int result" where
  "line_number v name = (case v of
     JInt n \<Rightarrow> guard_that (1 \<le> n \<and> n \<le> MAX_PROVIDER_LINE)
       (ValueError (''provider '' @ name @ '' must be between 1 and '' @ int_dec MAX_PROVIDER_LINE)) (Inr n)
   | _ \<Rightarrow> Inl (ValueError (''provider '' @ name @ '' must be an integer'')))"

definition bounded_field :: "json \<Rightarrow> string \<Rightarrow> string result" where
  "bounded_field v name = (case v of
     JStr s \<Rightarrow> guard_that (length s \<le> MAX_PROVIDER_FIELD_CHARS) (ValueError (''provider '' @ name @ '' exceeds protocol limit'')) (Inr s)
   | _ \<Rightarrow> Inl (ValueError (''provider '' @ name @ '' must be a string'')))"

text \<open>The fields of a record that become metadata, in this order.\<close>

fun add_fields :: "(json \<Rightarrow> string \<Rightarrow> json result) \<Rightarrow> string list \<Rightarrow> json dict \<Rightarrow> json dict \<Rightarrow> json dict result" where
  "add_fields f [] record metadata = Inr metadata"
| "add_fields f (k # ks) record metadata = (case dget record k of
     None \<Rightarrow> add_fields f ks record metadata
   | Some v \<Rightarrow> rbind (f v k) (\<lambda>w. add_fields f ks record (dset metadata k w)))"

definition record_text :: "json dict \<Rightarrow> string result" where
  "record_text record =
     (case (case dget record ''text'' of Some v \<Rightarrow> v | None \<Rightarrow> jget_or record ''content'' (JStr [])) of
        JStr s \<Rightarrow> guard_that (length s \<le> MAX_PROVIDER_TEXT_CHARS) (ValueError ''provider text exceeds protocol limit'') (Inr (strip s))
      | _ \<Rightarrow> Inl (ValueError ''provider text/content must be a string''))"

definition object_field :: "json dict \<Rightarrow> string \<Rightarrow> json dict result" where
  "object_field record k = (case jget_or record k (JDict []) of
     JDict d \<Rightarrow> Inr d | _ \<Rightarrow> Inl (ValueError (''provider '' @ k @ '' must be an object'')))"

definition UNTRUSTED :: json where
  "UNTRUSTED = JStr ''untrusted_repository_content''"

definition update_dict :: "json dict \<Rightarrow> json dict \<Rightarrow> json dict" where
  "update_dict d d' = fold (\<lambda>(k, v) d. dset d k v) d' d"

text \<open>\<open>None\<close>: the record has no text.\<close>

definition context_item_of ::
  "(string \<Rightarrow> string option) \<Rightarrow> string \<Rightarrow> string \<Rightarrow> string \<Rightarrow> string \<Rightarrow> json dict \<Rightarrow> json dict \<Rightarrow> context_item option result" where
  "context_item_of resolve base source provider trust defaults record =
     guard_that (length record \<le> MAX_PROVIDER_ITEM_FIELDS) (ValueError ''provider item exceeds maximum field count'')
     (rbind (validate_json_value (JDict record) 0) (\<lambda>_.
      rbind (record_text record) (\<lambda>text.
      if text = [] then Inr None
      else
        rbind (object_field record ''metadata'') (\<lambda>metadata.
        rbind (object_field record ''provenance'') (\<lambda>provenance.
        rbind (add_fields (\<lambda>v k. rbind (bounded_field v k) (\<lambda>s. Inr (JStr s)))
          [''path'', ''file'', ''symbol'', ''kind'', ''language''] record metadata) (\<lambda>named.
        rbind (add_fields (\<lambda>v k. rbind (line_number v k) (\<lambda>n. Inr (JInt n))) [''line'', ''end_line''] record named) (\<lambda>placed.
        rbind (case jget_or record ''stale'' (JBool False) of
            JBool b \<Rightarrow> Inr b | _ \<Rightarrow> Inl (ValueError ''provider stale must be a boolean'')) (\<lambda>stale.
        rbind (provider_score (jget record ''score'')) (\<lambda>score.
          Inr (Some \<lparr>ci_source = source, ci_text = text, ci_score = score, ci_stale = stale,
            ci_metadata = confine_metadata_paths resolve base (dset (dset (dset (update_dict placed defaults)
              ''provider'' (JStr provider)) ''provider_trust'' (JStr trust)) ''trust'' UNTRUSTED),
            ci_provenance = dset (dset provenance ''provider'' (JStr provider)) ''trust'' UNTRUSTED,
            ci_evidence = None\<rparr>))))))))))"

fun items_of_records :: "(json dict \<Rightarrow> context_item option result) \<Rightarrow> json dict list \<Rightarrow> context_item list result" where
  "items_of_records f [] = Inr []"
| "items_of_records f (r # rs) = rbind (f r) (\<lambda>x. rbind (items_of_records f rs) (\<lambda>xs.
     Inr (case x of None \<Rightarrow> xs | Some i \<Rightarrow> i # xs)))"

definition context_items ::
  "(string \<Rightarrow> string option) \<Rightarrow> string \<Rightarrow> json dict list \<Rightarrow> string \<Rightarrow> int \<Rightarrow> string \<Rightarrow> string \<Rightarrow> json dict \<Rightarrow> context_item list result" where
  "context_items resolve base records source limit provider trust defaults =
     rbind (items_of_records (context_item_of resolve base source provider trust defaults) records) (\<lambda>items.
       Inr (slice_to (sort_key (\<lambda>i. - ci_score i) items) limit))"

section \<open>Reading is exact\<close>

lemma bounded_read_exact:
  assumes "[] \<notin> set chunks" "length acc \<le> limit"
  shows "bounded_read limit acc chunks stop
    = (take limit (acc @ concat chunks), limit < length (acc @ concat chunks))"
  using assms by (induction limit acc chunks stop rule: bounded_read.induct) auto

lemma last_n_append_long: "n \<le> length ys \<Longrightarrow> last_n n (xs @ ys) = last_n n ys"
  by (simp add: last_n_def)

lemma bounded_tail_read_exact:
  assumes "[] \<notin> set chunks" "length acc \<le> limit"
  shows "fst (bounded_tail_read limit acc truncated chunks stop) = last_n limit (acc @ concat chunks)"
  using assms
proof (induction limit acc truncated chunks stop rule: bounded_tail_read.induct)
  case (1 limit acc truncated stop)
  then show ?case by (simp add: last_n_def)
next
  case (2 limit acc truncated chunk chunks stop)
  show ?case
  proof (cases "limit \<le> length chunk")
    case True
    have "last_n limit (last_n limit chunk @ concat chunks) = last_n limit (acc @ chunk @ concat chunks)"
      using True by (simp add: last_n_def drop_append add.commute)
    then show ?thesis using 2(1) 2(3) True by (auto simp: length_last_n)
  next
    case False
    have sum: "a + (b + c) - (a + b - limit + limit) + (a + b - limit) = a + (b + c) - limit" for a b c :: nat by arith
    have "last_n limit ((drop (length acc + length chunk - limit) acc @ chunk) @ concat chunks)
        = last_n limit (acc @ chunk @ concat chunks)"
      using False sum [of "length acc" "length chunk" "length (concat chunks)"] by (simp add: last_n_def drop_append)
    then show ?thesis using 2(2,3) False by (auto simp: Let_def)
  qed
qed

text \<open>Whatever was cut off is reported.\<close>

lemma tail_cut_reported:
  assumes "[] \<notin> set chunks" "length acc \<le> limit" "limit < length (acc @ concat chunks) \<or> truncated"
  shows "snd (bounded_tail_read limit acc truncated chunks stop)"
  using assms
proof (induction limit acc truncated chunks stop rule: bounded_tail_read.induct)
  case (2 limit acc truncated chunk chunks stop)
  then show ?case by (cases "limit < length acc + length chunk") (auto simp: Let_def length_last_n)
qed simp

text \<open>A stream of exactly the limit in one chunk is reported as cut although nothing is missing.\<close>

lemma full_tail_reported: "chunk \<noteq> [] \<Longrightarrow> bounded_tail_read (length chunk) [] False [chunk] stop = (chunk, True)"
  by (simp add: last_n_def)

section \<open>What an accepted payload gives\<close>

text \<open>An item of a provider: its score is in the unit interval, it has a text, it names its provider, it is marked as untrusted
  whatever the provider claims, and its paths resolve below the root.\<close>

definition checked_item :: "(string \<Rightarrow> string option) \<Rightarrow> string \<Rightarrow> string \<Rightarrow> string \<Rightarrow> string \<Rightarrow> context_item \<Rightarrow> bool" where
  "checked_item resolve base source provider trust i =
     (0 \<le> ci_score i \<and> ci_score i \<le> 1 \<and> ci_source i = source \<and> ci_text i \<noteq> [] \<and> length (ci_text i) \<le> MAX_PROVIDER_TEXT_CHARS
      \<and> jget (ci_metadata i) ''provider'' = JStr provider \<and> jget (ci_metadata i) ''provider_trust'' = JStr trust
      \<and> jget (ci_metadata i) ''trust'' = UNTRUSTED \<and> jget (ci_provenance i) ''provider'' = JStr provider
      \<and> jget (ci_provenance i) ''trust'' = UNTRUSTED
      \<and> (\<forall>k \<in> {''path'', ''file''}. \<forall>v. dget (ci_metadata i) k = Some v
          \<longrightarrow> (\<exists>s p. v = JStr s \<and> resolve_within_root resolve base s = Inr p \<and> below base p)))"

lemma provider_score_unit: "provider_score v = Inr r \<Longrightarrow> 0 \<le> r \<and> r \<le> 1"
  by (auto simp: provider_score_def guard_that_Inr_iff split: json.splits pyfloat.splits)

lemma length_strip: "length (strip s) \<le> length s"
proof -
  have "length (dropWhile is_space xs) \<le> length xs" for xs by (induction xs) auto
  then show ?thesis unfolding strip_def lstrip_def rstrip_def by (metis (no_types) length_rev order_trans)
qed

lemma record_text_bound: "record_text record = Inr t \<Longrightarrow> length t \<le> MAX_PROVIDER_TEXT_CHARS"
  using length_strip by (fastforce simp: record_text_def guard_that_Inr_iff split: json.splits option.splits intro: order_trans)

lemma confined_at:
  "k \<in> {''provider'', ''provider_trust'', ''trust''} \<Longrightarrow> jget (confine_metadata_paths resolve base m) k = jget m k"
  using confined_others [of k resolve base m] by (auto simp: jget_def)

lemma context_item_checked:
  assumes "context_item_of resolve base source provider trust defaults record = Inr (Some i)"
  shows "checked_item resolve base source provider trust i"
proof -
  obtain t placed provenance where t: "record_text record = Inr t" "t \<noteq> []"
    and sc: "provider_score (jget record ''score'') = Inr (ci_score i)"
    and i: "ci_source i = source" "ci_text i = t" "ci_provenance i = dset (dset provenance ''provider'' (JStr provider)) ''trust'' UNTRUSTED"
    "ci_metadata i = confine_metadata_paths resolve base (dset (dset (dset (update_dict placed defaults)
              ''provider'' (JStr provider)) ''provider_trust'' (JStr trust)) ''trust'' UNTRUSTED)"
    using assms unfolding context_item_of_def guard_that_Inr_iff rbind_Inr_iff
    by (elim conjE exE) (auto simp: rbind_Inr_iff split: if_splits)
  have "\<exists>s p. v = JStr s \<and> resolve_within_root resolve base s = Inr p \<and> below base p"
    if "k \<in> {''path'', ''file''}" "dget (ci_metadata i) k = Some v" for k v
    using confined_paths [of k resolve base _ v] that unfolding i(4) by blast
  then show ?thesis
    unfolding checked_item_def
    using provider_score_unit [OF sc] record_text_bound [OF t(1)] t(2) i(1,2) by (simp add: i(3,4) confined_at)
qed

lemma items_of_records_from:
  "items_of_records f rs = Inr xs \<Longrightarrow> \<forall>i \<in> set xs. \<exists>r \<in> set rs. f r = Inr (Some i)"
  by (induction rs arbitrary: xs) (fastforce simp: rbind_Inr_iff split: option.splits)+

theorem context_items_checked:
  assumes "context_items resolve base records source limit provider trust defaults = Inr items" "0 \<le> limit"
  shows "int (length items) \<le> limit \<and> sorted (map (\<lambda>i. - ci_score i) items)
    \<and> (\<forall>i \<in> set items. checked_item resolve base source provider trust i)"
proof -
  obtain xs where xs: "items_of_records (context_item_of resolve base source provider trust defaults) records = Inr xs"
    and items: "items = take (nat limit) (sort_key (\<lambda>i. - ci_score i) xs)"
    using assms by (auto simp: context_items_def rbind_Inr_iff slice_to_def)
  have "sorted (map (\<lambda>i. - ci_score i) items)" unfolding items by (simp add: sorted_wrt_take take_map [symmetric])
  moreover have "set items \<subseteq> set xs" unfolding items by (metis set_sort set_take_subset)
  ultimately show ?thesis using items_of_records_from [OF xs] context_item_checked assms(2) items by fastforce
qed

end
