(* ===== verification/ProviderRun.thy ===== *)
theory ProviderRun
  imports ProviderTrust ProviderProtocol Patterns
begin

text \<open>
  \<open>run_command_provider\<close> and its asynchronous twin of \<open>provider_runner.py\<close>: the ambient state of a provider, its launch,
  the classification of its outcome, and the redaction of its error output.  What a started process does is an answer of
  \<open>xe_spawn\<close>: the chunks that are read of its streams, whether it ran into the timeout, and its exit status.
\<close>

section \<open>Redaction\<close>

text \<open>\<open>str.replace\<close> with a non-empty pattern.\<close>

function replace_all :: "string \<Rightarrow> string \<Rightarrow> string \<Rightarrow> string" where
  "replace_all pat new [] = []"
| "replace_all pat new (c # cs) =
     (if pat \<noteq> [] \<and> starts_with (c # cs) pat then new @ replace_all pat new (drop (length pat) (c # cs))
      else c # replace_all pat new cs)"
  by pat_completeness auto
termination replace_all by (relation "measure (\<lambda>(_, _, s). length s)") (auto simp: neq_Nil_conv)

text \<open>\<open>pattern.sub\<close> where the groups that are kept are the first part of the pattern: the part and then the whole of a
  match.\<close>

definition sub_matches :: "regex \<Rightarrow> regex \<Rightarrow> position \<Rightarrow> (position \<times> position) list" where
  "sub_matches kept dropped x = concat (map (\<lambda>y. map (Pair y) (re_matches dropped y)) (re_matches kept x))"

function sub_from :: "regex \<Rightarrow> regex \<Rightarrow> string \<Rightarrow> bool \<Rightarrow> string \<Rightarrow> string" where
  "sub_from kept dropped new b [] = []"
| "sub_from kept dropped new b (c # cs) =
     (case sub_matches kept dropped (b, c # cs) of
        [] \<Rightarrow> c # sub_from kept dropped new (is_word c) cs
      | (y, (b', rest)) # _ \<Rightarrow>
          (if length rest < length (c # cs)
           then take (length (c # cs) - length (snd y)) (c # cs) @ new @ sub_from kept dropped new b' rest
           else c # sub_from kept dropped new (is_word c) cs))"
  by pat_completeness auto
termination sub_from by (relation "measure (\<lambda>(_, _, _, _, s). length s)") auto

definition re_sub :: "regex \<Rightarrow> regex \<Rightarrow> string \<Rightarrow> string \<Rightarrow> string" where
  "re_sub kept dropped new s = sub_from kept dropped new False s"

definition star_space :: regex where
  "star_space = Star (Chars is_space)"

definition bearer_dropped :: regex where
  "bearer_dropped = seqs [Bound, lit ''bearer'', spaces, plus_re (Chars (\<lambda>c. is_upper c \<and> code c < 128 \<or> is_lower c \<and> code c < 128 \<or> is_digit c
     \<or> c \<in> {CHR ''.'', CHR ''_'', CHR ''~'', CHR ''+'', CHR ''/'', CHR ''='', CHR ''-''}))]"

definition authorization_kept :: regex where
  "authorization_kept = seqs [Bound, lit ''authorization'', star_space, chr (CHR '':''), star_space]"

definition authorization_dropped :: regex where
  "authorization_dropped = Seq (opt_re (Seq (lit ''bearer'') spaces)) (plus_re (Chars (\<lambda>c. \<not> is_space c)))"

definition secret_kept :: regex where
  "secret_kept = seqs [Bound,
     alts [seqs [lit ''api'', opt_re (Chars (\<lambda>c. c = CHR ''-'' \<or> c = CHR ''_'')), lit ''key''], lit ''token'', lit ''password'', lit ''secret''],
     Bound, star_space, Chars (\<lambda>c. c = CHR '':'' \<or> c = CHR ''=''), star_space]"

definition secret_dropped :: regex where
  "secret_dropped = plus_re (Chars (\<lambda>c. \<not> is_space c \<and> c \<noteq> CHR '','' \<and> c \<noteq> CHR '';''))"

definition REDACTED :: string where
  "REDACTED = ''[REDACTED]''"

definition redact_value :: "environ \<Rightarrow> string \<Rightarrow> string \<Rightarrow> string" where
  "redact_value os_environ key s = (case os_environ key of None \<Rightarrow> s | Some v \<Rightarrow> if v = [] then s else replace_all v REDACTED s)"

definition redact_text :: "environ \<Rightarrow> string list \<Rightarrow> string \<Rightarrow> string" where
  "redact_text os_environ allowed s =
     re_sub secret_kept secret_dropped REDACTED
      (re_sub authorization_kept authorization_dropped REDACTED
        (re_sub Eps bearer_dropped (''Bearer '' @ REDACTED) (fold (redact_value os_environ) allowed s)))"

section \<open>The runner's surroundings\<close>

record launch =
  la_command :: "string list"
  la_cwd :: string
  la_env :: environ

text \<open>\<open>xp_exchange_fails\<close>: the asynchronous exchange fails with an \<open>OSError\<close> of its own.\<close>

record process =
  xp_stdout :: "string list"
  xp_stdout_end :: stream_end
  xp_stderr :: "string list"
  xp_stderr_end :: stream_end
  xp_timed_out :: bool
  xp_returncode :: int
  xp_exchange_fails :: bool

text \<open>\<open>xe_temp\<close>: the temporary directory, if it and the ones below can be made; \<open>xe_decode\<close> and \<open>xe_decode_ignore\<close>: UTF-8
  decoding that replaces or ignores what is malformed.\<close>

record runner_env =
  xe_trust :: trust_env
  xe_sandbox :: sandbox_env
  xe_environ :: environ
  xe_temp :: "string option"
  xe_spawn :: "launch \<Rightarrow> json dict \<Rightarrow> string + process"
  xe_parse :: "string \<Rightarrow> raw_document"
  xe_decode :: "string \<Rightarrow> string"
  xe_decode_ignore :: "string \<Rightarrow> string"
  xe_resolve :: "string \<Rightarrow> string option"
  xe_elapsed :: pyfloat
  xe_fmt :: "pyfloat \<Rightarrow> string"

definition redact_stderr :: "runner_env \<Rightarrow> provider_spec \<Rightarrow> string \<Rightarrow> bool \<Rightarrow> string option \<times> bool" where
  "redact_stderr xe s raw truncated =
     (if raw = [] then (None, truncated)
      else
        (let text = redact_text (xe_environ xe) (cs_env_allowlist s) (xe_decode xe raw); encoded = utf8 text;
             long = cs_max_stderr s < int (length encoded);
             kept = (if long then xe_decode_ignore xe (last_n (nat (cs_max_stderr s)) encoded) else text)
         in (if kept = [] then None else Some kept, truncated \<or> long)))"

section \<open>The ambient state\<close>

record ambient =
  vm_cwd :: string
  vm_env :: environ
  vm_writable :: "string list"

definition provider_runtime :: "runner_env \<Rightarrow> provider_spec \<Rightarrow> string \<Rightarrow> ambient result" where
  "provider_runtime xe s base =
     (let te = xe_trust xe; executable = te_resolve te (te_expand te (hd (cs_command s))) in
      if cs_profile s = ''restricted'' then
        (case xe_temp xe of
           None \<Rightarrow> Inl (OSError ''temporary directory'')
         | Some td \<Rightarrow>
             (let home = join_path td ''home''; temp_dir = join_path td ''tmp'';
                  cwd = (if cs_neutral_cwd s then join_path td ''cwd'' else legacy_provider_cwd te s base) in
              rbind (build_provider_env (xe_environ xe) (cs_env_allowlist s) ''restricted'' (Some (home, temp_dir, te_resolve te executable)))
                (\<lambda>env. Inr \<lparr>vm_cwd = cwd, vm_env = env, vm_writable = [home, temp_dir] @ (if cs_neutral_cwd s then [cwd] else [])\<rparr>)))
      else if cs_neutral_cwd s then
        (case xe_temp xe of
           None \<Rightarrow> Inl (OSError ''temporary directory'')
         | Some td \<Rightarrow> rbind (build_provider_env (xe_environ xe) (cs_env_allowlist s) ''compatibility'' None) (\<lambda>env.
             Inr \<lparr>vm_cwd = td, vm_env = env, vm_writable = [td]\<rparr>))
      else rbind (build_provider_env (xe_environ xe) (cs_env_allowlist s) ''compatibility'' None) (\<lambda>env.
        Inr \<lparr>vm_cwd = legacy_provider_cwd te s base, vm_env = env, vm_writable = []\<rparr>))"

section \<open>Results\<close>

definition empty_result :: "provider_spec \<Rightarrow> pyfloat \<Rightarrow> provider_result" where
  "empty_result s latency = \<lparr>pr_provider = cs_name s, pr_items = [], pr_latency_ms = latency, pr_error = None, pr_error_kind = None,
     pr_timed_out = False, pr_output_limited = False, pr_returncode = None, pr_stderr_tail = None, pr_stderr_truncated = False,
     pr_sandboxed = False, pr_sandbox_backend = None, pr_sandbox_mode = ''off'', pr_sandbox_network = ''host'',
     pr_limits_enforced = False, pr_fallback_reason = None\<rparr>"

definition failed_result :: "provider_spec \<Rightarrow> pyfloat \<Rightarrow> string \<Rightarrow> string \<Rightarrow> provider_result" where
  "failed_result s latency kind msg = (empty_result s latency)\<lparr>pr_error := Some msg, pr_error_kind := Some kind\<rparr>"

definition request_payload :: "trust_env \<Rightarrow> retrieval_request \<Rightarrow> json dict" where
  "request_payload te r = [(''query'', JStr (rx_query r)), (''root'', JStr (te_resolve te (rx_root r))), (''limit'', JInt (rx_limit r)),
     (''intent'', JStr (rx_intent r)), (''changed_files'', JList (map JStr (rx_changed_files r))), (''metadata'', JDict (rx_metadata r))]"

text \<open>\<open>str(exc)\<close>\<close>

definition message_of :: "py_error \<Rightarrow> string" where
  "message_of e = (case e of ValueError m \<Rightarrow> m | TypeError m \<Rightarrow> m | KeyError m \<Rightarrow> m | OverflowError m \<Rightarrow> m | IndexError m \<Rightarrow> m
     | RuntimeError m \<Rightarrow> m | FileExistsError m \<Rightarrow> m | OSError m \<Rightarrow> m | AttributeError m \<Rightarrow> m | SqliteError m \<Rightarrow> m)"

text \<open>\<open>TypeError\<close>, \<open>ValueError\<close>, \<open>OverflowError\<close> and \<open>RecursionError\<close> are caught.\<close>

definition result_from_bytes ::
  "runner_env \<Rightarrow> provider_spec \<Rightarrow> retrieval_request \<Rightarrow> string \<Rightarrow> json dict \<Rightarrow> string \<Rightarrow> int \<Rightarrow> provider_result" where
  "result_from_bytes xe s r source defaults bytes returncode =
     (let text = xe_decode xe bytes in
      if strip text = []
      then (failed_result s (xe_elapsed xe) ''empty_output'' ''provider returned an empty payload'')\<lparr>pr_returncode := Some returncode\<rparr>
      else case rbind (parse_records (xe_parse xe) text) (\<lambda>records.
          context_items (xe_resolve xe) (te_resolve (xe_trust xe) (rx_root r)) records source (rx_limit r) (cs_name s) (cs_trust s) defaults) of
        Inl e \<Rightarrow> (failed_result s (xe_elapsed xe) ''invalid_payload'' (message_of e))\<lparr>pr_returncode := Some returncode\<rparr>
      | Inr items \<Rightarrow> (empty_result s (xe_elapsed xe))\<lparr>pr_items := items, pr_returncode := Some returncode\<rparr>)"

definition attach_stderr :: "runner_env \<Rightarrow> provider_spec \<Rightarrow> string \<Rightarrow> bool \<Rightarrow> provider_result \<Rightarrow> provider_result" where
  "attach_stderr xe s raw truncated res = (case redact_stderr xe s raw truncated of
     (tail, cut_off) \<Rightarrow> res\<lparr>pr_stderr_tail := tail, pr_stderr_truncated := cut_off\<rparr>)"

definition attach_sandbox_state :: "sandbox_plan \<Rightarrow> provider_result \<Rightarrow> provider_result" where
  "attach_sandbox_state plan res = res\<lparr>pr_sandboxed := sn_sandboxed plan, pr_sandbox_backend := sn_backend plan,
     pr_sandbox_mode := sn_mode plan, pr_sandbox_network := sn_network plan, pr_limits_enforced := sn_limits_enforced plan,
     pr_fallback_reason := sn_fallback_reason plan\<rparr>"

definition sandbox_unavailable_result :: "provider_spec \<Rightarrow> pyfloat \<Rightarrow> string \<Rightarrow> provider_result" where
  "sandbox_unavailable_result s latency msg = (failed_result s latency ''sandbox_unavailable'' msg)
     \<lparr>pr_sandbox_mode := sy_mode (cs_sandbox s), pr_sandbox_network := sy_network (cs_sandbox s)\<rparr>"

text \<open>Of the classes of \<open>OSError\<close> only \<open>FileExistsError\<close> is told apart.\<close>

definition directory_error :: "runner_env \<Rightarrow> provider_spec \<Rightarrow> py_error \<Rightarrow> provider_result" where
  "directory_error xe s e = failed_result s (xe_elapsed xe) ''launch'' (''provider cwd could not be created: '' @ (case e of FileExistsError _ \<Rightarrow> ''FileExistsError'' | _ \<Rightarrow> ''OSError''))"

section \<open>A run\<close>

text \<open>What was read of the streams: the output and whether it was too long, the end of the error output and whether it was
  cut.\<close>

record exchange =
  xc_output :: string
  xc_exceeded :: bool
  xc_stderr :: string
  xc_stderr_cut :: bool

definition exchanged :: "provider_spec \<Rightarrow> process \<Rightarrow> exchange" where
  "exchanged s p =
     (case bounded_read (nat (cs_max_output s)) [] (xp_stdout p) (xp_stdout_end p) of (out, exceeded) \<Rightarrow>
      case bounded_tail_read (nat (cs_max_stderr s)) [] False (xp_stderr p) (xp_stderr_end p) of (err, cut_off) \<Rightarrow>
        \<lparr>xc_output = out, xc_exceeded = exceeded, xc_stderr = err, xc_stderr_cut = cut_off\<rparr>)"

definition effective_timeout :: "provider_spec \<Rightarrow> retrieval_request \<Rightarrow> pyfloat" where
  "effective_timeout s r = fl_min (cs_timeout s) (rx_timeout r)"

definition classify_run ::
  "runner_env \<Rightarrow> provider_spec \<Rightarrow> retrieval_request \<Rightarrow> string \<Rightarrow> json dict \<Rightarrow> exchange \<Rightarrow> bool \<Rightarrow> int \<Rightarrow> provider_result" where
  "classify_run xe s r source defaults x timed_out returncode =
     (if xc_exceeded x
      then (failed_result s (xe_elapsed xe) ''output_limit'' (''provider output exceeded '' @ int_dec (cs_max_output s) @ '' bytes''))
        \<lparr>pr_output_limited := True, pr_returncode := Some returncode\<rparr>
      else if timed_out
      then (failed_result s (xe_elapsed xe) ''timeout'' (''provider timed out after '' @ xe_fmt xe (effective_timeout s r) @ '' seconds''))
        \<lparr>pr_timed_out := True, pr_returncode := Some returncode\<rparr>
      else if returncode \<noteq> 0
      then (failed_result s (xe_elapsed xe) ''exit'' (''provider exited with status '' @ int_dec returncode))\<lparr>pr_returncode := Some returncode\<rparr>
      else result_from_bytes xe s r source defaults (xc_output x) returncode)"

definition finished_run ::
  "runner_env \<Rightarrow> provider_spec \<Rightarrow> retrieval_request \<Rightarrow> string \<Rightarrow> json dict \<Rightarrow> sandbox_plan \<Rightarrow> exchange \<Rightarrow> bool \<Rightarrow> int \<Rightarrow> provider_result" where
  "finished_run xe s r source defaults plan x timed_out returncode =
     attach_sandbox_state plan (attach_stderr xe s (xc_stderr x) (xc_stderr_cut x)
       (classify_run xe s r source defaults x timed_out returncode))"

text \<open>Up to the start of the process: a result that says why there is none, or what is started, under which plan.\<close>

definition prepare_run ::
  "runner_env \<Rightarrow> provider_spec \<Rightarrow> retrieval_request \<Rightarrow> (provider_result + launch \<times> sandbox_plan) result" where
  "prepare_run xe s r =
     (case provider_runtime xe s (rx_root r) of
        Inl e \<Rightarrow> (if is_os_error e then Inr (Inl (directory_error xe s e)) else Inl e)
      | Inr vm \<Rightarrow>
          (case verified_command (xe_trust xe) s (rx_root r) of
             Inl e \<Rightarrow> (case e of
                 ValueError msg \<Rightarrow> Inr (Inl (failed_result s (xe_elapsed xe) ''provider_trust'' msg))
               | _ \<Rightarrow> if is_os_error e then Inr (Inl (directory_error xe s e)) else Inl e)
           | Inr command \<Rightarrow>
               (case build_sandbox_plan (xe_sandbox xe) (cs_sandbox s) command (vm_cwd vm) (vm_writable vm) of
                  Inl (RuntimeError msg) \<Rightarrow> Inr (Inl (sandbox_unavailable_result s (xe_elapsed xe) msg))
                | Inl e \<Rightarrow> Inl e
                | Inr plan \<Rightarrow> Inr (Inr (\<lparr>la_command = sn_command plan, la_cwd = vm_cwd vm, la_env = vm_env vm\<rparr>, plan)))))"

definition launch_failed :: "runner_env \<Rightarrow> provider_spec \<Rightarrow> sandbox_plan \<Rightarrow> string \<Rightarrow> provider_result" where
  "launch_failed xe s plan kind =
     attach_sandbox_state plan (failed_result s (xe_elapsed xe) ''launch'' (''provider could not be started: '' @ kind))"

text \<open>The second component is what was handed to the system to be started.\<close>

definition run_command_provider ::
  "runner_env \<Rightarrow> provider_spec \<Rightarrow> retrieval_request \<Rightarrow> string \<Rightarrow> json dict \<Rightarrow> provider_result result \<times> launch option" where
  "run_command_provider xe s r source defaults =
     (case prepare_run xe s r of
        Inl e \<Rightarrow> (Inl e, None)
      | Inr (Inl res) \<Rightarrow> (Inr res, None)
      | Inr (Inr (l, plan)) \<Rightarrow>
          (case xe_spawn xe l (request_payload (xe_trust xe) r) of
             Inl kind \<Rightarrow> (Inr (launch_failed xe s plan kind), Some l)
           | Inr p \<Rightarrow> (Inr (finished_run xe s r source defaults plan (exchanged s p) (xp_timed_out p) (xp_returncode p)), Some l)))"

text \<open>An asynchronous reader hands an \<open>OSError\<close> on; the one of the output stops before it when there is too much.  An exchange
  that fails is an error of the launch, unless the timeout came first: then nothing was read.\<close>

definition exchange_fails :: "provider_spec \<Rightarrow> process \<Rightarrow> bool" where
  "exchange_fails s p = (xp_exchange_fails p \<or> \<not> xc_exceeded (exchanged s p) \<and> xp_stdout_end p = Broken
     \<or> xp_stderr_end p = Broken)"

definition run_command_provider_async ::
  "runner_env \<Rightarrow> provider_spec \<Rightarrow> retrieval_request \<Rightarrow> string \<Rightarrow> json dict \<Rightarrow> provider_result result \<times> launch option" where
  "run_command_provider_async xe s r source defaults =
     (case prepare_run xe s r of
        Inl e \<Rightarrow> (Inl e, None)
      | Inr (Inl res) \<Rightarrow> (Inr res, None)
      | Inr (Inr (l, plan)) \<Rightarrow>
          (case xe_spawn xe l (request_payload (xe_trust xe) r) of
             Inl kind \<Rightarrow> (Inr (launch_failed xe s plan kind), Some l)
           | Inr p \<Rightarrow>
               (if exchange_fails s p \<and> \<not> xp_timed_out p then (Inr (directory_error xe s (OSError ''exchange'')), Some l)
                else
                  (let x = (if exchange_fails s p then \<lparr>xc_output = [], xc_exceeded = False, xc_stderr = [], xc_stderr_cut = False\<rparr>
                      else exchanged s p)
                   in (Inr (finished_run xe s r source defaults plan x (xp_timed_out p) (xp_returncode p)), Some l)))))"

end
