(* ===== verification/ProviderProps.thy ===== *)
theory ProviderProps
  imports ProviderRun
begin

text \<open>
  What is started for a provider of the repository's configuration, and what a run of it delivers.
\<close>

section \<open>Where a launch comes from\<close>

lemma run_launch:
  assumes "run_command_provider xe s r source defaults = (res, Some l) \<or> run_command_provider_async xe s r source defaults = (res, Some l)"
  shows "\<exists>plan. prepare_run xe s r = Inr (Inr (l, plan))"
  using assms
  by (auto simp: run_command_provider_def run_command_provider_async_def Let_def split: sum.splits prod.splits if_splits)

text \<open>The two runners agree on every exchange that does not fail.\<close>

lemma runners_agree:
  assumes "\<And>l p. xe_spawn xe l (request_payload (xe_trust xe) r) = Inr p \<Longrightarrow> \<not> exchange_fails s p"
  shows "run_command_provider_async xe s r source defaults = run_command_provider xe s r source defaults"
  using assms by (auto simp: run_command_provider_def run_command_provider_async_def split: sum.split prod.split)

lemma prepared:
  assumes "prepare_run xe s r = Inr (Inr (l, plan))"
  obtains vm command where "provider_runtime xe s (rx_root r) = Inr vm" "verified_command (xe_trust xe) s (rx_root r) = Inr command"
    "build_sandbox_plan (xe_sandbox xe) (cs_sandbox s) command (vm_cwd vm) (vm_writable vm) = Inr plan"
    "la_command l = sn_command plan" "la_cwd l = vm_cwd vm" "la_env l = vm_env vm"
  using assms by (auto simp: prepare_run_def split: sum.splits py_error.splits if_splits)

lemma below_join: "below base (join_path base x)"
  by (simp add: below_def join_path_def)

lemma below_self: "below base base"
  by (simp add: below_def)

text \<open>What a provider may write lies in its own temporary directory.\<close>

lemma runtime_writable:
  assumes "provider_runtime xe s base = Inr vm" "w \<in> set (vm_writable vm)"
  shows "\<exists>td. xe_temp xe = Some td \<and> below td w"
  using assms below_join below_self
  by (auto simp: provider_runtime_def Let_def rbind_Inr_iff split: if_splits option.splits)

lemma runtime_restricted:
  assumes "provider_runtime xe s base = Inr vm" "cs_profile s = ''restricted''"
  shows "\<exists>td executable. xe_temp xe = Some td \<and> (\<forall>k. vm_env vm k =
    (if k \<in> set RESTRICTED_RESERVED_ENV_KEYS then map_of (restricted_values (join_path td ''home'') (join_path td ''tmp'') executable) k
     else if k \<in> set RESTRICTED_BOOT_ENV_KEYS \<or> (k \<in> strip ` set (cs_env_allowlist s) \<and> k \<noteq> []) then xe_environ xe k else None))"
proof -
  obtain td executable env where "xe_temp xe = Some td" "vm_env vm = env"
    and e: "build_provider_env (xe_environ xe) (cs_env_allowlist s) ''restricted'' (Some (join_path td ''home'', join_path td ''tmp'', executable)) = Inr env"
    using assms by (auto simp: provider_runtime_def Let_def rbind_Inr_iff split: option.splits)
  then show ?thesis using restricted_environment [OF e] by blast
qed

section \<open>What is started\<close>

definition no_option :: "string \<Rightarrow> bool" where
  "no_option p = (\<not> starts_with p ''--'')"

text \<open>Absolute paths begin with a slash.\<close>

definition absolute_answers :: "runner_env \<Rightarrow> bool" where
  "absolute_answers xe = ((\<forall>q p. te_strict (xe_trust xe) q = Some p \<longrightarrow> no_option p) \<and> no_option (sx_python (xe_sandbox xe)))"

text \<open>The command line runs \<open>inner\<close> directly, or in a sandbox that \<open>bwrap\<close> reads as the policy says.\<close>

definition jailed :: "runner_env \<Rightarrow> sandbox_policy \<Rightarrow> string list \<Rightarrow> string list \<Rightarrow> bool" where
  "jailed xe policy inner command = (\<exists>path j. command = path # tl command \<and> sx_is_file (xe_sandbox xe) path
     \<and> read_jail open_jail (tl command) = Some j \<and> ja_argv j = limit_wrapper (xe_sandbox xe) inner (sy_limits policy)
     \<and> (\<forall>m \<in> set (ja_mounts j). m = (False, ''/'') \<or> (\<exists>td w. xe_temp xe = Some td \<and> below td w \<and> m = (True, sx_resolve (xe_sandbox xe) w)))
     \<and> (''net'' \<in> set (ja_unshared j) \<longleftrightarrow> sy_network policy = ''deny'') \<and> ja_dropped j = [''ALL''])"

lemma plan_cases:
  assumes "build_sandbox_plan env p command cwd ws = Inr plan" "\<not> sn_sandboxed plan"
  shows "sn_command plan = command"
  using assms by (auto simp: build_sandbox_plan_def guard_that_Inr_iff bare_plan_def split: if_splits option.splits)

lemma plan_jailed:
  assumes "build_sandbox_plan (xe_sandbox xe) policy inner cwd (vm_writable vm) = Inr plan" "sn_sandboxed plan"
    and "provider_runtime xe s base = Inr vm" "no_option (hd inner)" "no_option (sx_python (xe_sandbox xe))"
  shows "jailed xe policy inner (sn_command plan)"
proof -
  have "\<not> starts_with (hd (limit_wrapper (xe_sandbox xe) inner (sy_limits policy))) ''--''"
    using assms(4,5) by (simp add: limit_wrapper_def no_option_def)
  from plan_jail [OF assms(1,2) this] obtain path j where j: "sn_command plan = path # tl (sn_command plan)" "sx_is_file (xe_sandbox xe) path"
    "read_jail open_jail (tl (sn_command plan)) = Some j"
    "ja_mounts j = (False, ''/'') # map (Pair True) (filter (sx_exists (xe_sandbox xe)) (dedupe_paths (xe_sandbox xe) (vm_writable vm)))"
    "''net'' \<in> set (ja_unshared j) \<longleftrightarrow> sy_network policy = ''deny''" "ja_dropped j = [''ALL'']"
    "ja_argv j = limit_wrapper (xe_sandbox xe) inner (sy_limits policy)" by blast
  have "\<forall>m \<in> set (ja_mounts j). m = (False, ''/'') \<or> (\<exists>td w. xe_temp xe = Some td \<and> below td w \<and> m = (True, sx_resolve (xe_sandbox xe) w))"
    using runtime_writable [OF assms(3)] by (fastforce simp: j(4) dedupe_paths_def)
  then show ?thesis unfolding jailed_def using j by blast
qed

theorem launch_confined:
  assumes s: "resolve_project_provider te rt (rx_root q) raw default_name = Inr s"
    and u: "\<not> unsafe_repo_commands_enabled te" and l: "prepare_run xe s q = Inr (Inr (l, plan))"
    and a: "absolute_answers xe"
  shows "\<exists>p digest. cs_sha256 s = Some digest \<and> pinned_file (xe_trust xe) (rx_root q) digest p
    \<and> (if sn_sandboxed plan then jailed xe (cs_sandbox s) (p # tl (cs_command s)) (la_command l)
       else la_command l = p # tl (cs_command s) \<and> \<not> must_enforce (cs_sandbox s))"
proof -
  obtain digest v where d: "trusted_spec s" "cs_sha256 s = Some digest" and v: "policy_from_mapping rt v = Inr (cs_sandbox s)"
    using project_authority [OF s u] by blast
  show ?thesis
  proof (rule prepared [OF l])
    fix vm command
    assume vm: "provider_runtime xe s (rx_root q) = Inr vm" and c: "verified_command (xe_trust xe) s (rx_root q) = Inr command"
      and pl: "build_sandbox_plan (xe_sandbox xe) (cs_sandbox s) command (vm_cwd vm) (vm_writable vm) = Inr plan"
      and la: "la_command l = sn_command plan"
    obtain p where p: "command = p # tl (cs_command s)" "pinned_file (xe_trust xe) (rx_root q) digest p"
      "te_strict (xe_trust xe) (te_expand (xe_trust xe) (hd (cs_command s))) = Some p"
      using launch_ok [OF c d] by blast
    have o: "no_option (hd command)" "no_option (sx_python (xe_sandbox xe))" using a p unfolding absolute_answers_def by auto
    show ?thesis
    proof (cases "sn_sandboxed plan")
      case True
      then show ?thesis using plan_jailed [OF pl True vm o] d p la by auto
    next
      case False
      then show ?thesis using plan_cases [OF pl False] enforced_plan [OF v _ pl] d p la by auto
    qed
  qed
qed

theorem launch_environment:
  assumes "prepare_run xe s r = Inr (Inr (l, plan))" "cs_profile s = ''restricted''"
  shows "\<exists>td executable. xe_temp xe = Some td \<and> (\<forall>k. la_env l k =
    (if k \<in> set RESTRICTED_RESERVED_ENV_KEYS then map_of (restricted_values (join_path td ''home'') (join_path td ''tmp'') executable) k
     else if k \<in> set RESTRICTED_BOOT_ENV_KEYS \<or> (k \<in> strip ` set (cs_env_allowlist s) \<and> k \<noteq> []) then xe_environ xe k else None))"
proof (rule prepared [OF assms(1)])
  fix vm
  assume vm: "provider_runtime xe s (rx_root r) = Inr vm" and la: "la_env l = vm_env vm"
  show ?thesis unfolding la by (rule runtime_restricted [OF vm assms(2)])
qed

section \<open>What a run delivers\<close>

lemma exchanged_exact:
  assumes "[] \<notin> set (xp_stdout p)" "[] \<notin> set (xp_stderr p)"
  shows "xc_output (exchanged s p) = take (nat (cs_max_output s)) (concat (xp_stdout p))"
    "xc_exceeded (exchanged s p) \<longleftrightarrow> nat (cs_max_output s) < length (concat (xp_stdout p))"
    "xc_stderr (exchanged s p) = last_n (nat (cs_max_stderr s)) (concat (xp_stderr p))"
    "nat (cs_max_stderr s) < length (concat (xp_stderr p)) \<Longrightarrow> xc_stderr_cut (exchanged s p)"
proof -
  have parts: "xc_output (exchanged s p) = fst (bounded_read (nat (cs_max_output s)) [] (xp_stdout p) (xp_stdout_end p))"
    "xc_exceeded (exchanged s p) = snd (bounded_read (nat (cs_max_output s)) [] (xp_stdout p) (xp_stdout_end p))"
    "xc_stderr (exchanged s p) = fst (bounded_tail_read (nat (cs_max_stderr s)) [] False (xp_stderr p) (xp_stderr_end p))"
    "xc_stderr_cut (exchanged s p) = snd (bounded_tail_read (nat (cs_max_stderr s)) [] False (xp_stderr p) (xp_stderr_end p))"
    by (simp_all add: exchanged_def split: prod.split)
  show "xc_output (exchanged s p) = take (nat (cs_max_output s)) (concat (xp_stdout p))"
    "xc_exceeded (exchanged s p) \<longleftrightarrow> nat (cs_max_output s) < length (concat (xp_stdout p))"
    using bounded_read_exact [OF assms(1), of "[]" "nat (cs_max_output s)"] by (simp_all add: parts)
  show "xc_stderr (exchanged s p) = last_n (nat (cs_max_stderr s)) (concat (xp_stderr p))"
    using bounded_tail_read_exact [OF assms(2), of "[]" "nat (cs_max_stderr s)"] by (simp add: parts)
  show "nat (cs_max_stderr s) < length (concat (xp_stderr p)) \<Longrightarrow> xc_stderr_cut (exchanged s p)"
    using tail_cut_reported [OF assms(2), of "[]" "nat (cs_max_stderr s)"] by (simp add: parts)
qed

lemma failed_results: "pr_error (failed_result s t kind msg) = Some msg" "pr_error (empty_result s t) = None" "pr_items (empty_result s t) = []"
  by (simp_all add: failed_result_def empty_result_def)

lemma finished_error: "pr_error (finished_run xe s r source defaults plan x timed_out returncode)
    = pr_error (classify_run xe s r source defaults x timed_out returncode)"
  "pr_items (finished_run xe s r source defaults plan x timed_out returncode)
    = pr_items (classify_run xe s r source defaults x timed_out returncode)"
  by (simp_all add: finished_run_def attach_sandbox_state_def attach_stderr_def split: prod.split)

lemma classified_ok:
  assumes "pr_error (classify_run xe s r source defaults x timed_out returncode) = None"
  shows "\<not> xc_exceeded x \<and> \<not> timed_out \<and> returncode = 0
    \<and> (\<exists>records. context_items (xe_resolve xe) (te_resolve (xe_trust xe) (rx_root r)) records source (rx_limit r) (cs_name s) (cs_trust s) defaults
        = Inr (pr_items (classify_run xe s r source defaults x timed_out returncode)))"
  using assms
  by (auto simp: classify_run_def result_from_bytes_def Let_def failed_results rbind_Inr_iff split: if_splits sum.splits)

text \<open>How a stream ended leaves no trace in the result.\<close>

definition read_until :: "stream_end \<Rightarrow> runner_env \<Rightarrow> runner_env" where
  "read_until stop xe = xe\<lparr>xe_spawn := \<lambda>l q. map_sum id (\<lambda>p. p\<lparr>xp_stdout_end := stop\<rparr>) (xe_spawn xe l q)\<rparr>"

lemma end_not_seen: "run_command_provider (read_until stop xe) s r source defaults = run_command_provider xe s r source defaults"
proof -
  have read: "bounded_read limit acc chunks stop = bounded_read limit acc chunks stop'" for limit acc chunks stop'
    by (induction limit acc chunks stop rule: bounded_read.induct) auto
  have ex: "exchanged s (p\<lparr>xp_stdout_end := stop\<rparr>) = exchanged s p" for p
    by (simp add: exchanged_def read [of _ _ _ "xp_stdout_end p"])
  have same: "xe_trust (read_until stop xe) = xe_trust xe" "xe_sandbox (read_until stop xe) = xe_sandbox xe"
    "xe_environ (read_until stop xe) = xe_environ xe" "xe_temp (read_until stop xe) = xe_temp xe" "xe_parse (read_until stop xe) = xe_parse xe"
    "xe_decode (read_until stop xe) = xe_decode xe" "xe_decode_ignore (read_until stop xe) = xe_decode_ignore xe"
    "xe_resolve (read_until stop xe) = xe_resolve xe" "xe_elapsed (read_until stop xe) = xe_elapsed xe" "xe_fmt (read_until stop xe) = xe_fmt xe"
    by (simp_all add: read_until_def)
  have "prepare_run (read_until stop xe) s r = prepare_run xe s r"
    unfolding prepare_run_def provider_runtime_def directory_error_def same ..
  moreover have "finished_run (read_until stop xe) s r source defaults plan x t c = finished_run xe s r source defaults plan x t c" for plan x t c
    unfolding finished_run_def classify_run_def attach_stderr_def redact_stderr_def result_from_bytes_def same ..
  ultimately show ?thesis
    by (auto simp: run_command_provider_def launch_failed_def read_until_def ex [unfolded read_until_def] split: sum.split)
qed

text \<open>A run that reports no error: the process exited with status 0 in time, what was read is within the limit, and the items
  are checked, in the order of their scores and within the limit of the request.\<close>

theorem ok_run_checked:
  assumes "run_command_provider xe s r source defaults = (Inr res, launched)" "result_ok res" "0 \<le> rx_limit r"
  shows "\<exists>l p. launched = Some l \<and> xe_spawn xe l (request_payload (xe_trust xe) r) = Inr p \<and> \<not> xp_timed_out p \<and> xp_returncode p = 0
    \<and> \<not> xc_exceeded (exchanged s p) \<and> int (length (pr_items res)) \<le> rx_limit r \<and> sorted (map (\<lambda>i. - ci_score i) (pr_items res))
    \<and> (\<forall>i \<in> set (pr_items res). checked_item (xe_resolve xe) (te_resolve (xe_trust xe) (rx_root r)) source (cs_name s) (cs_trust s) i)"
proof -
  have no: "prepare_run xe s r \<noteq> Inr (Inl res)"
    using assms(2) by (auto simp: prepare_run_def result_ok_def failed_results sandbox_unavailable_result_def directory_error_def
        split: sum.splits py_error.splits if_splits)
  obtain l plan where l: "prepare_run xe s r = Inr (Inr (l, plan))" "launched = Some l"
    using assms(1) no by (auto simp: run_command_provider_def split: sum.splits)
  obtain p where p: "xe_spawn xe l (request_payload (xe_trust xe) r) = Inr p"
    and res: "res = finished_run xe s r source defaults plan (exchanged s p) (xp_timed_out p) (xp_returncode p)"
    using assms(1,2) l(1)
    by (auto simp: run_command_provider_def launch_failed_def attach_sandbox_state_def result_ok_def failed_results split: sum.splits)
  have "pr_error (classify_run xe s r source defaults (exchanged s p) (xp_timed_out p) (xp_returncode p)) = None"
    using assms(2) by (simp add: res result_ok_def finished_error)
  from classified_ok [OF this] obtain records where "\<not> xc_exceeded (exchanged s p)" "\<not> xp_timed_out p" "xp_returncode p = 0"
    "context_items (xe_resolve xe) (te_resolve (xe_trust xe) (rx_root r)) records source (rx_limit r) (cs_name s) (cs_trust s) defaults
      = Inr (pr_items res)" by (auto simp: res finished_error)
  then show ?thesis using context_items_checked [OF _ assms(3)] l(2) p by blast
qed

section \<open>What redaction misses\<close>

text \<open>The credentials of any scheme but \<open>Bearer\<close> stay: only the name of the scheme is replaced.\<close>

theorem redaction_keeps_basic:
  "redact_text (\<lambda>_. None) [] ''Authorization: Basic QWxh'' = ''Authorization: [REDACTED] QWxh''"
  by code_simp

text \<open>The error output is cut before its secrets are replaced: a value that the cut goes through is not recognised.\<close>

theorem redaction_after_cut:
  "redact_text [''KEY'' \<mapsto> ''abcdef''] [''KEY''] (last_n 8 ''key abcdef ok'') = ''bcdef ok''"
  by code_simp

end
