(* ===== verification/ProviderExamples.thy ===== *)
theory ProviderExamples
  imports ProviderProps Examples
begin

text \<open>
  A provider of the user's registry, with a required sandbox, and a project that selects it, for the witnesses.
\<close>

definition demo_pin :: string where
  "demo_pin = replicate 64 (CHR ''a'')"

definition demo_registry :: json where
  "demo_registry = JDict [(''providers'', JDict [(''docs'', JDict [(''command'', JList [JStr ''/opt/docs'', JStr ''--serve'']),
     (''sha256'', JStr demo_pin), (''sandbox'', JDict [(''mode'', JStr ''required''), (''network'', JStr ''deny'')])])])]"

definition demo_trust :: trust_env where
  "demo_trust = \<lparr>te_getenv = (\<lambda>_. None), te_windows = False, te_home = ''/home/u'', te_uid = Some 1000, te_expand = (\<lambda>p. p),
     te_absolute = (\<lambda>p. starts_with p ''/''), te_abspath = (\<lambda>p. p), te_resolve = (\<lambda>p. p),
     te_strict = (\<lambda>p. if starts_with p ''/'' then Some p else None), te_symlink = (\<lambda>_. False), te_is_file = (\<lambda>_. True),
     te_digest = (\<lambda>_. Some demo_pin), te_registry = (\<lambda>_. Registry 33152 1000 (Holds demo_registry))\<rparr>"

definition demo_project :: "json dict" where
  "demo_project = [(''name'', JStr ''docs''), (''provider_id'', JStr ''docs''), (''timeout_seconds'', JInt 3)]"

definition demo_sandbox :: sandbox_env where
  "demo_sandbox = \<lparr>sx_linux = True, sx_which = (\<lambda>n. Some (''/usr/bin/'' @ n)), sx_resolve = (\<lambda>p. p), sx_is_file = (\<lambda>_. True),
     sx_exists = (\<lambda>_. True), sx_run = (\<lambda>_. Some 0), sx_python = ''/usr/bin/python3''\<rparr>"

definition demo_stdout :: string where
  "demo_stdout = ''[{\"text\": \"lock\", \"score\": 0.5, \"path\": \"../x\"}]''"

definition demo_process :: process where
  "demo_process = \<lparr>xp_stdout = [demo_stdout], xp_stdout_end = Closed, xp_stderr = [], xp_stderr_end = Closed, xp_timed_out = False, xp_returncode = 0, xp_exchange_fails = False\<rparr>"

definition demo_record :: "json dict" where
  "demo_record = [(''text'', JStr ''lock''), (''score'', JFloat (Fin (1/2))), (''path'', JStr ''../x'')]"

definition demo_answer :: json where
  "demo_answer = JList [JDict demo_record]"

definition demo_runner :: runner_env where
  "demo_runner = \<lparr>xe_trust = demo_trust, xe_sandbox = demo_sandbox, xe_environ = (\<lambda>_. None), xe_temp = Some ''/tmp/p'',
     xe_spawn = (\<lambda>_ _. Inr demo_process), xe_parse = (\<lambda>s. if s = demo_stdout then Tree demo_answer else NotJson),
     xe_decode = (\<lambda>s. s), xe_decode_ignore = (\<lambda>s. s),
     xe_resolve = Some, xe_elapsed = Fin 1, xe_fmt = (\<lambda>_. [])\<rparr>"

definition demo_retrieval :: retrieval_request where
  "demo_retrieval = \<lparr>rx_query = ''lock'', rx_root = ''/ws'', rx_limit = 5, rx_intent = ''mixed'', rx_timeout = Fin 8,
     rx_changed_files = [], rx_metadata = []\<rparr>"

lemma demo_trust_safe: "\<not> unsafe_repo_commands_enabled demo_trust"
  by code_simp

definition demo_provider :: provider_spec where
  "demo_provider = \<lparr>cs_name = ''docs'', cs_command = [''/opt/docs'', ''--serve''], cs_timeout = Fin 3, cs_max_output = 8388608,
     cs_max_stderr = 65536, cs_intents = [''all''], cs_env_allowlist = [], cs_trust = ''trusted_registry_digest'',
     cs_sha256 = Some demo_pin, cs_neutral_cwd = True, cs_version = ''unknown'', cs_semantics = default_semantics,
     cs_profile = ''restricted'',
     cs_sandbox = \<lparr>sy_mode = ''required'', sy_backend = ''auto'', sy_network = ''deny'', sy_limits = no_limits\<rparr>\<rparr>"

lemma demo_provider_resolved: "resolve_project_provider demo_trust demo_rt ''/ws'' demo_project ''provider'' = Inr demo_provider"
  by code_simp

lemma demo_absolute: "absolute_answers demo_runner"
  by (auto simp: absolute_answers_def no_option_def demo_runner_def demo_trust_def demo_sandbox_def starts_with_iff split: if_splits)

lemma demo_run_prepared: "\<exists>l plan. prepare_run demo_runner demo_provider demo_retrieval = Inr (Inr (l, plan)) \<and> sn_sandboxed plan"
proof -
  have v: "verified_command demo_trust demo_provider ''/ws'' = Inr [''/opt/docs'', ''--serve'']" by code_simp
  have "case build_sandbox_plan demo_sandbox (cs_sandbox demo_provider) [''/opt/docs'', ''--serve''] ''/tmp/p/cwd''
      [''/tmp/p/home'', ''/tmp/p/tmp'', ''/tmp/p/cwd''] of Inr plan \<Rightarrow> sn_sandboxed plan | Inl _ \<Rightarrow> False" by code_simp
  then obtain plan where plan: "build_sandbox_plan demo_sandbox (cs_sandbox demo_provider) [''/opt/docs'', ''--serve''] ''/tmp/p/cwd''
      [''/tmp/p/home'', ''/tmp/p/tmp'', ''/tmp/p/cwd''] = Inr plan" "sn_sandboxed plan" by (auto split: sum.splits)
  have joins: "join_path ''/tmp/p'' ''home'' = ''/tmp/p/home''" "join_path ''/tmp/p'' ''tmp'' = ''/tmp/p/tmp''"
    "join_path ''/tmp/p'' ''cwd'' = ''/tmp/p/cwd''" by code_simp+
  have p: "lower (strip ''restricted'') = ''restricted''" by code_simp
  have "\<exists>env. build_provider_env (xe_environ demo_runner) (cs_env_allowlist demo_provider) ''restricted'' (Some d) = Inr env" for d
    by (cases d) (simp add: build_provider_env_def p RUNTIME_PROFILES_def guard_that_def)
  then obtain env where "build_provider_env (xe_environ demo_runner) (cs_env_allowlist demo_provider) ''restricted''
      (Some (''/tmp/p/home'', ''/tmp/p/tmp'', ''/opt/docs'')) = Inr env" by blast
  then have "provider_runtime demo_runner demo_provider ''/ws''
      = Inr \<lparr>vm_cwd = ''/tmp/p/cwd'', vm_env = env, vm_writable = [''/tmp/p/home'', ''/tmp/p/tmp'', ''/tmp/p/cwd'']\<rparr>"
    using joins by (simp add: provider_runtime_def demo_runner_def demo_provider_def demo_trust_def Let_def)
  moreover have "rx_root demo_retrieval = ''/ws''" "xe_trust demo_runner = demo_trust" "xe_sandbox demo_runner = demo_sandbox"
    by (simp_all add: demo_retrieval_def demo_runner_def)
  ultimately show ?thesis using v plan by (simp add: prepare_run_def)
qed

lemma demo_exchanged: "xc_exceeded (exchanged demo_provider demo_process) = False" "xc_output (exchanged demo_provider demo_process) = demo_stdout"
  by (simp_all add: exchanged_exact demo_process_def demo_provider_def demo_stdout_def)

lemmas protocol_limits = MAX_PROVIDER_NESTING_DEPTH_def MAX_PROVIDER_METADATA_STRING_CHARS_def MAX_PROVIDER_CONTAINER_ITEMS_def
  MAX_PROVIDER_METADATA_ENTRIES_def MAX_PROVIDER_FIELD_CHARS_def MAX_PROVIDER_RECORDS_def MAX_PROVIDER_ITEM_FIELDS_def
  MAX_PROVIDER_TEXT_CHARS_def

lemma demo_record_valid: "validate_json_value (JDict demo_record) n = shallow n (if n < 8 then Inr () else validate_json_value (JDict demo_record) n)"
  by (simp add: demo_record_def protocol_limits shallow_def check_member_def guard_that_def fl_finite_def)

lemma demo_provider_records: "parse_records (\<lambda>t. if t = s then Tree (JList [JDict demo_record]) else NotJson) s = Inr [demo_record]"
proof -
  have "hooks_accept (JList [JDict demo_record])" by (simp add: demo_record_def dkeys_def fl_finite_def)
  moreover have "validate_json_value (JList [JDict demo_record]) 0 = Inr ()"
    using demo_record_valid [of 1] by (simp add: protocol_limits shallow_def guard_that_def)
  ultimately show ?thesis
    by (simp add: parse_records_def strict_json_loads_def payload_records_def protocol_limits guard_that_def is_dict_def as_dict_def
        List.map_filter_simps del: hooks_accept.simps validate_json_value.simps)
qed

lemma demo_items: "\<exists>i. context_items resolve base [demo_record] ''docs'' 5 ''docs'' ''trusted_registry_digest'' [] = Inr [i]"
proof -
  have v: "validate_json_value (JDict demo_record) 0 = Inr ()" using demo_record_valid [of 0] by (simp add: protocol_limits shallow_def)
  have st: "strip ''lock'' = ''lock''" by code_simp
  have "\<exists>i. context_item_of resolve base ''docs'' ''docs'' ''trusted_registry_digest'' [] demo_record = Inr (Some i)"
    by (simp add: context_item_of_def v record_text_def st protocol_limits guard_that_def object_field_def bounded_field_def provider_score_def
        del: validate_json_value.simps) (simp add: demo_record_def dict_simps bounded_field_def provider_score_def object_field_def protocol_limits guard_that_def st)
  then show ?thesis by (auto simp: context_items_def slice_to_def)
qed

lemma demo_run_ok:
  "\<exists>res l. run_command_provider demo_runner demo_provider demo_retrieval ''docs'' [] = (Inr res, Some l) \<and> result_ok res
    \<and> length (pr_items res) = 1"
proof -
  obtain l plan where l: "prepare_run demo_runner demo_provider demo_retrieval = Inr (Inr (l, plan))" using demo_run_prepared by blast
  have sp: "xe_spawn demo_runner x y = Inr demo_process"
    "xp_timed_out demo_process = False" "xp_returncode demo_process = 0" "xe_parse demo_runner = (\<lambda>t. if t = demo_stdout then Tree (JList [JDict demo_record]) else NotJson)"
    "xe_decode demo_runner = (\<lambda>s. s)" "xe_trust demo_runner = demo_trust" for x y
    by (simp_all add: demo_runner_def demo_process_def demo_answer_def cong: if_cong)
  have f: "cs_name demo_provider = ''docs''" "cs_trust demo_provider = ''trusted_registry_digest''" "rx_limit demo_retrieval = 5"
    by (simp_all add: demo_provider_def demo_retrieval_def)
  have st: "strip demo_stdout \<noteq> []" by code_simp
  obtain i where i: "context_items (xe_resolve demo_runner) (te_resolve demo_trust (rx_root demo_retrieval)) [demo_record] ''docs'' 5 ''docs''
      ''trusted_registry_digest'' [] = Inr [i]" using demo_items by blast
  have c: "classify_run demo_runner demo_provider demo_retrieval ''docs'' [] (exchanged demo_provider demo_process) False 0
      = (empty_result demo_provider (xe_elapsed demo_runner))\<lparr>pr_items := [i], pr_returncode := Some 0\<rparr>"
    using st i by (simp add: classify_run_def demo_exchanged result_from_bytes_def sp f demo_provider_records)
  show ?thesis using l by (simp add: run_command_provider_def sp result_ok_def finished_error c failed_results)
qed

end
