(* ===== verification/Spec2Isabelle.thy ===== *)
theory Spec2Isabelle
  imports LearningExamples LockProtocol EngineExamples PipelineExamples EngineJournal StoreExamples ProviderExamples
begin

text \<open>
  A verification development for the control plane \<open>ai_workflow\<close> (Python): the program that gathers context for a
  coding model, decides which retrieval policy serves a request, records what happened, learns from it, and says what
  the model may do.

  Parts of the program and the theories that model them (files under \<open>src/ai_workflow\<close>; a definition has the name of the
  function or class it models wherever Isabelle allows it):

  \<^item> Python.  \<open>Prelude\<close>, \<open>PyJson\<close>, \<open>PyText\<close>, \<open>Patterns\<close>, \<open>ReadBack\<close>: exceptions are values of \<open>py_error\<close> and a function
    that may raise returns \<open>py_error + 'a\<close>; JSON values are the type \<open>json\<close>, dictionaries keep their insertion order;
    \<open>str\<close>, \<open>int\<close>, \<open>float\<close>, truth values and \<open>==\<close> are functions on \<open>json\<close>; \<open>canonical\<close> is \<open>json.dumps\<close> with sorted keys; the
    regular expressions of the program are a matcher with positions.
  \<^item> Data.  \<open>Domain\<close>: \<open>models.py\<close>, the data of \<open>evidence.py\<close>.  \<open>ContextFeatures\<close>: \<open>contextual_features.py\<close>.
  \<^item> Configuration.  \<open>Configuration\<close>, \<open>ConfigProps\<close>: \<open>config.py\<close>, \<open>typed_config.py\<close> (built-in values, migration, validation,
    loading) and what an accepted configuration guarantees to its readers.
  \<^item> Deployment.  \<open>Signing\<close> (contract \<open>sealed_document\<close>), \<open>PolicyManifest\<close>: \<open>policy_manifest.py\<close>.  \<open>DeploymentState\<close>,
    \<open>DeploymentStateProps\<close>, \<open>DeploymentTransitions\<close>, \<open>DeploymentRuns\<close>: the state machine of \<open>deployment_state.py\<close>, what its
    verifier accepts, transitions and runs of them (contract \<open>versioned\<close>).  \<open>DeploymentStore\<close>: its file operations, one
    process at a time, with how each system call of them ends as the argument \<open>store_io\<close>, and sequences of updates;
    \<open>LockProtocol\<close>: the lock directory and its recovery when the calls of many processes interleave, fail and crash.  \<open>Statistics\<close>,
    \<open>Guardrails\<close>, \<open>GuardrailProps\<close>: \<open>deployment_statistics.py\<close>, \<open>deployment_guardrails.py\<close>.  \<open>Incident\<close>, \<open>DeploymentRuntime\<close>,
    \<open>RuntimeProps\<close>: \<open>deployment_incident.py\<close>, \<open>deployment_runtime.py\<close>.
  \<^item> Learning.  \<open>WriteOnce\<close>: the JSON files of \<open>io_utils.py\<close> (contract \<open>write_once\<close>).  \<open>ProductionStore\<close>:
    \<open>production_store.py\<close> (contract of an append-only log).  \<open>Learning\<close>, \<open>LearningProps\<close>: \<open>retrieval_learning.py\<close>,
    \<open>outcome_verification.py\<close>.  \<open>OffPolicy\<close>, \<open>OffPolicyProps\<close>: \<open>learning_ope.py\<close>.  \<open>ContextualPolicy\<close>,
    \<open>ContextualProps\<close>: \<open>contextual_policy.py\<close>.  \<open>ShadowPolicy\<close>: \<open>shadow_policy.py\<close>.
  \<^item> Retrieval.  \<open>Routing\<close>: \<open>classifier.py\<close>, \<open>budget.py\<close>, \<open>orchestration.py\<close>; \<open>ContractPolicy\<close>: the contract as the gate reads
    it.  \<open>RetrievalPolicy\<close>: \<open>retrieval_policy.py\<close>, \<open>task_retrieval.py\<close>.  \<open>Fusion\<close>: \<open>math_retrieval.py\<close>.  \<open>Selection\<close>,
    \<open>SelectionProps\<close>: \<open>context_selection.py\<close>.  \<open>Evidence\<close>: \<open>evidence.py\<close>, \<open>selective_retrieval.py\<close>.  \<open>Scheduler\<close>:
    \<open>retrieval_scheduler.py\<close>, \<open>retrieval_contracts.py\<close>.  \<open>PathPolicy\<close>: \<open>path_policy.py\<close>.  \<open>Registry\<close>,
    \<open>RepositoryRouting\<close>: \<open>repository_registry.py\<close>, \<open>repository_graph.py\<close>, \<open>multi_repo_retrieval.py\<close>.  \<open>RetrievalCache\<close>:
    \<open>execution_semantics.py\<close>, \<open>retrieval_cache.py\<close>.
  \<^item> Providers.  \<open>Sandbox\<close>: \<open>provider_sandbox.py\<close>, \<open>provider_sandbox_exec.py\<close>.  \<open>ProviderTrust\<close>: \<open>provider_registry.py\<close> and the
    verification at launch.  \<open>ProviderSpec\<close>, \<open>ProviderProtocol\<close>, \<open>ProviderRun\<close>, \<open>ProviderProps\<close>: \<open>provider_runner.py\<close>
    (specifications and environments; readers, strict JSON, items; the run, sandbox and redaction; their properties).
  \<^item> The engine.  \<open>EngineParts\<close>, \<open>Engine\<close>, \<open>EngineProps\<close>: \<open>gather_detailed_async\<close> of \<open>workflow_engine.py\<close> and
    \<open>retriever_plugins.py\<close>; \<open>EngineJournal\<close>: the journal it writes, with \<open>context_economics.py\<close>.
  \<^item> Audit and memory.  \<open>CapabilityGate\<close>, \<open>GateProps\<close>: \<open>capability_gate.py\<close>.  \<open>RunJournal\<close>, \<open>JournalProps\<close>:
    \<open>run_journal.py\<close>.  \<open>Provenance\<close>: \<open>provenance.py\<close> (the contract \<open>write_once\<close> again).  \<open>MemoryStore\<close>, \<open>Memory\<close>: \<open>memory_store.py\<close>,
    \<open>memory.py\<close>.  \<open>BenchmarkRegression\<close>: \<open>benchmark_regression.py\<close>.
  \<^item> \<open>Examples\<close>, \<open>RuntimeExamples\<close>, \<open>LearningExamples\<close>, \<open>RetrievalExamples\<close>, \<open>EngineExamples\<close>, \<open>PipelineExamples\<close>,
    \<open>StoreExamples\<close>, \<open>ProviderExamples\<close>: concrete documents, runs, providers and configurations for the witnesses.

  How they interact.  The configuration gives the budgets, limits and providers of a run.  A run of the engine classifies
  the task, routes it over the registered repositories and their graph, asks the providers through the scheduler (an
  external one is named by the project, gets its authority from the user's registry, runs as a sandboxed process, and its
  output is checked record by record), ranks
  and selects what they return under the budget, binds each item in an evidence envelope, judges the evidence, and
  derives a contract and a capability policy, which the gate enforces on the model's actions; the journal holds it all.
  The learning layer logs the decision before it takes effect and later its verified outcome, and mirrors both into the
  production store.  The logged records are evaluated off policy, a contextual policy is learned from them, its report
  is signed as a manifest, a shadow evaluation on later records approves a deployment, and the deployment climbs its
  canary stages on guardrail reports computed from the learning records.  The runtime reads the deployment state, may
  roll it back, and assigns each request its arm.

  What the sections below show.  Deployment, the state file, the runtime: every document that can arise verifies,
  promotions need passing evidence, runs end, updates are compare-and-set and none is lost, the lock is a mutex as long as
  no recovery overlaps with the making or removal of a lock directory and is none otherwise, and a request gets a candidate
  arm only under all guards.  The context of a request and the repositories: where
  evidence comes from, that it fits the budget, that the gates agree, that a run returns and that its journal replays when it
  is within the size the reader accepts.
  The processes of providers: whose executable runs, under which jail and environment, and what is read of it.
  The configuration: what the validation covers is read as it is written, and survives migration and reloading.  The evidence
  for a policy, learning, the production store: what a recommendation, a manifest and an approval rest on, that the
  logged propensities are those of the draw, and that the logs agree.  The stores: round trips, a refinement of a map,
  exactness of staleness and of the benchmark gate.  The capability gate, the journal, retrieval: exact scopes and the
  equivalence of the lazy selection with the greedy one.  Numbered statements are the main ones; the others state
  further contracts of the same components.

  Idealisations.  Floats are exact rationals with the special values of IEEE 754 beside them (\<open>pyfloat\<close>), rounding to
  decimals is exact half-even; strings have code points below 256; SHA-256, HMAC and the decimal text of a float are
  fields of the record \<open>runtime\<close>, so a property about digests says ``or a collision is at hand''.  Clocks, fresh
  identifiers, random draws, the logarithm and the square root, timestamp and URL parsing, \<open>Path.resolve\<close>, the
  answers of providers and of Git, what a started process writes, how the system cuts it into chunks and how its streams end
  for their readers, the tree \<open>json.loads\<close> makes of a text, and the decoding of UTF-8 are arguments, so every theorem holds
  for each of them.  Failures of the system are arguments as far as the theories name them: each call of the deployment store
  and its lock (\<open>store_io\<close>), the writes of the JSON stores (\<open>publish_outcome\<close>), the statements of the two databases, the
  temporary directory and the start of a process.  Reading a file gives its document, or one value for everything that is no
  JSON document; that text which is no UTF-8 raises is told apart in the retrieval cache only.  Integers are unbounded also
  where \<open>json.dumps\<close> refuses more than 4300 digits.
  A call of the scheduler is a duration and an outcome; \<open>heapq\<close> is a sorted list.  The lease of
  the lock is 300 clock units, the seconds of the code.

  Bounds and termination.  Nothing has fuel.  The lazy selection loop is a \<open>partial_function\<close>, shown to return on every
  input; the other loops are structural or have a measure.  The retries of the memory store are the at most eight of
  the code, with at most seven pauses of at most 0.4 seconds.

  Not modelled: the threads and tasks that read a process and the termination of its tree, the context broker with its
  searches, the wrappers of the code graph and the indexes, which are calls into the operating system and external tools;
  the command line and the set-up,
  which parse arguments, copy files and print; the benchmarks but for their regression gate, which run the program on
  repositories and compare reports; telemetry and its export; the checks of the working tree, which call Git.  The
  manifest names each with its reason.
\<close>

section \<open>Deployment of a retrieval policy\<close>

text \<open>C1: every deployment document that approval and transitions can produce verifies under the
  signing key, and its history is the audit trail of its stage: the promoted stages in order, with
  consecutive generations, followed by nothing or by one rollback.\<close>

theorem reachable_deployment_valid:
  assumes "reachable_deployment rt key s"
  shows "state_ok rt s key \<and> trail_ok rt s"
  using reachable_state_ok reachable_trail_ok assms by blast

theorem reachable_deployment_valid_witness: "state_ok demo_rt demo_canary demo_key \<and> trail_ok demo_rt demo_canary"
  by (rule reachable_deployment_valid [OF demo_reachable])

text \<open>C2: a live deployment is promoted only on a passing report about this very document: its stage, policy and
  generation.  When that report is the one that learning records give, the records hold the evidence: at least the required
  number of verified outcomes of live rows assigned to the candidate, a failure rate within the limit, the required number of
  clusters, no reason for a rollback, no budget exhausted, no invalid context and no monitoring violation, all under the
  guardrails and the policy of the document.\<close>

theorem promotion_needs_passing_evidence:
  assumes "state_ok rt s key" "state_stage rt s \<in> set LIVE_STAGES" "strip to_stage \<noteq> ''rolled_back''"
    and "transition_deployment_state rt now s key to_stage actor r reason = Inr t"
  shows "(\<exists>rep gate. dget NEXT_STAGE (state_stage rt s) = Some (strip to_stage) \<and> r = JDict rep \<and> jget rep ''gate'' = JDict gate
        \<and> truthy (jget gate ''safe_to_advance'') \<and> py_eq (jget rep ''policy_id'') (jget s ''policy_id'')
        \<and> py_eq (jget rep ''state_generation'') (jget s ''generation'') \<and> py_eq (jget rep ''stage'') (JStr (state_stage rt s)))
    \<and> (\<forall>records radius draw report. r = JDict report \<and> evaluate_live_guardrails rt radius draw records s key = Inr report \<longrightarrow>
        (\<exists>guardrails g v. own_evidence rt radius draw records s guardrails g \<and> judge rt (state_stage rt s) guardrails g = Inr v
          \<and> jget report ''gate'' = JDict (gate_json v) \<and> jget report ''exposure'' = exposure_json (gu_exposure g)
          \<and> passing_evidence rt records s guardrails g v))"
proof (intro conjI allI impI)
  show "\<exists>rep gate. dget NEXT_STAGE (state_stage rt s) = Some (strip to_stage) \<and> r = JDict rep \<and> jget rep ''gate'' = JDict gate
      \<and> truthy (jget gate ''safe_to_advance'') \<and> py_eq (jget rep ''policy_id'') (jget s ''policy_id'')
      \<and> py_eq (jget rep ''state_generation'') (jget s ''generation'') \<and> py_eq (jget rep ''stage'') (JStr (state_stage rt s))"
    by (rule promotion_report [OF assms(4,3,2)]) blast
  fix records radius draw report
  assume r: "r = JDict report \<and> evaluate_live_guardrails rt radius draw records s key = Inr report"
  show "\<exists>guardrails g v. own_evidence rt radius draw records s guardrails g \<and> judge rt (state_stage rt s) guardrails g = Inr v
      \<and> jget report ''gate'' = JDict (gate_json v) \<and> jget report ''exposure'' = exposure_json (gu_exposure g)
      \<and> passing_evidence rt records s guardrails g v"
    by (rule promotion_evidence [OF assms(1-3) conjunct2 [OF r] assms(4) [unfolded conjunct1 [OF r]]]) blast
qed

theorem promotion_needs_passing_evidence_witness:
  "py_eq (jget demo_pass ''state_generation'') (jget demo_canary ''generation'')"
proof -
  obtain t where t: "transition_deployment_state demo_rt ''t3'' demo_canary demo_key ''canary_5'' ''ops'' (JDict demo_pass) None = Inr t"
    using demo_promotes by blast
  have "state_stage demo_rt demo_canary \<in> set LIVE_STAGES" by (simp add: demo_canary_fields LIVE_STAGES_def)
  moreover have "strip ''canary_5'' \<noteq> ''rolled_back''" by code_simp
  ultimately show ?thesis using promotion_needs_passing_evidence [OF demo_canary_ok _ _ t] by blast
qed

text \<open>A guardrail report serves one promotion only: once the deployment has moved on, the report
  that opened the gate opens it for no later live state.\<close>

theorem guardrail_report_not_reusable:
  assumes "state_ok rt s key" "gate_open s (state_stage rt s) u report" "u \<noteq> ''rolled_back''"
    and "state_stage rt s \<in> set LIVE_STAGES"
    and "(deployment_step rt key)\<^sup>+\<^sup>+ s t" "state_ok rt t key"
    and "state_stage rt t \<in> set LIVE_STAGES" "v \<noteq> ''rolled_back''"
  shows "\<not> gate_open t (state_stage rt t) v report"
  by (rule report_not_reusable [OF assms])

text \<open>C3: every run of transitions from a valid document ends: it climbs the stage order, counts one
  generation per step and has at most as many steps as there are stages left; after a rollback
  there are none.\<close>

theorem deployment_runs_end:
  assumes "state_ok rt s key" "(deployment_step rt key ^^ n) s t"
  shows "n + stage_rank (state_stage rt s) \<le> 5 \<and> generation_of t = generation_of s + int n
    \<and> state_ok rt t key"
proof -
  have "stage_rank (state_stage rt s) \<le> 5" by (rule stage_rank_le)
  then show ?thesis
    using deployment.steps_bounded [OF assms(2,1)] deployment.steps_gen [OF assms(2)]
      deployment.steps_valid [OF assms(2,1)] by simp
qed

theorem deployment_runs_end_witness:
  "1 + stage_rank (state_stage demo_rt demo_approved) \<le> 5
    \<and> generation_of demo_canary = generation_of demo_approved + int 1 \<and> state_ok demo_rt demo_canary demo_key"
proof -
  have "(deployment_step demo_rt demo_key ^^ 1) demo_approved demo_canary"
    using deployment_step.transition [OF demo_canary_step] by (auto simp: OO_def)
  then show ?thesis by (rule deployment_runs_end [OF demo_approved_ok])
qed

text \<open>C4: a manifest that \<open>create_policy_manifest\<close> signs is accepted by \<open>verify_policy_manifest\<close> under
  the same key, and never activates itself.\<close>

theorem created_manifest_verifies:
  assumes "create_policy_manifest rt now report key = Inr m" "sha256_sized rt"
  shows "\<exists>v. verify_policy_manifest rt m key = Inr v \<and> jget v ''valid'' = JBool True
    \<and> jget v ''errors'' = JList [] \<and> jget v ''automatic_runtime_activation'' = JBool False"
  using created_manifest_errors [OF assms] by (simp add: verify_policy_manifest_def dict_simps)

theorem created_manifest_verifies_witness:
  "\<exists>v. verify_policy_manifest demo_rt demo_manifest demo_key = Inr v \<and> jget v ''valid'' = JBool True
    \<and> jget v ''errors'' = JList [] \<and> jget v ''automatic_runtime_activation'' = JBool False"
  by (rule created_manifest_verifies [OF demo_created demo_sized])

text \<open>The signature binds the document: two deployment documents that verify under one key and carry
  the same signature have the same canonical body, or a collision of the keyed digest is at hand.\<close>

theorem signature_binds_state:
  assumes "state_ok rt s key" "state_ok rt t key" "jget s ''signature'' = jget t ''signature''"
  shows "canonical rt (JDict (dpop s ''signature'')) = canonical rt (JDict (dpop t ''signature''))
    \<or> (\<exists>x y. x \<noteq> y \<and> rt_hmac rt key x = rt_hmac rt key y)"
proof -
  have "signature_view rt s = signature_view rt t" using assms(3) by (simp add: signature_view_def)
  then have "hexdigest (rt_hmac rt key (canonical rt (JDict (dpop s ''signature''))))
      = hexdigest (rt_hmac rt key (canonical rt (JDict (dpop t ''signature''))))"
    using assms(1,2) by (auto simp: state_ok_def verify_signature_Nil_iff signature_value_def)
  then show ?thesis using hexdigest_inj by blast
qed

section \<open>The state file and its lock\<close>

text \<open>C5: updating the state file is a compare-and-set, whichever system call of it fails.  Either the call fails and the
  document and the audit events on disk are those before, or a verified document of the expected generation was on disk and a
  legal transition of it is on disk now, audit events being only appended; the call may still report an error then.  The lock
  is gone afterwards if its removal succeeds.  And no update is lost: of any calls one after the other that expect the same
  generation, at most one succeeds.\<close>

theorem update_is_compare_and_set:
  "(case update_deployment_state_file rt pe key to_stage actor expected report reason fs of (r, fs') \<Rightarrow>
     (fs_state fs' = fs_state fs \<and> fs_events fs' = fs_events fs \<and> (\<exists>e. r = Inl e)
      \<or> (\<exists>current updated es. load_deployment_state fs = Inr current \<and> state_ok rt current key
          \<and> (expected = None \<or> to_int (jget current ''generation'') = Inr (the expected))
          \<and> transition_deployment_state rt (pe_now pe) current key to_stage actor report reason = Inr updated
          \<and> state_ok rt updated key \<and> fs_state fs' = stored updated \<and> fs_events fs' = fs_events fs @ es
          \<and> r \<in> {Inr updated} \<union> range Inl))
     \<and> (fst (acquire_lock rt pe fs) = Inr () \<and> io_removal (pe_io pe) = Removed \<longrightarrow> fs_lock fs' = None))
   \<and> (\<forall>cs rs fs' i j n u. run_updates rt key cs fs = (rs, fs') \<and> i < j \<and> j < length cs
       \<and> uc_expected (cs ! i) = Some n \<and> uc_expected (cs ! j) = Some n \<and> rs ! i = Inr u \<longrightarrow> (\<exists>e. rs ! j = Inl e))"
proof -
  have "\<exists>e. rs ! j = Inl e" if "run_updates rt key cs fs = (rs, fs') \<and> i < j \<and> j < length cs
      \<and> uc_expected (cs ! i) = Some n \<and> uc_expected (cs ! j) = Some n \<and> rs ! i = Inr u" for cs rs fs' i j n u
    using at_most_one_update [of rt key cs fs rs fs' i j n u] that by blast
  moreover have "case update_deployment_state_file rt pe key to_stage actor expected report reason fs of (r, fs') \<Rightarrow>
     (fs_state fs' = fs_state fs \<and> fs_events fs' = fs_events fs \<and> (\<exists>e. r = Inl e)
      \<or> (\<exists>current updated es. load_deployment_state fs = Inr current \<and> state_ok rt current key
          \<and> (expected = None \<or> to_int (jget current ''generation'') = Inr (the expected))
          \<and> transition_deployment_state rt (pe_now pe) current key to_stage actor report reason = Inr updated
          \<and> state_ok rt updated key \<and> fs_state fs' = stored updated \<and> fs_events fs' = fs_events fs @ es
          \<and> r \<in> {Inr updated} \<union> range Inl))
     \<and> (fst (acquire_lock rt pe fs) = Inr () \<and> io_removal (pe_io pe) = Removed \<longrightarrow> fs_lock fs' = None)"
  proof (cases "update_deployment_state_file rt pe key to_stage actor expected report reason fs")
    case (Pair r fs')
    from Pair show ?thesis
    proof (cases rule: update_file_cases)
      case (unchanged e)
      have "fs_lock fs' = None" if "fst (acquire_lock rt pe fs) = Inr ()" "io_removal (pe_io pe) = Removed"
        using unchanged(4) that by (cases "acquire_lock rt pe fs") auto
      then show ?thesis using unchanged(1-3) by (simp add: Pair)
    next
      case (written u es)
      then obtain current where c: "load_deployment_state fs = Inr current" "state_valid rt current key = Inr True"
          "expected = None \<or> to_int (jget current ''generation'') = Inr (the expected)"
          "transition_deployment_state rt (pe_now pe) current key to_stage actor report reason = Inr u"
        by (cases expected) (auto simp: compute_update_def rbind_Inr_iff guard_that_Inr_iff)
      then show ?thesis using written transition_ok [OF c(4)] by (simp add: Pair state_valid_iff)
    qed
  qed
  ultimately show ?thesis by blast
qed

theorem update_is_compare_and_set_witness:
  "\<exists>u e fs. run_updates demo_rt demo_key [demo_call, demo_call] demo_dfs = ([Inr u, Inl e], fs)"
proof -
  obtain u r fs where run: "run_updates demo_rt demo_key [demo_call, demo_call] demo_dfs = ([Inr u, r], fs)"
    using demo_two_updates by blast
  note c = update_is_compare_and_set [where rt = demo_rt and key = demo_key and fs = demo_dfs, THEN conjunct2]
  have "run_updates demo_rt demo_key [demo_call, demo_call] demo_dfs = ([Inr u, r], fs) \<and> (0::nat) < 1 \<and> 1 < length [demo_call, demo_call]
      \<and> uc_expected ([demo_call, demo_call] ! 0) = Some 2 \<and> uc_expected ([demo_call, demo_call] ! 1) = Some 2 \<and> [Inr u, r] ! 0 = Inr u"
    using run by (simp add: demo_call_def)
  then have "\<exists>e. [Inr u, r] ! 1 = Inl e" using c by blast
  then show ?thesis using run by auto
qed



text \<open>C7: outside of that the mutex breaks, whoever can probe whom.  When two processes find the lock of a crashed one stale,
  the second renames away the directory the first has just made, and both enter the critical section.  No crash is needed:
  a holder that outlives the lease and leaves, between the \<open>stat\<close> and the reading of its record by another, leads to the same.\<close>

theorem stale_recovery_races:
  "(\<exists>s. lock_reachable near s \<and> ls_phase s 0 = Crashed \<and> ls_phase s 1 = Critical \<and> ls_phase s 2 = Critical)
    \<and> (\<exists>s. lock_reachable near s \<and> (\<forall>p. ls_phase s p \<noteq> Crashed) \<and> ls_phase s 1 = Critical \<and> ls_phase s 2 = Critical)"
  using recovery_race_run reread_race_run by blast

section \<open>The runtime\<close>

text \<open>C8: a request is served by a candidate arm only when the deployment is enabled, no kill switch is
  set, the task is low risk, the arm is one of the safe arms, the document on disk verifies and is live,
  and the keyed assignment falls under its traffic fraction, which is at most a quarter.\<close>

theorem candidate_needs_everything:
  assumes "resolve_runtime_deployment rt env query decision intent config changed roots fs = (Inr (Some a), fs')"
    and "jget a ''chosen_arm'' = JStr arm" "arm \<noteq> BASELINE_ARM"
  shows "deployment_enabled config
    \<and> \<not> learning_kill_switch (re_getenv env ''AI_WORKFLOW_LEARNING_KILL_SWITCH'') config
    \<and> rd_risk decision = Low \<and> arm \<in> set SAFE_EXPLORATION_ARMS \<and> fs' = fs
    \<and> (\<exists>st key p. key = signing_key_of rt env config \<and> load_deployment_state (rf_deployment fs) = Inr st
         \<and> state_ok rt st key \<and> state_stage rt st \<in> set LIVE_STAGES
         \<and> to_float rt (jget_or st ''traffic_fraction'' (JFloat (Fin 0))) = Inr (Fin p) \<and> p \<le> 1/4 + 1/10^12
         \<and> assignment_fraction rt env key (py_str rt (jget_or st ''policy_id'' (JStr []))) < p)"
  by (rule candidate_conditions [OF assms])

theorem candidate_needs_everything_witness:
  "rd_risk demo_low = Low \<and> ''bm25_rank'' \<in> set SAFE_EXPLORATION_ARMS
    \<and> (\<exists>st. load_deployment_state (rf_deployment (demo_rfs [])) = Inr st \<and> state_stage demo_rt st \<in> set LIVE_STAGES)"
proof -
  have "''bm25_rank'' \<noteq> BASELINE_ARM" by (simp add: BASELINE_ARM_def)
  then show ?thesis using candidate_needs_everything [OF demo_resolved demo_assignment_arm] by blast
qed

text \<open>The assignment the runtime hands over is one the learning layer accepts: its propensities parse
  and \<open>choose_learning_decision\<close> uses the arm that was assigned.\<close>

theorem assignment_is_usable:
  assumes "resolve_runtime_deployment rt env query decision intent config changed roots fs = (Inr (Some a), fs')"
  shows "\<exists>arm parsed. jget a ''chosen_arm'' = JStr arm
    \<and> assignment_choice rt (rd_risk decision) a = Inr (Some (arm, parsed))"
  by (rule assignment_accepted [OF assms])

text \<open>C9: when the guardrails computed from the learning records on disk ask for a rollback, no request gets a candidate arm,
  whichever step of the rollback fails: the request ends on the baseline arm, or with an exception that is none of those the
  runtime handles.  The document on disk is the one before or a verified one at the stage \<open>rolled_back\<close>.\<close>

theorem rollback_serves_baseline:
  assumes "deployment_enabled config"
    and "load_deployment_state (rf_deployment fs) = Inr st" "state_valid rt st (signing_key_of rt env config) = Inr True"
    and "jget st ''stage'' \<in> JStr ` set LIVE_STAGES" "truthy (jget_or (deployment_config config) ''auto_rollback'' (JBool True))"
    and "evaluate_live_guardrails rt (re_radius env) (re_draw env) (load_learning_records rt (rf_learning fs)) st
      (signing_key_of rt env config) = Inr report"
    and "jget report ''gate'' = JDict gate" "truthy (jget gate ''rollback_required'')"
    and "resolve_runtime_deployment rt env query decision intent config changed roots fs = (r, fs')"
  shows "((\<exists>a. r = Inr (Some a) \<and> jget a ''chosen_arm'' = JStr BASELINE_ARM) \<or> (\<exists>e. r = Inl e \<and> \<not> rollback_catches e))
    \<and> (fs_state (rf_deployment fs') = fs_state (rf_deployment fs)
       \<or> (\<exists>rb. fs_state (rf_deployment fs') = stored rb \<and> state_ok rt rb (signing_key_of rt env config)
            \<and> state_stage rt rb = ''rolled_back''))"
proof -
  have "wants_rollback (Some report)" using assms(7,8) by (simp add: wants_rollback_def)
  from rollback_ends_in_baseline [OF assms(1-6) this assms(9)] show ?thesis .
qed

theorem rollback_serves_baseline_witness:
  "\<exists>a fs'. resolve_runtime_deployment demo_rt demo_renv ''q'' demo_low ''fix'' (demo_cfg True) 0 1 (demo_rfs demo_files)
     = (Inr (Some a), fs') \<and> jget a ''chosen_arm'' = JStr BASELINE_ARM"
proof -
  obtain a fs' where res: "resolve_runtime_deployment demo_rt demo_renv ''q'' demo_low ''fix'' (demo_cfg True) 0 1
      (demo_rfs demo_files) = (Inr (Some a), fs')" using demo_resolve_rollback by blast
  obtain gate where gate: "jget demo_report_row ''gate'' = JDict gate" using demo_evaluated(3) by blast
  have loaded: "load_deployment_state (rf_deployment (demo_rfs demo_files)) = Inr demo_canary"
    by (simp add: demo_rfs_def demo_load)
  have env: "re_radius demo_renv = (\<lambda>_ _ _. 1)" by (simp add: demo_renv_def)
  have "evaluate_live_guardrails demo_rt (re_radius demo_renv) (re_draw demo_renv)
      (load_learning_records demo_rt (rf_learning (demo_rfs demo_files))) demo_canary
      (signing_key_of demo_rt demo_renv (demo_cfg True)) = Inr demo_report_row"
    "state_valid demo_rt demo_canary (signing_key_of demo_rt demo_renv (demo_cfg True)) = Inr True"
    by (simp_all only: demo_signing_key demo_records demo_evaluated(1) demo_valid)
  moreover have "jget demo_canary ''stage'' \<in> JStr ` set LIVE_STAGES" by (simp add: demo_canary_entries(1) LIVE_STAGES_def)
  moreover have "truthy (jget_or (deployment_config (demo_cfg True)) ''auto_rollback'' (JBool True))"
    by (simp add: demo_config(1) dict_simps)
  ultimately show ?thesis
    using rollback_serves_baseline [OF demo_config(2) loaded _ _ _ _ gate demo_evaluated(2) [OF gate] res] res by blast
qed

text \<open>A rollback that reports success is the document on disk: a transition to \<open>rolled_back\<close> of the
  stored document, of the generation the caller judged; the lock is released if its removal succeeds.\<close>

theorem rollback_is_persisted:
  assumes "perform_rollback rt env config st report key reason fs = (Inr rb, fs')"
  shows "fs_state (rf_deployment fs') = stored rb
    \<and> (io_removal (pe_io (re_process env)) = Removed \<longrightarrow> fs_lock (rf_deployment fs') = None)
    \<and> state_ok rt rb key \<and> state_stage rt rb = ''rolled_back''
    \<and> (\<exists>cur. load_deployment_state (rf_deployment fs) = Inr cur \<and> state_ok rt cur key
        \<and> to_int (jget cur ''generation'') = to_int (jget st ''generation''))"
proof -
  obtain cur now where c: "load_deployment_state (rf_deployment fs) = Inr cur"
      "to_int (jget cur ''generation'') = to_int (jget st ''generation'')"
    and tr: "transition_deployment_state rt now cur key ''rolled_back'' ''runtime:auto-rollback'' JNull (Some reason) = Inr rb"
    using perform_rollback_done [OF assms] by blast
  have "state_ok rt cur key" by (rule transition_InrE [OF tr])
  then show ?thesis
    using perform_rollback_done [OF assms] c transition_ok [OF tr] transition_effect(1) [OF tr] by simp
qed

section \<open>The context of a request\<close>

text \<open>C10: nothing reaches the model that no provider returned: every item a run selects repeats, perhaps shortened,
  an item that a call for it returned without error, and carries an envelope that grants no authority, is bound
  to the item's text by its digest, and takes kind, trust and repository from the code and not from the item.\<close>

theorem gathered_evidence_is_bound:
  assumes "gather rt env w config arm rq = Some (Inr g)" "x \<in> set (gd_selected g)"
  shows "(\<exists>r i. provided env w r i \<and> derived x i)
    \<and> (\<exists>e. ci_evidence x = Some e \<and> ev_authority e = no_authority \<and> ev_content_sha256 e = content_sha256 rt (ci_text x)
        \<and> ev_trust_class e = trust_class_for_source (ci_source x) \<and> ev_kind e = evidence_kind_for_source (ci_source x)
        \<and> ev_repository_id e \<in> snd ` set (wv_repository_ids w))"
  by (rule gathered_selected [OF assms])

theorem gathered_evidence_is_bound_witness:
  "\<exists>g x. gather demo_rt demo_engine engine_workspace engine_config BASELINE_ARM demo_request = Some (Inr g)
     \<and> x \<in> set (gd_selected g) \<and> (\<exists>r i. provided demo_engine engine_workspace r i \<and> derived x i)"
proof -
  obtain g where g: "gather demo_rt demo_engine engine_workspace engine_config BASELINE_ARM demo_request = Some (Inr g)"
    "gd_selected g \<noteq> []" using demo_context_gathered by blast
  have x: "hd (gd_selected g) \<in> set (gd_selected g)" using g(2) by simp
  show ?thesis using gathered_evidence_is_bound [OF g(1) x] g(1) x by blast
qed

text \<open>C11: the context fits the budget: its characters stay under the adaptive limit and this under the limit of
  the route, and its tokens likewise unless the selector is turned off.\<close>

theorem gathered_context_fits:
  assumes "gather rt env w config arm rq = Some (Inr g)"
  shows "chars_of (gd_selected g) \<le> max 0 (gd_chars g) \<and> gd_chars g \<le> cb_context_chars (qr_budget rq)
    \<and> gd_tokens g \<le> cb_estimated_tokens (qr_budget rq)
    \<and> (kx_used_tokens (gd_context g) = None \<or> tokens_of (en_est env) (gd_selected g) \<le> max 0 (gd_tokens g))"
  using gathered_sizes [OF assms] by blast

theorem gathered_context_fits_witness:
  "\<exists>g. gather demo_rt demo_engine engine_workspace engine_config BASELINE_ARM demo_request = Some (Inr g)
     \<and> chars_of (gd_selected g) \<le> max 0 (gd_chars g) \<and> tokens_of demo_est (gd_selected g) \<le> max 0 (gd_tokens g)"
proof -
  obtain g where g: "gather demo_rt demo_engine engine_workspace engine_config BASELINE_ARM demo_request = Some (Inr g)"
    "kx_used_tokens (gd_context g) \<noteq> None" using demo_context_gathered by blast
  have "en_est demo_engine = demo_est" by (simp add: demo_engine_def)
  then show ?thesis using gathered_context_fits [OF g(1)] g by auto
qed

text \<open>C12: with the quality gate on, a run calls its evidence sufficient exactly when some item is fresh, every item
  is from a routed repository (where the routes name theirs), no two trusted structural items contradict each
  other, the required structural evidence is complete, the query is covered and the score passes the threshold.\<close>

theorem sufficient_state_is_exact:
  assumes "gather rt env w config arm rq = Some (Inr g)" "gd_selective_enabled g"
    and "selective_config config = Inr cfg" "to_float rt (jget_or cfg ''minimum_coverage'' (JFloat (Fin (15/100)))) = Inr m"
  shows "gd_state g = ''sufficient'' \<longleftrightarrow>
    (\<exists>i \<in> set (gd_selected g). \<not> ci_stale i)
    \<and> (expected_ids w = {} \<or> (\<forall>i \<in> set (gd_selected g). \<exists>e. ci_evidence i = Some e \<and> ev_repository_id e \<in> expected_ids w))
    \<and> \<not> structural_conflict rt (gd_selected g) \<and> sf_structural (gd_sufficiency g)
    \<and> \<not> fl_lt (Fin (sf_coverage (gd_sufficiency g))) m \<and> sf_sufficient (gd_sufficiency g)"
  by (rule gathered_sufficient [OF assms])

theorem sufficient_state_is_exact_witness:
  "\<exists>g. gather demo_rt demo_engine engine_workspace engine_config BASELINE_ARM demo_request = Some (Inr g)
     \<and> gd_state g = ''sufficient''"
proof -
  obtain g where g: "gather demo_rt demo_engine engine_workspace engine_config BASELINE_ARM demo_request = Some (Inr g)"
    "gd_selective_enabled g" and ne: "gd_selected g \<noteq> []"
    and s: "gd_sufficiency g = evaluate_sufficiency demo_rt ''x'' (gd_selected g) False [] (Fin 0)"
    using demo_context_gathered by blast
  note items = demo_context_items [OF g(1)]
  have "\<not> structural_conflict demo_rt (gd_selected g)"
    unfolding structural_conflict_iff structural_witness_def by (auto dest: items)
  moreover have "sf_sufficient (gd_sufficiency g)" unfolding s by (rule exact_sufficient [OF ne])
  moreover have "sf_structural (gd_sufficiency g)" using ne by (simp add: s evaluate_sufficiency_def structural_complete_def Let_def)
  moreover have "\<not> fl_lt (Fin (sf_coverage (gd_sufficiency g))) (Fin 0)" using sufficiency_bounds [OF s] by simp
  moreover have "\<exists>i \<in> set (gd_selected g). \<not> ci_stale i" using ne items by (meson list.set_intros(1) neq_Nil_conv hd_in_set)
  ultimately show ?thesis
    using sufficient_state_is_exact [OF g demo_selective] items g(1) by (auto simp: demo_repository_ids)
qed

text \<open>C13: the gates of a run agree with each other: the contract records an evidence gap exactly when the state is
  not ``sufficient'', only a read-only question abstains, and the policy made from the contract lets no request
  through whose tool is not in the contract's plan, which is empty in the read-only lane.\<close>

theorem gathered_gates_agree:
  assumes "gather rt env w config arm rq = Some (Inr g)"
  shows "cx_evidence_gap (oc_complexity (gd_contract g)) = (gd_state g \<noteq> ''sufficient'')
    \<and> (gd_state g = ''abstain'' \<longleftrightarrow> gd_state g \<noteq> ''sufficient'' \<and> rd_lane (qr_decision rq) = Answer)
    \<and> cp_max_graph_depth (gd_policy g) = oc_graph_depth (gd_contract g)
    \<and> cp_verification_passes (gd_policy g) = oc_verification_passes (gd_contract g)
    \<and> (\<forall>action cited. \<not> ad_allowed (authorize_model_action rt (gd_policy g) action cited)
         \<or> (\<exists>t. rq_tool_name action = Some t \<and> strip t \<in> set (oc_crg_plan (gd_contract g))
              \<and> rd_lane (qr_decision rq) \<noteq> Answer))"
  using gathered_gates [OF assms] gathered_contract [OF assms] allowed_tool by (metis empty_iff list.set(1))

theorem gathered_gates_agree_witness:
  "\<exists>g. gather demo_rt demo_engine engine_workspace engine_config BASELINE_ARM demo_request = Some (Inr g)
     \<and> cx_evidence_gap (oc_complexity (gd_contract g)) = (gd_state g \<noteq> ''sufficient'')"
proof -
  obtain g where g: "gather demo_rt demo_engine engine_workspace engine_config BASELINE_ARM demo_request = Some (Inr g)"
    using demo_context_gathered by blast
  show ?thesis using gathered_gates_agree [OF g] g by blast
qed

text \<open>When the base evidence is sufficient and the early gate is on, nothing else is called: the base calls of
  the routed repositories are the only ones attempted, and no specialist item enters the run.\<close>

theorem early_gate_skips_calls:
  assumes "gather rt env w config arm rq = Some (Inr g)"
    and "apply_learning_arm config arm = Inr effective" "algorithm_policy rt effective = Inr p" "\<not> ak_no_early_gate p"
    and "sufficiency_threshold rt config = Inr threshold"
    and "plan = classify_retrieval_intent (qr_query rq) (qr_decision rq) (qr_symbol rq) (qr_endpoint rq)"
    and "sf_sufficient (evaluate_sufficiency rt (qr_query rq) (tr_base (base_phase env w (qr_changed rq)))
      (pl_use_structural plan) (pl_patterns plan) threshold)"
  shows "tr_attempted (gd_trace g) = base_labels w \<and> tr_specialist (gd_trace g) = []"
  using early_gate [OF assms] by blast

text \<open>C14: a run returns on every input: whatever the providers deliver and the configuration says, the ranking and
  selection loops end, with a context or with an exception.\<close>

theorem gather_returns:
  "\<exists>r. gather rt env w config arm rq = Some r"
  by (rule gather_some)

text \<open>C15: the audit trail of a run is read back.  When the run's identifier names a file that does not exist yet, its changed
  files are within the bounds of the journal and its numbers are finite, the journal is built.  However the write ends, the
  run goes on, and reports the path exactly when the journal is durable.  If the file was written, then after any later
  creations in the directory the reader accepts it and releases exactly the run's events, provided that its bytes are within
  the reader's limit; a longer one, which the writer does not refuse, is taken for missing.\<close>

theorem run_is_recorded_and_replays:
  assumes "safe_run_id (ru_run_id ru) = Inr i" "recordable_request rq" "finite_run ru"
    and "\<forall>x \<in> set (gd_ranked g) \<union> set (gd_selected g). finite_item x" "dget d (i @ ''.json'') = None"
  shows "\<exists>j chained. engine_journal rt env ru routes config plan rq policy g = Inr j
    \<and> chain_replay_events rt (journal_events rt env ru routes plan rq policy g) = Inr chained
    \<and> (\<forall>out. case record_run rt env ru routes config plan rq policy g out d of (r, d') \<Rightarrow>
        r = (if out = Durable then Inr (Some (''ai-workspace/generated/run-journal/'' @ i @ ''.json'')) else Inr None)
        \<and> (out \<noteq> WriteFails \<longrightarrow> (let p = replay_run_journal rt je (json_files.creations cs d') (ru_run_id ru) config' in
            if file_size rt (Holds (sort_keys (JDict j))) \<le> MAX_JOURNAL_BYTES
            then rp_found p \<and> in_valid (rp_integrity p) \<and> rp_events_released p \<and> rp_events p = map sorted_dict chained
            else \<not> rp_found p)))"
proof -
  obtain j where j: "engine_journal rt env ru routes config plan rq policy g = Inr j"
    using engine_journal_builds [OF assms(1-4)] by blast
  obtain chained where c: "chain_replay_events rt (journal_events rt env ru routes plan rq policy g) = Inr chained"
    by (rule engine_journal_replays [OF j assms(1,5), of Durable]) simp_all
  have "case record_run rt env ru routes config plan rq policy g out d of (r, d') \<Rightarrow>
      r = (if out = Durable then Inr (Some (''ai-workspace/generated/run-journal/'' @ i @ ''.json'')) else Inr None)
      \<and> (out \<noteq> WriteFails \<longrightarrow> (let p = replay_run_journal rt je (json_files.creations cs d') (ru_run_id ru) config' in
          if file_size rt (Holds (sort_keys (JDict j))) \<le> MAX_JOURNAL_BYTES
          then rp_found p \<and> in_valid (rp_integrity p) \<and> rp_events_released p \<and> rp_events p = map sorted_dict chained
          else \<not> rp_found p))" for out
  proof (cases "out = WriteFails")
    case True
    then show ?thesis using engine_run_recorded(1) [OF j assms(1,5), of out] by (simp add: split_def)
  next
    case False
    show ?thesis
    proof (rule engine_journal_replays [OF j assms(1,5) False, where je = je and cs = cs and config' = config'])
      fix chained'
      assume "chain_replay_events rt (journal_events rt env ru routes plan rq policy g) = Inr chained'"
        and replay: "let r = replay_run_journal rt je (json_files.creations cs (snd (record_run rt env ru routes config plan rq policy g out d)))
              (ru_run_id ru) config'
          in if file_size rt (Holds (sort_keys (JDict j))) \<le> MAX_JOURNAL_BYTES
             then rp_found r \<and> in_valid (rp_integrity r) \<and> rp_events_released r \<and> rp_events r = map sorted_dict chained'
             else \<not> rp_found r"
      then have same: "chained' = chained" using c by simp
      obtain r d' where run: "record_run rt env ru routes config plan rq policy g out d = (r, d')" by force
      have "r = (if out = Durable then Inr (Some (''ai-workspace/generated/run-journal/'' @ i @ ''.json'')) else Inr None)"
        using engine_run_recorded(1) [OF j assms(1,5), of out] unfolding run by simp
      then show ?thesis using replay unfolding run same prod.case snd_conv by blast
    qed
  qed
  then show ?thesis using j c by blast
qed

theorem run_is_recorded_and_replays_witness:
  "\<exists>ru g. ru_run_id ru = ''r1'' \<and> gd_selected g = [demo_found] \<and> (\<forall>routes policy. \<exists>p d.
     record_run demo_rt demo_engine ru routes [] demo_plan demo_request policy g Durable [] = (Inr (Some p), d))"
proof -
  define ru where "ru = \<lparr>ru_run_id = ''r1'', ru_workspace = [], ru_graph = [], ru_repository_fingerprint = ''f'', ru_repository_count = 1,
    ru_versions = [], ru_elapsed_ms = Fin 3, ru_max_concurrency = 2, ru_deadline = Fin 20\<rparr>"
  obtain g where "gather demo_rt demo_engine engine_workspace engine_config BASELINE_ARM demo_request = Some (Inr g)"
    using demo_context_gathered by blast
  define g' where "g' = g\<lparr>gd_ranked := [demo_found], gd_selected := [demo_found]\<rparr>"
  have i: "safe_run_id (ru_run_id ru) = Inr ''r1''" by (simp add: ru_def demo_run_id)
  have found: "finite_item demo_found" by code_simp
  have items: "\<forall>x \<in> set (gd_ranked g') \<union> set (gd_selected g'). finite_item x"
    using found by (simp add: g'_def)
  have "recordable_request demo_request" "finite_run ru"
    by (simp_all add: recordable_request_def demo_request_def MAX_CHANGED_FILES_def finite_run_def ru_def fl_finite_def)
  note c = run_is_recorded_and_replays [OF i this items, of "[]" demo_rt demo_engine _ "[]" demo_plan]
  have "\<exists>p d. record_run demo_rt demo_engine ru routes [] demo_plan demo_request policy g' Durable [] = (Inr (Some p), d)"
    for routes policy
    using c [of routes policy] by (cases "record_run demo_rt demo_engine ru routes [] demo_plan demo_request policy g' Durable []") fastforce
  moreover have "ru_run_id ru = ''r1''" "gd_selected g' = [demo_found]" by (simp_all add: ru_def g'_def)
  ultimately show ?thesis by blast
qed

text \<open>Sufficiency is monotone: evidence that is sufficient stays so when items are added, whatever they are.\<close>

theorem more_evidence_stays_sufficient:
  assumes "set items \<subseteq> set items'"
    and "sf_sufficient (evaluate_sufficiency rt query items needed patterns threshold)"
  shows "sf_sufficient (evaluate_sufficiency rt query items' needed patterns threshold)"
  by (rule sufficient_mono [OF assms])

text \<open>A query is asked for structural evidence exactly when its normalised text contains a phrase of the
  relationship: the search agrees with a declarative specification of the patterns, word boundaries included.\<close>

theorem structural_requirements_exact:
  "structural_requirements query
     = map fst (filter (\<lambda>(_, r). \<exists>u v y. squeeze query = u @ v \<and> matched r (after_word False u, v) y) STRUCTURAL_MATCHERS)"
  by (simp only: structural_requirements_def re_search_iff Let_def)

text \<open>C16: the scheduler keeps its bounds: at no time do more calls run than it has threads, and with a thread for each call all
  start at once; every call has one outcome, in the order of the calls: its value or its exception when it is done before the
  deadline, but a \<open>TimeoutError\<close> of its own is reported as the deadline; any other call, on a thread or waiting for one, has
  the deadline, at the deadline.\<close>

theorem scheduler_keeps_bounds:
  assumes "run_calls fmt_g n calls deadline = Inr outs" "0 < n"
    and "\<forall>b \<in> snd ` set calls. \<forall>d. duration b = Some d \<longrightarrow> 0 \<le> d"
  shows "map ou_label outs = map fst calls
    \<and> (let jobs = assign_jobs deadline (replicate n (Some 0)) (map snd calls) in
        card (running t jobs) \<le> n
        \<and> (\<forall>i < length calls. outcome_of_call deadline (snd (calls ! i)) (jobs ! i) (outs ! i)
            \<and> (length calls \<le> n \<longrightarrow> (\<exists>j. jobs ! i = Some j \<and> jo_start j = 0))))"
proof -
  have d: "0 < deadline" if "calls \<noteq> []" using assms(1) that by (simp add: run_calls_def guard_that_Inr_iff)
  have "\<exists>j. assign_jobs deadline (replicate n (Some 0)) (map snd calls) ! i = Some j \<and> jo_start j = 0"
    if "length calls \<le> n" "i < length calls" for i
    using calls_start_at_once [OF assms(3) _ that] d that(2) by fastforce
  then show ?thesis
    unfolding Let_def
    using running_bounded [of n "map snd calls"] run_calls_labels [OF assms(1)] run_calls_outcomes [OF assms(1)] assms(2,3)
    by simp
qed

theorem scheduler_keeps_bounds_witness:
  "\<exists>outs. run_calls (\<lambda>_. ''1'') 1 [(''a'', Returns 1 True), (''b'', Hangs)] 2 = Inr outs \<and> map ou_label outs = [''a'', ''b'']"
proof -
  have "\<exists>outs. run_calls (\<lambda>_. ''1'') 1 [(''a'', Returns 1 True), (''b'', Hangs)] 2 = Inr outs"
    by (simp add: run_calls_def guard_that_def)
  then obtain outs where o: "run_calls (\<lambda>_. ''1'') 1 [(''a'', Returns 1 True), (''b'', Hangs)] 2 = Inr outs" by blast
  show ?thesis using scheduler_keeps_bounds [OF o, of 0] o by auto
qed

section \<open>The repositories of a workspace\<close>

text \<open>C17: where a request is routed.  The routes are distinct roots the caller offered, at least one when any was offered.  As
  soon as one of them is registered, every route carries the registry's identity of its root, the only one that may have none
  is the first root when nothing else is signaled, both limits hold, and a repository is added to the primary ones only along
  an edge of an allowed kind in the graph that is loaded from the reviewed file, whose edges connect distinct accepted
  repositories.  When no root is registered (the explicit legacy mode), the first roots are taken as they are, bounded only by
  the number of roots of a workspace.\<close>

theorem routing_stays_reviewed:
  assumes "plan_repository_retrieval rt root_of reg graph_file workspace roots query changed config = Inr p" "distinct roots"
  shows "\<exists>s registry_file doc specs registry g. routing_settings_of rt config = Inr s \<and> reg = Inr registry_file \<and> graph_file = Inr doc
    \<and> specs = load_registry rt registry_file \<and> registry = registry_roots rt root_of specs \<and> g = load_repository_graph rt specs doc
    \<and> routes_among roots (rk_repositories p)
    \<and> (if roots \<noteq> [] \<and> present_ids (map (identity_of registry) roots) = []
       then \<exists>m. max_roots config (length roots) = Inr m
         \<and> rk_repositories p = map (\<lambda>r. routed r None ''legacy_explicit'' 1 ''legacy_workspace_root'') (take (nat m) roots)
       else reviewed_plan s registry g roots (rk_repositories p))
    \<and> (\<forall>e \<in> set (gr_edges g). eg_source e \<noteq> eg_target e \<and> {eg_source e, eg_target e}
        \<subseteq> (\<lambda>r. repository_id rt (rs_relative_path r) (rs_remote_identity r)) ` {r \<in> set specs. rs_included r})"
proof (rule plan_selects [OF assms])
  fix s registry_file doc specs registry
  assume "routing_settings_of rt config = Inr s" "reg = Inr registry_file" "graph_file = Inr doc"
    "specs = load_registry rt registry_file" "registry = registry_roots rt root_of specs"
    "routes_among roots (rk_repositories p)"
    "if roots \<noteq> [] \<and> present_ids (map (identity_of registry) roots) = []
     then \<exists>m. max_roots config (length roots) = Inr m
       \<and> rk_repositories p = map (\<lambda>r. routed r None ''legacy_explicit'' 1 ''legacy_workspace_root'') (take (nat m) roots)
     else reviewed_plan s registry (load_repository_graph rt specs doc) roots (rk_repositories p)"
  moreover have "\<forall>e \<in> set (gr_edges (load_repository_graph rt specs doc)). eg_source e \<noteq> eg_target e \<and> {eg_source e, eg_target e}
      \<subseteq> (\<lambda>r. repository_id rt (rs_relative_path r) (rs_remote_identity r)) ` {r \<in> set specs. rs_included r}"
    using graph_edges_reviewed [of _ rt specs doc] unfolding graph_nodes_accepted by blast
  ultimately show ?thesis
    by - (rule exI [of _ s], rule exI [of _ registry_file], rule exI [of _ doc], rule exI [of _ specs], rule exI [of _ registry],
      rule exI [of _ "load_repository_graph rt specs doc"], intro conjI, (assumption | rule refl)+)
qed

theorem routing_stays_reviewed_witness:
  "\<exists>p. plan_repository_retrieval demo_rt (\<lambda>_. None) (Inr None) (Inr None) ''/ws'' [''/ws''] ''x'' [] [] = Inr p
     \<and> rk_repositories p \<noteq> []"
proof -
  obtain p where p: "plan_repository_retrieval demo_rt (\<lambda>_. None) (Inr None) (Inr None) ''/ws'' [''/ws''] ''x'' [] []
      = Inr p" using demo_routed by blast
  have "routes_among [''/ws''] (rk_repositories p)" using routing_stays_reviewed [OF p] by auto
  then show ?thesis using p by (simp add: routes_among_def)
qed

text \<open>The registry is read back as it was written: loading the payload of well-formed repositories returns all of
  them, in the order of the file, and whatever a file holds, what is loaded is well-formed with unique keys.\<close>

theorem registry_round_trip:
  assumes "registry_ok rs"
  shows "load_registry rt (Some (registry_payload rt rs)) = sort_key registry_order rs
    \<and> registry_ok (load_registry rt reg)"
  using load_payload [OF assms] load_registry_ok by blast

text \<open>A refresh keeps every decision: a repository found again keeps its inclusion and its reason, unless the
  reason is the passive mark of older files.\<close>

theorem refresh_keeps_decisions:
  assumes "refresh_registry rt config auto_include discovered reg = Inr reg'" "registry_ok discovered"
    and "previous \<in> set (load_registry rt reg)" "repo \<in> set discovered" "registry_key previous = registry_key repo"
    and "rs_reason previous \<noteq> ''discovered''"
  shows "\<exists>r \<in> set (load_registry rt reg'). registry_key r = registry_key repo
    \<and> rs_included r = rs_included previous \<and> rs_reason r = rs_reason previous"
  by (rule refresh_keeps_decision [OF assms])

text \<open>File metadata never leaves its repository: a path or file entry that survives is one the provider gave,
  and it resolves to a place below the root.\<close>

theorem metadata_paths_confined:
  assumes "k = ''path'' \<or> k = ''file''"
    and "dget (confine_metadata_paths resolve base metadata) k = Some v"
  shows "\<exists>s p. v = JStr s \<and> resolve_within_root resolve base s = Inr p \<and> below base p \<and> dget metadata k = Some v"
  by (rule confined_paths [OF assms])

section \<open>The processes of providers\<close>

text \<open>C18: executable authority stays outside the repository.  Unless the operator has switched its own commands on, a provider
  the repository names is an entry of the user's registry, a regular file outside the repository that, except on Windows,
  belongs to the user or root and that nobody else may write.  It runs a file outside the repository whose content has the
  digest that this entry pins, with the entry's arguments, under an accepted sandbox policy.  An argument without a leading
  dash names no file that exists then in the repository; one with a dash is not checked.  Any other configuration that names
  the same provider gets the same command, environment, semantics and sandbox.\<close>

theorem provider_authority_is_external:
  assumes "resolve_project_provider te rt base raw default_name = Inr s" "\<not> unsafe_repo_commands_enabled te"
  shows "trusted_spec s \<and> arguments_outside te base (tl (cs_command s))
    \<and> (\<exists>providers entry digest v. registered_providers te base providers
        \<and> dget providers (strip (text_or_empty rt (jget raw ''provider_id''))) = Some (JDict entry)
        \<and> pinned_entry rt entry (cs_command s) digest \<and> cs_sha256 s = Some digest \<and> pinned_file te base digest (hd (cs_command s))
        \<and> policy_from_mapping rt v = Inr (cs_sandbox s))
    \<and> (\<forall>raw' name' t. resolve_project_provider te rt base raw' name' = Inr t
        \<and> strip (text_or_empty rt (jget raw' ''provider_id'')) = strip (text_or_empty rt (jget raw ''provider_id'')) \<longrightarrow> same_authority s t)"
  using project_authority [OF assms] same_provider_same_authority [OF assms(1) _ assms(2)] by blast

theorem provider_authority_is_external_witness:
  "pinned_file demo_trust ''/ws'' demo_pin (hd (cs_command demo_provider)) \<and> \<not> is_within demo_trust ''/ws'' ''/opt/docs''"
proof -
  have "cs_sha256 demo_provider = Some demo_pin" "cs_command demo_provider = [''/opt/docs'', ''--serve'']" by (simp_all add: demo_provider_def)
  then show ?thesis using provider_authority_is_external [OF demo_provider_resolved demo_trust_safe] by (auto simp: pinned_file_def outside_root_iff)
qed



text \<open>C20: a provider's output is read within bounds, however the system cuts it into chunks: exactly its first bytes up to
  the limit, with a report when there was more, and of the error output exactly the last ones, with a report whenever
  something was lost.\<close>

theorem provider_reading_is_bounded:
  assumes "[] \<notin> set (xp_stdout p)" "[] \<notin> set (xp_stderr p)"
  shows "xc_output (exchanged s p) = take (nat (cs_max_output s)) (concat (xp_stdout p))
    \<and> (xc_exceeded (exchanged s p) \<longleftrightarrow> nat (cs_max_output s) < length (concat (xp_stdout p)))
    \<and> xc_stderr (exchanged s p) = last_n (nat (cs_max_stderr s)) (concat (xp_stderr p))
    \<and> (nat (cs_max_stderr s) < length (concat (xp_stderr p)) \<longrightarrow> xc_stderr_cut (exchanged s p))"
  using exchanged_exact [OF assms] by blast

theorem provider_reading_is_bounded_witness: "xc_output (exchanged demo_provider demo_process) = demo_stdout"
proof -
  have "[] \<notin> set (xp_stdout demo_process)" "[] \<notin> set (xp_stderr demo_process)" by (simp_all add: demo_process_def demo_stdout_def)
  from provider_reading_is_bounded [OF this, of demo_provider] show ?thesis by (simp add: demo_process_def demo_provider_def demo_stdout_def)
qed



section \<open>The configuration\<close>



text \<open>C23: an accepted configuration gives every lane a context budget: positive, four characters a token, one share
  per source of at least 160 characters, together at most the budget apart from those minima; and the adaptive limits that
  the engine derives from it are positive and never above it.\<close>

theorem accepted_budget_bounds:
  assumes "validate_config rt c = Inr ()"
  shows "\<exists>b. budget_for rt (table_at (table_at c ''budgets'') (lane_value lane)) (table_at (table_at c ''context'') ''source_shares'') = Inr b
    \<and> 0 < cb_estimated_tokens b \<and> 0 < cb_output_tokens b \<and> cb_context_chars b = 4 * cb_estimated_tokens b
    \<and> map fst (cb_source_chars b) = map fst (table_at (table_at c ''context'') ''source_shares'')
    \<and> (\<forall>x \<in> set (cb_source_chars b). 160 \<le> snd x \<and> snd x \<le> max 160 (cb_context_chars b))
    \<and> rat_of_int (sum_list (map snd (cb_source_chars b)))
        \<le> of_int (cb_context_chars b) * (1000001/1000000) + 160 * of_nat (length (cb_source_chars b))
    \<and> (\<exists>chars tokens. adaptive_char_limit rt b score c = Inr chars \<and> 0 < chars \<and> chars \<le> cb_context_chars b
        \<and> adaptive_token_limit rt b score c = Inr tokens \<and> 0 < tokens \<and> tokens \<le> cb_estimated_tokens b)"
proof -
  obtain b where b: "budget_for rt (table_at (table_at c ''budgets'') (lane_value lane)) (table_at (table_at c ''context'') ''source_shares'') = Inr b"
      "0 < cb_estimated_tokens b" "0 < cb_output_tokens b" "cb_context_chars b = 4 * cb_estimated_tokens b"
      "map fst (cb_source_chars b) = map fst (table_at (table_at c ''context'') ''source_shares'')"
      "\<forall>x \<in> set (cb_source_chars b). 160 \<le> snd x \<and> snd x \<le> max 160 (cb_context_chars b)"
      "rat_of_int (sum_list (map snd (cb_source_chars b)))
        \<le> of_int (cb_context_chars b) * (1000001/1000000) + 160 * of_nat (length (cb_source_chars b))"
    using accepted_budget [OF assms, of lane] by blast
  then have "0 < cb_context_chars b" by simp
  from accepted_adaptive_limits [OF assms this b(2)] b show ?thesis by blast
qed

theorem accepted_budget_bounds_witness:
  "\<exists>b. 0 < cb_estimated_tokens b \<and> cb_context_chars b = 4 * cb_estimated_tokens b
    \<and> (\<exists>chars. adaptive_char_limit demo_rt b 1 project_config = Inr chars \<and> chars \<le> cb_context_chars b)"
  using accepted_budget_bounds [OF project_config_accepted, of Full 1] by blast

text \<open>C24: with an accepted configuration the engine's external retrievers are those of registered providers: unless the
  operator has switched the legacy commands on, no command of the repository is among them.\<close>

theorem accepted_providers_confined:
  assumes "validate_config rt c = Inr ()"
  shows "\<exists>specs. configured_retrievers rt unsafe c intent = Inr specs
    \<and> (\<not> unsafe \<longrightarrow> (\<forall>spec \<in> set specs.
        strip (text_or_empty rt (jget spec ''provider_id'')) \<noteq> [] \<and> \<not> has_command (jget spec ''command'')))"
  by (rule accepted_providers [OF assms])

theorem accepted_providers_confined_witness:
  "\<exists>spec. configured_retrievers demo_rt False project_config ''exact'' = Inr [spec] \<and> \<not> has_command (jget spec ''command'')"
proof -
  obtain specs where s: "configured_retrievers demo_rt False project_config ''exact'' = Inr specs"
    "\<forall>spec \<in> set specs. \<not> has_command (jget spec ''command'')"
    using accepted_providers_confined [OF project_config_accepted, of False "''exact''"] by auto
  then have "length specs = 1" using project_retrievers by simp
  then show ?thesis using s by (cases specs) auto
qed

text \<open>C25: migrating an old configuration loses nothing: every leaf the file states keeps its value, the sections it does
  not state are the built-in ones, the result has the current version, and a configuration of that version, or of none, is
  left alone.\<close>

theorem migration_keeps_settings:
  assumes "deep_wf (JDict raw)" "migrate_config rt (JDict raw) = Inr c"
  shows "(jget raw ''version'' = JNull \<longrightarrow> c = raw)
    \<and> (py_eq (jget raw ''version'') (JInt 2) \<longrightarrow> c = raw)
    \<and> (jget raw ''version'' \<noteq> JNull \<longrightarrow> py_eq (jget c ''version'') (JInt 2))
    \<and> (py_eq (jget raw ''version'') (JInt 1) \<longrightarrow>
        (\<forall>k ks v. k \<noteq> ''version'' \<and> value_at raw (k # ks) = Some v \<and> \<not> is_dict v \<longrightarrow> value_at c (k # ks) = Some v)
        \<and> (\<forall>k. k \<noteq> ''version'' \<and> dget raw k = None \<longrightarrow> dget c k = dget default_config k))
    \<and> migrate_config rt (JDict c) = Inr c"
  by (rule migrated_config [OF assms])

theorem migration_keeps_settings_witness:
  "\<exists>c. migrate_config demo_rt (JDict old_config) = Inr c \<and> value_at c [''learning'', ''mode''] = Some (JStr ''observe'')
    \<and> dget c ''budgets'' = dget default_config ''budgets''"
proof -
  obtain c where c: "migrate_config demo_rt (JDict old_config) = Inr c" using old_config_migrates(1) by blast
  have b: "dget old_config ''budgets'' = None" by (simp add: old_config_def dict_simps)
  note k = migration_keeps_settings [OF old_config_migrates(2) c]
  have "value_at c (''learning'' # [''mode'']) = Some (JStr ''observe'')"
    using k old_config_migrates(3) old_config_migrates(4) by (intro k [THEN conjunct2, THEN conjunct2, THEN conjunct2, THEN conjunct1,
      THEN mp, THEN conjunct1, rule_format]) (simp_all add: is_dict_def)
  moreover have "dget c ''budgets'' = dget default_config ''budgets''" using k old_config_migrates(3) b by simp
  ultimately show ?thesis using c by simp
qed

text \<open>A configuration that was loaded has passed the validation, and saving it and loading it again changes
  nothing.\<close>

theorem loaded_config_reloads:
  assumes "load_config rt (Some (Holds data)) = Inr v"
  shows "\<exists>c. v = JDict c \<and> validate_config rt c = Inr () \<and> load_config rt (Some (Holds v)) = Inr v"
  by (rule loaded_config_stable [OF assms])

section \<open>The evidence for a policy\<close>

text \<open>C26: the off-policy evaluation recommends an arm other than the baseline only when the logged evidence
  passes every gate (effective sample size, direct exposures, reward bound above the margin, cost), it then
  recommends the eligible arm with the highest lower bound, and it keeps the baseline when no arm passes.\<close>

theorem recommended_arm_has_evidence:
  assumes "evaluate_learning_policies rt draw records arms confidence resamples seed g = Inr r"
  shows "(op_recommended r = BASELINE_ARM \<and> list_all (\<lambda>(a, e). \<not> arm_passes g a e) (op_evaluations r))
    \<or> (\<exists>e. arm_passes g (op_recommended r) e \<and> best_eligible (op_evaluations r) (op_recommended r, e))"
  by (rule recommended_arm_passes [OF assms])

theorem recommended_arm_has_evidence_witness:
  "\<exists>r e. evaluate_learning_policies demo_rt (\<lambda>_ k. k) [demo_outcome_row, demo_control_row] (Some [''bm25_rank'']) (19/20) 1 1
     demo_arm_gate = Inr r \<and> op_recommended r = ''bm25_rank'' \<and> arm_passes demo_arm_gate ''bm25_rank'' e"
proof -
  obtain r where r: "evaluate_learning_policies demo_rt (\<lambda>_ k. k) [demo_outcome_row, demo_control_row] (Some [''bm25_rank''])
      (19/20) 1 1 demo_arm_gate = Inr r" "op_recommended r = ''bm25_rank''" using demo_recommended by blast
  then show ?thesis using recommended_arm_has_evidence [OF r(1)] by (auto simp: BASELINE_ARM_def)
qed

text \<open>C27: the contextual learner leaves the baseline only for contexts with evidence: the arm it learns for a
  context is one of the safe arms, chosen directly in enough low-risk development rows of that context, and
  its modelled reward exceeds the baseline's by more than the required gain.\<close>

theorem learned_arms_are_justified:
  "case build_context_policy_map rt rows model fs lr of
     Inl _ \<Rightarrow> True
   | Inr choices \<Rightarrow> \<exists>cs. low_risk_contexts rt fs rows = Inr cs
       \<and> list_all (\<lambda>(key, c). cc_arm c = BASELINE_ARM \<or> arm_justified lr model cs key c) choices"
  using policy_map_justified [of rt rows model fs lr] by (simp split: sum.splits)

text \<open>C28: a policy manifest is signed for a learned policy only if its holdout evaluation passed: at least one
  context leaves the baseline, the held-out rows are enough, and sample size, direct exposures, validation,
  reward bound and cost clear their limits.\<close>

theorem manifest_needs_holdout_evidence:
  assumes "create_policy_manifest rt now (policy_report rt opts l) key = Inr m"
  shows "0 < nonbaseline_contexts l
    \<and> max 1 (bo_minimum_holdout opts) \<le> int (length (lp_holdout l))
    \<and> \<not> fl_lt (Fin (dv_ess (lp_evaluation l))) (bo_minimum_ess opts)
    \<and> ln_minimum_direct (bo_learner opts) \<le> int (dv_direct (lp_evaluation l))
    \<and> bo_minimum_validation opts \<le> int (va_n (lp_reward_validation l))
    \<and> clears_margin (ci_low (dv_reward_ci (lp_evaluation l))) (bo_safety_margin opts)
    \<and> cost_met (dv_max_direct_cost (lp_evaluation l)) (bo_max_cost opts)"
  using manifest_needs_gate [OF assms] unfolding policy_blockers_Nil .

theorem manifest_needs_holdout_evidence_witness: "0 < nonbaseline_contexts demo_learned"
  using manifest_needs_holdout_evidence [OF demo_learned_created [unfolded demo_policy_report_def]] by blast

text \<open>C29: a deployment is approved on a shadow evaluation only when enough verified events lie strictly after
  the manifest's evidence cutoff, every one of them was scored (no unsupported target, no violation), and the
  anytime lower bound and the cost clear their limits.\<close>

theorem approval_needs_shadow_evidence:
  assumes "evaluate_shadow_policy rt parse radius draw records manifest key opts = Inr shadow"
    and "create_deployment_state rt now records' manifest shadow key' by p = Inr state"
  shows "\<exists>e c. gather_shadow rt parse radius draw records manifest key opts = Inr e
    \<and> manifest_errors rt manifest key' = Inr []
    \<and> max 1 (so_minimum_new opts) \<le> int (length (se_rows e))
    \<and> shadow_time rt parse (JStr (se_cutoff e)) = Some c
    \<and> (\<forall>row \<in> set (se_rows e). \<exists>out t. verified_outcome row = Some out
         \<and> shadow_time rt parse (jget out ''recorded_at'') = Some t \<and> c < t)
    \<and> length (shadow_scores (se_verdicts e)) = length (se_rows e)
    \<and> clears_margin (map_option iv_lower (hs_final (se_sequence e))) (so_safety_margin opts)
    \<and> cost_met (max_or_none (shadow_costs (se_verdicts e))) (so_max_cost opts)"
  by (rule shadow_approval [OF assms])

theorem approval_needs_shadow_evidence_witness:
  "\<exists>e. gather_shadow demo_rt demo_parse (\<lambda>_ _ _. 0) (\<lambda>_ _. 0) [demo_outcome_row] demo_learned_manifest demo_key
      demo_shadow_options = Inr e \<and> length (shadow_scores (se_verdicts e)) = length (se_rows e)"
proof -
  obtain shadow state where s: "evaluate_shadow_policy demo_rt demo_parse (\<lambda>_ _ _. 0) (\<lambda>_ _. 0) [demo_outcome_row]
      demo_learned_manifest demo_key demo_shadow_options = Inr shadow"
    and c: "create_deployment_state demo_rt ''t1'' [] demo_learned_manifest shadow demo_key ''ops'' default_params = Inr state"
    using demo_shadow_approved by blast
  show ?thesis using approval_needs_shadow_evidence [OF s c] by blast
qed

section \<open>The guardrails' numbers\<close>

text \<open>Every score that enters the sequential test is bounded by the largest importance weight times
  the largest reward, the bound the confidence sequence is built with.\<close>

theorem guardrail_scores_bounded:
  assumes "sequential_scores rt rows (Fin a) (Fin b) (Fin m) = Inr (values, v)" "x \<in> set values"
  shows "\<bar>x\<bar> \<le> m * max \<bar>a\<bar> \<bar>b\<bar>"
  by (rule sequential_scores_bound [OF assms])

text \<open>The bootstrap loses no row: each is scored once, in a non-empty cluster of its own key, or
  counted as invalid.\<close>

theorem clusters_account_for_rows:
  assumes "collect_clusters rt cluster_field 0 rows [] 0 = Inr (clusters, invalid)"
  shows "scored clusters + invalid = length rows \<and> clusters_ok clusters"
proof -
  have "clusters_ok []" by (simp add: clusters_ok_def dict_wf_def dkeys_def)
  then show ?thesis using collect_clusters_counts [OF assms] by (simp add: scored_def)
qed

section \<open>Learning\<close>

text \<open>C30: whatever configuration, assignment or random number it is given, a decision is logged with the probabilities of all
  its arms: the recorded propensities, rounded to twelve decimals, are those of a distribution \<open>ps\<close> on the recorded arms, which
  are safe ones; the chosen arm is among them with its positive propensity; and no arm but the baseline serves a task that
  is not low risk.\<close>

theorem decision_has_propensities:
  assumes "choose_learning_decision rt env query decision intent config cf wr assignment = Inr d"
  shows "\<exists>ps. ld_arm_propensities d = map (\<lambda>(a, p). (a, round_to 12 p)) ps
    \<and> dget (ld_arm_propensities d) (ld_chosen_arm d) = Some (round_to 12 (ld_chosen_propensity d))
    \<and> dkeys ps = ld_eligible_arms d \<and> dict_wf ps \<and> set (dkeys ps) \<subseteq> set SAFE_EXPLORATION_ARMS
    \<and> dget ps (ld_chosen_arm d) = Some (ld_chosen_propensity d) \<and> 0 < ld_chosen_propensity d
    \<and> (\<forall>(a, p) \<in> set ps. 0 \<le> p) \<and> \<bar>sum_list (map snd ps) - 1\<bar> \<le> 1 / 10 ^ 9
    \<and> (ld_chosen_arm d = BASELINE_ARM \<or> rd_risk decision = Low \<and> ld_explored d)"
proof -
  obtain c where c: "make_choice rt env config (rd_risk decision) assignment = Inr c"
    using assms by (auto simp: choose_learning_decision_def rbind_Inr_iff)
  then have d: "ld_eligible_arms d = dkeys (ch_propensities c)" "ld_chosen_arm d = ch_chosen c"
      "ld_chosen_propensity d = (case dget (ch_propensities c) (ch_chosen c) of Some p \<Rightarrow> p | None \<Rightarrow> 1)"
      "ld_explored d = ch_explored c" "ld_arm_propensities d = map (\<lambda>(a, p). (a, round_to 12 p)) (ch_propensities c)"
    using assms by (auto simp: choose_learning_decision_def)
  have ok: "choice_ok (rd_risk decision) c" by (rule make_choice_ok [OF c])
  then have "dget (ch_propensities c) (ld_chosen_arm d) = Some (ld_chosen_propensity d)"
    unfolding choice_ok_def using d(2,3) by auto
  then have "dget (ld_arm_propensities d) (ld_chosen_arm d) = Some (round_to 12 (ld_chosen_propensity d))"
    by (simp add: d(5) dget_def map_of_map)
  with ok show ?thesis unfolding choice_ok_def using d by (intro exI [of _ "ch_propensities c"]) auto
qed

theorem decision_has_propensities_witness:
  "\<exists>d. choose_learning_decision demo_rt demo_lenv ''q'' demo_low ''fix'' demo_lcfg 0 1 None = Inr d
     \<and> dget (ld_arm_propensities d) ''bm25_rank'' = Some (round_to 12 (ld_chosen_propensity d)) \<and> 0 < ld_chosen_propensity d"
proof -
  obtain d where d: "choose_learning_decision demo_rt demo_lenv ''q'' demo_low ''fix'' demo_lcfg 0 1 None = Inr d"
    "ld_chosen_arm d = ''bm25_rank''" using demo_decision by blast
  show ?thesis using decision_has_propensities [OF d(1)] d by auto
qed

text \<open>C31: the recorded propensities are the sampling probabilities: over the eligible arms they sum to
  one, and \<open>sample_arm\<close> draws the arm at position \<open>i\<close> for exactly the points of an interval as long
  as its propensity.\<close>

theorem sampling_matches_propensities:
  fixes config rt
  defines "arms \<equiv> eligible_arms rt config"
  assumes "0 \<le> e" "e \<le> 1" "i < length arms"
    and "sum_list (map snd (take i (propensities arms e))) < u"
    and "u \<le> sum_list (map snd (take (Suc i) (propensities arms e)))"
  shows "sum_list (map snd (propensities arms e)) = 1 \<and> sample_arm (propensities arms e) u = arms ! i"
proof -
  let ?ps = "propensities arms e"
  have a: "distinct arms" "BASELINE_ARM \<in> set arms" using eligible_arms_ok unfolding arms_def by auto
  have l: "length ?ps = length arms" by (metis dkeys_propensities dkeys_def length_map)
  obtain x p where xp: "?ps ! i = (x, p)" by (cases "?ps ! i")
  have "x = dkeys ?ps ! i" using xp l assms(4) by (simp add: dkeys_def)
  then have x: "x = arms ! i" by simp
  have split: "?ps = take i ?ps @ (x, p) # drop (Suc i) ?ps"
    using id_take_nth_drop [of i ?ps] l assms(4) xp by simp
  have "\<forall>(a, q) \<in> set (take i ?ps). 0 \<le> q"
    using propensities_nonneg [OF assms(3)] by (auto dest!: in_set_takeD)
  moreover have "u \<le> sum_list (map snd (take i ?ps)) + p"
    using assms(6) l assms(4) xp by (simp add: take_Suc_conv_app_nth)
  ultimately have "sample_arm (take i ?ps @ (x, p) # drop (Suc i) ?ps) u = x"
    using assms(5) by (intro sample_arm_interval)
  then show ?thesis using split x propensities_sum [OF a] by simp
qed

theorem sampling_matches_propensities_witness:
  "sample_arm (propensities (eligible_arms demo_rt demo_lcfg) (1/10)) (99/100) = ''bm25_rank''"
proof -
  have ps: "propensities [BASELINE_ARM, ''bm25_rank''] (1/10) = [(BASELINE_ARM, 19/20), (''bm25_rank'', 1/20)]"
    by (simp add: propensities_def BASELINE_ARM_def)
  show ?thesis
    using sampling_matches_propensities [of "1/10" 1 demo_rt demo_lcfg "99/100"] by (simp add: demo_arms ps)
qed

text \<open>C32: no arm but the baseline takes effect unlogged: what \<open>prepare_learning_decision\<close> returns is the
  baseline, or learning is off, or the decision is on disk under its identifier, even when the disk
  fails on the way.\<close>

theorem exploration_is_logged_first:
  assumes "prepare_learning_decision rt env query decision intent config cf wr assignment fs = (Inr (d, path), fs')"
  shows "ld_chosen_arm d = BASELINE_ARM \<or> ld_mode d = ''off'' \<or> (path \<noteq> None \<and> logged fs' d)"
  using assms by (cases rule: prepare_cases) auto

theorem exploration_is_logged_first_witness: "\<exists>d fs'. ld_chosen_arm d = ''bm25_rank'' \<and> logged fs' d"
proof -
  obtain d p fs where d: "prepare_learning_decision demo_rt demo_lenv ''q'' demo_low ''fix'' demo_lcfg 0 1 None demo_empty
      = (Inr (d, p), fs)" "ld_chosen_arm d = ''bm25_rank''" "ld_mode d = ''explore''" using demo_prepared by blast
  then show ?thesis using exploration_is_logged_first [OF d(1)] by (auto simp: BASELINE_ARM_def)
qed

text \<open>C33: an outcome can be recorded only for a logged decision and on trusted evidence; the record is then
  what \<open>load_learning_records\<close> joins to that decision.\<close>

theorem outcome_joins_its_decision:
  assumes "record_verified_outcome rt env config i success source verifier digest reward cost metadata fs = (Inr p, fs')"
    and "records_ok fs"
  shows "(\<exists>dec. find_file (lf_decisions fs) (i @ ''.json'') = Some (Holds (JDict dec)))
    \<and> strip source \<in> trusted_outcome_sources (le_trusted_env env) \<and> records_ok fs'
    \<and> (\<exists>row \<in> set (load_learning_records rt fs'). jget row ''decision_id'' = JStr i
        \<and> (\<exists>out. jget row ''outcome'' = JDict out \<and> jget out ''verified'' = JBool True
             \<and> jget out ''success'' = JBool success))"
proof -
  obtain name payload where "outcome_record rt env i success source verifier digest reward cost metadata fs = Inr (name, payload)"
    by (rule record_outcome_written [OF assms(1)])
  then obtain dec ev where name: "record_path i = Inr name"
      and dec: "find_file (lf_decisions fs) name = Some (Holds (JDict dec))"
      and ev: "validate_verified_outcome (le_trusted_env env) source verifier digest
         (case reward of None \<Rightarrow> Fin (if success then 1 else 0) | Some x \<Rightarrow> x) cost = Inr ev"
    by (rule outcome_record_Inr)
  have "name = i @ ''.json''" using name by (simp add: record_path_Inr)
  moreover have "strip source \<in> trusted_outcome_sources (le_trusted_env env)"
    using validate_outcome_Inr [OF ev] by auto
  ultimately show ?thesis
    using dec recorded_outcome_row [OF assms] record_outcome_ok [OF assms] by auto
qed

theorem outcome_joins_its_decision_witness:
  "\<exists>fs'. \<exists>row \<in> set (load_learning_records demo_rt fs'). jget row ''decision_id'' = JStr demo_id
     \<and> (\<exists>out. jget row ''outcome'' = JDict out \<and> jget out ''success'' = JBool True)"
proof -
  obtain p fs where r: "record_verified_outcome demo_rt demo_lenv demo_lcfg demo_id True ''local:test-suite'' ''v'' demo_evidence
      None (Fin 0) [] demo_logged = (Inr p, fs)" using demo_recorded by blast
  show ?thesis using outcome_joins_its_decision [OF r demo_logged_ok] by blast
qed

text \<open>An outcome is written once: after it was recorded no second outcome for the same decision is
  accepted, and the first stays what is on disk.\<close>

theorem outcome_is_final:
  assumes "record_verified_outcome rt env config i success source verifier digest reward cost metadata fs = (Inr p, fs')"
  shows "fst (record_verified_outcome rt env' config' i success' source' verifier' digest' reward' cost' metadata' fs') \<noteq> Inr q
    \<and> (\<exists>b. find_file (lf_outcomes fs') (i @ ''.json'') = Some b \<and> find_file (lf_outcomes
        (snd (record_verified_outcome rt env' config' i success' source' verifier' digest' reward' cost' metadata' fs')))
          (i @ ''.json'') = Some b)"
proof -
  obtain name payload where o: "outcome_record rt env i success source verifier digest reward cost metadata fs = Inr (name, payload)"
    and fresh: "find_file (lf_outcomes fs) name = None"
    and w: "lf_outcomes fs' = lf_outcomes fs @ [(name, Holds (sort_keys (JDict payload)))]"
    by (rule record_outcome_written [OF assms])
  have "record_path i = Inr name" using o by (rule outcome_record_Inr)
  then have name: "name = i @ ''.json''" by (simp add: record_path_Inr)
  have f: "find_file (lf_outcomes fs') name = Some (Holds (sort_keys (JDict payload)))"
    using fresh by (simp add: w find_file_def dget_append dget_Cons)
  obtain r fs2 where again: "record_verified_outcome rt env' config' i success' source' verifier' digest' reward' cost' metadata' fs'
      = (r, fs2)" by fastforce
  have "r \<noteq> Inr q"
  proof
    assume "r = Inr q"
    obtain name2 payload2 where o2: "outcome_record rt env' i success' source' verifier' digest' reward' cost' metadata' fs'
        = Inr (name2, payload2)" and n2: "find_file (lf_outcomes fs') name2 = None"
      by (rule record_outcome_written [OF again [unfolded \<open>r = Inr q\<close>]])
    have "record_path i = Inr name2" using o2 by (rule outcome_record_Inr)
    then show False using n2 f name by (simp add: record_path_Inr)
  qed
  moreover have "find_file (lf_outcomes fs2) name = Some (Holds (sort_keys (JDict payload)))"
    by (rule record_outcome_keeps [OF again f])
  ultimately show ?thesis using again f name by simp
qed

section \<open>The production store\<close>

text \<open>C34: a synchronisation that returns has put every canonical file into the store: reconciling the two
  finds nothing missing and nothing different, and its counters add up to the files it scanned.\<close>

theorem sync_then_reconcile:
  assumes "sync_loop rt now db (canonical_files fs) c s = (Inr c', s')" "typed_ids s" "counted c"
  shows "rr_missing (reconcile_with rt fs s') = [] \<and> rr_mismatched (reconcile_with rt fs s') = []
    \<and> typed_ids s' \<and> counted c' \<and> sc_scanned c' = sc_scanned c + length (canonical_files fs)"
  using synced_agrees [OF assms(1,2)] sync_loop_counted [OF assms(1,3)] sync_loop_typed [OF assms(1,2)] kinds_of_canonical_files
  by fast

theorem sync_then_reconcile_witness:
  "\<exists>s. rr_missing (reconcile_with demo_rt demo_logged s) = [] \<and> rr_mismatched (reconcile_with demo_rt demo_logged s) = []"
proof -
  obtain c s where r: "sync_loop demo_rt ''t2'' (\<lambda>_. DbOk) (canonical_files demo_logged)
      \<lparr>sc_scanned = 0, sc_inserted = 0, sc_already_present = 0, sc_invalid = 0\<rparr> empty_store = (Inr c, s)"
    using demo_synced by blast
  show ?thesis using sync_then_reconcile [OF r empty_store_typed] by (auto simp: counted_def)
qed

text \<open>The event log only grows: whatever is appended, whether the call succeeds or fails, the rows
  stored before are a prefix of the rows stored after, and an identifier keeps its digest.\<close>

theorem event_log_appends_only:
  "case append_production_event rt now db kind payload event_id s of (r, s') \<Rightarrow>
     (\<exists>es. ps_events s' = ps_events s @ es \<and> length es \<le> 1)
     \<and> (\<forall>k. digest_of_event s k \<in> {None, digest_of_event s' k})"
proof (cases "append_production_event rt now db kind payload event_id s")
  case (Pair r s')
  have "\<exists>es. ps_events s' = ps_events s @ es \<and> length es \<le> 1"
    using Pair by (cases rule: append_event_cases) auto
  moreover have "digest_of_event s k \<in> {None, digest_of_event s' k}" for k
    using append_keeps [OF Pair, of k] by (cases "digest_of_event s k") auto
  ultimately show ?thesis by (simp add: Pair)
qed

section \<open>Cached results, memories and stored runs\<close>

text \<open>What was put into the cache is what a reader gets until the file is written again: the same result, its
  dictionaries in key order and without evidence envelopes, whatever is put under other file names meanwhile.\<close>

theorem cached_result_comes_back:
  assumes "cache_put rt out key r s d = (Inr True, d')" "\<not> undecodable (cache_file rt key)"
    and "\<forall>(out, key', r, s) \<in> set ws. cache_file rt key' \<noteq> cache_file rt key"
  shows "cache_get rt undecodable (cache_puts rt ws d') key = Inr (Some (read_back r)) \<and> cache_eligible s"
  using put_then_get [of rt out key r s d d' undecodable] assms(1,2) cache_puts_other [OF assms(3), of undecodable d'] by simp

text \<open>C35: a hit in a cache that only \<open>put\<close> has filled is the result of a call that did not fail, of a provider declared
  deterministic, cacheable and free of side effects, with finite numbers.\<close>

theorem cache_serves_only_eligible:
  assumes "cache_get rt undecodable (cache_puts rt ws []) key = Inr (Some q)"
  shows "\<exists>out key' r s. (out, key', r, s) \<in> set ws \<and> cache_file rt key' = cache_file rt key \<and> q = read_back r
    \<and> cq_error r = None \<and> sm_deterministic s \<and> sm_cacheable s \<and> \<not> sm_side_effecting s
    \<and> (\<exists>x. cq_latency_ms r = Fin x) \<and> (\<forall>i \<in> set (cq_items r). \<exists>x. ct_score i = Fin x)"
proof -
  obtain out key' r s where r: "(out, key', r, s) \<in> set ws" "cache_file rt key' = cache_file rt key" "storable r s" "q = read_back r"
    using cache_hit_was_put [OF assms] by blast
  have finite: "fl_finite y \<Longrightarrow> \<exists>x. y = Fin x" for y by (cases y) (simp_all add: fl_finite_def)
  have "cq_error r = None \<and> sm_deterministic s \<and> sm_cacheable s \<and> \<not> sm_side_effecting s
    \<and> (\<exists>x. cq_latency_ms r = Fin x) \<and> (\<forall>i \<in> set (cq_items r). \<exists>x. ct_score i = Fin x)"
    using r(3) finite by (auto simp: storable_def cache_eligible_def list_all_iff)
  with r show ?thesis by blast
qed

theorem cache_serves_only_eligible_witness: "\<exists>r x. cq_error r = None \<and> cq_latency_ms r = Fin x \<and> read_back demo_cached = read_back r"
proof -
  have "cache_get demo_rt (\<lambda>_. False) (cache_puts demo_rt [(Durable, ''a1'', demo_cached, demo_cacheable)] []) ''a1''
      = Inr (Some (read_back demo_cached))"
    using put_then_get [OF demo_put [of demo_rt "''a1''" "[]"], of "\<lambda>_. False"] by (simp add: demo_put)
  from cache_serves_only_eligible [OF this] show ?thesis by blast
qed

text \<open>C36: the memory store is a map from identifiers to records: every operation takes effect as a whole and as its
  specification says, or raises and leaves the table as it was; an import keeps what is there.\<close>

theorem memory_store_refines:
  assumes "run_memory rt db op t = (r, t')" "memory_ok rt t" "\<forall>d \<in> set (op_records op). dict_wf d"
  shows "memory_ok rt t' \<and> (case r of Inl _ \<Rightarrow> t' = t | Inr _ \<Rightarrow> spec_memory rt op (memories t) = Some (memories t'))"
  by (rule memory_refines [OF assms])

theorem memory_store_refines_witness:
  "spec_memory demo_rt (InsertMemory demo_memory) (memories []) = Some (memories [demo_memory_row])"
proof -
  have "memory_ok demo_rt []" "\<forall>d \<in> set (op_records (InsertMemory demo_memory)). dict_wf d"
    by (simp_all add: memory_ok_def dict_wf_def dkeys_def op_records_def demo_memory_wf [unfolded dict_wf_def dkeys_def])
  from memory_store_refines [OF demo_memory_inserted this] show ?thesis by simp
qed

text \<open>Pruning keeps exactly the memories that are not stale, unchanged, and reports how many it kept and how many it
  removed.\<close>

theorem pruning_keeps_fresh:
  assumes "memory_ok rt t" "plain_ids rt t" "prune_stale rt env True DbOk DbOk t = (Inr (kept, pruned), t')"
  shows "memory_ok rt t'
    \<and> (\<forall>i. memories t' i = (case memories t i of Some r \<Rightarrow> if memory_stale env r = Inr False then Some r else None | None \<Rightarrow> None))
    \<and> kept = int (card (dom (memories t'))) \<and> kept + pruned = int (card (dom (memories t)))"
  by (rule pruned_memories [OF assms])

text \<open>C37: a memory is stale exactly when one of the files it was recorded with was no readable file then, or is not the
  file it was.\<close>

theorem memory_fresh_until_touched:
  assumes "memory_record env token now kind words summary evidence files confidence = Inr r"
    and "same_tree env env'" "stable_paths env files"
  shows "memory_stale env' r = Inr (\<exists>raw \<in> set files. file_differs env env' raw)"
  by (rule memory_fresh_until_changed [OF assms])

theorem memory_fresh_until_touched_witness:
  "\<exists>r. memory_record demo_tree ''1'' ''t0'' ''decision'' ''lock'' ''s'' ''e'' [''a.py''] (Fin 1) = Inr r
    \<and> memory_stale edited_tree r = Inr True"
proof -
  obtain r where r: "memory_record demo_tree ''1'' ''t0'' ''decision'' ''lock'' ''s'' ''e'' [''a.py''] (Fin 1) = Inr r"
    using demo_remembered by blast
  have "file_differs demo_tree edited_tree ''a.py''"
    using demo_tree_file(1) by (simp add: file_differs_def edited_tree_def) (simp add: demo_tree_def)
  then show ?thesis using memory_fresh_until_touched [OF r demo_tree_stable(2,1)] r by simp
qed

text \<open>C38: a stored run is final: every later reader gets what was stored, whatever else is created in the directory
  meanwhile, and no run can be stored under its identifier again.\<close>

theorem stored_run_is_final:
  assumes "store_run rt out m d = (Inr (), d')" "run_wf m"
  shows "get_run rt (run_files.creations cs d') (rz_run_id m) = Inr (Some (canonical_run m))
    \<and> (rz_run_id m' = rz_run_id m \<longrightarrow> (\<exists>e. fst (store_run rt out' m' (run_files.creations cs d')) = Inl e))"
  using stored_run_stays [OF assms, of cs out' m'] by blast

theorem stored_run_is_final_witness:
  "\<exists>d. get_run demo_rt (run_files.creations [] d) ''r1'' = Inr (Some demo_metadata)"
proof -
  obtain d where d: "store_run demo_rt StoreDone demo_metadata [] = (Inr (), d)" using demo_metadata_stored(1) by blast
  have "canonical_run demo_metadata = demo_metadata" "rz_run_id demo_metadata = ''r1''"
    by (simp_all add: canonical_run_def demo_metadata_def dsort_def)
  then show ?thesis using stored_run_is_final [OF d demo_metadata_stored(2), of "[]"] by metis
qed

text \<open>The regression gate of the benchmarks passes exactly when every floor is met, every tracked metric is within
  its tolerance of its baseline in the better direction, and every group of queries meets its own floors; a metric that is
  missing or no number fails.\<close>

theorem regression_gate_exact:
  assumes "check_regression rt baseline current = Inr r"
  shows "report_ok r \<longleftrightarrow>
      (\<forall>(metric, v) \<in> set (mapping_of (jget baseline ''minimum'')). meets_floor rt v (jget (mapping_of (jget current ''summary'')) metric))
    \<and> (\<forall>(metric, v) \<in> set (mapping_of (jget baseline ''maximum_regression'')). within_tolerance rt (mapping_of (jget current ''summary'')) metric v)
    \<and> (\<forall>(q, floors) \<in> set (mapping_of (jget baseline ''by_query_type'')). \<forall>(metric, v) \<in> set (mapping_of floors).
         v \<noteq> JNull \<longrightarrow> meets_floor rt v (jget (mapping_of (jget (mapping_of (jget current ''by_query_type'')) q)) metric))"
  by (rule regression_report_exact [OF assms])

section \<open>The capability gate\<close>

text \<open>C39: the gate allows exactly the requests in scope: a tool execution on an allowlisted tool, without
  privileged fields, on active repositories, with parameters that are clean by a recursive
  specification and within the structural budget, citing known evidence only.\<close>

theorem gate_allows_exactly_scope:
  "ad_allowed (authorize_model_action rt p rq evidence) \<longleftrightarrow>
     (\<exists>digest. action_request_digest rt rq = Inr digest) \<and> scope_ok p rq
     \<and> set (rq_cited_evidence_ids rq) \<subseteq> set (evidence_ids evidence)"
  by (rule authorize_allowed_iff)

text \<open>What the evidence says has no authority: two bundles with the same evidence identifiers get the
  same decision, whatever their texts.\<close>

theorem evidence_text_has_no_authority:
  assumes "evidence_ids a = evidence_ids b"
  shows "authorize_model_action rt p rq a = authorize_model_action rt p rq b"
  by (rule authorize_cong [OF assms])

section \<open>The run journal\<close>

text \<open>A journal that was built and written within the reader's limit replays: after any later creations in the directory,
  the reader releases exactly the chained events.\<close>

theorem journal_round_trip:
  assumes "build_replay_journal rt record events = Inr j" "dict_wf record" "consistent_snapshots record events"
    and "write_run_journal rt out j d = (Inr path, d')"
    and "safe_run_id run_id = safe_run_id (text_or_empty rt (jget record ''run_id''))"
    and "file_size rt (Holds (sort_keys (JDict j))) \<le> MAX_JOURNAL_BYTES"
  shows "\<exists>chained. chain_replay_events rt events = Inr chained
    \<and> (let r = replay_run_journal rt env (json_files.creations cs d') run_id config
       in rp_found r \<and> in_valid (rp_integrity r) \<and> rp_events_released r
          \<and> rp_events r = map sorted_dict chained)"
  by (rule written_journal_replays [OF assms])

text \<open>The digest binds the journal: two accepted journals with one digest have the same canonical text,
  or SHA-256 has a collision.\<close>

theorem journal_digest_binds:
  assumes "in_valid (verify_replay_journal rt r e)" "in_valid (verify_replay_journal rt r' e')"
    and "in_journal_digest (verify_replay_journal rt r e) = in_journal_digest (verify_replay_journal rt r' e')"
  shows "canonical rt (JDict (dpop r JOURNAL_DIGEST_FIELD)) = canonical rt (JDict (dpop r' JOURNAL_DIGEST_FIELD))
    \<or> (\<exists>x y. x \<noteq> y \<and> rt_sha256 rt x = rt_sha256 rt y)"
  using digest_binds [OF assms] by blast

text \<open>The reader fails closed: it releases events only for a journal it found valid, and none otherwise.\<close>

theorem replay_fails_closed:
  "let r = replay_run_journal rt env d run_id config
   in (rp_events_released r \<longleftrightarrow> in_valid (rp_integrity r)) \<and> (rp_events_released r \<or> rp_events r = [])"
  using replay_refuses(1) [of rt env d run_id config] replay_refuses(2) [of rt env d run_id config]
  by (metis (no_types))

section \<open>Retrieval and routing\<close>

text \<open>What the selector returns fits both budgets: items of its input, no text twice, with the reported
  characters and tokens being the cost of exactly these items and at most the two limits.\<close>

theorem selection_fits_budget:
  assumes "select_context rt est blake query items char_budget config ms budget_chars budget_tokens m
    = Some (Inr (selected, report))"
  shows "set selected \<subseteq> set items \<and> distinct (map (dedupe_key blake) selected)
    \<and> sr_used_chars report = sum_list (map (\<lambda>i. max 1 (int (length (ci_text i)))) selected)
    \<and> sr_used_tokens report = sum_list (map (\<lambda>i. max 1 (est (ci_text i))) selected)
    \<and> sr_used_chars report \<le> li_chars (limits_of char_budget budget_chars budget_tokens)
    \<and> (case li_tokens (limits_of char_budget budget_chars budget_tokens) of
         None \<Rightarrow> True | Some t \<Rightarrow> sr_used_tokens report \<le> t)"
  using assms selection_within_budget [OF _ refl] unfolding select_context_Inr by blast

text \<open>The selector returns on every input: the lazy greedy loop cannot re-evaluate its candidates for
  ever, whatever the scores, the configuration and the budgets.\<close>

theorem selection_returns:
  "\<exists>r. select_context rt est blake query items char_budget config ms budget_chars budget_tokens m = Some r"
  by (rule select_context_returns)

text \<open>C40: the lazy loop with its stale bounds takes the same candidates in the same order as the plain greedy
  algorithm, which recomputes the gain of every remaining candidate in every round.\<close>

theorem lazy_selection_is_greedy:
  "let rows = bounded_rows (token_aware l) (candidates est blake query items) limit ms
   in take_covering l rows (filter (\<lambda>r. cd_key r \<notin> chosen_keys s) rows) s
        = Some (greedy l rows (start_coverage rows s) s)"
  unfolding Let_def by (rule take_covering_greedy [OF conjunct1 [OF bounded_rows_ok [OF candidates_ok]] refl])

text \<open>An item of a mandatory source (the first with its text) is selected, or what is left of the budgets
  does not pay for it.\<close>

theorem mandatory_sources_are_served:
  assumes "select_context rt est blake query items char_budget config ms budget_chars budget_tokens m
    = Some (Inr (selected, report))"
    and "i \<in> set (dedupe (dedupe_key blake) items {})" "ci_source i \<in> set ms"
  shows "i \<in> set selected \<or> unaffordable est (limits_of char_budget budget_chars budget_tokens) report i"
  using assms(1) mandatory_source_served [OF _ refl assms(2,3)] unfolding select_context_Inr by blast

text \<open>Rank fusion returns every item of the weighted rankings once, best score first, and the score of an
  item is the sum over the rankings of its weight over \<open>k\<close> plus its first rank there.\<close>

theorem fusion_ranks_by_score:
  assumes "reciprocal_rank_fusion rankings key k weights = Inr rs"
  shows "let ws = effective_weights rankings weights
    in sorted (map (\<lambda>(r, _). - r) rs) \<and> distinct (map (\<lambda>(_, i). key i) rs)
    \<and> key ` snd ` set rs = (\<Union>(ranking, w) \<in> set (zip rankings ws). if w = 0 then {} else key ` set ranking)
    \<and> list_all (\<lambda>(r, i). r = fused_score key k rankings ws (key i)) rs"
  unfolding Let_def by (rule fused_result [OF assms refl])

text \<open>Re-ranking for diversity only reorders and cuts: it returns items of distinct relevant documents, as
  many as asked for as far as there are that many.\<close>

theorem diversity_reranking_selects:
  assumes "maximal_marginal_relevance query cs scores lam n = Inr out" "0 \<le> n"
  shows "\<exists>idx. out = map (\<lambda>i. dc_item (cs ! i)) idx \<and> distinct idx \<and> list_all (\<lambda>i. i < length scores \<and> 0 < scores ! i) idx
    \<and> (out = [] \<or> int (length out) = min n (int (length (filter (\<lambda>x. 0 < x) scores))))"
  by (rule mmr_result [OF assms])

text \<open>The lane of a task is decided by its signals alone: the read-only lane is given exactly to questions
  with no change word and no structural one, the small lane only without any high-risk or full-lane word,
  and a task outside the read-only lane is high risk exactly when a high-risk word occurs.\<close>

theorem lane_follows_signals:
  "let g = signals_of task kw; d = classify task kw
   in (rd_lane d = Answer \<longleftrightarrow> sg_question g \<and> \<not> sg_change g \<and> \<not> sg_structural g)
    \<and> (rd_lane d = Small \<longleftrightarrow> sg_change g \<and> small_change g \<and> sg_high g = [] \<and> sg_full g = [] \<and> \<not> sg_structural g)
    \<and> (rd_risk d = High \<longleftrightarrow> sg_high g \<noteq> [] \<and> rd_lane d \<noteq> Answer)
    \<and> (rd_risk d = Low \<longleftrightarrow> rd_lane d \<noteq> Full)"
  using classify_lane [OF refl, of task kw] by (simp add: Let_def)

text \<open>Whatever the diagnostics ask for, the orchestration contract stays inside the configured budget and
  the fixed maxima, and only a task of the full lane gets more than one agent.\<close>

theorem contract_stays_in_budget:
  assumes "build_orchestration_contract rt decision diagnostics changed roots providers config = Inr ct"
  shows "1 \<le> oc_agent_slots ct \<and> oc_agent_slots ct \<le> min 4 (ob_agent_slots (oc_budget ct))
    \<and> 1 \<le> oc_graph_depth ct \<and> oc_graph_depth ct \<le> min 3 (ob_graph_depth (oc_budget ct))
    \<and> 1 \<le> oc_review_passes ct \<and> oc_review_passes ct \<le> ob_review_passes (oc_budget ct)
    \<and> 1 \<le> oc_verification_passes ct \<and> oc_verification_passes ct \<le> ob_verification_passes (oc_budget ct)
    \<and> int (length (oc_crg_plan ct)) \<le> min 4 (ob_crg_calls (oc_budget ct))
    \<and> (rd_lane decision = Full \<or> oc_agent_slots ct = 1) \<and> (rd_lane decision \<noteq> Answer \<or> oc_crg_plan ct = [])"
  using contract_within_budget [OF assms] by auto

text \<open>The contract governs the gate: the policy built from it always exists, the gate allows no request
  whose tool is not in the contract's plan (so none in the read-only lane), and depth and verification
  passes are the contract's.\<close>

theorem contract_governs_gate:
  assumes "build_orchestration_contract rt decision diagnostics changed roots providers config = Inr ct"
  shows "\<exists>p. build_model_capability_policy rt decision (contract_json ct) evidence task = Inr p
    \<and> cp_max_graph_depth p = oc_graph_depth ct \<and> cp_verification_passes p = oc_verification_passes ct
    \<and> (\<forall>rq cited. \<not> ad_allowed (authorize_model_action rt p rq cited)
         \<or> (\<exists>t. rq_tool_name rq = Some t \<and> strip t \<in> set (oc_crg_plan ct) \<and> rd_lane decision \<noteq> Answer))"
  using contract_policy [OF assms, of evidence task] contract_within_budget [OF assms] allowed_tool
  by (metis empty_iff list.set(1))

end
